(* ===== verification/Iscsi_Prelude.thy ===== *)
theory Iscsi_Prelude
  imports Main "HOL-Library.Word" "HOL-Library.Monad_Syntax"
begin

text \<open>
  The vocabulary shared by every theory of the development: the C integer types as
  machine words, pointers that may be NULL, and the generic facts on bits, bytes and
  lists that the component proofs use.

  Conventions of the model:
  \<^item> \<open>uint8_t .. uint64_t\<close> are \<open>u8 .. u64\<close>; an \<open>int\<close> is a \<open>cint\<close>, the 32 bits of its
    two's complement representation, read with \<open>sint\<close> (or compared with \<open><s\<close>) where
    the code compares it as a signed number;
  \<^item> a C pointer result that may be NULL is an \<open>'a ptr\<close>;
  \<^item> an operation with undefined behaviour on some input (a division by zero, a read
    past the end of a buffer, a NULL dereference) has an \<open>option\<close> result: \<open>None\<close> is the
    undefined behaviour and \<open>Some r\<close> a defined result, sequenced by the option monad.
\<close>

unbundle bit_operations_syntax

section \<open>Types\<close>

type_synonym u8 = "8 word"
type_synonym u16 = "16 word"
type_synonym u32 = "32 word"
type_synonym u64 = "64 word"
type_synonym cint = "32 word"
type_synonym bytes = "u8 list"

datatype 'a ptr = NULL | Ptr 'a

section \<open>Collections of rewrite rules\<close>

named_theorems bit_eval "evaluation of the bits of a word at concrete positions"
named_theorems byte_simps "reading back what was stored in a buffer of bytes"
named_theorems cdb_defs "definitions of the CDB builders"
named_theorems unmarshall_defs "definitions of the unmarshalling operations"

section \<open>Bits\<close>

lemma word_eq_bitwise:
  "list_all (\<lambda>n. bit a n = bit b n) [0..<LENGTH('a)] \<Longrightarrow> a = (b :: 'a::len word)"
  by (rule bit_word_eqI) (simp add: list_all_iff)

lemma upt_8 [bit_eval]: "[0..<8] = [0, 1, 2, 3, 4, 5, 6, 7]"
  by (simp add: upt_rec)

lemma upt_16 [bit_eval]: "[0..<16] = [0..<8] @ [8, 9, 10, 11, 12, 13, 14, 15]"
  by (simp add: upt_rec)

lemma upt_32 [bit_eval]:
  "[0..<32] = [0..<16] @ [16, 17, 18, 19, 20, 21, 22, 23, 24, 25, 26, 27, 28, 29, 30, 31]"
  by (simp add: upt_rec)

lemma upt_64 [bit_eval]:
  "[0..<64] = [0..<32] @ [32, 33, 34, 35, 36, 37, 38, 39, 40, 41, 42, 43, 44, 45, 46, 47,
     48, 49, 50, 51, 52, 53, 54, 55, 56, 57, 58, 59, 60, 61, 62, 63]"
  by (simp add: upt_rec)

declare bit_simps [bit_eval]

lemma bit_beyond [bit_eval]: "LENGTH('a) \<le> n \<Longrightarrow> \<not> bit (x :: 'a::len word) n"
  using bit_imp_le_length by (meson not_le)

lemma xor_cancel_right: "x XOR z = y XOR z \<Longrightarrow> x = (y :: 'a::len word)"
proof (rule bit_word_eqI)
  fix n
  assume "x XOR z = y XOR z" "n < LENGTH('a)"
  then have "bit (x XOR z) n = bit (y XOR z) n" by simp
  then show "bit x n = bit y n" by (auto simp: bit_xor_iff)
qed

lemma xor_eq_zero: "x XOR y = 0 \<Longrightarrow> x = (y :: 'a::len word)"
  by (rule xor_cancel_right [of _ y]) simp

lemma unat_and_le: "unat (x AND m) \<le> unat (m :: 'a::len word)"
  using word_and_le1 by (simp add: word_le_nat_alt)

lemma unat_le_mask: "unat (m :: 'a::len word) < k \<Longrightarrow> unat (x AND m) < k"
  using unat_and_le [of x m] by linarith

text \<open>Equality of bytes as eight equalities of bits, the form in which \<open>simp\<close> decides
  the packing and unpacking of bit fields.\<close>

lemma byte_eq_iff:
  "(a :: u8) = b \<longleftrightarrow>
     bit a 0 = bit b 0 \<and> bit a 1 = bit b 1 \<and> bit a 2 = bit b 2 \<and> bit a 3 = bit b 3 \<and>
     bit a 4 = bit b 4 \<and> bit a 5 = bit b 5 \<and> bit a 6 = bit b 6 \<and> bit a 7 = bit b 7"
  using word_eq_bitwise [of a b] by (auto simp: bit_eval)

text \<open>C's \<open>!!x\<close> and the 0/1 value of a condition.\<close>

definition notnot :: "'a::len word \<Rightarrow> 'b::len word" where
  "notnot x = of_bool (x \<noteq> 0)"

lemma notnot_zero [simp]: "notnot 0 = 0"
  by (simp add: notnot_def)

lemma notnot_nonzero: "x \<noteq> 0 \<Longrightarrow> notnot x = 1"
  by (simp add: notnot_def)

lemma notnot_eq_0_iff [simp]: "notnot x = 0 \<longleftrightarrow> x = 0"
  by (simp add: notnot_def)

section \<open>Division\<close>

text \<open>
  \<open>xferlen/blocksize\<close> with a \<open>uint32_t\<close> dividend and an \<open>int\<close> divisor is an unsigned
  division (the divisor is converted to unsigned); a zero divisor is undefined.
\<close>

definition c_udiv :: "'a::len word \<Rightarrow> 'a word \<Rightarrow> 'a word option" where
  "c_udiv a b = (if b = 0 then None else Some (a div b))"

definition c_umod :: "'a::len word \<Rightarrow> 'a word \<Rightarrow> 'a word option" where
  "c_umod a b = (if b = 0 then None else Some (a mod b))"

lemma c_udiv_Some [simp]: "b \<noteq> 0 \<Longrightarrow> c_udiv a b = Some (a div b)"
  by (simp add: c_udiv_def)

lemma c_udiv_zero [simp]: "c_udiv a 0 = None"
  by (simp add: c_udiv_def)

text \<open>C's \<open>/\<close> on signed values truncates towards zero.\<close>

definition c_sdiv :: "int \<Rightarrow> int \<Rightarrow> int" where
  "c_sdiv a b = sgn a * sgn b * (\<bar>a\<bar> div \<bar>b\<bar>)"

lemma c_sdiv_nonneg: "0 \<le> a \<Longrightarrow> 0 < b \<Longrightarrow> c_sdiv a b = a div b"
  by (cases "a = 0") (auto simp: c_sdiv_def)

lemma c_sdiv_neg: "a < 0 \<Longrightarrow> 0 < b \<Longrightarrow> c_sdiv a b \<le> 0"
  by (auto simp: c_sdiv_def pos_imp_zdiv_nonneg_iff)

section \<open>Bytes of a buffer\<close>

text \<open>A read of one byte, undefined outside the buffer.\<close>

definition rd :: "bytes \<Rightarrow> nat \<Rightarrow> u8 option" where
  "rd xs i = (if i < length xs then Some (xs ! i) else None)"

text \<open>A \<open>memcpy\<close> of \<open>n\<close> bytes from offset \<open>i\<close>: undefined when it leaves the buffer.\<close>

definition rd_range :: "bytes \<Rightarrow> nat \<Rightarrow> nat \<Rightarrow> bytes option" where
  "rd_range xs i n = (if i + n \<le> length xs then Some (take n (drop i xs)) else None)"

lemma rd_Some [simp]: "i < length xs \<Longrightarrow> rd xs i = Some (xs ! i)"
  by (simp add: rd_def)

lemma rd_range_Some [simp]: "i + n \<le> length xs \<Longrightarrow> rd_range xs i n = Some (take n (drop i xs))"
  by (simp add: rd_range_def)

lemma rd_range_None [simp]: "length xs < i + n \<Longrightarrow> rd_range xs i n = None"
  by (simp add: rd_range_def)

text \<open>A store of several bytes at an offset (the target of a \<open>memcpy\<close> into a buffer).\<close>

definition blit :: "nat \<Rightarrow> bytes \<Rightarrow> bytes \<Rightarrow> bytes" where
  "blit off src dst = take off dst @ src @ drop (off + length src) dst"

lemma length_blit [simp]: "off + length src \<le> length dst \<Longrightarrow> length (blit off src dst) = length dst"
  by (simp add: blit_def)

lemma nth_blit_outside:
  "off + length src \<le> length dst \<Longrightarrow> i < off \<or> off + length src \<le> i \<Longrightarrow> i < length dst \<Longrightarrow>
   blit off src dst ! i = dst ! i"
  by (auto simp: blit_def nth_append)

lemma nth_blit_inside:
  "off + length src \<le> length dst \<Longrightarrow> off \<le> i \<Longrightarrow> i < off + length src \<Longrightarrow>
   blit off src dst ! i = src ! (i - off)"
  by (auto simp: blit_def nth_append)

lemma take_drop_blit:
  "off + length src \<le> length dst \<Longrightarrow> take (length src) (drop off (blit off src dst)) = src"
  by (simp add: blit_def)

section \<open>Words and numbers\<close>

lemma unat_of_nat_small: "n < 2 ^ 32 \<Longrightarrow> unat (of_nat n :: u32) = n"
  by (simp add: unsigned_of_nat take_bit_nat_eq_self)

lemma unat_of_nat_u8: "n < 256 \<Longrightarrow> unat (of_nat n :: u8) = n"
  by (simp add: unsigned_of_nat take_bit_nat_eq_self)

lemma unat_of_nat_u16: "n < 2 ^ 16 \<Longrightarrow> unat (of_nat n :: u16) = n"
  by (simp add: unsigned_of_nat take_bit_nat_eq_self)

lemma nat_int_minus_1: "nat (int m - 1) = m - 1"
  by linarith

lemma sint_eq_unat:
  assumes "unat (w :: cint) < 2 ^ 31"
  shows "sint w = int (unat w)"
proof -
  have "int (unat w) < int (2 ^ 31)"
    using assms by (simp only: of_nat_less_iff)
  then have "uint w < 2 ^ 31" by simp
  moreover have "- (2 ^ 31) \<le> uint w"
    by (rule order_trans [OF _ unsigned_greater_eq]) simp
  ultimately have "signed_take_bit 31 (uint w) = uint w"
    by (intro signed_take_bit_int_eq_self)
  moreover have "sint w = signed_take_bit (LENGTH(32) - 1) (uint w)"
    by (simp only: sint_uint One_nat_def)
  ultimately show ?thesis by (simp del: sint_uint)
qed

lemma sint_small:
  fixes w :: cint
  assumes "unat w + k < 2 ^ 31"
  shows "sint (w + of_nat k) = int (unat w + k)"
proof -
  have w: "w + of_nat k = of_nat (unat w + k)" by simp
  have "unat (w + of_nat k) = unat w + k"
    unfolding w by (rule unat_of_nat_small) (use assms in simp)
  then show ?thesis using assms sint_eq_unat [of "w + of_nat k"] by simp
qed

end
