(* ===== verification/Crc32c.thy ===== *)
theory Crc32c
  imports Iscsi_Prelude
begin

text \<open>
  \<open>lib/crc32c.c\<close>: the table-driven CRC32C that iSCSI uses for its header and data
  digests. The reference definition is the bit-serial algorithm for the reflected
  polynomial \<open>0x82F63B78\<close> (the header comment's \<open>0x1EDC6F41\<close>, reversed); the table is
  proved to hold exactly its values, and a table step to equal eight bit steps.
\<close>

section \<open>The code\<close>

definition crctable :: "u32 list" where
  "crctable = [
  0x00000000, 0xF26B8303, 0xE13B70F7, 0x1350F3F4, 0xC79A971F, 0x35F1141C,
  0x26A1E7E8, 0xD4CA64EB, 0x8AD958CF, 0x78B2DBCC, 0x6BE22838, 0x9989AB3B,
  0x4D43CFD0, 0xBF284CD3, 0xAC78BF27, 0x5E133C24, 0x105EC76F, 0xE235446C,
  0xF165B798, 0x030E349B, 0xD7C45070, 0x25AFD373, 0x36FF2087, 0xC494A384,
  0x9A879FA0, 0x68EC1CA3, 0x7BBCEF57, 0x89D76C54, 0x5D1D08BF, 0xAF768BBC,
  0xBC267848, 0x4E4DFB4B, 0x20BD8EDE, 0xD2D60DDD, 0xC186FE29, 0x33ED7D2A,
  0xE72719C1, 0x154C9AC2, 0x061C6936, 0xF477EA35, 0xAA64D611, 0x580F5512,
  0x4B5FA6E6, 0xB93425E5, 0x6DFE410E, 0x9F95C20D, 0x8CC531F9, 0x7EAEB2FA,
  0x30E349B1, 0xC288CAB2, 0xD1D83946, 0x23B3BA45, 0xF779DEAE, 0x05125DAD,
  0x1642AE59, 0xE4292D5A, 0xBA3A117E, 0x4851927D, 0x5B016189, 0xA96AE28A,
  0x7DA08661, 0x8FCB0562, 0x9C9BF696, 0x6EF07595, 0x417B1DBC, 0xB3109EBF,
  0xA0406D4B, 0x522BEE48, 0x86E18AA3, 0x748A09A0, 0x67DAFA54, 0x95B17957,
  0xCBA24573, 0x39C9C670, 0x2A993584, 0xD8F2B687, 0x0C38D26C, 0xFE53516F,
  0xED03A29B, 0x1F682198, 0x5125DAD3, 0xA34E59D0, 0xB01EAA24, 0x42752927,
  0x96BF4DCC, 0x64D4CECF, 0x77843D3B, 0x85EFBE38, 0xDBFC821C, 0x2997011F,
  0x3AC7F2EB, 0xC8AC71E8, 0x1C661503, 0xEE0D9600, 0xFD5D65F4, 0x0F36E6F7,
  0x61C69362, 0x93AD1061, 0x80FDE395, 0x72966096, 0xA65C047D, 0x5437877E,
  0x4767748A, 0xB50CF789, 0xEB1FCBAD, 0x197448AE, 0x0A24BB5A, 0xF84F3859,
  0x2C855CB2, 0xDEEEDFB1, 0xCDBE2C45, 0x3FD5AF46, 0x7198540D, 0x83F3D70E,
  0x90A324FA, 0x62C8A7F9, 0xB602C312, 0x44694011, 0x5739B3E5, 0xA55230E6,
  0xFB410CC2, 0x092A8FC1, 0x1A7A7C35, 0xE811FF36, 0x3CDB9BDD, 0xCEB018DE,
  0xDDE0EB2A, 0x2F8B6829, 0x82F63B78, 0x709DB87B, 0x63CD4B8F, 0x91A6C88C,
  0x456CAC67, 0xB7072F64, 0xA457DC90, 0x563C5F93, 0x082F63B7, 0xFA44E0B4,
  0xE9141340, 0x1B7F9043, 0xCFB5F4A8, 0x3DDE77AB, 0x2E8E845F, 0xDCE5075C,
  0x92A8FC17, 0x60C37F14, 0x73938CE0, 0x81F80FE3, 0x55326B08, 0xA759E80B,
  0xB4091BFF, 0x466298FC, 0x1871A4D8, 0xEA1A27DB, 0xF94AD42F, 0x0B21572C,
  0xDFEB33C7, 0x2D80B0C4, 0x3ED04330, 0xCCBBC033, 0xA24BB5A6, 0x502036A5,
  0x4370C551, 0xB11B4652, 0x65D122B9, 0x97BAA1BA, 0x84EA524E, 0x7681D14D,
  0x2892ED69, 0xDAF96E6A, 0xC9A99D9E, 0x3BC21E9D, 0xEF087A76, 0x1D63F975,
  0x0E330A81, 0xFC588982, 0xB21572C9, 0x407EF1CA, 0x532E023E, 0xA145813D,
  0x758FE5D6, 0x87E466D5, 0x94B49521, 0x66DF1622, 0x38CC2A06, 0xCAA7A905,
  0xD9F75AF1, 0x2B9CD9F2, 0xFF56BD19, 0x0D3D3E1A, 0x1E6DCDEE, 0xEC064EED,
  0xC38D26C4, 0x31E6A5C7, 0x22B65633, 0xD0DDD530, 0x0417B1DB, 0xF67C32D8,
  0xE52CC12C, 0x1747422F, 0x49547E0B, 0xBB3FFD08, 0xA86F0EFC, 0x5A048DFF,
  0x8ECEE914, 0x7CA56A17, 0x6FF599E3, 0x9D9E1AE0, 0xD3D3E1AB, 0x21B862A8,
  0x32E8915C, 0xC083125F, 0x144976B4, 0xE622F5B7, 0xF5720643, 0x07198540,
  0x590AB964, 0xAB613A67, 0xB831C993, 0x4A5A4A90, 0x9E902E7B, 0x6CFBAD78,
  0x7FAB5E8C, 0x8DC0DD8F, 0xE330A81A, 0x115B2B19, 0x020BD8ED, 0xF0605BEE,
  0x24AA3F05, 0xD6C1BC06, 0xC5914FF2, 0x37FACCF1, 0x69E9F0D5, 0x9B8273D6,
  0x88D28022, 0x7AB90321, 0xAE7367CA, 0x5C18E4C9, 0x4F48173D, 0xBD23943E,
  0xF36E6F75, 0x0105EC76, 0x12551F82, 0xE03E9C81, 0x34F4F86A, 0xC69F7B69,
  0xD5CF889D, 0x27A40B9E, 0x79B737BA, 0x8BDCB4B9, 0x988C474D, 0x6AE7C44E,
  0xBE2DA0A5, 0x4C4623A6, 0x5F16D052, 0xAD7D5351]"

text \<open>The loop \<open>while (len-- > 0) crc = (crc>>8) ^ crctable[(crc ^ *buf++) & 0xFF]\<close>.\<close>

definition crc_step :: "u32 \<Rightarrow> u8 \<Rightarrow> u32" where
  "crc_step crc b = drop_bit 8 crc XOR crctable ! unat ((crc XOR ucast b) AND 0xFF)"

fun crc32c_loop :: "u32 \<Rightarrow> bytes \<Rightarrow> u32" where
  "crc32c_loop crc [] = crc"
| "crc32c_loop crc (b # buf) = crc32c_loop (crc_step crc b) buf"

definition crc32c :: "bytes \<Rightarrow> u32" where
  "crc32c buf = crc32c_loop 0xffffffff buf XOR 0xffffffff"

definition crc32c_init :: "u32" where
  "crc32c_init = 0xffffffff"

definition crc32c_chain :: "u32 \<Rightarrow> bytes \<Rightarrow> u32" where
  "crc32c_chain crc buf = crc32c_loop crc buf"

definition crc32c_chain_done :: "u32 \<Rightarrow> u32" where
  "crc32c_chain_done crc = crc XOR 0xffffffff"

section \<open>The bit-serial reference\<close>

definition poly_step :: "u32 \<Rightarrow> u32" where
  "poly_step x = drop_bit 1 x XOR (if bit x 0 then 0x82F63B78 else 0)"

definition poly_step8 :: "u32 \<Rightarrow> u32" where
  "poly_step8 x = (poly_step ^^ 8) x"

text \<open>The CRC of the whole message, one input byte folded in at a time, each followed by
  eight shifts of the register.\<close>

definition crc32c_spec :: "bytes \<Rightarrow> u32" where
  "crc32c_spec buf = NOT (foldl (\<lambda>crc b. poly_step8 (crc XOR ucast b)) (NOT 0) buf)"

section \<open>The table and the polynomial\<close>

lemma poly_step8_unfold:
  "poly_step8 x = poly_step (poly_step (poly_step (poly_step
     (poly_step (poly_step (poly_step (poly_step x)))))))"
  by (simp add: poly_step8_def numeral_eq_Suc)

lemma poly_step_xor: "poly_step (a XOR b) = poly_step a XOR poly_step b"
  by (rule bit_word_eqI) (auto simp: poly_step_def bit_simps)

lemma poly_step8_xor: "poly_step8 (a XOR b) = poly_step8 a XOR poly_step8 b"
  by (simp add: poly_step8_unfold poly_step_xor)

lemma length_crctable: "length crctable = 256"
  by (simp add: crctable_def)

lemma low_byte_bit: "x AND 0xFF = 0 \<Longrightarrow> k < 8 \<Longrightarrow> \<not> bit (x :: u32) k"
proof
  assume "x AND 0xFF = 0" "k < 8" "bit x k"
  moreover have "bit (x AND 0xFF) k"
    using \<open>bit x k\<close> \<open>k < 8\<close> by (auto simp: bit_simps numeral_eq_Suc less_Suc_eq)
  ultimately show False by simp
qed

text \<open>While the low byte of the register is zero, eight steps only shift.\<close>

lemma poly_step8_high: "x AND 0xFF = 0 \<Longrightarrow> poly_step8 x = drop_bit 8 x"
  using low_byte_bit [of x]
  by (simp add: poly_step8_unfold poly_step_def bit_drop_bit_eq numeral_eq_Suc)

text \<open>
  The 256 entries, by doubling: the entries with bit \<open>k\<close> set are those without it, XORed
  with the entry of \<open>2 ^ k\<close>.
\<close>

definition table_entry :: "nat \<Rightarrow> u32" where
  "table_entry n = poly_step8 (of_nat n)"

lemma exp_and_small: "i < 2 ^ k \<Longrightarrow> 2 ^ k AND i = (0::nat)"
proof -
  assume "i < 2 ^ k"
  then have "take_bit k i = i" by (simp add: take_bit_nat_eq_self)
  moreover have "2 ^ k AND take_bit k i = 0"
    by (rule bit_eqI) (auto simp: bit_and_iff bit_exp_iff bit_take_bit_iff)
  ultimately show ?thesis by simp
qed

lemma of_nat_double:
  "i < 2 ^ k \<Longrightarrow> (of_nat (2 ^ k + i) :: u32) = of_nat (2 ^ k) XOR of_nat i"
  by (simp only: disjunctive_add_eq_xor exp_and_small of_nat_xor_eq)

lemma table_double:
  "map table_entry [0..<2 ^ Suc k] =
   map table_entry [0..<2 ^ k] @ map (\<lambda>v. table_entry (2 ^ k) XOR v) (map table_entry [0..<2 ^ k])"
proof -
  have "[0..<2 ^ Suc k] = [0..<2 ^ k] @ [2 ^ k..<2 ^ k + 2 ^ k]"
    by (simp only: power_Suc mult_2 upt_add_eq_append [OF le0])
  also have "[2 ^ k..<2 ^ k + 2 ^ k] = map (\<lambda>i. i + 2 ^ k) [0..<2 ^ k]"
    by (rule map_add_upt [symmetric])
  finally have "[0..<2 ^ Suc k] = [0..<2 ^ k] @ map (\<lambda>i. 2 ^ k + i) [0..<2 ^ k]"
    by (simp only: add.commute)
  moreover have "table_entry (2 ^ k + i) = table_entry (2 ^ k) XOR table_entry i" if "i < 2 ^ k" for i
    by (simp only: table_entry_def of_nat_double [OF that] poly_step8_xor)
  ultimately show ?thesis by simp
qed

lemma basis:
  "table_entry 0 = 0" "table_entry 1 = 0xF26B8303" "table_entry 2 = 0xE13B70F7"
  "table_entry 4 = 0xC79A971F" "table_entry 8 = 0x8AD958CF" "table_entry 16 = 0x105EC76F"
  "table_entry 32 = 0x20BD8EDE" "table_entry 64 = 0x417B1DBC" "table_entry 128 = 0x82F63B78"
  by (simp_all add: table_entry_def poly_step8_unfold poly_step_def)


lemma table_levels:
  "map table_entry [0..<2] = take 2 crctable"
  "map table_entry [0..<4] = take 4 crctable"
  "map table_entry [0..<8] = take 8 crctable"
  "map table_entry [0..<16] = take 16 crctable"
  "map table_entry [0..<32] = take 32 crctable"
  "map table_entry [0..<64] = take 64 crctable"
  "map table_entry [0..<128] = take 128 crctable"
proof -
  have 0: "map table_entry [0..<2 ^ 0] = take 1 crctable" by (simp add: basis crctable_def)
  show 1: "map table_entry [0..<2] = take 2 crctable"
    using table_double [of 0, unfolded 0] basis(2) by (simp add: crctable_def)
  show 2: "map table_entry [0..<4] = take 4 crctable"
    using table_double [of 1] 1 by (simp add: basis crctable_def)
  show 3: "map table_entry [0..<8] = take 8 crctable"
    using table_double [of 2] 2 by (simp add: basis crctable_def)
  show 4: "map table_entry [0..<16] = take 16 crctable"
    using table_double [of 3] 3 by (simp add: basis crctable_def)
  show 5: "map table_entry [0..<32] = take 32 crctable"
    using table_double [of 4] 4 by (simp add: basis crctable_def)
  show 6: "map table_entry [0..<64] = take 64 crctable"
    using table_double [of 5] 5 by (simp add: basis crctable_def)
  show 7: "map table_entry [0..<128] = take 128 crctable"
    using table_double [of 6] 6 by (simp add: basis crctable_def)
qed

lemma crctable_entries: "map table_entry [0..<256] = crctable"
  using table_double [of 7] table_levels(7) by (simp add: basis crctable_def)

lemma crctable_nth: "n < 256 \<Longrightarrow> crctable ! n = poly_step8 (of_nat n)"
  using arg_cong [OF crctable_entries, of "\<lambda>t. t ! n"] by (simp add: table_entry_def)

text \<open>One table step is eight bit steps.\<close>

lemma poly_step8_table: "poly_step8 x = drop_bit 8 x XOR crctable ! unat (x AND 0xFF)"
proof -
  have "unat (x AND 0xFF) < 256"
    by (rule unat_le_mask) simp
  then have low: "crctable ! unat (x AND 0xFF) = poly_step8 (x AND 0xFF)"
    by (simp add: crctable_nth)
  have "poly_step8 x = poly_step8 ((x AND NOT 0xFF) XOR (x AND 0xFF))"
    by (rule arg_cong [where f = poly_step8], rule word_eq_bitwise) (simp add: bit_eval)
  also have "\<dots> = poly_step8 (x AND NOT 0xFF) XOR poly_step8 (x AND 0xFF)"
    by (rule poly_step8_xor)
  also have "poly_step8 (x AND NOT 0xFF) = drop_bit 8 (x AND NOT 0xFF)"
    by (rule poly_step8_high, rule word_eq_bitwise) (simp add: bit_eval)
  also have "\<dots> = drop_bit 8 x"
    by (rule word_eq_bitwise) (simp add: bit_eval)
  finally show ?thesis by (simp add: low)
qed

lemma crc_step_poly: "crc_step crc b = poly_step8 (crc XOR ucast b)"
proof -
  have "drop_bit 8 (crc XOR ucast b) = drop_bit 8 crc"
    by (rule word_eq_bitwise) (simp add: bit_eval)
  then show ?thesis by (simp add: crc_step_def poly_step8_table)
qed

lemma crc32c_loop_foldl: "crc32c_loop crc buf = foldl crc_step crc buf"
  by (induction crc buf rule: crc32c_loop.induct) simp_all

lemma crc32c_loop_append:
  "crc32c_loop crc (xs @ ys) = crc32c_loop (crc32c_loop crc xs) ys"
  by (simp add: crc32c_loop_foldl)

section \<open>Error detection\<close>

text \<open>A step loses nothing: the bit shifted out reappears as the top bit.\<close>

lemma poly_step_zero: "poly_step x = 0 \<Longrightarrow> x = 0"
proof -
  assume z: "poly_step x = 0"
  have "bit (poly_step x) 31 = bit x 0"
    by (auto simp: poly_step_def bit_eval)
  with z have b0: "\<not> bit x 0" by simp
  with z have d: "drop_bit 1 x = 0" by (simp add: poly_step_def)
  show "x = 0"
  proof (rule bit_word_eqI)
    fix n
    show "bit x n = bit 0 n"
    proof (cases n)
      case (Suc m)
      have "bit (drop_bit 1 x) m = bit x n" by (simp add: bit_drop_bit_eq Suc)
      with d show ?thesis by simp
    qed (use b0 in simp)
  qed
qed

lemma poly_step8_zero: "poly_step8 x = 0 \<Longrightarrow> x = 0"
  by (simp add: poly_step8_unfold) (blast dest: poly_step_zero)

lemma poly_step8_inj: "poly_step8 x = poly_step8 y \<Longrightarrow> x = y"
proof -
  assume "poly_step8 x = poly_step8 y"
  then have "poly_step8 (x XOR y) = 0" by (simp add: poly_step8_xor)
  then have "x XOR y = 0" by (rule poly_step8_zero)
  then show "x = y" by (rule xor_eq_zero)
qed

lemma crc_step_inj: "crc_step c b = crc_step d b \<Longrightarrow> c = d"
proof -
  assume "crc_step c b = crc_step d b"
  then have "c XOR ucast b = d XOR ucast b"
    by (auto simp: crc_step_poly dest: poly_step8_inj)
  then show "c = d" by (rule xor_cancel_right)
qed

lemma crc32c_loop_inj: "crc32c_loop c buf = crc32c_loop d buf \<Longrightarrow> c = d"
  by (induction buf arbitrary: c d) (auto dest: crc_step_inj)

text \<open>Four bytes enter the register as one little-endian word.\<close>

definition le_word :: "u8 \<Rightarrow> u8 \<Rightarrow> u8 \<Rightarrow> u8 \<Rightarrow> u32" where
  "le_word b0 b1 b2 b3 = ucast b0 XOR push_bit 8 (ucast b1) XOR push_bit 16 (ucast b2)
     XOR push_bit 24 (ucast b3)"

lemma poly_step8_absorb:
  "poly_step8 x XOR ucast (b :: u8) = poly_step8 (x XOR push_bit 8 (ucast b))"
  "poly_step8 x XOR push_bit 8 (ucast b) = poly_step8 (x XOR push_bit 16 (ucast b))"
  "poly_step8 x XOR push_bit 16 (ucast b) = poly_step8 (x XOR push_bit 24 (ucast b))"
proof -
  have high: "poly_step8 (push_bit 8 v) = v" if "v AND 0xFF000000 = 0" for v :: u32
  proof -
    have top: "\<not> bit v (24 + k)" if "k < 8" for k
    proof
      assume "bit v (24 + k)"
      then have "bit (v AND 0xFF000000) (24 + k)"
        using that by (auto simp: bit_simps numeral_eq_Suc less_Suc_eq)
      with \<open>v AND 0xFF000000 = 0\<close> show False by simp
    qed
    have "poly_step8 (push_bit 8 v) = drop_bit 8 (push_bit 8 v)"
      by (rule poly_step8_high, rule word_eq_bitwise) (simp add: bit_eval)
    also have "\<dots> = v"
      using top [of 0] top [of 1] top [of 2] top [of 3] top [of 4] top [of 5] top [of 6] top [of 7]
      by (intro word_eq_bitwise) (simp add: bit_eval)
    finally show ?thesis .
  qed
  have z: "ucast b AND 0xFF000000 = (0 :: u32)" "push_bit 8 (ucast b) AND 0xFF000000 = (0 :: u32)"
    "push_bit 16 (ucast b) AND 0xFF000000 = (0 :: u32)"
    by (rule word_eq_bitwise, simp add: bit_eval)+
  show "poly_step8 x XOR ucast (b :: u8) = poly_step8 (x XOR push_bit 8 (ucast b))"
    by (simp add: poly_step8_xor high z)
  show "poly_step8 x XOR push_bit 8 (ucast b) = poly_step8 (x XOR push_bit 16 (ucast b))"
    using high [OF z(2)] by (simp add: poly_step8_xor)
  show "poly_step8 x XOR push_bit 16 (ucast b) = poly_step8 (x XOR push_bit 24 (ucast b))"
    using high [OF z(3)] by (simp add: poly_step8_xor)
qed

lemma le_word_inj:
  "le_word a0 a1 a2 a3 = le_word b0 b1 b2 b3 \<Longrightarrow> a0 = b0 \<and> a1 = b1 \<and> a2 = b2 \<and> a3 = b3"
proof -
  assume eq: "le_word a0 a1 a2 a3 = le_word b0 b1 b2 b3"
  have get: "ucast (le_word b0 b1 b2 b3) = b0" "ucast (drop_bit 8 (le_word b0 b1 b2 b3)) = b1"
    "ucast (drop_bit 16 (le_word b0 b1 b2 b3)) = b2"
    "ucast (drop_bit 24 (le_word b0 b1 b2 b3)) = b3" for b0 b1 b2 b3 :: u8
    by (rule word_eq_bitwise, simp add: le_word_def bit_eval)+
  show ?thesis using eq get by metis
qed


lemma crc_step4:
  "crc32c_loop crc [b0, b1, b2, b3] =
   poly_step8 (poly_step8 (poly_step8 (poly_step8 (crc XOR le_word b0 b1 b2 b3))))"
  by (simp add: crc_step_poly poly_step8_absorb le_word_def xor.assoc)

section \<open>Properties\<close>

lemma all_ones: "(0xffffffff :: u32) = NOT 0"
  by simp

lemma xor_all_ones: "x XOR NOT 0 = NOT (x :: u32)"
  by (rule bit_word_eqI) (simp add: bit_simps)

text \<open>
  C16: for every buffer the table-driven loop computes the bit-serial CRC32C of the
  reflected Castagnoli polynomial, with the initial value and final complement of iSCSI.
\<close>

theorem crc32c_correct: "crc32c buf = crc32c_spec buf"
proof -
  have "foldl crc_step c buf = foldl (\<lambda>crc b. poly_step8 (crc XOR ucast b)) c buf" for c
    by (induction buf arbitrary: c) (simp_all add: crc_step_poly)
  then show ?thesis
    by (simp only: crc32c_def crc32c_spec_def crc32c_loop_foldl all_ones xor_all_ones)
qed

text \<open>
  A digest computed incrementally, as the transport does for a data segment that
  arrives or leaves in pieces (\<open>crc32c_init\<close>, any number of \<open>crc32c_chain\<close> calls,
  \<open>crc32c_chain_done\<close>), is the digest of the concatenation.
\<close>

theorem crc32c_chained:
  "crc32c_chain_done (foldl crc32c_chain crc32c_init pieces) = crc32c (concat pieces)"
proof -
  have "foldl crc32c_chain c pieces = crc32c_loop c (concat pieces)" for c
    by (induction pieces arbitrary: c) (simp_all add: crc32c_chain_def crc32c_loop_append)
  then show ?thesis by (simp add: crc32c_def crc32c_chain_done_def crc32c_init_def)
qed

text \<open>
  The digest detects every corruption confined to four consecutive bytes (so every
  burst error of up to 25 bits, and up to 32 bits where it is byte aligned): two messages
  that agree outside such a window have the same digest only if they are equal.
\<close>

lemma crc32c_detects_burst:
  "crc32c (p @ [a0, a1, a2, a3] @ s) = crc32c (p @ [b0, b1, b2, b3] @ s) \<longleftrightarrow>
   [a0, a1, a2, a3] = [b0, b1, b2, b3]"
proof
  let ?c = "crc32c_loop 0xffffffff p"
  assume "crc32c (p @ [a0, a1, a2, a3] @ s) = crc32c (p @ [b0, b1, b2, b3] @ s)"
  then have "crc32c_loop (crc32c_loop ?c [a0, a1, a2, a3]) s =
      crc32c_loop (crc32c_loop ?c [b0, b1, b2, b3]) s"
    by (simp only: crc32c_def crc32c_loop_append) (rule xor_cancel_right)
  then have "crc32c_loop ?c [a0, a1, a2, a3] = crc32c_loop ?c [b0, b1, b2, b3]"
    by (rule crc32c_loop_inj)
  then have "?c XOR le_word a0 a1 a2 a3 = ?c XOR le_word b0 b1 b2 b3"
    unfolding crc_step4 by (blast dest: poly_step8_inj)
  then have "le_word a0 a1 a2 a3 XOR ?c = le_word b0 b1 b2 b3 XOR ?c"
    by (simp only: xor.commute)
  then have "le_word a0 a1 a2 a3 = le_word b0 b1 b2 b3"
    by (rule xor_cancel_right)
  then show "[a0, a1, a2, a3] = [b0, b1, b2, b3]"
    by (auto dest: le_word_inj)
qed simp

text \<open>The test vectors of the iSCSI RFC's appendix: 32 bytes of zeros and of ones.\<close>

lemma crc32c_zeros: "crc32c (replicate 32 0) = 0x8A9136AA"
  by code_simp

end
