(* ===== verification/Scsi_Constants.thy ===== *)
theory Scsi_Constants
  imports Iscsi_Prelude
begin

text \<open>
  The constants of \<open>include/scsi-lowlevel.h\<close>, \<open>include/iscsi.h\<close> and
  \<open>include/iscsi-private.h\<close>, with the values of their enumerations and \<open>#define\<close>s and
  under their own names. Each is an input abbreviation at any numeric type, since the
  code uses them as bytes of a CDB, as flags and as \<open>int\<close>s.
\<close>

section \<open>\<open>include/scsi-lowlevel.h\<close>\<close>

text \<open>\<open>#define\<close>s\<close>

abbreviation (input) SCSI_CDB_MAX_SIZE :: "'a::{zero,numeral}" where "SCSI_CDB_MAX_SIZE \<equiv> 16"
text \<open>\<open>enum scsi_opcode\<close>\<close>

abbreviation (input) SCSI_OPCODE_TESTUNITREADY :: "'a::{zero,numeral}" where "SCSI_OPCODE_TESTUNITREADY \<equiv> 0x00"
abbreviation (input) SCSI_OPCODE_READ6 :: "'a::{zero,numeral}" where "SCSI_OPCODE_READ6 \<equiv> 0x08"
abbreviation (input) SCSI_OPCODE_INQUIRY :: "'a::{zero,numeral}" where "SCSI_OPCODE_INQUIRY \<equiv> 0x12"
abbreviation (input) SCSI_OPCODE_MODESELECT6 :: "'a::{zero,numeral}" where "SCSI_OPCODE_MODESELECT6 \<equiv> 0x15"
abbreviation (input) SCSI_OPCODE_RESERVE6 :: "'a::{zero,numeral}" where "SCSI_OPCODE_RESERVE6 \<equiv> 0x16"
abbreviation (input) SCSI_OPCODE_RELEASE6 :: "'a::{zero,numeral}" where "SCSI_OPCODE_RELEASE6 \<equiv> 0x17"
abbreviation (input) SCSI_OPCODE_MODESENSE6 :: "'a::{zero,numeral}" where "SCSI_OPCODE_MODESENSE6 \<equiv> 0x1a"
abbreviation (input) SCSI_OPCODE_STARTSTOPUNIT :: "'a::{zero,numeral}" where "SCSI_OPCODE_STARTSTOPUNIT \<equiv> 0x1b"
abbreviation (input) SCSI_OPCODE_PREVENTALLOW :: "'a::{zero,numeral}" where "SCSI_OPCODE_PREVENTALLOW \<equiv> 0x1e"
abbreviation (input) SCSI_OPCODE_READCAPACITY10 :: "'a::{zero,numeral}" where "SCSI_OPCODE_READCAPACITY10 \<equiv> 0x25"
abbreviation (input) SCSI_OPCODE_READ10 :: "'a::{zero,numeral}" where "SCSI_OPCODE_READ10 \<equiv> 0x28"
abbreviation (input) SCSI_OPCODE_WRITE10 :: "'a::{zero,numeral}" where "SCSI_OPCODE_WRITE10 \<equiv> 0x2A"
abbreviation (input) SCSI_OPCODE_WRITE_VERIFY10 :: "'a::{zero,numeral}" where "SCSI_OPCODE_WRITE_VERIFY10 \<equiv> 0x2E"
abbreviation (input) SCSI_OPCODE_VERIFY10 :: "'a::{zero,numeral}" where "SCSI_OPCODE_VERIFY10 \<equiv> 0x2F"
abbreviation (input) SCSI_OPCODE_PREFETCH10 :: "'a::{zero,numeral}" where "SCSI_OPCODE_PREFETCH10 \<equiv> 0x34"
abbreviation (input) SCSI_OPCODE_SYNCHRONIZECACHE10 :: "'a::{zero,numeral}" where "SCSI_OPCODE_SYNCHRONIZECACHE10 \<equiv> 0x35"
abbreviation (input) SCSI_OPCODE_READ_DEFECT_DATA10 :: "'a::{zero,numeral}" where "SCSI_OPCODE_READ_DEFECT_DATA10 \<equiv> 0x37"
abbreviation (input) SCSI_OPCODE_WRITE_SAME10 :: "'a::{zero,numeral}" where "SCSI_OPCODE_WRITE_SAME10 \<equiv> 0x41"
abbreviation (input) SCSI_OPCODE_UNMAP :: "'a::{zero,numeral}" where "SCSI_OPCODE_UNMAP \<equiv> 0x42"
abbreviation (input) SCSI_OPCODE_READTOC :: "'a::{zero,numeral}" where "SCSI_OPCODE_READTOC \<equiv> 0x43"
abbreviation (input) SCSI_OPCODE_SANITIZE :: "'a::{zero,numeral}" where "SCSI_OPCODE_SANITIZE \<equiv> 0x48"
abbreviation (input) SCSI_OPCODE_MODESELECT10 :: "'a::{zero,numeral}" where "SCSI_OPCODE_MODESELECT10 \<equiv> 0x55"
abbreviation (input) SCSI_OPCODE_MODESENSE10 :: "'a::{zero,numeral}" where "SCSI_OPCODE_MODESENSE10 \<equiv> 0x5A"
abbreviation (input) SCSI_OPCODE_PERSISTENT_RESERVE_IN :: "'a::{zero,numeral}" where "SCSI_OPCODE_PERSISTENT_RESERVE_IN \<equiv> 0x5E"
abbreviation (input) SCSI_OPCODE_PERSISTENT_RESERVE_OUT :: "'a::{zero,numeral}" where "SCSI_OPCODE_PERSISTENT_RESERVE_OUT \<equiv> 0x5F"
abbreviation (input) SCSI_OPCODE_EXTENDED_COPY :: "'a::{zero,numeral}" where "SCSI_OPCODE_EXTENDED_COPY \<equiv> 0x83"
abbreviation (input) SCSI_OPCODE_RECEIVE_COPY_RESULTS :: "'a::{zero,numeral}" where "SCSI_OPCODE_RECEIVE_COPY_RESULTS \<equiv> 0x84"
abbreviation (input) SCSI_OPCODE_READ16 :: "'a::{zero,numeral}" where "SCSI_OPCODE_READ16 \<equiv> 0x88"
abbreviation (input) SCSI_OPCODE_COMPARE_AND_WRITE :: "'a::{zero,numeral}" where "SCSI_OPCODE_COMPARE_AND_WRITE \<equiv> 0x89"
abbreviation (input) SCSI_OPCODE_WRITE16 :: "'a::{zero,numeral}" where "SCSI_OPCODE_WRITE16 \<equiv> 0x8A"
abbreviation (input) SCSI_OPCODE_ORWRITE :: "'a::{zero,numeral}" where "SCSI_OPCODE_ORWRITE \<equiv> 0x8B"
abbreviation (input) SCSI_OPCODE_WRITE_VERIFY16 :: "'a::{zero,numeral}" where "SCSI_OPCODE_WRITE_VERIFY16 \<equiv> 0x8E"
abbreviation (input) SCSI_OPCODE_VERIFY16 :: "'a::{zero,numeral}" where "SCSI_OPCODE_VERIFY16 \<equiv> 0x8F"
abbreviation (input) SCSI_OPCODE_PREFETCH16 :: "'a::{zero,numeral}" where "SCSI_OPCODE_PREFETCH16 \<equiv> 0x90"
abbreviation (input) SCSI_OPCODE_SYNCHRONIZECACHE16 :: "'a::{zero,numeral}" where "SCSI_OPCODE_SYNCHRONIZECACHE16 \<equiv> 0x91"
abbreviation (input) SCSI_OPCODE_WRITE_SAME16 :: "'a::{zero,numeral}" where "SCSI_OPCODE_WRITE_SAME16 \<equiv> 0x93"
abbreviation (input) SCSI_OPCODE_WRITE_ATOMIC16 :: "'a::{zero,numeral}" where "SCSI_OPCODE_WRITE_ATOMIC16 \<equiv> 0x9C"
abbreviation (input) SCSI_OPCODE_SERVICE_ACTION_IN :: "'a::{zero,numeral}" where "SCSI_OPCODE_SERVICE_ACTION_IN \<equiv> 0x9E"
abbreviation (input) SCSI_OPCODE_REPORTLUNS :: "'a::{zero,numeral}" where "SCSI_OPCODE_REPORTLUNS \<equiv> 0xA0"
abbreviation (input) SCSI_OPCODE_MAINTENANCE_IN :: "'a::{zero,numeral}" where "SCSI_OPCODE_MAINTENANCE_IN \<equiv> 0xA3"
abbreviation (input) SCSI_OPCODE_READ12 :: "'a::{zero,numeral}" where "SCSI_OPCODE_READ12 \<equiv> 0xA8"
abbreviation (input) SCSI_OPCODE_WRITE12 :: "'a::{zero,numeral}" where "SCSI_OPCODE_WRITE12 \<equiv> 0xAA"
abbreviation (input) SCSI_OPCODE_WRITE_VERIFY12 :: "'a::{zero,numeral}" where "SCSI_OPCODE_WRITE_VERIFY12 \<equiv> 0xAE"
abbreviation (input) SCSI_OPCODE_VERIFY12 :: "'a::{zero,numeral}" where "SCSI_OPCODE_VERIFY12 \<equiv> 0xAF"
abbreviation (input) SCSI_OPCODE_READ_DEFECT_DATA12 :: "'a::{zero,numeral}" where "SCSI_OPCODE_READ_DEFECT_DATA12 \<equiv> 0xB7"
text \<open>\<open>enum scsi_persistent_in_sa\<close>\<close>

abbreviation (input) SCSI_PERSISTENT_RESERVE_READ_KEYS :: "'a::{zero,numeral}" where "SCSI_PERSISTENT_RESERVE_READ_KEYS \<equiv> 0"
abbreviation (input) SCSI_PERSISTENT_RESERVE_READ_RESERVATION :: "'a::{zero,numeral}" where "SCSI_PERSISTENT_RESERVE_READ_RESERVATION \<equiv> 1"
abbreviation (input) SCSI_PERSISTENT_RESERVE_REPORT_CAPABILITIES :: "'a::{zero,numeral}" where "SCSI_PERSISTENT_RESERVE_REPORT_CAPABILITIES \<equiv> 2"
abbreviation (input) SCSI_PERSISTENT_RESERVE_READ_FULL_STATUS :: "'a::{zero,numeral}" where "SCSI_PERSISTENT_RESERVE_READ_FULL_STATUS \<equiv> 3"
text \<open>\<open>enum scsi_service_action_in\<close>\<close>

abbreviation (input) SCSI_READCAPACITY16 :: "'a::{zero,numeral}" where "SCSI_READCAPACITY16 \<equiv> 0x10"
abbreviation (input) SCSI_GET_LBA_STATUS :: "'a::{zero,numeral}" where "SCSI_GET_LBA_STATUS \<equiv> 0x12"
text \<open>\<open>enum scsi_persistent_out_sa\<close>\<close>

abbreviation (input) SCSI_PERSISTENT_RESERVE_REGISTER :: "'a::{zero,numeral}" where "SCSI_PERSISTENT_RESERVE_REGISTER \<equiv> 0"
abbreviation (input) SCSI_PERSISTENT_RESERVE_RESERVE :: "'a::{zero,numeral}" where "SCSI_PERSISTENT_RESERVE_RESERVE \<equiv> 1"
abbreviation (input) SCSI_PERSISTENT_RESERVE_RELEASE :: "'a::{zero,numeral}" where "SCSI_PERSISTENT_RESERVE_RELEASE \<equiv> 2"
abbreviation (input) SCSI_PERSISTENT_RESERVE_CLEAR :: "'a::{zero,numeral}" where "SCSI_PERSISTENT_RESERVE_CLEAR \<equiv> 3"
abbreviation (input) SCSI_PERSISTENT_RESERVE_PREEMPT :: "'a::{zero,numeral}" where "SCSI_PERSISTENT_RESERVE_PREEMPT \<equiv> 4"
abbreviation (input) SCSI_PERSISTENT_RESERVE_PREEMPT_AND_ABORT :: "'a::{zero,numeral}" where "SCSI_PERSISTENT_RESERVE_PREEMPT_AND_ABORT \<equiv> 5"
abbreviation (input) SCSI_PERSISTENT_RESERVE_REGISTER_AND_IGNORE_EXISTING_KEY :: "'a::{zero,numeral}" where "SCSI_PERSISTENT_RESERVE_REGISTER_AND_IGNORE_EXISTING_KEY \<equiv> 6"
abbreviation (input) SCSI_PERSISTENT_RESERVE_REGISTER_AND_MOVE :: "'a::{zero,numeral}" where "SCSI_PERSISTENT_RESERVE_REGISTER_AND_MOVE \<equiv> 7"
text \<open>\<open>enum scsi_persistent_out_scope\<close>\<close>

abbreviation (input) SCSI_PERSISTENT_RESERVE_SCOPE_LU :: "'a::{zero,numeral}" where "SCSI_PERSISTENT_RESERVE_SCOPE_LU \<equiv> 0"
text \<open>\<open>enum scsi_persistent_out_type\<close>\<close>

abbreviation (input) SCSI_PERSISTENT_RESERVE_TYPE_WRITE_EXCLUSIVE :: "'a::{zero,numeral}" where "SCSI_PERSISTENT_RESERVE_TYPE_WRITE_EXCLUSIVE \<equiv> 1"
abbreviation (input) SCSI_PERSISTENT_RESERVE_TYPE_EXCLUSIVE_ACCESS :: "'a::{zero,numeral}" where "SCSI_PERSISTENT_RESERVE_TYPE_EXCLUSIVE_ACCESS \<equiv> 3"
abbreviation (input) SCSI_PERSISTENT_RESERVE_TYPE_WRITE_EXCLUSIVE_REGISTRANTS_ONLY :: "'a::{zero,numeral}" where "SCSI_PERSISTENT_RESERVE_TYPE_WRITE_EXCLUSIVE_REGISTRANTS_ONLY \<equiv> 5"
abbreviation (input) SCSI_PERSISTENT_RESERVE_TYPE_EXCLUSIVE_ACCESS_REGISTRANTS_ONLY :: "'a::{zero,numeral}" where "SCSI_PERSISTENT_RESERVE_TYPE_EXCLUSIVE_ACCESS_REGISTRANTS_ONLY \<equiv> 6"
abbreviation (input) SCSI_PERSISTENT_RESERVE_TYPE_WRITE_EXCLUSIVE_ALL_REGISTRANTS :: "'a::{zero,numeral}" where "SCSI_PERSISTENT_RESERVE_TYPE_WRITE_EXCLUSIVE_ALL_REGISTRANTS \<equiv> 7"
abbreviation (input) SCSI_PERSISTENT_RESERVE_TYPE_EXCLUSIVE_ACCESS_ALL_REGISTRANTS :: "'a::{zero,numeral}" where "SCSI_PERSISTENT_RESERVE_TYPE_EXCLUSIVE_ACCESS_ALL_REGISTRANTS \<equiv> 8"
text \<open>\<open>enum scsi_maintenance_in\<close>\<close>

abbreviation (input) SCSI_REPORT_TARGET_PORT_GROUPS :: "'a::{zero,numeral}" where "SCSI_REPORT_TARGET_PORT_GROUPS \<equiv> 0x0a"
abbreviation (input) SCSI_REPORT_SUPPORTED_OP_CODES :: "'a::{zero,numeral}" where "SCSI_REPORT_SUPPORTED_OP_CODES \<equiv> 0x0c"
text \<open>\<open>enum scsi_alue_state\<close>\<close>

abbreviation (input) SCSI_ALUA_ACTIVE_OPTIMIZED :: "'a::{zero,numeral}" where "SCSI_ALUA_ACTIVE_OPTIMIZED \<equiv> 0x0"
abbreviation (input) SCSI_ALUA_ACTIVE_NONOPTIMIZED :: "'a::{zero,numeral}" where "SCSI_ALUA_ACTIVE_NONOPTIMIZED \<equiv> 0x1"
abbreviation (input) SCSI_ALUA_STANDBY :: "'a::{zero,numeral}" where "SCSI_ALUA_STANDBY \<equiv> 0x2"
abbreviation (input) SCSI_ALUA_UNAVAILABLE :: "'a::{zero,numeral}" where "SCSI_ALUA_UNAVAILABLE \<equiv> 0x3"
abbreviation (input) SCSI_ALUA_LOGICAL_BLOCK_DEPENDENT :: "'a::{zero,numeral}" where "SCSI_ALUA_LOGICAL_BLOCK_DEPENDENT \<equiv> 0x4"
abbreviation (input) SCSI_ALUA_OFFLINE :: "'a::{zero,numeral}" where "SCSI_ALUA_OFFLINE \<equiv> 0xe"
abbreviation (input) SCSI_ALUA_TRANSITIONING :: "'a::{zero,numeral}" where "SCSI_ALUA_TRANSITIONING \<equiv> 0xf"
text \<open>\<open>enum scsi_op_code_reporting_options\<close>\<close>

abbreviation (input) SCSI_REPORT_SUPPORTING_OPS_ALL :: "'a::{zero,numeral}" where "SCSI_REPORT_SUPPORTING_OPS_ALL \<equiv> 0x00"
abbreviation (input) SCSI_REPORT_SUPPORTING_OPCODE :: "'a::{zero,numeral}" where "SCSI_REPORT_SUPPORTING_OPCODE \<equiv> 0x01"
abbreviation (input) SCSI_REPORT_SUPPORTING_SERVICEACTION :: "'a::{zero,numeral}" where "SCSI_REPORT_SUPPORTING_SERVICEACTION \<equiv> 0x02"
text \<open>\<open>enum scsi_sense_key\<close>\<close>

abbreviation (input) SCSI_SENSE_NO_SENSE :: "'a::{zero,numeral}" where "SCSI_SENSE_NO_SENSE \<equiv> 0x00"
abbreviation (input) SCSI_SENSE_RECOVERED_ERROR :: "'a::{zero,numeral}" where "SCSI_SENSE_RECOVERED_ERROR \<equiv> 0x01"
abbreviation (input) SCSI_SENSE_NOT_READY :: "'a::{zero,numeral}" where "SCSI_SENSE_NOT_READY \<equiv> 0x02"
abbreviation (input) SCSI_SENSE_MEDIUM_ERROR :: "'a::{zero,numeral}" where "SCSI_SENSE_MEDIUM_ERROR \<equiv> 0x03"
abbreviation (input) SCSI_SENSE_HARDWARE_ERROR :: "'a::{zero,numeral}" where "SCSI_SENSE_HARDWARE_ERROR \<equiv> 0x04"
abbreviation (input) SCSI_SENSE_ILLEGAL_REQUEST :: "'a::{zero,numeral}" where "SCSI_SENSE_ILLEGAL_REQUEST \<equiv> 0x05"
abbreviation (input) SCSI_SENSE_UNIT_ATTENTION :: "'a::{zero,numeral}" where "SCSI_SENSE_UNIT_ATTENTION \<equiv> 0x06"
abbreviation (input) SCSI_SENSE_DATA_PROTECTION :: "'a::{zero,numeral}" where "SCSI_SENSE_DATA_PROTECTION \<equiv> 0x07"
abbreviation (input) SCSI_SENSE_BLANK_CHECK :: "'a::{zero,numeral}" where "SCSI_SENSE_BLANK_CHECK \<equiv> 0x08"
abbreviation (input) SCSI_SENSE_VENDOR_SPECIFIC :: "'a::{zero,numeral}" where "SCSI_SENSE_VENDOR_SPECIFIC \<equiv> 0x09"
abbreviation (input) SCSI_SENSE_COPY_ABORTED :: "'a::{zero,numeral}" where "SCSI_SENSE_COPY_ABORTED \<equiv> 0x0a"
abbreviation (input) SCSI_SENSE_COMMAND_ABORTED :: "'a::{zero,numeral}" where "SCSI_SENSE_COMMAND_ABORTED \<equiv> 0x0b"
abbreviation (input) SCSI_SENSE_OBSOLETE_ERROR_CODE :: "'a::{zero,numeral}" where "SCSI_SENSE_OBSOLETE_ERROR_CODE \<equiv> 0x0c"
abbreviation (input) SCSI_SENSE_OVERFLOW_COMMAND :: "'a::{zero,numeral}" where "SCSI_SENSE_OVERFLOW_COMMAND \<equiv> 0x0d"
abbreviation (input) SCSI_SENSE_MISCOMPARE :: "'a::{zero,numeral}" where "SCSI_SENSE_MISCOMPARE \<equiv> 0x0e"
text \<open>\<open>#define\<close>s\<close>

abbreviation (input) SCSI_SENSE_ASCQ_NO_ADDL_SENSE :: "'a::{zero,numeral}" where "SCSI_SENSE_ASCQ_NO_ADDL_SENSE \<equiv> 0x0000"
abbreviation (input) SCSI_SENSE_ASCQ_SANITIZE_IN_PROGRESS :: "'a::{zero,numeral}" where "SCSI_SENSE_ASCQ_SANITIZE_IN_PROGRESS \<equiv> 0x041b"
abbreviation (input) SCSI_SENSE_ASCQ_UNREACHABLE_COPY_TARGET :: "'a::{zero,numeral}" where "SCSI_SENSE_ASCQ_UNREACHABLE_COPY_TARGET \<equiv> 0x0804"
abbreviation (input) SCSI_SENSE_ASCQ_COPY_TARGET_DEVICE_NOT_REACHABLE :: "'a::{zero,numeral}" where "SCSI_SENSE_ASCQ_COPY_TARGET_DEVICE_NOT_REACHABLE \<equiv> 0x0d02"
abbreviation (input) SCSI_SENSE_ASCQ_WRITE_AFTER_SANITIZE_REQUIRED :: "'a::{zero,numeral}" where "SCSI_SENSE_ASCQ_WRITE_AFTER_SANITIZE_REQUIRED \<equiv> 0x1115"
abbreviation (input) SCSI_SENSE_ASCQ_PARAMETER_LIST_LENGTH_ERROR :: "'a::{zero,numeral}" where "SCSI_SENSE_ASCQ_PARAMETER_LIST_LENGTH_ERROR \<equiv> 0x1a00"
abbreviation (input) SCSI_SENSE_ASCQ_MISCOMPARE_DURING_VERIFY :: "'a::{zero,numeral}" where "SCSI_SENSE_ASCQ_MISCOMPARE_DURING_VERIFY \<equiv> 0x1d00"
abbreviation (input) SCSI_SENSE_ASCQ_MISCOMPARE_VERIFY_OF_UNMAPPED_LBA :: "'a::{zero,numeral}" where "SCSI_SENSE_ASCQ_MISCOMPARE_VERIFY_OF_UNMAPPED_LBA \<equiv> 0x1d01"
abbreviation (input) SCSI_SENSE_ASCQ_INVALID_OPERATION_CODE :: "'a::{zero,numeral}" where "SCSI_SENSE_ASCQ_INVALID_OPERATION_CODE \<equiv> 0x2000"
abbreviation (input) SCSI_SENSE_ASCQ_LBA_OUT_OF_RANGE :: "'a::{zero,numeral}" where "SCSI_SENSE_ASCQ_LBA_OUT_OF_RANGE \<equiv> 0x2100"
abbreviation (input) SCSI_SENSE_ASCQ_INVALID_FIELD_IN_CDB :: "'a::{zero,numeral}" where "SCSI_SENSE_ASCQ_INVALID_FIELD_IN_CDB \<equiv> 0x2400"
abbreviation (input) SCSI_SENSE_ASCQ_LOGICAL_UNIT_NOT_SUPPORTED :: "'a::{zero,numeral}" where "SCSI_SENSE_ASCQ_LOGICAL_UNIT_NOT_SUPPORTED \<equiv> 0x2500"
abbreviation (input) SCSI_SENSE_ASCQ_INVALID_FIELD_IN_PARAMETER_LIST :: "'a::{zero,numeral}" where "SCSI_SENSE_ASCQ_INVALID_FIELD_IN_PARAMETER_LIST \<equiv> 0x2600"
abbreviation (input) SCSI_SENSE_ASCQ_TOO_MANY_TARGET_DESCRIPTORS :: "'a::{zero,numeral}" where "SCSI_SENSE_ASCQ_TOO_MANY_TARGET_DESCRIPTORS \<equiv> 0x2606"
abbreviation (input) SCSI_SENSE_ASCQ_UNSUPPORTED_TARGET_DESCRIPTOR_TYPE_CODE :: "'a::{zero,numeral}" where "SCSI_SENSE_ASCQ_UNSUPPORTED_TARGET_DESCRIPTOR_TYPE_CODE \<equiv> 0x2607"
abbreviation (input) SCSI_SENSE_ASCQ_TOO_MANY_SEGMENT_DESCRIPTORS :: "'a::{zero,numeral}" where "SCSI_SENSE_ASCQ_TOO_MANY_SEGMENT_DESCRIPTORS \<equiv> 0x2608"
abbreviation (input) SCSI_SENSE_ASCQ_UNSUPPORTED_SEGMENT_DESCRIPTOR_TYPE_CODE :: "'a::{zero,numeral}" where "SCSI_SENSE_ASCQ_UNSUPPORTED_SEGMENT_DESCRIPTOR_TYPE_CODE \<equiv> 0x2609"
abbreviation (input) SCSI_SENSE_ASCQ_WRITE_PROTECTED :: "'a::{zero,numeral}" where "SCSI_SENSE_ASCQ_WRITE_PROTECTED \<equiv> 0x2700"
abbreviation (input) SCSI_SENSE_ASCQ_HARDWARE_WRITE_PROTECTED :: "'a::{zero,numeral}" where "SCSI_SENSE_ASCQ_HARDWARE_WRITE_PROTECTED \<equiv> 0x2701"
abbreviation (input) SCSI_SENSE_ASCQ_SOFTWARE_WRITE_PROTECTED :: "'a::{zero,numeral}" where "SCSI_SENSE_ASCQ_SOFTWARE_WRITE_PROTECTED \<equiv> 0x2702"
abbreviation (input) SCSI_SENSE_ASCQ_BUS_RESET :: "'a::{zero,numeral}" where "SCSI_SENSE_ASCQ_BUS_RESET \<equiv> 0x2900"
abbreviation (input) SCSI_SENSE_ASCQ_POWER_ON_OCCURED :: "'a::{zero,numeral}" where "SCSI_SENSE_ASCQ_POWER_ON_OCCURED \<equiv> 0x2901"
abbreviation (input) SCSI_SENSE_ASCQ_SCSI_BUS_RESET_OCCURED :: "'a::{zero,numeral}" where "SCSI_SENSE_ASCQ_SCSI_BUS_RESET_OCCURED \<equiv> 0x2902"
abbreviation (input) SCSI_SENSE_ASCQ_BUS_DEVICE_RESET_FUNCTION_OCCURED :: "'a::{zero,numeral}" where "SCSI_SENSE_ASCQ_BUS_DEVICE_RESET_FUNCTION_OCCURED \<equiv> 0x2903"
abbreviation (input) SCSI_SENSE_ASCQ_DEVICE_INTERNAL_RESET :: "'a::{zero,numeral}" where "SCSI_SENSE_ASCQ_DEVICE_INTERNAL_RESET \<equiv> 0x2904"
abbreviation (input) SCSI_SENSE_ASCQ_TRANSCEIVER_MODE_CHANGED_TO_SINGLE_ENDED :: "'a::{zero,numeral}" where "SCSI_SENSE_ASCQ_TRANSCEIVER_MODE_CHANGED_TO_SINGLE_ENDED \<equiv> 0x2905"
abbreviation (input) SCSI_SENSE_ASCQ_TRANSCEIVER_MODE_CHANGED_TO_LVD :: "'a::{zero,numeral}" where "SCSI_SENSE_ASCQ_TRANSCEIVER_MODE_CHANGED_TO_LVD \<equiv> 0x2906"
abbreviation (input) SCSI_SENSE_ASCQ_NEXUS_LOSS :: "'a::{zero,numeral}" where "SCSI_SENSE_ASCQ_NEXUS_LOSS \<equiv> 0x2907"
abbreviation (input) SCSI_SENSE_ASCQ_MODE_PARAMETERS_CHANGED :: "'a::{zero,numeral}" where "SCSI_SENSE_ASCQ_MODE_PARAMETERS_CHANGED \<equiv> 0x2a01"
abbreviation (input) SCSI_SENSE_ASCQ_CAPACITY_DATA_HAS_CHANGED :: "'a::{zero,numeral}" where "SCSI_SENSE_ASCQ_CAPACITY_DATA_HAS_CHANGED \<equiv> 0x2a09"
abbreviation (input) SCSI_SENSE_ASCQ_THIN_PROVISION_SOFT_THRES_REACHED :: "'a::{zero,numeral}" where "SCSI_SENSE_ASCQ_THIN_PROVISION_SOFT_THRES_REACHED \<equiv> 0x3807"
abbreviation (input) SCSI_SENSE_ASCQ_MEDIUM_NOT_PRESENT :: "'a::{zero,numeral}" where "SCSI_SENSE_ASCQ_MEDIUM_NOT_PRESENT \<equiv> 0x3a00"
abbreviation (input) SCSI_SENSE_ASCQ_MEDIUM_NOT_PRESENT_TRAY_CLOSED :: "'a::{zero,numeral}" where "SCSI_SENSE_ASCQ_MEDIUM_NOT_PRESENT_TRAY_CLOSED \<equiv> 0x3a01"
abbreviation (input) SCSI_SENSE_ASCQ_MEDIUM_NOT_PRESENT_TRAY_OPEN :: "'a::{zero,numeral}" where "SCSI_SENSE_ASCQ_MEDIUM_NOT_PRESENT_TRAY_OPEN \<equiv> 0x3a02"
abbreviation (input) SCSI_SENSE_ASCQ_INQUIRY_DATA_HAS_CHANGED :: "'a::{zero,numeral}" where "SCSI_SENSE_ASCQ_INQUIRY_DATA_HAS_CHANGED \<equiv> 0x3f03"
abbreviation (input) SCSI_SENSE_ASCQ_INTERNAL_TARGET_FAILURE :: "'a::{zero,numeral}" where "SCSI_SENSE_ASCQ_INTERNAL_TARGET_FAILURE \<equiv> 0x4400"
abbreviation (input) SCSI_SENSE_ASCQ_MEDIUM_LOAD_OR_EJECT_FAILED :: "'a::{zero,numeral}" where "SCSI_SENSE_ASCQ_MEDIUM_LOAD_OR_EJECT_FAILED \<equiv> 0x5300"
abbreviation (input) SCSI_SENSE_ASCQ_MEDIUM_REMOVAL_PREVENTED :: "'a::{zero,numeral}" where "SCSI_SENSE_ASCQ_MEDIUM_REMOVAL_PREVENTED \<equiv> 0x5302"
abbreviation (input) SCSI_SENSE_ASCQ_INVALID_FIELD_IN_INFORMATION_UNIT :: "'a::{zero,numeral}" where "SCSI_SENSE_ASCQ_INVALID_FIELD_IN_INFORMATION_UNIT \<equiv> 0x0e03"
text \<open>\<open>enum scsi_xfer_dir\<close>\<close>

abbreviation (input) SCSI_XFER_NONE :: "'a::{zero,numeral}" where "SCSI_XFER_NONE \<equiv> 0"
abbreviation (input) SCSI_XFER_READ :: "'a::{zero,numeral}" where "SCSI_XFER_READ \<equiv> 1"
abbreviation (input) SCSI_XFER_WRITE :: "'a::{zero,numeral}" where "SCSI_XFER_WRITE \<equiv> 2"
text \<open>\<open>enum scsi_readtoc_fmt\<close>\<close>

abbreviation (input) SCSI_READ_TOC :: "'a::{zero,numeral}" where "SCSI_READ_TOC \<equiv> 0"
abbreviation (input) SCSI_READ_SESSION_INFO :: "'a::{zero,numeral}" where "SCSI_READ_SESSION_INFO \<equiv> 1"
abbreviation (input) SCSI_READ_FULL_TOC :: "'a::{zero,numeral}" where "SCSI_READ_FULL_TOC \<equiv> 2"
abbreviation (input) SCSI_READ_PMA :: "'a::{zero,numeral}" where "SCSI_READ_PMA \<equiv> 3"
abbreviation (input) SCSI_READ_ATIP :: "'a::{zero,numeral}" where "SCSI_READ_ATIP \<equiv> 4"
text \<open>\<open>#define\<close>s\<close>

abbreviation (input) SCSI_SENSE_FIXED_CURRENT :: "'a::{zero,numeral}" where "SCSI_SENSE_FIXED_CURRENT \<equiv> 0x70"
abbreviation (input) SCSI_SENSE_FIXED_DEFERRED_ERRORS :: "'a::{zero,numeral}" where "SCSI_SENSE_FIXED_DEFERRED_ERRORS \<equiv> 0x71"
abbreviation (input) SCSI_SENSE_DESCRIPTOR_CURRENT :: "'a::{zero,numeral}" where "SCSI_SENSE_DESCRIPTOR_CURRENT \<equiv> 0x72"
abbreviation (input) SCSI_SENSE_DESCRIPTOR_DEFERRED_ERRORS :: "'a::{zero,numeral}" where "SCSI_SENSE_DESCRIPTOR_DEFERRED_ERRORS \<equiv> 0x73"
text \<open>\<open>enum scsi_residual\<close>\<close>

abbreviation (input) SCSI_RESIDUAL_NO_RESIDUAL :: "'a::{zero,numeral}" where "SCSI_RESIDUAL_NO_RESIDUAL \<equiv> 0"
abbreviation (input) SCSI_RESIDUAL_UNDERFLOW :: "'a::{zero,numeral}" where "SCSI_RESIDUAL_UNDERFLOW \<equiv> 1"
abbreviation (input) SCSI_RESIDUAL_OVERFLOW :: "'a::{zero,numeral}" where "SCSI_RESIDUAL_OVERFLOW \<equiv> 2"
text \<open>\<open>#define\<close>s\<close>

abbreviation (input) SCSI_SANITIZE_OVERWRITE :: "'a::{zero,numeral}" where "SCSI_SANITIZE_OVERWRITE \<equiv> 0x01"
abbreviation (input) SCSI_SANITIZE_BLOCK_ERASE :: "'a::{zero,numeral}" where "SCSI_SANITIZE_BLOCK_ERASE \<equiv> 0x02"
abbreviation (input) SCSI_SANITIZE_CRYPTO_ERASE :: "'a::{zero,numeral}" where "SCSI_SANITIZE_CRYPTO_ERASE \<equiv> 0x03"
abbreviation (input) SCSI_SANITIZE_EXIT_FAILURE_MODE :: "'a::{zero,numeral}" where "SCSI_SANITIZE_EXIT_FAILURE_MODE \<equiv> 0x1f"
abbreviation (input) SCSI_REPORTLUNS_REPORT_ALL_LUNS :: "'a::{zero,numeral}" where "SCSI_REPORTLUNS_REPORT_ALL_LUNS \<equiv> 0x00"
abbreviation (input) SCSI_REPORTLUNS_REPORT_WELL_KNOWN_ONLY :: "'a::{zero,numeral}" where "SCSI_REPORTLUNS_REPORT_WELL_KNOWN_ONLY \<equiv> 0x01"
abbreviation (input) SCSI_REPORTLUNS_REPORT_AVAILABLE_LUNS_ONLY :: "'a::{zero,numeral}" where "SCSI_REPORTLUNS_REPORT_AVAILABLE_LUNS_ONLY \<equiv> 0x02"
text \<open>\<open>enum scsi_inquiry_peripheral_qualifier\<close>\<close>

abbreviation (input) SCSI_INQUIRY_PERIPHERAL_QUALIFIER_CONNECTED :: "'a::{zero,numeral}" where "SCSI_INQUIRY_PERIPHERAL_QUALIFIER_CONNECTED \<equiv> 0x00"
abbreviation (input) SCSI_INQUIRY_PERIPHERAL_QUALIFIER_DISCONNECTED :: "'a::{zero,numeral}" where "SCSI_INQUIRY_PERIPHERAL_QUALIFIER_DISCONNECTED \<equiv> 0x01"
abbreviation (input) SCSI_INQUIRY_PERIPHERAL_QUALIFIER_NOT_SUPPORTED :: "'a::{zero,numeral}" where "SCSI_INQUIRY_PERIPHERAL_QUALIFIER_NOT_SUPPORTED \<equiv> 0x03"
text \<open>\<open>enum scsi_inquiry_peripheral_device_type\<close>\<close>

abbreviation (input) SCSI_INQUIRY_PERIPHERAL_DEVICE_TYPE_DIRECT_ACCESS :: "'a::{zero,numeral}" where "SCSI_INQUIRY_PERIPHERAL_DEVICE_TYPE_DIRECT_ACCESS \<equiv> 0x00"
abbreviation (input) SCSI_INQUIRY_PERIPHERAL_DEVICE_TYPE_SEQUENTIAL_ACCESS :: "'a::{zero,numeral}" where "SCSI_INQUIRY_PERIPHERAL_DEVICE_TYPE_SEQUENTIAL_ACCESS \<equiv> 0x01"
abbreviation (input) SCSI_INQUIRY_PERIPHERAL_DEVICE_TYPE_PRINTER :: "'a::{zero,numeral}" where "SCSI_INQUIRY_PERIPHERAL_DEVICE_TYPE_PRINTER \<equiv> 0x02"
abbreviation (input) SCSI_INQUIRY_PERIPHERAL_DEVICE_TYPE_PROCESSOR :: "'a::{zero,numeral}" where "SCSI_INQUIRY_PERIPHERAL_DEVICE_TYPE_PROCESSOR \<equiv> 0x03"
abbreviation (input) SCSI_INQUIRY_PERIPHERAL_DEVICE_TYPE_WRITE_ONCE :: "'a::{zero,numeral}" where "SCSI_INQUIRY_PERIPHERAL_DEVICE_TYPE_WRITE_ONCE \<equiv> 0x04"
abbreviation (input) SCSI_INQUIRY_PERIPHERAL_DEVICE_TYPE_MMC :: "'a::{zero,numeral}" where "SCSI_INQUIRY_PERIPHERAL_DEVICE_TYPE_MMC \<equiv> 0x05"
abbreviation (input) SCSI_INQUIRY_PERIPHERAL_DEVICE_TYPE_SCANNER :: "'a::{zero,numeral}" where "SCSI_INQUIRY_PERIPHERAL_DEVICE_TYPE_SCANNER \<equiv> 0x06"
abbreviation (input) SCSI_INQUIRY_PERIPHERAL_DEVICE_TYPE_OPTICAL_MEMORY :: "'a::{zero,numeral}" where "SCSI_INQUIRY_PERIPHERAL_DEVICE_TYPE_OPTICAL_MEMORY \<equiv> 0x07"
abbreviation (input) SCSI_INQUIRY_PERIPHERAL_DEVICE_TYPE_MEDIA_CHANGER :: "'a::{zero,numeral}" where "SCSI_INQUIRY_PERIPHERAL_DEVICE_TYPE_MEDIA_CHANGER \<equiv> 0x08"
abbreviation (input) SCSI_INQUIRY_PERIPHERAL_DEVICE_TYPE_COMMUNICATIONS :: "'a::{zero,numeral}" where "SCSI_INQUIRY_PERIPHERAL_DEVICE_TYPE_COMMUNICATIONS \<equiv> 0x09"
abbreviation (input) SCSI_INQUIRY_PERIPHERAL_DEVICE_TYPE_STORAGE_ARRAY_CONTROLLER :: "'a::{zero,numeral}" where "SCSI_INQUIRY_PERIPHERAL_DEVICE_TYPE_STORAGE_ARRAY_CONTROLLER \<equiv> 0x0c"
abbreviation (input) SCSI_INQUIRY_PERIPHERAL_DEVICE_TYPE_ENCLOSURE_SERVICES :: "'a::{zero,numeral}" where "SCSI_INQUIRY_PERIPHERAL_DEVICE_TYPE_ENCLOSURE_SERVICES \<equiv> 0x0d"
abbreviation (input) SCSI_INQUIRY_PERIPHERAL_DEVICE_TYPE_SIMPLIFIED_DIRECT_ACCESS :: "'a::{zero,numeral}" where "SCSI_INQUIRY_PERIPHERAL_DEVICE_TYPE_SIMPLIFIED_DIRECT_ACCESS \<equiv> 0x0e"
abbreviation (input) SCSI_INQUIRY_PERIPHERAL_DEVICE_TYPE_OPTICAL_CARD_READER :: "'a::{zero,numeral}" where "SCSI_INQUIRY_PERIPHERAL_DEVICE_TYPE_OPTICAL_CARD_READER \<equiv> 0x0f"
abbreviation (input) SCSI_INQUIRY_PERIPHERAL_DEVICE_TYPE_BRIDGE_CONTROLLER :: "'a::{zero,numeral}" where "SCSI_INQUIRY_PERIPHERAL_DEVICE_TYPE_BRIDGE_CONTROLLER \<equiv> 0x10"
abbreviation (input) SCSI_INQUIRY_PERIPHERAL_DEVICE_TYPE_OSD :: "'a::{zero,numeral}" where "SCSI_INQUIRY_PERIPHERAL_DEVICE_TYPE_OSD \<equiv> 0x11"
abbreviation (input) SCSI_INQUIRY_PERIPHERAL_DEVICE_TYPE_AUTOMATION :: "'a::{zero,numeral}" where "SCSI_INQUIRY_PERIPHERAL_DEVICE_TYPE_AUTOMATION \<equiv> 0x12"
abbreviation (input) SCSI_INQUIRY_PERIPHERAL_DEVICE_TYPE_SEQURITY_MANAGER :: "'a::{zero,numeral}" where "SCSI_INQUIRY_PERIPHERAL_DEVICE_TYPE_SEQURITY_MANAGER \<equiv> 0x13"
abbreviation (input) SCSI_INQUIRY_PERIPHERAL_DEVICE_TYPE_WELL_KNOWN_LUN :: "'a::{zero,numeral}" where "SCSI_INQUIRY_PERIPHERAL_DEVICE_TYPE_WELL_KNOWN_LUN \<equiv> 0x1e"
abbreviation (input) SCSI_INQUIRY_PERIPHERAL_DEVICE_TYPE_UNKNOWN :: "'a::{zero,numeral}" where "SCSI_INQUIRY_PERIPHERAL_DEVICE_TYPE_UNKNOWN \<equiv> 0x1f"
text \<open>\<open>enum scsi_version\<close>\<close>

abbreviation (input) SCSI_VERSION_SPC :: "'a::{zero,numeral}" where "SCSI_VERSION_SPC \<equiv> 0x03"
abbreviation (input) SCSI_VERSION_SPC2 :: "'a::{zero,numeral}" where "SCSI_VERSION_SPC2 \<equiv> 0x04"
abbreviation (input) SCSI_VERSION_SPC3 :: "'a::{zero,numeral}" where "SCSI_VERSION_SPC3 \<equiv> 0x05"
text \<open>\<open>enum scsi_version_descriptor\<close>\<close>

abbreviation (input) SCSI_VERSION_DESCRIPTOR_ISCSI :: "'a::{zero,numeral}" where "SCSI_VERSION_DESCRIPTOR_ISCSI \<equiv> 0x0960"
abbreviation (input) SCSI_VERSION_DESCRIPTOR_SBC :: "'a::{zero,numeral}" where "SCSI_VERSION_DESCRIPTOR_SBC \<equiv> 0x0180"
abbreviation (input) SCSI_VERSION_DESCRIPTOR_SBC_ANSI_INCITS_306_1998 :: "'a::{zero,numeral}" where "SCSI_VERSION_DESCRIPTOR_SBC_ANSI_INCITS_306_1998 \<equiv> 0x019C"
abbreviation (input) SCSI_VERSION_DESCRIPTOR_SBC_T10_0996_D_R08C :: "'a::{zero,numeral}" where "SCSI_VERSION_DESCRIPTOR_SBC_T10_0996_D_R08C \<equiv> 0x019B"
abbreviation (input) SCSI_VERSION_DESCRIPTOR_SBC_2 :: "'a::{zero,numeral}" where "SCSI_VERSION_DESCRIPTOR_SBC_2 \<equiv> 0x0320"
abbreviation (input) SCSI_VERSION_DESCRIPTOR_SBC_2_ISO_IEC_14776_322 :: "'a::{zero,numeral}" where "SCSI_VERSION_DESCRIPTOR_SBC_2_ISO_IEC_14776_322 \<equiv> 0x033E"
abbreviation (input) SCSI_VERSION_DESCRIPTOR_SBC_2_ANSI_INCITS_405_2005 :: "'a::{zero,numeral}" where "SCSI_VERSION_DESCRIPTOR_SBC_2_ANSI_INCITS_405_2005 \<equiv> 0x033D"
abbreviation (input) SCSI_VERSION_DESCRIPTOR_SBC_2_T10_1417_D_R16 :: "'a::{zero,numeral}" where "SCSI_VERSION_DESCRIPTOR_SBC_2_T10_1417_D_R16 \<equiv> 0x033B"
abbreviation (input) SCSI_VERSION_DESCRIPTOR_SBC_2_T10_1417_D_R5A :: "'a::{zero,numeral}" where "SCSI_VERSION_DESCRIPTOR_SBC_2_T10_1417_D_R5A \<equiv> 0x0322"
abbreviation (input) SCSI_VERSION_DESCRIPTOR_SBC_2_T10_1417_D_R15 :: "'a::{zero,numeral}" where "SCSI_VERSION_DESCRIPTOR_SBC_2_T10_1417_D_R15 \<equiv> 0x0324"
abbreviation (input) SCSI_VERSION_DESCRIPTOR_SBC_3 :: "'a::{zero,numeral}" where "SCSI_VERSION_DESCRIPTOR_SBC_3 \<equiv> 0x04C0"
abbreviation (input) SCSI_VERSION_DESCRIPTOR_SPC :: "'a::{zero,numeral}" where "SCSI_VERSION_DESCRIPTOR_SPC \<equiv> 0x0120"
abbreviation (input) SCSI_VERSION_DESCRIPTOR_SPC_ANSI_INCITS_301_1997 :: "'a::{zero,numeral}" where "SCSI_VERSION_DESCRIPTOR_SPC_ANSI_INCITS_301_1997 \<equiv> 0x013C"
abbreviation (input) SCSI_VERSION_DESCRIPTOR_SPC_T10_0995_D_R11A :: "'a::{zero,numeral}" where "SCSI_VERSION_DESCRIPTOR_SPC_T10_0995_D_R11A \<equiv> 0x013B"
abbreviation (input) SCSI_VERSION_DESCRIPTOR_SPC_2 :: "'a::{zero,numeral}" where "SCSI_VERSION_DESCRIPTOR_SPC_2 \<equiv> 0x0260"
abbreviation (input) SCSI_VERSION_DESCRIPTOR_SPC_2_ISO_IEC_14776_452 :: "'a::{zero,numeral}" where "SCSI_VERSION_DESCRIPTOR_SPC_2_ISO_IEC_14776_452 \<equiv> 0x0278"
abbreviation (input) SCSI_VERSION_DESCRIPTOR_SPC_2_ANSI_INCITS_351_2001 :: "'a::{zero,numeral}" where "SCSI_VERSION_DESCRIPTOR_SPC_2_ANSI_INCITS_351_2001 \<equiv> 0x0277"
abbreviation (input) SCSI_VERSION_DESCRIPTOR_SPC_2_T10_1236_D_R20 :: "'a::{zero,numeral}" where "SCSI_VERSION_DESCRIPTOR_SPC_2_T10_1236_D_R20 \<equiv> 0x0276"
abbreviation (input) SCSI_VERSION_DESCRIPTOR_SPC_2_T10_1236_D_R12 :: "'a::{zero,numeral}" where "SCSI_VERSION_DESCRIPTOR_SPC_2_T10_1236_D_R12 \<equiv> 0x0267"
abbreviation (input) SCSI_VERSION_DESCRIPTOR_SPC_2_T10_1236_D_R18 :: "'a::{zero,numeral}" where "SCSI_VERSION_DESCRIPTOR_SPC_2_T10_1236_D_R18 \<equiv> 0x0269"
abbreviation (input) SCSI_VERSION_DESCRIPTOR_SPC_2_T10_1236_D_R19 :: "'a::{zero,numeral}" where "SCSI_VERSION_DESCRIPTOR_SPC_2_T10_1236_D_R19 \<equiv> 0x0275"
abbreviation (input) SCSI_VERSION_DESCRIPTOR_SPC_3 :: "'a::{zero,numeral}" where "SCSI_VERSION_DESCRIPTOR_SPC_3 \<equiv> 0x0300"
abbreviation (input) SCSI_VERSION_DESCRIPTOR_SPC_3_ISO_IEC_14776_453 :: "'a::{zero,numeral}" where "SCSI_VERSION_DESCRIPTOR_SPC_3_ISO_IEC_14776_453 \<equiv> 0x0316"
abbreviation (input) SCSI_VERSION_DESCRIPTOR_SPC_3_ANSI_INCITS_408_2005 :: "'a::{zero,numeral}" where "SCSI_VERSION_DESCRIPTOR_SPC_3_ANSI_INCITS_408_2005 \<equiv> 0x0314"
abbreviation (input) SCSI_VERSION_DESCRIPTOR_SPC_3_T10_1416_D_R7 :: "'a::{zero,numeral}" where "SCSI_VERSION_DESCRIPTOR_SPC_3_T10_1416_D_R7 \<equiv> 0x0301"
abbreviation (input) SCSI_VERSION_DESCRIPTOR_SPC_3_T10_1416_D_R21 :: "'a::{zero,numeral}" where "SCSI_VERSION_DESCRIPTOR_SPC_3_T10_1416_D_R21 \<equiv> 0x0307"
abbreviation (input) SCSI_VERSION_DESCRIPTOR_SPC_3_T10_1416_D_R22 :: "'a::{zero,numeral}" where "SCSI_VERSION_DESCRIPTOR_SPC_3_T10_1416_D_R22 \<equiv> 0x030F"
abbreviation (input) SCSI_VERSION_DESCRIPTOR_SPC_3_T10_1416_D_R23 :: "'a::{zero,numeral}" where "SCSI_VERSION_DESCRIPTOR_SPC_3_T10_1416_D_R23 \<equiv> 0x0312"
abbreviation (input) SCSI_VERSION_DESCRIPTOR_SPC_4 :: "'a::{zero,numeral}" where "SCSI_VERSION_DESCRIPTOR_SPC_4 \<equiv> 0x0460"
abbreviation (input) SCSI_VERSION_DESCRIPTOR_SPC_4_T10_1731_D_R16 :: "'a::{zero,numeral}" where "SCSI_VERSION_DESCRIPTOR_SPC_4_T10_1731_D_R16 \<equiv> 0x0461"
abbreviation (input) SCSI_VERSION_DESCRIPTOR_SPC_4_T10_1731_D_R18 :: "'a::{zero,numeral}" where "SCSI_VERSION_DESCRIPTOR_SPC_4_T10_1731_D_R18 \<equiv> 0x0462"
abbreviation (input) SCSI_VERSION_DESCRIPTOR_SPC_4_T10_1731_D_R23 :: "'a::{zero,numeral}" where "SCSI_VERSION_DESCRIPTOR_SPC_4_T10_1731_D_R23 \<equiv> 0x0463"
abbreviation (input) SCSI_VERSION_DESCRIPTOR_SSC :: "'a::{zero,numeral}" where "SCSI_VERSION_DESCRIPTOR_SSC \<equiv> 0x0200"
abbreviation (input) SCSI_VERSION_DESCRIPTOR_UAS_T10_2095D_R04 :: "'a::{zero,numeral}" where "SCSI_VERSION_DESCRIPTOR_UAS_T10_2095D_R04 \<equiv> 0x1747"
text \<open>\<open>enum scsi_inquiry_tpgs\<close>\<close>

abbreviation (input) SCSI_INQUIRY_TPGS_NO_SUPPORT :: "'a::{zero,numeral}" where "SCSI_INQUIRY_TPGS_NO_SUPPORT \<equiv> 0x00"
abbreviation (input) SCSI_INQUIRY_TPGS_IMPLICIT :: "'a::{zero,numeral}" where "SCSI_INQUIRY_TPGS_IMPLICIT \<equiv> 0x01"
abbreviation (input) SCSI_INQUIRY_TPGS_EXPLICIT :: "'a::{zero,numeral}" where "SCSI_INQUIRY_TPGS_EXPLICIT \<equiv> 0x02"
abbreviation (input) SCSI_INQUIRY_TPGS_IMPLICIT_AND_EXPLICIT :: "'a::{zero,numeral}" where "SCSI_INQUIRY_TPGS_IMPLICIT_AND_EXPLICIT \<equiv> 0x03"
text \<open>\<open>enum scsi_inquiry_pagecode\<close>\<close>

abbreviation (input) SCSI_INQUIRY_PAGECODE_SUPPORTED_VPD_PAGES :: "'a::{zero,numeral}" where "SCSI_INQUIRY_PAGECODE_SUPPORTED_VPD_PAGES \<equiv> 0x00"
abbreviation (input) SCSI_INQUIRY_PAGECODE_UNIT_SERIAL_NUMBER :: "'a::{zero,numeral}" where "SCSI_INQUIRY_PAGECODE_UNIT_SERIAL_NUMBER \<equiv> 0x80"
abbreviation (input) SCSI_INQUIRY_PAGECODE_DEVICE_IDENTIFICATION :: "'a::{zero,numeral}" where "SCSI_INQUIRY_PAGECODE_DEVICE_IDENTIFICATION \<equiv> 0x83"
abbreviation (input) SCSI_INQUIRY_PAGECODE_THIRD_PARTY_COPY :: "'a::{zero,numeral}" where "SCSI_INQUIRY_PAGECODE_THIRD_PARTY_COPY \<equiv> 0x8F"
abbreviation (input) SCSI_INQUIRY_PAGECODE_BLOCK_LIMITS :: "'a::{zero,numeral}" where "SCSI_INQUIRY_PAGECODE_BLOCK_LIMITS \<equiv> 0xB0"
abbreviation (input) SCSI_INQUIRY_PAGECODE_BLOCK_DEVICE_CHARACTERISTICS :: "'a::{zero,numeral}" where "SCSI_INQUIRY_PAGECODE_BLOCK_DEVICE_CHARACTERISTICS \<equiv> 0xB1"
abbreviation (input) SCSI_INQUIRY_PAGECODE_LOGICAL_BLOCK_PROVISIONING :: "'a::{zero,numeral}" where "SCSI_INQUIRY_PAGECODE_LOGICAL_BLOCK_PROVISIONING \<equiv> 0xB2"
text \<open>\<open>enum scsi_inquiry_provisioning_type\<close>\<close>

abbreviation (input) PROVISIONING_TYPE_NONE :: "'a::{zero,numeral}" where "PROVISIONING_TYPE_NONE \<equiv> 0"
abbreviation (input) PROVISIONING_TYPE_RESOURCE :: "'a::{zero,numeral}" where "PROVISIONING_TYPE_RESOURCE \<equiv> 1"
abbreviation (input) PROVISIONING_TYPE_THIN :: "'a::{zero,numeral}" where "PROVISIONING_TYPE_THIN \<equiv> 2"
text \<open>\<open>enum scsi_protocol_identifier\<close>\<close>

abbreviation (input) SCSI_PROTOCOL_IDENTIFIER_FIBRE_CHANNEL :: "'a::{zero,numeral}" where "SCSI_PROTOCOL_IDENTIFIER_FIBRE_CHANNEL \<equiv> 0x00"
abbreviation (input) SCSI_PROTOCOL_IDENTIFIER_PARALLEL_SCSI :: "'a::{zero,numeral}" where "SCSI_PROTOCOL_IDENTIFIER_PARALLEL_SCSI \<equiv> 0x01"
abbreviation (input) SCSI_PROTOCOL_IDENTIFIER_SSA :: "'a::{zero,numeral}" where "SCSI_PROTOCOL_IDENTIFIER_SSA \<equiv> 0x02"
abbreviation (input) SCSI_PROTOCOL_IDENTIFIER_IEEE_1394 :: "'a::{zero,numeral}" where "SCSI_PROTOCOL_IDENTIFIER_IEEE_1394 \<equiv> 0x03"
abbreviation (input) SCSI_PROTOCOL_IDENTIFIER_RDMA :: "'a::{zero,numeral}" where "SCSI_PROTOCOL_IDENTIFIER_RDMA \<equiv> 0x04"
abbreviation (input) SCSI_PROTOCOL_IDENTIFIER_ISCSI :: "'a::{zero,numeral}" where "SCSI_PROTOCOL_IDENTIFIER_ISCSI \<equiv> 0x05"
abbreviation (input) SCSI_PROTOCOL_IDENTIFIER_SAS :: "'a::{zero,numeral}" where "SCSI_PROTOCOL_IDENTIFIER_SAS \<equiv> 0x06"
abbreviation (input) SCSI_PROTOCOL_IDENTIFIER_ADT :: "'a::{zero,numeral}" where "SCSI_PROTOCOL_IDENTIFIER_ADT \<equiv> 0x07"
abbreviation (input) SCSI_PROTOCOL_IDENTIFIER_ATA :: "'a::{zero,numeral}" where "SCSI_PROTOCOL_IDENTIFIER_ATA \<equiv> 0x08"
text \<open>\<open>enum scsi_codeset\<close>\<close>

abbreviation (input) SCSI_CODESET_BINARY :: "'a::{zero,numeral}" where "SCSI_CODESET_BINARY \<equiv> 0x01"
abbreviation (input) SCSI_CODESET_ASCII :: "'a::{zero,numeral}" where "SCSI_CODESET_ASCII \<equiv> 0x02"
abbreviation (input) SCSI_CODESET_UTF8 :: "'a::{zero,numeral}" where "SCSI_CODESET_UTF8 \<equiv> 0x03"
text \<open>\<open>enum scsi_association\<close>\<close>

abbreviation (input) SCSI_ASSOCIATION_LOGICAL_UNIT :: "'a::{zero,numeral}" where "SCSI_ASSOCIATION_LOGICAL_UNIT \<equiv> 0x00"
abbreviation (input) SCSI_ASSOCIATION_TARGET_PORT :: "'a::{zero,numeral}" where "SCSI_ASSOCIATION_TARGET_PORT \<equiv> 0x01"
abbreviation (input) SCSI_ASSOCIATION_TARGET_DEVICE :: "'a::{zero,numeral}" where "SCSI_ASSOCIATION_TARGET_DEVICE \<equiv> 0x02"
text \<open>\<open>enum scsi_designator_type\<close>\<close>

abbreviation (input) SCSI_DESIGNATOR_TYPE_VENDOR_SPECIFIC :: "'a::{zero,numeral}" where "SCSI_DESIGNATOR_TYPE_VENDOR_SPECIFIC \<equiv> 0x00"
abbreviation (input) SCSI_DESIGNATOR_TYPE_T10_VENDORT_ID :: "'a::{zero,numeral}" where "SCSI_DESIGNATOR_TYPE_T10_VENDORT_ID \<equiv> 0x01"
abbreviation (input) SCSI_DESIGNATOR_TYPE_EUI_64 :: "'a::{zero,numeral}" where "SCSI_DESIGNATOR_TYPE_EUI_64 \<equiv> 0x02"
abbreviation (input) SCSI_DESIGNATOR_TYPE_NAA :: "'a::{zero,numeral}" where "SCSI_DESIGNATOR_TYPE_NAA \<equiv> 0x03"
abbreviation (input) SCSI_DESIGNATOR_TYPE_RELATIVE_TARGET_PORT :: "'a::{zero,numeral}" where "SCSI_DESIGNATOR_TYPE_RELATIVE_TARGET_PORT \<equiv> 0x04"
abbreviation (input) SCSI_DESIGNATOR_TYPE_TARGET_PORT_GROUP :: "'a::{zero,numeral}" where "SCSI_DESIGNATOR_TYPE_TARGET_PORT_GROUP \<equiv> 0x05"
abbreviation (input) SCSI_DESIGNATOR_TYPE_LOGICAL_UNIT_GROUP :: "'a::{zero,numeral}" where "SCSI_DESIGNATOR_TYPE_LOGICAL_UNIT_GROUP \<equiv> 0x06"
abbreviation (input) SCSI_DESIGNATOR_TYPE_MD5_LOGICAL_UNIT_IDENTIFIER :: "'a::{zero,numeral}" where "SCSI_DESIGNATOR_TYPE_MD5_LOGICAL_UNIT_IDENTIFIER \<equiv> 0x07"
abbreviation (input) SCSI_DESIGNATOR_TYPE_SCSI_NAME_STRING :: "'a::{zero,numeral}" where "SCSI_DESIGNATOR_TYPE_SCSI_NAME_STRING \<equiv> 0x08"
text \<open>\<open>enum third_party_copy_descriptor_type\<close>\<close>

abbreviation (input) THIRD_PARTY_COPY_TYPE_SUPPORTED_COMMANDS :: "'a::{zero,numeral}" where "THIRD_PARTY_COPY_TYPE_SUPPORTED_COMMANDS \<equiv> 0x0001"
text \<open>\<open>enum scsi_modesense_page_control\<close>\<close>

abbreviation (input) SCSI_MODESENSE_PC_CURRENT :: "'a::{zero,numeral}" where "SCSI_MODESENSE_PC_CURRENT \<equiv> 0x00"
abbreviation (input) SCSI_MODESENSE_PC_CHANGEABLE :: "'a::{zero,numeral}" where "SCSI_MODESENSE_PC_CHANGEABLE \<equiv> 0x01"
abbreviation (input) SCSI_MODESENSE_PC_DEFAULT :: "'a::{zero,numeral}" where "SCSI_MODESENSE_PC_DEFAULT \<equiv> 0x02"
abbreviation (input) SCSI_MODESENSE_PC_SAVED :: "'a::{zero,numeral}" where "SCSI_MODESENSE_PC_SAVED \<equiv> 0x03"
text \<open>\<open>enum scsi_modesense_page_code\<close>\<close>

abbreviation (input) SCSI_MODEPAGE_READ_WRITE_ERROR_RECOVERY :: "'a::{zero,numeral}" where "SCSI_MODEPAGE_READ_WRITE_ERROR_RECOVERY \<equiv> 0x01"
abbreviation (input) SCSI_MODEPAGE_DISCONNECT_RECONNECT :: "'a::{zero,numeral}" where "SCSI_MODEPAGE_DISCONNECT_RECONNECT \<equiv> 0x02"
abbreviation (input) SCSI_MODEPAGE_VERIFY_ERROR_RECOVERY :: "'a::{zero,numeral}" where "SCSI_MODEPAGE_VERIFY_ERROR_RECOVERY \<equiv> 0x07"
abbreviation (input) SCSI_MODEPAGE_CACHING :: "'a::{zero,numeral}" where "SCSI_MODEPAGE_CACHING \<equiv> 0x08"
abbreviation (input) SCSI_MODEPAGE_XOR_CONTROL :: "'a::{zero,numeral}" where "SCSI_MODEPAGE_XOR_CONTROL \<equiv> 0x10"
abbreviation (input) SCSI_MODEPAGE_CONTROL :: "'a::{zero,numeral}" where "SCSI_MODEPAGE_CONTROL \<equiv> 0x0a"
abbreviation (input) SCSI_MODEPAGE_POWER_CONDITION :: "'a::{zero,numeral}" where "SCSI_MODEPAGE_POWER_CONDITION \<equiv> 0x1a"
abbreviation (input) SCSI_MODEPAGE_INFORMATIONAL_EXCEPTIONS_CONTROL :: "'a::{zero,numeral}" where "SCSI_MODEPAGE_INFORMATIONAL_EXCEPTIONS_CONTROL \<equiv> 0x1c"
abbreviation (input) SCSI_MODEPAGE_RETURN_ALL_PAGES :: "'a::{zero,numeral}" where "SCSI_MODEPAGE_RETURN_ALL_PAGES \<equiv> 0x3f"
text \<open>\<open>enum scsi_provisioning_type\<close>\<close>

abbreviation (input) SCSI_PROVISIONING_TYPE_MAPPED :: "'a::{zero,numeral}" where "SCSI_PROVISIONING_TYPE_MAPPED \<equiv> 0x00"
abbreviation (input) SCSI_PROVISIONING_TYPE_DEALLOCATED :: "'a::{zero,numeral}" where "SCSI_PROVISIONING_TYPE_DEALLOCATED \<equiv> 0x01"
abbreviation (input) SCSI_PROVISIONING_TYPE_ANCHORED :: "'a::{zero,numeral}" where "SCSI_PROVISIONING_TYPE_ANCHORED \<equiv> 0x02"
text \<open>\<open>enum scsi_copy_results_sa\<close>\<close>

abbreviation (input) SCSI_COPY_RESULTS_COPY_STATUS :: "'a::{zero,numeral}" where "SCSI_COPY_RESULTS_COPY_STATUS \<equiv> 0"
abbreviation (input) SCSI_COPY_RESULTS_RECEIVE_DATA :: "'a::{zero,numeral}" where "SCSI_COPY_RESULTS_RECEIVE_DATA \<equiv> 1"
abbreviation (input) SCSI_COPY_RESULTS_OP_PARAMS :: "'a::{zero,numeral}" where "SCSI_COPY_RESULTS_OP_PARAMS \<equiv> 3"
abbreviation (input) SCSI_COPY_RESULTS_FAILED_SEGMENT :: "'a::{zero,numeral}" where "SCSI_COPY_RESULTS_FAILED_SEGMENT \<equiv> 4"

section \<open>\<open>include/iscsi.h\<close>\<close>

text \<open>\<open>#define\<close>s\<close>

abbreviation (input) MAX_STRING_SIZE :: "'a::{zero,numeral}" where "MAX_STRING_SIZE \<equiv> 255"
abbreviation (input) MAX_ISCSI_NAME_SIZE :: "'a::{zero,numeral}" where "MAX_ISCSI_NAME_SIZE \<equiv> 223"
text \<open>\<open>enum iscsi_transport_type\<close>\<close>

abbreviation (input) TCP_TRANSPORT :: "'a::{zero,numeral}" where "TCP_TRANSPORT \<equiv> 0"
abbreviation (input) ISER_TRANSPORT :: "'a::{zero,numeral}" where "ISER_TRANSPORT \<equiv> 1"
text \<open>\<open>enum iscsi_immediate_data\<close>\<close>

abbreviation (input) ISCSI_IMMEDIATE_DATA_NO :: "'a::{zero,numeral}" where "ISCSI_IMMEDIATE_DATA_NO \<equiv> 0"
abbreviation (input) ISCSI_IMMEDIATE_DATA_YES :: "'a::{zero,numeral}" where "ISCSI_IMMEDIATE_DATA_YES \<equiv> 1"
text \<open>\<open>enum iscsi_initial_r2t\<close>\<close>

abbreviation (input) ISCSI_INITIAL_R2T_NO :: "'a::{zero,numeral}" where "ISCSI_INITIAL_R2T_NO \<equiv> 0"
abbreviation (input) ISCSI_INITIAL_R2T_YES :: "'a::{zero,numeral}" where "ISCSI_INITIAL_R2T_YES \<equiv> 1"
text \<open>\<open>enum iscsi_chap_auth\<close>\<close>

abbreviation (input) ISCSI_CHAP_MD5 :: "'a::{zero,numeral}" where "ISCSI_CHAP_MD5 \<equiv> 5"
abbreviation (input) ISCSI_CHAP_SHA_1 :: "'a::{zero,numeral}" where "ISCSI_CHAP_SHA_1 \<equiv> 6"
abbreviation (input) ISCSI_CHAP_SHA_256 :: "'a::{zero,numeral}" where "ISCSI_CHAP_SHA_256 \<equiv> 7"
abbreviation (input) ISCSI_CHAP_SHA3_256 :: "'a::{zero,numeral}" where "ISCSI_CHAP_SHA3_256 \<equiv> 8"
text \<open>\<open>enum iscsi_session_type\<close>\<close>

abbreviation (input) ISCSI_SESSION_DISCOVERY :: "'a::{zero,numeral}" where "ISCSI_SESSION_DISCOVERY \<equiv> 1"
abbreviation (input) ISCSI_SESSION_NORMAL :: "'a::{zero,numeral}" where "ISCSI_SESSION_NORMAL \<equiv> 2"
text \<open>\<open>enum iscsi_header_digest\<close>\<close>

abbreviation (input) ISCSI_HEADER_DIGEST_NONE :: "'a::{zero,numeral}" where "ISCSI_HEADER_DIGEST_NONE \<equiv> 0"
abbreviation (input) ISCSI_HEADER_DIGEST_NONE_CRC32C :: "'a::{zero,numeral}" where "ISCSI_HEADER_DIGEST_NONE_CRC32C \<equiv> 1"
abbreviation (input) ISCSI_HEADER_DIGEST_CRC32C_NONE :: "'a::{zero,numeral}" where "ISCSI_HEADER_DIGEST_CRC32C_NONE \<equiv> 2"
abbreviation (input) ISCSI_HEADER_DIGEST_CRC32C :: "'a::{zero,numeral}" where "ISCSI_HEADER_DIGEST_CRC32C \<equiv> 3"
abbreviation (input) ISCSI_HEADER_DIGEST_LAST :: "'a::{zero,numeral}" where "ISCSI_HEADER_DIGEST_LAST \<equiv> 3"
text \<open>\<open>enum iscsi_data_digest\<close>\<close>

abbreviation (input) ISCSI_DATA_DIGEST_NONE :: "'a::{zero,numeral}" where "ISCSI_DATA_DIGEST_NONE \<equiv> 0"
abbreviation (input) ISCSI_DATA_DIGEST_NONE_CRC32C :: "'a::{zero,numeral}" where "ISCSI_DATA_DIGEST_NONE_CRC32C \<equiv> 1"
abbreviation (input) ISCSI_DATA_DIGEST_CRC32C_NONE :: "'a::{zero,numeral}" where "ISCSI_DATA_DIGEST_CRC32C_NONE \<equiv> 2"
abbreviation (input) ISCSI_DATA_DIGEST_CRC32C :: "'a::{zero,numeral}" where "ISCSI_DATA_DIGEST_CRC32C \<equiv> 3"
abbreviation (input) ISCSI_DATA_DIGEST_LAST :: "'a::{zero,numeral}" where "ISCSI_DATA_DIGEST_LAST \<equiv> 3"
text \<open>\<open>enum scsi_status\<close>\<close>

abbreviation (input) SCSI_STATUS_GOOD :: "'a::{zero,numeral}" where "SCSI_STATUS_GOOD \<equiv> 0"
abbreviation (input) SCSI_STATUS_CHECK_CONDITION :: "'a::{zero,numeral}" where "SCSI_STATUS_CHECK_CONDITION \<equiv> 2"
abbreviation (input) SCSI_STATUS_CONDITION_MET :: "'a::{zero,numeral}" where "SCSI_STATUS_CONDITION_MET \<equiv> 4"
abbreviation (input) SCSI_STATUS_BUSY :: "'a::{zero,numeral}" where "SCSI_STATUS_BUSY \<equiv> 8"
abbreviation (input) SCSI_STATUS_RESERVATION_CONFLICT :: "'a::{zero,numeral}" where "SCSI_STATUS_RESERVATION_CONFLICT \<equiv> 0x18"
abbreviation (input) SCSI_STATUS_TASK_SET_FULL :: "'a::{zero,numeral}" where "SCSI_STATUS_TASK_SET_FULL \<equiv> 0x28"
abbreviation (input) SCSI_STATUS_ACA_ACTIVE :: "'a::{zero,numeral}" where "SCSI_STATUS_ACA_ACTIVE \<equiv> 0x30"
abbreviation (input) SCSI_STATUS_TASK_ABORTED :: "'a::{zero,numeral}" where "SCSI_STATUS_TASK_ABORTED \<equiv> 0x40"
abbreviation (input) SCSI_STATUS_REDIRECT :: "'a::{zero,numeral}" where "SCSI_STATUS_REDIRECT \<equiv> 0x101"
abbreviation (input) SCSI_STATUS_CANCELLED :: "'a::{zero,numeral}" where "SCSI_STATUS_CANCELLED \<equiv> 0x0f000000"
abbreviation (input) SCSI_STATUS_ERROR :: "'a::{zero,numeral}" where "SCSI_STATUS_ERROR \<equiv> 0x0f000001"
abbreviation (input) SCSI_STATUS_TIMEOUT :: "'a::{zero,numeral}" where "SCSI_STATUS_TIMEOUT \<equiv> 0x0f000002"
text \<open>\<open>enum iscsi_task_mgmt_funcs\<close>\<close>

abbreviation (input) ISCSI_TM_ABORT_TASK :: "'a::{zero,numeral}" where "ISCSI_TM_ABORT_TASK \<equiv> 0x01"
abbreviation (input) ISCSI_TM_ABORT_TASK_SET :: "'a::{zero,numeral}" where "ISCSI_TM_ABORT_TASK_SET \<equiv> 0x02"
abbreviation (input) ISCSI_TM_CLEAR_ACA :: "'a::{zero,numeral}" where "ISCSI_TM_CLEAR_ACA \<equiv> 0x03"
abbreviation (input) ISCSI_TM_CLEAR_TASK_SET :: "'a::{zero,numeral}" where "ISCSI_TM_CLEAR_TASK_SET \<equiv> 0x04"
abbreviation (input) ISCSI_TM_LUN_RESET :: "'a::{zero,numeral}" where "ISCSI_TM_LUN_RESET \<equiv> 0x05"
abbreviation (input) ISCSI_TM_TARGET_WARM_RESET :: "'a::{zero,numeral}" where "ISCSI_TM_TARGET_WARM_RESET \<equiv> 0x06"
abbreviation (input) ISCSI_TM_TARGET_COLD_RESET :: "'a::{zero,numeral}" where "ISCSI_TM_TARGET_COLD_RESET \<equiv> 0x07"
abbreviation (input) ISCSI_TM_TASK_REASSIGN :: "'a::{zero,numeral}" where "ISCSI_TM_TASK_REASSIGN \<equiv> 0x08"
text \<open>\<open>enum iscsi_task_mgmt_response\<close>\<close>

abbreviation (input) ISCSI_TMR_FUNC_COMPLETE :: "'a::{zero,numeral}" where "ISCSI_TMR_FUNC_COMPLETE \<equiv> 0x0"
abbreviation (input) ISCSI_TMR_TASK_DOES_NOT_EXIST :: "'a::{zero,numeral}" where "ISCSI_TMR_TASK_DOES_NOT_EXIST \<equiv> 0x1"
abbreviation (input) ISCSI_TMR_LUN_DOES_NOT_EXIST :: "'a::{zero,numeral}" where "ISCSI_TMR_LUN_DOES_NOT_EXIST \<equiv> 0x2"
abbreviation (input) ISCSI_TMR_TASK_STILL_ALLEGIANT :: "'a::{zero,numeral}" where "ISCSI_TMR_TASK_STILL_ALLEGIANT \<equiv> 0x3"
abbreviation (input) ISCSI_TMR_TASK_ALLEGIANCE_REASS_NOT_SUPPORTED :: "'a::{zero,numeral}" where "ISCSI_TMR_TASK_ALLEGIANCE_REASS_NOT_SUPPORTED \<equiv> 0x4"
abbreviation (input) ISCSI_TMR_TMF_NOT_SUPPORTED :: "'a::{zero,numeral}" where "ISCSI_TMR_TMF_NOT_SUPPORTED \<equiv> 0x5"
abbreviation (input) ISCSI_TMR_FUNC_AUTH_FAILED :: "'a::{zero,numeral}" where "ISCSI_TMR_FUNC_AUTH_FAILED \<equiv> 0x6"
abbreviation (input) ISCSI_TMR_FUNC_REJECTED :: "'a::{zero,numeral}" where "ISCSI_TMR_FUNC_REJECTED \<equiv> 0xFF"

section \<open>\<open>include/iscsi-private.h\<close>\<close>

text \<open>\<open>#define\<close>s\<close>

abbreviation (input) ISCSI_RAW_HEADER_SIZE :: "'a::{zero,numeral}" where "ISCSI_RAW_HEADER_SIZE \<equiv> 48"
abbreviation (input) ISCSI_DIGEST_SIZE :: "'a::{zero,numeral}" where "ISCSI_DIGEST_SIZE \<equiv> 4"
abbreviation (input) MAX_CHAP_R_SIZE :: "'a::{zero,numeral}" where "MAX_CHAP_R_SIZE \<equiv> 32"
abbreviation (input) MAX_CHAP_C_LENGTH :: "'a::{zero,numeral}" where "MAX_CHAP_C_LENGTH \<equiv> 2048"
abbreviation (input) ISCSI_LOGIN_SECNEG_PHASE_OFFER_CHAP :: "'a::{zero,numeral}" where "ISCSI_LOGIN_SECNEG_PHASE_OFFER_CHAP \<equiv> 0"
abbreviation (input) ISCSI_LOGIN_SECNEG_PHASE_SELECT_ALGORITHM :: "'a::{zero,numeral}" where "ISCSI_LOGIN_SECNEG_PHASE_SELECT_ALGORITHM \<equiv> 1"
abbreviation (input) ISCSI_LOGIN_SECNEG_PHASE_SEND_RESPONSE :: "'a::{zero,numeral}" where "ISCSI_LOGIN_SECNEG_PHASE_SEND_RESPONSE \<equiv> 2"
abbreviation (input) ISCSI_PDU_IMMEDIATE :: "'a::{zero,numeral}" where "ISCSI_PDU_IMMEDIATE \<equiv> 0x40"
abbreviation (input) ISCSI_PDU_TEXT_FINAL :: "'a::{zero,numeral}" where "ISCSI_PDU_TEXT_FINAL \<equiv> 0x80"
abbreviation (input) ISCSI_PDU_TEXT_CONTINUE :: "'a::{zero,numeral}" where "ISCSI_PDU_TEXT_CONTINUE \<equiv> 0x40"
abbreviation (input) ISCSI_PDU_LOGIN_TRANSIT :: "'a::{zero,numeral}" where "ISCSI_PDU_LOGIN_TRANSIT \<equiv> 0x80"
abbreviation (input) ISCSI_PDU_LOGIN_CONTINUE :: "'a::{zero,numeral}" where "ISCSI_PDU_LOGIN_CONTINUE \<equiv> 0x40"
abbreviation (input) ISCSI_PDU_LOGIN_CSG_SECNEG :: "'a::{zero,numeral}" where "ISCSI_PDU_LOGIN_CSG_SECNEG \<equiv> 0x00"
abbreviation (input) ISCSI_PDU_LOGIN_CSG_OPNEG :: "'a::{zero,numeral}" where "ISCSI_PDU_LOGIN_CSG_OPNEG \<equiv> 0x04"
abbreviation (input) ISCSI_PDU_LOGIN_CSG_FF :: "'a::{zero,numeral}" where "ISCSI_PDU_LOGIN_CSG_FF \<equiv> 0x0c"
abbreviation (input) ISCSI_PDU_LOGIN_NSG_SECNEG :: "'a::{zero,numeral}" where "ISCSI_PDU_LOGIN_NSG_SECNEG \<equiv> 0x00"
abbreviation (input) ISCSI_PDU_LOGIN_NSG_OPNEG :: "'a::{zero,numeral}" where "ISCSI_PDU_LOGIN_NSG_OPNEG \<equiv> 0x01"
abbreviation (input) ISCSI_PDU_LOGIN_NSG_FF :: "'a::{zero,numeral}" where "ISCSI_PDU_LOGIN_NSG_FF \<equiv> 0x03"
abbreviation (input) ISCSI_PDU_SCSI_FINAL :: "'a::{zero,numeral}" where "ISCSI_PDU_SCSI_FINAL \<equiv> 0x80"
abbreviation (input) ISCSI_PDU_SCSI_READ :: "'a::{zero,numeral}" where "ISCSI_PDU_SCSI_READ \<equiv> 0x40"
abbreviation (input) ISCSI_PDU_SCSI_WRITE :: "'a::{zero,numeral}" where "ISCSI_PDU_SCSI_WRITE \<equiv> 0x20"
abbreviation (input) ISCSI_PDU_SCSI_ATTR_UNTAGGED :: "'a::{zero,numeral}" where "ISCSI_PDU_SCSI_ATTR_UNTAGGED \<equiv> 0x00"
abbreviation (input) ISCSI_PDU_SCSI_ATTR_SIMPLE :: "'a::{zero,numeral}" where "ISCSI_PDU_SCSI_ATTR_SIMPLE \<equiv> 0x01"
abbreviation (input) ISCSI_PDU_SCSI_ATTR_ORDERED :: "'a::{zero,numeral}" where "ISCSI_PDU_SCSI_ATTR_ORDERED \<equiv> 0x02"
abbreviation (input) ISCSI_PDU_SCSI_ATTR_HEADOFQUEUE :: "'a::{zero,numeral}" where "ISCSI_PDU_SCSI_ATTR_HEADOFQUEUE \<equiv> 0x03"
abbreviation (input) ISCSI_PDU_SCSI_ATTR_ACA :: "'a::{zero,numeral}" where "ISCSI_PDU_SCSI_ATTR_ACA \<equiv> 0x04"
abbreviation (input) ISCSI_PDU_DATA_FINAL :: "'a::{zero,numeral}" where "ISCSI_PDU_DATA_FINAL \<equiv> 0x80"
abbreviation (input) ISCSI_PDU_DATA_ACK_REQUESTED :: "'a::{zero,numeral}" where "ISCSI_PDU_DATA_ACK_REQUESTED \<equiv> 0x40"
abbreviation (input) ISCSI_PDU_DATA_BIDIR_OVERFLOW :: "'a::{zero,numeral}" where "ISCSI_PDU_DATA_BIDIR_OVERFLOW \<equiv> 0x10"
abbreviation (input) ISCSI_PDU_DATA_BIDIR_UNDERFLOW :: "'a::{zero,numeral}" where "ISCSI_PDU_DATA_BIDIR_UNDERFLOW \<equiv> 0x08"
abbreviation (input) ISCSI_PDU_DATA_RESIDUAL_OVERFLOW :: "'a::{zero,numeral}" where "ISCSI_PDU_DATA_RESIDUAL_OVERFLOW \<equiv> 0x04"
abbreviation (input) ISCSI_PDU_DATA_RESIDUAL_UNDERFLOW :: "'a::{zero,numeral}" where "ISCSI_PDU_DATA_RESIDUAL_UNDERFLOW \<equiv> 0x02"
abbreviation (input) ISCSI_PDU_DATA_CONTAINS_STATUS :: "'a::{zero,numeral}" where "ISCSI_PDU_DATA_CONTAINS_STATUS \<equiv> 0x01"
text \<open>\<open>enum iscsi_opcode\<close>\<close>

abbreviation (input) ISCSI_PDU_NOP_OUT :: "'a::{zero,numeral}" where "ISCSI_PDU_NOP_OUT \<equiv> 0x00"
abbreviation (input) ISCSI_PDU_SCSI_REQUEST :: "'a::{zero,numeral}" where "ISCSI_PDU_SCSI_REQUEST \<equiv> 0x01"
abbreviation (input) ISCSI_PDU_SCSI_TASK_MANAGEMENT_REQUEST :: "'a::{zero,numeral}" where "ISCSI_PDU_SCSI_TASK_MANAGEMENT_REQUEST \<equiv> 0x02"
abbreviation (input) ISCSI_PDU_LOGIN_REQUEST :: "'a::{zero,numeral}" where "ISCSI_PDU_LOGIN_REQUEST \<equiv> 0x03"
abbreviation (input) ISCSI_PDU_TEXT_REQUEST :: "'a::{zero,numeral}" where "ISCSI_PDU_TEXT_REQUEST \<equiv> 0x04"
abbreviation (input) ISCSI_PDU_DATA_OUT :: "'a::{zero,numeral}" where "ISCSI_PDU_DATA_OUT \<equiv> 0x05"
abbreviation (input) ISCSI_PDU_LOGOUT_REQUEST :: "'a::{zero,numeral}" where "ISCSI_PDU_LOGOUT_REQUEST \<equiv> 0x06"
abbreviation (input) ISCSI_PDU_NOP_IN :: "'a::{zero,numeral}" where "ISCSI_PDU_NOP_IN \<equiv> 0x20"
abbreviation (input) ISCSI_PDU_SCSI_RESPONSE :: "'a::{zero,numeral}" where "ISCSI_PDU_SCSI_RESPONSE \<equiv> 0x21"
abbreviation (input) ISCSI_PDU_SCSI_TASK_MANAGEMENT_RESPONSE :: "'a::{zero,numeral}" where "ISCSI_PDU_SCSI_TASK_MANAGEMENT_RESPONSE \<equiv> 0x22"
abbreviation (input) ISCSI_PDU_LOGIN_RESPONSE :: "'a::{zero,numeral}" where "ISCSI_PDU_LOGIN_RESPONSE \<equiv> 0x23"
abbreviation (input) ISCSI_PDU_TEXT_RESPONSE :: "'a::{zero,numeral}" where "ISCSI_PDU_TEXT_RESPONSE \<equiv> 0x24"
abbreviation (input) ISCSI_PDU_DATA_IN :: "'a::{zero,numeral}" where "ISCSI_PDU_DATA_IN \<equiv> 0x25"
abbreviation (input) ISCSI_PDU_LOGOUT_RESPONSE :: "'a::{zero,numeral}" where "ISCSI_PDU_LOGOUT_RESPONSE \<equiv> 0x26"
abbreviation (input) ISCSI_PDU_R2T :: "'a::{zero,numeral}" where "ISCSI_PDU_R2T \<equiv> 0x31"
abbreviation (input) ISCSI_PDU_ASYNC_MSG :: "'a::{zero,numeral}" where "ISCSI_PDU_ASYNC_MSG \<equiv> 0x32"
abbreviation (input) ISCSI_PDU_REJECT :: "'a::{zero,numeral}" where "ISCSI_PDU_REJECT \<equiv> 0x3f"
abbreviation (input) ISCSI_PDU_NO_PDU :: "'a::{zero,numeral}" where "ISCSI_PDU_NO_PDU \<equiv> 0xff"
text \<open>\<open>#define\<close>s\<close>

abbreviation (input) ISCSI_PDU_DELETE_WHEN_SENT :: "'a::{zero,numeral}" where "ISCSI_PDU_DELETE_WHEN_SENT \<equiv> 0x00000001"
abbreviation (input) ISCSI_PDU_DROP_ON_RECONNECT :: "'a::{zero,numeral}" where "ISCSI_PDU_DROP_ON_RECONNECT \<equiv> 0x00000004"
abbreviation (input) ISCSI_PDU_CORK_WHEN_SENT :: "'a::{zero,numeral}" where "ISCSI_PDU_CORK_WHEN_SENT \<equiv> 0x00000008"

section \<open>\<open>lib/pdu.c\<close>\<close>

text \<open>\<open>enum iscsi_reject_reason\<close>\<close>

abbreviation (input) ISCSI_REJECT_RESERVED :: "'a::{zero,numeral}" where "ISCSI_REJECT_RESERVED \<equiv> 0x01"
abbreviation (input) ISCSI_REJECT_DATA_DIGEST_ERROR :: "'a::{zero,numeral}" where "ISCSI_REJECT_DATA_DIGEST_ERROR \<equiv> 0x02"
abbreviation (input) ISCSI_REJECT_SNACK_REJECT :: "'a::{zero,numeral}" where "ISCSI_REJECT_SNACK_REJECT \<equiv> 0x03"
abbreviation (input) ISCSI_REJECT_PROTOCOL_ERROR :: "'a::{zero,numeral}" where "ISCSI_REJECT_PROTOCOL_ERROR \<equiv> 0x04"
abbreviation (input) ISCSI_REJECT_COMMAND_NOT_SUPPORTED :: "'a::{zero,numeral}" where "ISCSI_REJECT_COMMAND_NOT_SUPPORTED \<equiv> 0x05"
abbreviation (input) ISCSI_REJECT_IMMEDIATE_COMMAND_REJECT :: "'a::{zero,numeral}" where "ISCSI_REJECT_IMMEDIATE_COMMAND_REJECT \<equiv> 0x06"
abbreviation (input) ISCSI_REJECT_TASK_IN_PROCESS :: "'a::{zero,numeral}" where "ISCSI_REJECT_TASK_IN_PROCESS \<equiv> 0x07"
abbreviation (input) ISCSI_REJECT_INVALID_DATA_ACK :: "'a::{zero,numeral}" where "ISCSI_REJECT_INVALID_DATA_ACK \<equiv> 0x08"
abbreviation (input) ISCSI_REJECT_INVALID_PDU_FIELD :: "'a::{zero,numeral}" where "ISCSI_REJECT_INVALID_PDU_FIELD \<equiv> 0x09"
abbreviation (input) ISCSI_REJECT_LONG_OPERATION_REJECT :: "'a::{zero,numeral}" where "ISCSI_REJECT_LONG_OPERATION_REJECT \<equiv> 0x0a"
abbreviation (input) ISCSI_REJECT_NEGOTIATION_RESET :: "'a::{zero,numeral}" where "ISCSI_REJECT_NEGOTIATION_RESET \<equiv> 0x0b"
abbreviation (input) ISCSI_REJECT_WAITING_FOR_LOGOUT :: "'a::{zero,numeral}" where "ISCSI_REJECT_WAITING_FOR_LOGOUT \<equiv> 0x0c"

end
