(* ===== verification/Scsi_Strings.thy ===== *)
theory Scsi_Strings
  imports Scsi_Constants
begin

text \<open>
  The diagnostic strings: \<open>iscsi_value_string_find\<close> of \<open>lib/utils.c\<close>, the tables that
  \<open>lib/scsi-lowlevel.c\<close> and \<open>lib/pdu.c\<close> search with it, and the \<open>switch\<close> functions that
  name the codes of inquiry data. A table is the list of its entries up to the
  terminator \<open>{0, NULL}\<close>, whose NULL string ends the loop.
\<close>

section \<open>\<open>lib/utils.c\<close>\<close>

type_synonym value_string = "cint \<times> string"

fun iscsi_value_string_find :: "value_string list \<Rightarrow> cint \<Rightarrow> string \<Rightarrow> string" where
  "iscsi_value_string_find [] val not_found = not_found"
| "iscsi_value_string_find ((v, str) # vals) val not_found =
     (if val = v then str else iscsi_value_string_find vals val not_found)"

section \<open>Tables\<close>

definition scsi_sense_key_str_table :: "value_string list" where
  "scsi_sense_key_str_table =
    [(SCSI_SENSE_NO_SENSE, ''NO SENSE''),
     (SCSI_SENSE_RECOVERED_ERROR, ''RECOVERED ERROR''),
     (SCSI_SENSE_NOT_READY, ''NOT READY''),
     (SCSI_SENSE_HARDWARE_ERROR, ''HARDWARE_ERROR''),
     (SCSI_SENSE_ILLEGAL_REQUEST, ''ILLEGAL_REQUEST''),
     (SCSI_SENSE_UNIT_ATTENTION, ''UNIT_ATTENTION''),
     (SCSI_SENSE_DATA_PROTECTION, ''DATA PROTECTION''),
     (SCSI_SENSE_BLANK_CHECK, ''BLANK CHECK''),
     (SCSI_SENSE_VENDOR_SPECIFIC, ''VENDOR SPECIFIC''),
     (SCSI_SENSE_COPY_ABORTED, ''COPY ABORTED''),
     (SCSI_SENSE_COMMAND_ABORTED, ''COMMAND ABORTED''),
     (SCSI_SENSE_OBSOLETE_ERROR_CODE, ''OBSOLETE_ERROR_CODE''),
     (SCSI_SENSE_OVERFLOW_COMMAND, ''OVERFLOW_COMMAND''),
     (SCSI_SENSE_MISCOMPARE, ''MISCOMPARE'')]"

definition scsi_sense_key_str :: "cint \<Rightarrow> string" where
  "scsi_sense_key_str key = iscsi_value_string_find scsi_sense_key_str_table key ''UNKNOWN''"

definition scsi_sense_ascq_str_table :: "value_string list" where
  "scsi_sense_ascq_str_table =
    [(SCSI_SENSE_ASCQ_SANITIZE_IN_PROGRESS, ''SANITIZE_IN_PROGRESS''),
     (SCSI_SENSE_ASCQ_WRITE_AFTER_SANITIZE_REQUIRED, ''WRITE_AFTER_SANITIZE_REQUIRED''),
     (SCSI_SENSE_ASCQ_INVALID_OPERATION_CODE, ''INVALID_OPERATION_CODE''),
     (SCSI_SENSE_ASCQ_LBA_OUT_OF_RANGE, ''LBA_OUT_OF_RANGE''),
     (SCSI_SENSE_ASCQ_INVALID_FIELD_IN_CDB, ''INVALID_FIELD_IN_CDB''),
     (SCSI_SENSE_ASCQ_LOGICAL_UNIT_NOT_SUPPORTED, ''LOGICAL_UNIT_NOT_SUPPORTED''),
     (SCSI_SENSE_ASCQ_PARAMETER_LIST_LENGTH_ERROR, ''PARAMETER_LIST_LENGTH_ERROR''),
     (SCSI_SENSE_ASCQ_INVALID_FIELD_IN_PARAMETER_LIST, ''INVALID_FIELD_IN_PARAMETER_LIST''),
     (SCSI_SENSE_ASCQ_WRITE_PROTECTED, ''WRITE_PROTECTED''),
     (SCSI_SENSE_ASCQ_WRITE_PROTECTED, ''WRITE_PROTECTED''),
     (SCSI_SENSE_ASCQ_HARDWARE_WRITE_PROTECTED, ''HARDWARE_WRITE_PROTECTED''),
     (SCSI_SENSE_ASCQ_SOFTWARE_WRITE_PROTECTED, ''SOFTWARE_WRITE_PROTECTED''),
     (SCSI_SENSE_ASCQ_MEDIUM_NOT_PRESENT, ''MEDIUM_NOT_PRESENT''),
     (SCSI_SENSE_ASCQ_MEDIUM_NOT_PRESENT_TRAY_CLOSED, ''MEDIUM_NOT_PRESENT-TRAY_CLOSED''),
     (SCSI_SENSE_ASCQ_MEDIUM_NOT_PRESENT_TRAY_OPEN, ''MEDIUM_NOT_PRESENT-TRAY_OPEN''),
     (SCSI_SENSE_ASCQ_BUS_RESET, ''BUS_RESET''),
     (SCSI_SENSE_ASCQ_POWER_ON_OCCURED, ''POWER_ON_OCCURED''),
     (SCSI_SENSE_ASCQ_SCSI_BUS_RESET_OCCURED, ''SCSI_BUS_RESET_OCCURED''),
     (SCSI_SENSE_ASCQ_BUS_DEVICE_RESET_FUNCTION_OCCURED, ''BUS_DEVICE_RESET_FUNCTION_OCCURED''),
     (SCSI_SENSE_ASCQ_DEVICE_INTERNAL_RESET, ''DEVICE_INTERNAL_RESET''),
     (SCSI_SENSE_ASCQ_TRANSCEIVER_MODE_CHANGED_TO_SINGLE_ENDED, ''TRANSCEIVER_MODE_CHANGED_TO_SINGLE_ENDED''),
     (SCSI_SENSE_ASCQ_TRANSCEIVER_MODE_CHANGED_TO_LVD, ''TRANSCEIVER_MODE_CHANGED_TO_LVD''),
     (SCSI_SENSE_ASCQ_MODE_PARAMETERS_CHANGED, ''MODE PARAMETERS CHANGED''),
     (SCSI_SENSE_ASCQ_CAPACITY_DATA_HAS_CHANGED, ''CAPACITY_DATA_HAS_CHANGED''),
     (SCSI_SENSE_ASCQ_THIN_PROVISION_SOFT_THRES_REACHED, ''THIN PROVISIONING SOFT THRESHOLD REACHED''),
     (SCSI_SENSE_ASCQ_INQUIRY_DATA_HAS_CHANGED, ''INQUIRY DATA HAS CHANGED''),
     (SCSI_SENSE_ASCQ_INTERNAL_TARGET_FAILURE, ''INTERNAL_TARGET_FAILURE''),
     (SCSI_SENSE_ASCQ_MISCOMPARE_DURING_VERIFY, ''MISCOMPARE_DURING_VERIFY''),
     (SCSI_SENSE_ASCQ_MISCOMPARE_VERIFY_OF_UNMAPPED_LBA, ''MISCOMPARE_VERIFY_OF_UNMAPPED_LBA''),
     (SCSI_SENSE_ASCQ_MEDIUM_LOAD_OR_EJECT_FAILED, ''MEDIUM_LOAD_OR_EJECT_FAILED''),
     (SCSI_SENSE_ASCQ_MEDIUM_REMOVAL_PREVENTED, ''SCSI_SENSE_ASCQ_MEDIUM_REMOVAL_PREVENTED'')]"

definition scsi_sense_ascq_str :: "cint \<Rightarrow> string" where
  "scsi_sense_ascq_str ascq = iscsi_value_string_find scsi_sense_ascq_str_table ascq ''UNKNOWN''"

definition scsi_pr_type_str_table :: "value_string list" where
  "scsi_pr_type_str_table =
    [(SCSI_PERSISTENT_RESERVE_TYPE_WRITE_EXCLUSIVE, ''Write Exclusive''),
     (SCSI_PERSISTENT_RESERVE_TYPE_EXCLUSIVE_ACCESS, ''Exclusive Access''),
     (SCSI_PERSISTENT_RESERVE_TYPE_WRITE_EXCLUSIVE_REGISTRANTS_ONLY, ''Write Exclusive, Registrants Only''),
     (SCSI_PERSISTENT_RESERVE_TYPE_EXCLUSIVE_ACCESS_REGISTRANTS_ONLY, ''Exclusive Access Registrants Only''),
     (SCSI_PERSISTENT_RESERVE_TYPE_WRITE_EXCLUSIVE_ALL_REGISTRANTS, ''Write Exclusive, All Registrants''),
     (SCSI_PERSISTENT_RESERVE_TYPE_EXCLUSIVE_ACCESS_ALL_REGISTRANTS, ''Exclusive Access, All Registrants'')]"

definition scsi_pr_type_str :: "cint \<Rightarrow> string" where
  "scsi_pr_type_str pr_type = iscsi_value_string_find scsi_pr_type_str_table pr_type ''UNKNOWN''"

definition scsi_opcode_str_table :: "value_string list" where
  "scsi_opcode_str_table =
    [(SCSI_OPCODE_TESTUNITREADY, ''TESTUNITREADY''),
     (SCSI_OPCODE_READ6, ''READ6''),
     (SCSI_OPCODE_INQUIRY, ''INQUIRY''),
     (SCSI_OPCODE_MODESELECT6, ''MODESELECT6''),
     (SCSI_OPCODE_RESERVE6, ''RESERVE6''),
     (SCSI_OPCODE_RELEASE6, ''RELEASE6''),
     (SCSI_OPCODE_MODESENSE6, ''MODESENSE6''),
     (SCSI_OPCODE_STARTSTOPUNIT, ''STARTSTOPUNIT''),
     (SCSI_OPCODE_PREVENTALLOW, ''PREVENTALLOW''),
     (SCSI_OPCODE_READCAPACITY10, ''READCAPACITY10''),
     (SCSI_OPCODE_READ10, ''READ10''),
     (SCSI_OPCODE_WRITE10, ''WRITE10''),
     (SCSI_OPCODE_WRITE_VERIFY10, ''WRITE VERIFY10''),
     (SCSI_OPCODE_VERIFY10, ''VERIFY10''),
     (SCSI_OPCODE_PREFETCH10, ''PREFETCH10''),
     (SCSI_OPCODE_SYNCHRONIZECACHE10, ''SYNCHRONIZECACHE10''),
     (SCSI_OPCODE_READ_DEFECT_DATA10, ''READ DEFECT DATA10''),
     (SCSI_OPCODE_WRITE_SAME10, ''WRITE SAME10''),
     (SCSI_OPCODE_UNMAP, ''UNMAP''),
     (SCSI_OPCODE_READTOC, ''READTOC''),
     (SCSI_OPCODE_SANITIZE, ''SANITIZE''),
     (SCSI_OPCODE_MODESELECT10, ''MODESELECT10''),
     (SCSI_OPCODE_MODESENSE10, ''MODESENSE10''),
     (SCSI_OPCODE_PERSISTENT_RESERVE_IN, ''PERSISTENT RESERVE IN''),
     (SCSI_OPCODE_PERSISTENT_RESERVE_OUT, ''PERSISTENT RESERVE OUT''),
     (SCSI_OPCODE_EXTENDED_COPY, ''EXTENDED COPY''),
     (SCSI_OPCODE_RECEIVE_COPY_RESULTS, ''RECEIVE COPY RESULTS''),
     (SCSI_OPCODE_READ16, ''READ16''),
     (SCSI_OPCODE_COMPARE_AND_WRITE, ''COMPARE AND WRITE''),
     (SCSI_OPCODE_WRITE16, ''WRITE16''),
     (SCSI_OPCODE_ORWRITE, ''ORWRITE''),
     (SCSI_OPCODE_WRITE_VERIFY16, ''WRITE VERIFY16''),
     (SCSI_OPCODE_VERIFY16, ''VERIFY16''),
     (SCSI_OPCODE_PREFETCH16, ''PREFETCH16''),
     (SCSI_OPCODE_SYNCHRONIZECACHE16, ''SYNCHRONIZECACHE16''),
     (SCSI_OPCODE_WRITE_SAME16, ''WRITE SAME16''),
     (SCSI_OPCODE_WRITE_ATOMIC16, ''WRITE ATOMIC16''),
     (SCSI_OPCODE_SERVICE_ACTION_IN, ''SERVICE ACTION IN''),
     (SCSI_OPCODE_REPORTLUNS, ''REPORTLUNS''),
     (SCSI_OPCODE_MAINTENANCE_IN, ''MAINTENANCE IN''),
     (SCSI_OPCODE_READ12, ''READ12''),
     (SCSI_OPCODE_WRITE12, ''WRITE12''),
     (SCSI_OPCODE_WRITE_VERIFY12, ''WRITE VERIFY12''),
     (SCSI_OPCODE_VERIFY12, ''VERIFY12''),
     (SCSI_OPCODE_READ_DEFECT_DATA12, ''READ DEFECT DATA12'')]"

definition scsi_opcode_str :: "cint \<Rightarrow> string" where
  "scsi_opcode_str opcode = iscsi_value_string_find scsi_opcode_str_table opcode ''UNKNOWN''"

definition iscsi_opcode_str_table :: "value_string list" where
  "iscsi_opcode_str_table =
    [(ISCSI_PDU_NOP_OUT, ''NOP_OUT''),
     (ISCSI_PDU_SCSI_REQUEST, ''SCSI_REQUEST''),
     (ISCSI_PDU_SCSI_TASK_MANAGEMENT_REQUEST, ''SCSI_TASK_MANAGEMENT_REQUEST''),
     (ISCSI_PDU_LOGIN_REQUEST, ''LOGIN_REQUEST''),
     (ISCSI_PDU_TEXT_REQUEST, ''TEXT_REQUEST''),
     (ISCSI_PDU_DATA_OUT, ''DATA_OUT''),
     (ISCSI_PDU_LOGOUT_REQUEST, ''LOGOUT_REQUEST''),
     (ISCSI_PDU_NOP_IN, ''NOP_IN''),
     (ISCSI_PDU_SCSI_RESPONSE, ''SCSI_RESPONSE''),
     (ISCSI_PDU_SCSI_TASK_MANAGEMENT_RESPONSE, ''SCSI_TASK_MANAGEMENT_RESPONSE''),
     (ISCSI_PDU_LOGIN_RESPONSE, ''LOGIN_RESPONSE''),
     (ISCSI_PDU_TEXT_RESPONSE, ''TEXT_RESPONSE''),
     (ISCSI_PDU_DATA_IN, ''DATA_IN''),
     (ISCSI_PDU_LOGOUT_RESPONSE, ''LOGOUT_RESPONSE''),
     (ISCSI_PDU_R2T, ''R2T''),
     (ISCSI_PDU_ASYNC_MSG, ''ASYNC_MSG''),
     (ISCSI_PDU_REJECT, ''REJECT''),
     (ISCSI_PDU_NO_PDU, ''NO_PDU'')]"

definition iscsi_opcode_str :: "cint \<Rightarrow> string" where
  "iscsi_opcode_str opcode = iscsi_value_string_find iscsi_opcode_str_table opcode ''UNKNOWN''"

section \<open>Switches\<close>

definition scsi_devtype_to_str :: "cint \<Rightarrow> string" where
  "scsi_devtype_to_str type =
     (if type = SCSI_INQUIRY_PERIPHERAL_DEVICE_TYPE_DIRECT_ACCESS then ''DIRECT_ACCESS''
     else if type = SCSI_INQUIRY_PERIPHERAL_DEVICE_TYPE_SEQUENTIAL_ACCESS then ''SEQUENTIAL_ACCESS''
     else if type = SCSI_INQUIRY_PERIPHERAL_DEVICE_TYPE_PRINTER then ''PRINTER''
     else if type = SCSI_INQUIRY_PERIPHERAL_DEVICE_TYPE_PROCESSOR then ''PROCESSOR''
     else if type = SCSI_INQUIRY_PERIPHERAL_DEVICE_TYPE_WRITE_ONCE then ''WRITE_ONCE''
     else if type = SCSI_INQUIRY_PERIPHERAL_DEVICE_TYPE_MMC then ''MMC''
     else if type = SCSI_INQUIRY_PERIPHERAL_DEVICE_TYPE_SCANNER then ''SCANNER''
     else if type = SCSI_INQUIRY_PERIPHERAL_DEVICE_TYPE_OPTICAL_MEMORY then ''OPTICAL_MEMORY''
     else if type = SCSI_INQUIRY_PERIPHERAL_DEVICE_TYPE_MEDIA_CHANGER then ''MEDIA_CHANGER''
     else if type = SCSI_INQUIRY_PERIPHERAL_DEVICE_TYPE_COMMUNICATIONS then ''COMMUNICATIONS''
     else if type = SCSI_INQUIRY_PERIPHERAL_DEVICE_TYPE_STORAGE_ARRAY_CONTROLLER then ''STORAGE_ARRAY_CONTROLLER''
     else if type = SCSI_INQUIRY_PERIPHERAL_DEVICE_TYPE_ENCLOSURE_SERVICES then ''ENCLOSURE_SERVICES''
     else if type = SCSI_INQUIRY_PERIPHERAL_DEVICE_TYPE_SIMPLIFIED_DIRECT_ACCESS then ''SIMPLIFIED_DIRECT_ACCESS''
     else if type = SCSI_INQUIRY_PERIPHERAL_DEVICE_TYPE_OPTICAL_CARD_READER then ''OPTICAL_CARD_READER''
     else if type = SCSI_INQUIRY_PERIPHERAL_DEVICE_TYPE_BRIDGE_CONTROLLER then ''BRIDGE_CONTROLLER''
     else if type = SCSI_INQUIRY_PERIPHERAL_DEVICE_TYPE_OSD then ''OSD''
     else if type = SCSI_INQUIRY_PERIPHERAL_DEVICE_TYPE_AUTOMATION then ''AUTOMATION''
     else if type = SCSI_INQUIRY_PERIPHERAL_DEVICE_TYPE_SEQURITY_MANAGER then ''SEQURITY_MANAGER''
     else if type = SCSI_INQUIRY_PERIPHERAL_DEVICE_TYPE_WELL_KNOWN_LUN then ''WELL_KNOWN_LUN''
     else if type = SCSI_INQUIRY_PERIPHERAL_DEVICE_TYPE_UNKNOWN then ''UNKNOWN''
     else ''unknown'')"

definition scsi_devqualifier_to_str :: "cint \<Rightarrow> string" where
  "scsi_devqualifier_to_str qualifier =
     (if qualifier = SCSI_INQUIRY_PERIPHERAL_QUALIFIER_CONNECTED then ''CONNECTED''
     else if qualifier = SCSI_INQUIRY_PERIPHERAL_QUALIFIER_DISCONNECTED then ''DISCONNECTED''
     else if qualifier = SCSI_INQUIRY_PERIPHERAL_QUALIFIER_NOT_SUPPORTED then ''NOT_SUPPORTED''
     else ''unknown'')"

definition scsi_version_to_str :: "cint \<Rightarrow> string" where
  "scsi_version_to_str version =
     (if version = SCSI_VERSION_SPC then ''ANSI INCITS 301-1997 (SPC)''
     else if version = SCSI_VERSION_SPC2 then ''ANSI INCITS 351-2001 (SPC-2)''
     else if version = SCSI_VERSION_SPC3 then ''ANSI INCITS 408-2005 (SPC-3)''
     else ''unknown'')"

definition scsi_version_descriptor_to_str :: "cint \<Rightarrow> string" where
  "scsi_version_descriptor_to_str version_descriptor =
     (if version_descriptor = SCSI_VERSION_DESCRIPTOR_ISCSI then ''iSCSI''
     else if version_descriptor = SCSI_VERSION_DESCRIPTOR_SBC then ''SBC''
     else if version_descriptor = SCSI_VERSION_DESCRIPTOR_SBC_ANSI_INCITS_306_1998 then ''SBC ANSI INCITS 306-1998''
     else if version_descriptor = SCSI_VERSION_DESCRIPTOR_SBC_T10_0996_D_R08C then ''SBC T10/0996-D revision 08c''
     else if version_descriptor = SCSI_VERSION_DESCRIPTOR_SBC_2 then ''SBC-2''
     else if version_descriptor = SCSI_VERSION_DESCRIPTOR_SBC_2_ISO_IEC_14776_322 then ''SBC-2 ISO/IEC 14776-322''
     else if version_descriptor = SCSI_VERSION_DESCRIPTOR_SBC_2_ANSI_INCITS_405_2005 then ''SBC-2 ANSI INCITS 405-2005''
     else if version_descriptor = SCSI_VERSION_DESCRIPTOR_SBC_2_T10_1417_D_R16 then ''SBC-2 T10/1417-D revision 16''
     else if version_descriptor = SCSI_VERSION_DESCRIPTOR_SBC_2_T10_1417_D_R5A then ''SBC-2 T10/1417-D revision 5A''
     else if version_descriptor = SCSI_VERSION_DESCRIPTOR_SBC_2_T10_1417_D_R15 then ''SBC-2 T10/1417-D revision 15''
     else if version_descriptor = SCSI_VERSION_DESCRIPTOR_SBC_3 then ''SBC-3''
     else if version_descriptor = SCSI_VERSION_DESCRIPTOR_SPC then ''SPC''
     else if version_descriptor = SCSI_VERSION_DESCRIPTOR_SPC_ANSI_INCITS_301_1997 then ''SPC ANSI INCITS 301-1997''
     else if version_descriptor = SCSI_VERSION_DESCRIPTOR_SPC_T10_0995_D_R11A then ''SPC T10/0995-D revision 11a''
     else if version_descriptor = SCSI_VERSION_DESCRIPTOR_SPC_2 then ''SPC-2''
     else if version_descriptor = SCSI_VERSION_DESCRIPTOR_SPC_2_ISO_IEC_14776_452 then ''SPC-2 ISO.IEC 14776-452''
     else if version_descriptor = SCSI_VERSION_DESCRIPTOR_SPC_2_ANSI_INCITS_351_2001 then ''SPC-2 ANSI INCITS 351-2001''
     else if version_descriptor = SCSI_VERSION_DESCRIPTOR_SPC_2_T10_1236_D_R20 then ''SPC-2 T10/1236-D revision 20''
     else if version_descriptor = SCSI_VERSION_DESCRIPTOR_SPC_2_T10_1236_D_R12 then ''SPC-2 T10/1236-D revision 12''
     else if version_descriptor = SCSI_VERSION_DESCRIPTOR_SPC_2_T10_1236_D_R18 then ''SPC-2 T10/1236-D revision 18''
     else if version_descriptor = SCSI_VERSION_DESCRIPTOR_SPC_2_T10_1236_D_R19 then ''SPC-2 T10/1236-D revision 19''
     else if version_descriptor = SCSI_VERSION_DESCRIPTOR_SPC_3 then ''SPC-3''
     else if version_descriptor = SCSI_VERSION_DESCRIPTOR_SPC_3_ISO_IEC_14776_453 then ''SPC-3 ISO/IEC 14776-453''
     else if version_descriptor = SCSI_VERSION_DESCRIPTOR_SPC_3_ANSI_INCITS_408_2005 then ''SPC-3 ANSI INCITS 408-2005''
     else if version_descriptor = SCSI_VERSION_DESCRIPTOR_SPC_3_T10_1416_D_R7 then ''SPC-3 T10/1416-D revision 7''
     else if version_descriptor = SCSI_VERSION_DESCRIPTOR_SPC_3_T10_1416_D_R21 then ''SPC-3 T10/1416-D revision 21''
     else if version_descriptor = SCSI_VERSION_DESCRIPTOR_SPC_3_T10_1416_D_R22 then ''SPC-3 T10/1416-D revision 22''
     else if version_descriptor = SCSI_VERSION_DESCRIPTOR_SPC_3_T10_1416_D_R23 then ''SPC-3 T10/1416-D revision 23''
     else if version_descriptor = SCSI_VERSION_DESCRIPTOR_SPC_4 then ''SPC-4''
     else if version_descriptor = SCSI_VERSION_DESCRIPTOR_SPC_4_T10_1731_D_R16 then ''SPC-4 T10/1731-D revision 16''
     else if version_descriptor = SCSI_VERSION_DESCRIPTOR_SPC_4_T10_1731_D_R18 then ''SPC-4 T10/1731-D revision 18''
     else if version_descriptor = SCSI_VERSION_DESCRIPTOR_SPC_4_T10_1731_D_R23 then ''SPC-4 T10/1731-D revision 23''
     else if version_descriptor = SCSI_VERSION_DESCRIPTOR_SSC then ''SSC''
     else if version_descriptor = SCSI_VERSION_DESCRIPTOR_UAS_T10_2095D_R04 then ''UAS T10/2095-D revision 04''
     else ''unknown'')"

definition scsi_inquiry_pagecode_to_str :: "cint \<Rightarrow> string" where
  "scsi_inquiry_pagecode_to_str pagecode =
     (if pagecode = SCSI_INQUIRY_PAGECODE_SUPPORTED_VPD_PAGES then ''SUPPORTED_VPD_PAGES''
     else if pagecode = SCSI_INQUIRY_PAGECODE_UNIT_SERIAL_NUMBER then ''UNIT_SERIAL_NUMBER''
     else if pagecode = SCSI_INQUIRY_PAGECODE_DEVICE_IDENTIFICATION then ''DEVICE_IDENTIFICATION''
     else if pagecode = SCSI_INQUIRY_PAGECODE_BLOCK_LIMITS then ''BLOCK_LIMITS''
     else if pagecode = SCSI_INQUIRY_PAGECODE_BLOCK_DEVICE_CHARACTERISTICS then ''BLOCK_DEVICE_CHARACTERISTICS''
     else if pagecode = SCSI_INQUIRY_PAGECODE_LOGICAL_BLOCK_PROVISIONING then ''LOGICAL_BLOCK_PROVISIONING''
     else ''unknown'')"

definition scsi_protocol_identifier_to_str :: "cint \<Rightarrow> string" where
  "scsi_protocol_identifier_to_str identifier =
     (if identifier = SCSI_PROTOCOL_IDENTIFIER_FIBRE_CHANNEL then ''FIBRE_CHANNEL''
     else if identifier = SCSI_PROTOCOL_IDENTIFIER_PARALLEL_SCSI then ''PARALLEL_SCSI''
     else if identifier = SCSI_PROTOCOL_IDENTIFIER_SSA then ''SSA''
     else if identifier = SCSI_PROTOCOL_IDENTIFIER_IEEE_1394 then ''IEEE_1394''
     else if identifier = SCSI_PROTOCOL_IDENTIFIER_RDMA then ''RDMA''
     else if identifier = SCSI_PROTOCOL_IDENTIFIER_ISCSI then ''ISCSI''
     else if identifier = SCSI_PROTOCOL_IDENTIFIER_SAS then ''SAS''
     else if identifier = SCSI_PROTOCOL_IDENTIFIER_ADT then ''ADT''
     else if identifier = SCSI_PROTOCOL_IDENTIFIER_ATA then ''ATA''
     else ''unknown'')"

definition scsi_codeset_to_str :: "cint \<Rightarrow> string" where
  "scsi_codeset_to_str codeset =
     (if codeset = SCSI_CODESET_BINARY then ''BINARY''
     else if codeset = SCSI_CODESET_ASCII then ''ASCII''
     else if codeset = SCSI_CODESET_UTF8 then ''UTF8''
     else ''unknown'')"

definition scsi_association_to_str :: "cint \<Rightarrow> string" where
  "scsi_association_to_str association =
     (if association = SCSI_ASSOCIATION_LOGICAL_UNIT then ''LOGICAL_UNIT''
     else if association = SCSI_ASSOCIATION_TARGET_PORT then ''TARGET_PORT''
     else if association = SCSI_ASSOCIATION_TARGET_DEVICE then ''TARGET_DEVICE''
     else ''unknown'')"

definition scsi_designator_type_to_str :: "cint \<Rightarrow> string" where
  "scsi_designator_type_to_str type =
     (if type = SCSI_DESIGNATOR_TYPE_VENDOR_SPECIFIC then ''VENDOR_SPECIFIC''
     else if type = SCSI_DESIGNATOR_TYPE_T10_VENDORT_ID then ''T10_VENDORT_ID''
     else if type = SCSI_DESIGNATOR_TYPE_EUI_64 then ''EUI_64''
     else if type = SCSI_DESIGNATOR_TYPE_NAA then ''NAA''
     else if type = SCSI_DESIGNATOR_TYPE_RELATIVE_TARGET_PORT then ''RELATIVE_TARGET_PORT''
     else if type = SCSI_DESIGNATOR_TYPE_TARGET_PORT_GROUP then ''TARGET_PORT_GROUP''
     else if type = SCSI_DESIGNATOR_TYPE_LOGICAL_UNIT_GROUP then ''LOGICAL_UNIT_GROUP''
     else if type = SCSI_DESIGNATOR_TYPE_MD5_LOGICAL_UNIT_IDENTIFIER then ''MD5_LOGICAL_UNIT_IDENTIFIER''
     else if type = SCSI_DESIGNATOR_TYPE_SCSI_NAME_STRING then ''SCSI_NAME_STRING''
     else ''unknown'')"

definition scsi_alua_state_to_str :: "u8 \<Rightarrow> string" where
  "scsi_alua_state_to_str state =
     (if state = SCSI_ALUA_ACTIVE_OPTIMIZED then ''ACTIVE-OPTIMIZED''
     else if state = SCSI_ALUA_ACTIVE_NONOPTIMIZED then ''ACTIVE-NONOPTIMIZED''
     else if state = SCSI_ALUA_STANDBY then ''STANDBY''
     else if state = SCSI_ALUA_UNAVAILABLE then ''UNAVAILABLE''
     else if state = SCSI_ALUA_LOGICAL_BLOCK_DEPENDENT then ''BLOCK-DEPENDENT''
     else if state = SCSI_ALUA_OFFLINE then ''OFFLINE''
     else if state = SCSI_ALUA_TRANSITIONING then ''TRANSITIONING''
     else ''unknown'')"

text \<open>The \<open>static\<close> function of \<open>lib/pdu.c\<close>.\<close>

definition iscsi_reject_reason_str :: "cint \<Rightarrow> string" where
  "iscsi_reject_reason_str reason =
     (if reason = ISCSI_REJECT_RESERVED then ''Reserved''
     else if reason = ISCSI_REJECT_DATA_DIGEST_ERROR then ''Data Digest Error''
     else if reason = ISCSI_REJECT_SNACK_REJECT then ''SNACK Reject''
     else if reason = ISCSI_REJECT_PROTOCOL_ERROR then ''Protocol Error''
     else if reason = ISCSI_REJECT_COMMAND_NOT_SUPPORTED then ''Command Not Supported''
     else if reason = ISCSI_REJECT_IMMEDIATE_COMMAND_REJECT then ''Immediate Command Reject''
     else if reason = ISCSI_REJECT_TASK_IN_PROCESS then ''Task In Process''
     else if reason = ISCSI_REJECT_INVALID_DATA_ACK then ''Invalid Data ACK''
     else if reason = ISCSI_REJECT_INVALID_PDU_FIELD then ''Invalid PDU Field''
     else if reason = ISCSI_REJECT_LONG_OPERATION_REJECT then ''Long Operation Reject''
     else if reason = ISCSI_REJECT_NEGOTIATION_RESET then ''Negotiation Reset''
     else if reason = ISCSI_REJECT_WAITING_FOR_LOGOUT then ''Waiting For Logout''
     else ''Unknown'')"

section \<open>Lookup\<close>

lemma iscsi_value_string_find_map_of:
  "iscsi_value_string_find vals val not_found =
   (case map_of vals val of None \<Rightarrow> not_found | Some str \<Rightarrow> str)"
  by (induction vals) auto

text \<open>A key of the table gets its first entry's string, anything else the default.\<close>

lemma iscsi_value_string_find_default:
  "val \<notin> fst ` set vals \<Longrightarrow> iscsi_value_string_find vals val not_found = not_found"
proof -
  assume "val \<notin> fst ` set vals"
  then have "map_of vals val = None" by (simp add: map_of_eq_None_iff)
  then show ?thesis by (simp add: iscsi_value_string_find_map_of)
qed

lemma iscsi_value_string_find_in:
  "val \<in> fst ` set vals \<Longrightarrow> iscsi_value_string_find vals val not_found \<in> snd ` set vals"
proof (induction vals)
  case (Cons e vals)
  then show ?case by (cases e) (auto simp: image_iff)
qed simp

section \<open>Properties\<close>

text \<open>
  \<open>scsi_opcode_str\<close> names exactly the operation codes of \<open>enum scsi_opcode\<close> that the
  library can build (45 of them): every other value, and only those, gives \<open>UNKNOWN\<close>.
\<close>

theorem scsi_opcode_str_unknown_iff:
  "scsi_opcode_str opcode = ''UNKNOWN'' \<longleftrightarrow> opcode \<notin> fst ` set scsi_opcode_str_table"
proof -
  have "''UNKNOWN'' \<notin> snd ` set scsi_opcode_str_table"
    by (simp add: scsi_opcode_str_table_def)
  then show ?thesis
    using iscsi_value_string_find_in [of opcode scsi_opcode_str_table "''UNKNOWN''"]
      iscsi_value_string_find_default [of opcode scsi_opcode_str_table "''UNKNOWN''"]
    by (metis scsi_opcode_str_def)
qed

text \<open>
  The sense key table has no entry for \<open>MEDIUM ERROR\<close>, so that key is reported as
  \<open>UNKNOWN\<close>; it is the only one of the fifteen keys of \<open>enum scsi_sense_key\<close> that is.
\<close>

theorem scsi_sense_key_str_gap:
  "{key. unat key \<le> 14 \<and> scsi_sense_key_str key = ''UNKNOWN''} = {SCSI_SENSE_MEDIUM_ERROR}"
proof -
  have "key \<in> set (map of_nat [0..<15])" if "unat key \<le> 14" for key :: cint
    using that by (auto intro!: image_eqI [of _ _ "unat key"])
  then have "{key. unat key \<le> 14 \<and> scsi_sense_key_str key = ''UNKNOWN''} =
      {key \<in> set (map of_nat [0..<15]). scsi_sense_key_str key = ''UNKNOWN''}"
    by (auto simp: upt_rec)
  also have "\<dots> = {SCSI_SENSE_MEDIUM_ERROR}"
    by (auto simp: upt_rec scsi_sense_key_str_def scsi_sense_key_str_table_def)
  finally show ?thesis .
qed

end
