(* ===== verification/Byte_Order.thy ===== *)
theory Byte_Order
  imports Iscsi_Prelude
begin

text \<open>
  The big-endian accessors of \<open>lib/scsi-lowlevel.c\<close> (\<open>scsi_get_uint16 .. scsi_set_uint64\<close>),
  through which every field of a PDU header, a CDB and a parameter block is read and
  written. A buffer is a list of bytes and a pointer into it an offset; a caller passes an
  offset whose bytes lie in the buffer.

  The locale \<open>byte_codec\<close> is the contract of a reader/writer pair of one width; it is
  interpreted on the three pairs of the code, and \<open>byte_codec_pair\<close> gives the frame
  law between fields of different widths.
\<close>

section \<open>The accessors\<close>

definition scsi_get_uint16 :: "bytes \<Rightarrow> nat \<Rightarrow> u16" where
  "scsi_get_uint16 c p = push_bit 8 (ucast (c ! p)) OR ucast (c ! (p + 1))"

definition scsi_get_uint32 :: "bytes \<Rightarrow> nat \<Rightarrow> u32" where
  "scsi_get_uint32 c p =
     (let val = ucast (c ! p);
          val = push_bit 8 val OR ucast (c ! (p + 1));
          val = push_bit 8 val OR ucast (c ! (p + 2));
          val = push_bit 8 val OR ucast (c ! (p + 3))
      in val)"

definition scsi_get_uint64 :: "bytes \<Rightarrow> nat \<Rightarrow> u64" where
  "scsi_get_uint64 c p =
     push_bit 32 (ucast (scsi_get_uint32 c p)) OR ucast (scsi_get_uint32 c (p + 4))"

definition scsi_set_uint16 :: "nat \<Rightarrow> u16 \<Rightarrow> bytes \<Rightarrow> bytes" where
  "scsi_set_uint16 p val c =
     (c[p := ucast (drop_bit 8 val)])[p + 1 := ucast val]"

definition scsi_set_uint32 :: "nat \<Rightarrow> u32 \<Rightarrow> bytes \<Rightarrow> bytes" where
  "scsi_set_uint32 p val c =
     (((c[p := ucast (drop_bit 24 val)])[p + 1 := ucast (drop_bit 16 val)])
        [p + 2 := ucast (drop_bit 8 val)])[p + 3 := ucast val]"

definition scsi_set_uint64 :: "nat \<Rightarrow> u64 \<Rightarrow> bytes \<Rightarrow> bytes" where
  "scsi_set_uint64 p v c =
     scsi_set_uint32 (p + 4) (ucast (v AND 0xffffffff))
       (scsi_set_uint32 p (ucast (drop_bit 32 v AND 0xffffffff)) c)"

section \<open>The contract of an accessor pair\<close>

text \<open>\<open>agree xs ys p n\<close>: two buffers of the same length hold the same \<open>n\<close> bytes at \<open>p\<close>.\<close>

definition agree :: "bytes \<Rightarrow> bytes \<Rightarrow> nat \<Rightarrow> nat \<Rightarrow> bool" where
  "agree xs ys p n \<longleftrightarrow> (\<forall>i < n. xs ! (p + i) = ys ! (p + i))"

lemma agree_update: "i < p \<or> p + n \<le> i \<Longrightarrow> agree (xs[i := b]) xs p n"
  by (auto simp: agree_def)

lemma agree_trans: "agree xs ys p n \<Longrightarrow> agree ys zs p n \<Longrightarrow> agree xs zs p n"
  by (simp add: agree_def)

locale byte_codec =
  fixes width :: nat
    and get :: "bytes \<Rightarrow> nat \<Rightarrow> 'w::len word"
    and put :: "nat \<Rightarrow> 'w word \<Rightarrow> bytes \<Rightarrow> bytes"
  assumes length_put: "length (put p v xs) = length xs"
    and get_put: "p + width \<le> length xs \<Longrightarrow> get (put p v xs) p = v"
    and put_frame: "q + n \<le> p \<or> p + width \<le> q \<Longrightarrow> agree (put p v xs) xs q n"
    and get_agree: "agree xs ys p width \<Longrightarrow> get xs p = get ys p"
begin

lemma get_update_other:
  "i < p \<or> p + width \<le> i \<Longrightarrow> get (xs[i := b]) p = get xs p"
  by (rule get_agree) (rule agree_update)

lemma nth_put_other: "i < p \<or> p + width \<le> i \<Longrightarrow> put p v xs ! i = xs ! i"
  using put_frame [of i 1 p v xs] by (auto simp: agree_def)

lemma get_put_other:
  "q + width \<le> p \<or> p + width \<le> q \<Longrightarrow> get (put p v xs) q = get xs q"
  by (rule get_agree) (rule put_frame)

end

locale byte_codec_pair =
  r: byte_codec n get_r put_r + w: byte_codec m get_w put_w
  for n :: nat and get_r :: "bytes \<Rightarrow> nat \<Rightarrow> 'r::len word" and put_r
  and m :: nat and get_w :: "bytes \<Rightarrow> nat \<Rightarrow> 'w::len word" and put_w
begin

lemma get_put_frame:
  "q + n \<le> p \<or> p + m \<le> q \<Longrightarrow> get_r (put_w p v xs) q = get_r xs q"
  by (rule r.get_agree) (rule w.put_frame)

end

section \<open>The code's accessors meet the contract\<close>

lemma get_put_uint16:
  "p + 2 \<le> length xs \<Longrightarrow> scsi_get_uint16 (scsi_set_uint16 p v xs) p = v"
  by (rule word_eq_bitwise)
     (simp add: scsi_get_uint16_def scsi_set_uint16_def nth_list_update bit_eval)

lemma get_put_uint32:
  "p + 4 \<le> length xs \<Longrightarrow> scsi_get_uint32 (scsi_set_uint32 p v xs) p = v"
  by (rule word_eq_bitwise)
     (simp add: scsi_get_uint32_def scsi_set_uint32_def nth_list_update bit_eval)

interpretation be16: byte_codec 2 scsi_get_uint16 scsi_set_uint16
proof unfold_locales
  fix p :: nat and v :: u16 and xs ys :: bytes and q n :: nat
  show "length (scsi_set_uint16 p v xs) = length xs"
    by (simp add: scsi_set_uint16_def)
  show "p + 2 \<le> length xs \<Longrightarrow> scsi_get_uint16 (scsi_set_uint16 p v xs) p = v"
    by (rule get_put_uint16)
  show "q + n \<le> p \<or> p + 2 \<le> q \<Longrightarrow> agree (scsi_set_uint16 p v xs) xs q n"
    by (auto simp: scsi_set_uint16_def agree_def)
  show "agree xs ys p 2 \<Longrightarrow> scsi_get_uint16 xs p = scsi_get_uint16 ys p"
    by (simp add: agree_def scsi_get_uint16_def numeral_2_eq_2 less_Suc_eq all_conj_distrib)
qed

lemma agree_4: "agree xs ys p 4 \<Longrightarrow>
  xs ! p = ys ! p \<and> xs ! (p + 1) = ys ! (p + 1) \<and> xs ! (p + 2) = ys ! (p + 2) \<and>
  xs ! (p + 3) = ys ! (p + 3)"
  by (simp add: agree_def numeral_eq_Suc less_Suc_eq all_conj_distrib)

interpretation be32: byte_codec 4 scsi_get_uint32 scsi_set_uint32
proof unfold_locales
  fix p :: nat and v :: u32 and xs ys :: bytes and q n :: nat
  show "length (scsi_set_uint32 p v xs) = length xs"
    by (simp add: scsi_set_uint32_def)
  show "p + 4 \<le> length xs \<Longrightarrow> scsi_get_uint32 (scsi_set_uint32 p v xs) p = v"
    by (rule get_put_uint32)
  show "q + n \<le> p \<or> p + 4 \<le> q \<Longrightarrow> agree (scsi_set_uint32 p v xs) xs q n"
    by (auto simp: scsi_set_uint32_def agree_def)
  show "agree xs ys p 4 \<Longrightarrow> scsi_get_uint32 xs p = scsi_get_uint32 ys p"
    by (drule agree_4) (simp add: scsi_get_uint32_def)
qed

lemma join_halves:
  "push_bit 32 (ucast (ucast (drop_bit 32 v AND 0xffffffff) :: u32)) OR
     ucast (ucast (v AND 0xffffffff) :: u32) = (v :: u64)"
  by (rule word_eq_bitwise) (simp add: bit_eval)

lemma agree_split: "agree xs ys p (a + b) \<Longrightarrow> agree xs ys p a \<and> agree xs ys (p + a) b"
  by (auto simp: agree_def add.assoc)

interpretation be64: byte_codec 8 scsi_get_uint64 scsi_set_uint64
proof unfold_locales
  fix p :: nat and v :: u64 and xs ys :: bytes and q n :: nat
  show "length (scsi_set_uint64 p v xs) = length xs"
    by (simp add: scsi_set_uint64_def be32.length_put)
  show "p + 8 \<le> length xs \<Longrightarrow> scsi_get_uint64 (scsi_set_uint64 p v xs) p = v"
    by (simp add: scsi_get_uint64_def scsi_set_uint64_def be32.get_put_other be32.get_put
        be32.length_put join_halves)
  show "q + n \<le> p \<or> p + 8 \<le> q \<Longrightarrow> agree (scsi_set_uint64 p v xs) xs q n"
    unfolding scsi_set_uint64_def
    by (rule agree_trans [OF be32.put_frame be32.put_frame]) auto
  show "agree xs ys p 8 \<Longrightarrow> scsi_get_uint64 xs p = scsi_get_uint64 ys p"
    using agree_split [of xs ys p 4 4]
    by (simp add: scsi_get_uint64_def be32.get_agree [of xs ys p]
        be32.get_agree [of xs ys "p + 4"])
qed

interpretation be16_32: byte_codec_pair
  2 scsi_get_uint16 scsi_set_uint16 4 scsi_get_uint32 scsi_set_uint32 ..

interpretation be16_64: byte_codec_pair
  2 scsi_get_uint16 scsi_set_uint16 8 scsi_get_uint64 scsi_set_uint64 ..

interpretation be32_16: byte_codec_pair
  4 scsi_get_uint32 scsi_set_uint32 2 scsi_get_uint16 scsi_set_uint16 ..

interpretation be32_64: byte_codec_pair
  4 scsi_get_uint32 scsi_set_uint32 8 scsi_get_uint64 scsi_set_uint64 ..

interpretation be64_32: byte_codec_pair
  8 scsi_get_uint64 scsi_set_uint64 4 scsi_get_uint32 scsi_set_uint32 ..

interpretation be64_16: byte_codec_pair
  8 scsi_get_uint64 scsi_set_uint64 2 scsi_get_uint16 scsi_set_uint16 ..

lemmas codec_length [byte_simps, simp] =
  be16.length_put be32.length_put be64.length_put

lemmas codec_get [byte_simps] =
  be16.get_put be32.get_put be64.get_put
  be16.get_put_other be32.get_put_other be64.get_put_other
  be16_32.get_put_frame be16_64.get_put_frame be32_16.get_put_frame be32_64.get_put_frame
  be64_32.get_put_frame be64_16.get_put_frame

lemmas codec_update [byte_simps] =
  be16.get_update_other be32.get_update_other be64.get_update_other
  be16.nth_put_other be32.nth_put_other be64.nth_put_other

section \<open>The values of the bytes\<close>

text \<open>The accessors are the big-endian positional notation of the bytes.\<close>

lemma unat_byte_less: "unat (x :: u8) < 256"
  using unsigned_less [of x] by simp

lemma unat_byte_u16: "unat (ucast (x :: u8) :: u16) = unat x"
  using unat_byte_less [of x] by (simp add: unsigned_ucast_eq take_bit_eq_mod)

lemma unat_shifted_byte: "unat (push_bit 8 (ucast (x :: u8)) :: u16) = unat x * 256"
  using unat_byte_less [of x]
  by (simp only: unsigned_push_bit_eq unat_byte_u16) (simp add: push_bit_eq_mult take_bit_eq_mod)

lemma scsi_get_uint16_value:
  "unat (scsi_get_uint16 c p) = unat (c ! p) * 256 + unat (c ! (p + 1))"
proof -
  have disj: "push_bit 8 (ucast (c ! p)) AND ucast (c ! (p + 1)) = (0 :: u16)"
    by (rule word_eq_bitwise) (simp add: bit_eval)
  have "scsi_get_uint16 c p = push_bit 8 (ucast (c ! p)) + ucast (c ! (p + 1))"
    using word_plus_and_or [of "push_bit 8 (ucast (c ! p)) :: u16" "ucast (c ! (p + 1))"]
    by (simp only: scsi_get_uint16_def disj add_0)
  then show ?thesis
    using unat_byte_less [of "c ! p"] unat_byte_less [of "c ! (p + 1)"]
    by (simp only: unat_word_ariths unat_byte_u16 unat_shifted_byte) simp
qed

lemma byte_as_int: "unat (ucast (x :: u8) :: cint) = unat x"
  using unat_byte_less [of x] by (simp add: unsigned_ucast_eq take_bit_nat_eq_self)

text \<open>\<open>scsi_get_uint16\<close> on received data, undefined outside them.\<close>

definition rd_uint16 :: "bytes \<Rightarrow> nat \<Rightarrow> u16 option" where
  "rd_uint16 xs p = (if p + 2 \<le> length xs then Some (scsi_get_uint16 xs p) else None)"

text \<open>Counting in 32 bits.\<close>

lemma unat_add_of_nat: "unat w + n < 2 ^ 32 \<Longrightarrow> unat (w + of_nat n :: u32) = unat w + n"
  using unat_of_nat_small [of "unat w + n"] by simp

lemma unat_u32_less: "unat (w :: u32) < 2 ^ 32"
  using unsigned_less [of w] by simp

end
