(* ===== verification/Scsi_Task.thy ===== *)
theory Scsi_Task
  imports Byte_Order Scsi_Constants
begin

text \<open>
  \<open>struct scsi_task\<close> of \<open>include/scsi-lowlevel.h\<close> and its basic operations in
  \<open>lib/scsi-lowlevel.c\<close>: creation, the memory owned by a task, the I/O vectors and the
  bounds-checked accessors of the data-in buffer.

  \<open>datain.data\<close> and \<open>datain.size\<close> are one field, the list of the bytes received: the
  library sets both together. \<open>mem\<close> is the number of blocks on the task's list of
  allocated memory. Whether an allocation succeeds is the environment's choice: a
  \<open>bool\<close> argument for the allocation of the task itself, and an \<open>alloc_oracle\<close> for the
  blocks it owns (\<open>ok n\<close>: the allocation made when \<open>n\<close> blocks are owned succeeds).
\<close>

section \<open>Data\<close>

record scsi_sense =
  error_type :: u8
  key :: cint
  ascq :: cint
  sense_specific :: bool
  ill_param_in_cdb :: bool
  bit_pointer_valid :: bool
  info_valid :: bool
  bit_pointer :: u8
  field_pointer :: u16
  information :: u64

record scsi_iovec =
  iov_base :: nat
  iov_len :: nat

text \<open>
  \<open>iov\<close> is the allocated array, all of its slots; \<open>niov\<close> of them are in use. An array
  the application passes in (\<open>scsi_task_set_iov_in\<close>) leaves \<open>nalloc\<close> alone.
\<close>

record scsi_iovector =
  iov :: "scsi_iovec list ptr"
  niov :: nat
  nalloc :: nat
  iov_offset :: nat
  consumed :: nat

record scsi_task =
  status :: cint
  cdb_size :: cint
  xfer_dir :: cint
  expxferlen :: cint
  cdb :: bytes
  residual_status :: cint
  residual :: u32
  sense :: scsi_sense
  datain :: bytes
  mem :: nat
  ptr_field :: "nat ptr"
  task_itt :: u32
  task_cmdsn :: u32
  task_lun :: u32
  iovector_in :: scsi_iovector
  iovector_out :: scsi_iovector

definition zero_sense :: scsi_sense where
  "zero_sense = \<lparr>error_type = 0, key = 0, ascq = 0, sense_specific = False,
     ill_param_in_cdb = False, bit_pointer_valid = False, info_valid = False,
     bit_pointer = 0, field_pointer = 0, information = 0\<rparr>"

definition zero_iovec :: scsi_iovec where
  "zero_iovec = \<lparr>iov_base = 0, iov_len = 0\<rparr>"

definition zero_iovector :: scsi_iovector where
  "zero_iovector = \<lparr>iov = NULL, niov = 0, nalloc = 0, iov_offset = 0, consumed = 0\<rparr>"

text \<open>The task after \<open>memset(task, 0, sizeof(struct scsi_task))\<close>.\<close>

definition zero_task :: scsi_task where
  "zero_task = \<lparr>status = 0, cdb_size = 0, xfer_dir = 0, expxferlen = 0,
     cdb = replicate SCSI_CDB_MAX_SIZE 0, residual_status = 0, residual = 0,
     sense = zero_sense, datain = [], mem = 0, ptr_field = NULL, task_itt = 0,
     task_cmdsn = 0, task_lun = 0, iovector_in = zero_iovector, iovector_out = zero_iovector\<rparr>"

section \<open>Creation and memory\<close>

text \<open>
  \<open>scsi_create_task\<close> copies \<open>cdb_size\<close> bytes of the caller's buffer into the 16 byte
  \<open>cdb\<close> field without a check of its own: outside that range the \<open>memcpy\<close> is undefined.
\<close>

definition scsi_create_task :: "bool \<Rightarrow> cint \<Rightarrow> bytes \<Rightarrow> cint \<Rightarrow> cint \<Rightarrow> scsi_task ptr option" where
  "scsi_create_task m sz buf dir len =
     (if \<not> m then Some NULL
      else if sint sz < 0 \<or> SCSI_CDB_MAX_SIZE < sint sz \<or> int (length buf) < sint sz
      then None
      else Some (Ptr (zero_task
        \<lparr>cdb := blit 0 (take (unat sz) buf) (cdb zero_task),
         cdb_size := sz, xfer_dir := dir, expxferlen := len\<rparr>)))"

type_synonym alloc_oracle = "nat \<Rightarrow> bool"

text \<open>
  \<open>p = scsi_malloc(task, ..); if (p == NULL) return fail;\<close> then the rest of the
  operation, on the task with one more block on its list.
\<close>

definition scsi_malloc_or ::
  "'r \<Rightarrow> alloc_oracle \<Rightarrow> scsi_task \<Rightarrow> (scsi_task \<Rightarrow> 'r) \<Rightarrow> 'r" where
  "scsi_malloc_or fail ok task rest =
     (if ok (mem task) then rest (task\<lparr>mem := Suc (mem task)\<rparr>) else fail)"

definition scsi_set_task_private_ptr :: "scsi_task \<Rightarrow> nat ptr \<Rightarrow> scsi_task" where
  "scsi_set_task_private_ptr task p = task\<lparr>ptr_field := p\<rparr>"

definition scsi_get_task_private_ptr :: "scsi_task \<Rightarrow> nat ptr" where
  "scsi_get_task_private_ptr task = ptr_field task"

definition scsi_task_get_status :: "scsi_task \<Rightarrow> scsi_sense ptr \<Rightarrow> cint \<times> scsi_sense ptr" where
  "scsi_task_get_status task dst =
     (status task, case dst of NULL \<Rightarrow> NULL | Ptr _ \<Rightarrow> Ptr (sense task))"

section \<open>Reading the data-in buffer\<close>

text \<open>\<open>offset <= task->datain.size - 8\<close>, with the subtraction on the other side.\<close>

definition task_get_uint64 :: "scsi_task \<Rightarrow> nat \<Rightarrow> u64" where
  "task_get_uint64 task off =
     (if off + 8 \<le> length (datain task) then scsi_get_uint64 (datain task) off else 0)"

definition task_get_uint32 :: "scsi_task \<Rightarrow> nat \<Rightarrow> u32" where
  "task_get_uint32 task off =
     (if off + 4 \<le> length (datain task) then scsi_get_uint32 (datain task) off else 0)"

definition task_get_uint16 :: "scsi_task \<Rightarrow> nat \<Rightarrow> u16" where
  "task_get_uint16 task off =
     (if off + 2 \<le> length (datain task) then scsi_get_uint16 (datain task) off else 0)"

definition task_get_uint8 :: "scsi_task \<Rightarrow> nat \<Rightarrow> u8" where
  "task_get_uint8 task off =
     (if off + 1 \<le> length (datain task) then datain task ! off else 0)"

lemma task_get_mem [simp]:
  "task_get_uint8 (task\<lparr>mem := k\<rparr>) = task_get_uint8 task"
  "task_get_uint16 (task\<lparr>mem := k\<rparr>) = task_get_uint16 task"
  "task_get_uint32 (task\<lparr>mem := k\<rparr>) = task_get_uint32 task"
  "task_get_uint64 (task\<lparr>mem := k\<rparr>) = task_get_uint64 task"
  by (simp_all add: fun_eq_iff task_get_uint8_def task_get_uint16_def task_get_uint32_def
      task_get_uint64_def)

section \<open>I/O vectors\<close>

definition scsi_task_set_iov_out :: "scsi_task \<Rightarrow> scsi_iovec list ptr \<Rightarrow> nat \<Rightarrow> scsi_task" where
  "scsi_task_set_iov_out task v n =
     task\<lparr>iovector_out := (iovector_out task)\<lparr>iov := v, niov := n\<rparr>\<rparr>"

definition scsi_task_set_iov_in :: "scsi_task \<Rightarrow> scsi_iovec list ptr \<Rightarrow> nat \<Rightarrow> scsi_task" where
  "scsi_task_set_iov_in task v n =
     task\<lparr>iovector_in := (iovector_in task)\<lparr>iov := v, niov := n\<rparr>\<rparr>"

definition scsi_task_reset_iov :: "scsi_iovector \<Rightarrow> scsi_iovector" where
  "scsi_task_reset_iov v = v\<lparr>iov_offset := 0, consumed := 0\<rparr>"

definition IOVECTOR_INITAL_ALLOC :: nat where
  "IOVECTOR_INITAL_ALLOC = 16"

text \<open>
  \<open>scsi_iovector_add\<close>: the return value, the task (its memory) and the vector. The
  growth step copies \<open>niov\<close> entries into the new array of \<open>2 * nalloc\<close> slots, and the
  entry is stored in slot \<open>niov\<close>: both are undefined when they leave the array.
\<close>

definition iov_store :: "scsi_iovector \<Rightarrow> nat \<Rightarrow> nat \<Rightarrow> scsi_iovector option" where
  "iov_store v len buf =
     (case iov v of
        NULL \<Rightarrow> None
      | Ptr xs \<Rightarrow>
          if niov v < length xs
          then Some (v\<lparr>iov := Ptr (xs[niov v := \<lparr>iov_base = buf, iov_len = len\<rparr>]),
                       niov := Suc (niov v)\<rparr>)
          else None)"

definition iov_grow :: "scsi_iovector \<Rightarrow> scsi_iovector option" where
  "iov_grow v =
     (case iov v of
        NULL \<Rightarrow> None
      | Ptr old \<Rightarrow>
          if niov v \<le> length old \<and> niov v \<le> 2 * nalloc v
          then Some (v\<lparr>iov := Ptr (take (niov v) old
                              @ replicate (2 * nalloc v - niov v) zero_iovec),
                       nalloc := 2 * nalloc v\<rparr>)
          else None)"

definition scsi_iovector_add ::
  "alloc_oracle \<Rightarrow> scsi_task \<Rightarrow> scsi_iovector \<Rightarrow> cint \<Rightarrow> nat \<Rightarrow>
   (int \<times> scsi_task \<times> scsi_iovector) option" where
  "scsi_iovector_add ok task v len buf =
     (if sint len < 0 then Some (-1, task, v)
      else
        let rest = (\<lambda>task v.
          if nalloc v < niov v + 1 then
            scsi_malloc_or (Some (-1, task, v\<lparr>iov := NULL\<rparr>)) ok task (\<lambda>task. do {
              v \<leftarrow> iov_grow v;
              v \<leftarrow> iov_store v (unat len) buf;
              Some (0, task, v)
            })
          else do { v \<leftarrow> iov_store v (unat len) buf; Some (0, task, v) })
        in case iov v of
             NULL \<Rightarrow> scsi_malloc_or (Some (-1, task, v)) ok task (\<lambda>task.
               rest task (v\<lparr>iov := Ptr (replicate IOVECTOR_INITAL_ALLOC zero_iovec),
                            nalloc := IOVECTOR_INITAL_ALLOC\<rparr>))
           | Ptr xs \<Rightarrow> rest task v)"

definition scsi_task_add_data_in_buffer ::
  "alloc_oracle \<Rightarrow> scsi_task \<Rightarrow> cint \<Rightarrow> nat \<Rightarrow> (int \<times> scsi_task) option" where
  "scsi_task_add_data_in_buffer ok task len buf = do {
     (r, task, v) \<leftarrow> scsi_iovector_add ok task (iovector_in task) len buf;
     Some (r, task\<lparr>iovector_in := v\<rparr>)
   }"

definition scsi_task_add_data_out_buffer ::
  "alloc_oracle \<Rightarrow> scsi_task \<Rightarrow> cint \<Rightarrow> nat \<Rightarrow> (int \<times> scsi_task) option" where
  "scsi_task_add_data_out_buffer ok task len buf = do {
     (r, task, v) \<leftarrow> scsi_iovector_add ok task (iovector_out task) len buf;
     Some (r, task\<lparr>iovector_out := v\<rparr>)
   }"

section \<open>The vector behind an iovector\<close>

text \<open>What a vector holds, and the shape that \<open>scsi_iovector_add\<close> keeps.\<close>

definition iov_entries :: "scsi_iovector \<Rightarrow> scsi_iovec list" where
  "iov_entries v = (case iov v of NULL \<Rightarrow> [] | Ptr xs \<Rightarrow> take (niov v) xs)"

definition iov_wf :: "scsi_iovector \<Rightarrow> bool" where
  "iov_wf v \<longleftrightarrow>
     (case iov v of
        NULL \<Rightarrow> niov v = 0 \<and> nalloc v = 0
      | Ptr xs \<Rightarrow> length xs = nalloc v \<and> niov v \<le> nalloc v \<and> 0 < nalloc v)"

lemma iov_wf_zero: "iov_wf zero_iovector"
  by (simp add: iov_wf_def zero_iovector_def)

lemma iov_store_wf:
  assumes "iov v = Ptr xs" "length xs = nalloc v" "niov v < nalloc v"
  obtains v' where "iov_store v len buf = Some v'" "iov_wf v'"
    "iov_entries v' = iov_entries v @ [\<lparr>iov_base = buf, iov_len = len\<rparr>]"
    "nalloc v' = nalloc v"
  using assms
  by (simp add: iov_store_def iov_wf_def iov_entries_def take_Suc_conv_app_nth)

lemma iov_grow_wf:
  assumes "iov v = Ptr xs" "length xs = nalloc v" "niov v \<le> nalloc v"
  obtains v' ys where "iov_grow v = Some v'" "iov v' = Ptr ys" "length ys = nalloc v'"
    "nalloc v' = 2 * nalloc v" "niov v' = niov v" "iov_entries v' = iov_entries v"
  using assms by (simp add: iov_grow_def iov_entries_def)

text \<open>An add to an allocated vector: it is stored, after a growth where the array is full.\<close>

lemma scsi_iovector_add_Ptr:
  assumes v: "iov v = Ptr xs" "length xs = nalloc v" "niov v \<le> nalloc v" "0 < nalloc v"
    and len: "0 \<le> sint len" and ok: "\<And>n. ok n"
  shows "\<exists>task' v'. scsi_iovector_add ok task v len buf = Some (0, task', v') \<and> iov_wf v' \<and>
    iov_entries v' = iov_entries v @ [\<lparr>iov_base = buf, iov_len = unat len\<rparr>]"
proof (cases "nalloc v < niov v + 1")
  case True
  obtain v' ys where g: "iov_grow v = Some v'" "iov v' = Ptr ys" "length ys = nalloc v'"
    "nalloc v' = 2 * nalloc v" "niov v' = niov v" "iov_entries v' = iov_entries v"
    using iov_grow_wf [OF v(1,2,3)] by blast
  have "niov v' < nalloc v'" using g v by simp
  with g(2,3) obtain w where "iov_store v' (unat len) buf = Some w" "iov_wf w"
    "iov_entries w = iov_entries v' @ [\<lparr>iov_base = buf, iov_len = unat len\<rparr>]"
    by (rule iov_store_wf)
  with True g v len ok show ?thesis
    by (simp add: scsi_iovector_add_def scsi_malloc_or_def)
next
  case False
  then have "niov v < nalloc v" by simp
  with v(1,2) obtain w where "iov_store v (unat len) buf = Some w" "iov_wf w"
    "iov_entries w = iov_entries v @ [\<lparr>iov_base = buf, iov_len = unat len\<rparr>]"
    by (rule iov_store_wf)
  with False v len show ?thesis
    by (simp add: scsi_iovector_add_def)
qed

section \<open>Properties\<close>

text \<open>
  On a vector built by adds, \<open>scsi_iovector_add\<close> with a non-negative length and
  memory available returns 0, keeps the vector well formed (never writing outside its
  array, growing it when it is full) and appends exactly the given buffer to its entries.
\<close>

theorem scsi_iovector_add_appends:
  assumes "iov_wf v" "0 \<le> sint len" "\<And>n. ok n"
  shows "\<exists>task' v'. scsi_iovector_add ok task v len buf = Some (0, task', v') \<and> iov_wf v' \<and>
    iov_entries v' = iov_entries v @ [\<lparr>iov_base = buf, iov_len = unat len\<rparr>]"
proof (cases "iov v")
  case NULL
  let ?v = "v\<lparr>iov := Ptr (replicate IOVECTOR_INITAL_ALLOC zero_iovec),
              nalloc := IOVECTOR_INITAL_ALLOC\<rparr>"
  have "scsi_iovector_add ok task v len buf =
      scsi_iovector_add ok (task\<lparr>mem := Suc (mem task)\<rparr>) ?v len buf"
    using NULL assms(2,3) by (simp add: scsi_iovector_add_def scsi_malloc_or_def Let_def)
  moreover have "\<exists>task' v'. scsi_iovector_add ok (task\<lparr>mem := Suc (mem task)\<rparr>) ?v len buf =
      Some (0, task', v') \<and> iov_wf v' \<and>
      iov_entries v' = iov_entries ?v @ [\<lparr>iov_base = buf, iov_len = unat len\<rparr>]"
    using assms NULL
    by (intro scsi_iovector_add_Ptr [where xs = "replicate IOVECTOR_INITAL_ALLOC zero_iovec"])
       (simp_all add: iov_wf_def IOVECTOR_INITAL_ALLOC_def)
  moreover have "iov_entries ?v = iov_entries v"
    using assms(1) NULL by (simp add: iov_wf_def iov_entries_def)
  ultimately show ?thesis by simp
next
  case (Ptr xs)
  then show ?thesis
    using assms by (intro scsi_iovector_add_Ptr [of v xs]) (simp_all add: iov_wf_def)
qed

theorem scsi_iovector_add_appends_witness:
  "\<exists>task' v'. scsi_iovector_add (\<lambda>_. True) zero_task zero_iovector 512 4096 = Some (0, task', v') \<and>
    iov_wf v' \<and> iov_entries v' = iov_entries zero_iovector @ [\<lparr>iov_base = 4096, iov_len = unat (512 :: cint)\<rparr>]"
  by (rule scsi_iovector_add_appends) (simp_all add: iov_wf_zero)

text \<open>
  A vector the application installed with \<open>scsi_task_set_iov_in\<close> has no recorded
  capacity (\<open>nalloc\<close> stays 0), so adding a buffer to it allocates an array of zero entries
  and copies into it: undefined behaviour, for every such vector that holds an entry.
\<close>

theorem scsi_add_after_set_iov_undefined:
  assumes "nalloc (iovector_in task) = 0" "0 < n" "0 \<le> sint len" "ok (mem task)"
  shows "scsi_task_add_data_in_buffer ok (scsi_task_set_iov_in task (Ptr xs) n) len buf = None"
  using assms
  by (simp add: scsi_task_add_data_in_buffer_def scsi_task_set_iov_in_def scsi_iovector_add_def
      scsi_malloc_or_def iov_grow_def)

theorem scsi_add_after_set_iov_undefined_witness:
  "scsi_task_add_data_in_buffer (\<lambda>_. True)
     (scsi_task_set_iov_in zero_task (Ptr [\<lparr>iov_base = 4096, iov_len = 512\<rparr>]) 1) 512 8192 = None"
  by (rule scsi_add_after_set_iov_undefined) (simp_all add: zero_task_def zero_iovector_def)

section \<open>Allocations and the stores into them\<close>

text \<open>
  \<open>scsi_malloc(task, sz)\<close> with a \<open>size_t\<close> computed from a signed number that may be negative:
  with the 8 byte block header the request is \<open>8 + sz\<close> modulo \<open>2 ^ 64\<close>, and a sum below zero is
  a request of more than \<open>2 ^ 63\<close> bytes, which \<open>malloc\<close> refuses.
\<close>

definition scsi_malloc_sized :: "'r \<Rightarrow> alloc_oracle \<Rightarrow> scsi_task \<Rightarrow> int \<Rightarrow> (scsi_task \<Rightarrow> 'r) \<Rightarrow> 'r" where
  "scsi_malloc_sized fail ok task sz rest =
     (if 8 + sz < 0 then fail else scsi_malloc_or fail ok task rest)"

text \<open>
  A block of \<open>sz\<close> bytes of which the code fills the first \<open>need\<close>: the stores behind the block are
  undefined. The sizes and offsets of the structures are those of an LP64 target; a decoder
  requests the size its C code computes and needs the end of the last field that it stores.
\<close>

definition scsi_malloc_block ::
  "'r option \<Rightarrow> alloc_oracle \<Rightarrow> scsi_task \<Rightarrow> int \<Rightarrow> int \<Rightarrow> (scsi_task \<Rightarrow> 'r option) \<Rightarrow> 'r option" where
  "scsi_malloc_block fail ok task sz need rest =
     scsi_malloc_sized fail ok task sz (\<lambda>task. if need \<le> sz then rest task else None)"

lemma scsi_malloc_block_fits:
  assumes "0 \<le> sz" "need \<le> sz"
  shows "scsi_malloc_block fail ok task sz need rest = scsi_malloc_or fail ok task rest"
  using assms by (simp add: scsi_malloc_block_def scsi_malloc_sized_def scsi_malloc_or_def)

lemma scsi_malloc_block_defined:
  assumes "need \<le> sz \<or> 8 + sz < 0" "fail \<noteq> None" "\<And>t. rest t \<noteq> None"
  shows "scsi_malloc_block fail ok task sz need rest \<noteq> None"
  using assms by (auto simp: scsi_malloc_block_def scsi_malloc_sized_def scsi_malloc_or_def)

text \<open>An offset that an \<open>int\<close> can hold; a signed sum beyond it is undefined.\<close>

definition int_fits :: "nat \<Rightarrow> bool" where
  "int_fits n \<longleftrightarrow> n < 2 ^ 31"

end
