(* ===== verification/Scsi_Cdb.thy ===== *)
theory Scsi_Cdb
  imports Scsi_Task
begin

text \<open>
  The CDB builders of \<open>lib/scsi-lowlevel.c\<close> (\<open>scsi_cdb_*\<close>, \<open>scsi_reportluns_cdb\<close>), each as
  the sequence of stores of its C body. The first argument \<open>m\<close> says whether
  \<open>malloc(sizeof(struct scsi_task))\<close> returns memory. A builder that divides by the caller's
  block size has an \<open>option\<close> result, \<open>None\<close> being the division by zero.

  The predicate \<open>cdb_ok\<close> is what every built task satisfies: a 16 byte CDB buffer that starts
  with the operation code, has the length of the code's group and zeros behind it; \<open>xfer_ok\<close>
  says that its transfer direction is the one of the command, \<open>cdb_direction\<close>.
\<close>

section \<open>Stores into \<open>task->cdb\<close>\<close>

definition cdb_set :: "nat \<Rightarrow> u8 \<Rightarrow> scsi_task \<Rightarrow> scsi_task" where
  "cdb_set i b task = task\<lparr>cdb := (cdb task)[i := b]\<rparr>"

definition cdb_or :: "nat \<Rightarrow> u8 \<Rightarrow> scsi_task \<Rightarrow> scsi_task" where
  "cdb_or i b task = task\<lparr>cdb := (cdb task)[i := cdb task ! i OR b]\<rparr>"

definition cdb_set_uint16 :: "nat \<Rightarrow> u16 \<Rightarrow> scsi_task \<Rightarrow> scsi_task" where
  "cdb_set_uint16 p v task = task\<lparr>cdb := scsi_set_uint16 p v (cdb task)\<rparr>"

definition cdb_set_uint32 :: "nat \<Rightarrow> u32 \<Rightarrow> scsi_task \<Rightarrow> scsi_task" where
  "cdb_set_uint32 p v task = task\<lparr>cdb := scsi_set_uint32 p v (cdb task)\<rparr>"

text \<open>\<open>malloc\<close>, the NULL check and the \<open>memset\<close> with which every builder starts.\<close>

definition malloc_task :: "'r \<Rightarrow> bool \<Rightarrow> (scsi_task \<Rightarrow> 'r) \<Rightarrow> 'r" where
  "malloc_task fail m rest = (if m then rest zero_task else fail)"

section \<open>The builders\<close>

definition scsi_cdb_testunitready :: "bool \<Rightarrow> scsi_task ptr" where
  "scsi_cdb_testunitready m =
     malloc_task NULL m (\<lambda>task.
       let task = cdb_set 0 SCSI_OPCODE_TESTUNITREADY task
       in Ptr (task\<lparr>cdb_size := 6,
            xfer_dir := SCSI_XFER_NONE,
            expxferlen := 0\<rparr>))"

definition scsi_cdb_sanitize :: "bool \<Rightarrow> cint \<Rightarrow> cint \<Rightarrow> cint \<Rightarrow> cint \<Rightarrow> scsi_task ptr" where
  "scsi_cdb_sanitize m immed ause sa param_len =
     malloc_task NULL m (\<lambda>task.
       let task = cdb_set 0 SCSI_OPCODE_SANITIZE task;
           task = cdb_set 1 (ucast (sa AND 0x1f)) task;
           task = (if immed \<noteq> 0 then cdb_or 1 0x80 task else task);
           task = (if ause \<noteq> 0 then cdb_or 1 0x20 task else task);
           task = cdb_set_uint16 7 (ucast param_len) task
       in Ptr (task\<lparr>cdb_size := 10,
            xfer_dir := (if param_len \<noteq> 0 then SCSI_XFER_WRITE else SCSI_XFER_NONE),
            expxferlen := param_len + 3 AND 0xfffc\<rparr>))"

definition scsi_reportluns_cdb :: "bool \<Rightarrow> cint \<Rightarrow> cint \<Rightarrow> scsi_task ptr" where
  "scsi_reportluns_cdb m report_type alloc_len =
     malloc_task NULL m (\<lambda>task.
       let task = cdb_set 0 SCSI_OPCODE_REPORTLUNS task;
           task = cdb_set 2 (ucast report_type) task;
           task = cdb_set_uint32 6 alloc_len task
       in Ptr (task\<lparr>cdb_size := 12,
            xfer_dir := (if alloc_len \<noteq> 0 then SCSI_XFER_READ else SCSI_XFER_NONE),
            expxferlen := alloc_len\<rparr>))"

definition scsi_cdb_readcapacity10 :: "bool \<Rightarrow> cint \<Rightarrow> cint \<Rightarrow> scsi_task ptr" where
  "scsi_cdb_readcapacity10 m lba pmi =
     malloc_task NULL m (\<lambda>task.
       let task = cdb_set 0 SCSI_OPCODE_READCAPACITY10 task;
           task = cdb_set_uint32 2 lba task;
           task = (if pmi \<noteq> 0 then cdb_or 8 0x01 task else task)
       in Ptr (task\<lparr>cdb_size := 10,
            xfer_dir := SCSI_XFER_READ,
            expxferlen := 8\<rparr>))"

definition scsi_cdb_readdefectdata10 :: "bool \<Rightarrow> cint \<Rightarrow> cint \<Rightarrow> cint \<Rightarrow> u16 \<Rightarrow> scsi_task ptr" where
  "scsi_cdb_readdefectdata10 m req_plist req_glist defect_list_format alloc_len =
     malloc_task NULL m (\<lambda>task.
       let task = cdb_set 0 SCSI_OPCODE_READ_DEFECT_DATA10 task;
           task = (if req_plist \<noteq> 0 then cdb_or 2 0x10 task else task);
           task = (if req_glist \<noteq> 0 then cdb_or 2 0x08 task else task);
           task = cdb_or 2 (ucast (defect_list_format AND 0x07)) task;
           task = cdb_set_uint16 7 alloc_len task
       in Ptr (task\<lparr>cdb_size := 10,
            xfer_dir := SCSI_XFER_READ,
            expxferlen := ucast alloc_len\<rparr>))"

definition scsi_cdb_readdefectdata12 :: "bool \<Rightarrow> cint \<Rightarrow> cint \<Rightarrow> cint \<Rightarrow> u32 \<Rightarrow> u32 \<Rightarrow> scsi_task ptr" where
  "scsi_cdb_readdefectdata12 m req_plist req_glist defect_list_format address_descriptor_index alloc_len =
     malloc_task NULL m (\<lambda>task.
       let task = cdb_set 0 SCSI_OPCODE_READ_DEFECT_DATA12 task;
           task = (if req_plist \<noteq> 0 then cdb_or 2 0x10 task else task);
           task = (if req_glist \<noteq> 0 then cdb_or 2 0x08 task else task);
           task = cdb_or 2 (ucast (defect_list_format AND 0x07)) task;
           task = cdb_set_uint32 2 address_descriptor_index task;
           task = cdb_set_uint32 6 alloc_len task
       in Ptr (task\<lparr>cdb_size := 12,
            xfer_dir := SCSI_XFER_READ,
            expxferlen := alloc_len\<rparr>))"

definition scsi_cdb_readtoc :: "bool \<Rightarrow> cint \<Rightarrow> cint \<Rightarrow> cint \<Rightarrow> u16 \<Rightarrow> scsi_task ptr" where
  "scsi_cdb_readtoc m msf format track_session alloc_len =
     (if format \<noteq> SCSI_READ_TOC \<and> format \<noteq> SCSI_READ_SESSION_INFO \<and> format \<noteq> SCSI_READ_FULL_TOC
      then NULL
      else malloc_task NULL m (\<lambda>task.
       let task = cdb_set 0 SCSI_OPCODE_READTOC task;
           task = (if msf \<noteq> 0 then cdb_or 1 0x02 task else task);
           task = cdb_set 2 (ucast (format AND 0xf)) task;
           task = (if format = SCSI_READ_TOC \<or> format = SCSI_READ_FULL_TOC
                   then cdb_set 6 (ucast (0xff AND track_session)) task else task);
           task = cdb_set_uint16 7 alloc_len task
       in Ptr (task\<lparr>cdb_size := 10,
            xfer_dir := (if alloc_len \<noteq> 0 then SCSI_XFER_READ else SCSI_XFER_NONE),
            expxferlen := ucast alloc_len\<rparr>)))"

definition scsi_cdb_reserve6 :: "bool \<Rightarrow> scsi_task ptr" where
  "scsi_cdb_reserve6 m =
     malloc_task NULL m (\<lambda>task.
       let task = cdb_set 0 SCSI_OPCODE_RESERVE6 task
       in Ptr (task\<lparr>cdb_size := 6,
            xfer_dir := SCSI_XFER_NONE\<rparr>))"

definition scsi_cdb_release6 :: "bool \<Rightarrow> scsi_task ptr" where
  "scsi_cdb_release6 m =
     malloc_task NULL m (\<lambda>task.
       let task = cdb_set 0 SCSI_OPCODE_RELEASE6 task
       in Ptr (task\<lparr>cdb_size := 6,
            xfer_dir := SCSI_XFER_NONE\<rparr>))"

definition scsi_cdb_report_target_port_groups :: "bool \<Rightarrow> u32 \<Rightarrow> scsi_task ptr" where
  "scsi_cdb_report_target_port_groups m alloc_len =
     malloc_task NULL m (\<lambda>task.
       let task = cdb_set 0 SCSI_OPCODE_MAINTENANCE_IN task;
           task = cdb_set 1 SCSI_REPORT_TARGET_PORT_GROUPS task;
           task = cdb_set_uint32 6 alloc_len task
       in Ptr (task\<lparr>cdb_size := 12,
            xfer_dir := (if alloc_len \<noteq> 0 then SCSI_XFER_READ else SCSI_XFER_NONE),
            expxferlen := alloc_len\<rparr>))"

definition scsi_cdb_report_supported_opcodes :: "bool \<Rightarrow> cint \<Rightarrow> cint \<Rightarrow> cint \<Rightarrow> cint \<Rightarrow> u32 \<Rightarrow> scsi_task ptr" where
  "scsi_cdb_report_supported_opcodes m rctd options opcode sa alloc_len =
     malloc_task NULL m (\<lambda>task.
       let task = cdb_set 0 SCSI_OPCODE_MAINTENANCE_IN task;
           task = cdb_set 1 SCSI_REPORT_SUPPORTED_OP_CODES task;
           task = cdb_set 2 (ucast (options AND 0x07)) task;
           task = (if rctd \<noteq> 0 then cdb_or 2 0x80 task else task);
           task = cdb_set 3 (ucast opcode) task;
           task = cdb_set_uint16 4 (ucast sa) task;
           task = cdb_set_uint32 6 alloc_len task
       in Ptr (task\<lparr>cdb_size := 12,
            xfer_dir := (if alloc_len \<noteq> 0 then SCSI_XFER_READ else SCSI_XFER_NONE),
            expxferlen := alloc_len\<rparr>))"

definition scsi_cdb_inquiry :: "bool \<Rightarrow> cint \<Rightarrow> cint \<Rightarrow> cint \<Rightarrow> scsi_task ptr" where
  "scsi_cdb_inquiry m evpd page_code alloc_len =
     malloc_task NULL m (\<lambda>task.
       let task = cdb_set 0 SCSI_OPCODE_INQUIRY task;
           task = (if evpd \<noteq> 0 then cdb_or 1 0x01 task else task);
           task = cdb_set 2 (ucast page_code) task;
           task = cdb_set_uint16 3 (ucast alloc_len) task
       in Ptr (task\<lparr>cdb_size := 6,
            xfer_dir := (if alloc_len \<noteq> 0 then SCSI_XFER_READ else SCSI_XFER_NONE),
            expxferlen := alloc_len\<rparr>))"

text \<open>\<open>num_blocks\<close> is an \<open>int\<close>: the comparison with 256 is signed.\<close>

definition scsi_cdb_read6 :: "bool \<Rightarrow> u32 \<Rightarrow> u32 \<Rightarrow> cint \<Rightarrow> scsi_task ptr option" where
  "scsi_cdb_read6 m lba xferlen blocksize = do {
     num_blocks \<leftarrow> c_udiv xferlen blocksize;
     if 256 < sint num_blocks then Some NULL
     else if lba > 0x1fffff then Some NULL
     else malloc_task (Some NULL) m (\<lambda>task. do {
       let task = cdb_set 0 SCSI_OPCODE_READ6 task;
       let task = cdb_set 1 (ucast (drop_bit 16 lba AND 0x1f)) task;
       let task = cdb_set 2 (ucast (drop_bit 8 lba AND 0xff)) task;
       let task = cdb_set 3 (ucast (lba AND 0xff)) task;
       let task = (if sint num_blocks < 256 then cdb_set 4 (ucast (num_blocks AND 0xff)) task
                   else task);
       Some (Ptr (task\<lparr>cdb_size := 6,
         xfer_dir := (if xferlen \<noteq> 0 then SCSI_XFER_READ else SCSI_XFER_NONE),
         expxferlen := xferlen\<rparr>))
     })
   }"

definition scsi_cdb_read10 :: "bool \<Rightarrow> u32 \<Rightarrow> u32 \<Rightarrow> cint \<Rightarrow> cint \<Rightarrow> cint \<Rightarrow> cint \<Rightarrow> cint \<Rightarrow> cint \<Rightarrow> scsi_task ptr option" where
  "scsi_cdb_read10 m lba xferlen blocksize rdprotect dpo fua fua_nv group_number =
     malloc_task (Some NULL) m (\<lambda>task. do {
       let task = cdb_set 0 SCSI_OPCODE_READ10 task;
       let task = cdb_or 1 (ucast (push_bit 5 (rdprotect AND 0x07))) task;
       let task = (if dpo \<noteq> 0 then cdb_or 1 0x10 task else task);
       let task = (if fua \<noteq> 0 then cdb_or 1 0x08 task else task);
       let task = (if fua_nv \<noteq> 0 then cdb_or 1 0x02 task else task);
       let task = cdb_set_uint32 2 lba task;
       blocks \<leftarrow> c_udiv xferlen blocksize;
       let task = cdb_set_uint16 7 (ucast blocks) task;
       let task = cdb_or 6 (ucast (group_number AND 0x1f)) task;
       Some (Ptr (task\<lparr>cdb_size := 10,
            xfer_dir := (if xferlen \<noteq> 0 then SCSI_XFER_READ else SCSI_XFER_NONE),
            expxferlen := xferlen\<rparr>))
     })"

definition scsi_cdb_read12 :: "bool \<Rightarrow> u32 \<Rightarrow> u32 \<Rightarrow> cint \<Rightarrow> cint \<Rightarrow> cint \<Rightarrow> cint \<Rightarrow> cint \<Rightarrow> cint \<Rightarrow> scsi_task ptr option" where
  "scsi_cdb_read12 m lba xferlen blocksize rdprotect dpo fua fua_nv group_number =
     malloc_task (Some NULL) m (\<lambda>task. do {
       let task = cdb_set 0 SCSI_OPCODE_READ12 task;
       let task = cdb_or 1 (ucast (push_bit 5 (rdprotect AND 0x07))) task;
       let task = (if dpo \<noteq> 0 then cdb_or 1 0x10 task else task);
       let task = (if fua \<noteq> 0 then cdb_or 1 0x08 task else task);
       let task = (if fua_nv \<noteq> 0 then cdb_or 1 0x02 task else task);
       let task = cdb_set_uint32 2 lba task;
       blocks \<leftarrow> c_udiv xferlen blocksize;
       let task = cdb_set_uint32 6 blocks task;
       let task = cdb_or 10 (ucast (group_number AND 0x1f)) task;
       Some (Ptr (task\<lparr>cdb_size := 12,
            xfer_dir := (if xferlen \<noteq> 0 then SCSI_XFER_READ else SCSI_XFER_NONE),
            expxferlen := xferlen\<rparr>))
     })"

definition scsi_cdb_read16 :: "bool \<Rightarrow> u64 \<Rightarrow> u32 \<Rightarrow> cint \<Rightarrow> cint \<Rightarrow> cint \<Rightarrow> cint \<Rightarrow> cint \<Rightarrow> cint \<Rightarrow> scsi_task ptr option" where
  "scsi_cdb_read16 m lba xferlen blocksize rdprotect dpo fua fua_nv group_number =
     malloc_task (Some NULL) m (\<lambda>task. do {
       let task = cdb_set 0 SCSI_OPCODE_READ16 task;
       let task = cdb_or 1 (ucast (push_bit 5 (rdprotect AND 0x07))) task;
       let task = (if dpo \<noteq> 0 then cdb_or 1 0x10 task else task);
       let task = (if fua \<noteq> 0 then cdb_or 1 0x08 task else task);
       let task = (if fua_nv \<noteq> 0 then cdb_or 1 0x02 task else task);
       let task = cdb_set_uint32 2 (ucast (drop_bit 32 lba)) task;
       let task = cdb_set_uint32 6 (ucast (lba AND 0xffffffff)) task;
       blocks \<leftarrow> c_udiv xferlen blocksize;
       let task = cdb_set_uint32 10 blocks task;
       let task = cdb_or 14 (ucast (group_number AND 0x1f)) task;
       Some (Ptr (task\<lparr>cdb_size := 16,
            xfer_dir := (if xferlen \<noteq> 0 then SCSI_XFER_READ else SCSI_XFER_NONE),
            expxferlen := xferlen\<rparr>))
     })"

definition scsi_cdb_write10 :: "bool \<Rightarrow> u32 \<Rightarrow> u32 \<Rightarrow> cint \<Rightarrow> cint \<Rightarrow> cint \<Rightarrow> cint \<Rightarrow> cint \<Rightarrow> cint \<Rightarrow> scsi_task ptr option" where
  "scsi_cdb_write10 m lba xferlen blocksize wrprotect dpo fua fua_nv group_number =
     malloc_task (Some NULL) m (\<lambda>task. do {
       let task = cdb_set 0 SCSI_OPCODE_WRITE10 task;
       let task = cdb_or 1 (ucast (push_bit 5 (wrprotect AND 0x07))) task;
       let task = (if dpo \<noteq> 0 then cdb_or 1 0x10 task else task);
       let task = (if fua \<noteq> 0 then cdb_or 1 0x08 task else task);
       let task = (if fua_nv \<noteq> 0 then cdb_or 1 0x02 task else task);
       let task = cdb_set_uint32 2 lba task;
       blocks \<leftarrow> c_udiv xferlen blocksize;
       let task = cdb_set_uint16 7 (ucast blocks) task;
       let task = cdb_or 6 (ucast (group_number AND 0x1f)) task;
       Some (Ptr (task\<lparr>cdb_size := 10,
            xfer_dir := (if xferlen \<noteq> 0 then SCSI_XFER_WRITE else SCSI_XFER_NONE),
            expxferlen := xferlen\<rparr>))
     })"

definition scsi_cdb_write12 :: "bool \<Rightarrow> u32 \<Rightarrow> u32 \<Rightarrow> cint \<Rightarrow> cint \<Rightarrow> cint \<Rightarrow> cint \<Rightarrow> cint \<Rightarrow> cint \<Rightarrow> scsi_task ptr option" where
  "scsi_cdb_write12 m lba xferlen blocksize wrprotect dpo fua fua_nv group_number =
     malloc_task (Some NULL) m (\<lambda>task. do {
       let task = cdb_set 0 SCSI_OPCODE_WRITE12 task;
       let task = cdb_or 1 (ucast (push_bit 5 (wrprotect AND 0x07))) task;
       let task = (if dpo \<noteq> 0 then cdb_or 1 0x10 task else task);
       let task = (if fua \<noteq> 0 then cdb_or 1 0x08 task else task);
       let task = (if fua_nv \<noteq> 0 then cdb_or 1 0x02 task else task);
       let task = cdb_set_uint32 2 lba task;
       blocks \<leftarrow> c_udiv xferlen blocksize;
       let task = cdb_set_uint32 6 blocks task;
       let task = cdb_or 10 (ucast (group_number AND 0x1f)) task;
       Some (Ptr (task\<lparr>cdb_size := 12,
            xfer_dir := (if xferlen \<noteq> 0 then SCSI_XFER_WRITE else SCSI_XFER_NONE),
            expxferlen := xferlen\<rparr>))
     })"

definition scsi_cdb_write16 :: "bool \<Rightarrow> u64 \<Rightarrow> u32 \<Rightarrow> cint \<Rightarrow> cint \<Rightarrow> cint \<Rightarrow> cint \<Rightarrow> cint \<Rightarrow> cint \<Rightarrow> scsi_task ptr option" where
  "scsi_cdb_write16 m lba xferlen blocksize wrprotect dpo fua fua_nv group_number =
     malloc_task (Some NULL) m (\<lambda>task. do {
       let task = cdb_set 0 SCSI_OPCODE_WRITE16 task;
       let task = cdb_or 1 (ucast (push_bit 5 (wrprotect AND 0x07))) task;
       let task = (if dpo \<noteq> 0 then cdb_or 1 0x10 task else task);
       let task = (if fua \<noteq> 0 then cdb_or 1 0x08 task else task);
       let task = (if fua_nv \<noteq> 0 then cdb_or 1 0x02 task else task);
       let task = cdb_set_uint32 2 (ucast (drop_bit 32 lba)) task;
       let task = cdb_set_uint32 6 (ucast (lba AND 0xffffffff)) task;
       blocks \<leftarrow> c_udiv xferlen blocksize;
       let task = cdb_set_uint32 10 blocks task;
       let task = cdb_or 14 (ucast (group_number AND 0x1f)) task;
       Some (Ptr (task\<lparr>cdb_size := 16,
            xfer_dir := (if xferlen \<noteq> 0 then SCSI_XFER_WRITE else SCSI_XFER_NONE),
            expxferlen := xferlen\<rparr>))
     })"

definition scsi_cdb_writeatomic16 :: "bool \<Rightarrow> u64 \<Rightarrow> u32 \<Rightarrow> cint \<Rightarrow> cint \<Rightarrow> cint \<Rightarrow> cint \<Rightarrow> cint \<Rightarrow> scsi_task ptr option" where
  "scsi_cdb_writeatomic16 m lba xferlen blocksize wrprotect dpo fua group_number =
     malloc_task (Some NULL) m (\<lambda>task. do {
       let task = cdb_set 0 SCSI_OPCODE_WRITE_ATOMIC16 task;
       let task = cdb_or 1 (ucast (push_bit 5 (wrprotect AND 0x07))) task;
       let task = (if dpo \<noteq> 0 then cdb_or 1 0x10 task else task);
       let task = (if fua \<noteq> 0 then cdb_or 1 0x08 task else task);
       let task = cdb_set_uint32 2 (ucast (drop_bit 32 lba)) task;
       let task = cdb_set_uint32 6 (ucast (lba AND 0xffffffff)) task;
       blocks \<leftarrow> c_udiv xferlen blocksize;
       let task = cdb_set_uint16 12 (ucast blocks) task;
       let task = cdb_or 14 (ucast (group_number AND 0x1f)) task;
       Some (Ptr (task\<lparr>cdb_size := 16,
            xfer_dir := (if xferlen \<noteq> 0 then SCSI_XFER_WRITE else SCSI_XFER_NONE),
            expxferlen := xferlen\<rparr>))
     })"

definition scsi_cdb_orwrite :: "bool \<Rightarrow> u64 \<Rightarrow> u32 \<Rightarrow> cint \<Rightarrow> cint \<Rightarrow> cint \<Rightarrow> cint \<Rightarrow> cint \<Rightarrow> cint \<Rightarrow> scsi_task ptr option" where
  "scsi_cdb_orwrite m lba xferlen blocksize wrprotect dpo fua fua_nv group_number =
     malloc_task (Some NULL) m (\<lambda>task. do {
       let task = cdb_set 0 SCSI_OPCODE_ORWRITE task;
       let task = cdb_or 1 (ucast (push_bit 5 (wrprotect AND 0x07))) task;
       let task = (if dpo \<noteq> 0 then cdb_or 1 0x10 task else task);
       let task = (if fua \<noteq> 0 then cdb_or 1 0x08 task else task);
       let task = (if fua_nv \<noteq> 0 then cdb_or 1 0x02 task else task);
       let task = cdb_set_uint32 2 (ucast (drop_bit 32 lba)) task;
       let task = cdb_set_uint32 6 (ucast (lba AND 0xffffffff)) task;
       blocks \<leftarrow> c_udiv xferlen blocksize;
       let task = cdb_set_uint32 10 blocks task;
       let task = cdb_or 14 (ucast (group_number AND 0x1f)) task;
       Some (Ptr (task\<lparr>cdb_size := 16,
            xfer_dir := (if xferlen \<noteq> 0 then SCSI_XFER_WRITE else SCSI_XFER_NONE),
            expxferlen := xferlen\<rparr>))
     })"

definition scsi_cdb_compareandwrite :: "bool \<Rightarrow> u64 \<Rightarrow> u32 \<Rightarrow> cint \<Rightarrow> cint \<Rightarrow> cint \<Rightarrow> cint \<Rightarrow> cint \<Rightarrow> cint \<Rightarrow> scsi_task ptr option" where
  "scsi_cdb_compareandwrite m lba xferlen blocksize wrprotect dpo fua fua_nv group_number =
     malloc_task (Some NULL) m (\<lambda>task. do {
       let task = cdb_set 0 SCSI_OPCODE_COMPARE_AND_WRITE task;
       let task = cdb_or 1 (ucast (push_bit 5 (wrprotect AND 0x07))) task;
       let task = (if dpo \<noteq> 0 then cdb_or 1 0x10 task else task);
       let task = (if fua \<noteq> 0 then cdb_or 1 0x08 task else task);
       let task = (if fua_nv \<noteq> 0 then cdb_or 1 0x02 task else task);
       let task = cdb_set_uint32 2 (ucast (drop_bit 32 lba)) task;
       let task = cdb_set_uint32 6 (ucast (lba AND 0xffffffff)) task;
       blocks \<leftarrow> c_udiv xferlen blocksize;
       let task = cdb_set 13 (ucast (blocks div 2)) task;
       let task = cdb_or 14 (ucast (group_number AND 0x1f)) task;
       Some (Ptr (task\<lparr>cdb_size := 16,
            xfer_dir := (if xferlen \<noteq> 0 then SCSI_XFER_WRITE else SCSI_XFER_NONE),
            expxferlen := xferlen\<rparr>))
     })"

definition scsi_cdb_verify10 :: "bool \<Rightarrow> u32 \<Rightarrow> u32 \<Rightarrow> cint \<Rightarrow> cint \<Rightarrow> cint \<Rightarrow> cint \<Rightarrow> scsi_task ptr option" where
  "scsi_cdb_verify10 m lba xferlen vprotect dpo bytchk blocksize =
     malloc_task (Some NULL) m (\<lambda>task. do {
       let task = cdb_set 0 SCSI_OPCODE_VERIFY10 task;
       let task = (if vprotect \<noteq> 0 then cdb_or 1 (ucast (push_bit 5 vprotect AND 0xe0)) task else task);
       let task = (if dpo \<noteq> 0 then cdb_or 1 0x10 task else task);
       let task = (if bytchk \<noteq> 0 then cdb_or 1 0x02 task else task);
       let task = cdb_set_uint32 2 lba task;
       blocks \<leftarrow> c_udiv xferlen blocksize;
       let task = cdb_set_uint16 7 (ucast blocks) task;
       Some (Ptr (task\<lparr>cdb_size := 10,
            xfer_dir := (if xferlen \<noteq> 0 \<and> bytchk \<noteq> 0 then SCSI_XFER_WRITE else SCSI_XFER_NONE),
            expxferlen := (if xferlen \<noteq> 0 \<and> bytchk \<noteq> 0 then xferlen else 0)\<rparr>))
     })"

definition scsi_cdb_verify12 :: "bool \<Rightarrow> u32 \<Rightarrow> u32 \<Rightarrow> cint \<Rightarrow> cint \<Rightarrow> cint \<Rightarrow> cint \<Rightarrow> scsi_task ptr option" where
  "scsi_cdb_verify12 m lba xferlen vprotect dpo bytchk blocksize =
     malloc_task (Some NULL) m (\<lambda>task. do {
       let task = cdb_set 0 SCSI_OPCODE_VERIFY12 task;
       let task = (if vprotect \<noteq> 0 then cdb_or 1 (ucast (push_bit 5 vprotect AND 0xe0)) task else task);
       let task = (if dpo \<noteq> 0 then cdb_or 1 0x10 task else task);
       let task = (if bytchk \<noteq> 0 then cdb_or 1 0x02 task else task);
       let task = cdb_set_uint32 2 lba task;
       blocks \<leftarrow> c_udiv xferlen blocksize;
       let task = cdb_set_uint32 6 blocks task;
       Some (Ptr (task\<lparr>cdb_size := 12,
            xfer_dir := (if xferlen \<noteq> 0 \<and> bytchk \<noteq> 0 then SCSI_XFER_WRITE else SCSI_XFER_NONE),
            expxferlen := (if xferlen \<noteq> 0 \<and> bytchk \<noteq> 0 then xferlen else 0)\<rparr>))
     })"

definition scsi_cdb_verify16 :: "bool \<Rightarrow> u64 \<Rightarrow> u32 \<Rightarrow> cint \<Rightarrow> cint \<Rightarrow> cint \<Rightarrow> cint \<Rightarrow> scsi_task ptr option" where
  "scsi_cdb_verify16 m lba xferlen vprotect dpo bytchk blocksize =
     malloc_task (Some NULL) m (\<lambda>task. do {
       let task = cdb_set 0 SCSI_OPCODE_VERIFY16 task;
       let task = (if vprotect \<noteq> 0 then cdb_or 1 (ucast (push_bit 5 vprotect AND 0xe0)) task else task);
       let task = (if dpo \<noteq> 0 then cdb_or 1 0x10 task else task);
       let task = (if bytchk \<noteq> 0 then cdb_or 1 0x02 task else task);
       let task = cdb_set_uint32 2 (ucast (drop_bit 32 lba)) task;
       let task = cdb_set_uint32 6 (ucast (lba AND 0xffffffff)) task;
       blocks \<leftarrow> c_udiv xferlen blocksize;
       let task = cdb_set_uint32 10 blocks task;
       Some (Ptr (task\<lparr>cdb_size := 16,
            xfer_dir := (if xferlen \<noteq> 0 \<and> bytchk \<noteq> 0 then SCSI_XFER_WRITE else SCSI_XFER_NONE),
            expxferlen := (if xferlen \<noteq> 0 \<and> bytchk \<noteq> 0 then xferlen else 0)\<rparr>))
     })"

definition scsi_cdb_unmap :: "bool \<Rightarrow> cint \<Rightarrow> cint \<Rightarrow> u16 \<Rightarrow> scsi_task ptr" where
  "scsi_cdb_unmap m anchor grp xferlen =
     malloc_task NULL m (\<lambda>task.
       let task = cdb_set 0 SCSI_OPCODE_UNMAP task;
           task = (if anchor \<noteq> 0 then cdb_or 1 0x01 task else task);
           task = cdb_or 6 (ucast (grp AND 0x1f)) task;
           task = cdb_set_uint16 7 xferlen task
       in Ptr (task\<lparr>cdb_size := 10,
            xfer_dir := (if xferlen \<noteq> 0 then SCSI_XFER_WRITE else SCSI_XFER_NONE),
            expxferlen := ucast xferlen\<rparr>))"

definition scsi_cdb_persistent_reserve_in :: "bool \<Rightarrow> cint \<Rightarrow> u16 \<Rightarrow> scsi_task ptr" where
  "scsi_cdb_persistent_reserve_in m sa xferlen =
     malloc_task NULL m (\<lambda>task.
       let task = cdb_set 0 SCSI_OPCODE_PERSISTENT_RESERVE_IN task;
           task = cdb_or 1 (ucast (sa AND 0x1f)) task;
           task = cdb_set_uint16 7 xferlen task
       in Ptr (task\<lparr>cdb_size := 10,
            xfer_dir := (if xferlen \<noteq> 0 then SCSI_XFER_READ else SCSI_XFER_NONE),
            expxferlen := ucast xferlen\<rparr>))"

text \<open>
  \<open>scsi_cdb_persistent_reserve_out\<close> also builds the 24 byte parameter list, the second
  block of the task's memory, and makes it the data-out vector: the result is the task
  with the contents of that block.
\<close>

record scsi_persistent_reserve_out_basic =
  reservation_key :: u64
  service_action_reservation_key :: u64
  spec_i_pt :: u8
  all_tg_pt :: u8
  aptpl :: u8

definition pr_out_buffer :: "scsi_persistent_reserve_out_basic \<Rightarrow> bytes" where
  "pr_out_buffer basic =
     (let buf = replicate 24 0;
          buf = scsi_set_uint64 0 (reservation_key basic) buf;
          buf = scsi_set_uint64 8 (service_action_reservation_key basic) buf;
          buf = (if spec_i_pt basic \<noteq> 0 then buf[20 := buf ! 20 OR 0x08] else buf);
          buf = (if all_tg_pt basic \<noteq> 0 then buf[20 := buf ! 20 OR 0x04] else buf);
          buf = (if aptpl basic \<noteq> 0 then buf[20 := buf ! 20 OR 0x01] else buf)
      in buf)"

definition scsi_cdb_persistent_reserve_out ::
  "bool \<Rightarrow> alloc_oracle \<Rightarrow> cint \<Rightarrow> cint \<Rightarrow> cint \<Rightarrow> scsi_persistent_reserve_out_basic \<Rightarrow>
   (scsi_task \<times> bytes) ptr" where
  "scsi_cdb_persistent_reserve_out m ok sa scope type_code basic =
     malloc_task NULL m (\<lambda>task.
     scsi_malloc_or NULL ok task (\<lambda>task.
       if sa = SCSI_PERSISTENT_RESERVE_REGISTER \<or> sa = SCSI_PERSISTENT_RESERVE_RESERVE
        \<or> sa = SCSI_PERSISTENT_RESERVE_RELEASE \<or> sa = SCSI_PERSISTENT_RESERVE_CLEAR
        \<or> sa = SCSI_PERSISTENT_RESERVE_PREEMPT \<or> sa = SCSI_PERSISTENT_RESERVE_PREEMPT_AND_ABORT
        \<or> sa = SCSI_PERSISTENT_RESERVE_REGISTER_AND_IGNORE_EXISTING_KEY
       then scsi_malloc_or NULL ok task (\<lambda>task.
         let xferlen = 24;
             buf = pr_out_buffer basic;
             task = cdb_set 0 SCSI_OPCODE_PERSISTENT_RESERVE_OUT task;
             task = cdb_or 1 (ucast (sa AND 0x1f)) task;
             task = cdb_set 2 (ucast ((push_bit 4 scope AND 0xf0) OR (type_code AND 0x0f))) task;
             task = cdb_set_uint32 5 xferlen task;
             task = task\<lparr>cdb_size := 10, xfer_dir := SCSI_XFER_WRITE, expxferlen := xferlen\<rparr>;
             task = scsi_task_set_iov_out task
               (Ptr [\<lparr>iov_base = mem task - 1, iov_len = unat xferlen\<rparr>]) 1
         in Ptr (task, buf))
       else NULL))"

definition scsi_cdb_writesame10 :: "bool \<Rightarrow> cint \<Rightarrow> cint \<Rightarrow> cint \<Rightarrow> u32 \<Rightarrow> cint \<Rightarrow> u16 \<Rightarrow> u32 \<Rightarrow> scsi_task ptr" where
  "scsi_cdb_writesame10 m wrprotect anchor unmap lba grp num_blocks datalen =
     malloc_task NULL m (\<lambda>task.
       let task = cdb_set 0 SCSI_OPCODE_WRITE_SAME10 task;
           task = (if wrprotect \<noteq> 0 then cdb_or 1 (ucast (push_bit 5 (wrprotect AND 0x7))) task else task);
           task = (if anchor \<noteq> 0 then cdb_or 1 0x10 task else task);
           task = (if unmap \<noteq> 0 then cdb_or 1 0x08 task else task);
           task = cdb_set_uint32 2 lba task;
           task = (if grp \<noteq> 0 then cdb_or 6 (ucast (grp AND 0x1f)) task else task);
           task = cdb_set_uint16 7 num_blocks task
       in Ptr (task\<lparr>cdb_size := 10,
            xfer_dir := SCSI_XFER_WRITE,
            expxferlen := datalen\<rparr>))"

definition scsi_cdb_writesame16 :: "bool \<Rightarrow> cint \<Rightarrow> cint \<Rightarrow> cint \<Rightarrow> u64 \<Rightarrow> cint \<Rightarrow> u32 \<Rightarrow> u32 \<Rightarrow> scsi_task ptr" where
  "scsi_cdb_writesame16 m wrprotect anchor unmap lba grp num_blocks datalen =
     malloc_task NULL m (\<lambda>task.
       let task = cdb_set 0 SCSI_OPCODE_WRITE_SAME16 task;
           task = (if wrprotect \<noteq> 0 then cdb_or 1 (ucast (push_bit 5 (wrprotect AND 0x7))) task else task);
           task = (if anchor \<noteq> 0 then cdb_or 1 0x10 task else task);
           task = (if unmap \<noteq> 0 then cdb_or 1 0x08 task else task);
           task = (if datalen = 0 then cdb_or 1 0x01 task else task);
           task = cdb_set_uint32 2 (ucast (drop_bit 32 lba)) task;
           task = cdb_set_uint32 6 (ucast (lba AND 0xffffffff)) task;
           task = cdb_set_uint32 10 num_blocks task;
           task = (if grp \<noteq> 0 then cdb_or 14 (ucast (grp AND 0x1f)) task else task)
       in Ptr (task\<lparr>cdb_size := 16,
            xfer_dir := SCSI_XFER_WRITE,
            expxferlen := datalen\<rparr>))"

definition scsi_cdb_modesense6 :: "bool \<Rightarrow> cint \<Rightarrow> cint \<Rightarrow> cint \<Rightarrow> cint \<Rightarrow> u8 \<Rightarrow> scsi_task ptr" where
  "scsi_cdb_modesense6 m dbd pc page_code sub_page_code alloc_len =
     malloc_task NULL m (\<lambda>task.
       let task = cdb_set 0 SCSI_OPCODE_MODESENSE6 task;
           task = (if dbd \<noteq> 0 then cdb_or 1 0x08 task else task);
           task = cdb_set 2 (ucast (push_bit 6 pc OR page_code)) task;
           task = cdb_set 3 (ucast sub_page_code) task;
           task = cdb_set 4 alloc_len task
       in Ptr (task\<lparr>cdb_size := 6,
            xfer_dir := (if alloc_len \<noteq> 0 then SCSI_XFER_READ else SCSI_XFER_NONE),
            expxferlen := ucast alloc_len\<rparr>))"

definition scsi_cdb_modesense10 :: "bool \<Rightarrow> cint \<Rightarrow> cint \<Rightarrow> cint \<Rightarrow> cint \<Rightarrow> cint \<Rightarrow> u8 \<Rightarrow> scsi_task ptr" where
  "scsi_cdb_modesense10 m llbaa dbd pc page_code sub_page_code alloc_len =
     malloc_task NULL m (\<lambda>task.
       let task = cdb_set 0 SCSI_OPCODE_MODESENSE10 task;
           task = (if llbaa \<noteq> 0 then cdb_or 1 0x10 task else task);
           task = (if dbd \<noteq> 0 then cdb_or 1 0x08 task else task);
           task = cdb_set 2 (ucast (push_bit 6 pc OR page_code)) task;
           task = cdb_set 3 (ucast sub_page_code) task;
           task = cdb_set_uint16 7 (ucast alloc_len) task
       in Ptr (task\<lparr>cdb_size := 10,
            xfer_dir := (if alloc_len \<noteq> 0 then SCSI_XFER_READ else SCSI_XFER_NONE),
            expxferlen := ucast alloc_len\<rparr>))"

definition scsi_cdb_modeselect6 :: "bool \<Rightarrow> cint \<Rightarrow> cint \<Rightarrow> cint \<Rightarrow> scsi_task ptr" where
  "scsi_cdb_modeselect6 m pf sp param_len =
     malloc_task NULL m (\<lambda>task.
       let task = cdb_set 0 SCSI_OPCODE_MODESELECT6 task;
           task = (if pf \<noteq> 0 then cdb_or 1 0x10 task else task);
           task = (if sp \<noteq> 0 then cdb_or 1 0x01 task else task);
           task = cdb_set 4 (ucast param_len) task
       in Ptr (task\<lparr>cdb_size := 6,
            xfer_dir := (if param_len \<noteq> 0 then SCSI_XFER_WRITE else SCSI_XFER_NONE),
            expxferlen := param_len\<rparr>))"

definition scsi_cdb_modeselect10 :: "bool \<Rightarrow> cint \<Rightarrow> cint \<Rightarrow> cint \<Rightarrow> scsi_task ptr" where
  "scsi_cdb_modeselect10 m pf sp param_len =
     malloc_task NULL m (\<lambda>task.
       let task = cdb_set 0 SCSI_OPCODE_MODESELECT10 task;
           task = (if pf \<noteq> 0 then cdb_or 1 0x10 task else task);
           task = (if sp \<noteq> 0 then cdb_or 1 0x01 task else task);
           task = cdb_set_uint16 7 (ucast param_len) task
       in Ptr (task\<lparr>cdb_size := 10,
            xfer_dir := (if param_len \<noteq> 0 then SCSI_XFER_WRITE else SCSI_XFER_NONE),
            expxferlen := param_len\<rparr>))"

definition scsi_cdb_startstopunit :: "bool \<Rightarrow> cint \<Rightarrow> cint \<Rightarrow> cint \<Rightarrow> cint \<Rightarrow> cint \<Rightarrow> cint \<Rightarrow> scsi_task ptr" where
  "scsi_cdb_startstopunit m immed pcm pc no_flush loej start =
     malloc_task NULL m (\<lambda>task.
       let task = cdb_set 0 SCSI_OPCODE_STARTSTOPUNIT task;
           task = (if immed \<noteq> 0 then cdb_or 1 0x01 task else task);
           task = cdb_or 3 (ucast (pcm AND 0x0f)) task;
           task = cdb_or 4 (ucast (push_bit 4 pc AND 0xf0)) task;
           task = (if no_flush \<noteq> 0 then cdb_or 4 0x04 task else task);
           task = (if loej \<noteq> 0 then cdb_or 4 0x02 task else task);
           task = (if start \<noteq> 0 then cdb_or 4 0x01 task else task)
       in Ptr (task\<lparr>cdb_size := 6,
            xfer_dir := SCSI_XFER_NONE,
            expxferlen := 0\<rparr>))"

definition scsi_cdb_preventallow :: "bool \<Rightarrow> cint \<Rightarrow> scsi_task ptr" where
  "scsi_cdb_preventallow m prevent =
     malloc_task NULL m (\<lambda>task.
       let task = cdb_set 0 SCSI_OPCODE_PREVENTALLOW task;
           task = cdb_set 4 (ucast (prevent AND 0x03)) task
       in Ptr (task\<lparr>cdb_size := 6,
            xfer_dir := SCSI_XFER_NONE,
            expxferlen := 0\<rparr>))"

definition scsi_cdb_synchronizecache10 :: "bool \<Rightarrow> cint \<Rightarrow> cint \<Rightarrow> cint \<Rightarrow> cint \<Rightarrow> scsi_task ptr" where
  "scsi_cdb_synchronizecache10 m lba num_blocks syncnv immed =
     malloc_task NULL m (\<lambda>task.
       let task = cdb_set 0 SCSI_OPCODE_SYNCHRONIZECACHE10 task;
           task = (if syncnv \<noteq> 0 then cdb_or 1 0x04 task else task);
           task = (if immed \<noteq> 0 then cdb_or 1 0x02 task else task);
           task = cdb_set_uint32 2 lba task;
           task = cdb_set_uint16 7 (ucast num_blocks) task
       in Ptr (task\<lparr>cdb_size := 10,
            xfer_dir := SCSI_XFER_NONE,
            expxferlen := 0\<rparr>))"

definition scsi_cdb_synchronizecache16 :: "bool \<Rightarrow> u64 \<Rightarrow> u32 \<Rightarrow> cint \<Rightarrow> cint \<Rightarrow> scsi_task ptr" where
  "scsi_cdb_synchronizecache16 m lba num_blocks syncnv immed =
     malloc_task NULL m (\<lambda>task.
       let task = cdb_set 0 SCSI_OPCODE_SYNCHRONIZECACHE16 task;
           task = (if syncnv \<noteq> 0 then cdb_or 1 0x04 task else task);
           task = (if immed \<noteq> 0 then cdb_or 1 0x02 task else task);
           task = cdb_set_uint32 2 (ucast (drop_bit 32 lba)) task;
           task = cdb_set_uint32 6 (ucast (lba AND 0xffffffff)) task;
           task = cdb_set_uint32 10 num_blocks task
       in Ptr (task\<lparr>cdb_size := 16,
            xfer_dir := SCSI_XFER_NONE,
            expxferlen := 0\<rparr>))"

definition scsi_cdb_prefetch10 :: "bool \<Rightarrow> u32 \<Rightarrow> cint \<Rightarrow> cint \<Rightarrow> cint \<Rightarrow> scsi_task ptr" where
  "scsi_cdb_prefetch10 m lba num_blocks immed grp =
     malloc_task NULL m (\<lambda>task.
       let task = cdb_set 0 SCSI_OPCODE_PREFETCH10 task;
           task = (if immed \<noteq> 0 then cdb_or 1 0x02 task else task);
           task = cdb_set_uint32 2 lba task;
           task = cdb_or 6 (ucast (grp AND 0x1f)) task;
           task = cdb_set_uint16 7 (ucast num_blocks) task
       in Ptr (task\<lparr>cdb_size := 10,
            xfer_dir := SCSI_XFER_NONE,
            expxferlen := 0\<rparr>))"

definition scsi_cdb_prefetch16 :: "bool \<Rightarrow> u64 \<Rightarrow> cint \<Rightarrow> cint \<Rightarrow> cint \<Rightarrow> scsi_task ptr" where
  "scsi_cdb_prefetch16 m lba num_blocks immed grp =
     malloc_task NULL m (\<lambda>task.
       let task = cdb_set 0 SCSI_OPCODE_PREFETCH16 task;
           task = (if immed \<noteq> 0 then cdb_or 1 0x02 task else task);
           task = cdb_set_uint32 2 (ucast (drop_bit 32 lba)) task;
           task = cdb_set_uint32 6 (ucast (lba AND 0xffffffff)) task;
           task = cdb_set_uint32 10 num_blocks task;
           task = cdb_or 14 (ucast (grp AND 0x1f)) task
       in Ptr (task\<lparr>cdb_size := 16,
            xfer_dir := SCSI_XFER_NONE,
            expxferlen := 0\<rparr>))"

definition scsi_cdb_serviceactionin16 :: "bool \<Rightarrow> cint \<Rightarrow> u32 \<Rightarrow> scsi_task ptr" where
  "scsi_cdb_serviceactionin16 m sa xferlen =
     malloc_task NULL m (\<lambda>task.
       let task = cdb_set 0 SCSI_OPCODE_SERVICE_ACTION_IN task;
           task = cdb_set 1 (ucast sa) task;
           task = cdb_set_uint32 10 xferlen task
       in Ptr (task\<lparr>cdb_size := 16,
            xfer_dir := (if xferlen \<noteq> 0 then SCSI_XFER_READ else SCSI_XFER_NONE),
            expxferlen := xferlen\<rparr>))"

definition scsi_cdb_readcapacity16 :: "bool \<Rightarrow> scsi_task ptr" where
  "scsi_cdb_readcapacity16 m = scsi_cdb_serviceactionin16 m SCSI_READCAPACITY16 32"

definition scsi_cdb_get_lba_status :: "bool \<Rightarrow> u64 \<Rightarrow> u32 \<Rightarrow> scsi_task ptr" where
  "scsi_cdb_get_lba_status m starting_lba alloc_len =
     malloc_task NULL m (\<lambda>task.
       let task = cdb_set 0 SCSI_OPCODE_SERVICE_ACTION_IN task;
           task = cdb_set 1 SCSI_GET_LBA_STATUS task;
           task = cdb_set_uint32 2 (ucast (drop_bit 32 starting_lba)) task;
           task = cdb_set_uint32 6 (ucast (starting_lba AND 0xffffffff)) task;
           task = cdb_set_uint32 10 alloc_len task
       in Ptr (task\<lparr>cdb_size := 16,
            xfer_dir := (if alloc_len \<noteq> 0 then SCSI_XFER_READ else SCSI_XFER_NONE),
            expxferlen := alloc_len\<rparr>))"

definition scsi_cdb_writeverify10 :: "bool \<Rightarrow> u32 \<Rightarrow> u32 \<Rightarrow> cint \<Rightarrow> cint \<Rightarrow> cint \<Rightarrow> cint \<Rightarrow> cint \<Rightarrow> scsi_task ptr option" where
  "scsi_cdb_writeverify10 m lba xferlen blocksize wrprotect dpo bytchk group_number =
     malloc_task (Some NULL) m (\<lambda>task. do {
       let task = cdb_set 0 SCSI_OPCODE_WRITE_VERIFY10 task;
       let task = cdb_or 1 (ucast (push_bit 5 (wrprotect AND 0x07))) task;
       let task = (if dpo \<noteq> 0 then cdb_or 1 0x10 task else task);
       let task = (if bytchk \<noteq> 0 then cdb_or 1 0x02 task else task);
       let task = cdb_set_uint32 2 lba task;
       blocks \<leftarrow> c_udiv xferlen blocksize;
       let task = cdb_set_uint16 7 (ucast blocks) task;
       let task = cdb_or 6 (ucast (group_number AND 0x1f)) task;
       Some (Ptr (task\<lparr>cdb_size := 10,
            xfer_dir := (if xferlen \<noteq> 0 then SCSI_XFER_WRITE else SCSI_XFER_NONE),
            expxferlen := xferlen\<rparr>))
     })"

definition scsi_cdb_writeverify12 :: "bool \<Rightarrow> u32 \<Rightarrow> u32 \<Rightarrow> cint \<Rightarrow> cint \<Rightarrow> cint \<Rightarrow> cint \<Rightarrow> cint \<Rightarrow> scsi_task ptr option" where
  "scsi_cdb_writeverify12 m lba xferlen blocksize wrprotect dpo bytchk group_number =
     malloc_task (Some NULL) m (\<lambda>task. do {
       let task = cdb_set 0 SCSI_OPCODE_WRITE_VERIFY12 task;
       let task = cdb_or 1 (ucast (push_bit 5 (wrprotect AND 0x07))) task;
       let task = (if dpo \<noteq> 0 then cdb_or 1 0x10 task else task);
       let task = (if bytchk \<noteq> 0 then cdb_or 1 0x02 task else task);
       let task = cdb_set_uint32 2 lba task;
       blocks \<leftarrow> c_udiv xferlen blocksize;
       let task = cdb_set_uint32 6 blocks task;
       let task = cdb_or 10 (ucast (group_number AND 0x1f)) task;
       Some (Ptr (task\<lparr>cdb_size := 12,
            xfer_dir := (if xferlen \<noteq> 0 then SCSI_XFER_WRITE else SCSI_XFER_NONE),
            expxferlen := xferlen\<rparr>))
     })"

definition scsi_cdb_writeverify16 :: "bool \<Rightarrow> u64 \<Rightarrow> u32 \<Rightarrow> cint \<Rightarrow> cint \<Rightarrow> cint \<Rightarrow> cint \<Rightarrow> cint \<Rightarrow> scsi_task ptr option" where
  "scsi_cdb_writeverify16 m lba xferlen blocksize wrprotect dpo bytchk group_number =
     malloc_task (Some NULL) m (\<lambda>task. do {
       let task = cdb_set 0 SCSI_OPCODE_WRITE_VERIFY16 task;
       let task = cdb_or 1 (ucast (push_bit 5 (wrprotect AND 0x07))) task;
       let task = (if dpo \<noteq> 0 then cdb_or 1 0x10 task else task);
       let task = (if bytchk \<noteq> 0 then cdb_or 1 0x02 task else task);
       let task = cdb_set_uint32 2 (ucast (drop_bit 32 lba)) task;
       let task = cdb_set_uint32 6 (ucast (lba AND 0xffffffff)) task;
       blocks \<leftarrow> c_udiv xferlen blocksize;
       let task = cdb_set_uint32 10 blocks task;
       let task = cdb_or 14 (ucast (group_number AND 0x1f)) task;
       Some (Ptr (task\<lparr>cdb_size := 16,
            xfer_dir := (if xferlen \<noteq> 0 then SCSI_XFER_WRITE else SCSI_XFER_NONE),
            expxferlen := xferlen\<rparr>))
     })"

definition scsi_cdb_extended_copy :: "bool \<Rightarrow> cint \<Rightarrow> scsi_task ptr" where
  "scsi_cdb_extended_copy m param_len =
     malloc_task NULL m (\<lambda>task.
       let task = cdb_set 0 SCSI_OPCODE_EXTENDED_COPY task;
           task = cdb_set 10 (ucast (signed_drop_bit 24 param_len AND 0xFF)) task;
           task = cdb_set 11 (ucast (signed_drop_bit 16 param_len AND 0xFF)) task;
           task = cdb_set 12 (ucast (signed_drop_bit 8 param_len AND 0xFF)) task;
           task = cdb_set 13 (ucast (param_len AND 0xFF)) task
       in Ptr (task\<lparr>cdb_size := 16,
            xfer_dir := (if param_len \<noteq> 0 then SCSI_XFER_WRITE else xfer_dir task),
            expxferlen := param_len\<rparr>))"

definition scsi_cdb_receive_copy_results :: "bool \<Rightarrow> cint \<Rightarrow> cint \<Rightarrow> cint \<Rightarrow> scsi_task ptr" where
  "scsi_cdb_receive_copy_results m sa list_id xferlen =
     malloc_task NULL m (\<lambda>task.
       let task = cdb_set 0 SCSI_OPCODE_RECEIVE_COPY_RESULTS task;
           task = cdb_or 1 (ucast (sa AND 0x1f)) task;
           task = cdb_set 2 (ucast (list_id AND 0xFF)) task;
           task = cdb_set_uint32 10 xferlen task
       in Ptr (task\<lparr>cdb_size := 16,
            xfer_dir := (if xferlen \<noteq> 0 then SCSI_XFER_READ else SCSI_XFER_NONE),
            expxferlen := xferlen\<rparr>))"

section \<open>What the builders build\<close>

text \<open>
  \<open>cdb_built n op t\<close>: some builder, for some arguments, returns the task \<open>t\<close>; \<open>op\<close> and
  \<open>n\<close> are the operation code and CDB length its body names.
\<close>

inductive cdb_built :: "nat \<Rightarrow> u8 \<Rightarrow> scsi_task \<Rightarrow> bool" where
  "scsi_cdb_testunitready m = Ptr t \<Longrightarrow> cdb_built 6 SCSI_OPCODE_TESTUNITREADY t"
| "scsi_cdb_sanitize m immed ause sa param_len = Ptr t \<Longrightarrow> cdb_built 10 SCSI_OPCODE_SANITIZE t"
| "scsi_reportluns_cdb m report_type alloc_len = Ptr t \<Longrightarrow> cdb_built 12 SCSI_OPCODE_REPORTLUNS t"
| "scsi_cdb_readcapacity10 m lba pmi = Ptr t \<Longrightarrow> cdb_built 10 SCSI_OPCODE_READCAPACITY10 t"
| "scsi_cdb_readdefectdata10 m req_plist req_glist defect_list_format alloc_len = Ptr t \<Longrightarrow> cdb_built 10 SCSI_OPCODE_READ_DEFECT_DATA10 t"
| "scsi_cdb_readdefectdata12 m req_plist req_glist defect_list_format address_descriptor_index alloc_len = Ptr t \<Longrightarrow> cdb_built 12 SCSI_OPCODE_READ_DEFECT_DATA12 t"
| "scsi_cdb_readtoc m msf format track_session alloc_len = Ptr t \<Longrightarrow> cdb_built 10 SCSI_OPCODE_READTOC t"
| "scsi_cdb_reserve6 m = Ptr t \<Longrightarrow> cdb_built 6 SCSI_OPCODE_RESERVE6 t"
| "scsi_cdb_release6 m = Ptr t \<Longrightarrow> cdb_built 6 SCSI_OPCODE_RELEASE6 t"
| "scsi_cdb_report_target_port_groups m alloc_len = Ptr t \<Longrightarrow> cdb_built 12 SCSI_OPCODE_MAINTENANCE_IN t"
| "scsi_cdb_report_supported_opcodes m rctd options opcode sa alloc_len = Ptr t \<Longrightarrow> cdb_built 12 SCSI_OPCODE_MAINTENANCE_IN t"
| "scsi_cdb_inquiry m evpd page_code alloc_len = Ptr t \<Longrightarrow> cdb_built 6 SCSI_OPCODE_INQUIRY t"
| "scsi_cdb_read6 m lba xferlen blocksize = Some (Ptr t) \<Longrightarrow> cdb_built 6 SCSI_OPCODE_READ6 t"
| "scsi_cdb_read10 m lba xferlen blocksize rdprotect dpo fua fua_nv group_number = Some (Ptr t) \<Longrightarrow> cdb_built 10 SCSI_OPCODE_READ10 t"
| "scsi_cdb_read12 m lba xferlen blocksize rdprotect dpo fua fua_nv group_number = Some (Ptr t) \<Longrightarrow> cdb_built 12 SCSI_OPCODE_READ12 t"
| "scsi_cdb_read16 m lba xferlen blocksize rdprotect dpo fua fua_nv group_number = Some (Ptr t) \<Longrightarrow> cdb_built 16 SCSI_OPCODE_READ16 t"
| "scsi_cdb_write10 m lba xferlen blocksize wrprotect dpo fua fua_nv group_number = Some (Ptr t) \<Longrightarrow> cdb_built 10 SCSI_OPCODE_WRITE10 t"
| "scsi_cdb_write12 m lba xferlen blocksize wrprotect dpo fua fua_nv group_number = Some (Ptr t) \<Longrightarrow> cdb_built 12 SCSI_OPCODE_WRITE12 t"
| "scsi_cdb_write16 m lba xferlen blocksize wrprotect dpo fua fua_nv group_number = Some (Ptr t) \<Longrightarrow> cdb_built 16 SCSI_OPCODE_WRITE16 t"
| "scsi_cdb_writeatomic16 m lba xferlen blocksize wrprotect dpo fua group_number = Some (Ptr t) \<Longrightarrow> cdb_built 16 SCSI_OPCODE_WRITE_ATOMIC16 t"
| "scsi_cdb_orwrite m lba xferlen blocksize wrprotect dpo fua fua_nv group_number = Some (Ptr t) \<Longrightarrow> cdb_built 16 SCSI_OPCODE_ORWRITE t"
| "scsi_cdb_compareandwrite m lba xferlen blocksize wrprotect dpo fua fua_nv group_number = Some (Ptr t) \<Longrightarrow> cdb_built 16 SCSI_OPCODE_COMPARE_AND_WRITE t"
| "scsi_cdb_verify10 m lba xferlen vprotect dpo bytchk blocksize = Some (Ptr t) \<Longrightarrow> cdb_built 10 SCSI_OPCODE_VERIFY10 t"
| "scsi_cdb_verify12 m lba xferlen vprotect dpo bytchk blocksize = Some (Ptr t) \<Longrightarrow> cdb_built 12 SCSI_OPCODE_VERIFY12 t"
| "scsi_cdb_verify16 m lba xferlen vprotect dpo bytchk blocksize = Some (Ptr t) \<Longrightarrow> cdb_built 16 SCSI_OPCODE_VERIFY16 t"
| "scsi_cdb_unmap m anchor grp xferlen = Ptr t \<Longrightarrow> cdb_built 10 SCSI_OPCODE_UNMAP t"
| "scsi_cdb_persistent_reserve_in m sa xferlen = Ptr t \<Longrightarrow> cdb_built 10 SCSI_OPCODE_PERSISTENT_RESERVE_IN t"
| "scsi_cdb_persistent_reserve_out m ok sa scope type_code basic = Ptr (t, buf) \<Longrightarrow> cdb_built 10 SCSI_OPCODE_PERSISTENT_RESERVE_OUT t"
| "scsi_cdb_writesame10 m wrprotect anchor unmap lba grp num_blocks datalen = Ptr t \<Longrightarrow> cdb_built 10 SCSI_OPCODE_WRITE_SAME10 t"
| "scsi_cdb_writesame16 m wrprotect anchor unmap lba grp num_blocks datalen = Ptr t \<Longrightarrow> cdb_built 16 SCSI_OPCODE_WRITE_SAME16 t"
| "scsi_cdb_modesense6 m dbd pc page_code sub_page_code alloc_len = Ptr t \<Longrightarrow> cdb_built 6 SCSI_OPCODE_MODESENSE6 t"
| "scsi_cdb_modesense10 m llbaa dbd pc page_code sub_page_code alloc_len = Ptr t \<Longrightarrow> cdb_built 10 SCSI_OPCODE_MODESENSE10 t"
| "scsi_cdb_modeselect6 m pf sp param_len = Ptr t \<Longrightarrow> cdb_built 6 SCSI_OPCODE_MODESELECT6 t"
| "scsi_cdb_modeselect10 m pf sp param_len = Ptr t \<Longrightarrow> cdb_built 10 SCSI_OPCODE_MODESELECT10 t"
| "scsi_cdb_startstopunit m immed pcm pc no_flush loej start = Ptr t \<Longrightarrow> cdb_built 6 SCSI_OPCODE_STARTSTOPUNIT t"
| "scsi_cdb_preventallow m prevent = Ptr t \<Longrightarrow> cdb_built 6 SCSI_OPCODE_PREVENTALLOW t"
| "scsi_cdb_synchronizecache10 m lba num_blocks syncnv immed = Ptr t \<Longrightarrow> cdb_built 10 SCSI_OPCODE_SYNCHRONIZECACHE10 t"
| "scsi_cdb_synchronizecache16 m lba num_blocks syncnv immed = Ptr t \<Longrightarrow> cdb_built 16 SCSI_OPCODE_SYNCHRONIZECACHE16 t"
| "scsi_cdb_prefetch10 m lba num_blocks immed grp = Ptr t \<Longrightarrow> cdb_built 10 SCSI_OPCODE_PREFETCH10 t"
| "scsi_cdb_prefetch16 m lba num_blocks immed grp = Ptr t \<Longrightarrow> cdb_built 16 SCSI_OPCODE_PREFETCH16 t"
| "scsi_cdb_serviceactionin16 m sa xferlen = Ptr t \<Longrightarrow> cdb_built 16 SCSI_OPCODE_SERVICE_ACTION_IN t"
| "scsi_cdb_readcapacity16 m = Ptr t \<Longrightarrow> cdb_built 16 SCSI_OPCODE_SERVICE_ACTION_IN t"
| "scsi_cdb_get_lba_status m starting_lba alloc_len = Ptr t \<Longrightarrow> cdb_built 16 SCSI_OPCODE_SERVICE_ACTION_IN t"
| "scsi_cdb_writeverify10 m lba xferlen blocksize wrprotect dpo bytchk group_number = Some (Ptr t) \<Longrightarrow> cdb_built 10 SCSI_OPCODE_WRITE_VERIFY10 t"
| "scsi_cdb_writeverify12 m lba xferlen blocksize wrprotect dpo bytchk group_number = Some (Ptr t) \<Longrightarrow> cdb_built 12 SCSI_OPCODE_WRITE_VERIFY12 t"
| "scsi_cdb_writeverify16 m lba xferlen blocksize wrprotect dpo bytchk group_number = Some (Ptr t) \<Longrightarrow> cdb_built 16 SCSI_OPCODE_WRITE_VERIFY16 t"
| "scsi_cdb_extended_copy m param_len = Ptr t \<Longrightarrow> cdb_built 16 SCSI_OPCODE_EXTENDED_COPY t"
| "scsi_cdb_receive_copy_results m sa list_id xferlen = Ptr t \<Longrightarrow> cdb_built 16 SCSI_OPCODE_RECEIVE_COPY_RESULTS t"

lemmas builder_defs [cdb_defs] =
  scsi_cdb_testunitready_def scsi_cdb_sanitize_def scsi_reportluns_cdb_def
  scsi_cdb_readcapacity10_def scsi_cdb_readdefectdata10_def scsi_cdb_readdefectdata12_def
  scsi_cdb_readtoc_def scsi_cdb_reserve6_def scsi_cdb_release6_def
  scsi_cdb_report_target_port_groups_def scsi_cdb_report_supported_opcodes_def scsi_cdb_inquiry_def
  scsi_cdb_read6_def scsi_cdb_read10_def scsi_cdb_read12_def
  scsi_cdb_read16_def scsi_cdb_write10_def scsi_cdb_write12_def
  scsi_cdb_write16_def scsi_cdb_writeatomic16_def scsi_cdb_orwrite_def
  scsi_cdb_compareandwrite_def scsi_cdb_verify10_def scsi_cdb_verify12_def
  scsi_cdb_verify16_def scsi_cdb_unmap_def scsi_cdb_persistent_reserve_in_def
  scsi_cdb_persistent_reserve_out_def scsi_cdb_writesame10_def scsi_cdb_writesame16_def
  scsi_cdb_modesense6_def scsi_cdb_modesense10_def scsi_cdb_modeselect6_def
  scsi_cdb_modeselect10_def scsi_cdb_startstopunit_def scsi_cdb_preventallow_def
  scsi_cdb_synchronizecache10_def scsi_cdb_synchronizecache16_def scsi_cdb_prefetch10_def
  scsi_cdb_prefetch16_def scsi_cdb_serviceactionin16_def scsi_cdb_readcapacity16_def
  scsi_cdb_get_lba_status_def scsi_cdb_writeverify10_def scsi_cdb_writeverify12_def
  scsi_cdb_writeverify16_def scsi_cdb_extended_copy_def scsi_cdb_receive_copy_results_def

text \<open>The CDB length of an operation code's group (its top three bits).\<close>

definition cdb_group_size :: "u8 \<Rightarrow> nat" where
  "cdb_group_size op =
     (let g = unat (drop_bit 5 op)
      in if g = 0 then 6 else if g = 1 \<or> g = 2 then 10 else if g = 4 then 16
         else if g = 5 then 12 else 0)"

text \<open>The buffer has its size, starts with the operation code and is zero from \<open>n\<close> on.\<close>

definition cdb_ok :: "nat \<Rightarrow> u8 \<Rightarrow> scsi_task \<Rightarrow> bool" where
  "cdb_ok n op t \<longleftrightarrow> length (cdb t) = SCSI_CDB_MAX_SIZE \<and> cdb t ! 0 = op \<and>
     (\<forall>i. n \<le> i \<and> i < SCSI_CDB_MAX_SIZE \<longrightarrow> cdb t ! i = 0)"

text \<open>
  The direction in which a command moves its data, by its operation code: the data-in
  commands of SPC, SBC and MMC, the data-out commands, and those without data. The table is
  the standards', not the code's.
\<close>

definition data_in_opcodes :: "u8 list" where
  "data_in_opcodes =
     [SCSI_OPCODE_READ6, SCSI_OPCODE_INQUIRY, SCSI_OPCODE_MODESENSE6, SCSI_OPCODE_READCAPACITY10,
      SCSI_OPCODE_READ10, SCSI_OPCODE_READ_DEFECT_DATA10, SCSI_OPCODE_READTOC, SCSI_OPCODE_MODESENSE10,
      SCSI_OPCODE_PERSISTENT_RESERVE_IN, SCSI_OPCODE_RECEIVE_COPY_RESULTS, SCSI_OPCODE_READ16,
      SCSI_OPCODE_SERVICE_ACTION_IN, SCSI_OPCODE_REPORTLUNS, SCSI_OPCODE_MAINTENANCE_IN,
      SCSI_OPCODE_READ12, SCSI_OPCODE_READ_DEFECT_DATA12]"

definition data_out_opcodes :: "u8 list" where
  "data_out_opcodes =
     [SCSI_OPCODE_MODESELECT6, SCSI_OPCODE_WRITE10, SCSI_OPCODE_WRITE_VERIFY10, SCSI_OPCODE_VERIFY10,
      SCSI_OPCODE_WRITE_SAME10, SCSI_OPCODE_UNMAP, SCSI_OPCODE_SANITIZE, SCSI_OPCODE_MODESELECT10,
      SCSI_OPCODE_PERSISTENT_RESERVE_OUT, SCSI_OPCODE_EXTENDED_COPY, SCSI_OPCODE_COMPARE_AND_WRITE,
      SCSI_OPCODE_WRITE16, SCSI_OPCODE_ORWRITE, SCSI_OPCODE_WRITE_VERIFY16, SCSI_OPCODE_VERIFY16,
      SCSI_OPCODE_WRITE_SAME16, SCSI_OPCODE_WRITE_ATOMIC16, SCSI_OPCODE_WRITE12,
      SCSI_OPCODE_WRITE_VERIFY12, SCSI_OPCODE_VERIFY12]"

definition cdb_direction :: "u8 \<Rightarrow> cint" where
  "cdb_direction op =
     (if op \<in> set data_in_opcodes then SCSI_XFER_READ
      else if op \<in> set data_out_opcodes then SCSI_XFER_WRITE else SCSI_XFER_NONE)"

text \<open>
  A task that expects bytes has the direction of its command. One that expects none has the
  direction NONE, but for five builders that give their direction without looking at the
  length.
\<close>

definition xfer_ok :: "u8 \<Rightarrow> scsi_task \<Rightarrow> bool" where
  "xfer_ok op t \<longleftrightarrow>
     (if expxferlen t \<noteq> 0 then xfer_dir t = cdb_direction op \<and> cdb_direction op \<noteq> SCSI_XFER_NONE
      else xfer_dir t = SCSI_XFER_NONE \<or>
        xfer_dir t = cdb_direction op \<and>
        op \<in> {SCSI_OPCODE_READ_DEFECT_DATA10, SCSI_OPCODE_READ_DEFECT_DATA12, SCSI_OPCODE_WRITE_SAME10,
              SCSI_OPCODE_WRITE_SAME16, SCSI_OPCODE_SANITIZE})"

lemma cdb_ok_start: "0 < n \<Longrightarrow> cdb_ok n op (cdb_set 0 op zero_task)"
  by (simp add: cdb_ok_def cdb_set_def zero_task_def)

lemma cdb_ok_store:
  assumes "cdb_ok n op t" "0 < i"
  shows "i < n \<Longrightarrow> cdb_ok n op (cdb_set i b t)" "i < n \<Longrightarrow> cdb_ok n op (cdb_or i b t)"
    "i + 2 \<le> n \<Longrightarrow> cdb_ok n op (cdb_set_uint16 i v t)"
    "i + 4 \<le> n \<Longrightarrow> cdb_ok n op (cdb_set_uint32 i w t)"
  using assms
  by (simp_all add: cdb_ok_def cdb_set_def cdb_or_def cdb_set_uint16_def cdb_set_uint32_def
      be16.nth_put_other be32.nth_put_other)

text \<open>A conditional store, without a case split.\<close>

lemma cdb_ok_if:
  assumes "cdb_ok n op t" "0 < i" "i < n"
  shows "cdb_ok n op (if c then cdb_or i b t else t)" "cdb_ok n op (if c then cdb_set i b t else t)"
  using assms by (simp_all add: cdb_ok_store)

lemma cdb_ok_fields [simp]:
  "cdb_ok n op (t\<lparr>cdb_size := a\<rparr>) = cdb_ok n op t" "cdb_ok n op (t\<lparr>xfer_dir := b\<rparr>) = cdb_ok n op t"
  "cdb_ok n op (t\<lparr>expxferlen := c\<rparr>) = cdb_ok n op t" "cdb_ok n op (t\<lparr>mem := k\<rparr>) = cdb_ok n op t"
  "cdb_ok n op (t\<lparr>iovector_out := v\<rparr>) = cdb_ok n op t"
  by (simp_all add: cdb_ok_def)

lemma cdb_store_fields [simp]:
  "expxferlen (cdb_set i b t) = expxferlen t" "xfer_dir (cdb_set i b t) = xfer_dir t"
  "mem (cdb_set i b t) = mem t"
  by (simp_all add: cdb_set_def)

lemma zero_task_fields [simp]:
  "expxferlen zero_task = 0" "xfer_dir zero_task = 0" "mem zero_task = 0"
  "cdb zero_task = replicate 16 0" "datain zero_task = []"
  by (simp_all add: zero_task_def)

lemma cdb_ok_start_mem: "0 < n \<Longrightarrow> cdb_ok n op (cdb_set 0 op (zero_task\<lparr>mem := k\<rparr>))"
  by (simp add: cdb_ok_def cdb_set_def zero_task_def)

lemmas cdb_ok_rules = cdb_ok_start cdb_ok_start_mem cdb_ok_store cdb_ok_if

lemma c_udiv_eq_Some: "c_udiv a b = Some y \<longleftrightarrow> b \<noteq> 0 \<and> y = a div b"
  by (auto simp: c_udiv_def)

text \<open>A builder returns a task exactly when none of its failing branches is taken.\<close>

lemma builder_returns:
  "malloc_task NULL m f = Ptr r \<longleftrightarrow> m \<and> f zero_task = Ptr r"
  "malloc_task (Some NULL) m g = Some (Ptr r) \<longleftrightarrow> m \<and> g zero_task = Some (Ptr r)"
  "(if c then NULL else p) = Ptr r \<longleftrightarrow> \<not> c \<and> p = Ptr r"
  "(if c then p else NULL) = Ptr r \<longleftrightarrow> c \<and> p = Ptr r"
  "(if c then Some NULL else q) = Some (Ptr r) \<longleftrightarrow> \<not> c \<and> q = Some (Ptr r)"
  "scsi_malloc_or NULL ok task h = Ptr r \<longleftrightarrow>
     ok (mem task) \<and> h (task\<lparr>mem := Suc (mem task)\<rparr>) = Ptr r"
  by (simp_all add: malloc_task_def scsi_malloc_or_def)

lemmas builder_simps = builder_defs builder_returns c_udiv_eq_Some Let_def
  scsi_task_set_iov_out_def Option.bind_eq_Some_conv

lemma cdb_built_bytes: "cdb_built n op t \<Longrightarrow> cdb_ok n op t"
  by (induction rule: cdb_built.induct)
     (clarsimp simp: builder_simps cdb_ok_rules split del: if_split)+

lemma cdb_built_size: "cdb_built n op t \<Longrightarrow> cdb_size t = of_nat n \<and> n = cdb_group_size op"
  by (induction rule: cdb_built.induct)
     (clarsimp simp: builder_simps cdb_group_size_def split del: if_split)+

text \<open>A length field of 16 bits or fewer, widened, is zero only when it is.\<close>

lemma ucast_eq_0: "(ucast (a :: u16) = (0 :: u32)) = (a = 0)" "(ucast (b :: u8) = (0 :: u32)) = (b = 0)"
  by (transfer, simp add: take_bit_take_bit)+

lemmas cdb_direction_simps = xfer_ok_def cdb_direction_def data_in_opcodes_def data_out_opcodes_def

lemma cdb_built_xfer: "cdb_built n op t \<Longrightarrow> xfer_ok op t"
  by (induction rule: cdb_built.induct)
     (auto simp: builder_simps cdb_direction_simps ucast_eq_0)

lemma scsi_set_uint32_overwrites: "scsi_set_uint32 p v (xs[p := b]) = scsi_set_uint32 p v xs"
  by (simp add: scsi_set_uint32_def)

lemma cdb_set_uint32_overwrites:
  "cdb_set_uint32 p v (cdb_or p b t) = cdb_set_uint32 p v t"
  "cdb_set_uint32 p v (if c then cdb_or p b t else t) = cdb_set_uint32 p v t"
  by (simp_all add: cdb_set_uint32_def cdb_or_def scsi_set_uint32_overwrites)

section \<open>Properties\<close>

text \<open>
  C22: every task that a CDB builder returns, whatever its arguments, has a 16 byte CDB that
  starts with the builder's operation code, a \<open>cdb_size\<close> equal to the length the SCSI
  standard gives the operation code's group, only zero bytes from there on, and
  the direction the standard gives the command whenever the task expects bytes. A task that
  expects no bytes has the direction NONE, except that READ DEFECT DATA, WRITE SAME and
  SANITIZE may keep the direction of the command.
\<close>

theorem scsi_cdb_builders_wf:
  assumes "cdb_built n op t"
  shows "cdb_ok n op t \<and> cdb_size t = of_nat n \<and> n = cdb_group_size op \<and> xfer_ok op t"
  using assms by (simp add: cdb_built_bytes cdb_built_size cdb_built_xfer)

theorem scsi_cdb_builders_wf_witness:
  "\<exists>t. scsi_cdb_read10 True 2 1024 512 0 0 0 0 0 = Some (Ptr t) \<and>
     cdb_ok 10 SCSI_OPCODE_READ10 t \<and> cdb_size t = of_nat 10 \<and>
     10 = cdb_group_size SCSI_OPCODE_READ10 \<and> xfer_ok SCSI_OPCODE_READ10 t"
proof -
  obtain t where t: "scsi_cdb_read10 True 2 1024 512 0 0 0 0 0 = Some (Ptr t)"
    by (simp add: scsi_cdb_read10_def malloc_task_def)
  then have "cdb_built 10 SCSI_OPCODE_READ10 t" by (rule cdb_built.intros)
  from scsi_cdb_builders_wf [OF this] t show ?thesis by blast
qed

text \<open>
  \<open>scsi_cdb_readdefectdata12\<close> stores the descriptor index over byte 2 of the CDB, the byte
  it has just filled with the two request bits and the list format: the CDB it returns does
  not depend on the three arguments at all.
\<close>

theorem scsi_cdb_readdefectdata12_ignores_request:
  "scsi_cdb_readdefectdata12 m req_plist req_glist fmt index alloc_len =
   scsi_cdb_readdefectdata12 m 0 0 0 index alloc_len"
  by (simp add: scsi_cdb_readdefectdata12_def Let_def cdb_set_uint32_overwrites split del: if_split)

end
