(* ===== verification/Scsi_Cdb_Unmarshall.thy ===== *)
theory Scsi_Cdb_Unmarshall
  imports Scsi_Cdb
begin

text \<open>
  The CDB decoders of \<open>lib/scsi-lowlevel.c\<close>: \<open>scsi_cdb_unmarshall\<close> and one decoder per
  operation code, into the structures of \<open>scsi-lowlevel.h\<close> (a record each; the fields
  carry the structure's short name as a prefix). The \<open>void *\<close> result of the dispatcher is
  the datatype \<open>cdb_view\<close>, one constructor per structure it can point to. A decoder returns
  the task as well, whose list of owned memory it extends.

  The properties are the round trips: the fields of what a builder of \<open>Scsi_Cdb\<close> built come
  back, reduced to the bits the CDB has for them.
\<close>

section \<open>The decoded structures\<close>

record scsi_read6_cdb =
  r6_opcode :: cint
  r6_lba :: u32
  r6_transfer_length :: u16
  r6_control :: u8

record scsi_read10_cdb =
  r10_opcode :: cint
  r10_rdprotect :: u8
  r10_dpo :: u8
  r10_fua :: u8
  r10_fua_nv :: u8
  r10_lba :: u32
  r10_group :: u8
  r10_transfer_length :: u16
  r10_control :: u8

record scsi_read12_cdb =
  r12_opcode :: cint
  r12_rdprotect :: u8
  r12_dpo :: u8
  r12_fua :: u8
  r12_rarc :: u8
  r12_fua_nv :: u8
  r12_lba :: u32
  r12_transfer_length :: u32
  r12_group :: u8
  r12_control :: u8

record scsi_read16_cdb =
  r16_opcode :: cint
  r16_rdprotect :: u8
  r16_dpo :: u8
  r16_fua :: u8
  r16_rarc :: u8
  r16_fua_nv :: u8
  r16_lba :: u64
  r16_transfer_length :: u32
  r16_group :: u8
  r16_control :: u8

record scsi_verify10_cdb =
  v10_opcode :: cint
  v10_vrprotect :: u8
  v10_dpo :: u8
  v10_bytchk :: u8
  v10_lba :: u32
  v10_group :: u8
  v10_verification_length :: u16
  v10_control :: u8

record scsi_verify12_cdb =
  v12_opcode :: cint
  v12_vrprotect :: u8
  v12_dpo :: u8
  v12_bytchk :: u8
  v12_lba :: u32
  v12_verification_length :: u32
  v12_group :: u8
  v12_control :: u8

record scsi_verify16_cdb =
  v16_opcode :: cint
  v16_vrprotect :: u8
  v16_dpo :: u8
  v16_bytchk :: u8
  v16_lba :: u64
  v16_verification_length :: u32
  v16_group :: u8
  v16_control :: u8

record scsi_write10_cdb =
  w10_opcode :: cint
  w10_wrprotect :: u8
  w10_dpo :: u8
  w10_fua :: u8
  w10_fua_nv :: u8
  w10_lba :: u32
  w10_group :: u8
  w10_transfer_length :: u16
  w10_control :: u8

record scsi_write12_cdb =
  w12_opcode :: cint
  w12_wrprotect :: u8
  w12_dpo :: u8
  w12_fua :: u8
  w12_fua_nv :: u8
  w12_lba :: u32
  w12_transfer_length :: u32
  w12_group :: u8
  w12_control :: u8

record scsi_write16_cdb =
  w16_opcode :: cint
  w16_wrprotect :: u8
  w16_dpo :: u8
  w16_fua :: u8
  w16_fua_nv :: u8
  w16_lba :: u32
  w16_transfer_length :: u32
  w16_group :: u8
  w16_control :: u8

record scsi_writeatomic16_cdb =
  wa16_opcode :: cint
  wa16_wrprotect :: u8
  wa16_dpo :: u8
  wa16_fua :: u8
  wa16_lba :: u32
  wa16_transfer_length :: u16
  wa16_group :: u8
  wa16_control :: u8

datatype cdb_view =
  View_read6 scsi_read6_cdb
  | View_read10 scsi_read10_cdb
  | View_read12 scsi_read12_cdb
  | View_read16 scsi_read16_cdb
  | View_verify10 scsi_verify10_cdb
  | View_verify12 scsi_verify12_cdb
  | View_verify16 scsi_verify16_cdb
  | View_write10 scsi_write10_cdb
  | View_write12 scsi_write12_cdb
  | View_write16 scsi_write16_cdb
  | View_writeatomic16 scsi_writeatomic16_cdb

section \<open>The decoders\<close>

definition scsi_read6_cdb_unmarshall ::
  "alloc_oracle \<Rightarrow> scsi_task \<Rightarrow> scsi_task \<times> scsi_read6_cdb ptr" where
  "scsi_read6_cdb_unmarshall ok task =
     scsi_malloc_or (task, NULL) ok task (\<lambda>task.
       (task, Ptr \<lparr>
         r6_opcode = SCSI_OPCODE_READ6,
         r6_lba = scsi_get_uint32 (cdb task) 0 AND 0x001fffff,
         r6_transfer_length = ucast (cdb task ! 4),
         r6_control = cdb task ! 5\<rparr>))"

definition scsi_read10_cdb_unmarshall ::
  "alloc_oracle \<Rightarrow> scsi_task \<Rightarrow> scsi_task \<times> scsi_read10_cdb ptr" where
  "scsi_read10_cdb_unmarshall ok task =
     scsi_malloc_or (task, NULL) ok task (\<lambda>task.
       (task, Ptr \<lparr>
         r10_opcode = SCSI_OPCODE_READ10,
         r10_rdprotect = drop_bit 5 (cdb task ! 1) AND 0x7,
         r10_dpo = notnot (cdb task ! 1 AND 0x10),
         r10_fua = notnot (cdb task ! 1 AND 0x08),
         r10_fua_nv = notnot (cdb task ! 1 AND 0x02),
         r10_lba = scsi_get_uint32 (cdb task) 2,
         r10_group = cdb task ! 6 AND 0x1f,
         r10_transfer_length = scsi_get_uint16 (cdb task) 7,
         r10_control = cdb task ! 9\<rparr>))"

definition scsi_read12_cdb_unmarshall ::
  "alloc_oracle \<Rightarrow> scsi_task \<Rightarrow> scsi_task \<times> scsi_read12_cdb ptr" where
  "scsi_read12_cdb_unmarshall ok task =
     scsi_malloc_or (task, NULL) ok task (\<lambda>task.
       (task, Ptr \<lparr>
         r12_opcode = SCSI_OPCODE_READ12,
         r12_rdprotect = drop_bit 5 (cdb task ! 1) AND 0x7,
         r12_dpo = notnot (cdb task ! 1 AND 0x10),
         r12_fua = notnot (cdb task ! 1 AND 0x08),
         r12_rarc = notnot (cdb task ! 1 AND 0x04),
         r12_fua_nv = notnot (cdb task ! 1 AND 0x02),
         r12_lba = scsi_get_uint32 (cdb task) 2,
         r12_transfer_length = scsi_get_uint32 (cdb task) 6,
         r12_group = cdb task ! 10 AND 0x1f,
         r12_control = cdb task ! 11\<rparr>))"

definition scsi_read16_cdb_unmarshall ::
  "alloc_oracle \<Rightarrow> scsi_task \<Rightarrow> scsi_task \<times> scsi_read16_cdb ptr" where
  "scsi_read16_cdb_unmarshall ok task =
     scsi_malloc_or (task, NULL) ok task (\<lambda>task.
       (task, Ptr \<lparr>
         r16_opcode = SCSI_OPCODE_READ16,
         r16_rdprotect = drop_bit 5 (cdb task ! 1) AND 0x7,
         r16_dpo = notnot (cdb task ! 1 AND 0x10),
         r16_fua = notnot (cdb task ! 1 AND 0x08),
         r16_rarc = notnot (cdb task ! 1 AND 0x04),
         r16_fua_nv = notnot (cdb task ! 1 AND 0x02),
         r16_lba = scsi_get_uint64 (cdb task) 2,
         r16_transfer_length = scsi_get_uint32 (cdb task) 10,
         r16_group = cdb task ! 14 AND 0x1f,
         r16_control = cdb task ! 15\<rparr>))"

definition scsi_verify10_cdb_unmarshall ::
  "alloc_oracle \<Rightarrow> scsi_task \<Rightarrow> scsi_task \<times> scsi_verify10_cdb ptr" where
  "scsi_verify10_cdb_unmarshall ok task =
     scsi_malloc_or (task, NULL) ok task (\<lambda>task.
       (task, Ptr \<lparr>
         v10_opcode = SCSI_OPCODE_VERIFY10,
         v10_vrprotect = drop_bit 5 (cdb task ! 1) AND 0x7,
         v10_dpo = notnot (cdb task ! 1 AND 0x10),
         v10_bytchk = notnot (cdb task ! 1 AND 0x02),
         v10_lba = scsi_get_uint32 (cdb task) 2,
         v10_group = cdb task ! 6 AND 0x1f,
         v10_verification_length = scsi_get_uint16 (cdb task) 7,
         v10_control = cdb task ! 9\<rparr>))"

definition scsi_verify12_cdb_unmarshall ::
  "alloc_oracle \<Rightarrow> scsi_task \<Rightarrow> scsi_task \<times> scsi_verify12_cdb ptr" where
  "scsi_verify12_cdb_unmarshall ok task =
     scsi_malloc_or (task, NULL) ok task (\<lambda>task.
       (task, Ptr \<lparr>
         v12_opcode = SCSI_OPCODE_VERIFY12,
         v12_vrprotect = drop_bit 5 (cdb task ! 1) AND 0x7,
         v12_dpo = notnot (cdb task ! 1 AND 0x10),
         v12_bytchk = notnot (cdb task ! 1 AND 0x02),
         v12_lba = scsi_get_uint32 (cdb task) 2,
         v12_verification_length = scsi_get_uint32 (cdb task) 6,
         v12_group = cdb task ! 10 AND 0x1f,
         v12_control = cdb task ! 11\<rparr>))"

definition scsi_verify16_cdb_unmarshall ::
  "alloc_oracle \<Rightarrow> scsi_task \<Rightarrow> scsi_task \<times> scsi_verify16_cdb ptr" where
  "scsi_verify16_cdb_unmarshall ok task =
     scsi_malloc_or (task, NULL) ok task (\<lambda>task.
       (task, Ptr \<lparr>
         v16_opcode = SCSI_OPCODE_VERIFY16,
         v16_vrprotect = drop_bit 5 (cdb task ! 1) AND 0x7,
         v16_dpo = notnot (cdb task ! 1 AND 0x10),
         v16_bytchk = notnot (cdb task ! 1 AND 0x02),
         v16_lba = scsi_get_uint64 (cdb task) 2,
         v16_verification_length = scsi_get_uint32 (cdb task) 10,
         v16_group = cdb task ! 14 AND 0x1f,
         v16_control = cdb task ! 15\<rparr>))"

definition scsi_write10_cdb_unmarshall ::
  "alloc_oracle \<Rightarrow> scsi_task \<Rightarrow> scsi_task \<times> scsi_write10_cdb ptr" where
  "scsi_write10_cdb_unmarshall ok task =
     scsi_malloc_or (task, NULL) ok task (\<lambda>task.
       (task, Ptr \<lparr>
         w10_opcode = SCSI_OPCODE_WRITE10,
         w10_wrprotect = drop_bit 5 (cdb task ! 1) AND 0x7,
         w10_dpo = notnot (cdb task ! 1 AND 0x10),
         w10_fua = notnot (cdb task ! 1 AND 0x08),
         w10_fua_nv = notnot (cdb task ! 1 AND 0x02),
         w10_lba = scsi_get_uint32 (cdb task) 2,
         w10_group = cdb task ! 6 AND 0x1f,
         w10_transfer_length = scsi_get_uint16 (cdb task) 7,
         w10_control = cdb task ! 9\<rparr>))"

definition scsi_write12_cdb_unmarshall ::
  "alloc_oracle \<Rightarrow> scsi_task \<Rightarrow> scsi_task \<times> scsi_write12_cdb ptr" where
  "scsi_write12_cdb_unmarshall ok task =
     scsi_malloc_or (task, NULL) ok task (\<lambda>task.
       (task, Ptr \<lparr>
         w12_opcode = SCSI_OPCODE_WRITE12,
         w12_wrprotect = drop_bit 5 (cdb task ! 1) AND 0x7,
         w12_dpo = notnot (cdb task ! 1 AND 0x10),
         w12_fua = notnot (cdb task ! 1 AND 0x08),
         w12_fua_nv = notnot (cdb task ! 1 AND 0x02),
         w12_lba = scsi_get_uint32 (cdb task) 2,
         w12_transfer_length = scsi_get_uint32 (cdb task) 6,
         w12_group = cdb task ! 10 AND 0x1f,
         w12_control = cdb task ! 11\<rparr>))"

definition scsi_write16_cdb_unmarshall ::
  "alloc_oracle \<Rightarrow> scsi_task \<Rightarrow> scsi_task \<times> scsi_write16_cdb ptr" where
  "scsi_write16_cdb_unmarshall ok task =
     scsi_malloc_or (task, NULL) ok task (\<lambda>task.
       (task, Ptr \<lparr>
         w16_opcode = SCSI_OPCODE_WRITE16,
         w16_wrprotect = drop_bit 5 (cdb task ! 1) AND 0x7,
         w16_dpo = notnot (cdb task ! 1 AND 0x10),
         w16_fua = notnot (cdb task ! 1 AND 0x08),
         w16_fua_nv = notnot (cdb task ! 1 AND 0x02),
         w16_lba = ucast (scsi_get_uint64 (cdb task) 2),
         w16_transfer_length = scsi_get_uint32 (cdb task) 10,
         w16_group = cdb task ! 14 AND 0x1f,
         w16_control = cdb task ! 15\<rparr>))"

definition scsi_writeatomic16_cdb_unmarshall ::
  "alloc_oracle \<Rightarrow> scsi_task \<Rightarrow> scsi_task \<times> scsi_writeatomic16_cdb ptr" where
  "scsi_writeatomic16_cdb_unmarshall ok task =
     scsi_malloc_or (task, NULL) ok task (\<lambda>task.
       (task, Ptr \<lparr>
         wa16_opcode = SCSI_OPCODE_WRITE_ATOMIC16,
         wa16_wrprotect = drop_bit 5 (cdb task ! 1) AND 0x7,
         wa16_dpo = notnot (cdb task ! 1 AND 0x10),
         wa16_fua = notnot (cdb task ! 1 AND 0x08),
         wa16_lba = ucast (scsi_get_uint64 (cdb task) 2),
         wa16_transfer_length = scsi_get_uint16 (cdb task) 12,
         wa16_group = cdb task ! 14 AND 0x1f,
         wa16_control = cdb task ! 15\<rparr>))"

text \<open>The result of a decoder as the dispatcher's \<open>void *\<close>.\<close>

definition as_view :: "('a \<Rightarrow> cdb_view) \<Rightarrow> scsi_task \<times> 'a ptr \<Rightarrow> scsi_task \<times> cdb_view ptr" where
  "as_view c r = (fst r, case snd r of NULL \<Rightarrow> NULL | Ptr x \<Rightarrow> Ptr (c x))"

definition scsi_cdb_unmarshall ::
  "alloc_oracle \<Rightarrow> scsi_task \<Rightarrow> cint \<Rightarrow> scsi_task \<times> cdb_view ptr" where
  "scsi_cdb_unmarshall ok task opcode =
     (let op = ucast (cdb task ! 0) :: cint
      in if op \<noteq> opcode then (task, NULL)
      else if op = SCSI_OPCODE_READ6 then as_view View_read6 (scsi_read6_cdb_unmarshall ok task)
      else if op = SCSI_OPCODE_READ10 then as_view View_read10 (scsi_read10_cdb_unmarshall ok task)
      else if op = SCSI_OPCODE_READ12 then as_view View_read12 (scsi_read12_cdb_unmarshall ok task)
      else if op = SCSI_OPCODE_READ16 then as_view View_read16 (scsi_read16_cdb_unmarshall ok task)
      else if op = SCSI_OPCODE_VERIFY10 then as_view View_verify10 (scsi_verify10_cdb_unmarshall ok task)
      else if op = SCSI_OPCODE_VERIFY12 then as_view View_verify12 (scsi_verify12_cdb_unmarshall ok task)
      else if op = SCSI_OPCODE_VERIFY16 then as_view View_verify16 (scsi_verify16_cdb_unmarshall ok task)
      else if op = SCSI_OPCODE_WRITE10 then as_view View_write10 (scsi_write10_cdb_unmarshall ok task)
      else if op = SCSI_OPCODE_WRITE12 then as_view View_write12 (scsi_write12_cdb_unmarshall ok task)
      else if op = SCSI_OPCODE_WRITE16 then as_view View_write16 (scsi_write16_cdb_unmarshall ok task)
      else if op = SCSI_OPCODE_WRITE_ATOMIC16 then as_view View_writeatomic16 (scsi_writeatomic16_cdb_unmarshall ok task)
      else (task, NULL))"

lemmas cdb_decoder_defs [unmarshall_defs] =
  scsi_read6_cdb_unmarshall_def scsi_read10_cdb_unmarshall_def scsi_read12_cdb_unmarshall_def
  scsi_read16_cdb_unmarshall_def scsi_verify10_cdb_unmarshall_def scsi_verify12_cdb_unmarshall_def
  scsi_verify16_cdb_unmarshall_def scsi_write10_cdb_unmarshall_def scsi_write12_cdb_unmarshall_def
  scsi_write16_cdb_unmarshall_def scsi_writeatomic16_cdb_unmarshall_def
  as_view_def

section \<open>Decoding what was built\<close>

text \<open>Conditional stores as unconditional ones: a case split per flag is avoided.\<close>

lemma cdb_or_zero: "cdb_or i 0 t = t"
  by (simp add: cdb_or_def)

lemma cdb_or_if: "(if c then cdb_or i b t else t) = cdb_or i (if c then b else 0) t"
  by (simp add: cdb_or_zero)

lemma cdb_store_cdb:
  "cdb (cdb_set i b t) = (cdb t)[i := b]" "cdb (cdb_or i b t) = (cdb t)[i := cdb t ! i OR b]"
  "cdb (cdb_set_uint16 i v t) = scsi_set_uint16 i v (cdb t)"
  "cdb (cdb_set_uint32 i w t) = scsi_set_uint32 i w (cdb t)"
  by (simp_all add: cdb_set_def cdb_or_def cdb_set_uint16_def cdb_set_uint32_def)

lemma cdb_store_mem:
  "mem (cdb_or i b t) = mem t" "mem (cdb_set_uint16 i v t) = mem t"
  "mem (cdb_set_uint32 i w t) = mem t"
  by (simp_all add: cdb_or_def cdb_set_uint16_def cdb_set_uint32_def)

text \<open>A 64 bit LBA is stored as two halves and read back as one number.\<close>

lemma get_uint64_halves:
  "p + 8 \<le> length xs \<Longrightarrow>
   scsi_get_uint64 (scsi_set_uint32 (p + 4) (ucast (v AND 0xffffffff))
     (scsi_set_uint32 p (ucast (drop_bit 32 v)) xs)) p = v"
  by (simp add: scsi_get_uint64_def byte_simps) 
     (rule word_eq_bitwise, simp add: bit_eval)

lemma get_uint64_lba:
  "length xs = 16 \<Longrightarrow>
   scsi_get_uint64 (scsi_set_uint32 6 (ucast (v AND 0xffffffff))
     (scsi_set_uint32 2 (ucast (drop_bit 32 v)) xs)) 2 = v"
  using get_uint64_halves [of 2 xs v] by simp

lemma notnot_flag:
  "notnot ((x :: u8) AND 0x10) = of_bool (bit x 4)" "notnot (x AND 0x08) = of_bool (bit x 3)"
  "notnot (x AND 0x04) = of_bool (bit x 2)" "notnot (x AND 0x02) = of_bool (bit x 1)"
  by (auto simp: notnot_def byte_eq_iff bit_eval)

text \<open>The builder's result \<open>b\<close> is a task that \<open>scsi_cdb_unmarshall\<close> decodes as \<open>v\<close>.\<close>

definition decodes :: "alloc_oracle \<Rightarrow> scsi_task ptr option \<Rightarrow> cint \<Rightarrow> cdb_view \<Rightarrow> bool" where
  "decodes ok b op v \<longleftrightarrow>
     (\<exists>t. b = Some (Ptr t) \<and> snd (scsi_cdb_unmarshall ok t op) = Ptr v)"

lemma decodesI: "b = Some (Ptr t) \<Longrightarrow> snd (scsi_cdb_unmarshall ok t op) = Ptr v \<Longrightarrow> decodes ok b op v"
  by (auto simp: decodes_def)

lemmas build_simps = builder_defs malloc_task_def c_udiv_Some Let_def cdb_or_if
lemmas decode_simps = cdb_store_cdb cdb_store_mem get_uint64_lba byte_simps nth_list_update
  scsi_malloc_or_def scsi_cdb_unmarshall_def unmarshall_defs notnot_flag

lemma bit_if: "bit (if c then x else y) n = (if c then bit x n else bit y n)"
  by simp

lemma decodes_read10:
  assumes "blocksize \<noteq> 0" "ok 0"
  shows "decodes ok (scsi_cdb_read10 True lba xferlen blocksize rdprotect dpo fua fua_nv group_number)
    SCSI_OPCODE_READ10 (View_read10
     \<lparr>r10_opcode = SCSI_OPCODE_READ10,
      r10_rdprotect = ucast (rdprotect AND 7), r10_dpo = notnot dpo,
      r10_fua = notnot fua, r10_fua_nv = notnot fua_nv, r10_lba = lba,
      r10_group = ucast (group_number AND 0x1f),
      r10_transfer_length = ucast (xferlen div blocksize), r10_control = 0\<rparr>)"
  using assms
  by - (rule decodesI, simp add: build_simps split del: if_split,
        simp add: decode_simps split del: if_split,
        simp add: byte_eq_iff bit_eval bit_if notnot_def)

lemma decodes_read12:
  assumes "blocksize \<noteq> 0" "ok 0"
  shows "decodes ok (scsi_cdb_read12 True lba xferlen blocksize rdprotect dpo fua fua_nv group_number)
    SCSI_OPCODE_READ12 (View_read12
     \<lparr>r12_opcode = SCSI_OPCODE_READ12,
      r12_rdprotect = ucast (rdprotect AND 7), r12_dpo = notnot dpo,
      r12_fua = notnot fua, r12_rarc = 0, r12_fua_nv = notnot fua_nv,
      r12_lba = lba, r12_transfer_length = xferlen div blocksize,
      r12_group = ucast (group_number AND 0x1f), r12_control = 0\<rparr>)"
  using assms
  by - (rule decodesI, simp add: build_simps split del: if_split,
        simp add: decode_simps split del: if_split,
        simp add: byte_eq_iff bit_eval bit_if notnot_def)

lemma decodes_read16:
  assumes "blocksize \<noteq> 0" "ok 0"
  shows "decodes ok (scsi_cdb_read16 True lba xferlen blocksize rdprotect dpo fua fua_nv group_number)
    SCSI_OPCODE_READ16 (View_read16
     \<lparr>r16_opcode = SCSI_OPCODE_READ16,
      r16_rdprotect = ucast (rdprotect AND 7), r16_dpo = notnot dpo,
      r16_fua = notnot fua, r16_rarc = 0, r16_fua_nv = notnot fua_nv,
      r16_lba = lba, r16_transfer_length = xferlen div blocksize,
      r16_group = ucast (group_number AND 0x1f), r16_control = 0\<rparr>)"
  using assms
  by - (rule decodesI, simp add: build_simps split del: if_split,
        simp add: decode_simps split del: if_split,
        simp add: byte_eq_iff bit_eval bit_if notnot_def)

lemma decodes_write10:
  assumes "blocksize \<noteq> 0" "ok 0"
  shows "decodes ok (scsi_cdb_write10 True lba xferlen blocksize wrprotect dpo fua fua_nv group_number)
    SCSI_OPCODE_WRITE10 (View_write10
     \<lparr>w10_opcode = SCSI_OPCODE_WRITE10,
      w10_wrprotect = ucast (wrprotect AND 7), w10_dpo = notnot dpo,
      w10_fua = notnot fua, w10_fua_nv = notnot fua_nv, w10_lba = lba,
      w10_group = ucast (group_number AND 0x1f),
      w10_transfer_length = ucast (xferlen div blocksize), w10_control = 0\<rparr>)"
  using assms
  by - (rule decodesI, simp add: build_simps split del: if_split,
        simp add: decode_simps split del: if_split,
        simp add: byte_eq_iff bit_eval bit_if notnot_def)

lemma decodes_write12:
  assumes "blocksize \<noteq> 0" "ok 0"
  shows "decodes ok (scsi_cdb_write12 True lba xferlen blocksize wrprotect dpo fua fua_nv group_number)
    SCSI_OPCODE_WRITE12 (View_write12
     \<lparr>w12_opcode = SCSI_OPCODE_WRITE12,
      w12_wrprotect = ucast (wrprotect AND 7), w12_dpo = notnot dpo,
      w12_fua = notnot fua, w12_fua_nv = notnot fua_nv, w12_lba = lba,
      w12_transfer_length = xferlen div blocksize,
      w12_group = ucast (group_number AND 0x1f), w12_control = 0\<rparr>)"
  using assms
  by - (rule decodesI, simp add: build_simps split del: if_split,
        simp add: decode_simps split del: if_split,
        simp add: byte_eq_iff bit_eval bit_if notnot_def)

lemma decodes_write16:
  assumes "blocksize \<noteq> 0" "ok 0"
  shows "decodes ok (scsi_cdb_write16 True lba xferlen blocksize wrprotect dpo fua fua_nv group_number)
    SCSI_OPCODE_WRITE16 (View_write16
     \<lparr>w16_opcode = SCSI_OPCODE_WRITE16,
      w16_wrprotect = ucast (wrprotect AND 7), w16_dpo = notnot dpo,
      w16_fua = notnot fua, w16_fua_nv = notnot fua_nv, w16_lba = ucast lba,
      w16_transfer_length = xferlen div blocksize,
      w16_group = ucast (group_number AND 0x1f), w16_control = 0\<rparr>)"
  using assms
  by - (rule decodesI, simp add: build_simps split del: if_split,
        simp add: decode_simps split del: if_split,
        simp add: byte_eq_iff bit_eval bit_if notnot_def)

lemma decodes_writeatomic16:
  assumes "blocksize \<noteq> 0" "ok 0"
  shows "decodes ok (scsi_cdb_writeatomic16 True lba xferlen blocksize wrprotect dpo fua group_number)
    SCSI_OPCODE_WRITE_ATOMIC16 (View_writeatomic16
     \<lparr>wa16_opcode = SCSI_OPCODE_WRITE_ATOMIC16,
      wa16_wrprotect = ucast (wrprotect AND 7), wa16_dpo = notnot dpo,
      wa16_fua = notnot fua, wa16_lba = ucast lba,
      wa16_transfer_length = ucast (xferlen div blocksize),
      wa16_group = ucast (group_number AND 0x1f), wa16_control = 0\<rparr>)"
  using assms
  by - (rule decodesI, simp add: build_simps split del: if_split,
        simp add: decode_simps split del: if_split,
        simp add: byte_eq_iff bit_eval bit_if notnot_def)

lemma decodes_verify10:
  assumes "blocksize \<noteq> 0" "ok 0"
  shows "decodes ok (scsi_cdb_verify10 True lba xferlen vprotect dpo bytchk blocksize)
    SCSI_OPCODE_VERIFY10 (View_verify10
     \<lparr>v10_opcode = SCSI_OPCODE_VERIFY10,
      v10_vrprotect = ucast (vprotect AND 7), v10_dpo = notnot dpo,
      v10_bytchk = notnot bytchk, v10_lba = lba, v10_group = 0,
      v10_verification_length = ucast (xferlen div blocksize),
      v10_control = 0\<rparr>)"
  using assms
  by - (rule decodesI, simp add: build_simps split del: if_split,
        simp add: decode_simps split del: if_split,
        simp add: byte_eq_iff bit_eval bit_if notnot_def)

lemma decodes_verify12:
  assumes "blocksize \<noteq> 0" "ok 0"
  shows "decodes ok (scsi_cdb_verify12 True lba xferlen vprotect dpo bytchk blocksize)
    SCSI_OPCODE_VERIFY12 (View_verify12
     \<lparr>v12_opcode = SCSI_OPCODE_VERIFY12,
      v12_vrprotect = ucast (vprotect AND 7), v12_dpo = notnot dpo,
      v12_bytchk = notnot bytchk, v12_lba = lba,
      v12_verification_length = xferlen div blocksize, v12_group = 0,
      v12_control = 0\<rparr>)"
  using assms
  by - (rule decodesI, simp add: build_simps split del: if_split,
        simp add: decode_simps split del: if_split,
        simp add: byte_eq_iff bit_eval bit_if notnot_def)

lemma decodes_verify16:
  assumes "blocksize \<noteq> 0" "ok 0"
  shows "decodes ok (scsi_cdb_verify16 True lba xferlen vprotect dpo bytchk blocksize)
    SCSI_OPCODE_VERIFY16 (View_verify16
     \<lparr>v16_opcode = SCSI_OPCODE_VERIFY16,
      v16_vrprotect = ucast (vprotect AND 7), v16_dpo = notnot dpo,
      v16_bytchk = notnot bytchk, v16_lba = lba,
      v16_verification_length = xferlen div blocksize, v16_group = 0,
      v16_control = 0\<rparr>)"
  using assms
  by - (rule decodesI, simp add: build_simps split del: if_split,
        simp add: decode_simps split del: if_split,
        simp add: byte_eq_iff bit_eval bit_if notnot_def)

section \<open>Properties\<close>

text \<open>
  C21: for a non-zero block size, \<open>scsi_cdb_unmarshall\<close> recovers from the CDB built by
  \<open>scsi_cdb_read10\<close>, \<open>read12\<close> and \<open>read16\<close> the LBA, the number of blocks and every flag as the
  caller gave them: flags as 0/1, the protection and group fields reduced to their 3 and 5
  bits, the block count to the 16 bits READ(10) has.
\<close>

theorem scsi_cdb_read_roundtrip:
  assumes "blocksize \<noteq> 0" "ok 0"
  shows "decodes ok (scsi_cdb_read10 True lba xferlen blocksize rdprotect dpo fua fua_nv group_number)
    SCSI_OPCODE_READ10 (View_read10
     \<lparr>r10_opcode = SCSI_OPCODE_READ10,
      r10_rdprotect = ucast (rdprotect AND 7), r10_dpo = notnot dpo,
      r10_fua = notnot fua, r10_fua_nv = notnot fua_nv, r10_lba = lba,
      r10_group = ucast (group_number AND 0x1f),
      r10_transfer_length = ucast (xferlen div blocksize), r10_control = 0\<rparr>) \<and>
   decodes ok (scsi_cdb_read12 True lba xferlen blocksize rdprotect dpo fua fua_nv group_number)
    SCSI_OPCODE_READ12 (View_read12
     \<lparr>r12_opcode = SCSI_OPCODE_READ12,
      r12_rdprotect = ucast (rdprotect AND 7), r12_dpo = notnot dpo,
      r12_fua = notnot fua, r12_rarc = 0, r12_fua_nv = notnot fua_nv,
      r12_lba = lba, r12_transfer_length = xferlen div blocksize,
      r12_group = ucast (group_number AND 0x1f), r12_control = 0\<rparr>) \<and>
   decodes ok (scsi_cdb_read16 True lba64 xferlen blocksize rdprotect dpo fua fua_nv group_number)
    SCSI_OPCODE_READ16 (View_read16
     \<lparr>r16_opcode = SCSI_OPCODE_READ16,
      r16_rdprotect = ucast (rdprotect AND 7), r16_dpo = notnot dpo,
      r16_fua = notnot fua, r16_rarc = 0, r16_fua_nv = notnot fua_nv,
      r16_lba = lba64, r16_transfer_length = xferlen div blocksize,
      r16_group = ucast (group_number AND 0x1f), r16_control = 0\<rparr>)"
  using assms by (intro conjI decodes_read10 decodes_read12 decodes_read16)

text \<open>
  \<open>scsi_cdb_unmarshall\<close> recovers the fields of \<open>scsi_cdb_write10\<close> and \<open>write12\<close> from the
  built CDB.
\<close>

theorem scsi_cdb_write_roundtrip:
  assumes "blocksize \<noteq> 0" "ok 0"
  shows "decodes ok (scsi_cdb_write10 True lba xferlen blocksize wrprotect dpo fua fua_nv group_number)
    SCSI_OPCODE_WRITE10 (View_write10
     \<lparr>w10_opcode = SCSI_OPCODE_WRITE10,
      w10_wrprotect = ucast (wrprotect AND 7), w10_dpo = notnot dpo,
      w10_fua = notnot fua, w10_fua_nv = notnot fua_nv, w10_lba = lba,
      w10_group = ucast (group_number AND 0x1f),
      w10_transfer_length = ucast (xferlen div blocksize), w10_control = 0\<rparr>) \<and>
   decodes ok (scsi_cdb_write12 True lba xferlen blocksize wrprotect dpo fua fua_nv group_number)
    SCSI_OPCODE_WRITE12 (View_write12
     \<lparr>w12_opcode = SCSI_OPCODE_WRITE12,
      w12_wrprotect = ucast (wrprotect AND 7), w12_dpo = notnot dpo,
      w12_fua = notnot fua, w12_fua_nv = notnot fua_nv, w12_lba = lba,
      w12_transfer_length = xferlen div blocksize,
      w12_group = ucast (group_number AND 0x1f), w12_control = 0\<rparr>)"
  using assms by (intro conjI decodes_write10 decodes_write12)

text \<open>
  \<open>scsi_cdb_unmarshall\<close> recovers the fields of \<open>scsi_cdb_verify10\<close>, \<open>verify12\<close> and
  \<open>verify16\<close> from the built CDB, the 64 bit LBA of the last included.
\<close>

theorem scsi_cdb_verify_roundtrip:
  assumes "blocksize \<noteq> 0" "ok 0"
  shows "decodes ok (scsi_cdb_verify10 True lba xferlen vprotect dpo bytchk blocksize)
    SCSI_OPCODE_VERIFY10 (View_verify10
     \<lparr>v10_opcode = SCSI_OPCODE_VERIFY10,
      v10_vrprotect = ucast (vprotect AND 7), v10_dpo = notnot dpo,
      v10_bytchk = notnot bytchk, v10_lba = lba, v10_group = 0,
      v10_verification_length = ucast (xferlen div blocksize),
      v10_control = 0\<rparr>) \<and>
   decodes ok (scsi_cdb_verify12 True lba xferlen vprotect dpo bytchk blocksize)
    SCSI_OPCODE_VERIFY12 (View_verify12
     \<lparr>v12_opcode = SCSI_OPCODE_VERIFY12,
      v12_vrprotect = ucast (vprotect AND 7), v12_dpo = notnot dpo,
      v12_bytchk = notnot bytchk, v12_lba = lba,
      v12_verification_length = xferlen div blocksize, v12_group = 0,
      v12_control = 0\<rparr>) \<and>
   decodes ok (scsi_cdb_verify16 True lba64 xferlen vprotect dpo bytchk blocksize)
    SCSI_OPCODE_VERIFY16 (View_verify16
     \<lparr>v16_opcode = SCSI_OPCODE_VERIFY16,
      v16_vrprotect = ucast (vprotect AND 7), v16_dpo = notnot dpo,
      v16_bytchk = notnot bytchk, v16_lba = lba64,
      v16_verification_length = xferlen div blocksize, v16_group = 0,
      v16_control = 0\<rparr>)"
  using assms by (intro conjI decodes_verify10 decodes_verify12 decodes_verify16)

text \<open>
  The structures that WRITE(16) and WRITE ATOMIC(16) are decoded into hold the LBA in a
  \<open>uint32_t\<close>: what \<open>scsi_cdb_unmarshall\<close> returns is the LBA modulo \<open>2 ^ 32\<close>, while all other
  fields come back as they were built.
\<close>

theorem scsi_cdb_write16_truncates_lba:
  assumes "blocksize \<noteq> 0" "ok 0"
  shows "decodes ok (scsi_cdb_write16 True lba xferlen blocksize wrprotect dpo fua fua_nv group_number)
    SCSI_OPCODE_WRITE16 (View_write16
     \<lparr>w16_opcode = SCSI_OPCODE_WRITE16,
      w16_wrprotect = ucast (wrprotect AND 7), w16_dpo = notnot dpo,
      w16_fua = notnot fua, w16_fua_nv = notnot fua_nv, w16_lba = ucast lba,
      w16_transfer_length = xferlen div blocksize,
      w16_group = ucast (group_number AND 0x1f), w16_control = 0\<rparr>) \<and>
   decodes ok (scsi_cdb_writeatomic16 True lba xferlen blocksize wrprotect dpo fua group_number)
    SCSI_OPCODE_WRITE_ATOMIC16 (View_writeatomic16
     \<lparr>wa16_opcode = SCSI_OPCODE_WRITE_ATOMIC16,
      wa16_wrprotect = ucast (wrprotect AND 7), wa16_dpo = notnot dpo,
      wa16_fua = notnot fua, wa16_lba = ucast lba,
      wa16_transfer_length = ucast (xferlen div blocksize),
      wa16_group = ucast (group_number AND 0x1f), wa16_control = 0\<rparr>)"
  using assms by (intro conjI decodes_write16 decodes_writeatomic16)

theorem scsi_cdb_read_roundtrip_witness:
  "decodes (\<lambda>_. True) (scsi_cdb_read16 True 0x123456789 2048 512 1 0 1 0 0) SCSI_OPCODE_READ16
     (View_read16 \<lparr>r16_opcode = SCSI_OPCODE_READ16, r16_rdprotect = 1, r16_dpo = 0, r16_fua = 1,
        r16_rarc = 0, r16_fua_nv = 0, r16_lba = 0x123456789, r16_transfer_length = 4,
        r16_group = 0, r16_control = 0\<rparr>)"
  using scsi_cdb_read_roundtrip [of 512 "\<lambda>_. True" 0 2048 1 0 1 0 0 "0x123456789"]
  by (simp add: notnot_def)

theorem scsi_cdb_write_roundtrip_witness:
  "decodes (\<lambda>_. True) (scsi_cdb_write10 True 2048 1024 512 1 0 1 0 0) SCSI_OPCODE_WRITE10
     (View_write10 \<lparr>w10_opcode = SCSI_OPCODE_WRITE10, w10_wrprotect = 1, w10_dpo = 0, w10_fua = 1,
        w10_fua_nv = 0, w10_lba = 2048, w10_group = 0, w10_transfer_length = 2, w10_control = 0\<rparr>)"
  using scsi_cdb_write_roundtrip [of 512 "\<lambda>_. True" 2048 1024 1 0 1 0 0]
  by (simp add: notnot_def)

theorem scsi_cdb_verify_roundtrip_witness:
  "decodes (\<lambda>_. True) (scsi_cdb_verify12 True 2048 1024 1 0 1 512) SCSI_OPCODE_VERIFY12
     (View_verify12 \<lparr>v12_opcode = SCSI_OPCODE_VERIFY12, v12_vrprotect = 1, v12_dpo = 0,
        v12_bytchk = 1, v12_lba = 2048, v12_verification_length = 2, v12_group = 0, v12_control = 0\<rparr>)"
  using scsi_cdb_verify_roundtrip [of 512 "\<lambda>_. True" 2048 1024 1 0 1]
  by (simp add: notnot_def)

lemma lba_mod: "(0x100000005 :: u32) = 5"
  by simp

theorem scsi_cdb_write16_truncates_lba_witness:
  "decodes (\<lambda>_. True) (scsi_cdb_write16 True 0x100000005 1024 512 0 0 0 0 0) SCSI_OPCODE_WRITE16
     (View_write16 \<lparr>w16_opcode = SCSI_OPCODE_WRITE16, w16_wrprotect = 0, w16_dpo = 0, w16_fua = 0,
        w16_fua_nv = 0, w16_lba = 5, w16_transfer_length = 2, w16_group = 0, w16_control = 0\<rparr>)"
  using scsi_cdb_write16_truncates_lba [of 512 "\<lambda>_. True" "0x100000005" 1024 0 0 0 0 0]
  by (simp add: notnot_def lba_mod)

end
