(* ===== verification/Scsi_Datain.thy ===== *)
theory Scsi_Datain
  imports Scsi_Task
begin

text \<open>
  The Data-In decoders of \<open>lib/scsi-lowlevel.c\<close> (\<open>scsi_*_datain_getfullsize\<close> and
  \<open>scsi_*_datain_unmarshall\<close>) for REPORT LUNS, READ CAPACITY, READ TOC, SERVICE ACTION IN,
  PERSISTENT RESERVE IN, RECEIVE COPY RESULTS and MAINTENANCE IN. The decoded structures are
  records with the fields of \<open>scsi-lowlevel.h\<close> (prefixed), the trailing arrays lists.

  A decoder takes the allocation oracle and the task and returns the task, whose list of
  owned blocks it extends, with the structure or NULL. \<open>None\<close> is undefined behaviour: a store
  behind an allocated block. The data come from the target, so the properties say which
  decoders stay defined for every Data-In buffer and which do not.
\<close>

section \<open>Sizes and offsets of the structures (LP64)\<close>

abbreviation (input) sizeof_readcapacity10 :: int where "sizeof_readcapacity10 \<equiv> 8"
abbreviation (input) offsetof_readtoc_desc :: int where "offsetof_readtoc_desc \<equiv> 12"
abbreviation (input) sizeof_readtoc_desc :: int where "sizeof_readtoc_desc \<equiv> 48"
abbreviation (input) sizeof_readcapacity16 :: int where "sizeof_readcapacity16 \<equiv> 24"
abbreviation (input) sizeof_get_lba_status :: int where "sizeof_get_lba_status \<equiv> 16"
abbreviation (input) sizeof_lba_status_descriptor :: int where "sizeof_lba_status_descriptor \<equiv> 16"
abbreviation (input) offsetof_read_keys :: int where "offsetof_read_keys \<equiv> 16"
abbreviation (input) sizeof_read_reservation :: int where "sizeof_read_reservation \<equiv> 32"
abbreviation (input) sizeof_report_capabilities :: int where "sizeof_report_capabilities \<equiv> 12"
abbreviation (input) sizeof_copy_status :: int where "sizeof_copy_status \<equiv> 16"
abbreviation (input) sizeof_op_params :: int where "sizeof_op_params \<equiv> 36"
abbreviation (input) offsetof_type_codes :: int where "offsetof_type_codes \<equiv> 35"
abbreviation (input) offsetof_command_descriptors :: int where "offsetof_command_descriptors \<equiv> 4"
abbreviation (input) sizeof_command_descriptor :: int where "sizeof_command_descriptor \<equiv> 20"

section \<open>REPORT LUNS\<close>

record scsi_reportluns_list =
  luns_num :: u32
  luns_luns :: "u16 list"

definition scsi_reportluns_datain_getfullsize :: "scsi_task \<Rightarrow> cint" where
  "scsi_reportluns_datain_getfullsize task = task_get_uint32 task 0 + 8"

text \<open>The list head \<open>num\<close> takes four bytes, so storing it needs at least that many.\<close>

definition scsi_reportluns_datain_unmarshall ::
  "alloc_oracle \<Rightarrow> scsi_task \<Rightarrow> (scsi_task \<times> scsi_reportluns_list ptr) option" where
  "scsi_reportluns_datain_unmarshall ok task =
     (if length (datain task) < 4 then Some (task, NULL)
      else
        let list_size = sint (task_get_uint32 task 0 + 8);
            list_size = (if list_size > int (length (datain task))
                         then int (length (datain task)) else list_size);
            num_luns = c_sdiv list_size 8 - 1
        in scsi_malloc_block (Some (task, NULL)) ok task (4 + 2 * num_luns) (4 + 2 * int (nat num_luns))
             (\<lambda>task. Some (task, Ptr
               \<lparr>luns_num = of_int num_luns,
                luns_luns = map (\<lambda>i. task_get_uint16 task (i * 8 + 8)) [0..<nat num_luns]\<rparr>)))"

section \<open>READ CAPACITY(10)\<close>

record scsi_readcapacity10 =
  rc10_lba :: u32
  rc10_block_size :: u32

definition scsi_readcapacity10_datain_getfullsize :: "scsi_task \<Rightarrow> cint" where
  "scsi_readcapacity10_datain_getfullsize task = 8"

definition scsi_readcapacity10_datain_unmarshall ::
  "alloc_oracle \<Rightarrow> scsi_task \<Rightarrow> (scsi_task \<times> scsi_readcapacity10 ptr) option" where
  "scsi_readcapacity10_datain_unmarshall ok task =
     (if length (datain task) < 8 then Some (task, NULL)
      else scsi_malloc_block (Some (task, NULL)) ok task sizeof_readcapacity10 8 (\<lambda>task. Some (task, Ptr
        \<lparr>rc10_lba = task_get_uint32 task 0,
         rc10_block_size = task_get_uint32 task 4\<rparr>)))"

section \<open>READ TOC\<close>

record scsi_toc_desc =
  toc_adr :: cint
  toc_control :: cint
  toc_track :: cint
  toc_lba :: u32

record scsi_session_desc =
  ses_adr :: cint
  ses_control :: cint
  ses_first_in_last :: cint
  ses_lba :: u32

record scsi_fulltoc_desc =
  full_session :: cint
  full_adr :: cint
  full_control :: cint
  full_tno :: cint
  full_point :: cint
  full_min :: cint
  full_sec :: cint
  full_frame :: cint
  full_zero :: cint
  full_pmin :: cint
  full_psec :: cint
  full_pframe :: cint

text \<open>The union: its member is the one of the format; \<open>Desc_none\<close> is the zeroed memory.\<close>

datatype scsi_readtoc_desc =
    Desc_toc scsi_toc_desc
  | Desc_ses scsi_session_desc
  | Desc_full scsi_fulltoc_desc
  | Desc_none

record scsi_readtoc_list =
  tocl_num :: cint
  tocl_first :: cint
  tocl_last :: cint
  tocl_desc :: "scsi_readtoc_desc list"

text \<open>The result is an \<open>int\<close> with the value of a \<open>uint16_t\<close>.\<close>

definition scsi_readtoc_datain_getfullsize :: "scsi_task \<Rightarrow> cint" where
  "scsi_readtoc_datain_getfullsize task = ucast (task_get_uint16 task 0 + 2)"

definition scsi_readtoc_format :: "scsi_task \<Rightarrow> cint" where
  "scsi_readtoc_format task = ucast (cdb task ! 2 AND 0xf)"

definition scsi_readtoc_desc_unmarshall :: "scsi_task \<Rightarrow> nat \<Rightarrow> scsi_readtoc_desc" where
  "scsi_readtoc_desc_unmarshall task i =
     (if scsi_readtoc_format task = SCSI_READ_TOC then Desc_toc
        \<lparr>toc_adr = ucast (task_get_uint8 task (4 + 8 * i + 1) AND 0xf0),
         toc_control = ucast (task_get_uint8 task (4 + 8 * i + 1) AND 0x0f),
         toc_track = ucast (task_get_uint8 task (4 + 8 * i + 2)),
         toc_lba = task_get_uint32 task (4 + 8 * i + 4)\<rparr>
      else if scsi_readtoc_format task = SCSI_READ_SESSION_INFO then Desc_ses
        \<lparr>ses_adr = ucast (task_get_uint8 task (4 + 8 * i + 1) AND 0xf0),
         ses_control = ucast (task_get_uint8 task (4 + 8 * i + 1) AND 0x0f),
         ses_first_in_last = ucast (task_get_uint8 task (4 + 8 * i + 2)),
         ses_lba = task_get_uint32 task (4 + 8 * i + 4)\<rparr>
      else if scsi_readtoc_format task = SCSI_READ_FULL_TOC then Desc_full
        \<lparr>full_session = ucast (task_get_uint8 task (4 + 11 * i + 0) AND 0xf0),
         full_adr = ucast (task_get_uint8 task (4 + 11 * i + 1) AND 0xf0),
         full_control = ucast (task_get_uint8 task (4 + 11 * i + 1) AND 0x0f),
         full_tno = ucast (task_get_uint8 task (4 + 11 * i + 2)),
         full_point = ucast (task_get_uint8 task (4 + 11 * i + 3)),
         full_min = ucast (task_get_uint8 task (4 + 11 * i + 4)),
         full_sec = ucast (task_get_uint8 task (4 + 11 * i + 5)),
         full_frame = ucast (task_get_uint8 task (4 + 11 * i + 6)),
         full_zero = ucast (task_get_uint8 task (4 + 11 * i + 7)),
         full_pmin = ucast (task_get_uint8 task (4 + 11 * i + 8)),
         full_psec = ucast (task_get_uint8 task (4 + 11 * i + 9)),
         full_pframe = ucast (task_get_uint8 task (4 + 11 * i + 10))\<rparr>
      else Desc_none)"

definition scsi_readtoc_datain_unmarshall ::
  "alloc_oracle \<Rightarrow> scsi_task \<Rightarrow> (scsi_task \<times> scsi_readtoc_list ptr) option" where
  "scsi_readtoc_datain_unmarshall ok task =
     (if length (datain task) < 4 then Some (task, NULL)
      else
        let data_len = sint (scsi_readtoc_datain_getfullsize task) - 2
        in if int (length (datain task)) < data_len then Some (task, NULL)
           else
             let num_desc = c_sdiv (data_len - 4) 8
             in scsi_malloc_block (Some (task, NULL)) ok task
                  (offsetof_readtoc_desc + sizeof_readtoc_desc * num_desc)
                  (offsetof_readtoc_desc + sizeof_readtoc_desc * int (nat num_desc)) (\<lambda>task. Some (task, Ptr
                  \<lparr>tocl_num = of_int num_desc,
                   tocl_first = ucast (task_get_uint8 task 2),
                   tocl_last = ucast (task_get_uint8 task 3),
                   tocl_desc = map (scsi_readtoc_desc_unmarshall task) [0..<nat num_desc]\<rparr>)))"

section \<open>SERVICE ACTION IN\<close>

record scsi_readcapacity16 =
  rc16_returned_lba :: u64
  rc16_block_length :: u32
  rc16_p_type :: u8
  rc16_prot_en :: u8
  rc16_p_i_exp :: u8
  rc16_lbppbe :: u8
  rc16_lbpme :: u8
  rc16_lbprz :: u8
  rc16_lalba :: u16

record scsi_lba_status_descriptor =
  lbas_lba :: u64
  lbas_num_blocks :: u32
  lbas_provisioning :: cint

record scsi_get_lba_status =
  gls_num_descriptors :: u32
  gls_descriptors :: "scsi_lba_status_descriptor list"

datatype serviceactionin_view =
    View_readcapacity16 scsi_readcapacity16
  | View_get_lba_status scsi_get_lba_status

definition scsi_serviceactionin_sa :: "scsi_task \<Rightarrow> u8" where
  "scsi_serviceactionin_sa task = cdb task ! 1"

definition scsi_serviceactionin_datain_unmarshall ::
  "alloc_oracle \<Rightarrow> scsi_task \<Rightarrow> (scsi_task \<times> serviceactionin_view ptr) option" where
  "scsi_serviceactionin_datain_unmarshall ok task =
     (if scsi_serviceactionin_sa task = SCSI_READCAPACITY16 then
        scsi_malloc_block (Some (task, NULL)) ok task sizeof_readcapacity16 20 (\<lambda>task.
          Some (task, Ptr (View_readcapacity16
        \<lparr>rc16_returned_lba =
           push_bit 32 (ucast (task_get_uint32 task 0)) OR ucast (task_get_uint32 task 4),
         rc16_block_length = task_get_uint32 task 8,
         rc16_p_type = drop_bit 1 (task_get_uint8 task 12) AND 0x07,
         rc16_prot_en = task_get_uint8 task 12 AND 0x01,
         rc16_p_i_exp = drop_bit 4 (task_get_uint8 task 13) AND 0x0f,
         rc16_lbppbe = task_get_uint8 task 13 AND 0x0f,
         rc16_lbpme = notnot (task_get_uint8 task 14 AND 0x80),
         rc16_lbprz = notnot (task_get_uint8 task 14 AND 0x40),
         rc16_lalba = task_get_uint16 task 14 AND 0x3fff\<rparr>)))
      else if scsi_serviceactionin_sa task = SCSI_GET_LBA_STATUS then
        scsi_malloc_block (Some (task, NULL)) ok task sizeof_get_lba_status 16 (\<lambda>task.
          let len = sint (task_get_uint32 task 0);
              len = (if len > int (length (datain task)) - 4
                     then int (length (datain task)) - 4 else len);
              len = c_sdiv len 16
          in scsi_malloc_block (Some (task, NULL)) ok task (sizeof_lba_status_descriptor * len)
               (sizeof_lba_status_descriptor * int (nat len)) (\<lambda>task.
               Some (task, Ptr (View_get_lba_status
                 \<lparr>gls_num_descriptors = of_int len,
                  gls_descriptors = map (\<lambda>i.
                    \<lparr>lbas_lba = push_bit 32 (ucast (task_get_uint32 task (8 + i * 16 + 0)))
                        OR ucast (task_get_uint32 task (8 + i * 16 + 4)),
                     lbas_num_blocks = task_get_uint32 task (8 + i * 16 + 8),
                     lbas_provisioning = ucast (task_get_uint8 task (8 + i * 16 + 12) AND 0x0f)\<rparr>)
                    [0..<nat len]\<rparr>))))
      else Some (task, NULL))"

section \<open>PERSISTENT RESERVE IN\<close>

record scsi_persistent_reserve_in_read_keys =
  rk_prgeneration :: u32
  rk_additional_length :: u32
  rk_num_keys :: cint
  rk_keys :: "u64 list"

record scsi_persistent_reserve_in_read_reservation =
  rr_prgeneration :: u32
  rr_additional_length :: u32
  rr_reserved :: cint
  rr_reservation_key :: u64
  rr_pr_scope :: u8
  rr_pr_type :: u8

record scsi_persistent_reserve_in_report_capabilities =
  rcap_length :: u16
  rcap_crh :: u8
  rcap_sip_c :: u8
  rcap_atp_c :: u8
  rcap_ptpl_c :: u8
  rcap_tmv :: u8
  rcap_allow_commands :: u8
  rcap_ptpl_a :: u8
  rcap_persistent_reservation_type_mask :: u16

datatype persistentreservein_view =
    View_read_keys scsi_persistent_reserve_in_read_keys
  | View_read_reservation scsi_persistent_reserve_in_read_reservation
  | View_report_capabilities scsi_persistent_reserve_in_report_capabilities

definition scsi_persistentreservein_sa :: "scsi_task \<Rightarrow> u8" where
  "scsi_persistentreservein_sa task = cdb task ! 1 AND 0x1f"

definition scsi_persistentreservein_datain_getfullsize :: "scsi_task \<Rightarrow> cint" where
  "scsi_persistentreservein_datain_getfullsize task =
     (if scsi_persistentreservein_sa task = SCSI_PERSISTENT_RESERVE_READ_KEYS
      then task_get_uint32 task 4 + 8
      else if scsi_persistentreservein_sa task = SCSI_PERSISTENT_RESERVE_READ_RESERVATION then 8
      else if scsi_persistentreservein_sa task = SCSI_PERSISTENT_RESERVE_REPORT_CAPABILITIES then 8
      else -1)"

definition scsi_persistentreservein_datain_unmarshall ::
  "alloc_oracle \<Rightarrow> scsi_task \<Rightarrow> (scsi_task \<times> persistentreservein_view ptr) option" where
  "scsi_persistentreservein_datain_unmarshall ok task =
     (if scsi_persistentreservein_sa task = SCSI_PERSISTENT_RESERVE_READ_KEYS then
        (if length (datain task) < 8 then Some (task, NULL)
         else
           let cdb_keys_len = unat (task_get_uint32 task 4);
               data_keys_len = length (datain task) - 8;
               keys_len = min cdb_keys_len data_keys_len
           in scsi_malloc_block (Some (task, NULL)) ok task (offsetof_read_keys + int keys_len)
                (offsetof_read_keys + 8 * int (keys_len div 8)) (\<lambda>task.
                let num_keys = keys_len div 8
                in Some (task, Ptr (View_read_keys
                  \<lparr>rk_prgeneration = task_get_uint32 task 0,
                   rk_additional_length = of_nat cdb_keys_len,
                   rk_num_keys = of_nat num_keys,
                   rk_keys = map (\<lambda>i. task_get_uint64 task (8 + i * 8)) [0..<num_keys]\<rparr>))))
      else if scsi_persistentreservein_sa task = SCSI_PERSISTENT_RESERVE_READ_RESERVATION then
        scsi_malloc_block (Some (task, NULL)) ok task sizeof_read_reservation 32 (\<lambda>task.
          let held = 0 <s task_get_uint32 task 4
          in Some (task, Ptr (View_read_reservation
            \<lparr>rr_prgeneration = task_get_uint32 task 0,
             rr_additional_length = 0,
             rr_reserved = (if held then 1 else 0),
             rr_reservation_key = (if held then task_get_uint64 task 8 else 0),
             rr_pr_scope = (if held then drop_bit 4 (task_get_uint8 task 21) else 0),
             rr_pr_type = (if held then task_get_uint8 task 21 AND 0xf else 0)\<rparr>)))
      else if scsi_persistentreservein_sa task = SCSI_PERSISTENT_RESERVE_REPORT_CAPABILITIES then
        scsi_malloc_block (Some (task, NULL)) ok task sizeof_report_capabilities 12 (\<lambda>task.
          Some (task, Ptr (View_report_capabilities
        \<lparr>rcap_length = task_get_uint16 task 0,
         rcap_crh = notnot (task_get_uint8 task 2 AND 0x10),
         rcap_sip_c = notnot (task_get_uint8 task 2 AND 0x08),
         rcap_atp_c = notnot (task_get_uint8 task 2 AND 0x04),
         rcap_ptpl_c = notnot (task_get_uint8 task 2 AND 0x01),
         rcap_tmv = notnot (task_get_uint8 task 3 AND 0x80),
         rcap_allow_commands = drop_bit 4 (task_get_uint8 task 3 AND 0x70),
         rcap_ptpl_a = 0,
         rcap_persistent_reservation_type_mask = task_get_uint16 task 4\<rparr>)))
      else Some (task, NULL))"

section \<open>RECEIVE COPY RESULTS\<close>

record scsi_copy_results_copy_status =
  cs_available_data :: u32
  cs_copy_manager_status :: u8
  cs_hdd :: u8
  cs_segments_processed :: u16
  cs_transfer_count_units :: u8
  cs_transfer_count :: u32

record scsi_copy_results_op_params =
  op_available_data :: u32
  op_max_target_desc_count :: u16
  op_max_segment_desc_count :: u16
  op_max_desc_list_length :: u32
  op_max_segment_length :: u32
  op_max_inline_data_length :: u32
  op_held_data_limit :: u32
  op_max_stream_device_transfer_size :: u32
  op_total_concurrent_copies :: u16
  op_max_concurrent_copies :: u8
  op_data_segment_granularity :: u8
  op_inline_data_granularity :: u8
  op_held_data_granularity :: u8
  op_impl_desc_list_length :: u8
  op_imp_desc_type_codes :: bytes

datatype receivecopyresults_view =
    View_copy_status scsi_copy_results_copy_status
  | View_op_params scsi_copy_results_op_params

definition scsi_receivecopyresults_datain_unmarshall ::
  "alloc_oracle \<Rightarrow> scsi_task \<Rightarrow> (scsi_task \<times> receivecopyresults_view ptr) option" where
  "scsi_receivecopyresults_datain_unmarshall ok task =
     (let sa = cdb task ! 1 AND 0x1f
      in if sa = SCSI_COPY_RESULTS_COPY_STATUS then
        (let len = task_get_uint32 task 0
         in if len <s 8 then Some (task, NULL)
            else scsi_malloc_block (Some (task, NULL)) ok task sizeof_copy_status 16 (\<lambda>task.
              Some (task, Ptr (View_copy_status
          \<lparr>cs_available_data = len,
           cs_copy_manager_status = task_get_uint8 task 4 AND 0x7F,
           cs_hdd = drop_bit 7 (task_get_uint8 task 4 AND 0x80),
           cs_segments_processed = task_get_uint16 task 5,
           cs_transfer_count_units = task_get_uint8 task 7,
           cs_transfer_count = task_get_uint32 task 8\<rparr>))))
      else if sa = SCSI_COPY_RESULTS_OP_PARAMS then
        (let len = task_get_uint32 task 0
         in if len <s 40 then Some (task, NULL)
            else scsi_malloc_block (Some (task, NULL)) ok task
              (sizeof_op_params + int (unat (task_get_uint8 task 43)))
              (offsetof_type_codes + int (unat (task_get_uint8 task 43))) (\<lambda>task.
              Some (task, Ptr (View_op_params
          \<lparr>op_available_data = len,
           op_max_target_desc_count = task_get_uint16 task 8,
           op_max_segment_desc_count = task_get_uint16 task 10,
           op_max_desc_list_length = task_get_uint32 task 12,
           op_max_segment_length = task_get_uint32 task 16,
           op_max_inline_data_length = task_get_uint32 task 20,
           op_held_data_limit = task_get_uint32 task 24,
           op_max_stream_device_transfer_size = task_get_uint32 task 28,
           op_total_concurrent_copies = task_get_uint16 task 34,
           op_max_concurrent_copies = task_get_uint8 task 36,
           op_data_segment_granularity = task_get_uint8 task 37,
           op_inline_data_granularity = task_get_uint8 task 38,
           op_held_data_granularity = task_get_uint8 task 39,
           op_impl_desc_list_length = task_get_uint8 task 43,
           op_imp_desc_type_codes = 
             map (\<lambda>i. task_get_uint8 task (44 + i)) [0..<unat (task_get_uint8 task 43)]\<rparr>))))
      else Some (task, NULL))"

section \<open>MAINTENANCE IN\<close>

record scsi_op_timeout_descriptor =
  to_descriptor_length :: u16
  to_command_specific :: u8
  to_nominal_processing_timeout :: u32
  to_recommended_timeout :: u32

record scsi_command_descriptor =
  cd_opcode :: u8
  cd_sa :: u16
  cd_ctdp :: u8
  cd_servactv :: u8
  cd_cdb_len :: u16
  cd_to :: scsi_op_timeout_descriptor

record scsi_report_supported_op_codes =
  rsoc_num_descriptors :: cint
  rsoc_descriptors :: "scsi_command_descriptor list"

record scsi_report_supported_op_codes_one_command =
  one_ctdp :: u8
  one_support :: u8
  one_cdb_length :: u8
  one_cdb_usage_data :: bytes
  one_to :: scsi_op_timeout_descriptor

text \<open>\<open>ports\<close> points into the \<open>uint16_t\<close> array behind the groups: an index of it.\<close>

record scsi_target_port_group =
  tpg_byte0 :: u8
  tpg_flags :: u8
  tpg_port_group :: u16
  tpg_status_code :: u8
  tpg_vendor_specific :: u8
  tpg_port_count :: u8
  tpg_retrieved_port_count :: u8
  tpg_ports :: nat

record scsi_report_target_port_groups =
  rtpg_num_groups :: cint
  rtpg_groups :: "scsi_target_port_group list"
  rtpg_port_array :: "u16 list"

datatype maintenancein_view =
    View_rsoc scsi_report_supported_op_codes
  | View_rsoc_one scsi_report_supported_op_codes_one_command
  | View_rtpg scsi_report_target_port_groups

definition scsi_maintenancein_sa :: "scsi_task \<Rightarrow> u8" where
  "scsi_maintenancein_sa task = cdb task ! 1"

definition scsi_report_supported_opcodes_options :: "scsi_task \<Rightarrow> u8" where
  "scsi_report_supported_opcodes_options task = cdb task ! 2 AND 0x07"

definition scsi_maintenancein_datain_getfullsize :: "scsi_task \<Rightarrow> cint" where
  "scsi_maintenancein_datain_getfullsize task =
     (if scsi_maintenancein_sa task = SCSI_REPORT_SUPPORTED_OP_CODES then
        (let options = scsi_report_supported_opcodes_options task
         in if options = SCSI_REPORT_SUPPORTING_OPS_ALL then task_get_uint32 task 0 + 4
            else if options = SCSI_REPORT_SUPPORTING_OPCODE
              \<or> options = SCSI_REPORT_SUPPORTING_SERVICEACTION
            then 4 + (if task_get_uint8 task 1 AND 0x80 \<noteq> 0 then 12 else 0)
                   + ucast (task_get_uint16 task 2)
            else -1)
      else if scsi_maintenancein_sa task = SCSI_REPORT_TARGET_PORT_GROUPS
      then task_get_uint32 task 0 + 4
      else -1)"

subsection \<open>REPORT TARGET PORT GROUPS\<close>

text \<open>
  The inner loop of both passes: how many of the \<open>cpc\<close> announced port descriptors lie in
  the data, from offset \<open>i\<close> and the \<open>k\<close>-th on.
\<close>

function rtpg_ports :: "nat \<Rightarrow> nat \<Rightarrow> nat \<Rightarrow> nat \<Rightarrow> nat" where
  "rtpg_ports sz i cpc k =
     (if k < cpc \<and> i + (k + 1) * 4 \<le> sz then rtpg_ports sz i cpc (k + 1) else k)"
  by auto
termination by (relation "measure (\<lambda>(sz, i, cpc, k). cpc - k)") auto

declare rtpg_ports.simps [simp del]

text \<open>The first pass: the numbers of groups and of ports.\<close>

function rtpg_count :: "scsi_task \<Rightarrow> nat \<Rightarrow> nat \<Rightarrow> nat \<Rightarrow> nat \<times> nat" where
  "rtpg_count task i group_count port_count =
     (let sz = length (datain task)
      in if i < sz \<and> 8 \<le> sz - i then
           let current_port_count = unat (task_get_uint8 task (i + 7));
               k = rtpg_ports sz (i + 8) current_port_count 0
           in rtpg_count task (i + 8 + k * 4) (group_count + 1) (port_count + k)
         else (group_count, port_count))"
  by auto
termination by (relation "measure (\<lambda>(task, i, g, p). length (datain task) - i)") auto

declare rtpg_count.simps [simp del]

text \<open>
  The second pass, on the \<open>gcap\<close> groups and the \<open>pcap\<close> ports that were allocated: every store
  behind them is undefined. The arrays are filled in order, so they are given as what has
  been stored so far.
\<close>

definition rtpg_group :: "scsi_task \<Rightarrow> nat \<Rightarrow> nat \<Rightarrow> nat \<Rightarrow> scsi_target_port_group" where
  "rtpg_group task i k port =
     \<lparr>tpg_byte0 = task_get_uint8 task i,
      tpg_flags = task_get_uint8 task (i + 1),
      tpg_port_group = task_get_uint16 task (i + 2),
      tpg_status_code = task_get_uint8 task (i + 5),
      tpg_vendor_specific = 0,
      tpg_port_count = task_get_uint8 task (i + 7),
      tpg_retrieved_port_count = of_nat k,
      tpg_ports = port\<rparr>"

function rtpg_fill :: "scsi_task \<Rightarrow> nat \<Rightarrow> nat \<Rightarrow> nat \<Rightarrow> scsi_target_port_group list \<Rightarrow> u16 list \<Rightarrow>
  (scsi_target_port_group list \<times> u16 list) option" where
  "rtpg_fill task gcap pcap i groups ports =
     (let sz = length (datain task)
      in if i < sz \<and> 8 \<le> sz - i then
           let current_port_count = unat (task_get_uint8 task (i + 7));
               k = rtpg_ports sz (i + 8) current_port_count 0
           in if gcap \<le> length groups \<or> pcap < length ports + k then None
              else rtpg_fill task gcap pcap (i + 8 + k * 4)
                     (groups @ [rtpg_group task i k (length ports)])
                     (ports @ map (\<lambda>j. task_get_uint16 task (i + 8 + j * 4 + 2)) [0..<k])
         else Some (groups, ports))"
  by auto
termination by (relation "measure (\<lambda>(task, gcap, pcap, i, gs, ps). length (datain task) - i)") auto

declare rtpg_fill.simps [simp del]

definition scsi_report_target_port_groups_unmarshal ::
  "alloc_oracle \<Rightarrow> scsi_task \<Rightarrow> (scsi_task \<times> scsi_report_target_port_groups ptr) option" where
  "scsi_report_target_port_groups_unmarshal ok task =
     (if length (datain task) < 4 then Some (task, NULL)
      else
        let (group_count, port_count) = rtpg_count task 4 0 0
        in scsi_malloc_or (Some (task, NULL)) ok task (\<lambda>task. do {
             (groups, ports) \<leftarrow> rtpg_fill task group_count port_count 4 [] [];
             Some (task, Ptr \<lparr>rtpg_num_groups = of_nat group_count,
               rtpg_groups = groups, rtpg_port_array = ports\<rparr>)
           }))"

subsection \<open>REPORT SUPPORTED OPERATION CODES\<close>

definition zero_timeout :: scsi_op_timeout_descriptor where
  "zero_timeout = \<lparr>to_descriptor_length = 0, to_command_specific = 0,
     to_nominal_processing_timeout = 0, to_recommended_timeout = 0\<rparr>"

definition rsoc_timeout :: "scsi_task \<Rightarrow> nat \<Rightarrow> scsi_op_timeout_descriptor" where
  "rsoc_timeout task i =
     \<lparr>to_descriptor_length = task_get_uint16 task i,
      to_command_specific = task_get_uint8 task (i + 3),
      to_nominal_processing_timeout = task_get_uint32 task (i + 4),
      to_recommended_timeout = task_get_uint32 task (i + 8)\<rparr>"

definition rsoc_desc :: "scsi_task \<Rightarrow> nat \<Rightarrow> scsi_command_descriptor" where
  "rsoc_desc task i =
     (let ctdp = notnot (task_get_uint8 task (i + 5) AND 0x02)
      in \<lparr>cd_opcode = task_get_uint8 task i,
          cd_sa = task_get_uint16 task (i + 2),
          cd_ctdp = ctdp,
          cd_servactv = notnot (task_get_uint8 task (i + 5) AND 0x01),
          cd_cdb_len = task_get_uint16 task (i + 6),
          cd_to = (if ctdp = 0 then zero_timeout else rsoc_timeout task (i + 8))\<rparr>)"

definition rsoc_skip :: "scsi_command_descriptor \<Rightarrow> nat" where
  "rsoc_skip d = unat (to_descriptor_length (cd_to d)) + 2"

text \<open>
  The descriptor loop on a block of \<open>sz\<close> bytes: a descriptor that does not fit into it,
  \<open>rsoc->descriptors[n]\<close> behind the allocation, is an undefined store. The offset \<open>i\<close> is an
  \<open>int\<close>: a sum that does not fit into it (\<open>int_fits\<close>) is undefined too; the largest sums are
  those of the two additions to \<open>i\<close> and, with a timeout part, the offset of its last field.
\<close>

function rsoc_loop :: "scsi_task \<Rightarrow> int \<Rightarrow> int \<Rightarrow> nat \<Rightarrow> scsi_command_descriptor list \<Rightarrow>
  scsi_command_descriptor list option" where
  "rsoc_loop task sz len i ds =
     (if len < 8 then Some ds
      else if sz < offsetof_command_descriptors + sizeof_command_descriptor * (int (length ds) + 1)
      then None
      else if \<not> int_fits (i + 8) then None
      else
        let d = rsoc_desc task i
        in if cd_ctdp d = 0 then rsoc_loop task sz (len - 8) (i + 8) (ds @ [d])
           else if \<not> int_fits (i + 16) \<or> \<not> int_fits (i + 8 + rsoc_skip d) then None
           else
             rsoc_loop task sz (len - 8 - int (rsoc_skip d)) (i + 8 + rsoc_skip d) (ds @ [d]))"
  by auto
termination by (relation "measure (\<lambda>(task, sz, len, i, ds). nat len)") auto

declare rsoc_loop.simps [simp del]

definition rsoc_unmarshall ::
  "alloc_oracle \<Rightarrow> scsi_task \<Rightarrow> (scsi_task \<times> maintenancein_view ptr) option" where
  "rsoc_unmarshall ok task =
     (if length (datain task) < 4 then Some (task, NULL)
      else
        let len = sint (task_get_uint32 task 0);
            sz = offsetof_command_descriptors + c_sdiv len 8 * sizeof_command_descriptor
        in scsi_malloc_block (Some (task, NULL)) ok task sz 4 (\<lambda>task. do {
             ds \<leftarrow> rsoc_loop task sz len 4 [];
             Some (task, Ptr (View_rsoc
               \<lparr>rsoc_num_descriptors = of_nat (length ds), rsoc_descriptors = ds\<rparr>))
           }))"

definition rsoc_one_unmarshall ::
  "alloc_oracle \<Rightarrow> scsi_task \<Rightarrow> (scsi_task \<times> maintenancein_view ptr) option" where
  "rsoc_one_unmarshall ok task =
     scsi_malloc_or (Some (task, NULL)) ok task (\<lambda>task. do {
       let ctdp = notnot (task_get_uint8 task 1 AND 0x80);
       let cdb_length = ucast (task_get_uint16 task 2);
       usage \<leftarrow> (if unat cdb_length \<le> 16
                 then do { b \<leftarrow> rd_range (datain task) 4 (unat cdb_length);
                           Some (b @ replicate (16 - unat cdb_length) 0) }
                 else Some (replicate 16 0));
       Some (task, Ptr (View_rsoc_one
         \<lparr>one_ctdp = ctdp,
          one_support = task_get_uint8 task 1 AND 0x07,
          one_cdb_length = cdb_length,
          one_cdb_usage_data = usage,
          one_to = (if ctdp = 0 then zero_timeout else rsoc_timeout task (4 + unat cdb_length))\<rparr>))
     })"

definition scsi_maintenancein_datain_unmarshall ::
  "alloc_oracle \<Rightarrow> scsi_task \<Rightarrow> (scsi_task \<times> maintenancein_view ptr) option" where
  "scsi_maintenancein_datain_unmarshall ok task =
     (if scsi_maintenancein_sa task = SCSI_REPORT_SUPPORTED_OP_CODES then
        (let options = scsi_report_supported_opcodes_options task
         in if options = SCSI_REPORT_SUPPORTING_OPS_ALL then rsoc_unmarshall ok task
            else if options = SCSI_REPORT_SUPPORTING_OPCODE
              \<or> options = SCSI_REPORT_SUPPORTING_SERVICEACTION
            then rsoc_one_unmarshall ok task
            else Some (task, NULL))
      else if scsi_maintenancein_sa task = SCSI_REPORT_TARGET_PORT_GROUPS then do {
        (task, p) \<leftarrow> scsi_report_target_port_groups_unmarshal ok task;
        Some (task, case p of NULL \<Rightarrow> NULL | Ptr x \<Rightarrow> Ptr (View_rtpg x))
      }
      else Some (task, NULL))"

section \<open>Report target port groups: the two passes agree\<close>

lemma rtpg_count_mem: "rtpg_count (task\<lparr>mem := k\<rparr>) i a b = rtpg_count task i a b"
  by (induction task i a b rule: rtpg_count.induct)
     (subst (1 2) rtpg_count.simps, simp add: Let_def)

lemma rtpg_ports_bounds:
  "k \<le> cpc \<Longrightarrow> rtpg_ports sz i cpc k \<le> cpc" "k \<le> rtpg_ports sz i cpc k"
  by (induction sz i cpc k rule: rtpg_ports.induct) (subst rtpg_ports.simps, auto)+

fun rtpg_slices :: "nat \<Rightarrow> scsi_target_port_group list \<Rightarrow> nat \<Rightarrow> bool" where
  "rtpg_slices a [] b \<longleftrightarrow> a = b"
| "rtpg_slices a (g # gs) b \<longleftrightarrow>
     tpg_ports g = a \<and> tpg_retrieved_port_count g \<le> tpg_port_count g \<and>
     rtpg_slices (a + unat (tpg_retrieved_port_count g)) gs b"

lemma rtpg_slices_snoc:
  "rtpg_slices a (gs @ [g]) b \<longleftrightarrow>
     rtpg_slices a gs (tpg_ports g) \<and> tpg_retrieved_port_count g \<le> tpg_port_count g \<and>
     b = tpg_ports g + unat (tpg_retrieved_port_count g)"
  by (induction gs arbitrary: a) auto

lemma rtpg_retrieved:
  fixes c :: u8
  assumes "k \<le> unat c"
  shows "unat (of_nat k :: u8) = k" "(of_nat k :: u8) \<le> c"
proof -
  have "k < 2 ^ LENGTH(8)"
    using assms unat_byte_less [of c] by simp
  then show "unat (of_nat k :: u8) = k" by (simp add: unsigned_of_nat take_bit_nat_eq_self)
  with assms show "(of_nat k :: u8) \<le> c" by (simp add: word_le_nat_alt)
qed

lemma rtpg_passes_agree:
  assumes "rtpg_count task i (length groups) (length ports) = (g, p)"
    and "rtpg_slices 0 groups (length ports)"
  shows "length groups \<le> g \<and> length ports \<le> p \<and>
    (\<exists>gs ps. rtpg_fill task g p i groups ports = Some (gs, ps) \<and> length gs = g \<and> length ps = p \<and>
       rtpg_slices 0 gs (length ps))"
  using assms
proof (induction task i "length groups" "length ports" arbitrary: groups ports rule: rtpg_count.induct)
  case (1 task i groups ports)
  let ?sz = "length (datain task)" and ?c = "task_get_uint8 task (i + 7)"
  let ?k = "rtpg_ports ?sz (i + 8) (unat ?c) 0"
  let ?gs = "groups @ [rtpg_group task i ?k (length ports)]"
  let ?ps = "ports @ map (\<lambda>j. task_get_uint16 task (i + 8 + j * 4 + 2)) [0..<?k]"
  have k: "?k \<le> unat ?c" by (rule rtpg_ports_bounds) simp
  show ?case
  proof (cases "i < ?sz \<and> 8 \<le> ?sz - i")
    case True
    have slices: "rtpg_slices 0 ?gs (length ?ps)"
      using 1(3) rtpg_retrieved [OF k] by (simp add: rtpg_slices_snoc rtpg_group_def)
    have "rtpg_count task (i + 8 + ?k * 4) (length ?gs) (length ?ps) = (g, p)"
      using 1(2) True by (subst (asm) rtpg_count.simps) (simp add: Let_def)
    from "1.hyps" [OF refl True refl refl _ _ this slices]
    have "length ?gs \<le> g \<and> length ?ps \<le> p \<and>
      (\<exists>gs ps. rtpg_fill task g p (i + 8 + ?k * 4) ?gs ?ps = Some (gs, ps) \<and> length gs = g \<and>
         length ps = p \<and> rtpg_slices 0 gs (length ps))"
      by simp
    with True show ?thesis
      by (subst rtpg_fill.simps) (simp add: Let_def)
  next
    case False
    with 1(2,3) show ?thesis
      by (subst (asm) rtpg_count.simps) (subst rtpg_fill.simps, auto simp: Let_def)
  qed
qed

text \<open>Whatever the allocation does, the decoder is defined.\<close>

lemma scsi_rtpg_total: "scsi_report_target_port_groups_unmarshal ok task \<noteq> None"
proof -
  obtain g p where gp: "rtpg_count task 4 0 0 = (g, p)" by fastforce
  let ?t = "task\<lparr>mem := Suc (mem task)\<rparr>"
  have "rtpg_count ?t 4 (length []) (length []) = (g, p)" using gp by (simp add: rtpg_count_mem)
  then have "rtpg_fill ?t g p 4 [] [] \<noteq> None"
    using rtpg_passes_agree [of ?t 4 "[]" "[]" g p] by auto
  with gp show ?thesis
    by (auto simp: scsi_report_target_port_groups_unmarshal_def scsi_malloc_or_def)
qed

section \<open>Report supported operation codes\<close>

text \<open>A descriptor with a timeout part has its flag byte inside the received data.\<close>

lemma rsoc_desc_ctdp: "cd_ctdp (rsoc_desc task i) \<noteq> 0 \<Longrightarrow> i + 5 < length (datain task)"
  by (auto simp: rsoc_desc_def Let_def task_get_uint8_def notnot_def split: if_splits)

lemma rsoc_skip_bound: "rsoc_skip d < 2 ^ 16 + 2"
  using unsigned_less [of "to_descriptor_length (cd_to d)"] by (simp add: rsoc_skip_def)

text \<open>
  The loop is defined when the announced length and the data leave room in an \<open>int\<close>: the
  offset and the length left add up to what was announced.
\<close>

lemma rsoc_loop_defined:
  assumes "8 * int (length ds) + len < 8 * cap + 8" "int i + len \<le> int (2 ^ 31) - 1"
    and "length (datain task) + 2 ^ 17 \<le> 2 ^ 31"
  shows "\<exists>ds'. rsoc_loop task (4 + 20 * cap) len i ds = Some ds' \<and>
    int (length ds') \<le> max cap (int (length ds))"
  using assms
proof (induction task "4 + 20 * cap" len i ds rule: rsoc_loop.induct)
  case (1 task len i ds)
  show ?case
  proof (cases "len < 8")
    case True
    then show ?thesis by (subst rsoc_loop.simps) simp
  next
    case False
    with 1(3,4) have cap: "int (length ds) < cap" and fits: "int_fits (i + 8)"
      by (auto simp: int_fits_def)
    from cap have "int (length ds) + 1 \<le> cap" by simp
    then have room: "\<not> 4 + 20 * cap < 4 + 20 * (int (length ds) + 1)" by simp
    let ?d = "rsoc_desc task i"
    show ?thesis
    proof (cases "cd_ctdp ?d = 0")
      case True
      then show ?thesis
        using 1(1) [OF False _ _ refl True] 1(3-5) cap room fits False
        by (subst rsoc_loop.simps) (simp add: Let_def)
    next
      case ctdp: False
      have more: "int_fits (i + 16)" "int_fits (i + 8 + rsoc_skip ?d)"
        using rsoc_desc_ctdp [OF ctdp] rsoc_skip_bound [of ?d] 1(5)
        unfolding int_fits_def by auto
      then show ?thesis
        using 1(2) [OF False _ _ refl ctdp] 1(3-5) cap room fits ctdp False
        by (subst rsoc_loop.simps) (simp add: Let_def)
    qed
  qed
qed

lemma c_sdiv_small: "\<bar>a\<bar> < b \<Longrightarrow> c_sdiv a b = 0"
  by (simp add: c_sdiv_def)

lemma rsoc_cap: "len < 8 * max 0 (c_sdiv len 8) + 8"
  by (cases "0 \<le> len") (auto simp: c_sdiv_nonneg)

text \<open>The announced length and the data keep every offset of the loop inside an \<open>int\<close>.\<close>

definition rsoc_fits :: "scsi_task \<Rightarrow> bool" where
  "rsoc_fits task \<longleftrightarrow>
     sint (task_get_uint32 task 0) < 2 ^ 31 - 4 \<and> length (datain task) \<le> 2 ^ 31 - 2 ^ 17"

lemma rsoc_loop_total:
  assumes "len < 2 ^ 31 - 4" "length (datain task) \<le> 2 ^ 31 - 2 ^ 17" "0 \<le> c_sdiv len 8"
  shows "\<exists>ds. rsoc_loop task (4 + c_sdiv len 8 * 20) len 4 [] = Some ds \<and>
    int (length ds) \<le> c_sdiv len 8"
  using rsoc_loop_defined [of "[]" len "c_sdiv len 8" 4 task] rsoc_cap [of len] assms
  by (simp add: mult.commute)

section \<open>Report LUNs\<close>

lemma luns_count: "c_sdiv (min (int (f + 8)) (int L)) 8 = int (min (f + 8) L div 8)"
  by (simp add: c_sdiv_nonneg flip: of_nat_min)

lemma luns_count_short:
  "L < 8 \<Longrightarrow> c_sdiv (min (int (f + 8)) (int L)) 8 = 0"
  by (simp add: c_sdiv_nonneg flip: of_nat_min)

lemma reportluns_size:
  assumes "unat (task_get_uint32 task 0) < 2 ^ 31 - 8"
  shows "(if sint (task_get_uint32 task 0 + 8) > n then n else sint (task_get_uint32 task 0 + 8)) =
    min (int (unat (task_get_uint32 task 0) + 8)) n"
  using assms sint_small [of "task_get_uint32 task 0" 8] by simp

lemma rsoc_unmarshall_cases:
  assumes "ok (mem task)" "4 \<le> length (datain task)" "rsoc_fits task"
  shows "\<exists>t p. rsoc_unmarshall ok task = Some (t, p) \<and>
    (if - 8 < sint (task_get_uint32 task 0) then
       t = task\<lparr>mem := Suc (mem task)\<rparr> \<and>
       (\<exists>r. p = Ptr (View_rsoc r) \<and>
          rsoc_num_descriptors r = of_nat (length (rsoc_descriptors r)) \<and>
          length (rsoc_descriptors r) \<le> nat (sint (task_get_uint32 task 0)) div 8)
     else p = NULL \<and> t = task)"
proof -
  let ?len = "sint (task_get_uint32 task 0)" and ?t = "task\<lparr>mem := Suc (mem task)\<rparr>"
  have fits: "?len < 2 ^ 31 - 4" "length (datain ?t) \<le> 2 ^ 31 - 2 ^ 17"
    using assms(3) by (simp_all add: rsoc_fits_def)
  show ?thesis
  proof (cases "- 8 < ?len")
    case True
    then have cap: "c_sdiv ?len 8 = int (nat ?len div 8)"
      by (cases "0 \<le> ?len") (simp_all add: c_sdiv_nonneg zdiv_int c_sdiv_small)
    with rsoc_loop_total [OF fits]
    obtain ds where "rsoc_loop ?t (4 + int (nat ?len div 8) * 20) ?len 4 [] = Some ds"
      "length ds \<le> nat ?len div 8" by auto
    with True cap assms(1,2) show ?thesis
      by (simp add: rsoc_unmarshall_def scsi_malloc_block_fits scsi_malloc_or_def Let_def)
  next
    case False
    then have "c_sdiv ?len 8 \<le> - 1" by (simp add: c_sdiv_def)
    with False assms(1,2) show ?thesis
      by (simp add: rsoc_unmarshall_def scsi_malloc_block_def scsi_malloc_sized_def Let_def)
  qed
qed

lemma scsi_rsoc_defined:
  assumes "rsoc_fits task"
  shows "rsoc_unmarshall ok task \<noteq> None"
proof (cases "ok (mem task) \<and> 4 \<le> length (datain task)")
  case True
  with rsoc_unmarshall_cases [of ok task] assms show ?thesis by auto
next
  case False
  then show ?thesis
    by (auto simp: rsoc_unmarshall_def scsi_malloc_block_def scsi_malloc_sized_def scsi_malloc_or_def Let_def)
qed

section \<open>Properties\<close>

text \<open>
  C31: whatever bytes the target sends, the REPORT TARGET PORT GROUPS decoder stays inside what it
  allocated: its second pass stores exactly the number of groups and ports the first counted,
  and the port slices of the groups follow each other and end at the end of the port array.
\<close>

theorem scsi_rtpg_two_passes:
  assumes "4 \<le> length (datain task)" "ok (mem task)"
  shows "\<exists>r. scsi_report_target_port_groups_unmarshal ok task =
      Some (task\<lparr>mem := Suc (mem task)\<rparr>, Ptr r) \<and>
    rtpg_num_groups r = of_nat (length (rtpg_groups r)) \<and>
    rtpg_slices 0 (rtpg_groups r) (length (rtpg_port_array r))"
proof -
  obtain g p where gp: "rtpg_count task 4 0 0 = (g, p)" by fastforce
  let ?t = "task\<lparr>mem := Suc (mem task)\<rparr>"
  have "rtpg_count ?t 4 (length []) (length []) = (g, p)" using gp by (simp add: rtpg_count_mem)
  then obtain gs ps where "rtpg_fill ?t g p 4 [] [] = Some (gs, ps)" "length gs = g"
    "rtpg_slices 0 gs (length ps)"
    using rtpg_passes_agree [of ?t 4 "[]" "[]" g p] by auto
  with gp assms show ?thesis
    by (simp add: scsi_report_target_port_groups_unmarshal_def scsi_malloc_or_def)
qed

text \<open>
  C32: the descriptor loop of REPORT SUPPORTED OPERATION CODES ends and stays inside its
  allocation, for every mix of descriptors with and without a timeout part. A length is
  announced as a 32 bit number that the code reads as an \<open>int\<close>: with less than \<open>2 ^ 31 - 4\<close>
  (and data that leave room in an \<open>int\<close>) at most \<open>len / 8\<close> descriptors are stored, the number
  that was allocated; from \<open>2 ^ 31\<close> on the length is negative, and either the allocation is
  refused or no descriptor is stored.
\<close>

theorem scsi_rsoc_within_allocation:
  assumes "ok (mem task)" "4 \<le> length (datain task)" "rsoc_fits task"
  shows "\<exists>t p. rsoc_unmarshall ok task = Some (t, p) \<and>
    (if - 8 < sint (task_get_uint32 task 0) then
       t = task\<lparr>mem := Suc (mem task)\<rparr> \<and>
       (\<exists>r. p = Ptr (View_rsoc r) \<and>
          rsoc_num_descriptors r = of_nat (length (rsoc_descriptors r)) \<and>
          length (rsoc_descriptors r) \<le> nat (sint (task_get_uint32 task 0)) div 8)
     else p = NULL \<and> t = task)"
  using assms by (rule rsoc_unmarshall_cases)

text \<open>
  PERSISTENT RESERVE IN / READ KEYS returns the keys that both the ADDITIONAL LENGTH and the
  received data cover, each of them the eight bytes at its place; none is made up from bytes that
  were not received.
\<close>

theorem scsi_read_keys_within_data:
  assumes "scsi_persistentreservein_sa task = SCSI_PERSISTENT_RESERVE_READ_KEYS"
    and "8 \<le> length (datain task)" "ok (mem task)"
  shows "\<exists>r. scsi_persistentreservein_datain_unmarshall ok task =
      Some (task\<lparr>mem := Suc (mem task)\<rparr>, Ptr (View_read_keys r)) \<and>
    length (rk_keys r) = min (unat (task_get_uint32 task 4)) (length (datain task) - 8) div 8 \<and>
    (\<forall>i < length (rk_keys r). 16 + i * 8 \<le> length (datain task) \<and>
       rk_keys r ! i = scsi_get_uint64 (datain task) (8 + i * 8))"
proof -
  let ?n = "min (unat (task_get_uint32 task 4)) (length (datain task) - 8) div 8"
  have "16 + i * 8 \<le> length (datain task)" if "i < ?n" for i
  proof -
    have "?n * 8 \<le> length (datain task) - 8" by (simp add: min.coboundedI2)
    with that assms(2) show ?thesis by linarith
  qed
  with assms show ?thesis
    by (simp add: scsi_persistentreservein_datain_unmarshall_def scsi_malloc_block_fits
        scsi_malloc_or_def Let_def task_get_uint64_def task_get_uint32_def add.commute)
qed

text \<open>
  REPORT LUNS returns one LUN for every complete 8 byte entry that both the LUN LIST LENGTH and
  the received data cover, the first two bytes of each.
\<close>

theorem scsi_reportluns_within_data:
  assumes "8 \<le> length (datain task)" "ok (mem task)"
    and "unat (task_get_uint32 task 0) < 2 ^ 31 - 8"
  shows "\<exists>r. scsi_reportluns_datain_unmarshall ok task =
      Some (task\<lparr>mem := Suc (mem task)\<rparr>, Ptr r) \<and>
    length (luns_luns r) =
      min (unat (task_get_uint32 task 0) + 8) (length (datain task)) div 8 - 1 \<and>
    (\<forall>i < length (luns_luns r). i * 8 + 16 \<le> length (datain task) \<and>
       luns_luns r ! i = scsi_get_uint16 (datain task) (i * 8 + 8))"
proof -
  let ?n = "min (unat (task_get_uint32 task 0) + 8) (length (datain task)) div 8 - 1"
  have bound: "i * 8 + 16 \<le> length (datain task)" if "i < ?n" for i
    using that by linarith
  have "0 < min (unat (task_get_uint32 task 0) + 8) (length (datain task)) div 8"
    using assms(1) by simp
  then have "scsi_reportluns_datain_unmarshall ok task = Some (task\<lparr>mem := Suc (mem task)\<rparr>, Ptr
      \<lparr>luns_num = of_nat ?n, luns_luns = map (\<lambda>i. task_get_uint16 task (i * 8 + 8)) [0..<?n]\<rparr>)"
    using assms(2) 
    by (simp add: scsi_reportluns_datain_unmarshall_def reportluns_size [OF assms(3)] luns_count
        scsi_malloc_block_fits scsi_malloc_or_def nat_int_minus_1 Let_def del: of_nat_add)
  with bound show ?thesis
    by (auto simp: task_get_uint16_def)
qed

text \<open>
  A REPORT LUNS response of four to seven bytes, which passes the decoder's size check, makes
  the number of LUNs -1: the list is allocated two bytes short and storing its head overflows it.
\<close>

theorem scsi_reportluns_short_overflow:
  assumes "4 \<le> length (datain task)" "length (datain task) < 8" "ok (mem task)"
    and "unat (task_get_uint32 task 0) < 2 ^ 31 - 8"
  shows "scsi_reportluns_datain_unmarshall ok task = None"
proof -
  note luns_count_short [OF assms(2), of "unat (task_get_uint32 task 0)"]
  with assms show ?thesis
    by (simp add: scsi_reportluns_datain_unmarshall_def reportluns_size scsi_malloc_block_def
        scsi_malloc_sized_def scsi_malloc_or_def)
qed

text \<open>
  A READ TOC response with \<open>n\<close> descriptors of 8 bytes (its TOC DATA LENGTH is \<open>2 + 8 * n\<close>)
  is decoded into \<open>n - 1\<close> of them: the last one is lost.
\<close>

theorem scsi_readtoc_drops_last:
  assumes "task_get_uint16 task 0 = of_nat (2 + 8 * n)" "2 + 8 * n < 2 ^ 16 - 2"
    and "2 + 8 * n \<le> length (datain task)" "ok (mem task)" "0 < n"
  shows "\<exists>r. scsi_readtoc_datain_unmarshall ok task =
      Some (task\<lparr>mem := Suc (mem task)\<rparr>, Ptr r) \<and>
    length (tocl_desc r) = n - 1 \<and> tocl_num r = of_nat (n - 1)"
proof -
  let ?w = "task_get_uint16 task 0"
  have "?w + 2 = of_nat (2 + 8 * n + 2)"
    using assms(1) by (simp only: of_nat_add of_nat_numeral)
  then have "unat (?w + 2) = 2 + 8 * n + 2"
    using assms(2) unat_of_nat_u16 [of "2 + 8 * n + 2"] by (simp only:)
  then have "unat (scsi_readtoc_datain_getfullsize task) = 2 + 8 * n + 2"
    using assms(2)
    by (simp add: scsi_readtoc_datain_getfullsize_def unsigned_ucast_eq take_bit_nat_eq_self)
  then have "sint (scsi_readtoc_datain_getfullsize task) = int (2 + 8 * n + 2)"
    using assms(2) by (simp add: sint_eq_unat)
  moreover have "c_sdiv (int (8 * n) - 2) 8 = int (n - 1)"
    using assms(5) by (simp add: c_sdiv_nonneg)
  ultimately show ?thesis using assms
    by (simp add: scsi_readtoc_datain_unmarshall_def scsi_malloc_block_fits scsi_malloc_or_def)
qed


section \<open>Witnesses\<close>

theorem scsi_rtpg_two_passes_witness:
  "\<exists>r. scsi_report_target_port_groups_unmarshal (\<lambda>_. True) (zero_task\<lparr>datain :=
      [0, 0, 0, 16, 0, 0, 0, 1, 0, 0, 0, 2, 0, 0, 0, 1, 0, 0, 0, 2]\<rparr>) =
      Some (zero_task\<lparr>datain := [0, 0, 0, 16, 0, 0, 0, 1, 0, 0, 0, 2, 0, 0, 0, 1, 0, 0, 0, 2],
        mem := 1\<rparr>, Ptr r) \<and>
    rtpg_num_groups r = of_nat (length (rtpg_groups r)) \<and>
    rtpg_slices 0 (rtpg_groups r) (length (rtpg_port_array r))"
  using scsi_rtpg_two_passes [of "zero_task\<lparr>datain :=
      [0, 0, 0, 16, 0, 0, 0, 1, 0, 0, 0, 2, 0, 0, 0, 1, 0, 0, 0, 2]\<rparr>" "\<lambda>_. True"]
  by (simp add: zero_task_def)

theorem scsi_rsoc_within_allocation_witness:
  "\<exists>t r. rsoc_unmarshall (\<lambda>_. True) (zero_task\<lparr>datain :=
      [0, 0, 0, 8, 0x12, 0, 0, 0, 0, 0, 0, 6]\<rparr>) = Some (t, Ptr (View_rsoc r)) \<and>
    length (rsoc_descriptors r) \<le> 1"
  using scsi_rsoc_within_allocation [of "\<lambda>_. True" "zero_task\<lparr>datain :=
      [0, 0, 0, 8, 0x12, 0, 0, 0, 0, 0, 0, 6]\<rparr>"]
  by (auto simp: rsoc_fits_def task_get_uint32_def scsi_get_uint32_def)

theorem scsi_read_keys_within_data_witness:
  "\<exists>t r. scsi_persistentreservein_datain_unmarshall (\<lambda>_. True) (zero_task\<lparr>datain :=
      [0, 0, 0, 5, 0, 0, 0, 16, 1, 2, 3, 4, 5, 6, 7, 8, 9]\<rparr>) = Some (t, Ptr (View_read_keys r)) \<and>
    length (rk_keys r) = 1"
  using scsi_read_keys_within_data [of "zero_task\<lparr>datain :=
      [0, 0, 0, 5, 0, 0, 0, 16, 1, 2, 3, 4, 5, 6, 7, 8, 9]\<rparr>" "\<lambda>_. True"]
  by (auto simp: task_get_uint32_def scsi_get_uint32_def scsi_persistentreservein_sa_def zero_task_def)

theorem scsi_reportluns_within_data_witness:
  "\<exists>t r. scsi_reportluns_datain_unmarshall (\<lambda>_. True) (zero_task\<lparr>datain :=
      [0, 0, 0, 8, 0, 0, 0, 0, 0, 7, 0, 0, 0, 0, 0, 0]\<rparr>) = Some (t, Ptr r) \<and>
    length (luns_luns r) = 1"
  using scsi_reportluns_within_data [of "zero_task\<lparr>datain :=
      [0, 0, 0, 8, 0, 0, 0, 0, 0, 7, 0, 0, 0, 0, 0, 0]\<rparr>" "\<lambda>_. True"]
  by (auto simp: task_get_uint32_def scsi_get_uint32_def)

theorem scsi_reportluns_short_overflow_witness:
  "scsi_reportluns_datain_unmarshall (\<lambda>_. True) (zero_task\<lparr>datain := [0, 0, 0, 16]\<rparr>) = None"
  by (rule scsi_reportluns_short_overflow) (simp_all add: task_get_uint32_def scsi_get_uint32_def)

theorem scsi_readtoc_drops_last_witness:
  "\<exists>t r. scsi_readtoc_datain_unmarshall (\<lambda>_. True) (zero_task\<lparr>datain :=
      [0, 18, 1, 1, 0, 0x14, 1, 0, 0, 0, 0, 0, 0, 0x14, 0xaa, 0, 0, 0, 1, 0]\<rparr>) = Some (t, Ptr r) \<and>
    length (tocl_desc r) = 1"
  using scsi_readtoc_drops_last [of "zero_task\<lparr>datain :=
      [0, 18, 1, 1, 0, 0x14, 1, 0, 0, 0, 0, 0, 0, 0x14, 0xaa, 0, 0, 0, 1, 0]\<rparr>" 2 "\<lambda>_. True"]
  by (auto simp: task_get_uint16_def scsi_get_uint16_def)

end
