(* ===== verification/Scsi_Inquiry.thy ===== *)
theory Scsi_Inquiry
  imports Scsi_Datain
begin

text \<open>
  The INQUIRY decoders of \<open>lib/scsi-lowlevel.c\<close>: the standard data and the vital product data
  pages. Where the code reads \<open>task->datain.data\<close> directly, and not through
  \<open>task_get_uint8\<close>, the read is \<open>rd\<close> or \<open>rd_range\<close>, undefined outside the received data.
  The linked lists of designators and commands are lists, the head first.
\<close>

lemma scsi_malloc_or_cong [fundef_cong]:
  "fail = fail' \<Longrightarrow> ok = ok' \<Longrightarrow> task = task' \<Longrightarrow>
   (\<And>t. t = task'\<lparr>mem := Suc (mem task')\<rparr> \<Longrightarrow> rest t = rest' t) \<Longrightarrow>
   scsi_malloc_or fail ok task rest = scsi_malloc_or fail' ok' task' rest'"
  by (simp add: scsi_malloc_or_def)

section \<open>Standard inquiry data\<close>

record scsi_inquiry_standard =
  inq_qualifier :: cint
  inq_device_type :: cint
  inq_rmb :: cint
  inq_version :: cint
  inq_normaca :: cint
  inq_hisup :: cint
  inq_response_data_format :: cint
  inq_additional_length :: cint
  inq_sccs :: cint
  inq_acc :: cint
  inq_tpgs :: cint
  inq_threepc :: cint
  inq_protect :: cint
  inq_encserv :: cint
  inq_multip :: cint
  inq_addr16 :: cint
  inq_wbus16 :: cint
  inq_sync :: cint
  inq_cmdque :: cint
  inq_clocking :: cint
  inq_qas :: cint
  inq_ius :: cint
  inq_vendor_identification :: bytes
  inq_product_identification :: bytes
  inq_product_revision_level :: bytes
  inq_version_descriptor :: "u16 list"

definition scsi_inquiry_evpd_set :: "scsi_task \<Rightarrow> bool" where
  "scsi_inquiry_evpd_set task \<longleftrightarrow> cdb task ! 1 AND 0x1 \<noteq> 0"

definition scsi_inquiry_page_code :: "scsi_task \<Rightarrow> u8" where
  "scsi_inquiry_page_code task = cdb task ! 2"

definition scsi_inquiry_datain_getfullsize :: "scsi_task \<Rightarrow> cint" where
  "scsi_inquiry_datain_getfullsize task =
     (let page = scsi_inquiry_page_code task
      in if \<not> scsi_inquiry_evpd_set task then ucast (task_get_uint8 task 4) + 5
         else if page = SCSI_INQUIRY_PAGECODE_SUPPORTED_VPD_PAGES
           \<or> page = SCSI_INQUIRY_PAGECODE_BLOCK_DEVICE_CHARACTERISTICS
           \<or> page = SCSI_INQUIRY_PAGECODE_UNIT_SERIAL_NUMBER
         then ucast (task_get_uint8 task 3) + 4
         else if page = SCSI_INQUIRY_PAGECODE_DEVICE_IDENTIFICATION
           \<or> page = SCSI_INQUIRY_PAGECODE_BLOCK_LIMITS
           \<or> page = SCSI_INQUIRY_PAGECODE_LOGICAL_BLOCK_PROVISIONING
         then ucast (task_get_uint16 task 2) + 4
         else -1)"

definition scsi_inquiry_unmarshall_standard ::
  "alloc_oracle \<Rightarrow> scsi_task \<Rightarrow> (scsi_task \<times> scsi_inquiry_standard ptr) option" where
  "scsi_inquiry_unmarshall_standard ok task =
     scsi_malloc_or (Some (task, NULL)) ok task (\<lambda>task. do {
       vendor \<leftarrow> rd_range (datain task) 8 8;
       product \<leftarrow> rd_range (datain task) 16 16;
       revision \<leftarrow> rd_range (datain task) 32 4;
       Some (task, Ptr
        \<lparr>inq_qualifier = ucast (drop_bit 5 (task_get_uint8 task 0) AND 0x07),
         inq_device_type = ucast (task_get_uint8 task 0 AND 0x1f),
         inq_rmb = notnot (task_get_uint8 task 1 AND 0x80),
         inq_version = ucast (task_get_uint8 task 2),
         inq_normaca = notnot (task_get_uint8 task 3 AND 0x20),
         inq_hisup = notnot (task_get_uint8 task 3 AND 0x10),
         inq_response_data_format = ucast (task_get_uint8 task 3 AND 0x0f),
         inq_additional_length = ucast (task_get_uint8 task 4),
         inq_sccs = notnot (task_get_uint8 task 5 AND 0x80),
         inq_acc = notnot (task_get_uint8 task 5 AND 0x40),
         inq_tpgs = ucast (drop_bit 4 (task_get_uint8 task 5) AND 0x03),
         inq_threepc = notnot (task_get_uint8 task 5 AND 0x08),
         inq_protect = notnot (task_get_uint8 task 5 AND 0x01),
         inq_encserv = notnot (task_get_uint8 task 6 AND 0x40),
         inq_multip = notnot (task_get_uint8 task 6 AND 0x10),
         inq_addr16 = notnot (task_get_uint8 task 6 AND 0x01),
         inq_wbus16 = notnot (task_get_uint8 task 7 AND 0x20),
         inq_sync = notnot (task_get_uint8 task 7 AND 0x10),
         inq_cmdque = notnot (task_get_uint8 task 7 AND 0x02),
         inq_clocking = ucast (drop_bit 2 (task_get_uint8 task 56) AND 0x03),
         inq_qas = notnot (task_get_uint8 task 56 AND 0x02),
         inq_ius = notnot (task_get_uint8 task 56 AND 0x01),
         inq_vendor_identification = vendor @ [0],
         inq_product_identification = product @ [0],
         inq_product_revision_level = revision @ [0],
         inq_version_descriptor =
           map (\<lambda>i. task_get_uint16 task (58 + i * 2)) [0..<8]\<rparr>)
     })"

section \<open>Supported pages and unit serial number\<close>

record scsi_inquiry_supported_pages =
  sp_qualifier :: cint
  sp_device_type :: cint
  sp_pagecode :: cint
  sp_num_pages :: cint
  sp_pages :: bytes

record scsi_inquiry_unit_serial_number =
  usn_qualifier :: cint
  usn_device_type :: cint
  usn_pagecode :: cint
  usn_usn :: bytes

definition scsi_inquiry_unmarshall_supported_pages ::
  "alloc_oracle \<Rightarrow> scsi_task \<Rightarrow> (scsi_task \<times> scsi_inquiry_supported_pages ptr) option" where
  "scsi_inquiry_unmarshall_supported_pages ok task =
     scsi_malloc_or (Some (task, NULL)) ok task (\<lambda>task.
     scsi_malloc_or (Some (task, NULL)) ok task (\<lambda>task. do {
       pages \<leftarrow> rd_range (datain task) 4 (unat (task_get_uint8 task 3));
       Some (task, Ptr
        \<lparr>sp_qualifier = ucast (drop_bit 5 (task_get_uint8 task 0) AND 0x07),
         sp_device_type = ucast (task_get_uint8 task 0 AND 0x1f),
         sp_pagecode = ucast (task_get_uint8 task 1),
         sp_num_pages = ucast (task_get_uint8 task 3),
         sp_pages = pages\<rparr>)
     }))"

definition scsi_inquiry_unmarshall_unit_serial_number ::
  "alloc_oracle \<Rightarrow> scsi_task \<Rightarrow> (scsi_task \<times> scsi_inquiry_unit_serial_number ptr) option" where
  "scsi_inquiry_unmarshall_unit_serial_number ok task =
     scsi_malloc_or (Some (task, NULL)) ok task (\<lambda>task.
     scsi_malloc_or (Some (task, NULL)) ok task (\<lambda>task. do {
       usn \<leftarrow> rd_range (datain task) 4 (unat (task_get_uint8 task 3));
       Some (task, Ptr
        \<lparr>usn_qualifier = ucast (drop_bit 5 (task_get_uint8 task 0) AND 0x07),
         usn_device_type = ucast (task_get_uint8 task 0 AND 0x1f),
         usn_pagecode = ucast (task_get_uint8 task 1),
         usn_usn = usn @ [0]\<rparr>)
     }))"

section \<open>Device identification\<close>

record scsi_inquiry_device_designator =
  dev_protocol_identifier :: cint
  dev_code_set :: cint
  dev_piv :: cint
  dev_association :: cint
  dev_designator_type :: cint
  dev_designator_length :: cint
  dev_designator :: bytes

record scsi_inquiry_device_identification =
  di_qualifier :: cint
  di_device_type :: cint
  di_pagecode :: cint
  di_designators :: "scsi_inquiry_device_designator list"

text \<open>The fields of a designator with the bytes \<open>b0\<close>, \<open>b1\<close> and \<open>b3\<close> of its header.\<close>

definition designator_of :: "u8 \<Rightarrow> u8 \<Rightarrow> u8 \<Rightarrow> bytes \<Rightarrow> scsi_inquiry_device_designator" where
  "designator_of b0 b1 b3 payload =
     \<lparr>dev_protocol_identifier = ucast (drop_bit 4 b0 AND 0x0f),
      dev_code_set = ucast (b0 AND 0x0f),
      dev_piv = notnot (b1 AND 0x80),
      dev_association = ucast (drop_bit 4 b1 AND 0x03),
      dev_designator_type = ucast (b1 AND 0x0f),
      dev_designator_length = ucast b3,
      dev_designator = payload @ [0]\<rparr>"

function designator_loop :: "alloc_oracle \<Rightarrow> scsi_task \<Rightarrow> int \<Rightarrow> nat \<Rightarrow>
  scsi_inquiry_device_designator list \<Rightarrow>
  (scsi_task \<times> scsi_inquiry_device_designator list ptr) option" where
  "designator_loop ok task remaining dptr devs =
     (if remaining \<le> 0 then Some (task, Ptr devs)
      else
        scsi_malloc_or (Some (task, NULL)) ok task (\<lambda>task. do {
          b0 \<leftarrow> rd (datain task) dptr;
          b1 \<leftarrow> rd (datain task) (dptr + 1);
          b3 \<leftarrow> rd (datain task) (dptr + 3);
          scsi_malloc_or (Some (task, NULL)) ok task (\<lambda>task. do {
            payload \<leftarrow> rd_range (datain task) (dptr + 4) (unat b3);
            designator_loop ok task (remaining - int (4 + unat b3)) (dptr + 4 + unat b3)
              (designator_of b0 b1 b3 payload # devs)
          })
        }))"
  by auto
termination by (relation "measure (\<lambda>(ok, task, remaining, dptr, devs). nat remaining)")
  (auto intro: order.strict_trans2 [OF _ unsigned_greater_eq])

declare designator_loop.simps [simp del]

definition scsi_inquiry_unmarshall_device_identification ::
  "alloc_oracle \<Rightarrow> scsi_task \<Rightarrow> (scsi_task \<times> scsi_inquiry_device_identification ptr) option" where
  "scsi_inquiry_unmarshall_device_identification ok task =
     scsi_malloc_or (Some (task, NULL)) ok task (\<lambda>task. do {
       (task, r) \<leftarrow> designator_loop ok task (int (unat (task_get_uint16 task 2))) 4 [];
       case r of
         NULL \<Rightarrow> Some (task, NULL)
       | Ptr devs \<Rightarrow> Some (task, Ptr
          \<lparr>di_qualifier = ucast (drop_bit 5 (task_get_uint8 task 0) AND 0x07),
           di_device_type = ucast (task_get_uint8 task 0 AND 0x1f),
           di_pagecode = ucast (task_get_uint8 task 1),
           di_designators = devs\<rparr>)
     })"

section \<open>Third party copy\<close>

record third_party_copy_command_support =
  tpc_operation_code :: cint
  tpc_service_action_length :: cint
  tpc_service_action :: "cint list"

record third_party_copy_supported_commands =
  tpcs_descriptor_type :: cint
  tpcs_commands_supported :: "third_party_copy_command_support list"

record scsi_inquiry_third_party_copy =
  tpi_qualifier :: cint
  tpi_device_type :: cint
  tpi_pagecode :: cint
  tpi_supported_commands :: "third_party_copy_supported_commands ptr"

function tpc_command_loop :: "alloc_oracle \<Rightarrow> scsi_task \<Rightarrow> int \<Rightarrow> nat \<Rightarrow>
  third_party_copy_command_support list \<Rightarrow>
  (scsi_task \<times> third_party_copy_command_support list ptr) option" where
  "tpc_command_loop ok task remaining lptr cmds =
     (if remaining \<le> 0 then Some (task, Ptr cmds)
      else
        scsi_malloc_or (Some (task, NULL)) ok task (\<lambda>task. do {
          opcode \<leftarrow> rd (datain task) lptr;
          sal \<leftarrow> rd (datain task) (lptr + 1);
          scsi_malloc_or (Some (task, NULL)) ok task (\<lambda>task. do {
            sa \<leftarrow> rd_range (datain task) (lptr + 2) (unat sal);
            tpc_command_loop ok task (remaining - int (unat sal + 2)) (lptr + unat sal + 2)
              (\<lparr>tpc_operation_code = ucast opcode, tpc_service_action_length = ucast sal,
                tpc_service_action = map ucast sa @ [0]\<rparr> # cmds)
          })
        }))"
  by auto
termination by (relation "measure (\<lambda>(ok, task, remaining, lptr, cmds). nat remaining)")
  (auto intro: order.strict_trans2 [OF _ unsigned_greater_eq])

declare tpc_command_loop.simps [simp del]

definition third_party_copy_unmarshall_supported_commands ::
  "alloc_oracle \<Rightarrow> scsi_task \<Rightarrow> nat \<Rightarrow> (scsi_task \<times> third_party_copy_supported_commands ptr) option" where
  "third_party_copy_unmarshall_supported_commands ok task dptr =
     scsi_malloc_or (Some (task, NULL)) ok task (\<lambda>task. do {
       ty \<leftarrow> rd_uint16 (datain task) dptr;
       remaining \<leftarrow> rd (datain task) (dptr + 4);
       (task, r) \<leftarrow> tpc_command_loop ok task (int (unat remaining)) (dptr + 5) [];
       case r of
         NULL \<Rightarrow> Some (task, NULL)
       | Ptr cmds \<Rightarrow> Some (task, Ptr
           \<lparr>tpcs_descriptor_type = ucast ty, tpcs_commands_supported = cmds\<rparr>)
     })"

function tpc_loop :: "alloc_oracle \<Rightarrow> scsi_task \<Rightarrow> int \<Rightarrow> nat \<Rightarrow>
  third_party_copy_supported_commands ptr \<Rightarrow>
  (scsi_task \<times> third_party_copy_supported_commands ptr ptr) option" where
  "tpc_loop ok task remaining dptr supp =
     (if remaining \<le> 0 then Some (task, Ptr supp)
      else do {
        copy_desc_type \<leftarrow> rd_uint16 (datain task) dptr;
        copy_desc_len \<leftarrow> rd_uint16 (datain task) (dptr + 2);
        (task, fail, supp) \<leftarrow>
          (if copy_desc_type = THIRD_PARTY_COPY_TYPE_SUPPORTED_COMMANDS then do {
             (task, p) \<leftarrow> third_party_copy_unmarshall_supported_commands ok task dptr;
             Some (task, p = NULL, p)
           } else Some (task, False, supp));
        if fail then Some (task, NULL)
        else tpc_loop ok task (remaining - int (unat copy_desc_len + 4))
               (dptr + unat copy_desc_len + 4) supp
      })"
  by auto
termination by (relation "measure (\<lambda>(ok, task, remaining, dptr, supp). nat remaining)")
  (auto intro: le_less_trans [of _ 0])

declare tpc_loop.simps [simp del]

definition scsi_inquiry_unmarshall_third_party_copy ::
  "alloc_oracle \<Rightarrow> scsi_task \<Rightarrow> (scsi_task \<times> scsi_inquiry_third_party_copy ptr) option" where
  "scsi_inquiry_unmarshall_third_party_copy ok task =
     scsi_malloc_or (Some (task, NULL)) ok task (\<lambda>task. do {
       (task, r) \<leftarrow> tpc_loop ok task (int (unat (task_get_uint16 task 2))) 4 NULL;
       case r of
         NULL \<Rightarrow> Some (task, NULL)
       | Ptr supp \<Rightarrow> Some (task, Ptr
          \<lparr>tpi_qualifier = ucast (drop_bit 5 (task_get_uint8 task 0) AND 0x07),
           tpi_device_type = ucast (task_get_uint8 task 0 AND 0x1f),
           tpi_pagecode = ucast (task_get_uint8 task 1),
           tpi_supported_commands = supp\<rparr>)
     })"

section \<open>Block device pages\<close>

record scsi_inquiry_block_limits =
  bl_qualifier :: cint
  bl_device_type :: cint
  bl_pagecode :: cint
  bl_wsnz :: cint
  bl_max_cmp :: u8
  bl_opt_gran :: u16
  bl_max_xfer_len :: u32
  bl_opt_xfer_len :: u32
  bl_max_prefetch :: u32
  bl_max_unmap :: u32
  bl_max_unmap_bdc :: u32
  bl_opt_unmap_gran :: u32
  bl_ugavalid :: cint
  bl_unmap_gran_align :: u32
  bl_max_ws_len :: u64
  bl_max_atomic_xfer_len :: u32
  bl_atomic_align :: u32
  bl_atomic_gran :: u32
  bl_max_atomic_tl_with_atomic_boundary :: u32
  bl_max_atomic_boundary_size :: u32

record scsi_inquiry_block_device_characteristics =
  bdc_qualifier :: cint
  bdc_device_type :: cint
  bdc_pagecode :: cint
  bdc_medium_rotation_rate :: cint
  bdc_product_type :: cint
  bdc_wabereq :: cint
  bdc_wacereq :: cint
  bdc_nominal_form_factor :: cint
  bdc_fuab :: cint
  bdc_vbuls :: cint

record scsi_inquiry_logical_block_provisioning =
  lbp_qualifier :: cint
  lbp_device_type :: cint
  lbp_pagecode :: cint
  lbp_threshold_exponent :: cint
  lbp_lbpu :: cint
  lbp_lbpws :: cint
  lbp_lbpws10 :: cint
  lbp_lbprz :: cint
  lbp_anc_sup :: cint
  lbp_dp :: cint
  lbp_provisioning_type :: cint

definition scsi_inquiry_unmarshall_block_limits ::
  "alloc_oracle \<Rightarrow> scsi_task \<Rightarrow> (scsi_task \<times> scsi_inquiry_block_limits ptr) option" where
  "scsi_inquiry_unmarshall_block_limits ok task =
     scsi_malloc_block (Some (task, NULL)) ok task 88 84 (\<lambda>task. Some (task, Ptr
        \<lparr>bl_qualifier = ucast (drop_bit 5 (task_get_uint8 task 0) AND 0x07),
         bl_device_type = ucast (task_get_uint8 task 0 AND 0x1f),
         bl_pagecode = ucast (task_get_uint8 task 1),
         bl_wsnz = ucast (task_get_uint8 task 4 AND 0x01),
         bl_max_cmp = task_get_uint8 task 5,
         bl_opt_gran = task_get_uint16 task 6,
         bl_max_xfer_len = task_get_uint32 task 8,
         bl_opt_xfer_len = task_get_uint32 task 12,
         bl_max_prefetch = task_get_uint32 task 16,
         bl_max_unmap = task_get_uint32 task 20,
         bl_max_unmap_bdc = task_get_uint32 task 24,
         bl_opt_unmap_gran = task_get_uint32 task 28,
         bl_ugavalid = notnot (task_get_uint8 task 32 AND 0x80),
         bl_unmap_gran_align = task_get_uint32 task 32 AND 0x7fffffff,
         bl_max_ws_len =
           push_bit 32 (ucast (task_get_uint32 task 36)) OR ucast (task_get_uint32 task 40),
         bl_max_atomic_xfer_len = task_get_uint32 task 44,
         bl_atomic_align = task_get_uint32 task 48,
         bl_atomic_gran = task_get_uint32 task 52,
         bl_max_atomic_tl_with_atomic_boundary = task_get_uint32 task 56,
         bl_max_atomic_boundary_size = task_get_uint32 task 60\<rparr>))"

definition scsi_inquiry_unmarshall_block_device_characteristics ::
  "alloc_oracle \<Rightarrow> scsi_task \<Rightarrow> (scsi_task \<times> scsi_inquiry_block_device_characteristics ptr) option" where
  "scsi_inquiry_unmarshall_block_device_characteristics ok task =
     scsi_malloc_block (Some (task, NULL)) ok task 40 40 (\<lambda>task. Some (task, Ptr
        \<lparr>bdc_qualifier = ucast (drop_bit 5 (task_get_uint8 task 0) AND 0x07),
         bdc_device_type = ucast (task_get_uint8 task 0 AND 0x1f),
         bdc_pagecode = ucast (task_get_uint8 task 1),
         bdc_medium_rotation_rate = ucast (task_get_uint16 task 4),
         bdc_product_type = ucast (task_get_uint8 task 6),
         bdc_wabereq = ucast (drop_bit 6 (task_get_uint8 task 7) AND 0x03),
         bdc_wacereq = ucast (drop_bit 4 (task_get_uint8 task 7) AND 0x03),
         bdc_nominal_form_factor = ucast (task_get_uint8 task 7 AND 0x0f),
         bdc_fuab = notnot (task_get_uint8 task 8 AND 0x02),
         bdc_vbuls = notnot (task_get_uint8 task 8 AND 0x01)\<rparr>))"

definition scsi_inquiry_unmarshall_logical_block_provisioning ::
  "alloc_oracle \<Rightarrow> scsi_task \<Rightarrow> (scsi_task \<times> scsi_inquiry_logical_block_provisioning ptr) option" where
  "scsi_inquiry_unmarshall_logical_block_provisioning ok task =
     scsi_malloc_block (Some (task, NULL)) ok task 44 44 (\<lambda>task. Some (task, Ptr
        \<lparr>lbp_qualifier = ucast (drop_bit 5 (task_get_uint8 task 0) AND 0x07),
         lbp_device_type = ucast (task_get_uint8 task 0 AND 0x1f),
         lbp_pagecode = ucast (task_get_uint8 task 1),
         lbp_threshold_exponent = ucast (task_get_uint8 task 4),
         lbp_lbpu = notnot (task_get_uint8 task 5 AND 0x80),
         lbp_lbpws = notnot (task_get_uint8 task 5 AND 0x40),
         lbp_lbpws10 = notnot (task_get_uint8 task 5 AND 0x20),
         lbp_lbprz = notnot (task_get_uint8 task 5 AND 0x04),
         lbp_anc_sup = notnot (task_get_uint8 task 5 AND 0x02),
         lbp_dp = notnot (task_get_uint8 task 5 AND 0x01),
         lbp_provisioning_type = ucast (task_get_uint8 task 6 AND 0x07)\<rparr>))"

section \<open>The dispatcher\<close>

datatype inquiry_view =
    View_inquiry_standard scsi_inquiry_standard
  | View_supported_pages scsi_inquiry_supported_pages
  | View_unit_serial_number scsi_inquiry_unit_serial_number
  | View_device_identification scsi_inquiry_device_identification
  | View_third_party_copy scsi_inquiry_third_party_copy
  | View_block_limits scsi_inquiry_block_limits
  | View_block_device_characteristics scsi_inquiry_block_device_characteristics
  | View_logical_block_provisioning scsi_inquiry_logical_block_provisioning

text \<open>A decoder's result as a \<open>void *\<close>.\<close>

definition as_void :: "('a \<Rightarrow> 'v) \<Rightarrow> (scsi_task \<times> 'a ptr) option \<Rightarrow> (scsi_task \<times> 'v ptr) option" where
  "as_void c r = map_option (\<lambda>(task, p). (task, case p of NULL \<Rightarrow> NULL | Ptr x \<Rightarrow> Ptr (c x))) r"

definition scsi_inquiry_datain_unmarshall ::
  "alloc_oracle \<Rightarrow> scsi_task \<Rightarrow> (scsi_task \<times> inquiry_view ptr) option" where
  "scsi_inquiry_datain_unmarshall ok task =
     (let page = scsi_inquiry_page_code task
      in if \<not> scsi_inquiry_evpd_set task
         then as_void View_inquiry_standard (scsi_inquiry_unmarshall_standard ok task)
         else if page = SCSI_INQUIRY_PAGECODE_SUPPORTED_VPD_PAGES
         then as_void View_supported_pages (scsi_inquiry_unmarshall_supported_pages ok task)
         else if page = SCSI_INQUIRY_PAGECODE_UNIT_SERIAL_NUMBER
         then as_void View_unit_serial_number (scsi_inquiry_unmarshall_unit_serial_number ok task)
         else if page = SCSI_INQUIRY_PAGECODE_DEVICE_IDENTIFICATION
         then as_void View_device_identification
                (scsi_inquiry_unmarshall_device_identification ok task)
         else if page = SCSI_INQUIRY_PAGECODE_THIRD_PARTY_COPY
         then as_void View_third_party_copy (scsi_inquiry_unmarshall_third_party_copy ok task)
         else if page = SCSI_INQUIRY_PAGECODE_BLOCK_LIMITS
         then as_void View_block_limits (scsi_inquiry_unmarshall_block_limits ok task)
         else if page = SCSI_INQUIRY_PAGECODE_BLOCK_DEVICE_CHARACTERISTICS
         then as_void View_block_device_characteristics
                (scsi_inquiry_unmarshall_block_device_characteristics ok task)
         else if page = SCSI_INQUIRY_PAGECODE_LOGICAL_BLOCK_PROVISIONING
         then as_void View_logical_block_provisioning
                (scsi_inquiry_unmarshall_logical_block_provisioning ok task)
         else Some (task, NULL))"

section \<open>A well-formed page of designators\<close>

text \<open>
  One designator as the target means it (SPC, designation descriptor): its fields are numbers,
  the transport bit and the reserved bit are flags, the third byte is reserved. \<open>encode_designator\<close>
  puts them on the wire by their place in the header, as sums of powers of two and without the
  decoder's masks; \<open>decoded_designator\<close> is the record an application should see.
\<close>

record sent_designator =
  sd_protocol :: nat
  sd_code_set :: nat
  sd_piv :: bool
  sd_reserved_bit :: bool
  sd_association :: nat
  sd_type :: nat
  sd_reserved_byte :: u8
  sd_payload :: bytes

definition sent_ok :: "sent_designator \<Rightarrow> bool" where
  "sent_ok d \<longleftrightarrow> sd_protocol d < 16 \<and> sd_code_set d < 16 \<and> sd_association d < 4 \<and>
     sd_type d < 16 \<and> length (sd_payload d) < 256"

definition sd_byte0 :: "sent_designator \<Rightarrow> u8" where
  "sd_byte0 d = of_nat (sd_protocol d * 16 + sd_code_set d)"

definition sd_byte1 :: "sent_designator \<Rightarrow> u8" where
  "sd_byte1 d = of_nat (of_bool (sd_piv d) * 128 + of_bool (sd_reserved_bit d) * 64 +
     sd_association d * 16 + sd_type d)"

definition encode_designator :: "sent_designator \<Rightarrow> bytes" where
  "encode_designator d =
     [sd_byte0 d, sd_byte1 d, sd_reserved_byte d, of_nat (length (sd_payload d))] @ sd_payload d"

definition decoded_designator :: "sent_designator \<Rightarrow> scsi_inquiry_device_designator" where
  "decoded_designator d =
     \<lparr>dev_protocol_identifier = of_nat (sd_protocol d),
      dev_code_set = of_nat (sd_code_set d),
      dev_piv = of_bool (sd_piv d),
      dev_association = of_nat (sd_association d),
      dev_designator_type = of_nat (sd_type d),
      dev_designator_length = of_nat (length (sd_payload d)),
      dev_designator = sd_payload d @ [0]\<rparr>"

text \<open>The fields of a byte as quotients and remainders.\<close>

lemma byte_fields:
  fixes b :: u8
  shows "unat (drop_bit 4 b AND 0x0f) = unat b div 16 mod 16" "unat (b AND 0x0f) = unat b mod 16"
    "unat (drop_bit 4 b AND 0x03) = unat b div 16 mod 4" "(b AND 0x80 \<noteq> 0) = odd (unat b div 128)"
proof -
  have masks: "(0x0f :: u8) = mask 4" "(0x03 :: u8) = mask 2" "(0x80 :: u8) = 2 ^ 7"
    by (simp_all add: mask_eq_exp_minus_1)
  show "unat (drop_bit 4 b AND 0x0f) = unat b div 16 mod 16" "unat (b AND 0x0f) = unat b mod 16"
    "unat (drop_bit 4 b AND 0x03) = unat b div 16 mod 4"
    unfolding masks
    by (simp_all flip: take_bit_eq_mask
        add: unsigned_take_bit_eq unsigned_drop_bit_eq drop_bit_eq_div take_bit_eq_mod
          unat_div_distrib unat_mod_distrib)
  show "(b AND 0x80 \<noteq> 0) = odd (unat b div 128)"
    unfolding masks and_exp_eq_0_iff_not_bit using bit_iff_odd [of "unat b" 7] by (simp add: bit_unsigned_iff)
qed

lemma cint_eq_of_nat: "unat (b :: u8) = n \<Longrightarrow> (ucast b :: cint) = of_nat n"
  by (metis of_nat_unat)

lemma length_encode_designator: "length (encode_designator d) = 4 + length (sd_payload d)"
  by (simp add: encode_designator_def)

lemma designator_of_encoded:
  assumes "sent_ok d"
  shows "designator_of (sd_byte0 d) (sd_byte1 d) (of_nat (length (sd_payload d))) (sd_payload d) =
    decoded_designator d"
proof -
  let ?a = "sd_protocol d * 16 + sd_code_set d"
  let ?b = "of_bool (sd_piv d) * 128 + of_bool (sd_reserved_bit d) * 64 + sd_association d * 16 + sd_type d"
  have "?a < 256" "?b < 256" "length (sd_payload d) < 256"
    using assms by (auto simp: sent_ok_def)
  then have a: "unat (sd_byte0 d) = ?a" and b: "unat (sd_byte1 d) = ?b"
    and n: "unat (of_nat (length (sd_payload d)) :: u8) = length (sd_payload d)"
    by (simp_all add: sd_byte0_def sd_byte1_def unsigned_of_nat take_bit_nat_eq_self_iff
        del: of_nat_add of_nat_mult)
  have "?b = (of_bool (sd_piv d) * 8 + of_bool (sd_reserved_bit d) * 4 + sd_association d) * 16 + sd_type d"
    "?b = of_bool (sd_piv d) * 128 +
      (of_bool (sd_reserved_bit d) * 64 + sd_association d * 16 + sd_type d)"
    by simp_all
  then have "?b div 16 = of_bool (sd_piv d) * 8 + of_bool (sd_reserved_bit d) * 4 + sd_association d"
    "?b mod 16 = sd_type d" "?b div 128 = of_bool (sd_piv d)"
    using assms unfolding sent_ok_def by (simp_all only: div_mult_self3 mod_mult_self3) auto
  moreover from assms have "(of_bool (sd_piv d) * 8 + of_bool (sd_reserved_bit d) * 4 + sd_association d) mod 4 =
      sd_association d"
    unfolding sent_ok_def by (cases "sd_piv d"; cases "sd_reserved_bit d"; simp; presburger)
  moreover have "?a div 16 mod 16 = sd_protocol d" "?a mod 16 = sd_code_set d"
    using assms by (auto simp: sent_ok_def)
  ultimately have "?a div 16 mod 16 = sd_protocol d" "?a mod 16 = sd_code_set d"
    "?b div 16 mod 4 = sd_association d" "?b mod 16 = sd_type d" "odd (?b div 128) = sd_piv d"
    by simp_all
  then show ?thesis
    using byte_fields [of "sd_byte0 d"] byte_fields [of "sd_byte1 d"]
    by (simp add: designator_of_def decoded_designator_def a b n cint_eq_of_nat notnot_def)
qed

lemma designator_step:
  assumes ok: "\<forall>n. ok n" and len: "length payload < 256"
    and data: "datain task = pre @ [b0, b1, b2, of_nat (length payload)] @ payload @ rest"
    and remaining: "0 < remaining"
  shows "\<exists>task'. datain task' = datain task \<and>
    designator_loop ok task remaining (length pre) devs =
    designator_loop ok task' (remaining - int (4 + length payload)) (length pre + 4 + length payload)
      (designator_of b0 b1 (of_nat (length payload)) payload # devs)"
proof -
  have l: "unat (of_nat (length payload) :: u8) = length payload"
    using len by (simp add: unsigned_of_nat take_bit_nat_eq_self)
  then have "uint (of_nat (length payload) :: u8) = int (length payload)"
    by (metis of_nat_unat)
  with l ok remaining show ?thesis
    by (intro exI [of _ "task\<lparr>mem := Suc (Suc (mem task))\<rparr>"], subst designator_loop.simps)
       (simp add: scsi_malloc_or_def data nth_append)
qed

lemma designator_loop_wf:
  assumes ok: "\<forall>n. ok n" and "\<forall>d \<in> set raws. sent_ok d"
    and "datain task = pre @ concat (map encode_designator raws) @ rest"
  shows "\<exists>task'. designator_loop ok task (int (length (concat (map encode_designator raws))))
      (length pre) devs = Some (task', Ptr (rev (map decoded_designator raws) @ devs)) \<and>
    datain task' = datain task"
  using assms(2,3)
proof (induction raws arbitrary: task pre devs)
  case Nil
  then show ?case by (subst designator_loop.simps) simp
next
  case (Cons r raws)
  have r: "sent_ok r" using Cons.prems by simp
  then have len: "length (sd_payload r) < 256" by (simp add: sent_ok_def)
  let ?e = "encode_designator r" and ?tail = "concat (map encode_designator raws)"
  have "datain task = pre @ [sd_byte0 r, sd_byte1 r, sd_reserved_byte r, of_nat (length (sd_payload r))] @
      sd_payload r @ ?tail @ rest"
    using Cons.prems(2) by (simp add: encode_designator_def [of r])
  from designator_step [OF ok len this, where remaining = "int (length (?e @ ?tail))" and devs = devs]
  obtain task' where t': "datain task' = datain task"
    "designator_loop ok task (int (length (?e @ ?tail))) (length pre) devs =
     designator_loop ok task' (int (length ?tail)) (length (pre @ ?e)) (decoded_designator r # devs)"
    using designator_of_encoded [OF r]
    by (auto simp: length_encode_designator  add.assoc)
  have "datain task' = (pre @ ?e) @ ?tail @ rest" using Cons.prems t' by simp
  with Cons.IH [of task' "pre @ ?e" "decoded_designator r # devs"] Cons.prems t'
  show ?case by auto
qed

section \<open>Properties\<close>

text \<open>
  C20: the device identification page of a target that sends its designators completely comes
  back as exactly these designators, in reverse order: protocol identifier, code set, PIV bit,
  association, type, length and payload (with a NUL behind it) are those that were sent, and the
  reserved bits of the header are ignored.
\<close>

theorem scsi_inquiry_designators_roundtrip:
  assumes "\<forall>n. ok n" "\<forall>d \<in> set raws. sent_ok d"
    and "length (concat (map encode_designator raws)) < 2 ^ 16"
    and "datain task = [q, page] @ [of_nat (length (concat (map encode_designator raws)) div 256),
      of_nat (length (concat (map encode_designator raws)))] @ concat (map encode_designator raws)"
  shows "\<exists>task' r. scsi_inquiry_unmarshall_device_identification ok task = Some (task', Ptr r) \<and>
    di_designators r = rev (map decoded_designator raws)"
proof -
  let ?d = "concat (map encode_designator raws)"
  let ?t = "task\<lparr>mem := Suc (mem task)\<rparr>"
  have "unat (task_get_uint16 task 2) = length ?d"
    using assms(3,4)
    by (simp add: task_get_uint16_def scsi_get_uint16_value unsigned_of_nat take_bit_nat_def)
  then have len: "int (unat (task_get_uint16 task 2)) = int (length ?d)" by simp
  have "datain ?t = [q, page, of_nat (length ?d div 256), of_nat (length ?d)] @ ?d @ []"
    using assms(4) by simp
  from designator_loop_wf [OF assms(1,2) this, where devs = "[]"]
  obtain task' where "designator_loop ok ?t (int (length ?d)) (Suc (Suc (Suc (Suc 0)))) [] =
      Some (task', Ptr (rev (map decoded_designator raws)))"
    by auto
  moreover have "(4 :: nat) = Suc (Suc (Suc (Suc 0)))" by simp
  ultimately have "designator_loop ok ?t (int (length ?d)) 4 [] =
      Some (task', Ptr (rev (map decoded_designator raws)))"
    by (simp only:)
  with len show ?thesis
    using assms(1)
    by (simp add: scsi_inquiry_unmarshall_device_identification_def scsi_malloc_or_def
        del: of_nat_unat)
qed

text \<open>
  \<open>scsi_inquiry_unmarshall_standard\<close> has no size check: it reads behind the received data
  exactly when the target sent fewer than 36 bytes (and memory is available).
\<close>

theorem scsi_inquiry_standard_overread_iff:
  "scsi_inquiry_unmarshall_standard ok task = None \<longleftrightarrow> ok (mem task) \<and> length (datain task) < 36"
  by (auto simp: scsi_inquiry_unmarshall_standard_def scsi_malloc_or_def rd_range_def)

text \<open>
  The other pages that are copied from the raw data trust the length the target announces: with
  memory available a serial number or a page list that is announced longer than what was
  received is read from behind the data, and only then.
\<close>

theorem scsi_inquiry_vpd_overread_iff:
  assumes "\<And>n. ok n"
  shows "(scsi_inquiry_unmarshall_unit_serial_number ok task = None \<longleftrightarrow>
      length (datain task) < 4 + unat (task_get_uint8 task 3)) \<and>
    (scsi_inquiry_unmarshall_supported_pages ok task = None \<longleftrightarrow>
      length (datain task) < 4 + unat (task_get_uint8 task 3))"
  using assms
  by (auto simp: scsi_inquiry_unmarshall_unit_serial_number_def
      scsi_inquiry_unmarshall_supported_pages_def scsi_malloc_or_def rd_range_def)

theorem scsi_inquiry_designators_roundtrip_witness:
  "\<exists>task' r. scsi_inquiry_unmarshall_device_identification (\<lambda>_. True) (zero_task\<lparr>datain :=
      [0, 0x83, 0, 14, 0x61, 0x93, 0, 4, 1, 2, 3, 4, 0x01, 0x63, 0, 2, 8, 9]\<rparr>) = Some (task', Ptr r) \<and>
    di_designators r =
      [\<lparr>dev_protocol_identifier = 0, dev_code_set = 1, dev_piv = 0, dev_association = 2,
        dev_designator_type = 3, dev_designator_length = 2, dev_designator = [8, 9, 0]\<rparr>,
       \<lparr>dev_protocol_identifier = 6, dev_code_set = 1, dev_piv = 1, dev_association = 1,
        dev_designator_type = 3, dev_designator_length = 4, dev_designator = [1, 2, 3, 4, 0]\<rparr>]"
  using scsi_inquiry_designators_roundtrip [of "\<lambda>_. True"
    "[\<lparr>sd_protocol = 6, sd_code_set = 1, sd_piv = True, sd_reserved_bit = False, sd_association = 1,
       sd_type = 3, sd_reserved_byte = 0, sd_payload = [1, 2, 3, 4]\<rparr>,
      \<lparr>sd_protocol = 0, sd_code_set = 1, sd_piv = False, sd_reserved_bit = True, sd_association = 2,
       sd_type = 3, sd_reserved_byte = 0, sd_payload = [8, 9]\<rparr>]"
    "zero_task\<lparr>datain := [0, 0x83, 0, 14, 0x61, 0x93, 0, 4, 1, 2, 3, 4, 0x01, 0x63, 0, 2, 8, 9]\<rparr>" 0 "0x83"]
  by (simp add: sent_ok_def encode_designator_def sd_byte0_def sd_byte1_def decoded_designator_def)

theorem scsi_inquiry_vpd_overread_iff_witness:
  "scsi_inquiry_unmarshall_unit_serial_number (\<lambda>_. True)
     (zero_task\<lparr>datain := [0, 0x80, 0, 8, 65, 66]\<rparr>) = None"
  using scsi_inquiry_vpd_overread_iff [of "\<lambda>_. True" "zero_task\<lparr>datain := [0, 0x80, 0, 8, 65, 66]\<rparr>"]
  by (simp add: task_get_uint8_def)

end
