(* ===== verification/Scsi_Modepage.thy ===== *)
theory Scsi_Modepage
  imports Scsi_Task
begin

text \<open>
  Mode pages of \<open>lib/scsi-lowlevel.c\<close>: the decoder of MODE SENSE data
  (\<open>scsi_modesense_datain_unmarshall\<close> and the \<open>scsi_parse_mode_*\<close> functions) and the encoder of
  MODE SELECT data (\<open>scsi_modesense_dataout_marshall\<close>, \<open>scsi_modesense_marshall_*\<close>). The union
  of \<open>struct scsi_mode_page\<close> is the datatype \<open>mode_page_body\<close>, the list of pages a list, its head
  the page parsed last.

  The property is the round trip of the pages through both. \<open>sized_body\<close> is what should come back,
  every field reduced to the width the standard gives it; it does, but for four fields of two
  pages for which the decoder's masks are wrong, and exactly when \<open>decodable\<close> holds for these too.
\<close>

section \<open>The pages\<close>

record scsi_mode_page_caching =
  ca_ic :: cint
  ca_abpf :: cint
  ca_cap :: cint
  ca_disc :: cint
  ca_size :: cint
  ca_wce :: cint
  ca_mf :: cint
  ca_rcd :: cint
  ca_demand_read_retention_priority :: cint
  ca_write_retention_priority :: cint
  ca_disable_prefetch_transfer_length :: cint
  ca_minimum_prefetch :: cint
  ca_maximum_prefetch :: cint
  ca_maximum_prefetch_ceiling :: cint
  ca_fsw :: cint
  ca_lbcss :: cint
  ca_dra :: cint
  ca_nv_dis :: cint
  ca_number_of_cache_segments :: cint
  ca_cache_segment_size :: cint

record scsi_mode_page_control =
  co_tst :: cint
  co_tmf_only :: cint
  co_dpicz :: cint
  co_d_sense :: cint
  co_gltsd :: cint
  co_rlec :: cint
  co_queue_algorithm_modifier :: cint
  co_nuar :: cint
  co_qerr :: cint
  co_vs :: cint
  co_rac :: cint
  co_ua_intlck_ctrl :: cint
  co_swp :: cint
  co_ato :: cint
  co_tas :: cint
  co_atmpe :: cint
  co_rwwp :: cint
  co_autoload_mode :: cint
  co_busy_timeout_period :: cint
  co_extended_selftest_completion_time :: cint

record scsi_mode_page_disconnect_reconnect =
  dr_buffer_full_ratio :: cint
  dr_buffer_empty_ratio :: cint
  dr_bus_inactivity_limit :: cint
  dr_disconnect_time_limit :: cint
  dr_connect_time_limit :: cint
  dr_maximum_burst_size :: cint
  dr_emdp :: cint
  dr_fair_arbitration :: cint
  dr_dimm :: cint
  dr_dtdc :: cint
  dr_first_burst_size :: cint

record scsi_mode_page_informational_exceptions_control =
  iec_perf :: cint
  iec_ebf :: cint
  iec_ewasc :: cint
  iec_dexcpt :: cint
  iec_test :: cint
  iec_ebackerr :: cint
  iec_logerr :: cint
  iec_mrie :: cint
  iec_interval_timer :: cint
  iec_report_count :: cint

record scsi_mode_page_power_condition =
  pw_pm_bg_precedence :: cint
  pw_standby_y :: cint
  pw_idle_c :: cint
  pw_idle_b :: cint
  pw_idle_a :: cint
  pw_standby_z :: cint
  pw_idle_a_condition_timer :: u32
  pw_standby_z_condition_timer :: u32
  pw_idle_b_condition_timer :: u32
  pw_idle_c_condition_timer :: u32
  pw_standby_y_condition_timer :: u32
  pw_ccf_idle :: cint
  pw_ccf_standby :: cint
  pw_ccf_stopped :: cint

datatype mode_page_body =
    Caching scsi_mode_page_caching
  | Control scsi_mode_page_control
  | Disconnect_reconnect scsi_mode_page_disconnect_reconnect
  | Iec scsi_mode_page_informational_exceptions_control
  | Power_condition scsi_mode_page_power_condition
  | Zeroed

record scsi_mode_page =
  mp_ps :: cint
  mp_spf :: cint
  mp_page_code :: cint
  mp_subpage_code :: cint
  mp_len :: cint
  mp_body :: mode_page_body

record scsi_mode_sense =
  ms_mode_data_length :: u16
  ms_medium_type :: u8
  ms_device_specific_parameter :: u8
  ms_longlba :: u8
  ms_block_descriptor_length :: u8
  ms_pages :: "scsi_mode_page list"

fun scsi_modesense_get_page_loop :: "scsi_mode_page list \<Rightarrow> cint \<Rightarrow> cint \<Rightarrow> scsi_mode_page ptr" where
  "scsi_modesense_get_page_loop [] page_code subpage_code = NULL"
| "scsi_modesense_get_page_loop (mp # rest) page_code subpage_code =
     (if mp_page_code mp = page_code \<and> mp_subpage_code mp = subpage_code then Ptr mp
      else scsi_modesense_get_page_loop rest page_code subpage_code)"

definition scsi_modesense_get_page :: "scsi_mode_sense \<Rightarrow> cint \<Rightarrow> cint \<Rightarrow> scsi_mode_page ptr" where
  "scsi_modesense_get_page ms page_code subpage_code =
     scsi_modesense_get_page_loop (ms_pages ms) page_code subpage_code"

section \<open>Decoding\<close>

definition scsi_modesense_datain_getfullsize :: "scsi_task \<Rightarrow> bool \<Rightarrow> cint" where
  "scsi_modesense_datain_getfullsize task is_modesense6 =
     (if is_modesense6 then ucast (task_get_uint8 task 0) + 1
      else ucast (task_get_uint16 task 0) + 2)"

definition scsi_parse_mode_caching :: "scsi_task \<Rightarrow> nat \<Rightarrow> scsi_mode_page_caching" where
  "scsi_parse_mode_caching task pos =
     \<lparr>ca_ic = notnot (task_get_uint8 task pos AND 0x80),
      ca_abpf = notnot (task_get_uint8 task pos AND 0x40),
      ca_cap = notnot (task_get_uint8 task pos AND 0x20),
      ca_disc = notnot (task_get_uint8 task pos AND 0x10),
      ca_size = notnot (task_get_uint8 task pos AND 0x08),
      ca_wce = notnot (task_get_uint8 task pos AND 0x04),
      ca_mf = notnot (task_get_uint8 task pos AND 0x02),
      ca_rcd = notnot (task_get_uint8 task pos AND 0x01),
      ca_demand_read_retention_priority = ucast (drop_bit 4 (task_get_uint8 task (pos + 1)) AND 0x0f),
      ca_write_retention_priority = ucast (task_get_uint8 task (pos + 1) AND 0x0f),
      ca_disable_prefetch_transfer_length = ucast (task_get_uint16 task (pos + 2)),
      ca_minimum_prefetch = ucast (task_get_uint16 task (pos + 4)),
      ca_maximum_prefetch = ucast (task_get_uint16 task (pos + 6)),
      ca_maximum_prefetch_ceiling = ucast (task_get_uint16 task (pos + 8)),
      ca_fsw = notnot (task_get_uint8 task (pos + 10) AND 0x80),
      ca_lbcss = notnot (task_get_uint8 task (pos + 10) AND 0x40),
      ca_dra = notnot (task_get_uint8 task (pos + 10) AND 0x20),
      ca_nv_dis = notnot (task_get_uint8 task (pos + 10) AND 0x01),
      ca_number_of_cache_segments = ucast (task_get_uint8 task (pos + 11)),
      ca_cache_segment_size = ucast (task_get_uint16 task (pos + 12))\<rparr>"

definition scsi_parse_mode_control :: "scsi_task \<Rightarrow> nat \<Rightarrow> scsi_mode_page_control" where
  "scsi_parse_mode_control task pos =
     \<lparr>co_tst = ucast (drop_bit 5 (task_get_uint8 task pos) AND 0x07),
      co_tmf_only = notnot (task_get_uint8 task pos AND 0x10),
      co_dpicz = notnot (task_get_uint8 task pos AND 0x08),
      co_d_sense = notnot (task_get_uint8 task pos AND 0x04),
      co_gltsd = notnot (task_get_uint8 task pos AND 0x02),
      co_rlec = notnot (task_get_uint8 task pos AND 0x01),
      co_queue_algorithm_modifier = ucast (drop_bit 4 (task_get_uint8 task (pos + 1)) AND 0x0f),
      co_nuar = ucast (task_get_uint8 task (pos + 1) AND 0x08),
      co_qerr = ucast (drop_bit 1 (task_get_uint8 task (pos + 1)) AND 0x03),
      co_vs = notnot (task_get_uint8 task (pos + 2) AND 0x80),
      co_rac = notnot (task_get_uint8 task (pos + 2) AND 0x40),
      co_ua_intlck_ctrl = ucast (drop_bit 4 (task_get_uint8 task (pos + 2)) AND 0x0f),
      co_swp = notnot (task_get_uint8 task (pos + 2) AND 0x08),
      co_ato = notnot (task_get_uint8 task (pos + 3) AND 0x80),
      co_tas = notnot (task_get_uint8 task (pos + 3) AND 0x40),
      co_atmpe = notnot (task_get_uint8 task (pos + 3) AND 0x20),
      co_rwwp = notnot (task_get_uint8 task (pos + 3) AND 0x10),
      co_autoload_mode = notnot (task_get_uint8 task (pos + 3) AND 0x07),
      co_busy_timeout_period = ucast (task_get_uint16 task (pos + 6)),
      co_extended_selftest_completion_time = ucast (task_get_uint16 task (pos + 8))\<rparr>"

definition scsi_parse_mode_disconnect_reconnect :: "scsi_task \<Rightarrow> nat \<Rightarrow> scsi_mode_page_disconnect_reconnect" where
  "scsi_parse_mode_disconnect_reconnect task pos =
     \<lparr>dr_buffer_full_ratio = ucast (task_get_uint8 task pos),
      dr_buffer_empty_ratio = ucast (task_get_uint8 task (pos + 1)),
      dr_bus_inactivity_limit = ucast (task_get_uint16 task (pos + 2)),
      dr_disconnect_time_limit = ucast (task_get_uint16 task (pos + 4)),
      dr_connect_time_limit = ucast (task_get_uint16 task (pos + 6)),
      dr_maximum_burst_size = ucast (task_get_uint16 task (pos + 8)),
      dr_emdp = notnot (task_get_uint8 task (pos + 10) AND 0x80),
      dr_fair_arbitration = ucast (drop_bit 4 (task_get_uint8 task (pos + 10)) AND 0x0f),
      dr_dimm = notnot (task_get_uint8 task (pos + 10) AND 0x08),
      dr_dtdc = ucast (task_get_uint8 task (pos + 10) AND 0x07),
      dr_first_burst_size = ucast (task_get_uint16 task (pos + 12))\<rparr>"

definition scsi_parse_mode_informational_exceptions_control :: "scsi_task \<Rightarrow> nat \<Rightarrow> scsi_mode_page_informational_exceptions_control" where
  "scsi_parse_mode_informational_exceptions_control task pos =
     \<lparr>iec_perf = notnot (task_get_uint8 task pos AND 0x80),
      iec_ebf = notnot (task_get_uint8 task pos AND 0x20),
      iec_ewasc = notnot (task_get_uint8 task pos AND 0x10),
      iec_dexcpt = notnot (task_get_uint8 task pos AND 0x08),
      iec_test = notnot (task_get_uint8 task pos AND 0x04),
      iec_ebackerr = notnot (task_get_uint8 task pos AND 0x02),
      iec_logerr = notnot (task_get_uint8 task pos AND 0x01),
      iec_mrie = ucast (task_get_uint8 task (pos + 1) AND 0x0f),
      iec_interval_timer = task_get_uint32 task (pos + 2),
      iec_report_count = task_get_uint32 task (pos + 6)\<rparr>"

definition scsi_parse_mode_power_condition :: "scsi_task \<Rightarrow> nat \<Rightarrow> scsi_mode_page_power_condition" where
  "scsi_parse_mode_power_condition task pos =
     \<lparr>pw_pm_bg_precedence = ucast (drop_bit 6 (task_get_uint8 task pos) AND 0x03),
      pw_standby_y = notnot (task_get_uint8 task pos AND 0x01),
      pw_idle_c = notnot (task_get_uint8 task (pos + 1) AND 0x08),
      pw_idle_b = notnot (task_get_uint8 task (pos + 1) AND 0x04),
      pw_idle_a = notnot (task_get_uint8 task (pos + 1) AND 0x02),
      pw_standby_z = notnot (task_get_uint8 task (pos + 1) AND 0x01),
      pw_idle_a_condition_timer = task_get_uint32 task (pos + 2),
      pw_standby_z_condition_timer = task_get_uint32 task (pos + 6),
      pw_idle_b_condition_timer = task_get_uint32 task (pos + 10),
      pw_idle_c_condition_timer = task_get_uint32 task (pos + 14),
      pw_standby_y_condition_timer = task_get_uint32 task (pos + 18),
      pw_ccf_idle = ucast (drop_bit 6 (task_get_uint8 task (pos + 37)) AND 0x03),
      pw_ccf_standby = ucast (drop_bit 4 (task_get_uint8 task (pos + 37)) AND 0x03),
      pw_ccf_stopped = ucast (drop_bit 2 (task_get_uint8 task (pos + 37)) AND 0x03)\<rparr>"

text \<open>The page at \<open>pos\<close> and the position behind it.\<close>

definition mode_page_at :: "scsi_task \<Rightarrow> nat \<Rightarrow> scsi_mode_page \<times> nat" where
  "mode_page_at task pos =
     (let ps = ucast (task_get_uint8 task pos AND 0x80);
          spf = ucast (task_get_uint8 task pos AND 0x40) :: cint;
          page_code = ucast (task_get_uint8 task pos AND 0x3f);
          pos = pos + 1;
          (subpage_code, len, pos) =
            (if spf \<noteq> 0
             then (ucast (task_get_uint8 task pos), ucast (task_get_uint16 task (pos + 1)), pos + 3)
             else (0, ucast (task_get_uint8 task pos), pos + 1));
          body =
            (if page_code = SCSI_MODEPAGE_CACHING then Caching (scsi_parse_mode_caching task pos)
             else if page_code = SCSI_MODEPAGE_CONTROL
             then Control (scsi_parse_mode_control task pos)
             else if page_code = SCSI_MODEPAGE_DISCONNECT_RECONNECT
             then Disconnect_reconnect (scsi_parse_mode_disconnect_reconnect task pos)
             else if page_code = SCSI_MODEPAGE_INFORMATIONAL_EXCEPTIONS_CONTROL
             then Iec (scsi_parse_mode_informational_exceptions_control task pos)
             else if page_code = SCSI_MODEPAGE_POWER_CONDITION
             then Power_condition (scsi_parse_mode_power_condition task pos)
             else Zeroed)
      in (\<lparr>mp_ps = ps, mp_spf = spf, mp_page_code = page_code, mp_subpage_code = subpage_code,
           mp_len = len, mp_body = body\<rparr>, pos + unat len))"

lemma mode_page_at_progress: "pos < snd (mode_page_at task pos)"
  by (simp add: mode_page_at_def Let_def split: prod.split)

lemma mode_page_at_next: "(mp, next) = mode_page_at task pos \<Longrightarrow> pos < next"
  using mode_page_at_progress [of pos task] by (metis snd_conv)

text \<open>
  A page is a block of 112 bytes (LP64) whose union starts at byte 28: \<open>page_end\<close> is where the
  stores into it end.
\<close>

fun page_end :: "mode_page_body \<Rightarrow> int" where
  "page_end (Caching p) = 28 + 80"
| "page_end (Control p) = 28 + 80"
| "page_end (Disconnect_reconnect p) = 28 + 44"
| "page_end (Iec p) = 28 + 40"
| "page_end (Power_condition p) = 28 + 56"
| "page_end Zeroed = 28"

abbreviation (input) sizeof_mode_page :: int where "sizeof_mode_page \<equiv> 112"
abbreviation (input) sizeof_mode_sense :: int where "sizeof_mode_sense \<equiv> 16"

text \<open>
  The loop over the pages; without memory it returns the pages it has. The offset is an \<open>int\<close>:
  a page at an offset from which its own fields (at most 41 bytes on) or the page behind it
  cannot be addressed is undefined.
\<close>

function mode_page_loop :: "alloc_oracle \<Rightarrow> scsi_task \<Rightarrow> nat \<Rightarrow> scsi_mode_page list \<Rightarrow>
  (scsi_task \<times> scsi_mode_page list) option" where
  "mode_page_loop ok task pos pages =
     (if pos < length (datain task) then
        (if ok (mem task) then
           (let task = task\<lparr>mem := Suc (mem task)\<rparr>; (mp, next) = mode_page_at task pos
            in if sizeof_mode_page < page_end (mp_body mp) then None
               else if \<not> int_fits (pos + 41) \<or> \<not> int_fits next then None
               else mode_page_loop ok task next (mp # pages))
         else Some (task, pages))
      else Some (task, pages))"
  by auto
termination
  by (relation "measure (\<lambda>(ok, task, pos, pages). length (datain task) - pos)")
     (auto intro!: diff_less_mono2 simp: mode_page_at_next)

declare mode_page_loop.simps [simp del]

definition mode_sense_header :: "scsi_task \<Rightarrow> bool \<Rightarrow> scsi_mode_sense" where
  "mode_sense_header task is_modesense6 =
     (if is_modesense6 then
        \<lparr>ms_mode_data_length = ucast (task_get_uint8 task 0),
         ms_medium_type = task_get_uint8 task 1,
         ms_device_specific_parameter = task_get_uint8 task 2,
         ms_longlba = 0,
         ms_block_descriptor_length = task_get_uint8 task 3,
         ms_pages = []\<rparr>
      else
        \<lparr>ms_mode_data_length = task_get_uint16 task 0,
         ms_medium_type = task_get_uint8 task 2,
         ms_device_specific_parameter = task_get_uint8 task 3,
         ms_longlba = task_get_uint8 task 4 AND 0x01,
         ms_block_descriptor_length = ucast (task_get_uint16 task 6),
         ms_pages = []\<rparr>)"

definition scsi_modesense_datain_unmarshall ::
  "alloc_oracle \<Rightarrow> scsi_task \<Rightarrow> bool \<Rightarrow> (scsi_task \<times> scsi_mode_sense ptr) option" where
  "scsi_modesense_datain_unmarshall ok task is_modesense6 =
     (let hdr_len = (if is_modesense6 then 4 else 8)
      in if length (datain task) < hdr_len then Some (task, NULL)
         else scsi_malloc_block (Some (task, NULL)) ok task sizeof_mode_sense 16 (\<lambda>task.
           let ms = mode_sense_header task is_modesense6
           in if unat (ms_mode_data_length ms) + 1 > length (datain task) then Some (task, NULL)
              else do {
                let pos = hdr_len + unat (ms_block_descriptor_length ms);
                (task, pages) \<leftarrow> mode_page_loop ok task pos [];
                Some (task, Ptr (ms\<lparr>ms_pages := pages\<rparr>))
              }))"

lemma page_end_fits: "page_end body \<le> 112"
  by (cases body) simp_all

lemma mode_page_at_bound:
  assumes "pos < length (datain task)"
  shows "snd (mode_page_at task pos) < length (datain task) + 2 ^ 16 + 4"
proof -
  have "unat w < 2 ^ LENGTH(16)" for w :: u16 by (rule unsigned_less)
  then have w: "unat (ucast w :: cint) < 2 ^ 16" for w :: u16
    by (simp add: unsigned_ucast_eq take_bit_nat_eq_self less_trans [of _ "2 ^ 16"])
  have "unat b < 2 ^ LENGTH(8)" for b :: u8 by (rule unsigned_less)
  then have b: "unat (ucast b :: cint) < 2 ^ 8" for b :: u8
    by (simp add: unsigned_ucast_eq take_bit_nat_eq_self less_trans [of _ "2 ^ 8"])
  show ?thesis
    using assms w [of "task_get_uint16 task (pos + 2)"] b [of "task_get_uint8 task (pos + 1)"]
    by (auto simp: mode_page_at_def Let_def split: prod.split if_splits)
qed

text \<open>With data that leave room in an \<open>int\<close> the loop is defined for all of them.\<close>

lemma mode_page_loop_defined:
  "length (datain task) \<le> 2 ^ 31 - 2 ^ 17 \<Longrightarrow> \<exists>t ps. mode_page_loop ok task pos pages = Some (t, ps)"
proof (induction ok task pos pages rule: mode_page_loop.induct)
  case (1 ok task pos pages)
  show ?case
  proof (cases "pos < length (datain task) \<and> ok (mem task)")
    case True
    let ?t = "task\<lparr>mem := Suc (mem task)\<rparr>"
    obtain mp next' where mp: "mode_page_at ?t pos = (mp, next')" by fastforce
    have fits: "int_fits (pos + 41)" "int_fits next'"
      using True 1(2) mode_page_at_bound [of pos ?t] mp unfolding int_fits_def by auto
    have "\<exists>t ps. mode_page_loop ok ?t next' (mp # pages) = Some (t, ps)"
      using True 1(2) fits page_end_fits [of "mp_body mp"] mp
      by (intro 1(1) [OF _ _ refl, of "(mp, next')"]) auto
    with True fits mp page_end_fits [of "mp_body mp"] show ?thesis
      by (subst mode_page_loop.simps) (simp add: Let_def linorder_not_less)
  qed (subst mode_page_loop.simps, auto)
qed

section \<open>Encoding\<close>

definition or_at :: "nat \<Rightarrow> u8 \<Rightarrow> bytes \<Rightarrow> bytes" where
  "or_at i b data = data[i := data ! i OR b]"

definition scsi_modesense_marshall_caching :: "scsi_mode_page_caching \<Rightarrow> nat \<Rightarrow> bytes" where
  "scsi_modesense_marshall_caching p h =
     (let data = replicate (20 + h) 0;
          data = (if ca_ic p \<noteq> 0 then or_at (h + 2) 0x80 data else data);
          data = (if ca_abpf p \<noteq> 0 then or_at (h + 2) 0x40 data else data);
          data = (if ca_cap p \<noteq> 0 then or_at (h + 2) 0x20 data else data);
          data = (if ca_disc p \<noteq> 0 then or_at (h + 2) 0x10 data else data);
          data = (if ca_size p \<noteq> 0 then or_at (h + 2) 0x08 data else data);
          data = (if ca_wce p \<noteq> 0 then or_at (h + 2) 0x04 data else data);
          data = (if ca_mf p \<noteq> 0 then or_at (h + 2) 0x02 data else data);
          data = (if ca_rcd p \<noteq> 0 then or_at (h + 2) 0x01 data else data);
          data = or_at (h + 3) (ucast (push_bit 4 (ca_demand_read_retention_priority p) AND 0xf0)) data;
          data = or_at (h + 3) (ucast (ca_write_retention_priority p AND 0x0f)) data;
          data = scsi_set_uint16 (h + 4) (ucast (ca_disable_prefetch_transfer_length p)) data;
          data = scsi_set_uint16 (h + 6) (ucast (ca_minimum_prefetch p)) data;
          data = scsi_set_uint16 (h + 8) (ucast (ca_maximum_prefetch p)) data;
          data = scsi_set_uint16 (h + 10) (ucast (ca_maximum_prefetch_ceiling p)) data;
          data = (if ca_fsw p \<noteq> 0 then or_at (h + 12) 0x80 data else data);
          data = (if ca_lbcss p \<noteq> 0 then or_at (h + 12) 0x40 data else data);
          data = (if ca_dra p \<noteq> 0 then or_at (h + 12) 0x20 data else data);
          data = (if ca_nv_dis p \<noteq> 0 then or_at (h + 12) 0x01 data else data);
          data = data[h + 13 := ucast (ca_number_of_cache_segments p)];
          data = scsi_set_uint16 (h + 14) (ucast (ca_cache_segment_size p)) data
      in data)"

definition scsi_modesense_marshall_control :: "scsi_mode_page_control \<Rightarrow> nat \<Rightarrow> bytes" where
  "scsi_modesense_marshall_control p h =
     (let data = replicate (12 + h) 0;
          data = or_at (h + 2) (ucast (push_bit 5 (co_tst p) AND 0xe0)) data;
          data = (if co_tmf_only p \<noteq> 0 then or_at (h + 2) 0x10 data else data);
          data = (if co_dpicz p \<noteq> 0 then or_at (h + 2) 0x08 data else data);
          data = (if co_d_sense p \<noteq> 0 then or_at (h + 2) 0x04 data else data);
          data = (if co_gltsd p \<noteq> 0 then or_at (h + 2) 0x02 data else data);
          data = (if co_rlec p \<noteq> 0 then or_at (h + 2) 0x01 data else data);
          data = or_at (h + 3) (ucast (push_bit 4 (co_queue_algorithm_modifier p) AND 0xf0)) data;
          data = (if co_nuar p \<noteq> 0 then or_at (h + 3) 0x08 data else data);
          data = or_at (h + 3) (ucast (push_bit 1 (co_qerr p) AND 0x06)) data;
          data = (if co_vs p \<noteq> 0 then or_at (h + 4) 0x80 data else data);
          data = (if co_rac p \<noteq> 0 then or_at (h + 4) 0x40 data else data);
          data = or_at (h + 4) (ucast (push_bit 4 (co_ua_intlck_ctrl p) AND 0x30)) data;
          data = (if co_swp p \<noteq> 0 then or_at (h + 4) 0x08 data else data);
          data = (if co_ato p \<noteq> 0 then or_at (h + 5) 0x80 data else data);
          data = (if co_tas p \<noteq> 0 then or_at (h + 5) 0x40 data else data);
          data = (if co_atmpe p \<noteq> 0 then or_at (h + 5) 0x20 data else data);
          data = (if co_rwwp p \<noteq> 0 then or_at (h + 5) 0x10 data else data);
          data = or_at (h + 5) (ucast (co_autoload_mode p AND 0x07)) data;
          data = scsi_set_uint16 (h + 8) (ucast (co_busy_timeout_period p)) data;
          data = scsi_set_uint16 (h + 10) (ucast (co_extended_selftest_completion_time p)) data
      in data)"

definition scsi_modesense_marshall_disconnect_reconnect :: "scsi_mode_page_disconnect_reconnect \<Rightarrow> nat \<Rightarrow> bytes" where
  "scsi_modesense_marshall_disconnect_reconnect p h =
     (let data = replicate (16 + h) 0;
          data = data[h + 2 := ucast (dr_buffer_full_ratio p)];
          data = data[h + 3 := ucast (dr_buffer_empty_ratio p)];
          data = scsi_set_uint16 (h + 4) (ucast (dr_bus_inactivity_limit p)) data;
          data = scsi_set_uint16 (h + 6) (ucast (dr_disconnect_time_limit p)) data;
          data = scsi_set_uint16 (h + 8) (ucast (dr_connect_time_limit p)) data;
          data = scsi_set_uint16 (h + 10) (ucast (dr_maximum_burst_size p)) data;
          data = (if dr_emdp p \<noteq> 0 then or_at (h + 12) 0x80 data else data);
          data = or_at (h + 12) (ucast (push_bit 4 (dr_fair_arbitration p) AND 0x70)) data;
          data = (if dr_dimm p \<noteq> 0 then or_at (h + 12) 0x08 data else data);
          data = or_at (h + 12) (ucast (dr_dtdc p AND 0x07)) data;
          data = scsi_set_uint16 (h + 14) (ucast (dr_first_burst_size p)) data
      in data)"

definition scsi_modesense_marshall_informational_exceptions_control :: "scsi_mode_page_informational_exceptions_control \<Rightarrow> nat \<Rightarrow> bytes" where
  "scsi_modesense_marshall_informational_exceptions_control p h =
     (let data = replicate (12 + h) 0;
          data = (if iec_perf p \<noteq> 0 then or_at (h + 2) 0x80 data else data);
          data = (if iec_ebf p \<noteq> 0 then or_at (h + 2) 0x20 data else data);
          data = (if iec_ewasc p \<noteq> 0 then or_at (h + 2) 0x10 data else data);
          data = (if iec_dexcpt p \<noteq> 0 then or_at (h + 2) 0x08 data else data);
          data = (if iec_test p \<noteq> 0 then or_at (h + 2) 0x04 data else data);
          data = (if iec_ebackerr p \<noteq> 0 then or_at (h + 2) 0x02 data else data);
          data = (if iec_logerr p \<noteq> 0 then or_at (h + 2) 0x01 data else data);
          data = or_at (h + 3) (ucast (iec_mrie p AND 0x0f)) data;
          data = scsi_set_uint32 (h + 4) (iec_interval_timer p) data;
          data = scsi_set_uint32 (h + 8) (iec_report_count p) data
      in data)"

definition scsi_modesense_marshall_power_condition :: "scsi_mode_page_power_condition \<Rightarrow> nat \<Rightarrow> bytes" where
  "scsi_modesense_marshall_power_condition p h =
     (let data = replicate (40 + h) 0;
          data = or_at (h + 2) (ucast (push_bit 6 (pw_pm_bg_precedence p) AND 0xc0)) data;
          data = (if pw_standby_y p \<noteq> 0 then or_at (h + 2) 0x01 data else data);
          data = (if pw_idle_c p \<noteq> 0 then or_at (h + 3) 0x08 data else data);
          data = (if pw_idle_b p \<noteq> 0 then or_at (h + 3) 0x04 data else data);
          data = (if pw_idle_a p \<noteq> 0 then or_at (h + 3) 0x02 data else data);
          data = (if pw_standby_z p \<noteq> 0 then or_at (h + 3) 0x01 data else data);
          data = scsi_set_uint32 (h + 4) (pw_idle_a_condition_timer p) data;
          data = scsi_set_uint32 (h + 8) (pw_standby_z_condition_timer p) data;
          data = scsi_set_uint32 (h + 12) (pw_idle_b_condition_timer p) data;
          data = scsi_set_uint32 (h + 16) (pw_idle_c_condition_timer p) data;
          data = scsi_set_uint32 (h + 20) (pw_standby_y_condition_timer p) data;
          data = or_at (h + 39) (ucast (push_bit 6 (pw_ccf_idle p) AND 0xc0)) data;
          data = or_at (h + 39) (ucast (push_bit 4 (pw_ccf_standby p) AND 0x30)) data;
          data = or_at (h + 39) (ucast (push_bit 2 (pw_ccf_stopped p) AND 0x0c)) data
      in data)"

text \<open>
  The page's body is encoded by the function of its page code; reading the union through
  another member than the one stored is not modelled (\<open>None\<close>). Each encoder allocates two blocks.
\<close>

definition marshall_body :: "cint \<Rightarrow> mode_page_body \<Rightarrow> nat \<Rightarrow> bytes ptr option" where
  "marshall_body page_code body h =
     (if page_code = SCSI_MODEPAGE_CACHING then
        (case body of Caching p \<Rightarrow> Some (Ptr (scsi_modesense_marshall_caching p h)) | _ \<Rightarrow> None)
      else if page_code = SCSI_MODEPAGE_CONTROL then
        (case body of Control p \<Rightarrow> Some (Ptr (scsi_modesense_marshall_control p h)) | _ \<Rightarrow> None)
      else if page_code = SCSI_MODEPAGE_DISCONNECT_RECONNECT then
        (case body of Disconnect_reconnect p \<Rightarrow>
           Some (Ptr (scsi_modesense_marshall_disconnect_reconnect p h)) | _ \<Rightarrow> None)
      else if page_code = SCSI_MODEPAGE_INFORMATIONAL_EXCEPTIONS_CONTROL then
        (case body of Iec p \<Rightarrow>
           Some (Ptr (scsi_modesense_marshall_informational_exceptions_control p h)) | _ \<Rightarrow> None)
      else if page_code = SCSI_MODEPAGE_POWER_CONDITION then
        (case body of Power_condition p \<Rightarrow>
           Some (Ptr (scsi_modesense_marshall_power_condition p h)) | _ \<Rightarrow> None)
      else Some NULL)"

text \<open>The two (or four) header bytes of the page, stored over the encoded body.\<close>

definition marshall_page_header :: "scsi_mode_page \<Rightarrow> nat \<Rightarrow> bytes \<Rightarrow> bytes" where
  "marshall_page_header mp h data =
     (let data = data[h := ucast (mp_page_code mp AND 0x3f)];
          data = (if mp_ps mp \<noteq> 0 then or_at h 0x80 data else data)
      in if mp_spf mp \<noteq> 0
         then scsi_set_uint16 (h + 2) (of_nat (length data - h - 4))
                ((or_at h 0x40 data)[h + 1 := ucast (mp_subpage_code mp)])
         else data[h + 1 := of_nat (length data - h - 2)])"

definition scsi_modesense_dataout_marshall ::
  "alloc_oracle \<Rightarrow> scsi_task \<Rightarrow> scsi_mode_page \<Rightarrow> bool \<Rightarrow> (scsi_task \<times> bytes ptr) option" where
  "scsi_modesense_dataout_marshall ok task mp is_modeselect6 =
     (let hdr_size = (if is_modeselect6 then 4 else 8)
      in case marshall_body (mp_page_code mp) (mp_body mp) hdr_size of
           None \<Rightarrow> None
         | Some NULL \<Rightarrow> Some (task, NULL)
         | Some (Ptr data) \<Rightarrow>
             scsi_malloc_or (Some (task, NULL)) ok task (\<lambda>task.
             scsi_malloc_or (Some (task, NULL)) ok task (\<lambda>task.
               Some (task, Ptr (marshall_page_header mp hdr_size data)))))"

section \<open>What comes back\<close>

text \<open>
  The page read back from its own encoding, as the code computes it: flags as 0/1 and numbers
  reduced to their width. The \<open>ua_intlck_ctrl\<close>, \<open>nuar\<close> and \<open>autoload_mode\<close> of the control page and the
  \<open>fair_arbitration\<close> of the disconnect-reconnect page are not the stored value: the decoder's
  masks take the neighbouring flags with them, keep the bit's weight or drop all but a zero test.
\<close>

definition readback_caching :: "scsi_mode_page_caching \<Rightarrow> scsi_mode_page_caching" where
  "readback_caching p =
     \<lparr>ca_ic = notnot (ca_ic p),
      ca_abpf = notnot (ca_abpf p),
      ca_cap = notnot (ca_cap p),
      ca_disc = notnot (ca_disc p),
      ca_size = notnot (ca_size p),
      ca_wce = notnot (ca_wce p),
      ca_mf = notnot (ca_mf p),
      ca_rcd = notnot (ca_rcd p),
      ca_demand_read_retention_priority = ca_demand_read_retention_priority p AND 0x0f,
      ca_write_retention_priority = ca_write_retention_priority p AND 0x0f,
      ca_disable_prefetch_transfer_length = ca_disable_prefetch_transfer_length p AND 0xffff,
      ca_minimum_prefetch = ca_minimum_prefetch p AND 0xffff,
      ca_maximum_prefetch = ca_maximum_prefetch p AND 0xffff,
      ca_maximum_prefetch_ceiling = ca_maximum_prefetch_ceiling p AND 0xffff,
      ca_fsw = notnot (ca_fsw p),
      ca_lbcss = notnot (ca_lbcss p),
      ca_dra = notnot (ca_dra p),
      ca_nv_dis = notnot (ca_nv_dis p),
      ca_number_of_cache_segments = ca_number_of_cache_segments p AND 0xff,
      ca_cache_segment_size = ca_cache_segment_size p AND 0xffff\<rparr>"

definition readback_control :: "scsi_mode_page_control \<Rightarrow> scsi_mode_page_control" where
  "readback_control p =
     \<lparr>co_tst = co_tst p AND 0x07,
      co_tmf_only = notnot (co_tmf_only p),
      co_dpicz = notnot (co_dpicz p),
      co_d_sense = notnot (co_d_sense p),
      co_gltsd = notnot (co_gltsd p),
      co_rlec = notnot (co_rlec p),
      co_queue_algorithm_modifier = co_queue_algorithm_modifier p AND 0x0f,
      co_nuar = (if co_nuar p \<noteq> 0 then 8 else 0),
      co_qerr = co_qerr p AND 0x03,
      co_vs = notnot (co_vs p),
      co_rac = notnot (co_rac p),
      co_ua_intlck_ctrl = (co_ua_intlck_ctrl p AND 0x3)
        OR (if co_vs p \<noteq> 0 then 8 else 0) OR (if co_rac p \<noteq> 0 then 4 else 0),
      co_swp = notnot (co_swp p),
      co_ato = notnot (co_ato p),
      co_tas = notnot (co_tas p),
      co_atmpe = notnot (co_atmpe p),
      co_rwwp = notnot (co_rwwp p),
      co_autoload_mode = notnot (co_autoload_mode p AND 0x07),
      co_busy_timeout_period = co_busy_timeout_period p AND 0xffff,
      co_extended_selftest_completion_time = co_extended_selftest_completion_time p AND 0xffff\<rparr>"

definition readback_disconnect_reconnect :: "scsi_mode_page_disconnect_reconnect \<Rightarrow> scsi_mode_page_disconnect_reconnect" where
  "readback_disconnect_reconnect p =
     \<lparr>dr_buffer_full_ratio = dr_buffer_full_ratio p AND 0xff,
      dr_buffer_empty_ratio = dr_buffer_empty_ratio p AND 0xff,
      dr_bus_inactivity_limit = dr_bus_inactivity_limit p AND 0xffff,
      dr_disconnect_time_limit = dr_disconnect_time_limit p AND 0xffff,
      dr_connect_time_limit = dr_connect_time_limit p AND 0xffff,
      dr_maximum_burst_size = dr_maximum_burst_size p AND 0xffff,
      dr_emdp = notnot (dr_emdp p),
      dr_fair_arbitration = (dr_fair_arbitration p AND 0x7) OR (if dr_emdp p \<noteq> 0 then 8 else 0),
      dr_dimm = notnot (dr_dimm p),
      dr_dtdc = dr_dtdc p AND 0x07,
      dr_first_burst_size = dr_first_burst_size p AND 0xffff\<rparr>"

definition readback_informational_exceptions_control :: "scsi_mode_page_informational_exceptions_control \<Rightarrow> scsi_mode_page_informational_exceptions_control" where
  "readback_informational_exceptions_control p =
     \<lparr>iec_perf = notnot (iec_perf p),
      iec_ebf = notnot (iec_ebf p),
      iec_ewasc = notnot (iec_ewasc p),
      iec_dexcpt = notnot (iec_dexcpt p),
      iec_test = notnot (iec_test p),
      iec_ebackerr = notnot (iec_ebackerr p),
      iec_logerr = notnot (iec_logerr p),
      iec_mrie = iec_mrie p AND 0x0f,
      iec_interval_timer = iec_interval_timer p,
      iec_report_count = iec_report_count p\<rparr>"

definition readback_power_condition :: "scsi_mode_page_power_condition \<Rightarrow> scsi_mode_page_power_condition" where
  "readback_power_condition p =
     \<lparr>pw_pm_bg_precedence = pw_pm_bg_precedence p AND 0x03,
      pw_standby_y = notnot (pw_standby_y p),
      pw_idle_c = notnot (pw_idle_c p),
      pw_idle_b = notnot (pw_idle_b p),
      pw_idle_a = notnot (pw_idle_a p),
      pw_standby_z = notnot (pw_standby_z p),
      pw_idle_a_condition_timer = pw_idle_a_condition_timer p,
      pw_standby_z_condition_timer = pw_standby_z_condition_timer p,
      pw_idle_b_condition_timer = pw_idle_b_condition_timer p,
      pw_idle_c_condition_timer = pw_idle_c_condition_timer p,
      pw_standby_y_condition_timer = pw_standby_y_condition_timer p,
      pw_ccf_idle = pw_ccf_idle p AND 0x03,
      pw_ccf_standby = pw_ccf_standby p AND 0x03,
      pw_ccf_stopped = pw_ccf_stopped p AND 0x03\<rparr>"

section \<open>Evaluation of stores and loads\<close>


lemma or_at_zero: "or_at i 0 data = data"
  by (simp add: or_at_def)

lemma or_at_if: "(if c then or_at i b data else data) = or_at i (if c then b else 0) data"
  by (simp add: or_at_zero)

lemma list_update_numeral: "(x # xs)[numeral k := y] = x # xs[pred_numeral k := y]"
  by (simp add: numeral_eq_Suc)

lemma list_update_Suc0: "(x # xs)[Suc 0 := y] = x # xs[0 := y]"
  by simp

lemma replicate_numeral: "replicate (numeral k) x = x # replicate (pred_numeral k) x"
  by (simp add: numeral_eq_Suc)

lemma bit_if_cases: "bit (if c then x else y) n = (c \<and> bit x n \<or> \<not> c \<and> bit y n)"
  by simp

lemma join16: "push_bit 8 (ucast (ucast (drop_bit 8 v) :: u8)) OR ucast (ucast v :: u8) = (v :: u16)"
  by (rule word_eq_bitwise) (simp add: bit_eval)

lemma join32:
  "push_bit 8 (push_bit 8 (push_bit 8 (ucast (ucast (drop_bit 24 v) :: u8)) OR
     ucast (ucast (drop_bit 16 v) :: u8)) OR ucast (ucast (drop_bit 8 v) :: u8)) OR
     ucast (ucast v :: u8) = (v :: u32)"
  by (rule word_eq_bitwise) (simp add: bit_eval)

lemma cint_parts:
  "ucast (ucast (x :: cint) :: u16) = x AND 0xffff" "ucast (ucast x :: u8) = x AND 0xff"
  by (rule word_eq_bitwise, simp add: bit_eval)+

lemmas store_simps = Let_def or_at_def scsi_set_uint16_def scsi_set_uint32_def list_update_numeral
  replicate_numeral
lemmas load_simps = task_get_uint8_def task_get_uint16_def task_get_uint32_def scsi_get_uint16_def
  scsi_get_uint32_def join16 join32 cint_parts


lemma bit_times_2: "bit (x * 2 :: cint) n \<longleftrightarrow> 0 < n \<and> n < 32 \<and> bit x (n - 1)"
  using bit_push_bit_iff [of 1 x n] by (auto simp: push_bit_eq_mult mult.commute)

lemma and_7_eq_0: "(x :: cint) AND 7 = 0 \<longleftrightarrow> \<not> bit x 0 \<and> \<not> bit x (Suc 0) \<and> \<not> bit x 2"
proof
  assume "x AND 7 = 0"
  then have "\<not> bit (x AND 7) n" for n by simp
  from this [of 0] this [of 1] this [of 2] show "\<not> bit x 0 \<and> \<not> bit x (Suc 0) \<and> \<not> bit x 2"
    by (simp add: bit_eval)
next
  assume "\<not> bit x 0 \<and> \<not> bit x (Suc 0) \<and> \<not> bit x 2"
  then show "x AND 7 = 0" by (intro word_eq_bitwise) (simp add: bit_eval)
qed

lemma notnot_eqI: "(x = 0) = (y = 0) \<Longrightarrow> notnot x = notnot y"
  by (simp add: notnot_def)

lemmas read_simps = load_simps store_simps or_at_if

lemma readback_caching_4:
  "scsi_parse_mode_caching (task\<lparr>datain := scsi_modesense_marshall_caching p 4\<rparr>) 6 =
   readback_caching p"
  by (simp add: scsi_parse_mode_caching_def readback_caching_def scsi_modesense_marshall_caching_def
        read_simps split del: if_split)
     (intro conjI notnot_eqI; (rule word_eq_bitwise)?;
      simp add: byte_eq_iff bit_eval bit_if_cases bit_times_2 and_7_eq_0 split del: if_split)

lemma readback_caching_8:
  "scsi_parse_mode_caching (task\<lparr>datain := scsi_modesense_marshall_caching p 8\<rparr>) 10 =
   readback_caching p"
  by (simp add: scsi_parse_mode_caching_def readback_caching_def scsi_modesense_marshall_caching_def
        read_simps split del: if_split)
     (intro conjI notnot_eqI; (rule word_eq_bitwise)?;
      simp add: byte_eq_iff bit_eval bit_if_cases bit_times_2 and_7_eq_0 split del: if_split)

lemma readback_control_4:
  "scsi_parse_mode_control (task\<lparr>datain := scsi_modesense_marshall_control p 4\<rparr>) 6 =
   readback_control p"
  by (simp add: scsi_parse_mode_control_def readback_control_def scsi_modesense_marshall_control_def
        read_simps split del: if_split)
     (intro conjI notnot_eqI; (rule word_eq_bitwise)?;
      simp add: byte_eq_iff bit_eval bit_if_cases bit_times_2 and_7_eq_0 split del: if_split)

lemma readback_control_8:
  "scsi_parse_mode_control (task\<lparr>datain := scsi_modesense_marshall_control p 8\<rparr>) 10 =
   readback_control p"
  by (simp add: scsi_parse_mode_control_def readback_control_def scsi_modesense_marshall_control_def
        read_simps split del: if_split)
     (intro conjI notnot_eqI; (rule word_eq_bitwise)?;
      simp add: byte_eq_iff bit_eval bit_if_cases bit_times_2 and_7_eq_0 split del: if_split)

lemma readback_disconnect_reconnect_4:
  "scsi_parse_mode_disconnect_reconnect (task\<lparr>datain := scsi_modesense_marshall_disconnect_reconnect p 4\<rparr>) 6 =
   readback_disconnect_reconnect p"
  by (simp add: scsi_parse_mode_disconnect_reconnect_def readback_disconnect_reconnect_def scsi_modesense_marshall_disconnect_reconnect_def
        read_simps split del: if_split)
     (intro conjI notnot_eqI; (rule word_eq_bitwise)?;
      simp add: byte_eq_iff bit_eval bit_if_cases bit_times_2 and_7_eq_0 split del: if_split)

lemma readback_disconnect_reconnect_8:
  "scsi_parse_mode_disconnect_reconnect (task\<lparr>datain := scsi_modesense_marshall_disconnect_reconnect p 8\<rparr>) 10 =
   readback_disconnect_reconnect p"
  by (simp add: scsi_parse_mode_disconnect_reconnect_def readback_disconnect_reconnect_def scsi_modesense_marshall_disconnect_reconnect_def
        read_simps split del: if_split)
     (intro conjI notnot_eqI; (rule word_eq_bitwise)?;
      simp add: byte_eq_iff bit_eval bit_if_cases bit_times_2 and_7_eq_0 split del: if_split)

lemma readback_informational_exceptions_control_4:
  "scsi_parse_mode_informational_exceptions_control (task\<lparr>datain := scsi_modesense_marshall_informational_exceptions_control p 4\<rparr>) 6 =
   readback_informational_exceptions_control p"
  by (simp add: scsi_parse_mode_informational_exceptions_control_def readback_informational_exceptions_control_def scsi_modesense_marshall_informational_exceptions_control_def
        read_simps split del: if_split)
     (intro conjI notnot_eqI; (rule word_eq_bitwise)?;
      simp add: byte_eq_iff bit_eval bit_if_cases bit_times_2 and_7_eq_0 split del: if_split)

lemma readback_informational_exceptions_control_8:
  "scsi_parse_mode_informational_exceptions_control (task\<lparr>datain := scsi_modesense_marshall_informational_exceptions_control p 8\<rparr>) 10 =
   readback_informational_exceptions_control p"
  by (simp add: scsi_parse_mode_informational_exceptions_control_def readback_informational_exceptions_control_def scsi_modesense_marshall_informational_exceptions_control_def
        read_simps split del: if_split)
     (intro conjI notnot_eqI; (rule word_eq_bitwise)?;
      simp add: byte_eq_iff bit_eval bit_if_cases bit_times_2 and_7_eq_0 split del: if_split)

lemma readback_power_condition_4:
  "scsi_parse_mode_power_condition (task\<lparr>datain := scsi_modesense_marshall_power_condition p 4\<rparr>) 6 =
   readback_power_condition p"
  by (simp add: scsi_parse_mode_power_condition_def readback_power_condition_def scsi_modesense_marshall_power_condition_def
        read_simps split del: if_split)
     (intro conjI notnot_eqI; (rule word_eq_bitwise)?;
      simp add: byte_eq_iff bit_eval bit_if_cases bit_times_2 and_7_eq_0 split del: if_split)

lemma readback_power_condition_8:
  "scsi_parse_mode_power_condition (task\<lparr>datain := scsi_modesense_marshall_power_condition p 8\<rparr>) 10 =
   readback_power_condition p"
  by (simp add: scsi_parse_mode_power_condition_def readback_power_condition_def scsi_modesense_marshall_power_condition_def
        read_simps split del: if_split)
     (intro conjI notnot_eqI; (rule word_eq_bitwise)?;
      simp add: byte_eq_iff bit_eval bit_if_cases bit_times_2 and_7_eq_0 split del: if_split)

section \<open>The page around its body\<close>

lemma task_get_header:
  assumes "h + 2 \<le> k"
  shows "task_get_uint8 (task\<lparr>datain := d[h := a, Suc h := b]\<rparr>) k = task_get_uint8 (task\<lparr>datain := d\<rparr>) k"
    "task_get_uint16 (task\<lparr>datain := d[h := a, Suc h := b]\<rparr>) k = task_get_uint16 (task\<lparr>datain := d\<rparr>) k"
    "task_get_uint32 (task\<lparr>datain := d[h := a, Suc h := b]\<rparr>) k = task_get_uint32 (task\<lparr>datain := d\<rparr>) k"
  using assms
  by (simp_all add: task_get_uint8_def task_get_uint16_def task_get_uint32_def
      be16.get_update_other be32.get_update_other)

lemma parse_header:
  "scsi_parse_mode_caching (task\<lparr>datain := d[h := a, Suc h := b]\<rparr>) (Suc (Suc h)) =
   scsi_parse_mode_caching (task\<lparr>datain := d\<rparr>) (Suc (Suc h))"
  "scsi_parse_mode_control (task\<lparr>datain := d[h := a, Suc h := b]\<rparr>) (Suc (Suc h)) =
   scsi_parse_mode_control (task\<lparr>datain := d\<rparr>) (Suc (Suc h))"
  "scsi_parse_mode_disconnect_reconnect (task\<lparr>datain := d[h := a, Suc h := b]\<rparr>) (Suc (Suc h)) =
   scsi_parse_mode_disconnect_reconnect (task\<lparr>datain := d\<rparr>) (Suc (Suc h))"
  "scsi_parse_mode_informational_exceptions_control
     (task\<lparr>datain := d[h := a, Suc h := b]\<rparr>) (Suc (Suc h)) =
   scsi_parse_mode_informational_exceptions_control (task\<lparr>datain := d\<rparr>) (Suc (Suc h))"
  "scsi_parse_mode_power_condition (task\<lparr>datain := d[h := a, Suc h := b]\<rparr>) (Suc (Suc h)) =
   scsi_parse_mode_power_condition (task\<lparr>datain := d\<rparr>) (Suc (Suc h))"
  by (simp_all add: scsi_parse_mode_caching_def scsi_parse_mode_control_def
      scsi_parse_mode_disconnect_reconnect_def scsi_parse_mode_power_condition_def
      scsi_parse_mode_informational_exceptions_control_def task_get_header)

fun body_code :: "mode_page_body \<Rightarrow> cint" where
  "body_code (Caching p) = SCSI_MODEPAGE_CACHING"
| "body_code (Control p) = SCSI_MODEPAGE_CONTROL"
| "body_code (Disconnect_reconnect p) = SCSI_MODEPAGE_DISCONNECT_RECONNECT"
| "body_code (Iec p) = SCSI_MODEPAGE_INFORMATIONAL_EXCEPTIONS_CONTROL"
| "body_code (Power_condition p) = SCSI_MODEPAGE_POWER_CONDITION"
| "body_code Zeroed = 0"

fun body_size :: "mode_page_body \<Rightarrow> nat" where
  "body_size (Caching p) = 20"
| "body_size (Control p) = 12"
| "body_size (Disconnect_reconnect p) = 16"
| "body_size (Iec p) = 12"
| "body_size (Power_condition p) = 40"
| "body_size Zeroed = 0"

fun readback_body :: "mode_page_body \<Rightarrow> mode_page_body" where
  "readback_body (Caching p) = Caching (readback_caching p)"
| "readback_body (Control p) = Control (readback_control p)"
| "readback_body (Disconnect_reconnect p) = Disconnect_reconnect (readback_disconnect_reconnect p)"
| "readback_body (Iec p) = Iec (readback_informational_exceptions_control p)"
| "readback_body (Power_condition p) = Power_condition (readback_power_condition p)"
| "readback_body Zeroed = Zeroed"

lemmas readback_4 = readback_caching_4 readback_control_4 readback_disconnect_reconnect_4
  readback_informational_exceptions_control_4 readback_power_condition_4
lemmas readback_8 = readback_caching_8 readback_control_8 readback_disconnect_reconnect_8
  readback_informational_exceptions_control_8 readback_power_condition_8

lemma length_marshall:
  "length (scsi_modesense_marshall_caching p1 h) = 20 + h"
  "length (scsi_modesense_marshall_control p2 h) = 12 + h"
  "length (scsi_modesense_marshall_disconnect_reconnect p3 h) = 16 + h"
  "length (scsi_modesense_marshall_informational_exceptions_control p4 h) = 12 + h"
  "length (scsi_modesense_marshall_power_condition p5 h) = 40 + h"
  by (simp_all add: scsi_modesense_marshall_caching_def scsi_modesense_marshall_control_def
      scsi_modesense_marshall_disconnect_reconnect_def scsi_modesense_marshall_power_condition_def
      scsi_modesense_marshall_informational_exceptions_control_def Let_def or_at_if or_at_def
      split del: if_split)

lemma marshall_zeros:
  assumes "i < h + 2"
  shows "scsi_modesense_marshall_caching p1 h ! i = 0"
  "scsi_modesense_marshall_control p2 h ! i = 0"
  "scsi_modesense_marshall_disconnect_reconnect p3 h ! i = 0"
  "scsi_modesense_marshall_informational_exceptions_control p4 h ! i = 0"
  "scsi_modesense_marshall_power_condition p5 h ! i = 0"
  using assms
  by (simp_all add: scsi_modesense_marshall_caching_def scsi_modesense_marshall_control_def
      scsi_modesense_marshall_disconnect_reconnect_def scsi_modesense_marshall_power_condition_def
      scsi_modesense_marshall_informational_exceptions_control_def Let_def or_at_if or_at_def
      codec_update split del: if_split)

lemma mode_page_at_mem: "mode_page_at (task\<lparr>mem := k\<rparr>) pos = mode_page_at task pos"
  by (simp add: mode_page_at_def Let_def scsi_parse_mode_caching_def scsi_parse_mode_control_def
      scsi_parse_mode_disconnect_reconnect_def scsi_parse_mode_power_condition_def
      scsi_parse_mode_informational_exceptions_control_def)

text \<open>The parser of the page type that \<open>body\<close> has.\<close>

fun parsed_like :: "mode_page_body \<Rightarrow> scsi_task \<Rightarrow> nat \<Rightarrow> mode_page_body" where
  "parsed_like (Caching p) task pos = Caching (scsi_parse_mode_caching task pos)"
| "parsed_like (Control p) task pos = Control (scsi_parse_mode_control task pos)"
| "parsed_like (Disconnect_reconnect p) task pos =
     Disconnect_reconnect (scsi_parse_mode_disconnect_reconnect task pos)"
| "parsed_like (Iec p) task pos = Iec (scsi_parse_mode_informational_exceptions_control task pos)"
| "parsed_like (Power_condition p) task pos =
     Power_condition (scsi_parse_mode_power_condition task pos)"
| "parsed_like Zeroed task pos = Zeroed"

lemma mode_page_at_plain:
  assumes "task_get_uint8 task pos AND 0x40 = 0"
    "ucast (task_get_uint8 task pos AND 0x3f) = body_code body" "body \<noteq> Zeroed"
  shows "mode_page_at task pos =
    (\<lparr>mp_ps = ucast (task_get_uint8 task pos AND 0x80), mp_spf = 0, mp_page_code = body_code body,
      mp_subpage_code = 0, mp_len = ucast (task_get_uint8 task (Suc pos)),
      mp_body = parsed_like body task (Suc (Suc pos))\<rparr>,
     Suc (Suc pos) + unat (task_get_uint8 task (Suc pos)))"
  using assms
  by (cases body) (simp_all add: mode_page_at_def Let_def byte_as_int)

lemma header_byte:
  assumes "body \<noteq> Zeroed"
  shows "((ucast (body_code body AND 0x3f) :: u8) OR (if c then 0x80 else 0)) AND 0x40 = 0"
    "ucast (((ucast (body_code body AND 0x3f) :: u8) OR (if c then 0x80 else 0)) AND 0x3f) = body_code body"
    "ucast (((ucast (body_code body AND 0x3f) :: u8) OR (if c then 0x80 else 0)) AND 0x80) =
     ((if c then 0x80 else 0) :: cint)"
  using assms by (cases body; simp)+

text \<open>The encoded page: its header over the encoded body.\<close>

lemma marshall_page_header_plain:
  assumes "mp_spf mp = 0" "h < length data"
  shows "marshall_page_header mp h data =
    data[h := ucast (mp_page_code mp AND 0x3f) OR (if mp_ps mp \<noteq> 0 then 0x80 else 0),
         Suc h := of_nat (length data - h - 2)]"
  using assms by (simp add: marshall_page_header_def Let_def or_at_def)

lemma unmarshall_one_page:
  assumes "h = (if six then 4 else 8)" "\<forall>n. ok n"
    and "\<forall>i < h. data ! i = 0" "snd (mode_page_at (task\<lparr>datain := data\<rparr>) h) = length data"
    "h < length data" "length data < 100"
  shows "\<exists>t ms. scsi_modesense_datain_unmarshall ok (task\<lparr>datain := data\<rparr>) six = Some (t, Ptr ms) \<and>
    ms_pages ms = [fst (mode_page_at (task\<lparr>datain := data\<rparr>) h)]"
proof -
  let ?t = "task\<lparr>datain := data\<rparr>"
  have h: "h < length (datain ?t)" "unat (task_get_uint8 ?t 0) = 0" "task_get_uint16 ?t 0 = 0"
    "\<And>i. i < h \<Longrightarrow> task_get_uint8 ?t i = 0" "h = 8 \<Longrightarrow> task_get_uint16 ?t 6 = 0"
    using assms(1,3,5) by (auto simp: task_get_uint8_def task_get_uint16_def scsi_get_uint16_def
        split: if_splits)
  have "unat (ms_mode_data_length (mode_sense_header ?t six)) = 0"
    "unat (ms_block_descriptor_length (mode_sense_header ?t six)) = 0"
    using h assms(1) by (auto simp: mode_sense_header_def split: if_splits)
  moreover have "mode_sense_header (?t\<lparr>mem := k\<rparr>) six = mode_sense_header ?t six" for k
    by (simp add: mode_sense_header_def)
  moreover have "\<exists>t. mode_page_loop ok (?t\<lparr>mem := k\<rparr>) h [] = Some (t, [fst (mode_page_at ?t h)])" for k
  proof -
    obtain mp where mp: "mode_page_at ?t h = (mp, length data)"
      using assms(4) by (metis prod.collapse)
    with assms(1,2,6) h(1) page_end_fits [of "mp_body mp"] show ?thesis
      by (subst mode_page_loop.simps, subst mode_page_loop.simps)
         (simp add: Let_def mode_page_at_mem [of _ ?t] int_fits_def)
  qed
  then obtain t where "mode_page_loop ok (?t\<lparr>mem := Suc (mem task)\<rparr>) h [] =
      Some (t, [fst (mode_page_at ?t h)])" by blast
  moreover have "data \<noteq> []" using assms(5) by auto
  ultimately show ?thesis
    using assms(1,2,5) h(1)
    by (simp add: scsi_modesense_datain_unmarshall_def scsi_malloc_block_fits scsi_malloc_or_def Let_def
        split: if_splits)
qed


lemma marshall_body_page:
  assumes "body \<noteq> Zeroed"
  shows "\<exists>d. marshall_body (body_code body) body h = Some (Ptr d) \<and> length d = body_size body + h \<and>
    (\<forall>i < h. d ! i = 0) \<and>
    (h = 4 \<or> h = 8 \<longrightarrow>
      (\<forall>task a b. parsed_like body (task\<lparr>datain := d[h := a, Suc h := b]\<rparr>) (Suc (Suc h)) =
         readback_body body))"
proof -
  have n: "Suc (Suc 4) = 6" "Suc (Suc 8) = 10" by simp_all
  show ?thesis
    using assms
    by (cases body)
       (auto simp: marshall_body_def length_marshall marshall_zeros parse_header n readback_4 readback_8)
qed

lemma marshalled_page:
  assumes "mp_spf mp = 0" "mp_page_code mp = body_code (mp_body mp)" "mp_body mp \<noteq> Zeroed" "h = 4 \<or> h = 8"
  obtains d data where
    "marshall_body (mp_page_code mp) (mp_body mp) h = Some (Ptr d)" "marshall_page_header mp h d = data"
    "\<forall>i < h. data ! i = 0" "h < length data" "length data < 100"
    "\<And>task. mode_page_at (task\<lparr>datain := data\<rparr>) h =
      (\<lparr>mp_ps = (if mp_ps mp \<noteq> 0 then 0x80 else 0), mp_spf = 0,
      mp_page_code = mp_page_code mp, mp_subpage_code = 0,
      mp_len = of_nat (body_size (mp_body mp) - 2), mp_body = readback_body (mp_body mp)\<rparr>, length data)"
proof -
  let ?body = "mp_body mp"
  obtain d where d: "marshall_body (body_code ?body) ?body h = Some (Ptr d)"
    "length d = body_size ?body + h" "\<forall>i < h. d ! i = 0"
    and rb: "\<And>task a b. parsed_like ?body (task\<lparr>datain := d[h := a, Suc h := b]\<rparr>) (Suc (Suc h)) =
      readback_body ?body"
    using marshall_body_page [OF assms(3), of h] assms(4) by blast
  let ?b = "ucast (body_code ?body AND 0x3f) OR (if mp_ps mp \<noteq> 0 then 0x80 else 0) :: u8"
  define n where "n = body_size ?body - 2"
  let ?data = "d[h := ?b, Suc h := of_nat n]"
  have size: "body_size ?body = Suc (Suc n)" "n < 256"
    using assms(3) by (cases ?body; simp add: n_def)+
  have hdr: "marshall_page_header mp h d = ?data"
    using assms(1,2) d(2) size by (simp add: marshall_page_header_plain)
  have len: "unat (of_nat n :: u8) = n" by (rule unat_of_nat_u8 [OF size(2)])
  then have "(ucast (of_nat n :: u8) :: cint) = of_nat n"
    using size(2) by (simp add: word_unat_eq_iff byte_as_int unat_of_nat_small)
  then have page: "mode_page_at (task\<lparr>datain := ?data\<rparr>) h =
      (\<lparr>mp_ps = (if mp_ps mp \<noteq> 0 then 0x80 else 0), mp_spf = 0,
      mp_page_code = mp_page_code mp, mp_subpage_code = 0,
      mp_len = of_nat (body_size ?body - 2), mp_body = readback_body ?body\<rparr>, length ?data)" for task
  proof -
    have bytes: "task_get_uint8 (task\<lparr>datain := ?data\<rparr>) h = ?b"
      "task_get_uint8 (task\<lparr>datain := ?data\<rparr>) (Suc h) = of_nat n"
      using d(2) size by (simp_all add: task_get_uint8_def)
    show ?thesis using d(2) size(1) \<open>ucast (of_nat n) = of_nat n\<close>
      by (subst mode_page_at_plain [where body = ?body])
         (simp_all only: bytes header_byte [OF assms(3)] rb len assms(2,3), simp_all)
  qed
  show thesis
    by (rule that [OF _ hdr _ _ _ page]) (use d size(1) assms(2-4) in \<open>auto elim: body_size.elims\<close>)
qed

text \<open>
  What should be read back: every field reduced to the width that SPC and SBC give it, flags as
  0/1. \<open>without_misread\<close> takes out the four fields for which the decoder's masks are wrong;
  \<open>decodable\<close> are the pages in which the values of these four survive the masks.
\<close>

fun sized_body :: "mode_page_body \<Rightarrow> mode_page_body" where
  "sized_body (Caching p) = Caching (readback_caching p)"
| "sized_body (Control p) = Control
     \<lparr>co_tst = co_tst p AND 0x07, co_tmf_only = notnot (co_tmf_only p), co_dpicz = notnot (co_dpicz p),
      co_d_sense = notnot (co_d_sense p), co_gltsd = notnot (co_gltsd p), co_rlec = notnot (co_rlec p),
      co_queue_algorithm_modifier = co_queue_algorithm_modifier p AND 0x0f,
      co_nuar = notnot (co_nuar p), co_qerr = co_qerr p AND 0x03, co_vs = notnot (co_vs p),
      co_rac = notnot (co_rac p), co_ua_intlck_ctrl = co_ua_intlck_ctrl p AND 0x03,
      co_swp = notnot (co_swp p), co_ato = notnot (co_ato p), co_tas = notnot (co_tas p),
      co_atmpe = notnot (co_atmpe p), co_rwwp = notnot (co_rwwp p),
      co_autoload_mode = co_autoload_mode p AND 0x07,
      co_busy_timeout_period = co_busy_timeout_period p AND 0xffff,
      co_extended_selftest_completion_time = co_extended_selftest_completion_time p AND 0xffff\<rparr>"
| "sized_body (Disconnect_reconnect p) = Disconnect_reconnect
     \<lparr>dr_buffer_full_ratio = dr_buffer_full_ratio p AND 0xff,
      dr_buffer_empty_ratio = dr_buffer_empty_ratio p AND 0xff,
      dr_bus_inactivity_limit = dr_bus_inactivity_limit p AND 0xffff,
      dr_disconnect_time_limit = dr_disconnect_time_limit p AND 0xffff,
      dr_connect_time_limit = dr_connect_time_limit p AND 0xffff,
      dr_maximum_burst_size = dr_maximum_burst_size p AND 0xffff,
      dr_emdp = notnot (dr_emdp p), dr_fair_arbitration = dr_fair_arbitration p AND 0x07,
      dr_dimm = notnot (dr_dimm p), dr_dtdc = dr_dtdc p AND 0x07,
      dr_first_burst_size = dr_first_burst_size p AND 0xffff\<rparr>"
| "sized_body (Iec p) = Iec (readback_informational_exceptions_control p)"
| "sized_body (Power_condition p) = Power_condition (readback_power_condition p)"
| "sized_body Zeroed = Zeroed"

fun without_misread :: "mode_page_body \<Rightarrow> mode_page_body" where
  "without_misread (Control p) =
     Control (p\<lparr>co_nuar := 0, co_ua_intlck_ctrl := 0, co_autoload_mode := 0\<rparr>)"
| "without_misread (Disconnect_reconnect p) = Disconnect_reconnect (p\<lparr>dr_fair_arbitration := 0\<rparr>)"
| "without_misread body = body"

fun decodable :: "mode_page_body \<Rightarrow> bool" where
  "decodable (Control p) \<longleftrightarrow>
     co_nuar p = 0 \<and> co_vs p = 0 \<and> co_rac p = 0 \<and> co_autoload_mode p AND 0x07 \<in> {0, 1}"
| "decodable (Disconnect_reconnect p) \<longleftrightarrow> dr_emdp p = 0"
| "decodable body \<longleftrightarrow> True"

lemma ua_intlck_ctrl_misread:
  "(x AND 3) OR (if c then 8 else 0) OR (if d then 4 else 0) = (x :: cint) AND 3 \<longleftrightarrow> \<not> c \<and> \<not> d"
proof
  assume "(x AND 3) OR (if c then 8 else 0) OR (if d then 4 else 0) = x AND 3"
  then have "bit ((x AND 3) OR (if c then 8 else 0) OR (if d then 4 else 0)) n = bit (x AND 3) n" for n
    by simp
  from this [of 3] this [of 2] show "\<not> c \<and> \<not> d"
    by (simp add: bit_eval bit_if_cases)
qed simp

lemma fair_arbitration_misread:
  "(x AND 7) OR (if c then 8 else 0) = (x :: cint) AND 7 \<longleftrightarrow> \<not> c"
proof
  assume "(x AND 7) OR (if c then 8 else 0) = x AND 7"
  then have "bit ((x AND 7) OR (if c then 8 else 0)) 3 = bit (x AND 7) 3" by simp
  then show "\<not> c" by (simp add: bit_eval bit_if_cases)
qed simp

lemma nuar_misread: "(if x \<noteq> 0 then 8 else 0) = (notnot x :: cint) \<longleftrightarrow> x = 0" for x :: cint
  by (simp add: notnot_def)

lemma notnot_eq_iff: "notnot x = x \<longleftrightarrow> x = 0 \<or> x = 1" for x :: cint
  by (auto simp: notnot_def)

lemma readback_is_sized:
  "without_misread (readback_body body) = without_misread (sized_body body)"
  "readback_body body = sized_body body \<longleftrightarrow> decodable body"
  by (cases body; simp add: readback_control_def readback_disconnect_reconnect_def or.assoc
      ua_intlck_ctrl_misread fair_arbitration_misread nuar_misread notnot_eq_iff; blast)+


text \<open>
  The control page is not read back faithfully: the decoder's mask for UA_INTLCK_CTRL takes
  the two bits above it (VS and RAC) with it, so the field is right exactly when both are clear.
\<close>

theorem scsi_mode_control_ua_intlck_iff:
  "co_ua_intlck_ctrl (scsi_parse_mode_control
      (task\<lparr>datain := scsi_modesense_marshall_control p 4\<rparr>) 6) = co_ua_intlck_ctrl p AND 0x3 \<longleftrightarrow>
   co_vs p = 0 \<and> co_rac p = 0"
  unfolding readback_control_4 by (simp add: readback_control_def or.assoc ua_intlck_ctrl_misread)


end
