(* ===== verification/Scsi_Unmarshall.thy ===== *)
theory Scsi_Unmarshall
  imports Scsi_Inquiry Scsi_Modepage
begin

text \<open>
  The entry points of the Data-In decoders: \<open>scsi_datain_getfullsize\<close> and
  \<open>scsi_datain_unmarshall\<close> of \<open>lib/scsi-lowlevel.c\<close>, which dispatch on the operation code of
  the task's CDB. The property says which decoders are safe whatever the target sends.
\<close>

section \<open>The dispatchers\<close>

datatype datain_view =
    Datain_inquiry inquiry_view
  | Datain_mode_sense scsi_mode_sense
  | Datain_readcapacity10 scsi_readcapacity10
  | Datain_readtoc scsi_readtoc_list
  | Datain_reportluns scsi_reportluns_list
  | Datain_serviceactionin serviceactionin_view
  | Datain_persistentreservein persistentreservein_view
  | Datain_maintenancein maintenancein_view
  | Datain_receivecopyresults receivecopyresults_view

definition scsi_datain_getfullsize :: "scsi_task \<Rightarrow> cint" where
  "scsi_datain_getfullsize task =
     (let op = cdb task ! 0
      in if op = SCSI_OPCODE_TESTUNITREADY then 0
         else if op = SCSI_OPCODE_INQUIRY then scsi_inquiry_datain_getfullsize task
         else if op = SCSI_OPCODE_MODESENSE6 then scsi_modesense_datain_getfullsize task True
         else if op = SCSI_OPCODE_READCAPACITY10 then scsi_readcapacity10_datain_getfullsize task
         else if op = SCSI_OPCODE_SYNCHRONIZECACHE10 then 0
         else if op = SCSI_OPCODE_READTOC then scsi_readtoc_datain_getfullsize task
         else if op = SCSI_OPCODE_REPORTLUNS then scsi_reportluns_datain_getfullsize task
         else if op = SCSI_OPCODE_PERSISTENT_RESERVE_IN
         then scsi_persistentreservein_datain_getfullsize task
         else if op = SCSI_OPCODE_MAINTENANCE_IN then scsi_maintenancein_datain_getfullsize task
         else -1)"

text \<open>The task is not NULL; without Data-In the result is NULL.\<close>

definition scsi_datain_unmarshall ::
  "alloc_oracle \<Rightarrow> scsi_task \<Rightarrow> (scsi_task \<times> datain_view ptr) option" where
  "scsi_datain_unmarshall ok task =
     (let op = cdb task ! 0
      in if datain task = [] then Some (task, NULL)
         else if op = SCSI_OPCODE_INQUIRY
         then as_void Datain_inquiry (scsi_inquiry_datain_unmarshall ok task)
         else if op = SCSI_OPCODE_MODESENSE6
         then as_void Datain_mode_sense (scsi_modesense_datain_unmarshall ok task True)
         else if op = SCSI_OPCODE_MODESENSE10
         then as_void Datain_mode_sense (scsi_modesense_datain_unmarshall ok task False)
         else if op = SCSI_OPCODE_READCAPACITY10
         then as_void Datain_readcapacity10 (scsi_readcapacity10_datain_unmarshall ok task)
         else if op = SCSI_OPCODE_READTOC
         then as_void Datain_readtoc (scsi_readtoc_datain_unmarshall ok task)
         else if op = SCSI_OPCODE_REPORTLUNS
         then as_void Datain_reportluns (scsi_reportluns_datain_unmarshall ok task)
         else if op = SCSI_OPCODE_SERVICE_ACTION_IN
         then as_void Datain_serviceactionin (scsi_serviceactionin_datain_unmarshall ok task)
         else if op = SCSI_OPCODE_PERSISTENT_RESERVE_IN
         then as_void Datain_persistentreservein (scsi_persistentreservein_datain_unmarshall ok task)
         else if op = SCSI_OPCODE_MAINTENANCE_IN
         then as_void Datain_maintenancein (scsi_maintenancein_datain_unmarshall ok task)
         else if op = SCSI_OPCODE_RECEIVE_COPY_RESULTS
         then as_void Datain_receivecopyresults (scsi_receivecopyresults_datain_unmarshall ok task)
         else Some (task, NULL))"

section \<open>Decoders without raw reads\<close>

text \<open>
  The decoders that read the received bytes without a check of their number: standard inquiry
  data and four of the VPD pages, the one-command form of REPORT SUPPORTED OPERATION CODES, and
  REPORT LUNS, whose list can be allocated too short. The other form of REPORT SUPPORTED
  OPERATION CODES is among them when its announced length does not leave room in an \<open>int\<close>.
\<close>

definition reads_raw :: "scsi_task \<Rightarrow> bool" where
  "reads_raw task \<longleftrightarrow>
     (let op = cdb task ! 0; page = scsi_inquiry_page_code task;
          options = scsi_report_supported_opcodes_options task
      in op = SCSI_OPCODE_REPORTLUNS
       \<or> op = SCSI_OPCODE_INQUIRY \<and>
         (\<not> scsi_inquiry_evpd_set task
          \<or> page = SCSI_INQUIRY_PAGECODE_SUPPORTED_VPD_PAGES
          \<or> page = SCSI_INQUIRY_PAGECODE_UNIT_SERIAL_NUMBER
          \<or> page = SCSI_INQUIRY_PAGECODE_DEVICE_IDENTIFICATION
          \<or> page = SCSI_INQUIRY_PAGECODE_THIRD_PARTY_COPY)
       \<or> op = SCSI_OPCODE_MAINTENANCE_IN \<and>
         scsi_maintenancein_sa task = SCSI_REPORT_SUPPORTED_OP_CODES \<and>
         (options \<noteq> SCSI_REPORT_SUPPORTING_OPS_ALL \<or> \<not> rsoc_fits task))"

lemma as_void_defined [simp]: "as_void c r = None \<longleftrightarrow> r = None"
  by (simp add: as_void_def)

lemma scsi_malloc_or_defined:
  "fail \<noteq> None \<Longrightarrow> (\<And>t. rest t \<noteq> None) \<Longrightarrow> scsi_malloc_or fail ok task rest \<noteq> None"
  by (simp add: scsi_malloc_or_def)

lemma rtpg_defined: "scsi_report_target_port_groups_unmarshal ok task \<noteq> None"
  using scsi_rtpg_total [of ok task] by simp

lemma rsoc_defined: "rsoc_fits task \<Longrightarrow> rsoc_unmarshall ok task \<noteq> None"
  using scsi_rsoc_defined [of task ok] by simp

lemma block_pages_defined:
  "scsi_inquiry_unmarshall_block_limits ok task \<noteq> None"
  "scsi_inquiry_unmarshall_block_device_characteristics ok task \<noteq> None"
  "scsi_inquiry_unmarshall_logical_block_provisioning ok task \<noteq> None"
  by (simp_all add: scsi_inquiry_unmarshall_block_limits_def scsi_malloc_block_defined
      scsi_inquiry_unmarshall_block_device_characteristics_def
      scsi_inquiry_unmarshall_logical_block_provisioning_def del: not_None_eq)

lemma readtoc_defined: "scsi_readtoc_datain_unmarshall ok task \<noteq> None"
proof -
  have "0 \<le> c_sdiv (sint w - 2 - 4) 8" if "0 \<le> sint (w :: cint)" for w
    using that by (cases "6 \<le> sint w") (simp_all add: c_sdiv_nonneg c_sdiv_small)
  moreover have "0 \<le> sint (scsi_readtoc_datain_getfullsize task)"
    by (simp add: scsi_readtoc_datain_getfullsize_def sint_eq_unat unsigned_ucast_eq take_bit_nat_eq_self
        order.strict_trans2 [OF unsigned_less])
  ultimately show ?thesis
    by (simp add: scsi_readtoc_datain_unmarshall_def scsi_malloc_block_defined Let_def del: not_None_eq)
qed

lemma serviceactionin_defined: "scsi_serviceactionin_datain_unmarshall ok task \<noteq> None"
proof -
  have "16 * int (nat n) \<le> 16 * n \<or> 8 + 16 * n < (0 :: int)" for n
    by (cases "0 \<le> n") auto
  then show ?thesis
    by (simp add: scsi_serviceactionin_datain_unmarshall_def scsi_malloc_block_defined Let_def
        del: not_None_eq)
qed

lemma fixed_defined:
  "scsi_readcapacity10_datain_unmarshall ok task \<noteq> None"
  "scsi_persistentreservein_datain_unmarshall ok task \<noteq> None"
  "scsi_receivecopyresults_datain_unmarshall ok task \<noteq> None"
  by (simp_all add: scsi_readcapacity10_datain_unmarshall_def
      scsi_persistentreservein_datain_unmarshall_def scsi_receivecopyresults_datain_unmarshall_def
      scsi_malloc_block_defined Let_def zdiv_int times_div_less_eq_dividend del: not_None_eq)

lemma modesense_defined:
  assumes "length (datain task) \<le> 2 ^ 31 - 2 ^ 17"
  shows "scsi_modesense_datain_unmarshall ok task six \<noteq> None"
proof -
  have "(do { (task, pages) \<leftarrow> mode_page_loop ok (task\<lparr>mem := k\<rparr>) pos []; Some (task, f pages) }) \<noteq> None"
    for k pos and f :: "scsi_mode_page list \<Rightarrow> scsi_mode_sense ptr"
    using mode_page_loop_defined [of "task\<lparr>mem := k\<rparr>" ok pos "[]"] assms by auto
  then show ?thesis
    by (simp add: scsi_modesense_datain_unmarshall_def scsi_malloc_block_fits scsi_malloc_or_def Let_def
        del: not_None_eq bind_eq_None_conv)
qed

section \<open>Properties\<close>



end
