(* ===== verification/Slist.thy ===== *)
theory Slist
  imports Iscsi_Prelude
begin

text \<open>
  The singly linked lists of \<open>include/slist.h\<close>. Their nodes are structs with a \<open>next\<close> member;
  the model of the memory is the value of that member for every node. The macros are
  translated with their pointer walks: \<open>None\<close> is a NULL dereference or a walk that does not
  end (in a cyclic list).

  The locale \<open>slist_ops\<close> states what the users of the macros rely on. It is interpreted on
  the pointer lists, which proves the macros correct for every well-formed list, and on the
  lists of addresses that the theories of the protocol engine use for its queues.
\<close>

section \<open>The macros on the memory\<close>

type_synonym 'a nexts = "'a \<Rightarrow> 'a ptr"

definition ISCSI_LIST_ADD :: "'a \<Rightarrow> 'a ptr \<times> 'a nexts \<Rightarrow> 'a ptr \<times> 'a nexts" where
  "ISCSI_LIST_ADD item s = (Ptr item, (snd s)(item := fst s))"

text \<open>\<open>while ((*list)->next) (*list) = (*list)->next;\<close> from the node \<open>p\<close>.\<close>

partial_function (option) last_node :: "'a nexts \<Rightarrow> 'a \<Rightarrow> 'a option" where
  "last_node nx p = (case nx p of NULL \<Rightarrow> Some p | Ptr q \<Rightarrow> last_node nx q)"

definition ISCSI_LIST_ADD_END :: "'a \<Rightarrow> 'a ptr \<times> 'a nexts \<Rightarrow> ('a ptr \<times> 'a nexts) option" where
  "ISCSI_LIST_ADD_END item s =
     (case fst s of
        NULL \<Rightarrow> Some (ISCSI_LIST_ADD item s)
      | Ptr head \<Rightarrow> do {
          l \<leftarrow> last_node (snd s) head;
          Some (Ptr head, (snd s)(l := Ptr item, item := NULL))
        })"

text \<open>\<open>while ((*list)->next && (*list)->next != (item)) (*list) = (*list)->next;\<close>\<close>

partial_function (option) node_before :: "'a nexts \<Rightarrow> 'a \<Rightarrow> 'a \<Rightarrow> 'a option" where
  "node_before nx item p =
     (case nx p of NULL \<Rightarrow> Some p
      | Ptr q \<Rightarrow> if q = item then Some p else node_before nx item q)"

definition ISCSI_LIST_REMOVE :: "'a \<Rightarrow> 'a ptr \<times> 'a nexts \<Rightarrow> ('a ptr \<times> 'a nexts) option" where
  "ISCSI_LIST_REMOVE item s =
     (if fst s = Ptr item then Some (snd s item, snd s)
      else case fst s of
        NULL \<Rightarrow> None
      | Ptr head \<Rightarrow> do {
          p \<leftarrow> node_before (snd s) item head;
          Some (Ptr head, (case snd s p of NULL \<Rightarrow> snd s | Ptr q \<Rightarrow> (snd s)(p := snd s q)))
        })"

section \<open>Well-formed pointer lists\<close>

fun chain :: "'a nexts \<Rightarrow> 'a ptr \<Rightarrow> 'a list \<Rightarrow> bool" where
  "chain nx p [] \<longleftrightarrow> p = NULL"
| "chain nx p (x # xs) \<longleftrightarrow> p = Ptr x \<and> chain nx (nx x) xs"

lemma chain_NULL [simp]: "chain nx NULL xs \<longleftrightarrow> xs = []"
  by (cases xs) auto

lemma chain_Ptr: "chain nx (Ptr x) xs \<longleftrightarrow> (\<exists>ys. xs = x # ys \<and> chain nx (nx x) ys)"
  by (cases xs) auto

lemma chain_unique: "chain nx p xs \<Longrightarrow> chain nx p ys \<Longrightarrow> xs = ys"
  by (induction xs arbitrary: p ys) (auto simp: chain_Ptr)

lemma chain_append: "chain nx p (xs @ x # ys) \<Longrightarrow> chain nx (nx x) ys"
  by (induction xs arbitrary: p) auto

text \<open>A walk from the head to NULL visits no node twice.\<close>

lemma chain_distinct: "chain nx p xs \<Longrightarrow> distinct xs"
proof (induction xs arbitrary: p)
  case (Cons x xs)
  have "x \<notin> set xs"
  proof
    assume "x \<in> set xs"
    then obtain us vs where "xs = us @ x # vs" by (meson split_list)
    with Cons.prems have "chain nx (nx x) xs" "chain nx (nx x) vs"
      using chain_append [of nx "nx x" us x vs] by auto
    with \<open>xs = us @ x # vs\<close> show False using chain_unique [of nx "nx x" xs vs] by simp
  qed
  with Cons show ?case by auto
qed simp

lemma chain_frame: "x \<notin> set xs \<Longrightarrow> chain (nx(x := v)) p xs = chain nx p xs"
  by (induction xs arbitrary: p) auto

lemma chain_cong: "(\<And>y. y \<in> set xs \<Longrightarrow> nx y = nx' y) \<Longrightarrow> chain nx p xs = chain nx' p xs"
  by (induction xs arbitrary: p) auto

lemma last_node_chain: "chain nx (Ptr x) (xs @ [l]) \<Longrightarrow> last_node nx x = Some l"
proof (induction xs arbitrary: x)
  case Nil
  then show ?case by (subst last_node.simps) auto
next
  case (Cons y ys)
  then obtain z where "nx x = Ptr z" "chain nx (Ptr z) (ys @ [l])"
    by (cases ys) auto
  with Cons.IH show ?case by (subst last_node.simps) simp
qed

lemma chain_snoc:
  assumes "chain nx p (xs @ [l])" "x \<notin> set (xs @ [l])"
  shows "chain (nx(l := Ptr x, x := NULL)) p (xs @ [l, x])"
  using assms
proof (induction xs arbitrary: p)
  case (Cons y ys)
  then have "distinct ((y # ys) @ [l])" using chain_distinct by blast
  with Cons show ?case by auto
qed auto

lemma node_before_chain:
  assumes "chain nx (Ptr h) (h # xs)" "h \<noteq> x"
  shows "node_before nx x h = Some (last (h # takeWhile (\<lambda>y. y \<noteq> x) xs))"
  using assms
proof (induction xs arbitrary: h)
  case Nil
  then show ?case by (subst node_before.simps) simp
next
  case (Cons y ys)
  then have "nx h = Ptr y" "chain nx (Ptr y) (y # ys)" by auto
  with Cons show ?case by (subst node_before.simps) auto
qed

lemma takeWhile_before: "x \<notin> set us \<Longrightarrow> takeWhile (\<lambda>y. y \<noteq> x) (us @ x # vs) = us"
  by (induction us) auto

lemma chain_skip:
  assumes "chain nx p (us @ [u, x] @ vs)"
  shows "chain (nx(u := nx x)) p (us @ u # vs)"
  using assms
proof (induction us arbitrary: p)
  case Nil
  then have "distinct ([u, x] @ vs)" using chain_distinct by fastforce
  with Nil show ?case
    using chain_frame [of u vs nx "nx x" "nx x"] by (auto simp: fun_upd_def)
next
  case (Cons w ws)
  then have "distinct ((w # ws) @ [u, x] @ vs)" using chain_distinct by blast
  with Cons show ?case by auto
qed

section \<open>What the macros do\<close>

lemma list_add_chain:
  assumes "chain nx p xs" "x \<notin> set xs"
  shows "\<exists>p' nx'. ISCSI_LIST_ADD x (p, nx) = (p', nx') \<and> chain nx' p' (x # xs) \<and>
    (\<forall>y. y \<noteq> x \<longrightarrow> nx' y = nx y)"
  using assms by (simp add: ISCSI_LIST_ADD_def chain_frame)

lemma list_add_end_chain:
  assumes "chain nx p xs" "x \<notin> set xs"
  shows "\<exists>p' nx'. ISCSI_LIST_ADD_END x (p, nx) = Some (p', nx') \<and> chain nx' p' (xs @ [x]) \<and>
    (\<forall>y. y \<notin> insert x (set xs) \<longrightarrow> nx' y = nx y)"
proof (cases xs rule: rev_cases)
  case Nil
  with assms show ?thesis by (simp add: ISCSI_LIST_ADD_END_def ISCSI_LIST_ADD_def)
next
  case (snoc us l)
  with assms obtain h where p: "p = Ptr h" by (cases us) auto
  then have "last_node nx h = Some l" using assms snoc last_node_chain by metis
  with p assms snoc show ?thesis
    using chain_snoc [of nx p us l x] by (auto simp: ISCSI_LIST_ADD_END_def)
qed

lemma list_remove_chain:
  assumes "chain nx p xs" "xs \<noteq> []"
  shows "\<exists>p' nx'. ISCSI_LIST_REMOVE x (p, nx) = Some (p', nx') \<and> chain nx' p' (remove1 x xs) \<and>
    (\<forall>y. y \<notin> set xs \<longrightarrow> nx' y = nx y)"
proof -
  obtain h ys where xs: "xs = h # ys" "p = Ptr h" "chain nx (nx h) ys"
    using assms by (cases xs) auto
  show ?thesis
  proof (cases "h = x")
    case True
    with xs show ?thesis by (simp add: ISCSI_LIST_REMOVE_def)
  next
    case hx: False
    let ?us = "takeWhile (\<lambda>y. y \<noteq> x) ys"
    let ?l = "last (h # ?us)"
    have before: "node_before nx x h = Some ?l"
      using node_before_chain [of nx h ys x] xs hx by simp
    show ?thesis
    proof (cases "x \<in> set ys")
      case False
      then have us: "?us = ys" by (auto simp: takeWhile_eq_all_conv)
      have "h # ys = butlast (h # ys) @ [?l]" unfolding us by simp
      then have "chain nx (nx ?l) []"
        using chain_append [of nx p "butlast (h # ys)" ?l "[]"] assms(1) xs(1) by simp
      with False hx xs before assms(1) show ?thesis
        by (auto simp: ISCSI_LIST_REMOVE_def remove1_idem)
    next
      case True
      then obtain us0 vs where split: "ys = us0 @ x # vs" "x \<notin> set us0"
        by (meson split_list_first)
      then have "?us = us0" by (simp add: takeWhile_before)
      with split have ys: "ys = ?us @ x # vs" by simp
      obtain us l where l: "h # ?us = us @ [l]"
        by (cases "h # ?us" rule: rev_cases) auto
      then have last: "?l = l" by (metis last_snoc)
      have "h # ys = (h # ?us) @ x # vs" using ys by (metis append_Cons)
      then have xs': "xs = us @ [l, x] @ vs" using xs(1) l by simp
      have "x \<notin> set (h # ?us)" using hx by (auto dest: set_takeWhileD)
      then have rm: "remove1 x xs = us @ l # vs" unfolding xs' l by (simp add: remove1_append)
      have c: "chain (nx(l := nx x)) p (us @ l # vs)"
        using chain_skip assms(1) unfolding xs' by fast
      have "nx l = Ptr x"
        using chain_append [of nx p us l "x # vs"] assms(1) unfolding xs' by simp
      with c rm have "ISCSI_LIST_REMOVE x (p, nx) = Some (p, nx(l := nx x))" "l \<in> set xs"
        using hx xs(2) before last xs' by (simp_all add: ISCSI_LIST_REMOVE_def)
      with c rm show ?thesis by auto
    qed
  qed
qed

section \<open>The interface\<close>

text \<open>
  What the queues of the protocol engine rely on: an insertion at either end, and a removal
  by address, which is undefined on the empty list (\<open>(*list)->next\<close> with \<open>*list == NULL\<close>) and
  leaves a list alone that does not hold the node.
\<close>

locale slist_ops =
  fixes rep :: "'s \<Rightarrow> 'a list \<Rightarrow> bool"
    and add :: "'a \<Rightarrow> 's \<Rightarrow> 's option"
    and add_end :: "'a \<Rightarrow> 's \<Rightarrow> 's option"
    and remove :: "'a \<Rightarrow> 's \<Rightarrow> 's option"
  assumes rep_distinct: "rep s xs \<Longrightarrow> distinct xs"
    and add: "rep s xs \<Longrightarrow> x \<notin> set xs \<Longrightarrow> \<exists>t. add x s = Some t \<and> rep t (x # xs)"
    and add_end: "rep s xs \<Longrightarrow> x \<notin> set xs \<Longrightarrow> \<exists>t. add_end x s = Some t \<and> rep t (xs @ [x])"
    and remove: "rep s xs \<Longrightarrow> xs \<noteq> [] \<Longrightarrow> \<exists>t. remove x s = Some t \<and> rep t (remove1 x xs)"
    and remove_empty: "rep s [] \<Longrightarrow> remove x s = None"
begin

lemma remove_defined_iff:
  assumes "rep s xs"
  shows "remove x s \<noteq> None \<longleftrightarrow> xs \<noteq> []"
  using assms remove [OF assms, of x] remove_empty [of s x] by fastforce

text \<open>Elements queued at the end are taken from the front in the order of their arrival.\<close>

lemma fifo:
  assumes "rep s (x # xs)" "y \<notin> set (x # xs)"
  shows "\<exists>t u. add_end y s = Some t \<and> remove x t = Some u \<and> rep u (xs @ [y])"
proof -
  obtain t where t: "add_end y s = Some t" "rep t ((x # xs) @ [y])"
    using add_end [OF assms] by auto
  then obtain u where "remove x t = Some u" "rep u (remove1 x ((x # xs) @ [y]))"
    using remove [of t "(x # xs) @ [y]" x] by blast
  with t show ?thesis by auto
qed

text \<open>Adding a node that is not in the list and removing it again changes nothing.\<close>

lemma remove_added:
  assumes "rep s xs" "x \<notin> set xs"
  shows "\<exists>t u. add_end x s = Some t \<and> remove x t = Some u \<and> rep u xs"
    and "\<exists>t u. add x s = Some t \<and> remove x t = Some u \<and> rep u xs"
proof -
  obtain t where t: "add_end x s = Some t" "rep t (xs @ [x])"
    using add_end [OF assms] by auto
  then obtain u where "remove x t = Some u" "rep u (remove1 x (xs @ [x]))"
    using remove [of t "xs @ [x]" x] by blast
  with t assms(2) show "\<exists>t u. add_end x s = Some t \<and> remove x t = Some u \<and> rep u xs"
    by (auto simp: remove1_append)
  obtain t where t: "add x s = Some t" "rep t (x # xs)"
    using add [OF assms] by auto
  then obtain u where "remove x t = Some u" "rep u (remove1 x (x # xs))"
    using remove [of t "x # xs" x] by blast
  with t show "\<exists>t u. add x s = Some t \<and> remove x t = Some u \<and> rep u xs"
    by auto
qed

end

text \<open>The pointer lists of the macros.\<close>

interpretation pointer_list: slist_ops
  "\<lambda>s xs. chain (snd s) (fst s) xs" "\<lambda>x s. Some (ISCSI_LIST_ADD x s)" ISCSI_LIST_ADD_END ISCSI_LIST_REMOVE
proof (unfold_locales, goal_cases)
  case (1 s xs)
  then show ?case by (rule chain_distinct)
next
  case (2 s xs x)
  then show ?case by (simp add: ISCSI_LIST_ADD_def chain_frame)
next
  case (3 s xs x)
  then show ?case using list_add_end_chain [of "snd s" "fst s" xs x] by auto
next
  case (4 s xs x)
  then show ?case using list_remove_chain [of "snd s" "fst s" xs x] by auto
next
  case (5 s x)
  then show ?case by (simp add: ISCSI_LIST_REMOVE_def)
qed

text \<open>
  The queues of the protocol engine: the addresses of their nodes in order. The operations are
  the macros on that abstraction.
\<close>

definition list_remove :: "'a \<Rightarrow> 'a list \<Rightarrow> 'a list option" where
  "list_remove x q = (if q = [] then None else Some (remove1 x q))"

definition list_add_end :: "'a \<Rightarrow> 'a list \<Rightarrow> 'a list" where
  "list_add_end x q = q @ [x]"

interpretation address_list: slist_ops
  "\<lambda>q xs. q = xs \<and> distinct xs" "\<lambda>x q. Some (x # q)" "\<lambda>x q. Some (list_add_end x q)" list_remove
  by unfold_locales (auto simp: list_remove_def list_add_end_def)

lemma list_remove_Some [simp]: "q \<noteq> [] \<Longrightarrow> list_remove x q = Some (remove1 x q)"
  by (simp add: list_remove_def)

lemma list_remove_Nil [simp]: "list_remove x [] = None"
  by (simp add: list_remove_def)

section \<open>Properties\<close>

text \<open>
  C34: \<open>ISCSI_LIST_REMOVE\<close> from one queue followed by \<open>ISCSI_LIST_ADD_END\<close> to another, the way a PDU
  goes from the outqueue to the wait queue, moves exactly this node: both lists stay well
  formed, the first loses the node, the second has it as its last, all other orders are kept
  and no third list is touched.
\<close>

theorem slist_move:
  assumes "chain nx p xs" "chain nx q ys" "set xs \<inter> set ys = {}" "x \<in> set xs"
  shows "\<exists>p' nx1 q' nx2. ISCSI_LIST_REMOVE x (p, nx) = Some (p', nx1) \<and>
    ISCSI_LIST_ADD_END x (q, nx1) = Some (q', nx2) \<and>
    chain nx2 p' (remove1 x xs) \<and> chain nx2 q' (ys @ [x]) \<and>
    (\<forall>r zs. chain nx r zs \<and> set zs \<inter> (set xs \<union> set ys) = {} \<longrightarrow> chain nx2 r zs)"
proof -
  have "distinct xs" using assms(1) by (rule chain_distinct)
  have ne: "xs \<noteq> []" using assms(4) by auto
  obtain p' nx1 where 1: "ISCSI_LIST_REMOVE x (p, nx) = Some (p', nx1)" "chain nx1 p' (remove1 x xs)"
      "\<And>y. y \<notin> set xs \<Longrightarrow> nx1 y = nx y"
    using list_remove_chain [OF assms(1) ne, of x] by blast
  have "chain nx1 q ys"
    by (rule chain_cong [THEN iffD1, OF _ assms(2)]) (use 1(3) assms(3) in force)
  then obtain q' nx2 where 2: "ISCSI_LIST_ADD_END x (q, nx1) = Some (q', nx2)" "chain nx2 q' (ys @ [x])"
      "\<And>y. y \<notin> insert x (set ys) \<Longrightarrow> nx2 y = nx1 y"
    using list_add_end_chain [of nx1 q ys x] assms(3,4) by blast
  have "chain nx2 p' (remove1 x xs)"
    by (rule chain_cong [THEN iffD1, OF _ 1(2)])
      (use 2(3) assms(3) \<open>distinct xs\<close> in \<open>force simp: set_remove1_eq\<close>)
  moreover have "chain nx2 r zs" if "chain nx r zs" "set zs \<inter> (set xs \<union> set ys) = {}" for r zs
    by (rule chain_cong [THEN iffD1, OF _ that(1)]) (use 1(3) 2(3) assms(4) that(2) in force)
  ultimately show ?thesis using 1(1) 2(1,2) by blast
qed

theorem slist_move_witness:
  "\<exists>p' nx1 q' nx2. ISCSI_LIST_REMOVE (2 :: nat) (Ptr 1, (\<lambda>_. NULL)(1 := Ptr 2, 2 := Ptr 3)) = Some (p', nx1) \<and>
    ISCSI_LIST_ADD_END 2 (Ptr 7, nx1) = Some (q', nx2) \<and>
    chain nx2 p' [1, 3] \<and> chain nx2 q' [7, 2]"
  using slist_move [of "(\<lambda>_. NULL)(1 := Ptr 2, 2 := Ptr (3 :: nat))" "Ptr 1" "[1, 2, 3]" "Ptr 7" "[7]" 2]
  by auto

text \<open>
  \<open>ISCSI_LIST_REMOVE\<close> has a defined result on a well-formed list exactly when the list is not
  empty: on an empty list it dereferences NULL, whatever node is asked for.
\<close>

theorem slist_remove_defined_iff:
  assumes "chain nx p xs"
  shows "ISCSI_LIST_REMOVE x (p, nx) \<noteq> None \<longleftrightarrow> p \<noteq> NULL"
  using pointer_list.remove_defined_iff [of "(p, nx)" xs x] assms by (cases xs) auto

theorem slist_remove_defined_iff_witness:
  "ISCSI_LIST_REMOVE (7 :: nat) (NULL, \<lambda>_. NULL) = None"
  using slist_remove_defined_iff [of "\<lambda>_. NULL" NULL "[]" 7] by (simp del: not_None_eq)

end
