(* ===== verification/Iscsi_Context.thy ===== *)
theory Iscsi_Context
  imports Slist Scsi_Task Crc32c
begin

text \<open>
  The state of the protocol engine: \<open>struct iscsi_context\<close>, \<open>struct iscsi_pdu\<close> and
  \<open>struct iscsi_in_pdu\<close> of \<open>include/iscsi-private.h\<close>, with the members the modelled operations
  use.

  A PDU is an object of the heap: the context holds the live ones by address (\<open>ctx_pdus\<close>), the
  queues are lists of addresses (the abstraction of \<open>Slist\<close>) and \<open>outqueue_current\<close> may be the
  address of a PDU that is on the wait queue as well. Reading or writing a PDU that was freed is
  undefined. The tasks belong to the application, which keeps them alive while a PDU refers to
  them. A callback of the application is an event of the trace with the status it is given;
  what it does with it is a later step. \<open>ctx_memory\<close> are the application's buffers, \<open>ctx_wire\<close> and
  \<open>ctx_received\<close> the bytes the socket has taken and given so far.

  Locks are left out: an operation between \<open>iscsi_mt_spin_lock\<close> and the unlock is one step.
\<close>

section \<open>Data\<close>

text \<open>\<open>data_bytes\<close> is the allocated block, which may be longer than \<open>data_size\<close> by its padding.\<close>

record iscsi_data =
  data_bytes :: bytes
  data_size :: nat

datatype iscsi_command_cb =
    Scsi_response_cb
  | Reconnect_after_logout_cb
  | App_cb nat

record iscsi_pdu =
  pdu_flags :: u32
  pdu_lun :: u32
  pdu_itt :: u32
  pdu_cmdsn :: u32
  pdu_datasn :: u32
  pdu_response_opcode :: u8
  pdu_callback :: "iscsi_command_cb ptr"
  pdu_outdata :: iscsi_data
  pdu_outdata_written :: nat
  pdu_payload_offset :: u32
  pdu_payload_len :: u32
  pdu_payload_written :: u32
  pdu_indata :: iscsi_data
  pdu_cbdata_callback :: "nat ptr"
  pdu_cbdata_task :: "nat ptr"
  pdu_scsi_timeout :: int
  pdu_expxferlen :: u32
  pdu_calculated_data_digest :: u32
  pdu_outdata_digest_computed :: bool

record iscsi_in_pdu =
  in_hdr_pos :: nat
  in_hdr :: bytes
  in_data_pos :: nat
  in_data :: bytes
  in_data_digest_buf :: bytes
  in_received_data_digest_bytes :: nat
  in_calculated_data_digest :: u32

text \<open>
  A completed command: the callback of the application and the status it is given, with the data of
  a NOP, the response of a task management request or the targets of a discovery (their names and
  portals).
\<close>

datatype iscsi_event =
    Callback nat cint
  | Callback_data nat cint bytes
  | Callback_response nat cint u32
  | Callback_targets nat cint "(bytes \<times> bytes list) list"

text \<open>
  The members for names, login, authentication and reconnecting. C strings are the bytes before
  their NUL. \<open>lg_random\<close> counts the calls of \<open>rand\<close>.
\<close>

record iscsi_login =
  lg_transport :: cint
  lg_initiator_name :: bytes
  lg_target_name :: bytes
  lg_target_address :: bytes
  lg_target_name2 :: bytes
  lg_portal :: bytes
  lg_alias :: bytes
  lg_unit_serial_number :: bytes
  lg_chap_auth :: cint
  lg_user :: bytes
  lg_passwd :: bytes
  lg_chap_c :: bytes
  lg_target_user :: bytes
  lg_target_passwd :: bytes
  lg_target_chap_i :: cint
  lg_target_chap_r :: bytes
  lg_want_header_digest :: cint
  lg_want_data_digest :: cint
  lg_want_initial_r2t :: cint
  lg_want_immediate_data :: cint
  lg_current_phase :: cint
  lg_next_phase :: cint
  lg_secneg_phase :: cint
  lg_login_attempts :: cint
  lg_chap_a :: cint
  lg_chap_i :: cint
  lg_lun :: cint
  lg_no_auto_reconnect :: bool
  lg_reconnect_deferred :: bool
  lg_reconnect_max_retries :: cint
  lg_retry_cnt :: cint
  lg_no_ua_on_reconnect :: bool
  lg_random :: nat

text \<open>
  Connecting: whom to tell in the end (the application or \<open>iscsi_reconnect_cb\<close>), the progress of a full connect
  (\<open>lib/connect.c\<close>), and what \<open>socket_status_cb\<close> is called for, with its private data (\<open>connect_data\<close>);
  \<open>Cleared_cb\<close> is a callback whose \<open>connect_data\<close> has been set to NULL.
\<close>

datatype connect_cb = App_connect_cb nat | Iscsi_reconnect_cb

record connect_task =
  ct_cb :: connect_cb
  ct_lun :: cint
  ct_num_uas :: cint

datatype status_cb = App_status_cb nat | Iscsi_connect_cb connect_task | Cleared_cb

record iscsi_conn =
  cn_socket_status_cb :: "status_cb ptr"
  cn_connected_portal :: bytes
  cn_bind_interfaces :: bytes
  cn_bind_interfaces_cnt :: cint
  cn_tcp_user_timeout :: cint
  cn_tcp_keepcnt :: cint
  cn_tcp_keepintvl :: cint
  cn_tcp_keepidle :: cint
  cn_tcp_syncnt :: cint
  cn_log_level :: cint
  cn_cache_allocations :: cint
  cn_poll_timeout :: cint

record iscsi_context =
  ctx_isid :: bytes
  ctx_session_type :: cint
  ctx_itt :: u32
  ctx_cmdsn :: u32
  ctx_min_cmdsn_waiting :: u32
  ctx_expcmdsn :: u32
  ctx_maxcmdsn :: u32
  ctx_statsn :: u32
  ctx_header_digest :: cint
  ctx_data_digest :: cint
  ctx_fd :: int
  ctx_is_connected :: bool
  ctx_is_corked :: bool
  ctx_is_loggedin :: bool
  ctx_nops_in_flight :: cint
  ctx_outqueue :: "nat list"
  ctx_outqueue_current :: "nat ptr"
  ctx_waitpdu :: "nat list"
  ctx_max_burst_length :: u32
  ctx_first_burst_length :: u32
  ctx_initiator_max_recv_data_segment_length :: u32
  ctx_target_max_recv_data_segment_length :: u32
  ctx_use_initial_r2t :: cint
  ctx_use_immediate_data :: cint
  ctx_pending_reconnect :: bool
  ctx_has_old_iscsi :: bool
  ctx_next_reconnect :: int
  ctx_scsi_timeout :: int
  ctx_pdus :: "nat \<rightharpoonup> iscsi_pdu"
  ctx_tasks :: "nat \<Rightarrow> scsi_task"
  ctx_trace :: "iscsi_event list"
  ctx_tcp_nonblocking :: bool
  ctx_incoming :: "iscsi_in_pdu ptr"
  ctx_memory :: "nat \<Rightarrow> u8"
  ctx_wire :: bytes
  ctx_received :: bytes
  ctx_login :: iscsi_login
  ctx_conn :: iscsi_conn

definition zero_data :: iscsi_data where
  "zero_data = \<lparr>data_bytes = [], data_size = 0\<rparr>"

text \<open>\<open>iscsi_zmalloc(iscsi, sizeof(struct iscsi_pdu))\<close>\<close>

definition zero_pdu :: iscsi_pdu where
  "zero_pdu = \<lparr>pdu_flags = 0, pdu_lun = 0, pdu_itt = 0, pdu_cmdsn = 0, pdu_datasn = 0,
     pdu_response_opcode = 0, pdu_callback = NULL, pdu_outdata = zero_data,
     pdu_outdata_written = 0, pdu_payload_offset = 0, pdu_payload_len = 0,
     pdu_payload_written = 0, pdu_indata = zero_data, pdu_cbdata_callback = NULL,
     pdu_cbdata_task = NULL, pdu_scsi_timeout = 0, pdu_expxferlen = 0,
     pdu_calculated_data_digest = 0, pdu_outdata_digest_computed = False\<rparr>"

definition zero_login :: iscsi_login where
  "zero_login = \<lparr>lg_transport = 0, lg_initiator_name = [], lg_target_name = [], lg_target_address = [],
     lg_target_name2 = [], lg_portal = [], lg_alias = [], lg_unit_serial_number = [], lg_chap_auth = 0,
     lg_user = [], lg_passwd = [], lg_chap_c = [], lg_target_user = [], lg_target_passwd = [],
     lg_target_chap_i = 0, lg_target_chap_r = replicate 32 0, lg_want_header_digest = 0,
     lg_want_data_digest = 0, lg_want_initial_r2t = 0, lg_want_immediate_data = 0, lg_current_phase = 0,
     lg_next_phase = 0, lg_secneg_phase = 0, lg_login_attempts = 0, lg_chap_a = 0, lg_chap_i = 0, lg_lun = 0,
     lg_no_auto_reconnect = False, lg_reconnect_deferred = False, lg_reconnect_max_retries = 0,
     lg_retry_cnt = 0, lg_no_ua_on_reconnect = False, lg_random = 0\<rparr>"

definition zero_conn :: iscsi_conn where
  "zero_conn = \<lparr>cn_socket_status_cb = NULL, cn_connected_portal = [], cn_bind_interfaces = [],
     cn_bind_interfaces_cnt = 0, cn_tcp_user_timeout = 0, cn_tcp_keepcnt = 0, cn_tcp_keepintvl = 0,
     cn_tcp_keepidle = 0, cn_tcp_syncnt = 0, cn_log_level = 0, cn_cache_allocations = 0, cn_poll_timeout = 0\<rparr>"

text \<open>\<open>memset(iscsi, 0, sizeof(struct iscsi_context))\<close>, before a session sets it up.\<close>

definition zero_context :: iscsi_context where
  "zero_context = \<lparr>ctx_isid = replicate 6 0, ctx_session_type = 0, ctx_itt = 0, ctx_cmdsn = 0,
     ctx_min_cmdsn_waiting = 0, ctx_expcmdsn = 0, ctx_maxcmdsn = 0, ctx_statsn = 0,
     ctx_header_digest = 0, ctx_data_digest = 0, ctx_fd = 0, ctx_is_connected = False,
     ctx_is_corked = False, ctx_is_loggedin = False, ctx_nops_in_flight = 0, ctx_outqueue = [],
     ctx_outqueue_current = NULL, ctx_waitpdu = [], ctx_max_burst_length = 0,
     ctx_first_burst_length = 0, ctx_initiator_max_recv_data_segment_length = 0,
     ctx_target_max_recv_data_segment_length = 0, ctx_use_initial_r2t = 0,
     ctx_use_immediate_data = 0, ctx_pending_reconnect = False, ctx_has_old_iscsi = False,
     ctx_next_reconnect = 0, ctx_scsi_timeout = 0, ctx_pdus = Map.empty,
     ctx_tasks = (\<lambda>_. zero_task), ctx_trace = [],
     ctx_tcp_nonblocking = False, ctx_incoming = NULL, ctx_memory = (\<lambda>_. 0), ctx_wire = [],
     ctx_received = [], ctx_login = zero_login, ctx_conn = zero_conn\<rparr>"

section \<open>The environment\<close>

text \<open>
  The results of \<open>send\<close>/\<open>writev\<close> and \<open>recv\<close>/\<open>readv\<close>: how many of the bytes were taken, or which bytes
  came (none when the peer has closed the connection); \<open>Blocked\<close> is an error after which the code
  tries again later (\<open>EAGAIN\<close> and \<open>EWOULDBLOCK\<close> when sending, \<open>EAGAIN\<close> and \<open>EINTR\<close> when receiving),
  \<open>Failed\<close> any other one.
\<close>

datatype send_result = Sent nat | Send_blocked | Send_failed

datatype recv_result = Received bytes | Recv_blocked | Recv_failed

text \<open>
  What the operations ask of their surroundings: the address of a new PDU (\<open>malloc\<close>, NULL when
  memory is exhausted), whether another allocation succeeds, the clock, the transport's
  \<open>service\<close> function, a pointer in \<open>iscsi->drv\<close>, the socket, for a number of bytes to be sent
  or received, whether a variable is set in the process environment, and the results of the calls
  of \<open>rand\<close>.
\<close>

record iscsi_env =
  env_new_pdu :: "iscsi_context \<Rightarrow> nat ptr"
  env_malloc :: "iscsi_context \<Rightarrow> bool"
  env_time :: "iscsi_context \<Rightarrow> int"
  env_service :: "iscsi_context \<Rightarrow> iscsi_context option"
  env_send :: "iscsi_context \<Rightarrow> nat \<Rightarrow> send_result"
  env_recv :: "iscsi_context \<Rightarrow> nat \<Rightarrow> recv_result"
  env_getenv :: "string \<Rightarrow> bool"
  env_rand :: "nat \<Rightarrow> u32"

text \<open>
  Documented behaviour: \<open>malloc\<close> returns the address of no live object, and a socket takes and
  gives no more bytes than it was asked for.
\<close>

definition env_ok :: "iscsi_env \<Rightarrow> bool" where
  "env_ok env \<longleftrightarrow> (\<forall>c i. env_new_pdu env c = Ptr i \<longrightarrow> ctx_pdus c i = None) \<and>
     (\<forall>c n m. env_send env c n = Sent m \<longrightarrow> m \<le> n) \<and>
     (\<forall>c n bs. env_recv env c n = Received bs \<longrightarrow> length bs \<le> n)"

section \<open>Access to PDUs\<close>

definition pdu_store :: "nat \<Rightarrow> iscsi_pdu \<Rightarrow> iscsi_context \<Rightarrow> iscsi_context" where
  "pdu_store i p iscsi = iscsi\<lparr>ctx_pdus := (ctx_pdus iscsi)(i \<mapsto> p)\<rparr>"

definition pdu_modify :: "nat \<Rightarrow> (iscsi_pdu \<Rightarrow> iscsi_pdu) \<Rightarrow> iscsi_context \<Rightarrow> iscsi_context option" where
  "pdu_modify i f iscsi = do {
     p \<leftarrow> ctx_pdus iscsi i;
     Some (pdu_store i (f p) iscsi)
   }"

definition task_modify :: "nat \<Rightarrow> (scsi_task \<Rightarrow> scsi_task) \<Rightarrow> iscsi_context \<Rightarrow> iscsi_context" where
  "task_modify t f iscsi = iscsi\<lparr>ctx_tasks := (ctx_tasks iscsi)(t := f (ctx_tasks iscsi t))\<rparr>"

definition ISCSI_HEADER_SIZE :: "cint \<Rightarrow> nat" where
  "ISCSI_HEADER_SIZE hdr_digest =
     ISCSI_RAW_HEADER_SIZE + (if hdr_digest = ISCSI_HEADER_DIGEST_NONE then 0 else ISCSI_DIGEST_SIZE)"

text \<open>The first byte of the header: the opcode and the immediate bit.\<close>

definition pdu_byte0 :: "iscsi_pdu \<Rightarrow> u8" where
  "pdu_byte0 p = data_bytes (pdu_outdata p) ! 0"

definition is_immediate :: "iscsi_pdu \<Rightarrow> bool" where
  "is_immediate p \<longleftrightarrow> pdu_byte0 p AND ISCSI_PDU_IMMEDIATE \<noteq> 0"

definition is_data_out :: "iscsi_pdu \<Rightarrow> bool" where
  "is_data_out p \<longleftrightarrow> pdu_byte0 p AND 0x3f = ISCSI_PDU_DATA_OUT"

text \<open>
  A context kept from before a reconnect shares with the new one what belongs to neither: the tasks, the
  memory of the application, the calls of callbacks and \<open>rand()\<close>.
\<close>

definition share_world :: "iscsi_context \<Rightarrow> iscsi_context \<Rightarrow> iscsi_context" where
  "share_world c to = to\<lparr>ctx_tasks := ctx_tasks c, ctx_memory := ctx_memory c, ctx_trace := ctx_trace c,
     ctx_login := (ctx_login to)\<lparr>lg_random := lg_random (ctx_login c)\<rparr>\<rparr>"

text \<open>A loop over the nodes of a queue; every operation with an undefined step is undefined.\<close>

fun mfold :: "('a \<Rightarrow> 's \<Rightarrow> 's option) \<Rightarrow> 'a list \<Rightarrow> 's \<Rightarrow> 's option" where
  "mfold f [] s = Some s"
| "mfold f (x # xs) s = do { s \<leftarrow> f x s; mfold f xs s }"

lemma mfold_append: "mfold f (xs @ ys) s = do { s \<leftarrow> mfold f xs s; mfold f ys s }"
  by (induction xs arbitrary: s) (auto split: bind_split)

section \<open>Freeing and calling back\<close>

text \<open>
  \<open>iscsi_tcp_free_pdu\<close>: freeing the PDU that is being written also gives up writing it.
\<close>

definition iscsi_tcp_free_pdu :: "nat \<Rightarrow> iscsi_context \<Rightarrow> iscsi_context option" where
  "iscsi_tcp_free_pdu i iscsi = do {
     p \<leftarrow> ctx_pdus iscsi i;
     let iscsi = (if ctx_outqueue_current iscsi = Ptr i
                  then iscsi\<lparr>ctx_outqueue_current := NULL\<rparr> else iscsi);
     Some (iscsi\<lparr>ctx_pdus := (ctx_pdus iscsi)(i := None)\<rparr>)
   }"

text \<open>
  \<open>iscsi_scsi_response_cb\<close> stores the status in the task (of \<open>scsi_cbdata\<close>) and passes it on;
  every status it does not know becomes \<open>SCSI_STATUS_ERROR\<close>.
\<close>

definition known_status :: "cint \<Rightarrow> bool" where
  "known_status s \<longleftrightarrow> s \<in> {SCSI_STATUS_RESERVATION_CONFLICT, SCSI_STATUS_CHECK_CONDITION,
     SCSI_STATUS_GOOD, SCSI_STATUS_BUSY, SCSI_STATUS_CONDITION_MET, SCSI_STATUS_TASK_SET_FULL,
     SCSI_STATUS_ACA_ACTIVE, SCSI_STATUS_TASK_ABORTED, SCSI_STATUS_ERROR, SCSI_STATUS_CANCELLED,
     SCSI_STATUS_TIMEOUT}"

definition iscsi_scsi_response_cb :: "cint \<Rightarrow> iscsi_pdu \<Rightarrow> iscsi_context \<Rightarrow> iscsi_context option" where
  "iscsi_scsi_response_cb st p iscsi =
     (let st = (if known_status st then st else SCSI_STATUS_ERROR)
      in case pdu_cbdata_task p of
           NULL \<Rightarrow> None
         | Ptr t \<Rightarrow>
             let iscsi = task_modify t (\<lambda>task. task\<lparr>status := st\<rparr>) iscsi
             in Some (case pdu_cbdata_callback p of
                  NULL \<Rightarrow> iscsi
                | Ptr cb \<Rightarrow> iscsi\<lparr>ctx_trace := ctx_trace iscsi @ [Callback cb st]\<rparr>))"

text \<open>\<open>if (pdu->callback) pdu->callback(iscsi, status, .., pdu->private_data);\<close>\<close>

definition pdu_callback_call :: "cint \<Rightarrow> nat \<Rightarrow> iscsi_context \<Rightarrow> iscsi_context option" where
  "pdu_callback_call st i iscsi = do {
     p \<leftarrow> ctx_pdus iscsi i;
     case pdu_callback p of
       NULL \<Rightarrow> Some iscsi
     | Ptr Scsi_response_cb \<Rightarrow> iscsi_scsi_response_cb st p iscsi
     | Ptr Reconnect_after_logout_cb \<Rightarrow> Some (iscsi\<lparr>ctx_pending_reconnect := True\<rparr>)
     | Ptr (App_cb cb) \<Rightarrow> Some (iscsi\<lparr>ctx_trace := ctx_trace iscsi @ [Callback cb st]\<rparr>)
   }"

section \<open>The queues are well formed\<close>

text \<open>
  A PDU whose members the operations may use: its header is allocated, and the SCSI callback is
  only installed together with a task.
\<close>

definition pdu_ok :: "iscsi_pdu \<Rightarrow> bool" where
  "pdu_ok p \<longleftrightarrow> ISCSI_RAW_HEADER_SIZE \<le> length (data_bytes (pdu_outdata p)) \<and>
     (pdu_callback p = Ptr Scsi_response_cb \<longrightarrow> pdu_cbdata_task p \<noteq> NULL)"

text \<open>
  Every queued PDU is live and on one queue, once; the one that is being written is live and not
  on the outqueue any more.
\<close>

definition queues_ok :: "iscsi_context \<Rightarrow> bool" where
  "queues_ok c \<longleftrightarrow>
     distinct (ctx_outqueue c @ ctx_waitpdu c) \<and>
     (\<forall>i \<in> set (ctx_outqueue c @ ctx_waitpdu c). ctx_pdus c i \<noteq> None) \<and>
     (\<forall>i. ctx_outqueue_current c = Ptr i \<longrightarrow> ctx_pdus c i \<noteq> None \<and> i \<notin> set (ctx_outqueue c)) \<and>
     (\<forall>i p. ctx_pdus c i = Some p \<longrightarrow> pdu_ok p)"

end
