(* ===== verification/Iscsi_Pdu.thy ===== *)
theory Iscsi_Pdu
  imports Iscsi_Context
begin

text \<open>
  \<open>lib/pdu.c\<close>: serial number arithmetic, allocation of PDUs and their headers, the data of a
  PDU, and the operations that take PDUs off the queues without a reply (timeout, cancellation
  of everything, of a LUN and, from \<open>lib/iscsi-command.c\<close>, of a task). What is left out are the
  names of opcodes and reasons, which only go to the log. The handling of received PDUs is in
  \<open>Iscsi_Receive\<close>.
\<close>

section \<open>Serial numbers and task tags\<close>

definition iscsi_serial32_compare :: "u32 \<Rightarrow> u32 \<Rightarrow> int" where
  "iscsi_serial32_compare s1 s2 =
     (if s1 = s2 then 0
      else if s1 < s2 \<and> s2 - s1 < push_bit 31 1 then -1
      else if s2 < s1 \<and> s1 - s2 < push_bit 31 1 then 1
      else if s2 < s1 \<and> push_bit 31 1 < s1 - s2 then -1
      else if s1 < s2 \<and> push_bit 31 1 < s2 - s1 then 1
      else -1)"

definition iscsi_itt_post_increment :: "iscsi_context \<Rightarrow> u32 \<times> iscsi_context" where
  "iscsi_itt_post_increment iscsi =
     (let old_itt = ctx_itt iscsi; itt = old_itt + 1
      in (old_itt, iscsi\<lparr>ctx_itt := (if itt = 0xffffffff then 0 else itt)\<rparr>))"

section \<open>Header fields\<close>

definition hdr_modify :: "(bytes \<Rightarrow> bytes) \<Rightarrow> iscsi_pdu \<Rightarrow> iscsi_pdu" where
  "hdr_modify f p =
     p\<lparr>pdu_outdata := (pdu_outdata p)\<lparr>data_bytes := f (data_bytes (pdu_outdata p))\<rparr>\<rparr>"

definition iscsi_pdu_set_itt :: "u32 \<Rightarrow> iscsi_pdu \<Rightarrow> iscsi_pdu" where
  "iscsi_pdu_set_itt itt = hdr_modify (scsi_set_uint32 16 itt)"

definition iscsi_pdu_set_ritt :: "u32 \<Rightarrow> iscsi_pdu \<Rightarrow> iscsi_pdu" where
  "iscsi_pdu_set_ritt ritt = hdr_modify (scsi_set_uint32 20 ritt)"

definition iscsi_pdu_set_pduflags :: "u8 \<Rightarrow> iscsi_pdu \<Rightarrow> iscsi_pdu" where
  "iscsi_pdu_set_pduflags flags = hdr_modify (\<lambda>h. h[1 := flags])"

definition iscsi_pdu_set_immediate :: "iscsi_pdu \<Rightarrow> iscsi_pdu" where
  "iscsi_pdu_set_immediate = hdr_modify (\<lambda>h. h[0 := (h ! 0) OR ISCSI_PDU_IMMEDIATE])"

definition iscsi_pdu_set_ttt :: "u32 \<Rightarrow> iscsi_pdu \<Rightarrow> iscsi_pdu" where
  "iscsi_pdu_set_ttt ttt = hdr_modify (scsi_set_uint32 20 ttt)"

definition iscsi_pdu_set_rcmdsn :: "u32 \<Rightarrow> iscsi_pdu \<Rightarrow> iscsi_pdu" where
  "iscsi_pdu_set_rcmdsn rcmdsn = hdr_modify (scsi_set_uint32 32 rcmdsn)"

definition iscsi_pdu_set_datasn :: "u32 \<Rightarrow> iscsi_pdu \<Rightarrow> iscsi_pdu" where
  "iscsi_pdu_set_datasn datasn = hdr_modify (scsi_set_uint32 36 datasn)"

definition iscsi_pdu_set_expstatsn :: "u32 \<Rightarrow> iscsi_pdu \<Rightarrow> iscsi_pdu" where
  "iscsi_pdu_set_expstatsn expstatsnsn = hdr_modify (scsi_set_uint32 28 expstatsnsn)"

definition iscsi_pdu_set_bufferoffset :: "u32 \<Rightarrow> iscsi_pdu \<Rightarrow> iscsi_pdu" where
  "iscsi_pdu_set_bufferoffset bufferoffset = hdr_modify (scsi_set_uint32 40 bufferoffset)"

definition iscsi_pdu_set_lun :: "u32 \<Rightarrow> iscsi_pdu \<Rightarrow> iscsi_pdu" where
  "iscsi_pdu_set_lun lun = hdr_modify (scsi_set_uint16 8 (ucast lun))"

definition iscsi_pdu_set_expxferlen :: "u32 \<Rightarrow> iscsi_pdu \<Rightarrow> iscsi_pdu" where
  "iscsi_pdu_set_expxferlen len p =
     hdr_modify (scsi_set_uint32 20 len) (p\<lparr>pdu_expxferlen := len\<rparr>)"

text \<open>The \<open>memcpy\<close> of \<open>cdb_size\<close> bytes is undefined outside the 16 bytes of the CDB.\<close>

definition iscsi_pdu_set_cdb :: "scsi_task \<Rightarrow> iscsi_pdu \<Rightarrow> iscsi_pdu option" where
  "iscsi_pdu_set_cdb task p =
     (if sint (cdb_size task) < 0 \<or> SCSI_CDB_MAX_SIZE < sint (cdb_size task) then None
      else Some (hdr_modify (\<lambda>h. blit 32 (take (unat (cdb_size task)) (cdb task))
                                 (blit 32 (replicate 16 0) h)) p))"

text \<open>\<open>iscsi_pdu_set_cmdsn\<close> also remembers the numbers in the task, for task management.\<close>

definition iscsi_pdu_set_cmdsn :: "nat \<Rightarrow> u32 \<Rightarrow> iscsi_context \<Rightarrow> iscsi_context option" where
  "iscsi_pdu_set_cmdsn i cmdsn iscsi = do {
     p \<leftarrow> ctx_pdus iscsi i;
     let p = (hdr_modify (scsi_set_uint32 24 cmdsn) p)\<lparr>pdu_cmdsn := cmdsn\<rparr>;
     let iscsi = pdu_store i p iscsi;
     Some (case pdu_cbdata_task p of
        NULL \<Rightarrow> iscsi
      | Ptr t \<Rightarrow> task_modify t (\<lambda>task. task\<lparr>task_cmdsn := cmdsn, task_itt := pdu_itt p\<rparr>) iscsi)
   }"

section \<open>Allocation\<close>

text \<open>
  \<open>iscsi_allocate_pdu\<close> with \<open>iscsi_tcp_new_pdu\<close> and \<open>iscsi_tcp_free_pdu\<close> as the functions of the
  transport. The ISID is copied for a login request only.
\<close>

definition iscsi_allocate_pdu ::
  "iscsi_env \<Rightarrow> u8 \<Rightarrow> u8 \<Rightarrow> u32 \<Rightarrow> u32 \<Rightarrow> iscsi_context \<Rightarrow> (nat ptr \<times> iscsi_context) option" where
  "iscsi_allocate_pdu env opcode response_opcode itt flags iscsi =
     (case env_new_pdu env iscsi of
        NULL \<Rightarrow> Some (NULL, iscsi)
      | Ptr i \<Rightarrow>
          let iscsi = pdu_store i zero_pdu iscsi;
              hdr_size = ISCSI_HEADER_SIZE (ctx_header_digest iscsi)
          in if \<not> env_malloc env iscsi
             then do {
               iscsi \<leftarrow> iscsi_tcp_free_pdu i iscsi;
               Some (NULL, iscsi)
             }
             else
               let h = (replicate hdr_size 0)[0 := opcode];
                   h = (if opcode = ISCSI_PDU_LOGIN_REQUEST
                        then blit 8 (take 6 (ctx_isid iscsi)) h else h);
                   p = zero_pdu\<lparr>pdu_outdata := \<lparr>data_bytes = h, data_size = hdr_size\<rparr>,
                                pdu_response_opcode := response_opcode\<rparr>;
                   p = (iscsi_pdu_set_itt itt p)\<lparr>pdu_itt := itt, pdu_flags := flags,
                          pdu_calculated_data_digest := crc32c_init\<rparr>
               in Some (Ptr i, pdu_store i p iscsi))"

section \<open>The data of a PDU\<close>

text \<open>
  \<open>(aligned+3)&0xfffffffc\<close> on a 64 bit \<open>size_t\<close>: the constant clears the upper half as well. An
  allocation smaller than what is then copied into it, and a negative \<open>dsize\<close> (a huge
  \<open>memcpy\<close>), are undefined.
\<close>

definition pdu_aligned :: "nat \<Rightarrow> nat" where
  "pdu_aligned len = unat ((of_nat len + 3 :: u64) AND 0xfffffffc)"

definition iscsi_add_data :: "bool \<Rightarrow> iscsi_data \<Rightarrow> bytes \<Rightarrow> int \<Rightarrow> bool \<Rightarrow> (int \<times> iscsi_data) option" where
  "iscsi_add_data alloc_ok data dptr dsize pdualignment =
     (if dsize = 0 then Some (-1, data)
      else if dsize < 0 then None
      else
        let len = data_size data + nat dsize;
            aligned = (if pdualignment then pdu_aligned len else len)
        in if \<not> alloc_ok then Some (-1, data\<lparr>data_bytes := []\<rparr>)
           else if aligned < len \<or> length dptr < nat dsize \<or> length (data_bytes data) < data_size data
           then None
           else Some (0, \<lparr>data_bytes = take (data_size data) (data_bytes data) @ take (nat dsize) dptr
                                        @ replicate (aligned - len) 0,
                          data_size = len\<rparr>))"

definition iscsi_pdu_add_data ::
  "bool \<Rightarrow> nat \<Rightarrow> bytes \<Rightarrow> int \<Rightarrow> iscsi_context \<Rightarrow> (int \<times> iscsi_context) option" where
  "iscsi_pdu_add_data alloc_ok i dptr dsize iscsi = do {
     p \<leftarrow> ctx_pdus iscsi i;
     if dsize = 0 then Some (-1, iscsi)
     else do {
       (r, od) \<leftarrow> iscsi_add_data alloc_ok (pdu_outdata p) dptr dsize True;
       let p = p\<lparr>pdu_outdata := od\<rparr>;
       if r \<noteq> 0 then Some (-1, pdu_store i p iscsi)
       else
         let sz = of_nat (data_size od) - of_nat (ISCSI_HEADER_SIZE (ctx_header_digest iscsi))
         in Some (0, pdu_store i (hdr_modify (scsi_set_uint32 4 sz) p) iscsi)
     }
   }"

definition iscsi_get_pdu_data_size :: "bytes \<Rightarrow> cint" where
  "iscsi_get_pdu_data_size hdr = scsi_get_uint32 hdr 4 AND 0x00ffffff"

definition iscsi_get_pdu_padding_size :: "bytes \<Rightarrow> cint" where
  "iscsi_get_pdu_padding_size hdr =
     (let data_size = scsi_get_uint32 hdr 4 AND 0x00ffffff;
          padded_size = (data_size + 3) AND 0xfffffffc
      in padded_size - data_size)"

section \<open>Taking PDUs off the queues\<close>

text \<open>A queue is walked to its end or to the first PDU that satisfies the condition.\<close>

fun find_pdu :: "(iscsi_pdu \<Rightarrow> bool) \<Rightarrow> nat list \<Rightarrow> iscsi_context \<Rightarrow> nat ptr option" where
  "find_pdu P [] iscsi = Some NULL"
| "find_pdu P (i # is) iscsi = do {
     p \<leftarrow> ctx_pdus iscsi i;
     if P p then Some (Ptr i) else find_pdu P is iscsi
   }"

definition iscsi_pdu_data_out_inprocess :: "nat \<Rightarrow> iscsi_context \<Rightarrow> bool option" where
  "iscsi_pdu_data_out_inprocess i iscsi = do {
     p \<leftarrow> ctx_pdus iscsi i;
     let opcode = data_bytes (pdu_outdata p) ! 32;
     if pdu_byte0 p AND 0x3f \<noteq> ISCSI_PDU_SCSI_REQUEST then Some False
     else if opcode \<notin> {SCSI_OPCODE_WRITE10, SCSI_OPCODE_WRITE12, SCSI_OPCODE_WRITE16} then Some False
     else do {
       current \<leftarrow> (case ctx_outqueue_current iscsi of
                      NULL \<Rightarrow> Some False
                    | Ptr k \<Rightarrow> do { q \<leftarrow> ctx_pdus iscsi k; Some (pdu_cbdata_task q = pdu_cbdata_task p) });
       if current then Some True
       else do {
         child \<leftarrow> find_pdu (\<lambda>q. pdu_cbdata_task q = pdu_cbdata_task p) (ctx_outqueue iscsi) iscsi;
         Some (child \<noteq> NULL)
       }
     }
   }"

text \<open>A PDU that carries a CmdSN of its own: neither immediate nor a DATA-OUT.\<close>

definition is_cmd :: "iscsi_pdu \<Rightarrow> bool" where
  "is_cmd p \<longleftrightarrow> \<not> is_immediate p \<and> \<not> is_data_out p"

text \<open>
  The first walk of \<open>iscsi_timeout_scan\<close> and \<open>iscsi_cancel_lun_pdus\<close> over the outqueue: PDUs
  behind a removed command get their CmdSN reduced by the gap. The walk saves \<open>pdu->next\<close>
  before the PDU may be removed, so it visits the PDUs of the queue as it was found. Its state
  is the context, the local list \<open>tmp\<close> and \<open>cmdsn_gap\<close>.
\<close>

definition close_gap :: "u32 \<Rightarrow> nat \<Rightarrow> iscsi_context \<Rightarrow> iscsi_context option" where
  "close_gap cmdsn_gap i iscsi =
     (if 0 < cmdsn_gap then do {
        p \<leftarrow> ctx_pdus iscsi i;
        iscsi_pdu_set_cmdsn i (pdu_cmdsn p - cmdsn_gap) iscsi
      } else Some iscsi)"

type_synonym walk = "iscsi_context \<times> nat list \<times> u32"

definition move_outqueue :: "nat \<Rightarrow> iscsi_context \<times> nat list \<Rightarrow> (iscsi_context \<times> nat list) option" where
  "move_outqueue i s = do {
     q \<leftarrow> list_remove i (ctx_outqueue (fst s));
     Some ((fst s)\<lparr>ctx_outqueue := q\<rparr>, list_add_end i (snd s))
   }"

definition move_waitpdu :: "nat \<Rightarrow> iscsi_context \<times> nat list \<Rightarrow> (iscsi_context \<times> nat list) option" where
  "move_waitpdu i s = do {
     q \<leftarrow> list_remove i (ctx_waitpdu (fst s));
     Some ((fst s)\<lparr>ctx_waitpdu := q\<rparr>, list_add_end i (snd s))
   }"

definition expired :: "int \<Rightarrow> iscsi_pdu \<Rightarrow> bool" where
  "expired t p \<longleftrightarrow> pdu_scsi_timeout p \<noteq> 0 \<and> pdu_scsi_timeout p \<le> t"

definition timeout_outqueue_step :: "int \<Rightarrow> nat \<Rightarrow> walk \<Rightarrow> walk option" where
  "timeout_outqueue_step t i = (\<lambda>(iscsi, tmp, cmdsn_gap). do {
     iscsi \<leftarrow> close_gap cmdsn_gap i iscsi;
     p \<leftarrow> ctx_pdus iscsi i;
     if \<not> expired t p then Some (iscsi, tmp, cmdsn_gap)
     else if is_cmd p then do {
       (iscsi, tmp) \<leftarrow> move_outqueue i (iscsi\<lparr>ctx_cmdsn := ctx_cmdsn iscsi - 1\<rparr>, tmp);
       Some (iscsi, tmp, cmdsn_gap + 1)
     }
     else Some (iscsi, tmp, cmdsn_gap)
   })"

definition timeout_waitpdu_step :: "int \<Rightarrow> nat \<Rightarrow> iscsi_context \<times> nat list \<Rightarrow> (iscsi_context \<times> nat list) option" where
  "timeout_waitpdu_step t i = (\<lambda>(iscsi, tmp). do {
     p \<leftarrow> ctx_pdus iscsi i;
     if \<not> expired t p then Some (iscsi, tmp)
     else do {
       busy \<leftarrow> iscsi_pdu_data_out_inprocess i iscsi;
       if busy then Some (iscsi, tmp) else move_waitpdu i (iscsi, tmp)
     }
   })"

text \<open>
  \<open>for (pdu = tmp; pdu; pdu = next_pdu) { REMOVE(&tmp, pdu); ..callback..; free }\<close>. The loop
  does not assign \<open>next_pdu\<close>, which is NULL since the walk before it has ended, so its body runs
  for the first PDU of \<open>tmp\<close> only.
\<close>

definition complete_first :: "cint \<Rightarrow> nat list \<Rightarrow> iscsi_context \<Rightarrow> iscsi_context option" where
  "complete_first st tmp iscsi =
     (case tmp of
        [] \<Rightarrow> Some iscsi
      | i # _ \<Rightarrow> do {
          iscsi \<leftarrow> pdu_callback_call st i iscsi;
          iscsi_tcp_free_pdu i iscsi
        })"

definition iscsi_timeout_scan :: "int \<Rightarrow> iscsi_context \<Rightarrow> iscsi_context option" where
  "iscsi_timeout_scan t iscsi = do {
     (iscsi, tmp, _) \<leftarrow> mfold (timeout_outqueue_step t) (ctx_outqueue iscsi) (iscsi, [], 0);
     iscsi \<leftarrow> complete_first SCSI_STATUS_TIMEOUT tmp iscsi;
     (iscsi, tmp) \<leftarrow> mfold (timeout_waitpdu_step t) (ctx_waitpdu iscsi) (iscsi, []);
     complete_first SCSI_STATUS_TIMEOUT tmp iscsi
   }"

text \<open>
  \<open>iscsi_cancel_pdus\<close>: \<open>while ((pdu = iscsi->outqueue))\<close> takes the PDUs from the front, in the order
  of the queue.
\<close>

definition cancel_outqueue_step :: "nat \<Rightarrow> iscsi_context \<Rightarrow> iscsi_context option" where
  "cancel_outqueue_step i iscsi = do {
     q \<leftarrow> list_remove i (ctx_outqueue iscsi);
     iscsi \<leftarrow> pdu_callback_call SCSI_STATUS_CANCELLED i (iscsi\<lparr>ctx_outqueue := q\<rparr>);
     p \<leftarrow> ctx_pdus iscsi i;
     let iscsi = (if is_cmd p then iscsi\<lparr>ctx_cmdsn := ctx_cmdsn iscsi - 1\<rparr> else iscsi);
     iscsi_tcp_free_pdu i iscsi
   }"

definition cancel_waitpdu_step :: "nat \<Rightarrow> iscsi_context \<Rightarrow> iscsi_context option" where
  "cancel_waitpdu_step i iscsi = do {
     iscsi \<leftarrow> pdu_callback_call SCSI_STATUS_CANCELLED i iscsi;
     iscsi_tcp_free_pdu i iscsi
   }"

definition iscsi_cancel_pdus :: "iscsi_context \<Rightarrow> iscsi_context option" where
  "iscsi_cancel_pdus iscsi = do {
     iscsi \<leftarrow> mfold cancel_outqueue_step (ctx_outqueue iscsi) iscsi;
     let tmp = ctx_waitpdu iscsi;
     mfold cancel_waitpdu_step tmp (iscsi\<lparr>ctx_waitpdu := []\<rparr>)
   }"

definition cancel_lun_step :: "u32 \<Rightarrow> nat \<Rightarrow> walk \<Rightarrow> walk option" where
  "cancel_lun_step lun i = (\<lambda>(iscsi, tmp, cmdsn_gap). do {
     iscsi \<leftarrow> close_gap cmdsn_gap i iscsi;
     p \<leftarrow> ctx_pdus iscsi i;
     if (case pdu_cbdata_task p of NULL \<Rightarrow> True | Ptr t \<Rightarrow> task_lun (ctx_tasks iscsi t) \<noteq> lun)
     then Some (iscsi, tmp, cmdsn_gap)
     else do {
       let (iscsi, cmdsn_gap) = (if is_cmd p
            then (iscsi\<lparr>ctx_cmdsn := ctx_cmdsn iscsi - 1\<rparr>, cmdsn_gap + 1) else (iscsi, cmdsn_gap));
       (iscsi, tmp) \<leftarrow> move_outqueue i (iscsi, tmp);
       Some (iscsi, tmp, cmdsn_gap)
     }
   })"

definition iscsi_cancel_lun_pdus :: "u32 \<Rightarrow> iscsi_context \<Rightarrow> iscsi_context option" where
  "iscsi_cancel_lun_pdus lun iscsi = do {
     (iscsi, tmp, _) \<leftarrow> mfold (cancel_lun_step lun) (ctx_outqueue iscsi) (iscsi, [], 0);
     complete_first SCSI_STATUS_CANCELLED tmp iscsi
   }"

text \<open>
  \<open>iscsi_scsi_cancel_task\<close>, without the recursion into the context of a reconnect. A PDU on the
  wait queue is cancelled first. In the loop that completes \<open>tmp\<close> the variable \<open>next_pdu\<close> is NULL, as
  above; the gap in the CmdSNs is counted there, after the walk that would have closed it.
\<close>

definition cancel_task_step :: "u32 \<Rightarrow> nat \<Rightarrow> iscsi_context \<times> nat list \<Rightarrow> (iscsi_context \<times> nat list) option" where
  "cancel_task_step itt i = (\<lambda>(iscsi, tmp). do {
     p \<leftarrow> ctx_pdus iscsi i;
     if pdu_itt p = itt then move_outqueue i (iscsi, tmp) else Some (iscsi, tmp)
   })"

definition iscsi_scsi_cancel_task :: "nat \<Rightarrow> iscsi_context \<Rightarrow> (int \<times> iscsi_context) option" where
  "iscsi_scsi_cancel_task t iscsi = do {
     let itt = task_itt (ctx_tasks iscsi t);
     w \<leftarrow> find_pdu (\<lambda>p. pdu_itt p = itt) (ctx_waitpdu iscsi) iscsi;
     case w of
       Ptr i \<Rightarrow> do {
         q \<leftarrow> list_remove i (ctx_waitpdu iscsi);
         iscsi \<leftarrow> pdu_callback_call SCSI_STATUS_CANCELLED i (iscsi\<lparr>ctx_waitpdu := q\<rparr>);
         iscsi \<leftarrow> iscsi_tcp_free_pdu i iscsi;
         Some (0, iscsi)
       }
     | NULL \<Rightarrow> do {
         (iscsi, tmp) \<leftarrow> mfold (cancel_task_step itt) (ctx_outqueue iscsi) (iscsi, []);
         case tmp of
           [] \<Rightarrow> Some (-1, iscsi)
         | i # _ \<Rightarrow> do {
             iscsi \<leftarrow> pdu_callback_call SCSI_STATUS_CANCELLED i iscsi;
             p \<leftarrow> ctx_pdus iscsi i;
             let iscsi = (if is_cmd p then iscsi\<lparr>ctx_cmdsn := ctx_cmdsn iscsi - 1\<rparr> else iscsi);
             iscsi \<leftarrow> iscsi_tcp_free_pdu i iscsi;
             Some (0, iscsi)
           }
       }
   }"

definition iscsi_scsi_is_task_in_outqueue :: "nat \<Rightarrow> iscsi_context \<Rightarrow> bool option" where
  "iscsi_scsi_is_task_in_outqueue t iscsi = do {
     r \<leftarrow> find_pdu (\<lambda>p. pdu_itt p = task_itt (ctx_tasks iscsi t)) (ctx_outqueue iscsi) iscsi;
     Some (r \<noteq> NULL)
   }"

section \<open>Comparing serial numbers\<close>

lemma sint_u32_cases: "sint (w :: u32) = (if uint w < 2 ^ 31 then uint w else uint w - 2 ^ 32)"
proof -
  have r: "0 \<le> uint w" "uint w < 2 ^ 32" using unsigned_greater_eq [of w] unsigned_less [of w] by auto
  have "uint w div 2147483648 = 1" if "\<not> uint w < 2147483648" using r that by simp
  then have "bit (uint w) 31 \<longleftrightarrow> \<not> uint w < 2 ^ 31"
    by (cases "uint w < 2147483648") (simp_all add: bit_iff_odd)
  moreover have "sint w = signed_take_bit (LENGTH(32) - 1) (uint w)"
    by (simp only: sint_uint One_nat_def)
  moreover have "take_bit 32 (uint w) = uint w" using r by (simp add: take_bit_int_eq_self)
  ultimately show ?thesis
    by (simp add: signed_take_bit_eq_take_bit_minus del: sint_uint)
qed

lemma compare_ints:
  fixes x y :: int
  assumes "0 \<le> x" "x < 4294967296" "0 \<le> y" "y < 4294967296"
  defines "d a b \<equiv> if b \<le> a then a - b else a - b + 4294967296"
  shows "(if x = y then 0 else if x < y \<and> d y x < 2147483648 then -1
      else if y < x \<and> d x y < 2147483648 then 1 else if y < x \<and> 2147483648 < d x y then -1
      else if x < y \<and> 2147483648 < d y x then 1 else (-1)) =
    sgn (if d x y < 2147483648 then d x y else d x y - 4294967296)"
  using assms(1-4) unfolding d_def
  by (cases x y rule: linorder_cases) (auto simp: sgn_if)

lemma serial32_compare_sgn:
  "iscsi_serial32_compare s1 s2 = sgn (sint (s1 - s2))"
proof -
  have b: "0 \<le> uint s1" "uint s1 < 4294967296" "0 \<le> uint s2" "uint s2 < 4294967296"
    using unsigned_less [of s1] unsigned_less [of s2] by auto
  have c: "uint (push_bit 31 1 :: u32) = 2147483648" by simp
  have d: "uint (y - x) = (if uint x \<le> uint y then uint y - uint x else uint y - uint x + 4294967296)"
    for x y :: u32 by (simp add: uint_sub_if')
  show ?thesis
    unfolding iscsi_serial32_compare_def sint_u32_cases word_less_def c word_uint_eq_iff d
    using compare_ints [OF b] by (simp only: power_numeral) simp
qed

text \<open>Within a window of half the number space the comparison is that of the offsets.\<close>

lemma serial32_compare_window:
  assumes "k < 2 ^ 31" "l < 2 ^ 31"
  shows "iscsi_serial32_compare (b + of_nat k) (b + of_nat l) = sgn (int k - int l)"
proof -
  have "of_nat k - of_nat l = (of_int (int k - int l) :: u32)" by simp
  moreover have "sint (of_int x :: u32) = signed_take_bit 31 x" for x :: int
    by (simp add: signed_of_int)
  moreover have "signed_take_bit 31 (int k - int l) = int k - int l"
    using assms by (intro signed_take_bit_int_eq_self) auto
  ultimately have "sint (of_nat k - of_nat l :: u32) = int k - int l" by (simp only:)
  then show ?thesis by (simp add: serial32_compare_sgn)
qed

section \<open>Alignment\<close>

lemma align_mask:
  fixes w :: "'a::len word"
  shows "w AND push_bit 2 (mask 30) = push_bit 2 (take_bit 30 (drop_bit 2 w))"
  by (rule bit_word_eqI) (auto simp: bit_simps simp flip: add_2_eq_Suc)

lemma align_value:
  assumes "n < 2 ^ 32" "n < 2 ^ LENGTH('a)"
  shows "unat ((of_nat n :: 'a::len word) AND push_bit 2 (mask 30)) = n div 4 * 4"
proof -
  have n': "take_bit LENGTH('a) n = n" using assms(2) by (simp add: take_bit_nat_eq_self)
  have "n div 4 < 2 ^ 30" using assms(1) by simp
  then have t: "take_bit 30 (n div 4) = n div 4" by (simp add: take_bit_nat_eq_self)
  have "n div 4 * 4 < 2 ^ LENGTH('a)" using assms(2) by (meson div_times_less_eq_dividend order.strict_trans1)
  then have "take_bit LENGTH('a) (push_bit 2 (n div 4)) = n div 4 * 4"
    by (simp add: push_bit_eq_mult take_bit_nat_eq_self)
  moreover have "drop_bit 2 n = n div 4" by (simp add: drop_bit_eq_div)
  ultimately show ?thesis
    by (simp add: align_mask unsigned_push_bit_eq unsigned_take_bit_eq unsigned_drop_bit_eq
          unsigned_of_nat t n')
qed

lemma align_constant: "(0xfffffffc :: 'a::len word) = push_bit 2 (mask 30)"
  by (simp add: mask_eq_exp_minus_1 push_bit_eq_mult)

lemma pdu_aligned_value:
  assumes "len + 3 < 2 ^ 32"
  shows "pdu_aligned len = (len + 3) div 4 * 4"
proof -
  have "(of_nat len + 3 :: u64) = of_nat (len + 3)" by simp
  then show ?thesis
    using align_value [of "len + 3", where 'a = 64] assms unfolding pdu_aligned_def align_constant by simp
qed

text \<open>The length field of a header that holds \<open>n\<close> bytes of data, and the padding it implies.\<close>

lemma data_segment_length:
  assumes "p = 4" "8 \<le> length h" "n < 2 ^ 24"
  defines "h' \<equiv> scsi_set_uint32 p (of_nat n) h"
  shows "iscsi_get_pdu_data_size h' = of_nat n"
    "unat (iscsi_get_pdu_padding_size h') = (n + 3) div 4 * 4 - n"
proof -
  have g: "scsi_get_uint32 h' 4 = of_nat n"
    using assms(1,2) by (simp add: h'_def get_put_uint32)
  have "(of_nat n :: u32) AND mask 24 = take_bit 24 (of_nat n)" by (simp only: take_bit_eq_mask)
  also have "\<dots> = of_nat n" using assms(3) by (simp add: take_bit_of_nat take_bit_nat_eq_self)
  finally have m: "(of_nat n :: u32) AND 0xffffff = of_nat n" by (simp add: mask_eq_exp_minus_1)
  show "iscsi_get_pdu_data_size h' = of_nat n" by (simp add: iscsi_get_pdu_data_size_def g m)
  have u: "unat (of_nat k :: u32) = k" if "k < 2 ^ 25" for k
    using that by (intro unat_of_nat_small) simp
  have "unat ((of_nat n + 3 :: u32) AND 0xfffffffc) = (n + 3) div 4 * 4"
    using align_value [of "n + 3", where 'a = 32] assms(3) unfolding align_constant by simp
  moreover have "n \<le> (n + 3) div 4 * 4" by linarith
  ultimately show "unat (iscsi_get_pdu_padding_size h') = (n + 3) div 4 * 4 - n"
    using u [of n] assms(3)
    by (simp add: iscsi_get_pdu_padding_size_def g m Let_def unat_sub word_le_nat_alt)
qed

section \<open>Properties\<close>

text \<open>
  \<open>iscsi_serial32_compare\<close> is the comparison of RFC 1982, the sign of the difference as a signed
  32 bit number; it is antisymmetric except for numbers at distance \<open>2^31\<close>, which both compare
  as smaller.
\<close>

theorem iscsi_serial32_compare_rfc1982:
  "iscsi_serial32_compare s1 s2 = sgn (sint (s1 - s2)) \<and>
   iscsi_serial32_compare s2 s1 =
     (if s1 - s2 = 2 ^ 31 then iscsi_serial32_compare s1 s2 else - iscsi_serial32_compare s1 s2)"
proof -
  have "sint (- w) = (if w = 2 ^ 31 then sint w else - sint w)" for w :: u32
  proof (cases "uint w = 0")
    case False
    have "0 \<le> uint w" "uint w < 2 ^ 32" using unsigned_less [of w] by auto
    with False have "uint (- w) = 2 ^ 32 - uint w"
      by (simp add: uint_word_ariths zmod_zminus1_eq_if)
    moreover have "w = 2 ^ 31 \<longleftrightarrow> uint w = 2 ^ 31" by (simp add: word_uint_eq_iff)
    ultimately show ?thesis using False by (auto simp: sint_u32_cases)
  qed (simp add: unsigned_eq_0_iff)
  from this [of "s1 - s2"] show ?thesis by (simp add: serial32_compare_sgn)
qed

text \<open>
  \<open>iscsi_pdu_add_data\<close> appends the bytes to the data of the PDU, sets the length field of the
  header to the number of data bytes (up to the 24 bits it has) and pads the block with zeros
  by exactly the padding that \<open>iscsi_get_pdu_padding_size\<close> reads from this header.
\<close>

theorem iscsi_pdu_add_data_appends:
  assumes "ctx_pdus c i = Some p" "data_size (pdu_outdata p) = ISCSI_HEADER_SIZE (ctx_header_digest c) + n"
    "data_size (pdu_outdata p) \<le> length (data_bytes (pdu_outdata p))"
    "dptr \<noteq> []" "n + length dptr < 2 ^ 24"
  shows "\<exists>p'. iscsi_pdu_add_data True i dptr (int (length dptr)) c = Some (0, pdu_store i p' c) \<and>
    (let h = data_bytes (pdu_outdata p'); hs = ISCSI_HEADER_SIZE (ctx_header_digest c)
     in data_size (pdu_outdata p') = hs + n + length dptr \<and>
        take (n + length dptr) (drop hs h) = take n (drop hs (data_bytes (pdu_outdata p))) @ dptr \<and>
        iscsi_get_pdu_data_size h = of_nat (n + length dptr) \<and>
        drop (hs + n + length dptr) h = replicate (unat (iscsi_get_pdu_padding_size h)) 0)"
proof -
  let ?od = "pdu_outdata p" and ?hs = "ISCSI_HEADER_SIZE (ctx_header_digest c)"
  let ?len = "n + length dptr"
  have hs: "?hs = 48 \<or> ?hs = 52" by (simp add: ISCSI_HEADER_SIZE_def)
  have al: "pdu_aligned (?hs + n + length dptr) = ?hs + (?len + 3) div 4 * 4"
  proof -
    have "(51 + m) div 4 * 4 = 48 + (m + 3) div 4 * 4" "(55 + m) div 4 * 4 = 52 + (m + 3) div 4 * 4" for m :: nat
      by presburger+
    with assms(5) hs show ?thesis by (auto simp: pdu_aligned_value)
  qed
  have le: "?len \<le> (?len + 3) div 4 * 4" by linarith
  let ?pad = "(?len + 3) div 4 * 4 - ?len"
  let ?d = "take (?hs + n) (data_bytes ?od) @ dptr @ replicate ?pad 0"
  have add: "iscsi_add_data True ?od dptr (int (length dptr)) True =
      Some (0, \<lparr>data_bytes = ?d, data_size = ?hs + n + length dptr\<rparr>)"
    using assms(2-4) al le by (simp add: iscsi_add_data_def Let_def)
  let ?h = "scsi_set_uint32 4 (of_nat ?len) ?d"
  let ?p = "p\<lparr>pdu_outdata := \<lparr>data_bytes = ?h, data_size = ?hs + n + length dptr\<rparr>\<rparr>"
  have "iscsi_pdu_add_data True i dptr (int (length dptr)) c = Some (0, pdu_store i ?p c)"
    using assms(1,4) add by (simp add: iscsi_pdu_add_data_def hdr_modify_def Let_def)
  moreover have l: "length (take (?hs + n) (data_bytes ?od)) = ?hs + n" using assms(2,3) by simp
  then have "8 \<le> length ?d" using hs by auto
  from data_segment_length [OF refl this assms(5)]
  have "iscsi_get_pdu_data_size ?h = of_nat ?len" "unat (iscsi_get_pdu_padding_size ?h) = ?pad" by simp_all
  moreover have fr: "drop k ?h = drop k ?d" if "8 \<le> k" for k
    using that by (simp add: scsi_set_uint32_def)
  have "drop (?hs + n + length dptr) ?h = replicate ?pad 0"
    using hs l by (subst fr) auto
  moreover have "take ?len (drop ?hs ?h) = take n (drop ?hs (data_bytes ?od)) @ dptr"
    using hs l by (subst fr) (auto simp: drop_take)
  ultimately show ?thesis by (intro exI [of _ ?p]) (simp add: Let_def add.assoc)
qed

theorem iscsi_pdu_add_data_appends_witness:
  defines "p \<equiv> zero_pdu\<lparr>pdu_outdata := \<lparr>data_bytes = replicate 48 0, data_size = 48\<rparr>\<rparr>"
  defines "c \<equiv> zero_context\<lparr>ctx_pdus := [7 \<mapsto> p]\<rparr>"
  shows "\<exists>p'. iscsi_pdu_add_data True 7 [1, 2, 3, 4, 5] 5 c = Some (0, pdu_store 7 p' c) \<and>
    data_size (pdu_outdata p') = 53 \<and> iscsi_get_pdu_data_size (data_bytes (pdu_outdata p')) = 5"
proof -
  have h: "ISCSI_HEADER_SIZE (ctx_header_digest c) = 48"
    by (simp add: c_def zero_context_def ISCSI_HEADER_SIZE_def)
  have "ctx_pdus c 7 = Some p" "data_size (pdu_outdata p) = 48" "length (data_bytes (pdu_outdata p)) = 48"
    by (simp_all add: c_def p_def)
  then show ?thesis
    using iscsi_pdu_add_data_appends [of c 7 p 0 "[1, 2, 3, 4, 5]"] h by (auto simp: Let_def)
qed

end
