(* ===== verification/Pdu_Queues.thy ===== *)
theory Pdu_Queues
  imports Iscsi_Pdu
begin

text \<open>
  The correctness of the operations of \<open>Iscsi_Pdu\<close> that take PDUs off the queues. The locale
  \<open>outqueue_walk\<close> is the walk that removes PDUs and closes the gap in the CmdSNs; it is
  interpreted on the walks of \<open>iscsi_timeout_scan\<close> and \<open>iscsi_cancel_lun_pdus\<close>. The results say
  which PDUs leave the queues, which callbacks are made, that no freed PDU is touched
  (\<open>queues_ok\<close>) and whether the CmdSNs of the queued commands still follow each other
  (\<open>gapless\<close>).
\<close>

section \<open>Frames\<close>

definition cb_events :: "cint \<Rightarrow> iscsi_pdu \<Rightarrow> iscsi_event list" where
  "cb_events st p =
     (case pdu_callback p of
        Ptr (App_cb cb) \<Rightarrow> [Callback cb st]
      | Ptr Scsi_response_cb \<Rightarrow>
          (case pdu_cbdata_callback p of
             NULL \<Rightarrow> []
           | Ptr cb \<Rightarrow> [Callback cb (if known_status st then st else SCSI_STATUS_ERROR)])
      | _ \<Rightarrow> [])"

definition with_cmdsn :: "u32 \<Rightarrow> iscsi_pdu \<Rightarrow> iscsi_pdu" where
  "with_cmdsn n p = (hdr_modify (scsi_set_uint32 24 n) p)\<lparr>pdu_cmdsn := n\<rparr>"

lemma length_set_uint32 [simp]: "length (scsi_set_uint32 p v xs) = length xs"
  by (rule be32.length_put)

lemma nth_set_uint32: "i < p \<or> p + 4 \<le> i \<Longrightarrow> scsi_set_uint32 p v xs ! i = xs ! i"
  by (auto simp: scsi_set_uint32_def)

lemma with_cmdsn_fields [simp]:
  "pdu_cmdsn (with_cmdsn n p) = n" "pdu_byte0 (with_cmdsn n p) = pdu_byte0 p"
  "pdu_scsi_timeout (with_cmdsn n p) = pdu_scsi_timeout p"
  "pdu_callback (with_cmdsn n p) = pdu_callback p" "pdu_itt (with_cmdsn n p) = pdu_itt p"
  "pdu_cbdata_task (with_cmdsn n p) = pdu_cbdata_task p"
  "pdu_cbdata_callback (with_cmdsn n p) = pdu_cbdata_callback p"
  "pdu_flags (with_cmdsn n p) = pdu_flags p"
  by (simp_all add: with_cmdsn_def hdr_modify_def pdu_byte0_def nth_set_uint32)

lemma with_cmdsn_kind [simp]:
  "is_cmd (with_cmdsn n p) = is_cmd p" "pdu_ok (with_cmdsn n p) = pdu_ok p"
  "expired t (with_cmdsn n p) = expired t p" "cb_events st (with_cmdsn n p) = cb_events st p"
  by (simp_all add: is_cmd_def is_immediate_def is_data_out_def pdu_ok_def expired_def cb_events_def
      split: ptr.splits iscsi_command_cb.splits)
    (simp add: with_cmdsn_def hdr_modify_def)

lemma iscsi_pdu_set_cmdsn_frame:
  assumes "ctx_pdus c i = Some p"
  shows "\<exists>ts. iscsi_pdu_set_cmdsn i n c =
      Some (c\<lparr>ctx_pdus := (ctx_pdus c)(i \<mapsto> with_cmdsn n p), ctx_tasks := ts\<rparr>) \<and>
    (\<forall>t. task_lun (ts t) = task_lun (ctx_tasks c t))"
proof (cases "pdu_cbdata_task p")
  case NULL
  with assms show ?thesis
    by (intro exI [of _ "ctx_tasks c"])
      (simp add: iscsi_pdu_set_cmdsn_def pdu_store_def with_cmdsn_def hdr_modify_def)
next
  case (Ptr t)
  let ?f = "\<lambda>task. task\<lparr>task_cmdsn := n, task_itt := pdu_itt p\<rparr>"
  from Ptr assms show ?thesis
    by (intro exI [of _ "(ctx_tasks c)(t := ?f (ctx_tasks c t))"])
      (simp add: iscsi_pdu_set_cmdsn_def pdu_store_def with_cmdsn_def hdr_modify_def task_modify_def)
qed

lemma pdu_callback_call_frame:
  assumes "ctx_pdus c i = Some p" "pdu_ok p"
  shows "\<exists>ts pr. pdu_callback_call st i c =
      Some (c\<lparr>ctx_tasks := ts, ctx_trace := ctx_trace c @ cb_events st p, ctx_pending_reconnect := pr\<rparr>)"
proof (cases "pdu_callback p")
  case NULL
  with assms show ?thesis
    by (auto simp: pdu_callback_call_def cb_events_def intro!: exI [of _ "ctx_tasks c"]
        exI [of _ "ctx_pending_reconnect c"])
next
  case (Ptr f)
  show ?thesis
  proof (cases f)
    case Scsi_response_cb
    with Ptr assms obtain t where t: "pdu_cbdata_task p = Ptr t" by (cases "pdu_cbdata_task p") (auto simp: pdu_ok_def)
    let ?c = "task_modify t (\<lambda>task. task\<lparr>status := if known_status st then st else SCSI_STATUS_ERROR\<rparr>) c"
    show ?thesis
      by (rule exI [of _ "ctx_tasks ?c"], rule exI [of _ "ctx_pending_reconnect c"])
        (use Ptr Scsi_response_cb t assms in \<open>simp add: pdu_callback_call_def iscsi_scsi_response_cb_def
          cb_events_def task_modify_def Let_def split: ptr.split\<close>)
  next
    case Reconnect_after_logout_cb
    with Ptr assms show ?thesis
      by (auto simp: pdu_callback_call_def cb_events_def intro!: exI [of _ "ctx_tasks c"])
  next
    case (App_cb cb)
    with Ptr assms show ?thesis
      by (auto simp: pdu_callback_call_def cb_events_def intro!: exI [of _ "ctx_tasks c"]
        exI [of _ "ctx_pending_reconnect c"])
  qed
qed

lemma iscsi_tcp_free_pdu_frame:
  assumes "ctx_pdus c i = Some p"
  shows "iscsi_tcp_free_pdu i c = Some (c
    \<lparr>ctx_outqueue_current := (if ctx_outqueue_current c = Ptr i then NULL else ctx_outqueue_current c),
     ctx_pdus := (ctx_pdus c)(i := None)\<rparr>)"
  using assms by (simp add: iscsi_tcp_free_pdu_def Let_def)

text \<open>The induction over a walk: an invariant of the nodes still to come and the state.\<close>

lemma mfold_induct:
  assumes "\<And>x xs s. P (x # xs) s \<Longrightarrow> \<exists>s'. f x s = Some s' \<and> P xs s'" and "P xs s"
  shows "\<exists>s'. mfold f xs s = Some s' \<and> P [] s'"
  using assms(2) by (induction xs arbitrary: s) (use assms(1) in fastforce)+

section \<open>The walk over the outqueue\<close>

definition pdu_at :: "iscsi_context \<Rightarrow> nat \<Rightarrow> iscsi_pdu" where
  "pdu_at c i = the (ctx_pdus c i)"

text \<open>\<open>counts_up s xs e\<close>: the serial numbers \<open>s\<close>, \<open>s + 1\<close>, .., up to and without \<open>e\<close>.\<close>

fun counts_up :: "u32 \<Rightarrow> u32 list \<Rightarrow> u32 \<Rightarrow> bool" where
  "counts_up s [] e \<longleftrightarrow> e = s"
| "counts_up s (x # xs) e \<longleftrightarrow> x = s \<and> counts_up (s + 1) xs e"

lemma counts_up_append: "counts_up s (xs @ ys) e \<longleftrightarrow> (\<exists>m. counts_up s xs m \<and> counts_up m ys e)"
  by (induction xs arbitrary: s) auto

text \<open>The CmdSNs of the commands among the PDUs of a queue.\<close>

definition cmd_sns :: "(nat \<Rightarrow> iscsi_pdu) \<Rightarrow> nat list \<Rightarrow> u32 list" where
  "cmd_sns f q = map (\<lambda>i. pdu_cmdsn (f i)) (filter (\<lambda>i. is_cmd (f i)) q)"

lemma cmd_sns_simps [simp]:
  "cmd_sns f [] = []" "cmd_sns f (xs @ ys) = cmd_sns f xs @ cmd_sns f ys"
  "cmd_sns f (x # xs) = (if is_cmd (f x) then [pdu_cmdsn (f x)] else []) @ cmd_sns f xs"
  by (simp_all add: cmd_sns_def)

lemma cmd_sns_cong: "(\<And>i. i \<in> set q \<Longrightarrow> f i = g i) \<Longrightarrow> cmd_sns f q = cmd_sns g q"
  by (induction q) auto

definition renumbered :: "iscsi_pdu \<Rightarrow> iscsi_pdu \<Rightarrow> bool" where
  "renumbered p p' \<longleftrightarrow> p' = p \<or> (\<exists>n. p' = with_cmdsn n p)"

lemma renumbered_fields:
  assumes "renumbered p p'"
  shows "is_cmd p' = is_cmd p" "pdu_ok p' = pdu_ok p" "cb_events st p' = cb_events st p"
    "expired t p' = expired t p" "pdu_itt p' = pdu_itt p" "pdu_flags p' = pdu_flags p"
  using assms by (auto simp: renumbered_def)

text \<open>
  Both walks that close gaps are this one, with a condition \<open>out\<close> that renumbering a PDU does not
  change.
\<close>

definition remove_step :: "(iscsi_context \<Rightarrow> iscsi_pdu \<Rightarrow> bool) \<Rightarrow> nat \<Rightarrow> walk \<Rightarrow> walk option" where
  "remove_step out i = (\<lambda>(iscsi, tmp, cmdsn_gap). do {
     iscsi \<leftarrow> close_gap cmdsn_gap i iscsi;
     p \<leftarrow> ctx_pdus iscsi i;
     if \<not> out iscsi p then Some (iscsi, tmp, cmdsn_gap)
     else do {
       let (iscsi, cmdsn_gap) = (if is_cmd p
            then (iscsi\<lparr>ctx_cmdsn := ctx_cmdsn iscsi - 1\<rparr>, cmdsn_gap + 1) else (iscsi, cmdsn_gap));
       (iscsi, tmp) \<leftarrow> move_outqueue i (iscsi, tmp);
       Some (iscsi, tmp, cmdsn_gap)
     }
   })"

definition same_luns :: "(nat \<Rightarrow> scsi_task) \<Rightarrow> (nat \<Rightarrow> scsi_task) \<Rightarrow> bool" where
  "same_luns ts ts' \<longleftrightarrow> (\<forall>t. task_lun (ts t) = task_lun (ts' t))"

lemma close_gap_frame:
  assumes "ctx_pdus c i = Some p"
  shows "\<exists>ts p'. close_gap g i c = Some (c\<lparr>ctx_pdus := (ctx_pdus c)(i \<mapsto> p'), ctx_tasks := ts\<rparr>) \<and>
    same_luns ts (ctx_tasks c) \<and> renumbered p p' \<and> pdu_cmdsn p' = pdu_cmdsn p - g"
proof (cases "0 < g")
  case True
  obtain ts where "iscsi_pdu_set_cmdsn i (pdu_cmdsn p - g) c =
      Some (c\<lparr>ctx_pdus := (ctx_pdus c)(i \<mapsto> with_cmdsn (pdu_cmdsn p - g) p), ctx_tasks := ts\<rparr>)"
    "same_luns ts (ctx_tasks c)"
    using iscsi_pdu_set_cmdsn_frame [OF assms] unfolding same_luns_def by blast
  with True assms show ?thesis
    by (intro exI [of _ ts] exI [of _ "with_cmdsn (pdu_cmdsn p - g) p"])
      (auto simp: close_gap_def renumbered_def)
next
  case False
  then have "close_gap g i c = Some (c\<lparr>ctx_pdus := (ctx_pdus c)(i \<mapsto> p), ctx_tasks := ctx_tasks c\<rparr>)"
    using assms by (simp add: close_gap_def fun_upd_idem)
  moreover have "g = 0" using False word_gt_0 by blast
  ultimately show ?thesis
    by (intro exI [of _ "ctx_tasks c"] exI [of _ p]) (simp add: same_luns_def renumbered_def)
qed

locale outqueue_walk =
  fixes out :: "iscsi_context \<Rightarrow> iscsi_pdu \<Rightarrow> bool"
  assumes out_stable: "same_luns (ctx_tasks c') (ctx_tasks c) \<Longrightarrow> renumbered p p' \<Longrightarrow> out c' p' = out c p"
begin

definition lost :: "iscsi_context \<Rightarrow> nat \<Rightarrow> bool" where
  "lost c i \<longleftrightarrow> out c (pdu_at c i)"

definition walked :: "iscsi_context \<Rightarrow> nat list \<Rightarrow> walk \<Rightarrow> bool" where
  "walked c rest s \<longleftrightarrow> (case s of (c', tmp, gap) \<Rightarrow> \<exists>done ts ps.
     ctx_outqueue c = done @ rest \<and> tmp = filter (lost c) done \<and>
     c' = c\<lparr>ctx_outqueue := filter (\<lambda>i. \<not> lost c i) done @ rest, ctx_cmdsn := ctx_cmdsn c - gap,
            ctx_pdus := ps, ctx_tasks := ts\<rparr> \<and>
     same_luns ts (ctx_tasks c) \<and>
     gap = of_nat (length (filter (\<lambda>i. is_cmd (pdu_at c i)) tmp)) \<and>
     (\<forall>i. i \<notin> set done \<longrightarrow> ps i = ctx_pdus c i) \<and>
     (\<forall>i \<in> set done. \<exists>p'. ps i = Some p' \<and> renumbered (pdu_at c i) p') \<and>
     (\<forall>s e. counts_up s (cmd_sns (pdu_at c) done) e \<longrightarrow>
        counts_up s (cmd_sns (\<lambda>i. the (ps i)) (filter (\<lambda>i. \<not> lost c i) done)) (e - gap)))"

lemma walked_step:
  assumes q: "distinct (ctx_outqueue c)" "\<forall>i \<in> set (ctx_outqueue c). ctx_pdus c i \<noteq> None"
    and w: "walked c (x # xs) s"
  shows "\<exists>s'. remove_step out x s = Some s' \<and> walked c xs s'"
proof -
  obtain c' tmp gap where s: "s = (c', tmp, gap)" by (cases s) auto
  with w obtain dn ts ps where w:
    "ctx_outqueue c = dn @ x # xs" "tmp = filter (lost c) dn"
    "c' = c\<lparr>ctx_outqueue := filter (\<lambda>i. \<not> lost c i) dn @ x # xs, ctx_cmdsn := ctx_cmdsn c - gap,
            ctx_pdus := ps, ctx_tasks := ts\<rparr>"
    "same_luns ts (ctx_tasks c)" "gap = of_nat (length (filter (\<lambda>i. is_cmd (pdu_at c i)) tmp))"
    "\<forall>i. i \<notin> set dn \<longrightarrow> ps i = ctx_pdus c i"
    "\<forall>i \<in> set dn. \<exists>p'. ps i = Some p' \<and> renumbered (pdu_at c i) p'"
    "\<forall>s e. counts_up s (cmd_sns (pdu_at c) dn) e \<longrightarrow>
        counts_up s (cmd_sns (\<lambda>i. the (ps i)) (filter (\<lambda>i. \<not> lost c i) dn)) (e - gap)"
    unfolding walked_def by blast
  have x: "x \<notin> set dn" "x \<notin> set xs" using q(1) w(1) by auto
  then obtain p where p: "ctx_pdus c x = Some p" "ps x = Some p" "pdu_at c x = p"
    using q(2) w(1,6) by (auto simp: pdu_at_def)
  then obtain ts' p' where g: "close_gap gap x c' =
      Some (c'\<lparr>ctx_pdus := ps(x \<mapsto> p'), ctx_tasks := ts'\<rparr>)"
    "same_luns ts' ts" "renumbered p p'" "pdu_cmdsn p' = pdu_cmdsn p - gap"
    using close_gap_frame [of c' x p gap] w(3) by auto
  have luns: "same_luns ts' (ctx_tasks c)" using g(2) w(4) by (simp add: same_luns_def)
  then have out: "out (c'\<lparr>ctx_pdus := ps(x \<mapsto> p'), ctx_tasks := ts'\<rparr>) p' = lost c x"
    using out_stable g(3) p(3) by (simp add: lost_def)
  have same: "cmd_sns (\<lambda>i. the ((ps(x \<mapsto> p')) i)) (filter (\<lambda>i. \<not> lost c i) dn) =
      cmd_sns (\<lambda>i. the (ps i)) (filter (\<lambda>i. \<not> lost c i) dn)"
    by (rule cmd_sns_cong) (use x in auto)
  have cmd: "is_cmd p' = is_cmd p" using g(3) by (rule renumbered_fields)
  show ?thesis
  proof (cases "lost c x")
    case False
    then have r: "remove_step out x s = Some (c'\<lparr>ctx_pdus := ps(x \<mapsto> p'), ctx_tasks := ts'\<rparr>, tmp, gap)"
      using g(1) out s by (simp add: remove_step_def)
    moreover have "walked c xs (c'\<lparr>ctx_pdus := ps(x \<mapsto> p'), ctx_tasks := ts'\<rparr>, tmp, gap)"
      unfolding walked_def case_prod_conv
      by (rule exI [of _ "dn @ [x]"], rule exI [of _ ts'], rule exI [of _ "ps(x \<mapsto> p')"])
        (use False w p g luns same cmd x in \<open>auto simp: counts_up_append\<close>)
    ultimately show ?thesis by blast
  next
    case True
    let ?gap = "if is_cmd p then gap + 1 else gap"
    let ?c = "c'\<lparr>ctx_pdus := ps(x \<mapsto> p'), ctx_tasks := ts', ctx_cmdsn := ctx_cmdsn c - ?gap,
      ctx_outqueue := filter (\<lambda>i. \<not> lost c i) dn @ xs\<rparr>"
    have rm: "remove1 x (filter (\<lambda>i. \<not> lost c i) dn @ x # xs) = filter (\<lambda>i. \<not> lost c i) dn @ xs"
      using x by (simp add: remove1_append)
    have "remove_step out x s = Some (?c, tmp @ [x], ?gap)"
      using True g(1) out s w(3) rm cmd
      by (simp add: remove_step_def move_outqueue_def list_add_end_def diff_diff_eq)
    moreover have "walked c xs (?c, tmp @ [x], ?gap)"
      unfolding walked_def case_prod_conv
      by (rule exI [of _ "dn @ [x]"], rule exI [of _ ts'], rule exI [of _ "ps(x \<mapsto> p')"])
        (use True w p g luns same cmd x in \<open>auto simp: counts_up_append algebra_simps\<close>)
    ultimately show ?thesis by blast
  qed
qed

lemma walk:
  assumes "distinct (ctx_outqueue c)" "\<forall>i \<in> set (ctx_outqueue c). ctx_pdus c i \<noteq> None"
  shows "\<exists>gap c'. mfold (remove_step out) (ctx_outqueue c) (c, [], 0) =
      Some (c', filter (lost c) (ctx_outqueue c), gap) \<and>
    walked c [] (c', filter (lost c) (ctx_outqueue c), gap)"
proof -
  have "walked c (ctx_outqueue c) (c, [], 0)"
    unfolding walked_def case_prod_conv
    by (rule exI [of _ "[]"], rule exI [of _ "ctx_tasks c"], rule exI [of _ "ctx_pdus c"])
      (simp add: same_luns_def)
  then have "\<exists>s. mfold (remove_step out) (ctx_outqueue c) (c, [], 0) = Some s \<and> walked c [] s"
    by (rule mfold_induct [rotated]) (rule walked_step [OF assms])
  then obtain s where s: "mfold (remove_step out) (ctx_outqueue c) (c, [], 0) = Some s" "walked c [] s"
    by blast
  then have "fst (snd s) = filter (lost c) (ctx_outqueue c)" by (auto simp: walked_def)
  with s show ?thesis by (cases s) auto
qed

end


definition lun_of :: "iscsi_context \<Rightarrow> iscsi_pdu \<Rightarrow> u32 ptr" where
  "lun_of c p = (case pdu_cbdata_task p of NULL \<Rightarrow> NULL | Ptr t \<Rightarrow> Ptr (task_lun (ctx_tasks c t)))"

interpretation timeout_walk: outqueue_walk "\<lambda>_ p. expired t p \<and> is_cmd p" for t :: int
  by unfold_locales (simp add: renumbered_fields)

interpretation lun_walk: outqueue_walk "\<lambda>c p. lun_of c p = Ptr lun" for lun :: u32
  by unfold_locales (auto simp: lun_of_def same_luns_def renumbered_def split: ptr.splits)

lemma timeout_outqueue_step_eq:
  "timeout_outqueue_step t = remove_step (\<lambda>_ p. expired t p \<and> is_cmd p)"
  by (intro ext) (auto simp: timeout_outqueue_step_def remove_step_def Let_def split: prod.splits intro!: bind_option_cong)

lemma cancel_lun_step_eq:
  "cancel_lun_step lun = remove_step (\<lambda>c p. lun_of c p = Ptr lun)"
  by (intro ext) (auto simp: cancel_lun_step_def remove_step_def lun_of_def Let_def
      split: prod.splits ptr.splits intro!: bind_option_cong)

text \<open>Where the PDUs of a queue are live, the walks that only read are defined.\<close>

lemma find_pdu_live:
  assumes "\<forall>i \<in> set is. ctx_pdus c i \<noteq> None"
  shows "find_pdu P is c = Some (case find (\<lambda>i. P (pdu_at c i)) is of None \<Rightarrow> NULL | Some i \<Rightarrow> Ptr i)"
  using assms by (induction "is") (auto simp: pdu_at_def)

lemma queues_okD:
  assumes "queues_ok c"
  shows "distinct (ctx_outqueue c)" "distinct (ctx_waitpdu c)"
    "i \<in> set (ctx_outqueue c) \<Longrightarrow> i \<notin> set (ctx_waitpdu c)"
    "\<forall>i \<in> set (ctx_outqueue c). ctx_pdus c i \<noteq> None" "\<forall>i \<in> set (ctx_waitpdu c). ctx_pdus c i \<noteq> None"
    "ctx_outqueue_current c = Ptr i \<Longrightarrow> ctx_pdus c i \<noteq> None"
    "ctx_outqueue_current c = Ptr i \<Longrightarrow> i \<notin> set (ctx_outqueue c)"
    "ctx_pdus c i = Some p \<Longrightarrow> pdu_ok p"
  using assms unfolding queues_ok_def by auto

lemma data_out_inprocess_defined:
  assumes "queues_ok c" "ctx_pdus c i \<noteq> None"
  shows "\<exists>b. iscsi_pdu_data_out_inprocess i c = Some b"
proof -
  obtain p where p: "ctx_pdus c i = Some p" using assms(2) by auto
  show ?thesis
  proof (cases "ctx_outqueue_current c")
    case NULL
    with p assms(1) show ?thesis
      by (auto simp: iscsi_pdu_data_out_inprocess_def find_pdu_live queues_okD)
  next
    case (Ptr k)
    then obtain q where "ctx_pdus c k = Some q" using queues_okD(6) [OF assms(1)] by blast
    with p assms(1) Ptr show ?thesis
      by (auto simp: iscsi_pdu_data_out_inprocess_def find_pdu_live queues_okD)
  qed
qed


section \<open>What the walks leave behind\<close>

text \<open>The CmdSNs of the queued commands follow each other up to the next one of the session.\<close>

definition gapless :: "iscsi_context \<Rightarrow> bool" where
  "gapless c \<longleftrightarrow> (\<exists>s. counts_up s (cmd_sns (pdu_at c) (ctx_outqueue c)) (ctx_cmdsn c))"

definition pdus_kept :: "iscsi_context \<Rightarrow> iscsi_context \<Rightarrow> bool" where
  "pdus_kept c c' \<longleftrightarrow> (\<forall>i. case ctx_pdus c i of None \<Rightarrow> ctx_pdus c' i = None
     | Some p \<Rightarrow> \<exists>p'. ctx_pdus c' i = Some p' \<and> renumbered p p')"

lemma pdus_keptD:
  assumes "pdus_kept c c'"
  shows "ctx_pdus c i = Some p \<Longrightarrow> \<exists>p'. ctx_pdus c' i = Some p' \<and> renumbered p p'"
    "ctx_pdus c' i = None \<longleftrightarrow> ctx_pdus c i = None"
  using assms [unfolded pdus_kept_def, THEN spec, of i] by (auto split: option.splits)

context outqueue_walk begin

lemma walk_result:
  assumes "queues_ok c"
  shows "\<exists>gap c'. mfold (remove_step out) (ctx_outqueue c) (c, [], 0) =
      Some (c', filter (lost c) (ctx_outqueue c), gap) \<and>
    ctx_outqueue c' = filter (\<lambda>i. \<not> lost c i) (ctx_outqueue c) \<and>
    ctx_waitpdu c' = ctx_waitpdu c \<and> ctx_trace c' = ctx_trace c \<and>
    pdus_kept c c' \<and> queues_ok c' \<and> (gapless c \<longrightarrow> gapless c') \<and>
    ctx_outqueue_current c' = ctx_outqueue_current c \<and>
    ctx_cmdsn c' = ctx_cmdsn c - of_nat (length (filter (\<lambda>i. lost c i \<and> is_cmd (pdu_at c i)) (ctx_outqueue c)))"
proof -
  obtain gap c' where w: "mfold (remove_step out) (ctx_outqueue c) (c, [], 0) =
      Some (c', filter (lost c) (ctx_outqueue c), gap)" "walked c [] (c', filter (lost c) (ctx_outqueue c), gap)"
    using walk [OF queues_okD(1,4) [OF assms]] by blast
  then obtain ts ps where c': "c' = c\<lparr>ctx_outqueue := filter (\<lambda>i. \<not> lost c i) (ctx_outqueue c),
      ctx_cmdsn := ctx_cmdsn c - gap, ctx_pdus := ps, ctx_tasks := ts\<rparr>"
    and same: "\<forall>i. i \<notin> set (ctx_outqueue c) \<longrightarrow> ps i = ctx_pdus c i"
    and new: "\<forall>i \<in> set (ctx_outqueue c). \<exists>p'. ps i = Some p' \<and> renumbered (pdu_at c i) p'"
    and sns: "\<forall>s e. counts_up s (cmd_sns (pdu_at c) (ctx_outqueue c)) e \<longrightarrow>
        counts_up s (cmd_sns (\<lambda>i. the (ps i)) (filter (\<lambda>i. \<not> lost c i) (ctx_outqueue c))) (e - gap)"
    and gap: "gap = of_nat (length (filter (\<lambda>i. lost c i \<and> is_cmd (pdu_at c i)) (ctx_outqueue c)))"
    by (auto simp: walked_def conj_commute)
  have kept: "pdus_kept c c'"
    unfolding pdus_kept_def
  proof
    fix i
    show "case ctx_pdus c i of None \<Rightarrow> ctx_pdus c' i = None
     | Some p \<Rightarrow> \<exists>p'. ctx_pdus c' i = Some p' \<and> renumbered p p'"
    proof (cases "i \<in> set (ctx_outqueue c)")
      case True
      then show ?thesis
        using new queues_okD(4) [OF assms] c' by (fastforce simp: pdu_at_def split: option.splits)
    next
      case False
      then show ?thesis
        using same c' by (auto simp: renumbered_def split: option.splits)
    qed
  qed
  have ok: "pdu_ok p" if "ctx_pdus c' i = Some p" for i p
  proof -
    have "ctx_pdus c i \<noteq> None" using that pdus_keptD(2) [OF kept, of i] by auto
    then obtain q where "ctx_pdus c i = Some q" by auto
    with that show ?thesis
      using pdus_keptD(1) [OF kept, of i q] queues_okD(8) [OF assms] renumbered_fields(2) by fastforce
  qed
  have live: "ctx_pdus c' i \<noteq> None" if "ctx_pdus c i \<noteq> None" for i
    using that pdus_keptD(2) [OF kept, of i] by simp
  have "queues_ok c'"
    unfolding queues_ok_def
  proof (intro conjI ballI allI impI)
    show "distinct (ctx_outqueue c' @ ctx_waitpdu c')"
      using queues_okD(1-3) [OF assms] c' by auto
    show "ctx_pdus c' i \<noteq> None" if "i \<in> set (ctx_outqueue c' @ ctx_waitpdu c')" for i
      using that c' live queues_okD(4,5) [OF assms] by auto
    fix i assume "ctx_outqueue_current c' = Ptr i"
    then have "ctx_outqueue_current c = Ptr i" using c' by simp
    then show "ctx_pdus c' i \<noteq> None" "i \<notin> set (ctx_outqueue c')"
      using live queues_okD(6,7) [OF assms] c' by auto
  qed (rule ok)
  moreover have "gapless c'" if "gapless c"
    using that sns c' by (auto simp: gapless_def pdu_at_def [abs_def])
  ultimately show ?thesis using w(1) kept c' gap by auto
qed

end

definition first_events :: "cint \<Rightarrow> iscsi_context \<Rightarrow> nat list \<Rightarrow> iscsi_event list" where
  "first_events st c q = (case q of [] \<Rightarrow> [] | i # _ \<Rightarrow> cb_events st (pdu_at c i))"

lemma free_queues_ok:
  assumes "queues_ok c" "i \<notin> set (ctx_outqueue c)" "i \<notin> set (ctx_waitpdu c)"
  shows "queues_ok (c\<lparr>ctx_outqueue_current := (if ctx_outqueue_current c = Ptr i then NULL
      else ctx_outqueue_current c), ctx_pdus := (ctx_pdus c)(i := None)\<rparr>)"
  using assms unfolding queues_ok_def by (auto split: if_splits)

text \<open>A PDU that is on no queue any more is called back and freed.\<close>

lemma finish_pdu:
  assumes "queues_ok c" "ctx_pdus c i \<noteq> None" "i \<notin> set (ctx_outqueue c)" "i \<notin> set (ctx_waitpdu c)"
  shows "\<exists>c1 c'. pdu_callback_call st i c = Some c1 \<and> ctx_pdus c1 = ctx_pdus c \<and>
    iscsi_tcp_free_pdu i c1 = Some c' \<and> queues_ok c' \<and>
    ctx_outqueue c' = ctx_outqueue c \<and> ctx_waitpdu c' = ctx_waitpdu c \<and> ctx_cmdsn c' = ctx_cmdsn c \<and>
    ctx_trace c' = ctx_trace c @ cb_events st (pdu_at c i) \<and> ctx_pdus c' = (ctx_pdus c)(i := None) \<and>
    ctx_outqueue_current c' = (if ctx_outqueue_current c = Ptr i then NULL else ctx_outqueue_current c)"
proof -
  obtain p where p: "ctx_pdus c i = Some p" "pdu_ok p"
    using assms(2) queues_okD(8) [OF assms(1)] by blast
  then obtain ts pr where cb: "pdu_callback_call st i c = Some (c\<lparr>ctx_tasks := ts,
      ctx_trace := ctx_trace c @ cb_events st p, ctx_pending_reconnect := pr\<rparr>)" (is "_ = Some ?c1")
    using pdu_callback_call_frame by blast
  have "queues_ok ?c1" using assms(1) unfolding queues_ok_def by simp
  then have "queues_ok (?c1\<lparr>ctx_outqueue_current := (if ctx_outqueue_current ?c1 = Ptr i then NULL
      else ctx_outqueue_current ?c1), ctx_pdus := (ctx_pdus ?c1)(i := None)\<rparr>)"
    by (rule free_queues_ok) (use assms in auto)
  with cb p show ?thesis
    using iscsi_tcp_free_pdu_frame [of ?c1 i p] by (simp add: pdu_at_def)
qed

lemma complete_first_result:
  assumes "queues_ok c" "\<forall>i \<in> set tmp. ctx_pdus c i \<noteq> None \<and> i \<notin> set (ctx_outqueue c) \<and> i \<notin> set (ctx_waitpdu c)"
  shows "\<exists>c'. complete_first st tmp c = Some c' \<and> queues_ok c' \<and>
    ctx_outqueue c' = ctx_outqueue c \<and> ctx_waitpdu c' = ctx_waitpdu c \<and> ctx_cmdsn c' = ctx_cmdsn c \<and>
    ctx_trace c' = ctx_trace c @ first_events st c tmp \<and>
    (\<forall>i. ctx_pdus c' i = (if tmp \<noteq> [] \<and> i = hd tmp then None else ctx_pdus c i)) \<and>
    (tmp = [] \<or> ctx_outqueue_current c \<noteq> Ptr (hd tmp) \<longrightarrow> ctx_outqueue_current c' = ctx_outqueue_current c)"
proof (cases tmp)
  case Nil
  with assms(1) show ?thesis by (simp add: complete_first_def first_events_def)
next
  case (Cons i tmp')
  with assms(2) have "ctx_pdus c i \<noteq> None" "i \<notin> set (ctx_outqueue c)" "i \<notin> set (ctx_waitpdu c)" by auto
  from finish_pdu [OF assms(1) this, of st] Cons show ?thesis
    by (auto simp: complete_first_def first_events_def)
qed

lemma gapless_cong:
  assumes "\<And>i. i \<in> set (ctx_outqueue c) \<Longrightarrow> ctx_pdus c' i = ctx_pdus c i"
    "ctx_outqueue c' = ctx_outqueue c" "ctx_cmdsn c' = ctx_cmdsn c"
  shows "gapless c' \<longleftrightarrow> gapless c"
proof -
  have "cmd_sns (pdu_at c') (ctx_outqueue c') = cmd_sns (pdu_at c) (ctx_outqueue c)"
    unfolding assms(2) by (rule cmd_sns_cong) (simp add: pdu_at_def assms(1))
  then show ?thesis by (simp add: gapless_def assms(3))
qed


section \<open>Timeouts\<close>

definition busy :: "iscsi_context \<Rightarrow> nat \<Rightarrow> bool" where
  "busy c i \<longleftrightarrow> iscsi_pdu_data_out_inprocess i c = Some True"

definition wait_lost :: "int \<Rightarrow> iscsi_context \<Rightarrow> nat \<Rightarrow> bool" where
  "wait_lost t c i \<longleftrightarrow> expired t (pdu_at c i) \<and> \<not> busy c i"

text \<open>
  A write on the wait queue of which DATA-OUTs (PDUs of its task) are still among the PDUs \<open>q\<close>
  or being written.
\<close>

definition data_out_left :: "iscsi_context \<Rightarrow> nat list \<Rightarrow> nat \<Rightarrow> bool" where
  "data_out_left c q i \<longleftrightarrow>
     pdu_byte0 (pdu_at c i) AND 0x3f = ISCSI_PDU_SCSI_REQUEST \<and>
     data_bytes (pdu_outdata (pdu_at c i)) ! 32 \<in> {SCSI_OPCODE_WRITE10, SCSI_OPCODE_WRITE12, SCSI_OPCODE_WRITE16} \<and>
     (\<exists>j. (ctx_outqueue_current c = Ptr j \<or> j \<in> set q) \<and>
       pdu_cbdata_task (pdu_at c j) = pdu_cbdata_task (pdu_at c i))"

lemma find_pdu_ex:
  assumes "\<forall>i \<in> set is. ctx_pdus c i \<noteq> None"
  shows "\<exists>r. find_pdu P is c = Some r \<and> (r \<noteq> NULL \<longleftrightarrow> (\<exists>i \<in> set is. P (pdu_at c i)))"
  using assms
proof (induction "is")
  case (Cons a "is")
  then show ?case by (cases "P (pdu_at c a)") (auto simp: pdu_at_def)
qed simp

lemma busy_iff:
  assumes "queues_ok c" "ctx_pdus c i \<noteq> None"
  shows "busy c i \<longleftrightarrow> data_out_left c (ctx_outqueue c) i"
proof -
  obtain p where p: "ctx_pdus c i = Some p" using assms(2) by auto
  obtain r where r: "find_pdu (\<lambda>q. pdu_cbdata_task q = pdu_cbdata_task p) (ctx_outqueue c) c = Some r"
    "r \<noteq> NULL \<longleftrightarrow> (\<exists>j \<in> set (ctx_outqueue c). pdu_cbdata_task (pdu_at c j) = pdu_cbdata_task p)"
    using find_pdu_ex queues_okD(4) [OF assms(1)] by blast
  show ?thesis
  proof (cases "ctx_outqueue_current c")
    case NULL
    with p r show ?thesis
      by (auto simp: busy_def data_out_left_def iscsi_pdu_data_out_inprocess_def pdu_at_def)
  next
    case (Ptr k)
    then obtain q where "ctx_pdus c k = Some q" using queues_okD(6) [OF assms(1)] by blast
    with p r Ptr show ?thesis
      by (auto simp: busy_def data_out_left_def iscsi_pdu_data_out_inprocess_def pdu_at_def)
  qed
qed

lemma with_cmdsn_opcode: "data_bytes (pdu_outdata (with_cmdsn n p)) ! 32 = data_bytes (pdu_outdata p) ! 32"
  by (simp add: with_cmdsn_def hdr_modify_def nth_set_uint32)

lemma data_out_left_cong:
  assumes "ctx_outqueue_current c' = ctx_outqueue_current c"
    and "\<And>j. j = i \<or> ctx_outqueue_current c = Ptr j \<or> j \<in> set q \<Longrightarrow> renumbered (pdu_at c j) (pdu_at c' j)"
  shows "data_out_left c' q i \<longleftrightarrow> data_out_left c q i"
proof -
  have "pdu_cbdata_task (pdu_at c' j) = pdu_cbdata_task (pdu_at c j) \<and>
      pdu_byte0 (pdu_at c' j) = pdu_byte0 (pdu_at c j) \<and>
      data_bytes (pdu_outdata (pdu_at c' j)) ! 32 = data_bytes (pdu_outdata (pdu_at c j)) ! 32"
    if "j = i \<or> ctx_outqueue_current c = Ptr j \<or> j \<in> set q" for j
    using assms(2) [OF that] by (auto simp: renumbered_def with_cmdsn_opcode)
  then show ?thesis unfolding data_out_left_def assms(1) by metis
qed

lemma inprocess_waitpdu [simp]:
  "iscsi_pdu_data_out_inprocess i (c\<lparr>ctx_waitpdu := q\<rparr>) = iscsi_pdu_data_out_inprocess i c"
proof -
  have "find_pdu P is (c\<lparr>ctx_waitpdu := q\<rparr>) = find_pdu P is c" for P "is"
    by (induction "is") (simp_all cong: bind_option_cong if_cong)
  then show ?thesis
    by (simp add: iscsi_pdu_data_out_inprocess_def cong: bind_option_cong if_cong ptr.case_cong)
qed

lemma timeout_waitpdu_walk:
  assumes "queues_ok c"
  shows "mfold (timeout_waitpdu_step t) (ctx_waitpdu c) (c, []) =
    Some (c\<lparr>ctx_waitpdu := filter (\<lambda>i. \<not> wait_lost t c i) (ctx_waitpdu c)\<rparr>,
      filter (wait_lost t c) (ctx_waitpdu c))"
proof -
  define P where "P rest s \<longleftrightarrow> (\<exists>dn. ctx_waitpdu c = dn @ rest \<and>
    s = (c\<lparr>ctx_waitpdu := filter (\<lambda>i. \<not> wait_lost t c i) dn @ rest\<rparr>, filter (wait_lost t c) dn))" for rest s
  have step: "\<exists>s'. timeout_waitpdu_step t x s = Some s' \<and> P xs s'" if "P (x # xs) s" for x xs s
  proof -
    from that obtain dn where s: "ctx_waitpdu c = dn @ x # xs"
      "s = (c\<lparr>ctx_waitpdu := filter (\<lambda>i. \<not> wait_lost t c i) dn @ x # xs\<rparr>, filter (wait_lost t c) dn)"
      unfolding P_def by blast
    then have x: "x \<notin> set dn" "ctx_pdus c x \<noteq> None"
      using queues_okD(2,5) [OF assms] by auto
    then obtain p b where p: "ctx_pdus c x = Some p" "iscsi_pdu_data_out_inprocess x c = Some b"
      using data_out_inprocess_defined [OF assms] by blast
    have rm: "remove1 x (filter (\<lambda>i. \<not> wait_lost t c i) dn @ x # xs) = filter (\<lambda>i. \<not> wait_lost t c i) dn @ xs"
      using x by (simp add: remove1_append)
    show ?thesis
    proof (cases "wait_lost t c x")
      case True
      with p s rm show ?thesis
        by (intro exI conjI, unfold P_def, rule_tac [2] exI [of _ "dn @ [x]"])
          (auto simp: timeout_waitpdu_step_def wait_lost_def busy_def pdu_at_def move_waitpdu_def list_add_end_def)
    next
      case False
      with p s show ?thesis
        by (intro exI conjI, unfold P_def, rule_tac [2] exI [of _ "dn @ [x]"])
          (auto simp: timeout_waitpdu_step_def wait_lost_def busy_def pdu_at_def)
    qed
  qed
  have "P (ctx_waitpdu c) (c, [])" unfolding P_def by (rule exI [of _ "[]"]) simp
  then have "\<exists>s. mfold (timeout_waitpdu_step t) (ctx_waitpdu c) (c, []) = Some s \<and> P [] s"
    by (rule mfold_induct [rotated]) (rule step)
  then show ?thesis by (auto simp: P_def)
qed

lemma waitpdu_subset_ok:
  assumes "queues_ok c"
  shows "queues_ok (c\<lparr>ctx_waitpdu := filter P (ctx_waitpdu c)\<rparr>)"
  using assms unfolding queues_ok_def by auto

text \<open>
  The result of a walk that collects \<open>tmp\<close> and of the loop that completes it: the removed PDUs are
  on no queue, the first of them is called back and freed, the others are left as they are.
\<close>

definition completed :: "cint \<Rightarrow> nat list \<Rightarrow> iscsi_context \<Rightarrow> iscsi_context \<Rightarrow> bool" where
  "completed st tmp c c' \<longleftrightarrow>
     ctx_outqueue c' = filter (\<lambda>i. i \<notin> set tmp) (ctx_outqueue c) \<and>
     ctx_waitpdu c' = filter (\<lambda>i. i \<notin> set tmp) (ctx_waitpdu c) \<and>
     ctx_trace c' = ctx_trace c @ first_events st c tmp \<and>
     (tmp \<noteq> [] \<longrightarrow> ctx_pdus c' (hd tmp) = None) \<and>
     (\<forall>i. ctx_pdus c i = None \<longrightarrow> ctx_pdus c' i = None) \<and>
     (tmp = [] \<or> ctx_outqueue_current c \<noteq> Ptr (hd tmp) \<longrightarrow>
        ctx_outqueue_current c' = ctx_outqueue_current c) \<and>
     (\<forall>i p. ctx_pdus c i = Some p \<longrightarrow> tmp = [] \<or> i \<noteq> hd tmp \<longrightarrow>
        (\<exists>p'. ctx_pdus c' i = Some p' \<and> renumbered p p'))"

lemma complete_first_completed:
  assumes "queues_ok c1" "set tmp \<subseteq> set (ctx_outqueue c @ ctx_waitpdu c)" "queues_ok c"
    "ctx_outqueue c1 = filter (\<lambda>i. i \<notin> set tmp) (ctx_outqueue c)"
    "ctx_waitpdu c1 = filter (\<lambda>i. i \<notin> set tmp) (ctx_waitpdu c)"
    "ctx_trace c1 = ctx_trace c" "pdus_kept c c1" "ctx_outqueue_current c1 = ctx_outqueue_current c"
  shows "\<exists>c'. complete_first st tmp c1 = Some c' \<and> queues_ok c' \<and> completed st tmp c c' \<and>
    gapless c' = gapless c1 \<and> ctx_cmdsn c' = ctx_cmdsn c1"
proof -
  have live: "ctx_pdus c i \<noteq> None" if "i \<in> set tmp" for i
    using that assms(2) queues_okD(4,5) [OF assms(3)] by auto
  then have "\<forall>i \<in> set tmp. ctx_pdus c1 i \<noteq> None \<and> i \<notin> set (ctx_outqueue c1) \<and> i \<notin> set (ctx_waitpdu c1)"
    using pdus_keptD(2) [OF assms(7)] assms(4,5) by auto
  then obtain c' where c': "complete_first st tmp c1 = Some c'" "queues_ok c'"
    "ctx_outqueue c' = ctx_outqueue c1" "ctx_waitpdu c' = ctx_waitpdu c1" "ctx_cmdsn c' = ctx_cmdsn c1"
    "ctx_trace c' = ctx_trace c1 @ first_events st c1 tmp"
    "\<And>i. ctx_pdus c' i = (if tmp \<noteq> [] \<and> i = hd tmp then None else ctx_pdus c1 i)"
    "tmp = [] \<or> ctx_outqueue_current c1 \<noteq> Ptr (hd tmp) \<longrightarrow> ctx_outqueue_current c' = ctx_outqueue_current c1"
    using complete_first_result [OF assms(1), of tmp st] by blast
  have "cb_events st (pdu_at c1 i) = cb_events st (pdu_at c i)" if "ctx_pdus c i \<noteq> None" for i
    using that pdus_keptD(1) [OF assms(7), of i] renumbered_fields(3) by (fastforce simp: pdu_at_def)
  then have "first_events st c1 tmp = first_events st c tmp"
    using live by (auto simp: first_events_def split: list.split)
  then have "completed st tmp c c'"
    using c' assms(4-6,8) pdus_keptD [OF assms(7)] by (auto simp: completed_def)
  moreover have "gapless c' \<longleftrightarrow> gapless c1"
    by (rule gapless_cong) (use c' assms(4) in \<open>auto dest: hd_in_set\<close>)
  ultimately show ?thesis using c'(1,2,5) by blast
qed

context outqueue_walk begin

lemma walk_completed:
  fixes st :: cint
  assumes "queues_ok c"
  defines "E \<equiv> filter (lost c) (ctx_outqueue c)"
  shows "\<exists>gap c1 c'. mfold (remove_step out) (ctx_outqueue c) (c, [], 0) = Some (c1, E, gap) \<and>
    complete_first st E c1 = Some c' \<and> queues_ok c' \<and> completed st E c c' \<and> (gapless c \<longrightarrow> gapless c') \<and>
    ctx_cmdsn c' = ctx_cmdsn c - of_nat (length (filter (\<lambda>i. is_cmd (pdu_at c i)) E))"
proof -
  have E': "filter (\<lambda>i. \<not> lost c i) (ctx_outqueue c) = filter (\<lambda>i. i \<notin> set E) (ctx_outqueue c)"
    by (rule filter_cong) (auto simp: E_def)
  obtain gap c1 where 1: "mfold (remove_step out) (ctx_outqueue c) (c, [], 0) = Some (c1, E, gap)"
    "ctx_outqueue c1 = filter (\<lambda>i. i \<notin> set E) (ctx_outqueue c)" "ctx_waitpdu c1 = ctx_waitpdu c"
    "ctx_trace c1 = ctx_trace c" "pdus_kept c c1" "queues_ok c1" "gapless c \<longrightarrow> gapless c1"
    "ctx_outqueue_current c1 = ctx_outqueue_current c"
    "ctx_cmdsn c1 = ctx_cmdsn c - of_nat (length (filter (\<lambda>i. is_cmd (pdu_at c i)) E))"
    using walk_result [OF assms(1)] unfolding E' E_def [symmetric]
    by (auto simp: E_def conj_commute)
  have E_set: "set E \<subseteq> set (ctx_outqueue c)" by (auto simp: E_def)
  have "ctx_waitpdu c1 = filter (\<lambda>i. i \<notin> set E) (ctx_waitpdu c)"
    unfolding 1(3) by (rule sym, rule filter_True) (use E_set queues_okD(3) [OF assms(1)] in auto)
  then show ?thesis
    using complete_first_completed [OF 1(6) _ assms(1) 1(2) _ 1(4,5,8), of st] E_set 1(1,7,9) by auto
qed

end

lemma timeout_waitpdu_completed:
  fixes t :: int
  assumes "queues_ok c"
  defines "W \<equiv> filter (wait_lost t c) (ctx_waitpdu c)"
  shows "\<exists>c1 c'. mfold (timeout_waitpdu_step t) (ctx_waitpdu c) (c, []) = Some (c1, W) \<and>
    complete_first st W c1 = Some c' \<and> queues_ok c' \<and> completed st W c c' \<and> gapless c' = gapless c \<and>
    ctx_cmdsn c' = ctx_cmdsn c"
proof -
  let ?c1 = "c\<lparr>ctx_waitpdu := filter (\<lambda>i. \<not> wait_lost t c i) (ctx_waitpdu c)\<rparr>"
  have W: "ctx_waitpdu ?c1 = filter (\<lambda>i. i \<notin> set W) (ctx_waitpdu c)"
    by (auto simp: W_def intro: filter_cong)
  have W_set: "set W \<subseteq> set (ctx_waitpdu c)" by (auto simp: W_def)
  have out: "ctx_outqueue ?c1 = filter (\<lambda>i. i \<notin> set W) (ctx_outqueue c)"
    by (rule sym, simp, rule filter_True) (use W_set queues_okD(3) [OF assms(1)] in auto)
  have kept: "pdus_kept c ?c1"
    by (auto simp: pdus_kept_def renumbered_def split: option.split)
  have g: "gapless ?c1 = gapless c" by (rule gapless_cong) simp_all
  obtain c' where "complete_first st W ?c1 = Some c'" "queues_ok c'" "completed st W c c'"
    "gapless c' = gapless ?c1" "ctx_cmdsn c' = ctx_cmdsn c"
    using complete_first_completed [OF waitpdu_subset_ok [OF assms(1)] _ assms(1) out W _ kept, of st]
      W_set by auto
  with timeout_waitpdu_walk [OF assms(1), of t] g show ?thesis unfolding W_def by blast
qed


lemma completed_events_kept:
  assumes "completed st tmp c c'" "ctx_pdus c i = Some p" "tmp = [] \<or> i \<noteq> hd tmp"
  shows "\<exists>p'. ctx_pdus c' i = Some p' \<and> renumbered p p'"
  using assms by (auto simp: completed_def)

lemma completed_freed:
  assumes "completed st tmp c c'"
  shows "ctx_pdus c' i = None \<longleftrightarrow> ctx_pdus c i = None \<or> i \<in> set (take 1 tmp)"
proof (cases "ctx_pdus c i")
  case None
  with assms show ?thesis by (simp add: completed_def)
next
  case (Some p)
  show ?thesis
  proof (cases "tmp = [] \<or> i \<noteq> hd tmp")
    case True
    then have "i \<notin> set (take 1 tmp)" by (cases tmp) auto
    with completed_events_kept [OF assms Some True] Some show ?thesis by auto
  next
    case False
    then have "i \<in> set (take 1 tmp)" "ctx_pdus c' i = None"
      using assms by (cases tmp; simp add: completed_def)+
    then show ?thesis by simp
  qed
qed

lemma iscsi_timeout_scan_result:
  fixes t :: int
  assumes "queues_ok c"
  defines "E \<equiv> filter (\<lambda>i. expired t (pdu_at c i) \<and> is_cmd (pdu_at c i)) (ctx_outqueue c)"
  shows "\<exists>c1 c'. iscsi_timeout_scan t c = Some c' \<and> queues_ok c' \<and> (gapless c \<longrightarrow> gapless c') \<and>
    completed SCSI_STATUS_TIMEOUT E c c1 \<and> queues_ok c1 \<and>
    ctx_cmdsn c' = ctx_cmdsn c - of_nat (length E) \<and>
    completed SCSI_STATUS_TIMEOUT (filter (wait_lost t c1) (ctx_waitpdu c1)) c1 c'"
proof -
  have E: "filter (timeout_walk.lost t c) (ctx_outqueue c) = E"
    by (simp add: E_def timeout_walk.lost_def [abs_def])
  obtain gap c0 c1 where 1: "mfold (timeout_outqueue_step t) (ctx_outqueue c) (c, [], 0) = Some (c0, E, gap)"
    "complete_first SCSI_STATUS_TIMEOUT E c0 = Some c1" "queues_ok c1"
    "completed SCSI_STATUS_TIMEOUT E c c1" "gapless c \<longrightarrow> gapless c1"
    "ctx_cmdsn c1 = ctx_cmdsn c - of_nat (length E)"
    using timeout_walk.walk_completed [OF assms(1), of t SCSI_STATUS_TIMEOUT]
    unfolding timeout_outqueue_step_eq E by (auto simp: E_def)
  from timeout_waitpdu_completed [OF 1(3), of t SCSI_STATUS_TIMEOUT] 1 show ?thesis
    by (fastforce simp: iscsi_timeout_scan_def)
qed


text \<open>What happens to the callbacks and the PDUs.\<close>

lemma iscsi_timeout_scan_events:
  fixes t :: int
  assumes "queues_ok c"
  defines "E \<equiv> filter (\<lambda>i. expired t (pdu_at c i) \<and> is_cmd (pdu_at c i)) (ctx_outqueue c)"
  defines "W \<equiv> filter (\<lambda>i. expired t (pdu_at c i) \<and>
    \<not> data_out_left c (filter (\<lambda>j. j \<notin> set E) (ctx_outqueue c)) i) (ctx_waitpdu c)"
  shows "\<exists>c'. iscsi_timeout_scan t c = Some c' \<and> queues_ok c' \<and>
    ctx_outqueue c' = filter (\<lambda>i. i \<notin> set E) (ctx_outqueue c) \<and>
    ctx_waitpdu c' = filter (\<lambda>i. i \<notin> set W) (ctx_waitpdu c) \<and>
    ctx_cmdsn c' = ctx_cmdsn c - of_nat (length E) \<and> (gapless c \<longrightarrow> gapless c') \<and>
    ctx_trace c' = ctx_trace c @ first_events SCSI_STATUS_TIMEOUT c E @ first_events SCSI_STATUS_TIMEOUT c W \<and>
    (\<forall>i. ctx_pdus c' i = None \<longleftrightarrow> ctx_pdus c i = None \<or> i \<in> set (take 1 E @ take 1 W))"
proof -
  obtain c1 c' where r: "iscsi_timeout_scan t c = Some c'" "queues_ok c'" "gapless c \<longrightarrow> gapless c'"
    "completed SCSI_STATUS_TIMEOUT E c c1" "queues_ok c1" "ctx_cmdsn c' = ctx_cmdsn c - of_nat (length E)"
    "completed SCSI_STATUS_TIMEOUT (filter (wait_lost t c1) (ctx_waitpdu c1)) c1 c'"
    using iscsi_timeout_scan_result [OF assms(1), of t, folded E_def] by blast
  have E: "set E \<subseteq> set (ctx_outqueue c)" by (auto simp: E_def)
  then have disj: "i \<notin> set E" if "i \<in> set (ctx_waitpdu c)" for i
    using that queues_okD(3) [OF assms(1)] by blast
  have wait: "ctx_waitpdu c1 = ctx_waitpdu c"
    using r(4) disj by (auto simp: completed_def intro: filter_True)
  have gone: "ctx_pdus c1 i = None \<longleftrightarrow> ctx_pdus c i = None \<or> i \<in> set (take 1 E)" for i
    using r(4) by (rule completed_freed)
  have kept: "renumbered (pdu_at c i) (pdu_at c1 i)" if "ctx_pdus c1 i \<noteq> None" for i
  proof -
    from that gone obtain p where p: "ctx_pdus c i = Some p" "E = [] \<or> i \<noteq> hd E"
      by (cases E) auto
    then show ?thesis using completed_events_kept [OF r(4) p] by (auto simp: pdu_at_def)
  qed
  have lost: "wait_lost t c1 i \<longleftrightarrow> expired t (pdu_at c i) \<and>
      \<not> data_out_left c (filter (\<lambda>j. j \<notin> set E) (ctx_outqueue c)) i" if i: "i \<in> set (ctx_waitpdu c)" for i
  proof -
    have cur: "ctx_outqueue_current c1 = ctx_outqueue_current c"
      using r(4) E queues_okD(7) [OF assms(1)] hd_in_set [of E] unfolding completed_def by blast
    have live: "ctx_pdus c1 i \<noteq> None" using i wait queues_okD(5) [OF r(5)] by simp
    have "busy c1 i \<longleftrightarrow> data_out_left c1 (ctx_outqueue c1) i"
      using r(5) live by (rule busy_iff)
    also have "\<dots> \<longleftrightarrow> data_out_left c (ctx_outqueue c1) i"
    proof (rule data_out_left_cong [OF cur])
      show "renumbered (pdu_at c j) (pdu_at c1 j)"
        if "j = i \<or> ctx_outqueue_current c = Ptr j \<or> j \<in> set (ctx_outqueue c1)" for j
        using that live cur kept queues_okD(4,6) [OF r(5)] by auto
    qed
    finally show ?thesis
      using r(4) renumbered_fields(4) [OF kept [OF live]] by (simp add: wait_lost_def completed_def)
  qed
  then have W: "filter (wait_lost t c1) (ctx_waitpdu c1) = W"
    unfolding W_def wait by (intro filter_cong) auto
  have keptW: "renumbered (pdu_at c i) (pdu_at c1 i)" if "i \<in> set W" for i
    using that kept queues_okD(5) [OF r(5)] wait by (auto simp: W_def)
  have ev: "first_events SCSI_STATUS_TIMEOUT c1 W = first_events SCSI_STATUS_TIMEOUT c W"
    using renumbered_fields(3) [OF keptW] by (auto simp: first_events_def split: list.split)
  have "set W \<subseteq> set (ctx_waitpdu c)" by (auto simp: W_def)
  then have out: "filter (\<lambda>i. i \<notin> set W) (ctx_outqueue c1) = filter (\<lambda>i. i \<notin> set E) (ctx_outqueue c)"
    using r(4) queues_okD(3) [OF assms(1)] by (auto simp: completed_def intro!: filter_cong)
  have "ctx_pdus c' i = None \<longleftrightarrow> ctx_pdus c1 i = None \<or> i \<in> set (take 1 W)" for i
    using r(7) [unfolded W] by (rule completed_freed)
  moreover have "ctx_outqueue c' = filter (\<lambda>i. i \<notin> set E) (ctx_outqueue c)"
    "ctx_waitpdu c' = filter (\<lambda>i. i \<notin> set W) (ctx_waitpdu c)"
    "ctx_trace c' = ctx_trace c @ first_events SCSI_STATUS_TIMEOUT c E @ first_events SCSI_STATUS_TIMEOUT c W"
    using r(4) r(7) [unfolded W] ev out wait by (simp_all add: completed_def)
  ultimately show ?thesis using r(1-3,6) gone by simp
qed

section \<open>Cancellation\<close>

lemma iscsi_cancel_lun_pdus_result:
  assumes "queues_ok c"
  shows "\<exists>c'. iscsi_cancel_lun_pdus lun c = Some c' \<and> queues_ok c' \<and> (gapless c \<longrightarrow> gapless c') \<and>
    completed SCSI_STATUS_CANCELLED (filter (\<lambda>i. lun_of c (pdu_at c i) = Ptr lun) (ctx_outqueue c)) c c'"
proof -
  have "filter (lun_walk.lost lun c) (ctx_outqueue c) =
      filter (\<lambda>i. lun_of c (pdu_at c i) = Ptr lun) (ctx_outqueue c)"
    by (simp add: lun_walk.lost_def [abs_def])
  with lun_walk.walk_completed [OF assms, of lun SCSI_STATUS_CANCELLED] show ?thesis
    by (fastforce simp: iscsi_cancel_lun_pdus_def cancel_lun_step_eq)
qed

definition all_events :: "cint \<Rightarrow> iscsi_context \<Rightarrow> nat list \<Rightarrow> iscsi_event list" where
  "all_events st c q = concat (map (\<lambda>i. cb_events st (pdu_at c i)) q)"

lemma all_events_simps [simp]:
  "all_events st c [] = []" "all_events st c (xs @ ys) = all_events st c xs @ all_events st c ys"
  "all_events st c (x # xs) = cb_events st (pdu_at c x) @ all_events st c xs"
  by (simp_all add: all_events_def)

text \<open>A PDU that has left its queue and is called back, with or without giving its CmdSN back.\<close>

lemma finish_pdu_cmdsn:
  assumes "queues_ok c" "ctx_pdus c i \<noteq> None" "i \<notin> set (ctx_outqueue c)" "i \<notin> set (ctx_waitpdu c)"
  shows "\<exists>c1 c'. pdu_callback_call st i c = Some c1 \<and> ctx_pdus c1 = ctx_pdus c \<and>
    iscsi_tcp_free_pdu i (c1\<lparr>ctx_cmdsn := ctx_cmdsn c1 - k\<rparr>) = Some c' \<and> queues_ok c' \<and>
    ctx_outqueue c' = ctx_outqueue c \<and> ctx_waitpdu c' = ctx_waitpdu c \<and>
    ctx_cmdsn c' = ctx_cmdsn c - k \<and>
    ctx_trace c' = ctx_trace c @ cb_events st (pdu_at c i) \<and> ctx_pdus c' = (ctx_pdus c)(i := None)"
proof -
  obtain c1 c' where f: "pdu_callback_call st i c = Some c1" "ctx_pdus c1 = ctx_pdus c"
    "iscsi_tcp_free_pdu i c1 = Some c'" "queues_ok c'"
    "ctx_outqueue c' = ctx_outqueue c" "ctx_waitpdu c' = ctx_waitpdu c" "ctx_cmdsn c' = ctx_cmdsn c"
    "ctx_trace c' = ctx_trace c @ cb_events st (pdu_at c i)" "ctx_pdus c' = (ctx_pdus c)(i := None)"
    using finish_pdu [OF assms] by blast
  obtain p where "ctx_pdus c1 i = Some p" using assms(2) f(2) by auto
  then have "iscsi_tcp_free_pdu i (c1\<lparr>ctx_cmdsn := ctx_cmdsn c1 - k\<rparr>) = Some (c'\<lparr>ctx_cmdsn := ctx_cmdsn c1 - k\<rparr>)"
    "ctx_cmdsn c1 = ctx_cmdsn c'"
    using f(3) by (auto simp: iscsi_tcp_free_pdu_frame)
  moreover have "queues_ok (c'\<lparr>ctx_cmdsn := n\<rparr>)" for n
    using f(4) by (simp add: queues_ok_def)
  ultimately show ?thesis using f by auto
qed

lemma cancel_outqueue_walk:
  assumes "queues_ok c"
  shows "\<exists>c'. mfold cancel_outqueue_step (ctx_outqueue c) c = Some c' \<and> queues_ok c' \<and>
    ctx_outqueue c' = [] \<and> ctx_waitpdu c' = ctx_waitpdu c \<and>
    ctx_trace c' = ctx_trace c @ all_events SCSI_STATUS_CANCELLED c (ctx_outqueue c) \<and>
    ctx_pdus c' = (\<lambda>i. if i \<in> set (ctx_outqueue c) then None else ctx_pdus c i) \<and>
    ctx_cmdsn c' = ctx_cmdsn c - of_nat (length (cmd_sns (pdu_at c) (ctx_outqueue c)))"
proof -
  define P where "P rest c' \<longleftrightarrow> (\<exists>dn. ctx_outqueue c = dn @ rest \<and> queues_ok c' \<and>
    ctx_outqueue c' = rest \<and> ctx_waitpdu c' = ctx_waitpdu c \<and>
    ctx_trace c' = ctx_trace c @ all_events SCSI_STATUS_CANCELLED c dn \<and>
    ctx_pdus c' = (\<lambda>i. if i \<in> set dn then None else ctx_pdus c i) \<and>
    ctx_cmdsn c' = ctx_cmdsn c - of_nat (length (cmd_sns (pdu_at c) dn)))" for rest c'
  have step: "\<exists>s'. cancel_outqueue_step x s = Some s' \<and> P xs s'" if "P (x # xs) s" for x xs s
  proof -
    from that obtain dn where s: "ctx_outqueue c = dn @ x # xs" "queues_ok s"
      "ctx_outqueue s = x # xs" "ctx_waitpdu s = ctx_waitpdu c"
      "ctx_trace s = ctx_trace c @ all_events SCSI_STATUS_CANCELLED c dn"
      "ctx_pdus s = (\<lambda>i. if i \<in> set dn then None else ctx_pdus c i)"
      "ctx_cmdsn s = ctx_cmdsn c - of_nat (length (cmd_sns (pdu_at c) dn))"
      unfolding P_def by blast
    have x: "x \<notin> set dn" "x \<notin> set xs" "x \<notin> set (ctx_waitpdu c)" "ctx_pdus s x = ctx_pdus c x"
      using queues_okD(1,3) [OF assms] s(1,6) by auto
    let ?s = "s\<lparr>ctx_outqueue := xs\<rparr>"
    have "queues_ok ?s" using s(2,3) by (auto simp: queues_ok_def)
    moreover have "ctx_pdus ?s x \<noteq> None" using queues_okD(4) [OF s(2)] s(3) by simp
    ultimately obtain c1 c' where f: "pdu_callback_call SCSI_STATUS_CANCELLED x ?s = Some c1"
      "ctx_pdus c1 = ctx_pdus ?s"
      "iscsi_tcp_free_pdu x (c1\<lparr>ctx_cmdsn := ctx_cmdsn c1 - (if is_cmd (pdu_at c x) then 1 else 0)\<rparr>) = Some c'"
      "queues_ok c'" "ctx_outqueue c' = xs" "ctx_waitpdu c' = ctx_waitpdu s"
      "ctx_cmdsn c' = ctx_cmdsn s - (if is_cmd (pdu_at c x) then 1 else 0)"
      "ctx_trace c' = ctx_trace s @ cb_events SCSI_STATUS_CANCELLED (pdu_at c x)"
      "ctx_pdus c' = (ctx_pdus s)(x := None)"
      using finish_pdu_cmdsn [of ?s x SCSI_STATUS_CANCELLED "if is_cmd (pdu_at c x) then 1 else 0"] x s(4)
      by (auto simp: pdu_at_def)
    obtain p where p: "ctx_pdus c1 x = Some p" "pdu_at c x = p"
      using \<open>ctx_pdus ?s x \<noteq> None\<close> f(2) x(4) by (auto simp: pdu_at_def)
    have "cancel_outqueue_step x s = Some c'"
      using s(3) f(1,3) p by (cases "is_cmd p") (simp_all add: cancel_outqueue_step_def)
    moreover have "P xs c'"
      unfolding P_def by (rule exI [of _ "dn @ [x]"]) (use s f in auto)
    ultimately show ?thesis by blast
  qed
  have "P (ctx_outqueue c) c" unfolding P_def by (rule exI [of _ "[]"]) (use assms in auto)
  then have "\<exists>s. mfold cancel_outqueue_step (ctx_outqueue c) c = Some s \<and> P [] s"
    by (rule mfold_induct [rotated]) (rule step)
  then show ?thesis by (auto simp: P_def)
qed

lemma cancel_waitpdu_walk:
  assumes "queues_ok c" "ctx_waitpdu c = []" "distinct q"
    "\<forall>i \<in> set q. ctx_pdus c i \<noteq> None \<and> i \<notin> set (ctx_outqueue c)"
  shows "\<exists>c'. mfold cancel_waitpdu_step q c = Some c' \<and> queues_ok c' \<and>
    ctx_outqueue c' = ctx_outqueue c \<and> ctx_waitpdu c' = [] \<and>
    ctx_trace c' = ctx_trace c @ all_events SCSI_STATUS_CANCELLED c q \<and>
    ctx_pdus c' = (\<lambda>i. if i \<in> set q then None else ctx_pdus c i) \<and> ctx_cmdsn c' = ctx_cmdsn c"
proof -
  define P where "P rest c' \<longleftrightarrow> (\<exists>dn. q = dn @ rest \<and> queues_ok c' \<and>
    ctx_outqueue c' = ctx_outqueue c \<and> ctx_waitpdu c' = [] \<and>
    ctx_trace c' = ctx_trace c @ all_events SCSI_STATUS_CANCELLED c dn \<and>
    ctx_pdus c' = (\<lambda>i. if i \<in> set dn then None else ctx_pdus c i) \<and> ctx_cmdsn c' = ctx_cmdsn c)" for rest c'
  have step: "\<exists>s'. cancel_waitpdu_step x s = Some s' \<and> P xs s'" if "P (x # xs) s" for x xs s
  proof -
    from that obtain dn where s: "q = dn @ x # xs" "queues_ok s"
      "ctx_outqueue s = ctx_outqueue c" "ctx_waitpdu s = []"
      "ctx_trace s = ctx_trace c @ all_events SCSI_STATUS_CANCELLED c dn"
      "ctx_pdus s = (\<lambda>i. if i \<in> set dn then None else ctx_pdus c i)" "ctx_cmdsn s = ctx_cmdsn c"
      unfolding P_def by blast
    then have x: "x \<notin> set dn" "ctx_pdus s x \<noteq> None" "x \<notin> set (ctx_outqueue s)" "x \<notin> set (ctx_waitpdu s)"
      using assms(3,4) by auto
    from finish_pdu [OF s(2) x(2-4), of SCSI_STATUS_CANCELLED] obtain c' where
      f: "cancel_waitpdu_step x s = Some c'" "queues_ok c'" "ctx_outqueue c' = ctx_outqueue s"
      "ctx_waitpdu c' = ctx_waitpdu s" "ctx_cmdsn c' = ctx_cmdsn s"
      "ctx_trace c' = ctx_trace s @ cb_events SCSI_STATUS_CANCELLED (pdu_at s x)"
      "ctx_pdus c' = (ctx_pdus s)(x := None)"
      by (auto simp: cancel_waitpdu_step_def)
    have "P xs c'"
      unfolding P_def by (rule exI [of _ "dn @ [x]"]) (use s f x(1) in \<open>auto simp: pdu_at_def\<close>)
    with f(1) show ?thesis by blast
  qed
  have "P q c" unfolding P_def by (rule exI [of _ "[]"]) (use assms in auto)
  then have "\<exists>s. mfold cancel_waitpdu_step q c = Some s \<and> P [] s"
    by (rule mfold_induct [rotated]) (rule step)
  then show ?thesis by (auto simp: P_def)
qed

lemma iscsi_cancel_pdus_result:
  assumes "queues_ok c"
  shows "\<exists>c'. iscsi_cancel_pdus c = Some c' \<and> queues_ok c' \<and>
    ctx_outqueue c' = [] \<and> ctx_waitpdu c' = [] \<and>
    ctx_trace c' = ctx_trace c @ all_events SCSI_STATUS_CANCELLED c (ctx_outqueue c @ ctx_waitpdu c) \<and>
    ctx_pdus c' = (\<lambda>i. if i \<in> set (ctx_outqueue c @ ctx_waitpdu c) then None else ctx_pdus c i) \<and>
    ctx_cmdsn c' = ctx_cmdsn c - of_nat (length (cmd_sns (pdu_at c) (ctx_outqueue c)))"
proof -
  obtain c1 where 1: "mfold cancel_outqueue_step (ctx_outqueue c) c = Some c1" "queues_ok c1"
    "ctx_outqueue c1 = []" "ctx_waitpdu c1 = ctx_waitpdu c"
    "ctx_trace c1 = ctx_trace c @ all_events SCSI_STATUS_CANCELLED c (ctx_outqueue c)"
    "ctx_pdus c1 = (\<lambda>i. if i \<in> set (ctx_outqueue c) then None else ctx_pdus c i)"
    "ctx_cmdsn c1 = ctx_cmdsn c - of_nat (length (cmd_sns (pdu_at c) (ctx_outqueue c)))"
    using cancel_outqueue_walk [OF assms] by blast
  let ?c1 = "c1\<lparr>ctx_waitpdu := []\<rparr>"
  have "queues_ok ?c1" using 1(2) by (auto simp: queues_ok_def)
  moreover have "\<forall>i \<in> set (ctx_waitpdu c). ctx_pdus ?c1 i \<noteq> None \<and> i \<notin> set (ctx_outqueue ?c1)"
    using queues_okD(5) [OF 1(2)] 1(3,4) by auto
  ultimately obtain c' where 2: "mfold cancel_waitpdu_step (ctx_waitpdu c) ?c1 = Some c'" "queues_ok c'"
    "ctx_outqueue c' = []" "ctx_waitpdu c' = []"
    "ctx_trace c' = ctx_trace c1 @ all_events SCSI_STATUS_CANCELLED ?c1 (ctx_waitpdu c)"
    "ctx_pdus c' = (\<lambda>i. if i \<in> set (ctx_waitpdu c) then None else ctx_pdus ?c1 i)"
    "ctx_cmdsn c' = ctx_cmdsn c1"
    using cancel_waitpdu_walk [of ?c1 "ctx_waitpdu c"] queues_okD(2) [OF assms] 1(3) by auto
  have "pdu_at ?c1 i = pdu_at c i" if "i \<in> set (ctx_waitpdu c)" for i
    using that queues_okD(3) [OF assms] 1(6) by (auto simp: pdu_at_def)
  then have "all_events SCSI_STATUS_CANCELLED ?c1 (ctx_waitpdu c) = all_events SCSI_STATUS_CANCELLED c (ctx_waitpdu c)"
    by (simp add: all_events_def cong: map_cong)
  with 1 2 show ?thesis by (auto simp: iscsi_cancel_pdus_def Let_def fun_eq_iff)
qed


section \<open>Cancelling one task\<close>

lemma cancel_task_walk:
  assumes "queues_ok c"
  shows "mfold (cancel_task_step itt) (ctx_outqueue c) (c, []) =
    Some (c\<lparr>ctx_outqueue := filter (\<lambda>i. pdu_itt (pdu_at c i) \<noteq> itt) (ctx_outqueue c)\<rparr>,
      filter (\<lambda>i. pdu_itt (pdu_at c i) = itt) (ctx_outqueue c))"
proof -
  let ?in = "\<lambda>i. pdu_itt (pdu_at c i) = itt"
  define P where "P rest s \<longleftrightarrow> (\<exists>dn. ctx_outqueue c = dn @ rest \<and>
    s = (c\<lparr>ctx_outqueue := filter (\<lambda>i. \<not> ?in i) dn @ rest\<rparr>, filter ?in dn))" for rest s
  have step: "\<exists>s'. cancel_task_step itt x s = Some s' \<and> P xs s'" if "P (x # xs) s" for x xs s
  proof -
    from that obtain dn where s: "ctx_outqueue c = dn @ x # xs"
      "s = (c\<lparr>ctx_outqueue := filter (\<lambda>i. \<not> ?in i) dn @ x # xs\<rparr>, filter ?in dn)"
      unfolding P_def by blast
    then have x: "x \<notin> set dn" "ctx_pdus c x \<noteq> None"
      using queues_okD(1,4) [OF assms] by auto
    then obtain p where p: "ctx_pdus c x = Some p" "pdu_at c x = p" by (auto simp: pdu_at_def)
    have "remove1 x (filter (\<lambda>i. \<not> ?in i) dn @ x # xs) = filter (\<lambda>i. \<not> ?in i) dn @ xs"
      using x by (simp add: remove1_append)
    then have "\<exists>s'. cancel_task_step itt x s = Some s' \<and>
        s' = (c\<lparr>ctx_outqueue := filter (\<lambda>i. \<not> ?in i) (dn @ [x]) @ xs\<rparr>, filter ?in (dn @ [x]))"
      using p s(2) by (simp add: cancel_task_step_def move_outqueue_def list_add_end_def)
    moreover have "ctx_outqueue c = (dn @ [x]) @ xs" using s(1) by simp
    ultimately show ?thesis unfolding P_def by blast
  qed
  have "P (ctx_outqueue c) (c, [])" unfolding P_def by (rule exI [of _ "[]"]) simp
  then have "\<exists>s. mfold (cancel_task_step itt) (ctx_outqueue c) (c, []) = Some s \<and> P [] s"
    by (rule mfold_induct [rotated]) (rule step)
  then show ?thesis by (auto simp: P_def)
qed

lemma counts_up_last: "counts_up s xs e \<Longrightarrow> xs \<noteq> [] \<Longrightarrow> last xs + 1 = e"
  by (induction xs arbitrary: s) auto

lemma last_cmd_sns: "cmd_sns f ys \<noteq> [] \<Longrightarrow> last (cmd_sns f (xs @ ys)) = last (cmd_sns f ys)"
  by simp

text \<open>Cancelling a command that has not been sent yet.\<close>

lemma iscsi_scsi_cancel_task_queued:
  assumes "queues_ok c" "ctx_outqueue c = xs @ i # ys" "pdu_itt (pdu_at c i) = itt"
    "\<forall>j \<in> set (ctx_waitpdu c @ xs @ ys). pdu_itt (pdu_at c j) \<noteq> itt" "itt = task_itt (ctx_tasks c t)"
  shows "\<exists>c'. iscsi_scsi_cancel_task t c = Some (0, c') \<and> queues_ok c' \<and>
    ctx_outqueue c' = xs @ ys \<and> ctx_waitpdu c' = ctx_waitpdu c \<and>
    ctx_trace c' = ctx_trace c @ cb_events SCSI_STATUS_CANCELLED (pdu_at c i) \<and>
    ctx_cmdsn c' = ctx_cmdsn c - (if is_cmd (pdu_at c i) then 1 else 0) \<and>
    ctx_pdus c' = (ctx_pdus c)(i := None)"
proof -
  let ?c1 = "c\<lparr>ctx_outqueue := xs @ ys\<rparr>"
  have i: "i \<notin> set (xs @ ys)" "ctx_pdus c i \<noteq> None" "i \<notin> set (ctx_waitpdu c)"
    using queues_okD(1,3,4) [OF assms(1)] assms(2) by auto
  have "find (\<lambda>j. pdu_itt (pdu_at c j) = itt) (ctx_waitpdu c) = None"
    using assms(4) by (simp add: find_None_iff)
  then have w: "find_pdu (\<lambda>p. pdu_itt p = itt) (ctx_waitpdu c) c = Some NULL"
    by (simp add: find_pdu_live queues_okD(5) [OF assms(1)])
  have f: "filter (\<lambda>i. pdu_itt (pdu_at c i) = itt) (ctx_outqueue c) = [i]"
    "filter (\<lambda>i. pdu_itt (pdu_at c i) \<noteq> itt) (ctx_outqueue c) = xs @ ys"
    using assms(2-4) by (auto simp: filter_empty_conv)
  have "queues_ok ?c1" using assms(1,2) by (auto simp: queues_ok_def)
  then obtain c1 c' where g: "pdu_callback_call SCSI_STATUS_CANCELLED i ?c1 = Some c1" "ctx_pdus c1 = ctx_pdus c"
    "iscsi_tcp_free_pdu i (c1\<lparr>ctx_cmdsn := ctx_cmdsn c1 - (if is_cmd (pdu_at c i) then 1 else 0)\<rparr>) = Some c'"
    "queues_ok c'" "ctx_outqueue c' = xs @ ys" "ctx_waitpdu c' = ctx_waitpdu c"
    "ctx_cmdsn c' = ctx_cmdsn c - (if is_cmd (pdu_at c i) then 1 else 0)"
    "ctx_trace c' = ctx_trace c @ cb_events SCSI_STATUS_CANCELLED (pdu_at c i)"
    "ctx_pdus c' = (ctx_pdus c)(i := None)"
    using finish_pdu_cmdsn [of ?c1 i SCSI_STATUS_CANCELLED "if is_cmd (pdu_at c i) then 1 else 0"] i
    by (auto simp: pdu_at_def)
  obtain p where p: "ctx_pdus c1 i = Some p" "pdu_at c i = p" using i(2) g(2) by (auto simp: pdu_at_def)
  have "iscsi_scsi_cancel_task t c = Some (0, c')"
    using g(1,3) p w cancel_task_walk [OF assms(1), of itt] f assms(5)
    by (cases "is_cmd p") (simp_all add: iscsi_scsi_cancel_task_def)
  with g show ?thesis by blast
qed

section \<open>Properties\<close>

text \<open>
  C11: \<open>iscsi_cancel_pdus\<close> is defined on every well-formed context, leaves both queues empty, frees
  every queued PDU and only these, calls each callback once with \<open>SCSI_STATUS_CANCELLED\<close>, in the
  order of the outqueue and then the wait queue, and takes back exactly the CmdSNs of the
  commands that were never sent.
\<close>

theorem iscsi_cancel_pdus_cancels_all:
  assumes "queues_ok c"
  shows "\<exists>c'. iscsi_cancel_pdus c = Some c' \<and> queues_ok c' \<and>
    ctx_outqueue c' = [] \<and> ctx_waitpdu c' = [] \<and>
    ctx_trace c' = ctx_trace c @ all_events SCSI_STATUS_CANCELLED c (ctx_outqueue c @ ctx_waitpdu c) \<and>
    ctx_pdus c' = (\<lambda>i. if i \<in> set (ctx_outqueue c @ ctx_waitpdu c) then None else ctx_pdus c i) \<and>
    ctx_cmdsn c' = ctx_cmdsn c - of_nat (length (cmd_sns (pdu_at c) (ctx_outqueue c)))"
  using assms by (rule iscsi_cancel_pdus_result)

text \<open>
  C12: \<open>iscsi_timeout_scan\<close> takes exactly the expired commands \<open>E\<close> off the outqueue and the expired
  PDUs \<open>W\<close> off the wait queue, writes with DATA-OUTs that are still to be sent excepted; it lowers
  the session's CmdSN by the number of commands that were never sent and closes the gaps they
  leave, so that gapless CmdSNs stay gapless. But it reports and frees only the first PDU of each
  of the two lists: the callbacks of the others are never called, and their PDUs stay allocated
  on no queue.
\<close>

theorem iscsi_timeout_scan_completes_first_only:
  fixes t :: int
  assumes "queues_ok c"
  defines "E \<equiv> filter (\<lambda>i. expired t (pdu_at c i) \<and> is_cmd (pdu_at c i)) (ctx_outqueue c)"
  defines "W \<equiv> filter (\<lambda>i. expired t (pdu_at c i) \<and>
    \<not> data_out_left c (filter (\<lambda>j. j \<notin> set E) (ctx_outqueue c)) i) (ctx_waitpdu c)"
  shows "\<exists>c'. iscsi_timeout_scan t c = Some c' \<and> queues_ok c' \<and>
    ctx_outqueue c' = filter (\<lambda>i. i \<notin> set E) (ctx_outqueue c) \<and>
    ctx_waitpdu c' = filter (\<lambda>i. i \<notin> set W) (ctx_waitpdu c) \<and>
    ctx_cmdsn c' = ctx_cmdsn c - of_nat (length E) \<and> (gapless c \<longrightarrow> gapless c') \<and>
    ctx_trace c' = ctx_trace c @ first_events SCSI_STATUS_TIMEOUT c E @ first_events SCSI_STATUS_TIMEOUT c W \<and>
    (\<forall>i. ctx_pdus c' i = None \<longleftrightarrow> ctx_pdus c i = None \<or> i \<in> set (take 1 E @ take 1 W))"
  using iscsi_timeout_scan_events [OF assms(1), of t] unfolding E_def W_def .

text \<open>
  C38: cancelling a queued command with another command queued behind it breaks the CmdSN
  sequence: the session's counter goes back by one, the commands behind it keep their numbers,
  and the last of them has the number that the next new command will be given.
\<close>

theorem iscsi_scsi_cancel_task_duplicates_cmdsn:
  assumes "queues_ok c" "gapless c" "ctx_outqueue c = xs @ i # ys"
    "pdu_itt (pdu_at c i) = task_itt (ctx_tasks c t)" "is_cmd (pdu_at c i)"
    "\<forall>j \<in> set (ctx_waitpdu c @ xs @ ys). pdu_itt (pdu_at c j) \<noteq> task_itt (ctx_tasks c t)"
    "cmd_sns (pdu_at c) ys \<noteq> []"
  shows "\<exists>c'. iscsi_scsi_cancel_task t c = Some (0, c') \<and> ctx_outqueue c' = xs @ ys \<and>
    ctx_cmdsn c' = ctx_cmdsn c - 1 \<and> last (cmd_sns (pdu_at c') (ctx_outqueue c')) = ctx_cmdsn c' \<and>
    \<not> gapless c'"
proof -
  obtain c' where c': "iscsi_scsi_cancel_task t c = Some (0, c')" "ctx_outqueue c' = xs @ ys"
    "ctx_cmdsn c' = ctx_cmdsn c - 1" "ctx_pdus c' = (ctx_pdus c)(i := None)"
    using iscsi_scsi_cancel_task_queued [OF assms(1,3,4,6) refl] assms(5) by auto
  have "i \<notin> set (xs @ ys)" using queues_okD(1) [OF assms(1)] assms(3) by auto
  then have sns: "cmd_sns (pdu_at c') (xs @ ys) = cmd_sns (pdu_at c) (xs @ ys)"
    by (intro cmd_sns_cong) (auto simp: pdu_at_def c'(4))
  obtain s where "counts_up s (cmd_sns (pdu_at c) (ctx_outqueue c)) (ctx_cmdsn c)"
    using assms(2) by (auto simp: gapless_def)
  from counts_up_last [OF this] have "last (cmd_sns (pdu_at c) ys) + 1 = ctx_cmdsn c"
    using assms(3,7) by simp
  then have "last (cmd_sns (pdu_at c) ys) = ctx_cmdsn c'"
    unfolding c'(3) by (metis add_diff_cancel_right')
  then have l: "last (cmd_sns (pdu_at c') (ctx_outqueue c')) = ctx_cmdsn c'"
    using assms(7) sns c'(2) by simp
  have ne: "cmd_sns (pdu_at c') (ctx_outqueue c') \<noteq> []" using assms(7) sns c'(2) by simp
  have "\<not> gapless c'"
  proof
    assume "gapless c'"
    then have "last (cmd_sns (pdu_at c') (ctx_outqueue c')) + 1 = ctx_cmdsn c'"
      using counts_up_last ne by (auto simp: gapless_def)
    with l show False by simp
  qed
  with c' l show ?thesis by blast
qed

section \<open>Witnesses\<close>

text \<open>Two commands on the outqueue, with the CmdSNs 7 and 8 and a time limit.\<close>

definition demo_cmd :: "nat \<Rightarrow> u32 \<Rightarrow> iscsi_pdu" where
  "demo_cmd cb n = zero_pdu\<lparr>pdu_itt := n, pdu_cmdsn := n, pdu_callback := Ptr (App_cb cb),
     pdu_scsi_timeout := 5, pdu_outdata := \<lparr>data_bytes = ISCSI_PDU_SCSI_REQUEST # replicate 47 0, data_size = 48\<rparr>\<rparr>"

definition demo_context :: iscsi_context where
  "demo_context = zero_context\<lparr>ctx_cmdsn := 9, ctx_outqueue := [3, 4],
     ctx_pdus := [3 \<mapsto> demo_cmd 11 7, 4 \<mapsto> demo_cmd 12 8],
     ctx_tasks := (\<lambda>_. zero_task\<lparr>task_itt := 7\<rparr>)\<rparr>"

lemma demo_simps:
  "ctx_outqueue demo_context = [3, 4]" "ctx_waitpdu demo_context = []" "ctx_trace demo_context = []"
  "pdu_at demo_context 3 = demo_cmd 11 7" "pdu_at demo_context 4 = demo_cmd 12 8"
  "ctx_pdus demo_context = [3 \<mapsto> demo_cmd 11 7, 4 \<mapsto> demo_cmd 12 8]" "ctx_cmdsn demo_context = 9"
  "is_cmd (demo_cmd a n)" "pdu_cmdsn (demo_cmd a n) = n" "pdu_itt (demo_cmd a n) = n"
  "expired 10 (demo_cmd a n)" "cb_events st (demo_cmd a n) = [Callback a st]"
  "task_itt (ctx_tasks demo_context t) = 7"
  by (simp_all add: demo_context_def pdu_at_def zero_context_def demo_cmd_def zero_pdu_def is_cmd_def
      is_immediate_def is_data_out_def pdu_byte0_def expired_def cb_events_def)

lemma demo_ok: "queues_ok demo_context"
  by (auto simp: queues_ok_def demo_context_def zero_context_def pdu_ok_def demo_cmd_def)

lemma demo_gapless: "gapless demo_context"
  unfolding gapless_def by (rule exI [of _ 7]) (simp add: demo_simps)

theorem iscsi_cancel_pdus_cancels_all_witness:
  "\<exists>c'. iscsi_cancel_pdus demo_context = Some c' \<and> ctx_outqueue c' = [] \<and> ctx_cmdsn c' = 7 \<and>
    ctx_trace c' = [Callback 11 SCSI_STATUS_CANCELLED, Callback 12 SCSI_STATUS_CANCELLED]"
  using iscsi_cancel_pdus_cancels_all [OF demo_ok] by (auto simp: demo_simps)

theorem iscsi_timeout_scan_completes_first_only_witness:
  "\<exists>c'. iscsi_timeout_scan 10 demo_context = Some c' \<and> ctx_outqueue c' = [] \<and> ctx_cmdsn c' = 7 \<and>
    ctx_trace c' = [Callback 11 SCSI_STATUS_TIMEOUT] \<and> ctx_pdus c' 3 = None \<and> ctx_pdus c' 4 \<noteq> None"
proof -
  obtain c' where c': "iscsi_timeout_scan 10 demo_context = Some c'" "ctx_outqueue c' = []"
    "ctx_cmdsn c' = 7" "ctx_trace c' = [Callback 11 SCSI_STATUS_TIMEOUT]"
    and gone: "\<forall>i. ctx_pdus c' i = None \<longleftrightarrow> ctx_pdus demo_context i = None \<or> i = 3"
    using iscsi_timeout_scan_completes_first_only [OF demo_ok, of 10]
    by (auto simp: demo_simps(1-5,7-) first_events_def simp del: not_None_eq)
  from gone [rule_format, of 3] gone [rule_format, of 4] have "ctx_pdus c' 3 = None" "ctx_pdus c' 4 \<noteq> None"
    by (simp_all add: demo_simps)
  with c' show ?thesis by blast
qed

theorem iscsi_scsi_cancel_task_duplicates_cmdsn_witness:
  "\<exists>c'. iscsi_scsi_cancel_task 0 demo_context = Some (0, c') \<and> ctx_outqueue c' = [4] \<and>
    ctx_cmdsn c' = 8 \<and> \<not> gapless c'"
  using iscsi_scsi_cancel_task_duplicates_cmdsn [OF demo_ok demo_gapless, of "[]" 3 "[4]" 0]
  by (auto simp: demo_simps)

end
