(* ===== verification/Iscsi_Iovec.thy ===== *)
theory Iscsi_Iovec
  imports Scsi_Task
begin

text \<open>
  \<open>iscsi_iovector_readv_writev\<close> of \<open>lib/socket.c\<close>: which part of the application's buffers a
  transfer of \<open>count\<close> bytes at the position \<open>pos\<close> of a task uses. The function remembers in the
  vector how many entries were passed for good (\<open>consumed\<close>) and how many bytes they hold
  (\<open>offset\<close>), clips the first and the last entry for the system call and restores them after it.
  The model returns the segments given to \<open>readv\<close> or \<open>writev\<close> and the vector after the call; NULL
  is the result -1 without a system call and \<open>None\<close> an access outside the array.
\<close>

section \<open>The two walks\<close>

text \<open>
  \<open>while (pos >= iov->iov_len)\<close>, from the entry \<open>consumed\<close> on. The walk over the rest of the array
  gives the new \<open>consumed\<close> and \<open>offset\<close>, and the remaining position with the entries from the one it
  falls into, or NULL when the entries run out.
\<close>

fun iov_head :: "scsi_iovec list \<Rightarrow> nat \<Rightarrow> nat \<Rightarrow> nat \<Rightarrow> nat \<times> nat \<times> (nat \<times> scsi_iovec list) ptr" where
  "iov_head [] k offset pos = (k, offset, NULL)"
| "iov_head (e # es) k offset pos =
     (if iov_len e \<le> pos then iov_head es (k + 1) (offset + iov_len e) (pos - iov_len e)
      else (k, offset, Ptr (pos, e # es)))"

text \<open>\<open>while (len2 > iov2->iov_len)\<close>, then the last entry is clipped to \<open>len2\<close>.\<close>

fun iov_tail :: "scsi_iovec list \<Rightarrow> nat \<Rightarrow> scsi_iovec list ptr" where
  "iov_tail [] len2 = NULL"
| "iov_tail (e # es) len2 =
     (if iov_len e < len2
      then (case iov_tail es (len2 - iov_len e) of NULL \<Rightarrow> NULL | Ptr segs \<Rightarrow> Ptr (e # segs))
      else Ptr [e\<lparr>iov_len := len2\<rparr>])"

fun clip_first :: "nat \<Rightarrow> scsi_iovec list \<Rightarrow> scsi_iovec list" where
  "clip_first pos [] = []"
| "clip_first pos (e # es) = e\<lparr>iov_base := iov_base e + pos, iov_len := iov_len e - pos\<rparr> # es"

text \<open>\<open>len2 = pos + count\<close> is computed in 32 bits.\<close>

definition iscsi_iovector_segments ::
  "scsi_iovector \<Rightarrow> nat \<Rightarrow> nat \<Rightarrow> (scsi_iovector \<times> scsi_iovec list ptr) option" where
  "iscsi_iovector_segments v pos count =
     (case iov v of
        NULL \<Rightarrow> Some (v, NULL)
      | Ptr arr \<Rightarrow>
          if pos < iov_offset v then Some (v, NULL)
          else if niov v \<le> consumed v then Some (v, NULL)
          else if length arr < niov v then None
          else case iov_head (drop (consumed v) (take (niov v) arr)) (consumed v) (iov_offset v)
                      (pos - iov_offset v) of
            (k, off, r) \<Rightarrow>
              let v' = v\<lparr>consumed := k, iov_offset := off\<rparr>
              in case r of
                   NULL \<Rightarrow> Some (v', NULL)
                 | Ptr (p, es) \<Rightarrow>
                     (case iov_tail es ((p + count) mod 2 ^ 32) of
                        NULL \<Rightarrow> Some (v', NULL)
                      | Ptr segs \<Rightarrow> Some (v', Ptr (clip_first p segs))))"

section \<open>The addresses of a vector\<close>

definition iov_addrs :: "scsi_iovec list \<Rightarrow> nat list" where
  "iov_addrs es = concat (map (\<lambda>e. [iov_base e ..< iov_base e + iov_len e]) es)"

lemma iov_addrs_simps [simp]:
  "iov_addrs [] = []" "iov_addrs (e # es) = [iov_base e ..< iov_base e + iov_len e] @ iov_addrs es"
  "iov_addrs (es @ fs) = iov_addrs es @ iov_addrs fs"
  by (simp_all add: iov_addrs_def)

text \<open>What \<open>offset\<close> and \<open>consumed\<close> mean: the bytes of the entries that were passed.\<close>

definition iov_window :: "scsi_iovector \<Rightarrow> bool" where
  "iov_window v \<longleftrightarrow> (case iov v of NULL \<Rightarrow> consumed v = 0 \<and> iov_offset v = 0
     | Ptr arr \<Rightarrow> niov v \<le> length arr \<and> consumed v \<le> niov v \<and>
         iov_offset v = length (iov_addrs (take (consumed v) arr)))"

lemma iov_head_spec:
  assumes "pos < length (iov_addrs es)"
  obtains k p fs where
    "iov_head es m offset pos = (m + k, offset + length (iov_addrs (take k es)), Ptr (p, fs))"
    "drop k es = fs" "k < length es" "pos = length (iov_addrs (take k es)) + p" "p < iov_len (hd fs)"
  using assms
proof (induction es arbitrary: m offset pos thesis)
  case (Cons e es)
  show ?case
  proof (cases "iov_len e \<le> pos")
    case True
    then have "pos - iov_len e < length (iov_addrs es)" using Cons.prems(2) by simp
    from Cons.IH [OF _ this] obtain k p fs where
      "iov_head es (m + 1) (offset + iov_len e) (pos - iov_len e) =
        (m + 1 + k, offset + iov_len e + length (iov_addrs (take k es)), Ptr (p, fs))"
      "drop k es = fs" "k < length es" "pos - iov_len e = length (iov_addrs (take k es)) + p" "p < iov_len (hd fs)"
      by metis
    with True show ?thesis by (intro Cons.prems(1) [of "Suc k" p fs]) auto
  next
    case False
    then show ?thesis by (intro Cons.prems(1) [of 0 pos "e # es"]) auto
  qed
qed simp

lemma iov_tail_spec:
  assumes "len2 \<le> length (iov_addrs es)" "es \<noteq> []"
  shows "\<exists>segs. iov_tail es len2 = Ptr segs \<and> iov_addrs segs = take len2 (iov_addrs es) \<and> segs \<noteq> [] \<and>
    iov_base (hd segs) = iov_base (hd es) \<and> (p \<le> iov_len (hd es) \<and> p \<le> len2 \<longrightarrow> p \<le> iov_len (hd segs))"
  using assms
proof (induction es arbitrary: len2)
  case (Cons e es)
  show ?case
  proof (cases "iov_len e < len2")
    case True
    then have "es \<noteq> []" "len2 - iov_len e \<le> length (iov_addrs es)" using Cons.prems by auto
    with Cons.IH obtain segs where "iov_tail es (len2 - iov_len e) = Ptr segs"
      "iov_addrs segs = take (len2 - iov_len e) (iov_addrs es)" by blast
    with True show ?thesis by simp
  next
    case False
    then show ?thesis by (simp add: take_upt)
  qed
qed simp

lemma iov_addrs_clip_first:
  assumes "segs \<noteq> []" "p \<le> iov_len (hd segs)"
  shows "iov_addrs (clip_first p segs) = drop p (iov_addrs segs)"
  using assms by (cases segs) (auto simp: drop_upt)

lemma iov_segments_window:
  assumes "iov_window v" "iov_offset v \<le> pos" "0 < count" "pos + count \<le> length (iov_addrs (iov_entries v))"
    "length (iov_addrs (iov_entries v)) < 2 ^ 32"
  shows "\<exists>v' segs. iscsi_iovector_segments v pos count = Some (v', Ptr segs) \<and>
    iov_addrs segs = take count (drop pos (iov_addrs (iov_entries v))) \<and>
    iov v' = iov v \<and> iov_entries v' = iov_entries v \<and> iov_window v' \<and> iov_offset v' \<le> pos"
proof -
  obtain arr where arr: "iov v = Ptr arr" "niov v \<le> length arr" "consumed v \<le> niov v"
    "iov_offset v = length (iov_addrs (take (consumed v) arr))"
    using assms(1,3,4) by (auto simp: iov_window_def iov_entries_def split: ptr.splits)
  let ?all = "take (niov v) arr"
  let ?rest = "drop (consumed v) ?all"
  have all: "?all = take (consumed v) arr @ ?rest"
    using arr(3) by (metis append_take_drop_id min.absorb2 min.commute take_take)
  have entries: "iov_entries v = ?all" using arr(1) by (simp add: iov_entries_def)
  have len: "length (iov_addrs ?all) = iov_offset v + length (iov_addrs ?rest)"
    using arr(4) by (subst all) simp
  then have "pos - iov_offset v < length (iov_addrs ?rest)" using assms(2-4) entries by simp
  then obtain k p fs where h: "iov_head ?rest (consumed v) (iov_offset v) (pos - iov_offset v) =
      (consumed v + k, iov_offset v + length (iov_addrs (take k ?rest)), Ptr (p, fs))"
    "drop k ?rest = fs" "k < length ?rest" "pos - iov_offset v = length (iov_addrs (take k ?rest)) + p"
    "p < iov_len (hd fs)"
    using iov_head_spec by metis
  have fs: "fs \<noteq> []" using h(2,3) by auto
  have rest: "iov_addrs ?rest = iov_addrs (take k ?rest) @ iov_addrs fs"
    using h(2) by (metis append_take_drop_id iov_addrs_simps(3))
  have pc: "p + count \<le> length (iov_addrs fs)" "p + count < 2 ^ 32"
    using h(4) rest len assms(2,4,5) entries by (auto simp: le_diff_conv)
  then have m: "(p + count) mod 2 ^ 32 = p + count" by (intro mod_less)
  obtain segs where segs: "iov_tail fs (p + count) = Ptr segs" "iov_addrs segs = take (p + count) (iov_addrs fs)"
    "segs \<noteq> []" "p \<le> iov_len (hd segs)"
    using iov_tail_spec [OF pc(1) fs, of p] h(5) by auto
  let ?v' = "v\<lparr>consumed := consumed v + k, iov_offset := iov_offset v + length (iov_addrs (take k ?rest))\<rparr>"
  have "consumed v < niov v" using h(3) by simp
  then have "iscsi_iovector_segments v pos count = Some (?v', Ptr (clip_first p segs))"
    using arr(1,2) assms(2) h(1) m segs(1) by (simp add: iscsi_iovector_segments_def Let_def)
  moreover have "iov_addrs (clip_first p segs) = take count (drop pos (iov_addrs (iov_entries v)))"
  proof -
    have "drop pos (iov_addrs ?all) = drop (pos - iov_offset v) (iov_addrs ?rest)"
      using arr(4) assms(2) by (subst all) simp
    also have "\<dots> = drop p (iov_addrs fs)" using rest h(4) by simp
    finally show ?thesis
      using segs entries by (simp add: iov_addrs_clip_first drop_take)
  qed
  moreover have "take (consumed v + k) arr = take (consumed v) arr @ take k ?rest"
    using h(3) arr(3) by (simp add: take_add drop_take)
  then have "iov_window ?v'"
    using arr h(3) by (simp add: iov_window_def)
  ultimately show ?thesis using h(4) assms(2) arr(1) by (auto simp: iov_entries_def)
qed

section \<open>Properties\<close>

text \<open>
  C25: a transfer of \<open>count > 0\<close> bytes at \<open>pos\<close>, at or behind the part of the vector that was
  passed and within the buffers, is given to the system call as segments that cover exactly the
  bytes \<open>pos\<close> .. \<open>pos + count\<close> of the concatenated buffers, in order; the array is unchanged and
  \<open>consumed\<close> and \<open>offset\<close> keep their meaning.
\<close>

theorem iscsi_iovector_segments_window:
  assumes "iov_window v" "iov_offset v \<le> pos" "0 < count" "pos + count \<le> length (iov_addrs (iov_entries v))"
    "length (iov_addrs (iov_entries v)) < 2 ^ 32"
  shows "\<exists>v' segs. iscsi_iovector_segments v pos count = Some (v', Ptr segs) \<and>
    iov_addrs segs = take count (drop pos (iov_addrs (iov_entries v))) \<and>
    iov v' = iov v \<and> iov_entries v' = iov_entries v \<and> iov_window v' \<and> iov_offset v' \<le> pos"
  using assms by (rule iov_segments_window)

theorem iscsi_iovector_segments_window_witness:
  "\<exists>v' segs. iscsi_iovector_segments
      (zero_iovector\<lparr>iov := Ptr [\<lparr>iov_base = 100, iov_len = 4\<rparr>, \<lparr>iov_base = 200, iov_len = 4\<rparr>], niov := 2\<rparr>) 2 4 =
      Some (v', Ptr segs) \<and> iov_addrs segs = [102, 103, 200, 201]"
proof -
  let ?v = "zero_iovector\<lparr>iov := Ptr [\<lparr>iov_base = 100, iov_len = 4\<rparr>, \<lparr>iov_base = 200, iov_len = 4\<rparr>], niov := 2\<rparr>"
  have "iov_window ?v" by (simp add: iov_window_def zero_iovector_def)
  moreover have "iov_addrs (iov_entries ?v) = [100, 101, 102, 103, 200, 201, 202, 203]"
    by (simp add: iov_entries_def upt_rec)
  ultimately show ?thesis
    using iscsi_iovector_segments_window [of ?v 2 4] by (auto simp: zero_iovector_def)
qed

end
