(* ===== verification/Iscsi_Outqueue.thy ===== *)
theory Iscsi_Outqueue
  imports Pdu_Queues
begin

text \<open>
  The outqueue of \<open>lib/socket.c\<close>: \<open>iscsi_add_to_outqueue\<close> (with \<open>iscsi_tcp_queue_pdu\<close> and
  \<open>iscsi_queue_pdu\<close>), the queue lengths and \<open>iscsi_tcp_which_events\<close>. The queue is kept in the
  order of the CmdSNs, and immediate PDUs are put in front of the others with the CmdSN of the
  first command.
\<close>

section \<open>Operations\<close>

text \<open>
  The walk \<open>do { .. } while (current != NULL)\<close>: the PDU is put before the first one with a larger
  CmdSN, an immediate one also before the first that is not immediate.
\<close>

definition goes_before :: "iscsi_pdu \<Rightarrow> iscsi_pdu \<Rightarrow> bool" where
  "goes_before p q \<longleftrightarrow> iscsi_serial32_compare (pdu_cmdsn p) (pdu_cmdsn q) < 0 \<or>
     is_immediate p \<and> \<not> is_immediate q"

fun insert_walk :: "iscsi_context \<Rightarrow> iscsi_pdu \<Rightarrow> nat \<Rightarrow> nat list \<Rightarrow> nat list option" where
  "insert_walk iscsi p i [] = Some [i]"
| "insert_walk iscsi p i (k # ks) = do {
     q \<leftarrow> ctx_pdus iscsi k;
     if goes_before p q then Some (i # k # ks)
     else do {
       r \<leftarrow> insert_walk iscsi p i ks;
       Some (k # r)
     }
   }"

definition immediate_cmdsn :: "nat \<Rightarrow> iscsi_context \<Rightarrow> iscsi_context option" where
  "immediate_cmdsn i iscsi = do {
     r \<leftarrow> find_pdu (\<lambda>q. \<not> is_data_out q) (ctx_outqueue iscsi) iscsi;
     case r of
       NULL \<Rightarrow> Some iscsi
     | Ptr k \<Rightarrow> do {
         q \<leftarrow> ctx_pdus iscsi k;
         iscsi_pdu_set_cmdsn i (pdu_cmdsn q) iscsi
       }
   }"

definition outqueue_insert :: "iscsi_env \<Rightarrow> nat \<Rightarrow> iscsi_context \<Rightarrow> iscsi_context option" where
  "outqueue_insert env i iscsi = do {
     let timeout = (if 0 < ctx_scsi_timeout iscsi then env_time env iscsi + ctx_scsi_timeout iscsi else 0);
     iscsi \<leftarrow> pdu_modify i (\<lambda>p. p\<lparr>pdu_scsi_timeout := timeout\<rparr>) iscsi;
     if ctx_outqueue iscsi = [] then Some (iscsi\<lparr>ctx_outqueue := [i]\<rparr>)
     else do {
       p \<leftarrow> ctx_pdus iscsi i;
       iscsi \<leftarrow> (if is_immediate p then immediate_cmdsn i iscsi else Some iscsi);
       p \<leftarrow> ctx_pdus iscsi i;
       q \<leftarrow> insert_walk iscsi p i (ctx_outqueue iscsi);
       Some (iscsi\<lparr>ctx_outqueue := q\<rparr>)
     }
   }"

text \<open>A PDU that has become the first of the queue is written at once.\<close>

definition iscsi_add_to_outqueue :: "iscsi_env \<Rightarrow> nat \<Rightarrow> iscsi_context \<Rightarrow> iscsi_context option" where
  "iscsi_add_to_outqueue env i iscsi = do {
     iscsi \<leftarrow> outqueue_insert env i iscsi;
     if ctx_outqueue iscsi \<noteq> [] \<and> hd (ctx_outqueue iscsi) = i then env_service env iscsi
     else Some iscsi
   }"

definition iscsi_tcp_queue_pdu :: "iscsi_env \<Rightarrow> nat \<Rightarrow> iscsi_context \<Rightarrow> iscsi_context option" where
  "iscsi_tcp_queue_pdu env i iscsi = iscsi_add_to_outqueue env i iscsi"

definition iscsi_queue_pdu :: "iscsi_env \<Rightarrow> nat \<Rightarrow> iscsi_context \<Rightarrow> iscsi_context option" where
  "iscsi_queue_pdu env i iscsi = iscsi_tcp_queue_pdu env i iscsi"

definition iscsi_queue_length :: "iscsi_context \<Rightarrow> nat" where
  "iscsi_queue_length iscsi =
     length (ctx_outqueue iscsi) + length (ctx_waitpdu iscsi) + (if ctx_is_connected iscsi then 0 else 1)"

definition iscsi_out_queue_length :: "iscsi_context \<Rightarrow> nat" where
  "iscsi_out_queue_length iscsi = length (ctx_outqueue iscsi)"

text \<open>The events to poll for: (POLLIN, POLLOUT).\<close>

definition iscsi_tcp_which_events :: "iscsi_env \<Rightarrow> iscsi_context \<Rightarrow> (bool \<times> bool) option" where
  "iscsi_tcp_which_events env iscsi =
     (if ctx_pending_reconnect iscsi \<and> ctx_has_old_iscsi iscsi \<and>
         env_time env iscsi < ctx_next_reconnect iscsi
      then Some (False, False)
      else do {
        ready \<leftarrow> (if ctx_outqueue_current iscsi \<noteq> NULL then Some True
                   else case ctx_outqueue iscsi of
                     [] \<Rightarrow> Some False
                   | i # _ \<Rightarrow> do {
                       p \<leftarrow> ctx_pdus iscsi i;
                       Some (\<not> ctx_is_corked iscsi \<and>
                         (iscsi_serial32_compare (pdu_cmdsn p) (ctx_maxcmdsn iscsi) \<le> 0 \<or> is_immediate p))
                     });
        Some (ctx_is_connected iscsi, \<not> ctx_is_connected iscsi \<or> ready)
      })"

section \<open>Where a PDU is put\<close>

lemma insert_walk_split:
  assumes "\<forall>k \<in> set q. ctx_pdus c k \<noteq> None"
  shows "insert_walk c p i q =
    Some (takeWhile (\<lambda>k. \<not> goes_before p (pdu_at c k)) q @ i #
          dropWhile (\<lambda>k. \<not> goes_before p (pdu_at c k)) q)"
  using assms by (induction q) (auto simp: pdu_at_def)

lemma immediate_cmdsn_frame:
  assumes "ctx_pdus c i = Some p" "\<forall>k \<in> set (ctx_outqueue c). ctx_pdus c k \<noteq> None"
  shows "\<exists>ts p'. immediate_cmdsn i c = Some (c\<lparr>ctx_pdus := (ctx_pdus c)(i \<mapsto> p'), ctx_tasks := ts\<rparr>) \<and>
    renumbered p p'"
proof (cases "find (\<lambda>k. \<not> is_data_out (pdu_at c k)) (ctx_outqueue c)")
  case None
  then have "immediate_cmdsn i c = Some (c\<lparr>ctx_pdus := (ctx_pdus c)(i \<mapsto> p), ctx_tasks := ctx_tasks c\<rparr>)"
    using assms by (simp add: immediate_cmdsn_def find_pdu_live fun_upd_idem)
  then show ?thesis by (metis renumbered_def)
next
  case (Some k)
  then have "k \<in> set (ctx_outqueue c)" by (auto simp: find_Some_iff)
  then obtain q where q: "ctx_pdus c k = Some q" using assms(2) by blast
  obtain ts where "iscsi_pdu_set_cmdsn i (pdu_cmdsn q) c =
      Some (c\<lparr>ctx_pdus := (ctx_pdus c)(i \<mapsto> with_cmdsn (pdu_cmdsn q) p), ctx_tasks := ts\<rparr>)"
    using iscsi_pdu_set_cmdsn_frame [OF assms(1)] by blast
  with Some q assms(2) show ?thesis
    by (auto simp: immediate_cmdsn_def find_pdu_live renumbered_def)
qed

definition with_timeout :: "int \<Rightarrow> iscsi_pdu \<Rightarrow> iscsi_pdu" where
  "with_timeout t p = p\<lparr>pdu_scsi_timeout := t\<rparr>"

lemma with_timeout_fields [simp]:
  "is_cmd (with_timeout t p) = is_cmd p" "is_immediate (with_timeout t p) = is_immediate p"
  "pdu_ok (with_timeout t p) = pdu_ok p" "pdu_cmdsn (with_timeout t p) = pdu_cmdsn p"
  "is_data_out (with_timeout t p) = is_data_out p"
  by (simp_all add: with_timeout_def is_cmd_def is_immediate_def is_data_out_def pdu_byte0_def pdu_ok_def)

text \<open>
  The PDU of an address that is on no queue is put between the PDUs before which it does not go and
  the others; nothing else changes except this PDU (its time limit and, if it is immediate, its
  CmdSN) and the numbers remembered in its task.
\<close>

lemma outqueue_insert_result:
  assumes "queues_ok c" "ctx_pdus c i = Some p" "i \<notin> set (ctx_outqueue c)"
  shows "\<exists>ts p' q t. outqueue_insert env i c =
      Some (c\<lparr>ctx_pdus := (ctx_pdus c)(i \<mapsto> p'), ctx_tasks := ts, ctx_outqueue := q\<rparr>) \<and>
    q = takeWhile (\<lambda>k. \<not> goes_before p' (pdu_at c k)) (ctx_outqueue c) @ i #
        dropWhile (\<lambda>k. \<not> goes_before p' (pdu_at c k)) (ctx_outqueue c) \<and>
    renumbered (with_timeout t p) p' \<and> (\<not> is_immediate p \<longrightarrow> p' = with_timeout t p \<and> ts = ctx_tasks c)"
proof -
  let ?t = "if 0 < ctx_scsi_timeout c then env_time env c + ctx_scsi_timeout c else 0"
  let ?p = "with_timeout ?t p"
  let ?c = "c\<lparr>ctx_pdus := (ctx_pdus c)(i \<mapsto> ?p)\<rparr>"
  have m: "pdu_modify i (\<lambda>p. p\<lparr>pdu_scsi_timeout := ?t\<rparr>) c = Some ?c"
    using assms(2) by (simp add: pdu_modify_def pdu_store_def with_timeout_def)
  have live: "\<forall>k \<in> set (ctx_outqueue c). ctx_pdus ?c k \<noteq> None"
    using queues_okD(4) [OF assms(1)] by auto
  obtain ts p' where im: "(if is_immediate ?p then immediate_cmdsn i ?c else Some ?c) =
      Some (c\<lparr>ctx_pdus := (ctx_pdus c)(i \<mapsto> p'), ctx_tasks := ts\<rparr>)" "renumbered ?p p'"
    "\<not> is_immediate p \<longrightarrow> p' = ?p \<and> ts = ctx_tasks c"
  proof (cases "is_immediate p")
    case True
    then show ?thesis using immediate_cmdsn_frame [of ?c i ?p] live that by auto
  next
    case False
    then show ?thesis by (intro that [of "ctx_tasks c" ?p]) (auto simp: renumbered_def)
  qed
  let ?c2 = "c\<lparr>ctx_pdus := (ctx_pdus c)(i \<mapsto> p'), ctx_tasks := ts\<rparr>"
  let ?q = "takeWhile (\<lambda>k. \<not> goes_before p' (pdu_at c k)) (ctx_outqueue c) @ i #
        dropWhile (\<lambda>k. \<not> goes_before p' (pdu_at c k)) (ctx_outqueue c)"
  have at: "pdu_at ?c2 k = pdu_at c k" if "k \<in> set (ctx_outqueue c)" for k
    using that assms(3) by (auto simp: pdu_at_def)
  have "insert_walk ?c2 p' i (ctx_outqueue c) =
      Some (takeWhile (\<lambda>k. \<not> goes_before p' (pdu_at ?c2 k)) (ctx_outqueue c) @ i #
        dropWhile (\<lambda>k. \<not> goes_before p' (pdu_at ?c2 k)) (ctx_outqueue c))"
    by (rule insert_walk_split) (use queues_okD(4) [OF assms(1)] in auto)
  also have "takeWhile (\<lambda>k. \<not> goes_before p' (pdu_at ?c2 k)) (ctx_outqueue c) =
      takeWhile (\<lambda>k. \<not> goes_before p' (pdu_at c k)) (ctx_outqueue c)"
    by (rule takeWhile_cong [OF refl]) (simp add: at)
  also have "dropWhile (\<lambda>k. \<not> goes_before p' (pdu_at ?c2 k)) (ctx_outqueue c) =
      dropWhile (\<lambda>k. \<not> goes_before p' (pdu_at c k)) (ctx_outqueue c)"
    by (rule dropWhile_cong [OF refl]) (simp add: at)
  finally have w: "insert_walk ?c2 p' i (ctx_outqueue c) = Some ?q" .
  show ?thesis
  proof (cases "ctx_outqueue c = []")
    case True
    then have "outqueue_insert env i c = Some (c\<lparr>ctx_pdus := (ctx_pdus c)(i \<mapsto> ?p),
        ctx_tasks := ctx_tasks c, ctx_outqueue := [i]\<rparr>)"
      using m by (simp add: outqueue_insert_def Let_def)
    then show ?thesis using True
      by (intro exI [of _ "ctx_tasks c"] exI [of _ ?p] exI [of _ "[i]"] exI [of _ ?t]) (simp add: renumbered_def)
  next
    case False
    then have "outqueue_insert env i c = Some (?c2\<lparr>ctx_outqueue := ?q\<rparr>)"
      using m im(1) w by (simp add: outqueue_insert_def Let_def)
    with im(2,3) show ?thesis
      by (intro exI [of _ ts] exI [of _ p'] exI [of _ ?q] exI [of _ ?t]) auto
  qed
qed

text \<open>A PDU that no queued PDU is ahead of in the number space goes to the end.\<close>

lemma outqueue_insert_at_end:
  assumes "queues_ok c" "ctx_pdus c i = Some p" "i \<notin> set (ctx_outqueue c)" "\<not> is_immediate p"
    "\<forall>k \<in> set (ctx_outqueue c). 0 \<le> iscsi_serial32_compare (pdu_cmdsn p) (pdu_cmdsn (pdu_at c k))"
  shows "\<exists>t. outqueue_insert env i c = Some (c\<lparr>ctx_pdus := (ctx_pdus c)(i \<mapsto> with_timeout t p),
    ctx_outqueue := ctx_outqueue c @ [i]\<rparr>)"
proof -
  obtain ts p' q t where r: "outqueue_insert env i c =
      Some (c\<lparr>ctx_pdus := (ctx_pdus c)(i \<mapsto> p'), ctx_tasks := ts, ctx_outqueue := q\<rparr>)"
    "q = takeWhile (\<lambda>k. \<not> goes_before p' (pdu_at c k)) (ctx_outqueue c) @ i #
        dropWhile (\<lambda>k. \<not> goes_before p' (pdu_at c k)) (ctx_outqueue c)"
    "p' = with_timeout t p" "ts = ctx_tasks c"
    using outqueue_insert_result [OF assms(1-3), of env] assms(4) by blast
  have "\<forall>k \<in> set (ctx_outqueue c). \<not> goes_before p' (pdu_at c k)"
    using assms(4,5) r(3) by (auto simp: goes_before_def)
  then have "q = ctx_outqueue c @ [i]" using r(2) by (simp add: takeWhile_eq_all_conv dropWhile_eq_Nil_conv)
  with r(1,3,4) show ?thesis by auto
qed

lemma queues_ok_insert:
  assumes "queues_ok c" "i \<notin> set (ctx_outqueue c)" "i \<notin> set (ctx_waitpdu c)" "ctx_outqueue_current c \<noteq> Ptr i"
    "set q = insert i (set (ctx_outqueue c))" "distinct q" "pdu_ok p'"
  shows "queues_ok (c\<lparr>ctx_pdus := (ctx_pdus c)(i \<mapsto> p'), ctx_tasks := ts, ctx_outqueue := q\<rparr>)"
  using assms unfolding queues_ok_def by auto

lemma outqueue_insert_ok:
  assumes "queues_ok c" "ctx_pdus c i = Some p" "i \<notin> set (ctx_outqueue c)" "i \<notin> set (ctx_waitpdu c)"
    "ctx_outqueue_current c \<noteq> Ptr i"
  shows "\<exists>c'. outqueue_insert env i c = Some c' \<and> queues_ok c' \<and>
    set (ctx_outqueue c') = insert i (set (ctx_outqueue c))"
proof -
  obtain ts p' q t where r: "outqueue_insert env i c =
      Some (c\<lparr>ctx_pdus := (ctx_pdus c)(i \<mapsto> p'), ctx_tasks := ts, ctx_outqueue := q\<rparr>)"
    "q = takeWhile (\<lambda>k. \<not> goes_before p' (pdu_at c k)) (ctx_outqueue c) @ i #
        dropWhile (\<lambda>k. \<not> goes_before p' (pdu_at c k)) (ctx_outqueue c)"
    "renumbered (with_timeout t p) p'"
    using outqueue_insert_result [OF assms(1-3), of env] by blast
  let ?P = "\<lambda>k. \<not> goes_before p' (pdu_at c k)"
  have "ctx_outqueue c = takeWhile ?P (ctx_outqueue c) @ dropWhile ?P (ctx_outqueue c)" by simp
  then have "set q = insert i (set (ctx_outqueue c))" "distinct q"
    using queues_okD(1) [OF assms(1)] assms(3) r(2)
    by (metis Un_insert_right list.simps(15) set_append,
        metis distinct.simps(2) distinct_append distinct_insert disjoint_insert(1) list.simps(15) set_append Un_iff)
  moreover have "pdu_ok p'"
    using renumbered_fields(2) [OF r(3)] queues_okD(8) [OF assms(1,2)] by simp
  ultimately show ?thesis
    using r(1) queues_ok_insert [OF assms(1,3-5), of q p' ts] by auto
qed

lemma takeWhile_sorted:
  assumes "sorted (map f xs)"
  shows "takeWhile (\<lambda>k. f k \<le> (b :: nat)) xs = filter (\<lambda>k. f k \<le> b) xs"
    "dropWhile (\<lambda>k. f k \<le> b) xs = filter (\<lambda>k. b < f k) xs"
  using assms
proof (induction xs)
  case (Cons a xs)
  { case 1
    have "filter (\<lambda>k. f k \<le> b) xs = []" if "b < f a"
      using 1 that by (fastforce simp: filter_empty_conv)
    with 1 Cons.IH show ?case by auto
  next
    case 2
    have "filter (\<lambda>k. b < f k) xs = xs" if "b < f a"
      using 2 that by (fastforce simp: filter_id_conv)
    with 2 Cons.IH show ?case by auto
  }
qed simp_all

section \<open>Properties\<close>

text \<open>
  C15: on an outqueue without immediate PDUs, whose CmdSNs lie in a window of half the number space
  and are in order, \<open>iscsi_add_to_outqueue\<close> puts a PDU behind all that have its CmdSN or a smaller
  one and before the others: the queue stays in order and equal CmdSNs keep their order of arrival.
\<close>

theorem outqueue_insert_stable:
  assumes "queues_ok c" "ctx_pdus c i = Some p" "i \<notin> set (ctx_outqueue c)"
    "\<forall>k \<in> set (i # ctx_outqueue c). \<not> is_immediate (pdu_at c k)"
    "\<forall>k \<in> set (i # ctx_outqueue c). pdu_cmdsn (pdu_at c k) = base + of_nat (sn k) \<and> sn k < 2 ^ 31"
    "sorted (map sn (ctx_outqueue c))"
  shows "\<exists>c'. outqueue_insert env i c = Some c' \<and> sorted (map sn (ctx_outqueue c')) \<and>
    ctx_outqueue c' = filter (\<lambda>k. sn k \<le> sn i) (ctx_outqueue c) @ [i] @ filter (\<lambda>k. sn i < sn k) (ctx_outqueue c)"
proof -
  obtain ts p' q t where r: "outqueue_insert env i c =
      Some (c\<lparr>ctx_pdus := (ctx_pdus c)(i \<mapsto> p'), ctx_tasks := ts, ctx_outqueue := q\<rparr>)"
    "q = takeWhile (\<lambda>k. \<not> goes_before p' (pdu_at c k)) (ctx_outqueue c) @ i #
        dropWhile (\<lambda>k. \<not> goes_before p' (pdu_at c k)) (ctx_outqueue c)"
    "p' = with_timeout t p"
  proof -
    have "\<not> is_immediate p" using assms(2,4) by (auto simp: pdu_at_def)
    then show ?thesis using outqueue_insert_result [OF assms(1-3), of env] that by blast
  qed
  have "goes_before p' (pdu_at c k) \<longleftrightarrow> sn i < sn k" if "k \<in> set (ctx_outqueue c)" for k
    using assms(2,4,5) that r(3) serial32_compare_window [of "sn i" "sn k" base]
    by (auto simp: goes_before_def pdu_at_def sgn_if)
  then have "takeWhile (\<lambda>k. \<not> goes_before p' (pdu_at c k)) (ctx_outqueue c) =
        takeWhile (\<lambda>k. sn k \<le> sn i) (ctx_outqueue c)"
      "dropWhile (\<lambda>k. \<not> goes_before p' (pdu_at c k)) (ctx_outqueue c) =
        dropWhile (\<lambda>k. sn k \<le> sn i) (ctx_outqueue c)"
    by (auto intro!: takeWhile_cong dropWhile_cong)
  then have q: "q = filter (\<lambda>k. sn k \<le> sn i) (ctx_outqueue c) @ [i] @ filter (\<lambda>k. sn i < sn k) (ctx_outqueue c)"
    using r(2) takeWhile_sorted [OF assms(6)] by simp
  moreover have "sorted (map sn (filter P (ctx_outqueue c)))" for P
    using assms(6) by (rule sorted_filter)
  then have "sorted (map sn q)"
    unfolding q by (auto simp: sorted_append)
  ultimately show ?thesis using r(1) by auto
qed

text \<open>
  The order of arrival of PDUs with the same CmdSN, which the comment in the code promises, is
  lost behind an immediate PDU: a DATA-OUT of an earlier command is put before an immediate PDU at
  the head of the queue, and so before the DATA-OUTs of the same command that are queued behind it.
\<close>

theorem outqueue_insert_overtakes:
  assumes "queues_ok c" "ctx_pdus c i = Some p" "i \<notin> set (ctx_outqueue c)" "\<not> is_immediate p"
    "ctx_outqueue c = k # ks" "is_immediate (pdu_at c k)"
    "iscsi_serial32_compare (pdu_cmdsn p) (pdu_cmdsn (pdu_at c k)) < 0"
    "j \<in> set ks" "pdu_cmdsn (pdu_at c j) = pdu_cmdsn p"
  shows "\<exists>c'. outqueue_insert env i c = Some c' \<and> ctx_outqueue c' = i # k # ks \<and>
    pdu_cmdsn (pdu_at c' i) = pdu_cmdsn (pdu_at c' j)"
proof -
  obtain ts p' q t where r: "outqueue_insert env i c =
      Some (c\<lparr>ctx_pdus := (ctx_pdus c)(i \<mapsto> p'), ctx_tasks := ts, ctx_outqueue := q\<rparr>)"
    "q = takeWhile (\<lambda>k. \<not> goes_before p' (pdu_at c k)) (ctx_outqueue c) @ i #
        dropWhile (\<lambda>k. \<not> goes_before p' (pdu_at c k)) (ctx_outqueue c)"
    "p' = with_timeout t p"
    using outqueue_insert_result [OF assms(1-3), of env] assms(4) by blast
  moreover have "goes_before p' (pdu_at c k)" using assms(7) r(3) by (simp add: goes_before_def)
  moreover have "j \<noteq> i" using assms(3,5,8) by auto
  ultimately show ?thesis using assms(5,9) by (auto simp: pdu_at_def)
qed

section \<open>Witnesses\<close>

lemma demo_not_immediate: "\<not> is_immediate (demo_cmd a n)"
  by (simp add: is_immediate_def pdu_byte0_def demo_cmd_def)

theorem outqueue_insert_stable_witness:
  defines "c \<equiv> demo_context\<lparr>ctx_pdus := (ctx_pdus demo_context)(5 \<mapsto> demo_cmd 13 7)\<rparr>"
  shows "\<exists>env c'. outqueue_insert env (5 :: nat) c = Some c' \<and> ctx_outqueue c' = [3, 5, 4]"
proof -
  let ?sn = "\<lambda>k. if k = (4 :: nat) then 1 else (0 :: nat)"
  have "queues_ok c" using demo_ok by (auto simp: c_def queues_ok_def pdu_ok_def demo_cmd_def)
  moreover have at: "pdu_at c 3 = demo_cmd 11 7" "pdu_at c 4 = demo_cmd 12 8" "pdu_at c 5 = demo_cmd 13 7"
    "ctx_outqueue c = [3, 4]" "ctx_pdus c 5 = Some (demo_cmd 13 7)"
    by (simp_all add: c_def pdu_at_def demo_simps)
  ultimately have "\<exists>c'. outqueue_insert undefined 5 c = Some c' \<and>
      ctx_outqueue c' = filter (\<lambda>k. ?sn k \<le> ?sn 5) [3, 4] @ [5] @ filter (\<lambda>k. ?sn 5 < ?sn k) [3, 4]"
    using outqueue_insert_stable [of c 5 "demo_cmd 13 7" 7 ?sn undefined]
    by (auto simp: demo_simps demo_not_immediate)
  then show ?thesis by auto
qed

theorem outqueue_insert_overtakes_witness:
  defines "imm \<equiv> (demo_cmd 14 9)\<lparr>pdu_outdata := \<lparr>data_bytes = 0x40 # replicate 47 0, data_size = 48\<rparr>\<rparr>"
  defines "c \<equiv> demo_context\<lparr>ctx_outqueue := [6, 3],
    ctx_pdus := (ctx_pdus demo_context)(5 \<mapsto> demo_cmd 13 7, 6 \<mapsto> imm)\<rparr>"
  shows "\<exists>env c'. outqueue_insert env (5 :: nat) c = Some c' \<and> ctx_outqueue c' = [5, 6, 3]"
proof -
  have "queues_ok c" using demo_ok
    by (auto simp: c_def imm_def queues_ok_def pdu_ok_def demo_cmd_def demo_context_def)
  moreover have "pdu_at c 6 = imm" "pdu_at c 3 = demo_cmd 11 7" "ctx_pdus c 5 = Some (demo_cmd 13 7)"
    "ctx_outqueue c = [6, 3]"
    by (simp_all add: c_def pdu_at_def demo_simps)
  moreover have "is_immediate imm" "pdu_cmdsn imm = 9"
    by (simp_all add: imm_def is_immediate_def pdu_byte0_def demo_cmd_def)
  moreover have "iscsi_serial32_compare 7 9 < 0" by (simp add: iscsi_serial32_compare_def)
  ultimately show ?thesis
    using outqueue_insert_overtakes [of c 5 "demo_cmd 13 7" 6 "[3]" 3 undefined]
    by (auto simp: demo_simps demo_not_immediate)
qed

end
