(* ===== verification/Iscsi_Write.thy ===== *)
theory Iscsi_Write
  imports Iscsi_Outqueue Iscsi_Iovec
begin

text \<open>
  \<open>iscsi_write_to_socket\<close> of \<open>lib/socket.c\<close>: the next PDU is taken off the outqueue, if the target's
  command window allows it, and its header, its data from the application's buffers, the
  padding and the data digest are written, each with as many system calls as the socket needs.
  What has been written is remembered in the PDU, so that the function can return at any point
  and go on later. The main result is that the bytes on the wire are the image of the PDU
  (\<open>pdu_image\<close>), whatever the socket accepts at a time.
\<close>

section \<open>System calls\<close>

definition socket_send :: "iscsi_env \<Rightarrow> bytes \<Rightarrow> iscsi_context \<Rightarrow> send_result \<times> iscsi_context" where
  "socket_send env bs iscsi =
     (case env_send env iscsi (length bs) of
        Sent n \<Rightarrow> (Sent n, iscsi\<lparr>ctx_wire := ctx_wire iscsi @ take n bs\<rparr>)
      | r \<Rightarrow> (r, iscsi))"

text \<open>The digest of the \<open>n\<close> bytes that were transferred, entry by entry.\<close>

fun iov_crc :: "(nat \<Rightarrow> u8) \<Rightarrow> scsi_iovec list \<Rightarrow> nat \<Rightarrow> u32 \<Rightarrow> u32" where
  "iov_crc m [] bytes_to_crc crc = crc"
| "iov_crc m (e # es) bytes_to_crc crc =
     (if bytes_to_crc = 0 then crc
      else
        let chunk = min bytes_to_crc (iov_len e)
        in iov_crc m es (bytes_to_crc - chunk) (crc32c_chain crc (map m [iov_base e ..< iov_base e + chunk])))"

text \<open>
  \<open>iscsi_iovector_readv_writev\<close> for writing: the result of the call (\<open>Send_failed\<close> also for the
  errors found before it), the vector and the digest. With \<open>dd\<close> unset \<open>data_digest_ptr\<close> is NULL.
\<close>

definition iscsi_iovector_writev ::
  "iscsi_env \<Rightarrow> bool \<Rightarrow> scsi_iovector \<Rightarrow> nat \<Rightarrow> nat \<Rightarrow> u32 \<Rightarrow> iscsi_context \<Rightarrow>
   (send_result \<times> scsi_iovector \<times> u32 \<times> iscsi_context) option" where
  "iscsi_iovector_writev env dd iovector pos count digest iscsi = do {
     (iovector, segs) \<leftarrow> iscsi_iovector_segments iovector pos count;
     case segs of
       NULL \<Rightarrow> Some (Send_failed, iovector, digest, iscsi)
     | Ptr segs \<Rightarrow>
         let (r, iscsi) = socket_send env (map (ctx_memory iscsi) (iov_addrs segs)) iscsi
         in case r of
              Sent n \<Rightarrow>
                let digest = (if dd \<and> 0 < n then iov_crc (ctx_memory iscsi) segs n digest else digest)
                in Some (if count < n then Send_failed else Sent n, iovector, digest, iscsi)
            | _ \<Rightarrow> Some (r, iovector, digest, iscsi)
   }"

section \<open>Header digest\<close>

definition digest_bytes :: "u32 \<Rightarrow> bytes" where
  "digest_bytes crc = [ucast crc, ucast (drop_bit 8 crc), ucast (drop_bit 16 crc), ucast (drop_bit 24 crc)]"

definition iscsi_pdu_update_headerdigest :: "nat \<Rightarrow> iscsi_context \<Rightarrow> (int \<times> iscsi_context) option" where
  "iscsi_pdu_update_headerdigest i iscsi = do {
     p \<leftarrow> ctx_pdus iscsi i;
     if data_size (pdu_outdata p) < ISCSI_RAW_HEADER_SIZE + ISCSI_DIGEST_SIZE then Some (-1, iscsi)
     else if length (data_bytes (pdu_outdata p)) < ISCSI_RAW_HEADER_SIZE + ISCSI_DIGEST_SIZE then None
     else
       let crc = crc32c (take ISCSI_RAW_HEADER_SIZE (data_bytes (pdu_outdata p)))
       in Some (0, pdu_store i (hdr_modify (blit ISCSI_RAW_HEADER_SIZE (digest_bytes crc)) p) iscsi)
   }"

section \<open>The steps of the loop\<close>

text \<open>A step returns from the function with a value, or NULL to go on.\<close>

type_synonym step_result = "(int ptr \<times> iscsi_context) option"

definition and_then :: "step_result \<Rightarrow> (iscsi_context \<Rightarrow> step_result) \<Rightarrow> step_result" where
  "and_then m f = do {
     (r, iscsi) \<leftarrow> m;
     case r of NULL \<Rightarrow> f iscsi | Ptr _ \<Rightarrow> Some (r, iscsi)
   }"

text \<open>Take the first PDU of the outqueue.\<close>

definition write_begin :: "iscsi_context \<Rightarrow> step_result" where
  "write_begin iscsi =
     (if ctx_is_corked iscsi then Some (Ptr 0, iscsi)
      else case ctx_outqueue iscsi of
        [] \<Rightarrow> None
      | i # _ \<Rightarrow> do {
          p \<leftarrow> ctx_pdus iscsi i;
          if 0 < iscsi_serial32_compare (pdu_cmdsn p) (ctx_maxcmdsn iscsi) \<and> \<not> is_immediate p
          then Some (Ptr 0, iscsi)
          else if iscsi_serial32_compare (pdu_cmdsn p) (ctx_expcmdsn iscsi) < 0 \<and> \<not> is_data_out p
          then Some (Ptr (-1), iscsi)
          else do {
            iscsi \<leftarrow> pdu_modify i
              (iscsi_pdu_set_expstatsn (if is_data_out p then ctx_statsn iscsi else ctx_statsn iscsi + 1))
              (iscsi\<lparr>ctx_outqueue_current := Ptr i\<rparr>);
            (r, iscsi) \<leftarrow> (if ctx_header_digest iscsi \<noteq> ISCSI_HEADER_DIGEST_NONE
                          then iscsi_pdu_update_headerdigest i iscsi else Some (0, iscsi));
            if r \<noteq> 0 then Some (Ptr (-1), iscsi)
            else do {
              q \<leftarrow> list_remove i (ctx_outqueue iscsi);
              Some (NULL, iscsi\<lparr>ctx_outqueue := q,
                ctx_waitpdu := (if pdu_flags p AND ISCSI_PDU_DELETE_WHEN_SENT = 0
                                then list_add_end i (ctx_waitpdu iscsi) else ctx_waitpdu iscsi)\<rparr>)
            }
          }
        })"

text \<open>Header and any data in the PDU itself. The size is rounded up to its padding first.\<close>

definition write_header :: "iscsi_env \<Rightarrow> nat \<Rightarrow> iscsi_context \<Rightarrow> step_result" where
  "write_header env i iscsi = do {
     p \<leftarrow> ctx_pdus iscsi i;
     let size = pdu_aligned (data_size (pdu_outdata p));
     let bs = data_bytes (pdu_outdata p);
     let p = p\<lparr>pdu_outdata := \<lparr>data_bytes = bs, data_size = size\<rparr>\<rparr>;
     let w = pdu_outdata_written p;
     if size \<le> w then Some (if w = size then NULL else Ptr 0, pdu_store i p iscsi)
     else if length bs < size then None
     else
       let (r, iscsi) = socket_send env (take (size - w) (drop w bs)) (pdu_store i p iscsi)
       in case r of
            Send_blocked \<Rightarrow> Some (Ptr 0, iscsi)
          | Send_failed \<Rightarrow> Some (Ptr (-1), iscsi)
          | Sent n \<Rightarrow> Some (if w + n = size then NULL else Ptr 0,
                            pdu_store i (p\<lparr>pdu_outdata_written := w + n\<rparr>) iscsi)
   }"

definition do_data_digest :: "iscsi_context \<Rightarrow> bool" where
  "do_data_digest iscsi \<longleftrightarrow> ctx_data_digest iscsi \<noteq> ISCSI_DATA_DIGEST_NONE"

definition execute_data_digest :: "iscsi_context \<Rightarrow> iscsi_pdu \<Rightarrow> bool" where
  "execute_data_digest iscsi p \<longleftrightarrow> do_data_digest iscsi \<and>
     iscsi_get_pdu_data_size (data_bytes (pdu_outdata p)) \<noteq> 0 \<and> pdu_payload_len p = 0"

text \<open>Where the data segment starts in the PDU, \<open>ahslen\<close> being the first length byte.\<close>

definition data_offset :: "iscsi_context \<Rightarrow> iscsi_pdu \<Rightarrow> nat" where
  "data_offset iscsi p =
     (if ctx_header_digest iscsi \<noteq> ISCSI_HEADER_DIGEST_NONE then 52 else 48) +
     unat (data_bytes (pdu_outdata p) ! 4) * 4"

definition write_digest_start :: "nat \<Rightarrow> iscsi_context \<Rightarrow> step_result" where
  "write_digest_start i iscsi = do {
     p \<leftarrow> ctx_pdus iscsi i;
     if execute_data_digest iscsi p \<and> \<not> pdu_outdata_digest_computed p then
       let bs = data_bytes (pdu_outdata p); size = data_size (pdu_outdata p); off = data_offset iscsi p
       in if size < off \<or> length bs < size then None
          else Some (NULL, pdu_store i (p\<lparr>
            pdu_calculated_data_digest := crc32c_chain (pdu_calculated_data_digest p) (drop off (take size bs)),
            pdu_outdata_digest_computed := True\<rparr>) iscsi)
     else Some (NULL, iscsi)
   }"

text \<open>
  The data from the application's buffers. The loop does not end as long as the socket accepts
  no byte at all without an error.
\<close>

partial_function (option) write_payload :: "iscsi_env \<Rightarrow> nat \<Rightarrow> iscsi_context \<Rightarrow> step_result" where
  "write_payload env i iscsi = do {
     p \<leftarrow> ctx_pdus iscsi i;
     if pdu_payload_len p \<le> pdu_payload_written p then Some (NULL, iscsi)
     else case pdu_cbdata_task p of
       NULL \<Rightarrow> None
     | Ptr t \<Rightarrow>
         if iov (iovector_out (ctx_tasks iscsi t)) = NULL then Some (Ptr (-1), iscsi)
         else do {
           (r, v, digest, iscsi) \<leftarrow> iscsi_iovector_writev env (do_data_digest iscsi)
             (iovector_out (ctx_tasks iscsi t)) (unat (pdu_payload_offset p + pdu_payload_written p))
             (unat (pdu_payload_len p - pdu_payload_written p)) (pdu_calculated_data_digest p) iscsi;
           let iscsi = task_modify t (\<lambda>task. task\<lparr>iovector_out := v\<rparr>) iscsi;
           let p = p\<lparr>pdu_calculated_data_digest := digest\<rparr>;
           case r of
             Send_blocked \<Rightarrow> Some (Ptr 0, pdu_store i p iscsi)
           | Send_failed \<Rightarrow> Some (Ptr (-1), pdu_store i p iscsi)
           | Sent n \<Rightarrow> write_payload env i
               (pdu_store i (p\<lparr>pdu_payload_written := pdu_payload_written p + of_nat n\<rparr>) iscsi)
         }
   }"

text \<open>The padding comes from an array of three zeros.\<close>

definition write_padding :: "iscsi_env \<Rightarrow> nat \<Rightarrow> iscsi_context \<Rightarrow> step_result" where
  "write_padding env i iscsi = do {
     p \<leftarrow> ctx_pdus iscsi i;
     let total = pdu_aligned (unat (pdu_payload_len p));
     let todo = total - unat (pdu_payload_written p);
     if todo = 0 then Some (NULL, iscsi)
     else if 3 < todo then None
     else
       let (r, iscsi) = socket_send env (replicate todo 0) iscsi
       in case r of
            Send_blocked \<Rightarrow> Some (Ptr 0, iscsi)
          | Send_failed \<Rightarrow> Some (Ptr (-1), iscsi)
          | Sent n \<Rightarrow>
              let digest = pdu_calculated_data_digest p
              in Some (if n < todo then Ptr 0 else NULL, pdu_store i (p\<lparr>
                   pdu_calculated_data_digest :=
                     (if do_data_digest iscsi then crc32c_chain digest (replicate n 0) else digest),
                   pdu_payload_written := pdu_payload_written p + of_nat n\<rparr>) iscsi)
   }"

definition write_digest :: "iscsi_env \<Rightarrow> nat \<Rightarrow> iscsi_context \<Rightarrow> step_result" where
  "write_digest env i iscsi = do {
     p \<leftarrow> ctx_pdus iscsi i;
     let total = pdu_aligned (unat (pdu_payload_len p));
     let written = unat (pdu_payload_written p);
     if \<not> (execute_data_digest iscsi p \<or> do_data_digest iscsi \<and> pdu_payload_written p \<noteq> 0)
     then Some (if written = total then NULL else Ptr 0, iscsi)
     else
       let buf = digest_bytes (crc32c_chain_done (pdu_calculated_data_digest p));
           total = total + ISCSI_DIGEST_SIZE
       in if total \<le> written then Some (if written = total then NULL else Ptr 0, iscsi)
          else if ISCSI_DIGEST_SIZE < total - written then None
          else
            let todo = total - written;
                (r, iscsi) = socket_send env (drop (ISCSI_DIGEST_SIZE - todo) buf) iscsi
            in case r of
                 Send_blocked \<Rightarrow> Some (Ptr 0, iscsi)
               | Send_failed \<Rightarrow> Some (Ptr (-1), iscsi)
               | Sent n \<Rightarrow> Some (if n = todo then NULL else Ptr 0,
                   pdu_store i (p\<lparr>pdu_payload_written := pdu_payload_written p + of_nat n\<rparr>) iscsi)
   }"

definition write_done :: "nat \<Rightarrow> iscsi_context \<Rightarrow> step_result" where
  "write_done i iscsi = do {
     p \<leftarrow> ctx_pdus iscsi i;
     let iscsi = (if pdu_flags p AND ISCSI_PDU_CORK_WHEN_SENT \<noteq> 0
                  then iscsi\<lparr>ctx_is_corked := True\<rparr> else iscsi);
     iscsi \<leftarrow> (if pdu_flags p AND ISCSI_PDU_DELETE_WHEN_SENT \<noteq> 0
               then iscsi_tcp_free_pdu i iscsi else Some iscsi);
     Some (NULL, iscsi\<lparr>ctx_outqueue_current := NULL\<rparr>)
   }"

definition write_current :: "iscsi_env \<Rightarrow> nat \<Rightarrow> iscsi_context \<Rightarrow> step_result" where
  "write_current env i iscsi =
     and_then (write_header env i iscsi) (\<lambda>iscsi.
     and_then (write_digest_start i iscsi) (\<lambda>iscsi.
     and_then (write_payload env i iscsi) (\<lambda>iscsi.
     and_then (write_padding env i iscsi) (\<lambda>iscsi.
     and_then (write_digest env i iscsi) (write_done i)))))"

partial_function (option) write_loop :: "iscsi_env \<Rightarrow> iscsi_context \<Rightarrow> (int \<times> iscsi_context) option" where
  "write_loop env iscsi =
     (if ctx_outqueue iscsi = [] \<and> ctx_outqueue_current iscsi = NULL then Some (0, iscsi)
      else do {
        (r, iscsi) \<leftarrow> (if ctx_outqueue_current iscsi = NULL then write_begin iscsi else Some (NULL, iscsi));
        case r of
          Ptr r \<Rightarrow> Some (r, iscsi)
        | NULL \<Rightarrow> (case ctx_outqueue_current iscsi of
            NULL \<Rightarrow> None
          | Ptr i \<Rightarrow> do {
              (r, iscsi) \<leftarrow> write_current env i iscsi;
              case r of Ptr r \<Rightarrow> Some (r, iscsi) | NULL \<Rightarrow> write_loop env iscsi
            })
      })"

definition iscsi_write_to_socket :: "iscsi_env \<Rightarrow> iscsi_context \<Rightarrow> (int \<times> iscsi_context) option" where
  "iscsi_write_to_socket env iscsi =
     (if ctx_fd iscsi = -1 then Some (-1, iscsi) else write_loop env iscsi)"

section \<open>The image of a PDU\<close>

definition header_size :: "iscsi_pdu \<Rightarrow> nat" where
  "header_size p = pdu_aligned (data_size (pdu_outdata p))"

definition pdu_header :: "iscsi_pdu \<Rightarrow> bytes" where
  "pdu_header p = take (header_size p) (data_bytes (pdu_outdata p))"

definition out_bytes :: "iscsi_context \<Rightarrow> nat \<Rightarrow> bytes" where
  "out_bytes c t = map (ctx_memory c) (iov_addrs (iov_entries (iovector_out (ctx_tasks c t))))"

definition pdu_payload :: "iscsi_context \<Rightarrow> iscsi_pdu \<Rightarrow> bytes" where
  "pdu_payload c p =
     (case pdu_cbdata_task p of
        NULL \<Rightarrow> []
      | Ptr t \<Rightarrow> take (unat (pdu_payload_len p)) (drop (unat (pdu_payload_offset p)) (out_bytes c t)))"

definition padded :: "bytes \<Rightarrow> bytes" where
  "padded bs = bs @ replicate ((length bs + 3) div 4 * 4 - length bs) 0"

text \<open>The bytes the data digest covers: the payload with its padding or the data in the PDU.\<close>

definition digested :: "iscsi_context \<Rightarrow> iscsi_pdu \<Rightarrow> bytes" where
  "digested c p = (if pdu_payload_len p = 0 then drop (data_offset c p) (pdu_header p) else padded (pdu_payload c p))"

definition pdu_digest :: "iscsi_context \<Rightarrow> iscsi_pdu \<Rightarrow> bytes" where
  "pdu_digest c p =
     (if execute_data_digest c p \<or> do_data_digest c \<and> pdu_payload_len p \<noteq> 0
      then digest_bytes (crc32c (digested c p)) else [])"

definition pdu_image :: "iscsi_context \<Rightarrow> iscsi_pdu \<Rightarrow> bytes" where
  "pdu_image c p = pdu_header p @ padded (if pdu_payload_len p = 0 then [] else pdu_payload c p) @ pdu_digest c p"

text \<open>A PDU whose image is defined: its data are there, in the PDU and in the task's buffers.\<close>

definition sendable :: "iscsi_context \<Rightarrow> iscsi_pdu \<Rightarrow> bool" where
  "sendable c p \<longleftrightarrow> header_size p \<le> length (data_bytes (pdu_outdata p)) \<and>
     data_size (pdu_outdata p) + 3 < 2 ^ 32 \<and>
     (execute_data_digest c p \<longrightarrow> data_offset c p \<le> header_size p) \<and>
     (pdu_payload_len p \<noteq> 0 \<longrightarrow> unat (pdu_payload_len p) + 8 < 2 ^ 32 \<and>
       (\<exists>t. pdu_cbdata_task p = Ptr t \<and> iov_window (iovector_out (ctx_tasks c t)) \<and>
          unat (pdu_payload_offset p) + unat (pdu_payload_len p) \<le> length (out_bytes c t) \<and>
          length (out_bytes c t) < 2 ^ 32))"

text \<open>What has been sent of it agrees with the counters, the digest and the position in the vector.\<close>

definition progress_ok :: "iscsi_context \<Rightarrow> iscsi_pdu \<Rightarrow> bool" where
  "progress_ok c p \<longleftrightarrow> pdu_outdata_written p \<le> header_size p \<and>
     (pdu_payload_written p \<noteq> 0 \<longrightarrow> pdu_outdata_written p = header_size p) \<and>
     header_size p + unat (pdu_payload_written p) \<le> length (pdu_image c p) \<and>
     (pdu_outdata_digest_computed p \<longrightarrow> execute_data_digest c p \<and> pdu_outdata_written p = header_size p) \<and>
     (execute_data_digest c p \<and> pdu_payload_written p \<noteq> 0 \<longrightarrow> pdu_outdata_digest_computed p) \<and>
     (do_data_digest c \<longrightarrow> pdu_calculated_data_digest p = crc32c_chain crc32c_init
       (if pdu_payload_len p \<noteq> 0 then take (unat (pdu_payload_written p)) (digested c p)
        else if pdu_outdata_digest_computed p then digested c p else [])) \<and>
     (\<forall>t. pdu_payload_len p \<noteq> 0 \<and> pdu_cbdata_task p = Ptr t \<longrightarrow>
       iov_offset (iovector_out (ctx_tasks c t)) \<le> unat (pdu_payload_offset p) + unat (pdu_payload_written p))"

definition pdu_sent :: "iscsi_pdu \<Rightarrow> nat" where
  "pdu_sent p = pdu_outdata_written p + unat (pdu_payload_written p)"

definition sending :: "bytes \<Rightarrow> bytes \<Rightarrow> nat \<Rightarrow> iscsi_context \<Rightarrow> bool" where
  "sending base img i c \<longleftrightarrow> (\<exists>p. ctx_pdus c i = Some p \<and> sendable c p \<and> progress_ok c p \<and>
     pdu_image c p = img \<and> ctx_wire c = base @ take (pdu_sent p) img)"

definition phase :: "(iscsi_context \<Rightarrow> iscsi_pdu \<Rightarrow> bool) \<Rightarrow> nat \<Rightarrow> iscsi_context \<Rightarrow> bool" where
  "phase P i c \<longleftrightarrow> (\<forall>p. ctx_pdus c i = Some p \<longrightarrow> P c p)"

section \<open>Sizes\<close>

lemma image_fields [simp]:
  "header_size (p\<lparr>pdu_calculated_data_digest := d\<rparr>) = header_size p" "header_size (p\<lparr>pdu_outdata_digest_computed := b\<rparr>) = header_size p"
  "header_size (p\<lparr>pdu_outdata_written := n\<rparr>) = header_size p" "header_size (p\<lparr>pdu_payload_written := w\<rparr>) = header_size p"
  "pdu_header (p\<lparr>pdu_calculated_data_digest := d\<rparr>) = pdu_header p" "pdu_header (p\<lparr>pdu_outdata_digest_computed := b\<rparr>) = pdu_header p"
  "pdu_header (p\<lparr>pdu_outdata_written := n\<rparr>) = pdu_header p" "pdu_header (p\<lparr>pdu_payload_written := w\<rparr>) = pdu_header p"
  "pdu_payload c (p\<lparr>pdu_calculated_data_digest := d\<rparr>) = pdu_payload c p" "pdu_payload c (p\<lparr>pdu_outdata_digest_computed := b\<rparr>) = pdu_payload c p"
  "pdu_payload c (p\<lparr>pdu_outdata_written := n\<rparr>) = pdu_payload c p" "pdu_payload c (p\<lparr>pdu_payload_written := w\<rparr>) = pdu_payload c p"
  "execute_data_digest c (p\<lparr>pdu_calculated_data_digest := d\<rparr>) = execute_data_digest c p" "execute_data_digest c (p\<lparr>pdu_outdata_digest_computed := b\<rparr>) = execute_data_digest c p"
  "execute_data_digest c (p\<lparr>pdu_outdata_written := n\<rparr>) = execute_data_digest c p" "execute_data_digest c (p\<lparr>pdu_payload_written := w\<rparr>) = execute_data_digest c p"
  "data_offset c (p\<lparr>pdu_calculated_data_digest := d\<rparr>) = data_offset c p" "data_offset c (p\<lparr>pdu_outdata_digest_computed := b\<rparr>) = data_offset c p"
  "data_offset c (p\<lparr>pdu_outdata_written := n\<rparr>) = data_offset c p" "data_offset c (p\<lparr>pdu_payload_written := w\<rparr>) = data_offset c p"
  "digested c (p\<lparr>pdu_calculated_data_digest := d\<rparr>) = digested c p" "digested c (p\<lparr>pdu_outdata_digest_computed := b\<rparr>) = digested c p"
  "digested c (p\<lparr>pdu_outdata_written := n\<rparr>) = digested c p" "digested c (p\<lparr>pdu_payload_written := w\<rparr>) = digested c p"
  "pdu_image c (p\<lparr>pdu_calculated_data_digest := d\<rparr>) = pdu_image c p" "pdu_image c (p\<lparr>pdu_outdata_digest_computed := b\<rparr>) = pdu_image c p"
  "pdu_image c (p\<lparr>pdu_outdata_written := n\<rparr>) = pdu_image c p" "pdu_image c (p\<lparr>pdu_payload_written := w\<rparr>) = pdu_image c p"
  by (simp_all add: header_size_def pdu_header_def pdu_payload_def execute_data_digest_def data_offset_def
      digested_def pdu_image_def pdu_digest_def cong: ptr.case_cong)

lemma image_context [simp]:
  "out_bytes (c\<lparr>ctx_pdus := ps\<rparr>) t = out_bytes c t" "out_bytes (c\<lparr>ctx_wire := bs\<rparr>) t = out_bytes c t"
  "pdu_payload (c\<lparr>ctx_pdus := ps\<rparr>) p = pdu_payload c p" "pdu_payload (c\<lparr>ctx_wire := bs\<rparr>) p = pdu_payload c p"
  "execute_data_digest (c\<lparr>ctx_pdus := ps\<rparr>) p = execute_data_digest c p" "execute_data_digest (c\<lparr>ctx_wire := bs\<rparr>) p = execute_data_digest c p"
  "do_data_digest (c\<lparr>ctx_pdus := ps\<rparr>) = do_data_digest c" "do_data_digest (c\<lparr>ctx_wire := bs\<rparr>) = do_data_digest c"
  "data_offset (c\<lparr>ctx_pdus := ps\<rparr>) p = data_offset c p" "data_offset (c\<lparr>ctx_wire := bs\<rparr>) p = data_offset c p"
  "digested (c\<lparr>ctx_pdus := ps\<rparr>) p = digested c p" "digested (c\<lparr>ctx_wire := bs\<rparr>) p = digested c p"
  "pdu_image (c\<lparr>ctx_pdus := ps\<rparr>) p = pdu_image c p" "pdu_image (c\<lparr>ctx_wire := bs\<rparr>) p = pdu_image c p"
  by (simp_all add: out_bytes_def pdu_payload_def do_data_digest_def execute_data_digest_def data_offset_def
      digested_def pdu_image_def pdu_digest_def cong: ptr.case_cong)

lemma pdu_aligned_idem:
  assumes "n + 3 < 2 ^ 32"
  shows "pdu_aligned (pdu_aligned n) = pdu_aligned n" "pdu_aligned n + 3 < 2 ^ 32" "n \<le> pdu_aligned n"
proof -
  have "(n + 3) div 4 < 2 ^ 30" using assms by simp
  then have b: "(n + 3) div 4 * 4 + 3 < 2 ^ 32" by simp
  have "((n + 3) div 4 * 4 + 3) div 4 * 4 = (n + 3) div 4 * 4" "n \<le> (n + 3) div 4 * 4"
    by presburger+
  with b assms show "pdu_aligned (pdu_aligned n) = pdu_aligned n" "pdu_aligned n + 3 < 2 ^ 32" "n \<le> pdu_aligned n"
    by (simp_all add: pdu_aligned_value)
qed

lemma length_padded [simp]: "length (padded bs) = (length bs + 3) div 4 * 4"
proof -
  have "length bs \<le> (length bs + 3) div 4 * 4" by presburger
  then show ?thesis by (simp add: padded_def)
qed

lemma padded_Nil [simp]: "padded [] = []"
  by (simp add: padded_def)

lemma length_digest_bytes [simp]: "length (digest_bytes crc) = 4"
  by (simp add: digest_bytes_def)

lemma length_header: "sendable c p \<Longrightarrow> length (pdu_header p) = header_size p"
  by (simp add: sendable_def pdu_header_def)

lemma length_payload:
  assumes "sendable c p" "pdu_payload_len p \<noteq> 0"
  shows "length (pdu_payload c p) = unat (pdu_payload_len p)"
  using assms by (auto simp: sendable_def pdu_payload_def)

lemma take_append_drop: "k + n \<le> length xs \<Longrightarrow> take k xs @ take n (drop k xs) = take (k + n) xs"
  by (simp add: take_add)

lemma crc32c_chain_append: "crc32c_chain (crc32c_chain c xs) ys = crc32c_chain c (xs @ ys)"
  by (simp add: crc32c_chain_def crc32c_loop_append)

lemma crc32c_chain_Nil [simp]: "crc32c_chain c [] = c"
  by (simp add: crc32c_chain_def)

lemma crc32c_done: "crc32c_chain_done (crc32c_chain crc32c_init xs) = crc32c xs"
  by (simp add: crc32c_chain_done_def crc32c_chain_def crc32c_init_def crc32c_def)

lemma iov_crc_chain: "iov_crc m es n crc = crc32c_chain crc (take n (map m (iov_addrs es)))"
proof (induction m es n crc rule: iov_crc.induct)
  case (2 m e es n crc)
  then show ?case
    by (cases "n \<le> iov_len e") (simp_all add: Let_def crc32c_chain_append take_map take_upt)
qed simp

lemma send_cases [consumes 1, case_names sent blocked failed]:
  assumes "env_ok env"
  obtains (sent) n where "n \<le> length bs"
      "socket_send env bs c = (Sent n, c\<lparr>ctx_wire := ctx_wire c @ take n bs\<rparr>)"
    | (blocked) "socket_send env bs c = (Send_blocked, c)"
    | (failed) "socket_send env bs c = (Send_failed, c)"
proof (cases "env_send env c (length bs)")
  case (Sent n)
  then have "n \<le> length bs" using assms by (simp add: env_ok_def)
  with Sent show ?thesis by (intro sent) (auto simp: socket_send_def)
next
  case Send_blocked
  then show ?thesis by (intro blocked) (simp add: socket_send_def)
next
  case Send_failed
  then show ?thesis by (intro failed) (simp add: socket_send_def)
qed

text \<open>The image only depends on what writing does not change.\<close>

definition same_image :: "iscsi_context \<Rightarrow> iscsi_pdu \<Rightarrow> iscsi_context \<Rightarrow> iscsi_pdu \<Rightarrow> bool" where
  "same_image c p c' p' \<longleftrightarrow> data_bytes (pdu_outdata p') = data_bytes (pdu_outdata p) \<and>
     header_size p' = header_size p \<and> pdu_payload_len p' = pdu_payload_len p \<and>
     pdu_payload_offset p' = pdu_payload_offset p \<and> pdu_cbdata_task p' = pdu_cbdata_task p \<and>
     ctx_memory c' = ctx_memory c \<and> ctx_data_digest c' = ctx_data_digest c \<and>
     ctx_header_digest c' = ctx_header_digest c \<and>
     (\<forall>t. iov_entries (iovector_out (ctx_tasks c' t)) = iov_entries (iovector_out (ctx_tasks c t)))"

lemma same_imageD:
  assumes "same_image c p c' p'"
  shows "pdu_header p' = pdu_header p" "pdu_payload c' p' = pdu_payload c p" "out_bytes c' t = out_bytes c t"
    "execute_data_digest c' p' = execute_data_digest c p" "do_data_digest c' = do_data_digest c"
    "data_offset c' p' = data_offset c p" "header_size p' = header_size p" "digested c' p' = digested c p"
    "pdu_image c' p' = pdu_image c p"
proof -
  note s = assms [unfolded same_image_def]
  show h: "pdu_header p' = pdu_header p" using s by (simp add: pdu_header_def)
  show o: "out_bytes c' t = out_bytes c t" for t using s by (simp add: out_bytes_def)
  show p: "pdu_payload c' p' = pdu_payload c p" using s o by (simp add: pdu_payload_def split: ptr.split)
  show d: "do_data_digest c' = do_data_digest c" using s by (simp add: do_data_digest_def)
  with s show e: "execute_data_digest c' p' = execute_data_digest c p" by (simp add: execute_data_digest_def)
  show f: "data_offset c' p' = data_offset c p" using s by (simp add: data_offset_def)
  show "header_size p' = header_size p" using s by simp
  show g: "digested c' p' = digested c p" using s p h f by (simp add: digested_def)
  show "pdu_image c' p' = pdu_image c p" using s p h d e g by (simp add: pdu_image_def pdu_digest_def)
qed

lemma sendable_same:
  assumes "sendable c p" "same_image c p c' p'" "data_size (pdu_outdata p') + 3 < 2 ^ 32"
    "\<forall>t. iov_window (iovector_out (ctx_tasks c t)) \<longrightarrow> iov_window (iovector_out (ctx_tasks c' t))"
  shows "sendable c' p'"
  using assms(1,3,4) same_imageD [OF assms(2)] assms(2)
  unfolding sendable_def same_image_def by metis

text \<open>A step that appends the next \<open>n\<close> bytes of the image.\<close>

lemma sending_step:
  assumes "ctx_pdus c i = Some p" "pdu_image c p = img" "ctx_wire c = base @ take (pdu_sent p) img"
    "ctx_pdus c' i = Some p'" "same_image c p c' p'" "sendable c' p'" "progress_ok c' p'"
    "ctx_wire c' = ctx_wire c @ take n (drop (pdu_sent p) img)" "pdu_sent p' = pdu_sent p + n"
  shows "sending base img i c'"
  unfolding sending_def
  using assms same_imageD(9) [OF assms(5)] by (auto simp: take_add)

section \<open>The steps write the image\<close>

definition step_writes :: "bytes \<Rightarrow> bytes \<Rightarrow> nat \<Rightarrow> (iscsi_context \<Rightarrow> iscsi_pdu \<Rightarrow> bool) \<Rightarrow> step_result \<Rightarrow> bool" where
  "step_writes base img i P m \<longleftrightarrow> (\<exists>r c'. m = Some (r, c') \<and> sending base img i c' \<and> (r = NULL \<longrightarrow> phase P i c'))"

lemma step_writesI:
  "m = Some (r, c') \<Longrightarrow> sending base img i c' \<Longrightarrow> (r = NULL \<Longrightarrow> phase P i c') \<Longrightarrow> step_writes base img i P m"
  by (auto simp: step_writes_def)

lemma sendingE:
  assumes "sending base img i c"
  obtains p where "ctx_pdus c i = Some p" "sendable c p" "progress_ok c p" "pdu_image c p = img"
    "ctx_wire c = base @ take (pdu_sent p) img"
  using assms unfolding sending_def by blast

definition header_sent :: "iscsi_context \<Rightarrow> iscsi_pdu \<Rightarrow> bool" where
  "header_sent c p \<longleftrightarrow> pdu_outdata_written p = header_size p \<and> data_size (pdu_outdata p) = header_size p"

definition digest_started :: "iscsi_context \<Rightarrow> iscsi_pdu \<Rightarrow> bool" where
  "digest_started c p \<longleftrightarrow> header_sent c p \<and> (execute_data_digest c p \<longrightarrow> pdu_outdata_digest_computed p)"

definition payload_sent :: "iscsi_context \<Rightarrow> iscsi_pdu \<Rightarrow> bool" where
  "payload_sent c p \<longleftrightarrow> digest_started c p \<and> pdu_payload_len p \<le> pdu_payload_written p"

definition padding_sent :: "iscsi_context \<Rightarrow> iscsi_pdu \<Rightarrow> bool" where
  "padding_sent c p \<longleftrightarrow> digest_started c p \<and> pdu_aligned (unat (pdu_payload_len p)) \<le> unat (pdu_payload_written p)"

definition all_sent :: "iscsi_context \<Rightarrow> iscsi_pdu \<Rightarrow> bool" where
  "all_sent c p \<longleftrightarrow> pdu_sent p = length (pdu_image c p)"

lemma write_header_writes:
  assumes "env_ok env" "sending base img i c"
  shows "step_writes base img i header_sent (write_header env i c)"
proof -
  from assms(2) obtain p where p: "ctx_pdus c i = Some p" "sendable c p" "progress_ok c p" "pdu_image c p = img"
    "ctx_wire c = base @ take (pdu_sent p) img" by (rule sendingE)
  let ?q = "p\<lparr>pdu_outdata := \<lparr>data_bytes = data_bytes (pdu_outdata p), data_size = header_size p\<rparr>\<rparr>"
  let ?w = "pdu_outdata_written p"
  have sz: "data_size (pdu_outdata p) + 3 < 2 ^ 32" using p(2) by (simp add: sendable_def)
  note al = pdu_aligned_idem [OF sz]
  have hs: "header_size ?q = header_size p" using al(1) by (simp add: header_size_def)
  have al4: "header_size p + 3 < 2 ^ 32" using al(2) by (simp add: header_size_def)
  have same: "same_image c p (c\<lparr>ctx_pdus := ps, ctx_wire := w\<rparr>) (?q\<lparr>pdu_outdata_written := n\<rparr>)" for ps w n
    using hs by (simp add: same_image_def header_size_def)
  have sendable: "sendable (c\<lparr>ctx_pdus := ps, ctx_wire := w\<rparr>) (?q\<lparr>pdu_outdata_written := n\<rparr>)" for ps w n
    by (rule sendable_same [OF p(2) same]) (use al4 in simp_all)
  have pr: "progress_ok (c\<lparr>ctx_pdus := ps, ctx_wire := w\<rparr>) (?q\<lparr>pdu_outdata_written := n\<rparr>)"
    if "n \<le> header_size p" "?w \<le> n" for ps w n
    using p(3) that same_imageD [OF same [of w ps n]] by (auto simp: progress_ok_def)
  have stay: "sending base img i (c\<lparr>ctx_pdus := (ctx_pdus c)(i \<mapsto> ?q\<lparr>pdu_outdata_written := ?w\<rparr>), ctx_wire := ctx_wire c\<rparr>)"
    by (rule sending_step [OF p(1,4,5) _ same sendable pr, where n = 0])
      (use p(3) in \<open>simp_all add: pdu_sent_def progress_ok_def\<close>)
  have "?q\<lparr>pdu_outdata_written := ?w\<rparr> = ?q" by simp
  with stay have stay: "sending base img i (pdu_store i ?q c)" by (simp only: pdu_store_def) simp
  show ?thesis
  proof (cases "header_size p \<le> ?w")
    case True
    then have "?w = header_size p" using p(3) by (simp add: progress_ok_def)
    then have "write_header env i c = Some (NULL, pdu_store i ?q c)"
      using p(1) by (simp add: write_header_def header_size_def Let_def)
    then show ?thesis
      by (rule step_writesI) (use stay \<open>?w = header_size p\<close> hs in
        \<open>simp_all add: pdu_store_def phase_def header_sent_def\<close>)
  next
    case False
    have len: "header_size p \<le> length (data_bytes (pdu_outdata p))" using p(2) by (simp add: sendable_def)
    let ?bs = "take (header_size p - ?w) (drop ?w (data_bytes (pdu_outdata p)))"
    have lbs: "length ?bs = header_size p - ?w" using len by simp
    have hs': "pdu_aligned (data_size (pdu_outdata p)) = header_size p" by (simp add: header_size_def)
    show ?thesis
    using assms(1) proof (cases rule: send_cases [of env ?bs "pdu_store i ?q c"])
      case (sent n)
      let ?c' = "c\<lparr>ctx_pdus := (ctx_pdus c)(i \<mapsto> ?q\<lparr>pdu_outdata_written := ?w + n\<rparr>), ctx_wire := ctx_wire c @ take n ?bs\<rparr>"
      have w: "write_header env i c = Some (if ?w + n = header_size p then NULL else Ptr 0, ?c')"
        using p(1) sent(2) len False by (simp add: write_header_def hs' Let_def) (simp add: pdu_store_def)
      have n: "?w + n \<le> header_size p" using sent(1) lbs False by linarith
      have "pdu_payload_written p = 0" using p(3) False by (auto simp: progress_ok_def)
      then have "take n ?bs = take n (drop (pdu_sent p) img)"
        unfolding p(4) [symmetric] using sent(1) lbs len False
        by (simp add: pdu_sent_def pdu_image_def pdu_header_def take_drop min_def)
      then have "sending base img i ?c'"
        by (intro sending_step [OF p(1,4,5) _ same sendable pr, where n = n])
          (use n in \<open>simp_all add: pdu_sent_def\<close>)
      with w show ?thesis
        by (rule step_writesI) (use hs in \<open>auto simp: phase_def header_sent_def header_size_def split: if_splits\<close>)
    next
      case blocked
      then have "write_header env i c = Some (Ptr 0, pdu_store i ?q c)"
        using p(1) len False by (simp add: write_header_def hs' Let_def)
      then show ?thesis by (rule step_writesI) (use stay in simp_all)
    next
      case failed
      then have "write_header env i c = Some (Ptr (-1), pdu_store i ?q c)"
        using p(1) len False by (simp add: write_header_def hs' Let_def)
      then show ?thesis by (rule step_writesI) (use stay in simp_all)
    qed
  qed
qed


text \<open>Storing a PDU whose image and counters stay the same.\<close>

lemma execute_digest_offset:
  assumes "sendable c p" "execute_data_digest c p"
  shows "data_offset c p \<le> header_size p" "pdu_payload_len p = 0" "do_data_digest c"
  using assms by (auto simp: sendable_def execute_data_digest_def)

lemma write_digest_start_writes:
  assumes "sending base img i c" "phase header_sent i c"
  shows "step_writes base img i digest_started (write_digest_start i c)"
proof -
  from assms(1) obtain p where p: "ctx_pdus c i = Some p" "sendable c p" "progress_ok c p" "pdu_image c p = img"
    "ctx_wire c = base @ take (pdu_sent p) img" by (rule sendingE)
  have h: "header_sent c p" "data_size (pdu_outdata p) = header_size p"
    using assms(2) p(1) by (simp_all add: phase_def header_sent_def)
  show ?thesis
  proof (cases "execute_data_digest c p \<and> \<not> pdu_outdata_digest_computed p")
    case True
    note ex = execute_digest_offset [OF p(2) conjunct1 [OF True]]
    have len: "header_size p \<le> length (data_bytes (pdu_outdata p))" using p(2) by (simp add: sendable_def)
    have pw: "pdu_payload_written p = 0" using p(3) True by (auto simp: progress_ok_def)
    let ?crc = "crc32c_chain (pdu_calculated_data_digest p) (drop (data_offset c p) (pdu_header p))"
    let ?q = "p\<lparr>pdu_calculated_data_digest := ?crc, pdu_outdata_digest_computed := True\<rparr>"
    have r: "write_digest_start i c = Some (NULL, pdu_store i ?q c)"
      using p(1) True ex(1) len h(2) by (simp add: write_digest_start_def pdu_header_def Let_def)
    have same: "same_image c p (pdu_store i ?q c) ?q" by (simp add: same_image_def pdu_store_def header_size_def)
    have "sendable (pdu_store i ?q c) ?q"
      by (rule sendable_same [OF p(2) same]) (use p(2) in \<open>simp_all add: sendable_def pdu_store_def\<close>)
    moreover have "pdu_calculated_data_digest p = crc32c_init"
      using p(3) ex True by (simp add: progress_ok_def)
    then have "progress_ok (pdu_store i ?q c) ?q"
      using p(3) h(1) True pw ex by (simp add: progress_ok_def header_sent_def digested_def pdu_store_def)
    ultimately have "sending base img i (pdu_store i ?q c)"
      by (intro sending_step [OF p(1,4,5) _ same, where n = 0]) (simp_all add: pdu_store_def pdu_sent_def)
    with r show ?thesis
      by (rule step_writesI) (use h(1) in \<open>simp add: phase_def digest_started_def header_sent_def pdu_store_def\<close>)
  next
    case False
    then have "write_digest_start i c = Some (NULL, c)" using p(1) by (auto simp: write_digest_start_def)
    then show ?thesis
      by (rule step_writesI) (use assms(1) False h(1) p(1) in \<open>auto simp: phase_def digest_started_def\<close>)
  qed
qed


text \<open>One \<open>writev\<close>: it takes a prefix of the wanted bytes.\<close>

definition env_progress :: "iscsi_env \<Rightarrow> bool" where
  "env_progress env \<longleftrightarrow> (\<forall>c n. 0 < n \<longrightarrow> env_send env c n \<noteq> Sent 0)"

lemma writev_window:
  fixes c :: iscsi_context
  assumes "env_ok env"
    "iov_window v \<and> iov_offset v \<le> pos \<and> 0 < count \<and> pos + count \<le> length (iov_addrs (iov_entries v)) \<and>
      length (iov_addrs (iov_entries v)) < 2 ^ 32"
  defines "bs \<equiv> take count (drop pos (map (ctx_memory c) (iov_addrs (iov_entries v))))"
  obtains v' r digest' c' where
    "iscsi_iovector_writev env dd v pos count digest c = Some (r, v', digest', c')"
    "iov v' = iov v" "iov_entries v' = iov_entries v" "iov_window v'" "iov_offset v' \<le> pos"
    "(\<exists>n. n \<le> count \<and> r = Sent n \<and> (env_progress env \<longrightarrow> 0 < n) \<and> c' = c\<lparr>ctx_wire := ctx_wire c @ take n bs\<rparr> \<and>
        digest' = (if dd then crc32c_chain digest (take n bs) else digest)) \<or>
     (r = Send_blocked \<or> r = Send_failed) \<and> c' = c \<and> digest' = digest"
proof -
  obtain v' segs where v: "iscsi_iovector_segments v pos count = Some (v', Ptr segs)"
    "iov_addrs segs = take count (drop pos (iov_addrs (iov_entries v)))"
    "iov v' = iov v" "iov_entries v' = iov_entries v" "iov_window v'" "iov_offset v' \<le> pos"
    using iov_segments_window [of v pos count] assms(2) by blast
  have bs: "map (ctx_memory c) (iov_addrs segs) = bs" using v(2) by (simp add: bs_def take_map drop_map)
  have len: "length bs = count" using assms(2) by (auto simp: bs_def)
  from assms(1) show thesis
  proof (cases rule: send_cases [of env bs c])
    case (sent n)
    have "0 < n" if "env_progress env"
    proof (rule ccontr)
      assume "\<not> 0 < n"
      then have "env_send env c (length bs) = Sent 0"
        using sent(2) by (auto simp: socket_send_def split: send_result.splits)
      with that len assms(2) show False by (simp add: env_progress_def)
    qed
    moreover have "iscsi_iovector_writev env dd v pos count digest c = Some (Sent n, v',
        if dd then crc32c_chain digest (take n bs) else digest, c\<lparr>ctx_wire := ctx_wire c @ take n bs\<rparr>)"
      using v(1) bs sent len by (auto simp: iscsi_iovector_writev_def iov_crc_chain Let_def)
    ultimately show ?thesis using that v(3-6) sent(1) len by blast
  next
    case blocked
    then have "iscsi_iovector_writev env dd v pos count digest c = Some (Send_blocked, v', digest, c)"
      using v(1) bs by (simp add: iscsi_iovector_writev_def)
    then show ?thesis using that v(3-6) by blast
  next
    case failed
    then have "iscsi_iovector_writev env dd v pos count digest c = Some (Send_failed, v', digest, c)"
      using v(1) bs by (simp add: iscsi_iovector_writev_def)
    then show ?thesis using that v(3-6) by blast
  qed
qed


text \<open>The payload starts behind the header in the image.\<close>

lemma image_payload:
  assumes "sendable c p" "pdu_payload_len p \<noteq> 0" "pdu_outdata_written p = header_size p"
    "unat (pdu_payload_written p) + n \<le> unat (pdu_payload_len p)"
  shows "take n (drop (pdu_sent p) (pdu_image c p)) = take n (drop (unat (pdu_payload_written p)) (pdu_payload c p))"
    "take (unat (pdu_payload_written p)) (digested c p) @ take n (drop (unat (pdu_payload_written p)) (pdu_payload c p)) =
     take (unat (pdu_payload_written p) + n) (digested c p)"
proof -
  have len: "length (pdu_payload c p) = unat (pdu_payload_len p)" using length_payload assms(1,2) by blast
  show "take n (drop (pdu_sent p) (pdu_image c p)) = take n (drop (unat (pdu_payload_written p)) (pdu_payload c p))"
    using assms len length_header [OF assms(1)] by (simp add: pdu_sent_def pdu_image_def padded_def)
  show "take (unat (pdu_payload_written p)) (digested c p) @ take n (drop (unat (pdu_payload_written p)) (pdu_payload c p)) =
     take (unat (pdu_payload_written p) + n) (digested c p)"
    using assms len by (simp add: digested_def padded_def take_add)
qed

lemma length_image:
  assumes "sendable c p"
  shows "length (pdu_image c p) = header_size p + (unat (pdu_payload_len p) + 3) div 4 * 4 + length (pdu_digest c p)"
  using length_header [OF assms] length_payload [OF assms] by (simp add: pdu_image_def)

text \<open>After one \<open>writev\<close> of the payload, with the counters and the vector updated.\<close>

lemma payload_step:
  assumes p: "ctx_pdus c i = Some p" "sendable c p" "progress_ok c p" "pdu_image c p = img"
      "ctx_wire c = base @ take (pdu_sent p) img"
    and t: "pdu_cbdata_task p = Ptr t" "header_sent c p" "pdu_payload_written p < pdu_payload_len p"
    and n: "n \<le> unat (pdu_payload_len p - pdu_payload_written p)"
    and v: "iov_entries v = iov_entries (iovector_out (ctx_tasks c t))" "iov_window v"
      "iov_offset v \<le> unat (pdu_payload_offset p) + unat (pdu_payload_written p)"
    and d: "do_data_digest c \<longrightarrow> d = crc32c_chain (pdu_calculated_data_digest p)
      (take n (drop (unat (pdu_payload_written p)) (pdu_payload c p)))"
  defines "q \<equiv> p\<lparr>pdu_calculated_data_digest := d, pdu_payload_written := pdu_payload_written p + of_nat n\<rparr>"
  defines "c' \<equiv> pdu_store i q (task_modify t (\<lambda>task. task\<lparr>iovector_out := v\<rparr>) (c\<lparr>ctx_wire := ctx_wire c @
      take n (drop (unat (pdu_payload_written p)) (pdu_payload c p))\<rparr>))"
  shows "sending base img i c'" "unat (pdu_payload_written q) = unat (pdu_payload_written p) + n"
    "phase header_sent i c'"
proof -
  have nz: "pdu_payload_len p \<noteq> 0" using t(3) by auto
  have le: "unat (pdu_payload_written p) + n \<le> unat (pdu_payload_len p)"
    using n t(3) by (simp add: unat_sub word_le_nat_alt word_less_nat_alt)
  then show pw: "unat (pdu_payload_written q) = unat (pdu_payload_written p) + n"
    using unat_u32_less [of "pdu_payload_len p"] by (simp add: q_def unat_add_of_nat)
  have same: "same_image c p c' q"
    using v(1) by (simp add: same_image_def c'_def q_def pdu_store_def task_modify_def)
  note sd = same_imageD [OF same]
  have s: "sendable c' q"
    by (rule sendable_same [OF p(2) same])
      (use p(2) v(2) in \<open>auto simp: sendable_def c'_def q_def pdu_store_def task_modify_def\<close>)
  have nx: "\<not> execute_data_digest c p" using nz by (simp add: execute_data_digest_def)
  have hs: "pdu_outdata_written p = header_size p" using t(2) by (simp add: header_sent_def)
  note im = image_payload [OF p(2) nz hs le]
  have "progress_ok c' q"
    unfolding progress_ok_def sd
  proof (intro conjI)
    show "header_size p + unat (pdu_payload_written q) \<le> length (pdu_image c p)"
      using le by (simp add: pw length_image [OF p(2)])
    show "do_data_digest c \<longrightarrow> pdu_calculated_data_digest q = crc32c_chain crc32c_init
        (if pdu_payload_len q \<noteq> 0 then take (unat (pdu_payload_written q)) (digested c p)
         else if pdu_outdata_digest_computed q then digested c p else [])"
      using p(3) d nz im(2) by (simp add: pw progress_ok_def crc32c_chain_append) (simp add: q_def)
    show "\<forall>ta. pdu_payload_len q \<noteq> 0 \<and> pdu_cbdata_task q = Ptr ta \<longrightarrow>
        iov_offset (iovector_out (ctx_tasks c' ta)) \<le> unat (pdu_payload_offset q) + unat (pdu_payload_written q)"
      using v(3) t(1) by (simp add: pw) (simp add: q_def c'_def pdu_store_def task_modify_def)
  qed (use p(3) hs nx in \<open>simp_all add: q_def progress_ok_def\<close>)
  with s show "sending base img i c'"
    by (intro sending_step [OF p(1,4,5) _ same, where n = n])
      (use im(1) p(4) hs pw in \<open>simp_all add: pdu_sent_def c'_def pdu_store_def task_modify_def q_def\<close>)
  show "phase header_sent i c'"
    using t(2) by (simp add: phase_def header_sent_def c'_def pdu_store_def q_def)
qed


lemma sendable_payload:
  assumes "sendable c p" "progress_ok c p" "pdu_payload_written p < pdu_payload_len p"
  obtains t where "pdu_cbdata_task p = Ptr t" "iov (iovector_out (ctx_tasks c t)) \<noteq> NULL"
    "iov_window (iovector_out (ctx_tasks c t)) \<and>
     iov_offset (iovector_out (ctx_tasks c t)) \<le> unat (pdu_payload_offset p + pdu_payload_written p) \<and>
     0 < unat (pdu_payload_len p - pdu_payload_written p) \<and>
     unat (pdu_payload_offset p + pdu_payload_written p) + unat (pdu_payload_len p - pdu_payload_written p) \<le>
       length (iov_addrs (iov_entries (iovector_out (ctx_tasks c t)))) \<and>
     length (iov_addrs (iov_entries (iovector_out (ctx_tasks c t)))) < 2 ^ 32"
    "take (unat (pdu_payload_len p - pdu_payload_written p)) (drop (unat (pdu_payload_offset p + pdu_payload_written p)) (out_bytes c t)) =
     drop (unat (pdu_payload_written p)) (pdu_payload c p)"
    "unat (pdu_payload_offset p + pdu_payload_written p) = unat (pdu_payload_offset p) + unat (pdu_payload_written p)"
proof -
  have nz: "pdu_payload_len p \<noteq> 0" using assms(3) by auto
  have lt: "unat (pdu_payload_written p) < unat (pdu_payload_len p)" using assms(3) by (simp add: word_less_nat_alt)
  obtain t where t: "pdu_cbdata_task p = Ptr t" "iov_window (iovector_out (ctx_tasks c t))"
    "unat (pdu_payload_offset p) + unat (pdu_payload_len p) \<le> length (out_bytes c t)" "length (out_bytes c t) < 2 ^ 32"
    using assms(1) nz by (auto simp: sendable_def)
  have off: "unat (pdu_payload_offset p + pdu_payload_written p) = unat (pdu_payload_offset p) + unat (pdu_payload_written p)"
    using unat_add_of_nat [of "pdu_payload_offset p" "unat (pdu_payload_written p)"] t(3,4) lt by simp
  have sub: "unat (pdu_payload_len p - pdu_payload_written p) = unat (pdu_payload_len p) - unat (pdu_payload_written p)"
    using lt by (simp add: unat_sub word_le_nat_alt)
  have "iov (iovector_out (ctx_tasks c t)) \<noteq> NULL"
    using t(3) lt by (auto simp: out_bytes_def iov_entries_def)
  moreover have "iov_offset (iovector_out (ctx_tasks c t)) \<le> unat (pdu_payload_offset p) + unat (pdu_payload_written p)"
    using assms(2) t(1) nz by (simp add: progress_ok_def)
  moreover have "length (iov_addrs (iov_entries (iovector_out (ctx_tasks c t)))) = length (out_bytes c t)"
    by (simp add: out_bytes_def)
  ultimately show thesis
    using t lt by (intro that [of t]) (auto simp: off sub pdu_payload_def drop_take add.commute)
qed

lemma write_payload_step:
  assumes "ctx_pdus c i = Some p" "pdu_payload_written p < pdu_payload_len p" "pdu_cbdata_task p = Ptr t"
    "iov (iovector_out (ctx_tasks c t)) \<noteq> NULL"
    "iscsi_iovector_writev env (do_data_digest c) (iovector_out (ctx_tasks c t))
        (unat (pdu_payload_offset p + pdu_payload_written p)) (unat (pdu_payload_len p - pdu_payload_written p))
        (pdu_calculated_data_digest p) c = Some (r, v, d, c1)"
  defines "c2 \<equiv> task_modify t (\<lambda>task. task\<lparr>iovector_out := v\<rparr>) c1"
  defines "q \<equiv> p\<lparr>pdu_calculated_data_digest := d\<rparr>"
  shows "write_payload env i c =
    (case r of
       Send_blocked \<Rightarrow> Some (Ptr 0, pdu_store i q c2)
     | Send_failed \<Rightarrow> Some (Ptr (-1), pdu_store i q c2)
     | Sent n \<Rightarrow> write_payload env i (pdu_store i (q\<lparr>pdu_payload_written := pdu_payload_written p + of_nat n\<rparr>) c2))"
proof -
  have "\<not> pdu_payload_len p \<le> pdu_payload_written p" using assms(2) by simp
  then show ?thesis
    unfolding c2_def q_def
    by (subst write_payload.simps) (simp only: assms Let_def bind.simps ptr.case if_False prod.case, simp cong: send_result.case_cong)
qed

lemma write_payload_writes:
  assumes "env_ok env" "env_progress env"
  shows "sending base img i c \<Longrightarrow> phase digest_started i c \<Longrightarrow>
    step_writes base img i payload_sent (write_payload env i c)"
proof (induction "unat (pdu_payload_len (pdu_at c i)) - unat (pdu_payload_written (pdu_at c i))"
    arbitrary: c rule: less_induct)
  case less
  from less.prems(1) obtain p where p: "ctx_pdus c i = Some p" "sendable c p" "progress_ok c p" "pdu_image c p = img"
    "ctx_wire c = base @ take (pdu_sent p) img" by (rule sendingE)
  have ds: "digest_started c p" using less.prems(2) p(1) by (simp add: phase_def)
  show ?case
  proof (cases "pdu_payload_len p \<le> pdu_payload_written p")
    case True
    then have "write_payload env i c = Some (NULL, c)" using p(1) by (subst write_payload.simps) simp
    then show ?thesis
      by (rule step_writesI) (use less.prems True p(1) ds in \<open>simp_all add: phase_def payload_sent_def\<close>)
  next
    case False
    then have lt: "pdu_payload_written p < pdu_payload_len p" by simp
    from sendable_payload [OF p(2,3) this] obtain t where t: "pdu_cbdata_task p = Ptr t"
      "iov (iovector_out (ctx_tasks c t)) \<noteq> NULL"
      "iov_window (iovector_out (ctx_tasks c t)) \<and>
       iov_offset (iovector_out (ctx_tasks c t)) \<le> unat (pdu_payload_offset p + pdu_payload_written p) \<and>
       0 < unat (pdu_payload_len p - pdu_payload_written p) \<and>
       unat (pdu_payload_offset p + pdu_payload_written p) + unat (pdu_payload_len p - pdu_payload_written p) \<le>
         length (iov_addrs (iov_entries (iovector_out (ctx_tasks c t)))) \<and>
       length (iov_addrs (iov_entries (iovector_out (ctx_tasks c t)))) < 2 ^ 32"
      "take (unat (pdu_payload_len p - pdu_payload_written p)) (drop (unat (pdu_payload_offset p + pdu_payload_written p)) (out_bytes c t)) =
       drop (unat (pdu_payload_written p)) (pdu_payload c p)"
      "unat (pdu_payload_offset p + pdu_payload_written p) = unat (pdu_payload_offset p) + unat (pdu_payload_written p)"
      by blast
    let ?dig = "pdu_calculated_data_digest p"
    let ?st = "\<lambda>v d n. pdu_store i (p\<lparr>pdu_calculated_data_digest := d, pdu_payload_written := pdu_payload_written p + of_nat n\<rparr>)
      (task_modify t (\<lambda>task. task\<lparr>iovector_out := v\<rparr>) (c\<lparr>ctx_wire := ctx_wire c @
        take n (drop (unat (pdu_payload_written p)) (pdu_payload c p))\<rparr>))"
    let ?rest = "drop (unat (pdu_payload_written p)) (pdu_payload c p)"
    note bs = t(4) [unfolded out_bytes_def]
    obtain v r d c1 where v: "iscsi_iovector_writev env (do_data_digest c) (iovector_out (ctx_tasks c t))
        (unat (pdu_payload_offset p + pdu_payload_written p)) (unat (pdu_payload_len p - pdu_payload_written p)) ?dig c =
        Some (r, v, d, c1)"
      "iov_entries v = iov_entries (iovector_out (ctx_tasks c t))" "iov_window v"
      "iov_offset v \<le> unat (pdu_payload_offset p + pdu_payload_written p)"
      "(\<exists>n. n \<le> unat (pdu_payload_len p - pdu_payload_written p) \<and> r = Sent n \<and> (env_progress env \<longrightarrow> 0 < n) \<and>
          c1 = c\<lparr>ctx_wire := ctx_wire c @ take n ?rest\<rparr> \<and>
          d = (if do_data_digest c then crc32c_chain ?dig (take n ?rest) else ?dig)) \<or>
       (r = Send_blocked \<or> r = Send_failed) \<and> c1 = c \<and> d = ?dig"
      by (rule writev_window [OF assms(1) t(3), where c = c and dd = "do_data_digest c" and digest = ?dig, unfolded bs])
    note v4 = v(4) [unfolded t(5)]
    have hs: "header_sent c p" using ds by (simp add: digest_started_def)
    have nx: "\<not> execute_data_digest c p" using lt by (auto simp: execute_data_digest_def)
    from v(5) assms(2) consider n where "n \<le> unat (pdu_payload_len p - pdu_payload_written p)" "r = Sent n" "0 < n"
        "c1 = c\<lparr>ctx_wire := ctx_wire c @ take n (drop (unat (pdu_payload_written p)) (pdu_payload c p))\<rparr>"
        "do_data_digest c \<longrightarrow> d = crc32c_chain ?dig (take n (drop (unat (pdu_payload_written p)) (pdu_payload c p)))"
      | "r = Send_blocked \<or> r = Send_failed" "c1 = c" "d = ?dig"
      by auto
    then show ?thesis
    proof cases
      case (1 n)
      have w: "write_payload env i c = write_payload env i (?st v d n)"
        unfolding write_payload_step [OF p(1) lt t(1,2) v(1)] 1(2,4) by simp
      note st = payload_step [OF p t(1) hs lt 1(1) v(2,3) v4 1(5)]
      have "unat (pdu_payload_written p) < unat (pdu_payload_len p)" using lt by (simp add: word_less_nat_alt)
      then have "unat (pdu_payload_len (pdu_at (?st v d n) i)) - unat (pdu_payload_written (pdu_at (?st v d n) i)) <
          unat (pdu_payload_len (pdu_at c i)) - unat (pdu_payload_written (pdu_at c i))"
        using st(2) 1(3) p(1) by (simp add: pdu_at_def pdu_store_def)
      moreover have "phase digest_started i (?st v d n)"
        using st(3) lt by (auto simp: phase_def digest_started_def execute_data_digest_def pdu_store_def)
      ultimately show ?thesis unfolding w by (intro less.hyps) (use st(1) in simp_all)
    next
      case 2
      have w: "\<exists>rv. write_payload env i c = Some (Ptr rv, pdu_store i (p\<lparr>pdu_calculated_data_digest := d\<rparr>)
          (task_modify t (\<lambda>task. task\<lparr>iovector_out := v\<rparr>) c))"
        using 2(1) unfolding write_payload_step [OF p(1) lt t(1,2) v(1)] 2(2) by auto
      have "sending base img i (?st v d 0)"
        by (rule payload_step(1) [OF p t(1) hs lt _ v(2,3) v4]) (use 2(3) in simp_all)
      then have "sending base img i (pdu_store i (p\<lparr>pdu_calculated_data_digest := d\<rparr>)
          (task_modify t (\<lambda>task. task\<lparr>iovector_out := v\<rparr>) c))"
        by (simp add: pdu_store_def task_modify_def)
      with w show ?thesis by (auto intro: step_writesI)
    qed
  qed
qed


text \<open>The sizes behind the header.\<close>

lemma aligned_payload:
  assumes "sendable c p"
  shows "pdu_aligned (unat (pdu_payload_len p)) = (unat (pdu_payload_len p) + 3) div 4 * 4"
    "pdu_aligned (unat (pdu_payload_len p)) + 8 < 2 ^ 32 + 4"
    "unat (pdu_payload_len p) \<le> pdu_aligned (unat (pdu_payload_len p))"
    "pdu_aligned (unat (pdu_payload_len p)) < unat (pdu_payload_len p) + 4"
proof -
  have "unat (pdu_payload_len p) + 8 < 2 ^ 32"
    using assms by (cases "pdu_payload_len p = 0") (auto simp: sendable_def)
  moreover from this show "pdu_aligned (unat (pdu_payload_len p)) = (unat (pdu_payload_len p) + 3) div 4 * 4"
    by (intro pdu_aligned_value) simp
  moreover have "n \<le> (n + 3) div 4 * 4" "(n + 3) div 4 * 4 < n + 4" for n :: nat by presburger+
  ultimately show "pdu_aligned (unat (pdu_payload_len p)) + 8 < 2 ^ 32 + 4"
    "unat (pdu_payload_len p) \<le> pdu_aligned (unat (pdu_payload_len p))"
    "pdu_aligned (unat (pdu_payload_len p)) < unat (pdu_payload_len p) + 4"
    by (simp_all add: less_trans [of _ "unat (pdu_payload_len p) + 12"])
qed

lemma counter_step:
  assumes p: "ctx_pdus c i = Some p" "sendable c p" "progress_ok c p" "pdu_image c p = img"
      "ctx_wire c = base @ take (pdu_sent p) img" and ds: "digest_started c p"
    and n: "header_size p + unat (pdu_payload_written p) + n \<le> length img"
    and d: "do_data_digest c \<longrightarrow> d = crc32c_chain crc32c_init
      (if pdu_payload_len p \<noteq> 0 then take (unat (pdu_payload_written p) + n) (digested c p)
       else if pdu_outdata_digest_computed p then digested c p else [])"
  defines "q \<equiv> p\<lparr>pdu_calculated_data_digest := d, pdu_payload_written := pdu_payload_written p + of_nat n\<rparr>"
  defines "c' \<equiv> pdu_store i q (c\<lparr>ctx_wire := ctx_wire c @ take n (drop (pdu_sent p) img)\<rparr>)"
  shows "sending base img i c'" "unat (pdu_payload_written q) = unat (pdu_payload_written p) + n"
    "phase digest_started i c'"
proof -
  have hs: "pdu_outdata_written p = header_size p" using ds by (simp add: digest_started_def header_sent_def)
  have "length (pdu_digest c p) \<le> 4" by (simp add: pdu_digest_def)
  then have "unat (pdu_payload_written p) + n < 2 ^ 32"
    using n length_image [OF p(2)] aligned_payload(1,2) [OF p(2)] p(4) by simp
  then show pw: "unat (pdu_payload_written q) = unat (pdu_payload_written p) + n"
    by (simp add: q_def unat_add_of_nat)
  have same: "same_image c p c' q" by (simp add: same_image_def c'_def q_def pdu_store_def header_size_def)
  note sd = same_imageD [OF same]
  have s: "sendable c' q"
    by (rule sendable_same [OF p(2) same]) (use p(2) in \<open>auto simp: sendable_def c'_def q_def pdu_store_def\<close>)
  have "progress_ok c' q"
    unfolding progress_ok_def sd
  proof (intro conjI)
    show "header_size p + unat (pdu_payload_written q) \<le> length (pdu_image c p)"
      using n p(4) by (simp add: pw)
    show "do_data_digest c \<longrightarrow> pdu_calculated_data_digest q = crc32c_chain crc32c_init
        (if pdu_payload_len q \<noteq> 0 then take (unat (pdu_payload_written q)) (digested c p)
         else if pdu_outdata_digest_computed q then digested c p else [])"
      using d by (simp add: pw) (simp add: q_def)
    show "\<forall>t. pdu_payload_len q \<noteq> 0 \<and> pdu_cbdata_task q = Ptr t \<longrightarrow>
        iov_offset (iovector_out (ctx_tasks c' t)) \<le> unat (pdu_payload_offset q) + unat (pdu_payload_written q)"
      using p(3) unfolding pw by (auto simp: progress_ok_def q_def c'_def pdu_store_def)
  qed (use p(3) hs ds in \<open>simp_all add: q_def progress_ok_def digest_started_def\<close>)
  with s show "sending base img i c'"
    by (intro sending_step [OF p(1,4,5) _ same, where n = n])
      (use p(4) hs pw in \<open>simp_all add: pdu_sent_def c'_def pdu_store_def q_def\<close>)
  show "phase digest_started i c'"
    using ds by (simp add: phase_def digest_started_def header_sent_def c'_def pdu_store_def q_def)
qed

lemma image_tail:
  assumes "sendable c p" "progress_ok c p" "digest_started c p" "pdu_payload_len p \<le> pdu_payload_written p"
  shows "drop (pdu_sent p) (pdu_image c p) =
    replicate (pdu_aligned (unat (pdu_payload_len p)) - unat (pdu_payload_written p)) 0 @
    drop (unat (pdu_payload_written p) - pdu_aligned (unat (pdu_payload_len p))) (pdu_digest c p)"
proof -
  have hs: "pdu_outdata_written p = header_size p" using assms(3) by (simp add: digest_started_def header_sent_def)
  have le: "unat (pdu_payload_len p) \<le> unat (pdu_payload_written p)" using assms(4) by (simp add: word_le_nat_alt)
  let ?body = "padded (if pdu_payload_len p = 0 then [] else pdu_payload c p)"
  have "drop (pdu_sent p) (pdu_image c p) = drop (unat (pdu_payload_written p)) (?body @ pdu_digest c p)"
    using hs length_header [OF assms(1)] by (simp add: pdu_sent_def pdu_image_def)
  moreover have "length ?body = pdu_aligned (unat (pdu_payload_len p))"
    using length_payload [OF assms(1)] by (simp add: aligned_payload(1) [OF assms(1)])
  moreover have "drop (unat (pdu_payload_written p)) ?body =
      replicate (pdu_aligned (unat (pdu_payload_len p)) - unat (pdu_payload_written p)) 0"
    using le length_payload [OF assms(1)] by (auto simp: aligned_payload(1) [OF assms(1)] padded_def)
  ultimately show ?thesis by simp
qed

lemma digest_counter:
  assumes "sendable c p" "progress_ok c p" "pdu_payload_len p \<le> pdu_payload_written p" "do_data_digest c"
    "unat (pdu_payload_written p) + n \<le> pdu_aligned (unat (pdu_payload_len p))"
  shows "crc32c_chain (pdu_calculated_data_digest p) (replicate n 0) = crc32c_chain crc32c_init
      (if pdu_payload_len p \<noteq> 0 then take (unat (pdu_payload_written p) + n) (digested c p)
       else if pdu_outdata_digest_computed p then digested c p else [])"
proof (cases "pdu_payload_len p = 0")
  case True
  then have "n = 0" using assms(5) aligned_payload(1) [OF assms(1)] by simp
  with True assms(2,4) show ?thesis by (simp add: progress_ok_def)
next
  case False
  have le: "unat (pdu_payload_len p) \<le> unat (pdu_payload_written p)" using assms(3) by (simp add: word_le_nat_alt)
  have "take n (drop (unat (pdu_payload_written p)) (digested c p)) = replicate n 0"
    using False le length_payload [OF assms(1) False] assms(5)
    by (simp add: digested_def padded_def aligned_payload(1) [OF assms(1)])
  then show ?thesis
    using False assms(2,4) by (simp add: progress_ok_def crc32c_chain_append take_add)
qed


lemma write_padding_writes:
  assumes "env_ok env" "sending base img i c" "phase payload_sent i c"
  shows "step_writes base img i padding_sent (write_padding env i c)"
proof -
  from assms(2) obtain p where p: "ctx_pdus c i = Some p" "sendable c p" "progress_ok c p" "pdu_image c p = img"
    "ctx_wire c = base @ take (pdu_sent p) img" by (rule sendingE)
  have ds: "digest_started c p" "pdu_payload_len p \<le> pdu_payload_written p"
    using assms(3) p(1) by (simp_all add: phase_def payload_sent_def)
  have le: "unat (pdu_payload_len p) \<le> unat (pdu_payload_written p)" using ds(2) by (simp add: word_le_nat_alt)
  let ?total = "pdu_aligned (unat (pdu_payload_len p))"
  let ?todo = "?total - unat (pdu_payload_written p)"
  show ?thesis
  proof (cases "?todo = 0")
    case True
    then have "write_padding env i c = Some (NULL, c)" using p(1) by (simp add: write_padding_def)
    then show ?thesis
      by (rule step_writesI) (use assms(2) True p(1) ds(1) in \<open>simp_all add: phase_def padding_sent_def\<close>)
  next
    case False
    have three: "\<not> 3 < ?todo" using aligned_payload(4) [OF p(2)] le by simp
    have hs: "pdu_outdata_written p = header_size p" using ds(1) by (simp add: digest_started_def header_sent_def)
    from assms(1) show ?thesis
    proof (cases rule: send_cases [of env "replicate ?todo 0" c])
      case (sent n)
      have n: "n \<le> ?todo" using sent(1) by simp
      let ?d = "if do_data_digest c then crc32c_chain (pdu_calculated_data_digest p) (replicate n 0) else pdu_calculated_data_digest p"
      let ?q = "p\<lparr>pdu_calculated_data_digest := ?d, pdu_payload_written := pdu_payload_written p + of_nat n\<rparr>"
      have bs: "take n (drop (pdu_sent p) img) = replicate n 0"
        using n p(4) image_tail [OF p(2,3) ds] by auto
      have r: "write_padding env i c = Some (if n < ?todo then Ptr 0 else NULL,
          pdu_store i ?q (c\<lparr>ctx_wire := ctx_wire c @ take n (drop (pdu_sent p) img)\<rparr>))"
        using p(1) sent n False three unfolding bs by (simp add: write_padding_def Let_def min_def)
      have cnt: "header_size p + unat (pdu_payload_written p) + n \<le> length img"
        using n False p(4) length_image [OF p(2)] aligned_payload(1) [OF p(2)] by auto
      have d: "do_data_digest c \<longrightarrow> ?d = crc32c_chain crc32c_init
          (if pdu_payload_len p \<noteq> 0 then take (unat (pdu_payload_written p) + n) (digested c p)
           else if pdu_outdata_digest_computed p then digested c p else [])"
        using digest_counter [OF p(2,3) ds(2)] n False by auto
      note st = counter_step [OF p ds(1) cnt d]
      show ?thesis
        by (rule step_writesI [OF r]) (use st n in \<open>auto simp: phase_def padding_sent_def pdu_store_def split: if_splits\<close>)
    next
      case blocked
      then have "write_padding env i c = Some (Ptr 0, c)"
        using p(1) False three by (simp add: write_padding_def)
      then show ?thesis by (rule step_writesI) (use assms(2) in simp_all)
    next
      case failed
      then have "write_padding env i c = Some (Ptr (-1), c)"
        using p(1) False three by (simp add: write_padding_def)
      then show ?thesis by (rule step_writesI) (use assms(2) in simp_all)
    qed
  qed
qed

lemma write_digest_writes:
  assumes "env_ok env" "sending base img i c" "phase padding_sent i c"
  shows "step_writes base img i all_sent (write_digest env i c)"
proof -
  from assms(2) obtain p where p: "ctx_pdus c i = Some p" "sendable c p" "progress_ok c p" "pdu_image c p = img"
    "ctx_wire c = base @ take (pdu_sent p) img" by (rule sendingE)
  let ?total = "pdu_aligned (unat (pdu_payload_len p))" and ?w = "unat (pdu_payload_written p)"
  have ds: "digest_started c p" "?total \<le> ?w" using assms(3) p(1) by (simp_all add: phase_def padding_sent_def)
  have lw: "pdu_payload_len p \<le> pdu_payload_written p"
    using aligned_payload(3) [OF p(2)] ds(2) by (simp add: word_le_nat_alt)
  have hs: "pdu_outdata_written p = header_size p" using ds(1) by (simp add: digest_started_def header_sent_def)
  have len: "length img = header_size p + ?total + length (pdu_digest c p)"
    using length_image [OF p(2)] p(4) by (simp add: aligned_payload(1) [OF p(2)])
  have wl: "?w \<le> ?total + length (pdu_digest c p)" using p(3,4) len by (simp add: progress_ok_def)
  let ?on = "execute_data_digest c p \<or> do_data_digest c \<and> pdu_payload_written p \<noteq> 0"
  have "pdu_payload_written p \<noteq> 0" if "pdu_payload_len p \<noteq> 0" using lw that by auto
  moreover have "pdu_digest c p \<noteq> []" if "pdu_payload_len p = 0" "pdu_payload_written p \<noteq> 0"
    using wl that aligned_payload(1) [OF p(2)] by (auto simp: unat_eq_0)
  ultimately have on: "?on \<longleftrightarrow> pdu_digest c p \<noteq> []"
    by (cases "pdu_payload_written p = 0") (auto simp: pdu_digest_def digest_bytes_def split: if_splits)
  show ?thesis
  proof (cases ?on)
    case False
    then have w: "?w = ?total" using on wl ds(2) by simp
    then have "write_digest env i c = Some (NULL, c)" using p(1) False by (simp add: write_digest_def Let_def)
    then show ?thesis
      by (rule step_writesI) (use assms(2) p(1,4) len False on w hs in \<open>auto simp: phase_def all_sent_def pdu_sent_def\<close>)
  next
    case True
    then have dg: "pdu_digest c p = digest_bytes (crc32c (digested c p))"
      using on by (auto simp: pdu_digest_def split: if_splits)
    have dd: "do_data_digest c" using True by (auto simp: execute_data_digest_def)
    have "length (digested c p) = ?total" if "pdu_payload_len p \<noteq> 0"
      using that length_payload [OF p(2) that] by (simp add: digested_def aligned_payload(1) [OF p(2)])
    moreover have "pdu_outdata_digest_computed p" if "pdu_payload_len p = 0"
    proof -
      have "execute_data_digest c p" using True on that by (auto simp: pdu_digest_def split: if_splits)
      then show ?thesis using ds(1) by (simp add: digest_started_def)
    qed
    ultimately have "pdu_calculated_data_digest p = crc32c_chain crc32c_init (digested c p)"
      using p(3) dd ds(2) by (auto simp: progress_ok_def)
    then have buf: "digest_bytes (crc32c_chain_done (pdu_calculated_data_digest p)) = pdu_digest c p"
      by (simp add: dg crc32c_done)
    have l4: "length (pdu_digest c p) = 4" by (simp add: dg)
    show ?thesis
    proof (cases "?total + 4 \<le> ?w")
      case True
      then have w: "?w = ?total + 4" using wl l4 by simp
      then have "write_digest env i c = Some (NULL, c)"
        using p(1) \<open>?on\<close> by (auto simp: write_digest_def Let_def)
      then show ?thesis
        by (rule step_writesI) (use assms(2) p(1,4) len w hs l4 in \<open>auto simp: phase_def all_sent_def pdu_sent_def\<close>)
    next
      case False
      let ?todo = "?total + 4 - ?w"
      have todo: "\<not> 4 < ?todo" using ds(2) by simp
      have dr: "drop (4 - ?todo) (pdu_digest c p) = drop (pdu_sent p) img"
        using image_tail [OF p(2,3) ds(1) lw] ds(2) False p(4) by (simp add: Suc_diff_le)
      have r0: "write_digest env i c = (case socket_send env (drop (pdu_sent p) img) c of (r, c1) \<Rightarrow>
          (case r of
             Send_blocked \<Rightarrow> Some (Ptr 0, c1)
           | Send_failed \<Rightarrow> Some (Ptr (-1), c1)
           | Sent n \<Rightarrow> Some (if n = ?todo then NULL else Ptr 0,
               pdu_store i (p\<lparr>pdu_payload_written := pdu_payload_written p + of_nat n\<rparr>) c1)))"
        unfolding dr [symmetric] buf [symmetric] using p(1) \<open>?on\<close> False todo
        by (cases "execute_data_digest c p") (simp_all add: write_digest_def Let_def)
      from assms(1) show ?thesis
      proof (cases rule: send_cases [of env "drop (pdu_sent p) img" c])
        case (sent n)
        have n: "n \<le> ?todo" using sent(1) len hs l4 by (simp add: pdu_sent_def)
        let ?q = "p\<lparr>pdu_calculated_data_digest := pdu_calculated_data_digest p,
          pdu_payload_written := pdu_payload_written p + of_nat n\<rparr>"
        have r: "write_digest env i c = Some (if n = ?todo then NULL else Ptr 0,
            pdu_store i ?q (c\<lparr>ctx_wire := ctx_wire c @ take n (drop (pdu_sent p) img)\<rparr>))"
          unfolding r0 sent(2) by simp
        have cnt: "header_size p + ?w + n \<le> length img" using n False len l4 by simp
        have d: "do_data_digest c \<longrightarrow> pdu_calculated_data_digest p = crc32c_chain crc32c_init
            (if pdu_payload_len p \<noteq> 0 then take (?w + n) (digested c p)
             else if pdu_outdata_digest_computed p then digested c p else [])"
          using p(3) ds(2) \<open>pdu_payload_len p \<noteq> 0 \<Longrightarrow> length (digested c p) = ?total\<close> by (auto simp: progress_ok_def)
        note st = counter_step [OF p ds(1) cnt d]
        show ?thesis
          by (rule step_writesI [OF r]) (use st n p(4) len l4 hs False in
            \<open>auto simp: phase_def all_sent_def pdu_sent_def pdu_store_def split: if_splits\<close>)
      next
        case blocked
        then have "write_digest env i c = Some (Ptr 0, c)"
          unfolding r0 by simp
        then show ?thesis by (rule step_writesI) (use assms(2) in simp_all)
      next
        case failed
        then have "write_digest env i c = Some (Ptr (-1), c)"
          unfolding r0 by simp
        then show ?thesis by (rule step_writesI) (use assms(2) in simp_all)
      qed
    qed
  qed
qed


text \<open>All steps of one PDU.\<close>

lemma step_writes_then:
  assumes "step_writes base img i P m"
    "\<And>c. sending base img i c \<Longrightarrow> phase P i c \<Longrightarrow> \<exists>r c'. f c = Some (r, c') \<and> Q r c'"
    "\<And>r c. r \<noteq> NULL \<Longrightarrow> sending base img i c \<Longrightarrow> Q r c"
  shows "\<exists>r c'. and_then m f = Some (r, c') \<and> Q r c'"
proof -
  obtain r c where m: "m = Some (r, c)" "sending base img i c" "r = NULL \<longrightarrow> phase P i c"
    using assms(1) by (auto simp: step_writes_def)
  show ?thesis
  proof (cases r)
    case NULL
    then show ?thesis using m assms(2) [of c] by (auto simp: and_then_def)
  next
    case (Ptr x)
    then show ?thesis using m assms(3) [of r c] by (auto simp: and_then_def)
  qed
qed

definition written_or_paused :: "bytes \<Rightarrow> bytes \<Rightarrow> nat \<Rightarrow> int ptr \<Rightarrow> iscsi_context \<Rightarrow> bool" where
  "written_or_paused base img i r c \<longleftrightarrow>
     (case r of
        NULL \<Rightarrow> ctx_wire c = base @ img \<and> ctx_outqueue_current c = NULL
      | Ptr _ \<Rightarrow> sending base img i c)"

lemma write_done_writes:
  assumes "sending base img i c" "phase all_sent i c"
  shows "\<exists>r c'. write_done i c = Some (r, c') \<and> written_or_paused base img i r c'"
proof -
  from assms(1) obtain p where p: "ctx_pdus c i = Some p" "sendable c p" "progress_ok c p" "pdu_image c p = img"
    "ctx_wire c = base @ take (pdu_sent p) img" by (rule sendingE)
  then have "ctx_wire c = base @ img" using assms(2) by (simp add: phase_def all_sent_def)
  then show ?thesis using p(1)
    by (auto simp: write_done_def iscsi_tcp_free_pdu_def written_or_paused_def Let_def)
qed

lemma write_current_writes:
  assumes "env_ok env" "env_progress env" "sending base img i c"
  shows "\<exists>r c'. write_current env i c = Some (r, c') \<and> written_or_paused base img i r c'"
proof -
  note paused = written_or_paused_def
  show ?thesis
    unfolding write_current_def
    by (rule step_writes_then [OF write_header_writes [OF assms(1,3)]],
        rule step_writes_then [OF write_digest_start_writes], assumption+,
        rule step_writes_then [OF write_payload_writes [OF assms(1,2)]], assumption+,
        rule step_writes_then [OF write_padding_writes [OF assms(1)]], assumption+,
        rule step_writes_then [OF write_digest_writes [OF assms(1)]], assumption+,
        rule write_done_writes, assumption+)
      (auto simp: paused split: ptr.split)
qed


section \<open>Properties\<close>

text \<open>
  C2: the loop body of \<open>iscsi_write_to_socket\<close>, entered with a PDU of which any part has been written
  (the wire ends with a prefix of its image, and the counters, the running digest and the
  position in the buffers agree with it), always returns; it has either written the rest, so
  that the wire ends with exactly the header, the window of the application's buffers, the
  padding and the data digest of the PDU, or it has stopped in such a state again, from which
  the next call goes on. This holds however few bytes the socket accepts at a time.
\<close>

theorem iscsi_write_pdu_image:
  assumes "env_ok env" "env_progress env" "sending base img i c"
  shows "\<exists>r c'. write_current env i c = Some (r, c') \<and>
    (case r of
       NULL \<Rightarrow> ctx_wire c' = base @ img \<and> ctx_outqueue_current c' = NULL
     | Ptr _ \<Rightarrow> sending base img i c')"
  using write_current_writes [OF assms] by (simp add: written_or_paused_def)

section \<open>Witnesses\<close>

text \<open>A socket that takes one byte at a time, and a PDU of which the first of three bytes is sent.\<close>

definition demo_env :: iscsi_env where
  "demo_env = \<lparr>env_new_pdu = \<lambda>_. NULL, env_malloc = \<lambda>_. True, env_time = \<lambda>_. 0, env_service = Some,
     env_send = \<lambda>_ n. Sent (min n 1), env_recv = \<lambda>_ _. Recv_blocked,
     env_getenv = \<lambda>_. False, env_rand = \<lambda>_. 0\<rparr>"

definition demo_data_out :: iscsi_pdu where
  "demo_data_out = zero_pdu\<lparr>pdu_outdata := \<lparr>data_bytes = replicate 48 0, data_size = 48\<rparr>,
     pdu_outdata_written := 48, pdu_payload_offset := 2, pdu_payload_len := 3, pdu_payload_written := 1,
     pdu_cbdata_task := Ptr 0\<rparr>"

definition demo_sending :: iscsi_context where
  "demo_sending = zero_context\<lparr>ctx_pdus := [5 \<mapsto> demo_data_out], ctx_memory := of_nat,
     ctx_wire := replicate 48 0 @ [102],
     ctx_tasks := (\<lambda>_. zero_task\<lparr>iovector_out :=
       zero_iovector\<lparr>iov := Ptr [\<lparr>iov_base = 100, iov_len = 8\<rparr>], niov := 1\<rparr>\<rparr>)\<rparr>"

lemma demo_env_ok: "env_ok demo_env" "env_progress demo_env"
  by (auto simp: env_ok_def env_progress_def demo_env_def)

lemma demo_is_sending: "sending [] (replicate 48 0 @ [102, 103, 104, 0]) 5 demo_sending"
proof -
  have h: "header_size demo_data_out = 48"
    by (simp add: header_size_def demo_data_out_def pdu_aligned_value)
  have o: "out_bytes demo_sending t = [100, 101, 102, 103, 104, 105, 106, 107]" for t
    by (simp add: out_bytes_def demo_sending_def iov_entries_def upt_rec)
  have pl: "pdu_payload demo_sending demo_data_out = [102, 103, 104]"
    by (simp add: pdu_payload_def demo_data_out_def) (simp add: o)
  have dd: "\<not> do_data_digest demo_sending" by (simp add: do_data_digest_def demo_sending_def zero_context_def)
  have im: "pdu_image demo_sending demo_data_out = replicate 48 0 @ [102, 103, 104, 0]"
    by (simp add: pdu_image_def pdu_digest_def execute_data_digest_def pl dd padded_def pdu_header_def h)
      (simp add: demo_data_out_def)
  have w: "iov_window (iovector_out (ctx_tasks demo_sending t))" "iov_offset (iovector_out (ctx_tasks demo_sending t)) = 0" for t
    by (simp_all add: iov_window_def demo_sending_def zero_iovector_def)
  have "sendable demo_sending demo_data_out"
    by (simp add: sendable_def h o w execute_data_digest_def dd) (simp add: demo_data_out_def)
  moreover have "progress_ok demo_sending demo_data_out"
    by (simp add: progress_ok_def h im w execute_data_digest_def dd) (simp add: demo_data_out_def zero_pdu_def)
  moreover have "ctx_pdus demo_sending 5 = Some demo_data_out" "ctx_wire demo_sending = replicate 48 0 @ [102]"
    by (simp_all add: demo_sending_def)
  moreover have "pdu_sent demo_data_out = 49" by (simp add: pdu_sent_def demo_data_out_def)
  ultimately show ?thesis by (simp add: sending_def im)
qed

theorem iscsi_write_pdu_image_witness:
  "\<exists>r c'. write_current demo_env 5 demo_sending = Some (r, c') \<and>
    (r = NULL \<longrightarrow> ctx_wire c' = replicate 48 0 @ [102, 103, 104, 0])"
  using iscsi_write_pdu_image [OF demo_env_ok demo_is_sending] by auto

end
