(* ===== verification/Write_Loop.thy ===== *)
theory Write_Loop
  imports Iscsi_Write
begin

text \<open>
  The whole loop of \<open>iscsi_write_to_socket\<close>: it returns, it sends only PDUs that the target's
  command window allows, in the order of the outqueue, and what it changes is the wire, the
  counters of the PDUs it works on and the positions in the tasks' buffers.
\<close>

section \<open>What the steps change\<close>

text \<open>The parts of a PDU, a task and a context that writing the PDU \<open>i\<close> leaves alone.\<close>

definition pdu_core :: "iscsi_pdu \<Rightarrow> iscsi_pdu" where
  "pdu_core p = p\<lparr>pdu_outdata := \<lparr>data_bytes = data_bytes (pdu_outdata p), data_size = header_size p\<rparr>,
     pdu_outdata_written := 0, pdu_payload_written := 0, pdu_calculated_data_digest := 0,
     pdu_outdata_digest_computed := False\<rparr>"

definition task_core :: "scsi_task \<Rightarrow> scsi_task" where
  "task_core t = t\<lparr>iovector_out := (iovector_out t)\<lparr>consumed := 0, iov_offset := 0\<rparr>\<rparr>"

definition context_core :: "nat \<Rightarrow> iscsi_context \<Rightarrow> iscsi_context" where
  "context_core i c = c\<lparr>ctx_wire := [], ctx_tasks := \<lambda>t. task_core (ctx_tasks c t),
     ctx_pdus := (ctx_pdus c)(i := map_option pdu_core (ctx_pdus c i))\<rparr>"

definition wrote :: "nat \<Rightarrow> iscsi_context \<Rightarrow> iscsi_context \<Rightarrow> bool" where
  "wrote i c c' \<longleftrightarrow> context_core i c' = context_core i c"

lemma wrote_refl [simp]: "wrote i c c"
  by (simp add: wrote_def)

lemma wrote_trans [trans]: "wrote i c c' \<Longrightarrow> wrote i c' c'' \<Longrightarrow> wrote i c c''"
  by (simp add: wrote_def)

lemma pdu_core_updates [simp]:
  "pdu_core (p\<lparr>pdu_outdata_written := a\<rparr>) = pdu_core p" "pdu_core (p\<lparr>pdu_payload_written := b\<rparr>) = pdu_core p"
  "pdu_core (p\<lparr>pdu_calculated_data_digest := d\<rparr>) = pdu_core p"
  "pdu_core (p\<lparr>pdu_outdata_digest_computed := e\<rparr>) = pdu_core p"
  by (simp_all add: pdu_core_def header_size_def)

lemma task_core_update:
  "task_core (t\<lparr>iovector_out := v\<rparr>) = task_core t \<longleftrightarrow>
   v\<lparr>consumed := 0, iov_offset := 0\<rparr> = (iovector_out t)\<lparr>consumed := 0, iov_offset := 0\<rparr>"
proof
  assume "task_core (t\<lparr>iovector_out := v\<rparr>) = task_core t"
  then have "iovector_out (task_core (t\<lparr>iovector_out := v\<rparr>)) = iovector_out (task_core t)" by simp
  then show "v\<lparr>consumed := 0, iov_offset := 0\<rparr> = (iovector_out t)\<lparr>consumed := 0, iov_offset := 0\<rparr>"
    by (simp add: task_core_def)
qed (simp add: task_core_def)

text \<open>What can be read off an unchanged core.\<close>

lemma pdu_coreD:
  assumes "pdu_core p' = pdu_core p"
  shows "data_bytes (pdu_outdata p') = data_bytes (pdu_outdata p)" "header_size p' = header_size p"
    "pdu_flags p' = pdu_flags p" "pdu_cmdsn p' = pdu_cmdsn p" "pdu_itt p' = pdu_itt p"
    "pdu_payload_len p' = pdu_payload_len p" "pdu_payload_offset p' = pdu_payload_offset p"
    "pdu_cbdata_task p' = pdu_cbdata_task p" "pdu_callback p' = pdu_callback p"
    "pdu_cbdata_callback p' = pdu_cbdata_callback p"
proof -
  have e: "f (pdu_core p') = f (pdu_core p)" for f :: "iscsi_pdu \<Rightarrow> 'x" using assms by simp
  show "data_bytes (pdu_outdata p') = data_bytes (pdu_outdata p)"
    using e [of "\<lambda>q. data_bytes (pdu_outdata q)"] by (simp add: pdu_core_def)
  show "header_size p' = header_size p" using e [of "\<lambda>q. data_size (pdu_outdata q)"] by (simp add: pdu_core_def)
  show "pdu_flags p' = pdu_flags p" using e [of pdu_flags] by (simp add: pdu_core_def)
  show "pdu_cmdsn p' = pdu_cmdsn p" using e [of pdu_cmdsn] by (simp add: pdu_core_def)
  show "pdu_itt p' = pdu_itt p" using e [of pdu_itt] by (simp add: pdu_core_def)
  show "pdu_payload_len p' = pdu_payload_len p" using e [of pdu_payload_len] by (simp add: pdu_core_def)
  show "pdu_payload_offset p' = pdu_payload_offset p" using e [of pdu_payload_offset] by (simp add: pdu_core_def)
  show "pdu_cbdata_task p' = pdu_cbdata_task p" using e [of pdu_cbdata_task] by (simp add: pdu_core_def)
  show "pdu_callback p' = pdu_callback p" using e [of pdu_callback] by (simp add: pdu_core_def)
  show "pdu_cbdata_callback p' = pdu_cbdata_callback p" using e [of pdu_cbdata_callback] by (simp add: pdu_core_def)
qed

lemma task_coreD:
  assumes "task_core t' = task_core t"
  shows "iov (iovector_out t') = iov (iovector_out t)" "niov (iovector_out t') = niov (iovector_out t)"
    "task_lun t' = task_lun t"
proof -
  have e: "f (task_core t') = f (task_core t)" for f :: "scsi_task \<Rightarrow> 'x" using assms by simp
  show "iov (iovector_out t') = iov (iovector_out t)" using e [of "\<lambda>t. iov (iovector_out t)"] by (simp add: task_core_def)
  show "niov (iovector_out t') = niov (iovector_out t)" using e [of "\<lambda>t. niov (iovector_out t)"] by (simp add: task_core_def)
  show "task_lun t' = task_lun t" using e [of task_lun] by (simp add: task_core_def)
qed

lemma wroteD:
  assumes "wrote i c c'"
  shows "ctx_outqueue c' = ctx_outqueue c" "ctx_waitpdu c' = ctx_waitpdu c" "ctx_maxcmdsn c' = ctx_maxcmdsn c"
    "ctx_expcmdsn c' = ctx_expcmdsn c" "ctx_is_corked c' = ctx_is_corked c" "ctx_cmdsn c' = ctx_cmdsn c"
    "ctx_outqueue_current c' = ctx_outqueue_current c" "ctx_trace c' = ctx_trace c"
    "ctx_header_digest c' = ctx_header_digest c" "ctx_data_digest c' = ctx_data_digest c"
    "k \<noteq> i \<Longrightarrow> ctx_pdus c' k = ctx_pdus c k"
    "map_option pdu_core (ctx_pdus c' i) = map_option pdu_core (ctx_pdus c i)"
    "task_core (ctx_tasks c' t) = task_core (ctx_tasks c t)"
proof -
  have e: "f (context_core i c') = f (context_core i c)" for f :: "iscsi_context \<Rightarrow> 'x"
    using assms by (simp add: wrote_def)
  show "ctx_outqueue c' = ctx_outqueue c" using e [of ctx_outqueue] by (simp add: context_core_def)
  show "ctx_waitpdu c' = ctx_waitpdu c" using e [of ctx_waitpdu] by (simp add: context_core_def)
  show "ctx_maxcmdsn c' = ctx_maxcmdsn c" using e [of ctx_maxcmdsn] by (simp add: context_core_def)
  show "ctx_expcmdsn c' = ctx_expcmdsn c" using e [of ctx_expcmdsn] by (simp add: context_core_def)
  show "ctx_is_corked c' = ctx_is_corked c" using e [of ctx_is_corked] by (simp add: context_core_def)
  show "ctx_cmdsn c' = ctx_cmdsn c" using e [of ctx_cmdsn] by (simp add: context_core_def)
  show "ctx_outqueue_current c' = ctx_outqueue_current c" using e [of ctx_outqueue_current] by (simp add: context_core_def)
  show "ctx_trace c' = ctx_trace c" using e [of ctx_trace] by (simp add: context_core_def)
  show "ctx_header_digest c' = ctx_header_digest c" using e [of ctx_header_digest] by (simp add: context_core_def)
  show "ctx_data_digest c' = ctx_data_digest c" using e [of ctx_data_digest] by (simp add: context_core_def)
  show "ctx_pdus c' k = ctx_pdus c k" if "k \<noteq> i"
    using that e [of "\<lambda>c. ctx_pdus c k"] by (simp add: context_core_def)
  show "map_option pdu_core (ctx_pdus c' i) = map_option pdu_core (ctx_pdus c i)"
    using e [of "\<lambda>c. ctx_pdus c i"] by (simp add: context_core_def)
  show "task_core (ctx_tasks c' t) = task_core (ctx_tasks c t)"
    using e [of "\<lambda>c. ctx_tasks c t"] by (simp add: context_core_def)
qed

lemma wrote_store:
  assumes "ctx_pdus c i = Some p" "pdu_core q = pdu_core p"
  shows "wrote i c (pdu_store i q c)" "wrote i c (pdu_store i q (c\<lparr>ctx_wire := w\<rparr>))" "wrote i c (c\<lparr>ctx_wire := w\<rparr>)"
  using assms by (simp_all add: wrote_def context_core_def pdu_store_def)

lemma wrote_vector:
  assumes "ctx_pdus c i = Some p" "pdu_core q = pdu_core p"
    "v\<lparr>consumed := 0, iov_offset := 0\<rparr> = (iovector_out (ctx_tasks c t))\<lparr>consumed := 0, iov_offset := 0\<rparr>"
  shows "wrote i c (pdu_store i q (task_modify t (\<lambda>task. task\<lparr>iovector_out := v\<rparr>) (c\<lparr>ctx_wire := w\<rparr>)))"
  using assms by (auto simp: wrote_def context_core_def pdu_store_def task_modify_def fun_eq_iff task_core_update
      intro!: iscsi_context.fold_congs)

section \<open>The steps are defined\<close>

text \<open>
  A PDU that can be written: its bytes are there, its payload has a task, and the vectors of the
  tasks do not claim more entries than their arrays have.
\<close>

definition writable :: "iscsi_context \<Rightarrow> iscsi_pdu \<Rightarrow> bool" where
  "writable c p \<longleftrightarrow> header_size p \<le> length (data_bytes (pdu_outdata p)) \<and>
     (execute_data_digest c p \<longrightarrow> data_offset c p \<le> header_size p) \<and>
     (pdu_payload_len p \<noteq> 0 \<longrightarrow> pdu_cbdata_task p \<noteq> NULL \<and>
        unat (pdu_payload_offset p) + unat (pdu_payload_len p) < 2 ^ 31)"

definition vectors_ok :: "iscsi_context \<Rightarrow> bool" where
  "vectors_ok c \<longleftrightarrow> (\<forall>t. case iov (iovector_out (ctx_tasks c t)) of
     NULL \<Rightarrow> True | Ptr arr \<Rightarrow> niov (iovector_out (ctx_tasks c t)) \<le> length arr)"

lemma writable_wrote:
  assumes "wrote i c c'" "pdu_core p' = pdu_core p" "writable c p"
  shows "writable c' p'"
  using assms(3) pdu_coreD [OF assms(2)] wroteD [OF assms(1)]
  by (simp add: writable_def execute_data_digest_def do_data_digest_def data_offset_def)

lemma vectors_ok_wrote:
  assumes "wrote i c c'" "vectors_ok c"
  shows "vectors_ok c'"
  using assms(2) task_coreD [OF wroteD(13) [OF assms(1)]] by (simp add: vectors_ok_def cong: ptr.case_cong)


definition ready :: "nat \<Rightarrow> iscsi_context \<Rightarrow> bool" where
  "ready i c \<longleftrightarrow> vectors_ok c \<and> (\<exists>p. ctx_pdus c i = Some p \<and> writable c p)"

lemma ready_wrote:
  assumes "wrote i c c'" "ready i c"
  shows "ready i c'"
proof -
  obtain p where p: "ctx_pdus c i = Some p" "writable c p" using assms(2) by (auto simp: ready_def)
  then obtain p' where "ctx_pdus c' i = Some p'" "pdu_core p' = pdu_core p"
    using wroteD(12) [OF assms(1)] by auto
  then show ?thesis
    using assms writable_wrote [OF assms(1) _ p(2)] vectors_ok_wrote [OF assms(1)] by (auto simp: ready_def)
qed

lemma header_size_idem [simp]: "pdu_aligned (header_size p) = header_size p"
proof -
  let ?w = "(of_nat (data_size (pdu_outdata p)) + 3 :: u64)"
  let ?m = "unat (take_bit 30 (drop_bit 2 ?w))"
  have m: "?m < 2 ^ 30" using take_bit_nat_less_exp [of 30] by (simp only: unsigned_take_bit_eq)
  have "header_size p = unat (push_bit 2 (take_bit 30 (drop_bit 2 ?w)))"
    by (simp add: header_size_def pdu_aligned_def align_constant align_mask)
  also have "\<dots> = take_bit 64 (push_bit 2 ?m)" by (simp add: unsigned_push_bit_eq)
  also have "\<dots> = 4 * ?m" using m by (simp add: push_bit_eq_mult take_bit_nat_eq_self)
  finally have h: "header_size p = 4 * ?m" .
  have "(4 * ?m + 3) div 4 * 4 = 4 * ?m" by simp
  then show ?thesis using m unfolding h by (subst pdu_aligned_value) simp_all
qed

definition step_ok :: "nat \<Rightarrow> iscsi_context \<Rightarrow> (iscsi_pdu \<Rightarrow> bool) \<Rightarrow> step_result \<Rightarrow> bool" where
  "step_ok i c P m \<longleftrightarrow> (\<exists>r c'. m = Some (r, c') \<and> wrote i c c' \<and>
     (r = NULL \<longrightarrow> (\<forall>p. ctx_pdus c' i = Some p \<longrightarrow> P p)))"

lemma step_okI:
  "m = Some (r, c') \<Longrightarrow> wrote i c c' \<Longrightarrow> (\<And>p. r = NULL \<Longrightarrow> ctx_pdus c' i = Some p \<Longrightarrow> P p) \<Longrightarrow> step_ok i c P m"
  by (auto simp: step_ok_def)

lemma store_simps [simp]:
  "ctx_pdus (pdu_store i p c) i = Some p" "pdu_store i p (pdu_store i q c) = pdu_store i p c"
  "(pdu_store i p c)\<lparr>ctx_wire := w\<rparr> = pdu_store i p (c\<lparr>ctx_wire := w\<rparr>)"
  by (simp_all add: pdu_store_def)

definition rounded :: "iscsi_pdu \<Rightarrow> bool" where
  "rounded p \<longleftrightarrow> data_size (pdu_outdata p) = header_size p"

lemma write_header_ok:
  assumes "env_ok env" "ready i c"
  shows "step_ok i c rounded (write_header env i c)"
proof -
  obtain p where p: "ctx_pdus c i = Some p" "writable c p" using assms(2) by (auto simp: ready_def)
  let ?q = "p\<lparr>pdu_outdata := \<lparr>data_bytes = data_bytes (pdu_outdata p), data_size = header_size p\<rparr>\<rparr>"
  have h: "header_size (?q\<lparr>pdu_outdata_written := n\<rparr>) = header_size p" "header_size ?q = header_size p"
    "pdu_aligned (data_size (pdu_outdata p)) = header_size p" for n
    using header_size_idem [of p] by (simp_all add: header_size_def)
  have core: "pdu_core (?q\<lparr>pdu_outdata_written := n\<rparr>) = pdu_core p" "pdu_core ?q = pdu_core p" for n
    using h by (simp_all add: pdu_core_def)
  note st = wrote_store [OF p(1) core(1)] wrote_store [OF p(1) core(2)]
  let ?w = "pdu_outdata_written p"
  let ?bs = "take (header_size p - ?w) (drop ?w (data_bytes (pdu_outdata p)))"
  show ?thesis
  proof (cases "header_size p \<le> ?w")
    case True
    then have "write_header env i c = Some (if ?w = header_size p then NULL else Ptr 0, pdu_store i ?q c)"
      using p(1) by (simp add: write_header_def h(3) Let_def)
    then show ?thesis by (rule step_okI) (use st h in \<open>auto simp: rounded_def\<close>)
  next
    case False
    have len: "header_size p \<le> length (data_bytes (pdu_outdata p))" using p(2) by (simp add: writable_def)
    from assms(1) show ?thesis
    proof (cases rule: send_cases [of env ?bs "pdu_store i ?q c"])
      case (sent n)
      then have "write_header env i c = Some (if ?w + n = header_size p then NULL else Ptr 0,
          pdu_store i (?q\<lparr>pdu_outdata_written := ?w + n\<rparr>) (c\<lparr>ctx_wire := ctx_wire c @ take n ?bs\<rparr>))"
        using p(1) len False by (simp add: write_header_def h(3) Let_def) (simp add: pdu_store_def)
      then show ?thesis by (rule step_okI) (use st h in \<open>auto simp: rounded_def\<close>)
    next
      case blocked
      then have "write_header env i c = Some (Ptr 0, pdu_store i ?q c)"
        using p(1) len False by (simp add: write_header_def h(3) Let_def)
      then show ?thesis by (rule step_okI) (use st in auto)
    next
      case failed
      then have "write_header env i c = Some (Ptr (-1), pdu_store i ?q c)"
        using p(1) len False by (simp add: write_header_def h(3) Let_def)
      then show ?thesis by (rule step_okI) (use st in auto)
    qed
  qed
qed

lemma write_digest_start_ok:
  assumes "ready i c" "\<And>p. ctx_pdus c i = Some p \<Longrightarrow> rounded p"
  shows "step_ok i c (\<lambda>_. True) (write_digest_start i c)"
proof -
  obtain p where p: "ctx_pdus c i = Some p" "writable c p" using assms(1) by (auto simp: ready_def)
  then have d: "data_size (pdu_outdata p) = header_size p" using assms(2) by (simp add: rounded_def)
  show ?thesis
  proof (cases "execute_data_digest c p \<and> \<not> pdu_outdata_digest_computed p")
    case True
    then have "\<exists>d. write_digest_start i c = Some (NULL, pdu_store i
        (p\<lparr>pdu_calculated_data_digest := d, pdu_outdata_digest_computed := True\<rparr>) c)"
      using p d by (simp add: write_digest_start_def writable_def Let_def) blast
    then show ?thesis using wrote_store [OF p(1)] by (auto intro!: step_okI)
  next
    case False
    then have "write_digest_start i c = Some (NULL, c)" using p(1) by (auto simp: write_digest_start_def)
    then show ?thesis by (rule step_okI) simp_all
  qed
qed

text \<open>The window of a vector, without the assumption that the request lies within it.\<close>

lemma iov_tail_length:
  "iov_tail es len2 = Ptr segs \<Longrightarrow> length (iov_addrs segs) = len2 \<and> segs \<noteq> [] \<and>
     (p \<le> iov_len (hd es) \<and> p \<le> len2 \<longrightarrow> p \<le> iov_len (hd segs))"
  by (induction es len2 arbitrary: segs rule: iov_tail.induct) (auto split: if_splits ptr.splits)

lemma iov_head_position:
  "iov_head es k off pos = (k', off', Ptr (p, fs)) \<Longrightarrow> p \<le> pos \<and> fs \<noteq> [] \<and> p < iov_len (hd fs)"
  by (induction es k off pos rule: iov_head.induct) (auto split: if_splits)

lemma segments_defined:
  assumes "case iov v of NULL \<Rightarrow> True | Ptr arr \<Rightarrow> niov v \<le> length arr" "pos + count < 2 ^ 32"
  shows "\<exists>v' r. iscsi_iovector_segments v pos count = Some (v', r) \<and>
    v'\<lparr>consumed := 0, iov_offset := 0\<rparr> = v\<lparr>consumed := 0, iov_offset := 0\<rparr> \<and>
    (\<forall>segs. r = Ptr segs \<longrightarrow> length (iov_addrs segs) = count)"
proof (cases "iov v")
  case NULL
  then show ?thesis by (simp add: iscsi_iovector_segments_def)
next
  case (Ptr arr)
  show ?thesis
  proof (cases "pos < iov_offset v \<or> niov v \<le> consumed v")
    case True
    with Ptr show ?thesis by (auto simp: iscsi_iovector_segments_def)
  next
    case False
    obtain k off r where h: "iov_head (drop (consumed v) (take (niov v) arr)) (consumed v) (iov_offset v)
        (pos - iov_offset v) = (k, off, r)" by (metis prod_cases3)
    show ?thesis
    proof (cases r)
      case NULL
      with Ptr False h assms(1) show ?thesis by (auto simp: iscsi_iovector_segments_def Let_def)
    next
      case (Ptr x)
      obtain p fs where x: "x = (p, fs)" by (cases x)
      have pp: "p \<le> pos" "fs \<noteq> []" "p < iov_len (hd fs)"
        using iov_head_position [of _ _ _ _ k off p fs] h Ptr x by force+
      then have m: "(p + count) mod 2 ^ 32 = p + count" using assms(2) by (intro mod_less) linarith
      show ?thesis
      proof (cases "iov_tail fs (p + count)")
        case NULL
        with \<open>iov v = Ptr arr\<close> False h Ptr x m assms(1) show ?thesis by (auto simp: iscsi_iovector_segments_def Let_def)
      next
        case tail: (Ptr segs)
        have "length (iov_addrs segs) = p + count" "segs \<noteq> []" "p \<le> iov_len (hd segs)"
          using iov_tail_length [OF tail, of p] pp(3) by auto
        then have "length (iov_addrs (clip_first p segs)) = count" by (simp add: iov_addrs_clip_first)
        with \<open>iov v = Ptr arr\<close> False h Ptr x m assms(1) tail show ?thesis
          by (auto simp: iscsi_iovector_segments_def Let_def)
      qed
    qed
  qed
qed


lemma writev_defined:
  assumes "env_ok env" "case iov v of NULL \<Rightarrow> True | Ptr arr \<Rightarrow> niov v \<le> length arr" "pos + count < 2 ^ 32"
  obtains v' r d w where
    "iscsi_iovector_writev env dd v pos count digest c = Some (r, v', d, c\<lparr>ctx_wire := w\<rparr>)"
    "v'\<lparr>consumed := 0, iov_offset := 0\<rparr> = v\<lparr>consumed := 0, iov_offset := 0\<rparr>"
    "\<forall>n. r = Sent n \<longrightarrow> n \<le> count \<and> (env_progress env \<and> 0 < count \<longrightarrow> 0 < n)"
proof -
  obtain v' q where v: "iscsi_iovector_segments v pos count = Some (v', q)"
    "v'\<lparr>consumed := 0, iov_offset := 0\<rparr> = v\<lparr>consumed := 0, iov_offset := 0\<rparr>"
    "\<forall>segs. q = Ptr segs \<longrightarrow> length (iov_addrs segs) = count"
    using segments_defined [OF assms(2,3)] by blast
  show thesis
  proof (cases q)
    case NULL
    with v show ?thesis by (intro that [of Send_failed v' digest "ctx_wire c"]) (simp_all add: iscsi_iovector_writev_def)
  next
    case (Ptr segs)
    let ?bs = "map (ctx_memory c) (iov_addrs segs)"
    have len: "length ?bs = count" using v(3) Ptr by simp
    from assms(1) show ?thesis
    proof (cases rule: send_cases [of env ?bs c])
      case (sent n)
      have "0 < n" if "env_progress env" "0 < count"
      proof (rule ccontr)
        assume "\<not> 0 < n"
        then have "env_send env c (length ?bs) = Sent 0"
          using sent(2) by (auto simp: socket_send_def split: send_result.splits)
        with that len show False by (simp add: env_progress_def)
      qed
      with sent v(1,2) Ptr len show ?thesis
        by (intro that [of "Sent n" v' "if dd \<and> 0 < n then iov_crc (ctx_memory c) segs n digest else digest"
              "ctx_wire c @ take n ?bs"]) (auto simp: iscsi_iovector_writev_def Let_def)
    next
      case blocked
      with v(1,2) Ptr show ?thesis
        by (intro that [of Send_blocked v' digest "ctx_wire c"]) (simp_all add: iscsi_iovector_writev_def)
    next
      case failed
      with v(1,2) Ptr show ?thesis
        by (intro that [of Send_failed v' digest "ctx_wire c"]) (simp_all add: iscsi_iovector_writev_def)
    qed
  qed
qed

lemma step_ok_wrote:
  assumes "wrote i c c'" "step_ok i c' P m"
  shows "step_ok i c P m"
  using assms by (auto simp: step_ok_def intro: wrote_trans)

definition payload_done :: "iscsi_pdu \<Rightarrow> bool" where
  "payload_done p \<longleftrightarrow> pdu_payload_len p \<le> pdu_payload_written p"

lemma write_payload_ok:
  assumes "env_ok env" "env_progress env"
  shows "ready i c \<Longrightarrow> step_ok i c payload_done (write_payload env i c)"
proof (induction "unat (pdu_payload_len (pdu_at c i)) - unat (pdu_payload_written (pdu_at c i))"
    arbitrary: c rule: less_induct)
  case less
  obtain p where p: "ctx_pdus c i = Some p" "writable c p" using less.prems by (auto simp: ready_def)
  show ?case
  proof (cases "pdu_payload_len p \<le> pdu_payload_written p")
    case True
    then have "write_payload env i c = Some (NULL, c)" using p(1) by (subst write_payload.simps) simp
    then show ?thesis by (rule step_okI) (use True p(1) in \<open>simp_all add: payload_done_def\<close>)
  next
    case False
    then have lt: "pdu_payload_written p < pdu_payload_len p" by simp
    then have u: "unat (pdu_payload_written p) < unat (pdu_payload_len p)" by (simp add: word_less_nat_alt)
    have "pdu_payload_len p \<noteq> 0" using lt by auto
    then obtain t where t: "pdu_cbdata_task p = Ptr t" and
      off: "unat (pdu_payload_offset p) + unat (pdu_payload_len p) < 2 ^ 31"
      using p(2) by (cases "pdu_cbdata_task p") (auto simp: writable_def)
    show ?thesis
    proof (cases "iov (iovector_out (ctx_tasks c t))")
      case NULL
      then have "write_payload env i c = Some (Ptr (-1), c)"
        using p(1) lt t by (subst write_payload.simps) simp
      then show ?thesis by (rule step_okI) simp_all
    next
      case (Ptr arr)
      let ?count = "unat (pdu_payload_len p - pdu_payload_written p)"
      let ?pos = "unat (pdu_payload_offset p + pdu_payload_written p)"
      have cnt: "?count = unat (pdu_payload_len p) - unat (pdu_payload_written p)"
        using u by (simp add: unat_sub word_le_nat_alt)
      have pos: "?pos = unat (pdu_payload_offset p) + unat (pdu_payload_written p)"
        using unat_add_of_nat [of "pdu_payload_offset p" "unat (pdu_payload_written p)"] off u by simp
      have arrs: "case iov (iovector_out (ctx_tasks c t)) of NULL \<Rightarrow> True
          | Ptr arr \<Rightarrow> niov (iovector_out (ctx_tasks c t)) \<le> length arr"
        using less.prems by (simp add: ready_def vectors_ok_def)
      have bound: "?pos + ?count < 2 ^ 32" using off u cnt pos by simp
      obtain v r d w where v: "iscsi_iovector_writev env (do_data_digest c) (iovector_out (ctx_tasks c t)) ?pos ?count
          (pdu_calculated_data_digest p) c = Some (r, v, d, c\<lparr>ctx_wire := w\<rparr>)"
        "v\<lparr>consumed := 0, iov_offset := 0\<rparr> = (iovector_out (ctx_tasks c t))\<lparr>consumed := 0, iov_offset := 0\<rparr>"
        "\<forall>n. r = Sent n \<longrightarrow> n \<le> ?count \<and> (env_progress env \<and> 0 < ?count \<longrightarrow> 0 < n)"
        by (rule writev_defined [OF assms(1) arrs bound, where c = c and dd = "do_data_digest c"
              and digest = "pdu_calculated_data_digest p"])
      note step = write_payload_step [OF p(1) lt t _ v(1)]
      let ?c2 = "task_modify t (\<lambda>task. task\<lparr>iovector_out := v\<rparr>) (c\<lparr>ctx_wire := w\<rparr>)"
      have wr: "wrote i c (pdu_store i q ?c2)" if "pdu_core q = pdu_core p" for q
        by (rule wrote_vector [OF p(1) that v(2)])
      show ?thesis
      proof (cases r)
        case (Sent n)
        let ?q = "p\<lparr>pdu_calculated_data_digest := d, pdu_payload_written := pdu_payload_written p + of_nat n\<rparr>"
        have n: "n \<le> ?count" "0 < n" using v(3) Sent assms(2) cnt u by auto
        have pw: "unat (pdu_payload_written p + of_nat n) = unat (pdu_payload_written p) + n"
          by (rule unat_add_of_nat) (use n(1) cnt u off in simp)
        have "step_ok i (pdu_store i ?q ?c2) payload_done (write_payload env i (pdu_store i ?q ?c2))"
          by (rule less.hyps) (use p(1) pw n(2) u ready_wrote [OF wr less.prems] in \<open>simp_all add: pdu_at_def\<close>)
        then have "step_ok i c payload_done (write_payload env i (pdu_store i ?q ?c2))"
          by (rule step_ok_wrote [rotated]) (rule wr, simp)
        then show ?thesis unfolding step Ptr using Sent Ptr by (subst step) simp_all
      next
        case Send_blocked
        then have "write_payload env i c = Some (Ptr 0, pdu_store i (p\<lparr>pdu_calculated_data_digest := d\<rparr>) ?c2)"
          using Ptr by (subst step) simp_all
        then show ?thesis by (rule step_okI) (use wr in auto)
      next
        case Send_failed
        then have "write_payload env i c = Some (Ptr (-1), pdu_store i (p\<lparr>pdu_calculated_data_digest := d\<rparr>) ?c2)"
          using Ptr by (subst step) simp_all
        then show ?thesis by (rule step_okI) (use wr in auto)
      qed
    qed
  qed
qed

definition padding_done :: "iscsi_pdu \<Rightarrow> bool" where
  "padding_done p \<longleftrightarrow> pdu_aligned (unat (pdu_payload_len p)) \<le> unat (pdu_payload_written p)"

lemma writable_aligned:
  assumes "writable c p"
  shows "pdu_aligned (unat (pdu_payload_len p)) < unat (pdu_payload_len p) + 4"
    "unat (pdu_payload_len p) + 4 < 2 ^ 32"
proof -
  have "unat (pdu_payload_len p) < 2 ^ 31" using assms by (cases "pdu_payload_len p = 0") (auto simp: writable_def)
  then show "unat (pdu_payload_len p) + 4 < 2 ^ 32" by simp
  then have "pdu_aligned (unat (pdu_payload_len p)) = (unat (pdu_payload_len p) + 3) div 4 * 4"
    by (intro pdu_aligned_value) simp
  then show "pdu_aligned (unat (pdu_payload_len p)) < unat (pdu_payload_len p) + 4" by simp
qed

lemma write_padding_ok:
  assumes "env_ok env" "ready i c" "\<And>p. ctx_pdus c i = Some p \<Longrightarrow> payload_done p"
  shows "step_ok i c padding_done (write_padding env i c)"
proof -
  obtain p where p: "ctx_pdus c i = Some p" "writable c p" using assms(2) by (auto simp: ready_def)
  then have le: "unat (pdu_payload_len p) \<le> unat (pdu_payload_written p)"
    using assms(3) by (simp add: payload_done_def word_le_nat_alt)
  let ?todo = "pdu_aligned (unat (pdu_payload_len p)) - unat (pdu_payload_written p)"
  note al = writable_aligned [OF p(2)]
  have three: "\<not> 3 < ?todo" using al(1) le by linarith
  show ?thesis
  proof (cases "?todo = 0")
    case True
    then have "write_padding env i c = Some (NULL, c)" using p(1) by (simp add: write_padding_def)
    then show ?thesis by (rule step_okI) (use True p(1) in \<open>simp_all add: padding_done_def\<close>)
  next
    case False
    from assms(1) show ?thesis
    proof (cases rule: send_cases [of env "replicate ?todo 0" c])
      case (sent n)
      let ?d = "if do_data_digest c then crc32c_chain (pdu_calculated_data_digest p) (replicate n 0) else pdu_calculated_data_digest p"
      let ?q = "p\<lparr>pdu_calculated_data_digest := ?d, pdu_payload_written := pdu_payload_written p + of_nat n\<rparr>"
      have n: "n \<le> ?todo" using sent(1) by simp
      have pw: "unat (pdu_payload_written p + of_nat n) = unat (pdu_payload_written p) + n"
        by (rule unat_add_of_nat) (use n False al in linarith)
      have r: "write_padding env i c = Some (if n < ?todo then Ptr 0 else NULL,
          pdu_store i ?q (c\<lparr>ctx_wire := ctx_wire c @ take n (replicate ?todo 0)\<rparr>))"
        using p(1) sent n False three by (simp add: write_padding_def Let_def)
      show ?thesis
        by (rule step_okI [OF r wrote_store(2) [OF p(1)]]) (use n pw in \<open>auto simp: padding_done_def split: if_splits\<close>)
    next
      case blocked
      then have "write_padding env i c = Some (Ptr 0, c)" using p(1) False three by (simp add: write_padding_def)
      then show ?thesis by (rule step_okI) simp_all
    next
      case failed
      then have "write_padding env i c = Some (Ptr (-1), c)" using p(1) False three by (simp add: write_padding_def)
      then show ?thesis by (rule step_okI) simp_all
    qed
  qed
qed

lemma write_digest_ok:
  assumes "env_ok env" "ready i c" "\<And>p. ctx_pdus c i = Some p \<Longrightarrow> padding_done p"
  shows "step_ok i c (\<lambda>_. True) (write_digest env i c)"
proof -
  obtain p where p: "ctx_pdus c i = Some p" "writable c p" using assms(2) by (auto simp: ready_def)
  let ?total = "pdu_aligned (unat (pdu_payload_len p))" and ?w = "unat (pdu_payload_written p)"
  have le: "?total \<le> ?w" using assms(3) p(1) by (simp add: padding_done_def)
  let ?on = "execute_data_digest c p \<or> do_data_digest c \<and> pdu_payload_written p \<noteq> 0"
  show ?thesis
  proof (cases "?on \<and> \<not> ?total + 4 \<le> ?w")
    case False
    then have "\<exists>r. write_digest env i c = Some (r, c)"
      using p(1) by (cases ?on) (auto simp: write_digest_def Let_def)
    then show ?thesis by (auto intro!: step_okI)
  next
    case True
    let ?bs = "drop (4 - (?total + 4 - ?w)) (digest_bytes (crc32c_chain_done (pdu_calculated_data_digest p)))"
    have "\<not> 4 < ?total + 4 - ?w" using le by simp
    have r: "write_digest env i c = (case socket_send env ?bs c of (r, c1) \<Rightarrow>
        (case r of
           Send_blocked \<Rightarrow> Some (Ptr 0, c1)
         | Send_failed \<Rightarrow> Some (Ptr (-1), c1)
         | Sent n \<Rightarrow> Some (if n = ?total + 4 - ?w then NULL else Ptr 0,
             pdu_store i (p\<lparr>pdu_payload_written := pdu_payload_written p + of_nat n\<rparr>) c1)))"
      using p(1) True le \<open>\<not> 4 < ?total + 4 - ?w\<close>
      by (cases "execute_data_digest c p") (simp_all add: write_digest_def Let_def)
    from assms(1) show ?thesis
    proof (cases rule: send_cases [of env ?bs c])
      case (sent n)
      have "write_digest env i c = Some (if n = ?total + 4 - ?w then NULL else Ptr 0,
          pdu_store i (p\<lparr>pdu_payload_written := pdu_payload_written p + of_nat n\<rparr>) (c\<lparr>ctx_wire := ctx_wire c @ take n ?bs\<rparr>))"
        unfolding r sent(2) by simp
      then show ?thesis by (rule step_okI [OF _ wrote_store(2) [OF p(1)]]) simp_all
    next
      case blocked
      have "write_digest env i c = Some (Ptr 0, c)" unfolding r blocked by simp
      then show ?thesis by (rule step_okI) simp_all
    next
      case failed
      have "write_digest env i c = Some (Ptr (-1), c)" unfolding r failed by simp
      then show ?thesis by (rule step_okI) simp_all
    qed
  qed
qed


section \<open>One PDU\<close>

lemma and_then_ok:
  assumes "step_ok i c P m"
    "\<And>c'. wrote i c c' \<Longrightarrow> (\<And>p. ctx_pdus c' i = Some p \<Longrightarrow> P p) \<Longrightarrow> \<exists>r d. f c' = Some (r, d) \<and> Q r d"
    "\<And>r d. r \<noteq> NULL \<Longrightarrow> wrote i c d \<Longrightarrow> Q r d"
  shows "\<exists>r d. and_then m f = Some (r, d) \<and> Q r d"
proof -
  obtain r d where m: "m = Some (r, d)" "wrote i c d" "r = NULL \<Longrightarrow> ctx_pdus d i = Some p \<Longrightarrow> P p" for p
    using assms(1) unfolding step_ok_def by blast
  show ?thesis
  proof (cases r)
    case NULL
    then show ?thesis using m assms(2) [of d] by (auto simp: and_then_def)
  next
    case (Ptr x)
    then show ?thesis using m assms(3) [of r d] by (auto simp: and_then_def)
  qed
qed

text \<open>The PDU is paused in some state, or it is done in one.\<close>

lemma write_current_ok:
  assumes "env_ok env" "env_progress env" "ready i c"
  shows "\<exists>r d. write_current env i c = Some (r, d) \<and>
    (case r of Ptr _ \<Rightarrow> wrote i c d | NULL \<Rightarrow> \<exists>c'. wrote i c c' \<and> write_done i c' = Some (NULL, d))"
  unfolding write_current_def
proof (rule and_then_ok [OF write_header_ok [OF assms(1,3)]])
  fix c1 assume c1: "wrote i c c1" "\<And>p. ctx_pdus c1 i = Some p \<Longrightarrow> rounded p"
  show "\<exists>r d. and_then (write_digest_start i c1) (\<lambda>iscsi. and_then (write_payload env i iscsi)
      (\<lambda>iscsi. and_then (write_padding env i iscsi) (\<lambda>iscsi. and_then (write_digest env i iscsi) (write_done i)))) =
      Some (r, d) \<and> (case r of Ptr _ \<Rightarrow> wrote i c d | NULL \<Rightarrow> \<exists>c'. wrote i c c' \<and> write_done i c' = Some (NULL, d))"
  proof (rule and_then_ok [OF step_ok_wrote [OF c1(1) write_digest_start_ok [OF ready_wrote [OF c1(1) assms(3)] c1(2)]]])
    fix c2 assume c2: "wrote i c c2" "\<And>p. ctx_pdus c2 i = Some p \<Longrightarrow> True"
    show "\<exists>r d. and_then (write_payload env i c2) (\<lambda>iscsi. and_then (write_padding env i iscsi)
        (\<lambda>iscsi. and_then (write_digest env i iscsi) (write_done i))) = Some (r, d) \<and>
        (case r of Ptr _ \<Rightarrow> wrote i c d | NULL \<Rightarrow> \<exists>c'. wrote i c c' \<and> write_done i c' = Some (NULL, d))"
    proof (rule and_then_ok [OF step_ok_wrote [OF c2(1) write_payload_ok [OF assms(1,2) ready_wrote [OF c2(1) assms(3)]]]])
      fix c3 assume c3: "wrote i c c3" "\<And>p. ctx_pdus c3 i = Some p \<Longrightarrow> payload_done p"
      show "\<exists>r d. and_then (write_padding env i c3) (\<lambda>iscsi. and_then (write_digest env i iscsi) (write_done i)) =
          Some (r, d) \<and> (case r of Ptr _ \<Rightarrow> wrote i c d | NULL \<Rightarrow> \<exists>c'. wrote i c c' \<and> write_done i c' = Some (NULL, d))"
      proof (rule and_then_ok [OF step_ok_wrote [OF c3(1) write_padding_ok [OF assms(1) ready_wrote [OF c3(1) assms(3)] c3(2)]]])
        fix c4 assume c4: "wrote i c c4" "\<And>p. ctx_pdus c4 i = Some p \<Longrightarrow> padding_done p"
        show "\<exists>r d. and_then (write_digest env i c4) (write_done i) = Some (r, d) \<and>
            (case r of Ptr _ \<Rightarrow> wrote i c d | NULL \<Rightarrow> \<exists>c'. wrote i c c' \<and> write_done i c' = Some (NULL, d))"
        proof (rule and_then_ok [OF step_ok_wrote [OF c4(1) write_digest_ok [OF assms(1) ready_wrote [OF c4(1) assms(3)] c4(2)]]])
          fix c5 assume c5: "wrote i c c5"
          obtain p where p: "ctx_pdus c5 i = Some p" using ready_wrote [OF c5 assms(3)] by (auto simp: ready_def)
          then have "\<exists>d. write_done i c5 = Some (NULL, d)"
            by (simp add: write_done_def iscsi_tcp_free_pdu_def Let_def)
          with c5 show "\<exists>r d. write_done i c5 = Some (r, d) \<and>
              (case r of Ptr _ \<Rightarrow> wrote i c d | NULL \<Rightarrow> \<exists>c'. wrote i c c' \<and> write_done i c' = Some (NULL, d))"
            by auto
        qed (auto split: ptr.split)
      qed (auto split: ptr.split)
    qed (auto split: ptr.split)
  qed (auto split: ptr.split)
qed (auto split: ptr.split)

section \<open>The loop\<close>

definition sends_once :: "iscsi_pdu \<Rightarrow> bool" where
  "sends_once p \<longleftrightarrow> pdu_flags p AND ISCSI_PDU_DELETE_WHEN_SENT \<noteq> 0"

definition queued_ok :: "iscsi_context \<Rightarrow> iscsi_pdu \<Rightarrow> bool" where
  "queued_ok c p \<longleftrightarrow> writable c p \<and> (ctx_header_digest c \<noteq> ISCSI_HEADER_DIGEST_NONE \<longrightarrow>
     52 \<le> data_size (pdu_outdata p) \<and> 52 \<le> length (data_bytes (pdu_outdata p)))"

definition write_ready :: "iscsi_context \<Rightarrow> bool" where
  "write_ready c \<longleftrightarrow> queues_ok c \<and> vectors_ok c \<and>
     (\<forall>i \<in> set (ctx_outqueue c). queued_ok c (pdu_at c i)) \<and>
     (\<forall>i. ctx_outqueue_current c = Ptr i \<longrightarrow> writable c (pdu_at c i) \<and>
        (sends_once (pdu_at c i) \<longrightarrow> i \<notin> set (ctx_waitpdu c)))"

text \<open>The command window of the target.\<close>

definition may_send :: "iscsi_context \<Rightarrow> iscsi_pdu \<Rightarrow> bool" where
  "may_send c p \<longleftrightarrow> is_immediate p \<or> iscsi_serial32_compare (pdu_cmdsn p) (ctx_maxcmdsn c) \<le> 0"

text \<open>\<open>sent\<close> are the PDUs that have been taken off the outqueue.\<close>

definition took :: "iscsi_context \<Rightarrow> nat list \<Rightarrow> iscsi_context \<Rightarrow> bool" where
  "took c sent c' \<longleftrightarrow> ctx_outqueue c = sent @ ctx_outqueue c' \<and>
     ctx_waitpdu c' = ctx_waitpdu c @ filter (\<lambda>i. \<not> sends_once (pdu_at c i)) sent \<and>
     (\<forall>i \<in> set sent. may_send c (pdu_at c i)) \<and>
     (\<forall>i \<in> set (ctx_outqueue c'). ctx_pdus c' i = ctx_pdus c i) \<and>
     ctx_maxcmdsn c' = ctx_maxcmdsn c \<and> ctx_cmdsn c' = ctx_cmdsn c \<and> ctx_trace c' = ctx_trace c"

lemma took_refl [simp]: "took c [] c"
  by (simp add: took_def)

lemma took_trans:
  assumes "took c s c'" "took c' t c''"
  shows "took c (s @ t) c''"
proof -
  have "pdu_at c' i = pdu_at c i" if "i \<in> set t" for i
    using assms that by (auto simp: took_def pdu_at_def)
  then have "filter (\<lambda>i. \<not> sends_once (pdu_at c' i)) t = filter (\<lambda>i. \<not> sends_once (pdu_at c i)) t"
    "\<forall>i \<in> set t. may_send c (pdu_at c i) = may_send c' (pdu_at c' i)"
    using assms(1) by (auto intro!: filter_cong simp: may_send_def took_def)
  then show ?thesis using assms unfolding took_def by auto
qed

lemma took_gapless:
  assumes "took c s c'" "gapless c"
  shows "gapless c'"
proof -
  obtain a where "counts_up a (cmd_sns (pdu_at c) (s @ ctx_outqueue c')) (ctx_cmdsn c)"
    using assms by (auto simp: gapless_def took_def)
  then obtain m where "counts_up m (cmd_sns (pdu_at c) (ctx_outqueue c')) (ctx_cmdsn c)"
    by (auto simp: counts_up_append)
  moreover have "cmd_sns (pdu_at c') (ctx_outqueue c') = cmd_sns (pdu_at c) (ctx_outqueue c')"
    by (rule cmd_sns_cong) (use assms(1) in \<open>simp add: took_def pdu_at_def\<close>)
  ultimately show ?thesis using assms(1) by (auto simp: gapless_def took_def)
qed

lemma pdu_core_ok:
  assumes "pdu_core p' = pdu_core p" "pdu_ok p"
  shows "pdu_ok p'"
  using assms(2) pdu_coreD [OF assms(1)] by (simp add: pdu_ok_def)

lemma wrote_write_ready:
  assumes "wrote i c c'" "ctx_outqueue_current c = Ptr i" "write_ready c"
  shows "write_ready c'" "took c [] c'"
proof -
  note w = wroteD [OF assms(1)]
  have q: "queues_ok c" "i \<notin> set (ctx_outqueue c)"
    using assms(2,3) queues_okD(7) by (auto simp: write_ready_def)
  obtain p where p: "ctx_pdus c i = Some p" using queues_okD(6) [OF q(1) assms(2)] by auto
  then obtain p' where p': "ctx_pdus c' i = Some p'" "pdu_core p' = pdu_core p" using w(12) by auto
  have live: "ctx_pdus c' k = None \<longleftrightarrow> ctx_pdus c k = None" for k
    using w(11) [of k] p p' by (cases "k = i") auto
  have "pdu_ok r" if "ctx_pdus c' k = Some r" for k r
    using that w(11) [of k] p' p q(1) pdu_core_ok [OF p'(2)] queues_okD(8) by (cases "k = i") auto
  then have "queues_ok c'"
    using q(1) live w(1,2,7) unfolding queues_ok_def by auto
  moreover have at: "pdu_at c' k = pdu_at c k" if "k \<in> set (ctx_outqueue c)" for k
    using that q(2) w(11) [of k] by (cases "k = i") (auto simp: pdu_at_def)
  have wr: "writable c' r = writable c r" for r
    by (simp add: writable_def execute_data_digest_def do_data_digest_def data_offset_def w)
  have "queued_ok c' (pdu_at c' k)" if "k \<in> set (ctx_outqueue c')" for k
    using that assms(3) at [of k] w(1,9) by (auto simp: write_ready_def queued_ok_def wr)
  moreover have "writable c' (pdu_at c' i)" "sends_once (pdu_at c' i) = sends_once (pdu_at c i)"
    using assms(2,3) p p' writable_wrote [OF assms(1) p'(2)] pdu_coreD(3) [OF p'(2)]
    by (auto simp: write_ready_def pdu_at_def sends_once_def)
  ultimately show "write_ready c'"
    using assms(2,3) vectors_ok_wrote [OF assms(1)] w(2,7) by (auto simp: write_ready_def)
  have "ctx_pdus c' k = ctx_pdus c k" if "k \<in> set (ctx_outqueue c)" for k
    by (rule w(11)) (use that q(2) in auto)
  then show "took c [] c'" by (simp add: took_def w)
qed


text \<open>Taking a PDU writes ExpStatSN and the digest into its header.\<close>

definition stamped :: "iscsi_pdu \<Rightarrow> iscsi_pdu \<Rightarrow> bool" where
  "stamped p p' \<longleftrightarrow> (\<exists>h. p' = hdr_modify (\<lambda>_. h) p \<and> length h = length (data_bytes (pdu_outdata p)) \<and>
     (\<forall>k < 28. h ! k = data_bytes (pdu_outdata p) ! k))"

lemma stampedD:
  assumes "stamped p p'"
  shows "writable c p' = writable c p" "pdu_ok p' = pdu_ok p" "sends_once p' = sends_once p"
    "pdu_cmdsn p' = pdu_cmdsn p" "pdu_flags p' = pdu_flags p"
proof -
  obtain h where h: "p' = hdr_modify (\<lambda>_. h) p" "length h = length (data_bytes (pdu_outdata p))"
    "\<forall>k < 28. h ! k = data_bytes (pdu_outdata p) ! k"
    using assms by (auto simp: stamped_def)
  have "iscsi_get_pdu_data_size h = iscsi_get_pdu_data_size (data_bytes (pdu_outdata p))"
    using h(3) by (simp add: iscsi_get_pdu_data_size_def scsi_get_uint32_def)
  then show "writable c p' = writable c p"
    using h by (simp add: writable_def execute_data_digest_def data_offset_def header_size_def hdr_modify_def)
  show "pdu_ok p' = pdu_ok p" "sends_once p' = sends_once p" "pdu_cmdsn p' = pdu_cmdsn p" "pdu_flags p' = pdu_flags p"
    using h by (simp_all add: pdu_ok_def sends_once_def hdr_modify_def)
qed

lemma stamped_expstatsn: "stamped p (iscsi_pdu_set_expstatsn n p)"
  unfolding stamped_def
  by (rule exI [of _ "scsi_set_uint32 28 n (data_bytes (pdu_outdata p))"])
    (simp add: iscsi_pdu_set_expstatsn_def hdr_modify_def nth_set_uint32)

lemma stamped_digest:
  assumes "stamped p q" "52 \<le> length (data_bytes (pdu_outdata p))"
  shows "stamped p (hdr_modify (blit 48 (digest_bytes crc)) q)"
proof -
  obtain h where h: "q = hdr_modify (\<lambda>_. h) p" "length h = length (data_bytes (pdu_outdata p))"
    "\<forall>k < 28. h ! k = data_bytes (pdu_outdata p) ! k"
    using assms(1) by (auto simp: stamped_def)
  show ?thesis
    unfolding stamped_def
    by (rule exI [of _ "blit 48 (digest_bytes crc) h"])
      (use h assms(2) in \<open>auto simp: hdr_modify_def nth_blit_outside\<close>)
qed

lemma write_begin_take:
  assumes "write_ready c" "ctx_outqueue c = i # q" "ctx_pdus c i = Some p"
    "\<not> ctx_is_corked c" "may_send c p"
    "\<not> (iscsi_serial32_compare (pdu_cmdsn p) (ctx_expcmdsn c) < 0 \<and> \<not> is_data_out p)"
  shows "\<exists>p'. stamped p p' \<and> write_begin c = Some (NULL, c\<lparr>ctx_outqueue_current := Ptr i,
    ctx_pdus := (ctx_pdus c)(i \<mapsto> p'), ctx_outqueue := q,
    ctx_waitpdu := (if sends_once p then ctx_waitpdu c else ctx_waitpdu c @ [i])\<rparr>)"
proof -
  have w: "\<not> (0 < iscsi_serial32_compare (pdu_cmdsn p) (ctx_maxcmdsn c) \<and> \<not> is_immediate p)"
    using assms(5) by (auto simp: may_send_def)
  let ?p1 = "iscsi_pdu_set_expstatsn (if is_data_out p then ctx_statsn c else ctx_statsn c + 1) p"
  have len: "length (data_bytes (pdu_outdata ?p1)) = length (data_bytes (pdu_outdata p))"
    "data_size (pdu_outdata ?p1) = data_size (pdu_outdata p)" "pdu_flags ?p1 = pdu_flags p"
    by (simp_all add: iscsi_pdu_set_expstatsn_def hdr_modify_def)
  show ?thesis
  proof (cases "ctx_header_digest c = ISCSI_HEADER_DIGEST_NONE")
    case True
    then have "write_begin c = Some (NULL, c\<lparr>ctx_outqueue_current := Ptr i,
        ctx_pdus := (ctx_pdus c)(i \<mapsto> ?p1), ctx_outqueue := q,
        ctx_waitpdu := (if sends_once p then ctx_waitpdu c else ctx_waitpdu c @ [i])\<rparr>)"
      using assms(2-4,6) w
      by (auto simp: write_begin_def pdu_modify_def pdu_store_def sends_once_def list_add_end_def)
    then show ?thesis using stamped_expstatsn by blast
  next
    case False
    then have "52 \<le> data_size (pdu_outdata p)" "52 \<le> length (data_bytes (pdu_outdata p))"
      using assms(1-3) by (auto simp: write_ready_def queued_ok_def pdu_at_def)
    moreover from this have "write_begin c = Some (NULL, c\<lparr>ctx_outqueue_current := Ptr i,
        ctx_pdus := (ctx_pdus c)(i \<mapsto> hdr_modify (blit 48 (digest_bytes (crc32c (take 48 (data_bytes (pdu_outdata ?p1)))))) ?p1),
        ctx_outqueue := q, ctx_waitpdu := (if sends_once p then ctx_waitpdu c else ctx_waitpdu c @ [i])\<rparr>)"
      using assms(2-4,6) w False len
      by (auto simp: write_begin_def pdu_modify_def pdu_store_def sends_once_def list_add_end_def
          iscsi_pdu_update_headerdigest_def Let_def)
    ultimately show ?thesis using stamped_digest [OF stamped_expstatsn] by blast
  qed
qed

lemma write_begin_ready:
  assumes "write_ready c" "ctx_outqueue_current c = NULL" "ctx_outqueue c \<noteq> []"
  shows "\<exists>r c'. write_begin c = Some (r, c') \<and>
    (case r of Ptr _ \<Rightarrow> c' = c
     | NULL \<Rightarrow> write_ready c' \<and> \<not> ctx_is_corked c \<and> (\<exists>i. took c [i] c' \<and> ctx_outqueue_current c' = Ptr i))"
proof -
  obtain i q where iq: "ctx_outqueue c = i # q" using assms(3) by (cases "ctx_outqueue c") auto
  have ok: "queues_ok c" using assms(1) by (simp add: write_ready_def)
  then obtain p where p: "ctx_pdus c i = Some p" using queues_okD(4) iq by fastforce
  show ?thesis
  proof (cases "\<not> ctx_is_corked c \<and> may_send c p \<and>
      \<not> (iscsi_serial32_compare (pdu_cmdsn p) (ctx_expcmdsn c) < 0 \<and> \<not> is_data_out p)")
    case False
    then have "\<exists>r. write_begin c = Some (Ptr r, c)"
      using iq p by (auto simp: write_begin_def may_send_def not_le)
    then show ?thesis by auto
  next
    case True
    then obtain p' where p': "stamped p p'" and b: "write_begin c = Some (NULL, c\<lparr>ctx_outqueue_current := Ptr i,
        ctx_pdus := (ctx_pdus c)(i \<mapsto> p'), ctx_outqueue := q,
        ctx_waitpdu := (if sends_once p then ctx_waitpdu c else ctx_waitpdu c @ [i])\<rparr>)" (is "_ = Some (NULL, ?c')")
      using write_begin_take [OF assms(1) iq p] by blast
    note st = stampedD [OF p']
    have i: "i \<notin> set q" "i \<notin> set (ctx_waitpdu c)" "distinct q" using queues_okD(1,3) [OF ok] iq by auto
    have wr: "writable ?c' r = writable c r" for r
      by (simp add: writable_def execute_data_digest_def do_data_digest_def data_offset_def)
    have "queues_ok ?c'"
      using ok i iq st(2) p unfolding queues_ok_def by (auto split: if_splits)
    moreover have "queued_ok ?c' (pdu_at ?c' k)" if "k \<in> set q" for k
      using that i(1) iq assms(1) by (auto simp: write_ready_def queued_ok_def wr pdu_at_def)
    moreover have "vectors_ok ?c'" using assms(1) by (simp add: write_ready_def vectors_ok_def cong: ptr.case_cong)
    moreover have "writable c p" using assms(1) iq p by (auto simp: write_ready_def queued_ok_def pdu_at_def)
    then have "writable ?c' (pdu_at ?c' i)" using st(1) wr by (simp add: pdu_at_def)
    ultimately have "write_ready ?c'"
      using i(2) st(3) by (auto simp: write_ready_def pdu_at_def)
    moreover have "took c [i] ?c'"
      using iq p True i(1) by (auto simp: took_def pdu_at_def)
    ultimately show ?thesis using b True by auto
  qed
qed

lemma write_done_ready:
  assumes "write_ready c" "ctx_outqueue_current c = Ptr i"
  shows "\<exists>c'. write_done i c = Some (NULL, c') \<and> write_ready c' \<and> took c [] c' \<and> ctx_outqueue_current c' = NULL"
proof -
  have ok: "queues_ok c" "i \<notin> set (ctx_outqueue c)" using assms queues_okD(7) by (auto simp: write_ready_def)
  obtain p where p: "ctx_pdus c i = Some p" using queues_okD(6) [OF ok(1) assms(2)] by auto
  let ?ps = "if sends_once p then (ctx_pdus c)(i := None) else ctx_pdus c"
  let ?cork = "if pdu_flags p AND ISCSI_PDU_CORK_WHEN_SENT \<noteq> 0 then True else ctx_is_corked c"
  let ?c' = "c\<lparr>ctx_is_corked := ?cork, ctx_pdus := ?ps, ctx_outqueue_current := NULL\<rparr>"
  have r: "write_done i c = Some (NULL, ?c')"
    using p assms(2) by (auto simp: write_done_def iscsi_tcp_free_pdu_def sends_once_def Let_def)
  have w: "sends_once p \<Longrightarrow> i \<notin> set (ctx_waitpdu c)" using assms p by (simp add: write_ready_def pdu_at_def)
  have wr: "writable ?c' r = writable c r" for r
    by (simp add: writable_def execute_data_digest_def do_data_digest_def data_offset_def)
  have "queues_ok ?c'" using ok w unfolding queues_ok_def by (auto split: if_splits)
  moreover have at: "pdu_at ?c' k = pdu_at c k" if "k \<in> set (ctx_outqueue c)" for k
    using that ok(2) by (auto simp: pdu_at_def)
  then have "queued_ok ?c' (pdu_at ?c' k)" if "k \<in> set (ctx_outqueue c)" for k
    using that assms(1) by (auto simp: write_ready_def queued_ok_def wr)
  moreover have "vectors_ok ?c'" using assms(1) by (simp add: write_ready_def vectors_ok_def cong: ptr.case_cong)
  ultimately have "write_ready ?c'" by (simp add: write_ready_def)
  moreover have "took c [] ?c'" using ok(2) by (auto simp: took_def)
  ultimately show ?thesis using r by auto
qed


text \<open>The number of PDUs that are still to be written bounds the number of rounds.\<close>

definition to_write :: "iscsi_context \<Rightarrow> nat" where
  "to_write c = length (ctx_outqueue c) + (if ctx_outqueue_current c = NULL then 0 else 1)"

lemma write_ready_current:
  assumes "write_ready c" "ctx_outqueue_current c = Ptr i"
  shows "ready i c"
  using assms queues_okD(6) [of c i] by (auto simp: write_ready_def ready_def pdu_at_def)

lemma write_loop_ok:
  assumes "env_ok env" "env_progress env"
  shows "write_ready c \<Longrightarrow> \<exists>r c' sent. write_loop env c = Some (r, c') \<and> write_ready c' \<and> took c sent c' \<and>
    (ctx_is_corked c \<and> ctx_outqueue_current c = NULL \<longrightarrow> sent = [])"
proof (induction "to_write c" arbitrary: c rule: less_induct)
  case less
  have round: "\<exists>r c' sent. (do {
        (r, d) \<leftarrow> write_current env i c1;
        case r of Ptr r \<Rightarrow> Some (r, d) | NULL \<Rightarrow> write_loop env d
      }) = Some (r, c') \<and> write_ready c' \<and> took c1 sent c'"
    if c1: "write_ready c1" "ctx_outqueue_current c1 = Ptr i" "length (ctx_outqueue c1) < to_write c" for c1 i
  proof -
    obtain r d where w: "write_current env i c1 = Some (r, d)"
      "case r of Ptr _ \<Rightarrow> wrote i c1 d | NULL \<Rightarrow> \<exists>c'. wrote i c1 c' \<and> write_done i c' = Some (NULL, d)"
      using write_current_ok [OF assms write_ready_current [OF c1(1,2)]] by blast
    show ?thesis
    proof (cases r)
      case (Ptr x)
      then show ?thesis using w wrote_write_ready [OF _ c1(2,1)] by auto
    next
      case NULL
      then obtain c2 where c2: "wrote i c1 c2" "write_done i c2 = Some (NULL, d)" using w(2) by auto
      note r2 = wrote_write_ready [OF c2(1) c1(2,1)]
      have "ctx_outqueue_current c2 = Ptr i" using wroteD(7) [OF c2(1)] c1(2) by simp
      from write_done_ready [OF r2(1) this] c2(2) have d: "write_ready d" "took c2 [] d" "ctx_outqueue_current d = NULL"
        by auto
      have td: "took c1 [] d" using took_trans [OF r2(2) d(2)] by simp
      then have "to_write d < to_write c" using c1(3) d(3) by (simp add: to_write_def took_def)
      from less.hyps [OF this d(1)] obtain r' c' sent where
        l: "write_loop env d = Some (r', c')" "write_ready c'" "took d sent c'" by blast
      with took_trans [OF td l(3)] w(1) NULL show ?thesis by auto
    qed
  qed
  show ?case
  proof (cases "ctx_outqueue_current c")
    case (Ptr i)
    have "length (ctx_outqueue c) < to_write c" using Ptr by (simp add: to_write_def)
    from round [OF less.prems Ptr this] Ptr show ?thesis by (subst write_loop.simps) simp
  next
    case NULL
    show ?thesis
    proof (cases "ctx_outqueue c = []")
      case True
      then have "write_loop env c = Some (0, c)" using NULL by (subst write_loop.simps) simp
      then show ?thesis using less.prems by (intro exI [of _ 0] exI [of _ c] exI [of _ "[]"]) simp
    next
      case False
      obtain r c1 where b: "write_begin c = Some (r, c1)"
        "case r of Ptr _ \<Rightarrow> c1 = c
         | NULL \<Rightarrow> write_ready c1 \<and> \<not> ctx_is_corked c \<and> (\<exists>i. took c [i] c1 \<and> ctx_outqueue_current c1 = Ptr i)"
        using write_begin_ready [OF less.prems NULL False] by blast
      show ?thesis
      proof (cases r)
        case (Ptr x)
        then have "write_loop env c = Some (x, c)" using b NULL False by (subst write_loop.simps) simp
        then show ?thesis using less.prems by (intro exI [of _ x] exI [of _ c] exI [of _ "[]"]) simp
      next
        case r: NULL
        then obtain i where c1: "write_ready c1" "\<not> ctx_is_corked c" "took c [i] c1" "ctx_outqueue_current c1 = Ptr i"
          using b(2) by auto
        have "length (ctx_outqueue c1) < to_write c" using c1(3) by (simp add: to_write_def took_def)
        from round [OF c1(1,4) this] obtain r' c' sent where l: "(do {
            (r, d) \<leftarrow> write_current env i c1;
            case r of Ptr r \<Rightarrow> Some (r, d) | NULL \<Rightarrow> write_loop env d
          }) = Some (r', c')" "write_ready c'" "took c1 sent c'" by blast
        then have "write_loop env c = Some (r', c')"
          using b(1) r c1(4) NULL False by (subst write_loop.simps) simp
        then show ?thesis using l(2) took_trans [OF c1(3) l(3)] c1(2) by blast
      qed
    qed
  qed
qed

section \<open>Properties\<close>

text \<open>
  C5: \<open>iscsi_write_to_socket\<close> always returns. The PDUs it takes are a prefix of the outqueue, in
  order; each of them is immediate or has a CmdSN within the window MaxCmdSN of the target, and
  none is taken while the connection is corked. Those that await a reply are put on the wait
  queue in the same order, no queued PDU is lost or duplicated, no freed PDU is touched, and the
  CmdSNs of the commands that remain queued still follow each other.
\<close>

theorem iscsi_write_respects_window:
  assumes "env_ok env" "env_progress env" "write_ready c"
  shows "\<exists>r c' sent. iscsi_write_to_socket env c = Some (r, c') \<and>
    ctx_outqueue c = sent @ ctx_outqueue c' \<and>
    ctx_waitpdu c' = ctx_waitpdu c @ filter (\<lambda>i. \<not> sends_once (pdu_at c i)) sent \<and>
    (\<forall>i \<in> set sent. is_immediate (pdu_at c i) \<or>
       iscsi_serial32_compare (pdu_cmdsn (pdu_at c i)) (ctx_maxcmdsn c) \<le> 0) \<and>
    (ctx_is_corked c \<and> ctx_outqueue_current c = NULL \<longrightarrow> sent = []) \<and>
    queues_ok c' \<and> (gapless c \<longrightarrow> gapless c') \<and> ctx_trace c' = ctx_trace c"
proof (cases "ctx_fd c = -1")
  case True
  then have "iscsi_write_to_socket env c = Some (-1, c)" by (simp add: iscsi_write_to_socket_def)
  then show ?thesis using assms(3) by (intro exI [of _ "-1"] exI [of _ c] exI [of _ "[]"]) (simp add: write_ready_def)
next
  case False
  obtain r c' sent where l: "write_loop env c = Some (r, c')" "write_ready c'" "took c sent c'"
    "ctx_is_corked c \<and> ctx_outqueue_current c = NULL \<longrightarrow> sent = []"
    using write_loop_ok [OF assms] by blast
  then show ?thesis using False took_gapless [OF l(3)]
    by (intro exI [of _ r] exI [of _ c'] exI [of _ sent])
      (simp add: iscsi_write_to_socket_def write_ready_def took_def may_send_def)
qed

section \<open>Witnesses\<close>

theorem iscsi_write_respects_window_witness:
  defines "c \<equiv> demo_context\<lparr>ctx_maxcmdsn := 7, ctx_fd := 3\<rparr>"
  shows "\<exists>r c' sent. iscsi_write_to_socket demo_env c = Some (r, c') \<and> [3, 4] = sent @ ctx_outqueue c' \<and>
    sent \<noteq> [3, 4]"
proof -
  have al: "pdu_aligned 48 = 48" by (simp add: pdu_aligned_value)
  have "\<not> do_data_digest c" by (simp add: do_data_digest_def c_def demo_context_def zero_context_def)
  then have "writable c (demo_cmd a n)" for a n
    by (simp add: writable_def header_size_def execute_data_digest_def demo_cmd_def zero_pdu_def al)
  then have "write_ready c"
    using demo_ok by (auto simp: write_ready_def queued_ok_def c_def demo_simps queues_ok_def vectors_ok_def
        demo_context_def zero_context_def zero_task_def zero_iovector_def pdu_at_def)
  from iscsi_write_respects_window [OF demo_env_ok this] obtain r c' sent where
    "iscsi_write_to_socket demo_env c = Some (r, c')" "ctx_outqueue c = sent @ ctx_outqueue c'"
    "\<forall>i \<in> set sent. is_immediate (pdu_at c i) \<or> iscsi_serial32_compare (pdu_cmdsn (pdu_at c i)) (ctx_maxcmdsn c) \<le> 0"
    by blast
  moreover have "pdu_at c 4 = demo_cmd 12 8" "ctx_maxcmdsn c = 7" "ctx_outqueue c = [3, 4]"
    by (simp_all add: c_def pdu_at_def demo_simps)
  moreover have "\<not> iscsi_serial32_compare 8 7 \<le> 0" by (simp add: iscsi_serial32_compare_def)
  ultimately show ?thesis using demo_not_immediate
    by (intro exI [of _ r] exI [of _ c'] exI [of _ sent]) (auto simp: demo_simps)
qed

end
