(* ===== verification/Iscsi_Command.thy ===== *)
theory Iscsi_Command
  imports Write_Loop
begin

text \<open>
  The SCSI command layer of \<open>lib/iscsi-command.c\<close>: sending a command with its immediate and
  unsolicited data (\<open>iscsi_scsi_command_async\<close>, \<open>iscsi_send_data_out\<close>), and what the replies do
  to the command (\<open>iscsi_process_scsi_reply\<close>, \<open>iscsi_process_scsi_data_in\<close>, \<open>iscsi_process_r2t\<close>, the
  sense data). The cancellation of tasks is in \<open>Iscsi_Pdu\<close>, the functions for the single SCSI
  commands in \<open>Iscsi_Tasks\<close>.

  While a reconnect is pending, \<open>iscsi_scsi_command_async\<close> works on the context \<open>iscsi->old_iscsi\<close>
  instead; the model is given the context it works on.
\<close>

section \<open>Sending data\<close>

text \<open>The DATA-OUT PDU for \<open>len\<close> bytes at \<open>offset\<close> of the command \<open>cmd\<close>, made in the new PDU \<open>p\<close>.\<close>

definition data_out_pdu :: "iscsi_pdu \<Rightarrow> u32 \<Rightarrow> u32 \<Rightarrow> u32 \<Rightarrow> bool \<Rightarrow> iscsi_pdu \<Rightarrow> iscsi_pdu" where
  "data_out_pdu cmd ttt offset len final p =
     (let p = p\<lparr>pdu_cbdata_task := pdu_cbdata_task cmd, pdu_cmdsn := pdu_cmdsn cmd\<rparr>;
          p = iscsi_pdu_set_pduflags (if final then ISCSI_PDU_SCSI_FINAL else 0) p;
          p = iscsi_pdu_set_lun (pdu_lun cmd) p;
          p = iscsi_pdu_set_ttt ttt p;
          p = iscsi_pdu_set_datasn (pdu_datasn cmd) p;
          p = iscsi_pdu_set_bufferoffset offset p;
          p = p\<lparr>pdu_payload_offset := offset, pdu_payload_len := len\<rparr>
      in hdr_modify (scsi_set_uint32 4 len) p)"

text \<open>One round of the loop; the result tells whether there was memory for the PDU.\<close>

definition send_data_out_pdu ::
  "iscsi_env \<Rightarrow> nat \<Rightarrow> u32 \<Rightarrow> u32 \<Rightarrow> u32 \<Rightarrow> bool \<Rightarrow> iscsi_context \<Rightarrow> (bool \<times> iscsi_context) option" where
  "send_data_out_pdu env i ttt offset len final iscsi = do {
     cmd \<leftarrow> ctx_pdus iscsi i;
     (r, iscsi) \<leftarrow> iscsi_allocate_pdu env ISCSI_PDU_DATA_OUT ISCSI_PDU_NO_PDU (pdu_itt cmd)
       (ISCSI_PDU_DROP_ON_RECONNECT OR ISCSI_PDU_DELETE_WHEN_SENT) iscsi;
     case r of
       NULL \<Rightarrow> Some (False, iscsi)
     | Ptr k \<Rightarrow> do {
         cmd \<leftarrow> ctx_pdus iscsi i;
         iscsi \<leftarrow> pdu_modify k (data_out_pdu cmd ttt offset len final) iscsi;
         iscsi \<leftarrow> pdu_modify i (\<lambda>p. p\<lparr>pdu_datasn := pdu_datasn p + 1\<rparr>) iscsi;
         iscsi \<leftarrow> iscsi_queue_pdu env k iscsi;
         Some (True, iscsi)
       }
   }"

text \<open>The label \<open>error\<close>: the command is failed and freed.\<close>

definition send_data_out_error :: "nat \<Rightarrow> iscsi_context \<Rightarrow> (int \<times> iscsi_context) option" where
  "send_data_out_error i iscsi = do {
     q \<leftarrow> list_remove i (ctx_outqueue iscsi);
     let iscsi = iscsi\<lparr>ctx_outqueue := q\<rparr>;
     w \<leftarrow> list_remove i (ctx_waitpdu iscsi);
     let iscsi = iscsi\<lparr>ctx_waitpdu := w\<rparr>;
     iscsi \<leftarrow> pdu_callback_call SCSI_STATUS_ERROR i iscsi;
     iscsi \<leftarrow> iscsi_tcp_free_pdu i iscsi;
     Some (-1, iscsi)
   }"

text \<open>The loop does not end if the target's maximum is 0: \<open>tot_len\<close> does not shrink then.\<close>

partial_function (option) iscsi_send_data_out ::
  "iscsi_env \<Rightarrow> nat \<Rightarrow> u32 \<Rightarrow> u32 \<Rightarrow> u32 \<Rightarrow> iscsi_context \<Rightarrow> (int \<times> iscsi_context) option" where
  "iscsi_send_data_out env i ttt offset tot_len iscsi =
     (if tot_len = 0 then Some (0, iscsi)
      else
        let len = min tot_len (ctx_target_max_recv_data_segment_length iscsi)
        in do {
          (ok, iscsi) \<leftarrow> send_data_out_pdu env i ttt offset len (tot_len = len) iscsi;
          if ok then iscsi_send_data_out env i ttt (offset + len) (tot_len - len) iscsi
          else send_data_out_error i iscsi
        })"

definition iscsi_send_unsolicited_data_out ::
  "iscsi_env \<Rightarrow> nat \<Rightarrow> iscsi_context \<Rightarrow> (int \<times> iscsi_context) option" where
  "iscsi_send_unsolicited_data_out env i iscsi = do {
     p \<leftarrow> ctx_pdus iscsi i;
     let len = min (pdu_expxferlen p) (ctx_first_burst_length iscsi) - pdu_payload_len p;
     iscsi_send_data_out env i 0xffffffff (pdu_payload_len p) len iscsi
   }"

section \<open>Sending a command\<close>

text \<open>How much of the data goes with the command itself, and whether DATA-OUTs follow unasked.\<close>

definition immediate_len :: "iscsi_context \<Rightarrow> scsi_task \<Rightarrow> u32" where
  "immediate_len iscsi task =
     (if xfer_dir task = SCSI_XFER_WRITE \<and> ctx_use_immediate_data iscsi = ISCSI_IMMEDIATE_DATA_YES
      then min (min (expxferlen task) (ctx_first_burst_length iscsi))
             (ctx_target_max_recv_data_segment_length iscsi)
      else 0)"

definition unsolicited_follows :: "iscsi_context \<Rightarrow> scsi_task \<Rightarrow> bool" where
  "unsolicited_follows iscsi task \<longleftrightarrow> xfer_dir task = SCSI_XFER_WRITE \<and>
     ctx_use_initial_r2t iscsi = ISCSI_INITIAL_R2T_NO \<and>
     immediate_len iscsi task < expxferlen task \<and> immediate_len iscsi task < ctx_first_burst_length iscsi"

definition command_flags :: "iscsi_context \<Rightarrow> scsi_task \<Rightarrow> u8" where
  "command_flags iscsi task =
     (if unsolicited_follows iscsi task then 0 else ISCSI_PDU_SCSI_FINAL) OR ISCSI_PDU_SCSI_ATTR_SIMPLE OR
     (if xfer_dir task = SCSI_XFER_READ then ISCSI_PDU_SCSI_READ
      else if xfer_dir task = SCSI_XFER_WRITE then ISCSI_PDU_SCSI_WRITE else 0)"

text \<open>The members of the new PDU and its header up to the CmdSN.\<close>

definition command_pdu :: "iscsi_context \<Rightarrow> nat \<Rightarrow> u32 \<Rightarrow> nat ptr \<Rightarrow> iscsi_pdu \<Rightarrow> iscsi_pdu" where
  "command_pdu iscsi t lun cb p =
     (let task = ctx_tasks iscsi t;
          p = p\<lparr>pdu_cbdata_task := Ptr t, pdu_cbdata_callback := cb, pdu_payload_offset := 0,
                pdu_payload_len := immediate_len iscsi task\<rparr>;
          p = (if xfer_dir task = SCSI_XFER_WRITE \<and> ctx_use_immediate_data iscsi = ISCSI_IMMEDIATE_DATA_YES
               then hdr_modify (scsi_set_uint32 4 (pdu_payload_len p)) p else p);
          p = iscsi_pdu_set_pduflags (command_flags iscsi task) p;
          p = p\<lparr>pdu_callback := Ptr Scsi_response_cb\<rparr>;
          p = (iscsi_pdu_set_lun lun p)\<lparr>pdu_lun := lun\<rparr>
      in iscsi_pdu_set_expxferlen (expxferlen task) p)"

text \<open>
  \<open>d\<close> is the application's buffer, its address and size (NULL for \<open>d == NULL\<close> or
  \<open>d->data == NULL\<close>), \<open>t\<close> the task and \<open>cb\<close> the callback.
\<close>

definition attach_data :: "iscsi_env \<Rightarrow> nat \<Rightarrow> (nat \<times> nat) ptr \<Rightarrow> iscsi_context \<Rightarrow> iscsi_context ptr" where
  "attach_data env t d iscsi =
     (case d of
        NULL \<Rightarrow> Ptr iscsi
      | Ptr (a, n) \<Rightarrow>
          if env_malloc env iscsi
          then Ptr (task_modify t (\<lambda>task. scsi_task_set_iov_out (task\<lparr>mem := Suc (mem task)\<rparr>)
                 (Ptr [\<lparr>iov_base = a, iov_len = n\<rparr>]) 1) iscsi)
          else NULL)"

definition iscsi_scsi_command_async ::
  "iscsi_env \<Rightarrow> u32 \<Rightarrow> nat \<Rightarrow> nat ptr \<Rightarrow> (nat \<times> nat) ptr \<Rightarrow> iscsi_context \<Rightarrow> (int \<times> iscsi_context) option" where
  "iscsi_scsi_command_async env lun t cb d iscsi =
     (if ctx_session_type iscsi \<noteq> ISCSI_SESSION_NORMAL then Some (-1, iscsi)
      else if \<not> ctx_is_loggedin iscsi \<and> \<not> ctx_pending_reconnect iscsi then Some (-1, iscsi)
      else case attach_data env t d iscsi of
        NULL \<Rightarrow> Some (-1, iscsi)
      | Ptr iscsi \<Rightarrow> do {
          let (itt, iscsi) = iscsi_itt_post_increment iscsi;
          (r, iscsi) \<leftarrow> iscsi_allocate_pdu env ISCSI_PDU_SCSI_REQUEST ISCSI_PDU_SCSI_RESPONSE itt 0 iscsi;
          case r of
            NULL \<Rightarrow> Some (-1, iscsi)
          | Ptr i \<Rightarrow> do {
              let flags = command_flags iscsi (ctx_tasks iscsi t);
              iscsi \<leftarrow> pdu_modify i (command_pdu iscsi t lun cb) iscsi;
              let iscsi = task_modify t (\<lambda>task. (scsi_set_task_private_ptr task (Ptr i))\<lparr>task_lun := lun\<rparr>) iscsi;
              iscsi \<leftarrow> iscsi_pdu_set_cmdsn i (ctx_cmdsn iscsi) (iscsi\<lparr>ctx_cmdsn := ctx_cmdsn iscsi + 1\<rparr>);
              p \<leftarrow> ctx_pdus iscsi i;
              p \<leftarrow> iscsi_pdu_set_cdb (ctx_tasks iscsi t) p;
              iscsi \<leftarrow> iscsi_queue_pdu env i (pdu_store i p iscsi);
              if flags AND ISCSI_PDU_SCSI_FINAL = 0 then do {
                (_, iscsi) \<leftarrow> iscsi_send_unsolicited_data_out env i iscsi;
                Some (0, iscsi)
              }
              else Some (0, iscsi)
            }
        })"

section \<open>Sense data\<close>

definition parse_sense_spec :: "bytes \<Rightarrow> nat \<Rightarrow> scsi_sense \<Rightarrow> scsi_sense option" where
  "parse_sense_spec sb p sns = do {
     inf0 \<leftarrow> rd sb p;
     if inf0 AND 0x80 = 0 then Some sns
     else do {
       let sns = sns\<lparr>sense_specific := True, ill_param_in_cdb := (inf0 AND 0x40 \<noteq> 0)\<rparr>;
       let sns = (if inf0 AND 8 \<noteq> 0 then sns\<lparr>bit_pointer_valid := True, bit_pointer := inf0 AND 7\<rparr> else sns);
       fp \<leftarrow> rd_uint16 sb (p + 1);
       Some (sns\<lparr>field_pointer := fp\<rparr>)
     }
   }"

text \<open>The step to the next descriptor is \<open>p += p[1]\<close>.\<close>

function parse_sense_descriptors :: "bytes \<Rightarrow> nat \<Rightarrow> nat \<Rightarrow> scsi_sense \<Rightarrow> scsi_sense option" where
  "parse_sense_descriptors sb p e sns =
     (if e \<le> p then Some sns
      else do {
        addl_len \<leftarrow> rd sb (p + 1);
        if addl_len < 4 then Some sns
        else do {
          t \<leftarrow> rd sb p;
          sns \<leftarrow>
            (if t = 0 then
               if addl_len = 0x0a then do {
                 v \<leftarrow> rd sb (p + 2);
                 if v AND 0x80 \<noteq> 0 then do {
                   i \<leftarrow> rd_range sb (p + 4) 8;
                   Some (sns\<lparr>info_valid := True, information := scsi_get_uint64 i 0\<rparr>)
                 }
                 else Some sns
               }
               else Some sns
             else if t = 2 then if addl_len = 0x06 then parse_sense_spec sb (p + 4) sns else Some sns
             else Some sns);
          parse_sense_descriptors sb (p + unat addl_len) e sns
        }
      })"
  by pat_completeness auto

termination
  by (relation "measure (\<lambda>(sb, p, e, sns). e - p)") (auto simp: word_less_nat_alt)

declare parse_sense_descriptors.simps [simp del]

definition scsi_parse_sense_data :: "bytes \<Rightarrow> scsi_sense \<Rightarrow> scsi_sense option" where
  "scsi_parse_sense_data sb sns = do {
     b0 \<leftarrow> rd sb 0;
     let sns = sns\<lparr>error_type := b0 AND 0x7f\<rparr>;
     if error_type sns \<in> {0x70, 0x71} then do {
       b2 \<leftarrow> rd sb 2;
       let sns = sns\<lparr>key := ucast (b2 AND 0x0f)\<rparr>;
       sns \<leftarrow> (if b0 AND 0x80 \<noteq> 0 then do {
            i \<leftarrow> rd_range sb 3 4;
            Some (sns\<lparr>info_valid := True, information := ucast (scsi_get_uint32 i 0)\<rparr>)
          } else Some sns);
       a \<leftarrow> rd_uint16 sb 12;
       parse_sense_spec sb 15 (sns\<lparr>ascq := ucast a\<rparr>)
     }
     else if error_type sns \<in> {0x72, 0x73} then do {
       b1 \<leftarrow> rd sb 1;
       a \<leftarrow> rd_uint16 sb 2;
       n \<leftarrow> rd sb 7;
       parse_sense_descriptors sb 8 (8 + unat n) (sns\<lparr>key := ucast (b1 AND 0x0f), ascq := ucast a\<rparr>)
     }
     else Some sns
   }"

section \<open>Replies\<close>

text \<open>The task of a PDU; \<open>task->..\<close> on a PDU without one is a NULL dereference.\<close>

definition pdu_task :: "nat \<Rightarrow> iscsi_context \<Rightarrow> nat option" where
  "pdu_task i iscsi = do {
     p \<leftarrow> ctx_pdus iscsi i;
     case pdu_cbdata_task p of NULL \<Rightarrow> None | Ptr t \<Rightarrow> Some t
   }"

definition set_residual :: "u8 \<Rightarrow> bytes \<Rightarrow> scsi_task \<Rightarrow> scsi_task" where
  "set_residual flags hdr task =
     (if flags AND (ISCSI_PDU_DATA_RESIDUAL_OVERFLOW OR ISCSI_PDU_DATA_RESIDUAL_UNDERFLOW) \<noteq> 0
      then task\<lparr>residual := scsi_get_uint32 hdr 44,
                residual_status := (if flags AND ISCSI_PDU_DATA_RESIDUAL_UNDERFLOW \<noteq> 0
                                    then SCSI_RESIDUAL_UNDERFLOW else SCSI_RESIDUAL_OVERFLOW)\<rparr>
      else task)"

text \<open>Hands the received data over to the task.\<close>

definition give_datain :: "nat \<Rightarrow> nat \<Rightarrow> iscsi_context \<Rightarrow> iscsi_context option" where
  "give_datain i t iscsi = do {
     p \<leftarrow> ctx_pdus iscsi i;
     let iscsi = task_modify t (\<lambda>task. task\<lparr>datain := take (data_size (pdu_indata p)) (data_bytes (pdu_indata p))\<rparr>) iscsi;
     Some (pdu_store i (p\<lparr>pdu_indata := zero_data\<rparr>) iscsi)
   }"

definition fail_pdu :: "nat \<Rightarrow> iscsi_context \<Rightarrow> (int \<times> iscsi_context) option" where
  "fail_pdu i iscsi = do {
     iscsi \<leftarrow> pdu_callback_call SCSI_STATUS_ERROR i iscsi;
     Some (-1, iscsi)
   }"

definition check_condition ::
  "iscsi_env \<Rightarrow> nat \<Rightarrow> nat \<Rightarrow> iscsi_in_pdu \<Rightarrow> iscsi_context \<Rightarrow> (int \<times> iscsi_context) option" where
  "check_condition env i t inp iscsi =
     (if \<not> env_malloc env iscsi
      then Some (0, task_modify t (\<lambda>task. task\<lparr>datain := []\<rparr>) iscsi)
      else do {
        bs \<leftarrow> rd_range (in_data inp) 0 (in_data_pos inp);
        sns \<leftarrow> scsi_parse_sense_data (drop 2 bs) (sense (ctx_tasks iscsi t));
        let iscsi = task_modify t (\<lambda>task. task\<lparr>datain := bs, sense := sns\<rparr>) iscsi;
        iscsi \<leftarrow> pdu_callback_call SCSI_STATUS_CHECK_CONDITION i iscsi;
        Some (0, iscsi)
      })"

text \<open>The \<open>switch (status)\<close>.\<close>

definition reply_by_status ::
  "iscsi_env \<Rightarrow> nat \<Rightarrow> nat \<Rightarrow> iscsi_in_pdu \<Rightarrow> cint \<Rightarrow> iscsi_context \<Rightarrow> (int \<times> iscsi_context) option" where
  "reply_by_status env i t inp st iscsi =
     (if st \<in> {SCSI_STATUS_GOOD, SCSI_STATUS_CONDITION_MET} then do {
        iscsi \<leftarrow> give_datain i t iscsi;
        iscsi \<leftarrow> pdu_callback_call SCSI_STATUS_GOOD i iscsi;
        Some (0, iscsi)
      }
      else if st = SCSI_STATUS_CHECK_CONDITION then check_condition env i t inp iscsi
      else if st \<in> {SCSI_STATUS_RESERVATION_CONFLICT, SCSI_STATUS_TASK_SET_FULL, SCSI_STATUS_ACA_ACTIVE,
                     SCSI_STATUS_TASK_ABORTED, SCSI_STATUS_BUSY} then do {
        iscsi \<leftarrow> pdu_callback_call st i iscsi;
        Some (0, iscsi)
      }
      else fail_pdu i iscsi)"

definition iscsi_process_scsi_reply ::
  "iscsi_env \<Rightarrow> nat \<Rightarrow> iscsi_in_pdu \<Rightarrow> iscsi_context \<Rightarrow> (int \<times> iscsi_context) option" where
  "iscsi_process_scsi_reply env i inp iscsi = do {
     let flags = in_hdr inp ! 1;
     if flags AND ISCSI_PDU_DATA_FINAL = 0 then fail_pdu i iscsi
     else if flags AND ISCSI_PDU_DATA_ACK_REQUESTED \<noteq> 0 then fail_pdu i iscsi
     else do {
       t \<leftarrow> pdu_task i iscsi;
       let iscsi = task_modify t (\<lambda>task. task\<lparr>residual_status := SCSI_RESIDUAL_NO_RESIDUAL, residual := 0\<rparr>) iscsi;
       if flags AND (ISCSI_PDU_DATA_RESIDUAL_OVERFLOW OR ISCSI_PDU_DATA_RESIDUAL_UNDERFLOW) \<noteq> 0 \<and>
          in_hdr inp ! 2 \<noteq> 0
       then fail_pdu i iscsi
       else do {
         let iscsi = task_modify t (set_residual flags (in_hdr inp)) iscsi;
         reply_by_status env i t inp (ucast (in_hdr inp ! 3)) iscsi
       }
     }
   }"

text \<open>The results: the return value, \<open>is_finished\<close> and the context.\<close>

definition iscsi_process_scsi_data_in ::
  "iscsi_env \<Rightarrow> nat \<Rightarrow> iscsi_in_pdu \<Rightarrow> iscsi_context \<Rightarrow> (int \<times> bool \<times> iscsi_context) option" where
  "iscsi_process_scsi_data_in env i inp iscsi = do {
     let flags = in_hdr inp ! 1;
     if flags AND ISCSI_PDU_DATA_ACK_REQUESTED \<noteq> 0 then do {
       (r, iscsi) \<leftarrow> fail_pdu i iscsi;
       Some (r, True, iscsi)
     }
     else do {
       t \<leftarrow> pdu_task i iscsi;
       let dsl = scsi_get_uint32 (in_hdr inp) 4 AND 0x00ffffff;
       (r, iscsi) \<leftarrow> (if iov (iovector_in (ctx_tasks iscsi t)) = NULL then do {
            p \<leftarrow> ctx_pdus iscsi i;
            (r, d) \<leftarrow> iscsi_add_data (env_malloc env iscsi) (pdu_indata p) (in_data inp) (int (unat dsl)) False;
            Some (r, pdu_store i (p\<lparr>pdu_indata := d\<rparr>) iscsi)
          } else Some (0, iscsi));
       if r \<noteq> 0 then Some (-1, True, iscsi)
       else if flags AND ISCSI_PDU_DATA_FINAL = 0 \<or> flags AND ISCSI_PDU_DATA_CONTAINS_STATUS = 0
       then Some (0, False, iscsi)
       else do {
         let iscsi = task_modify t (\<lambda>task. set_residual flags (in_hdr inp)
           (task\<lparr>residual_status := SCSI_RESIDUAL_NO_RESIDUAL, residual := 0\<rparr>)) iscsi;
         iscsi \<leftarrow> give_datain i t iscsi;
         iscsi \<leftarrow> pdu_callback_call (ucast (in_hdr inp ! 3)) i iscsi;
         Some (0, True, iscsi)
       }
     }
   }"

definition iscsi_process_r2t ::
  "iscsi_env \<Rightarrow> nat \<Rightarrow> iscsi_in_pdu \<Rightarrow> iscsi_context \<Rightarrow> (int \<times> iscsi_context) option" where
  "iscsi_process_r2t env i inp iscsi = do {
     iscsi \<leftarrow> pdu_modify i (\<lambda>p. p\<lparr>pdu_datasn := 0\<rparr>) iscsi;
     (_, iscsi) \<leftarrow> iscsi_send_data_out env i (scsi_get_uint32 (in_hdr inp) 20) (scsi_get_uint32 (in_hdr inp) 40)
       (scsi_get_uint32 (in_hdr inp) 44) iscsi;
     Some (0, iscsi)
   }"

section \<open>The buffers of a task\<close>

definition iscsi_get_scsi_task_iovector_in :: "iscsi_in_pdu \<Rightarrow> iscsi_context \<Rightarrow> nat ptr option" where
  "iscsi_get_scsi_task_iovector_in inp iscsi =
     (if in_hdr inp ! 0 AND 0x3f \<noteq> ISCSI_PDU_DATA_IN then Some NULL
      else do {
        let itt = scsi_get_uint32 (in_hdr inp) 16;
        r \<leftarrow> find_pdu (\<lambda>p. pdu_itt p = itt) (ctx_waitpdu iscsi) iscsi;
        case r of
          NULL \<Rightarrow> Some NULL
        | Ptr i \<Rightarrow> do {
            t \<leftarrow> pdu_task i iscsi;
            Some (if iov (iovector_in (ctx_tasks iscsi t)) = NULL then NULL else Ptr t)
          }
      })"

definition iscsi_get_scsi_task_iovector_out :: "nat \<Rightarrow> iscsi_context \<Rightarrow> nat ptr option" where
  "iscsi_get_scsi_task_iovector_out i iscsi = do {
     t \<leftarrow> pdu_task i iscsi;
     Some (if iov (iovector_out (ctx_tasks iscsi t)) = NULL then NULL else Ptr t)
   }"

end
