(* ===== verification/Command_Queue.thy ===== *)
theory Command_Queue
  imports Iscsi_Command
begin

text \<open>
  What sending a command puts on the outqueue: the PDU of the command with the next CmdSN and the
  train of DATA-OUTs for the unsolicited data, or for an R2T. The results are about PDUs that
  are queued behind others or on a transport that does not write at once (several threads,
  where the service thread writes); writing is the subject of \<open>Write_Loop\<close>.
\<close>

section \<open>A new PDU\<close>

definition new_pdu :: "iscsi_context \<Rightarrow> u8 \<Rightarrow> u8 \<Rightarrow> u32 \<Rightarrow> u32 \<Rightarrow> iscsi_pdu" where
  "new_pdu c opcode response itt flags =
     (let h = (replicate (ISCSI_HEADER_SIZE (ctx_header_digest c)) 0)[0 := opcode];
          h = (if opcode = ISCSI_PDU_LOGIN_REQUEST then blit 8 (take 6 (ctx_isid c)) h else h)
      in zero_pdu\<lparr>pdu_outdata := \<lparr>data_bytes = scsi_set_uint32 16 itt h,
                     data_size = ISCSI_HEADER_SIZE (ctx_header_digest c)\<rparr>,
                   pdu_response_opcode := response, pdu_itt := itt, pdu_flags := flags,
                   pdu_calculated_data_digest := crc32c_init\<rparr>)"

text \<open>Memory is not exhausted while there are finitely many PDUs.\<close>

definition env_memory :: "iscsi_env \<Rightarrow> bool" where
  "env_memory env \<longleftrightarrow> 
     (\<forall>c. finite (dom (ctx_pdus c)) \<longrightarrow> env_new_pdu env c \<noteq> NULL \<and> env_malloc env c)"

lemma allocate_new:
  assumes "env_ok env" "env_memory env" "finite (dom (ctx_pdus c))"
  obtains k where "env_new_pdu env c = Ptr k" "ctx_pdus c k = None"
    "iscsi_allocate_pdu env opcode response itt flags c =
      Some (Ptr k, c\<lparr>ctx_pdus := (ctx_pdus c)(k \<mapsto> new_pdu c opcode response itt flags)\<rparr>)"
proof (cases "env_new_pdu env c")
  case NULL
  then show ?thesis using assms(2,3) by (auto simp: env_memory_def)
next
  case (Ptr k)
  then have "ctx_pdus c k = None" using assms(1) by (simp add: env_ok_def)
  moreover have "iscsi_allocate_pdu env opcode response itt flags c =
      Some (Ptr k, c\<lparr>ctx_pdus := (ctx_pdus c)(k \<mapsto> new_pdu c opcode response itt flags)\<rparr>)"
    using Ptr assms(2,3)
    by (simp add: iscsi_allocate_pdu_def env_memory_def pdu_store_def new_pdu_def iscsi_pdu_set_itt_def
        hdr_modify_def zero_pdu_def Let_def)
  ultimately show ?thesis using that Ptr by blast
qed

lemma header_size_cases: "ISCSI_HEADER_SIZE d = 48 \<or> ISCSI_HEADER_SIZE d = 52"
  by (simp add: ISCSI_HEADER_SIZE_def)

lemma new_pdu_fields:
  assumes "opcode \<noteq> ISCSI_PDU_LOGIN_REQUEST"
  shows "length (data_bytes (pdu_outdata (new_pdu c opcode r itt fl))) = ISCSI_HEADER_SIZE (ctx_header_digest c)"
    "data_bytes (pdu_outdata (new_pdu c opcode r itt fl)) ! 0 = opcode"
    "scsi_get_uint32 (data_bytes (pdu_outdata (new_pdu c opcode r itt fl))) 16 = itt"
    "pdu_itt (new_pdu c opcode r itt fl) = itt" "pdu_flags (new_pdu c opcode r itt fl) = fl"
    "pdu_callback (new_pdu c opcode r itt fl) = NULL"
  using header_size_cases [of "ctx_header_digest c"] assms
  by (auto simp: new_pdu_def Let_def nth_set_uint32 get_put_uint32 zero_pdu_def)

section \<open>Setting header fields\<close>

text \<open>
  The setters change only their bytes: a byte elsewhere, and a 32 bit field that they do not
  touch, are kept.
\<close>

lemma length_hdr_modify [simp]:
  "(\<And>h. length (f h) = length h) \<Longrightarrow>
   length (data_bytes (pdu_outdata (hdr_modify f p))) = length (data_bytes (pdu_outdata p))"
  by (simp add: hdr_modify_def)

definition hdr32 :: "iscsi_pdu \<Rightarrow> nat \<Rightarrow> u32" where
  "hdr32 p k = scsi_get_uint32 (data_bytes (pdu_outdata p)) k"

definition hdr8 :: "iscsi_pdu \<Rightarrow> nat \<Rightarrow> u8" where
  "hdr8 p k = data_bytes (pdu_outdata p) ! k"

lemma get_uint32_cong:
  "(\<And>j. p \<le> j \<Longrightarrow> j < p + 4 \<Longrightarrow> h ! j = h' ! j) \<Longrightarrow> scsi_get_uint32 h p = scsi_get_uint32 h' p"
  by (simp add: scsi_get_uint32_def)

lemma hdr_set_uint32 [simp]:
  "k + 4 \<le> q \<or> q + 4 \<le> k \<Longrightarrow> hdr32 (hdr_modify (scsi_set_uint32 q v) p) k = hdr32 p k"
  "q + 4 \<le> length (data_bytes (pdu_outdata p)) \<Longrightarrow> hdr32 (hdr_modify (scsi_set_uint32 q v) p) q = v"
  "k < q \<or> q + 4 \<le> k \<Longrightarrow> hdr8 (hdr_modify (scsi_set_uint32 q v) p) k = hdr8 p k"
  by (auto simp: hdr32_def hdr8_def hdr_modify_def get_put_uint32 nth_set_uint32 intro!: get_uint32_cong)


lemma hdr_set_other [simp]:
  "k + 4 \<le> 8 \<or> 10 \<le> k \<Longrightarrow> hdr32 (hdr_modify (scsi_set_uint16 8 w) p) k = hdr32 p k"
  "k < 8 \<or> 10 \<le> k \<Longrightarrow> hdr8 (hdr_modify (scsi_set_uint16 8 w) p) k = hdr8 p k"
  "Suc 0 < k \<Longrightarrow> hdr32 (hdr_modify (\<lambda>h. h[Suc 0 := b]) p) k = hdr32 p k"
  "k \<noteq> Suc 0 \<Longrightarrow> hdr8 (hdr_modify (\<lambda>h. h[Suc 0 := b]) p) k = hdr8 p k"
  "Suc 0 < length (data_bytes (pdu_outdata p)) \<Longrightarrow> hdr8 (hdr_modify (\<lambda>h. h[Suc 0 := b]) p) (Suc 0) = b"
  by (auto simp: hdr32_def hdr8_def hdr_modify_def scsi_set_uint16_def intro!: get_uint32_cong)

lemma hdr_updates [simp]:
  "hdr32 (p\<lparr>pdu_cbdata_task := a\<rparr>) k = hdr32 p k" "hdr8 (p\<lparr>pdu_cbdata_task := a\<rparr>) k = hdr8 p k"
  "hdr32 (p\<lparr>pdu_cmdsn := b\<rparr>) k = hdr32 p k" "hdr8 (p\<lparr>pdu_cmdsn := b\<rparr>) k = hdr8 p k"
  "hdr32 (p\<lparr>pdu_payload_offset := d\<rparr>) k = hdr32 p k" "hdr8 (p\<lparr>pdu_payload_offset := d\<rparr>) k = hdr8 p k"
  "hdr32 (p\<lparr>pdu_payload_len := e\<rparr>) k = hdr32 p k" "hdr8 (p\<lparr>pdu_payload_len := e\<rparr>) k = hdr8 p k"
  "hdr32 (p\<lparr>pdu_cbdata_callback := f\<rparr>) k = hdr32 p k" "hdr8 (p\<lparr>pdu_cbdata_callback := f\<rparr>) k = hdr8 p k"
  "hdr32 (p\<lparr>pdu_callback := g\<rparr>) k = hdr32 p k" "hdr8 (p\<lparr>pdu_callback := g\<rparr>) k = hdr8 p k"
  "hdr32 (p\<lparr>pdu_lun := l\<rparr>) k = hdr32 p k" "hdr8 (p\<lparr>pdu_lun := l\<rparr>) k = hdr8 p k"
  "hdr32 (p\<lparr>pdu_expxferlen := x\<rparr>) k = hdr32 p k" "hdr8 (p\<lparr>pdu_expxferlen := x\<rparr>) k = hdr8 p k"
  "hdr32 (p\<lparr>pdu_scsi_timeout := t\<rparr>) k = hdr32 p k" "hdr8 (p\<lparr>pdu_scsi_timeout := t\<rparr>) k = hdr8 p k"
  by (simp_all add: hdr32_def hdr8_def)

lemma hdr_modify_fields [simp]:
  "pdu_cbdata_task (hdr_modify f p) = pdu_cbdata_task p" "pdu_cmdsn (hdr_modify f p) = pdu_cmdsn p"
  "pdu_payload_offset (hdr_modify f p) = pdu_payload_offset p" "pdu_payload_len (hdr_modify f p) = pdu_payload_len p"
  "pdu_callback (hdr_modify f p) = pdu_callback p" "pdu_flags (hdr_modify f p) = pdu_flags p"
  "pdu_itt (hdr_modify f p) = pdu_itt p" "pdu_lun (hdr_modify f p) = pdu_lun p"
  "pdu_expxferlen (hdr_modify f p) = pdu_expxferlen p" "pdu_cbdata_callback (hdr_modify f p) = pdu_cbdata_callback p"
  "pdu_datasn (hdr_modify f p) = pdu_datasn p" "pdu_scsi_timeout (hdr_modify f p) = pdu_scsi_timeout p"
  by (simp_all add: hdr_modify_def)

lemma length_set_uint16 [simp]: "length (scsi_set_uint16 p v xs) = length xs"
  by (simp add: scsi_set_uint16_def)

section \<open>One DATA-OUT\<close>

lemma is_kind_hdr8: "is_immediate p \<longleftrightarrow> hdr8 p 0 AND 0x40 \<noteq> 0" "is_data_out p \<longleftrightarrow> hdr8 p 0 AND 0x3f = 5"
  by (simp_all add: is_immediate_def is_data_out_def pdu_byte0_def hdr8_def)

text \<open>What a DATA-OUT tells the target: buffer offset, length, DataSN and the F bit.\<close>

definition data_out_fields :: "iscsi_pdu \<Rightarrow> u32 \<times> u32 \<times> u32 \<times> bool" where
  "data_out_fields p = (hdr32 p 40, hdr32 p 4, hdr32 p 36, hdr8 p 1 = ISCSI_PDU_SCSI_FINAL)"

text \<open>The members that tie it to its command.\<close>

definition belongs_to :: "iscsi_pdu \<Rightarrow> u32 \<Rightarrow> iscsi_pdu \<Rightarrow> bool" where
  "belongs_to cmd ttt p \<longleftrightarrow> is_data_out p \<and> \<not> is_immediate p \<and> hdr32 p 16 = pdu_itt cmd \<and> hdr32 p 20 = ttt \<and>
     pdu_cmdsn p = pdu_cmdsn cmd \<and> pdu_cbdata_task p = pdu_cbdata_task cmd \<and> sends_once p \<and>
     pdu_payload_offset p = hdr32 p 40 \<and> pdu_payload_len p = hdr32 p 4 \<and> pdu_callback p = NULL"

lemma data_out_pdu_fields:
  fixes c :: iscsi_context and cmd :: iscsi_pdu and ttt offset len :: u32 and final :: bool and t :: int
  defines "new \<equiv> new_pdu c ISCSI_PDU_DATA_OUT ISCSI_PDU_NO_PDU (pdu_itt cmd)
    (ISCSI_PDU_DROP_ON_RECONNECT OR ISCSI_PDU_DELETE_WHEN_SENT)"
  defines "p \<equiv> with_timeout t (data_out_pdu cmd ttt offset len final new)"
  shows "data_out_fields p = (offset, len, pdu_datasn cmd, final)" "belongs_to cmd ttt p" "pdu_ok p"
proof -
  have op: "(ISCSI_PDU_DATA_OUT :: u8) \<noteq> ISCSI_PDU_LOGIN_REQUEST" by simp
  note new = new_pdu_fields [OF op, of c ISCSI_PDU_NO_PDU "pdu_itt cmd"
      "ISCSI_PDU_DROP_ON_RECONNECT OR ISCSI_PDU_DELETE_WHEN_SENT", folded new_def]
  have len: "48 \<le> length (data_bytes (pdu_outdata new))"
    using new(1) header_size_cases [of "ctx_header_digest c"] by auto
  have h: "hdr8 new 0 = 5" "hdr32 new 16 = pdu_itt cmd" using new(2,3) by (simp_all add: hdr8_def hdr32_def)
  note defs = p_def with_timeout_def data_out_pdu_def Let_def iscsi_pdu_set_pduflags_def iscsi_pdu_set_lun_def
    iscsi_pdu_set_ttt_def iscsi_pdu_set_datasn_def iscsi_pdu_set_bufferoffset_def
  show "data_out_fields p = (offset, len, pdu_datasn cmd, final)"
    using len by (simp add: data_out_fields_def defs)
  show "belongs_to cmd ttt p"
    using len h new(5,6) by (simp add: belongs_to_def is_kind_hdr8 sends_once_def defs)
  show "pdu_ok p"
    using len new(6) by (simp add: pdu_ok_def defs)
qed

section \<open>The train of DATA-OUTs\<close>

lemma serial32_compare_self [simp]: "iscsi_serial32_compare n n = 0"
  by (simp add: iscsi_serial32_compare_def)

text \<open>The queued PDUs before and from the first one with a larger CmdSN than \<open>n\<close>.\<close>

definition ahead :: "u32 \<Rightarrow> iscsi_context \<Rightarrow> nat list" where
  "ahead n c = takeWhile (\<lambda>k. 0 \<le> iscsi_serial32_compare n (pdu_cmdsn (pdu_at c k))) (ctx_outqueue c)"

definition behind :: "u32 \<Rightarrow> iscsi_context \<Rightarrow> nat list" where
  "behind n c = dropWhile (\<lambda>k. 0 \<le> iscsi_serial32_compare n (pdu_cmdsn (pdu_at c k))) (ctx_outqueue c)"

lemma ahead_behind: "ahead n c @ behind n c = ctx_outqueue c"
  by (simp add: ahead_def behind_def)

lemma ahead_cong:
  assumes "ctx_outqueue c' = ctx_outqueue c"
    "\<And>k. k \<in> set (ctx_outqueue c) \<Longrightarrow> pdu_cmdsn (pdu_at c' k) = pdu_cmdsn (pdu_at c k)"
  shows "ahead n c' = ahead n c" "behind n c' = behind n c"
  unfolding ahead_def behind_def assms(1)
  by (rule takeWhile_cong [OF refl], simp add: assms(2), rule dropWhile_cong [OF refl], simp add: assms(2))

lemma ahead_insert:
  assumes "ctx_outqueue c' = ahead n c @ k # behind n c" "pdu_cmdsn (pdu_at c' k) = n"
    "\<And>k. k \<in> set (ctx_outqueue c) \<Longrightarrow> pdu_cmdsn (pdu_at c' k) = pdu_cmdsn (pdu_at c k)"
  shows "ahead n c' = ahead n c @ [k]" "behind n c' = behind n c"
proof -
  let ?P = "\<lambda>k. 0 \<le> iscsi_serial32_compare n (pdu_cmdsn (pdu_at c k))"
  let ?P' = "\<lambda>k. 0 \<le> iscsi_serial32_compare n (pdu_cmdsn (pdu_at c' k))"
  have sub: "set (ahead n c) \<subseteq> set (ctx_outqueue c)" "set (behind n c) \<subseteq> set (ctx_outqueue c)"
    by (auto simp: ahead_def behind_def dest: set_takeWhileD set_dropWhileD)
  have a: "\<forall>j \<in> set (ahead n c @ [k]). ?P' j"
    using sub(1) assms(2,3) by (auto simp: ahead_def dest: set_takeWhileD)
  have b: "takeWhile ?P' (behind n c) = []" "dropWhile ?P' (behind n c) = behind n c"
  proof (atomize (full), cases "behind n c")
    case (Cons j js)
    then have "\<not> ?P j" using hd_dropWhile [of ?P "ctx_outqueue c"] by (simp add: behind_def)
    moreover have "j \<in> set (ctx_outqueue c)" using Cons sub(2) by auto
    ultimately show "takeWhile ?P' (behind n c) = [] \<and> dropWhile ?P' (behind n c) = behind n c"
      using Cons assms(3) [of j] by simp
  qed simp
  have q: "ctx_outqueue c' = (ahead n c @ [k]) @ behind n c" using assms(1) by simp
  show "ahead n c' = ahead n c @ [k]"
    unfolding ahead_def [of n c'] q using a b(1) by (simp add: takeWhile_append2)
  show "behind n c' = behind n c"
    unfolding behind_def [of n c'] q using a b(2) by (simp add: dropWhile_append2)
qed

text \<open>
  Nothing is written while PDUs with the CmdSN \<open>n\<close> are queued: the queue's head stays, or the
  transport does not write at once.
\<close>

definition not_written_yet :: "iscsi_env \<Rightarrow> u32 \<Rightarrow> iscsi_context \<Rightarrow> bool" where
  "not_written_yet env n c \<longleftrightarrow> ahead n c \<noteq> [] \<or> (\<forall>c. env_service env c = Some c)"

lemma queues_ok_store: "queues_ok c \<Longrightarrow> pdu_ok p \<Longrightarrow> queues_ok (c\<lparr>ctx_pdus := (ctx_pdus c)(i \<mapsto> p)\<rparr>)"
  by (auto simp: queues_ok_def)

lemma queues_ok_insert_new:
  assumes "queues_ok c" "i \<notin> set (ctx_outqueue c)" "i \<notin> set (ctx_waitpdu c)" "ctx_outqueue_current c \<noteq> Ptr i"
    "pdu_ok p"
  shows "queues_ok (c\<lparr>ctx_pdus := (ctx_pdus c)(i \<mapsto> p), ctx_outqueue := ahead n c @ i # behind n c\<rparr>)"
proof -
  have s: "set (ahead n c) \<union> set (behind n c) = set (ctx_outqueue c)" and d: "distinct (ahead n c @ behind n c)"
    using ahead_behind [of n c] queues_okD(1) [OF assms(1)] by (metis set_append, simp)
  have "distinct (ahead n c @ i # behind n c)" using d s assms(2) by auto
  then show ?thesis
    using assms s unfolding queues_ok_def by auto
qed

lemma queue_in_order:
  assumes "queues_ok c" "ctx_pdus c i = Some p" "i \<notin> set (ctx_outqueue c)" "\<not> is_immediate p"
    "not_written_yet env (pdu_cmdsn p) c"
  shows "\<exists>t. iscsi_queue_pdu env i c = Some (c\<lparr>ctx_pdus := (ctx_pdus c)(i \<mapsto> with_timeout t p),
    ctx_outqueue := ahead (pdu_cmdsn p) c @ i # behind (pdu_cmdsn p) c\<rparr>)"
proof -
  let ?q = "ahead (pdu_cmdsn p) c @ i # behind (pdu_cmdsn p) c"
  obtain ts p' q t where r: "outqueue_insert env i c =
      Some (c\<lparr>ctx_pdus := (ctx_pdus c)(i \<mapsto> p'), ctx_tasks := ts, ctx_outqueue := q\<rparr>)"
    "q = takeWhile (\<lambda>k. \<not> goes_before p' (pdu_at c k)) (ctx_outqueue c) @ i #
        dropWhile (\<lambda>k. \<not> goes_before p' (pdu_at c k)) (ctx_outqueue c)"
    "p' = with_timeout t p" "ts = ctx_tasks c"
    using outqueue_insert_result [OF assms(1-3), of env] assms(4) by blast
  have "(\<lambda>k. \<not> goes_before p' (pdu_at c k)) = (\<lambda>k. 0 \<le> iscsi_serial32_compare (pdu_cmdsn p) (pdu_cmdsn (pdu_at c k)))"
    using r(3) assms(4) by (auto simp: goes_before_def)
  then have q: "q = ?q" using r(2) by (simp add: ahead_def behind_def)
  have "hd ?q = i \<longrightarrow> env_service env d = Some d" for d
  proof (cases "ahead (pdu_cmdsn p) c")
    case (Cons j js)
    then have "j \<in> set (ctx_outqueue c)" using ahead_behind [of "pdu_cmdsn p" c] by (metis append_Cons list.set_intros(1))
    with Cons assms(3) show ?thesis by auto
  qed (use assms(5) in \<open>simp add: not_written_yet_def\<close>)
  then show ?thesis
    using r q by (auto simp: iscsi_queue_pdu_def iscsi_tcp_queue_pdu_def iscsi_add_to_outqueue_def)
qed

lemma send_data_out_pdu_queued:
  assumes env: "env_ok env" "env_memory env" "finite (dom (ctx_pdus c))" "not_written_yet env (pdu_cmdsn cmd) c"
    and c: "queues_ok c" "ctx_pdus c i = Some cmd"
  shows "\<exists>k p c'. send_data_out_pdu env i ttt offset len final c = Some (True, c') \<and>
    ctx_pdus c k = None \<and> k \<noteq> i \<and>
    c' = c\<lparr>ctx_pdus := (ctx_pdus c)(k \<mapsto> p, i \<mapsto> cmd\<lparr>pdu_datasn := pdu_datasn cmd + 1\<rparr>),
      ctx_outqueue := ahead (pdu_cmdsn cmd) c @ k # behind (pdu_cmdsn cmd) c\<rparr> \<and>
    data_out_fields p = (offset, len, pdu_datasn cmd, final) \<and> belongs_to cmd ttt p \<and> queues_ok c'"
proof -
  obtain k where k: "ctx_pdus c k = None"
    "iscsi_allocate_pdu env ISCSI_PDU_DATA_OUT ISCSI_PDU_NO_PDU (pdu_itt cmd)
      (ISCSI_PDU_DROP_ON_RECONNECT OR ISCSI_PDU_DELETE_WHEN_SENT) c =
      Some (Ptr k, c\<lparr>ctx_pdus := (ctx_pdus c)(k \<mapsto> new_pdu c ISCSI_PDU_DATA_OUT ISCSI_PDU_NO_PDU (pdu_itt cmd)
        (ISCSI_PDU_DROP_ON_RECONNECT OR ISCSI_PDU_DELETE_WHEN_SENT))\<rparr>)"
    using allocate_new [OF env(1-3)] by metis
  let ?new = "new_pdu c ISCSI_PDU_DATA_OUT ISCSI_PDU_NO_PDU (pdu_itt cmd)
        (ISCSI_PDU_DROP_ON_RECONNECT OR ISCSI_PDU_DELETE_WHEN_SENT)"
  let ?p = "data_out_pdu cmd ttt offset len final ?new"
  let ?cmd = "cmd\<lparr>pdu_datasn := pdu_datasn cmd + 1\<rparr>"
  let ?c = "c\<lparr>ctx_pdus := (ctx_pdus c)(k \<mapsto> ?p, i \<mapsto> ?cmd)\<rparr>"
  note pf = data_out_pdu_fields [where c = c and cmd = cmd and ttt = ttt and offset = offset and len = len and final = final]
  have ki: "k \<noteq> i" using k(1) c(2) by auto
  have kq: "k \<notin> set (ctx_outqueue c)" "k \<notin> set (ctx_waitpdu c)" "ctx_outqueue_current c \<noteq> Ptr k"
    using k(1) queues_okD(4-6) [OF c(1)] by auto
  have okp: "pdu_ok ?p" using pf(3) [of 0] by simp
  have okc: "pdu_ok ?cmd" using queues_okD(8) [OF c(1,2)] by (simp add: pdu_ok_def)
  have ok: "queues_ok ?c"
    using queues_ok_store [OF queues_ok_store [OF c(1) okp, of k] okc, of i] by simp
  have sn: "pdu_cmdsn ?p = pdu_cmdsn cmd" "\<not> is_immediate ?p"
    using pf(2) [of 0] by (simp_all add: belongs_to_def)
  have at: "pdu_cmdsn (pdu_at ?c j) = pdu_cmdsn (pdu_at c j)" if "j \<in> set (ctx_outqueue c)" for j
    using that kq(1) c(2) by (auto simp: pdu_at_def)
  have ab: "ahead n ?c = ahead n c" "behind n ?c = behind n c" for n
    by (rule ahead_cong, simp, simp only: at, rule ahead_cong, simp, simp only: at)
  have "not_written_yet env (pdu_cmdsn ?p) ?c" unfolding sn(1) using env(4) ab by (simp add: not_written_yet_def)
  then obtain t where t: "iscsi_queue_pdu env k ?c = Some (?c\<lparr>ctx_pdus := (ctx_pdus ?c)(k \<mapsto> with_timeout t ?p),
      ctx_outqueue := ahead (pdu_cmdsn cmd) c @ k # behind (pdu_cmdsn cmd) c\<rparr>)"
    using queue_in_order [OF ok, of k ?p env] kq(1) ki sn ab by auto
  let ?c' = "c\<lparr>ctx_pdus := (ctx_pdus c)(k \<mapsto> with_timeout t ?p, i \<mapsto> ?cmd),
    ctx_outqueue := ahead (pdu_cmdsn cmd) c @ k # behind (pdu_cmdsn cmd) c\<rparr>"
  have "send_data_out_pdu env i ttt offset len final c = Some (True, ?c')"
    using k(2) c(2) ki t
    by (simp add: send_data_out_pdu_def pdu_modify_def pdu_store_def fun_upd_twist [OF ki])
  moreover have "queues_ok ?c'"
    using queues_ok_insert_new [OF ok, of k "with_timeout t ?p" "pdu_cmdsn cmd"] kq okp ab
    by (simp add: fun_upd_twist [OF ki])
  ultimately show ?thesis using k(1) ki pf(1,2) by blast
qed

text \<open>
  The abstract specification: \<open>len\<close> bytes from \<open>off\<close> on in pieces of \<open>m\<close> bytes, each with the next
  DataSN, the last one with the F bit.
\<close>

definition data_out_train :: "nat \<Rightarrow> u32 \<Rightarrow> nat \<Rightarrow> u32 \<Rightarrow> (u32 \<times> u32 \<times> u32 \<times> bool) list" where
  "data_out_train m off len sn =
     map (\<lambda>j. (off + of_nat (j * m), of_nat (min m (len - j * m)), sn + of_nat j, len \<le> (j + 1) * m))
       [0..<(len + m - 1) div m]"

lemma data_out_train_0 [simp]: "data_out_train m off 0 sn = []"
  by (cases "m = 0") (simp_all add: data_out_train_def)

lemma data_out_train_step:
  assumes "0 < m" "0 < len"
  shows "data_out_train m off len sn =
    (off, of_nat (min m len), sn, len \<le> m) # data_out_train m (off + of_nat (min m len)) (len - min m len) (sn + 1)"
proof -
  have count: "(len + m - 1) div m = Suc ((len - min m len + m - 1) div m)"
  proof (cases "len \<le> m")
    case True
    then have "(len + m - 1) div m = 1"
      using assms by (intro div_nat_eqI) auto
    then show ?thesis using True assms by simp
  next
    case False
    then have "len + m - 1 = (len - m + m - 1) + m" using assms by simp
    moreover have "((len - m + m - 1) + m) div m = Suc ((len - m + m - 1) div m)"
      using assms(1) by (subst div_add_self2) auto
    ultimately show ?thesis using False by (simp add: min_def)
  qed
  have shift: "[0..<Suc n] = 0 # map Suc [0..<n]" for n by (simp add: upt_conv_Cons map_Suc_upt)
  define f where "f j = (off + of_nat (j * m), of_nat (min m (len - j * m)) :: u32, sn + of_nat j, len \<le> (j + 1) * m)"
    for j
  define g where "g j = (off + of_nat (min m len) + of_nat (j * m), of_nat (min m (len - min m len - j * m)) :: u32,
      sn + 1 + of_nat j, len - min m len \<le> (j + 1) * m)" for j
  have tail: "f (Suc j) = g j" if "j < (len - min m len + m - 1) div m" for j
  proof -
    have "m < len" using that assms by (cases "m < len") auto
    then show ?thesis by (auto simp: f_def g_def algebra_simps diff_diff_eq)
  qed
  have "map f [0..<Suc n] = f 0 # map g [0..<n]" if "n = (len - min m len + m - 1) div m" for n
    unfolding shift by (simp add: tail that del: upt_Suc)
  moreover have "f 0 = (off, of_nat (min m len), sn, len \<le> m)" by (simp add: f_def)
  ultimately show ?thesis
    unfolding data_out_train_def count f_def g_def by metis
qed

lemma length_data_out_train [simp]: "length (data_out_train m off len sn) = (len + m - 1) div m"
  by (simp add: data_out_train_def)

text \<open>
  What changes: the new DATA-OUTs \<open>ks\<close> stand in a row on the outqueue, behind the PDUs up to the CmdSN
  of the command \<open>i\<close> and before the later ones, and the DataSN of the command has moved on.
\<close>

definition queued_train ::
  "nat \<Rightarrow> u32 \<Rightarrow> iscsi_context \<Rightarrow> iscsi_context \<Rightarrow> nat list \<Rightarrow> (u32 \<times> u32 \<times> u32 \<times> bool) list \<Rightarrow> bool" where
  "queued_train i ttt c c' ks fs \<longleftrightarrow>
     (\<exists>m. c' = c\<lparr>ctx_pdus := m,
        ctx_outqueue := ahead (pdu_cmdsn (pdu_at c i)) c @ ks @ behind (pdu_cmdsn (pdu_at c i)) c\<rparr>) \<and> queues_ok c' \<and> distinct ks \<and>
     (\<forall>k \<in> set ks. ctx_pdus c k = None \<and> ctx_pdus c' k \<noteq> None \<and> belongs_to (pdu_at c i) ttt (pdu_at c' k)) \<and>
     map (\<lambda>k. data_out_fields (pdu_at c' k)) ks = fs \<and>
     (\<forall>k. k \<notin> set ks \<and> k \<noteq> i \<longrightarrow> ctx_pdus c' k = ctx_pdus c k) \<and>
     ctx_pdus c' i = Some ((pdu_at c i)\<lparr>pdu_datasn := pdu_datasn (pdu_at c i) + of_nat (length ks)\<rparr>)"

lemma belongs_to_datasn [simp]: "belongs_to (cmd\<lparr>pdu_datasn := n\<rparr>) ttt p = belongs_to cmd ttt p"
  by (simp add: belongs_to_def)

lemma queued_train_Cons:
  assumes "queued_train i ttt c1 c' ks fs" "ctx_pdus c k = None" "k \<noteq> i"
    "c1 = c\<lparr>ctx_pdus := (ctx_pdus c)(k \<mapsto> p, i \<mapsto> cmd\<lparr>pdu_datasn := pdu_datasn cmd + 1\<rparr>),
        ctx_outqueue := ahead (pdu_cmdsn cmd) c @ k # behind (pdu_cmdsn cmd) c\<rparr>"
    "data_out_fields p = f" "belongs_to cmd ttt p" "ctx_pdus c i = Some cmd"
    "ahead (pdu_cmdsn cmd) c1 = ahead (pdu_cmdsn cmd) c @ [k]" "behind (pdu_cmdsn cmd) c1 = behind (pdu_cmdsn cmd) c"
  shows "queued_train i ttt c c' (k # ks) (f # fs)"
proof -
  obtain m where m: "c' = c1\<lparr>ctx_pdus := m,
        ctx_outqueue := ahead (pdu_cmdsn (pdu_at c1 i)) c1 @ ks @ behind (pdu_cmdsn (pdu_at c1 i)) c1\<rparr>" "queues_ok c'" "distinct ks"
    "\<forall>j \<in> set ks. ctx_pdus c1 j = None \<and> ctx_pdus c' j \<noteq> None \<and> belongs_to (pdu_at c1 i) ttt (pdu_at c' j)"
    "map (\<lambda>k. data_out_fields (pdu_at c' k)) ks = fs"
    "\<forall>j. j \<notin> set ks \<and> j \<noteq> i \<longrightarrow> ctx_pdus c' j = ctx_pdus c1 j"
    "ctx_pdus c' i = Some ((pdu_at c1 i)\<lparr>pdu_datasn := pdu_datasn (pdu_at c1 i) + of_nat (length ks)\<rparr>)"
    using assms(1) unfolding queued_train_def by blast
  have at: "pdu_at c1 i = cmd\<lparr>pdu_datasn := pdu_datasn cmd + 1\<rparr>" "pdu_at c i = cmd"
    using assms(4,7) by (simp_all add: pdu_at_def)
  have "ctx_pdus c1 k = Some p" using assms(3,4) by simp
  moreover from this have "k \<notin> set ks" using m(4) by auto
  ultimately have k: "k \<notin> set ks" "ctx_pdus c' k = Some p" using m(6) assms(3) by auto
  have old: "ctx_pdus c j = None \<and> j \<noteq> k \<and> j \<noteq> i" if "ctx_pdus c1 j = None" for j
    using that assms(4) by (auto split: if_splits)
  show ?thesis
    unfolding queued_train_def
  proof (intro conjI)
    show "\<exists>m. c' = c\<lparr>ctx_pdus := m,
        ctx_outqueue := ahead (pdu_cmdsn (pdu_at c i)) c @ (k # ks) @ behind (pdu_cmdsn (pdu_at c i)) c\<rparr>"
      using m(1) assms(4,8,9) at by (intro exI [of _ m]) (simp only: at, simp)
    show "queues_ok c'" "distinct (k # ks)" using m(2,3) k(1) by simp_all
    show "\<forall>j \<in> set (k # ks). ctx_pdus c j = None \<and> ctx_pdus c' j \<noteq> None \<and> belongs_to (pdu_at c i) ttt (pdu_at c' j)"
      using m(4) old k(2) assms(2,6) at by (auto simp: pdu_at_def)
    show "map (\<lambda>k. data_out_fields (pdu_at c' k)) (k # ks) = f # fs" using m(5) k(2) assms(5) by (simp add: pdu_at_def)
    show "\<forall>j. j \<notin> set (k # ks) \<and> j \<noteq> i \<longrightarrow> ctx_pdus c' j = ctx_pdus c j" using m(6) assms(4) by auto
    show "ctx_pdus c' i = Some ((pdu_at c i)\<lparr>pdu_datasn := pdu_datasn (pdu_at c i) + of_nat (length (k # ks))\<rparr>)"
      using m(7) at by (simp add: algebra_simps)
  qed
qed

lemma iscsi_send_data_out_queued:
  assumes "env_ok env" "env_memory env" "not_written_yet env (pdu_cmdsn cmd) c" "queues_ok c" "ctx_pdus c i = Some cmd"
    "finite (dom (ctx_pdus c))" "ctx_target_max_recv_data_segment_length c \<noteq> 0"
  shows "\<exists>c' ks. iscsi_send_data_out env i ttt off len c = Some (0, c') \<and>
    queued_train i ttt c c' ks
      (data_out_train (unat (ctx_target_max_recv_data_segment_length c)) off (unat len) (pdu_datasn cmd))"
  using assms(3-)
proof (induction "unat len" arbitrary: len off c cmd rule: less_induct)
  case less
  let ?max = "ctx_target_max_recv_data_segment_length c"
  show ?case
  proof (cases "len = 0")
    case True
    then show ?thesis
      using less.prems(2,3)
      by (subst iscsi_send_data_out.simps)
        (auto simp: queued_train_def pdu_at_def ahead_behind intro!: exI [of _ "ctx_pdus c"])
  next
    case False
    let ?l = "min len ?max"
    obtain k p c1 where c1: "send_data_out_pdu env i ttt off ?l (len = ?l) c = Some (True, c1)"
      "ctx_pdus c k = None" "k \<noteq> i"
      "c1 = c\<lparr>ctx_pdus := (ctx_pdus c)(k \<mapsto> p, i \<mapsto> cmd\<lparr>pdu_datasn := pdu_datasn cmd + 1\<rparr>),
        ctx_outqueue := ahead (pdu_cmdsn cmd) c @ k # behind (pdu_cmdsn cmd) c\<rparr>"
      "data_out_fields p = (off, ?l, pdu_datasn cmd, len = ?l)" "belongs_to cmd ttt p" "queues_ok c1"
      using send_data_out_pdu_queued [OF assms(1,2) less.prems(4,1-3), where ttt = ttt and offset = off and len = "?l" and final = "len = ?l"]
      by blast
    let ?cmd = "cmd\<lparr>pdu_datasn := pdu_datasn cmd + 1\<rparr>"
    have "k \<notin> set (ctx_outqueue c)" using c1(2) queues_okD(4) [OF less.prems(2)] by auto
    then have at: "pdu_cmdsn (pdu_at c1 j) = pdu_cmdsn (pdu_at c j)" if "j \<in> set (ctx_outqueue c)" for j
      using that c1(4) less.prems(3) by (auto simp: pdu_at_def)
    have "pdu_cmdsn (pdu_at c1 k) = pdu_cmdsn cmd" using c1(3,4,6) by (simp add: pdu_at_def belongs_to_def)
    moreover have "ctx_outqueue c1 = ahead (pdu_cmdsn cmd) c @ k # behind (pdu_cmdsn cmd) c" using c1(4) by simp
    ultimately have ab: "ahead (pdu_cmdsn cmd) c1 = ahead (pdu_cmdsn cmd) c @ [k]"
      "behind (pdu_cmdsn cmd) c1 = behind (pdu_cmdsn cmd) c"
      using ahead_insert [of c1 "pdu_cmdsn cmd" c k] at by auto
    have smaller: "unat (len - ?l) < unat len"
      using False less.prems(5) by (simp add: unat_sub word_less_nat_alt word_le_nat_alt min_def unat_gt_0)
    have n1: "not_written_yet env (pdu_cmdsn ?cmd) c1" using ab by (simp add: not_written_yet_def)
    obtain c' ks where c': "iscsi_send_data_out env i ttt (off + ?l) (len - ?l) c1 = Some (0, c')"
      "queued_train i ttt c1 c' ks (data_out_train (unat ?max) (off + ?l) (unat (len - ?l)) (pdu_datasn cmd + 1))"
      using less.hyps [OF smaller n1 c1(7), of "off + ?l"] c1(4) less.prems(4,5) by auto
    have run: "iscsi_send_data_out env i ttt off len c = Some (0, c')"
      using False c1(1) c'(1) by (subst iscsi_send_data_out.simps) (simp add: Let_def)
    have train: "data_out_train (unat ?max) off (unat len) (pdu_datasn cmd) =
        (off, ?l, pdu_datasn cmd, len = ?l) #
        data_out_train (unat ?max) (off + ?l) (unat (len - ?l)) (pdu_datasn cmd + 1)"
      using data_out_train_step [of "unat ?max" "unat len" off "pdu_datasn cmd"] False less.prems(5)
      by (auto simp: unat_gt_0 min_def word_le_nat_alt unat_sub split: if_splits)
    have "queued_train i ttt c c' (k # ks) (data_out_train (unat ?max) off (unat len) (pdu_datasn cmd))"
      unfolding train by (rule queued_train_Cons [OF c'(2) c1(2-6) less.prems(3) ab])
    then show ?thesis using run by blast
  qed
qed

section \<open>What a train covers\<close>

lemma data_out_train_fields:
  "map (\<lambda>(o', n, s, f). s) (data_out_train m off len sn) = map (\<lambda>j. sn + of_nat j) [0..<(len + m - 1) div m]"
  "0 < m \<Longrightarrow> map (\<lambda>(o', n, s, f). f) (data_out_train m off len sn) =
     map (\<lambda>j. j + 1 = (len + m - 1) div m) [0..<(len + m - 1) div m]"
proof -
  show "map (\<lambda>(o', n, s, f). s) (data_out_train m off len sn) = map (\<lambda>j. sn + of_nat j) [0..<(len + m - 1) div m]"
    by (simp add: data_out_train_def)
  assume m: "0 < m"
  let ?n = "(len + m - 1) div m"
  have "len \<le> (j + 1) * m \<longleftrightarrow> j + 1 = ?n" if "j < ?n" for j
  proof -
    have le: "len \<le> k * m \<longleftrightarrow> ?n \<le> k" for k
    proof -
      have "?n \<le> k \<longleftrightarrow> len + m - 1 < (k + 1) * m" using m by (metis Suc_eq_plus1 less_Suc_eq_le div_less_iff_less_mult)
      then show ?thesis using m by (auto simp: algebra_simps)
    qed
    show ?thesis unfolding le using that by linarith
  qed
  then show "map (\<lambda>(o', n, s, f). f) (data_out_train m off len sn) = map (\<lambda>j. j + 1 = ?n) [0..<?n]"
    by (simp add: data_out_train_def)
qed

text \<open>The bytes of the buffer a DATA-OUT carries.\<close>

definition data_out_range :: "u32 \<times> u32 \<times> u32 \<times> bool \<Rightarrow> nat list" where
  "data_out_range = (\<lambda>(o', n, s, f). [unat o'..<unat o' + unat n])"

lemma data_out_train_covers:
  assumes "0 < m" "unat off + len < 2 ^ 32"
  shows "concat (map data_out_range (data_out_train m off len sn)) = [unat off..<unat off + len]"
  using assms(2)
proof (induction len arbitrary: off sn rule: less_induct)
  case (less len)
  show ?case
  proof (cases "len = 0")
    case False
    let ?l = "min m len"
    have l: "unat (of_nat ?l :: u32) = ?l" "unat (off + of_nat ?l) = unat off + ?l"
      using less.prems by (simp_all add: unat_of_nat_small unat_add_of_nat)
    have "concat (map data_out_range (data_out_train m (off + of_nat ?l) (len - ?l) (sn + 1))) =
        [unat off + ?l..<unat off + ?l + (len - ?l)]"
      using less.IH [of "len - ?l" "off + of_nat ?l" "sn + 1"] less.prems False assms(1) l by simp
    moreover have "[unat off..<unat off + ?l] @ [unat off + ?l..<unat off + ?l + (len - ?l)] =
        [unat off..<unat off + len]"
      using upt_add_eq_append [of "unat off" "unat off + ?l" "len - ?l"] by simp
    ultimately show ?thesis
      using data_out_train_step [of m len off sn] assms(1) False l by (simp add: data_out_range_def)
  qed simp
qed

lemma data_out_train_sizes:
  assumes "0 < m" "m < 2 ^ 32" "(o', n, s, f) \<in> set (data_out_train m off len sn)"
  shows "0 < unat n" "unat n \<le> m"
proof -
  obtain j where j: "j < (len + m - 1) div m" "n = of_nat (min m (len - j * m))"
    using assms(3) by (auto simp: data_out_train_def)
  have "j * m < len"
  proof -
    have "(j + 1) * m \<le> len + m - 1" using j(1) assms(1) by (metis Suc_eq_plus1 Suc_leI less_eq_div_iff_mult_less_eq)
    then show ?thesis using assms(1) by simp
  qed
  then show "0 < unat n" "unat n \<le> m"
    using j(2) assms(1,2) by (simp_all add: unat_of_nat_small)
qed

section \<open>The PDU of a command\<close>

text \<open>What the PDU of the task \<open>task\<close> with the CmdSN \<open>n\<close> and the tag \<open>itt\<close> tells the target.\<close>

definition command_fields :: "iscsi_context \<Rightarrow> scsi_task \<Rightarrow> u32 \<Rightarrow> u32 \<Rightarrow> iscsi_pdu \<Rightarrow> bool" where
  "command_fields c task itt n p \<longleftrightarrow>
     hdr8 p 0 = ISCSI_PDU_SCSI_REQUEST \<and> hdr8 p 1 = command_flags c task \<and> hdr32 p 4 = immediate_len c task \<and>
     hdr32 p 16 = itt \<and> hdr32 p 20 = expxferlen task \<and> hdr32 p 24 = n \<and>
     take 16 (drop 32 (data_bytes (pdu_outdata p))) =
       take (unat (cdb_size task)) (cdb task) @ replicate (16 - unat (cdb_size task)) 0"

text \<open>The members that decide what the replies do with it.\<close>

definition command_members :: "nat \<Rightarrow> nat ptr \<Rightarrow> iscsi_context \<Rightarrow> scsi_task \<Rightarrow> u32 \<Rightarrow> u32 \<Rightarrow> iscsi_pdu \<Rightarrow> bool" where
  "command_members t cb c task itt n p \<longleftrightarrow>
     pdu_itt p = itt \<and> pdu_cmdsn p = n \<and> pdu_callback p = Ptr Scsi_response_cb \<and>
     pdu_cbdata_task p = Ptr t \<and> pdu_cbdata_callback p = cb \<and> pdu_flags p = 0 \<and>
     pdu_payload_offset p = 0 \<and> pdu_payload_len p = immediate_len c task \<and> pdu_expxferlen p = expxferlen task"

definition with_cdb :: "scsi_task \<Rightarrow> iscsi_pdu \<Rightarrow> iscsi_pdu" where
  "with_cdb task = hdr_modify (\<lambda>h. blit 32 (take (unat (cdb_size task)) (cdb task)) (blit 32 (replicate 16 0) h))"

lemma nth_new_pdu:
  assumes "opcode \<noteq> ISCSI_PDU_LOGIN_REQUEST" "k < 16 \<or> 20 \<le> k" "0 < k" "k < 48"
  shows "data_bytes (pdu_outdata (new_pdu c opcode r itt fl)) ! k = 0"
  using header_size_cases [of "ctx_header_digest c"] assms
  by (auto simp: new_pdu_def Let_def nth_set_uint32)

lemma hdr_with_cdb:
  assumes "unat (cdb_size task) \<le> 16" "length (cdb task) = 16" "48 \<le> length (data_bytes (pdu_outdata p))"
  shows "k < 32 \<Longrightarrow> hdr8 (with_cdb task p) k = hdr8 p k" "k + 4 \<le> 32 \<Longrightarrow> hdr32 (with_cdb task p) k = hdr32 p k"
    "length (data_bytes (pdu_outdata (with_cdb task p))) = length (data_bytes (pdu_outdata p))"
    "take 16 (drop 32 (data_bytes (pdu_outdata (with_cdb task p)))) =
       take (unat (cdb_size task)) (cdb task) @ replicate (16 - unat (cdb_size task)) 0"
  using assms
  by (auto simp: hdr8_def hdr32_def with_cdb_def hdr_modify_def nth_blit_outside blit_def intro!: get_uint32_cong)
    (simp_all add: nth_append)

lemma command_pdu_fields:
  fixes c c' :: iscsi_context and t :: nat and lun n itt :: u32 and cb :: "nat ptr" and task' :: scsi_task
  defines "task \<equiv> ctx_tasks c t"
  defines "p \<equiv> with_cdb task' (with_cmdsn n (command_pdu c t lun cb
      (new_pdu c' ISCSI_PDU_SCSI_REQUEST ISCSI_PDU_SCSI_RESPONSE itt 0)))"
  assumes "unat (cdb_size task) \<le> 16" "length (cdb task) = 16" "cdb_size task' = cdb_size task" "cdb task' = cdb task"
  shows "command_fields c task itt n p" "command_members t cb c task itt n p" "pdu_datasn p = 0"
    "pdu_ok p" "\<not> is_immediate p" "is_cmd p"
proof -
  have op: "(ISCSI_PDU_SCSI_REQUEST :: u8) \<noteq> ISCSI_PDU_LOGIN_REQUEST" by simp
  define new where "new = new_pdu c' ISCSI_PDU_SCSI_REQUEST ISCSI_PDU_SCSI_RESPONSE itt 0"
  note f = new_pdu_fields [OF op, of c' ISCSI_PDU_SCSI_RESPONSE itt 0, folded new_def]
  have len: "48 \<le> length (data_bytes (pdu_outdata new))"
    using f(1) header_size_cases [of "ctx_header_digest c'"] by auto
  have h: "hdr8 new 0 = 1" "hdr32 new 16 = itt" "hdr32 new 4 = 0" "pdu_datasn new = 0"
    using f(2,3) nth_new_pdu [OF op, of _ c' ISCSI_PDU_SCSI_RESPONSE itt 0, folded new_def]
    by (simp_all add: hdr8_def hdr32_def scsi_get_uint32_def new_def new_pdu_def Let_def zero_pdu_def)
  let ?q = "with_cmdsn n (command_pdu c t lun cb new)"
  note defs = with_cmdsn_def command_pdu_def Let_def iscsi_pdu_set_pduflags_def iscsi_pdu_set_lun_def
    iscsi_pdu_set_expxferlen_def
  have q: "48 \<le> length (data_bytes (pdu_outdata ?q))" "hdr8 ?q 0 = 1" "hdr8 ?q 1 = command_flags c task"
    "hdr32 ?q 4 = immediate_len c task" "hdr32 ?q 16 = itt" "hdr32 ?q 20 = expxferlen task" "hdr32 ?q 24 = n"
    using len h by (simp_all add: defs task_def) (simp add: immediate_len_def)
  have m: "command_members t cb c task itt n ?q"
    using f(4,5) by (simp add: command_members_def defs task_def)
  have p: "p = with_cdb task' ?q" by (simp add: p_def new_def)
  note cdb = hdr_with_cdb [OF _ _ q(1), of task', folded p]
  have t': "unat (cdb_size task') \<le> 16" "length (cdb task') = 16" using assms by simp_all
  show "command_fields c task itt n p"
    using cdb [OF t'] q assms(5,6) by (simp add: command_fields_def)
  show "command_members t cb c task itt n p"
    using m by (simp add: command_members_def p with_cdb_def)
  show "pdu_datasn p = 0" using h(4) by (simp add: p with_cdb_def defs)
  show "pdu_ok p" using cdb(3) [OF t'] q(1) m by (simp add: pdu_ok_def command_members_def p with_cdb_def)
  show "\<not> is_immediate p" "is_cmd p" using cdb(1) [OF t'] q(2) by (simp_all add: is_cmd_def is_kind_hdr8)
qed

section \<open>Sending a command\<close>

lemma attach_data_frame:
  assumes "env_memory env" "finite (dom (ctx_pdus c))"
  obtains ts where "attach_data env t d c = Ptr (c\<lparr>ctx_tasks := ts\<rparr>)"
    "cdb_size (ts t) = cdb_size (ctx_tasks c t)" "cdb (ts t) = cdb (ctx_tasks c t)"
    "xfer_dir (ts t) = xfer_dir (ctx_tasks c t)" "expxferlen (ts t) = expxferlen (ctx_tasks c t)"
    "\<forall>k. k \<noteq> t \<longrightarrow> ts k = ctx_tasks c k"
proof (cases d)
  case NULL
  then show ?thesis using that [of "ctx_tasks c"] by (simp add: attach_data_def)
next
  case (Ptr x)
  then obtain a n where "d = Ptr (a, n)" by (cases x) auto
  then show ?thesis
    using assms
    by (intro that [of "(ctx_tasks c)(t := scsi_task_set_iov_out ((ctx_tasks c t)\<lparr>mem := Suc (mem (ctx_tasks c t))\<rparr>)
          (Ptr [\<lparr>iov_base = a, iov_len = n\<rparr>]) 1)"])
      (simp_all add: attach_data_def task_modify_def env_memory_def scsi_task_set_iov_out_def)
qed

lemma command_decisions_cong:
  assumes "xfer_dir task' = xfer_dir task" "expxferlen task' = expxferlen task"
  shows "immediate_len c task' = immediate_len c task" "unsolicited_follows c task' = unsolicited_follows c task"
    "command_flags c task' = command_flags c task"
  using assms by (simp_all add: immediate_len_def unsolicited_follows_def command_flags_def)

lemma command_context_cong [simp]:
  "immediate_len (c\<lparr>ctx_tasks := ts\<rparr>) task = immediate_len c task"
  "immediate_len (c\<lparr>ctx_itt := x\<rparr>) task = immediate_len c task"
  "immediate_len (c\<lparr>ctx_pdus := m\<rparr>) task = immediate_len c task"
  "unsolicited_follows (c\<lparr>ctx_tasks := ts\<rparr>) task = unsolicited_follows c task"
  "unsolicited_follows (c\<lparr>ctx_itt := x\<rparr>) task = unsolicited_follows c task"
  "unsolicited_follows (c\<lparr>ctx_pdus := m\<rparr>) task = unsolicited_follows c task"
  "command_flags (c\<lparr>ctx_tasks := ts\<rparr>) task = command_flags c task"
  "command_flags (c\<lparr>ctx_itt := x\<rparr>) task = command_flags c task"
  "command_flags (c\<lparr>ctx_pdus := m\<rparr>) task = command_flags c task"
  by (simp_all add: immediate_len_def unsolicited_follows_def command_flags_def)

lemma command_flags_final: "command_flags c task AND ISCSI_PDU_SCSI_FINAL = 0 \<longleftrightarrow> unsolicited_follows c task"
  by (simp add: command_flags_def bit_simps word_bw_assocs)

lemma unat_le_sint: "0 \<le> sint (w :: cint) \<Longrightarrow> sint w \<le> int n \<Longrightarrow> unat w \<le> n"
  using uint_sint [of w] sint_lt [of w] by (simp add: unat_eq_nat_uint nat_le_iff take_bit_int_eq_self)

text \<open>What a command asks of the target; submitting a task does not change it, for this or any other task.\<close>

definition same_command :: "scsi_task \<Rightarrow> scsi_task \<Rightarrow> bool" where
  "same_command a b \<longleftrightarrow> cdb a = cdb b \<and> cdb_size a = cdb_size b \<and> xfer_dir a = xfer_dir b \<and> expxferlen a = expxferlen b"

lemma same_command_refl [simp]: "same_command a a"
  by (simp add: same_command_def)

text \<open>The context in which the PDU \<open>i\<close> of the command is queued.\<close>

definition command_ready :: "iscsi_context \<Rightarrow> nat \<Rightarrow> iscsi_pdu \<Rightarrow> iscsi_context \<Rightarrow> bool" where
  "command_ready c i p c' \<longleftrightarrow>
     ctx_pdus c i = None \<and> (\<exists>itt ts. c' = c\<lparr>ctx_itt := itt, ctx_cmdsn := ctx_cmdsn c + 1, ctx_pdus := (ctx_pdus c)(i \<mapsto> p), ctx_tasks := ts\<rparr> \<and>
       (\<forall>k. same_command (ts k) (ctx_tasks c k)))"

lemma iscsi_scsi_command_async_prepares:
  assumes env: "env_ok env" "env_memory env" "finite (dom (ctx_pdus c))"
    and c: "ctx_session_type c = ISCSI_SESSION_NORMAL" "ctx_is_loggedin c \<or> ctx_pending_reconnect c"
    and t: "0 \<le> sint (cdb_size (ctx_tasks c t))" "sint (cdb_size (ctx_tasks c t)) \<le> 16" "length (cdb (ctx_tasks c t)) = 16"
  shows "\<exists>i p c'. command_ready c i p c' \<and>
    iscsi_scsi_command_async env lun t cb d c = do {
      iscsi \<leftarrow> iscsi_queue_pdu env i c';
      if unsolicited_follows c (ctx_tasks c t) then do {
        (_, iscsi) \<leftarrow> iscsi_send_unsolicited_data_out env i iscsi;
        Some (0, iscsi)
      }
      else Some (0, iscsi)
    } \<and>
    command_fields c (ctx_tasks c t) (ctx_itt c) (ctx_cmdsn c) p \<and>
    command_members t cb c (ctx_tasks c t) (ctx_itt c) (ctx_cmdsn c) p \<and>
    pdu_datasn p = 0 \<and> pdu_ok p \<and> \<not> is_immediate p \<and> is_cmd p"
proof -
  obtain ts where a: "attach_data env t d c = Ptr (c\<lparr>ctx_tasks := ts\<rparr>)"
    "cdb_size (ts t) = cdb_size (ctx_tasks c t)" "cdb (ts t) = cdb (ctx_tasks c t)"
    "xfer_dir (ts t) = xfer_dir (ctx_tasks c t)" "expxferlen (ts t) = expxferlen (ctx_tasks c t)"
    "\<forall>k. k \<noteq> t \<longrightarrow> ts k = ctx_tasks c k"
    using attach_data_frame [OF env(2,3)] by blast
  obtain itt' where itt: "iscsi_itt_post_increment (c\<lparr>ctx_tasks := ts\<rparr>) = (ctx_itt c, c\<lparr>ctx_tasks := ts, ctx_itt := itt'\<rparr>)"
    by (simp add: iscsi_itt_post_increment_def Let_def)
  define c2 where "c2 = c\<lparr>ctx_tasks := ts, ctx_itt := itt'\<rparr>"
  have c2: "ctx_pdus c2 = ctx_pdus c" "ctx_tasks c2 = ts" "ctx_cmdsn c2 = ctx_cmdsn c"
    "\<And>task. immediate_len c2 task = immediate_len c task" "\<And>task. command_flags c2 task = command_flags c task"
    "\<And>task. unsolicited_follows c2 task = unsolicited_follows c task"
    by (simp_all add: c2_def)
  define new where "new = new_pdu c2 ISCSI_PDU_SCSI_REQUEST ISCSI_PDU_SCSI_RESPONSE (ctx_itt c) 0"
  obtain i where i: "ctx_pdus c i = None"
    "iscsi_allocate_pdu env ISCSI_PDU_SCSI_REQUEST ISCSI_PDU_SCSI_RESPONSE (ctx_itt c) 0 c2 =
      Some (Ptr i, c2\<lparr>ctx_pdus := (ctx_pdus c)(i \<mapsto> new)\<rparr>)"
    using allocate_new [OF env(1,2), of c2 ISCSI_PDU_SCSI_REQUEST ISCSI_PDU_SCSI_RESPONSE "ctx_itt c" 0] env(3)
    unfolding c2(1) new_def by blast
  define c3 where "c3 = c2\<lparr>ctx_pdus := (ctx_pdus c)(i \<mapsto> new)\<rparr>"
  define p1 where "p1 = command_pdu c3 t lun cb new"
  have cb: "pdu_cbdata_task p1 = Ptr t"
    by (simp add: p1_def command_pdu_def Let_def iscsi_pdu_set_expxferlen_def iscsi_pdu_set_lun_def iscsi_pdu_set_pduflags_def)
  define ts' where "ts' = ts(t := (scsi_set_task_private_ptr (ts t) (Ptr i))\<lparr>task_lun := lun,
      task_cmdsn := ctx_cmdsn c, task_itt := pdu_itt (with_cmdsn (ctx_cmdsn c) p1)\<rparr>)"
  have ts': "cdb_size (ts' t) = cdb_size (ctx_tasks c t)" "cdb (ts' t) = cdb (ctx_tasks c t)"
    by (simp_all add: ts'_def scsi_set_task_private_ptr_def a)
  define p where "p = with_cdb (ts' t) (with_cmdsn (ctx_cmdsn c) p1)"
  define c' where "c' = c\<lparr>ctx_itt := itt', ctx_cmdsn := ctx_cmdsn c + 1, ctx_pdus := (ctx_pdus c)(i \<mapsto> p), ctx_tasks := ts'\<rparr>"
  have run: "iscsi_scsi_command_async env lun t cb d c = do {
      iscsi \<leftarrow> iscsi_queue_pdu env i c';
      if unsolicited_follows c (ctx_tasks c t) then do {
        (_, iscsi) \<leftarrow> iscsi_send_unsolicited_data_out env i iscsi;
        Some (0, iscsi)
      }
      else Some (0, iscsi)
    }"
  proof -
    have m: "pdu_modify i (command_pdu c3 t lun cb) c3 = Some (c3\<lparr>ctx_pdus := (ctx_pdus c)(i \<mapsto> p1)\<rparr>)"
      by (simp add: pdu_modify_def pdu_store_def p1_def c3_def)
    define c5 where "c5 = (task_modify t (\<lambda>task. (scsi_set_task_private_ptr task (Ptr i))\<lparr>task_lun := lun\<rparr>)
        (c3\<lparr>ctx_pdus := (ctx_pdus c)(i \<mapsto> p1)\<rparr>))"
    have c5: "ctx_cmdsn c5 = ctx_cmdsn c" by (simp add: c5_def task_modify_def c3_def c2(3))
    have sn: "iscsi_pdu_set_cmdsn i (ctx_cmdsn c) (c5\<lparr>ctx_cmdsn := ctx_cmdsn c + 1\<rparr>) =
        Some (c'\<lparr>ctx_pdus := (ctx_pdus c)(i \<mapsto> with_cmdsn (ctx_cmdsn c) p1)\<rparr>)"
      using cb by (simp add: iscsi_pdu_set_cmdsn_def c5_def task_modify_def c3_def c2_def c'_def ts'_def pdu_store_def
          with_cmdsn_def hdr_modify_def)
    have cdb: "iscsi_pdu_set_cdb (ts' t) (with_cmdsn (ctx_cmdsn c) p1) = Some p"
      using t ts' by (simp add: iscsi_pdu_set_cdb_def p_def with_cdb_def)
    have fl: "(command_flags c3 (ctx_tasks c3 t) AND ISCSI_PDU_SCSI_FINAL = 0) = unsolicited_follows c (ctx_tasks c t)"
      by (simp add: c3_def c2(2,5) command_decisions_cong(3) [OF a(4,5)] command_flags_final)
    have st: "pdu_store i p (c'\<lparr>ctx_pdus := (ctx_pdus c)(i \<mapsto> with_cmdsn (ctx_cmdsn c) p1)\<rparr>) = c'"
      "ctx_tasks c' = ts'"
      by (simp_all add: c'_def pdu_store_def)
    have log: "\<not> (\<not> ctx_is_loggedin c \<and> \<not> ctx_pending_reconnect c)" using c(2) by blast
    have at: "ctx_pdus (c'\<lparr>ctx_pdus := (ctx_pdus c)(i \<mapsto> with_cmdsn (ctx_cmdsn c) p1)\<rparr>) i = Some (with_cmdsn (ctx_cmdsn c) p1)"
      by simp
    have i': "iscsi_allocate_pdu env ISCSI_PDU_SCSI_REQUEST ISCSI_PDU_SCSI_RESPONSE (ctx_itt c) 0 c2 = Some (Ptr i, c3)"
      using i(2) by (simp add: c3_def)
    show ?thesis
      unfolding iscsi_scsi_command_async_def c(1) if_not_P [OF log] a(1) ptr.case itt [folded c2_def] Let_def prod.case
        i' bind.bind_lunit m c5_def [symmetric] c5 sn at
      using cdb st fl by (simp add: c5 sn at cdb cong: if_cong)
  qed
  have "unat (cdb_size (ctx_tasks c3 t)) \<le> 16" "length (cdb (ctx_tasks c3 t)) = 16"
    "cdb_size (ts' t) = cdb_size (ctx_tasks c3 t)" "cdb (ts' t) = cdb (ctx_tasks c3 t)"
    using t ts' unat_le_sint [of _ 16] by (simp_all add: c3_def c2(2) a(2,3))
  from command_pdu_fields [OF this, where lun = lun and cb = cb and c' = c2 and itt = "ctx_itt c" and n = "ctx_cmdsn c", folded new_def p1_def p_def]
  have "command_fields c3 (ctx_tasks c3 t) (ctx_itt c) (ctx_cmdsn c) p"
    "command_members t cb c3 (ctx_tasks c3 t) (ctx_itt c) (ctx_cmdsn c) p"
    "pdu_datasn p = 0" "pdu_ok p" "\<not> is_immediate p" "is_cmd p" by auto
  moreover have "command_fields c3 (ctx_tasks c3 t) (ctx_itt c) (ctx_cmdsn c) p =
        command_fields c (ctx_tasks c t) (ctx_itt c) (ctx_cmdsn c) p"
      "command_members t cb c3 (ctx_tasks c3 t) (ctx_itt c) (ctx_cmdsn c) p =
        command_members t cb c (ctx_tasks c t) (ctx_itt c) (ctx_cmdsn c) p"
    using a(2-5) command_decisions_cong [OF a(4,5), of c]
    by (simp_all add: command_fields_def command_members_def c3_def c2)
  moreover have "\<forall>k. same_command (ts' k) (ctx_tasks c k)"
    using a(2-6) by (auto simp: same_command_def ts'_def scsi_set_task_private_ptr_def)
  then have "command_ready c i p c'"
    using i(1) by (auto simp: command_ready_def c'_def)
  ultimately show ?thesis using run by blast
qed

end
