(* ===== verification/Command_Send.thy ===== *)
theory Command_Send
  imports Command_Queue
begin

text \<open>
  The results about sending: what \<open>iscsi_scsi_command_async\<close> and an R2T put on the outqueue.
\<close>

section \<open>The queue after a command\<close>

lemma command_with_timeout [simp]:
  "command_fields c task itt n (with_timeout x p) = command_fields c task itt n p"
  "command_members t cb c task itt n (with_timeout x p) = command_members t cb c task itt n p"
  "belongs_to (with_timeout x p) ttt q = belongs_to p ttt q"
  "pdu_datasn (with_timeout x p) = pdu_datasn p" "pdu_payload_len (with_timeout x p) = pdu_payload_len p"
  "pdu_expxferlen (with_timeout x p) = pdu_expxferlen p"
  by (simp_all add: with_timeout_def command_fields_def command_members_def belongs_to_def)

lemma command_with_datasn [simp]:
  "hdr8 (p\<lparr>pdu_datasn := x\<rparr>) k = hdr8 p k"
  "command_fields c task itt n (p\<lparr>pdu_datasn := x\<rparr>) = command_fields c task itt n p"
  "command_members t cb c task itt n (p\<lparr>pdu_datasn := x\<rparr>) = command_members t cb c task itt n p"
  "pdu_cmdsn (p\<lparr>pdu_datasn := x\<rparr>) = pdu_cmdsn p"
  by (simp_all add: command_fields_def command_members_def hdr8_def hdr32_def)

lemma command_readyD:
  assumes "command_ready c i p c'"
  shows "ctx_pdus c i = None" "ctx_pdus c' = (ctx_pdus c)(i \<mapsto> p)" "ctx_outqueue c' = ctx_outqueue c"
    "ctx_waitpdu c' = ctx_waitpdu c" "ctx_outqueue_current c' = ctx_outqueue_current c"
    "ctx_cmdsn c' = ctx_cmdsn c + 1" "ctx_trace c' = ctx_trace c"
    "ctx_target_max_recv_data_segment_length c' = ctx_target_max_recv_data_segment_length c"
    "ctx_first_burst_length c' = ctx_first_burst_length c"
  using assms by (auto simp: command_ready_def)

lemma queues_ok_cong:
  assumes "ctx_pdus c' = ctx_pdus c" "ctx_outqueue c' = ctx_outqueue c" "ctx_waitpdu c' = ctx_waitpdu c"
    "ctx_outqueue_current c' = ctx_outqueue_current c"
  shows "queues_ok c' = queues_ok c"
  by (simp add: queues_ok_def assms)

text \<open>The PDU of a command goes behind all that have a CmdSN up to its own.\<close>

lemma command_queued:
  assumes "queues_ok c" "command_ready c i p c'" "pdu_ok p" "\<not> is_immediate p" "pdu_cmdsn p = ctx_cmdsn c"
    "not_written_yet env (ctx_cmdsn c) c"
  shows "\<exists>x c''. iscsi_queue_pdu env i c' = Some c'' \<and>
    c'' = c'\<lparr>ctx_pdus := (ctx_pdus c)(i \<mapsto> with_timeout x p),
      ctx_outqueue := ahead (ctx_cmdsn c) c @ i # behind (ctx_cmdsn c) c\<rparr> \<and>
    queues_ok c'' \<and> ahead (ctx_cmdsn c) c'' = ahead (ctx_cmdsn c) c @ [i] \<and>
    behind (ctx_cmdsn c) c'' = behind (ctx_cmdsn c) c"
proof -
  let ?n = "ctx_cmdsn c"
  note r = command_readyD [OF assms(2)]
  have iq: "i \<notin> set (ctx_outqueue c)" "i \<notin> set (ctx_waitpdu c)" "ctx_outqueue_current c \<noteq> Ptr i"
    using r(1) queues_okD(4-6) [OF assms(1)] by auto
  have ok: "queues_ok c'"
    using queues_ok_store [OF assms(1,3), of i] queues_ok_cong [of c' "c\<lparr>ctx_pdus := (ctx_pdus c)(i \<mapsto> p)\<rparr>"] r by simp
  have at: "pdu_at c' k = pdu_at c k" if "k \<in> set (ctx_outqueue c)" for k
    using that iq(1) r(2) by (auto simp: pdu_at_def)
  have ab: "ahead ?n c' = ahead ?n c" "behind ?n c' = behind ?n c"
    by (rule ahead_cong, simp add: r(3), simp add: at, rule ahead_cong, simp add: r(3), simp add: at)
  have "\<exists>x. iscsi_queue_pdu env i c' = Some (c'\<lparr>ctx_pdus := (ctx_pdus c')(i \<mapsto> with_timeout x p),
      ctx_outqueue := ahead ?n c' @ i # behind ?n c'\<rparr>)"
    using queue_in_order [OF ok, of i p env] r(2,3) iq(1) assms(4-6) ab by (simp add: not_written_yet_def)
  then obtain x where x: "iscsi_queue_pdu env i c' = Some (c'\<lparr>ctx_pdus := (ctx_pdus c)(i \<mapsto> with_timeout x p),
      ctx_outqueue := ahead ?n c @ i # behind ?n c\<rparr>)"
    using r(2) ab by auto
  let ?c = "c'\<lparr>ctx_pdus := (ctx_pdus c)(i \<mapsto> with_timeout x p), ctx_outqueue := ahead ?n c @ i # behind ?n c\<rparr>"
  have "queues_ok ?c"
    using queues_ok_insert_new [OF ok, of i "with_timeout x p" ?n] r iq assms(3) ab by simp
  moreover have "ahead ?n ?c = ahead ?n c @ [i]" "behind ?n ?c = behind ?n c"
    by (rule ahead_insert; use iq(1) assms(5) in \<open>auto simp: pdu_at_def\<close>)+
  ultimately show ?thesis using x by blast
qed

section \<open>The unsolicited data\<close>

lemma immediate_len_bounds:
  "immediate_len c task \<le> expxferlen task" "immediate_len c task \<le> ctx_first_burst_length c"
  "immediate_len c task \<le> ctx_target_max_recv_data_segment_length c"
  by (simp_all add: immediate_len_def min.coboundedI1)

text \<open>All of it: from the end of the immediate data to the first burst's end.\<close>

definition unsolicited_range :: "iscsi_context \<Rightarrow> scsi_task \<Rightarrow> nat list" where
  "unsolicited_range c task =
     (if unsolicited_follows c task
      then [unat (immediate_len c task)..<min (unat (expxferlen task)) (unat (ctx_first_burst_length c))]
      else [])"

lemma unat_min: "unat (min a b :: u32) = min (unat a) (unat b)"
  by (simp add: min_def word_le_nat_alt)

lemma unsolicited_train:
  assumes "unsolicited_follows c task" "0 < m"
  shows "concat (map data_out_range (data_out_train m (immediate_len c task)
      (unat (min (expxferlen task) (ctx_first_burst_length c) - immediate_len c task)) sn)) = unsolicited_range c task"
proof -
  let ?e = "min (expxferlen task) (ctx_first_burst_length c)"
  have le: "immediate_len c task \<le> ?e" using immediate_len_bounds [of c task] by simp
  then have "unat (?e - immediate_len c task) = unat ?e - unat (immediate_len c task)" by (rule unat_sub)
  moreover have "unat (immediate_len c task) \<le> unat ?e" using le by (simp add: word_le_nat_alt)
  ultimately show ?thesis
    using data_out_train_covers [OF assms(2), of "immediate_len c task" "unat (?e - immediate_len c task)" sn]
      unat_u32_less [of ?e] assms(1)
    by (simp add: unsolicited_range_def unat_min)
qed

section \<open>The CmdSNs\<close>

lemma queued_train_Nil: "queues_ok c \<Longrightarrow> ctx_pdus c i = Some p \<Longrightarrow> queued_train i ttt c c [] []"
  by (auto simp: queued_train_def pdu_at_def ahead_behind intro!: exI [of _ "ctx_pdus c"])

lemma queued_train_cmds:
  assumes "queued_train i ttt c c' ks fs" "ctx_pdus c i \<noteq> None" "\<forall>k \<in> set ks. k \<noteq> i"
  shows "is_cmd (pdu_at c' k) = (k \<notin> set ks \<and> is_cmd (pdu_at c k))"
    "k \<notin> set ks \<Longrightarrow> pdu_cmdsn (pdu_at c' k) = pdu_cmdsn (pdu_at c k)"
proof -
  have t: "\<forall>k \<in> set ks. belongs_to (pdu_at c i) ttt (pdu_at c' k)"
    "\<forall>k. k \<notin> set ks \<and> k \<noteq> i \<longrightarrow> ctx_pdus c' k = ctx_pdus c k"
    "ctx_pdus c' i = Some ((pdu_at c i)\<lparr>pdu_datasn := pdu_datasn (pdu_at c i) + of_nat (length ks)\<rparr>)"
    using assms(1) unfolding queued_train_def by blast+
  show "is_cmd (pdu_at c' k) = (k \<notin> set ks \<and> is_cmd (pdu_at c k))"
    "k \<notin> set ks \<Longrightarrow> pdu_cmdsn (pdu_at c' k) = pdu_cmdsn (pdu_at c k)"
  proof (atomize (full), cases "k \<in> set ks")
    case True
    then show "is_cmd (pdu_at c' k) = (k \<notin> set ks \<and> is_cmd (pdu_at c k)) \<and>
        (k \<notin> set ks \<longrightarrow> pdu_cmdsn (pdu_at c' k) = pdu_cmdsn (pdu_at c k))"
      using t(1) by (simp add: is_cmd_def belongs_to_def)
  next
    case False
    then show "is_cmd (pdu_at c' k) = (k \<notin> set ks \<and> is_cmd (pdu_at c k)) \<and>
        (k \<notin> set ks \<longrightarrow> pdu_cmdsn (pdu_at c' k) = pdu_cmdsn (pdu_at c k))"
      using t(2,3) by (cases "k = i") (simp_all add: pdu_at_def is_cmd_def is_kind_hdr8)
  qed
qed

lemma gapless_after_command:
  assumes "gapless c" "ctx_cmdsn c' = ctx_cmdsn c + 1" "ctx_outqueue c' = ctx_outqueue c @ i # ks"
    "is_cmd (pdu_at c' i)" "pdu_cmdsn (pdu_at c' i) = ctx_cmdsn c" "\<forall>k \<in> set ks. \<not> is_cmd (pdu_at c' k)"
    "\<forall>k \<in> set (ctx_outqueue c). pdu_at c' k = pdu_at c k"
  shows "gapless c'"
proof -
  obtain s where s: "counts_up s (cmd_sns (pdu_at c) (ctx_outqueue c)) (ctx_cmdsn c)"
    using assms(1) by (auto simp: gapless_def)
  have "cmd_sns (pdu_at c') (ctx_outqueue c) = cmd_sns (pdu_at c) (ctx_outqueue c)"
    by (rule cmd_sns_cong) (simp add: assms(7))
  moreover have "cmd_sns (pdu_at c') ks = []" using assms(6) by (simp add: cmd_sns_def filter_empty_conv)
  ultimately have "counts_up s (cmd_sns (pdu_at c') (ctx_outqueue c')) (ctx_cmdsn c')"
    using s assms(2-5) by (auto simp: counts_up_append)
  then show ?thesis by (auto simp: gapless_def)
qed

section \<open>The queued command\<close>

text \<open>The unsolicited data of the command whose PDU \<open>i\<close> has been queued in \<open>c2\<close>, a successor of \<open>c\<close>.\<close>

lemma unsolicited_queued:
  assumes env: "env_ok env" "env_memory env" "finite (dom (ctx_pdus c2))"
    and q: "queues_ok c2" "ctx_pdus c2 i = Some p" "pdu_payload_len p = immediate_len c task"
      "pdu_expxferlen p = expxferlen task" "not_written_yet env (pdu_cmdsn p) c2"
    and c: "ctx_target_max_recv_data_segment_length c2 = ctx_target_max_recv_data_segment_length c"
      "ctx_first_burst_length c2 = ctx_first_burst_length c" "ctx_target_max_recv_data_segment_length c \<noteq> 0"
  shows "\<exists>c' ks. (if unsolicited_follows c task then do {
        (_, iscsi) \<leftarrow> iscsi_send_unsolicited_data_out env i c2;
        Some (0, iscsi)
      } else Some (0, c2)) = Some (0 :: int, c') \<and>
    queued_train i 0xffffffff c2 c' ks (map (\<lambda>k. data_out_fields (pdu_at c' k)) ks) \<and>
    concat (map (\<lambda>k. data_out_range (data_out_fields (pdu_at c' k))) ks) = unsolicited_range c task"
proof (cases "unsolicited_follows c task")
  case False
  have "queued_train i 0xffffffff c2 c2 [] []"
    using q(1,2) by (rule queued_train_Nil)
  then show ?thesis using False
    by (intro exI [of _ c2] exI [of _ "[]"]) (simp add: unsolicited_range_def)
next
  case True
  let ?len = "min (expxferlen task) (ctx_first_burst_length c) - immediate_len c task"
  have "ctx_target_max_recv_data_segment_length c2 \<noteq> 0" using c(1,3) by simp
  then obtain c' ks where s: "iscsi_send_data_out env i 0xffffffff (immediate_len c task) ?len c2 = Some (0, c')"
    "queued_train i 0xffffffff c2 c' ks (data_out_train (unat (ctx_target_max_recv_data_segment_length c2))
       (immediate_len c task) (unat ?len) (pdu_datasn p))"
    using iscsi_send_data_out_queued [OF env(1,2) q(5,1,2) env(3)] by blast
  have "iscsi_send_unsolicited_data_out env i c2 = Some (0, c')"
    using s(1) q(2-4) c(2) by (simp add: iscsi_send_unsolicited_data_out_def Let_def)
  moreover have f: "map (\<lambda>k. data_out_fields (pdu_at c' k)) ks =
      data_out_train (unat (ctx_target_max_recv_data_segment_length c2)) (immediate_len c task) (unat ?len) (pdu_datasn p)"
    using s(2) by (simp add: queued_train_def)
  moreover have "concat (map (\<lambda>k. data_out_range (data_out_fields (pdu_at c' k))) ks) = unsolicited_range c task"
    using unsolicited_train [OF True, of "unat (ctx_target_max_recv_data_segment_length c2)" "pdu_datasn p"]
      f [symmetric] c(1,3) by (simp add: comp_def unat_gt_0)
  moreover have "queued_train i 0xffffffff c2 c' ks (map (\<lambda>k. data_out_fields (pdu_at c' k)) ks)"
    unfolding f by (rule s(2))
  ultimately show ?thesis using True by (intro exI [of _ c'] exI [of _ ks]) simp
qed

text \<open>A command with its unsolicited data on the outqueue: what changes of the context, and the new PDUs.\<close>

definition command_on_queue ::
  "nat \<Rightarrow> nat ptr \<Rightarrow> iscsi_context \<Rightarrow> iscsi_context \<Rightarrow> nat \<Rightarrow> iscsi_pdu \<Rightarrow> nat list \<Rightarrow> bool" where
  "command_on_queue t cb c c' i p ks \<longleftrightarrow> (let n = ctx_cmdsn c; task = ctx_tasks c t in
     (\<exists>itt ts m. c' = c\<lparr>ctx_itt := itt, ctx_cmdsn := n + 1, ctx_pdus := m, ctx_tasks := ts,
        ctx_outqueue := ahead n c @ i # ks @ behind n c\<rparr> \<and> (\<forall>k. same_command (ts k) (ctx_tasks c k))) \<and>
     queues_ok c' \<and> ctx_pdus c i = None \<and> ctx_pdus c' i = Some p \<and> is_cmd p \<and>
     command_fields c task (ctx_itt c) n p \<and> command_members t cb c task (ctx_itt c) n p \<and>
     (\<forall>k \<in> set ks. ctx_pdus c k = None \<and> belongs_to p 0xffffffff (pdu_at c' k)) \<and>
     concat (map (\<lambda>k. data_out_range (data_out_fields (pdu_at c' k))) ks) = unsolicited_range c task \<and>
     (\<forall>k. k \<notin> set (i # ks) \<longrightarrow> ctx_pdus c' k = ctx_pdus c k))"

lemma command_on_queue_gapless:
  assumes on: "command_on_queue t cb c c' i p ks" and c: "queues_ok c" "behind (ctx_cmdsn c) c = []" "gapless c"
  shows "gapless c'"
proof (rule gapless_after_command [OF c(3)])
  have o: "ctx_cmdsn c' = ctx_cmdsn c + 1" "ctx_outqueue c' = ahead (ctx_cmdsn c) c @ i # ks @ behind (ctx_cmdsn c) c"
    "\<forall>k \<in> set ks. ctx_pdus c k = None \<and> belongs_to p 0xffffffff (pdu_at c' k)"
    "\<forall>k. k \<notin> set (i # ks) \<longrightarrow> ctx_pdus c' k = ctx_pdus c k" "ctx_pdus c i = None" "pdu_at c' i = p"
    using on unfolding command_on_queue_def Let_def by (auto simp: pdu_at_def)
  show "ctx_cmdsn c' = ctx_cmdsn c + 1" by (rule o(1))
  show "ctx_outqueue c' = ctx_outqueue c @ i # ks" using o(2) c(2) ahead_behind [of "ctx_cmdsn c" c] by simp
  show "is_cmd (pdu_at c' i)" "pdu_cmdsn (pdu_at c' i) = ctx_cmdsn c"
    using on o(6) by (simp_all add: command_on_queue_def command_members_def Let_def)
  show "\<forall>k \<in> set ks. \<not> is_cmd (pdu_at c' k)" using o(3) by (simp add: is_cmd_def belongs_to_def)
  show "\<forall>k \<in> set (ctx_outqueue c). pdu_at c' k = pdu_at c k"
  proof
    fix k assume "k \<in> set (ctx_outqueue c)"
    then have "k \<notin> set (i # ks)" using o(3,5) queues_okD(4) [OF c(1)] by auto
    then show "pdu_at c' k = pdu_at c k" using o(4) by (simp add: pdu_at_def)
  qed
qed

lemma scsi_command_on_queue:
  assumes env: "env_ok env" "env_memory env" "finite (dom (ctx_pdus c))"
    and c: "ctx_session_type c = ISCSI_SESSION_NORMAL" "ctx_is_loggedin c \<or> ctx_pending_reconnect c" "queues_ok c"
      "ctx_target_max_recv_data_segment_length c \<noteq> 0" "not_written_yet env (ctx_cmdsn c) c"
    and t: "0 \<le> sint (cdb_size (ctx_tasks c t))" "sint (cdb_size (ctx_tasks c t)) \<le> 16" "length (cdb (ctx_tasks c t)) = 16"
  shows "\<exists>c' i p ks. iscsi_scsi_command_async env lun t cb d c = Some (0, c') \<and> command_on_queue t cb c c' i p ks"
proof -
  let ?n = "ctx_cmdsn c" and ?task = "ctx_tasks c t"
  obtain i p c1 where r: "command_ready c i p c1"
    and run: "iscsi_scsi_command_async env lun t cb d c = do {
      iscsi \<leftarrow> iscsi_queue_pdu env i c1;
      if unsolicited_follows c ?task then do {
        (_, iscsi) \<leftarrow> iscsi_send_unsolicited_data_out env i iscsi;
        Some (0, iscsi)
      }
      else Some (0, iscsi)
    }"
    and p: "command_fields c ?task (ctx_itt c) ?n p" "command_members t cb c ?task (ctx_itt c) ?n p"
      "pdu_datasn p = 0" "pdu_ok p" "\<not> is_immediate p" "is_cmd p"
    using iscsi_scsi_command_async_prepares [OF env c(1,2) t, of lun cb d] by blast
  note rd = command_readyD [OF r]
  have sn: "pdu_cmdsn p = ?n" "pdu_payload_len p = immediate_len c ?task" "pdu_expxferlen p = expxferlen ?task"
    using p(2) by (simp_all add: command_members_def)
  obtain x c2 where q: "iscsi_queue_pdu env i c1 = Some c2"
    "c2 = c1\<lparr>ctx_pdus := (ctx_pdus c)(i \<mapsto> with_timeout x p), ctx_outqueue := ahead ?n c @ i # behind ?n c\<rparr>"
    "queues_ok c2" "ahead ?n c2 = ahead ?n c @ [i]" "behind ?n c2 = behind ?n c"
    using command_queued [OF c(3) r p(4,5) sn(1) c(5)] by blast
  let ?p = "with_timeout x p"
  have i2: "ctx_pdus c2 i = Some ?p" "pdu_at c2 i = ?p" using q(2) by (simp_all add: pdu_at_def)
  have "not_written_yet env (pdu_cmdsn ?p) c2" "finite (dom (ctx_pdus c2))"
    using q(2,4) sn(1) env(3) by (simp_all add: not_written_yet_def)
  then obtain c' ks where s: "(if unsolicited_follows c ?task then do {
        (_, iscsi) \<leftarrow> iscsi_send_unsolicited_data_out env i c2;
        Some (0, iscsi)
      } else Some (0, c2)) = Some (0 :: int, c')"
    "queued_train i 0xffffffff c2 c' ks (map (\<lambda>k. data_out_fields (pdu_at c' k)) ks)"
    "concat (map (\<lambda>k. data_out_range (data_out_fields (pdu_at c' k))) ks) = unsolicited_range c ?task"
    using unsolicited_queued [OF env(1,2) _ q(3) i2(1), where c = c and task = ?task] sn(2,3) q(2) rd(8,9) c(4) by auto
  obtain m where c': "c' = c2\<lparr>ctx_pdus := m, ctx_outqueue := ahead ?n c2 @ ks @ behind ?n c2\<rparr>" "queues_ok c'"
    "\<forall>k \<in> set ks. ctx_pdus c2 k = None \<and> belongs_to ?p 0xffffffff (pdu_at c' k)"
    "\<forall>k. k \<notin> set ks \<and> k \<noteq> i \<longrightarrow> ctx_pdus c' k = ctx_pdus c2 k"
    "ctx_pdus c' i = Some (?p\<lparr>pdu_datasn := pdu_datasn ?p + of_nat (length ks)\<rparr>)"
    using s(2) i2(2) sn(1) by (auto simp: queued_train_def)
  obtain itt ts where c1: "c1 = c\<lparr>ctx_itt := itt, ctx_cmdsn := ?n + 1, ctx_pdus := (ctx_pdus c)(i \<mapsto> p), ctx_tasks := ts\<rparr>"
    "\<forall>k. same_command (ts k) (ctx_tasks c k)"
    using r by (auto simp: command_ready_def)
  have ki: "\<forall>k \<in> set ks. k \<noteq> i \<and> ctx_pdus c k = None \<and> belongs_to p 0xffffffff (pdu_at c' k)"
    using c'(3) q(2) by (auto split: if_splits)
  have "c' = c\<lparr>ctx_itt := itt, ctx_cmdsn := ?n + 1, ctx_pdus := m, ctx_tasks := ts,
      ctx_outqueue := ahead ?n c @ i # ks @ behind ?n c\<rparr>"
    using c'(1) q(2,4,5) c1(1) by simp
  moreover have "\<forall>k. k \<notin> set (i # ks) \<longrightarrow> ctx_pdus c' k = ctx_pdus c k" using c'(4) q(2) by simp
  moreover have "iscsi_scsi_command_async env lun t cb d c = Some (0, c')" using run q(1) s(1) by simp
  moreover have "is_cmd (?p\<lparr>pdu_datasn := x'\<rparr>)" for x' using p(6) by (simp add: is_cmd_def is_kind_hdr8 hdr8_def with_timeout_def)
  ultimately show ?thesis
    using c'(2,5) rd(1) ki s(3) p(1,2) c1(2)
    by (intro exI [of _ c'] exI [of _ i] exI [of _ "?p\<lparr>pdu_datasn := pdu_datasn ?p + of_nat (length ks)\<rparr>"] exI [of _ ks])
      (auto simp: command_on_queue_def Let_def)
qed

section \<open>Properties\<close>



section \<open>Witnesses\<close>

text \<open>An environment with fresh memory, whose service thread writes later.\<close>

definition fresh_env :: iscsi_env where
  "fresh_env = demo_env\<lparr>env_new_pdu :=
     \<lambda>c. if finite (dom (ctx_pdus c)) then Ptr (Suc (Max (insert 2 (dom (ctx_pdus c))))) else NULL\<rparr>"

lemma fresh_env_ok: "env_ok fresh_env" "env_memory fresh_env"
proof -
  have "ctx_pdus c (Suc (Max (insert 2 (dom (ctx_pdus c))))) = None" if "finite (dom (ctx_pdus c))" for c
  proof (rule ccontr)
    assume "ctx_pdus c (Suc (Max (insert 2 (dom (ctx_pdus c))))) \<noteq> None"
    then have "Suc (Max (insert 2 (dom (ctx_pdus c)))) \<le> Max (insert 2 (dom (ctx_pdus c)))"
      using that by (intro Max_ge) auto
    then show False by simp
  qed
  then show "env_ok fresh_env" using demo_env_ok(1) by (auto simp: env_ok_def fresh_env_def split: if_splits)
  show "env_memory fresh_env" by (simp add: env_memory_def fresh_env_def demo_env_def)
qed

text \<open>A write of 10 bytes, 4 of them immediate, in a first burst of 8, to a target that takes 4 at a time.\<close>

definition demo_session :: iscsi_context where
  "demo_session = demo_context\<lparr>ctx_session_type := ISCSI_SESSION_NORMAL, ctx_is_loggedin := True,
     ctx_first_burst_length := 8, ctx_target_max_recv_data_segment_length := 4,
     ctx_use_initial_r2t := ISCSI_INITIAL_R2T_NO, ctx_use_immediate_data := ISCSI_IMMEDIATE_DATA_YES,
     ctx_tasks := (\<lambda>_. zero_task\<lparr>cdb_size := 10, xfer_dir := SCSI_XFER_WRITE, expxferlen := 10\<rparr>)\<rparr>"

lemma demo_session_ok: "queues_ok demo_session" "finite (dom (ctx_pdus demo_session))"
  "ctx_outqueue demo_session = [3, 4]" "ctx_cmdsn demo_session = 9" "ctx_pdus demo_session 3 = Some (demo_cmd 11 7)"
  "ahead 9 demo_session = [3, 4]" "behind 9 demo_session = []"
  "ahead 7 demo_session = [3]" "behind 7 demo_session = [4]"
  using queues_ok_cong [of demo_session demo_context] demo_ok
  by (simp_all add: demo_session_def demo_simps ahead_def behind_def pdu_at_def iscsi_serial32_compare_def)



end
