(* ===== verification/Command_Reply.thy ===== *)
theory Command_Reply
  imports Command_Send
begin

text \<open>
  What the replies do to a command: \<open>iscsi_process_scsi_reply\<close> and \<open>iscsi_process_scsi_data_in\<close>
  (the sense data included). The command is one of \<open>iscsi_scsi_command_async\<close>, with a task and a
  callback of the application.
\<close>

section \<open>The callback of a command\<close>

definition command_of :: "iscsi_context \<Rightarrow> nat \<Rightarrow> iscsi_pdu \<Rightarrow> nat \<Rightarrow> nat \<Rightarrow> bool" where
  "command_of c i p t cb \<longleftrightarrow> ctx_pdus c i = Some p \<and> pdu_callback p = Ptr Scsi_response_cb \<and>
     pdu_cbdata_task p = Ptr t \<and> pdu_cbdata_callback p = Ptr cb"

text \<open>The application is called once with the status \<open>st\<close>, which the task has then.\<close>

definition told :: "nat \<Rightarrow> nat \<Rightarrow> cint \<Rightarrow> iscsi_context \<Rightarrow> iscsi_context" where
  "told t cb st c = (task_modify t (\<lambda>task. task\<lparr>status := st\<rparr>) c)\<lparr>ctx_trace := ctx_trace c @ [Callback cb st]\<rparr>"

lemma callback_told:
  "command_of c i p t cb \<Longrightarrow> known_status st \<Longrightarrow> pdu_callback_call st i c = Some (told t cb st c)"
  by (simp add: command_of_def pdu_callback_call_def iscsi_scsi_response_cb_def told_def task_modify_def)

lemma command_of_task [simp]: "command_of (task_modify u f c) i p t cb = command_of c i p t cb"
  by (simp add: command_of_def task_modify_def)

lemma command_of_indata:
  "command_of c i p t cb \<Longrightarrow> command_of (pdu_store i (p\<lparr>pdu_indata := x\<rparr>) c) i (p\<lparr>pdu_indata := x\<rparr>) t cb"
  by (simp add: command_of_def pdu_store_def)

lemma command_task: "command_of c i p t cb \<Longrightarrow> pdu_task i c = Some t"
  by (simp add: command_of_def pdu_task_def)

section \<open>The SCSI response\<close>

text \<open>The status the application is told.\<close>

definition reply_status :: "bytes \<Rightarrow> cint" where
  "reply_status h =
     (if h ! 1 AND ISCSI_PDU_DATA_FINAL = 0 \<or> h ! 1 AND ISCSI_PDU_DATA_ACK_REQUESTED \<noteq> 0 \<or>
         h ! 1 AND (ISCSI_PDU_DATA_RESIDUAL_OVERFLOW OR ISCSI_PDU_DATA_RESIDUAL_UNDERFLOW) \<noteq> 0 \<and> h ! 2 \<noteq> 0
      then SCSI_STATUS_ERROR
      else if ucast (h ! 3) \<in> {SCSI_STATUS_GOOD, SCSI_STATUS_CONDITION_MET :: cint} then SCSI_STATUS_GOOD
      else if ucast (h ! 3) \<in> {SCSI_STATUS_CHECK_CONDITION, SCSI_STATUS_RESERVATION_CONFLICT,
                SCSI_STATUS_TASK_SET_FULL, SCSI_STATUS_ACA_ACTIVE, SCSI_STATUS_TASK_ABORTED, SCSI_STATUS_BUSY :: cint}
      then ucast (h ! 3)
      else SCSI_STATUS_ERROR)"

lemma known_statuses:
  "known_status SCSI_STATUS_ERROR" "known_status SCSI_STATUS_GOOD" "known_status SCSI_STATUS_CHECK_CONDITION"
  "known_status SCSI_STATUS_RESERVATION_CONFLICT" "known_status SCSI_STATUS_TASK_SET_FULL"
  "known_status SCSI_STATUS_ACA_ACTIVE" "known_status SCSI_STATUS_TASK_ABORTED" "known_status SCSI_STATUS_BUSY"
  by (simp_all add: known_status_def)

lemma fail_pdu_told: "command_of c i p t cb \<Longrightarrow> fail_pdu i c = Some (-1, told t cb SCSI_STATUS_ERROR c)"
  by (simp add: fail_pdu_def callback_told known_statuses)

text \<open>What the task holds after the reply.\<close>

definition reply_residual :: "bytes \<Rightarrow> u32 \<times> cint" where
  "reply_residual h =
     (if h ! 1 AND (ISCSI_PDU_DATA_RESIDUAL_OVERFLOW OR ISCSI_PDU_DATA_RESIDUAL_UNDERFLOW) = 0
      then (0, SCSI_RESIDUAL_NO_RESIDUAL)
      else (scsi_get_uint32 h 44,
        if h ! 1 AND ISCSI_PDU_DATA_RESIDUAL_UNDERFLOW \<noteq> 0 then SCSI_RESIDUAL_UNDERFLOW else SCSI_RESIDUAL_OVERFLOW))"

lemma set_residual_fields [simp]:
  "set_residual (h ! Suc 0) h (task\<lparr>residual_status := 0, residual := 0\<rparr>) =
     task\<lparr>residual_status := snd (reply_residual h), residual := fst (reply_residual h)\<rparr>"
  by (simp add: set_residual_def reply_residual_def)

lemma told_simps [simp]:
  "ctx_trace (told t cb st c) = ctx_trace c @ [Callback cb st]" "status (ctx_tasks (told t cb st c) t) = st"
  "residual (ctx_tasks (told t cb st c) u) = residual (ctx_tasks c u)"
  "residual_status (ctx_tasks (told t cb st c) u) = residual_status (ctx_tasks c u)"
  "datain (ctx_tasks (told t cb st c) u) = datain (ctx_tasks c u)"
  "sense (ctx_tasks (told t cb st c) u) = sense (ctx_tasks c u)"
  "u \<noteq> t \<Longrightarrow> ctx_tasks (told t cb st c) u = ctx_tasks c u"
  "ctx_pdus (told t cb st c) = ctx_pdus c" "ctx_outqueue (told t cb st c) = ctx_outqueue c"
  "ctx_waitpdu (told t cb st c) = ctx_waitpdu c" "ctx_cmdsn (told t cb st c) = ctx_cmdsn c"
  by (simp_all add: told_def task_modify_def)

lemma task_modify_simps [simp]:
  "ctx_tasks (task_modify t f c) t = f (ctx_tasks c t)" "u \<noteq> t \<Longrightarrow> ctx_tasks (task_modify t f c) u = ctx_tasks c u"
  "ctx_trace (task_modify t f c) = ctx_trace c" "ctx_pdus (task_modify t f c) = ctx_pdus c"
  "ctx_outqueue (task_modify t f c) = ctx_outqueue c" "ctx_waitpdu (task_modify t f c) = ctx_waitpdu c"
  "ctx_cmdsn (task_modify t f c) = ctx_cmdsn c"
  by (simp_all add: task_modify_def)

lemma pdu_store_simps [simp]:
  "ctx_tasks (pdu_store i p c) = ctx_tasks c" "ctx_trace (pdu_store i p c) = ctx_trace c"
  "ctx_pdus (pdu_store i p c) = (ctx_pdus c)(i \<mapsto> p)" "ctx_outqueue (pdu_store i p c) = ctx_outqueue c"
  "ctx_waitpdu (pdu_store i p c) = ctx_waitpdu c" "ctx_cmdsn (pdu_store i p c) = ctx_cmdsn c"
  by (simp_all add: pdu_store_def)

text \<open>What a reply leaves alone: the other tasks and PDUs, the queues and the counters.\<close>

definition only_command :: "nat \<Rightarrow> nat \<Rightarrow> iscsi_context \<Rightarrow> iscsi_context \<Rightarrow> bool" where
  "only_command i t c c' \<longleftrightarrow> (\<forall>u. u \<noteq> t \<longrightarrow> ctx_tasks c' u = ctx_tasks c u) \<and>
     (\<forall>k. k \<noteq> i \<longrightarrow> ctx_pdus c' k = ctx_pdus c k) \<and> ctx_outqueue c' = ctx_outqueue c \<and>
     ctx_waitpdu c' = ctx_waitpdu c \<and> ctx_cmdsn c' = ctx_cmdsn c"

section \<open>The status\<close>

lemma reply_good:
  assumes "command_of c i p t cb"
  shows "do {
      iscsi \<leftarrow> give_datain i t c;
      iscsi \<leftarrow> pdu_callback_call SCSI_STATUS_GOOD i iscsi;
      Some (0, iscsi)
    } = Some (0 :: int, told t cb SCSI_STATUS_GOOD (pdu_store i (p\<lparr>pdu_indata := zero_data\<rparr>)
      (task_modify t (\<lambda>task. task\<lparr>datain := take (data_size (pdu_indata p)) (data_bytes (pdu_indata p))\<rparr>) c)))"
proof -
  let ?c = "task_modify t (\<lambda>task. task\<lparr>datain := take (data_size (pdu_indata p)) (data_bytes (pdu_indata p))\<rparr>) c"
  have "command_of ?c i p t cb" using assms by simp
  from callback_told [OF command_of_indata [OF this, of zero_data] known_statuses(2)] show ?thesis
    using assms by (simp add: give_datain_def command_of_def)
qed

lemma reply_check:
  assumes "command_of c i p t cb"
    and "(\<forall>c. env_malloc env c) \<and> rd_range (in_data inp) 0 (in_data_pos inp) = Some bs \<and>
      scsi_parse_sense_data (drop 2 bs) (sense (ctx_tasks c t)) = Some sns"
  shows "check_condition env i t inp c = Some (0, told t cb SCSI_STATUS_CHECK_CONDITION
    (task_modify t (\<lambda>task. task\<lparr>datain := bs, sense := sns\<rparr>) c))"
proof -
  have "command_of (task_modify t (\<lambda>task. task\<lparr>datain := bs, sense := sns\<rparr>) c) i p t cb" using assms(1) by simp
  from callback_told [OF this known_statuses(3)] show ?thesis
    using assms(2) by (simp add: check_condition_def)
qed

section \<open>Data-In\<close>

text \<open>The data segment, a PDU that carries one, and the last PDU of a command.\<close>

definition in_segment :: "iscsi_in_pdu \<Rightarrow> bytes" where
  "in_segment inp = take (unat (scsi_get_uint32 (in_hdr inp) 4 AND 0x00ffffff)) (in_data inp)"

definition data_in_ok :: "iscsi_in_pdu \<Rightarrow> bool" where
  "data_in_ok inp \<longleftrightarrow> in_hdr inp ! 1 AND ISCSI_PDU_DATA_ACK_REQUESTED = 0 \<and>
     scsi_get_uint32 (in_hdr inp) 4 AND 0x00ffffff \<noteq> 0 \<and>
     unat (scsi_get_uint32 (in_hdr inp) 4 AND 0x00ffffff) \<le> length (in_data inp)"

definition last_data_in :: "iscsi_in_pdu \<Rightarrow> bool" where
  "last_data_in inp \<longleftrightarrow> in_hdr inp ! 1 AND ISCSI_PDU_DATA_FINAL \<noteq> 0 \<and>
     in_hdr inp ! 1 AND ISCSI_PDU_DATA_CONTAINS_STATUS \<noteq> 0"

definition received :: "iscsi_pdu \<Rightarrow> bytes" where
  "received p = take (data_size (pdu_indata p)) (data_bytes (pdu_indata p))"

definition indata_ok :: "iscsi_pdu \<Rightarrow> bool" where
  "indata_ok p \<longleftrightarrow> data_size (pdu_indata p) \<le> length (data_bytes (pdu_indata p))"

lemma add_segment:
  assumes "data_in_ok inp" "indata_ok p" "al"
  shows "\<exists>d. iscsi_add_data al (pdu_indata p) (in_data inp)
      (int (unat (scsi_get_uint32 (in_hdr inp) 4 AND 0x00ffffff))) False = Some (0, d) \<and>
    received (p\<lparr>pdu_indata := d\<rparr>) = received p @ in_segment inp \<and> indata_ok (p\<lparr>pdu_indata := d\<rparr>)"
  using assms
  by (auto simp: iscsi_add_data_def Let_def data_in_ok_def indata_ok_def received_def in_segment_def uint_0_iff)

text \<open>A Data-In before the last one.\<close>

definition data_in_middle :: "iscsi_env \<Rightarrow> nat \<Rightarrow> iscsi_in_pdu \<Rightarrow> iscsi_context \<Rightarrow> iscsi_context option" where
  "data_in_middle env i inp c =
     (case iscsi_process_scsi_data_in env i inp c of
        Some (r, finished, c') \<Rightarrow> if r = 0 \<and> \<not> finished then Some c' else None
      | None \<Rightarrow> None)"

lemma data_in_reads:
  assumes "command_of c i p t cb" "iov (iovector_in (ctx_tasks c t)) = NULL" "indata_ok p" "data_in_ok inp"
    "\<forall>c. env_malloc env c"
  shows "\<exists>d. received (p\<lparr>pdu_indata := d\<rparr>) = received p @ in_segment inp \<and> indata_ok (p\<lparr>pdu_indata := d\<rparr>) \<and>
    iscsi_process_scsi_data_in env i inp c =
      (if \<not> last_data_in inp then Some (0, False, pdu_store i (p\<lparr>pdu_indata := d\<rparr>) c)
       else do {
         let iscsi = task_modify t (\<lambda>task. set_residual (in_hdr inp ! 1) (in_hdr inp)
           (task\<lparr>residual_status := SCSI_RESIDUAL_NO_RESIDUAL, residual := 0\<rparr>)) (pdu_store i (p\<lparr>pdu_indata := d\<rparr>) c);
         iscsi \<leftarrow> give_datain i t iscsi;
         iscsi \<leftarrow> pdu_callback_call (ucast (in_hdr inp ! 3)) i iscsi;
         Some (0, True, iscsi)
       })"
proof -
  obtain d where d: "iscsi_add_data (env_malloc env c) (pdu_indata p) (in_data inp)
      (int (unat (scsi_get_uint32 (in_hdr inp) 4 AND 0x00ffffff))) False = Some (0, d)"
    "received (p\<lparr>pdu_indata := d\<rparr>) = received p @ in_segment inp" "indata_ok (p\<lparr>pdu_indata := d\<rparr>)"
    using add_segment [OF assms(4,3)] assms(5) by blast
  have p: "ctx_pdus c i = Some p" using assms(1) by (simp add: command_of_def)
  have ack: "in_hdr inp ! 1 AND ISCSI_PDU_DATA_ACK_REQUESTED = 0" using assms(4) by (simp add: data_in_ok_def)
  have "iscsi_process_scsi_data_in env i inp c =
      (if \<not> last_data_in inp then Some (0, False, pdu_store i (p\<lparr>pdu_indata := d\<rparr>) c)
       else do {
         let iscsi = task_modify t (\<lambda>task. set_residual (in_hdr inp ! 1) (in_hdr inp)
           (task\<lparr>residual_status := SCSI_RESIDUAL_NO_RESIDUAL, residual := 0\<rparr>)) (pdu_store i (p\<lparr>pdu_indata := d\<rparr>) c);
         iscsi \<leftarrow> give_datain i t iscsi;
         iscsi \<leftarrow> pdu_callback_call (ucast (in_hdr inp ! 3)) i iscsi;
         Some (0, True, iscsi)
       })"
    using d(1) p ack command_task [OF assms(1)] assms(2)
    unfolding iscsi_process_scsi_data_in_def last_data_in_def Let_def by auto
  with d(2,3) show ?thesis by blast
qed

lemma data_in_middles:
  assumes "command_of c i p t cb" "iov (iovector_in (ctx_tasks c t)) = NULL" "indata_ok p"
    "\<forall>inp \<in> set ins. data_in_ok inp \<and> \<not> last_data_in inp" "\<forall>c. env_malloc env c"
  shows "\<exists>d. mfold (data_in_middle env i) ins c = Some (pdu_store i (p\<lparr>pdu_indata := d\<rparr>) c) \<and>
    received (p\<lparr>pdu_indata := d\<rparr>) = received p @ concat (map in_segment ins) \<and> indata_ok (p\<lparr>pdu_indata := d\<rparr>)"
  using assms(1-4)
proof (induction ins arbitrary: c p)
  case Nil
  then have "pdu_store i (p\<lparr>pdu_indata := pdu_indata p\<rparr>) c = c"
    by (simp add: pdu_store_def command_of_def fun_upd_idem)
  then show ?case using Nil by (intro exI [of _ "pdu_indata p"]) simp
next
  case (Cons inp ins)
  then obtain d where d: "received (p\<lparr>pdu_indata := d\<rparr>) = received p @ in_segment inp" "indata_ok (p\<lparr>pdu_indata := d\<rparr>)"
    "iscsi_process_scsi_data_in env i inp c = Some (0, False, pdu_store i (p\<lparr>pdu_indata := d\<rparr>) c)"
    using data_in_reads [OF Cons.prems(1-3), of inp env] assms(5) by auto
  let ?p = "p\<lparr>pdu_indata := d\<rparr>"
  have "command_of (pdu_store i ?p c) i ?p t cb" using Cons.prems(1) by (rule command_of_indata)
  moreover have "iov (iovector_in (ctx_tasks (pdu_store i ?p c) t)) = NULL" using Cons.prems(2) by simp
  ultimately obtain d' where "mfold (data_in_middle env i) ins (pdu_store i ?p c) =
      Some (pdu_store i (?p\<lparr>pdu_indata := d'\<rparr>) (pdu_store i ?p c))"
    "received (?p\<lparr>pdu_indata := d'\<rparr>) = received ?p @ concat (map in_segment ins)" "indata_ok (?p\<lparr>pdu_indata := d'\<rparr>)"
    using Cons.IH [of "pdu_store i ?p c" ?p] d(2) Cons.prems(4) by auto
  moreover have "data_in_middle env i inp c = Some (pdu_store i ?p c)" using d(3) by (simp add: data_in_middle_def)
  ultimately show ?case
    using d(1) by (intro exI [of _ d']) (simp add: pdu_store_def)
qed

section \<open>Properties\<close>

text \<open>
  C9: a SCSI response completes its command: the callback is called exactly once, with the status
  of the response or \<open>SCSI_STATUS_ERROR\<close> for a malformed one, and the task holds this status, the
  residual count, the data received so far (GOOD) or the sense data and what it says (CHECK
  CONDITION, when there is memory and the sense data is complete). Other commands are not touched.
\<close>

theorem iscsi_process_scsi_reply_completes:
  assumes "command_of c i p t cb"
    and "reply_status (in_hdr inp) = SCSI_STATUS_CHECK_CONDITION \<Longrightarrow> (\<forall>c. env_malloc env c) \<and>
      rd_range (in_data inp) 0 (in_data_pos inp) = Some bs \<and>
      scsi_parse_sense_data (drop 2 bs) (sense (ctx_tasks c t)) = Some sns"
  defines "st \<equiv> reply_status (in_hdr inp)"
  shows "\<exists>c'. iscsi_process_scsi_reply env i inp c = Some (if st = SCSI_STATUS_ERROR then -1 else 0, c') \<and>
    ctx_trace c' = ctx_trace c @ [Callback cb st] \<and> status (ctx_tasks c' t) = st \<and>
    (st \<noteq> SCSI_STATUS_ERROR \<longrightarrow>
      (residual (ctx_tasks c' t), residual_status (ctx_tasks c' t)) = reply_residual (in_hdr inp)) \<and>
    (st = SCSI_STATUS_GOOD \<longrightarrow>
      datain (ctx_tasks c' t) = take (data_size (pdu_indata p)) (data_bytes (pdu_indata p))) \<and>
    (st = SCSI_STATUS_CHECK_CONDITION \<longrightarrow> sense (ctx_tasks c' t) = sns \<and> datain (ctx_tasks c' t) = bs) \<and>
    only_command i t c c'"
proof -
  let ?h = "in_hdr inp"
  let ?malformed = "?h ! 1 AND ISCSI_PDU_DATA_FINAL = 0 \<or> ?h ! 1 AND ISCSI_PDU_DATA_ACK_REQUESTED \<noteq> 0"
  let ?U = "?h ! 1 AND (ISCSI_PDU_DATA_RESIDUAL_OVERFLOW OR ISCSI_PDU_DATA_RESIDUAL_UNDERFLOW) \<noteq> 0"
  let ?c1 = "task_modify t (\<lambda>task. task\<lparr>residual_status := SCSI_RESIDUAL_NO_RESIDUAL, residual := 0\<rparr>) c"
  let ?c2 = "task_modify t (set_residual (?h ! 1) ?h) ?c1"
  have t: "pdu_task i c = Some t" using assms(1) by (rule command_task)
  have cmd: "command_of ?c1 i p t cb" "command_of ?c2 i p t cb" using assms(1) by simp_all
  consider "?malformed" | "\<not> ?malformed" "?U \<and> ?h ! 2 \<noteq> 0" | "\<not> ?malformed" "\<not> (?U \<and> ?h ! 2 \<noteq> 0)" by blast
  then show ?thesis
  proof cases
    case 1
    then have "st = SCSI_STATUS_ERROR" by (auto simp: st_def reply_status_def)
    then show ?thesis
      using 1 by (auto simp: iscsi_process_scsi_reply_def fail_pdu_told [OF assms(1)] only_command_def Let_def)
  next
    case 2
    then have "st = SCSI_STATUS_ERROR" by (auto simp: st_def reply_status_def)
    then show ?thesis
      using 2 by (simp add: iscsi_process_scsi_reply_def t fail_pdu_told [OF cmd(1)] only_command_def Let_def)
  next
    case 3
    define c2 where "c2 = ?c2"
    have run: "iscsi_process_scsi_reply env i inp c = reply_by_status env i t inp (ucast (?h ! 3)) c2"
      using 3 by (auto simp: iscsi_process_scsi_reply_def t Let_def c2_def)
    let ?s = "ucast (?h ! 3) :: cint"
    have st: "st = (if ?s \<in> {SCSI_STATUS_GOOD, SCSI_STATUS_CONDITION_MET} then SCSI_STATUS_GOOD
        else if ?s \<in> {SCSI_STATUS_CHECK_CONDITION, SCSI_STATUS_RESERVATION_CONFLICT,
                SCSI_STATUS_TASK_SET_FULL, SCSI_STATUS_ACA_ACTIVE, SCSI_STATUS_TASK_ABORTED, SCSI_STATUS_BUSY}
        then ?s else SCSI_STATUS_ERROR)"
      unfolding st_def reply_status_def using 3 by auto
    have res: "residual (ctx_tasks c2 t) = fst (reply_residual ?h)" "residual_status (ctx_tasks c2 t) = snd (reply_residual ?h)"
      "sense (ctx_tasks c2 t) = sense (ctx_tasks c t)"
      by (simp_all add: c2_def)
    have only: "only_command i t c c2" "ctx_trace c2 = ctx_trace c" by (simp_all add: only_command_def c2_def)
    note c2 = cmd(2) [folded c2_def]
    consider (good) "?s \<in> {SCSI_STATUS_GOOD, SCSI_STATUS_CONDITION_MET}" | (check) "?s = SCSI_STATUS_CHECK_CONDITION"
      | (other) "?s \<in> {SCSI_STATUS_RESERVATION_CONFLICT, SCSI_STATUS_TASK_SET_FULL, SCSI_STATUS_ACA_ACTIVE,
                     SCSI_STATUS_TASK_ABORTED, SCSI_STATUS_BUSY}"
      | (unknown) "?s \<notin> {SCSI_STATUS_GOOD, SCSI_STATUS_CONDITION_MET, SCSI_STATUS_CHECK_CONDITION,
           SCSI_STATUS_RESERVATION_CONFLICT, SCSI_STATUS_TASK_SET_FULL, SCSI_STATUS_ACA_ACTIVE,
                     SCSI_STATUS_TASK_ABORTED, SCSI_STATUS_BUSY}" by blast
    then show ?thesis
    proof cases
      case good
      then have "st = SCSI_STATUS_GOOD" using st by simp
      then show ?thesis
        using good res only unfolding run by (simp add: reply_by_status_def reply_good [OF c2] only_command_def)
    next
      case check
      then have s: "st = SCSI_STATUS_CHECK_CONDITION" using st by simp
      then show ?thesis
        using check res only assms(2) [folded st_def, OF s] reply_check [OF c2, of env inp bs sns] unfolding run
        by (simp add: reply_by_status_def only_command_def)
    next
      case other
      then have s: "st = ?s" using st by auto
      then have k: "known_status st" using other by (auto simp: known_status_def)
      show ?thesis
        using other s res only callback_told [OF c2 k] unfolding run
        by (auto simp: reply_by_status_def only_command_def)
    next
      case unknown
      then have "st = SCSI_STATUS_ERROR" using st by simp
      then show ?thesis
        using unknown res only unfolding run by (simp add: reply_by_status_def fail_pdu_told [OF c2] only_command_def)
    qed
  qed
qed

text \<open>
  C8: the Data-In PDUs of a command that has no buffers of its own are put together in the order in
  which they come: after the last one, with the F and S bits, the task holds the data segments of
  all of them, the status and the residual count, and the callback has been called exactly once.
  (A PDU without data is not covered: \<open>iscsi_add_data\<close> refuses it.)
\<close>

theorem iscsi_process_scsi_data_in_reassembles:
  assumes "command_of c i p t cb" "iov (iovector_in (ctx_tasks c t)) = NULL" "pdu_indata p = zero_data"
    "\<forall>inp \<in> set ins. data_in_ok inp \<and> \<not> last_data_in inp" "data_in_ok inp" "last_data_in inp"
    "\<forall>c. env_malloc env c" "known_status (ucast (in_hdr inp ! 3))"
  shows "\<exists>c1 c2. mfold (data_in_middle env i) ins c = Some c1 \<and> ctx_trace c1 = ctx_trace c \<and>
    iscsi_process_scsi_data_in env i inp c1 = Some (0, True, c2) \<and>
    datain (ctx_tasks c2 t) = concat (map in_segment (ins @ [inp])) \<and>
    status (ctx_tasks c2 t) = ucast (in_hdr inp ! 3) \<and>
    (residual (ctx_tasks c2 t), residual_status (ctx_tasks c2 t)) = reply_residual (in_hdr inp) \<and>
    ctx_trace c2 = ctx_trace c @ [Callback cb (ucast (in_hdr inp ! 3))] \<and> only_command i t c c2"
proof -
  let ?st = "ucast (in_hdr inp ! 3) :: cint"
  have ok: "indata_ok p" "received p = []" using assms(3) by (simp_all add: indata_ok_def received_def zero_data_def)
  obtain d where d: "mfold (data_in_middle env i) ins c = Some (pdu_store i (p\<lparr>pdu_indata := d\<rparr>) c)"
    "received (p\<lparr>pdu_indata := d\<rparr>) = concat (map in_segment ins)" "indata_ok (p\<lparr>pdu_indata := d\<rparr>)"
    using data_in_middles [OF assms(1,2) ok(1) assms(4,7)] ok(2) by auto
  define p1 c1 where "p1 = p\<lparr>pdu_indata := d\<rparr>" and "c1 = pdu_store i p1 c"
  have cmd: "command_of c1 i p1 t cb" using command_of_indata [OF assms(1)] by (simp add: c1_def p1_def)
  have "iov (iovector_in (ctx_tasks c1 t)) = NULL" using assms(2) by (simp add: c1_def)
  from data_in_reads [OF cmd this d(3) [folded p1_def] assms(5,7)] obtain e where
    e: "received (p1\<lparr>pdu_indata := e\<rparr>) = received p1 @ in_segment inp"
    and run: "iscsi_process_scsi_data_in env i inp c1 = do {
         let iscsi = task_modify t (\<lambda>task. set_residual (in_hdr inp ! 1) (in_hdr inp)
           (task\<lparr>residual_status := SCSI_RESIDUAL_NO_RESIDUAL, residual := 0\<rparr>)) (pdu_store i (p1\<lparr>pdu_indata := e\<rparr>) c1);
         iscsi \<leftarrow> give_datain i t iscsi;
         iscsi \<leftarrow> pdu_callback_call (ucast (in_hdr inp ! 3)) i iscsi;
         Some (0, True, iscsi)
       }"
    using assms(6) by auto
  define p2 c2 where "p2 = p1\<lparr>pdu_indata := e\<rparr>" and "c2 = task_modify t (\<lambda>task. set_residual (in_hdr inp ! 1) (in_hdr inp)
           (task\<lparr>residual_status := SCSI_RESIDUAL_NO_RESIDUAL, residual := 0\<rparr>)) (pdu_store i (p1\<lparr>pdu_indata := e\<rparr>) c1)"
  define c3 where "c3 = pdu_store i (p2\<lparr>pdu_indata := zero_data\<rparr>)
    (task_modify t (\<lambda>task. task\<lparr>datain := received p2\<rparr>) c2)"
  have cmd2: "command_of c2 i p2 t cb" using command_of_indata [OF cmd] by (simp add: c2_def p2_def)
  then have g: "give_datain i t c2 = Some c3"
    by (simp add: give_datain_def c3_def command_of_def received_def)
  have "command_of c3 i (p2\<lparr>pdu_indata := zero_data\<rparr>) t cb"
    unfolding c3_def by (rule command_of_indata) (use cmd2 in simp)
  from callback_told [OF this assms(8)] have "iscsi_process_scsi_data_in env i inp c1 = Some (0, True, told t cb ?st c3)"
    using g unfolding run [folded c2_def] Let_def by simp
  moreover have "received p2 = concat (map in_segment (ins @ [inp]))" using e d(2) by (simp add: p2_def p1_def)
  moreover have "residual (ctx_tasks c3 t) = fst (reply_residual (in_hdr inp))"
    "residual_status (ctx_tasks c3 t) = snd (reply_residual (in_hdr inp))"
    "ctx_trace c3 = ctx_trace c" "datain (ctx_tasks c3 t) = received p2" "only_command i t c c3"
    by (simp_all add: c3_def c2_def c1_def only_command_def)
  ultimately show ?thesis
    using d(1) by (intro exI [of _ c1] exI [of _ "told t cb ?st c3"]) (simp add: c1_def p1_def only_command_def)
qed

text \<open>
  Of descriptor format sense data that has a sense key specific descriptor followed by an
  information descriptor, only the first is read: the walk goes on 6 bytes after the start of the
  first descriptor, although the ADDITIONAL LENGTH does not count the two bytes before it, finds
  the reserved byte 0 there and stops. The INFORMATION field is lost.
\<close>

theorem scsi_parse_sense_data_second_descriptor_lost:
  fixes k asc ascq fl fp1 fp2 i0 i1 i2 i3 i4 i5 i6 i7 :: u8
  defines "sb \<equiv> [0x72, k, asc, ascq, 0, 0, 0, 20, 2, 6, 0, 0, fl, fp1, fp2, 0,
    0, 10, 0x80, 0, i0, i1, i2, i3, i4, i5, i6, i7]"
  shows "\<exists>sns. scsi_parse_sense_data sb zero_sense = Some sns \<and> key sns = ucast (k AND 0x0f) \<and>
    sense_specific sns = (fl AND 0x80 \<noteq> 0) \<and> \<not> info_valid sns \<and> information sns = 0"
  unfolding sb_def
  by (subst scsi_parse_sense_data_def)
    (simp add: parse_sense_descriptors.simps parse_sense_spec_def rd_uint16_def rd_def zero_sense_def Let_def)

section \<open>Witnesses\<close>

text \<open>A command on the wait queue and a response GOOD.\<close>

definition demo_reply :: "u8 \<Rightarrow> bytes \<Rightarrow> iscsi_in_pdu" where
  "demo_reply flags d = \<lparr>in_hdr_pos = 48, in_hdr = (scsi_set_uint32 4 (of_nat (length d)) (replicate 48 0))[1 := flags],
     in_data_pos = length d, in_data = d, in_data_digest_buf = [], in_received_data_digest_bytes = 0,
     in_calculated_data_digest = 0\<rparr>"

definition demo_read :: iscsi_pdu where
  "demo_read = (demo_cmd 0 7)\<lparr>pdu_callback := Ptr Scsi_response_cb, pdu_cbdata_task := Ptr 5, pdu_cbdata_callback := Ptr 11\<rparr>"

definition demo_reading :: iscsi_context where
  "demo_reading = zero_context\<lparr>ctx_waitpdu := [3], ctx_pdus := [3 \<mapsto> demo_read]\<rparr>"

lemma demo_reading_command: "command_of demo_reading 3 demo_read 5 11"
  by (simp add: command_of_def demo_reading_def demo_read_def)

theorem iscsi_process_scsi_reply_completes_witness:
  "\<exists>c'. iscsi_process_scsi_reply demo_env 3 (demo_reply 0x80 []) demo_reading = Some (0, c') \<and>
    ctx_trace c' = [Callback 11 SCSI_STATUS_GOOD] \<and> status (ctx_tasks c' 5) = SCSI_STATUS_GOOD"
proof -
  have st: "reply_status (in_hdr (demo_reply 0x80 [])) = SCSI_STATUS_GOOD"
    by (simp add: reply_status_def demo_reply_def scsi_set_uint32_def)
  show ?thesis
    using iscsi_process_scsi_reply_completes [OF demo_reading_command, of "demo_reply 0x80 []" demo_env] st
    by (auto simp: demo_reading_def zero_context_def)
qed

theorem iscsi_process_scsi_data_in_reassembles_witness:
  "\<exists>c1 c2. mfold (data_in_middle demo_env 3) [demo_reply 0 [1, 2], demo_reply 0x80 [3]] demo_reading = Some c1 \<and>
    iscsi_process_scsi_data_in demo_env 3 (demo_reply 0x81 [4, 5]) c1 = Some (0, True, c2) \<and>
    datain (ctx_tasks c2 5) = [1, 2, 3, 4, 5] \<and> ctx_trace c2 = [Callback 11 SCSI_STATUS_GOOD]"
proof -
  have n: "scsi_get_uint32 (in_hdr (demo_reply f d)) 4 = of_nat (length d)" for f d
  proof -
    have "scsi_get_uint32 (h[Suc 0 := f]) 4 = scsi_get_uint32 h 4" for h by (simp add: scsi_get_uint32_def nth_list_update)
    then show ?thesis by (simp add: demo_reply_def get_put_uint32)
  qed
  have seg: "in_segment (demo_reply f [a]) = [a]" "in_segment (demo_reply f [a, b]) = [a, b]"
    "data_in_ok (demo_reply 0 [a, b])" "data_in_ok (demo_reply 0x80 [a])" "data_in_ok (demo_reply 0x81 [a, b])" for f a b
    by (simp_all add: in_segment_def data_in_ok_def n) (simp_all add: demo_reply_def)
  show ?thesis
    using iscsi_process_scsi_data_in_reassembles [OF demo_reading_command, of "[demo_reply 0 [1, 2], demo_reply 0x80 [3]]"
        "demo_reply 0x81 [4, 5]" demo_env] seg
    by (auto simp: demo_reading_def demo_read_def demo_cmd_def zero_context_def zero_task_def zero_iovector_def zero_pdu_def last_data_in_def
        demo_reply_def demo_env_def known_status_def scsi_set_uint32_def)
qed

end
