(* ===== verification/Iscsi_Nop.thy ===== *)
theory Iscsi_Nop
  imports Command_Reply
begin

text \<open>
  NOPs (\<open>lib/nop.c\<close>) and task management (\<open>lib/task_mgmt.c\<close>). What the callbacks get besides the
  status is kept in the trace: the data of a NOP and the response code of a task management
  request.
\<close>

section \<open>Callbacks with data\<close>

text \<open>
  \<open>iscsi_scsi_response_cb\<close> and the callback of the logout before a reconnect do not look at the
  command data.
\<close>

definition pdu_callback_event :: "cint \<Rightarrow> (nat \<Rightarrow> iscsi_event) \<Rightarrow> nat \<Rightarrow> iscsi_context \<Rightarrow> iscsi_context option" where
  "pdu_callback_event st ev i iscsi = do {
     p \<leftarrow> ctx_pdus iscsi i;
     case pdu_callback p of
       Ptr (App_cb cb) \<Rightarrow> Some (iscsi\<lparr>ctx_trace := ctx_trace iscsi @ [ev cb]\<rparr>)
     | _ \<Rightarrow> pdu_callback_call st i iscsi
   }"

section \<open>NOP-Out\<close>

definition nop_out_pdu :: "iscsi_command_cb ptr \<Rightarrow> iscsi_pdu \<Rightarrow> iscsi_pdu" where
  "nop_out_pdu cb p =
     (let p = p\<lparr>pdu_callback := cb\<rparr>;
          p = iscsi_pdu_set_pduflags 0x80 p;
          p = iscsi_pdu_set_ttt 0xffffffff p
      in iscsi_pdu_set_lun 0 p)"

text \<open>
  \<open>d\<close> is the data (NULL or the bytes at the pointer) and \<open>len\<close> the length argument.
\<close>

definition iscsi_nop_out_async ::
  "iscsi_env \<Rightarrow> iscsi_command_cb ptr \<Rightarrow> bytes ptr \<Rightarrow> int \<Rightarrow> iscsi_context \<Rightarrow> (int \<times> iscsi_context) option" where
  "iscsi_nop_out_async env cb d len iscsi =
     (if ctx_has_old_iscsi iscsi \<or> ctx_pending_reconnect iscsi then Some (0, iscsi)
      else if \<not> ctx_is_loggedin iscsi then Some (-1, iscsi)
      else do {
        let (itt, iscsi) = iscsi_itt_post_increment iscsi;
        (r, iscsi) \<leftarrow> iscsi_allocate_pdu env ISCSI_PDU_NOP_OUT ISCSI_PDU_NOP_IN itt ISCSI_PDU_DROP_ON_RECONNECT iscsi;
        case r of
          NULL \<Rightarrow> Some (-1, iscsi)
        | Ptr i \<Rightarrow> do {
            iscsi \<leftarrow> pdu_modify i (nop_out_pdu cb) iscsi;
            iscsi \<leftarrow> iscsi_pdu_set_cmdsn i (ctx_cmdsn iscsi) iscsi;
            (r, iscsi) \<leftarrow> (case d of
                NULL \<Rightarrow> Some (0, iscsi)
              | Ptr bs \<Rightarrow> if 0 < len then iscsi_pdu_add_data (env_malloc env iscsi) i bs len iscsi else Some (0, iscsi));
            if r \<noteq> 0 then do {
              iscsi \<leftarrow> iscsi_tcp_free_pdu i iscsi;
              Some (-1, iscsi)
            }
            else do {
              iscsi \<leftarrow> iscsi_queue_pdu env i (iscsi\<lparr>ctx_cmdsn := ctx_cmdsn iscsi + 1\<rparr>);
              Some (0, iscsi\<lparr>ctx_nops_in_flight := ctx_nops_in_flight iscsi + 1\<rparr>)
            }
          }
      })"

text \<open>The answer to a NOP-In of the target: immediate, without a tag of the initiator.\<close>

definition target_nop_out_pdu :: "u32 \<Rightarrow> u32 \<Rightarrow> iscsi_pdu \<Rightarrow> iscsi_pdu" where
  "target_nop_out_pdu ttt lun p =
     (let p = iscsi_pdu_set_immediate p;
          p = iscsi_pdu_set_pduflags 0x80 p;
          p = iscsi_pdu_set_ttt ttt p
      in iscsi_pdu_set_lun lun p)"

definition iscsi_send_target_nop_out ::
  "iscsi_env \<Rightarrow> u32 \<Rightarrow> u32 \<Rightarrow> iscsi_context \<Rightarrow> (int \<times> iscsi_context) option" where
  "iscsi_send_target_nop_out env ttt lun iscsi = do {
     (r, iscsi) \<leftarrow> iscsi_allocate_pdu env ISCSI_PDU_NOP_OUT ISCSI_PDU_NO_PDU 0xffffffff
       (ISCSI_PDU_DROP_ON_RECONNECT OR ISCSI_PDU_DELETE_WHEN_SENT) iscsi;
     case r of
       NULL \<Rightarrow> Some (-1, iscsi)
     | Ptr i \<Rightarrow> do {
         iscsi \<leftarrow> pdu_modify i (target_nop_out_pdu ttt lun) iscsi;
         iscsi \<leftarrow> iscsi_pdu_set_cmdsn i (ctx_cmdsn iscsi) iscsi;
         iscsi \<leftarrow> iscsi_queue_pdu env i iscsi;
         Some (0, iscsi)
       }
   }"

text \<open>
  \<open>iscsi->waitpdu->cmdsn\<close>: the oldest PDU that waits. A NOP-In resets the counter, unless the oldest
  PDU is the same as at the last one and the environment asks for it.
\<close>

definition iscsi_process_nop_out_reply ::
  "iscsi_env \<Rightarrow> nat \<Rightarrow> iscsi_in_pdu \<Rightarrow> iscsi_context \<Rightarrow> (int \<times> iscsi_context) option" where
  "iscsi_process_nop_out_reply env i inp iscsi =
     (case ctx_waitpdu iscsi of
        [] \<Rightarrow> None
      | k # _ \<Rightarrow> do {
          oldest \<leftarrow> ctx_pdus iscsi k;
          let stuck = (pdu_cmdsn oldest = ctx_min_cmdsn_waiting iscsi);
          let iscsi = (if stuck \<and> env_getenv env ''LIBISCSI_IGNORE_NOP_OUT_ON_STUCK_WAITPDU_QUEUE'' then iscsi
                       else iscsi\<lparr>ctx_nops_in_flight := 0\<rparr>);
          let iscsi = iscsi\<lparr>ctx_min_cmdsn_waiting := pdu_cmdsn oldest\<rparr>;
          d \<leftarrow> rd_range (in_data inp) 0 (in_data_pos inp);
          iscsi \<leftarrow> pdu_callback_event SCSI_STATUS_GOOD (\<lambda>cb. Callback_data cb SCSI_STATUS_GOOD d) i iscsi;
          Some (0, iscsi)
        })"

definition iscsi_get_nops_in_flight :: "iscsi_context \<Rightarrow> cint" where
  "iscsi_get_nops_in_flight iscsi = ctx_nops_in_flight iscsi"

section \<open>Task management\<close>

definition task_mgmt_pdu :: "u32 \<Rightarrow> u8 \<Rightarrow> u32 \<Rightarrow> iscsi_pdu \<Rightarrow> iscsi_pdu" where
  "task_mgmt_pdu lun function ritt p =
     (let p = iscsi_pdu_set_immediate p;
          p = iscsi_pdu_set_pduflags (0x80 OR function) p;
          p = iscsi_pdu_set_lun lun p
      in iscsi_pdu_set_ritt ritt p)"

definition iscsi_task_mgmt_async ::
  "iscsi_env \<Rightarrow> u32 \<Rightarrow> u8 \<Rightarrow> u32 \<Rightarrow> u32 \<Rightarrow> iscsi_command_cb ptr \<Rightarrow> iscsi_context \<Rightarrow> (int \<times> iscsi_context) option" where
  "iscsi_task_mgmt_async env lun function ritt rcmdsn cb iscsi =
     (if \<not> ctx_is_loggedin iscsi then Some (-1, iscsi)
      else do {
        let (itt, iscsi) = iscsi_itt_post_increment iscsi;
        (r, iscsi) \<leftarrow> iscsi_allocate_pdu env ISCSI_PDU_SCSI_TASK_MANAGEMENT_REQUEST
          ISCSI_PDU_SCSI_TASK_MANAGEMENT_RESPONSE itt ISCSI_PDU_DROP_ON_RECONNECT iscsi;
        case r of
          NULL \<Rightarrow> Some (-1, iscsi)
        | Ptr i \<Rightarrow> do {
            iscsi \<leftarrow> pdu_modify i (task_mgmt_pdu lun function ritt) iscsi;
            iscsi \<leftarrow> iscsi_pdu_set_cmdsn i (ctx_cmdsn iscsi) iscsi;
            iscsi \<leftarrow> pdu_modify i (\<lambda>p. (iscsi_pdu_set_rcmdsn rcmdsn p)\<lparr>pdu_callback := cb\<rparr>) iscsi;
            iscsi \<leftarrow> iscsi_queue_pdu env i iscsi;
            Some (0, iscsi)
          }
      })"

definition iscsi_process_task_mgmt_reply ::
  "nat \<Rightarrow> iscsi_in_pdu \<Rightarrow> iscsi_context \<Rightarrow> (int \<times> iscsi_context) option" where
  "iscsi_process_task_mgmt_reply i inp iscsi = do {
     let response = ucast (in_hdr inp ! 2);
     iscsi \<leftarrow> pdu_callback_event SCSI_STATUS_GOOD (\<lambda>cb. Callback_response cb SCSI_STATUS_GOOD response) i iscsi;
     Some (0, iscsi)
   }"

definition iscsi_task_mgmt_abort_task_async ::
  "iscsi_env \<Rightarrow> nat \<Rightarrow> iscsi_command_cb ptr \<Rightarrow> iscsi_context \<Rightarrow> (int \<times> iscsi_context) option" where
  "iscsi_task_mgmt_abort_task_async env t cb iscsi =
     (let task = ctx_tasks iscsi t
      in iscsi_task_mgmt_async env (task_lun task) ISCSI_TM_ABORT_TASK (task_itt task) (task_cmdsn task) cb iscsi)"

text \<open>
  The operations that cancel all tasks work on the context and on the one kept from before a
  reconnect.
\<close>

definition iscsi_scsi_cancel_all_tasks ::
  "iscsi_context ptr \<Rightarrow> iscsi_context \<Rightarrow> (iscsi_context ptr \<times> iscsi_context) option" where
  "iscsi_scsi_cancel_all_tasks old iscsi = do {
     iscsi \<leftarrow> iscsi_cancel_pdus iscsi;
     case old of
       NULL \<Rightarrow> Some (NULL, iscsi)
     | Ptr c \<Rightarrow> do {
         c \<leftarrow> iscsi_cancel_pdus (share_world iscsi c);
         Some (Ptr c, share_world c iscsi)
       }
   }"

definition cancel_all_and_manage ::
  "iscsi_env \<Rightarrow> u32 \<Rightarrow> u8 \<Rightarrow> iscsi_command_cb ptr \<Rightarrow> iscsi_context ptr \<Rightarrow> iscsi_context \<Rightarrow>
   (int \<times> iscsi_context ptr \<times> iscsi_context) option" where
  "cancel_all_and_manage env lun function cb old iscsi = do {
     (old, iscsi) \<leftarrow> iscsi_scsi_cancel_all_tasks old iscsi;
     (r, iscsi) \<leftarrow> iscsi_task_mgmt_async env lun function 0xffffffff 0 cb iscsi;
     Some (r, old, iscsi)
   }"

definition iscsi_task_mgmt_abort_task_set_async where
  "iscsi_task_mgmt_abort_task_set_async env lun cb old iscsi =
     cancel_all_and_manage env lun ISCSI_TM_ABORT_TASK_SET cb old iscsi"

definition iscsi_task_mgmt_lun_reset_async ::
  "iscsi_env \<Rightarrow> u32 \<Rightarrow> iscsi_command_cb ptr \<Rightarrow> iscsi_context \<Rightarrow> (int \<times> iscsi_context) option" where
  "iscsi_task_mgmt_lun_reset_async env lun cb iscsi = do {
     iscsi \<leftarrow> iscsi_cancel_lun_pdus lun iscsi;
     iscsi_task_mgmt_async env lun ISCSI_TM_LUN_RESET 0xffffffff 0 cb iscsi
   }"

definition iscsi_task_mgmt_target_warm_reset_async where
  "iscsi_task_mgmt_target_warm_reset_async env cb old iscsi =
     cancel_all_and_manage env 0 ISCSI_TM_TARGET_WARM_RESET cb old iscsi"

definition iscsi_task_mgmt_target_cold_reset_async where
  "iscsi_task_mgmt_target_cold_reset_async env cb old iscsi =
     cancel_all_and_manage env 0 ISCSI_TM_TARGET_COLD_RESET cb old iscsi"

end
