(* ===== verification/C_Strings.thy ===== *)
theory C_Strings
  imports Byte_Order
begin

text \<open>
  The functions of the C library on strings that the text negotiation uses. A string is the list of
  its bytes before the NUL; a \<open>char\<close> is a byte.
\<close>

section \<open>Literals and printing\<close>

definition cstr :: "string \<Rightarrow> bytes" where
  "cstr s = map of_char s"

lemma cstr_simps [simp]: "cstr [] = []" "cstr (c # s) = of_char c # cstr s"
  by (simp_all add: cstr_def)

fun dec_digits :: "nat \<Rightarrow> bytes" where
  "dec_digits n = (if n < 10 then [0x30 + of_nat n] else dec_digits (n div 10) @ [0x30 + of_nat (n mod 10)])"

declare dec_digits.simps [simp del]

text \<open>\<open>%d\<close>\<close>

definition c_decimal :: "int \<Rightarrow> bytes" where
  "c_decimal k = (if k < 0 then 0x2d # dec_digits (nat (- k)) else dec_digits (nat k))"

text \<open>\<open>snprintf(str, n, ..)\<close> keeps \<open>n - 1\<close> characters.\<close>

definition c_snprintf :: "nat \<Rightarrow> bytes \<Rightarrow> bytes" where
  "c_snprintf n s = take (n - 1) s"

section \<open>Reading numbers\<close>

definition is_digit :: "u8 \<Rightarrow> bool" where
  "is_digit b \<longleftrightarrow> 0x30 \<le> b \<and> b \<le> 0x39"

definition is_space :: "u8 \<Rightarrow> bool" where
  "is_space b \<longleftrightarrow> b = 0x20 \<or> 9 \<le> b \<and> b \<le> 13"

definition digits_value :: "bytes \<Rightarrow> nat" where
  "digits_value ds = fold (\<lambda>b n. 10 * n + unat (b - 0x30)) ds 0"

text \<open>White space, a sign and the value of the digits that follow.\<close>

definition signed_digits :: "bytes \<Rightarrow> bool \<times> nat" where
  "signed_digits s =
     (let s = dropWhile is_space s;
          neg = (case s of [] \<Rightarrow> False | b # _ \<Rightarrow> b = 0x2d);
          s = (case s of [] \<Rightarrow> [] | b # s' \<Rightarrow> if b = 0x2d \<or> b = 0x2b then s' else b # s')
      in (neg, digits_value (takeWhile is_digit s)))"

text \<open>\<open>strtol(s, NULL, 10)\<close> and \<open>strtoul(s, NULL, 10)\<close> with a \<open>long\<close> of 64 bits.\<close>

definition c_strtol :: "bytes \<Rightarrow> int" where
  "c_strtol s =
     (let (neg, n) = signed_digits s
      in if neg then max (- (2 ^ 63)) (- int n) else min (2 ^ 63 - 1) (int n))"

definition c_strtoul :: "bytes \<Rightarrow> nat" where
  "c_strtoul s =
     (let (neg, n) = signed_digits s
      in if 2 ^ 64 \<le> n then 2 ^ 64 - 1
         else if neg then (if n = 0 then 0 else 2 ^ 64 - n) else n)"

text \<open>\<open>atoi\<close>, an \<open>int\<close>.\<close>

definition c_atoi :: "bytes \<Rightarrow> cint" where
  "c_atoi s = of_int (c_strtol s)"

section \<open>Prefixes\<close>

text \<open>\<open>!strncmp(s, lit, strlen(lit))\<close>, and what follows the prefix.\<close>

definition starts :: "string \<Rightarrow> bytes \<Rightarrow> bool" where
  "starts lit s \<longleftrightarrow> take (length lit) s = cstr lit"

definition behind_key :: "string \<Rightarrow> bytes \<Rightarrow> bytes" where
  "behind_key lit s = drop (length lit) s"

lemma length_cstr [simp]: "length (cstr s) = length s"
  by (simp add: cstr_def)

lemma starts_key [simp]: "starts lit (cstr lit @ v)" "behind_key lit (cstr lit @ v) = v"
  by (simp_all add: starts_def behind_key_def)

text \<open>\<open>memchr(ptr, 0, size)\<close>: the string up to the first NUL and the bytes after it.\<close>

definition split_nul :: "bytes \<Rightarrow> (bytes \<times> bytes) option" where
  "split_nul bs =
     (if 0 \<in> set bs then Some (takeWhile (\<lambda>b. b \<noteq> 0) bs, tl (dropWhile (\<lambda>b. b \<noteq> 0) bs)) else None)"

lemma split_nul_shorter: "split_nul bs = Some (s, rest) \<Longrightarrow> length rest < length bs"
  using length_dropWhile_le [of "\<lambda>b. b \<noteq> 0" bs]
  by (cases "dropWhile (\<lambda>b. b \<noteq> 0) bs") (auto simp: split_nul_def split: if_splits dest: dropWhile_eq_Nil_conv [THEN iffD1])

lemma split_nul_append [simp]:
  assumes "0 \<notin> set s"
  shows "split_nul (s @ 0 # rest) = Some (s, rest)"
proof -
  have "takeWhile (\<lambda>b. b \<noteq> 0) (s @ 0 # rest) = s" "dropWhile (\<lambda>b. b \<noteq> 0) (s @ 0 # rest) = 0 # rest"
    using assms by (induction s) auto
  then show ?thesis by (simp add: split_nul_def)
qed

section \<open>What is printed is read back\<close>

lemma dec_digits_step: "dec_digits n = (if n < 10 then [0x30 + of_nat n] else dec_digits (n div 10) @ [0x30 + of_nat (n mod 10)])"
  by (rule dec_digits.simps)

lemma digit_of_nat:
  "n < 10 \<Longrightarrow> is_digit (0x30 + of_nat n)" "n < 10 \<Longrightarrow> unat (of_nat n :: u8) = n"
proof -
  assume n: "n < 10"
  then have m: "n \<in> {0, 1, 2, 3, 4, 5, 6, 7, 8, 9}" by auto
  then show "is_digit (0x30 + of_nat n)" by (auto simp: is_digit_def)
  show "unat (of_nat n :: u8) = n" using m by auto
qed

lemma dec_digits_value: "digits_value (dec_digits n) = n" "\<forall>b \<in> set (dec_digits n). is_digit b" "dec_digits n \<noteq> []"
proof (induction n rule: less_induct)
  case (less n)
  have lt: "n div 10 < n" if "\<not> n < 10" using that by simp
  { case 1
    show ?case
    proof (cases "n < 10")
      case True
      then show ?thesis by (simp add: dec_digits_step [of n] digits_value_def digit_of_nat)
    next
      case False
      then show ?thesis
        using less.IH(1) [OF lt] digit_of_nat(2) [of "n mod 10"]
        by (simp add: dec_digits_step [of n] digits_value_def)
    qed
  next
    case 2
    show ?case using less.IH(2) [OF lt] digit_of_nat(1) by (auto simp: dec_digits_step [of n])
  next
    case 3
    show ?case by (simp add: dec_digits_step [of n])
  }
qed

lemma signed_dec_digits: "signed_digits (dec_digits n) = (False, n)" "signed_digits (0x2d # dec_digits n) = (True, n)"
proof -
  obtain b s where bs: "dec_digits n = b # s" using dec_digits_value(3) by (cases "dec_digits n") auto
  have b: "is_digit b" using dec_digits_value(2) [of n] bs by simp
  have t: "takeWhile is_digit (dec_digits n) = dec_digits n"
    using dec_digits_value(2) [of n] takeWhile_eq_all_conv by blast
  from b have "\<not> is_space b" "b \<noteq> 0x2d" "b \<noteq> 0x2b"
    by (auto simp: is_digit_def is_space_def word_le_nat_alt)
  then show "signed_digits (dec_digits n) = (False, n)"
    using dec_digits_value(1) [of n] by (simp add: signed_digits_def bs t [unfolded bs] del: takeWhile.simps)
  show "signed_digits (0x2d # dec_digits n) = (True, n)"
    unfolding signed_digits_def by (simp add: is_space_def word_le_nat_alt t dec_digits_value(1))
qed

lemma strtol_decimal:
  assumes "- (2 ^ 63) \<le> k" "k < 2 ^ 63"
  shows "c_strtol (c_decimal k) = k"
  using assms by (simp add: c_strtol_def c_decimal_def signed_dec_digits)

end
