(* ===== verification/Message_Digest.thy ===== *)
theory Message_Digest
  imports Iscsi_Prelude
begin

text \<open>
  What the message digests of \<open>lib/md5.c\<close>, \<open>lib/sha1.c\<close>, \<open>lib/sha224-256.c\<close> and \<open>lib/sha3.c\<close> have in
  common. Each takes its message in pieces, keeps the bytes that do not fill a block, and folds a
  function over the full blocks. Here are the fold over the blocks of a whole message, the padding of
  the standards, and the contract \<open>message_digest\<close> the login relies on: whatever the pieces were, the
  result is the digest of their concatenation.
\<close>

section \<open>The blocks of a message\<close>

function hash_blocks :: "nat \<Rightarrow> ('h \<Rightarrow> bytes \<Rightarrow> 'h) \<Rightarrow> 'h \<Rightarrow> bytes \<Rightarrow> 'h" where
  "hash_blocks n f h m =
     (if n = 0 \<or> length m < n then h else hash_blocks n f (f h (take n m)) (drop n m))"
  by pat_completeness auto
termination by (relation "measure (\<lambda>(n, f, h, m). length m)") auto

declare hash_blocks.simps [simp del]

text \<open>The bytes after the last full block.\<close>

definition last_bytes :: "nat \<Rightarrow> bytes \<Rightarrow> bytes" where
  "last_bytes n m = drop (n * (length m div n)) m"

lemma length_last_bytes [simp]: "length (last_bytes n m) = length m mod n"
  by (simp add: last_bytes_def minus_mult_div_eq_mod)

lemma hash_blocks_short [simp]: "length m < n \<Longrightarrow> hash_blocks n f h m = h"
  by (simp add: hash_blocks.simps [of n])

lemma hash_blocks_step:
  "0 < n \<Longrightarrow> length b = n \<Longrightarrow> hash_blocks n f h (b @ m) = hash_blocks n f (f h b) m"
  by (simp add: hash_blocks.simps [of n f h "b @ m"])

lemma hash_blocks_one: "0 < n \<Longrightarrow> length b = n \<Longrightarrow> hash_blocks n f h b = f h b"
  using hash_blocks_step [of n b f h "[]"] by simp

lemma last_bytes_short [simp]: "length m < n \<Longrightarrow> last_bytes n m = m"
  by (simp add: last_bytes_def)

lemma last_bytes_step: "0 < n \<Longrightarrow> length b = n \<Longrightarrow> last_bytes n (b @ m) = last_bytes n m"
  by (simp add: last_bytes_def div_add_self1)

text \<open>A message goes on where its first part stopped.\<close>

lemma hash_blocks_append:
  assumes "0 < n"
  shows "hash_blocks n f h (m @ x) = hash_blocks n f (hash_blocks n f h m) (last_bytes n m @ x)"
proof (induction "length m" arbitrary: m h rule: less_induct)
  case less
  show ?case
  proof (cases "length m < n")
    case False
    define b m' where "b = take n m" and "m' = drop n m"
    have m: "m = b @ m'" and b: "length b = n" and "length m' < length m"
      using False assms by (simp_all add: b_def m'_def)
    then show ?thesis
      using less [of m' "f h b"] assms by (simp add: hash_blocks_step last_bytes_step)
  qed simp
qed

lemma last_bytes_append:
  assumes "0 < n"
  shows "last_bytes n (m @ x) = last_bytes n (last_bytes n m @ x)"
proof (induction "length m" arbitrary: m rule: less_induct)
  case less
  show ?case
  proof (cases "length m < n")
    case False
    define b m' where "b = take n m" and "m' = drop n m"
    have m: "m = b @ m'" and b: "length b = n" and "length m' < length m"
      using False assms by (simp_all add: b_def m'_def)
    then show ?thesis
      using less [of m'] assms by (simp add: last_bytes_step)
  qed simp
qed

text \<open>One more byte either stays in the buffer or completes a block.\<close>

lemma add_byte_short:
  assumes "Suc (length m mod n) < n"
  shows "hash_blocks n f h (m @ [b]) = hash_blocks n f h m"
    and "last_bytes n (m @ [b]) = last_bytes n m @ [b]"
  using assms hash_blocks_append [of n f h m "[b]"] last_bytes_append [of n m "[b]"] by simp_all

lemma add_byte_full:
  assumes "Suc (length m mod n) = n"
  shows "hash_blocks n f h (m @ [b]) = f (hash_blocks n f h m) (last_bytes n m @ [b])"
    and "last_bytes n (m @ [b]) = []"
proof -
  have n: "0 < n" and l: "length (last_bytes n m @ [b]) = n" using assms by simp_all
  show "hash_blocks n f h (m @ [b]) = f (hash_blocks n f h m) (last_bytes n m @ [b])"
    using hash_blocks_one [OF n l] hash_blocks_append [OF n, of f h m "[b]"] by simp
  show "last_bytes n (m @ [b]) = []"
    using last_bytes_step [OF n l, of "[]"] last_bytes_append [OF n, of m "[b]"] n by simp
qed

lemma hash_blocks_invariant:
  assumes "P h" "\<And>h b. P h \<Longrightarrow> P (f h b)"
  shows "P (hash_blocks n f h m)"
  using assms(1)
proof (induction "length m" arbitrary: h m rule: less_induct)
  case less
  have "P (hash_blocks n f (f h (take n m)) (drop n m))" if "n \<noteq> 0" "n \<le> length m"
    by (rule less.hyps) (use that less.prems assms(2) in auto)
  then show ?case using less.prems by (subst hash_blocks.simps) simp
qed

section \<open>The padding of MD5 and of the SHA family\<close>

text \<open>
  One bit, zeros up to 56 bytes in the last block of 64, and the eight bytes of the length.
\<close>

definition zero_bytes :: "nat \<Rightarrow> bytes" where
  "zero_bytes k = replicate ((119 - k mod 64) mod 64) 0"

definition padded_message :: "(u64 \<Rightarrow> bytes) \<Rightarrow> bytes \<Rightarrow> bytes" where
  "padded_message enc m = m @ [0x80] @ zero_bytes (length m) @ enc (of_nat (8 * length m))"

lemma zero_bytes_one: "k mod 64 < 56 \<Longrightarrow> zero_bytes k = replicate (55 - k mod 64) 0"
  using le_mod_geq [of 64 "119 - k mod 64"] by (simp add: zero_bytes_def)

lemma zero_bytes_two:
  "56 \<le> k mod 64 \<Longrightarrow> zero_bytes k = replicate (63 - k mod 64) 0 @ replicate 56 0"
  using mod_less_divisor [of 64 k]
  by (simp add: zero_bytes_def replicate_add [symmetric] del: mod_less_divisor)

text \<open>What the padding does to the bytes kept: one block when it fits, otherwise two.\<close>

lemma hash_padded_one:
  assumes "length m mod 64 < 56" "length (enc (of_nat (8 * length m))) = 8"
  shows "hash_blocks 64 f h (padded_message enc m) =
    f (hash_blocks 64 f h m)
      (last_bytes 64 m @ [0x80] @ replicate (55 - length m mod 64) 0 @ enc (of_nat (8 * length m)))"
  using assms
  by (subst padded_message_def, subst hash_blocks_append)
     (simp_all add: zero_bytes_one hash_blocks_one)

lemma hash_padded_two:
  assumes "56 \<le> length m mod 64" "length (enc (of_nat (8 * length m))) = 8"
  shows "hash_blocks 64 f h (padded_message enc m) =
    f (f (hash_blocks 64 f h m) (last_bytes 64 m @ [0x80] @ replicate (63 - length m mod 64) 0))
      (replicate 56 0 @ enc (of_nat (8 * length m)))"
proof -
  let ?k = "length m mod 64"
  have z: "zero_bytes (length m) = replicate (63 - ?k) 0 @ replicate 56 0"
    using assms by (simp only: zero_bytes_two)
  have l: "length (last_bytes 64 m @ [0x80] @ replicate (63 - ?k) 0) = 64"
    using mod_less_divisor [of 64 "length m"] by simp
  have "hash_blocks 64 f h (padded_message enc m) = hash_blocks 64 f (hash_blocks 64 f h m)
      ((last_bytes 64 m @ [0x80] @ replicate (63 - ?k) 0) @ (replicate 56 0 @ enc (of_nat (8 * length m))))"
    by (subst padded_message_def, subst hash_blocks_append) (simp_all add: z)
  then show ?thesis
    by (simp only: hash_blocks_step [OF _ l]) (use assms in \<open>simp add: hash_blocks_one\<close>)
qed

section \<open>Rotations and a counter in two words\<close>

lemma word_rotl_shifts:
  assumes "0 < s" "s < LENGTH('a)"
  shows "word_rotl s (w :: 'a::len word) = push_bit s w OR drop_bit (LENGTH('a) - s) w"
proof (rule bit_word_eqI)
  fix n
  assume n: "n < LENGTH('a)"
  have "(n + (LENGTH('a) - s)) mod LENGTH('a) = (if s \<le> n then n - s else n + (LENGTH('a) - s))"
    using n assms le_mod_geq [of "LENGTH('a)" "n + (LENGTH('a) - s)"] by auto
  then show "bit (word_rotl s w) n = bit (push_bit s w OR drop_bit (LENGTH('a) - s) w) n"
    using n assms by (auto simp: bit_word_rotl_iff bit_simps ac_simps dest: bit_imp_le_length)
qed

lemma rotl_shifts_32: "0 < s \<Longrightarrow> s < 32 \<Longrightarrow> push_bit s w OR drop_bit (32 - s) w = word_rotl s (w :: u32)"
  using word_rotl_shifts [where ?'a = 32, of s w] by simp

lemma count_carry:
  assumes "l < 2 ^ 32"
  shows "(of_nat ((n + l) div 2 ^ 32) :: u32) =
    of_nat (n div 2 ^ 32) + (if (of_nat n + of_nat l :: u32) < of_nat n then 1 else 0)"
proof -
  define q r where "q = n div 2 ^ 32" and "r = n mod 2 ^ 32"
  have n: "n = 2 ^ 32 * q + r" and r: "r < 2 ^ 32" by (simp_all add: q_def r_def)
  have w: "of_nat n = (of_nat r :: u32)"
    by (simp add: r_def word_of_nat_eq_iff take_bit_eq_mod)
  have "(of_nat r + of_nat l :: u32) < of_nat r \<longleftrightarrow> 2 ^ 32 \<le> r + l"
  proof (cases "r + l < 2 ^ 32")
    case True
    then have "unat (of_nat (r + l) :: u32) = r + l" by (rule unat_of_nat_small)
    then show ?thesis using True r by (simp add: word_less_nat_alt unat_of_nat_small)
  next
    case False
    then have "unat (of_nat (r + l) :: u32) = r + l - 2 ^ 32"
      using r assms le_mod_geq [of "2 ^ 32" "r + l"] by (simp add: unsigned_of_nat take_bit_eq_mod del: of_nat_add)
    then show ?thesis using False r assms by (simp add: word_less_nat_alt unat_of_nat_small)
  qed
  moreover have "(n + l) div 2 ^ 32 = q + (if 2 ^ 32 \<le> r + l then 1 else 0)"
    using r assms by (auto simp: n div_nat_eqI)
  ultimately show ?thesis by (simp add: w q_def)
qed

section \<open>The contract of a message digest\<close>

text \<open>
  \<open>rep c m\<close>: the context \<open>c\<close> has taken in the message \<open>m\<close>. A client starts with \<open>init\<close>, hands over
  the message in any pieces and reads the digest of all of it, as long as the message is shorter than
  \<open>limit\<close>.
\<close>

locale message_digest =
  fixes init :: 'c and update :: "'c \<Rightarrow> bytes \<Rightarrow> 'c" and final :: "'c \<Rightarrow> bytes"
    and rep :: "'c \<Rightarrow> bytes \<Rightarrow> bool" and digest :: "bytes \<Rightarrow> bytes" and limit :: nat
  assumes rep_init: "rep init []"
    and rep_update: "rep c m \<Longrightarrow> length (m @ b) < limit \<Longrightarrow> rep (update c b) (m @ b)"
    and rep_final: "rep c m \<Longrightarrow> final c = digest m"
begin

lemma rep_foldl:
  "rep c m \<Longrightarrow> length (m @ concat bs) < limit \<Longrightarrow> rep (foldl update c bs) (m @ concat bs)"
proof (induction bs arbitrary: c m)
  case (Cons b bs)
  have "rep (update c b) (m @ b)"
    using Cons.prems by (intro rep_update) simp_all
  then show ?case using Cons.IH [of "update c b" "m @ b"] Cons.prems by simp
qed simp

text \<open>The digest does not depend on the pieces.\<close>

lemma digest_of_pieces:
  "length (concat bs) < limit \<Longrightarrow> final (foldl update init bs) = digest (concat bs)"
  using rep_foldl [OF rep_init, of bs] rep_final by simp

lemma digest_independent_of_pieces:
  "concat as = concat bs \<Longrightarrow> length (concat bs) < limit \<Longrightarrow>
   final (foldl update init as) = final (foldl update init bs)"
  by (simp add: digest_of_pieces)

lemma rep_bytes:
  "rep c m \<Longrightarrow> length (m @ bs) < limit \<Longrightarrow> rep (foldl (\<lambda>c b. update c [b]) c bs) (m @ bs)"
proof (induction bs arbitrary: c m)
  case (Cons b bs)
  have "rep (update c [b]) (m @ [b])"
    using Cons.prems by (intro rep_update) simp_all
  then show ?case using Cons.IH [of "update c [b]" "m @ [b]"] Cons.prems by simp
qed simp

text \<open>
  The response of CHAP: an identifier, a secret, and a challenge that is taken in byte by byte.
\<close>

lemma rep_of_chap:
  assumes "length (i # s @ c) < limit"
  shows "rep (foldl (\<lambda>c b. update c [b]) (update (update init [i]) s) c) (i # s @ c)"
proof -
  have "rep (update init [i]) [i]"
    using rep_update [OF rep_init, of "[i]"] assms by simp
  then have "rep (update (update init [i]) s) ([i] @ s)"
    using assms by (intro rep_update) simp_all
  from rep_bytes [OF this, of c] show ?thesis using assms by simp
qed

lemma digest_of_chap:
  "length (i # s @ c) < limit \<Longrightarrow>
   final (foldl (\<lambda>c b. update c [b]) (update (update init [i]) s) c) = digest (i # s @ c)"
  by (rule rep_final [OF rep_of_chap])

end

end
