(* ===== verification/Md5.thy ===== *)
theory Md5
  imports Message_Digest
begin

text \<open>
  The MD5 of \<open>lib/md5.c\<close>: the context, the update by pieces, the final padding and the unrolled
  transformation. The reference is the algorithm of RFC 1321: the message padded as a whole, cut into
  blocks of sixteen words, and for each block four rounds of sixteen steps given by formulas for the
  function, the word and the shift of a step. The result shown is that the unrolled transformation is
  these rounds, and that a context fed by pieces gives the digest of the whole message.
\<close>

section \<open>The code\<close>

record MD5Context =
  md5_buf :: "u32 list"
  md5_bytes0 :: u32
  md5_bytes1 :: u32
  md5_in :: bytes

text \<open>
  The words of an array of bytes, least significant byte first. On a little-endian machine this is
  the reading of the array as words and \<open>byteSwap\<close> does nothing.
\<close>

fun byteSwap :: "bytes \<Rightarrow> u32 list" where
  "byteSwap (p0 # p1 # p2 # p3 # p) =
     (push_bit 16 (push_bit 8 (ucast p3) OR ucast p2) OR (push_bit 8 (ucast p1) OR ucast p0)) # byteSwap p"
| "byteSwap _ = []"

text \<open>The bytes of a word that is stored.\<close>

definition word_bytes :: "u32 \<Rightarrow> bytes" where
  "word_bytes w = [ucast w, ucast (drop_bit 8 w), ucast (drop_bit 16 w), ucast (drop_bit 24 w)]"

definition F1 :: "u32 \<Rightarrow> u32 \<Rightarrow> u32 \<Rightarrow> u32" where
  "F1 x y z = z XOR (x AND (y XOR z))"

definition F2 :: "u32 \<Rightarrow> u32 \<Rightarrow> u32 \<Rightarrow> u32" where
  "F2 x y z = F1 z x y"

definition F3 :: "u32 \<Rightarrow> u32 \<Rightarrow> u32 \<Rightarrow> u32" where
  "F3 x y z = x XOR y XOR z"

definition F4 :: "u32 \<Rightarrow> u32 \<Rightarrow> u32 \<Rightarrow> u32" where
  "F4 x y z = y XOR (x OR NOT z)"

definition MD5STEP :: "(u32 \<Rightarrow> u32 \<Rightarrow> u32 \<Rightarrow> u32) \<Rightarrow> u32 \<Rightarrow> u32 \<Rightarrow> u32 \<Rightarrow> u32 \<Rightarrow> u32 \<Rightarrow> nat \<Rightarrow> u32" where
  "MD5STEP f w x y z i s =
     (let w = w + (f x y z + i) in (push_bit s w OR drop_bit (32 - s) w) + x)"

definition MD5Transform :: "u32 list \<Rightarrow> u32 list \<Rightarrow> u32 list" where
  "MD5Transform buf in' =
     (let a = buf ! 0; b = buf ! 1; c = buf ! 2; d = buf ! 3;
          a = MD5STEP F1 a b c d (in' ! 0 + 0xd76aa478) 7;
          d = MD5STEP F1 d a b c (in' ! 1 + 0xe8c7b756) 12;
          c = MD5STEP F1 c d a b (in' ! 2 + 0x242070db) 17;
          b = MD5STEP F1 b c d a (in' ! 3 + 0xc1bdceee) 22;
          a = MD5STEP F1 a b c d (in' ! 4 + 0xf57c0faf) 7;
          d = MD5STEP F1 d a b c (in' ! 5 + 0x4787c62a) 12;
          c = MD5STEP F1 c d a b (in' ! 6 + 0xa8304613) 17;
          b = MD5STEP F1 b c d a (in' ! 7 + 0xfd469501) 22;
          a = MD5STEP F1 a b c d (in' ! 8 + 0x698098d8) 7;
          d = MD5STEP F1 d a b c (in' ! 9 + 0x8b44f7af) 12;
          c = MD5STEP F1 c d a b (in' ! 10 + 0xffff5bb1) 17;
          b = MD5STEP F1 b c d a (in' ! 11 + 0x895cd7be) 22;
          a = MD5STEP F1 a b c d (in' ! 12 + 0x6b901122) 7;
          d = MD5STEP F1 d a b c (in' ! 13 + 0xfd987193) 12;
          c = MD5STEP F1 c d a b (in' ! 14 + 0xa679438e) 17;
          b = MD5STEP F1 b c d a (in' ! 15 + 0x49b40821) 22;
          a = MD5STEP F2 a b c d (in' ! 1 + 0xf61e2562) 5;
          d = MD5STEP F2 d a b c (in' ! 6 + 0xc040b340) 9;
          c = MD5STEP F2 c d a b (in' ! 11 + 0x265e5a51) 14;
          b = MD5STEP F2 b c d a (in' ! 0 + 0xe9b6c7aa) 20;
          a = MD5STEP F2 a b c d (in' ! 5 + 0xd62f105d) 5;
          d = MD5STEP F2 d a b c (in' ! 10 + 0x02441453) 9;
          c = MD5STEP F2 c d a b (in' ! 15 + 0xd8a1e681) 14;
          b = MD5STEP F2 b c d a (in' ! 4 + 0xe7d3fbc8) 20;
          a = MD5STEP F2 a b c d (in' ! 9 + 0x21e1cde6) 5;
          d = MD5STEP F2 d a b c (in' ! 14 + 0xc33707d6) 9;
          c = MD5STEP F2 c d a b (in' ! 3 + 0xf4d50d87) 14;
          b = MD5STEP F2 b c d a (in' ! 8 + 0x455a14ed) 20;
          a = MD5STEP F2 a b c d (in' ! 13 + 0xa9e3e905) 5;
          d = MD5STEP F2 d a b c (in' ! 2 + 0xfcefa3f8) 9;
          c = MD5STEP F2 c d a b (in' ! 7 + 0x676f02d9) 14;
          b = MD5STEP F2 b c d a (in' ! 12 + 0x8d2a4c8a) 20;
          a = MD5STEP F3 a b c d (in' ! 5 + 0xfffa3942) 4;
          d = MD5STEP F3 d a b c (in' ! 8 + 0x8771f681) 11;
          c = MD5STEP F3 c d a b (in' ! 11 + 0x6d9d6122) 16;
          b = MD5STEP F3 b c d a (in' ! 14 + 0xfde5380c) 23;
          a = MD5STEP F3 a b c d (in' ! 1 + 0xa4beea44) 4;
          d = MD5STEP F3 d a b c (in' ! 4 + 0x4bdecfa9) 11;
          c = MD5STEP F3 c d a b (in' ! 7 + 0xf6bb4b60) 16;
          b = MD5STEP F3 b c d a (in' ! 10 + 0xbebfbc70) 23;
          a = MD5STEP F3 a b c d (in' ! 13 + 0x289b7ec6) 4;
          d = MD5STEP F3 d a b c (in' ! 0 + 0xeaa127fa) 11;
          c = MD5STEP F3 c d a b (in' ! 3 + 0xd4ef3085) 16;
          b = MD5STEP F3 b c d a (in' ! 6 + 0x04881d05) 23;
          a = MD5STEP F3 a b c d (in' ! 9 + 0xd9d4d039) 4;
          d = MD5STEP F3 d a b c (in' ! 12 + 0xe6db99e5) 11;
          c = MD5STEP F3 c d a b (in' ! 15 + 0x1fa27cf8) 16;
          b = MD5STEP F3 b c d a (in' ! 2 + 0xc4ac5665) 23;
          a = MD5STEP F4 a b c d (in' ! 0 + 0xf4292244) 6;
          d = MD5STEP F4 d a b c (in' ! 7 + 0x432aff97) 10;
          c = MD5STEP F4 c d a b (in' ! 14 + 0xab9423a7) 15;
          b = MD5STEP F4 b c d a (in' ! 5 + 0xfc93a039) 21;
          a = MD5STEP F4 a b c d (in' ! 12 + 0x655b59c3) 6;
          d = MD5STEP F4 d a b c (in' ! 3 + 0x8f0ccc92) 10;
          c = MD5STEP F4 c d a b (in' ! 10 + 0xffeff47d) 15;
          b = MD5STEP F4 b c d a (in' ! 1 + 0x85845dd1) 21;
          a = MD5STEP F4 a b c d (in' ! 8 + 0x6fa87e4f) 6;
          d = MD5STEP F4 d a b c (in' ! 15 + 0xfe2ce6e0) 10;
          c = MD5STEP F4 c d a b (in' ! 6 + 0xa3014314) 15;
          b = MD5STEP F4 b c d a (in' ! 13 + 0x4e0811a1) 21;
          a = MD5STEP F4 a b c d (in' ! 4 + 0xf7537e82) 6;
          d = MD5STEP F4 d a b c (in' ! 11 + 0xbd3af235) 10;
          c = MD5STEP F4 c d a b (in' ! 2 + 0x2ad7d2bb) 15;
          b = MD5STEP F4 b c d a (in' ! 9 + 0xeb86d391) 21
      in [buf ! 0 + a, buf ! 1 + b, buf ! 2 + c, buf ! 3 + d])"

definition MD5Init :: "MD5Context \<Rightarrow> MD5Context" where
  "MD5Init ctx = ctx\<lparr>md5_buf := [0x67452301, 0xefcdab89, 0x98badcfe, 0x10325476], md5_bytes0 := 0, md5_bytes1 := 0\<rparr>"

text \<open>The transformation of the block in \<open>ctx->in\<close>.\<close>

definition md5_transform_in :: "MD5Context \<Rightarrow> MD5Context" where
  "md5_transform_in ctx = ctx\<lparr>md5_buf := MD5Transform (md5_buf ctx) (byteSwap (md5_in ctx))\<rparr>"

text \<open>The loop \<open>while (len >= 64)\<close> and the copy of what remains.\<close>

function md5_chunks :: "MD5Context \<Rightarrow> bytes \<Rightarrow> u32 \<Rightarrow> MD5Context" where
  "md5_chunks ctx buf len =
     (if 64 \<le> len
      then md5_chunks (md5_transform_in (ctx\<lparr>md5_in := blit 0 (take 64 buf) (md5_in ctx)\<rparr>)) (drop 64 buf) (len - 64)
      else ctx\<lparr>md5_in := blit 0 (take (unat len) buf) (md5_in ctx)\<rparr>)"
  by pat_completeness auto
termination by (relation "measure (\<lambda>(ctx, buf, len). unat len)") (auto simp: unat_sub word_le_nat_alt)

declare md5_chunks.simps [simp del]

definition MD5Update :: "MD5Context \<Rightarrow> bytes \<Rightarrow> u32 \<Rightarrow> MD5Context" where
  "MD5Update ctx buf len =
     (let t = md5_bytes0 ctx;
          ctx = ctx\<lparr>md5_bytes0 := t + len\<rparr>;
          ctx = (if t + len < t then ctx\<lparr>md5_bytes1 := md5_bytes1 ctx + 1\<rparr> else ctx);
          t = 64 - (t AND 0x3f)
      in if len < t
         then ctx\<lparr>md5_in := blit (unat (64 - t)) (take (unat len) buf) (md5_in ctx)\<rparr>
         else md5_chunks
                (md5_transform_in (ctx\<lparr>md5_in := blit (unat (64 - t)) (take (unat t) buf) (md5_in ctx)\<rparr>))
                (drop (unat t) buf) (len - t))"

text \<open>The digest; the context is cleared afterwards.\<close>

definition MD5Final :: "MD5Context \<Rightarrow> bytes" where
  "MD5Final ctx =
     (let p = unat (md5_bytes0 ctx AND 0x3f);
          ctx = ctx\<lparr>md5_in := blit p [0x80] (md5_in ctx)\<rparr>;
          p = p + 1;
          count = 56 - int p;
          (ctx, p, count) =
            (if count < 0
             then (md5_transform_in (ctx\<lparr>md5_in := blit p (replicate (nat (count + 8)) 0) (md5_in ctx)\<rparr>), 0, 56)
             else (ctx, p, count));
          ctx = ctx\<lparr>md5_in := blit p (replicate (nat count) 0) (md5_in ctx)\<rparr>;
          ctx = ctx\<lparr>md5_in := blit 56 (word_bytes (push_bit 3 (md5_bytes0 ctx))) (md5_in ctx)\<rparr>;
          ctx = ctx\<lparr>md5_in := blit 60 (word_bytes (push_bit 3 (md5_bytes1 ctx) OR drop_bit 29 (md5_bytes0 ctx))) (md5_in ctx)\<rparr>;
          ctx = md5_transform_in ctx
      in concat (map word_bytes (md5_buf ctx)))"

section \<open>The reference: RFC 1321\<close>

definition md5_T :: "u32 list" where
  "md5_T = [
     0xd76aa478, 0xe8c7b756, 0x242070db, 0xc1bdceee,
     0xf57c0faf, 0x4787c62a, 0xa8304613, 0xfd469501,
     0x698098d8, 0x8b44f7af, 0xffff5bb1, 0x895cd7be,
     0x6b901122, 0xfd987193, 0xa679438e, 0x49b40821,
     0xf61e2562, 0xc040b340, 0x265e5a51, 0xe9b6c7aa,
     0xd62f105d, 0x02441453, 0xd8a1e681, 0xe7d3fbc8,
     0x21e1cde6, 0xc33707d6, 0xf4d50d87, 0x455a14ed,
     0xa9e3e905, 0xfcefa3f8, 0x676f02d9, 0x8d2a4c8a,
     0xfffa3942, 0x8771f681, 0x6d9d6122, 0xfde5380c,
     0xa4beea44, 0x4bdecfa9, 0xf6bb4b60, 0xbebfbc70,
     0x289b7ec6, 0xeaa127fa, 0xd4ef3085, 0x04881d05,
     0xd9d4d039, 0xe6db99e5, 0x1fa27cf8, 0xc4ac5665,
     0xf4292244, 0x432aff97, 0xab9423a7, 0xfc93a039,
     0x655b59c3, 0x8f0ccc92, 0xffeff47d, 0x85845dd1,
     0x6fa87e4f, 0xfe2ce6e0, 0xa3014314, 0x4e0811a1,
     0xf7537e82, 0xbd3af235, 0x2ad7d2bb, 0xeb86d391]"

definition md5_shift :: "nat \<Rightarrow> nat" where
  "md5_shift i =
     (if i < 16 then [7, 12, 17, 22] else if i < 32 then [5, 9, 14, 20]
      else if i < 48 then [4, 11, 16, 23] else [6, 10, 15, 21]) ! (i mod 4)"

definition md5_word :: "nat \<Rightarrow> nat" where
  "md5_word i =
     (if i < 16 then i else if i < 32 then (5 * i + 1) mod 16
      else if i < 48 then (3 * i + 5) mod 16 else 7 * i mod 16)"

definition md5_fun :: "nat \<Rightarrow> u32 \<Rightarrow> u32 \<Rightarrow> u32 \<Rightarrow> u32" where
  "md5_fun i x y z =
     (if i < 16 then (x AND y) OR (NOT x AND z) else if i < 32 then (x AND z) OR (y AND NOT z)
      else if i < 48 then x XOR y XOR z else y XOR (x OR NOT z))"

fun md5_step :: "u32 list \<Rightarrow> u32 \<times> u32 \<times> u32 \<times> u32 \<Rightarrow> nat \<Rightarrow> u32 \<times> u32 \<times> u32 \<times> u32" where
  "md5_step X (a, b, c, d) i =
     (d, b + word_rotl (md5_shift i) (a + md5_fun i b c d + X ! md5_word i + md5_T ! i), b, c)"

definition md5_block :: "u32 list \<Rightarrow> bytes \<Rightarrow> u32 list" where
  "md5_block h bs =
     (case foldl (md5_step (byteSwap bs)) (h ! 0, h ! 1, h ! 2, h ! 3) [0..<64] of
        (a, b, c, d) \<Rightarrow> [h ! 0 + a, h ! 1 + b, h ! 2 + c, h ! 3 + d])"

definition md5_length_bytes :: "u64 \<Rightarrow> bytes" where
  "md5_length_bytes n = map (\<lambda>i. ucast (drop_bit (8 * i) n)) [0..<8]"

definition md5_digest :: "bytes \<Rightarrow> bytes" where
  "md5_digest m = concat (map word_bytes
     (hash_blocks 64 md5_block [0x67452301, 0xefcdab89, 0x98badcfe, 0x10325476]
       (padded_message md5_length_bytes m)))"

section \<open>The unrolled transformation\<close>

lemma MD5STEP_rotl:
  "0 < s \<Longrightarrow> s < 32 \<Longrightarrow> MD5STEP f a b c d (m + t) s = b + word_rotl s (a + f b c d + m + t)"
  by (simp add: MD5STEP_def rotl_shifts_32 Let_def ac_simps)

lemma md5_shift_range: "0 < md5_shift i" "md5_shift i < 32"
proof -
  have "i mod 4 \<in> {0, 1, 2, 3}" by auto
  then show "0 < md5_shift i" "md5_shift i < 32" by (auto simp: md5_shift_def)
qed

lemma md5_funs:
  "i < 16 \<Longrightarrow> md5_fun i = F1" "16 \<le> i \<Longrightarrow> i < 32 \<Longrightarrow> md5_fun i = F2"
  "32 \<le> i \<Longrightarrow> i < 48 \<Longrightarrow> md5_fun i = F3" "48 \<le> i \<Longrightarrow> md5_fun i = F4"
  by (auto simp: fun_eq_iff md5_fun_def F1_def F2_def F3_def F4_def intro!: bit_word_eqI) (auto simp: bit_simps)

lemma md5_step_let:
  "md5_step X (a, b, c, d) i =
     (let w = MD5STEP (md5_fun i) a b c d (X ! md5_word i + md5_T ! i) (md5_shift i) in (d, w, b, c))"
  by (simp add: MD5STEP_rotl md5_shift_range)

definition md5_steps :: "u32 list \<Rightarrow> (u32 \<times> u32 \<times> u32 \<times> u32) \<Rightarrow> ((u32 \<Rightarrow> u32 \<Rightarrow> u32 \<Rightarrow> u32) \<times> nat \<times> u32 \<times> nat) list \<Rightarrow> u32 \<times> u32 \<times> u32 \<times> u32" where
  "md5_steps X = foldl (\<lambda>(a, b, c, d) (f, k, t, s). let w = MD5STEP f a b c d (X ! k + t) s in (d, w, b, c))"

lemma md5_steps_Cons:
  "md5_steps X (a, b, c, d) ((f, k, t, s) # xs) = (let w = MD5STEP f a b c d (X ! k + t) s in md5_steps X (d, w, b, c) xs)"
  by (simp add: md5_steps_def Let_def)

lemma md5_steps_Nil: "md5_steps X s [] = s"
  by (simp add: md5_steps_def)

lemma fold_steps:
  "foldl (md5_step X) s is = md5_steps X s (map (\<lambda>i. (md5_fun i, md5_word i, md5_T ! i, md5_shift i)) is)"
proof (induction "is" arbitrary: s)
  case (Cons i "is")
  obtain a b c d where s: "s = (a, b, c, d)" by (cases s)
  show ?case unfolding s foldl_Cons list.map md5_steps_Cons md5_step_let Let_def by (rule Cons.IH)
qed (simp add: md5_steps_Nil)

lemma Let_prod: "(case Let x g of (a, b, c, d) \<Rightarrow> f a b c d) = (let w = x in case g w of (a, b, c, d) \<Rightarrow> f a b c d)"
  by (simp add: Let_def)

definition md5_table :: "((u32 \<Rightarrow> u32 \<Rightarrow> u32 \<Rightarrow> u32) \<times> nat \<times> u32 \<times> nat) list" where
  "md5_table = [
     (F1, 0, 0xd76aa478, 7), (F1, 1, 0xe8c7b756, 12), (F1, 2, 0x242070db, 17), (F1, 3, 0xc1bdceee, 22),
     (F1, 4, 0xf57c0faf, 7), (F1, 5, 0x4787c62a, 12), (F1, 6, 0xa8304613, 17), (F1, 7, 0xfd469501, 22),
     (F1, 8, 0x698098d8, 7), (F1, 9, 0x8b44f7af, 12), (F1, 10, 0xffff5bb1, 17), (F1, 11, 0x895cd7be, 22),
     (F1, 12, 0x6b901122, 7), (F1, 13, 0xfd987193, 12), (F1, 14, 0xa679438e, 17), (F1, 15, 0x49b40821, 22),
     (F2, 1, 0xf61e2562, 5), (F2, 6, 0xc040b340, 9), (F2, 11, 0x265e5a51, 14), (F2, 0, 0xe9b6c7aa, 20),
     (F2, 5, 0xd62f105d, 5), (F2, 10, 0x02441453, 9), (F2, 15, 0xd8a1e681, 14), (F2, 4, 0xe7d3fbc8, 20),
     (F2, 9, 0x21e1cde6, 5), (F2, 14, 0xc33707d6, 9), (F2, 3, 0xf4d50d87, 14), (F2, 8, 0x455a14ed, 20),
     (F2, 13, 0xa9e3e905, 5), (F2, 2, 0xfcefa3f8, 9), (F2, 7, 0x676f02d9, 14), (F2, 12, 0x8d2a4c8a, 20),
     (F3, 5, 0xfffa3942, 4), (F3, 8, 0x8771f681, 11), (F3, 11, 0x6d9d6122, 16), (F3, 14, 0xfde5380c, 23),
     (F3, 1, 0xa4beea44, 4), (F3, 4, 0x4bdecfa9, 11), (F3, 7, 0xf6bb4b60, 16), (F3, 10, 0xbebfbc70, 23),
     (F3, 13, 0x289b7ec6, 4), (F3, 0, 0xeaa127fa, 11), (F3, 3, 0xd4ef3085, 16), (F3, 6, 0x04881d05, 23),
     (F3, 9, 0xd9d4d039, 4), (F3, 12, 0xe6db99e5, 11), (F3, 15, 0x1fa27cf8, 16), (F3, 2, 0xc4ac5665, 23),
     (F4, 0, 0xf4292244, 6), (F4, 7, 0x432aff97, 10), (F4, 14, 0xab9423a7, 15), (F4, 5, 0xfc93a039, 21),
     (F4, 12, 0x655b59c3, 6), (F4, 3, 0x8f0ccc92, 10), (F4, 10, 0xffeff47d, 15), (F4, 1, 0x85845dd1, 21),
     (F4, 8, 0x6fa87e4f, 6), (F4, 15, 0xfe2ce6e0, 10), (F4, 6, 0xa3014314, 15), (F4, 13, 0x4e0811a1, 21),
     (F4, 4, 0xf7537e82, 6), (F4, 11, 0xbd3af235, 10), (F4, 2, 0x2ad7d2bb, 15), (F4, 9, 0xeb86d391, 21)]"

lemma md5_table: "map (\<lambda>i. (md5_fun i, md5_word i, md5_T ! i, md5_shift i)) [0..<64] = md5_table"
  by (simp add: upt_64 upt_32 upt_16 upt_8 md5_funs md5_word_def md5_T_def md5_shift_def md5_table_def)

lemma Let_four: "(let a = w; b = x; c = y; d = z in f a b c d) = f w x y z"
  by simp

lemma MD5Transform_rounds:
  "MD5Transform h (byteSwap bs) = md5_block h bs"
  unfolding MD5Transform_def Let_four md5_block_def fold_steps md5_table md5_table_def
    md5_steps_Cons md5_steps_Nil Let_prod prod.case
  by (rule refl)

lemma md5_empty: "md5_digest [] = [0xd4, 0x1d, 0x8c, 0xd9, 0x8f, 0x00, 0xb2, 0x04, 0xe9, 0x80, 0x09, 0x98, 0xec, 0xf8, 0x42, 0x7e]"
  by code_simp

section \<open>The message taken in by pieces\<close>

abbreviation md5_iv :: "u32 list" where
  "md5_iv \<equiv> [0x67452301, 0xefcdab89, 0x98badcfe, 0x10325476]"

definition md5_rep :: "MD5Context \<Rightarrow> bytes \<Rightarrow> bool" where
  "md5_rep c m \<longleftrightarrow>
     md5_buf c = hash_blocks 64 md5_block md5_iv m \<and>
     length (md5_in c) = 64 \<and> take (length m mod 64) (md5_in c) = last_bytes 64 m \<and>
     md5_bytes0 c = of_nat (length m) \<and> md5_bytes1 c = of_nat (length m div 2 ^ 32)"

lemma md5_transform_in_fields [simp]:
  "md5_buf (md5_transform_in c) = md5_block (md5_buf c) (md5_in c)"
  "md5_in (md5_transform_in c) = md5_in c"
  "md5_bytes0 (md5_transform_in c) = md5_bytes0 c" "md5_bytes1 (md5_transform_in c) = md5_bytes1 c"
  by (simp_all add: md5_transform_in_def MD5Transform_rounds)

lemma md5_take_blit: "off \<le> length dst \<Longrightarrow> take (off + length src) (blit off src dst) = take off dst @ src"
  by (simp add: blit_def)

lemma blit_0: "length src = length dst \<Longrightarrow> blit 0 src dst = src"
  by (simp add: blit_def)

lemma md5_chunks_blocks:
  assumes "unat len = length buf" "length (md5_in c) = 64"
  shows "md5_buf (md5_chunks c buf len) = hash_blocks 64 md5_block (md5_buf c) buf \<and>
    length (md5_in (md5_chunks c buf len)) = 64 \<and>
    take (length buf mod 64) (md5_in (md5_chunks c buf len)) = last_bytes 64 buf \<and>
    md5_bytes0 (md5_chunks c buf len) = md5_bytes0 c \<and> md5_bytes1 (md5_chunks c buf len) = md5_bytes1 c"
  using assms
proof (induction c buf len rule: md5_chunks.induct)
  case (1 c buf len)
  show ?case
  proof (cases "64 \<le> len")
    case True
    define b m' where "b = take 64 buf" and "m' = drop 64 buf"
    have l: "64 \<le> length buf" using True "1.prems" by (simp add: word_le_nat_alt)
    have buf: "buf = b @ m'" and b: "length b = 64" using l by (simp_all add: b_def m'_def)
    have u: "unat (len - 64) = length m'"
      using True "1.prems" by (simp add: unat_sub word_le_nat_alt m'_def)
    show ?thesis
      using "1.IH" [OF True] u "1.prems"
      by (simp add: md5_chunks.simps [of c buf len] True b blit_0 hash_blocks_step last_bytes_step
          flip: b_def m'_def)
         (simp add: buf b hash_blocks_step last_bytes_step)
  next
    case False
    then have "length buf < 64" using "1.prems" by (simp add: word_le_nat_alt)
    then show ?thesis
      using False "1.prems" md5_take_blit [of 0 "md5_in c" buf] by (simp add: md5_chunks.simps [of c buf len])
  qed
qed

lemma unat_and_63: "unat ((of_nat n :: u32) AND 0x3f) = n mod 64"
proof -
  have "(of_nat n :: u32) AND 0x3f = take_bit 6 (of_nat n)"
    by (simp add: take_bit_eq_mask mask_numeral)
  then show ?thesis
    by (simp add: unsigned_take_bit_eq unsigned_of_nat) (simp add: take_bit_eq_mod)
qed

text \<open>Memory from \<open>malloc\<close>, whatever it holds.\<close>

definition md5_memory :: MD5Context where
  "md5_memory = \<lparr>md5_buf = [], md5_bytes0 = 0, md5_bytes1 = 0, md5_in = replicate 64 0\<rparr>"

lemma md5_rep_init: "length (md5_in c) = 64 \<Longrightarrow> md5_rep (MD5Init c) []"
  by (simp add: md5_rep_def MD5Init_def)

lemma md5_rep_lengths:
  assumes "md5_rep c m"
  shows "length (md5_in c) = 64" "unat (md5_bytes0 c AND 0x3f) = length m mod 64"
  using assms by (simp_all add: md5_rep_def unat_and_63)

text \<open>The free room in the block.\<close>

lemma md5_room:
  assumes "md5_rep c m"
  shows "unat (64 - (md5_bytes0 c AND 0x3f)) = 64 - length m mod 64"
proof -
  have k: "unat (md5_bytes0 c AND 0x3f) = length m mod 64" by (rule md5_rep_lengths [OF assms])
  then have "md5_bytes0 c AND 0x3f \<le> 64"
    using mod_less_divisor [of 64 "length m"] by (simp add: word_le_nat_alt)
  then show "unat (64 - (md5_bytes0 c AND 0x3f)) = 64 - length m mod 64" by (simp add: unat_sub k)
qed

text \<open>The counters after a piece.\<close>

lemma md5_count:
  assumes "md5_rep c m" "length b < 2 ^ 32"
  defines "c' \<equiv> MD5Update c b (of_nat (length b))"
  shows "md5_bytes0 c' = of_nat (length (m @ b)) \<and> md5_bytes1 c' = of_nat (length (m @ b) div 2 ^ 32)"
proof -
  have [simp]: "md5_bytes0 (md5_chunks d x len) = md5_bytes0 d" "md5_bytes1 (md5_chunks d x len) = md5_bytes1 d" for d x len
    by (induction d x len rule: md5_chunks.induct; subst md5_chunks.simps; simp)+
  show ?thesis
    using assms count_carry [of "length b" "length m"]
    by (simp add: c'_def MD5Update_def md5_rep_def Let_def)
qed

text \<open>The block and the bytes kept after a piece.\<close>

lemma md5_absorb:
  assumes "md5_rep c m" "length b < 2 ^ 32"
  defines "c' \<equiv> MD5Update c b (of_nat (length b))"
  shows "md5_buf c' = hash_blocks 64 md5_block md5_iv (m @ b) \<and> length (md5_in c') = 64 \<and>
    take (length (m @ b) mod 64) (md5_in c') = last_bytes 64 (m @ b)"
proof -
  let ?k = "length m mod 64"
  have k: "?k < 64" by simp
  note rep = assms(1) [unfolded md5_rep_def]
    and room = md5_room [OF assms(1)] md5_rep_lengths(2) [OF assms(1)]
  have l: "unat (of_nat (length b) :: u32) = length b" using assms(2) by (rule unat_of_nat_small)
  have in': "take ?k (md5_in c) = last_bytes 64 m" using rep by blast
  show ?thesis
  proof (cases "length b < 64 - ?k")
    case True
    then have "(of_nat (length b) :: u32) < 64 - (md5_bytes0 c AND 0x3f)"
      by (simp add: word_less_nat_alt l room)
    then have c': "md5_buf c' = md5_buf c" "md5_in c' = blit ?k b (md5_in c)"
      by (simp_all add: c'_def MD5Update_def Let_def l room)
    have s: "length (last_bytes 64 m @ b) < 64" using True k by simp
    have "length (m @ b) mod 64 = ?k + length b"
      using True k mod_add_left_eq [of "length m" 64 "length b"] by simp
    then show ?thesis
      using rep s md5_take_blit [of ?k "md5_in c" b] k True
      by (simp add: c' hash_blocks_append last_bytes_append [of 64 m] in')
  next
    case False
    let ?t = "64 - (md5_bytes0 c AND 0x3f)" and ?b = "take (64 - ?k) b" and ?r = "drop (64 - ?k) b"
    have full: "length (last_bytes 64 m @ ?b) = 64" using False k by simp
    have "blit ?k ?b (md5_in c) = last_bytes 64 m @ ?b"
      using False rep k by (simp add: blit_def in')
    moreover have "\<not> (of_nat (length b) :: u32) < ?t"
      using False by (simp add: word_less_nat_alt l room)
    ultimately obtain d where c': "c' = md5_chunks d ?r (of_nat (length b) - ?t)"
      and d: "md5_buf d = md5_block (md5_buf c) (last_bytes 64 m @ ?b)" "length (md5_in d) = 64"
      using full by (auto simp: c'_def MD5Update_def Let_def room)
    have r: "unat (of_nat (length b) - ?t) = length ?r"
      using False by (simp add: unat_sub word_le_nat_alt l room)
    have m: "last_bytes 64 m @ b = (last_bytes 64 m @ ?b) @ ?r" by simp
    have "length (m @ b) mod 64 = length ?r mod 64"
      using False k mod_add_left_eq [of "length m" 64 "length b"] le_mod_geq [of 64 "?k + length b"]
      by (simp add: add.commute)
    then show ?thesis
      using md5_chunks_blocks [OF r d(2)] rep
      by (simp only: c' d hash_blocks_append [of 64 _ _ m b] last_bytes_append [of 64 m b] m
          hash_blocks_step [OF _ full] last_bytes_step [OF _ full] zero_less_numeral simp_thms)
  qed
qed

lemma md5_rep_update:
  assumes "md5_rep c m" "length b < 2 ^ 32"
  shows "md5_rep (MD5Update c b (of_nat (length b))) (m @ b)"
  using md5_count [OF assms] md5_absorb [OF assms] unfolding md5_rep_def by (intro conjI) simp_all

lemma md5_length_words:
  "word_bytes (push_bit 3 (of_nat n)) @ word_bytes (push_bit 3 (of_nat (n div 2 ^ 32)) OR drop_bit 29 (of_nat n)) =
   md5_length_bytes (of_nat (8 * n))"
proof -
  define w where "w = (of_nat n :: u64)"
  have n: "(of_nat n :: u32) = ucast w" by (rule bit_word_eqI) (simp add: w_def bit_simps)
  have "n div 2 ^ 32 = drop_bit 32 n" by (simp add: drop_bit_eq_div)
  then have "(of_nat (n div 2 ^ 32) :: u32) = ucast (drop_bit 32 w)"
    by (intro bit_word_eqI) (simp only: w_def, simp add: bit_simps add.commute)
  moreover have "of_nat (8 * n) = push_bit 3 w" by (simp add: w_def push_bit_eq_mult)
  ultimately show ?thesis
    by (simp add: n word_bytes_def md5_length_bytes_def upt_8)
      (simp add: byte_eq_iff bit_simps)
qed

text \<open>A store after the bytes that are settled already.\<close>

lemma blit_after: "length a = off \<Longrightarrow> length s \<le> length r \<Longrightarrow> blit off s (a @ r) = (a @ s) @ drop (length s) r"
  by (simp add: blit_def)

lemma md5_rep_final:
  assumes "md5_rep c m"
  shows "MD5Final c = md5_digest m"
proof -
  let ?k = "length m mod 64" and ?h = "hash_blocks 64 md5_block md5_iv m"
  have k: "?k < 64" by simp
  have buf: "md5_buf c = ?h" and cnt: "md5_bytes0 c = of_nat (length m)" "md5_bytes1 c = of_nat (length m div 2 ^ 32)"
    using assms by (simp_all add: md5_rep_def)
  obtain r where in': "md5_in c = last_bytes 64 m @ r" and r: "length r = 64 - ?k"
    using assms append_take_drop_id [of ?k "md5_in c"] unfolding md5_rep_def
    by (metis length_drop)
  let ?w = "word_bytes (push_bit 3 (of_nat (length m)))"
    and ?v = "word_bytes (push_bit 3 (of_nat (length m div 2 ^ 32)) OR drop_bit 29 (of_nat (length m)))"
  have wv: "length ?w = 4" "length ?v = 4" by (simp_all add: word_bytes_def)
  have enc: "length (md5_length_bytes n) = 8" for n by (simp add: md5_length_bytes_def)
  have tail: "blit 60 ?v (blit 56 ?w (x @ y)) = x @ ?w @ ?v" if "length x = 56" "length y = 8" for x y
    using that wv blit_after [of x 56 ?w y] blit_after [of "x @ ?w" 60 ?v "drop 4 y"] by simp
  have p: "blit ?k [0x80] (last_bytes 64 m @ r) = (last_bytes 64 m @ [0x80]) @ drop 1 r"
    using blit_after [of "last_bytes 64 m" ?k "[0x80]" r] k r by simp
  show ?thesis
  proof (cases "?k < 56")
    case True
    let ?x = "last_bytes 64 m @ [0x80] @ replicate (55 - ?k) 0"
    have "blit (?k + 1) (replicate (55 - ?k) 0) ((last_bytes 64 m @ [0x80]) @ drop 1 r) = ?x @ drop (56 - ?k) r"
      using blit_after [of "last_bytes 64 m @ [0x80]" "?k + 1" "replicate (55 - ?k) 0" "drop 1 r"] r True
      by (simp add: Suc_diff_le [symmetric])
    moreover have "nat (56 - int (?k + 1)) = 55 - ?k" using True by linarith
    moreover have "\<not> 56 - int (?k + 1) < 0" using True by linarith
    ultimately have "MD5Final c = concat (map word_bytes (md5_block ?h (?x @ ?w @ ?v)))"
      unfolding MD5Final_def Let_def md5_rep_lengths(2) [OF assms] using True r tail [of ?x "drop (56 - ?k) r"]
      by (simp add: in' p buf cnt)
    then show ?thesis
      by (simp only: md5_digest_def hash_padded_one [OF True enc] md5_length_words [symmetric] append_assoc)
  next
    case False
    let ?x = "last_bytes 64 m @ [0x80] @ replicate (63 - ?k) 0"
    have n: "nat (56 - int (?k + 1) + 8) = 63 - ?k" "56 - int (?k + 1) < 0" using False by linarith+
    have x: "blit (?k + 1) (replicate (63 - ?k) 0) ((last_bytes 64 m @ [0x80]) @ drop 1 r) = ?x"
      using blit_after [of "last_bytes 64 m @ [0x80]" "?k + 1" "replicate (63 - ?k) 0" "drop 1 r"] r k by simp
    have "length ?x = 64" using k by simp
    then have "blit 0 (replicate 56 0) ?x = replicate 56 0 @ drop 56 ?x"
      using blit_after [of "[]" 0 "replicate 56 0" ?x] by simp
    then have "MD5Final c = concat (map word_bytes (md5_block (md5_block ?h ?x) (replicate 56 0 @ ?w @ ?v)))"
      unfolding MD5Final_def Let_def md5_rep_lengths(2) [OF assms] using n x \<open>length ?x = 64\<close> tail [of "replicate 56 0" "drop 56 ?x"]
      by (simp add: in' p buf cnt)
    then show ?thesis
      using False by (simp only: md5_digest_def hash_padded_two [OF _ enc] not_less md5_length_words [symmetric])
  qed
qed

interpretation md5: message_digest "MD5Init md5_memory" "\<lambda>c b. MD5Update c b (of_nat (length b))" MD5Final md5_rep md5_digest "2 ^ 32"
proof
  fix c m b
  show "md5_rep (MD5Init md5_memory) []" by (rule md5_rep_init) (simp add: md5_memory_def)
  show "md5_rep (MD5Update c b (of_nat (length b))) (m @ b)" if "md5_rep c m" "length (m @ b) < 2 ^ 32"
    using that by (intro md5_rep_update) simp_all
  show "MD5Final c = md5_digest m" if "md5_rep c m"
    using that by (rule md5_rep_final)
qed
end
