(* ===== verification/Sha_Context.thy ===== *)
theory Sha_Context
  imports Message_Digest
begin

text \<open>
  What \<open>lib/sha1.c\<close> and \<open>lib/sha224-256.c\<close> share: the context of \<open>sha.h\<close> (the structures of SHA-1 and
  of SHA-256 differ in the length of \<open>Intermediate_Hash\<close> only), the error codes, the functions of
  \<open>sha-private.h\<close>, and the operations on the message block and the length, whose text is the same in
  both files. The function that processes a block is an argument of the operations; the locale
  \<open>sha_family\<close> says what it has to do and derives that the operations implement the standard's
  padding and blocks.
\<close>

section \<open>Codes and context\<close>

abbreviation (input) shaSuccess :: int where "shaSuccess \<equiv> 0"
abbreviation (input) shaNull :: int where "shaNull \<equiv> 1"
abbreviation (input) shaInputTooLong :: int where "shaInputTooLong \<equiv> 2"
abbreviation (input) shaStateError :: int where "shaStateError \<equiv> 3"
abbreviation (input) shaBadParam :: int where "shaBadParam \<equiv> 4"

text \<open>The index stays between 0 and 64, which is part of the invariant below.\<close>

record sha_context =
  Intermediate_Hash :: "u32 list"
  Length_Low :: u32
  Length_High :: u32
  Message_Block_Index :: nat
  Message_Block :: bytes
  Computed :: int
  Corrupted :: int

definition SHA_Ch :: "u32 \<Rightarrow> u32 \<Rightarrow> u32 \<Rightarrow> u32" where
  "SHA_Ch x y z = (x AND y) XOR (NOT x AND z)"

definition SHA_Maj :: "u32 \<Rightarrow> u32 \<Rightarrow> u32 \<Rightarrow> u32" where
  "SHA_Maj x y z = (x AND y) XOR (x AND z) XOR (y AND z)"

definition SHA_Parity :: "u32 \<Rightarrow> u32 \<Rightarrow> u32 \<Rightarrow> u32" where
  "SHA_Parity x y z = x XOR y XOR z"

text \<open>The word of four bytes, most significant byte first.\<close>

definition sha_word :: "bytes \<Rightarrow> nat \<Rightarrow> u32" where
  "sha_word mb t =
     push_bit 24 (ucast (mb ! (t * 4))) OR push_bit 16 (ucast (mb ! (t * 4 + 1))) OR
     push_bit 8 (ucast (mb ! (t * 4 + 2))) OR ucast (mb ! (t * 4 + 3))"

section \<open>The operations\<close>

definition sha_reset :: "u32 list \<Rightarrow> sha_context ptr \<Rightarrow> int \<times> sha_context ptr" where
  "sha_reset H0 context =
     (case context of
        NULL \<Rightarrow> (shaNull, NULL)
      | Ptr c \<Rightarrow> (shaSuccess, Ptr (c\<lparr>Length_Low := 0, Length_High := 0, Message_Block_Index := 0,
          Intermediate_Hash := H0, Computed := 0, Corrupted := 0\<rparr>)))"

text \<open>\<open>AddLength\<close>: the length in bits is kept in two words; when both overflow the context is corrupted.\<close>

definition sha_add_length :: "u32 \<Rightarrow> sha_context \<Rightarrow> sha_context" where
  "sha_add_length n c =
     (let addTemp = Length_Low c;
          c = c\<lparr>Length_Low := Length_Low c + n\<rparr>
      in if Length_Low c < addTemp
         then (let c = c\<lparr>Length_High := Length_High c + 1\<rparr>
               in c\<lparr>Corrupted := (if Length_High c = 0 then 1 else 0)\<rparr>)
         else c\<lparr>Corrupted := 0\<rparr>)"

text \<open>\<open>context->Message_Block[context->Message_Block_Index++] = b\<close>\<close>

definition sha_put :: "u8 \<Rightarrow> sha_context \<Rightarrow> sha_context" where
  "sha_put b c = c\<lparr>Message_Block := (Message_Block c)[Message_Block_Index c := b],
     Message_Block_Index := Message_Block_Index c + 1\<rparr>"

fun sha_input_loop :: "(sha_context \<Rightarrow> sha_context) \<Rightarrow> sha_context \<Rightarrow> bytes \<Rightarrow> sha_context" where
  "sha_input_loop process c [] = c"
| "sha_input_loop process c (b # message_array) =
     (if Corrupted c \<noteq> 0 then c
      else let c = sha_add_length 8 (sha_put b c);
               c = (if Corrupted c = 0 \<and> Message_Block_Index c = 64 then process c else c)
           in sha_input_loop process c message_array)"

definition sha_input ::
  "(sha_context \<Rightarrow> sha_context) \<Rightarrow> sha_context ptr \<Rightarrow> bytes ptr \<Rightarrow> nat \<Rightarrow> int \<times> sha_context ptr" where
  "sha_input process context message_array len =
     (if len = 0 then (shaSuccess, context)
      else case (context, message_array) of
        (Ptr c, Ptr bs) \<Rightarrow>
          if Computed c \<noteq> 0 then (shaStateError, Ptr (c\<lparr>Corrupted := shaStateError\<rparr>))
          else if Corrupted c \<noteq> 0 then (Corrupted c, Ptr c)
          else (shaSuccess, Ptr (sha_input_loop process c (take len bs)))
      | _ \<Rightarrow> (shaNull, context))"

text \<open>\<open>while (context->Message_Block_Index < n) context->Message_Block[context->Message_Block_Index++] = 0\<close>\<close>

function sha_zero_to :: "nat \<Rightarrow> sha_context \<Rightarrow> sha_context" where
  "sha_zero_to n c = (if Message_Block_Index c < n then sha_zero_to n (sha_put 0 c) else c)"
  by pat_completeness auto
termination by (relation "measure (\<lambda>(n, c). n - Message_Block_Index c)") (auto simp: sha_put_def)

declare sha_zero_to.simps [simp del]

definition sha_store_length :: "sha_context \<Rightarrow> sha_context" where
  "sha_store_length c = c\<lparr>Message_Block := (Message_Block c)
     [56 := ucast (drop_bit 24 (Length_High c)), 57 := ucast (drop_bit 16 (Length_High c)),
      58 := ucast (drop_bit 8 (Length_High c)), 59 := ucast (Length_High c),
      60 := ucast (drop_bit 24 (Length_Low c)), 61 := ucast (drop_bit 16 (Length_Low c)),
      62 := ucast (drop_bit 8 (Length_Low c)), 63 := ucast (Length_Low c)]\<rparr>"

definition sha_pad_message :: "(sha_context \<Rightarrow> sha_context) \<Rightarrow> u8 \<Rightarrow> sha_context \<Rightarrow> sha_context" where
  "sha_pad_message process pad_byte c =
     (let c = (if 64 - 8 \<le> Message_Block_Index c then process (sha_zero_to 64 (sha_put pad_byte c))
               else sha_put pad_byte c)
      in process (sha_store_length (sha_zero_to (64 - 8) c)))"

definition sha_finalize :: "(sha_context \<Rightarrow> sha_context) \<Rightarrow> u8 \<Rightarrow> sha_context \<Rightarrow> sha_context" where
  "sha_finalize process pad_byte c =
     (sha_pad_message process pad_byte c)
       \<lparr>Message_Block := replicate 64 0, Length_Low := 0, Length_High := 0, Computed := 1\<rparr>"

definition sha_masks :: "u8 list" where
  "sha_masks = [0x00, 0x80, 0xC0, 0xE0, 0xF0, 0xF8, 0xFC, 0xFE]"

definition sha_markbit :: "u8 list" where
  "sha_markbit = [0x80, 0x40, 0x20, 0x10, 0x08, 0x04, 0x02, 0x01]"

definition sha_final_bits ::
  "(sha_context \<Rightarrow> sha_context) \<Rightarrow> sha_context ptr \<Rightarrow> u8 \<Rightarrow> nat \<Rightarrow> int \<times> sha_context ptr" where
  "sha_final_bits process context message_bits len =
     (if len = 0 then (shaSuccess, context)
      else case context of
        NULL \<Rightarrow> (shaNull, NULL)
      | Ptr c \<Rightarrow>
          if Computed c \<noteq> 0 \<or> 8 \<le> len then (shaStateError, Ptr (c\<lparr>Corrupted := shaStateError\<rparr>))
          else if Corrupted c \<noteq> 0 then (Corrupted c, Ptr c)
          else (shaSuccess, Ptr (sha_finalize process ((message_bits AND sha_masks ! len) OR sha_markbit ! len)
                  (sha_add_length (of_nat len) c))))"

definition sha_result ::
  "(sha_context \<Rightarrow> sha_context) \<Rightarrow> nat \<Rightarrow> sha_context ptr \<Rightarrow> bytes ptr \<Rightarrow> int \<times> sha_context ptr \<times> bytes ptr" where
  "sha_result process hash_size context digest =
     (case (context, digest) of
        (Ptr c, Ptr md) \<Rightarrow>
          if Corrupted c \<noteq> 0 then (Corrupted c, Ptr c, Ptr md)
          else let c = (if Computed c = 0 then sha_finalize process 0x80 c else c)
               in (shaSuccess, Ptr c, Ptr (blit 0
                    (map (\<lambda>i. ucast (drop_bit (8 * (3 - (i AND 3))) (Intermediate_Hash c ! drop_bit 2 i))) [0..<hash_size]) md))
      | _ \<Rightarrow> (shaNull, context, digest))"

section \<open>The standard's padding\<close>

text \<open>The length in bits, most significant byte first.\<close>

definition sha_length_bytes :: "u64 \<Rightarrow> bytes" where
  "sha_length_bytes n = map (\<lambda>i. ucast (drop_bit (56 - 8 * i) n)) [0..<8]"

text \<open>The bytes of the words of a hash.\<close>

definition be_bytes :: "u32 \<Rightarrow> bytes" where
  "be_bytes w = [ucast (drop_bit 24 w), ucast (drop_bit 16 w), ucast (drop_bit 8 w), ucast w]"

definition sha_digest :: "(u32 list \<Rightarrow> bytes \<Rightarrow> u32 list) \<Rightarrow> u32 list \<Rightarrow> bytes \<Rightarrow> bytes" where
  "sha_digest f iv m = concat (map be_bytes (hash_blocks 64 f iv (padded_message sha_length_bytes m)))"

text \<open>An array that is filled from left to right holds the values of the recurrence.\<close>

lemma fill_recurrence:
  assumes "k \<le> n" "\<And>t. k \<le> t \<Longrightarrow> step (map g [0..<t]) t = g t"
  shows "foldl (\<lambda>W t. W @ [step W t]) (map g [0..<k]) [k..<n] = map g [0..<n]"
  using assms(1)
proof (induction rule: dec_induct)
  case (step n)
  then show ?case using assms(2) [of n] by simp
qed simp

section \<open>The context of a message\<close>

definition sha_rep :: "(u32 list \<Rightarrow> bytes \<Rightarrow> u32 list) \<Rightarrow> u32 list \<Rightarrow> sha_context \<Rightarrow> bytes \<Rightarrow> bool" where
  "sha_rep f iv c m \<longleftrightarrow>
     Intermediate_Hash c = hash_blocks 64 f iv m \<and>
     Message_Block_Index c = length m mod 64 \<and> length (Message_Block c) = 64 \<and>
     take (length m mod 64) (Message_Block c) = last_bytes 64 m \<and>
     Length_Low c = of_nat (8 * length m) \<and> Length_High c = of_nat (8 * length m div 2 ^ 32) \<and>
     Computed c = 0 \<and> Corrupted c = 0 \<and> 8 * length m < 2 ^ 64"

lemma sha_put_fields [simp]:
  "Intermediate_Hash (sha_put b c) = Intermediate_Hash c" "Length_Low (sha_put b c) = Length_Low c"
  "Length_High (sha_put b c) = Length_High c" "Computed (sha_put b c) = Computed c"
  "Corrupted (sha_put b c) = Corrupted c" "Message_Block_Index (sha_put b c) = Suc (Message_Block_Index c)"
  "length (Message_Block (sha_put b c)) = length (Message_Block c)"
  by (simp_all add: sha_put_def)

lemma sha_put_block:
  "Message_Block_Index c < length (Message_Block c) \<Longrightarrow>
   take (Suc (Message_Block_Index c)) (Message_Block (sha_put b c)) = take (Message_Block_Index c) (Message_Block c) @ [b]"
  by (simp add: sha_put_def take_Suc_conv_app_nth)

lemma sha_zero_to_done: "n \<le> Message_Block_Index c \<Longrightarrow> sha_zero_to n c = c"
  by (simp add: sha_zero_to.simps)

lemma sha_zero_to_block:
  assumes "Message_Block_Index c \<le> n" "n \<le> length (Message_Block c)"
  shows "sha_zero_to n c = c\<lparr>Message_Block := take (Message_Block_Index c) (Message_Block c) @
      replicate (n - Message_Block_Index c) 0 @ drop n (Message_Block c), Message_Block_Index := n\<rparr>"
  using assms
proof (induction n c rule: sha_zero_to.induct)
  case (1 n c)
  show ?case
  proof (cases "Message_Block_Index c < n")
    case True
    then have "replicate (n - Message_Block_Index c) 0 = (0 :: u8) # replicate (n - Suc (Message_Block_Index c)) 0"
      by (metis Suc_diff_Suc replicate_Suc)
    then show ?thesis
      using 1 True sha_put_block [of c 0] by (simp add: sha_zero_to.simps [of n c])
        (simp add: sha_put_def)
  next
    case False
    then have "Message_Block_Index c = n" using 1 by simp
    then show ?thesis by (simp add: sha_zero_to_done)
  qed
qed

section \<open>The operations implement the padding and the blocks\<close>

lemma length_sha_length_bytes [simp]: "length (sha_length_bytes n) = 8"
  by (simp add: sha_length_bytes_def)

lemma length_be_bytes [simp]: "length (be_bytes w) = 4"
  by (simp add: be_bytes_def)

lemma sha_add_length_bits:
  assumes "Length_Low c = of_nat l" "Length_High c = of_nat (l div 2 ^ 32)" "Corrupted c = 0"
    "k < 2 ^ 32" "l + k < 2 ^ 64"
  shows "sha_add_length (of_nat k) c = c\<lparr>Length_Low := of_nat (l + k), Length_High := of_nat ((l + k) div 2 ^ 32)\<rparr>"
proof -
  note hi = count_carry [OF assms(4), of l]
  have "(l + k) div 2 ^ 32 < 2 ^ 32" using assms(5) by (simp add: div_less_iff_less_mult)
  then have u: "unat (of_nat ((l + k) div 2 ^ 32) :: u32) = (l + k) div 2 ^ 32" by (rule unat_of_nat_small)
  show ?thesis
  proof (cases "(of_nat l + of_nat k :: u32) < of_nat l")
    case True
    have "(of_nat ((l + k) div 2 ^ 32) :: u32) \<noteq> 0"
    proof
      assume z: "(of_nat ((l + k) div 2 ^ 32) :: u32) = 0"
      then have "(l + k) div 2 ^ 32 = 0" using u by simp
      then have "l div 2 ^ 32 = 0" by (simp add: div_eq_0_iff)
      then show False using hi True z by simp
    qed
    then show ?thesis using assms True hi by (simp add: sha_add_length_def Let_def)
  next
    case False
    then show ?thesis using assms hi by (simp add: sha_add_length_def Let_def)
  qed
qed

lemma sha_length_store:
  assumes "length x = 56" "length y = 8" "Length_Low c = of_nat l" "Length_High c = of_nat (l div 2 ^ 32)"
  shows "sha_store_length (c\<lparr>Message_Block := x @ y\<rparr>) = c\<lparr>Message_Block := x @ sha_length_bytes (of_nat l)\<rparr>"
proof -
  define w where "w = (of_nat l :: u64)"
  have lo: "(of_nat l :: u32) = ucast w" by (rule bit_word_eqI) (simp add: w_def bit_simps)
  have "l div 2 ^ 32 = drop_bit 32 l" by (simp add: drop_bit_eq_div)
  then have hi: "(of_nat (l div 2 ^ 32) :: u32) = ucast (drop_bit 32 w)"
    by (intro bit_word_eqI) (simp only: w_def, simp add: bit_simps add.commute)
  obtain y0 y1 y2 y3 y4 y5 y6 y7 where y: "y = [y0, y1, y2, y3, y4, y5, y6, y7]"
    using assms(2) by (auto simp: numeral_eq_Suc length_Suc_conv)
  have "Length_Low (c\<lparr>Message_Block := b\<rparr>) = ucast w" "Length_High (c\<lparr>Message_Block := b\<rparr>) = ucast (drop_bit 32 w)" for b
    using assms(3,4) lo hi by simp_all
  then show ?thesis
    by (simp add: sha_store_length_def y assms(1) list_update_append sha_length_bytes_def upt_8 flip: w_def)
      (simp add: byte_eq_iff bit_simps)
qed

lemma sha_rep_length: "sha_rep f iv c m \<Longrightarrow> length (Message_Block c) = 64"
  by (simp add: sha_rep_def)

locale sha_family =
  fixes process :: "sha_context \<Rightarrow> sha_context" and f :: "u32 list \<Rightarrow> bytes \<Rightarrow> u32 list" and iv :: "u32 list"
  assumes process: "length (Message_Block c) = 64 \<Longrightarrow> process c =
    c\<lparr>Intermediate_Hash := f (Intermediate_Hash c) (Message_Block c), Message_Block_Index := 0\<rparr>"
begin

text \<open>One turn of the loop of \<open>Input\<close>.\<close>

lemma rep_byte:
  fixes b
  assumes "sha_rep f iv c m" "8 * Suc (length m) < 2 ^ 64"
  defines "c1 \<equiv> sha_add_length 8 (sha_put b c)"
  shows "sha_rep f iv (if Corrupted c1 = 0 \<and> Message_Block_Index c1 = 64 then process c1 else c1) (m @ [b])"
proof -
  note rep = assms(1) [unfolded sha_rep_def]
  let ?k = "length m mod 64"
  have k: "?k < 64" by simp
  have c1: "c1 = (sha_put b c)\<lparr>Length_Low := of_nat (8 * length m + 8), Length_High := of_nat ((8 * length m + 8) div 2 ^ 32)\<rparr>"
    using sha_add_length_bits [of "sha_put b c" "8 * length m" 8] rep assms(2) by (simp add: c1_def)
  have block: "take (Suc ?k) (Message_Block c1) = last_bytes 64 m @ [b]"
    using sha_put_block [of c b] rep k by (simp add: c1)
  have bits: "8 * length (m @ [b]) = 8 * length m + 8" by simp
  show ?thesis
  proof (cases "Suc ?k = 64")
    case True
    then have "Message_Block c1 = last_bytes 64 m @ [b]" using block rep by (simp add: c1)
    moreover have "Suc (length m) mod 64 = 0" using True by (simp add: mod_Suc)
    ultimately show ?thesis
      using rep True assms(2) unfolding sha_rep_def bits
      by (simp add: c1 process add_byte_full [OF True])
  next
    case False
    then have "Suc ?k < 64" using k by linarith
    moreover have "Suc (length m) mod 64 = Suc ?k" using False by (simp add: mod_Suc)
    ultimately show ?thesis
      using rep False block assms(2) unfolding sha_rep_def bits
      by (simp add: c1 add_byte_short)
  qed
qed

lemma rep_loop:
  "sha_rep f iv c m \<Longrightarrow> 8 * length (m @ bs) < 2 ^ 64 \<Longrightarrow> sha_rep f iv (sha_input_loop process c bs) (m @ bs)"
proof (induction bs arbitrary: c m)
  case (Cons b bs)
  have "Corrupted c = 0" using Cons.prems by (simp add: sha_rep_def)
  then show ?case
    using Cons.IH [OF rep_byte [OF Cons.prems(1), of b]] Cons.prems(2) by (simp add: Let_def)
qed simp

text \<open>\<open>Input\<close> takes in a piece of the message and succeeds.\<close>

lemma rep_input:
  assumes "sha_rep f iv c m" "8 * length (m @ bs) < 2 ^ 64"
  obtains c' where "sha_input process (Ptr c) (Ptr bs) (length bs) = (shaSuccess, Ptr c')" "sha_rep f iv c' (m @ bs)"
proof (cases "bs = []")
  case True
  then show ?thesis using that [of c] assms by (simp add: sha_input_def)
next
  case False
  then show ?thesis
    using that [OF _ rep_loop [OF assms]] assms(1) by (simp add: sha_input_def sha_rep_def)
qed

text \<open>The padding, in one block or in two.\<close>

lemma pad_message:
  assumes "sha_rep f iv c m"
  shows "Intermediate_Hash (sha_pad_message process 0x80 c) = hash_blocks 64 f iv (padded_message sha_length_bytes m)"
proof -
  let ?k = "length m mod 64" and ?c = "sha_put 0x80 c" and ?len = "sha_length_bytes (of_nat (8 * length m))"
  note rep = assms [unfolded sha_rep_def]
  have k: "?k < 64" by simp
  have block: "take (Suc ?k) (Message_Block ?c) = last_bytes 64 m @ [0x80]"
    using sha_put_block [of c "0x80"] rep k by simp
  have store: "Message_Block (sha_store_length (d\<lparr>Message_Block := x @ y\<rparr>)) = x @ ?len"
    "Intermediate_Hash (sha_store_length (d\<lparr>Message_Block := x @ y\<rparr>)) = Intermediate_Hash d"
    if "length x = 56" "length y = 8" "Length_Low d = Length_Low c" "Length_High d = Length_High c" for x y d
    using sha_length_store [OF that(1,2), where c = d and l = "8 * length m"] that(3,4) rep by simp_all
  show ?thesis
  proof (cases "?k < 56")
    case True
    have "sha_zero_to 56 ?c = ?c\<lparr>Message_Block_Index := 56, Message_Block :=
        (last_bytes 64 m @ [0x80] @ replicate (55 - ?k) 0) @ drop 56 (Message_Block ?c)\<rparr>"
      using rep True block by (subst sha_zero_to_block) simp_all
    then show ?thesis
      using True rep by (simp add: sha_pad_message_def Let_def process hash_padded_one store
          del: append_assoc) simp
  next
    case False
    let ?x = "last_bytes 64 m @ [0x80] @ replicate (63 - ?k) 0"
    have x: "length ?x = 64" using k by simp
    have z: "sha_zero_to 64 ?c = ?c\<lparr>Message_Block_Index := 64, Message_Block := ?x\<rparr>"
      using rep k block by (subst sha_zero_to_block) simp_all
    define y where "y = drop 56 ?x"
    have y: "length y = 8" using x by (simp add: y_def)
    define e where "e = ?c\<lparr>Intermediate_Hash := f (hash_blocks 64 f iv m) ?x, Message_Block_Index := 56\<rparr>"
    have "process (sha_zero_to 64 ?c) = ?c\<lparr>Intermediate_Hash := f (hash_blocks 64 f iv m) ?x,
        Message_Block_Index := 0, Message_Block := ?x\<rparr>"
      unfolding z using rep x by (subst process) simp_all
    then have "sha_zero_to 56 (process (sha_zero_to 64 ?c)) = e\<lparr>Message_Block := replicate 56 0 @ y\<rparr>"
      using x unfolding y_def e_def by (simp only:) (subst sha_zero_to_block, simp_all)
    then have "sha_pad_message process 0x80 c = process (sha_store_length (e\<lparr>Message_Block := replicate 56 0 @ y\<rparr>))"
      using False rep by (simp add: sha_pad_message_def Let_def)
    moreover have "Length_Low e = Length_Low c" "Length_High e = Length_High c"
      "Intermediate_Hash e = f (hash_blocks 64 f iv m) ?x" by (simp_all add: e_def)
    ultimately show ?thesis
      using False y store [of "replicate 56 0" y e] by (simp add: process hash_padded_two)
  qed
qed

lemma finalize:
  assumes "sha_rep f iv c m"
  shows "Intermediate_Hash (sha_finalize process 0x80 c) = hash_blocks 64 f iv (padded_message sha_length_bytes m)"
  using pad_message [OF assms] by (simp add: sha_finalize_def)

end

text \<open>The bytes of the result.\<close>

lemma and_3: "i AND 3 = i mod (4 :: nat)"
proof -
  have "i AND 3 = take_bit 2 i" by (simp add: take_bit_eq_mask mask_eq_exp_minus_1)
  then show ?thesis by (simp add: take_bit_eq_mod)
qed

lemma sha_result_bytes:
  "map (\<lambda>i. ucast (drop_bit (8 * (3 - (i AND 3))) (h ! drop_bit 2 i))) [0..<4 * length h] = concat (map be_bytes h)"
proof (induction h)
  case (Cons w h)
  have "[0..<4 * length (w # h)] = [0..<4] @ [4..<4 + 4 * length h]"
    using upt_add_eq_append [of 0 4 "4 * length h"] by simp
  moreover have "[0..<4] = [0, 1, 2, 3::nat]" by (simp add: upt_rec)
  moreover have "[4..<4 + 4 * length h] = map (\<lambda>i. i + 4) [0..<4 * length h]"
    by (simp only: map_add_upt add.commute)
  ultimately have "[0..<4 * length (w # h)] = [0, 1, 2, 3] @ map (\<lambda>i. i + 4) [0..<4 * length h]"
    by (simp only:)
  moreover have "(i + 4) div 4 = Suc (i div 4)" for i :: nat by simp
  ultimately show ?case
    using Cons.IH by (simp add: be_bytes_def and_3 drop_bit_eq_div o_def)
qed simp

section \<open>The contract of a message digest\<close>

text \<open>The context of a fresh computation, a piece handed to it, and the result on its own.\<close>

definition sha_stack :: sha_context where
  "sha_stack = \<lparr>Intermediate_Hash = [], Length_Low = 0, Length_High = 0, Message_Block_Index = 0,
     Message_Block = replicate 64 0, Computed = 0, Corrupted = 0\<rparr>"

definition sha_fresh :: "u32 list \<Rightarrow> sha_context" where
  "sha_fresh iv = sha_stack\<lparr>Intermediate_Hash := iv\<rparr>"

definition sha_piece :: "(sha_context \<Rightarrow> sha_context) \<Rightarrow> sha_context \<Rightarrow> bytes \<Rightarrow> sha_context" where
  "sha_piece process c b = (case snd (sha_input process (Ptr c) (Ptr b) (length b)) of Ptr c' \<Rightarrow> c' | NULL \<Rightarrow> c)"

definition sha_value :: "(sha_context \<Rightarrow> sha_context) \<Rightarrow> sha_context \<Rightarrow> bytes" where
  "sha_value process c = concat (map be_bytes (Intermediate_Hash (sha_finalize process 0x80 c)))"

lemma sha_reset_fresh: "sha_reset iv (Ptr sha_stack) = (shaSuccess, Ptr (sha_fresh iv))"
  by (simp add: sha_reset_def sha_fresh_def sha_stack_def)

lemma sha_rep_fresh: "sha_rep f iv (sha_fresh iv) []"
  by (simp add: sha_rep_def sha_fresh_def sha_stack_def)

lemma snd_sha_input: "snd (sha_input process (Ptr c) (Ptr b) (length b)) = Ptr (sha_piece process c b)"
  by (simp add: sha_piece_def sha_input_def)

lemma snd_sha_input_one: "snd (sha_input process (Ptr c) (Ptr [b]) 1) = Ptr (sha_piece process c [b])"
  using snd_sha_input [of process c "[b]"] by simp

lemma sha_result_value:
  assumes "sha_rep f iv c m" "4 * length (Intermediate_Hash (sha_finalize process 0x80 c)) = n"
  shows "sha_result process n (Ptr c) (Ptr md) =
    (shaSuccess, Ptr (sha_finalize process 0x80 c), Ptr (blit 0 (sha_value process c) md))"
  using assms sha_result_bytes [of "Intermediate_Hash (sha_finalize process 0x80 c)"]
  by (simp add: sha_result_def sha_rep_def sha_value_def Let_def)

context sha_family
begin

lemma rep_piece:
  "sha_rep f iv c m \<Longrightarrow> length (m @ b) < 2 ^ 61 \<Longrightarrow> sha_rep f iv (sha_piece process c b) (m @ b)"
  by (erule rep_input [of c m b]) (simp_all add: sha_piece_def)

lemma value_digest: "sha_rep f iv c m \<Longrightarrow> sha_value process c = sha_digest f iv m"
  by (simp add: sha_value_def sha_digest_def finalize)

end

sublocale sha_family \<subseteq> digest: message_digest "sha_fresh iv" "sha_piece process" "sha_value process"
    "sha_rep f iv" "sha_digest f iv" "2 ^ 61"
  by unfold_locales (rule sha_rep_fresh, erule (1) rep_piece, erule value_digest)

context sha_family
begin

text \<open>The result read through a pointer, with as many words in the hash as the result has.\<close>

lemma result_digest:
  assumes "sha_rep f iv c m" "4 * length iv = n" "\<And>h b. length h = length iv \<Longrightarrow> length (f h b) = length iv"
  shows "sha_result process n (Ptr c) (Ptr md) =
    (shaSuccess, Ptr (sha_finalize process 0x80 c), Ptr (blit 0 (sha_digest f iv m) md))"
proof -
  have "length (hash_blocks 64 f iv x) = length iv" for x
    by (rule hash_blocks_invariant [where P = "\<lambda>h. length h = length iv"]) (simp_all add: assms(3))
  then have "4 * length (Intermediate_Hash (sha_finalize process 0x80 c)) = n"
    by (simp add: finalize [OF assms(1)] assms(2))
  then show ?thesis
    by (simp only: sha_result_value [OF assms(1)] value_digest [OF assms(1)])
qed

text \<open>The response of CHAP computed through pointers.\<close>

lemma foldl_input:
  "foldl (\<lambda>ctx c. snd (sha_input process ctx (Ptr [c]) 1)) (Ptr c0) cs =
   Ptr (foldl (\<lambda>c b. sha_piece process c [b]) c0 cs)"
  by (induction cs arbitrary: c0) (simp_all add: snd_sha_input_one [simplified])

lemma chap_result:
  assumes "length (i # s @ cs) < 2 ^ 61" "4 * length iv = n"
    "\<And>h b. length h = length iv \<Longrightarrow> length (f h b) = length iv"
  defines "ctx \<equiv> snd (sha_input process (snd (sha_input process (snd (sha_reset iv (Ptr sha_stack))) (Ptr [i]) 1))
    (Ptr s) (length s))"
  shows "\<exists>c. sha_result process n (foldl (\<lambda>ctx c. snd (sha_input process ctx (Ptr [c]) 1)) ctx cs) (Ptr md) =
    (shaSuccess, Ptr c, Ptr (blit 0 (sha_digest f iv (i # s @ cs)) md))"
proof -
  have "ctx = Ptr (sha_piece process (sha_piece process (sha_fresh iv) [i]) s)"
    by (simp add: ctx_def sha_reset_fresh snd_sha_input snd_sha_input_one [simplified])
  then show ?thesis
    using result_digest [OF digest.rep_of_chap [OF assms(1)] assms(2,3)] by (simp only: foldl_input) blast
qed

end

end
