(* ===== verification/Sha1.thy ===== *)
theory Sha1
  imports Sha_Context
begin

text \<open>
  The SHA-1 of \<open>lib/sha1.c\<close>. The block function builds the eighty words of the schedule in an array
  and runs four loops of twenty rounds; the reference is the standard's recurrence for the schedule
  and one loop of eighty rounds.
\<close>

section \<open>The code\<close>

definition SHA1_ROTL :: "nat \<Rightarrow> u32 \<Rightarrow> u32" where
  "SHA1_ROTL bits word = push_bit bits word OR drop_bit (32 - bits) word"

definition sha1_words :: "bytes \<Rightarrow> u32 list" where
  "sha1_words mb =
     foldl (\<lambda>W t. W @ [SHA1_ROTL 1 (W ! (t - 3) XOR W ! (t - 8) XOR W ! (t - 14) XOR W ! (t - 16))])
       (map (sha_word mb) [0..<16]) [16..<80]"

fun sha1_round ::
  "(u32 \<Rightarrow> u32 \<Rightarrow> u32 \<Rightarrow> u32) \<Rightarrow> u32 \<Rightarrow> u32 list \<Rightarrow> u32 \<times> u32 \<times> u32 \<times> u32 \<times> u32 \<Rightarrow> nat \<Rightarrow> u32 \<times> u32 \<times> u32 \<times> u32 \<times> u32" where
  "sha1_round f k W (A, B, C, D, E) t =
     (let temp = SHA1_ROTL 5 A + f B C D + E + W ! t + k in (temp, A, SHA1_ROTL 30 B, C, D))"

definition SHA1ProcessMessageBlock :: "sha_context \<Rightarrow> sha_context" where
  "SHA1ProcessMessageBlock c =
     (let W = sha1_words (Message_Block c);
          H = Intermediate_Hash c;
          s = (H ! 0, H ! 1, H ! 2, H ! 3, H ! 4);
          s = foldl (sha1_round SHA_Ch 0x5A827999 W) s [0..<20];
          s = foldl (sha1_round SHA_Parity 0x6ED9EBA1 W) s [20..<40];
          s = foldl (sha1_round SHA_Maj 0x8F1BBCDC W) s [40..<60];
          s = foldl (sha1_round SHA_Parity 0xCA62C1D6 W) s [60..<80]
      in case s of (A, B, C, D, E) \<Rightarrow>
           c\<lparr>Intermediate_Hash := [H ! 0 + A, H ! 1 + B, H ! 2 + C, H ! 3 + D, H ! 4 + E],
             Message_Block_Index := 0\<rparr>)"

definition sha1_H0 :: "u32 list" where
  "sha1_H0 = [0x67452301, 0xEFCDAB89, 0x98BADCFE, 0x10325476, 0xC3D2E1F0]"

definition SHA1Reset :: "sha_context ptr \<Rightarrow> int \<times> sha_context ptr" where
  "SHA1Reset = sha_reset sha1_H0"

definition SHA1PadMessage :: "u8 \<Rightarrow> sha_context \<Rightarrow> sha_context" where
  "SHA1PadMessage = sha_pad_message SHA1ProcessMessageBlock"

definition SHA1Finalize :: "u8 \<Rightarrow> sha_context \<Rightarrow> sha_context" where
  "SHA1Finalize = sha_finalize SHA1ProcessMessageBlock"

definition SHA1Input :: "sha_context ptr \<Rightarrow> bytes ptr \<Rightarrow> nat \<Rightarrow> int \<times> sha_context ptr" where
  "SHA1Input = sha_input SHA1ProcessMessageBlock"

definition SHA1FinalBits :: "sha_context ptr \<Rightarrow> u8 \<Rightarrow> nat \<Rightarrow> int \<times> sha_context ptr" where
  "SHA1FinalBits = sha_final_bits SHA1ProcessMessageBlock"

definition SHA1Result :: "sha_context ptr \<Rightarrow> bytes ptr \<Rightarrow> int \<times> sha_context ptr \<times> bytes ptr" where
  "SHA1Result = sha_result SHA1ProcessMessageBlock 20"

section \<open>The reference: FIPS 180\<close>

fun sha1_schedule :: "bytes \<Rightarrow> nat \<Rightarrow> u32" where
  "sha1_schedule mb t =
     (if t < 16 then sha_word mb t
      else word_rotl 1 (sha1_schedule mb (t - 3) XOR sha1_schedule mb (t - 8) XOR
             sha1_schedule mb (t - 14) XOR sha1_schedule mb (t - 16)))"

declare sha1_schedule.simps [simp del]

definition sha1_f :: "nat \<Rightarrow> u32 \<Rightarrow> u32 \<Rightarrow> u32 \<Rightarrow> u32" where
  "sha1_f t x y z =
     (if t < 20 then (x AND y) XOR (NOT x AND z)
      else if 40 \<le> t \<and> t < 60 then (x AND y) XOR (x AND z) XOR (y AND z)
      else x XOR y XOR z)"

definition sha1_K :: "nat \<Rightarrow> u32" where
  "sha1_K t = [0x5A827999, 0x6ED9EBA1, 0x8F1BBCDC, 0xCA62C1D6] ! (t div 20)"

fun sha1_step :: "bytes \<Rightarrow> u32 \<times> u32 \<times> u32 \<times> u32 \<times> u32 \<Rightarrow> nat \<Rightarrow> u32 \<times> u32 \<times> u32 \<times> u32 \<times> u32" where
  "sha1_step mb (a, b, c, d, e) t =
     (word_rotl 5 a + sha1_f t b c d + e + sha1_K t + sha1_schedule mb t, a, word_rotl 30 b, c, d)"

definition sha1_block :: "u32 list \<Rightarrow> bytes \<Rightarrow> u32 list" where
  "sha1_block H mb =
     (case foldl (sha1_step mb) (H ! 0, H ! 1, H ! 2, H ! 3, H ! 4) [0..<80] of
        (a, b, c, d, e) \<Rightarrow> [H ! 0 + a, H ! 1 + b, H ! 2 + c, H ! 3 + d, H ! 4 + e])"

definition sha1_digest :: "bytes \<Rightarrow> bytes" where
  "sha1_digest = sha_digest sha1_block sha1_H0"

section \<open>The block function is the standard's\<close>

lemma SHA1_ROTL_rotl: "0 < n \<Longrightarrow> n < 32 \<Longrightarrow> SHA1_ROTL n w = word_rotl n w"
  using rotl_shifts_32 by (simp add: SHA1_ROTL_def)

lemma sha1_words_schedule: "sha1_words mb = map (sha1_schedule mb) [0..<80]"
proof -
  have "map (sha_word mb) [0..<16] = map (sha1_schedule mb) [0..<16]"
    by (simp add: sha1_schedule.simps)
  moreover have "SHA1_ROTL 1 (W ! (t - 3) XOR W ! (t - 8) XOR W ! (t - 14) XOR W ! (t - 16)) = sha1_schedule mb t"
    if "16 \<le> t" "W = map (sha1_schedule mb) [0..<t]" for W t
    using that by (simp add: sha1_schedule.simps [of mb t] SHA1_ROTL_rotl)
  ultimately show ?thesis
    unfolding sha1_words_def by (simp only:) (rule fill_recurrence, simp_all)
qed

lemma sha1_rounds:
  assumes "\<And>t. i \<le> t \<Longrightarrow> t < j \<Longrightarrow> t < 80 \<and> f = sha1_f t \<and> k = sha1_K t"
  shows "foldl (sha1_round f k (sha1_words mb)) s [i..<j] = foldl (sha1_step mb) s [i..<j]"
proof (rule foldl_cong [OF refl refl])
  fix u t
  assume "t \<in> set [i..<j]"
  then have "t < 80 \<and> f = sha1_f t \<and> k = sha1_K t" using assms by simp
  then show "sha1_round f k (sha1_words mb) u t = sha1_step mb u t"
    by (cases u) (simp add: Let_def sha1_words_schedule SHA1_ROTL_rotl ac_simps)
qed

lemma sha1_f_code:
  "t < 20 \<Longrightarrow> SHA_Ch = sha1_f t" "20 \<le> t \<Longrightarrow> t < 40 \<Longrightarrow> SHA_Parity = sha1_f t"
  "40 \<le> t \<Longrightarrow> t < 60 \<Longrightarrow> SHA_Maj = sha1_f t" "60 \<le> t \<Longrightarrow> SHA_Parity = sha1_f t"
  by (simp_all add: fun_eq_iff sha1_f_def SHA_Ch_def SHA_Parity_def SHA_Maj_def)

lemma sha1_K_code:
  "t < 20 \<Longrightarrow> sha1_K t = 0x5A827999" "20 \<le> t \<Longrightarrow> t < 40 \<Longrightarrow> sha1_K t = 0x6ED9EBA1"
  "40 \<le> t \<Longrightarrow> t < 60 \<Longrightarrow> sha1_K t = 0x8F1BBCDC" "60 \<le> t \<Longrightarrow> t < 80 \<Longrightarrow> sha1_K t = 0xCA62C1D6"
proof -
  have "t div 20 = 1" if "20 \<le> t" "t < 40" using that by (intro div_nat_eqI) simp_all
  moreover have "t div 20 = 2" if "40 \<le> t" "t < 60" using that by (intro div_nat_eqI) simp_all
  moreover have "t div 20 = 3" if "60 \<le> t" "t < 80" using that by (intro div_nat_eqI) simp_all
  ultimately show "t < 20 \<Longrightarrow> sha1_K t = 0x5A827999" "20 \<le> t \<Longrightarrow> t < 40 \<Longrightarrow> sha1_K t = 0x6ED9EBA1"
    "40 \<le> t \<Longrightarrow> t < 60 \<Longrightarrow> sha1_K t = 0x8F1BBCDC" "60 \<le> t \<Longrightarrow> t < 80 \<Longrightarrow> sha1_K t = 0xCA62C1D6"
    by (simp_all add: sha1_K_def)
qed

lemma SHA1ProcessMessageBlock_block:
  "SHA1ProcessMessageBlock c =
     c\<lparr>Intermediate_Hash := sha1_block (Intermediate_Hash c) (Message_Block c), Message_Block_Index := 0\<rparr>"
proof -
  let ?mb = "Message_Block c"
  have r: "foldl (sha1_round SHA_Ch 0x5A827999 (sha1_words ?mb)) s [0..<20] = foldl (sha1_step ?mb) s [0..<20]"
    "foldl (sha1_round SHA_Parity 0x6ED9EBA1 (sha1_words ?mb)) s [20..<40] = foldl (sha1_step ?mb) s [20..<40]"
    "foldl (sha1_round SHA_Maj 0x8F1BBCDC (sha1_words ?mb)) s [40..<60] = foldl (sha1_step ?mb) s [40..<60]"
    "foldl (sha1_round SHA_Parity 0xCA62C1D6 (sha1_words ?mb)) s [60..<80] = foldl (sha1_step ?mb) s [60..<80]" for s
    by (rule sha1_rounds; simp add: sha1_f_code sha1_K_code)+
  have "[0..<80] = [0..<20] @ [20..<40] @ [40..<60] @ [60..<80::nat]"
    using upt_add_eq_append [of 0 20 60] upt_add_eq_append [of 20 40 40] upt_add_eq_append [of 40 60 20] by simp
  then show ?thesis
    unfolding SHA1ProcessMessageBlock_def Let_def r sha1_block_def
    by (simp only: foldl_append) (simp split: prod.split)
qed

interpretation sha1: sha_family SHA1ProcessMessageBlock sha1_block sha1_H0
  by unfold_locales (rule SHA1ProcessMessageBlock_block)

lemma length_sha1_block: "length (sha1_block h b) = 5"
  by (simp add: sha1_block_def split: prod.split)

end
