(* ===== verification/Sha256.thy ===== *)
theory Sha256
  imports Sha_Context
begin

text \<open>
  The SHA-256 of \<open>lib/sha224-256.c\<close>; SHA-224 is not compiled (\<open>USE_SHA224\<close> is 0 in \<open>sha.h\<close>). As for
  SHA-1 the code's block function, with its macros and its array of sixty-four words, is shown to be
  the standard's recurrence and rounds.
\<close>

section \<open>The code\<close>

definition SHA256_SHR :: "nat \<Rightarrow> u32 \<Rightarrow> u32" where
  "SHA256_SHR bits word = drop_bit bits word"

definition SHA256_ROTR :: "nat \<Rightarrow> u32 \<Rightarrow> u32" where
  "SHA256_ROTR bits word = drop_bit bits word OR push_bit (32 - bits) word"

definition SHA256_SIGMA0 :: "u32 \<Rightarrow> u32" where
  "SHA256_SIGMA0 word = SHA256_ROTR 2 word XOR SHA256_ROTR 13 word XOR SHA256_ROTR 22 word"

definition SHA256_SIGMA1 :: "u32 \<Rightarrow> u32" where
  "SHA256_SIGMA1 word = SHA256_ROTR 6 word XOR SHA256_ROTR 11 word XOR SHA256_ROTR 25 word"

definition SHA256_sigma0 :: "u32 \<Rightarrow> u32" where
  "SHA256_sigma0 word = SHA256_ROTR 7 word XOR SHA256_ROTR 18 word XOR SHA256_SHR 3 word"

definition SHA256_sigma1 :: "u32 \<Rightarrow> u32" where
  "SHA256_sigma1 word = SHA256_ROTR 17 word XOR SHA256_ROTR 19 word XOR SHA256_SHR 10 word"

definition sha256_K :: "u32 list" where
  "sha256_K = [
     0x428a2f98, 0x71374491, 0xb5c0fbcf, 0xe9b5dba5, 0x3956c25b, 0x59f111f1, 0x923f82a4, 0xab1c5ed5,
     0xd807aa98, 0x12835b01, 0x243185be, 0x550c7dc3, 0x72be5d74, 0x80deb1fe, 0x9bdc06a7, 0xc19bf174,
     0xe49b69c1, 0xefbe4786, 0x0fc19dc6, 0x240ca1cc, 0x2de92c6f, 0x4a7484aa, 0x5cb0a9dc, 0x76f988da,
     0x983e5152, 0xa831c66d, 0xb00327c8, 0xbf597fc7, 0xc6e00bf3, 0xd5a79147, 0x06ca6351, 0x14292967,
     0x27b70a85, 0x2e1b2138, 0x4d2c6dfc, 0x53380d13, 0x650a7354, 0x766a0abb, 0x81c2c92e, 0x92722c85,
     0xa2bfe8a1, 0xa81a664b, 0xc24b8b70, 0xc76c51a3, 0xd192e819, 0xd6990624, 0xf40e3585, 0x106aa070,
     0x19a4c116, 0x1e376c08, 0x2748774c, 0x34b0bcb5, 0x391c0cb3, 0x4ed8aa4a, 0x5b9cca4f, 0x682e6ff3,
     0x748f82ee, 0x78a5636f, 0x84c87814, 0x8cc70208, 0x90befffa, 0xa4506ceb, 0xbef9a3f7, 0xc67178f2]"

definition sha256_words :: "bytes \<Rightarrow> u32 list" where
  "sha256_words mb =
     foldl (\<lambda>W t. W @ [SHA256_sigma1 (W ! (t - 2)) + W ! (t - 7) + SHA256_sigma0 (W ! (t - 15)) + W ! (t - 16)])
       (map (\<lambda>t. push_bit 24 (ucast (mb ! (4 * t))) OR push_bit 16 (ucast (mb ! (4 * t + 1))) OR
               push_bit 8 (ucast (mb ! (4 * t + 2))) OR ucast (mb ! (4 * t + 3))) [0..<16]) [16..<64]"

fun sha256_round ::
  "u32 list \<Rightarrow> u32 \<times> u32 \<times> u32 \<times> u32 \<times> u32 \<times> u32 \<times> u32 \<times> u32 \<Rightarrow> nat \<Rightarrow>
   u32 \<times> u32 \<times> u32 \<times> u32 \<times> u32 \<times> u32 \<times> u32 \<times> u32" where
  "sha256_round W (A, B, C, D, E, F, G, H) t =
     (let temp1 = H + SHA256_SIGMA1 E + SHA_Ch E F G + sha256_K ! t + W ! t;
          temp2 = SHA256_SIGMA0 A + SHA_Maj A B C
      in (temp1 + temp2, A, B, C, D + temp1, E, F, G))"

definition SHA224_256ProcessMessageBlock :: "sha_context \<Rightarrow> sha_context" where
  "SHA224_256ProcessMessageBlock c =
     (let W = sha256_words (Message_Block c);
          I = Intermediate_Hash c
      in case foldl (sha256_round W) (I ! 0, I ! 1, I ! 2, I ! 3, I ! 4, I ! 5, I ! 6, I ! 7) [0..<64] of
           (A, B, C, D, E, F, G, H) \<Rightarrow>
             c\<lparr>Intermediate_Hash := [I ! 0 + A, I ! 1 + B, I ! 2 + C, I ! 3 + D, I ! 4 + E, I ! 5 + F, I ! 6 + G, I ! 7 + H],
               Message_Block_Index := 0\<rparr>)"

definition SHA256_H0 :: "u32 list" where
  "SHA256_H0 = [0x6A09E667, 0xBB67AE85, 0x3C6EF372, 0xA54FF53A,
     0x510E527F, 0x9B05688C, 0x1F83D9AB, 0x5BE0CD19]"

definition SHA224_256Reset :: "sha_context ptr \<Rightarrow> u32 list \<Rightarrow> int \<times> sha_context ptr" where
  "SHA224_256Reset context H0 = sha_reset H0 context"

definition SHA224_256PadMessage :: "u8 \<Rightarrow> sha_context \<Rightarrow> sha_context" where
  "SHA224_256PadMessage = sha_pad_message SHA224_256ProcessMessageBlock"

definition SHA224_256Finalize :: "u8 \<Rightarrow> sha_context \<Rightarrow> sha_context" where
  "SHA224_256Finalize = sha_finalize SHA224_256ProcessMessageBlock"

definition SHA224_256ResultN :: "sha_context ptr \<Rightarrow> bytes ptr \<Rightarrow> nat \<Rightarrow> int \<times> sha_context ptr \<times> bytes ptr" where
  "SHA224_256ResultN context digest hash_size = sha_result SHA224_256ProcessMessageBlock hash_size context digest"

definition SHA256Reset :: "sha_context ptr \<Rightarrow> int \<times> sha_context ptr" where
  "SHA256Reset context = SHA224_256Reset context SHA256_H0"

definition SHA256Input :: "sha_context ptr \<Rightarrow> bytes ptr \<Rightarrow> nat \<Rightarrow> int \<times> sha_context ptr" where
  "SHA256Input = sha_input SHA224_256ProcessMessageBlock"

definition SHA256FinalBits :: "sha_context ptr \<Rightarrow> u8 \<Rightarrow> nat \<Rightarrow> int \<times> sha_context ptr" where
  "SHA256FinalBits = sha_final_bits SHA224_256ProcessMessageBlock"

definition SHA256Result :: "sha_context ptr \<Rightarrow> bytes ptr \<Rightarrow> int \<times> sha_context ptr \<times> bytes ptr" where
  "SHA256Result context digest = SHA224_256ResultN context digest 32"

section \<open>The reference: FIPS 180\<close>

definition fips_sigma :: "nat \<Rightarrow> nat \<Rightarrow> (u32 \<Rightarrow> u32) \<Rightarrow> u32 \<Rightarrow> u32" where
  "fips_sigma i j g x = word_rotr i x XOR word_rotr j x XOR g x"

function sha256_schedule :: "bytes \<Rightarrow> nat \<Rightarrow> u32" where
  "sha256_schedule mb t =
     (if t < 16 then sha_word mb t
      else fips_sigma 17 19 (drop_bit 10) (sha256_schedule mb (t - 2)) + sha256_schedule mb (t - 7) +
           fips_sigma 7 18 (drop_bit 3) (sha256_schedule mb (t - 15)) + sha256_schedule mb (t - 16))"
  by pat_completeness auto
termination by (relation "measure snd") auto

declare sha256_schedule.simps [simp del]

fun sha256_step ::
  "bytes \<Rightarrow> u32 \<times> u32 \<times> u32 \<times> u32 \<times> u32 \<times> u32 \<times> u32 \<times> u32 \<Rightarrow> nat \<Rightarrow>
   u32 \<times> u32 \<times> u32 \<times> u32 \<times> u32 \<times> u32 \<times> u32 \<times> u32" where
  "sha256_step mb (a, b, c, d, e, f, g, h) t =
     (let T1 = h + fips_sigma 6 11 (word_rotr 25) e + ((e AND f) XOR (NOT e AND g)) + sha256_K ! t + sha256_schedule mb t;
          T2 = fips_sigma 2 13 (word_rotr 22) a + ((a AND b) XOR (a AND c) XOR (b AND c))
      in (T1 + T2, a, b, c, d + T1, e, f, g))"

definition sha256_block :: "u32 list \<Rightarrow> bytes \<Rightarrow> u32 list" where
  "sha256_block H mb =
     (case foldl (sha256_step mb) (H ! 0, H ! 1, H ! 2, H ! 3, H ! 4, H ! 5, H ! 6, H ! 7) [0..<64] of
        (a, b, c, d, e, f, g, h) \<Rightarrow>
          [H ! 0 + a, H ! 1 + b, H ! 2 + c, H ! 3 + d, H ! 4 + e, H ! 5 + f, H ! 6 + g, H ! 7 + h])"

definition sha256_digest :: "bytes \<Rightarrow> bytes" where
  "sha256_digest = sha_digest sha256_block SHA256_H0"

section \<open>The block function is the standard's\<close>

lemma SHA256_ROTR_rotr:
  assumes "0 < k" "k < 32"
  shows "SHA256_ROTR k w = word_rotr k w"
proof (rule bit_word_eqI)
  fix n
  assume "n < LENGTH(32)"
  then have n: "n < 32" by simp
  have "(n + k) mod 32 = (if n + k < 32 then n + k else n + k - 32)"
    using n assms le_mod_geq [of 32 "n + k"] by auto
  then show "bit (SHA256_ROTR k w) n = bit (word_rotr k w) n"
    using n assms by (auto simp: SHA256_ROTR_def bit_word_rotr_iff bit_simps add.commute [of k n] dest: bit_imp_le_length)
qed

lemmas sha256_macros = SHA256_SIGMA0_def SHA256_SIGMA1_def SHA256_sigma0_def SHA256_sigma1_def
  SHA256_SHR_def SHA256_ROTR_rotr fips_sigma_def SHA_Ch_def SHA_Maj_def

lemma sha256_words_schedule: "sha256_words mb = map (sha256_schedule mb) [0..<64]"
proof -
  have "map (\<lambda>t. push_bit 24 (ucast (mb ! (4 * t))) OR push_bit 16 (ucast (mb ! (4 * t + 1))) OR
      push_bit 8 (ucast (mb ! (4 * t + 2))) OR ucast (mb ! (4 * t + 3))) [0..<16] = map (sha256_schedule mb) [0..<16]"
    by (simp add: sha256_schedule.simps sha_word_def mult.commute)
  moreover have "SHA256_sigma1 (W ! (t - 2)) + W ! (t - 7) + SHA256_sigma0 (W ! (t - 15)) + W ! (t - 16) = sha256_schedule mb t"
    if "16 \<le> t" "W = map (sha256_schedule mb) [0..<t]" for W t
    using that by (simp add: sha256_schedule.simps [of mb t] sha256_macros)
  ultimately show ?thesis
    unfolding sha256_words_def by (simp only:) (rule fill_recurrence, simp_all)
qed

lemma sha256_state_cases:
  obtains a b c d e f g h where "(s :: u32 \<times> u32 \<times> u32 \<times> u32 \<times> u32 \<times> u32 \<times> u32 \<times> u32) = (a, b, c, d, e, f, g, h)"
  by (cases s) auto

lemma sha256_round_step:
  "t < 64 \<Longrightarrow> sha256_round (sha256_words mb) s t = sha256_step mb s t"
  by (cases s rule: sha256_state_cases) (simp add: Let_def sha256_words_schedule sha256_macros)

lemma SHA224_256ProcessMessageBlock_block:
  "SHA224_256ProcessMessageBlock c =
     c\<lparr>Intermediate_Hash := sha256_block (Intermediate_Hash c) (Message_Block c), Message_Block_Index := 0\<rparr>"
proof -
  have "foldl (sha256_round (sha256_words mb)) s [0..<64] = foldl (sha256_step mb) s [0..<64]" for mb s
    by (rule foldl_cong) (simp_all add: sha256_round_step)
  then show ?thesis
    unfolding SHA224_256ProcessMessageBlock_def Let_def sha256_block_def by (simp split: prod.split)
qed

interpretation sha256: sha_family SHA224_256ProcessMessageBlock sha256_block SHA256_H0
  by unfold_locales (rule SHA224_256ProcessMessageBlock_block)

lemma length_sha256_block: "length (sha256_block h b) = 8"
  by (simp add: sha256_block_def split: prod.split)

end
