(* ===== verification/Keccak.thy ===== *)
theory Keccak
  imports Message_Digest
begin

text \<open>
  The permutation of \<open>lib/sha3.c\<close>, \<open>sha3_keccakf\<close>: twenty-four rounds over an array of twenty-five
  words, each step in place. The reference is the permutation of FIPS 202, whose steps are equations
  on the lanes \<open>A x y\<close> of a five by five state, with the offsets of the standard's table and the round
  constants of its shift register.
\<close>

section \<open>The code\<close>

definition keccakf_rndc :: "u64 list" where
  "keccakf_rndc = [
     0x0000000000000001, 0x0000000000008082, 0x800000000000808a,
     0x8000000080008000, 0x000000000000808b, 0x0000000080000001,
     0x8000000080008081, 0x8000000000008009, 0x000000000000008a,
     0x0000000000000088, 0x0000000080008009, 0x000000008000000a,
     0x000000008000808b, 0x800000000000008b, 0x8000000000008089,
     0x8000000000008003, 0x8000000000008002, 0x8000000000000080,
     0x000000000000800a, 0x800000008000000a, 0x8000000080008081,
     0x8000000000008080, 0x0000000080000001, 0x8000000080008008]"

definition keccakf_rotc :: "nat list" where
  "keccakf_rotc = [
     1, 3, 6, 10, 15, 21, 28, 36, 45, 55, 2, 14,
     27, 41, 56, 8, 25, 43, 62, 18, 39, 61, 20, 44]"

definition keccakf_piln :: "nat list" where
  "keccakf_piln = [
     10, 7, 11, 17, 18, 3, 5, 16, 8, 21, 24, 4,
     15, 23, 19, 13, 12, 2, 20, 14, 22, 9, 6, 1]"

definition ROTL64 :: "u64 \<Rightarrow> nat \<Rightarrow> u64" where
  "ROTL64 x y = push_bit y x OR drop_bit (64 - y) x"

definition keccakf_theta :: "u64 list \<Rightarrow> u64 list" where
  "keccakf_theta st =
     (let bc = map (\<lambda>i. st ! i XOR st ! (i + 5) XOR st ! (i + 10) XOR st ! (i + 15) XOR st ! (i + 20)) [0..<5]
      in foldl (\<lambda>st i.
           let t = bc ! ((i + 4) mod 5) XOR ROTL64 (bc ! ((i + 1) mod 5)) 1
           in foldl (\<lambda>st j. st[j + i := st ! (j + i) XOR t]) st [0, 5, 10, 15, 20]) st [0..<5])"

definition keccakf_rho_pi :: "u64 list \<Rightarrow> u64 list" where
  "keccakf_rho_pi st =
     snd (foldl (\<lambda>(t, st) i.
       let j = keccakf_piln ! i; bc0 = st ! j
       in (bc0, st[j := ROTL64 t (keccakf_rotc ! i)])) (st ! 1, st) [0..<24])"

definition keccakf_chi :: "u64 list \<Rightarrow> u64 list" where
  "keccakf_chi st =
     foldl (\<lambda>st j.
       let bc = map (\<lambda>i. st ! (j + i)) [0..<5]
       in foldl (\<lambda>st i. st[j + i := st ! (j + i) XOR (NOT (bc ! ((i + 1) mod 5)) AND bc ! ((i + 2) mod 5))]) st [0..<5])
       st [0, 5, 10, 15, 20]"

definition sha3_keccakf :: "u64 list \<Rightarrow> u64 list" where
  "sha3_keccakf st =
     foldl (\<lambda>st r.
       let st = keccakf_chi (keccakf_rho_pi (keccakf_theta st))
       in st[0 := st ! 0 XOR keccakf_rndc ! r]) st [0..<24]"

section \<open>The reference: FIPS 202\<close>

type_synonym lanes = "nat \<Rightarrow> nat \<Rightarrow> u64"

definition lanes_of :: "u64 list \<Rightarrow> lanes" where
  "lanes_of st x y = st ! (x + 5 * y)"

definition of_lanes :: "lanes \<Rightarrow> u64 list" where
  "of_lanes A = map (\<lambda>i. A (i mod 5) (i div 5)) [0..<25]"

definition theta :: "lanes \<Rightarrow> lanes" where
  "theta A x y =
     (let C = \<lambda>x. A x 0 XOR A x 1 XOR A x 2 XOR A x 3 XOR A x 4
      in A x y XOR (C ((x + 4) mod 5) XOR word_rotl 1 (C ((x + 1) mod 5))))"

text \<open>The offsets of the standard's table, a row for each \<open>y\<close>.\<close>

definition rho_offset :: "nat \<Rightarrow> nat \<Rightarrow> nat" where
  "rho_offset x y =
     [[0, 1, 190, 28, 91],
      [36, 300, 6, 55, 276],
      [3, 10, 171, 153, 231],
      [105, 45, 15, 21, 136],
      [210, 66, 253, 120, 78]] ! y ! x mod 64"

definition rho :: "lanes \<Rightarrow> lanes" where
  "rho A x y = word_rotl (rho_offset x y) (A x y)"

definition pi_step :: "lanes \<Rightarrow> lanes" where
  "pi_step A x y = A ((x + 3 * y) mod 5) x"

definition chi :: "lanes \<Rightarrow> lanes" where
  "chi A x y = A x y XOR (NOT (A ((x + 1) mod 5) y) AND A ((x + 2) mod 5) y)"

text \<open>
  The shift register: each step gives a bit, and the bits of seven steps are placed at the positions
  0, 1, 3, 7, 15, 31 and 63 of a round constant.
\<close>

fun lfsr_step :: "bool list \<Rightarrow> bool list" where
  "lfsr_step [r0, r1, r2, r3, r4, r5, r6, r7] = [r7, r0, r1, r2, r3 \<noteq> r7, r4 \<noteq> r7, r5 \<noteq> r7, r6]"
| "lfsr_step R = R"

fun lfsr_constant :: "nat list \<Rightarrow> bool list \<Rightarrow> u64 \<times> bool list" where
  "lfsr_constant [] R = (0, R)"
| "lfsr_constant (j # js) R =
     (case lfsr_constant js (lfsr_step R) of (w, R') \<Rightarrow> (if hd R then push_bit j 1 OR w else w, R'))"

fun round_constants :: "nat \<Rightarrow> bool list \<Rightarrow> u64 list" where
  "round_constants 0 R = []"
| "round_constants (Suc n) R =
     (case lfsr_constant [0, 1, 3, 7, 15, 31, 63] R of (w, R') \<Rightarrow> w # round_constants n R')"

definition keccak_RC :: "u64 list" where
  "keccak_RC = round_constants 24 [True, False, False, False, False, False, False, False]"

definition iota :: "nat \<Rightarrow> lanes \<Rightarrow> lanes" where
  "iota r A x y = (if x = 0 \<and> y = 0 then A x y XOR keccak_RC ! r else A x y)"

definition keccak_f :: "u64 list \<Rightarrow> u64 list" where
  "keccak_f st = foldl (\<lambda>st r. of_lanes (iota r (chi (pi_step (rho (theta (lanes_of st))))))) st [0..<24]"

section \<open>The code is the permutation of the standard\<close>

lemma ROTL64_rotl: "0 < n \<Longrightarrow> n < 64 \<Longrightarrow> ROTL64 w n = word_rotl n w"
  using word_rotl_shifts [where ?'a = 64, of n w] by (simp add: ROTL64_def)

lemma keccak_RC_table: "keccak_RC = keccakf_rndc"
  by code_simp

lemma word_rotl_0: "word_rotl 0 (w :: u64) = w"
  by (rule bit_word_eqI) (simp add: bit_word_rotl_iff)

lemma list_25:
  assumes "length (st :: u64 list) = 25"
  obtains a0 a1 a2 a3 a4 a5 a6 a7 a8 a9 b0 b1 b2 b3 b4 b5 b6 b7 b8 b9 c0 c1 c2 c3 c4
  where "st = [a0, a1, a2, a3, a4, a5, a6, a7, a8, a9, b0, b1, b2, b3, b4, b5, b6, b7, b8, b9, c0, c1, c2, c3, c4]"
  using assms that by (auto simp: numeral_eq_Suc length_Suc_conv)

lemma theta_code:
  assumes "length st = 25"
  shows "keccakf_theta st = of_lanes (theta (lanes_of st))"
  using assms
  by (rule list_25) (simp add: keccakf_theta_def of_lanes_def theta_def lanes_of_def upt_rec ROTL64_rotl Let_def)

lemma chi_code:
  assumes "length st = 25"
  shows "keccakf_chi st = of_lanes (chi (lanes_of st))"
  using assms
  by (rule list_25) (simp add: keccakf_chi_def of_lanes_def chi_def lanes_of_def upt_rec Let_def)

lemma rho_pi_code:
  assumes "length st = 25"
  shows "keccakf_rho_pi st = of_lanes (pi_step (rho (lanes_of st)))"
  using assms
  by (rule list_25) (simp add: keccakf_rho_pi_def of_lanes_def pi_step_def rho_def rho_offset_def lanes_of_def upt_rec
      keccakf_piln_def keccakf_rotc_def ROTL64_rotl word_rotl_0 Let_def)

text \<open>A step reads lanes of the five by five state only.\<close>

lemma length_of_lanes [simp]: "length (of_lanes A) = 25"
  by (simp add: of_lanes_def)

lemma lanes_of_of_lanes:
  assumes "x < 5" "y < 5"
  shows "lanes_of (of_lanes A) x y = A x y"
proof -
  have "x + 5 * y < 25" "(x + 5 * y) mod 5 = x" "(x + 5 * y) div 5 = y" using assms by simp_all
  then show ?thesis by (simp add: lanes_of_def of_lanes_def)
qed

lemma of_lanes_cong: "(\<And>x y. x < 5 \<Longrightarrow> y < 5 \<Longrightarrow> A x y = B x y) \<Longrightarrow> of_lanes A = of_lanes B"
  by (auto simp: of_lanes_def)

lemma rho_pi_lanes: "of_lanes (pi_step (rho (lanes_of (of_lanes A)))) = of_lanes (pi_step (rho A))"
  by (rule of_lanes_cong) (simp add: pi_step_def rho_def lanes_of_of_lanes)

lemma chi_lanes: "of_lanes (chi (lanes_of (of_lanes A))) = of_lanes (chi A)"
  by (rule of_lanes_cong) (simp add: chi_def lanes_of_of_lanes)

lemma iota_code: "(of_lanes A)[0 := of_lanes A ! 0 XOR keccakf_rndc ! r] = of_lanes (iota r A)"
  by (rule nth_equalityI) (auto simp: of_lanes_def iota_def nth_list_update keccak_RC_table)

lemma keccak_round:
  assumes "length st = 25"
  shows "(let st = keccakf_chi (keccakf_rho_pi (keccakf_theta st)) in st[0 := st ! 0 XOR keccakf_rndc ! r]) =
    of_lanes (iota r (chi (pi_step (rho (theta (lanes_of st))))))"
  by (simp only: theta_code [OF assms] rho_pi_code [OF length_of_lanes] chi_code [OF length_of_lanes]
      rho_pi_lanes chi_lanes iota_code Let_def)

lemma sha3_keccakf_standard:
  assumes "length st = 25"
  shows "sha3_keccakf st = keccak_f st"
proof -
  have "length st = 25 \<Longrightarrow> foldl (\<lambda>st r. let st = keccakf_chi (keccakf_rho_pi (keccakf_theta st))
      in st[0 := st ! 0 XOR keccakf_rndc ! r]) st rs =
    foldl (\<lambda>st r. of_lanes (iota r (chi (pi_step (rho (theta (lanes_of st))))))) st rs" for rs
  proof (induction rs arbitrary: st)
    case (Cons r rs)
    then show ?case by (simp only: foldl_Cons keccak_round length_of_lanes)
  qed simp
  then show ?thesis using assms by (simp only: sha3_keccakf_def keccak_f_def)
qed

lemma length_keccak_f: "length st = 25 \<Longrightarrow> length (keccak_f st) = 25"
proof -
  have "length st = 25 \<Longrightarrow>
      length (foldl (\<lambda>st r. of_lanes (iota r (chi (pi_step (rho (theta (lanes_of st))))))) st rs) = 25" for rs
    by (induction rs arbitrary: st) simp_all
  then show "length st = 25 \<Longrightarrow> length (keccak_f st) = 25" by (simp only: keccak_f_def)
qed

end
