(* ===== verification/Sha3.thy ===== *)
theory Sha3
  imports Keccak
begin

text \<open>
  The sponge of \<open>lib/sha3.c\<close>: the context with its state of 200 bytes, the update byte by byte, the
  padding in place and the digest, and the extensible output. The reference is the sponge of FIPS 202
  on the whole padded message.
\<close>

section \<open>The code\<close>

text \<open>
  The state is a union of bytes and words. The words are those of the bytes, least significant byte
  first: on a big-endian machine \<open>sha3_keccakf\<close> converts them itself.
\<close>

record sha3_ctx =
  sha3_st :: bytes
  sha3_pt :: nat
  sha3_rsiz :: int
  sha3_mdlen :: int

definition sha3_words :: "bytes \<Rightarrow> u64 list" where
  "sha3_words b = map (\<lambda>i.
     ucast (b ! (8 * i)) OR push_bit 8 (ucast (b ! (8 * i + 1))) OR
     push_bit 16 (ucast (b ! (8 * i + 2))) OR push_bit 24 (ucast (b ! (8 * i + 3))) OR
     push_bit 32 (ucast (b ! (8 * i + 4))) OR push_bit 40 (ucast (b ! (8 * i + 5))) OR
     push_bit 48 (ucast (b ! (8 * i + 6))) OR push_bit 56 (ucast (b ! (8 * i + 7)))) [0..<25]"

definition sha3_bytes :: "u64 list \<Rightarrow> bytes" where
  "sha3_bytes q = map (\<lambda>i. ucast (drop_bit (8 * (i mod 8)) (q ! (i div 8)) AND 0xFF)) [0..<200]"

definition sha3_permute :: "sha3_ctx \<Rightarrow> sha3_ctx" where
  "sha3_permute c = c\<lparr>sha3_st := sha3_bytes (sha3_keccakf (sha3_words (sha3_st c)))\<rparr>"

text \<open>\<open>c->st.b[i] ^= x\<close>\<close>

definition sha3_xor :: "nat \<Rightarrow> u8 \<Rightarrow> sha3_ctx \<Rightarrow> sha3_ctx" where
  "sha3_xor i x c = c\<lparr>sha3_st := (sha3_st c)[i := sha3_st c ! i XOR x]\<rparr>"

definition sha3_init :: "sha3_ctx \<Rightarrow> int \<Rightarrow> int \<times> sha3_ctx" where
  "sha3_init c mdlen =
     (1, c\<lparr>sha3_st := replicate 200 0, sha3_mdlen := mdlen, sha3_rsiz := 200 - 2 * mdlen, sha3_pt := 0\<rparr>)"

fun sha3_update_loop :: "nat \<Rightarrow> bytes \<Rightarrow> sha3_ctx \<Rightarrow> nat \<times> sha3_ctx" where
  "sha3_update_loop j [] c = (j, c)"
| "sha3_update_loop j (x # data) c =
     (let c = sha3_xor j x c; j = j + 1
      in if sha3_rsiz c \<le> int j then sha3_update_loop 0 data (sha3_permute c)
         else sha3_update_loop j data c)"

definition sha3_update :: "sha3_ctx \<Rightarrow> bytes \<Rightarrow> nat \<Rightarrow> int \<times> sha3_ctx" where
  "sha3_update c data len =
     (let (j, c) = sha3_update_loop (sha3_pt c) (take len data) c in (1, c\<lparr>sha3_pt := j\<rparr>))"

text \<open>The digest is stored at the start of \<open>md\<close>.\<close>

definition sha3_final :: "bytes \<Rightarrow> sha3_ctx \<Rightarrow> int \<times> bytes \<times> sha3_ctx" where
  "sha3_final md c =
     (let c = sha3_xor (sha3_pt c) 0x06 c;
          c = sha3_xor (nat (sha3_rsiz c - 1)) 0x80 c;
          c = sha3_permute c
      in (1, blit 0 (map (\<lambda>i. sha3_st c ! i) [0..<nat (sha3_mdlen c)]) md, c))"

definition sha3 :: "sha3_ctx \<Rightarrow> bytes \<Rightarrow> nat \<Rightarrow> bytes \<Rightarrow> int \<Rightarrow> bytes" where
  "sha3 stack data inlen md mdlen =
     (let (_, c) = sha3_init stack mdlen; (_, c) = sha3_update c data inlen; (_, md, c) = sha3_final md c in md)"

definition shake_xof :: "sha3_ctx \<Rightarrow> sha3_ctx" where
  "shake_xof c =
     (let c = sha3_xor (sha3_pt c) 0x1F c;
          c = sha3_xor (nat (sha3_rsiz c - 1)) 0x80 c;
          c = sha3_permute c
      in c\<lparr>sha3_pt := 0\<rparr>)"

text \<open>The next \<open>len\<close> bytes of the output.\<close>

fun shake_out_loop :: "nat \<Rightarrow> nat \<Rightarrow> sha3_ctx \<Rightarrow> bytes \<times> nat \<times> sha3_ctx" where
  "shake_out_loop j 0 c = ([], j, c)"
| "shake_out_loop j (Suc len) c =
     (let (j, c) = (if sha3_rsiz c \<le> int j then (0, sha3_permute c) else (j, c));
          (out, j', c') = shake_out_loop (j + 1) len c
      in (sha3_st c ! j # out, j', c'))"

definition shake_out :: "sha3_ctx \<Rightarrow> nat \<Rightarrow> bytes \<times> sha3_ctx" where
  "shake_out c len = (let (out, j, c) = shake_out_loop (sha3_pt c) len c in (out, c\<lparr>sha3_pt := j\<rparr>))"

section \<open>The reference: the sponge of FIPS 202\<close>

text \<open>A block is added to the state, then the state is permuted.\<close>

definition xor_into :: "bytes \<Rightarrow> bytes \<Rightarrow> bytes" where
  "xor_into b st = map (\<lambda>i. if i < length b then st ! i XOR b ! i else st ! i) [0..<length st]"

definition sponge_block :: "bytes \<Rightarrow> bytes \<Rightarrow> bytes" where
  "sponge_block st b = sha3_bytes (keccak_f (sha3_words (xor_into b st)))"

text \<open>The suffix of SHA-3 and the padding with a first and a last bit, in \<open>k\<close> bytes.\<close>

definition sha3_padding :: "nat \<Rightarrow> bytes" where
  "sha3_padding k = (let p = 0x06 # replicate (k - 1) 0 in butlast p @ [last p XOR 0x80])"

definition sha3_digest :: "nat \<Rightarrow> bytes \<Rightarrow> bytes" where
  "sha3_digest mdlen m =
     (let r = 200 - 2 * mdlen
      in take mdlen (hash_blocks r sponge_block (replicate 200 0) (m @ sha3_padding (r - length m mod r))))"

section \<open>The context of a message\<close>

definition sha3_rep :: "nat \<Rightarrow> sha3_ctx \<Rightarrow> bytes \<Rightarrow> bool" where
  "sha3_rep n c m \<longleftrightarrow>
     (let r = 200 - 2 * n
      in sha3_mdlen c = int n \<and> sha3_rsiz c = int r \<and> sha3_pt c = length m mod r \<and>
         sha3_st c = xor_into (last_bytes r m) (hash_blocks r sponge_block (replicate 200 0) m))"

lemma length_xor_into [simp]: "length (xor_into b st) = length st"
  by (simp add: xor_into_def)

lemma length_sponge_block [simp]: "length (sponge_block st b) = 200"
  by (simp add: sponge_block_def sha3_bytes_def)

lemma length_sponge [simp]: "length st = 200 \<Longrightarrow> length (hash_blocks r sponge_block st m) = 200"
  by (rule hash_blocks_invariant [where P = "\<lambda>st. length st = 200"]) simp_all

lemma xor_into_Nil [simp]: "xor_into [] st = st"
  by (simp add: xor_into_def map_nth)

lemma xor_into_snoc:
  "length b < length st \<Longrightarrow>
   (xor_into b st)[length b := xor_into b st ! length b XOR x] = xor_into (b @ [x]) st"
  by (rule nth_equalityI) (auto simp: xor_into_def nth_list_update nth_append less_Suc_eq)

lemma sha3_permute_block:
  "length st = 200 \<Longrightarrow> sha3_bytes (sha3_keccakf (sha3_words (xor_into b st))) = sponge_block st b"
  by (simp add: sponge_block_def sha3_keccakf_standard sha3_words_def)

lemma sha3_rep_init: "sha3_rep n (snd (sha3_init c (int n))) []" if "n < 100"
  using that by (simp add: sha3_rep_def sha3_init_def Let_def)

text \<open>The loop of the update: \<open>j\<close> is the place in the block.\<close>

lemma sha3_update_loop_rep:
  assumes "0 < n" "n < 100"
  shows "sha3_rep n (c\<lparr>sha3_pt := j\<rparr>) m \<Longrightarrow>
    (case sha3_update_loop j data c of (j', c') \<Rightarrow> sha3_rep n (c'\<lparr>sha3_pt := j'\<rparr>) (m @ data))"
proof (induction data arbitrary: c j m)
  case (Cons x data)
  let ?r = "200 - 2 * n" and ?st = "hash_blocks (200 - 2 * n) sponge_block (replicate 200 0) m"
  have r: "0 < ?r" "?r \<le> 200" using assms by simp_all
  have j: "j = length m mod ?r" "sha3_mdlen c = int n" "sha3_rsiz c = int ?r"
    and st: "sha3_st c = xor_into (last_bytes ?r m) ?st"
    using Cons.prems by (simp_all add: sha3_rep_def Let_def)
  have "j < ?r" using r by (simp add: j)
  then have jl: "length (last_bytes ?r m) < length ?st"
    using less_le_trans [OF \<open>j < ?r\<close> r(2)] by (simp add: j)
  have x: "sha3_st (sha3_xor j x c) = xor_into (last_bytes ?r m @ [x]) ?st"
    "sha3_mdlen (sha3_xor j x c) = int n" "sha3_rsiz (sha3_xor j x c) = int ?r"
    using xor_into_snoc [OF jl, of x] j by (simp_all add: sha3_xor_def st)
  show ?case
  proof (cases "Suc j = ?r")
    case True
    then have full: "Suc (length m mod ?r) = ?r" by (simp add: j)
    then have z: "Suc (length m) mod ?r = 0" by (simp add: mod_Suc)
    have "sha3_rep n ((sha3_permute (sha3_xor j x c))\<lparr>sha3_pt := 0\<rparr>) (m @ [x])"
      using z by (simp add: sha3_rep_def Let_def sha3_permute_def x sha3_permute_block add_byte_full [OF full])
    from Cons.IH [OF this] show ?thesis
      using True x by (simp add: Let_def)
  next
    case False
    then have short: "Suc (length m mod ?r) < ?r" using \<open>j < ?r\<close> by (simp add: j)
    then have z: "Suc (length m) mod ?r = Suc j" by (simp add: mod_Suc j)
    have "sha3_rep n ((sha3_xor j x c)\<lparr>sha3_pt := Suc j\<rparr>) (m @ [x])"
      using z by (simp add: sha3_rep_def Let_def x add_byte_short [OF short])
    from Cons.IH [OF this] have "case sha3_update_loop (j + 1) data (sha3_xor j x c) of
        (j', c') \<Rightarrow> sha3_rep n (c'\<lparr>sha3_pt := j'\<rparr>) (m @ x # data)" by simp
    moreover have "\<not> int ?r \<le> int (j + 1)"
      unfolding of_nat_le_iff not_le using short by (simp add: j)
    ultimately show ?thesis
      by (simp only: sha3_update_loop.simps Let_def x if_False)
  qed
qed simp

lemma sha3_rep_update:
  assumes "0 < n" "n < 100" "sha3_rep n c m"
  shows "sha3_rep n (snd (sha3_update c b (length b))) (m @ b)"
  using sha3_update_loop_rep [OF assms(1,2), where c = c and j = "sha3_pt c" and m = m and data = b] assms(3)
  by (simp add: sha3_update_def split: prod.splits)

text \<open>The padding in place.\<close>

lemma xor_into_padding:
  assumes "length b < r" "r \<le> length st"
  shows "(let st' = (xor_into b st)[length b := xor_into b st ! length b XOR 0x06]
      in st'[r - 1 := st' ! (r - 1) XOR 0x80]) = xor_into (b @ sha3_padding (r - length b)) st"
proof -
  obtain k where k: "r = length b + Suc k" using assms(1) less_iff_Suc_add by auto
  show ?thesis
  proof (cases k)
    case 0
    then show ?thesis
      using k assms(2) by (simp add: Let_def sha3_padding_def xor_into_snoc [symmetric] xor.assoc)
  next
    case (Suc l)
    have "replicate k 0 = replicate l 0 @ [0 :: u8]" by (simp add: Suc replicate_append_same)
    then have p: "sha3_padding (r - length b) = 0x06 # replicate l 0 @ [0x80]"
      using k by (simp add: sha3_padding_def butlast_append)
    show ?thesis
      unfolding p Let_def
      by (rule nth_equalityI)
        (use k assms(2) in \<open>auto simp: Suc xor_into_def nth_list_update nth_append nth_Cons'\<close>)
  qed
qed

lemma sha3_padded_blocks:
  assumes "0 < r" "r \<le> 200"
  shows "hash_blocks r sponge_block st (m @ sha3_padding (r - length m mod r)) =
    sponge_block (hash_blocks r sponge_block st m) (last_bytes r m @ sha3_padding (r - length m mod r))"
proof -
  have "0 < k \<Longrightarrow> length (sha3_padding k) = k" for k
    by (cases k) (simp_all add: sha3_padding_def)
  then have "length (last_bytes r m @ sha3_padding (r - length m mod r)) = r"
    using assms mod_less_divisor [of r "length m"] by simp
  then show ?thesis
    using assms by (subst hash_blocks_append) (simp_all add: hash_blocks_one)
qed

lemma sha3_rep_final:
  assumes "0 < n" "n < 100" "sha3_rep n c m"
  shows "fst (snd (sha3_final md c)) = blit 0 (sha3_digest n m) md"
proof -
  let ?r = "200 - 2 * n" and ?b = "last_bytes (200 - 2 * n) m"
    and ?st = "hash_blocks (200 - 2 * n) sponge_block (replicate 200 0) m"
  have r: "0 < ?r" "?r \<le> 200" "nat (int ?r - 1) = ?r - 1" using assms by simp_all
  have c: "sha3_pt c = length ?b" "sha3_mdlen c = int n" "sha3_rsiz c = int ?r" "sha3_st c = xor_into ?b ?st"
    using assms(3) by (simp_all add: sha3_rep_def Let_def)
  have b: "length ?b < ?r" using r by simp
  have "sha3_st (sha3_permute (sha3_xor (?r - 1) 0x80 (sha3_xor (length ?b) 0x06 c))) =
      sponge_block ?st (?b @ sha3_padding (?r - length ?b))"
    using xor_into_padding [OF b, of ?st] r(2)
    by (simp add: sha3_permute_def sha3_xor_def c Let_def sha3_permute_block)
  then have "fst (snd (sha3_final md c)) =
      blit 0 (map (\<lambda>i. sponge_block ?st (?b @ sha3_padding (?r - length ?b)) ! i) [0..<n]) md"
    unfolding sha3_final_def Let_def by (simp add: c r sha3_permute_def sha3_xor_def)
  moreover have "map (\<lambda>i. s ! i) [0..<n] = take n s" if "n \<le> length s" for s :: bytes
    using that by (intro nth_equalityI) simp_all
  ultimately show ?thesis
    using assms(2) by (simp only: sha3_digest_def Let_def sha3_padded_blocks [OF r(1,2)] length_last_bytes) simp
qed

lemma length_sha3_digest: "n < 100 \<Longrightarrow> length (sha3_digest n m) = n"
  by (simp add: sha3_digest_def Let_def)

text \<open>A context on the stack, and the contract for the digest of 256 bits.\<close>

definition sha3_stack :: sha3_ctx where
  "sha3_stack = \<lparr>sha3_st = replicate 200 0, sha3_pt = 0, sha3_rsiz = 0, sha3_mdlen = 0\<rparr>"

interpretation sha3_256: message_digest "snd (sha3_init sha3_stack 32)" "\<lambda>c b. snd (sha3_update c b (length b))"
    "\<lambda>c. fst (snd (sha3_final (replicate 32 0) c))" "sha3_rep 32" "sha3_digest 32" "2 ^ 64"
proof
  fix c m b
  show "sha3_rep 32 (snd (sha3_init sha3_stack 32)) []"
    using sha3_rep_init [of 32 sha3_stack] by simp
  show "sha3_rep 32 c m \<Longrightarrow> sha3_rep 32 (snd (sha3_update c b (length b))) (m @ b)"
    by (rule sha3_rep_update) simp_all
  show "sha3_rep 32 c m \<Longrightarrow> fst (snd (sha3_final (replicate 32 0) c)) = sha3_digest 32 m"
    using sha3_rep_final [of 32 c m "replicate 32 0"] by (simp add: blit_def length_sha3_digest)
qed

text \<open>The digest in one call.\<close>

lemma sha3_one_call:
  assumes "0 < n" "n < 100"
  shows "sha3 c m (length m) md (int n) = blit 0 (sha3_digest n m) md"
  using sha3_rep_final [OF assms sha3_rep_update [OF assms sha3_rep_init [OF assms(2)]], of md c m]
  by (simp add: sha3_def case_prod_beta Let_def)

text \<open>The output can be taken in parts.\<close>

lemma shake_out_loop_split:
  "shake_out_loop j (a + b) c =
     (case shake_out_loop j a c of (x, j1, c1) \<Rightarrow> case shake_out_loop j1 b c1 of (y, j2, c2) \<Rightarrow> (x @ y, j2, c2))"
  by (induction a arbitrary: j c) (simp_all add: Let_def split: prod.split)

end
