(* ===== verification/Iscsi_Login.thy ===== *)
theory Iscsi_Login
  imports Iscsi_Nop C_Strings Md5 Sha1 Sha256 Sha3
begin

text \<open>
  Login and logout (\<open>lib/login.c\<close>): the login requests with their keys, the CHAP authentication in
  one or both directions, the replies with what the target negotiated. The digests of CHAP are
  those of \<open>Md5\<close>, \<open>Sha1\<close>, \<open>Sha256\<close> and \<open>Sha3\<close>; the MD5 is the library's own, of a build with
  neither GnuTLS nor libgcrypt.
\<close>

section \<open>Adding keys to a request\<close>

abbreviation lg_modify :: "(iscsi_login \<Rightarrow> iscsi_login) \<Rightarrow> iscsi_context \<Rightarrow> iscsi_context" where
  "lg_modify f iscsi \<equiv> iscsi\<lparr>ctx_login := f (ctx_login iscsi)\<rparr>"

definition login_add_bytes :: "iscsi_env \<Rightarrow> nat \<Rightarrow> bytes \<Rightarrow> iscsi_context \<Rightarrow> (int \<times> iscsi_context) option" where
  "login_add_bytes env i bs iscsi = do {
     (r, iscsi) \<leftarrow> iscsi_pdu_add_data (env_malloc env iscsi) i bs (int (length bs)) iscsi;
     Some (if r \<noteq> 0 then -1 else 0, iscsi)
   }"

text \<open>A string with its NUL.\<close>

definition login_add_string :: "iscsi_env \<Rightarrow> nat \<Rightarrow> bytes \<Rightarrow> iscsi_context \<Rightarrow> (int \<times> iscsi_context) option" where
  "login_add_string env i s iscsi = login_add_bytes env i (s @ [0]) iscsi"

text \<open>Steps in sequence up to the first that fails.\<close>

fun login_steps :: "(iscsi_context \<Rightarrow> (int \<times> iscsi_context) option) list \<Rightarrow> iscsi_context \<Rightarrow> (int \<times> iscsi_context) option" where
  "login_steps [] iscsi = Some (0, iscsi)"
| "login_steps (f # fs) iscsi = do {
     (r, iscsi) \<leftarrow> f iscsi;
     if r \<noteq> 0 then Some (-1, iscsi) else login_steps fs iscsi
   }"

section \<open>The keys of the first request and of the operational negotiation\<close>

definition offers_chap :: "iscsi_context \<Rightarrow> bool" where
  "offers_chap iscsi \<longleftrightarrow> lg_secneg_phase (ctx_login iscsi) = ISCSI_LOGIN_SECNEG_PHASE_OFFER_CHAP"

definition in_opneg :: "iscsi_context \<Rightarrow> bool" where
  "in_opneg iscsi \<longleftrightarrow> lg_current_phase (ctx_login iscsi) = ISCSI_PDU_LOGIN_CSG_OPNEG"

definition iscsi_login_add_initiatorname where
  "iscsi_login_add_initiatorname env i iscsi =
     (if \<not> offers_chap iscsi then Some (0, iscsi)
      else login_add_string env i
        (c_snprintf MAX_STRING_SIZE (cstr ''InitiatorName='' @ lg_initiator_name (ctx_login iscsi))) iscsi)"

definition iscsi_login_add_alias where
  "iscsi_login_add_alias env i iscsi =
     (if \<not> offers_chap iscsi then Some (0, iscsi)
      else login_add_string env i
        (c_snprintf MAX_STRING_SIZE (cstr ''InitiatorAlias='' @ lg_alias (ctx_login iscsi))) iscsi)"

definition iscsi_login_add_targetname where
  "iscsi_login_add_targetname env i iscsi =
     (let l = ctx_login iscsi
      in if \<not> in_opneg iscsi \<and> \<not> offers_chap iscsi \<or> \<not> offers_chap iscsi then Some (0, iscsi)
         else if lg_target_name l = [] then Some (-1, iscsi)
         else if lg_target_address l \<noteq> [] \<and> lg_target_name2 l \<noteq> [] \<and>
                 env_getenv env ''LIBISCSI_ALLOW_TARGETNAME_REDIRECT''
         then login_add_string env i (c_snprintf MAX_STRING_SIZE (cstr ''TargetName='' @ lg_target_name2 l)) iscsi
         else login_add_string env i (c_snprintf MAX_STRING_SIZE (cstr ''TargetName='' @ lg_target_name l)) iscsi)"

definition iscsi_login_add_sessiontype where
  "iscsi_login_add_sessiontype env i iscsi =
     (if \<not> offers_chap iscsi then Some (0, iscsi)
      else if ctx_session_type iscsi = ISCSI_SESSION_DISCOVERY
      then login_add_string env i (cstr ''SessionType=Discovery'') iscsi
      else if ctx_session_type iscsi = ISCSI_SESSION_NORMAL
      then login_add_string env i (cstr ''SessionType=Normal'') iscsi
      else Some (-1, iscsi))"

text \<open>A key that is sent only in the operational negotiation.\<close>

definition add_opneg :: "iscsi_env \<Rightarrow> nat \<Rightarrow> bytes \<Rightarrow> iscsi_context \<Rightarrow> (int \<times> iscsi_context) option" where
  "add_opneg env i s iscsi = (if \<not> in_opneg iscsi then Some (0, iscsi) else login_add_string env i s iscsi)"

definition iscsi_login_add_headerdigest where
  "iscsi_login_add_headerdigest env i iscsi =
     (let w = lg_want_header_digest (ctx_login iscsi)
      in if \<not> in_opneg iscsi then Some (0, iscsi)
         else if w = ISCSI_HEADER_DIGEST_NONE then login_add_string env i (cstr ''HeaderDigest=None'') iscsi
         else if w = ISCSI_HEADER_DIGEST_NONE_CRC32C then login_add_string env i (cstr ''HeaderDigest=None,CRC32C'') iscsi
         else if w = ISCSI_HEADER_DIGEST_CRC32C_NONE then login_add_string env i (cstr ''HeaderDigest=CRC32C,None'') iscsi
         else if w = ISCSI_HEADER_DIGEST_CRC32C then login_add_string env i (cstr ''HeaderDigest=CRC32C'') iscsi
         else Some (-1, iscsi))"

definition iscsi_login_add_datadigest where
  "iscsi_login_add_datadigest env i iscsi =
     (let w = lg_want_data_digest (ctx_login iscsi)
      in if \<not> in_opneg iscsi then Some (0, iscsi)
         else if w = ISCSI_DATA_DIGEST_NONE then login_add_string env i (cstr ''DataDigest=None'') iscsi
         else if w = ISCSI_DATA_DIGEST_NONE_CRC32C then login_add_string env i (cstr ''DataDigest=None,CRC32C'') iscsi
         else if w = ISCSI_DATA_DIGEST_CRC32C_NONE then login_add_string env i (cstr ''DataDigest=CRC32C,None'') iscsi
         else if w = ISCSI_DATA_DIGEST_CRC32C then login_add_string env i (cstr ''DataDigest=CRC32C'') iscsi
         else Some (-1, iscsi))"

definition iscsi_login_add_initialr2t where
  "iscsi_login_add_initialr2t env i iscsi =
     add_opneg env i (cstr (if lg_want_initial_r2t (ctx_login iscsi) = ISCSI_INITIAL_R2T_NO
                            then ''InitialR2T=No'' else ''InitialR2T=Yes'')) iscsi"

definition iscsi_login_add_immediatedata where
  "iscsi_login_add_immediatedata env i iscsi =
     add_opneg env i (cstr (if lg_want_immediate_data (ctx_login iscsi) = ISCSI_IMMEDIATE_DATA_NO
                            then ''ImmediateData=No'' else ''ImmediateData=Yes'')) iscsi"

text \<open>The lengths are printed with \<open>%d\<close>.\<close>

definition iscsi_login_add_maxburstlength where
  "iscsi_login_add_maxburstlength env i iscsi =
     add_opneg env i (cstr ''MaxBurstLength='' @ c_decimal (sint (ctx_max_burst_length iscsi))) iscsi"

definition iscsi_login_add_firstburstlength where
  "iscsi_login_add_firstburstlength env i iscsi =
     add_opneg env i (cstr ''FirstBurstLength='' @ c_decimal (sint (ctx_first_burst_length iscsi))) iscsi"

definition iscsi_login_add_maxrecvdatasegmentlength where
  "iscsi_login_add_maxrecvdatasegmentlength env i iscsi =
     add_opneg env i (cstr ''MaxRecvDataSegmentLength='' @
       c_decimal (sint (ctx_initiator_max_recv_data_segment_length iscsi))) iscsi"

definition iscsi_login_add_datapduinorder where
  "iscsi_login_add_datapduinorder env i iscsi = add_opneg env i (cstr ''DataPDUInOrder=Yes'') iscsi"

definition iscsi_login_add_defaulttime2wait where
  "iscsi_login_add_defaulttime2wait env i iscsi = add_opneg env i (cstr ''DefaultTime2Wait=2'') iscsi"

definition iscsi_login_add_defaulttime2retain where
  "iscsi_login_add_defaulttime2retain env i iscsi = add_opneg env i (cstr ''DefaultTime2Retain=0'') iscsi"

definition iscsi_login_add_ifmarker where
  "iscsi_login_add_ifmarker env i iscsi = add_opneg env i (cstr ''IFMarker=No'') iscsi"

definition iscsi_login_add_ofmarker where
  "iscsi_login_add_ofmarker env i iscsi = add_opneg env i (cstr ''OFMarker=No'') iscsi"

definition iscsi_login_add_maxconnections where
  "iscsi_login_add_maxconnections env i iscsi = add_opneg env i (cstr ''MaxConnections=1'') iscsi"

definition iscsi_login_add_maxoutstandingr2t where
  "iscsi_login_add_maxoutstandingr2t env i iscsi = add_opneg env i (cstr ''MaxOutstandingR2T=1'') iscsi"

definition iscsi_login_add_errorrecoverylevel where
  "iscsi_login_add_errorrecoverylevel env i iscsi = add_opneg env i (cstr ''ErrorRecoveryLevel=0'') iscsi"

definition iscsi_login_add_datasequenceinorder where
  "iscsi_login_add_datasequenceinorder env i iscsi = add_opneg env i (cstr ''DataSequenceInOrder=Yes'') iscsi"

text \<open>The keys of iSER.\<close>

definition ISER_TRANSPORT :: cint where
  "ISER_TRANSPORT = 1"

definition iscsi_login_add_rdma_extensions where
  "iscsi_login_add_rdma_extensions env i iscsi =
     (if lg_transport (ctx_login iscsi) \<noteq> ISER_TRANSPORT then Some (0, iscsi)
      else add_opneg env i (cstr ''RDMAExtensions=Yes'') iscsi)"

definition iscsi_login_add_initiatorrecvdatasegmentlength where
  "iscsi_login_add_initiatorrecvdatasegmentlength env i iscsi =
     (if lg_transport (ctx_login iscsi) \<noteq> ISER_TRANSPORT then Some (0, iscsi)
      else add_opneg env i (cstr ''InitiatorRecvDataSegmentLength='' @
        c_decimal (sint (ctx_initiator_max_recv_data_segment_length iscsi))) iscsi)"

definition iscsi_login_add_targetrecvdatasegmentlength where
  "iscsi_login_add_targetrecvdatasegmentlength env i iscsi =
     (if lg_transport (ctx_login iscsi) \<noteq> ISER_TRANSPORT then Some (0, iscsi)
      else add_opneg env i (cstr ''TargetRecvDataSegmentLength='' @
        c_decimal (sint (ctx_target_max_recv_data_segment_length iscsi))) iscsi)"

section \<open>CHAP\<close>

definition in_secneg :: "iscsi_context \<Rightarrow> cint \<Rightarrow> bool" where
  "in_secneg iscsi ph \<longleftrightarrow> lg_current_phase (ctx_login iscsi) = ISCSI_PDU_LOGIN_CSG_SECNEG \<and>
     lg_secneg_phase (ctx_login iscsi) = ph"

definition iscsi_login_add_authmethod where
  "iscsi_login_add_authmethod env i iscsi =
     (if \<not> in_secneg iscsi ISCSI_LOGIN_SECNEG_PHASE_OFFER_CHAP then Some (0, iscsi)
      else login_add_string env i (cstr ''AuthMethod=CHAP,None'') iscsi)"

definition iscsi_login_add_authalgorithm where
  "iscsi_login_add_authalgorithm env i iscsi =
     (if \<not> in_secneg iscsi ISCSI_LOGIN_SECNEG_PHASE_SELECT_ALGORITHM then Some (0, iscsi)
      else login_add_string env i (cstr ''CHAP_A='' @ c_decimal (sint (lg_chap_auth (ctx_login iscsi)))) iscsi)"

definition iscsi_login_add_chap_username where
  "iscsi_login_add_chap_username env i iscsi =
     (if \<not> in_secneg iscsi ISCSI_LOGIN_SECNEG_PHASE_SEND_RESPONSE then Some (0, iscsi)
      else login_steps [login_add_bytes env i (cstr ''CHAP_N=''),
             \<lambda>iscsi. login_add_string env i (lg_user (ctx_login iscsi)) iscsi] iscsi)"

text \<open>A hexadecimal digit; only the low eight bits of the \<open>int\<close> are used.\<close>

definition h2i :: "u8 \<Rightarrow> u8" where
  "h2i h = (if 0x61 \<le> h \<and> h \<le> 0x66 then h - 0x61 + 10
            else if 0x41 \<le> h \<and> h \<le> 0x46 then h - 0x41 + 10
            else h - 0x30)"

definition i2h :: "u8 \<Rightarrow> u8" where
  "i2h i = (if 10 \<le> i then i - 10 + 0x41 else i + 0x30)"

definition hex_pair :: "u8 \<Rightarrow> bytes" where
  "hex_pair c = [i2h (drop_bit 4 c AND 0x0f), i2h (c AND 0x0f)]"

text \<open>
  The walk \<open>while (*strp != 0)\<close> in steps of two characters. With an odd number of digits it steps
  over the NUL and goes on in what the buffer held before.
\<close>

fun hex_bytes :: "bytes \<Rightarrow> bytes option" where
  "hex_bytes [] = Some []"
| "hex_bytes [_] = None"
| "hex_bytes (a # b # s) = do {
     bs \<leftarrow> hex_bytes s;
     Some ((push_bit 4 (h2i a) OR h2i b) # bs)
   }"

definition chap_r_size :: "cint \<Rightarrow> nat" where
  "chap_r_size auth =
     (if auth = ISCSI_CHAP_MD5 then 16
      else if auth = ISCSI_CHAP_SHA_1 then 20
      else if auth \<in> {ISCSI_CHAP_SHA_256, ISCSI_CHAP_SHA3_256} then 32
      else 0)"

text \<open>
  The digest of the identifier, the secret and the challenge, stored in \<open>digest\<close>. The challenge is fed
  to each algorithm byte by byte.
\<close>

definition compute_chap_r_md5 :: "bool \<Rightarrow> cint \<Rightarrow> bytes \<Rightarrow> bytes \<Rightarrow> bytes \<Rightarrow> bytes option" where
  "compute_chap_r_md5 alloc chap_i passwd chap_c digest =
     (if \<not> alloc then None
      else do {
        let ctx = MD5Init md5_memory;
        let ctx = MD5Update ctx [ucast chap_i] 1;
        let ctx = MD5Update ctx passwd (of_nat (length passwd));
        cs \<leftarrow> hex_bytes chap_c;
        let ctx = foldl (\<lambda>ctx c. MD5Update ctx [c] 1) ctx cs;
        Some (blit 0 (MD5Final ctx) digest)
      })"

definition compute_chap_r_sha1 :: "cint \<Rightarrow> bytes \<Rightarrow> bytes \<Rightarrow> bytes \<Rightarrow> bytes option" where
  "compute_chap_r_sha1 chap_i passwd chap_c digest = do {
     let ctx = snd (SHA1Reset (Ptr sha_stack));
     let ctx = snd (SHA1Input ctx (Ptr [ucast chap_i]) 1);
     let ctx = snd (SHA1Input ctx (Ptr passwd) (length passwd));
     cs \<leftarrow> hex_bytes chap_c;
     let ctx = foldl (\<lambda>ctx c. snd (SHA1Input ctx (Ptr [c]) 1)) ctx cs;
     Some (case SHA1Result ctx (Ptr digest) of (_, _, Ptr digest) \<Rightarrow> digest | (_, _, NULL) \<Rightarrow> digest)
   }"

definition compute_chap_r_sha256 :: "cint \<Rightarrow> bytes \<Rightarrow> bytes \<Rightarrow> bytes \<Rightarrow> bytes option" where
  "compute_chap_r_sha256 chap_i passwd chap_c digest = do {
     let ctx = snd (SHA256Reset (Ptr sha_stack));
     let ctx = snd (SHA256Input ctx (Ptr [ucast chap_i]) 1);
     let ctx = snd (SHA256Input ctx (Ptr passwd) (length passwd));
     cs \<leftarrow> hex_bytes chap_c;
     let ctx = foldl (\<lambda>ctx c. snd (SHA256Input ctx (Ptr [c]) 1)) ctx cs;
     Some (case SHA256Result ctx (Ptr digest) of (_, _, Ptr digest) \<Rightarrow> digest | (_, _, NULL) \<Rightarrow> digest)
   }"

definition compute_chap_r_sha3_256 :: "cint \<Rightarrow> bytes \<Rightarrow> bytes \<Rightarrow> bytes \<Rightarrow> bytes option" where
  "compute_chap_r_sha3_256 chap_i passwd chap_c digest = do {
     let ctx = snd (sha3_init sha3_stack 32);
     let ctx = snd (sha3_update ctx [ucast chap_i] 1);
     let ctx = snd (sha3_update ctx passwd (length passwd));
     cs \<leftarrow> hex_bytes chap_c;
     let ctx = foldl (\<lambda>ctx c. snd (sha3_update ctx [c] 1)) ctx cs;
     Some (fst (snd (sha3_final digest ctx)))
   }"

text \<open>\<open>md5_open\<close> does not check its \<open>malloc\<close>: \<open>alloc\<close> tells whether it succeeds.\<close>

definition compute_chap_r :: "bool \<Rightarrow> cint \<Rightarrow> cint \<Rightarrow> bytes \<Rightarrow> bytes \<Rightarrow> bytes \<Rightarrow> bytes option" where
  "compute_chap_r alloc auth chap_i passwd chap_c digest =
     (if auth = ISCSI_CHAP_MD5 then compute_chap_r_md5 alloc chap_i passwd chap_c digest
      else if auth = ISCSI_CHAP_SHA_1 then compute_chap_r_sha1 chap_i passwd chap_c digest
      else if auth = ISCSI_CHAP_SHA_256 then compute_chap_r_sha256 chap_i passwd chap_c digest
      else if auth = ISCSI_CHAP_SHA3_256 then compute_chap_r_sha3_256 chap_i passwd chap_c digest
      else Some digest)"

text \<open>\<open>n\<close> calls of \<open>rand\<close>, of each the low byte.\<close>

definition random_bytes :: "iscsi_env \<Rightarrow> nat \<Rightarrow> iscsi_context \<Rightarrow> bytes \<times> iscsi_context" where
  "random_bytes env n iscsi =
     (let k = lg_random (ctx_login iscsi)
      in (map (\<lambda>j. ucast (env_rand env (k + j))) [0..<n], lg_modify (\<lambda>l. l\<lparr>lg_random := k + n\<rparr>) iscsi))"

text \<open>The digits are added two at a time.\<close>

definition login_add_hex :: "iscsi_env \<Rightarrow> nat \<Rightarrow> bytes \<Rightarrow> iscsi_context \<Rightarrow> (int \<times> iscsi_context) option" where
  "login_add_hex env i bs iscsi = login_steps (map (\<lambda>c. login_add_bytes env i (hex_pair c)) bs) iscsi"

text \<open>The challenge to the target, when it is to authenticate itself, and the response expected.\<close>

definition challenge_target :: "iscsi_env \<Rightarrow> nat \<Rightarrow> iscsi_context \<Rightarrow> (int \<times> iscsi_context) option" where
  "challenge_target env i iscsi = do {
     let iscsi = lg_modify (\<lambda>l. l\<lparr>lg_target_chap_i := lg_target_chap_i l + 1\<rparr>) iscsi;
     let l = ctx_login iscsi;
     (r, iscsi) \<leftarrow> login_add_string env i (cstr ''CHAP_I='' @ c_decimal (sint (lg_target_chap_i l))) iscsi;
     if r \<noteq> 0 then Some (-1, iscsi)
     else do {
       let (target_chap_c, iscsi) = random_bytes env (2 * chap_r_size (lg_chap_auth l)) iscsi;
       (r, iscsi) \<leftarrow> login_steps [login_add_bytes env i (cstr ''CHAP_C=0x''),
         login_add_hex env i target_chap_c, login_add_bytes env i [0]] iscsi;
       if r \<noteq> 0 then Some (-1, iscsi)
       else do {
         dig \<leftarrow> compute_chap_r (env_malloc env iscsi) (lg_chap_auth l) (lg_target_chap_i l) (lg_target_passwd l)
           (concat (map hex_pair target_chap_c)) (lg_target_chap_r l);
         Some (0, lg_modify (\<lambda>l. l\<lparr>lg_target_chap_r := dig\<rparr>) iscsi)
       }
     }
   }"

definition iscsi_login_add_chap_response :: "iscsi_env \<Rightarrow> nat \<Rightarrow> iscsi_context \<Rightarrow> (int \<times> iscsi_context) option" where
  "iscsi_login_add_chap_response env i iscsi =
     (let l = ctx_login iscsi
      in if \<not> in_secneg iscsi ISCSI_LOGIN_SECNEG_PHASE_SEND_RESPONSE then Some (0, iscsi)
         else if lg_chap_c l = [] then Some (-1, iscsi)
         else do {
           dig \<leftarrow> compute_chap_r (env_malloc env iscsi) (lg_chap_auth l) (lg_chap_i l) (lg_passwd l) (lg_chap_c l) (replicate MAX_CHAP_R_SIZE 0);
           (r, iscsi) \<leftarrow> login_steps [login_add_bytes env i (cstr ''CHAP_R=0x''),
             login_add_hex env i (take (chap_r_size (lg_chap_auth l)) dig), login_add_bytes env i [0]] iscsi;
           if r \<noteq> 0 then Some (-1, iscsi)
           else if lg_target_user l \<noteq> [] then challenge_target env i iscsi
           else Some (0, iscsi)
         })"

section \<open>The login request\<close>

text \<open>The first request of a login draws the first tag and the first CmdSN.\<close>

definition randomize_serials :: "iscsi_env \<Rightarrow> iscsi_context \<Rightarrow> iscsi_context" where
  "randomize_serials env iscsi =
     (let k = lg_random (ctx_login iscsi); sn = env_rand env (k + 1)
      in (lg_modify (\<lambda>l. l\<lparr>lg_random := k + 2\<rparr>) iscsi)
           \<lparr>ctx_itt := env_rand env k, ctx_cmdsn := sn, ctx_expcmdsn := sn, ctx_maxcmdsn := sn,
            ctx_min_cmdsn_waiting := sn\<rparr>)"

text \<open>Without a user name there is no security negotiation.\<close>

definition set_login_phases :: "iscsi_login \<Rightarrow> iscsi_login" where
  "set_login_phases l =
     (let l = (if lg_user l = [] then l\<lparr>lg_current_phase := ISCSI_PDU_LOGIN_CSG_OPNEG\<rparr> else l);
          l = (if lg_current_phase l = ISCSI_PDU_LOGIN_CSG_SECNEG then l\<lparr>lg_next_phase := ISCSI_PDU_LOGIN_NSG_OPNEG\<rparr> else l)
      in if lg_current_phase l = ISCSI_PDU_LOGIN_CSG_OPNEG then l\<lparr>lg_next_phase := ISCSI_PDU_LOGIN_NSG_FF\<rparr> else l)"

definition login_transit :: "iscsi_login \<Rightarrow> cint" where
  "login_transit l =
     (if lg_current_phase l = ISCSI_PDU_LOGIN_CSG_OPNEG \<or>
         lg_current_phase l = ISCSI_PDU_LOGIN_CSG_SECNEG \<and>
         lg_secneg_phase l \<in> {ISCSI_LOGIN_SECNEG_PHASE_OFFER_CHAP, ISCSI_LOGIN_SECNEG_PHASE_SEND_RESPONSE}
      then ISCSI_PDU_LOGIN_TRANSIT else 0)"

definition login_flags :: "iscsi_login \<Rightarrow> u8" where
  "login_flags l = ucast (login_transit l OR lg_current_phase l OR lg_next_phase l)"

definition login_keys :: "iscsi_env \<Rightarrow> nat \<Rightarrow> iscsi_context \<Rightarrow> (iscsi_context \<Rightarrow> (int \<times> iscsi_context) option) list" where
  "login_keys env i iscsi =
     [iscsi_login_add_initiatorname env i] @
     (if lg_alias (ctx_login iscsi) \<noteq> [] then [iscsi_login_add_alias env i] else []) @
     (if ctx_session_type iscsi = ISCSI_SESSION_NORMAL then [iscsi_login_add_targetname env i] else []) @
     [iscsi_login_add_sessiontype env i, iscsi_login_add_headerdigest env i, iscsi_login_add_authmethod env i,
      iscsi_login_add_authalgorithm env i, iscsi_login_add_chap_username env i, iscsi_login_add_chap_response env i,
      iscsi_login_add_datadigest env i, iscsi_login_add_initialr2t env i, iscsi_login_add_immediatedata env i,
      iscsi_login_add_maxburstlength env i, iscsi_login_add_firstburstlength env i,
      iscsi_login_add_defaulttime2wait env i, iscsi_login_add_defaulttime2retain env i,
      iscsi_login_add_maxoutstandingr2t env i, iscsi_login_add_errorrecoverylevel env i,
      iscsi_login_add_ifmarker env i, iscsi_login_add_ofmarker env i, iscsi_login_add_maxconnections env i,
      iscsi_login_add_maxrecvdatasegmentlength env i, iscsi_login_add_datapduinorder env i,
      iscsi_login_add_datasequenceinorder env i, iscsi_login_add_rdma_extensions env i,
      iscsi_login_add_initiatorrecvdatasegmentlength env i, iscsi_login_add_targetrecvdatasegmentlength env i]"

definition iscsi_login_async ::
  "iscsi_env \<Rightarrow> iscsi_command_cb ptr \<Rightarrow> iscsi_context \<Rightarrow> (int \<times> iscsi_context) option" where
  "iscsi_login_async env cb iscsi =
     (let attempts = lg_login_attempts (ctx_login iscsi);
          iscsi = lg_modify (\<lambda>l. l\<lparr>lg_login_attempts := attempts + 1\<rparr>) iscsi
      in if 10 < sint attempts then Some (-1, iscsi)
         else if ctx_is_loggedin iscsi then Some (-1, iscsi)
         else if ctx_session_type iscsi \<notin> {ISCSI_SESSION_DISCOVERY, ISCSI_SESSION_NORMAL} then Some (-1, iscsi)
         else do {
           let iscsi = (if lg_current_phase (ctx_login iscsi) = 0 \<and> lg_secneg_phase (ctx_login iscsi) = 0
                        then randomize_serials env iscsi else iscsi);
           (r, iscsi) \<leftarrow> iscsi_allocate_pdu env ISCSI_PDU_LOGIN_REQUEST ISCSI_PDU_LOGIN_RESPONSE (ctx_itt iscsi)
             ISCSI_PDU_DROP_ON_RECONNECT iscsi;
           case r of
             NULL \<Rightarrow> Some (-1, iscsi)
           | Ptr i \<Rightarrow> do {
               iscsi \<leftarrow> pdu_modify i iscsi_pdu_set_immediate iscsi;
               iscsi \<leftarrow> iscsi_pdu_set_cmdsn i (ctx_cmdsn iscsi) iscsi;
               let iscsi = lg_modify set_login_phases iscsi;
               iscsi \<leftarrow> pdu_modify i (iscsi_pdu_set_pduflags (login_flags (ctx_login iscsi))) iscsi;
               (r, iscsi) \<leftarrow> login_steps (login_keys env i iscsi) iscsi;
               if r \<noteq> 0 then do {
                 iscsi \<leftarrow> iscsi_tcp_free_pdu i iscsi;
                 Some (-1, iscsi)
               }
               else do {
                 iscsi \<leftarrow> pdu_modify i (\<lambda>p. p\<lparr>pdu_callback := cb\<rparr>) iscsi;
                 iscsi \<leftarrow> iscsi_queue_pdu env i iscsi;
                 Some (0, iscsi)
               }
             }
         })"

section \<open>The login reply\<close>

definition fail_login :: "int \<Rightarrow> nat \<Rightarrow> iscsi_context \<Rightarrow> (int \<times> iscsi_context) option" where
  "fail_login r i iscsi = do {
     iscsi \<leftarrow> pdu_callback_call SCSI_STATUS_ERROR i iscsi;
     Some (r, iscsi)
   }"

text \<open>What is still expected of a target that has to authenticate itself: CHAP_N, CHAP_R.\<close>

type_synonym login_state = "iscsi_context \<times> bool \<times> bool"

text \<open>Either the function returns, or the loop goes on.\<close>

type_synonym login_progress = "(int \<times> iscsi_context) + login_state"

definition chap_r_matches :: "iscsi_login \<Rightarrow> bytes \<Rightarrow> bool" where
  "chap_r_matches l digits \<longleftrightarrow>
     hex_bytes digits = Some (take (chap_r_size (lg_chap_auth l)) (lg_target_chap_r l))"

text \<open>
  The comparisons with the keys of one string; no key is a prefix of another one, so at most one of
  them applies.
\<close>

definition login_reply_key :: "iscsi_env \<Rightarrow> nat \<Rightarrow> bytes \<Rightarrow> login_state \<Rightarrow> login_progress option" where
  "login_reply_key env i s = (\<lambda>(iscsi, must_n, must_r).
     let l = ctx_login iscsi;
         goon = (\<lambda>iscsi. Some (Inr (iscsi, must_n, must_r)));
         stop = (do { r \<leftarrow> fail_login 0 i iscsi; Some (Inl r) })
     in if starts ''TargetAddress='' s then
          goon (lg_modify (\<lambda>l. l\<lparr>lg_target_address := take MAX_STRING_SIZE (behind_key ''TargetAddress='' s)\<rparr>) iscsi)
        else if starts ''TargetName='' s then
          goon (lg_modify (\<lambda>l. l\<lparr>lg_target_name2 := take MAX_ISCSI_NAME_SIZE (behind_key ''TargetName='' s)\<rparr>) iscsi)
        else if starts ''HeaderDigest='' s then
          goon (lg_modify (\<lambda>l. l\<lparr>lg_want_header_digest := (if behind_key ''HeaderDigest='' s = cstr ''CRC32C''
            then ISCSI_HEADER_DIGEST_CRC32C else ISCSI_HEADER_DIGEST_NONE)\<rparr>) iscsi)
        else if starts ''DataDigest='' s then
          goon (lg_modify (\<lambda>l. l\<lparr>lg_want_data_digest := (if behind_key ''DataDigest='' s = cstr ''CRC32C''
            then ISCSI_DATA_DIGEST_CRC32C else ISCSI_DATA_DIGEST_NONE)\<rparr>) iscsi)
        else if starts ''FirstBurstLength='' s then
          goon (iscsi\<lparr>ctx_first_burst_length := of_int (c_strtol (behind_key ''FirstBurstLength='' s))\<rparr>)
        else if starts ''InitialR2T='' s then
          goon (iscsi\<lparr>ctx_use_initial_r2t := (if behind_key ''InitialR2T='' s = cstr ''No''
            then ISCSI_INITIAL_R2T_NO else ISCSI_INITIAL_R2T_YES)\<rparr>)
        else if starts ''ImmediateData='' s then
          goon (if behind_key ''ImmediateData='' s = cstr ''No'' \<or> lg_want_immediate_data l = ISCSI_IMMEDIATE_DATA_NO
                then iscsi\<lparr>ctx_use_immediate_data := ISCSI_IMMEDIATE_DATA_NO\<rparr> else iscsi)
        else if starts ''MaxBurstLength='' s then
          goon (iscsi\<lparr>ctx_max_burst_length := of_int (c_strtol (behind_key ''MaxBurstLength='' s))\<rparr>)
        else if starts ''MaxRecvDataSegmentLength='' s then
          goon (iscsi\<lparr>ctx_target_max_recv_data_segment_length :=
            of_int (c_strtol (behind_key ''MaxRecvDataSegmentLength='' s))\<rparr>)
        else if starts ''InitiatorRecvDataSegmentLength='' s then
          goon (iscsi\<lparr>ctx_initiator_max_recv_data_segment_length :=
            of_nat (min (c_strtoul (behind_key ''InitiatorRecvDataSegmentLength='' s))
                        (unat (ctx_initiator_max_recv_data_segment_length iscsi)))\<rparr>)
        else if starts ''TargetRecvDataSegmentLength='' s then
          goon (iscsi\<lparr>ctx_target_max_recv_data_segment_length :=
            of_nat (min (c_strtoul (behind_key ''TargetRecvDataSegmentLength='' s))
                        (unat (ctx_target_max_recv_data_segment_length iscsi)))\<rparr>)
        else if starts ''AuthMethod='' s then
          goon (if behind_key ''AuthMethod='' s = cstr ''CHAP''
                then lg_modify (\<lambda>l. l\<lparr>lg_secneg_phase := ISCSI_LOGIN_SECNEG_PHASE_SELECT_ALGORITHM\<rparr>) iscsi
                else iscsi)
        else if starts ''CHAP_A='' s then
          goon (lg_modify (\<lambda>l. l\<lparr>lg_chap_a := c_atoi (behind_key ''CHAP_A='' s),
            lg_secneg_phase := ISCSI_LOGIN_SECNEG_PHASE_SEND_RESPONSE\<rparr>) iscsi)
        else if starts ''CHAP_I='' s then
          goon (lg_modify (\<lambda>l. l\<lparr>lg_chap_i := c_atoi (behind_key ''CHAP_I='' s),
            lg_secneg_phase := ISCSI_LOGIN_SECNEG_PHASE_SEND_RESPONSE\<rparr>) iscsi)
        else if starts ''CHAP_C=0x'' s then
          (if MAX_CHAP_C_LENGTH < length s - 9 then stop
           else goon (lg_modify (\<lambda>l. l\<lparr>lg_chap_c := behind_key ''CHAP_C=0x'' s,
             lg_secneg_phase := ISCSI_LOGIN_SECNEG_PHASE_SEND_RESPONSE\<rparr>) iscsi))
        else if starts ''CHAP_N='' s then
          (if behind_key ''CHAP_N='' s \<noteq> lg_target_user l then stop else Some (Inr (iscsi, False, must_r)))
        else if starts ''CHAP_R=0x'' s then
          (if length s \<noteq> 9 + 2 * chap_r_size (lg_chap_auth l) \<or>
              \<not> chap_r_matches l (behind_key ''CHAP_R=0x'' s) then stop
           else Some (Inr (iscsi, must_n, False)))
        else goon iscsi)"

text \<open>The loop over the strings of the data segment.\<close>

function login_reply_loop :: "iscsi_env \<Rightarrow> nat \<Rightarrow> bytes \<Rightarrow> login_state \<Rightarrow> login_progress option" where
  "login_reply_loop env i bs st =
     (if bs = [] then Some (Inr st)
      else case split_nul bs of
        None \<Rightarrow> do { r \<leftarrow> fail_login (-1) i (fst st); Some (Inl r) }
      | Some (s, rest) \<Rightarrow>
          if s = [] then Some (Inr st)
          else do {
            p \<leftarrow> login_reply_key env i s st;
            case p of Inl r \<Rightarrow> Some (Inl r) | Inr st \<Rightarrow> login_reply_loop env i rest st
          })"
  by pat_completeness auto

termination
  by (relation "measure (\<lambda>(env, i, bs, st). length bs)") (auto dest: split_nul_shorter)

declare login_reply_loop.simps [simp del]

text \<open>What the reply leads to when all keys have been read.\<close>

definition login_reply_done :: "iscsi_env \<Rightarrow> nat \<Rightarrow> bytes \<Rightarrow> login_state \<Rightarrow> (int \<times> iscsi_context) option" where
  "login_reply_done env i hdr = (\<lambda>(iscsi, must_n, must_r). do {
     let st = scsi_get_uint16 hdr 36;
     let transit = (hdr ! 1 AND ISCSI_PDU_LOGIN_TRANSIT \<noteq> 0);
     p \<leftarrow> ctx_pdus iscsi i;
     if st = SCSI_STATUS_REDIRECT \<and> lg_target_address (ctx_login iscsi) \<noteq> [] then do {
       iscsi \<leftarrow> pdu_callback_call SCSI_STATUS_REDIRECT i iscsi;
       Some (0, iscsi)
     }
     else if st \<noteq> 0 \<or> must_n \<or> must_r then fail_login 0 i iscsi
     else do {
       let iscsi = (if transit
                    then lg_modify (\<lambda>l. l\<lparr>lg_current_phase := push_bit 2 (ucast (hdr ! 1 AND ISCSI_PDU_LOGIN_NSG_FF))\<rparr>) iscsi
                    else iscsi);
       if transit \<and> hdr ! 1 AND ISCSI_PDU_LOGIN_NSG_FF = ISCSI_PDU_LOGIN_NSG_FF then do {
         let (_, iscsi) = iscsi_itt_post_increment (iscsi\<lparr>ctx_is_loggedin := True\<rparr>);
         let iscsi = iscsi\<lparr>ctx_header_digest := lg_want_header_digest (ctx_login iscsi),
                           ctx_data_digest := lg_want_data_digest (ctx_login iscsi)\<rparr>;
         if pdu_callback p = NULL then None
         else do {
           iscsi \<leftarrow> pdu_callback_call SCSI_STATUS_GOOD i iscsi;
           Some (0, iscsi)
         }
       }
       else do {
         (r, iscsi) \<leftarrow> iscsi_login_async env (pdu_callback p) iscsi;
         if r \<noteq> 0 then fail_login 0 i iscsi else Some (0, iscsi)
       }
     }
   })"

text \<open>A target that has to authenticate itself must have done so at the end of the security negotiation.\<close>

definition must_have_chap :: "bytes \<Rightarrow> iscsi_login \<Rightarrow> bool" where
  "must_have_chap hdr l \<longleftrightarrow> hdr ! 1 AND ISCSI_PDU_LOGIN_TRANSIT \<noteq> 0 \<and>
     hdr ! 1 AND ISCSI_PDU_LOGIN_CSG_FF = ISCSI_PDU_LOGIN_CSG_SECNEG \<and> lg_target_user l \<noteq> []"

definition iscsi_process_login_reply ::
  "iscsi_env \<Rightarrow> nat \<Rightarrow> iscsi_in_pdu \<Rightarrow> iscsi_context \<Rightarrow> (int \<times> iscsi_context) option" where
  "iscsi_process_login_reply env i inp iscsi = do {
     let hdr = in_hdr inp;
     let l = ctx_login iscsi;
     let iscsi = (if drop_bit 8 (scsi_get_uint16 hdr 36) = 0 \<and> lg_current_phase l = 0 \<and> lg_secneg_phase l = 0
                  then iscsi\<lparr>ctx_statsn := scsi_get_uint32 hdr 24\<rparr> else iscsi);
     let must = must_have_chap hdr l;
     bs \<leftarrow> rd_range (in_data inp) 0 (in_data_pos inp);
     p \<leftarrow> login_reply_loop env i bs (iscsi, must, must);
     case p of
       Inl r \<Rightarrow> Some r
     | Inr st \<Rightarrow> login_reply_done env i hdr st
   }"

section \<open>Logout\<close>

definition iscsi_logout_async ::
  "iscsi_env \<Rightarrow> iscsi_command_cb ptr \<Rightarrow> iscsi_context \<Rightarrow> (int \<times> iscsi_context) option" where
  "iscsi_logout_async env cb iscsi =
     (let iscsi = lg_modify (\<lambda>l. l\<lparr>lg_login_attempts := 0\<rparr>) iscsi
      in if \<not> ctx_is_loggedin iscsi then Some (-1, iscsi)
         else do {
           let (itt, iscsi) = iscsi_itt_post_increment iscsi;
           (r, iscsi) \<leftarrow> iscsi_allocate_pdu env ISCSI_PDU_LOGOUT_REQUEST ISCSI_PDU_LOGOUT_RESPONSE itt
             (ISCSI_PDU_DROP_ON_RECONNECT OR ISCSI_PDU_CORK_WHEN_SENT) iscsi;
           case r of
             NULL \<Rightarrow> Some (-1, iscsi)
           | Ptr i \<Rightarrow> do {
               iscsi \<leftarrow> pdu_modify i (\<lambda>p. iscsi_pdu_set_pduflags 0x80 (iscsi_pdu_set_immediate p)) iscsi;
               iscsi \<leftarrow> iscsi_pdu_set_cmdsn i (ctx_cmdsn iscsi) iscsi;
               iscsi \<leftarrow> pdu_modify i (\<lambda>p. p\<lparr>pdu_callback := cb\<rparr>) iscsi;
               iscsi \<leftarrow> iscsi_queue_pdu env i iscsi;
               Some (0, iscsi)
             }
         })"

definition iscsi_process_logout_reply :: "nat \<Rightarrow> iscsi_context \<Rightarrow> (int \<times> iscsi_context) option" where
  "iscsi_process_logout_reply i iscsi = do {
     iscsi \<leftarrow> pdu_callback_call SCSI_STATUS_GOOD i (iscsi\<lparr>ctx_is_loggedin := False\<rparr>);
     Some (0, iscsi)
   }"

definition iscsi_set_session_type :: "cint \<Rightarrow> iscsi_context \<Rightarrow> int \<times> iscsi_context" where
  "iscsi_set_session_type ty iscsi =
     (if ctx_is_loggedin iscsi then (-1, iscsi) else (0, iscsi\<lparr>ctx_session_type := ty\<rparr>))"

end
