(* ===== verification/Outcome.thy ===== *)
theory Outcome
  imports Iscsi_Nop
begin

text \<open>
  What holds of the result of an operation that may be undefined: \<open>post P m\<close>, with the rules that take
  an operation apart along its code, and the frame rules of the operations on PDUs that every
  request uses. \<open>keeps g c m\<close>: \<open>m\<close> leaves what \<open>g\<close> reads of the context as it is in \<open>c\<close>.
\<close>

section \<open>Postconditions\<close>

named_theorems post_rules "rules that take an operation apart"
named_theorems frame_rules "what the operations leave unchanged"

definition post :: "('a \<Rightarrow> bool) \<Rightarrow> 'a option \<Rightarrow> bool" where
  "post P m \<longleftrightarrow> (\<forall>y. m = Some y \<longrightarrow> P y)"

lemma postI: "(\<And>y. m = Some y \<Longrightarrow> P y) \<Longrightarrow> post P m"
  by (simp add: post_def)

lemma postD: "post P m \<Longrightarrow> m = Some y \<Longrightarrow> P y"
  by (simp add: post_def)

lemma post_None [simp, post_rules]: "post P None"
  by (simp add: post_def)

lemma post_Some [simp]: "post P (Some y) \<longleftrightarrow> P y"
  by (simp add: post_def)

lemma post_mono: "post P m \<Longrightarrow> (\<And>y. P y \<Longrightarrow> Q y) \<Longrightarrow> post Q m"
  by (simp add: post_def)

lemma post_bind: "post P m \<Longrightarrow> (\<And>y. P y \<Longrightarrow> post Q (k y)) \<Longrightarrow> post Q (m \<bind> k)"
  by (cases m) (auto simp: post_def)

lemma post_read: "(\<And>y. m = Some y \<Longrightarrow> post Q (k y)) \<Longrightarrow> post Q (m \<bind> k)"
  by (cases m) (auto simp: post_def)

lemma post_if [post_rules]: "(b \<Longrightarrow> post P m) \<Longrightarrow> (\<not> b \<Longrightarrow> post P m') \<Longrightarrow> post P (if b then m else m')"
  by simp

section \<open>Frames\<close>

definition keeps :: "(iscsi_context \<Rightarrow> 'b) \<Rightarrow> iscsi_context \<Rightarrow> ('r \<times> iscsi_context) option \<Rightarrow> bool" where
  "keeps g c m \<longleftrightarrow> post (\<lambda>(r, c'). g c' = g c) m"

definition keeps1 :: "(iscsi_context \<Rightarrow> 'b) \<Rightarrow> iscsi_context \<Rightarrow> iscsi_context option \<Rightarrow> bool" where
  "keeps1 g c m \<longleftrightarrow> post (\<lambda>c'. g c' = g c) m"

lemma keepsI: "(\<And>r c'. m = Some (r, c') \<Longrightarrow> g c' = g c) \<Longrightarrow> keeps g c m"
  by (auto simp: keeps_def post_def)

lemma keeps1I: "(\<And>c'. m = Some c' \<Longrightarrow> g c' = g c) \<Longrightarrow> keeps1 g c m"
  by (simp add: keeps1_def post_def)

lemma keepsD: "keeps g c m \<Longrightarrow> m = Some (r, c') \<Longrightarrow> g c' = g c"
  by (simp add: keeps_def post_def)

lemma keeps1D: "keeps1 g c m \<Longrightarrow> m = Some c' \<Longrightarrow> g c' = g c"
  by (simp add: keeps1_def post_def)

lemma keeps_Some [post_rules]: "g c' = g c \<Longrightarrow> keeps g c (Some (r, c'))" "g c' = g c \<Longrightarrow> keeps1 g c (Some c')"
  by (simp_all add: keeps_def keeps1_def)

lemma keeps_None [post_rules]: "keeps g c None" "keeps1 g c None"
  by (simp_all add: keeps_def keeps1_def)

lemma keeps_if [post_rules]:
  "(b \<Longrightarrow> keeps g c m) \<Longrightarrow> (\<not> b \<Longrightarrow> keeps g c m') \<Longrightarrow> keeps g c (if b then m else m')"
  "(b \<Longrightarrow> keeps1 g c m1) \<Longrightarrow> (\<not> b \<Longrightarrow> keeps1 g c m1') \<Longrightarrow> keeps1 g c (if b then m1 else m1')"
  by simp_all

lemma keeps_from: "keeps g c m \<Longrightarrow> g c = g c0 \<Longrightarrow> keeps g c0 m" "keeps1 g c m1 \<Longrightarrow> g c = g c0 \<Longrightarrow> keeps1 g c0 m1"
  by (simp_all add: keeps_def keeps1_def)

lemma keeps_bind: "keeps g c m \<Longrightarrow> (\<And>r c'. g c' = g c \<Longrightarrow> keeps g c (k r c')) \<Longrightarrow> keeps g c (m \<bind> (\<lambda>(r, c'). k r c'))"
  by (auto simp: keeps_def intro!: post_bind)

lemma keeps_bind1: "keeps1 g c m \<Longrightarrow> (\<And>c'. g c' = g c \<Longrightarrow> keeps g c (k c')) \<Longrightarrow> keeps g c (m \<bind> k)"
  by (auto simp: keeps_def keeps1_def intro!: post_bind)

lemma keeps1_bind1: "keeps1 g c m \<Longrightarrow> (\<And>c'. g c' = g c \<Longrightarrow> keeps1 g c (k c')) \<Longrightarrow> keeps1 g c (m \<bind> k)"
  by (auto simp: keeps1_def intro!: post_bind)

lemma keeps_read: "(\<And>y. m = Some y \<Longrightarrow> keeps g c (k y)) \<Longrightarrow> keeps g c (m \<bind> k)"
  by (auto simp: keeps_def intro!: post_read)

lemma keeps1_read: "(\<And>y. m = Some y \<Longrightarrow> keeps1 g c (k y)) \<Longrightarrow> keeps1 g c (m \<bind> k)"
  by (auto simp: keeps1_def intro!: post_read)

lemma keeps_ptr [post_rules]:
  "(r = NULL \<Longrightarrow> keeps g c m) \<Longrightarrow> (\<And>i. r = Ptr i \<Longrightarrow> keeps g c (k i)) \<Longrightarrow>
     keeps g c (case r of NULL \<Rightarrow> m | Ptr i \<Rightarrow> k i)"
  "(r = NULL \<Longrightarrow> keeps1 g c m1) \<Longrightarrow> (\<And>i. r = Ptr i \<Longrightarrow> keeps1 g c (k1 i)) \<Longrightarrow>
     keeps1 g c (case r of NULL \<Rightarrow> m1 | Ptr i \<Rightarrow> k1 i)"
  by (cases r; auto)+

section \<open>The operations on PDUs\<close>

text \<open>What the session is: the members no operation on PDUs writes.\<close>

definition pdu_blind :: "(iscsi_context \<Rightarrow> 'b) \<Rightarrow> bool" where
  "pdu_blind g \<longleftrightarrow> (\<forall>c x q t. g (c\<lparr>ctx_pdus := x\<rparr>) = g c \<and> g (c\<lparr>ctx_outqueue_current := q\<rparr>) = g c \<and>
     g (c\<lparr>ctx_tasks := t\<rparr>) = g c) \<and> (\<forall>c q w. g (c\<lparr>ctx_outqueue := q\<rparr>) = g c \<and>
     g (c\<lparr>ctx_waitpdu := w\<rparr>) = g c)"

lemma pdu_blindD [simp]:
  assumes "pdu_blind g"
  shows "g (c\<lparr>ctx_pdus := x\<rparr>) = g c" "g (c\<lparr>ctx_outqueue_current := q\<rparr>) = g c" "g (c\<lparr>ctx_tasks := t\<rparr>) = g c"
    "g (c\<lparr>ctx_outqueue := qs\<rparr>) = g c" "g (c\<lparr>ctx_waitpdu := qs\<rparr>) = g c" "g (pdu_store i p c) = g c" "g (task_modify t0 f c) = g c"
  using assms by (simp_all add: pdu_blind_def pdu_store_def task_modify_def)

lemma keeps_pdu_modify [frame_rules]: "pdu_blind g \<Longrightarrow> keeps1 g c (pdu_modify i f c)"
  by (auto simp: pdu_modify_def keeps1_def post_def bind_eq_Some_conv)

lemma keeps_free_pdu [frame_rules]: "pdu_blind g \<Longrightarrow> keeps1 g c (iscsi_tcp_free_pdu i c)"
  by (auto simp: iscsi_tcp_free_pdu_def keeps1_def post_def bind_eq_Some_conv Let_def)

lemma keeps_set_cmdsn [frame_rules]: "pdu_blind g \<Longrightarrow> keeps1 g c (iscsi_pdu_set_cmdsn i n c)"
  unfolding iscsi_pdu_set_cmdsn_def Let_def
  by (intro keeps1_read post_rules) (simp split: ptr.split)

lemma keeps_add_data [frame_rules]: "pdu_blind g \<Longrightarrow> keeps g c (iscsi_pdu_add_data ok i d n c)"
  by (auto simp: iscsi_pdu_add_data_def keeps_def post_def bind_eq_Some_conv Let_def split: if_splits)

lemma keeps_allocate [frame_rules]: "pdu_blind g \<Longrightarrow> keeps g c (iscsi_allocate_pdu env op rop itt fl c)"
  unfolding iscsi_allocate_pdu_def Let_def
  by (intro post_rules keeps_bind1 keeps_from(2) [OF keeps_free_pdu]) (assumption | rule refl | simp only: pdu_blindD)+

lemma keeps_callback [frame_rules]:
  assumes "pdu_blind g" "\<And>c t. g (c\<lparr>ctx_trace := t\<rparr>) = g c" "\<And>c b. g (c\<lparr>ctx_pending_reconnect := b\<rparr>) = g c"
  shows "keeps1 g c (pdu_callback_call st i c)"
proof (rule keeps1I)
  fix c'
  assume "pdu_callback_call st i c = Some c'"
  then obtain p where "(case pdu_callback p of NULL \<Rightarrow> Some c | Ptr Scsi_response_cb \<Rightarrow> iscsi_scsi_response_cb st p c
      | Ptr Reconnect_after_logout_cb \<Rightarrow> Some (c\<lparr>ctx_pending_reconnect := True\<rparr>)
      | Ptr (App_cb cb) \<Rightarrow> Some (c\<lparr>ctx_trace := ctx_trace c @ [Callback cb st]\<rparr>)) = Some c'"
    by (auto simp: pdu_callback_call_def bind_eq_Some_conv)
  then show "g c' = g c"
    by (auto simp: assms iscsi_scsi_response_cb_def Let_def split: ptr.split_asm iscsi_command_cb.split_asm)
qed

definition service_keeps :: "(iscsi_context \<Rightarrow> 'b) \<Rightarrow> iscsi_env \<Rightarrow> bool" where
  "service_keeps g env \<longleftrightarrow> (\<forall>c. keeps1 g c (env_service env c))"

lemma keeps_immediate_cmdsn [frame_rules]: "pdu_blind g \<Longrightarrow> keeps1 g c (immediate_cmdsn i c)"
  unfolding immediate_cmdsn_def
  by (intro post_rules keeps1_read keeps_set_cmdsn refl)

lemma keeps_insert [frame_rules]:
  assumes "pdu_blind g"
  shows "keeps1 g c (outqueue_insert env i c)"
  unfolding outqueue_insert_def Let_def
  by (intro keeps1_bind1 keeps_pdu_modify keeps1_read post_rules assms
      keeps_from(2) [OF keeps_immediate_cmdsn [OF assms]]) (simp_all add: assms)

lemma keeps_queue_pdu [frame_rules]: "pdu_blind g \<Longrightarrow> service_keeps g env \<Longrightarrow> keeps1 g c (iscsi_queue_pdu env i c)"
  unfolding iscsi_queue_pdu_def iscsi_tcp_queue_pdu_def iscsi_add_to_outqueue_def
  by (rule keeps1_bind1 [OF keeps_insert]) (auto intro!: post_rules intro: keeps_from simp: service_keeps_def)

end
