(* ===== verification/Login_Auth.thy ===== *)
theory Login_Auth
  imports Iscsi_Login Outcome
begin

text \<open>
  What a login reply can achieve: when the session becomes logged in, what the target has shown of
  its secret then, and how this check is evaded; what the limits a target announces lead to.
\<close>

section \<open>Sending a request does not log in\<close>

lemma keeps_add_bytes [frame_rules]: "pdu_blind g \<Longrightarrow> keeps g c (login_add_bytes env i bs c)"
  unfolding login_add_bytes_def by (intro keeps_bind keeps_add_data post_rules)

lemma keeps_add_string [frame_rules]: "pdu_blind g \<Longrightarrow> keeps g c (login_add_string env i s c)"
  unfolding login_add_string_def by (rule keeps_add_bytes)

lemma keeps_steps: "(\<And>f c. f \<in> set fs \<Longrightarrow> keeps g c (f c)) \<Longrightarrow> keeps g c (login_steps fs c)"
proof (induction fs arbitrary: c)
  case (Cons f fs)
  show ?case unfolding login_steps.simps
    by (intro keeps_bind post_rules keeps_from(1) [OF Cons.IH] Cons.prems) simp_all
qed (auto intro: post_rules)

lemma keeps_add_hex [frame_rules]: "pdu_blind g \<Longrightarrow> keeps g c (login_add_hex env i bs c)"
  unfolding login_add_hex_def by (rule keeps_steps) (auto intro: keeps_add_bytes)

text \<open>What no login request writes: nor the counters of the login.\<close>

definition login_blind :: "(iscsi_context \<Rightarrow> 'b) \<Rightarrow> bool" where
  "login_blind g \<longleftrightarrow> pdu_blind g \<and> (\<forall>c l. g (c\<lparr>ctx_login := l\<rparr>) = g c) \<and>
     (\<forall>c x. g (c\<lparr>ctx_itt := x\<rparr>) = g c \<and> g (c\<lparr>ctx_cmdsn := x\<rparr>) = g c \<and> g (c\<lparr>ctx_expcmdsn := x\<rparr>) = g c \<and>
        g (c\<lparr>ctx_maxcmdsn := x\<rparr>) = g c \<and> g (c\<lparr>ctx_min_cmdsn_waiting := x\<rparr>) = g c)"

lemma login_blindD [simp]:
  assumes "login_blind g"
  shows "pdu_blind g" "g (c\<lparr>ctx_login := l\<rparr>) = g c" "g (randomize_serials env c) = g c"
  using assms by (simp_all add: login_blind_def randomize_serials_def Let_def)

lemma keeps_challenge: "login_blind g \<Longrightarrow> keeps g c (challenge_target env i c)"
  unfolding challenge_target_def Let_def random_bytes_def prod.case
  by (intro keeps_bind keeps_read post_rules keeps_from(1) [OF keeps_add_string] keeps_from(1) [OF keeps_steps])
    (auto intro: keeps_add_bytes keeps_add_hex)

lemma keeps_chap_response: "login_blind g \<Longrightarrow> keeps g c (iscsi_login_add_chap_response env i c)"
  unfolding iscsi_login_add_chap_response_def Let_def
  by (intro keeps_bind keeps_read post_rules keeps_steps keeps_from(1) [OF keeps_challenge])
    (auto intro: keeps_add_bytes keeps_add_hex)

lemmas key_defs = iscsi_login_add_initiatorname_def iscsi_login_add_alias_def iscsi_login_add_targetname_def
  iscsi_login_add_sessiontype_def iscsi_login_add_headerdigest_def iscsi_login_add_authmethod_def
  iscsi_login_add_authalgorithm_def iscsi_login_add_datadigest_def iscsi_login_add_initialr2t_def
  iscsi_login_add_immediatedata_def iscsi_login_add_maxburstlength_def iscsi_login_add_firstburstlength_def
  iscsi_login_add_maxrecvdatasegmentlength_def iscsi_login_add_datapduinorder_def
  iscsi_login_add_defaulttime2wait_def iscsi_login_add_defaulttime2retain_def iscsi_login_add_ifmarker_def
  iscsi_login_add_ofmarker_def iscsi_login_add_maxconnections_def iscsi_login_add_maxoutstandingr2t_def
  iscsi_login_add_errorrecoverylevel_def iscsi_login_add_datasequenceinorder_def
  iscsi_login_add_rdma_extensions_def iscsi_login_add_initiatorrecvdatasegmentlength_def
  iscsi_login_add_targetrecvdatasegmentlength_def

lemma keeps_opneg [frame_rules]: "pdu_blind g \<Longrightarrow> keeps g c (add_opneg env i s c)"
  unfolding add_opneg_def by (intro post_rules keeps_add_string refl)

lemma keeps_username: "pdu_blind g \<Longrightarrow> keeps g c (iscsi_login_add_chap_username env i c)"
  unfolding iscsi_login_add_chap_username_def
  by (intro post_rules keeps_steps refl) (auto intro: keeps_add_bytes keeps_add_string)

lemma keeps_login_keys:
  assumes "login_blind g" "f \<in> set (login_keys env i c0)"
  shows "keeps g c (f c)"
proof -
  have g: "pdu_blind g" using assms(1) by simp
  have keys: "keeps g c (iscsi_login_add_initiatorname env i c)" "keeps g c (iscsi_login_add_alias env i c)"
    "keeps g c (iscsi_login_add_targetname env i c)" "keeps g c (iscsi_login_add_sessiontype env i c)"
    "keeps g c (iscsi_login_add_headerdigest env i c)" "keeps g c (iscsi_login_add_authmethod env i c)"
    "keeps g c (iscsi_login_add_authalgorithm env i c)" "keeps g c (iscsi_login_add_datadigest env i c)"
    "keeps g c (iscsi_login_add_initialr2t env i c)" "keeps g c (iscsi_login_add_immediatedata env i c)"
    "keeps g c (iscsi_login_add_maxburstlength env i c)" "keeps g c (iscsi_login_add_firstburstlength env i c)"
    "keeps g c (iscsi_login_add_maxrecvdatasegmentlength env i c)" "keeps g c (iscsi_login_add_datapduinorder env i c)"
    "keeps g c (iscsi_login_add_defaulttime2wait env i c)" "keeps g c (iscsi_login_add_defaulttime2retain env i c)"
    "keeps g c (iscsi_login_add_ifmarker env i c)" "keeps g c (iscsi_login_add_ofmarker env i c)"
    "keeps g c (iscsi_login_add_maxconnections env i c)" "keeps g c (iscsi_login_add_maxoutstandingr2t env i c)"
    "keeps g c (iscsi_login_add_errorrecoverylevel env i c)" "keeps g c (iscsi_login_add_datasequenceinorder env i c)"
    "keeps g c (iscsi_login_add_rdma_extensions env i c)" "keeps g c (iscsi_login_add_initiatorrecvdatasegmentlength env i c)"
    "keeps g c (iscsi_login_add_targetrecvdatasegmentlength env i c)" for c
    unfolding key_defs Let_def by (intro post_rules keeps_opneg keeps_add_string refl g)+
  then show ?thesis
    using assms(2) keeps_username [OF g] keeps_chap_response [OF assms(1)]
    unfolding login_keys_def by (auto split: if_splits)
qed

lemma keeps_login_async:
  assumes "login_blind g" "service_keeps g env"
  shows "keeps g c (iscsi_login_async env cb c)"
  unfolding iscsi_login_async_def Let_def
  by (intro post_rules keeps_bind keeps_bind1 keeps_from(1) [OF keeps_allocate] keeps_from(2) [OF keeps_pdu_modify]
      keeps_from(2) [OF keeps_set_cmdsn] keeps_from(2) [OF keeps_free_pdu] keeps_from(2) [OF keeps_queue_pdu]
      keeps_from(1) [OF keeps_steps] keeps_login_keys assms)
    (simp_all add: assms)

declare pdu_blindD [simp del] login_blindD [simp del]

lemma blind_loggedin: "login_blind ctx_is_loggedin"
  by (simp add: login_blind_def pdu_blind_def)

section \<open>The keys of a reply\<close>

text \<open>The strings of a data segment up to an empty one.\<close>

function text_strings :: "bytes \<Rightarrow> bytes list" where
  "text_strings bs =
     (case split_nul bs of
        None \<Rightarrow> []
      | Some (s, rest) \<Rightarrow> if s = [] then [] else s # text_strings rest)"
  by pat_completeness auto

termination
  by (relation "measure length") (auto dest: split_nul_shorter)

declare text_strings.simps [simp del]

lemma starts_split: "starts lit s \<Longrightarrow> s = cstr lit @ behind_key lit s"
  by (metis append_take_drop_id starts_def behind_key_def)

text \<open>What no reply writes before it ends: the login state, the secrets.\<close>

definition secrets :: "iscsi_context \<Rightarrow> bool \<times> bytes \<times> cint \<times> bytes" where
  "secrets c = (let l = ctx_login c in (ctx_is_loggedin c, lg_target_user l, lg_chap_auth l, lg_target_chap_r l))"

lemma secrets_eqD:
  "secrets c' = secrets c \<Longrightarrow> ctx_is_loggedin c' = ctx_is_loggedin c"
  "secrets c' = secrets c \<Longrightarrow> lg_target_user (ctx_login c') = lg_target_user (ctx_login c)"
  "secrets c' = secrets c \<Longrightarrow> chap_r_matches (ctx_login c') s = chap_r_matches (ctx_login c) s"
  by (simp_all add: secrets_def Let_def chap_r_matches_def)

lemma secrets_blind: "pdu_blind secrets" "secrets (c\<lparr>ctx_trace := t\<rparr>) = secrets c"
  "secrets (c\<lparr>ctx_pending_reconnect := b\<rparr>) = secrets c"
  by (simp_all add: pdu_blind_def secrets_def)

text \<open>A string that shows that the target knows its secret.\<close>

definition shows_name :: "iscsi_login \<Rightarrow> bytes \<Rightarrow> bool" where
  "shows_name l s \<longleftrightarrow> s = cstr ''CHAP_N='' @ lg_target_user l"

definition shows_response :: "iscsi_login \<Rightarrow> bytes \<Rightarrow> bool" where
  "shows_response l s \<longleftrightarrow> (\<exists>digits. s = cstr ''CHAP_R=0x'' @ digits \<and> length digits = 2 * chap_r_size (lg_chap_auth l) \<and>
     chap_r_matches l digits)"

lemma keeps_fail: "keeps secrets c (fail_login r i c)"
  unfolding fail_login_def by (intro keeps_bind1 keeps_callback post_rules secrets_blind)

text \<open>What one string changes, and what it shows.\<close>

definition key_step :: "iscsi_login \<Rightarrow> iscsi_context \<Rightarrow> bool \<Rightarrow> bool \<Rightarrow> bytes \<Rightarrow> login_progress \<Rightarrow> bool" where
  "key_step l c n r s p =
     (case p of
        Inl (_, c') \<Rightarrow> ctx_is_loggedin c' = ctx_is_loggedin c
      | Inr (c', n', r') \<Rightarrow> secrets c' = secrets c \<and> (n \<longrightarrow> n' \<or> shows_name l s) \<and>
          (r \<longrightarrow> r' \<or> shows_response l s))"

lemma key_step_goon: "secrets c' = secrets c \<Longrightarrow> post (key_step l c n r s) (Some (Inr (c', n, r)))"
  by (simp add: key_step_def)

lemma key_step_stop: "post (key_step l c n r s) (do { x \<leftarrow> fail_login k i c; Some (Inl x) })"
  by (auto simp: key_step_def bind_eq_Some_conv intro!: postI dest!: keepsD [OF keeps_fail] secrets_eqD(1))

lemma reply_key_steps: "post (key_step (ctx_login c) c n r s) (login_reply_key env i s (c, n, r))"
proof -
  have resp: "shows_response (ctx_login c) s"
    if "starts ''CHAP_R=0x'' s" "length s = 9 + 2 * chap_r_size (lg_chap_auth (ctx_login c))"
      "chap_r_matches (ctx_login c) (behind_key ''CHAP_R=0x'' s)"
    using that starts_split [OF that(1)] by (auto simp: shows_response_def behind_key_def)
  have name: "shows_name (ctx_login c) s"
    if "starts ''CHAP_N='' s" "behind_key ''CHAP_N='' s = lg_target_user (ctx_login c)"
    using that(2) starts_split [OF that(1)] by (simp add: shows_name_def del: cstr_simps)
  show ?thesis
    unfolding login_reply_key_def Let_def prod.case
    by (intro post_if key_step_goon key_step_stop)
      (auto simp: secrets_def Let_def key_step_def simp del: cstr_simps intro: resp name)
qed

definition loop_step :: "iscsi_login \<Rightarrow> iscsi_context \<Rightarrow> bool \<Rightarrow> bool \<Rightarrow> bytes \<Rightarrow> login_progress \<Rightarrow> bool" where
  "loop_step l c n r bs p =
     (case p of
        Inl (_, c') \<Rightarrow> ctx_is_loggedin c' = ctx_is_loggedin c
      | Inr (c', n', r') \<Rightarrow> secrets c' = secrets c \<and>
          (n \<longrightarrow> n' \<or> (\<exists>s \<in> set (text_strings bs). shows_name l s)) \<and>
          (r \<longrightarrow> r' \<or> (\<exists>s \<in> set (text_strings bs). shows_response l s)))"

lemma shows_cong:
  "secrets c' = secrets c \<Longrightarrow> shows_name (ctx_login c') s = shows_name (ctx_login c) s"
  "secrets c' = secrets c \<Longrightarrow> shows_response (ctx_login c') s = shows_response (ctx_login c) s"
  by (simp_all add: shows_name_def shows_response_def secrets_def Let_def chap_r_matches_def)

lemma loop_step_trans:
  assumes "key_step (ctx_login c) c n r s (Inr (c', n', r'))" "loop_step (ctx_login c') c' n' r' rest p"
    "split_nul bs = Some (s, rest)" "s \<noteq> []"
  shows "loop_step (ctx_login c) c n r bs p"
proof -
  have t: "text_strings bs = s # text_strings rest"
    using assms(3,4) by (simp add: text_strings.simps [of bs])
  have sec: "secrets c' = secrets c" using assms(1) by (simp add: key_step_def)
  from assms(1,2) show ?thesis
    by (auto simp: key_step_def loop_step_def t secrets_eqD(1) [OF sec] shows_cong [OF sec] sec split: sum.splits)
qed

lemma reply_loop_steps: "post (loop_step (ctx_login c) c n r bs) (login_reply_loop env i bs (c, n, r))"
proof (induction "length bs" arbitrary: bs c n r rule: less_induct)
  case less
  show ?case
  proof (cases "bs = [] \<or> split_nul bs = None")
    case True
    then show ?thesis
      by (auto simp: login_reply_loop.simps [of env i bs] loop_step_def bind_eq_Some_conv
          intro!: postI dest!: keepsD [OF keeps_fail] secrets_eqD(1))
  next
    case False
    then obtain s rest where sp: "split_nul bs = Some (s, rest)" "bs \<noteq> []" by auto
    show ?thesis
    proof (cases "s = []")
      case True
      then show ?thesis using sp by (simp add: login_reply_loop.simps [of env i bs] loop_step_def)
    next
      case ne: False
      have k: "post (loop_step (ctx_login c) c n r bs)
          (case q of Inl r \<Rightarrow> Some (Inl r) | Inr st \<Rightarrow> login_reply_loop env i rest st)"
        if q: "key_step (ctx_login c) c n r s q" for q
      proof (cases q)
        case (Inl x)
        then show ?thesis using q by (auto simp: key_step_def loop_step_def)
      next
        case (Inr st)
        then obtain c' n' r' where st: "q = Inr (c', n', r')" by (cases st) auto
        show ?thesis
          using less.hyps [OF split_nul_shorter [OF sp(1)], of c' n' r'] loop_step_trans [OF q [unfolded st] _ sp(1) ne]
          by (auto simp: st intro: post_mono)
      qed
      show ?thesis
        using sp ne by (simp add: login_reply_loop.simps [of env i bs] post_bind [OF reply_key_steps k])
    qed
  qed
qed

section \<open>The end of the login\<close>

text \<open>What the header of a reply must say to log in.\<close>

definition final_reply :: "bytes \<Rightarrow> bool" where
  "final_reply hdr \<longleftrightarrow> hdr ! 1 AND ISCSI_PDU_LOGIN_TRANSIT \<noteq> 0 \<and>
     hdr ! 1 AND ISCSI_PDU_LOGIN_NSG_FF = ISCSI_PDU_LOGIN_NSG_FF \<and> scsi_get_uint16 hdr 36 = 0"

lemma callback_loggedin: "pdu_callback_call st i c = Some c' \<Longrightarrow> ctx_is_loggedin c' = ctx_is_loggedin c"
  by (rule keeps1D [OF keeps_callback]) (simp_all add: pdu_blind_def)

lemma reply_done_logs_in:
  assumes "service_keeps ctx_is_loggedin env" "login_reply_done env i hdr (c, n, r) = Some (x, c')"
    "ctx_is_loggedin c' \<noteq> ctx_is_loggedin c"
  shows "final_reply hdr \<and> \<not> n \<and> \<not> r"
proof -
  note K = keepsD [OF keeps_login_async [OF blind_loggedin assms(1)]]
  have F: "ctx_is_loggedin c1 = ctx_is_loggedin c0" if "fail_login k i c0 = Some (y, c1)" for k c0 y c1
    using that by (rule keepsD [OF keeps_fail, THEN secrets_eqD(1)])
  show ?thesis
    using assms(2,3) unfolding login_reply_done_def prod.case Let_def
    by (auto simp: final_reply_def bind_eq_Some_conv split: if_split_asm dest!: callback_loggedin K F)
qed

section \<open>Properties\<close>


text \<open>
  C35: the CSG of a reply is not compared with the phase the login is in. A reply without any data that
  claims to be in the operational negotiation (T, CSG = OPNEG, NSG = full feature phase) logs in
  whatever the phase, and whether or not the target was to authenticate itself.
\<close>

theorem login_reply_evades_mutual_chap:
  assumes "ctx_pdus c i = Some p" and "pdu_callback p = Ptr (App_cb cb)"
    and "in_hdr inp ! 1 = 0x87" and "scsi_get_uint16 (in_hdr inp) 36 = 0" and "in_data_pos inp = 0"
  shows "\<exists>c'. iscsi_process_login_reply env i inp c = Some (0, c') \<and> ctx_is_loggedin c' \<and>
    ctx_trace c' = ctx_trace c @ [Callback cb SCSI_STATUS_GOOD]"
proof -
  have m: "\<not> must_have_chap (in_hdr inp) (ctx_login c)" by (simp add: must_have_chap_def assms(3) [simplified])
  have tr: "(0x87 :: u8) AND ISCSI_PDU_LOGIN_TRANSIT \<noteq> 0" "(0x87 :: u8) AND ISCSI_PDU_LOGIN_NSG_FF = ISCSI_PDU_LOGIN_NSG_FF"
    by simp_all
  show ?thesis
    using assms(1,2)
    by (simp add: iscsi_process_login_reply_def Let_def m assms(3) [simplified] assms(4,5) login_reply_loop.simps login_reply_done_def
        pdu_callback_call_def iscsi_itt_post_increment_def tr)
qed

section \<open>Limits announced by the target\<close>

lemma keeps_after_alloc:
  assumes "pdu_blind g" "service_keeps g env"
  shows "keeps g c (send_data_out_pdu env i ttt off len final c)"
  unfolding send_data_out_pdu_def
  by (intro keeps_read keeps_bind post_rules keeps_bind1 keeps_from(1) [OF keeps_allocate] keeps_from(2) [OF keeps_pdu_modify]
      keeps_from(2) [OF keeps_queue_pdu] assms) simp_all

lemma send_error_negative: "post (\<lambda>(r, c'). r = -1) (send_data_out_error i c)"
  unfolding send_data_out_error_def Let_def by (intro post_read) simp

lemma send_zero_fails:
  "iscsi_send_data_out env i ttt off len c = Some y \<Longrightarrow> service_keeps ctx_target_max_recv_data_segment_length env \<Longrightarrow>
    ctx_target_max_recv_data_segment_length c = 0 \<Longrightarrow> len \<noteq> 0 \<Longrightarrow> fst y \<noteq> 0"
proof (induction rule: iscsi_send_data_out.raw_induct [rotated, consumes 1])
  case (1 f env i ttt off len c y)
  from 1(2,4,5) obtain ok c1 where s: "send_data_out_pdu env i ttt off 0 (len = 0) c = Some (ok, c1)"
    "(if ok then f env i ttt off len c1 else send_data_out_error i c1) = Some y"
    by (auto simp: Let_def bind_eq_Some_conv cong: if_cong)
  have "ctx_target_max_recv_data_segment_length c1 = 0"
    using keepsD [OF keeps_after_alloc s(1), of ctx_target_max_recv_data_segment_length] 1(3,4)
    by (simp add: pdu_blind_def)
  then show ?case
    using s(2) 1(1) [OF _ 1(3) _ 1(5)] send_error_negative [of i c1]
    by (cases ok) (auto simp: post_def)
qed

text \<open>
  C37: a target that announces \<open>MaxRecvDataSegmentLength=0\<close> is taken at its word: from then on no
  DATA-OUT train is ever finished, the loop goes on queueing PDUs without data until an allocation
  fails (or for ever).
\<close>

theorem login_zero_segment_length_stops_writes:
  assumes "service_keeps ctx_target_max_recv_data_segment_length env"
  shows "\<exists>c'. login_reply_key env i (cstr ''MaxRecvDataSegmentLength=0'') (c, n, r) = Some (Inr (c', n, r)) \<and>
    (\<forall>j ttt off len c2. 0 < len \<longrightarrow> iscsi_send_data_out env j ttt off len c' \<noteq> Some (0, c2))"
proof -
  define c' where "c' = c\<lparr>ctx_target_max_recv_data_segment_length := 0\<rparr>"
  have "login_reply_key env i (cstr ''MaxRecvDataSegmentLength=0'') (c, n, r) = Some (Inr (c', n, r))"
    by (simp add: login_reply_key_def starts_def behind_key_def c_strtol_def signed_digits_def is_space_def is_digit_def
        digits_value_def c'_def)
  moreover have "iscsi_send_data_out env j ttt off len c' \<noteq> Some (0, c2)" if "0 < len" for j ttt off len c2
    using send_zero_fails [of env j ttt off len c' "(0, c2)"] assms that by (auto simp: c'_def)
  ultimately show ?thesis by blast
qed

text \<open>
  The lengths that a request announces as text are read back as they are by the parser of the
  replies, for every value of the 32 bit member, although they are printed as signed numbers.
\<close>

theorem login_lengths_roundtrip:
  "login_reply_key env i (cstr ''MaxBurstLength='' @ c_decimal (sint w)) (c, n, r) =
     Some (Inr (c\<lparr>ctx_max_burst_length := w\<rparr>, n, r)) \<and>
   login_reply_key env i (cstr ''FirstBurstLength='' @ c_decimal (sint w)) (c, n, r) =
     Some (Inr (c\<lparr>ctx_first_burst_length := w\<rparr>, n, r)) \<and>
   login_reply_key env i (cstr ''MaxRecvDataSegmentLength='' @ c_decimal (sint w)) (c, n, r) =
     Some (Inr (c\<lparr>ctx_target_max_recv_data_segment_length := w\<rparr>, n, r))"
proof -
  have "c_strtol (c_decimal (sint w)) = sint w" for w :: u32
    by (rule strtol_decimal) (use sint_greater_eq [of w] sint_less [of w] in auto)
  then show ?thesis
    by (simp add: login_reply_key_def starts_def behind_key_def)
qed

section \<open>Witnesses\<close>

definition demo_text :: bytes where
  "demo_text = cstr ''CHAP_N=tgt'' @ [0] @ cstr ''CHAP_R=0x'' @ concat (replicate 16 (cstr ''5A'')) @ [0]"

definition demo_login_pdu :: "u8 \<Rightarrow> bytes \<Rightarrow> iscsi_in_pdu" where
  "demo_login_pdu flags bs = \<lparr>in_hdr_pos = 48, in_hdr = (replicate 48 0)[1 := flags], in_data_pos = length bs,
     in_data = bs, in_data_digest_buf = [], in_received_data_digest_bytes = 0, in_calculated_data_digest = 0\<rparr>"

definition demo_login :: iscsi_context where
  "demo_login = zero_context\<lparr>ctx_pdus := [1 \<mapsto> zero_pdu\<lparr>pdu_callback := Ptr (App_cb 7)\<rparr>],
     ctx_login := zero_login\<lparr>lg_user := cstr ''me'', lg_target_user := cstr ''tgt'', lg_chap_auth := ISCSI_CHAP_MD5,
       lg_target_chap_r := replicate 16 0x5A\<rparr>\<rparr>"

lemma demo_login_reply:
  "map_option (\<lambda>(r, c'). (r, ctx_is_loggedin c')) (iscsi_process_login_reply demo_env 1 (demo_login_pdu 0x83 demo_text) demo_login) =
     Some (0, True)"
  by code_simp


theorem login_reply_evades_mutual_chap_witness:
  "lg_target_user (ctx_login demo_login) \<noteq> [] \<and>
    (\<exists>c'. iscsi_process_login_reply demo_env 1 (demo_login_pdu 0x87 []) demo_login = Some (0, c') \<and>
       ctx_is_loggedin c' \<and> ctx_trace c' = [Callback 7 SCSI_STATUS_GOOD])"
  using login_reply_evades_mutual_chap [of demo_login 1 "zero_pdu\<lparr>pdu_callback := Ptr (App_cb 7)\<rparr>" 7 "demo_login_pdu 0x87 []" demo_env]
  by (simp add: demo_login_def demo_login_pdu_def scsi_get_uint16_def zero_context_def)

theorem login_zero_segment_length_stops_writes_witness:
  "\<exists>c'. login_reply_key demo_env 1 (cstr ''MaxRecvDataSegmentLength=0'') (demo_login, False, False) =
      Some (Inr (c', False, False)) \<and>
    iscsi_send_data_out demo_env 3 0 0 512 c' \<noteq> Some (0, c')"
proof -
  have k: "service_keeps ctx_target_max_recv_data_segment_length demo_env"
    by (simp add: service_keeps_def demo_env_def keeps1_def)
  show ?thesis using login_zero_segment_length_stops_writes [OF k, of 1 demo_login False False] by auto
qed

end
