(* ===== verification/Iscsi_Discovery.thy ===== *)
theory Iscsi_Discovery
  imports Login_Auth
begin

text \<open>
  Discovery (\<open>lib/discovery.c\<close>): the SendTargets request and the reply with the targets and their
  portals. The reply allocates: \<open>ok k\<close> tells whether the \<open>k\<close>-th allocation of the call succeeds, and
  the state counts the blocks that have been allocated and not freed.
\<close>

section \<open>The request\<close>

definition text_request_pdu :: "iscsi_pdu \<Rightarrow> iscsi_pdu" where
  "text_request_pdu p = iscsi_pdu_set_ttt 0xffffffff (iscsi_pdu_set_pduflags ISCSI_PDU_TEXT_FINAL p)"

definition iscsi_discovery_async ::
  "iscsi_env \<Rightarrow> iscsi_command_cb ptr \<Rightarrow> iscsi_context \<Rightarrow> (int \<times> iscsi_context) option" where
  "iscsi_discovery_async env cb iscsi = do {
     let (itt, iscsi) = iscsi_itt_post_increment iscsi;
     (r, iscsi) \<leftarrow> iscsi_allocate_pdu env ISCSI_PDU_TEXT_REQUEST ISCSI_PDU_TEXT_RESPONSE itt
       ISCSI_PDU_DROP_ON_RECONNECT iscsi;
     case r of
       NULL \<Rightarrow> Some (-1, iscsi)
     | Ptr i \<Rightarrow> do {
         iscsi \<leftarrow> pdu_modify i iscsi_pdu_set_immediate iscsi;
         iscsi \<leftarrow> iscsi_pdu_set_cmdsn i (ctx_cmdsn iscsi) iscsi;
         iscsi \<leftarrow> pdu_modify i text_request_pdu iscsi;
         let str = cstr ''SendTargets=All'' @ [0];
         (r, iscsi) \<leftarrow> iscsi_pdu_add_data (env_malloc env iscsi) i str (int (length str)) iscsi;
         if r \<noteq> 0 then do {
           iscsi \<leftarrow> iscsi_tcp_free_pdu i iscsi;
           Some (-1, iscsi)
         }
         else do {
           iscsi \<leftarrow> pdu_modify i (\<lambda>p. p\<lparr>pdu_callback := cb\<rparr>) iscsi;
           iscsi \<leftarrow> iscsi_queue_pdu env i iscsi;
           Some (0, iscsi)
         }
       }
   }"

section \<open>The reply\<close>

record iscsi_target_portal =
  tp_portal :: "bytes ptr"

record iscsi_discovery_address =
  da_target_name :: bytes
  da_portals :: "iscsi_target_portal list"

text \<open>The list of targets, the live blocks and the number of allocations so far.\<close>

type_synonym discovery = "iscsi_discovery_address list \<times> int \<times> nat"

text \<open>\<open>iscsi_free\<close> of \<open>NULL\<close> does nothing.\<close>

fun free_portals :: "iscsi_target_portal list \<Rightarrow> int \<Rightarrow> int" where
  "free_portals [] live = live"
| "free_portals (p # ps) live =
     free_portals ps (live - (case tp_portal p of NULL \<Rightarrow> 0 | Ptr _ \<Rightarrow> 1) - 1)"

fun iscsi_free_discovery_addresses :: "iscsi_discovery_address list \<Rightarrow> int \<Rightarrow> int" where
  "iscsi_free_discovery_addresses [] live = live"
| "iscsi_free_discovery_addresses (a # as) live =
     iscsi_free_discovery_addresses as (free_portals (da_portals a) (live - 1) - 1)"

text \<open>One string; \<open>Inl\<close>: the reply is refused, with the blocks that are live afterwards.\<close>

definition text_reply_string :: "(nat \<Rightarrow> bool) \<Rightarrow> bytes \<Rightarrow> discovery \<Rightarrow> int + discovery" where
  "text_reply_string ok s = (\<lambda>(targets, live, k).
     let refuse = (\<lambda>targets live. Inl (iscsi_free_discovery_addresses targets live))
     in if starts ''TargetName='' s then
          (if \<not> ok k then refuse targets live
           else if \<not> ok (k + 1) then refuse targets (live + 1 - 1)
           else Inr (\<lparr>da_target_name = behind_key ''TargetName='' s, da_portals = []\<rparr> # targets, live + 2, k + 2))
        else if starts ''TargetAddress='' s then
          (case targets of
             [] \<Rightarrow> refuse [] live
           | a # as \<Rightarrow>
               if \<not> ok k then refuse targets live
               else if \<not> ok (k + 1) then refuse (a\<lparr>da_portals := \<lparr>tp_portal = NULL\<rparr> # da_portals a\<rparr> # as) (live + 1)
               else Inr (a\<lparr>da_portals := \<lparr>tp_portal = Ptr (behind_key ''TargetAddress='' s)\<rparr> # da_portals a\<rparr> # as,
                      live + 2, k + 2))
        else refuse targets live)"

function text_reply_loop :: "(nat \<Rightarrow> bool) \<Rightarrow> bytes \<Rightarrow> discovery \<Rightarrow> int + discovery" where
  "text_reply_loop ok bs st =
     (if bs = [] then Inr st
      else case split_nul bs of
        None \<Rightarrow> Inl (iscsi_free_discovery_addresses (fst st) (fst (snd st)))
      | Some (s, rest) \<Rightarrow>
          if s = [] then Inr st
          else case text_reply_string ok s st of Inl live \<Rightarrow> Inl live | Inr st \<Rightarrow> text_reply_loop ok rest st)"
  by pat_completeness auto

termination
  by (relation "measure (\<lambda>(ok, bs, st). length bs)") (auto dest: split_nul_shorter)

declare text_reply_loop.simps [simp del]

text \<open>What the callback is shown: the names and the portals.\<close>

definition portal_name :: "iscsi_target_portal \<Rightarrow> bytes" where
  "portal_name p = (case tp_portal p of NULL \<Rightarrow> [] | Ptr s \<Rightarrow> s)"

definition reported :: "iscsi_discovery_address list \<Rightarrow> (bytes \<times> bytes list) list" where
  "reported targets = map (\<lambda>a. (da_target_name a, map portal_name (da_portals a))) targets"

text \<open>Returns the result, the blocks that are still allocated and the context.\<close>

definition iscsi_process_text_reply ::
  "(nat \<Rightarrow> bool) \<Rightarrow> nat \<Rightarrow> iscsi_in_pdu \<Rightarrow> iscsi_context \<Rightarrow> (int \<times> int \<times> iscsi_context) option" where
  "iscsi_process_text_reply ok i inp iscsi =
     (if in_hdr inp ! 1 \<noteq> ISCSI_PDU_TEXT_FINAL then do {
        iscsi \<leftarrow> pdu_callback_call SCSI_STATUS_ERROR i iscsi;
        Some (-1, 0, iscsi)
      }
      else do {
        bs \<leftarrow> rd_range (in_data inp) 0 (in_data_pos inp);
        case text_reply_loop ok bs ([], 0, 0) of
          Inl live \<Rightarrow> do {
            iscsi \<leftarrow> pdu_callback_call SCSI_STATUS_ERROR i iscsi;
            Some (-1, live, iscsi)
          }
        | Inr (targets, live, _) \<Rightarrow> do {
            iscsi \<leftarrow> pdu_callback_event SCSI_STATUS_GOOD
              (\<lambda>cb. Callback_targets cb SCSI_STATUS_GOOD (reported targets)) i iscsi;
            Some (0, iscsi_free_discovery_addresses targets live, iscsi)
          }
      })"

section \<open>Memory\<close>

definition portal_blocks :: "iscsi_target_portal list \<Rightarrow> int" where
  "portal_blocks ps = (\<Sum>p \<leftarrow> ps. (case tp_portal p of NULL \<Rightarrow> 0 | Ptr _ \<Rightarrow> 1) + 1)"

definition blocks :: "iscsi_discovery_address list \<Rightarrow> int" where
  "blocks as = (\<Sum>a \<leftarrow> as. portal_blocks (da_portals a) + 2)"

lemma free_portals_blocks: "free_portals ps live = live - portal_blocks ps"
  by (induction ps arbitrary: live) (simp_all add: portal_blocks_def)

lemma free_addresses_blocks: "iscsi_free_discovery_addresses as live = live - blocks as"
  by (induction as arbitrary: live) (simp_all add: blocks_def free_portals_blocks)

lemma reply_string_blocks:
  assumes "live = blocks targets"
  shows "case text_reply_string ok s (targets, live, k) of Inl l \<Rightarrow> l = 0 | Inr (targets', live', k') \<Rightarrow> live' = blocks targets'"
  using assms
  by (auto simp: text_reply_string_def Let_def free_addresses_blocks blocks_def portal_blocks_def split: list.splits)

lemma reply_loop_blocks:
  "live = blocks targets \<Longrightarrow>
   case text_reply_loop ok bs (targets, live, k) of Inl l \<Rightarrow> l = 0 | Inr (targets', live', k') \<Rightarrow> live' = blocks targets'"
proof (induction "length bs" arbitrary: bs targets live k rule: less_induct)
  case less
  show ?case
  proof (cases "split_nul bs")
    case None
    then show ?thesis using less.prems by (simp add: text_reply_loop.simps [of ok bs] free_addresses_blocks)
  next
    case (Some p)
    obtain s rest where sp: "split_nul bs = Some (s, rest)" using Some by (cases p) auto
    show ?thesis
    proof (cases "text_reply_string ok s (targets, live, k)")
      case (Inl l)
      then show ?thesis using reply_string_blocks [OF less.prems, of ok s k] sp less.prems
        by (simp add: text_reply_loop.simps [of ok bs])
    next
      case (Inr st)
      obtain t' l' k' where st: "st = (t', l', k')" by (cases st)
      have "l' = blocks t'" using reply_string_blocks [OF less.prems, of ok s k] Inr st by simp
      then show ?thesis
        using less.hyps [OF split_nul_shorter [OF sp], of l' t' k'] less.prems Inr st sp
        by (simp add: text_reply_loop.simps [of ok bs])
    qed
  qed
qed

section \<open>A list of targets as text\<close>

definition text_key :: "string \<Rightarrow> bytes \<Rightarrow> bytes" where
  "text_key lit v = cstr lit @ v @ [0]"

definition target_text :: "bytes \<times> bytes list \<Rightarrow> bytes" where
  "target_text = (\<lambda>(n, ps). text_key ''TargetName='' n @ concat (map (text_key ''TargetAddress='') ps))"

definition c_string :: "bytes \<Rightarrow> bool" where
  "c_string s \<longleftrightarrow> 0 \<notin> set s"

definition c_targets :: "(bytes \<times> bytes list) list \<Rightarrow> bool" where
  "c_targets ts \<longleftrightarrow> (\<forall>(n, ps) \<in> set ts. c_string n \<and> (\<forall>p \<in> set ps. c_string p))"

definition portals_of :: "bytes list \<Rightarrow> iscsi_target_portal list" where
  "portals_of ps = map (\<lambda>p. \<lparr>tp_portal = Ptr p\<rparr>) ps"

lemma loop_key:
  assumes "c_string (cstr lit @ v)" "lit \<noteq> []"
  shows "text_reply_loop ok (text_key lit v @ rest) st =
    (case text_reply_string ok (cstr lit @ v) st of Inl live \<Rightarrow> Inl live | Inr st \<Rightarrow> text_reply_loop ok rest st)"
proof -
  define s where "s = cstr lit @ v"
  have t: "text_key lit v @ rest = s @ 0 # rest" by (simp add: text_key_def s_def)
  have s: "s \<noteq> []" "0 \<notin> set s" using assms by (cases lit; simp add: s_def c_string_def)+
  show ?thesis
    unfolding t s_def [symmetric] using s by (simp add: text_reply_loop.simps [of ok "s @ 0 # rest"])
qed

lemma c_string_keys: "c_string v \<Longrightarrow> c_string (cstr ''TargetName='' @ v)" "c_string v \<Longrightarrow> c_string (cstr ''TargetAddress='' @ v)"
  by (simp_all add: c_string_def)

lemma read_portals:
  assumes "\<And>k. ok k" "\<forall>p \<in> set ps. c_string p"
  shows "\<exists>l' k'. text_reply_loop ok (concat (map (text_key ''TargetAddress='') ps) @ rest) (a # as, l, k) =
    text_reply_loop ok rest (a\<lparr>da_portals := portals_of (rev ps) @ da_portals a\<rparr> # as, l', k')"
  using assms(2)
proof (induction ps arbitrary: a l k)
  case Nil
  then show ?case by (auto simp: portals_of_def)
next
  case (Cons p ps)
  have "text_reply_loop ok (concat (map (text_key ''TargetAddress='') (p # ps)) @ rest) (a # as, l, k) =
      text_reply_loop ok (concat (map (text_key ''TargetAddress='') ps) @ rest)
        (a\<lparr>da_portals := \<lparr>tp_portal = Ptr p\<rparr> # da_portals a\<rparr> # as, l + 2, k + 2)"
    using Cons.prems assms(1) loop_key [of "''TargetAddress=''" p ok "concat (map (text_key ''TargetAddress='') ps) @ rest"]
    by (simp add: text_reply_string_def starts_def behind_key_def c_string_keys [simplified])
  then show ?case
    using Cons.IH [of "a\<lparr>da_portals := \<lparr>tp_portal = Ptr p\<rparr> # da_portals a\<rparr>" "l + 2" "k + 2"] Cons.prems
    by (simp add: portals_of_def)
qed

definition address_of :: "bytes \<times> bytes list \<Rightarrow> iscsi_discovery_address" where
  "address_of = (\<lambda>(n, ps). \<lparr>da_target_name = n, da_portals = portals_of (rev ps)\<rparr>)"

lemma read_targets:
  assumes "\<And>k. ok k" "c_targets ts"
  shows "\<exists>l' k'. text_reply_loop ok (concat (map target_text ts)) (as, l, k) = Inr (rev (map address_of ts) @ as, l', k')"
  using assms(2)
proof (induction ts arbitrary: as l k)
  case Nil
  then show ?case by (simp add: text_reply_loop.simps)
next
  case (Cons t ts)
  obtain n ps where t: "t = (n, ps)" by (cases t)
  have c: "c_string n" "\<forall>p \<in> set ps. c_string p" "c_targets ts" using Cons.prems t by (auto simp: c_targets_def)
  have "text_reply_loop ok (concat (map target_text (t # ts))) (as, l, k) =
      text_reply_loop ok (concat (map (text_key ''TargetAddress='') ps) @ concat (map target_text ts))
        (\<lparr>da_target_name = n, da_portals = []\<rparr> # as, l + 2, k + 2)"
    using c(1) assms(1) loop_key [of "''TargetName=''" n ok "concat (map (text_key ''TargetAddress='') ps) @ concat (map target_text ts)"]
    by (simp add: t target_text_def text_reply_string_def starts_def behind_key_def c_string_keys [simplified])
  then show ?case
    using read_portals [where ok = ok and ps = ps and rest = "concat (map target_text ts)" and a = "\<lparr>da_target_name = n, da_portals = []\<rparr>"
          and as = as and l = "l + 2" and k = "k + 2", OF assms(1) c(2)]
      Cons.IH [OF c(3)] by (auto simp: t address_of_def)
qed

lemma reported_addresses: "reported (rev (map address_of ts)) = rev (map (\<lambda>(n, ps). (n, rev ps)) ts)"
  by (auto simp: reported_def address_of_def portals_of_def portal_name_def [abs_def] rev_map comp_def)

section \<open>Properties\<close>

text \<open>
  C24: whatever the target sends and whichever allocation fails, nothing that a discovery reply has
  allocated is left when the function returns.
\<close>

theorem iscsi_process_text_reply_leaks_nothing:
  assumes "iscsi_process_text_reply ok i inp c = Some (r, live, c')"
  shows "live = 0"
proof (cases "in_hdr inp ! 1 = ISCSI_PDU_TEXT_FINAL")
  case False
  then show ?thesis using assms by (auto simp: iscsi_process_text_reply_def bind_eq_Some_conv)
next
  case True
  obtain bs where bs: "rd_range (in_data inp) 0 (in_data_pos inp) = Some bs"
    using assms True by (auto simp: iscsi_process_text_reply_def bind_eq_Some_conv)
  have "case text_reply_loop ok bs ([], 0, 0) of Inl l \<Rightarrow> l = 0 | Inr (t, l, k) \<Rightarrow> l = blocks t"
    by (rule reply_loop_blocks) (simp add: blocks_def)
  then show ?thesis
    using assms True bs
    by (auto simp: iscsi_process_text_reply_def bind_eq_Some_conv free_addresses_blocks split: sum.splits)
qed

text \<open>
  C23: a target list that is sent as text (each name followed by its portals) reaches the callback as
  the same targets and portals, both in reverse order, and is freed afterwards.
\<close>

theorem iscsi_process_text_reply_roundtrip:
  assumes "ctx_pdus c i = Some p" and "pdu_callback p = Ptr (App_cb cb)" and "\<And>k. ok k" and "c_targets ts"
    and "in_hdr inp ! 1 = ISCSI_PDU_TEXT_FINAL"
    and "in_data_pos inp \<le> length (in_data inp)"
    and "take (in_data_pos inp) (in_data inp) = concat (map target_text ts)"
  shows "iscsi_process_text_reply ok i inp c =
    Some (0, 0, c\<lparr>ctx_trace := ctx_trace c @
      [Callback_targets cb SCSI_STATUS_GOOD (rev (map (\<lambda>(n, ps). (n, rev ps)) ts))]\<rparr>)"
proof -
  obtain l k where lp: "text_reply_loop ok (concat (map target_text ts)) ([], 0, 0) = Inr (rev (map address_of ts), l, k)"
    using read_targets [where ok = ok, OF assms(3,4), of "[]" 0 0] by auto
  have "l = blocks (rev (map address_of ts))"
    using reply_loop_blocks [of 0 "[]" ok "concat (map target_text ts)" 0] lp by (simp add: blocks_def)
  then show ?thesis
    using assms(1,2,5-7)
    by (simp add: iscsi_process_text_reply_def lp pdu_callback_event_def free_addresses_blocks reported_addresses)
qed

section \<open>Witnesses\<close>

definition demo_targets :: "(bytes \<times> bytes list) list" where
  "demo_targets = [(cstr ''iqn.a'', [cstr ''h:1,1'', cstr ''i:1,2'']), (cstr ''iqn.b'', [])]"

definition demo_text_reply :: iscsi_in_pdu where
  "demo_text_reply = demo_login_pdu ISCSI_PDU_TEXT_FINAL (concat (map target_text demo_targets))"

theorem iscsi_process_text_reply_roundtrip_witness:
  "iscsi_process_text_reply (\<lambda>_. True) 1 demo_text_reply demo_login = Some (0, 0, demo_login\<lparr>ctx_trace :=
     [Callback_targets 7 SCSI_STATUS_GOOD [(cstr ''iqn.b'', []), (cstr ''iqn.a'', [cstr ''i:1,2'', cstr ''h:1,1''])]]\<rparr>)"
proof -
  have h: "in_hdr demo_text_reply ! 1 = ISCSI_PDU_TEXT_FINAL" "in_data_pos demo_text_reply \<le> length (in_data demo_text_reply)"
    "take (in_data_pos demo_text_reply) (in_data demo_text_reply) = concat (map target_text demo_targets)"
    by (simp_all add: demo_text_reply_def demo_login_pdu_def)
  have c: "c_targets demo_targets" by (simp add: c_targets_def demo_targets_def c_string_def)
  have p: "ctx_pdus demo_login 1 = Some (zero_pdu\<lparr>pdu_callback := Ptr (App_cb 7)\<rparr>)"
    "pdu_callback (zero_pdu\<lparr>pdu_callback := Ptr (App_cb 7)\<rparr>) = Ptr (App_cb 7)" "ctx_trace demo_login = []"
    by (simp_all add: demo_login_def zero_context_def)
  show ?thesis
    using iscsi_process_text_reply_roundtrip [OF p(1,2) _ c h, of "\<lambda>_. True"] p(3) by (simp add: demo_targets_def)
qed

text \<open>The second allocation fails.\<close>

theorem iscsi_process_text_reply_leaks_nothing_witness:
  "\<exists>live c'. iscsi_process_text_reply (\<lambda>k. k < 3) 1 demo_text_reply demo_login = Some (-1, live, c') \<and> live = 0"
proof -
  have "map_option fst (iscsi_process_text_reply (\<lambda>k. k < 3) 1 demo_text_reply demo_login) = Some (-1)"
    by code_simp
  then obtain live c' where "iscsi_process_text_reply (\<lambda>k. k < 3) 1 demo_text_reply demo_login = Some (-1, live, c')"
    by auto
  then show ?thesis using iscsi_process_text_reply_leaks_nothing by blast
qed

end
