(* ===== verification/Iscsi_Process.thy ===== *)
theory Iscsi_Process
  imports Iscsi_Discovery
begin

text \<open>
  What a received PDU does (\<open>lib/pdu.c\<close>): its digests are verified, the serial numbers of the session
  are updated, and it is handed to the operation for its opcode, with the PDU of the wait queue that
  it answers. A complete PDU has at least the 48 bytes of its header. Within one call either all or
  none of the allocations of a text reply succeed.
\<close>

section \<open>Digests\<close>

definition le32_at :: "bytes \<Rightarrow> nat \<Rightarrow> u32" where
  "le32_at bs k = ucast (bs ! k) OR push_bit 8 (ucast (bs ! (k + 1))) OR push_bit 16 (ucast (bs ! (k + 2))) OR
     push_bit 24 (ucast (bs ! (k + 3)))"

definition header_digest_ok :: "iscsi_in_pdu \<Rightarrow> iscsi_context \<Rightarrow> bool" where
  "header_digest_ok inp iscsi \<longleftrightarrow> ctx_header_digest iscsi = ISCSI_HEADER_DIGEST_NONE \<or>
     crc32c (take ISCSI_RAW_HEADER_SIZE (in_hdr inp)) = le32_at (in_hdr inp) ISCSI_RAW_HEADER_SIZE"

definition data_digest_ok :: "iscsi_in_pdu \<Rightarrow> iscsi_context \<Rightarrow> bool" where
  "data_digest_ok inp iscsi \<longleftrightarrow> ctx_data_digest iscsi = ISCSI_DATA_DIGEST_NONE \<or>
     scsi_get_uint32 (in_hdr inp) 4 AND 0x00ffffff = 0 \<or>
     crc32c_chain_done (in_calculated_data_digest inp) = le32_at (in_data_digest_buf inp) 0"

section \<open>Serial numbers\<close>

definition serial_max :: "u32 \<Rightarrow> u32 \<Rightarrow> u32" where
  "serial_max new old = (if 0 < iscsi_serial32_compare new old then new else old)"

definition iscsi_process_pdu_serials :: "iscsi_in_pdu \<Rightarrow> iscsi_context \<Rightarrow> iscsi_context" where
  "iscsi_process_pdu_serials inp iscsi =
     (let hdr = in_hdr inp;
          itt = scsi_get_uint32 hdr 16;
          statsn = scsi_get_uint32 hdr 24;
          opcode = hdr ! 0 AND 0x3f
      in if opcode = ISCSI_PDU_LOGIN_RESPONSE \<and> drop_bit 8 (scsi_get_uint16 hdr 36) \<noteq> 0 then iscsi
         else
           let iscsi = iscsi\<lparr>ctx_maxcmdsn := serial_max (scsi_get_uint32 hdr 32) (ctx_maxcmdsn iscsi),
                             ctx_expcmdsn := serial_max (scsi_get_uint32 hdr 28) (ctx_expcmdsn iscsi)\<rparr>
           in if opcode = ISCSI_PDU_DATA_IN \<and> hdr ! 1 AND ISCSI_PDU_DATA_CONTAINS_STATUS = 0 then iscsi
              else iscsi\<lparr>ctx_statsn := serial_max (if itt = 0xffffffff then statsn - 1 else statsn) (ctx_statsn iscsi)\<rparr>)"

section \<open>PDUs of the target's own\<close>

definition iscsi_process_target_nop_in ::
  "iscsi_env \<Rightarrow> iscsi_in_pdu \<Rightarrow> iscsi_context \<Rightarrow> (int \<times> iscsi_context) option" where
  "iscsi_process_target_nop_in env inp iscsi =
     (let ttt = scsi_get_uint32 (in_hdr inp) 20; lun = ucast (scsi_get_uint16 (in_hdr inp) 8)
      in if ttt = 0xffffffff then Some (0, iscsi)
         else do {
           (_, iscsi) \<leftarrow> iscsi_send_target_nop_out env ttt lun iscsi;
           Some (0, iscsi)
         })"

text \<open>A PDU leaves the wait queue for good.\<close>

definition drop_waiting :: "nat \<Rightarrow> iscsi_context \<Rightarrow> iscsi_context option" where
  "drop_waiting i iscsi = do {
     q \<leftarrow> list_remove i (ctx_waitpdu iscsi);
     iscsi_tcp_free_pdu i (iscsi\<lparr>ctx_waitpdu := q\<rparr>)
   }"

definition iscsi_process_reject ::
  "iscsi_env \<Rightarrow> iscsi_in_pdu \<Rightarrow> iscsi_context \<Rightarrow> (int \<times> iscsi_context) option" where
  "iscsi_process_reject env inp iscsi =
     (if in_data_pos inp < ISCSI_RAW_HEADER_SIZE then Some (-1, iscsi)
      else if in_hdr inp ! 2 = ISCSI_REJECT_WAITING_FOR_LOGOUT then do {
        (_, iscsi) \<leftarrow> iscsi_logout_async env (Ptr Reconnect_after_logout_cb) iscsi;
        Some (0, iscsi)
      }
      else do {
        itt \<leftarrow> map_option (\<lambda>bs. scsi_get_uint32 bs 0) (rd_range (in_data inp) 16 4);
        r \<leftarrow> find_pdu (\<lambda>p. pdu_itt p = itt) (ctx_waitpdu iscsi) iscsi;
        case r of
          NULL \<Rightarrow> Some (-1, iscsi)
        | Ptr i \<Rightarrow> do {
            iscsi \<leftarrow> pdu_callback_call SCSI_STATUS_ERROR i iscsi;
            iscsi \<leftarrow> drop_waiting i iscsi;
            Some (0, iscsi)
          }
      })"

definition iscsi_process_async_msg ::
  "iscsi_env \<Rightarrow> iscsi_in_pdu \<Rightarrow> iscsi_context \<Rightarrow> (int \<times> iscsi_context) option" where
  "iscsi_process_async_msg env inp iscsi =
     (let event = in_hdr inp ! 36; param2 = scsi_get_uint16 (in_hdr inp) 40;
          logout = (do {
            (_, iscsi) \<leftarrow> iscsi_logout_async env (Ptr Reconnect_after_logout_cb) iscsi;
            Some (0, iscsi)
          })
      in if event = 0 then Some (0, iscsi)
         else if event = 1 then
           (if env_getenv env ''LIBISCSI_DROP_CONN_ON_ASYNC_EVENT1'' then Some (-1, iscsi) else logout)
         else if event = 2 \<or> event = 3 then
           Some (0, iscsi\<lparr>ctx_next_reconnect := env_time env iscsi + int (unat param2)\<rparr>)
         else if event = 4 then logout
         else Some (-1, iscsi))"

section \<open>Replies\<close>

text \<open>
  The operation for the opcode of the reply to the PDU \<open>i\<close>, with \<open>is_finished\<close>; NULL for an opcode
  without one.
\<close>

definition finished :: "(int \<times> iscsi_context) option \<Rightarrow> (int \<times> bool \<times> iscsi_context) ptr option" where
  "finished m = do { (r, iscsi) \<leftarrow> m; Some (Ptr (r, True, iscsi)) }"

definition process_response ::
  "iscsi_env \<Rightarrow> u8 \<Rightarrow> nat \<Rightarrow> iscsi_in_pdu \<Rightarrow> iscsi_context \<Rightarrow> (int \<times> bool \<times> iscsi_context) ptr option" where
  "process_response env opcode i inp iscsi =
     (if opcode = ISCSI_PDU_LOGIN_RESPONSE then finished (iscsi_process_login_reply env i inp iscsi)
      else if opcode = ISCSI_PDU_TEXT_RESPONSE then
        finished (do { (r, _, iscsi) \<leftarrow> iscsi_process_text_reply (\<lambda>_. env_malloc env iscsi) i inp iscsi; Some (r, iscsi) })
      else if opcode = ISCSI_PDU_LOGOUT_RESPONSE then finished (iscsi_process_logout_reply i iscsi)
      else if opcode = ISCSI_PDU_SCSI_RESPONSE then finished (iscsi_process_scsi_reply env i inp iscsi)
      else if opcode = ISCSI_PDU_DATA_IN then do {
        r \<leftarrow> iscsi_process_scsi_data_in env i inp iscsi;
        Some (Ptr r)
      }
      else if opcode = ISCSI_PDU_NOP_IN then finished (iscsi_process_nop_out_reply env i inp iscsi)
      else if opcode = ISCSI_PDU_SCSI_TASK_MANAGEMENT_RESPONSE then finished (iscsi_process_task_mgmt_reply i inp iscsi)
      else if opcode = ISCSI_PDU_R2T then do {
        (r, iscsi) \<leftarrow> iscsi_process_r2t env i inp iscsi;
        Some (Ptr (r, False, iscsi))
      }
      else Some NULL)"

definition expected_response :: "u8 \<Rightarrow> iscsi_pdu \<Rightarrow> u8" where
  "expected_response opcode p =
     (if opcode = ISCSI_PDU_R2T then ISCSI_PDU_R2T
      else if opcode = ISCSI_PDU_DATA_IN \<and> pdu_response_opcode p = ISCSI_PDU_SCSI_RESPONSE then ISCSI_PDU_DATA_IN
      else pdu_response_opcode p)"

definition process_reply ::
  "iscsi_env \<Rightarrow> u8 \<Rightarrow> nat \<Rightarrow> iscsi_in_pdu \<Rightarrow> iscsi_context \<Rightarrow> (int \<times> iscsi_context) option" where
  "process_reply env opcode i inp iscsi = do {
     p \<leftarrow> ctx_pdus iscsi i;
     if opcode \<noteq> expected_response opcode p then Some (-1, iscsi)
     else do {
       res \<leftarrow> process_response env opcode i inp iscsi;
       case res of
         NULL \<Rightarrow> Some (-1, iscsi)
       | Ptr (r, is_finished, iscsi) \<Rightarrow>
           if r \<noteq> 0 then do {
             iscsi \<leftarrow> drop_waiting i iscsi;
             Some (-1, iscsi)
           }
           else if is_finished \<and> ctx_waitpdu iscsi \<noteq> [] then do {
             iscsi \<leftarrow> drop_waiting i iscsi;
             Some (0, iscsi)
           }
           else Some (0, iscsi)
     }
   }"

definition iscsi_process_pdu ::
  "iscsi_env \<Rightarrow> iscsi_in_pdu \<Rightarrow> iscsi_context \<Rightarrow> (int \<times> iscsi_context) option" where
  "iscsi_process_pdu env inp iscsi =
     (let hdr = in_hdr inp; itt = scsi_get_uint32 hdr 16; opcode = hdr ! 0 AND 0x3f
      in if \<not> header_digest_ok inp iscsi then Some (-1, iscsi)
         else if \<not> data_digest_ok inp iscsi then Some (-1, iscsi)
         else if hdr ! 4 \<noteq> 0 then Some (-1, iscsi)
         else
           let iscsi = iscsi_process_pdu_serials inp iscsi
           in if opcode = ISCSI_PDU_ASYNC_MSG then iscsi_process_async_msg env inp iscsi
              else if opcode = ISCSI_PDU_REJECT then iscsi_process_reject env inp iscsi
              else if opcode = ISCSI_PDU_NOP_IN \<and> itt = 0xffffffff then do {
                (r, iscsi) \<leftarrow> iscsi_process_target_nop_in env inp iscsi;
                Some (if r \<noteq> 0 then -1 else 0, iscsi)
              }
              else do {
                w \<leftarrow> find_pdu (\<lambda>p. pdu_itt p = itt) (ctx_waitpdu iscsi) iscsi;
                case w of
                  NULL \<Rightarrow> Some (-1, iscsi)
                | Ptr i \<Rightarrow> process_reply env opcode i inp iscsi
              })"

end
