(* ===== verification/Iscsi_Read.thy ===== *)
theory Iscsi_Read
  imports Iscsi_Process
begin

text \<open>
  \<open>iscsi_read_from_socket\<close> and the parts of \<open>iscsi_tcp_service\<close> of \<open>lib/socket.c\<close>: PDUs are collected from
  the socket, as many bytes at a time as it gives, and processed when they are complete. The
  payload of a Data-In goes straight into the buffers of its task. What has been read is remembered
  in \<open>iscsi->incoming\<close>. A pointer that has not been allocated is the empty list, memory that has not
  been written is zero.
\<close>

section \<open>System calls\<close>

definition socket_recv :: "iscsi_env \<Rightarrow> nat \<Rightarrow> iscsi_context \<Rightarrow> recv_result \<times> iscsi_context" where
  "socket_recv env n iscsi =
     (case env_recv env iscsi n of
        Received bs \<Rightarrow> (Received bs, iscsi\<lparr>ctx_received := ctx_received iscsi @ bs\<rparr>)
      | r \<Rightarrow> (r, iscsi))"

text \<open>The bytes are stored at the addresses of the segments, in order.\<close>

fun store_bytes :: "nat list \<Rightarrow> bytes \<Rightarrow> (nat \<Rightarrow> u8) \<Rightarrow> nat \<Rightarrow> u8" where
  "store_bytes (a # as) (b # bs) m = store_bytes as bs (m(a := b))"
| "store_bytes _ _ m = m"

text \<open>\<open>iscsi_iovector_readv_writev\<close> for reading into the vector of the task \<open>t\<close>.\<close>

definition iscsi_iovector_readv ::
  "iscsi_env \<Rightarrow> bool \<Rightarrow> nat \<Rightarrow> nat \<Rightarrow> nat \<Rightarrow> u32 \<Rightarrow> iscsi_context \<Rightarrow> (recv_result \<times> u32 \<times> iscsi_context) option" where
  "iscsi_iovector_readv env dd t pos count digest iscsi = do {
     (v, segs) \<leftarrow> iscsi_iovector_segments (iovector_in (ctx_tasks iscsi t)) pos count;
     let iscsi = task_modify t (\<lambda>task. task\<lparr>iovector_in := v\<rparr>) iscsi;
     case segs of
       NULL \<Rightarrow> Some (Recv_failed, digest, iscsi)
     | Ptr segs \<Rightarrow>
         let (r, iscsi) = socket_recv env (length (iov_addrs segs)) iscsi
         in case r of
              Received bs \<Rightarrow>
                let iscsi = iscsi\<lparr>ctx_memory := store_bytes (iov_addrs segs) bs (ctx_memory iscsi)\<rparr>;
                    digest = (if dd \<and> 0 < length bs then iov_crc (ctx_memory iscsi) segs (length bs) digest else digest)
                in Some (if count < length bs then Recv_failed else r, digest, iscsi)
            | _ \<Rightarrow> Some (r, digest, iscsi)
   }"

section \<open>The steps of the loop\<close>

definition zero_in_pdu :: iscsi_in_pdu where
  "zero_in_pdu = \<lparr>in_hdr_pos = 0, in_hdr = [], in_data_pos = 0, in_data = [], in_data_digest_buf = replicate 4 0,
     in_received_data_digest_bytes = 0, in_calculated_data_digest = 0\<rparr>"

text \<open>A step goes on with the PDU, or it stops with a result and the PDU stays in \<open>incoming\<close>.\<close>

type_synonym read_step = "(int ptr \<times> iscsi_in_pdu \<times> iscsi_context) option"

definition read_then :: "read_step \<Rightarrow> (iscsi_in_pdu \<Rightarrow> iscsi_context \<Rightarrow> read_step) \<Rightarrow> read_step" where
  "read_then m f = do {
     (r, inp, iscsi) \<leftarrow> m;
     case r of NULL \<Rightarrow> f inp iscsi | Ptr _ \<Rightarrow> Some (r, inp, iscsi)
   }"

text \<open>
  What a \<open>recv\<close> leads to: nothing means that the peer has closed the socket, \<open>EAGAIN\<close> breaks the loop.
\<close>

definition after_recv :: "recv_result \<Rightarrow> iscsi_in_pdu \<Rightarrow> iscsi_context \<Rightarrow> (bytes \<Rightarrow> read_step) \<Rightarrow> read_step" where
  "after_recv r inp iscsi f =
     (case r of
        Recv_blocked \<Rightarrow> Some (Ptr 0, inp, iscsi)
      | Recv_failed \<Rightarrow> Some (Ptr (-1), inp, iscsi)
      | Received bs \<Rightarrow> if bs = [] then Some (Ptr (-1), inp, iscsi) else f bs)"

definition read_header :: "iscsi_env \<Rightarrow> iscsi_in_pdu \<Rightarrow> iscsi_context \<Rightarrow> read_step" where
  "read_header env inp iscsi =
     (let hdr_size = ISCSI_HEADER_SIZE (ctx_header_digest iscsi)
      in if in_hdr_pos inp < hdr_size then
           let (r, iscsi) = socket_recv env (hdr_size - in_hdr_pos inp) iscsi
           in after_recv r inp iscsi (\<lambda>bs.
                let inp = inp\<lparr>in_hdr := blit (in_hdr_pos inp) bs (in_hdr inp), in_hdr_pos := in_hdr_pos inp + length bs\<rparr>
                in Some (if in_hdr_pos inp < hdr_size then Ptr 0 else NULL, inp, iscsi))
         else Some (NULL, inp, iscsi))"

definition segment_size :: "iscsi_in_pdu \<Rightarrow> nat" where
  "segment_size inp = unat (iscsi_get_pdu_data_size (in_hdr inp)) + unat (iscsi_get_pdu_padding_size (in_hdr inp))"

text \<open>
  The payload, into the buffers of the task as long as it is not padding, or into \<open>in->data\<close>. The
  padding that does not go with a buffer is read into a local array.
\<close>

definition read_data :: "iscsi_env \<Rightarrow> iscsi_in_pdu \<Rightarrow> iscsi_context \<Rightarrow> read_step" where
  "read_data env inp iscsi =
     (let padding_size = unat (iscsi_get_pdu_padding_size (in_hdr inp));
          data_size = segment_size inp;
          dd = (ctx_data_digest iscsi \<noteq> ISCSI_DATA_DIGEST_NONE)
      in if ctx_initiator_max_recv_data_segment_length iscsi < iscsi_get_pdu_data_size (in_hdr inp)
         then Some (Ptr (-1), inp, iscsi)
         else if data_size = 0 then Some (NULL, inp, iscsi)
         else do {
           t \<leftarrow> iscsi_get_scsi_task_iovector_in inp iscsi;
           let count = data_size - in_data_pos inp;
           let done = (\<lambda>inp bs iscsi.
             let inp = inp\<lparr>in_data_pos := in_data_pos inp + length bs\<rparr>
             in Some (if in_data_pos inp < data_size then Ptr 0 else NULL, inp, iscsi));
           case (t, padding_size < count) of
             (Ptr t, True) \<Rightarrow> do {
               (r, digest, iscsi) \<leftarrow> iscsi_iovector_readv env dd t
                 (unat (of_nat (in_data_pos inp) + scsi_get_uint32 (in_hdr inp) 40 :: u32)) (count - padding_size)
                 (in_calculated_data_digest inp) iscsi;
               let inp = inp\<lparr>in_calculated_data_digest := digest\<rparr>;
               after_recv r inp iscsi (\<lambda>bs. done inp bs iscsi)
             }
           | _ \<Rightarrow>
               if t = NULL \<and> in_data inp = [] \<and> \<not> env_malloc env iscsi then Some (Ptr (-1), inp, iscsi)
               else
                 let inp = (if t = NULL \<and> in_data inp = [] then inp\<lparr>in_data := replicate data_size 0\<rparr> else inp);
                     (r, iscsi) = socket_recv env count iscsi
                 in after_recv r inp iscsi (\<lambda>bs.
                      if t \<noteq> NULL \<and> 3 < length bs then None
                      else
                        let inp = (if t = NULL then inp\<lparr>in_data := blit (in_data_pos inp) bs (in_data inp)\<rparr> else inp);
                            inp = (if dd then inp\<lparr>in_calculated_data_digest :=
                                            crc32c_chain (in_calculated_data_digest inp) bs\<rparr> else inp)
                        in done inp bs iscsi)
         })"

definition read_digest :: "iscsi_env \<Rightarrow> iscsi_in_pdu \<Rightarrow> iscsi_context \<Rightarrow> read_step" where
  "read_digest env inp iscsi =
     (if segment_size inp \<noteq> 0 \<and> ctx_data_digest iscsi \<noteq> ISCSI_DATA_DIGEST_NONE \<and>
         in_received_data_digest_bytes inp < ISCSI_DIGEST_SIZE
      then
        let k = in_received_data_digest_bytes inp;
            (r, iscsi) = socket_recv env (ISCSI_DIGEST_SIZE - k) iscsi
        in after_recv r inp iscsi (\<lambda>bs.
             let inp = inp\<lparr>in_data_digest_buf := blit k bs (in_data_digest_buf inp),
                           in_received_data_digest_bytes := k + length bs\<rparr>
             in Some (if in_received_data_digest_bytes inp < ISCSI_DIGEST_SIZE then Ptr 0 else NULL, inp, iscsi))
      else Some (NULL, inp, iscsi))"

text \<open>\<open>iscsi->incoming\<close> and its header, allocated when they are needed; NULL when there is no memory.\<close>

definition incoming_pdu :: "iscsi_env \<Rightarrow> iscsi_context \<Rightarrow> iscsi_in_pdu ptr \<times> iscsi_context" where
  "incoming_pdu env iscsi =
     (case ctx_incoming iscsi of
        NULL \<Rightarrow>
          if \<not> env_malloc env iscsi then (NULL, iscsi)
          else
            let inp = zero_in_pdu; iscsi = iscsi\<lparr>ctx_incoming := Ptr inp\<rparr>;
                inp = inp\<lparr>in_calculated_data_digest := crc32c_init\<rparr>
            in if \<not> env_malloc env iscsi then (NULL, iscsi\<lparr>ctx_incoming := Ptr inp\<rparr>)
               else (Ptr (inp\<lparr>in_hdr := replicate (ISCSI_HEADER_SIZE (ctx_header_digest iscsi)) 0\<rparr>), iscsi)
      | Ptr inp \<Rightarrow>
          if in_hdr inp = [] then
            let inp = inp\<lparr>in_calculated_data_digest := crc32c_init\<rparr>
            in if \<not> env_malloc env iscsi then (NULL, iscsi\<lparr>ctx_incoming := Ptr inp\<rparr>)
               else (Ptr (inp\<lparr>in_hdr := replicate (ISCSI_HEADER_SIZE (ctx_header_digest iscsi)) 0\<rparr>), iscsi)
          else (Ptr inp, iscsi))"

definition read_pdu :: "iscsi_env \<Rightarrow> iscsi_in_pdu \<Rightarrow> iscsi_context \<Rightarrow> read_step" where
  "read_pdu env inp iscsi =
     read_then (read_header env inp iscsi) (\<lambda>inp iscsi.
     read_then (read_data env inp iscsi) (read_digest env))"

partial_function (option) iscsi_read_from_socket :: "iscsi_env \<Rightarrow> iscsi_context \<Rightarrow> (int \<times> iscsi_context) option" where
  "iscsi_read_from_socket env iscsi =
     (case incoming_pdu env iscsi of
        (NULL, iscsi) \<Rightarrow> Some (-1, iscsi)
      | (Ptr inp, iscsi) \<Rightarrow> do {
          (r, inp, iscsi) \<leftarrow> read_pdu env inp iscsi;
          case r of
            Ptr r \<Rightarrow> Some (r, iscsi\<lparr>ctx_incoming := Ptr inp\<rparr>)
          | NULL \<Rightarrow> do {
              (r, iscsi) \<leftarrow> iscsi_process_pdu env inp (iscsi\<lparr>ctx_incoming := NULL\<rparr>);
              if r \<noteq> 0 then Some (-1, iscsi)
              else if ctx_tcp_nonblocking iscsi \<and> ctx_waitpdu iscsi \<noteq> [] \<and> ctx_is_loggedin iscsi
              then iscsi_read_from_socket env iscsi
              else Some (0, iscsi)
            }
        })"

end
