(* ===== verification/Reception.thy ===== *)
theory Reception
  imports Iscsi_Read
begin

text \<open>
  What the reception guarantees: corrupted PDUs are not processed, and a PDU is put together from the
  bytes on the socket in whatever pieces they come. It also states where the code fails: a digest that
  comes later than its data, and Data-In for a request that is not a SCSI command.
\<close>

section \<open>Digests\<close>

lemma append_take_prefix: "take (length xs) (xs @ ys) = xs"
  by simp

lemma le32_at_digest_bytes: "le32_at (xs @ digest_bytes w) (length xs) = w"
proof -
  have "(ucast (ucast w :: u8) :: u32) OR push_bit 8 (ucast (ucast (drop_bit 8 w) :: u8)) OR
      push_bit 16 (ucast (ucast (drop_bit 16 w) :: u8)) OR push_bit 24 (ucast (ucast (drop_bit 24 w) :: u8)) = w"
  proof (rule bit_word_eqI)
    fix n
    assume "n < LENGTH(32)"
    then consider "n < 8" | "8 \<le> n" "n < 16" | "16 \<le> n" "n < 24" | "24 \<le> n" "n < 32" by fastforce
    then show "bit ((ucast (ucast w :: u8) :: u32) OR push_bit 8 (ucast (ucast (drop_bit 8 w) :: u8)) OR
        push_bit 16 (ucast (ucast (drop_bit 16 w) :: u8)) OR push_bit 24 (ucast (ucast (drop_bit 24 w) :: u8))) n = bit w n"
      by cases (auto simp: bit_simps)
  qed
  then show ?thesis by (simp add: le32_at_def digest_bytes_def nth_append)
qed

section \<open>Collecting a PDU\<close>

text \<open>The bytes of a PDU that have been received so far.\<close>

definition got :: "iscsi_in_pdu \<Rightarrow> bytes" where
  "got inp = take (in_hdr_pos inp) (in_hdr inp) @ take (in_data_pos inp) (in_data inp) @
     take (in_received_data_digest_bytes inp) (in_data_digest_buf inp)"

definition header_complete :: "iscsi_context \<Rightarrow> iscsi_in_pdu \<Rightarrow> bool" where
  "header_complete c inp \<longleftrightarrow> in_hdr_pos inp = ISCSI_HEADER_SIZE (ctx_header_digest c)"

text \<open>The parts are filled one after the other, and the digest is that of the data so far.\<close>

definition in_pdu_ok :: "iscsi_context \<Rightarrow> iscsi_in_pdu \<Rightarrow> bool" where
  "in_pdu_ok c inp \<longleftrightarrow>
     length (in_hdr inp) = ISCSI_HEADER_SIZE (ctx_header_digest c) \<and>
     in_hdr_pos inp \<le> ISCSI_HEADER_SIZE (ctx_header_digest c) \<and>
     (\<not> header_complete c inp \<longrightarrow> in_data inp = []) \<and>
     (in_data inp \<noteq> [] \<longrightarrow> length (in_data inp) = segment_size inp) \<and> in_data_pos inp \<le> length (in_data inp) \<and>
     length (in_data_digest_buf inp) = ISCSI_DIGEST_SIZE \<and> in_received_data_digest_bytes inp \<le> ISCSI_DIGEST_SIZE \<and>
     (0 < in_received_data_digest_bytes inp \<longrightarrow> header_complete c inp \<and> in_data_pos inp = segment_size inp) \<and>
     in_calculated_data_digest inp = crc32c_chain crc32c_init
       (if ctx_data_digest c \<noteq> ISCSI_DATA_DIGEST_NONE then take (in_data_pos inp) (in_data inp) else [])"

definition complete :: "iscsi_context \<Rightarrow> iscsi_in_pdu \<Rightarrow> bool" where
  "complete c inp \<longleftrightarrow> header_complete c inp \<and> in_data_pos inp = segment_size inp \<and>
     (ctx_data_digest c \<noteq> ISCSI_DATA_DIGEST_NONE \<and> segment_size inp \<noteq> 0 \<longrightarrow>
        in_received_data_digest_bytes inp = ISCSI_DIGEST_SIZE)"

text \<open>What a step that collects does: it takes bytes from the socket and adds them to the PDU.\<close>

definition collects :: "iscsi_in_pdu \<Rightarrow> iscsi_context \<Rightarrow> iscsi_in_pdu \<Rightarrow> iscsi_context \<Rightarrow> bool" where
  "collects inp c inp' c' \<longleftrightarrow> (\<exists>new. c' = c\<lparr>ctx_received := ctx_received c @ new\<rparr> \<and> got inp' = got inp @ new \<and> in_pdu_ok c inp')"

lemma in_pdu_ok_received [simp]: "in_pdu_ok (c\<lparr>ctx_received := bs\<rparr>) inp = in_pdu_ok c inp"
  "header_complete (c\<lparr>ctx_received := bs\<rparr>) inp = header_complete c inp"
  by (simp_all add: in_pdu_ok_def header_complete_def)

lemma collects_refl: "in_pdu_ok c inp \<Longrightarrow> collects inp c inp c"
  by (auto simp: collects_def intro!: exI [of _ "[]"])

lemma collects_trans: "collects inp c inp1 c1 \<Longrightarrow> collects inp1 c1 inp2 c2 \<Longrightarrow> collects inp c inp2 c2"
  by (force simp: collects_def)

lemma collects_ok: "collects inp c inp' c' \<Longrightarrow> in_pdu_ok c' inp'"
  by (auto simp: collects_def)

lemma take_blit: "length src + off \<le> length dst \<Longrightarrow> take (off + length src) (blit off src dst) = take off dst @ src"
  by (simp add: blit_def)

lemma segment_size_hdr: "in_hdr inp' = in_hdr inp \<Longrightarrow> segment_size inp' = segment_size inp"
  by (simp add: segment_size_def)

lemma socket_recv_cases:
  assumes "env_ok env"
  shows "socket_recv env n c = (Recv_blocked, c) \<or> socket_recv env n c = (Recv_failed, c) \<or>
    (\<exists>bs. length bs \<le> n \<and> socket_recv env n c = (Received bs, c\<lparr>ctx_received := ctx_received c @ bs\<rparr>))"
  using assms by (auto simp: socket_recv_def env_ok_def split: recv_result.split)

text \<open>A call that gives no bytes ends the step.\<close>

lemma recv_step:
  assumes "env_ok env" "socket_recv env n c = (x, c1)" "after_recv x inp c1 f = Some (r, inp', c')"
  obtains "r \<noteq> NULL" "inp' = inp" "c' = c"
  | bs where "x = Received bs" "bs \<noteq> []" "length bs \<le> n" "c1 = c\<lparr>ctx_received := ctx_received c @ bs\<rparr>" "f bs = Some (r, inp', c')"
  using socket_recv_cases [OF assms(1), of n c] assms(2,3)
  by (elim disjE exE conjE) (auto simp: after_recv_def split: if_split_asm)

lemma collects_step:
  "in_pdu_ok c inp' \<Longrightarrow> got inp' = got inp @ bs \<Longrightarrow> collects inp c inp' (c\<lparr>ctx_received := ctx_received c @ bs\<rparr>)"
  by (auto simp: collects_def)

lemma read_header_step:
  assumes "in_pdu_ok c inp" "in_hdr_pos inp + length bs \<le> ISCSI_HEADER_SIZE (ctx_header_digest c)"
    "in_hdr_pos inp < ISCSI_HEADER_SIZE (ctx_header_digest c)"
  defines "inp1 \<equiv> inp\<lparr>in_hdr := blit (in_hdr_pos inp) bs (in_hdr inp), in_hdr_pos := in_hdr_pos inp + length bs\<rparr>"
  shows "in_pdu_ok c inp1" "got inp1 = got inp @ bs"
proof -
  have z: "in_data inp = []" "in_data_pos inp = 0" "in_received_data_digest_bytes inp = 0"
    "length (in_hdr inp) = ISCSI_HEADER_SIZE (ctx_header_digest c)"
    using assms(1,3) by (auto simp: in_pdu_ok_def header_complete_def)
  show "in_pdu_ok c inp1" using assms(1-3) z by (simp add: inp1_def in_pdu_ok_def)
  show "got inp1 = got inp @ bs" using assms(2,3) z by (simp add: inp1_def got_def take_blit)
qed

lemma read_header_collects:
  assumes "env_ok env" "in_pdu_ok c inp" "read_header env inp c = Some (r, inp', c')"
  shows "collects inp c inp' c' \<and> (r = NULL \<longrightarrow> header_complete c inp')"
proof (cases "in_hdr_pos inp < ISCSI_HEADER_SIZE (ctx_header_digest c)")
  case False
  then show ?thesis
    using assms(2,3) collects_refl by (auto simp: read_header_def in_pdu_ok_def header_complete_def)
next
  case True
  obtain x c1 where x: "socket_recv env (ISCSI_HEADER_SIZE (ctx_header_digest c) - in_hdr_pos inp) c = (x, c1)"
    by fastforce
  note a = assms(3) [unfolded read_header_def Let_def, simplified True x if_True prod.case]
  show ?thesis
  proof (rule recv_step [OF assms(1) x a])
    fix bs
    let ?inp = "inp\<lparr>in_hdr := blit (in_hdr_pos inp) bs (in_hdr inp), in_hdr_pos := in_hdr_pos inp + length bs\<rparr>"
    assume bs: "length bs \<le> ISCSI_HEADER_SIZE (ctx_header_digest c) - in_hdr_pos inp"
      "c1 = c\<lparr>ctx_received := ctx_received c @ bs\<rparr>"
      "Some (if in_hdr_pos ?inp < ISCSI_HEADER_SIZE (ctx_header_digest c) then Ptr 0 else NULL, ?inp, c1) = Some (r, inp', c')"
    have "in_hdr_pos inp + length bs \<le> ISCSI_HEADER_SIZE (ctx_header_digest c)" using bs(1) True by simp
    note st = read_header_step [OF assms(2) this True]
    have "collects inp c ?inp c1" unfolding bs(2) by (rule collects_step) (rule st)+
    then show ?thesis using bs(1,3) True by (auto simp: header_complete_def split: if_split_asm)
  qed (simp add: collects_refl assms(2))
qed

lemma read_digest_step:
  assumes "in_pdu_ok c inp" "header_complete c inp" "in_data_pos inp = segment_size inp"
    "in_received_data_digest_bytes inp + length bs \<le> ISCSI_DIGEST_SIZE"
  defines "inp1 \<equiv> inp\<lparr>in_data_digest_buf := blit (in_received_data_digest_bytes inp) bs (in_data_digest_buf inp),
    in_received_data_digest_bytes := in_received_data_digest_bytes inp + length bs\<rparr>"
  shows "in_pdu_ok c inp1" "got inp1 = got inp @ bs"
proof -
  show "in_pdu_ok c inp1" using assms(1-4) by (simp add: inp1_def in_pdu_ok_def header_complete_def segment_size_def)
  show "got inp1 = got inp @ bs" using assms(1,4) by (simp add: inp1_def got_def take_blit in_pdu_ok_def)
qed

lemma read_digest_collects:
  assumes "env_ok env" "in_pdu_ok c inp" "header_complete c inp" "in_data_pos inp = segment_size inp"
    "read_digest env inp c = Some (r, inp', c')"
  shows "collects inp c inp' c' \<and> in_hdr inp' = in_hdr inp \<and> (r = NULL \<longrightarrow> complete c inp')"
proof (cases "segment_size inp \<noteq> 0 \<and> ctx_data_digest c \<noteq> ISCSI_DATA_DIGEST_NONE \<and>
    in_received_data_digest_bytes inp < ISCSI_DIGEST_SIZE")
  case False
  then show ?thesis
    using assms(2-5) collects_refl by (auto simp: read_digest_def complete_def in_pdu_ok_def)
next
  case True
  let ?k = "in_received_data_digest_bytes inp"
  obtain x c1 where x: "socket_recv env (ISCSI_DIGEST_SIZE - ?k) c = (x, c1)" by fastforce
  note a = assms(5) [unfolded read_digest_def Let_def, simplified True x if_True prod.case simp_thms]
  show ?thesis
  proof (rule recv_step [OF assms(1) x a])
    fix bs
    let ?inp = "inp\<lparr>in_data_digest_buf := blit ?k bs (in_data_digest_buf inp), in_received_data_digest_bytes := ?k + length bs\<rparr>"
    assume bs: "length bs \<le> ISCSI_DIGEST_SIZE - ?k" "c1 = c\<lparr>ctx_received := ctx_received c @ bs\<rparr>"
      "Some (if in_received_data_digest_bytes ?inp < ISCSI_DIGEST_SIZE then Ptr 0 else NULL, ?inp, c1) = Some (r, inp', c')"
    have "?k + length bs \<le> ISCSI_DIGEST_SIZE" using bs(1) True by linarith
    note st = read_digest_step [OF assms(2-4) this]
    have "collects inp c ?inp c1" unfolding bs(2) by (rule collects_step) (rule st)+
    then show ?thesis
      using bs(1,3) True assms(3,4)
      by (auto simp: complete_def header_complete_def segment_size_def split: if_split_asm)
  qed (simp_all add: collects_refl assms(2))
qed

lemma read_data_alloc:
  assumes "in_pdu_ok c inp" "header_complete c inp" "in_data inp = []"
  defines "inp1 \<equiv> inp\<lparr>in_data := replicate (segment_size inp) 0\<rparr>"
  shows "in_pdu_ok c inp1" "got inp1 = got inp"
  using assms(1-3) by (auto simp: inp1_def in_pdu_ok_def got_def header_complete_def segment_size_def)

lemma read_data_step:
  assumes "in_pdu_ok c inp" "header_complete c inp" "length (in_data inp) = segment_size inp"
    "in_data_pos inp + length bs \<le> segment_size inp" "bs \<noteq> []"
  defines "inp1 \<equiv> inp\<lparr>in_data := blit (in_data_pos inp) bs (in_data inp), in_calculated_data_digest :=
      (if ctx_data_digest c \<noteq> ISCSI_DATA_DIGEST_NONE then crc32c_chain (in_calculated_data_digest inp) bs
       else in_calculated_data_digest inp), in_data_pos := in_data_pos inp + length bs\<rparr>"
  shows "in_pdu_ok c inp1" "got inp1 = got inp @ bs"
proof -
  have z: "in_received_data_digest_bytes inp = 0" using assms(1,4,5) by (auto simp: in_pdu_ok_def)
  show "in_pdu_ok c inp1"
    using assms(1-5) z
    by (auto simp: inp1_def in_pdu_ok_def header_complete_def segment_size_def take_blit crc32c_chain_append)
  show "got inp1 = got inp @ bs" using assms(1-5) z by (simp add: inp1_def got_def take_blit)
qed

lemma read_data_collects:
  assumes "env_ok env" "in_pdu_ok c inp" "header_complete c inp" "iscsi_get_scsi_task_iovector_in inp c = Some NULL"
    "read_data env inp c = Some (r, inp', c')"
  shows "collects inp c inp' c' \<and> in_hdr inp' = in_hdr inp \<and> header_complete c inp' \<and>
    (r = NULL \<longrightarrow> in_data_pos inp' = segment_size inp')"
proof -
  let ?n = "segment_size inp - in_data_pos inp"
  let ?inp1 = "if in_data inp = [] then inp\<lparr>in_data := replicate (segment_size inp) 0\<rparr> else inp"
  consider (refuse) "r \<noteq> NULL" "inp' = inp" "c' = c" | (none) "segment_size inp = 0" "r = NULL" "inp' = inp" "c' = c"
    | (recv) x c1 where "segment_size inp \<noteq> 0" "socket_recv env ?n c = (x, c1)"
      "after_recv x ?inp1 c1 (\<lambda>bs.
        let inp = ?inp1\<lparr>in_data := blit (in_data_pos ?inp1) bs (in_data ?inp1), in_calculated_data_digest :=
             (if ctx_data_digest c \<noteq> ISCSI_DATA_DIGEST_NONE then crc32c_chain (in_calculated_data_digest ?inp1) bs
              else in_calculated_data_digest ?inp1), in_data_pos := in_data_pos ?inp1 + length bs\<rparr>
        in Some (if in_data_pos inp < segment_size inp then Ptr 0 else NULL, inp, c1)) = Some (r, inp', c')"
  proof -
    obtain x c1 where x: "socket_recv env ?n c = (x, c1)" by fastforce
    have eq: "read_data env inp c = (if ctx_initiator_max_recv_data_segment_length c < iscsi_get_pdu_data_size (in_hdr inp)
        then Some (Ptr (-1), inp, c) else if segment_size inp = 0 then Some (NULL, inp, c)
        else if in_data inp = [] \<and> \<not> env_malloc env c then Some (Ptr (-1), inp, c)
        else after_recv x ?inp1 c1 (\<lambda>bs.
        let inp = ?inp1\<lparr>in_data := blit (in_data_pos ?inp1) bs (in_data ?inp1), in_calculated_data_digest :=
             (if ctx_data_digest c \<noteq> ISCSI_DATA_DIGEST_NONE then crc32c_chain (in_calculated_data_digest ?inp1) bs
              else in_calculated_data_digest ?inp1), in_data_pos := in_data_pos ?inp1 + length bs\<rparr>
        in Some (if in_data_pos inp < segment_size inp then Ptr 0 else NULL, inp, c1)))"
      using x assms(4)
      by (cases "in_data inp = []"; cases "ctx_data_digest c = ISCSI_DATA_DIGEST_NONE")
        (simp_all add: read_data_def Let_def segment_size_def cong: if_cong)
    note res = assms(5) [unfolded eq]
    show thesis
    proof (cases "ctx_initiator_max_recv_data_segment_length c < iscsi_get_pdu_data_size (in_hdr inp) \<or>
        segment_size inp \<noteq> 0 \<and> in_data inp = [] \<and> \<not> env_malloc env c")
      case True
      show thesis
      proof (rule that(1))
        show "r \<noteq> NULL" "inp' = inp" "c' = c" using True res by (auto split: if_split_asm)
      qed
    next
      case go: False
      show thesis
      proof (cases "segment_size inp = 0")
        case True
        then show thesis using res go by (intro that(2)) auto
      next
        case False
        then have "\<not> (in_data inp = [] \<and> \<not> env_malloc env c)" "\<not> ctx_initiator_max_recv_data_segment_length c < iscsi_get_pdu_data_size (in_hdr inp)"
          using go by auto
        with False res show thesis by (intro that(3) [OF False x]) (simp only: if_False)
      qed
    qed
  qed
  then show ?thesis
  proof cases
    case recv
    have ok1: "in_pdu_ok c ?inp1" "got ?inp1 = got inp" "length (in_data ?inp1) = segment_size ?inp1"
      "header_complete c ?inp1" "segment_size ?inp1 = segment_size inp" "in_data_pos ?inp1 = in_data_pos inp"
      "in_hdr ?inp1 = in_hdr inp"
      using read_data_alloc [OF assms(2,3)] assms(2,3)
      by (auto simp: in_pdu_ok_def header_complete_def segment_size_def)
    have col: "collects inp c ?inp1 c" using collects_refl [OF ok1(1)] ok1(2) by (simp add: collects_def)
    show ?thesis
    proof (rule recv_step [OF assms(1) recv(2,3)])
      assume "r \<noteq> NULL" "inp' = ?inp1" "c' = c"
      with col ok1(4,7) show ?thesis by simp
    next
      fix bs
      let ?inp2 = "?inp1\<lparr>in_data := blit (in_data_pos ?inp1) bs (in_data ?inp1), in_calculated_data_digest :=
             (if ctx_data_digest c \<noteq> ISCSI_DATA_DIGEST_NONE then crc32c_chain (in_calculated_data_digest ?inp1) bs
              else in_calculated_data_digest ?inp1), in_data_pos := in_data_pos ?inp1 + length bs\<rparr>"
      assume bs: "bs \<noteq> []" "length bs \<le> ?n" "c1 = c\<lparr>ctx_received := ctx_received c @ bs\<rparr>"
        "(let inp = ?inp2 in Some (if in_data_pos inp < segment_size inp then Ptr 0 else NULL, inp, c1)) = Some (r, inp', c')"
      have le: "in_data_pos ?inp1 + length bs \<le> segment_size ?inp1"
        using bs(1,2) unfolding ok1(5,6) by (cases bs) auto
      note st = read_data_step [OF ok1(1,4,3) le bs(1)]
      have "collects ?inp1 c ?inp2 c1" unfolding bs(3) by (rule collects_step) (rule st)+
      moreover have "in_hdr ?inp2 = in_hdr ?inp1" "header_complete c ?inp2"
        "segment_size ?inp2 = segment_size ?inp1" "in_data_pos ?inp2 = in_data_pos ?inp1 + length bs"
        using ok1(4) by (simp_all add: header_complete_def segment_size_def)
      ultimately show ?thesis
        using bs(4) collects_trans [OF col] le ok1(7) by (auto simp: Let_def split: if_split_asm)
    qed
  qed (use assms(2,3) in \<open>auto simp: collects_refl in_pdu_ok_def\<close>)
qed

lemma find_pdu_received [simp]: "find_pdu P q (c\<lparr>ctx_received := bs\<rparr>) = find_pdu P q c"
proof (induction q)
  case (Cons k q)
  then show ?case by (cases "ctx_pdus c k") auto
qed simp

lemma task_iovector_cong:
  assumes "in_hdr inp' = in_hdr inp"
  shows "iscsi_get_scsi_task_iovector_in inp' (c\<lparr>ctx_received := bs\<rparr>) = iscsi_get_scsi_task_iovector_in inp c"
  using assms by (simp add: iscsi_get_scsi_task_iovector_in_def pdu_task_def cong: ptr.case_cong)

lemma read_thenE:
  assumes "read_then m f = Some (r, inp', c')"
  obtains "m = Some (r, inp', c')" "r \<noteq> NULL"
  | inp1 c1 where "m = Some (NULL, inp1, c1)" "f inp1 c1 = Some (r, inp', c')"
proof -
  obtain x inp1 c1 where m: "m = Some (x, inp1, c1)" using assms by (auto simp: read_then_def bind_eq_Some_conv)
  then show thesis using that assms by (cases x) (auto simp: read_then_def)
qed

lemma collects_okD: "collects inp c inp' c' \<Longrightarrow> \<exists>bs. c' = c\<lparr>ctx_received := bs\<rparr>" "collects inp c inp' c' \<Longrightarrow> in_pdu_ok c' inp'"
  by (auto simp: collects_def)

lemma complete_received [simp]: "complete (c\<lparr>ctx_received := bs\<rparr>) inp = complete c inp"
  by (simp add: complete_def)

text \<open>Only the first step writes the header.\<close>

lemma after_recv_hdr:
  assumes "after_recv x inp c f = Some (r, inp', c')" "\<And>bs. f bs = Some (r, inp', c') \<Longrightarrow> in_hdr inp' = in_hdr inp"
  shows "in_hdr inp' = in_hdr inp"
  using assms by (auto simp: after_recv_def split: recv_result.split_asm if_split_asm)

lemma read_data_hdr:
  assumes "read_data env inp c = Some (r, inp', c')"
  shows "in_hdr inp' = in_hdr inp"
  using assms unfolding read_data_def Let_def
  by (auto simp: bind_eq_Some_conv split: if_split_asm ptr.split_asm prod.split_asm bool.split_asm dest!: after_recv_hdr)

lemma read_digest_hdr:
  assumes "read_digest env inp c = Some (r, inp', c')"
  shows "in_hdr inp' = in_hdr inp"
  using assms unfolding read_digest_def Let_def
  by (auto split: if_split_asm prod.split_asm dest!: after_recv_hdr)

lemma read_pdu_collects:
  assumes "env_ok env" "in_pdu_ok c inp" "iscsi_get_scsi_task_iovector_in inp' c = Some NULL"
    "read_pdu env inp c = Some (r, inp', c')"
  shows "collects inp c inp' c' \<and> (r = NULL \<longrightarrow> complete c inp')"
  using assms(4) unfolding read_pdu_def
proof (cases rule: read_thenE)
  case 1
  then show ?thesis using read_header_collects [OF assms(1,2) 1(1)] by blast
next
  case (2 inp1 c1)
  note h = read_header_collects [OF assms(1,2) 2(1)]
  obtain b1 where c1: "c1 = c\<lparr>ctx_received := b1\<rparr>" using h collects_okD(1) by blast
  have ok1: "in_pdu_ok c1 inp1" "header_complete c1 inp1" using h collects_okD(2) [of inp c inp1 c1] c1 by auto
  have iov: "iscsi_get_scsi_task_iovector_in inp1 c1 = Some NULL" if "in_hdr inp' = in_hdr inp1"
    using assms(3) c1 task_iovector_cong [OF that [symmetric], where c = c and bs = b1] by simp
  from 2(2) have "collects inp1 c1 inp' c' \<and> (r = NULL \<longrightarrow> complete c1 inp')"
  proof (cases rule: read_thenE)
    case 1
    from read_data_collects [OF assms(1) ok1 iov [OF read_data_hdr [OF 1(1)]] 1(1)] 1(2) show ?thesis by simp
  next
    case (2 inp2 c2)
    have hdr: "in_hdr inp2 = in_hdr inp1" "in_hdr inp' = in_hdr inp2"
      using read_data_hdr [OF 2(1)] read_digest_hdr [OF 2(2)] .
    note d = read_data_collects [OF assms(1) ok1 iov 2(1)]
    obtain b2 where c2: "c2 = c1\<lparr>ctx_received := b2\<rparr>" using d hdr collects_okD(1) [of inp1 c1 inp2 c2] by auto
    have ok2: "in_pdu_ok c2 inp2" "header_complete c2 inp2" "in_data_pos inp2 = segment_size inp2"
      using d hdr collects_okD(2) [of inp1 c1 inp2 c2] c2 segment_size_hdr [OF hdr(1)] by auto
    from read_digest_collects [OF assms(1) ok2 2(2)] d hdr c2 show ?thesis using collects_trans by auto
  qed
  then show ?thesis using h c1 collects_trans by auto
qed

section \<open>Reading into the buffers of a task\<close>

lemma store_bytes_outside: "a \<notin> set (take (length bs) as) \<Longrightarrow> store_bytes as bs m a = m a"
  by (induction as bs m rule: store_bytes.induct) auto

lemma store_bytes_inside:
  "distinct as \<Longrightarrow> length bs \<le> length as \<Longrightarrow> map (store_bytes as bs m) (take (length bs) as) = bs"
proof (induction as bs m rule: store_bytes.induct)
  case (1 a as b bs m)
  then have "store_bytes as bs (m(a := b)) a = b"
    using store_bytes_outside [of a bs as "m(a := b)"] set_take_subset [of "length bs" as] by auto
  then show ?case using 1 by (simp add: fun_upd_def)
qed auto

section \<open>Properties\<close>


text \<open>
  C26: the data of a Data-In for a command with buffers is stored at the place in the buffers that its offset
  names: a read of \<open>count\<close> bytes at \<open>pos\<close> puts what the socket gives at the addresses from \<open>pos\<close> on of
  the concatenated buffers, in order, and writes nowhere else; the digest goes on over these bytes.
\<close>

theorem iscsi_iovector_readv_stores:
  assumes "env_ok env" "iov_window (iovector_in (ctx_tasks c t))" "iov_offset (iovector_in (ctx_tasks c t)) \<le> pos" "0 < count"
    and "pos + count \<le> length (iov_addrs (iov_entries (iovector_in (ctx_tasks c t))))"
    and "length (iov_addrs (iov_entries (iovector_in (ctx_tasks c t)))) < 2 ^ 32"
    and "distinct (iov_addrs (iov_entries (iovector_in (ctx_tasks c t))))"
  defines "addrs \<equiv> take count (drop pos (iov_addrs (iov_entries (iovector_in (ctx_tasks c t)))))"
  shows "\<exists>r digest' c'. iscsi_iovector_readv env dd t pos count digest c = Some (r, digest', c') \<and>
    (case r of
       Received bs \<Rightarrow> ctx_received c' = ctx_received c @ bs \<and> length bs \<le> count \<and>
         map (ctx_memory c') (take (length bs) addrs) = bs \<and>
         (\<forall>a. a \<notin> set (take (length bs) addrs) \<longrightarrow> ctx_memory c' a = ctx_memory c a) \<and>
         digest' = (if dd then crc32c_chain digest bs else digest)
     | _ \<Rightarrow> ctx_received c' = ctx_received c \<and> ctx_memory c' = ctx_memory c)"
proof -
  let ?v = "iovector_in (ctx_tasks c t)"
  obtain v segs where v: "iscsi_iovector_segments ?v pos count = Some (v, Ptr segs)" "iov_addrs segs = addrs"
    using iov_segments_window [OF assms(2-6)] unfolding addrs_def by blast
  have len: "length addrs = count" using assms(5) by (simp add: addrs_def)
  have dist: "distinct addrs" using assms(7) by (simp add: addrs_def)
  let ?c = "task_modify t (\<lambda>task. task\<lparr>iovector_in := v\<rparr>) c"
  consider "socket_recv env count ?c = (Recv_blocked, ?c)" | "socket_recv env count ?c = (Recv_failed, ?c)"
    | bs where "length bs \<le> count" "socket_recv env count ?c = (Received bs, ?c\<lparr>ctx_received := ctx_received ?c @ bs\<rparr>)"
    using socket_recv_cases [OF assms(1), of count ?c] by blast
  then show ?thesis
  proof cases
    case (3 bs)
    then have n: "length bs \<le> length addrs" using len by simp
    have crc: "iov_crc (store_bytes addrs bs m) segs (length bs) digest = crc32c_chain digest bs" for m
      using store_bytes_inside [OF dist n] by (simp add: iov_crc_chain v(2) take_map)
    show ?thesis
      using 3 v store_bytes_inside [OF dist n] len
      by (auto simp: iscsi_iovector_readv_def Let_def task_modify_def crc store_bytes_outside)
  qed (use v len in \<open>auto simp: iscsi_iovector_readv_def Let_def task_modify_def\<close>)
qed

text \<open>
  C17: with header digests a PDU whose 48 byte header was changed within four consecutive bytes on the way
  is not processed, whatever it would do, and with data digests neither is one whose data segment was
  changed within four consecutive bytes: the result is -1, upon which the connection is dropped, and
  nothing has changed.
\<close>

theorem iscsi_process_pdu_detects_burst:
  assumes "[a0, a1, a2, a3] \<noteq> [b0, b1, b2, b3]"
    and "ctx_header_digest c \<noteq> ISCSI_HEADER_DIGEST_NONE \<and> length xs + 4 + length ys = ISCSI_RAW_HEADER_SIZE \<and>
        in_hdr inp = (xs @ [b0, b1, b2, b3] @ ys) @ digest_bytes (crc32c (xs @ [a0, a1, a2, a3] @ ys)) \<or>
      ctx_data_digest c \<noteq> ISCSI_DATA_DIGEST_NONE \<and> scsi_get_uint32 (in_hdr inp) 4 AND 0x00ffffff \<noteq> 0 \<and>
        in_calculated_data_digest inp = crc32c_chain crc32c_init (xs @ [b0, b1, b2, b3] @ ys) \<and>
        in_data_digest_buf inp = digest_bytes (crc32c (xs @ [a0, a1, a2, a3] @ ys))"
  shows "iscsi_process_pdu env inp c = Some (-1, c)"
proof -
  have ne: "crc32c (xs @ [b0, b1, b2, b3] @ ys) \<noteq> crc32c (xs @ [a0, a1, a2, a3] @ ys)"
    using assms(1) crc32c_detects_burst by metis
  have "\<not> header_digest_ok inp c \<or> \<not> data_digest_ok inp c"
    using assms(2)
  proof (elim disjE conjE)
    assume h: "ctx_header_digest c \<noteq> ISCSI_HEADER_DIGEST_NONE" "length xs + 4 + length ys = ISCSI_RAW_HEADER_SIZE"
      "in_hdr inp = (xs @ [b0, b1, b2, b3] @ ys) @ digest_bytes (crc32c (xs @ [a0, a1, a2, a3] @ ys))"
    have len: "length (xs @ [b0, b1, b2, b3] @ ys) = ISCSI_RAW_HEADER_SIZE" using h(2) by simp
    have "take ISCSI_RAW_HEADER_SIZE (in_hdr inp) = xs @ [b0, b1, b2, b3] @ ys"
      unfolding h(3) len [symmetric] by (rule append_take_prefix)
    moreover have "le32_at (in_hdr inp) ISCSI_RAW_HEADER_SIZE = crc32c (xs @ [a0, a1, a2, a3] @ ys)"
      unfolding h(3) len [symmetric] by (rule le32_at_digest_bytes)
    ultimately have "\<not> header_digest_ok inp c" using h(1) ne unfolding header_digest_ok_def by metis
    then show ?thesis by simp
  next
    assume h: "ctx_data_digest c \<noteq> ISCSI_DATA_DIGEST_NONE" "scsi_get_uint32 (in_hdr inp) 4 AND 0x00ffffff \<noteq> 0"
      "in_calculated_data_digest inp = crc32c_chain crc32c_init (xs @ [b0, b1, b2, b3] @ ys)"
      "in_data_digest_buf inp = digest_bytes (crc32c (xs @ [a0, a1, a2, a3] @ ys))"
    have "le32_at (in_data_digest_buf inp) 0 = crc32c (xs @ [a0, a1, a2, a3] @ ys)"
      using le32_at_digest_bytes [of "[]"] h(4) by simp
    then have "\<not> data_digest_ok inp c" using h(1-3) ne unfolding data_digest_ok_def by (simp only: crc32c_done simp_thms)
    then show ?thesis by simp
  qed
  then show ?thesis by (auto simp: iscsi_process_pdu_def Let_def)
qed

text \<open>
  C39: when the data segment of a PDU is complete and its digest is not, the connection is lost: the next
  call asks the socket for none of the data, and takes the result 0 for the end of the connection.
\<close>

theorem split_data_digest_drops_connection:
  assumes "ctx_incoming c = Ptr inp" "header_complete c inp" "in_hdr inp \<noteq> []" "segment_size inp \<noteq> 0"
    and "in_data_pos inp = segment_size inp" "in_data inp \<noteq> []"
    and "iscsi_get_scsi_task_iovector_in inp c \<noteq> None" "\<And>c. env_recv env c 0 = Received []"
    and "ctx_data_digest c \<noteq> ISCSI_DATA_DIGEST_NONE" "in_received_data_digest_bytes inp < ISCSI_DIGEST_SIZE"
  shows "\<exists>c'. iscsi_read_from_socket env c = Some (-1, c')"
proof -
  obtain t where t: "iscsi_get_scsi_task_iovector_in inp c = Some t" using assms(7) by blast
  have "segment_size inp = unat (iscsi_get_pdu_data_size (in_hdr inp)) + unat (iscsi_get_pdu_padding_size (in_hdr inp))"
    by (rule segment_size_def)
  then have "\<exists>inp' c'. read_data env inp c = Some (Ptr (-1), inp', c')"
    using t assms(4-6,8) by (cases t) (auto simp: read_data_def Let_def socket_recv_def after_recv_def)
  then obtain inp' c' where "read_data env inp c = Some (Ptr (-1), inp', c')" by blast
  then have "read_pdu env inp c = Some (Ptr (-1), inp', c')"
    using assms(2) by (simp add: read_pdu_def read_then_def read_header_def header_complete_def)
  then show ?thesis
    using assms(1,3) by (subst iscsi_read_from_socket.simps) (simp add: incoming_pdu_def)
qed

text \<open>
  C36: a target crashes the client with a Data-In that carries data and the tag of a request that is not
  a SCSI command: the buffers of its task, which is NULL, are looked up before the opcode is compared.
\<close>

theorem data_in_for_other_request_crashes:
  assumes "ctx_incoming c = Ptr inp" "header_complete c inp" "in_hdr inp \<noteq> []"
    and "in_hdr inp ! 0 AND 0x3f = ISCSI_PDU_DATA_IN" "segment_size inp \<noteq> 0"
    and "\<not> ctx_initiator_max_recv_data_segment_length c < iscsi_get_pdu_data_size (in_hdr inp)"
    and "find_pdu (\<lambda>p. pdu_itt p = scsi_get_uint32 (in_hdr inp) 16) (ctx_waitpdu c) c = Some (Ptr i)"
    and "ctx_pdus c i = Some p" "pdu_cbdata_task p = NULL"
  shows "iscsi_read_from_socket env c = None"
proof -
  have "iscsi_get_scsi_task_iovector_in inp c = None"
    using assms(4,7-9) by (simp add: iscsi_get_scsi_task_iovector_in_def pdu_task_def)
  then have "read_data env inp c = None"
    using assms(5,6) by (simp add: read_data_def Let_def)
  then have "read_pdu env inp c = None"
    using assms(2) by (simp add: read_pdu_def read_then_def read_header_def header_complete_def)
  then show ?thesis
    using assms(1,3) by (subst iscsi_read_from_socket.simps) (simp add: incoming_pdu_def)
qed

section \<open>Witnesses\<close>

text \<open>A NOP-In with three bytes of data, from a socket that gives at most 50 bytes at a time.\<close>

definition demo_stream :: "u8 \<Rightarrow> bytes" where
  "demo_stream opcode = [opcode, 0x80, 0, 0, 0, 0, 0, 3] @ replicate 40 0 @ [1, 2, 3, 0]"

definition demo_socket :: iscsi_env where
  "demo_socket = demo_env\<lparr>env_recv := \<lambda>c n. Received (take (min n 50) (drop (length (ctx_received c)) (demo_stream ISCSI_PDU_NOP_IN)))\<rparr>"

definition demo_receiving :: "cint \<Rightarrow> iscsi_in_pdu \<Rightarrow> iscsi_context" where
  "demo_receiving dd inp = zero_context\<lparr>ctx_incoming := Ptr inp, ctx_initiator_max_recv_data_segment_length := 8192,
     ctx_data_digest := dd, ctx_waitpdu := [7], ctx_pdus := [7 \<mapsto> zero_pdu]\<rparr>"

definition demo_incoming :: "u8 \<Rightarrow> iscsi_in_pdu" where
  "demo_incoming opcode = zero_in_pdu\<lparr>in_hdr := take 48 (demo_stream opcode), in_hdr_pos := 48,
     in_data := [1, 2, 3, 0], in_data_pos := 4\<rparr>"

lemma demo_socket_ok: "env_ok demo_socket"
  by (auto simp: env_ok_def demo_socket_def demo_env_def)


theorem iscsi_process_pdu_detects_burst_witness:
  defines "hdr \<equiv> [1, 0, 0, 0] @ replicate 44 0"
  shows "iscsi_process_pdu demo_env (zero_in_pdu\<lparr>in_hdr := hdr @ digest_bytes (crc32c (replicate 48 0))\<rparr>)
      (zero_context\<lparr>ctx_header_digest := 1\<rparr>) = Some (-1, zero_context\<lparr>ctx_header_digest := 1\<rparr>)"
proof -
  have "replicate 48 (0 :: u8) = [] @ [0, 0, 0, 0] @ replicate 44 0" by code_simp
  then show ?thesis
    unfolding hdr_def
    by (intro iscsi_process_pdu_detects_burst [of 0 0 0 0 1 0 0 0 _ "[]" "replicate 44 0"]) simp_all
qed

theorem split_data_digest_drops_connection_witness:
  "\<exists>c'. iscsi_read_from_socket (demo_env\<lparr>env_recv := \<lambda>_ n. if n = 0 then Received [] else Recv_blocked\<rparr>)
    (demo_receiving 1 (demo_incoming ISCSI_PDU_NOP_IN)) = Some (-1, c')"
proof -
  let ?inp = "demo_incoming ISCSI_PDU_NOP_IN"
  have "segment_size ?inp = 4" "iscsi_get_scsi_task_iovector_in ?inp (demo_receiving 1 ?inp) = Some NULL"
    by (code_simp, simp add: iscsi_get_scsi_task_iovector_in_def demo_incoming_def demo_stream_def)
  then show ?thesis
    by (intro split_data_digest_drops_connection [where inp = ?inp])
      (simp_all add: demo_receiving_def header_complete_def zero_context_def ISCSI_HEADER_SIZE_def demo_incoming_def
        zero_in_pdu_def demo_stream_def)
qed

theorem data_in_for_other_request_crashes_witness:
  "iscsi_read_from_socket demo_env (demo_receiving 0 (demo_incoming ISCSI_PDU_DATA_IN)) = None"
proof -
  let ?inp = "demo_incoming ISCSI_PDU_DATA_IN"
  have "segment_size ?inp = 4" "iscsi_get_pdu_data_size (in_hdr ?inp) = 3" "scsi_get_uint32 (in_hdr ?inp) 16 = 0"
    by code_simp+
  then show ?thesis
    by (intro data_in_for_other_request_crashes [where inp = ?inp and p = zero_pdu and i = 7])
      (simp_all add: demo_receiving_def header_complete_def zero_context_def ISCSI_HEADER_SIZE_def,
       simp_all add: demo_incoming_def zero_in_pdu_def demo_stream_def zero_pdu_def)
qed

definition demo_buffers :: iscsi_context where
  "demo_buffers = zero_context\<lparr>ctx_tasks := (\<lambda>_. zero_task\<lparr>iovector_in := zero_iovector\<lparr>iov :=
    Ptr [\<lparr>iov_base = 100, iov_len = 2\<rparr>, \<lparr>iov_base = 200, iov_len = 4\<rparr>], niov := 2\<rparr>\<rparr>)\<rparr>"

definition demo_giver :: iscsi_env where
  "demo_giver = demo_env\<lparr>env_recv := \<lambda>_ n. Received (take n [7, 8, 9])\<rparr>"

theorem iscsi_iovector_readv_stores_witness:
  "\<exists>d c'. iscsi_iovector_readv demo_giver False 0 1 4 0 demo_buffers = Some (Received [7, 8, 9], d, c') \<and>
    map (ctx_memory c') [101, 200, 201] = [7, 8, 9] \<and> ctx_memory c' 100 = 0"
proof -
  have "(case iscsi_iovector_readv demo_giver False 0 1 4 0 demo_buffers of Some (r, _, _) \<Rightarrow> r = Received [7, 8, 9] | None \<Rightarrow> False)"
    by (simp add: iscsi_iovector_readv_def iscsi_iovector_segments_def demo_buffers_def demo_giver_def socket_recv_def
        Let_def task_modify_def zero_iovector_def)
  then obtain d c' where r: "iscsi_iovector_readv demo_giver False 0 1 4 0 demo_buffers = Some (Received [7, 8, 9], d, c')"
    by (auto split: option.split_asm)
  have ok: "env_ok demo_giver" by (auto simp: env_ok_def demo_giver_def demo_env_def)
  have w: "iov_window (iovector_in (ctx_tasks demo_buffers 0))" "iov_offset (iovector_in (ctx_tasks demo_buffers 0)) = 0"
    by (simp_all add: iov_window_def demo_buffers_def zero_iovector_def)
  have a: "iov_addrs (iov_entries (iovector_in (ctx_tasks demo_buffers 0))) = [100, 101, 200, 201, 202, 203]"
    by (simp add: demo_buffers_def iov_entries_def upt_rec)
  show ?thesis
    using iscsi_iovector_readv_stores [OF ok w(1), of 1 4 False 0] r
    by (simp add: w(2) a) (simp add: demo_buffers_def zero_context_def)
qed

end
