(* ===== verification/Iscsi_Tasks.thy ===== *)
theory Iscsi_Tasks
  imports Login_Auth Scsi_Cdb Scsi_Modepage
begin

text \<open>
  The functions for the single SCSI commands at the end of \<open>lib/iscsi-command.c\<close>: each builds a task
  with its CDB, hands it the buffers of the application and submits it. \<open>t\<close> is the address of the new
  task, \<open>cb\<close> the callback with its private data. A function returns NULL when the task could not be
  created or submitted (it is freed then).
\<close>

section \<open>Submitting a task\<close>

type_synonym task_result = "(nat ptr \<times> iscsi_context) option"

definition submit_task ::
  "iscsi_env \<Rightarrow> nat \<Rightarrow> u32 \<Rightarrow> nat ptr \<Rightarrow> (nat \<times> nat) ptr \<Rightarrow> scsi_task \<Rightarrow> iscsi_context \<Rightarrow> task_result" where
  "submit_task env t lun cb d task iscsi = do {
     (r, iscsi) \<leftarrow> iscsi_scsi_command_async env lun t cb d (iscsi\<lparr>ctx_tasks := (ctx_tasks iscsi)(t := task)\<rparr>);
     Some (if r \<noteq> 0 then NULL else Ptr t, iscsi)
   }"

text \<open>The builder may return NULL, or divide by zero; \<open>prepare\<close> is what is done to the task after it.\<close>

definition send_task ::
  "iscsi_env \<Rightarrow> nat \<Rightarrow> u32 \<Rightarrow> nat ptr \<Rightarrow> (nat \<times> nat) ptr \<Rightarrow> (scsi_task \<Rightarrow> scsi_task) \<Rightarrow> scsi_task ptr option \<Rightarrow>
   iscsi_context \<Rightarrow> task_result" where
  "send_task env t lun cb d prepare built iscsi = do {
     r \<leftarrow> built;
     case r of
       NULL \<Rightarrow> Some (NULL, iscsi)
     | Ptr task \<Rightarrow> submit_task env t lun cb d (prepare task) iscsi
   }"

text \<open>\<open>if (datalen % blocksize != 0) return NULL;\<close>, an \<open>int\<close> converted to unsigned.\<close>

definition whole_blocks :: "u32 \<Rightarrow> cint \<Rightarrow> iscsi_context \<Rightarrow> task_result \<Rightarrow> task_result" where
  "whole_blocks datalen blocksize iscsi go = do {
     r \<leftarrow> c_umod datalen blocksize;
     if r \<noteq> 0 then Some (NULL, iscsi) else go
   }"

text \<open>\<open>d.data = data; d.size = datalen;\<close>\<close>

definition data_of :: "nat ptr \<Rightarrow> u32 \<Rightarrow> (nat \<times> nat) ptr" where
  "data_of data datalen = (case data of NULL \<Rightarrow> NULL | Ptr a \<Rightarrow> Ptr (a, unat datalen))"

text \<open>\<open>if (iov != NULL) scsi_task_set_iov_in(task, iov, niov);\<close>\<close>

definition scsi_set_iov_in :: "scsi_iovec list ptr \<Rightarrow> nat \<Rightarrow> scsi_task \<Rightarrow> scsi_task" where
  "scsi_set_iov_in v n task = (case v of NULL \<Rightarrow> task | Ptr _ \<Rightarrow> scsi_task_set_iov_in task v n)"

definition scsi_set_iov_out :: "scsi_iovec list ptr \<Rightarrow> nat \<Rightarrow> scsi_task \<Rightarrow> scsi_task" where
  "scsi_set_iov_out v n task = (case v of NULL \<Rightarrow> task | Ptr _ \<Rightarrow> scsi_task_set_iov_out task v n)"

text \<open>WRITE SAME without a buffer transfers nothing.\<close>

definition same_xfer :: "nat ptr \<Rightarrow> u32 \<Rightarrow> scsi_task \<Rightarrow> scsi_task" where
  "same_xfer data datalen task =
     (case data of
        NULL \<Rightarrow> task\<lparr>expxferlen := 0, xfer_dir := SCSI_XFER_NONE\<rparr>
      | Ptr _ \<Rightarrow> task\<lparr>expxferlen := datalen\<rparr>)"

text \<open>Parameter data that the library puts in memory of the task, at the address \<open>a\<close>.\<close>

definition place_bytes :: "nat \<Rightarrow> bytes \<Rightarrow> iscsi_context \<Rightarrow> iscsi_context" where
  "place_bytes a bs iscsi =
     iscsi\<lparr>ctx_memory := (\<lambda>k. if a \<le> k \<and> k < a + length bs then bs ! (k - a) else ctx_memory iscsi k)\<rparr>"

section \<open>Commands with a plain CDB\<close>

definition iscsi_testunitready_task ::
  "iscsi_env \<Rightarrow> nat \<Rightarrow> u32 \<Rightarrow> nat ptr \<Rightarrow> iscsi_context \<Rightarrow> task_result" where
  "iscsi_testunitready_task env t lun cb iscsi =
     send_task env t lun cb NULL id
       (Some (scsi_cdb_testunitready (env_malloc env iscsi))) iscsi"

definition iscsi_inquiry_task ::
  "iscsi_env \<Rightarrow> nat \<Rightarrow> u32 \<Rightarrow> cint \<Rightarrow> cint \<Rightarrow> cint \<Rightarrow> nat ptr
   \<Rightarrow> iscsi_context \<Rightarrow> task_result" where
  "iscsi_inquiry_task env t lun evpd page_code maxsize cb iscsi =
     send_task env t lun cb NULL id
       (Some (scsi_cdb_inquiry (env_malloc env iscsi) evpd page_code maxsize)) iscsi"

definition iscsi_readcapacity10_task ::
  "iscsi_env \<Rightarrow> nat \<Rightarrow> u32 \<Rightarrow> cint \<Rightarrow> cint \<Rightarrow> nat ptr
   \<Rightarrow> iscsi_context \<Rightarrow> task_result" where
  "iscsi_readcapacity10_task env t lun lba pmi cb iscsi =
     send_task env t lun cb NULL id
       (Some (scsi_cdb_readcapacity10 (env_malloc env iscsi) lba pmi)) iscsi"

definition iscsi_readcapacity16_task ::
  "iscsi_env \<Rightarrow> nat \<Rightarrow> u32 \<Rightarrow> nat ptr \<Rightarrow> iscsi_context \<Rightarrow> task_result" where
  "iscsi_readcapacity16_task env t lun cb iscsi =
     send_task env t lun cb NULL id
       (Some (scsi_cdb_readcapacity16 (env_malloc env iscsi))) iscsi"

definition iscsi_readdefectdata10_task ::
  "iscsi_env \<Rightarrow> nat \<Rightarrow> u32 \<Rightarrow> cint \<Rightarrow> cint \<Rightarrow> cint \<Rightarrow> u16
   \<Rightarrow> nat ptr \<Rightarrow> iscsi_context \<Rightarrow> task_result" where
  "iscsi_readdefectdata10_task env t lun req_plist req_glist defect_list_format alloc_len cb iscsi =
     send_task env t lun cb NULL id
       (Some (scsi_cdb_readdefectdata10 (env_malloc env iscsi) req_plist req_glist defect_list_format
         alloc_len)) iscsi"

definition iscsi_readdefectdata12_task ::
  "iscsi_env \<Rightarrow> nat \<Rightarrow> u32 \<Rightarrow> cint \<Rightarrow> cint \<Rightarrow> cint \<Rightarrow> u32
   \<Rightarrow> u32 \<Rightarrow> nat ptr \<Rightarrow> iscsi_context \<Rightarrow> task_result" where
  "iscsi_readdefectdata12_task env t lun req_plist req_glist defect_list_format address_descriptor_index
     alloc_len cb iscsi =
     send_task env t lun cb NULL id
       (Some (scsi_cdb_readdefectdata12 (env_malloc env iscsi) req_plist req_glist defect_list_format
         address_descriptor_index alloc_len)) iscsi"

definition iscsi_get_lba_status_task ::
  "iscsi_env \<Rightarrow> nat \<Rightarrow> u32 \<Rightarrow> u64 \<Rightarrow> u32 \<Rightarrow> nat ptr
   \<Rightarrow> iscsi_context \<Rightarrow> task_result" where
  "iscsi_get_lba_status_task env t lun starting_lba alloc_len cb iscsi =
     send_task env t lun cb NULL id
       (Some (scsi_cdb_get_lba_status (env_malloc env iscsi) starting_lba alloc_len)) iscsi"

definition iscsi_read6_iov_task ::
  "iscsi_env \<Rightarrow> nat \<Rightarrow> u32 \<Rightarrow> u32 \<Rightarrow> u32 \<Rightarrow> cint
   \<Rightarrow> scsi_iovec list ptr \<Rightarrow> nat \<Rightarrow> nat ptr \<Rightarrow> iscsi_context \<Rightarrow> task_result" where
  "iscsi_read6_iov_task env t lun lba datalen blocksize v n cb iscsi =
     whole_blocks datalen blocksize iscsi (
       send_task env t lun cb NULL (scsi_set_iov_in v n)
         (scsi_cdb_read6 (env_malloc env iscsi) lba datalen blocksize) iscsi)"

definition iscsi_read6_task ::
  "iscsi_env \<Rightarrow> nat \<Rightarrow> u32 \<Rightarrow> u32 \<Rightarrow> u32 \<Rightarrow> cint \<Rightarrow> nat ptr
   \<Rightarrow> iscsi_context \<Rightarrow> task_result" where
  "iscsi_read6_task env t lun lba datalen blocksize cb iscsi =
     whole_blocks datalen blocksize iscsi (
       send_task env t lun cb NULL id
         (scsi_cdb_read6 (env_malloc env iscsi) lba datalen blocksize) iscsi)"

definition iscsi_read10_iov_task ::
  "iscsi_env \<Rightarrow> nat \<Rightarrow> u32 \<Rightarrow> u32 \<Rightarrow> u32 \<Rightarrow> cint \<Rightarrow> cint
   \<Rightarrow> cint \<Rightarrow> cint \<Rightarrow> cint \<Rightarrow> cint \<Rightarrow> scsi_iovec list ptr \<Rightarrow> nat
   \<Rightarrow> nat ptr \<Rightarrow> iscsi_context \<Rightarrow> task_result" where
  "iscsi_read10_iov_task env t lun lba datalen blocksize rdprotect dpo fua fua_nv group_number v n cb iscsi =
     whole_blocks datalen blocksize iscsi (
       send_task env t lun cb NULL (scsi_set_iov_in v n)
         (scsi_cdb_read10 (env_malloc env iscsi) lba datalen blocksize rdprotect dpo fua fua_nv
           group_number) iscsi)"

definition iscsi_read10_task ::
  "iscsi_env \<Rightarrow> nat \<Rightarrow> u32 \<Rightarrow> u32 \<Rightarrow> u32 \<Rightarrow> cint \<Rightarrow> cint
   \<Rightarrow> cint \<Rightarrow> cint \<Rightarrow> cint \<Rightarrow> cint \<Rightarrow> nat ptr \<Rightarrow> iscsi_context
   \<Rightarrow> task_result" where
  "iscsi_read10_task env t lun lba datalen blocksize rdprotect dpo fua fua_nv group_number cb iscsi =
     whole_blocks datalen blocksize iscsi (
       send_task env t lun cb NULL id
         (scsi_cdb_read10 (env_malloc env iscsi) lba datalen blocksize rdprotect dpo fua fua_nv
           group_number) iscsi)"

definition iscsi_read12_iov_task ::
  "iscsi_env \<Rightarrow> nat \<Rightarrow> u32 \<Rightarrow> u32 \<Rightarrow> u32 \<Rightarrow> cint \<Rightarrow> cint
   \<Rightarrow> cint \<Rightarrow> cint \<Rightarrow> cint \<Rightarrow> cint \<Rightarrow> scsi_iovec list ptr \<Rightarrow> nat
   \<Rightarrow> nat ptr \<Rightarrow> iscsi_context \<Rightarrow> task_result" where
  "iscsi_read12_iov_task env t lun lba datalen blocksize rdprotect dpo fua fua_nv group_number v n cb iscsi =
     whole_blocks datalen blocksize iscsi (
       send_task env t lun cb NULL (scsi_set_iov_in v n)
         (scsi_cdb_read12 (env_malloc env iscsi) lba datalen blocksize rdprotect dpo fua fua_nv
           group_number) iscsi)"

definition iscsi_read12_task ::
  "iscsi_env \<Rightarrow> nat \<Rightarrow> u32 \<Rightarrow> u32 \<Rightarrow> u32 \<Rightarrow> cint \<Rightarrow> cint
   \<Rightarrow> cint \<Rightarrow> cint \<Rightarrow> cint \<Rightarrow> cint \<Rightarrow> nat ptr \<Rightarrow> iscsi_context
   \<Rightarrow> task_result" where
  "iscsi_read12_task env t lun lba datalen blocksize rdprotect dpo fua fua_nv group_number cb iscsi =
     whole_blocks datalen blocksize iscsi (
       send_task env t lun cb NULL id
         (scsi_cdb_read12 (env_malloc env iscsi) lba datalen blocksize rdprotect dpo fua fua_nv
           group_number) iscsi)"

definition iscsi_read16_iov_task ::
  "iscsi_env \<Rightarrow> nat \<Rightarrow> u32 \<Rightarrow> u64 \<Rightarrow> u32 \<Rightarrow> cint \<Rightarrow> cint
   \<Rightarrow> cint \<Rightarrow> cint \<Rightarrow> cint \<Rightarrow> cint \<Rightarrow> scsi_iovec list ptr \<Rightarrow> nat
   \<Rightarrow> nat ptr \<Rightarrow> iscsi_context \<Rightarrow> task_result" where
  "iscsi_read16_iov_task env t lun lba datalen blocksize rdprotect dpo fua fua_nv group_number v n cb iscsi =
     whole_blocks datalen blocksize iscsi (
       send_task env t lun cb NULL (scsi_set_iov_in v n)
         (scsi_cdb_read16 (env_malloc env iscsi) lba datalen blocksize rdprotect dpo fua fua_nv
           group_number) iscsi)"

definition iscsi_read16_task ::
  "iscsi_env \<Rightarrow> nat \<Rightarrow> u32 \<Rightarrow> u64 \<Rightarrow> u32 \<Rightarrow> cint \<Rightarrow> cint
   \<Rightarrow> cint \<Rightarrow> cint \<Rightarrow> cint \<Rightarrow> cint \<Rightarrow> nat ptr \<Rightarrow> iscsi_context
   \<Rightarrow> task_result" where
  "iscsi_read16_task env t lun lba datalen blocksize rdprotect dpo fua fua_nv group_number cb iscsi =
     whole_blocks datalen blocksize iscsi (
       send_task env t lun cb NULL id
         (scsi_cdb_read16 (env_malloc env iscsi) lba datalen blocksize rdprotect dpo fua fua_nv
           group_number) iscsi)"

definition iscsi_write10_task ::
  "iscsi_env \<Rightarrow> nat \<Rightarrow> u32 \<Rightarrow> u32 \<Rightarrow> u32 \<Rightarrow> cint \<Rightarrow> cint
   \<Rightarrow> cint \<Rightarrow> cint \<Rightarrow> cint \<Rightarrow> cint \<Rightarrow> nat ptr \<Rightarrow> nat ptr
   \<Rightarrow> iscsi_context \<Rightarrow> task_result" where
  "iscsi_write10_task env t lun lba datalen blocksize wrprotect dpo fua fua_nv group_number data cb iscsi =
     whole_blocks datalen blocksize iscsi (
       send_task env t lun cb (data_of data datalen) id
         (scsi_cdb_write10 (env_malloc env iscsi) lba datalen blocksize wrprotect dpo fua fua_nv
           group_number) iscsi)"

definition iscsi_write10_iov_task ::
  "iscsi_env \<Rightarrow> nat \<Rightarrow> u32 \<Rightarrow> u32 \<Rightarrow> u32 \<Rightarrow> cint \<Rightarrow> cint
   \<Rightarrow> cint \<Rightarrow> cint \<Rightarrow> cint \<Rightarrow> cint \<Rightarrow> nat ptr
   \<Rightarrow> scsi_iovec list ptr \<Rightarrow> nat \<Rightarrow> nat ptr \<Rightarrow> iscsi_context \<Rightarrow> task_result" where
  "iscsi_write10_iov_task env t lun lba datalen blocksize wrprotect dpo fua fua_nv group_number data v n cb
     iscsi =
     whole_blocks datalen blocksize iscsi (
       send_task env t lun cb (data_of data datalen) (scsi_set_iov_out v n)
         (scsi_cdb_write10 (env_malloc env iscsi) lba datalen blocksize wrprotect dpo fua fua_nv
           group_number) iscsi)"

definition iscsi_write12_task ::
  "iscsi_env \<Rightarrow> nat \<Rightarrow> u32 \<Rightarrow> u32 \<Rightarrow> u32 \<Rightarrow> cint \<Rightarrow> cint
   \<Rightarrow> cint \<Rightarrow> cint \<Rightarrow> cint \<Rightarrow> cint \<Rightarrow> nat ptr \<Rightarrow> nat ptr
   \<Rightarrow> iscsi_context \<Rightarrow> task_result" where
  "iscsi_write12_task env t lun lba datalen blocksize wrprotect dpo fua fua_nv group_number data cb iscsi =
     whole_blocks datalen blocksize iscsi (
       send_task env t lun cb (data_of data datalen) id
         (scsi_cdb_write12 (env_malloc env iscsi) lba datalen blocksize wrprotect dpo fua fua_nv
           group_number) iscsi)"

definition iscsi_write12_iov_task ::
  "iscsi_env \<Rightarrow> nat \<Rightarrow> u32 \<Rightarrow> u32 \<Rightarrow> u32 \<Rightarrow> cint \<Rightarrow> cint
   \<Rightarrow> cint \<Rightarrow> cint \<Rightarrow> cint \<Rightarrow> cint \<Rightarrow> nat ptr
   \<Rightarrow> scsi_iovec list ptr \<Rightarrow> nat \<Rightarrow> nat ptr \<Rightarrow> iscsi_context \<Rightarrow> task_result" where
  "iscsi_write12_iov_task env t lun lba datalen blocksize wrprotect dpo fua fua_nv group_number data v n cb
     iscsi =
     whole_blocks datalen blocksize iscsi (
       send_task env t lun cb (data_of data datalen) (scsi_set_iov_out v n)
         (scsi_cdb_write12 (env_malloc env iscsi) lba datalen blocksize wrprotect dpo fua fua_nv
           group_number) iscsi)"

definition iscsi_write16_task ::
  "iscsi_env \<Rightarrow> nat \<Rightarrow> u32 \<Rightarrow> u64 \<Rightarrow> u32 \<Rightarrow> cint \<Rightarrow> cint
   \<Rightarrow> cint \<Rightarrow> cint \<Rightarrow> cint \<Rightarrow> cint \<Rightarrow> nat ptr \<Rightarrow> nat ptr
   \<Rightarrow> iscsi_context \<Rightarrow> task_result" where
  "iscsi_write16_task env t lun lba datalen blocksize wrprotect dpo fua fua_nv group_number data cb iscsi =
     whole_blocks datalen blocksize iscsi (
       send_task env t lun cb (data_of data datalen) id
         (scsi_cdb_write16 (env_malloc env iscsi) lba datalen blocksize wrprotect dpo fua fua_nv
           group_number) iscsi)"

definition iscsi_write16_iov_task ::
  "iscsi_env \<Rightarrow> nat \<Rightarrow> u32 \<Rightarrow> u64 \<Rightarrow> u32 \<Rightarrow> cint \<Rightarrow> cint
   \<Rightarrow> cint \<Rightarrow> cint \<Rightarrow> cint \<Rightarrow> cint \<Rightarrow> nat ptr
   \<Rightarrow> scsi_iovec list ptr \<Rightarrow> nat \<Rightarrow> nat ptr \<Rightarrow> iscsi_context \<Rightarrow> task_result" where
  "iscsi_write16_iov_task env t lun lba datalen blocksize wrprotect dpo fua fua_nv group_number data v n cb
     iscsi =
     whole_blocks datalen blocksize iscsi (
       send_task env t lun cb (data_of data datalen) (scsi_set_iov_out v n)
         (scsi_cdb_write16 (env_malloc env iscsi) lba datalen blocksize wrprotect dpo fua fua_nv
           group_number) iscsi)"

definition iscsi_writeatomic16_task ::
  "iscsi_env \<Rightarrow> nat \<Rightarrow> u32 \<Rightarrow> u64 \<Rightarrow> u32 \<Rightarrow> cint \<Rightarrow> cint
   \<Rightarrow> cint \<Rightarrow> cint \<Rightarrow> cint \<Rightarrow> nat ptr \<Rightarrow> nat ptr
   \<Rightarrow> iscsi_context \<Rightarrow> task_result" where
  "iscsi_writeatomic16_task env t lun lba datalen blocksize wrprotect dpo fua group_number data cb iscsi =
     whole_blocks datalen blocksize iscsi (
       send_task env t lun cb (data_of data datalen) id
         (scsi_cdb_writeatomic16 (env_malloc env iscsi) lba datalen blocksize wrprotect dpo fua
           group_number) iscsi)"

definition iscsi_writeatomic16_iov_task ::
  "iscsi_env \<Rightarrow> nat \<Rightarrow> u32 \<Rightarrow> u64 \<Rightarrow> u32 \<Rightarrow> cint \<Rightarrow> cint
   \<Rightarrow> cint \<Rightarrow> cint \<Rightarrow> cint \<Rightarrow> nat ptr \<Rightarrow> scsi_iovec list ptr
   \<Rightarrow> nat \<Rightarrow> nat ptr \<Rightarrow> iscsi_context \<Rightarrow> task_result" where
  "iscsi_writeatomic16_iov_task env t lun lba datalen blocksize wrprotect dpo fua group_number data v n cb iscsi
     =
     whole_blocks datalen blocksize iscsi (
       send_task env t lun cb (data_of data datalen) (scsi_set_iov_out v n)
         (scsi_cdb_writeatomic16 (env_malloc env iscsi) lba datalen blocksize wrprotect dpo fua
           group_number) iscsi)"

definition iscsi_orwrite_task ::
  "iscsi_env \<Rightarrow> nat \<Rightarrow> u32 \<Rightarrow> u64 \<Rightarrow> u32 \<Rightarrow> cint \<Rightarrow> cint
   \<Rightarrow> cint \<Rightarrow> cint \<Rightarrow> cint \<Rightarrow> cint \<Rightarrow> nat ptr \<Rightarrow> nat ptr
   \<Rightarrow> iscsi_context \<Rightarrow> task_result" where
  "iscsi_orwrite_task env t lun lba datalen blocksize wrprotect dpo fua fua_nv group_number data cb iscsi =
     whole_blocks datalen blocksize iscsi (
       send_task env t lun cb (data_of data datalen) id
         (scsi_cdb_orwrite (env_malloc env iscsi) lba datalen blocksize wrprotect dpo fua fua_nv
           group_number) iscsi)"

definition iscsi_orwrite_iov_task ::
  "iscsi_env \<Rightarrow> nat \<Rightarrow> u32 \<Rightarrow> u64 \<Rightarrow> u32 \<Rightarrow> cint \<Rightarrow> cint
   \<Rightarrow> cint \<Rightarrow> cint \<Rightarrow> cint \<Rightarrow> cint \<Rightarrow> nat ptr
   \<Rightarrow> scsi_iovec list ptr \<Rightarrow> nat \<Rightarrow> nat ptr \<Rightarrow> iscsi_context \<Rightarrow> task_result" where
  "iscsi_orwrite_iov_task env t lun lba datalen blocksize wrprotect dpo fua fua_nv group_number data v n cb
     iscsi =
     whole_blocks datalen blocksize iscsi (
       send_task env t lun cb (data_of data datalen) (scsi_set_iov_out v n)
         (scsi_cdb_orwrite (env_malloc env iscsi) lba datalen blocksize wrprotect dpo fua fua_nv
           group_number) iscsi)"

definition iscsi_compareandwrite_task ::
  "iscsi_env \<Rightarrow> nat \<Rightarrow> u32 \<Rightarrow> u64 \<Rightarrow> u32 \<Rightarrow> cint \<Rightarrow> cint
   \<Rightarrow> cint \<Rightarrow> cint \<Rightarrow> cint \<Rightarrow> cint \<Rightarrow> nat ptr \<Rightarrow> nat ptr
   \<Rightarrow> iscsi_context \<Rightarrow> task_result" where
  "iscsi_compareandwrite_task env t lun lba datalen blocksize wrprotect dpo fua fua_nv group_number data cb
     iscsi =
     whole_blocks datalen (blocksize * 2) iscsi (
       send_task env t lun cb (data_of data datalen) id
         (scsi_cdb_compareandwrite (env_malloc env iscsi) lba datalen blocksize wrprotect dpo fua fua_nv
           group_number) iscsi)"

definition iscsi_compareandwrite_iov_task ::
  "iscsi_env \<Rightarrow> nat \<Rightarrow> u32 \<Rightarrow> u64 \<Rightarrow> u32 \<Rightarrow> cint \<Rightarrow> cint
   \<Rightarrow> cint \<Rightarrow> cint \<Rightarrow> cint \<Rightarrow> cint \<Rightarrow> nat ptr
   \<Rightarrow> scsi_iovec list ptr \<Rightarrow> nat \<Rightarrow> nat ptr \<Rightarrow> iscsi_context \<Rightarrow> task_result" where
  "iscsi_compareandwrite_iov_task env t lun lba datalen blocksize wrprotect dpo fua fua_nv group_number data v n
     cb iscsi =
     whole_blocks datalen (blocksize * 2) iscsi (
       send_task env t lun cb (data_of data datalen) (scsi_set_iov_out v n)
         (scsi_cdb_compareandwrite (env_malloc env iscsi) lba datalen blocksize wrprotect dpo fua fua_nv
           group_number) iscsi)"

definition iscsi_writeverify10_task ::
  "iscsi_env \<Rightarrow> nat \<Rightarrow> u32 \<Rightarrow> u32 \<Rightarrow> u32 \<Rightarrow> cint \<Rightarrow> cint
   \<Rightarrow> cint \<Rightarrow> cint \<Rightarrow> cint \<Rightarrow> nat ptr \<Rightarrow> nat ptr
   \<Rightarrow> iscsi_context \<Rightarrow> task_result" where
  "iscsi_writeverify10_task env t lun lba datalen blocksize wrprotect dpo bytchk group_number data cb iscsi =
     whole_blocks datalen blocksize iscsi (
       send_task env t lun cb (data_of data datalen) id
         (scsi_cdb_writeverify10 (env_malloc env iscsi) lba datalen blocksize wrprotect dpo bytchk
           group_number) iscsi)"

definition iscsi_writeverify10_iov_task ::
  "iscsi_env \<Rightarrow> nat \<Rightarrow> u32 \<Rightarrow> u32 \<Rightarrow> u32 \<Rightarrow> cint \<Rightarrow> cint
   \<Rightarrow> cint \<Rightarrow> cint \<Rightarrow> cint \<Rightarrow> nat ptr \<Rightarrow> scsi_iovec list ptr
   \<Rightarrow> nat \<Rightarrow> nat ptr \<Rightarrow> iscsi_context \<Rightarrow> task_result" where
  "iscsi_writeverify10_iov_task env t lun lba datalen blocksize wrprotect dpo bytchk group_number data v n cb
     iscsi =
     whole_blocks datalen blocksize iscsi (
       send_task env t lun cb (data_of data datalen) (scsi_set_iov_out v n)
         (scsi_cdb_writeverify10 (env_malloc env iscsi) lba datalen blocksize wrprotect dpo bytchk
           group_number) iscsi)"

definition iscsi_writeverify12_task ::
  "iscsi_env \<Rightarrow> nat \<Rightarrow> u32 \<Rightarrow> u32 \<Rightarrow> u32 \<Rightarrow> cint \<Rightarrow> cint
   \<Rightarrow> cint \<Rightarrow> cint \<Rightarrow> cint \<Rightarrow> nat ptr \<Rightarrow> nat ptr
   \<Rightarrow> iscsi_context \<Rightarrow> task_result" where
  "iscsi_writeverify12_task env t lun lba datalen blocksize wrprotect dpo bytchk group_number data cb iscsi =
     whole_blocks datalen blocksize iscsi (
       send_task env t lun cb (data_of data datalen) id
         (scsi_cdb_writeverify12 (env_malloc env iscsi) lba datalen blocksize wrprotect dpo bytchk
           group_number) iscsi)"

definition iscsi_writeverify12_iov_task ::
  "iscsi_env \<Rightarrow> nat \<Rightarrow> u32 \<Rightarrow> u32 \<Rightarrow> u32 \<Rightarrow> cint \<Rightarrow> cint
   \<Rightarrow> cint \<Rightarrow> cint \<Rightarrow> cint \<Rightarrow> nat ptr \<Rightarrow> scsi_iovec list ptr
   \<Rightarrow> nat \<Rightarrow> nat ptr \<Rightarrow> iscsi_context \<Rightarrow> task_result" where
  "iscsi_writeverify12_iov_task env t lun lba datalen blocksize wrprotect dpo bytchk group_number data v n cb
     iscsi =
     whole_blocks datalen blocksize iscsi (
       send_task env t lun cb (data_of data datalen) (scsi_set_iov_out v n)
         (scsi_cdb_writeverify12 (env_malloc env iscsi) lba datalen blocksize wrprotect dpo bytchk
           group_number) iscsi)"

definition iscsi_writeverify16_task ::
  "iscsi_env \<Rightarrow> nat \<Rightarrow> u32 \<Rightarrow> u64 \<Rightarrow> u32 \<Rightarrow> cint \<Rightarrow> cint
   \<Rightarrow> cint \<Rightarrow> cint \<Rightarrow> cint \<Rightarrow> nat ptr \<Rightarrow> nat ptr
   \<Rightarrow> iscsi_context \<Rightarrow> task_result" where
  "iscsi_writeverify16_task env t lun lba datalen blocksize wrprotect dpo bytchk group_number data cb iscsi =
     whole_blocks datalen blocksize iscsi (
       send_task env t lun cb (data_of data datalen) id
         (scsi_cdb_writeverify16 (env_malloc env iscsi) lba datalen blocksize wrprotect dpo bytchk
           group_number) iscsi)"

definition iscsi_writeverify16_iov_task ::
  "iscsi_env \<Rightarrow> nat \<Rightarrow> u32 \<Rightarrow> u64 \<Rightarrow> u32 \<Rightarrow> cint \<Rightarrow> cint
   \<Rightarrow> cint \<Rightarrow> cint \<Rightarrow> cint \<Rightarrow> nat ptr \<Rightarrow> scsi_iovec list ptr
   \<Rightarrow> nat \<Rightarrow> nat ptr \<Rightarrow> iscsi_context \<Rightarrow> task_result" where
  "iscsi_writeverify16_iov_task env t lun lba datalen blocksize wrprotect dpo bytchk group_number data v n cb
     iscsi =
     whole_blocks datalen blocksize iscsi (
       send_task env t lun cb (data_of data datalen) (scsi_set_iov_out v n)
         (scsi_cdb_writeverify16 (env_malloc env iscsi) lba datalen blocksize wrprotect dpo bytchk
           group_number) iscsi)"

definition iscsi_verify10_task ::
  "iscsi_env \<Rightarrow> nat \<Rightarrow> u32 \<Rightarrow> u32 \<Rightarrow> u32 \<Rightarrow> cint \<Rightarrow> cint
   \<Rightarrow> cint \<Rightarrow> cint \<Rightarrow> nat ptr \<Rightarrow> nat ptr \<Rightarrow> iscsi_context
   \<Rightarrow> task_result" where
  "iscsi_verify10_task env t lun datalen lba vprotect dpo bytchk blocksize data cb iscsi =
     whole_blocks datalen blocksize iscsi (
       send_task env t lun cb (data_of data datalen) id
         (scsi_cdb_verify10 (env_malloc env iscsi) lba datalen vprotect dpo bytchk blocksize) iscsi)"

definition iscsi_verify10_iov_task ::
  "iscsi_env \<Rightarrow> nat \<Rightarrow> u32 \<Rightarrow> u32 \<Rightarrow> u32 \<Rightarrow> cint \<Rightarrow> cint
   \<Rightarrow> cint \<Rightarrow> cint \<Rightarrow> nat ptr \<Rightarrow> scsi_iovec list ptr \<Rightarrow> nat
   \<Rightarrow> nat ptr \<Rightarrow> iscsi_context \<Rightarrow> task_result" where
  "iscsi_verify10_iov_task env t lun datalen lba vprotect dpo bytchk blocksize data v n cb iscsi =
     whole_blocks datalen blocksize iscsi (
       send_task env t lun cb (data_of data datalen) (scsi_set_iov_out v n)
         (scsi_cdb_verify10 (env_malloc env iscsi) lba datalen vprotect dpo bytchk blocksize) iscsi)"

definition iscsi_verify12_task ::
  "iscsi_env \<Rightarrow> nat \<Rightarrow> u32 \<Rightarrow> u32 \<Rightarrow> u32 \<Rightarrow> cint \<Rightarrow> cint
   \<Rightarrow> cint \<Rightarrow> cint \<Rightarrow> nat ptr \<Rightarrow> nat ptr \<Rightarrow> iscsi_context
   \<Rightarrow> task_result" where
  "iscsi_verify12_task env t lun datalen lba vprotect dpo bytchk blocksize data cb iscsi =
     whole_blocks datalen blocksize iscsi (
       send_task env t lun cb (data_of data datalen) id
         (scsi_cdb_verify12 (env_malloc env iscsi) lba datalen vprotect dpo bytchk blocksize) iscsi)"

definition iscsi_verify12_iov_task ::
  "iscsi_env \<Rightarrow> nat \<Rightarrow> u32 \<Rightarrow> u32 \<Rightarrow> u32 \<Rightarrow> cint \<Rightarrow> cint
   \<Rightarrow> cint \<Rightarrow> cint \<Rightarrow> nat ptr \<Rightarrow> scsi_iovec list ptr \<Rightarrow> nat
   \<Rightarrow> nat ptr \<Rightarrow> iscsi_context \<Rightarrow> task_result" where
  "iscsi_verify12_iov_task env t lun datalen lba vprotect dpo bytchk blocksize data v n cb iscsi =
     whole_blocks datalen blocksize iscsi (
       send_task env t lun cb (data_of data datalen) (scsi_set_iov_out v n)
         (scsi_cdb_verify12 (env_malloc env iscsi) lba datalen vprotect dpo bytchk blocksize) iscsi)"

definition iscsi_verify16_task ::
  "iscsi_env \<Rightarrow> nat \<Rightarrow> u32 \<Rightarrow> u32 \<Rightarrow> u64 \<Rightarrow> cint \<Rightarrow> cint
   \<Rightarrow> cint \<Rightarrow> cint \<Rightarrow> nat ptr \<Rightarrow> nat ptr \<Rightarrow> iscsi_context
   \<Rightarrow> task_result" where
  "iscsi_verify16_task env t lun datalen lba vprotect dpo bytchk blocksize data cb iscsi =
     whole_blocks datalen blocksize iscsi (
       send_task env t lun cb (data_of data datalen) id
         (scsi_cdb_verify16 (env_malloc env iscsi) lba datalen vprotect dpo bytchk blocksize) iscsi)"

definition iscsi_verify16_iov_task ::
  "iscsi_env \<Rightarrow> nat \<Rightarrow> u32 \<Rightarrow> u32 \<Rightarrow> u64 \<Rightarrow> cint \<Rightarrow> cint
   \<Rightarrow> cint \<Rightarrow> cint \<Rightarrow> nat ptr \<Rightarrow> scsi_iovec list ptr \<Rightarrow> nat
   \<Rightarrow> nat ptr \<Rightarrow> iscsi_context \<Rightarrow> task_result" where
  "iscsi_verify16_iov_task env t lun datalen lba vprotect dpo bytchk blocksize data v n cb iscsi =
     whole_blocks datalen blocksize iscsi (
       send_task env t lun cb (data_of data datalen) (scsi_set_iov_out v n)
         (scsi_cdb_verify16 (env_malloc env iscsi) lba datalen vprotect dpo bytchk blocksize) iscsi)"

definition iscsi_modesense6_task ::
  "iscsi_env \<Rightarrow> nat \<Rightarrow> u32 \<Rightarrow> cint \<Rightarrow> cint \<Rightarrow> cint \<Rightarrow> cint
   \<Rightarrow> u8 \<Rightarrow> nat ptr \<Rightarrow> iscsi_context \<Rightarrow> task_result" where
  "iscsi_modesense6_task env t lun dbd pc page_code sub_page_code alloc_len cb iscsi =
     send_task env t lun cb NULL id
       (Some (scsi_cdb_modesense6 (env_malloc env iscsi) dbd pc page_code sub_page_code alloc_len)) iscsi"

definition iscsi_modesense10_task ::
  "iscsi_env \<Rightarrow> nat \<Rightarrow> u32 \<Rightarrow> cint \<Rightarrow> cint \<Rightarrow> cint \<Rightarrow> cint
   \<Rightarrow> cint \<Rightarrow> u8 \<Rightarrow> nat ptr \<Rightarrow> iscsi_context \<Rightarrow> task_result" where
  "iscsi_modesense10_task env t lun llbaa dbd pc page_code sub_page_code alloc_len cb iscsi =
     send_task env t lun cb NULL id
       (Some (scsi_cdb_modesense10 (env_malloc env iscsi) llbaa dbd pc page_code sub_page_code alloc_len)) iscsi"

definition iscsi_startstopunit_task ::
  "iscsi_env \<Rightarrow> nat \<Rightarrow> u32 \<Rightarrow> cint \<Rightarrow> cint \<Rightarrow> cint \<Rightarrow> cint
   \<Rightarrow> cint \<Rightarrow> cint \<Rightarrow> nat ptr \<Rightarrow> iscsi_context \<Rightarrow> task_result" where
  "iscsi_startstopunit_task env t lun immed pcm pc no_flush loej start cb iscsi =
     send_task env t lun cb NULL id
       (Some (scsi_cdb_startstopunit (env_malloc env iscsi) immed pcm pc no_flush loej start)) iscsi"

definition iscsi_preventallow_task ::
  "iscsi_env \<Rightarrow> nat \<Rightarrow> u32 \<Rightarrow> cint \<Rightarrow> nat ptr \<Rightarrow> iscsi_context
   \<Rightarrow> task_result" where
  "iscsi_preventallow_task env t lun prevent cb iscsi =
     send_task env t lun cb NULL id
       (Some (scsi_cdb_preventallow (env_malloc env iscsi) prevent)) iscsi"

definition iscsi_synchronizecache10_task ::
  "iscsi_env \<Rightarrow> nat \<Rightarrow> u32 \<Rightarrow> cint \<Rightarrow> cint \<Rightarrow> cint \<Rightarrow> cint
   \<Rightarrow> nat ptr \<Rightarrow> iscsi_context \<Rightarrow> task_result" where
  "iscsi_synchronizecache10_task env t lun lba num_blocks syncnv immed cb iscsi =
     send_task env t lun cb NULL id
       (Some (scsi_cdb_synchronizecache10 (env_malloc env iscsi) lba num_blocks syncnv immed)) iscsi"

definition iscsi_synchronizecache16_task ::
  "iscsi_env \<Rightarrow> nat \<Rightarrow> u32 \<Rightarrow> u64 \<Rightarrow> u32 \<Rightarrow> cint \<Rightarrow> cint
   \<Rightarrow> nat ptr \<Rightarrow> iscsi_context \<Rightarrow> task_result" where
  "iscsi_synchronizecache16_task env t lun lba num_blocks syncnv immed cb iscsi =
     send_task env t lun cb NULL id
       (Some (scsi_cdb_synchronizecache16 (env_malloc env iscsi) lba num_blocks syncnv immed)) iscsi"

definition iscsi_persistent_reserve_in_task ::
  "iscsi_env \<Rightarrow> nat \<Rightarrow> u32 \<Rightarrow> cint \<Rightarrow> u16 \<Rightarrow> nat ptr
   \<Rightarrow> iscsi_context \<Rightarrow> task_result" where
  "iscsi_persistent_reserve_in_task env t lun sa xferlen cb iscsi =
     send_task env t lun cb NULL id
       (Some (scsi_cdb_persistent_reserve_in (env_malloc env iscsi) sa xferlen)) iscsi"

definition iscsi_prefetch10_task ::
  "iscsi_env \<Rightarrow> nat \<Rightarrow> u32 \<Rightarrow> u32 \<Rightarrow> cint \<Rightarrow> cint \<Rightarrow> cint
   \<Rightarrow> nat ptr \<Rightarrow> iscsi_context \<Rightarrow> task_result" where
  "iscsi_prefetch10_task env t lun lba num_blocks immed group_number cb iscsi =
     send_task env t lun cb NULL id
       (Some (scsi_cdb_prefetch10 (env_malloc env iscsi) lba num_blocks immed group_number)) iscsi"

definition iscsi_prefetch16_task ::
  "iscsi_env \<Rightarrow> nat \<Rightarrow> u32 \<Rightarrow> u64 \<Rightarrow> cint \<Rightarrow> cint \<Rightarrow> cint
   \<Rightarrow> nat ptr \<Rightarrow> iscsi_context \<Rightarrow> task_result" where
  "iscsi_prefetch16_task env t lun lba num_blocks immed group_number cb iscsi =
     send_task env t lun cb NULL id
       (Some (scsi_cdb_prefetch16 (env_malloc env iscsi) lba num_blocks immed group_number)) iscsi"

definition iscsi_writesame10_task ::
  "iscsi_env \<Rightarrow> nat \<Rightarrow> u32 \<Rightarrow> u32 \<Rightarrow> u32 \<Rightarrow> u16 \<Rightarrow> cint
   \<Rightarrow> cint \<Rightarrow> cint \<Rightarrow> cint \<Rightarrow> nat ptr \<Rightarrow> nat ptr
   \<Rightarrow> iscsi_context \<Rightarrow> task_result" where
  "iscsi_writesame10_task env t lun lba datalen num_blocks anchor unmap wrprotect group_number data cb iscsi =
     send_task env t lun cb (data_of data datalen) (same_xfer data datalen)
       (Some (scsi_cdb_writesame10 (env_malloc env iscsi) wrprotect anchor unmap lba group_number num_blocks
         datalen)) iscsi"

definition iscsi_writesame10_iov_task ::
  "iscsi_env \<Rightarrow> nat \<Rightarrow> u32 \<Rightarrow> u32 \<Rightarrow> u32 \<Rightarrow> u16 \<Rightarrow> cint
   \<Rightarrow> cint \<Rightarrow> cint \<Rightarrow> cint \<Rightarrow> nat ptr \<Rightarrow> scsi_iovec list ptr
   \<Rightarrow> nat \<Rightarrow> nat ptr \<Rightarrow> iscsi_context \<Rightarrow> task_result" where
  "iscsi_writesame10_iov_task env t lun lba datalen num_blocks anchor unmap wrprotect group_number data v n cb
     iscsi =
     send_task env t lun cb (data_of data datalen) (same_xfer data datalen \<circ> scsi_set_iov_out v n)
       (Some (scsi_cdb_writesame10 (env_malloc env iscsi) wrprotect anchor unmap lba group_number num_blocks
         datalen)) iscsi"

definition iscsi_writesame16_task ::
  "iscsi_env \<Rightarrow> nat \<Rightarrow> u32 \<Rightarrow> u64 \<Rightarrow> u32 \<Rightarrow> u32 \<Rightarrow> cint
   \<Rightarrow> cint \<Rightarrow> cint \<Rightarrow> cint \<Rightarrow> nat ptr \<Rightarrow> nat ptr
   \<Rightarrow> iscsi_context \<Rightarrow> task_result" where
  "iscsi_writesame16_task env t lun lba datalen num_blocks anchor unmap wrprotect group_number data cb iscsi =
     send_task env t lun cb (data_of data datalen) (same_xfer data datalen)
       (Some (scsi_cdb_writesame16 (env_malloc env iscsi) wrprotect anchor unmap lba group_number num_blocks
         datalen)) iscsi"

definition iscsi_writesame16_iov_task ::
  "iscsi_env \<Rightarrow> nat \<Rightarrow> u32 \<Rightarrow> u64 \<Rightarrow> u32 \<Rightarrow> u32 \<Rightarrow> cint
   \<Rightarrow> cint \<Rightarrow> cint \<Rightarrow> cint \<Rightarrow> nat ptr \<Rightarrow> scsi_iovec list ptr
   \<Rightarrow> nat \<Rightarrow> nat ptr \<Rightarrow> iscsi_context \<Rightarrow> task_result" where
  "iscsi_writesame16_iov_task env t lun lba datalen num_blocks anchor unmap wrprotect group_number data v n cb
     iscsi =
     send_task env t lun cb (data_of data datalen) (same_xfer data datalen \<circ> scsi_set_iov_out v n)
       (Some (scsi_cdb_writesame16 (env_malloc env iscsi) wrprotect anchor unmap lba group_number num_blocks
         datalen)) iscsi"

definition iscsi_readtoc_task ::
  "iscsi_env \<Rightarrow> nat \<Rightarrow> u32 \<Rightarrow> cint \<Rightarrow> cint \<Rightarrow> cint \<Rightarrow> cint
   \<Rightarrow> nat ptr \<Rightarrow> iscsi_context \<Rightarrow> task_result" where
  "iscsi_readtoc_task env t lun msf format track_session maxsize cb iscsi =
     send_task env t lun cb NULL id
       (Some (scsi_cdb_readtoc (env_malloc env iscsi) msf format track_session (ucast maxsize))) iscsi"

definition iscsi_reserve6_task ::
  "iscsi_env \<Rightarrow> nat \<Rightarrow> u32 \<Rightarrow> nat ptr \<Rightarrow> iscsi_context \<Rightarrow> task_result" where
  "iscsi_reserve6_task env t lun cb iscsi =
     send_task env t lun cb NULL id
       (Some (scsi_cdb_reserve6 (env_malloc env iscsi))) iscsi"

definition iscsi_release6_task ::
  "iscsi_env \<Rightarrow> nat \<Rightarrow> u32 \<Rightarrow> nat ptr \<Rightarrow> iscsi_context \<Rightarrow> task_result" where
  "iscsi_release6_task env t lun cb iscsi =
     send_task env t lun cb NULL id
       (Some (scsi_cdb_release6 (env_malloc env iscsi))) iscsi"

definition iscsi_sanitize_block_erase_task ::
  "iscsi_env \<Rightarrow> nat \<Rightarrow> u32 \<Rightarrow> cint \<Rightarrow> cint \<Rightarrow> nat ptr
   \<Rightarrow> iscsi_context \<Rightarrow> task_result" where
  "iscsi_sanitize_block_erase_task env t lun immed ause cb iscsi =
     send_task env t lun cb NULL id
       (Some (scsi_cdb_sanitize (env_malloc env iscsi) immed ause SCSI_SANITIZE_BLOCK_ERASE 0)) iscsi"

definition iscsi_sanitize_crypto_erase_task ::
  "iscsi_env \<Rightarrow> nat \<Rightarrow> u32 \<Rightarrow> cint \<Rightarrow> cint \<Rightarrow> nat ptr
   \<Rightarrow> iscsi_context \<Rightarrow> task_result" where
  "iscsi_sanitize_crypto_erase_task env t lun immed ause cb iscsi =
     send_task env t lun cb NULL id
       (Some (scsi_cdb_sanitize (env_malloc env iscsi) immed ause SCSI_SANITIZE_CRYPTO_ERASE 0)) iscsi"

definition iscsi_sanitize_exit_failure_mode_task ::
  "iscsi_env \<Rightarrow> nat \<Rightarrow> u32 \<Rightarrow> cint \<Rightarrow> cint \<Rightarrow> nat ptr
   \<Rightarrow> iscsi_context \<Rightarrow> task_result" where
  "iscsi_sanitize_exit_failure_mode_task env t lun immed ause cb iscsi =
     send_task env t lun cb NULL id
       (Some (scsi_cdb_sanitize (env_malloc env iscsi) immed ause SCSI_SANITIZE_EXIT_FAILURE_MODE 0)) iscsi"

definition iscsi_report_supported_opcodes_task ::
  "iscsi_env \<Rightarrow> nat \<Rightarrow> u32 \<Rightarrow> cint \<Rightarrow> cint \<Rightarrow> cint \<Rightarrow> cint
   \<Rightarrow> u32 \<Rightarrow> nat ptr \<Rightarrow> iscsi_context \<Rightarrow> task_result" where
  "iscsi_report_supported_opcodes_task env t lun rctd options opcode sa alloc_len cb iscsi =
     send_task env t lun cb NULL id
       (Some (scsi_cdb_report_supported_opcodes (env_malloc env iscsi) rctd options opcode sa alloc_len)) iscsi"

definition iscsi_receive_copy_results_task ::
  "iscsi_env \<Rightarrow> nat \<Rightarrow> u32 \<Rightarrow> cint \<Rightarrow> cint \<Rightarrow> cint \<Rightarrow> nat ptr
   \<Rightarrow> iscsi_context \<Rightarrow> task_result" where
  "iscsi_receive_copy_results_task env t lun sa list_id alloc_len cb iscsi =
     send_task env t lun cb NULL id
       (Some (scsi_cdb_receive_copy_results (env_malloc env iscsi) sa list_id alloc_len)) iscsi"

section \<open>Commands with parameters of the library\<close>

text \<open>REPORT LUNS goes to LUN 0 and asks for 16 bytes at least.\<close>

definition iscsi_reportluns_task ::
  "iscsi_env \<Rightarrow> nat \<Rightarrow> cint \<Rightarrow> cint \<Rightarrow> nat ptr \<Rightarrow> iscsi_context \<Rightarrow> task_result" where
  "iscsi_reportluns_task env t report_type alloc_len cb iscsi =
     (if sint alloc_len < 16 then Some (NULL, iscsi)
      else send_task env t 0 cb NULL id
        (Some (scsi_reportluns_cdb (env_malloc env iscsi) report_type alloc_len)) iscsi)"

definition iscsi_sanitize_task ::
  "iscsi_env \<Rightarrow> nat \<Rightarrow> u32 \<Rightarrow> cint \<Rightarrow> cint \<Rightarrow> cint \<Rightarrow> cint \<Rightarrow> (nat \<times> nat) ptr \<Rightarrow> nat ptr \<Rightarrow> iscsi_context \<Rightarrow> task_result" where
  "iscsi_sanitize_task env t lun immed ause sa param_len d cb iscsi =
     send_task env t lun cb d id
       (Some (scsi_cdb_sanitize (env_malloc env iscsi) immed ause sa param_len)) iscsi"

definition iscsi_extended_copy_task ::
  "iscsi_env \<Rightarrow> nat \<Rightarrow> u32 \<Rightarrow> nat \<times> nat \<Rightarrow> nat ptr \<Rightarrow> iscsi_context \<Rightarrow> task_result" where
  "iscsi_extended_copy_task env t lun param_data cb iscsi =
     send_task env t lun cb (Ptr param_data) id
       (Some (scsi_cdb_extended_copy (env_malloc env iscsi) (of_nat (snd param_data)))) iscsi"

text \<open>The parameter buffer of the task is at the address \<open>a\<close>.\<close>

definition iscsi_persistent_reserve_out_task ::
  "iscsi_env \<Rightarrow> nat \<Rightarrow> nat \<Rightarrow> u32 \<Rightarrow> cint \<Rightarrow> cint \<Rightarrow> cint \<Rightarrow> scsi_persistent_reserve_out_basic \<Rightarrow> nat ptr \<Rightarrow>
   iscsi_context \<Rightarrow> task_result" where
  "iscsi_persistent_reserve_out_task env t a lun sa scope type_code param cb iscsi =
     (let m = env_malloc env iscsi
      in case scsi_cdb_persistent_reserve_out m (\<lambda>_. m) sa scope type_code param of
           NULL \<Rightarrow> Some (NULL, iscsi)
         | Ptr (task, buf) \<Rightarrow>
             submit_task env t lun cb NULL (scsi_task_set_iov_out task (Ptr [\<lparr>iov_base = a, iov_len = length buf\<rparr>]) 1)
               (place_bytes a buf iscsi))"

definition iscsi_modeselect6_task ::
  "iscsi_env \<Rightarrow> nat \<Rightarrow> nat \<Rightarrow> u32 \<Rightarrow> cint \<Rightarrow> cint \<Rightarrow> scsi_mode_page \<Rightarrow> nat ptr \<Rightarrow> iscsi_context \<Rightarrow> task_result" where
  "iscsi_modeselect6_task env t a lun pf sp mp cb iscsi =
     (let m = env_malloc env iscsi
      in case scsi_cdb_modeselect6 m pf sp 255 of
           NULL \<Rightarrow> Some (NULL, iscsi)
         | Ptr task \<Rightarrow> do {
             (task, data) \<leftarrow> scsi_modesense_dataout_marshall (\<lambda>_. m) task mp True;
             case data of
               NULL \<Rightarrow> Some (NULL, iscsi)
             | Ptr bs \<Rightarrow>
                 submit_task env t lun cb (Ptr (a, length bs))
                   ((cdb_set 4 (of_nat (length bs)) task)\<lparr>expxferlen := of_nat (length bs)\<rparr>) (place_bytes a bs iscsi)
           })"

definition iscsi_modeselect10_task ::
  "iscsi_env \<Rightarrow> nat \<Rightarrow> nat \<Rightarrow> u32 \<Rightarrow> cint \<Rightarrow> cint \<Rightarrow> scsi_mode_page \<Rightarrow> nat ptr \<Rightarrow> iscsi_context \<Rightarrow> task_result" where
  "iscsi_modeselect10_task env t a lun pf sp mp cb iscsi =
     (let m = env_malloc env iscsi
      in case scsi_cdb_modeselect10 m pf sp 255 of
           NULL \<Rightarrow> Some (NULL, iscsi)
         | Ptr task \<Rightarrow> do {
             (task, data) \<leftarrow> scsi_modesense_dataout_marshall (\<lambda>_. m) task mp False;
             case data of
               NULL \<Rightarrow> Some (NULL, iscsi)
             | Ptr bs \<Rightarrow>
                 let task = cdb_set 7 (of_nat (length bs div 256)) task;
                     task = cdb_set 8 (of_nat (length bs)) task
                 in submit_task env t lun cb (Ptr (a, length bs)) (task\<lparr>expxferlen := of_nat (length bs)\<rparr>)
                      (place_bytes a bs iscsi)
           })"

text \<open>
  UNMAP: the parameter list, with 16 bytes for each range. \<open>xferlen\<close> is an \<open>int\<close>; a negative one, and
  one that has wrapped to less than what is then stored, are undefined. The reserved bytes stay 0.
\<close>

record unmap_list =
  um_lba :: u64
  um_num :: u32

definition unmap_entry :: "nat \<Rightarrow> unmap_list \<Rightarrow> bytes \<Rightarrow> bytes" where
  "unmap_entry i e data =
     (let data = scsi_set_uint32 (8 + 16 * i) (ucast (drop_bit 32 (um_lba e))) data;
          data = scsi_set_uint32 (8 + 16 * i + 4) (ucast (um_lba e)) data
      in scsi_set_uint32 (8 + 16 * i + 8) (um_num e) data)"

definition unmap_data :: "unmap_list list \<Rightarrow> cint \<Rightarrow> bytes" where
  "unmap_data lst xferlen =
     (let data = replicate (unat xferlen) 0;
          data = scsi_set_uint16 0 (ucast (xferlen - 2)) data;
          data = scsi_set_uint16 2 (ucast (xferlen - 8)) data
      in fold (\<lambda>(i, e). unmap_entry i e) (enumerate 0 lst) data)"

definition iscsi_unmap_task ::
  "iscsi_env \<Rightarrow> nat \<Rightarrow> nat \<Rightarrow> u32 \<Rightarrow> cint \<Rightarrow> cint \<Rightarrow> unmap_list list \<Rightarrow> cint \<Rightarrow> nat ptr \<Rightarrow> iscsi_context \<Rightarrow> task_result" where
  "iscsi_unmap_task env t a lun anchor group_number lst list_len cb iscsi =
     (let m = env_malloc env iscsi;
          xferlen = 8 + list_len * 16;
          n = nat (sint list_len)
      in case scsi_cdb_unmap m anchor group_number (ucast xferlen) of
           NULL \<Rightarrow> Some (NULL, iscsi)
         | Ptr task \<Rightarrow>
             if \<not> m then Some (NULL, iscsi)
             else if sint xferlen < 8 + 16 * int n \<or> length lst < n then None
             else
               let bs = unmap_data (take n lst) xferlen;
                   task = task\<lparr>mem := mem task + 2\<rparr>
               in submit_task env t lun cb NULL
                    (scsi_task_set_iov_out task (Ptr [\<lparr>iov_base = a, iov_len = unat xferlen\<rparr>]) 1) (place_bytes a bs iscsi))"

end
