(* ===== verification/Task_Limits.thy ===== *)
theory Task_Limits
  imports Iscsi_Tasks
begin

text \<open>
  What the functions for single commands submit, where it is more than a CDB: the parameter list of
  UNMAP, and the limits of its length fields.
\<close>

section \<open>The parameter list of UNMAP\<close>

text \<open>The block descriptor at the place \<open>i\<close> of a parameter list, as a target reads it.\<close>

definition unmap_descriptor :: "bytes \<Rightarrow> nat \<Rightarrow> u64 \<times> u32" where
  "unmap_descriptor bs i = (scsi_get_uint64 bs (8 + 16 * i), scsi_get_uint32 bs (8 + 16 * i + 8))"

lemma unmap_entry_sets: "unmap_entry i e = (\<lambda>data. scsi_set_uint32 (8 + 16 * i + 8) (um_num e) (scsi_set_uint64 (8 + 16 * i) (um_lba e) data))"
proof -
  have m: "(0xffffffff :: u64) = mask 32" by (simp add: mask_eq_exp_minus_1)
  have "ucast (drop_bit 32 v AND 0xffffffff) = (ucast (drop_bit 32 v) :: u32)" "ucast (v AND 0xffffffff) = (ucast v :: u32)" for v :: u64
    unfolding m by (auto intro!: bit_word_eqI simp: bit_simps)
  then show ?thesis by (simp add: unmap_entry_def scsi_set_uint64_def fun_eq_iff Let_def)
qed

lemma length_unmap_entry [simp]: "length (unmap_entry i e data) = length data"
  by (simp add: unmap_entry_sets be64.length_put)

lemma unmap_entry_agrees:
  "q + n \<le> 8 + 16 * i \<or> 8 + 16 * i + 12 \<le> q \<Longrightarrow> agree (unmap_entry i e data) data q n"
  by (auto simp: unmap_entry_sets intro!: agree_trans [OF be32.put_frame be64.put_frame])

lemma unmap_entry_descriptor:
  "8 + 16 * i + 12 \<le> length data \<Longrightarrow> unmap_descriptor (unmap_entry i e data) i = (um_lba e, um_num e)"
  by (simp add: unmap_descriptor_def unmap_entry_sets be32.get_put be64.length_put
      be64.get_agree [OF be32.put_frame] be64.get_put)

lemma unmap_descriptor_agrees:
  assumes "agree xs ys (8 + 16 * i) 12"
  shows "unmap_descriptor xs i = unmap_descriptor ys i"
  using agree_split [of xs ys "8 + 16 * i" 8 4] assms be64.get_agree be32.get_agree by (simp add: unmap_descriptor_def)

text \<open>The loop over the list.\<close>

lemma unmap_entries:
  assumes "8 + 16 * (k + length lst) \<le> length data"
  defines "bs \<equiv> fold (\<lambda>(i, e). unmap_entry i e) (enumerate k lst) data"
  shows "length bs = length data \<and> (\<forall>q n. q + n \<le> 8 + 16 * k \<longrightarrow> agree bs data q n) \<and>
    (\<forall>j < length lst. unmap_descriptor bs (k + j) = (um_lba (lst ! j), um_num (lst ! j)))"
  using assms(1) unfolding bs_def
proof (induction lst arbitrary: k data)
  case (Cons e lst)
  let ?data = "unmap_entry k e data"
  let ?bs = "fold (\<lambda>(i, e). unmap_entry i e) (enumerate (Suc k) lst) ?data"
  have "8 + 16 * (Suc k + length lst) \<le> length ?data" using Cons.prems by simp
  note IH = Cons.IH [OF this]
  have "agree ?bs ?data (8 + 16 * k) 12" using IH by auto
  then have first: "unmap_descriptor ?bs k = (um_lba e, um_num e)"
    using Cons.prems unmap_descriptor_agrees unmap_entry_descriptor [of k data e] by simp
  have "unmap_descriptor ?bs (k + j) = (um_lba ((e # lst) ! j), um_num ((e # lst) ! j))" if "j < length (e # lst)" for j
    using that IH first by (cases j) auto
  moreover have "agree ?bs data q n" if "q + n \<le> 8 + 16 * k" for q n
  proof (rule agree_trans)
    show "agree ?bs ?data q n" using IH that by (auto intro: order_trans)
    show "agree ?data data q n" using that by (intro unmap_entry_agrees) simp
  qed
  ultimately show ?case using IH by simp
qed (simp_all add: agree_def)

section \<open>Properties\<close>

text \<open>
  C33: UNMAP of \<open>n\<close> ranges submits a buffer of \<open>8 + 16 * n\<close> bytes that holds the \<open>n\<close> descriptors; the length in
  its CDB, which a target goes by, and those in its header have 16 bits: they are the right ones up to 4095
  ranges and never beyond, although the function accepts any number.
\<close>

theorem iscsi_unmap_task_bounds:
  assumes "env_malloc env c" "sint list_len = int (length lst)" "length lst < 2 ^ 27"
  defines "len \<equiv> 8 + 16 * length lst"
  shows "\<exists>task bs. iscsi_unmap_task env t a lun anchor grp lst list_len cb c = submit_task env t lun cb NULL task (place_bytes a bs c) \<and>
    iov (iovector_out task) = Ptr [\<lparr>iov_base = a, iov_len = len\<rparr>] \<and> length bs = len \<and>
    map (unmap_descriptor bs) [0..<length lst] = map (\<lambda>e. (um_lba e, um_num e)) lst \<and>
    (unat (scsi_get_uint16 (cdb task) 7) = len \<longleftrightarrow> length lst < 4096) \<and>
    (unat (scsi_get_uint16 bs 0) = len - 2 \<longleftrightarrow> length lst < 4096) \<and>
    (unat (scsi_get_uint16 bs 2) = len - 8 \<longleftrightarrow> length lst < 4096)"
proof -
  define x where "x = 8 + list_len * 16"
  have ll: "list_len = of_nat (length lst)"
  proof (rule signed_word_eqI)
    show "sint list_len = sint (of_nat (length lst) :: u32)"
      using assms(2,3) by (simp add: sint_eq_unat unat_of_nat_small)
  qed
  then have x: "x = of_nat len" by (simp add: x_def len_def mult.commute)
  have len: "len < 2 ^ 31" using assms(3) by (simp add: len_def)
  then have ux: "unat x = len" using x by (simp add: unat_of_nat_small)
  then have sx: "sint x = int len" using len by (simp add: sint_eq_unat)
  obtain task where task: "scsi_cdb_unmap True anchor grp (ucast x) = Ptr task" "scsi_get_uint16 (cdb task) 7 = ucast x"
    by (simp add: scsi_cdb_unmap_def malloc_task_def Let_def cdb_set_uint16_def cdb_set_def cdb_or_def be16.get_put)
  let ?task = "scsi_task_set_iov_out (task\<lparr>mem := mem task + 2\<rparr>) (Ptr [\<lparr>iov_base = a, iov_len = unat x\<rparr>]) 1"
  let ?head = "scsi_set_uint16 2 (ucast (x - 8)) (scsi_set_uint16 0 (ucast (x - 2)) (replicate len 0))"
  let ?bs = "unmap_data lst x"
  have bs: "?bs = fold (\<lambda>(i, e). unmap_entry i e) (enumerate 0 lst) ?head"
    by (simp add: unmap_data_def Let_def ux)
  have "8 + 16 * (0 + length lst) \<le> length ?head" by (simp add: be16.length_put len_def)
  from unmap_entries [OF this] have data: "length ?bs = len" "agree ?bs ?head 0 2" "agree ?bs ?head 2 2"
    "\<And>j. j < length lst \<Longrightarrow> unmap_descriptor ?bs j = (um_lba (lst ! j), um_num (lst ! j))"
    unfolding bs by (auto simp: be16.length_put)
  have head: "scsi_get_uint16 ?bs 0 = ucast (x - 2)" "scsi_get_uint16 ?bs 2 = ucast (x - 8)"
    using be16.get_agree [OF data(2)] be16.get_agree [OF data(3)]
    by (simp_all add: be16.get_put be16.get_put_other be16.length_put len_def)
  have "iscsi_unmap_task env t a lun anchor grp lst list_len cb c = submit_task env t lun cb NULL ?task (place_bytes a ?bs c)"
    using assms(1,2) task(1) sx by (simp add: iscsi_unmap_task_def Let_def len_def flip: x_def)
  moreover have "map (unmap_descriptor ?bs) [0..<length lst] = map (\<lambda>e. (um_lba e, um_num e)) lst"
    by (rule nth_equalityI) (simp_all add: data(4))
  moreover have u16: "unat (ucast (of_nat k :: u32) :: u16) = k mod 2 ^ 16" for k
    by (simp add: unsigned_ucast_eq unsigned_of_nat take_bit_eq_mod mod_mod_cancel)
  have m: "k mod 2 ^ 16 = k \<longleftrightarrow> k < 2 ^ 16" for k :: nat
    using mod_less_divisor [of "2 ^ 16" k] by (cases "k < 2 ^ 16") simp_all
  have sub: "x - 2 = of_nat (len - 2)" "x - 8 = of_nat (len - 8)" unfolding x by (simp_all add: len_def of_nat_diff)
  have small: "len < 2 ^ 16 \<longleftrightarrow> length lst < 4096" "len - 2 < 2 ^ 16 \<longleftrightarrow> length lst < 4096" "len - 8 < 2 ^ 16 \<longleftrightarrow> length lst < 4096"
    by (auto simp: len_def)
  have c7: "scsi_get_uint16 (cdb ?task) 7 = ucast (of_nat len :: u32)"
    using task(2) by (simp add: scsi_task_set_iov_out_def x)
  have "unat (scsi_get_uint16 (cdb ?task) 7) = len \<longleftrightarrow> length lst < 4096"
    "unat (scsi_get_uint16 ?bs 0) = len - 2 \<longleftrightarrow> length lst < 4096"
    "unat (scsi_get_uint16 ?bs 2) = len - 8 \<longleftrightarrow> length lst < 4096"
    unfolding c7 head sub u16 m small by (rule refl)+
  ultimately show ?thesis using data(1) ux
    by (intro exI [of _ ?task] exI [of _ ?bs] conjI) (assumption | simp add: scsi_task_set_iov_out_def)+
qed

theorem iscsi_unmap_task_bounds_witness:
  "\<exists>task bs. iscsi_unmap_task demo_env 1 50 0 0 0 (replicate 4096 \<lparr>um_lba = 5, um_num = 1\<rparr>) 4096 NULL zero_context =
      submit_task demo_env 1 0 NULL NULL task (place_bytes 50 bs zero_context) \<and>
    unat (scsi_get_uint16 (cdb task) 7) \<noteq> length bs"
proof -
  have m: "env_malloc demo_env zero_context" by (simp add: demo_env_def)
  obtain task bs where "iscsi_unmap_task demo_env 1 50 0 0 0 (replicate 4096 \<lparr>um_lba = 5, um_num = 1\<rparr>) 4096 NULL zero_context =
      submit_task demo_env 1 0 NULL NULL task (place_bytes 50 bs zero_context)"
    "length bs = 65544" "unat (scsi_get_uint16 (cdb task) 7) \<noteq> 65544"
    using iscsi_unmap_task_bounds [OF m, of 4096 "replicate 4096 \<lparr>um_lba = 5, um_num = 1\<rparr>" 1 50 0 0 0 NULL] by auto
  then show ?thesis by metis
qed

end
