(* ===== verification/Iscsi_Init.thy ===== *)
theory Iscsi_Init
  imports Login_Auth
begin

text \<open>
  \<open>lib/init.c\<close>: the settings of a context, its creation and destruction, and URLs. A \<open>char\<close> array of a struct is
  the string it holds; \<open>strncpy\<close> into one keeps what fits. A context pointer that may be NULL is of type
  \<open>iscsi_context ptr\<close>. \<open>ge\<close> is \<open>getenv\<close>. Built without \<open>HAVE_LINUX_ISER\<close>.
\<close>

abbreviation cn_modify :: "(iscsi_conn \<Rightarrow> iscsi_conn) \<Rightarrow> iscsi_context \<Rightarrow> iscsi_context" where
  "cn_modify f iscsi \<equiv> iscsi\<lparr>ctx_conn := f (ctx_conn iscsi)\<rparr>"

section \<open>Transport and ISID\<close>

definition iscsi_init_transport :: "cint \<Rightarrow> iscsi_context \<Rightarrow> int \<times> iscsi_context" where
  "iscsi_init_transport transport iscsi =
     (let iscsi = lg_modify (\<lambda>l. l\<lparr>lg_transport := transport\<rparr>) iscsi
      in if transport = 0 then (0, iscsi) else (-1, iscsi))"

definition iscsi_set_isid_oui :: "u32 \<Rightarrow> u32 \<Rightarrow> iscsi_context \<Rightarrow> int \<times> iscsi_context" where
  "iscsi_set_isid_oui oui qualifier iscsi =
     (0, iscsi\<lparr>ctx_isid := [ucast (drop_bit 16 oui) AND 0x3f, ucast (drop_bit 8 oui), ucast oui,
        ucast (drop_bit 16 qualifier), ucast (drop_bit 8 qualifier), ucast qualifier]\<rparr>)"

definition iscsi_set_isid_en :: "u32 \<Rightarrow> u32 \<Rightarrow> iscsi_context \<Rightarrow> int \<times> iscsi_context" where
  "iscsi_set_isid_en en qualifier iscsi =
     (0, iscsi\<lparr>ctx_isid := [0x40, ucast (drop_bit 16 en), ucast (drop_bit 8 en), ucast en,
        ucast (drop_bit 8 qualifier), ucast qualifier]\<rparr>)"

definition iscsi_set_isid_random :: "u32 \<Rightarrow> u32 \<Rightarrow> iscsi_context \<Rightarrow> int \<times> iscsi_context" where
  "iscsi_set_isid_random rnd qualifier iscsi =
     (0, iscsi\<lparr>ctx_isid := [0x80, ucast (drop_bit 16 rnd), ucast (drop_bit 8 rnd), ucast rnd,
        ucast (drop_bit 8 qualifier), ucast qualifier]\<rparr>)"

definition iscsi_set_isid_reserved :: "iscsi_context \<Rightarrow> int \<times> iscsi_context" where
  "iscsi_set_isid_reserved iscsi = (0, iscsi\<lparr>ctx_isid := [0xc0, 0, 0, 0, 0, 0]\<rparr>)"

section \<open>Settings\<close>

text \<open>What the login sends cannot be changed while logged in.\<close>

definition before_login :: "(iscsi_context \<Rightarrow> iscsi_context) \<Rightarrow> iscsi_context \<Rightarrow> int \<times> iscsi_context" where
  "before_login f iscsi = (if ctx_is_loggedin iscsi then (-1, iscsi) else (0, f iscsi))"

definition iscsi_set_alias :: "bytes \<Rightarrow> iscsi_context \<Rightarrow> int \<times> iscsi_context" where
  "iscsi_set_alias alias = before_login (lg_modify (\<lambda>l. l\<lparr>lg_alias := take MAX_STRING_SIZE alias\<rparr>))"

definition iscsi_set_targetname :: "bytes \<Rightarrow> iscsi_context \<Rightarrow> int \<times> iscsi_context" where
  "iscsi_set_targetname target_name =
     before_login (lg_modify (\<lambda>l. l\<lparr>lg_target_name := take MAX_ISCSI_NAME_SIZE target_name\<rparr>))"

definition iscsi_set_unit_serial_number :: "bytes \<Rightarrow> iscsi_context \<Rightarrow> int \<times> iscsi_context" where
  "iscsi_set_unit_serial_number usn =
     before_login (lg_modify (\<lambda>l. l\<lparr>lg_unit_serial_number := take MAX_STRING_SIZE usn\<rparr>))"

definition iscsi_get_unit_serial_number :: "iscsi_context ptr \<Rightarrow> bytes" where
  "iscsi_get_unit_serial_number iscsi =
     (case iscsi of NULL \<Rightarrow> [] | Ptr iscsi \<Rightarrow> lg_unit_serial_number (ctx_login iscsi))"

definition iscsi_get_target_address :: "iscsi_context \<Rightarrow> bytes" where
  "iscsi_get_target_address iscsi = lg_target_address (ctx_login iscsi)"

definition iscsi_is_logged_in :: "iscsi_context \<Rightarrow> bool" where
  "iscsi_is_logged_in iscsi = ctx_is_loggedin iscsi"

definition iscsi_set_header_digest :: "cint \<Rightarrow> iscsi_context \<Rightarrow> int \<times> iscsi_context" where
  "iscsi_set_header_digest header_digest iscsi =
     (if ctx_is_loggedin iscsi then (-1, iscsi)
      else if ISCSI_HEADER_DIGEST_LAST < header_digest then (-1, iscsi)
      else (0, lg_modify (\<lambda>l. l\<lparr>lg_want_header_digest := header_digest\<rparr>) iscsi))"

definition iscsi_set_data_digest :: "cint \<Rightarrow> iscsi_context \<Rightarrow> int \<times> iscsi_context" where
  "iscsi_set_data_digest data_digest iscsi =
     (if ctx_is_loggedin iscsi then (-1, iscsi)
      else if ISCSI_DATA_DIGEST_LAST < data_digest then (-1, iscsi)
      else (0, lg_modify (\<lambda>l. l\<lparr>lg_want_data_digest := data_digest\<rparr>) iscsi))"

text \<open>NULL is the empty string here: either clears the names.\<close>

definition iscsi_set_initiator_username_pwd :: "bytes \<Rightarrow> bytes \<Rightarrow> iscsi_context \<Rightarrow> int \<times> iscsi_context" where
  "iscsi_set_initiator_username_pwd user passwd iscsi =
     (0, lg_modify (\<lambda>l. if user = [] \<or> passwd = [] then l\<lparr>lg_user := [], lg_passwd := []\<rparr>
        else l\<lparr>lg_user := take MAX_STRING_SIZE user, lg_passwd := take MAX_STRING_SIZE passwd\<rparr>) iscsi)"

definition iscsi_set_target_username_pwd :: "bytes \<Rightarrow> bytes \<Rightarrow> iscsi_context \<Rightarrow> int \<times> iscsi_context" where
  "iscsi_set_target_username_pwd user passwd iscsi =
     (0, lg_modify (\<lambda>l. if user = [] \<or> passwd = [] then l\<lparr>lg_target_user := [], lg_target_passwd := []\<rparr>
        else l\<lparr>lg_target_user := take MAX_STRING_SIZE user, lg_target_passwd := take MAX_STRING_SIZE passwd\<rparr>) iscsi)"

definition iscsi_set_immediate_data :: "cint \<Rightarrow> iscsi_context \<Rightarrow> int \<times> iscsi_context" where
  "iscsi_set_immediate_data immediate_data = before_login (\<lambda>iscsi.
     (lg_modify (\<lambda>l. l\<lparr>lg_want_immediate_data := immediate_data\<rparr>) iscsi)\<lparr>ctx_use_immediate_data := immediate_data\<rparr>)"

definition iscsi_set_initial_r2t :: "cint \<Rightarrow> iscsi_context \<Rightarrow> int \<times> iscsi_context" where
  "iscsi_set_initial_r2t initial_r2t = before_login (lg_modify (\<lambda>l. l\<lparr>lg_want_initial_r2t := initial_r2t\<rparr>))"

definition iscsi_set_timeout :: "int \<Rightarrow> iscsi_context \<Rightarrow> int \<times> iscsi_context" where
  "iscsi_set_timeout timeout iscsi = (0, iscsi\<lparr>ctx_scsi_timeout := timeout\<rparr>)"

definition iscsi_get_auth :: "iscsi_context \<Rightarrow> cint" where
  "iscsi_get_auth iscsi = lg_chap_auth (ctx_login iscsi)"

definition iscsi_set_auth :: "cint \<Rightarrow> iscsi_context \<Rightarrow> iscsi_context" where
  "iscsi_set_auth auth = lg_modify (\<lambda>l. l\<lparr>lg_chap_auth := auth\<rparr>)"

definition iscsi_set_cache_allocations :: "cint \<Rightarrow> iscsi_context \<Rightarrow> iscsi_context" where
  "iscsi_set_cache_allocations ca = cn_modify (\<lambda>n. n\<lparr>cn_cache_allocations := ca\<rparr>)"

definition iscsi_set_log_level :: "cint \<Rightarrow> iscsi_context \<Rightarrow> iscsi_context" where
  "iscsi_set_log_level level = cn_modify (\<lambda>n. n\<lparr>cn_log_level := level\<rparr>)"

text \<open>The settings of the socket (\<open>lib/socket.c\<close>).\<close>

definition iscsi_set_tcp_user_timeout :: "cint \<Rightarrow> iscsi_context \<Rightarrow> iscsi_context" where
  "iscsi_set_tcp_user_timeout v = cn_modify (\<lambda>n. n\<lparr>cn_tcp_user_timeout := v\<rparr>)"

definition iscsi_set_tcp_syncnt :: "cint \<Rightarrow> iscsi_context \<Rightarrow> iscsi_context" where
  "iscsi_set_tcp_syncnt v = cn_modify (\<lambda>n. n\<lparr>cn_tcp_syncnt := v\<rparr>)"

definition iscsi_set_tcp_keepidle :: "cint \<Rightarrow> iscsi_context \<Rightarrow> iscsi_context" where
  "iscsi_set_tcp_keepidle v = cn_modify (\<lambda>n. n\<lparr>cn_tcp_keepidle := v\<rparr>)"

definition iscsi_set_tcp_keepcnt :: "cint \<Rightarrow> iscsi_context \<Rightarrow> iscsi_context" where
  "iscsi_set_tcp_keepcnt v = cn_modify (\<lambda>n. n\<lparr>cn_tcp_keepcnt := v\<rparr>)"

definition iscsi_set_tcp_keepintvl :: "cint \<Rightarrow> iscsi_context \<Rightarrow> iscsi_context" where
  "iscsi_set_tcp_keepintvl v = cn_modify (\<lambda>n. n\<lparr>cn_tcp_keepintvl := v\<rparr>)"

text \<open>The interfaces are counted by their commas. (Which one comes next is kept in a static variable.)\<close>

definition iscsi_set_bind_interfaces :: "bytes \<Rightarrow> iscsi_context \<Rightarrow> iscsi_context" where
  "iscsi_set_bind_interfaces interfaces = cn_modify (\<lambda>n. n\<lparr>cn_bind_interfaces := take MAX_STRING_SIZE interfaces,
     cn_bind_interfaces_cnt := of_nat (length (filter (\<lambda>b. b = 0x2c) interfaces) + 1)\<rparr>)"

section \<open>Creation and destruction\<close>

text \<open>A variable of the environment that holds a number.\<close>

definition from_env :: "(string \<Rightarrow> bytes ptr) \<Rightarrow> string \<Rightarrow> (cint \<Rightarrow> iscsi_context \<Rightarrow> iscsi_context) \<Rightarrow> iscsi_context \<Rightarrow> iscsi_context" where
  "from_env ge var setter iscsi = (case ge var of NULL \<Rightarrow> iscsi | Ptr v \<Rightarrow> setter (c_atoi v) iscsi)"

text \<open>\<open>rnd\<close> is what \<open>rand()\<close> returns, \<open>m\<close> says whether \<open>malloc\<close> succeeds.\<close>

definition iscsi_create_context :: "(string \<Rightarrow> bytes ptr) \<Rightarrow> bool \<Rightarrow> u32 \<Rightarrow> bytes \<Rightarrow> iscsi_context ptr" where
  "iscsi_create_context ge m rnd initiator_name =
     (if initiator_name = [] then NULL
      else if \<not> m then NULL
      else
        let iscsi = cn_modify (\<lambda>n. n\<lparr>cn_poll_timeout := 100\<rparr>) zero_context;
            (r, iscsi) = iscsi_init_transport 0 iscsi
        in if r \<noteq> 0 then NULL
           else
             let iscsi = lg_modify (\<lambda>l. l\<lparr>lg_initiator_name := take MAX_ISCSI_NAME_SIZE initiator_name\<rparr>) iscsi;
                 (_, iscsi) = iscsi_set_isid_random rnd 0 (iscsi\<lparr>ctx_fd := -1\<rparr>);
                 iscsi = lg_modify (\<lambda>l. l\<lparr>lg_current_phase := ISCSI_PDU_LOGIN_CSG_SECNEG,
                   lg_next_phase := ISCSI_PDU_LOGIN_NSG_OPNEG,
                   lg_secneg_phase := ISCSI_LOGIN_SECNEG_PHASE_OFFER_CHAP\<rparr>) iscsi;
                 iscsi = iscsi\<lparr>ctx_max_burst_length := 262144, ctx_first_burst_length := 262144,
                   ctx_initiator_max_recv_data_segment_length := 262144,
                   ctx_target_max_recv_data_segment_length := 8192,
                   ctx_use_initial_r2t := ISCSI_INITIAL_R2T_YES, ctx_use_immediate_data := ISCSI_IMMEDIATE_DATA_YES\<rparr>;
                 iscsi = lg_modify (\<lambda>l. l\<lparr>lg_want_initial_r2t := ISCSI_INITIAL_R2T_NO,
                   lg_want_immediate_data := ISCSI_IMMEDIATE_DATA_YES,
                   lg_want_header_digest := ISCSI_HEADER_DIGEST_NONE_CRC32C,
                   lg_want_data_digest := ISCSI_DATA_DIGEST_NONE\<rparr>) iscsi;
                 iscsi = cn_modify (\<lambda>n. n\<lparr>cn_tcp_keepcnt := 3, cn_tcp_keepintvl := 30, cn_tcp_keepidle := 30\<rparr>) iscsi;
                 iscsi = lg_modify (\<lambda>l. l\<lparr>lg_reconnect_max_retries := -1, lg_chap_auth := ISCSI_CHAP_MD5\<rparr>) iscsi;
                 iscsi = from_env ge ''LIBISCSI_DEBUG'' iscsi_set_log_level iscsi;
                 iscsi = from_env ge ''LIBISCSI_TCP_USER_TIMEOUT'' iscsi_set_tcp_user_timeout iscsi;
                 iscsi = from_env ge ''LIBISCSI_TCP_KEEPCNT'' iscsi_set_tcp_keepcnt iscsi;
                 iscsi = from_env ge ''LIBISCSI_TCP_KEEPINTVL'' iscsi_set_tcp_keepintvl iscsi;
                 iscsi = from_env ge ''LIBISCSI_TCP_KEEPIDLE'' iscsi_set_tcp_keepidle iscsi;
                 iscsi = from_env ge ''LIBISCSI_TCP_SYNCNT'' iscsi_set_tcp_syncnt iscsi;
                 iscsi = (case ge ''LIBISCSI_BIND_INTERFACES'' of NULL \<Rightarrow> iscsi | Ptr v \<Rightarrow> iscsi_set_bind_interfaces v iscsi);
                 cache = (case ge ''LIBISCSI_CACHE_ALLOCATIONS'' of NULL \<Rightarrow> True | Ptr v \<Rightarrow> c_atoi v \<noteq> 0)
             in Ptr (if cache then cn_modify (\<lambda>n. n\<lparr>cn_cache_allocations := 1\<rparr>) iscsi else iscsi))"

text \<open>
  Closing the connection (\<open>lib/socket.c\<close>). The socket itself is closed, or kept open for the context from
  before a reconnect; a second disconnect is an error.
\<close>

definition iscsi_tcp_disconnect :: "iscsi_context \<Rightarrow> int \<times> iscsi_context" where
  "iscsi_tcp_disconnect iscsi =
     (if ctx_fd iscsi = -1 then (-1, iscsi)
      else (0, iscsi\<lparr>ctx_fd := -1, ctx_is_connected := False, ctx_is_corked := False\<rparr>))"

definition iscsi_disconnect :: "iscsi_context \<Rightarrow> int \<times> iscsi_context" where
  "iscsi_disconnect iscsi = iscsi_tcp_disconnect iscsi"

text \<open>
  The contexts are returned as they are before their memory is freed. The context from before a
  reconnect has none of its own.
\<close>

definition destroy_one :: "iscsi_context \<Rightarrow> iscsi_context option" where
  "destroy_one iscsi = do {
     let (_, iscsi) = iscsi_disconnect iscsi;
     iscsi \<leftarrow> iscsi_cancel_pdus iscsi;
     iscsi \<leftarrow> (case ctx_outqueue_current iscsi of
        NULL \<Rightarrow> Some iscsi
      | Ptr i \<Rightarrow> do {
          p \<leftarrow> ctx_pdus iscsi i;
          if pdu_flags p AND ISCSI_PDU_DELETE_WHEN_SENT \<noteq> 0 then iscsi_tcp_free_pdu i iscsi else Some iscsi
        });
     Some (iscsi\<lparr>ctx_incoming := NULL\<rparr>)
   }"

definition iscsi_destroy_context :: "iscsi_context ptr \<Rightarrow> iscsi_context ptr \<Rightarrow> (int \<times> iscsi_context ptr \<times> iscsi_context ptr) option" where
  "iscsi_destroy_context old iscsi =
     (case iscsi of
        NULL \<Rightarrow> Some (0, old, NULL)
      | Ptr iscsi \<Rightarrow> do {
          iscsi \<leftarrow> destroy_one iscsi;
          case old of
            NULL \<Rightarrow> Some (0, NULL, Ptr iscsi)
          | Ptr c \<Rightarrow> do {
              c \<leftarrow> destroy_one (c\<lparr>ctx_fd := -1\<rparr>);
              Some (0, Ptr c, Ptr iscsi)
            }
        })"

section \<open>URLs\<close>

text \<open>\<open>strchr\<close>, after which the character is overwritten with NUL: what is before it and behind it.\<close>

definition cut_at :: "u8 \<Rightarrow> bytes \<Rightarrow> bytes \<times> bytes ptr" where
  "cut_at ch s = (takeWhile (\<lambda>b. b \<noteq> ch) s, if ch \<in> set s then Ptr (tl (dropWhile (\<lambda>b. b \<noteq> ch) s)) else NULL)"

lemma cut_at_shorter: "cut_at ch s = (a, Ptr b) \<Longrightarrow> length b < length s"
  using length_dropWhile_le [of "\<lambda>b. b \<noteq> ch" s]
  by (cases "dropWhile (\<lambda>b. b \<noteq> ch) s") (auto simp: cut_at_def split: if_splits dest: dropWhile_eq_Nil_conv [THEN iffD1])

text \<open>
  \<open>iscsi_decode_url_string\<close> on the array \<open>buf\<close>, \<open>str\<close> at the index \<open>k\<close>. A decoded character is stored at its place
  and the rest of the string is moved up behind it, while \<open>str\<close> stays where it was.
\<close>

definition strlen_at :: "bytes \<Rightarrow> nat \<Rightarrow> nat" where
  "strlen_at buf k = length (takeWhile (\<lambda>b. b \<noteq> 0) (drop k buf))"

definition decode_at :: "bytes \<Rightarrow> nat \<Rightarrow> bytes" where
  "decode_at buf k =
     (let c = push_bit 4 (h2i (buf ! (k + 1))) OR h2i (buf ! (k + 2));
          n = strlen_at buf (k + 3);
          buf = blit (k + 1) (take n (drop (k + 3) buf)) (buf[k := c])
      in buf[k + 1 + strlen_at buf (k + 3) := 0])"

lemma length_decode_at: "k + 2 < length buf \<Longrightarrow> length (decode_at buf k) = length buf"
  using length_takeWhile_le [of "\<lambda>b. b \<noteq> 0" "drop (k + 3) buf"]
  by (simp add: decode_at_def Let_def blit_def strlen_at_def)

function decode_url :: "bytes \<Rightarrow> nat \<Rightarrow> bytes option" where
  "decode_url buf k =
     (if length buf \<le> k then None
      else if buf ! k = 0 then Some buf
      else if buf ! k \<noteq> 0x25 then decode_url buf (k + 1)
      else if length buf \<le> k + 1 then None
      else if buf ! (k + 1) = 0 then Some buf
      else if length buf \<le> k + 2 then None
      else if buf ! (k + 2) = 0 then Some buf
      else decode_url (decode_at buf k) (k + 3))"
  by pat_completeness auto

termination
  by (relation "measure (\<lambda>(buf, k). length buf - k)") (auto simp: length_decode_at)

declare decode_url.simps [simp del]

definition iscsi_decode_url_string :: "bytes \<Rightarrow> bytes option" where
  "iscsi_decode_url_string s = do {
     buf \<leftarrow> decode_url (s @ replicate (MAX_STRING_SIZE + 1 - length s) 0) 0;
     Some (takeWhile (\<lambda>b. b \<noteq> 0) buf)
   }"

record iscsi_url =
  ur_portal :: bytes
  ur_target :: bytes
  ur_user :: bytes
  ur_passwd :: bytes
  ur_target_user :: bytes
  ur_target_passwd :: bytes
  ur_lun :: cint

text \<open>The arguments behind the question mark: the context, \<open>target_user\<close>, \<open>target_passwd\<close> and \<open>usn\<close>.\<close>

type_synonym url_args = "iscsi_context ptr \<times> bytes ptr \<times> bytes ptr \<times> bytes ptr"

text \<open>
  One of the arguments with a fixed set of values; \<open>val\<close> is NULL without an equals sign, and the context
  may be NULL. The first result is false when the value is not one of them, and the parser gives up.
\<close>

definition url_choice :: "(string \<times> (iscsi_context \<Rightarrow> iscsi_context)) list \<Rightarrow> bytes ptr \<Rightarrow> url_args \<Rightarrow> (bool \<times> url_args) option" where
  "url_choice choices val = (\<lambda>(iscsi, rest).
     case val of
       NULL \<Rightarrow> None
     | Ptr v \<Rightarrow>
         (case find (\<lambda>(name, f). v = cstr name) choices of
            None \<Rightarrow> Some (False, iscsi, rest)
          | Some (_, f) \<Rightarrow> (case iscsi of NULL \<Rightarrow> None | Ptr c \<Rightarrow> Some (True, Ptr (f c), rest))))"

definition url_arg :: "bytes \<Rightarrow> bytes ptr \<Rightarrow> url_args \<Rightarrow> (bool \<times> url_args) option" where
  "url_arg kw val args =
     (if kw = cstr ''auth'' then
        url_choice [(''md5'', iscsi_set_auth ISCSI_CHAP_MD5), (''sha1'', iscsi_set_auth ISCSI_CHAP_SHA_1),
          (''sha-256'', iscsi_set_auth ISCSI_CHAP_SHA_256), (''sha3-256'', iscsi_set_auth ISCSI_CHAP_SHA3_256)] val args
      else if kw = cstr ''header_digest'' then
        url_choice [(''crc32c'', snd \<circ> iscsi_set_header_digest ISCSI_HEADER_DIGEST_CRC32C),
          (''none'', snd \<circ> iscsi_set_header_digest ISCSI_HEADER_DIGEST_NONE)] val args
      else if kw = cstr ''data_digest'' then
        url_choice [(''crc32c'', snd \<circ> iscsi_set_data_digest ISCSI_DATA_DIGEST_CRC32C),
          (''none'', snd \<circ> iscsi_set_data_digest ISCSI_DATA_DIGEST_NONE)] val args
      else
        let (iscsi, tu, tp, usn) = args
        in Some (True, iscsi,
             if kw = cstr ''target_user'' then val else tu,
             if kw = cstr ''target_password'' then val else tp,
             if kw = cstr ''force_usn'' then val else usn))"

function url_args_loop :: "bytes \<Rightarrow> url_args \<Rightarrow> (bool \<times> url_args) option" where
  "url_args_loop s args =
     (if s = [] then Some (True, args)
      else
        let (arg, rest) = cut_at 0x26 s;
            (kw, val) = cut_at 0x3d arg
        in do {
          (ok, args) \<leftarrow> url_arg kw val args;
          case rest of
            NULL \<Rightarrow> Some (ok, args)
          | Ptr s' \<Rightarrow> if ok then url_args_loop s' args else Some (False, args)
        })"
  by pat_completeness auto

termination
  by (relation "measure (\<lambda>(s, args). length s)") (auto dest: cut_at_shorter [OF sym])

declare url_args_loop.simps [simp del]

text \<open>\<open>strtol(lun, &tmp, 10)\<close>: what is left at \<open>tmp\<close>.\<close>

definition strtol_rest :: "bytes \<Rightarrow> bytes" where
  "strtol_rest s =
     (let t = dropWhile is_space s;
          t = (case t of [] \<Rightarrow> [] | b # t' \<Rightarrow> if b = 0x2d \<or> b = 0x2b then t' else b # t')
      in if takeWhile is_digit t = [] then s else dropWhile is_digit t)"

text \<open>The user before \<open>@\<close>, and the password behind a percent sign, or a colon.\<close>

definition url_user :: "bytes \<Rightarrow> bytes ptr \<Rightarrow> bytes ptr \<Rightarrow> bytes \<times> bytes ptr \<times> bytes ptr" where
  "url_user s user passwd =
     (case cut_at 0x40 s of
        (_, NULL) \<Rightarrow> (s, user, passwd)
      | (u, Ptr portal) \<Rightarrow>
          (case cut_at 0x25 u of
             (u', Ptr pw) \<Rightarrow> (portal, Ptr u', Ptr pw)
           | (_, NULL) \<Rightarrow>
               (case cut_at 0x3a u of
                  (u', Ptr pw) \<Rightarrow> (portal, Ptr u', Ptr pw)
                | (_, NULL) \<Rightarrow> (portal, Ptr u, passwd))))"

text \<open>The portal, the target and the LUN; NULL when they are not all there.\<close>

definition url_target :: "bytes \<Rightarrow> bool \<Rightarrow> (bytes \<times> bytes \<times> cint) ptr" where
  "url_target s full =
     (if full then
        (case cut_at 0x2f s of
           (_, NULL) \<Rightarrow> NULL
         | (portal, Ptr target) \<Rightarrow>
             if target = [] then NULL
             else case cut_at 0x2f target of
               (_, NULL) \<Rightarrow> NULL
             | (target, Ptr lun) \<Rightarrow>
                 if lun = [] \<or> strtol_rest lun \<noteq> [] then NULL
                 else Ptr (portal, target, of_int (c_strtol lun)))
      else Ptr (fst (cut_at 0x2f s), [], 0))"

definition str_of :: "bytes ptr \<Rightarrow> bytes" where
  "str_of p = (case p of NULL \<Rightarrow> [] | Ptr s \<Rightarrow> s)"

text \<open>The credentials are taken only when they are complete, those of the target only with the others.\<close>

definition url_credentials :: "bytes ptr \<Rightarrow> bytes ptr \<Rightarrow> bytes ptr \<Rightarrow> bytes ptr \<Rightarrow> iscsi_url \<Rightarrow> iscsi_url" where
  "url_credentials user passwd target_user target_passwd url =
     (if str_of user \<noteq> [] \<and> str_of passwd \<noteq> [] then
        let url = url\<lparr>ur_user := take MAX_STRING_SIZE (str_of user), ur_passwd := take MAX_STRING_SIZE (str_of passwd)\<rparr>
        in if str_of target_user \<noteq> [] \<and> str_of target_passwd \<noteq> []
           then url\<lparr>ur_target_user := take MAX_STRING_SIZE (str_of target_user),
                    ur_target_passwd := take MAX_STRING_SIZE (str_of target_passwd)\<rparr>
           else url
      else url)"

definition apply_url :: "iscsi_url \<Rightarrow> bytes ptr \<Rightarrow> iscsi_context \<Rightarrow> iscsi_context" where
  "apply_url url usn iscsi =
     (let (_, iscsi) = iscsi_set_targetname (ur_target url) iscsi;
          (_, iscsi) = iscsi_set_initiator_username_pwd (ur_user url) (ur_passwd url) iscsi;
          (_, iscsi) = iscsi_set_target_username_pwd (ur_target_user url) (ur_target_passwd url) iscsi
      in case usn of NULL \<Rightarrow> iscsi | Ptr u \<Rightarrow> snd (iscsi_set_unit_serial_number u iscsi))"

text \<open>
  \<open>strncpy(str, url + 8, 255)\<close> into an array that is not initialised leaves no NUL behind a longer string;
  reading it is undefined.
\<close>

definition iscsi_parse_url ::
  "(string \<Rightarrow> bytes ptr) \<Rightarrow> bool \<Rightarrow> iscsi_context ptr \<Rightarrow> bytes \<Rightarrow> bool \<Rightarrow> (iscsi_url ptr \<times> iscsi_context ptr) option" where
  "iscsi_parse_url ge m iscsi url full =
     (if \<not> starts ''iscsi://'' url then Some (NULL, iscsi)
      else
        let str = behind_key ''iscsi://'' url; (path, query) = cut_at 0x3f str
        in if MAX_STRING_SIZE \<le> length str then None
           else do {
             (ok, iscsi, target_user, target_passwd, usn) \<leftarrow> url_args_loop (str_of query)
               (iscsi, ge ''LIBISCSI_CHAP_TARGET_USERNAME'', ge ''LIBISCSI_CHAP_TARGET_PASSWORD'', NULL);
             if \<not> ok then Some (NULL, iscsi)
             else
                 let (s, user, passwd) = url_user path (ge ''LIBISCSI_CHAP_USERNAME'') (ge ''LIBISCSI_CHAP_PASSWORD'')
                 in case url_target s full of
                      NULL \<Rightarrow> Some (NULL, iscsi)
                    | Ptr (portal, target, lun) \<Rightarrow>
                        if \<not> m then Some (NULL, iscsi)
                        else do {
                          target \<leftarrow> iscsi_decode_url_string target;
                          let u = url_credentials user passwd target_user target_passwd
                            \<lparr>ur_portal = portal, ur_target = target, ur_user = [], ur_passwd = [], ur_target_user = [],
                             ur_target_passwd = [], ur_lun = lun\<rparr>;
                          Some (Ptr u, case iscsi of NULL \<Rightarrow> NULL | Ptr c \<Rightarrow> Ptr (apply_url u usn c))
                        }
           })"

definition iscsi_parse_full_url where
  "iscsi_parse_full_url ge m iscsi url = iscsi_parse_url ge m iscsi url True"

definition iscsi_parse_portal_url where
  "iscsi_parse_portal_url ge m iscsi url = iscsi_parse_url ge m iscsi url False"

end
