(* ===== verification/Url.thy ===== *)
theory Url
  imports Iscsi_Init
begin

text \<open>
  The results about URLs: what \<open>iscsi_decode_url_string\<close> computes, and that \<open>iscsi_parse_full_url\<close> finds the parts
  a URL was put together from.
\<close>

section \<open>Percent escapes\<close>

text \<open>
  The string that is computed: the two characters behind an escape are taken over as they are, even
  when they begin another escape.
\<close>

fun url_decoded :: "bytes \<Rightarrow> bytes" where
  "url_decoded [] = []"
| "url_decoded (x # a # b # t) =
     (if x = 0x25 then (push_bit 4 (h2i a) OR h2i b) # take 2 t @ url_decoded (drop 2 t)
      else x # url_decoded (a # b # t))"
| "url_decoded (x # t) = x # t"

lemma decode_at_shifts:
  assumes "0 \<notin> set t"
  shows "decode_at (pre @ x # a # b # t @ 0 # r) (length pre) =
    pre @ (push_bit 4 (h2i a) OR h2i b) # t @ 0 # (a # b # t) ! (length t + 1) # 0 # r"
proof -
  let ?k = "length pre" and ?c = "push_bit 4 (h2i a) OR h2i b" and ?L = "drop (length t) (a # b # t)"
  let ?buf = "pre @ x # a # b # t @ 0 # r"
  have at: "?buf ! (?k + 1) = a" "?buf ! (?k + 2) = b" "drop (?k + 3) ?buf = t @ 0 # r"
    by (simp_all add: nth_append)
  have n: "strlen_at ?buf (?k + 3) = length t"
    using assms by (simp add: strlen_at_def at(3) takeWhile_append)
  have L: "length ?L = 2" by simp
  obtain l m where lm: "?L = [l, m]" using L by (metis (no_types, opaque_lifting) length_0_conv length_Suc_conv numeral_2_eq_2)
  then have m: "m = (a # b # t) ! (length t + 1)"
    using nth_drop [of "length t" "a # b # t" 1] by simp
  have "drop (length t) (a # b # t @ 0 # r) = [l, m] @ 0 # r"
    using lm by (metis append_Cons diff_is_0_eq drop_0 drop_append length_Cons le_SucI order_refl)
  then have blit: "blit (?k + 1) t (?buf[?k := ?c]) = pre @ ?c # t @ [l, m] @ 0 # r"
    by (simp add: blit_def list_update_append)
  have nz: "0 \<notin> set (drop 2 (t @ [l, m])) \<and> length (drop 2 (t @ [l, m])) = length t"
  proof (cases "length t < 2")
    case True
    then show ?thesis using assms m by (cases t) auto
  next
    case False
    then obtain u where u: "length t = Suc (Suc u)" by (metis Suc_lessI less_2_cases_iff not0_implies_Suc)
    then have "[l, m] = drop u t" using lm by simp
    then have "set [l, m] \<subseteq> set t" by (metis set_drop_subset)
    then show ?thesis using assms False by (auto dest: in_set_dropD)
  qed
  have "drop (?k + 3) (pre @ ?c # t @ [l, m] @ 0 # r) = drop 2 (t @ [l, m]) @ 0 # r"
    by (cases t; cases "tl t") (simp_all add: numeral_3_eq_3 numeral_2_eq_2)
  then have "strlen_at (pre @ ?c # t @ [l, m] @ 0 # r) (?k + 3) = length t"
    using nz by (simp add: strlen_at_def takeWhile_append del: drop_append)
  then show ?thesis
    unfolding decode_at_def Let_def at(1,2) n at(3) using blit m by (simp add: list_update_append)
qed

text \<open>Behind an escape the next two characters are skipped, if there are so many.\<close>

lemma decode_url_at_nul: "decode_url (pre @ 0 # r) (length pre) = Some (pre @ 0 # r)"
  by (subst decode_url.simps) (simp add: nth_append)

lemma after_escape:
  assumes "0 \<notin> set u" "length u < 2"
  shows "decode_url (pre @ c # u @ 0 # (a # b # u) ! (length u + 1) # 0 # r) (length pre + 3) =
    Some (pre @ c # u @ 0 # (a # b # u) ! (length u + 1) # 0 # r)"
proof (cases u)
  case Nil
  then show ?thesis using decode_url_at_nul [of "pre @ [c, 0, b]" r] by (simp add: numeral_eq_Suc)
next
  case (Cons y u')
  then have u: "u = [y]" "y \<noteq> 0" using assms by auto
  have "decode_url (pre @ [c, y, 0, y, 0] @ r) (length pre + 4) = Some (pre @ [c, y, 0, y, 0] @ r)"
    using decode_url_at_nul [of "pre @ [c, y, 0, y]" r] by (simp add: numeral_eq_Suc)
  then have "decode_url (pre @ [c, y, 0, y, 0] @ r) (length pre + 3) = Some (pre @ [c, y, 0, y, 0] @ r)"
    using u(2) by (subst decode_url.simps) (simp add: nth_append add.commute)
  then show ?thesis using u(1) by (simp add: numeral_eq_Suc)
qed

lemma decode_url_decodes:
  assumes "0 \<notin> set s"
  shows "\<exists>r'. decode_url (pre @ s @ 0 # r) (length pre) = Some (pre @ url_decoded s @ 0 # r')"
  using assms
proof (induction s arbitrary: pre r rule: length_induct)
  case (1 s)
  have nul: "decode_url (pre @ u @ 0 # r) (length pre + length u) = Some (pre @ u @ 0 # r)" for pre u r
    by (subst decode_url.simps) (simp add: nth_append)
  show ?case
  proof (cases s)
    case Nil
    then show ?thesis using nul [of pre "[]" r] by auto
  next
    case (Cons x t)
    have step: "\<exists>r'. decode_url (pre @ s @ 0 # r) (length pre) = Some (pre @ x # url_decoded t @ 0 # r')"
      if "x \<noteq> 0x25"
    proof -
      have "decode_url (pre @ s @ 0 # r) (length pre) = decode_url ((pre @ [x]) @ t @ 0 # r) (length (pre @ [x]))"
        using that Cons 1(2) by (subst decode_url.simps) (simp add: nth_append)
      then show ?thesis using 1(1) [rule_format, of t "pre @ [x]" r] Cons 1(2) by simp
    qed
    show ?thesis
    proof (cases t)
      case Nil
      have "decode_url (pre @ s @ 0 # r) (length pre) = Some (pre @ s @ 0 # r)" if "x = 0x25"
        using that Nil Cons by (subst decode_url.simps) (simp add: nth_append)
      then show ?thesis using step Nil Cons by (cases "x = 0x25") auto
    next
      case t: (Cons a t')
      have nz: "x \<noteq> 0" "a \<noteq> 0" "0 \<notin> set t'" using 1(2) Cons t by auto
      show ?thesis
      proof (cases t')
        case Nil
        have "decode_url (pre @ s @ 0 # r) (length pre) = Some (pre @ s @ 0 # r)" if "x = 0x25"
          using that Nil Cons t nz by (subst decode_url.simps) (simp add: nth_append)
        then show ?thesis using step Nil Cons t by (cases "x = 0x25") auto
      next
        case t': (Cons b u)
        have *: "decode_url (pre @ s @ 0 # r) (length pre) = decode_url (decode_at (pre @ s @ 0 # r) (length pre)) (length pre + 3)"
          if "x = 0x25"
          using that Cons t t' nz by (subst decode_url.simps) (simp add: nth_append)
        have "0 \<notin> set u" using nz t' by simp
        from * [unfolded Cons t t'] decode_at_shifts [OF this, of pre x a b r]
        have esc: "decode_url (pre @ s @ 0 # r) (length pre) =
            decode_url (pre @ (push_bit 4 (h2i a) OR h2i b) # u @ 0 # (a # b # u) ! (length u + 1) # 0 # r) (length pre + 3)"
          if "x = 0x25" using that Cons t t' by simp
        show ?thesis
        proof (cases "x = 0x25")
          case False
          then show ?thesis using step Cons t t' by auto
        next
          case True
          show ?thesis
          proof (cases "length u < 2")
            case short: True
            then have "url_decoded (drop 2 u) = []" "take 2 u = u" by simp_all
            then show ?thesis using esc [OF True] after_escape [OF \<open>0 \<notin> set u\<close> short] True Cons t t' by auto
          next
            case False
            then obtain v w u' where u: "u = v # w # u'" by (metis One_nat_def Suc_lessI length_Cons less_2_cases_iff list.size(3) not_less neq_Nil_conv)
            let ?pre = "pre @ [push_bit 4 (h2i a) OR h2i b, v, w]"
            obtain r' where "decode_url (?pre @ u' @ 0 # (a # b # u) ! (length u + 1) # 0 # r) (length ?pre) =
                Some (?pre @ url_decoded u' @ 0 # r')"
              using 1(1) [rule_format, of u' ?pre] \<open>0 \<notin> set u\<close> u Cons t t' by auto
            then show ?thesis using esc [OF True] True Cons t t' u by (auto simp: numeral_eq_Suc)
          qed
        qed
      qed
    qed
  qed
qed

lemma decode_string:
  assumes "0 \<notin> set s" "length s \<le> MAX_STRING_SIZE"
  shows "iscsi_decode_url_string s = Some (takeWhile (\<lambda>b. b \<noteq> 0) (url_decoded s))"
proof -
  have "s @ replicate (MAX_STRING_SIZE + 1 - length s) 0 = [] @ s @ 0 # replicate (MAX_STRING_SIZE - length s) 0"
    using assms(2) by (simp add: Suc_diff_le replicate_Suc [symmetric] del: replicate_Suc)
  then obtain r' where "decode_url (s @ replicate (MAX_STRING_SIZE + 1 - length s) 0) 0 = Some (url_decoded s @ 0 # r')"
    using decode_url_decodes [OF assms(1), of "[]"] by (metis append_Nil list.size(3))
  moreover have "takeWhile (\<lambda>b. b \<noteq> 0) (u @ 0 # r) = takeWhile (\<lambda>b. b \<noteq> 0) u" for u r :: bytes
    by (induction u) auto
  ultimately show ?thesis by (simp add: iscsi_decode_url_string_def)
qed

section \<open>The parts of a URL\<close>

lemma cut_at_first: "ch \<notin> set a \<Longrightarrow> cut_at ch (a @ ch # b) = (a, Ptr b)"
  by (simp add: cut_at_def takeWhile_append dropWhile_append)

lemma cut_at_none: "ch \<notin> set a \<Longrightarrow> cut_at ch a = (a, NULL)"
  by (simp add: cut_at_def takeWhile_eq_all_conv) (metis (mono_tags))

lemma url_decoded_plain: "0x25 \<notin> set s \<Longrightarrow> url_decoded s = s"
  by (induction s rule: url_decoded.induct) auto

lemma strtol_rest_decimal: "strtol_rest (c_decimal k) = []"
proof -
  have t: "takeWhile is_digit (dec_digits n) = dec_digits n" "dropWhile is_digit (dec_digits n) = []" for n
    using dec_digits_value(2) [of n] by (simp_all add: takeWhile_eq_all_conv dropWhile_eq_Nil_conv)
  have plain: "strtol_rest (dec_digits n) = []" for n
  proof -
    obtain b s where bs: "dec_digits n = b # s" "is_digit b"
      using dec_digits_value(2,3) [of n] by (metis list.exhaust list.set_intros(1))
    have d: "\<not> is_space b" "b \<noteq> 0x2d" "b \<noteq> 0x2b"
      using bs(2) by (auto simp: is_digit_def is_space_def word_le_nat_alt)
    show ?thesis using t [of n] d unfolding bs(1) by (simp add: strtol_rest_def)
  qed
  have "strtol_rest (0x2d # dec_digits n) = []" for n
    using dec_digits_value(3) [of n] by (simp add: strtol_rest_def is_space_def word_le_nat_alt Let_def t)
  with plain show ?thesis by (simp add: c_decimal_def)
qed

lemma c_decimal_chars: "b \<in> set (c_decimal k) \<Longrightarrow> is_digit b \<or> b = 0x2d"
  using dec_digits_value(2) by (auto simp: c_decimal_def split: if_splits)

section \<open>Properties\<close>

text \<open>
  C30: \<open>iscsi_decode_url_string\<close> replaces a percent escape by the character with the code its two
  hexadecimal digits give, and takes over the two characters behind the escape without looking at them:
  what follows an escape directly, or after one character, is not decoded even if it is an escape.
\<close>

theorem iscsi_decode_url_string_skips:
  assumes "0 \<notin> set s" "length s \<le> MAX_STRING_SIZE"
  shows "iscsi_decode_url_string s = Some (takeWhile (\<lambda>b. b \<noteq> 0) (url_decoded s))"
  using assms by (rule decode_string)

theorem iscsi_decode_url_string_skips_witness:
  "iscsi_decode_url_string (cstr ''%41%42%43'') = Some (cstr ''A%42C'')"
  by (subst iscsi_decode_url_string_skips) (simp_all add: cstr_def h2i_def)

text \<open>
  C29: from a full URL with a user and a password \<open>iscsi_parse_full_url\<close> takes the portal, the target, the LUN
  and the credentials it was put together from, unless one of them contains a character that ends it.
\<close>

theorem iscsi_parse_full_url_roundtrip:
  assumes len: "length (user @ [0x25] @ passwd @ [0x40] @ portal @ [0x2f] @ target @ [0x2f] @ c_decimal lun) < MAX_STRING_SIZE"
    and user: "user \<noteq> []" "set user \<inter> {0x25, 0x3f, 0x40} = {}"
    and passwd: "passwd \<noteq> []" "set passwd \<inter> {0x3f, 0x40} = {}"
    and portal: "set portal \<inter> {0x2f, 0x3f} = {}"
    and target: "target \<noteq> []" "set target \<inter> {0, 0x25, 0x2f, 0x3f} = {}"
    and lun: "- (2 ^ 31) \<le> lun" "lun < 2 ^ 31"
  shows "iscsi_parse_full_url (\<lambda>_. NULL) True NULL
      (cstr ''iscsi://'' @ user @ [0x25] @ passwd @ [0x40] @ portal @ [0x2f] @ target @ [0x2f] @ c_decimal lun) =
    Some (Ptr \<lparr>ur_portal = portal, ur_target = target, ur_user = user, ur_passwd = passwd, ur_target_user = [],
      ur_target_passwd = [], ur_lun = of_int lun\<rparr>, NULL)"
proof -
  let ?str = "user @ [0x25] @ passwd @ [0x40] @ portal @ [0x2f] @ target @ [0x2f] @ c_decimal lun"
  have lun_chars: "b \<notin> set (c_decimal lun)" if "\<not> is_digit b" "b \<noteq> 0x2d" for b
    using c_decimal_chars that by blast
  have "0x3f \<notin> set ?str" using user passwd portal target lun_chars by (auto simp: is_digit_def word_le_nat_alt)
  then have path: "cut_at 0x3f ?str = (?str, NULL)" by (rule cut_at_none)
  have "cut_at 0x40 ((user @ 0x25 # passwd) @ 0x40 # portal @ 0x2f # target @ 0x2f # c_decimal lun) =
      (user @ 0x25 # passwd, Ptr (portal @ 0x2f # target @ 0x2f # c_decimal lun))"
    by (rule cut_at_first) (use user passwd in auto)
  moreover have "cut_at 0x25 (user @ 0x25 # passwd) = (user, Ptr passwd)" by (rule cut_at_first) (use user in auto)
  ultimately have login: "url_user ?str NULL NULL = (portal @ 0x2f # target @ 0x2f # c_decimal lun, Ptr user, Ptr passwd)"
    by (simp add: url_user_def)
  have "cut_at 0x2f (portal @ 0x2f # target @ 0x2f # c_decimal lun) = (portal, Ptr (target @ 0x2f # c_decimal lun))"
    "cut_at 0x2f (target @ 0x2f # c_decimal lun) = (target, Ptr (c_decimal lun))"
    by (rule cut_at_first, use portal target in auto)+
  moreover have "c_decimal lun \<noteq> []" using dec_digits_value(3) by (simp add: c_decimal_def)
  ultimately have parts: "url_target (portal @ 0x2f # target @ 0x2f # c_decimal lun) True = Ptr (portal, target, of_int lun)"
    using lun by (simp add: url_target_def strtol_rest_decimal strtol_decimal)
  have "length target \<le> MAX_STRING_SIZE" "0 \<notin> set target" "0x25 \<notin> set target" using len target by auto
  then have "iscsi_decode_url_string target = Some target"
    using decode_string [of target] url_decoded_plain by (auto simp: takeWhile_eq_all_conv)
  moreover have "url_args_loop [] args = Some (True, args)" for args by (subst url_args_loop.simps) simp
  moreover have "length ?str < MAX_STRING_SIZE" by (rule len)
  then have "\<not> MAX_STRING_SIZE \<le> length ?str" by (simp only: not_le)
  moreover note starts = starts_key [of "''iscsi://''" ?str]
  have credentials: "url_credentials (Ptr user) (Ptr passwd) NULL NULL
      \<lparr>ur_portal = portal, ur_target = target, ur_user = [], ur_passwd = [], ur_target_user = [], ur_target_passwd = [],
       ur_lun = of_int lun\<rparr> = \<lparr>ur_portal = portal, ur_target = target, ur_user = user, ur_passwd = passwd,
       ur_target_user = [], ur_target_passwd = [], ur_lun = of_int lun\<rparr>"
    using user(1) passwd(1) len by (simp add: url_credentials_def str_of_def)
  ultimately show ?thesis
    unfolding iscsi_parse_full_url_def iscsi_parse_url_def starts path Let_def
    by (simp add: login [simplified] parts [simplified] str_of_def credentials [simplified] starts_def)
qed

theorem iscsi_parse_full_url_roundtrip_witness:
  "iscsi_parse_full_url (\<lambda>_. NULL) True NULL
      (cstr ''iscsi://'' @ cstr ''me'' @ [0x25] @ cstr ''pw'' @ [0x40] @ cstr ''h:3260'' @ [0x2f] @ cstr ''iqn.a'' @ [0x2f] @ c_decimal 7) =
    Some (Ptr \<lparr>ur_portal = cstr ''h:3260'', ur_target = cstr ''iqn.a'', ur_user = cstr ''me'', ur_passwd = cstr ''pw'',
      ur_target_user = [], ur_target_passwd = [], ur_lun = 7\<rparr>, NULL)"
proof -
  have "c_decimal 7 = [0x37]" by (simp add: c_decimal_def dec_digits_step)
  then show ?thesis
    using iscsi_parse_full_url_roundtrip [of "cstr ''me''" "cstr ''pw''" "cstr ''h:3260''" "cstr ''iqn.a''" 7]
    by (simp add: cstr_def)
qed

end
