(* ===== verification/Iscsi_Connect.thy ===== *)
theory Iscsi_Connect
  imports Iscsi_Init Iscsi_Tasks Iscsi_Read Scsi_Unmarshall
begin

text \<open>
  Connecting and reconnecting: \<open>iscsi_connect_async\<close> and \<open>iscsi_tcp_connect\<close> of \<open>lib/socket.c\<close> and
  \<open>lib/connect.c\<close>. A session is a context together with the one kept from before a reconnect
  (\<open>iscsi->old_iscsi\<close>). Tasks, the memory of the application, the calls of callbacks and \<open>rand()\<close> belong to
  neither; they are handed over with the context that is worked on.

  The callbacks of \<open>lib/connect.c\<close> are operations of their own; each takes and returns the
  \<open>struct connect_task\<close> that is their private data, and says what it waits for next.
\<close>

section \<open>Sessions\<close>

type_synonym session = "iscsi_context ptr \<times> iscsi_context"

text \<open>SCSI commands go to the old context while there is one.\<close>

definition on_commands :: "(iscsi_context \<Rightarrow> ('r \<times> iscsi_context) option) \<Rightarrow> session \<Rightarrow> ('r \<times> session) option" where
  "on_commands f = (\<lambda>(old, iscsi).
     case old of
       NULL \<Rightarrow> do { (r, iscsi) \<leftarrow> f iscsi; Some (r, NULL, iscsi) }
     | Ptr c \<Rightarrow> do { (r, c) \<leftarrow> f (share_world iscsi c); Some (r, Ptr c, share_world c iscsi) })"

text \<open>An operation on the context itself.\<close>

definition on_context :: "(iscsi_context \<Rightarrow> ('r \<times> iscsi_context) option) \<Rightarrow> session \<Rightarrow> ('r \<times> session) option" where
  "on_context f = (\<lambda>(old, iscsi). do { (r, iscsi) \<leftarrow> f iscsi; Some (r, old, iscsi) })"

text \<open>A loop of the event handling: on the context, then on the old one.\<close>

definition on_both :: "(iscsi_context \<Rightarrow> iscsi_context option) \<Rightarrow> session \<Rightarrow> session option" where
  "on_both f = (\<lambda>(old, iscsi). do {
     iscsi \<leftarrow> f iscsi;
     case old of
       NULL \<Rightarrow> Some (NULL, iscsi)
     | Ptr c \<Rightarrow> do { c \<leftarrow> f (share_world iscsi c); Some (Ptr c, share_world c iscsi) }
   })"

section \<open>Connecting the socket\<close>

datatype ai_family = AF_INET | AF_INET6 | AF_OTHER

text \<open>
  The operating system: \<open>getaddrinfo\<close> (NULL for an error), \<open>socket\<close>, \<open>dup2\<close>, making the socket
  nonblocking, \<open>connect\<close> to a host and port, which succeeds or goes on, and whether there is an error
  pending on the socket (\<open>SO_ERROR\<close>).
\<close>

record net_env =
  net_resolve :: "bytes \<Rightarrow> ai_family ptr"
  net_socket :: "ai_family \<Rightarrow> int"
  net_dup2 :: "int \<Rightarrow> int \<Rightarrow> bool"
  net_nonblocking :: "int \<Rightarrow> bool"
  net_connect :: "bytes \<Rightarrow> u16 \<Rightarrow> bool"
  net_so_error :: "int \<Rightarrow> bool"

definition iscsi_tcp_connect :: "net_env \<Rightarrow> int ptr \<Rightarrow> bytes \<Rightarrow> u16 \<Rightarrow> ai_family \<Rightarrow> iscsi_context \<Rightarrow> int \<times> iscsi_context" where
  "iscsi_tcp_connect net old_fd host port fam iscsi =
     (if fam = AF_OTHER then (-1, iscsi)
      else
        let iscsi = iscsi\<lparr>ctx_fd := net_socket net fam\<rparr>
        in if ctx_fd iscsi = -1 then (-1, iscsi)
           else
             let dup = (case old_fd of NULL \<Rightarrow> NULL | Ptr fd \<Rightarrow> if ctx_fd iscsi \<noteq> fd then Ptr fd else NULL)
             in if (case dup of NULL \<Rightarrow> False | Ptr fd \<Rightarrow> \<not> net_dup2 net (ctx_fd iscsi) fd) then (-1, iscsi)
                else
                  let iscsi = (case dup of NULL \<Rightarrow> iscsi | Ptr fd \<Rightarrow> iscsi\<lparr>ctx_fd := fd\<rparr>);
                      iscsi = iscsi\<lparr>ctx_tcp_nonblocking := net_nonblocking net (ctx_fd iscsi)\<rparr>
                  in if \<not> net_connect net host port then (-1, iscsi\<lparr>ctx_fd := -1\<rparr>) else (0, iscsi))"

text \<open>\<open>strrchr\<close>: what is before the last occurrence and behind it.\<close>

definition cut_last :: "u8 \<Rightarrow> bytes \<Rightarrow> bytes \<times> bytes ptr" where
  "cut_last ch s = (case cut_at ch (rev s) of (b, Ptr a) \<Rightarrow> (rev a, Ptr (rev b)) | (_, NULL) \<Rightarrow> (s, NULL))"

text \<open>
  The host and the port of a portal: a portal group tag is dropped, the port is behind the last colon
  unless that is inside the brackets of an IPv6 address. NULL when the bracket is not closed.
\<close>

definition parse_portal :: "bytes \<Rightarrow> (bytes \<times> cint) ptr" where
  "parse_portal portal =
     (let host = fst (cut_last 0x2c portal);
          (host, port) =
            (case cut_last 0x3a host of
               (_, NULL) \<Rightarrow> (host, 3260)
             | (h, Ptr p) \<Rightarrow> if 0x5d \<in> set p then (host, 3260) else (h, c_atoi p))
      in case host of
           [] \<Rightarrow> Ptr ([], port)
         | b # h \<Rightarrow>
             if b = 0x5b then (case cut_at 0x5d h of (_, NULL) \<Rightarrow> NULL | (h, Ptr _) \<Rightarrow> Ptr (h, port))
             else Ptr (host, port))"

definition iscsi_connect_async ::
  "iscsi_env \<Rightarrow> net_env \<Rightarrow> bytes \<Rightarrow> status_cb \<Rightarrow> session \<Rightarrow> int \<times> session" where
  "iscsi_connect_async env net portal cb = (\<lambda>(old, iscsi).
     if ctx_fd iscsi \<noteq> -1 then (-1, old, iscsi)
     else if \<not> env_malloc env iscsi then (-1, old, iscsi)
     else case parse_portal portal of
       NULL \<Rightarrow> (-1, old, iscsi)
     | Ptr (host, port) \<Rightarrow>
         (case net_resolve net host of
            NULL \<Rightarrow> (-1, old, iscsi)
          | Ptr fam \<Rightarrow>
              if fam = AF_OTHER then (-1, old, iscsi)
              else
                let iscsi = cn_modify (\<lambda>n. n\<lparr>cn_socket_status_cb := Ptr cb\<rparr>) iscsi;
                    (r, iscsi) = iscsi_tcp_connect net (case old of NULL \<Rightarrow> NULL | Ptr c \<Rightarrow> Ptr (ctx_fd c)) host (ucast port) fam iscsi
                in if r < 0 then (-1, old, iscsi)
                   else (0, old, cn_modify (\<lambda>n. n\<lparr>cn_connected_portal := take MAX_STRING_SIZE portal\<rparr>) iscsi)))"

definition iscsi_full_connect_async ::
  "iscsi_env \<Rightarrow> net_env \<Rightarrow> bytes \<Rightarrow> cint \<Rightarrow> connect_cb \<Rightarrow> session \<Rightarrow> int \<times> session" where
  "iscsi_full_connect_async env net portal lun cb = (\<lambda>(old, iscsi).
     let iscsi = lg_modify (\<lambda>l. l\<lparr>lg_lun := lun, lg_portal := take MAX_STRING_SIZE portal\<rparr>) iscsi
     in if \<not> env_malloc env iscsi then (- 12, old, iscsi)
        else
          let (r, s) = iscsi_connect_async env net portal
                (Iscsi_connect_cb \<lparr>ct_cb = cb, ct_lun = lun, ct_num_uas = 0\<rparr>) (old, iscsi)
          in if r \<noteq> 0 then (- 12, s) else (0, s))"

section \<open>After a reconnect\<close>

text \<open>The callback of a PDU of the old context is called with the new one.\<close>

definition callback_of_old :: "cint \<Rightarrow> iscsi_pdu \<Rightarrow> iscsi_context \<Rightarrow> iscsi_context option" where
  "callback_of_old st p iscsi =
     (case pdu_callback p of
        NULL \<Rightarrow> Some iscsi
      | Ptr Scsi_response_cb \<Rightarrow> iscsi_scsi_response_cb st p iscsi
      | Ptr Reconnect_after_logout_cb \<Rightarrow> Some (iscsi\<lparr>ctx_pending_reconnect := True\<rparr>)
      | Ptr (App_cb cb) \<Rightarrow> Some (iscsi\<lparr>ctx_trace := ctx_trace iscsi @ [Callback cb st]\<rparr>))"

text \<open>One PDU that was queued or waited when the connection was lost: SCSI commands are sent again.\<close>

definition requeue_step :: "iscsi_env \<Rightarrow> nat \<Rightarrow> iscsi_context \<times> iscsi_context \<Rightarrow> (iscsi_context \<times> iscsi_context) option" where
  "requeue_step env i = (\<lambda>(old, iscsi). do {
     p \<leftarrow> ctx_pdus old i;
     if pdu_itt p = 0xffffffff then do {
       old \<leftarrow> iscsi_tcp_free_pdu i old;
       Some (old, iscsi)
     }
     else if pdu_flags p AND ISCSI_PDU_DROP_ON_RECONNECT \<noteq> 0 then do {
       iscsi \<leftarrow> callback_of_old SCSI_STATUS_CANCELLED p iscsi;
       old \<leftarrow> iscsi_tcp_free_pdu i old;
       Some (old, iscsi)
     }
     else case pdu_cbdata_task p of
       NULL \<Rightarrow> None
     | Ptr t \<Rightarrow> do {
         let iscsi = task_modify t (\<lambda>task. task\<lparr>iovector_in := scsi_task_reset_iov (iovector_in task),
                       iovector_out := scsi_task_reset_iov (iovector_out task)\<rparr>) iscsi;
         (_, iscsi) \<leftarrow> iscsi_scsi_command_async env (pdu_lun p) t (pdu_cbdata_callback p) NULL iscsi;
         old \<leftarrow> iscsi_tcp_free_pdu i old;
         Some (old, iscsi)
       }
   })"

text \<open>What is left of the old context is given up.\<close>

definition abandon_old :: "iscsi_context \<Rightarrow> iscsi_context option" where
  "abandon_old old =
     (case ctx_outqueue_current old of
        NULL \<Rightarrow> Some (old\<lparr>ctx_incoming := NULL\<rparr>)
      | Ptr i \<Rightarrow> do {
          p \<leftarrow> ctx_pdus old i;
          if pdu_flags p AND ISCSI_PDU_DELETE_WHEN_SENT \<noteq> 0
          then iscsi_tcp_free_pdu i (old\<lparr>ctx_incoming := NULL\<rparr>)
          else Some (old\<lparr>ctx_incoming := NULL\<rparr>)
        })"

text \<open>The seconds to the next try; \<open>rand() % 10\<close> spreads the later ones.\<close>

definition reconnect_backoff :: "cint \<Rightarrow> u32 \<Rightarrow> cint \<Rightarrow> cint" where
  "reconnect_backoff retry rnd max_retries =
     (let backoff = (if sint retry > 10 then retry + rnd mod 10 - 5 else retry);
          backoff = (if sint backoff > 30 then 30 else backoff)
      in if max_retries \<noteq> -1 \<and> sint retry > sint max_retries then 0 else backoff)"

definition iscsi_reconnect_cb :: "iscsi_env \<Rightarrow> cint \<Rightarrow> session \<Rightarrow> session option" where
  "iscsi_reconnect_cb env st = (\<lambda>(old, iscsi).
     case old of
       NULL \<Rightarrow> None
     | Ptr old \<Rightarrow>
         if st \<noteq> SCSI_STATUS_GOOD then
           let retry = lg_retry_cnt (ctx_login old) + 1;
               old = lg_modify (\<lambda>l. l\<lparr>lg_retry_cnt := retry\<rparr>) old;
               k = lg_random (ctx_login iscsi);
               backoff = reconnect_backoff retry (env_rand env k) (lg_reconnect_max_retries (ctx_login iscsi));
               iscsi = (if sint retry > 10 then lg_modify (\<lambda>l. l\<lparr>lg_random := k + 1\<rparr>) iscsi else iscsi)
           in Some (Ptr old, iscsi\<lparr>ctx_next_reconnect := env_time env iscsi + sint backoff, ctx_pending_reconnect := True\<rparr>)
         else do {
           let tmp = ctx_waitpdu old @ ctx_outqueue old;
           (old, iscsi) \<leftarrow> mfold (requeue_step env) tmp
             (old\<lparr>ctx_outqueue := [], ctx_waitpdu := []\<rparr>, iscsi\<lparr>ctx_has_old_iscsi := False\<rparr>);
           _ \<leftarrow> abandon_old old;
           Some (NULL, iscsi\<lparr>ctx_next_reconnect := env_time env iscsi + 3, ctx_pending_reconnect := False\<rparr>)
         })"

section \<open>Reconnecting\<close>

definition iscsi_defer_reconnect :: "iscsi_context \<Rightarrow> iscsi_context option" where
  "iscsi_defer_reconnect iscsi = iscsi_cancel_pdus (lg_modify (\<lambda>l. l\<lparr>lg_reconnect_deferred := True\<rparr>) iscsi)"

text \<open>The settings a new context takes over from the one it replaces.\<close>

definition reconnect_settings :: "iscsi_context \<Rightarrow> iscsi_context \<Rightarrow> iscsi_context" where
  "reconnect_settings iscsi tmp =
     (let l = ctx_login iscsi; n = ctx_conn iscsi;
          (_, tmp) = iscsi_set_targetname (lg_target_name l) tmp;
          (_, tmp) = iscsi_set_header_digest (lg_want_header_digest l) tmp;
          (_, tmp) = iscsi_set_data_digest (lg_want_data_digest l) tmp;
          (_, tmp) = iscsi_set_initiator_username_pwd (lg_user l) (lg_passwd l) tmp;
          (_, tmp) = iscsi_set_target_username_pwd (lg_target_user l) (lg_target_passwd l) tmp;
          (_, tmp) = iscsi_set_session_type ISCSI_SESSION_NORMAL tmp;
          tmp = lg_modify (\<lambda>m. m\<lparr>lg_lun := lg_lun l, lg_portal := lg_portal l, lg_unit_serial_number := lg_unit_serial_number l,
            lg_no_ua_on_reconnect := lg_no_ua_on_reconnect l, lg_reconnect_max_retries := lg_reconnect_max_retries l\<rparr>) tmp;
          tmp = cn_modify (\<lambda>m. m\<lparr>cn_bind_interfaces := cn_bind_interfaces n, cn_bind_interfaces_cnt := cn_bind_interfaces_cnt n,
            cn_log_level := cn_log_level n, cn_tcp_user_timeout := cn_tcp_user_timeout n, cn_tcp_keepidle := cn_tcp_keepidle n,
            cn_tcp_keepcnt := cn_tcp_keepcnt n, cn_tcp_keepintvl := cn_tcp_keepintvl n, cn_tcp_syncnt := cn_tcp_syncnt n,
            cn_cache_allocations := cn_cache_allocations n\<rparr>) tmp
      in tmp\<lparr>ctx_scsi_timeout := ctx_scsi_timeout iscsi\<rparr>)"

text \<open>
  The context is replaced by a new one, and kept as the old one, unless there is an old one
  already (then what was queued since is lost).
\<close>

definition replace_context :: "iscsi_env \<Rightarrow> (string \<Rightarrow> bytes ptr) \<Rightarrow> session \<Rightarrow> session ptr" where
  "replace_context env ge = (\<lambda>(old, iscsi).
     let k = lg_random (ctx_login iscsi)
     in case iscsi_create_context ge (env_malloc env iscsi) (env_rand env k) (lg_initiator_name (ctx_login iscsi)) of
          NULL \<Rightarrow> NULL
        | Ptr tmp \<Rightarrow>
            let (r, tmp) = iscsi_init_transport (lg_transport (ctx_login iscsi)) tmp
            in if r \<noteq> 0 then NULL
               else
                 let tmp = reconnect_settings iscsi tmp;
                     tmp = lg_modify (\<lambda>l. l\<lparr>lg_random := k + 1\<rparr>) (share_world iscsi (tmp\<lparr>ctx_has_old_iscsi := True\<rparr>))
                 in case old of
                      Ptr c \<Rightarrow> Ptr (Ptr c, tmp)
                    | NULL \<Rightarrow> if \<not> env_malloc env iscsi then NULL else Ptr (Ptr iscsi, tmp))"

definition reconnect :: "iscsi_env \<Rightarrow> net_env \<Rightarrow> (string \<Rightarrow> bytes ptr) \<Rightarrow> bool \<Rightarrow> session \<Rightarrow> (int \<times> session) option" where
  "reconnect env net ge force = (\<lambda>(old, iscsi).
     let l = ctx_login iscsi
     in if lg_reconnect_deferred l then Some (-1, old, iscsi)
        else if lg_no_auto_reconnect l then do {
          iscsi \<leftarrow> iscsi_defer_reconnect iscsi;
          Some (0, old, iscsi)
        }
        else if old \<noteq> NULL \<and> \<not> ctx_pending_reconnect iscsi \<and> \<not> force then Some (0, old, iscsi)
        else if env_time env iscsi < ctx_next_reconnect iscsi then Some (0, old, iscsi\<lparr>ctx_pending_reconnect := True\<rparr>)
        else if lg_reconnect_max_retries l \<noteq> -1 \<and>
          (case old of NULL \<Rightarrow> False | Ptr c \<Rightarrow> sint (lg_retry_cnt (ctx_login c)) > sint (lg_reconnect_max_retries l)) then do {
          iscsi \<leftarrow> iscsi_defer_reconnect iscsi;
          Some (-1, old, iscsi)
        }
        else case replace_context env ge (old, iscsi) of
          NULL \<Rightarrow> Some (-1, old, iscsi)
        | Ptr (old, iscsi) \<Rightarrow>
            Some (iscsi_full_connect_async env net (lg_portal (ctx_login iscsi)) (lg_lun (ctx_login iscsi)) Iscsi_reconnect_cb
              (old, iscsi)))"

definition iscsi_reconnect where
  "iscsi_reconnect env net ge = reconnect env net ge False"

definition iscsi_force_reconnect where
  "iscsi_force_reconnect env net ge = reconnect env net ge True"

definition iscsi_set_noautoreconnect ::
  "iscsi_env \<Rightarrow> net_env \<Rightarrow> (string \<Rightarrow> bytes ptr) \<Rightarrow> bool \<Rightarrow> session \<Rightarrow> session option" where
  "iscsi_set_noautoreconnect env net ge state = (\<lambda>(old, iscsi).
     let iscsi = lg_modify (\<lambda>l. l\<lparr>lg_no_auto_reconnect := state\<rparr>) iscsi
     in if \<not> state \<and> lg_reconnect_deferred (ctx_login iscsi) then do {
          (_, s) \<leftarrow> iscsi_reconnect env net ge (old, lg_modify (\<lambda>l. l\<lparr>lg_reconnect_deferred := False\<rparr>) iscsi);
          Some s
        }
        else Some (old, iscsi))"

definition iscsi_set_no_ua_on_reconnect :: "bool \<Rightarrow> iscsi_context \<Rightarrow> iscsi_context" where
  "iscsi_set_no_ua_on_reconnect state = lg_modify (\<lambda>l. l\<lparr>lg_no_ua_on_reconnect := state\<rparr>)"

definition iscsi_set_reconnect_max_retries :: "cint \<Rightarrow> iscsi_context \<Rightarrow> iscsi_context" where
  "iscsi_set_reconnect_max_retries count = lg_modify (\<lambda>l. l\<lparr>lg_reconnect_max_retries := count\<rparr>)"

definition iscsi_reset_next_reconnect :: "iscsi_env \<Rightarrow> iscsi_context \<Rightarrow> iscsi_context" where
  "iscsi_reset_next_reconnect env iscsi = iscsi\<lparr>ctx_next_reconnect := env_time env iscsi\<rparr>"

section \<open>The steps of a full connect\<close>

text \<open>
  What a full connect waits for next: the socket, the login reply, or the reply to a command whose task has
  the address given. \<open>w\<close> is the number of the callback that is registered with it, with the
  \<open>struct connect_task\<close> as its private data.
\<close>

datatype connect_wait = On_socket | On_login | On_ready nat | On_inquiry nat | On_serial nat

datatype connect_next = Connect_over | Connect_waits connect_wait connect_task

type_synonym connect_result = "(connect_next \<times> session) option"

definition connect_done :: "iscsi_env \<Rightarrow> cint \<Rightarrow> connect_task \<Rightarrow> session \<Rightarrow> connect_result" where
  "connect_done env st ct s = do {
     s \<leftarrow> (case ct_cb ct of
            App_connect_cb cb \<Rightarrow> Some (fst s, (snd s)\<lparr>ctx_trace := ctx_trace (snd s) @ [Callback cb st]\<rparr>)
          | Iscsi_reconnect_cb \<Rightarrow> iscsi_reconnect_cb env st s);
     Some (Connect_over, s)
   }"

text \<open>
  \<open>iscsi->old_iscsi = NULL;\<close> around the submission of a task, so that it is sent on the context itself while
  the commands of the application wait on the old one.
\<close>

definition on_itself :: "(iscsi_context \<Rightarrow> ('r \<times> iscsi_context) option) \<Rightarrow> session \<Rightarrow> ('r \<times> session) option" where
  "on_itself f = (\<lambda>(old, iscsi). do {
     (r, iscsi') \<leftarrow> f (iscsi\<lparr>ctx_has_old_iscsi := False\<rparr>);
     Some (r, old, iscsi'\<lparr>ctx_has_old_iscsi := ctx_has_old_iscsi iscsi\<rparr>)
   })"

definition iscsi_testunitready_connect :: "iscsi_env \<Rightarrow> nat \<Rightarrow> cint \<Rightarrow> nat \<Rightarrow> session \<Rightarrow> (nat ptr \<times> session) option" where
  "iscsi_testunitready_connect env t lun w = on_itself (iscsi_testunitready_task env t lun (Ptr w))"

definition iscsi_inquiry_task_connect ::
  "iscsi_env \<Rightarrow> nat \<Rightarrow> cint \<Rightarrow> cint \<Rightarrow> cint \<Rightarrow> cint \<Rightarrow> nat \<Rightarrow> session \<Rightarrow> (nat ptr \<times> session) option" where
  "iscsi_inquiry_task_connect env t lun evpd page_code maxsize w =
     on_itself (iscsi_inquiry_task env t lun evpd page_code maxsize (Ptr w))"

text \<open>The command was submitted and its reply is waited for, or the connect has failed.\<close>

definition connect_sent ::
  "iscsi_env \<Rightarrow> (nat \<Rightarrow> connect_wait) \<Rightarrow> connect_task \<Rightarrow> (nat ptr \<times> session) option \<Rightarrow> connect_result" where
  "connect_sent env wait ct sent = do {
     (r, s) \<leftarrow> sent;
     case r of
       NULL \<Rightarrow> connect_done env SCSI_STATUS_ERROR ct s
     | Ptr t \<Rightarrow> Some (Connect_waits (wait t) ct, s)
   }"

text \<open>
  \<open>iscsi_inquiry_page_0x80_cb\<close>: the serial number is stored, or compared with the one that is known.
\<close>

definition check_serial :: "bytes \<Rightarrow> iscsi_context \<Rightarrow> bool \<times> iscsi_context" where
  "check_serial usn iscsi =
     (let known = lg_unit_serial_number (ctx_login iscsi)
      in if known = [] then (True, lg_modify (\<lambda>l. l\<lparr>lg_unit_serial_number := take MAX_STRING_SIZE usn\<rparr>) iscsi)
         else (take MAX_STRING_SIZE known = take MAX_STRING_SIZE usn, iscsi))"

definition unmarshall_reply :: "iscsi_env \<Rightarrow> nat \<Rightarrow> iscsi_context \<Rightarrow> (datain_view ptr \<times> iscsi_context) option" where
  "unmarshall_reply env t iscsi = do {
     (task, v) \<leftarrow> scsi_datain_unmarshall (\<lambda>_. env_malloc env iscsi) (ctx_tasks iscsi t);
     Some (v, task_modify t (\<lambda>_. task) iscsi)
   }"

definition iscsi_inquiry_page_0x80_cb :: "iscsi_env \<Rightarrow> cint \<Rightarrow> nat \<Rightarrow> connect_task \<Rightarrow> session \<Rightarrow> connect_result" where
  "iscsi_inquiry_page_0x80_cb env st t ct = (\<lambda>(old, iscsi).
     if st \<noteq> 0 then connect_done env SCSI_STATUS_ERROR ct (old, iscsi)
     else do {
       (v, iscsi) \<leftarrow> unmarshall_reply env t iscsi;
       case v of
         NULL \<Rightarrow> connect_done env SCSI_STATUS_ERROR ct (old, iscsi)
       | Ptr (Datain_inquiry (View_unit_serial_number inq)) \<Rightarrow>
           let (same, iscsi) = check_serial (takeWhile (\<lambda>b. b \<noteq> 0) (usn_usn inq)) iscsi
           in connect_done env (if same then SCSI_STATUS_GOOD else SCSI_STATUS_ERROR) ct (old, iscsi)
       | Ptr _ \<Rightarrow> None
     })"

definition iscsi_inquiry_page_0x0_cb ::
  "iscsi_env \<Rightarrow> nat \<Rightarrow> nat \<Rightarrow> cint \<Rightarrow> nat \<Rightarrow> connect_task \<Rightarrow> session \<Rightarrow> connect_result" where
  "iscsi_inquiry_page_0x0_cb env t' w st t ct = (\<lambda>(old, iscsi).
     if st \<noteq> 0 then connect_done env SCSI_STATUS_ERROR ct (old, iscsi)
     else do {
       (v, iscsi) \<leftarrow> unmarshall_reply env t iscsi;
       case v of
         NULL \<Rightarrow> connect_done env SCSI_STATUS_ERROR ct (old, iscsi)
       | Ptr (Datain_inquiry (View_inquiry_standard inq)) \<Rightarrow>
           if inq_rmb inq = 0 \<and> inq_device_type inq = SCSI_INQUIRY_PERIPHERAL_DEVICE_TYPE_DIRECT_ACCESS
           then connect_sent env On_serial ct
                  (iscsi_inquiry_task_connect env t' (ct_lun ct) 1 0x80 (of_nat MAX_STRING_SIZE + 4) w (old, iscsi))
           else connect_done env SCSI_STATUS_GOOD ct (old, iscsi)
       | Ptr _ \<Rightarrow> None
     })"

definition send_inquiry :: "iscsi_env \<Rightarrow> nat \<Rightarrow> nat \<Rightarrow> connect_task \<Rightarrow> session \<Rightarrow> connect_result" where
  "send_inquiry env t' w ct s =
     connect_sent env On_inquiry ct (iscsi_inquiry_task_connect env t' (ct_lun ct) 0 0 96 w s)"

definition send_testunitready :: "iscsi_env \<Rightarrow> nat \<Rightarrow> nat \<Rightarrow> connect_task \<Rightarrow> session \<Rightarrow> connect_result" where
  "send_testunitready env t' w ct s =
     connect_sent env On_ready ct (iscsi_testunitready_connect env t' (ct_lun ct) w s)"

text \<open>No medium, a reservation and a sanitize in progress do not fail the login.\<close>

definition ready_enough :: "cint \<Rightarrow> scsi_sense \<Rightarrow> bool" where
  "ready_enough st sns \<longleftrightarrow> st = 0 \<or> st = SCSI_STATUS_RESERVATION_CONFLICT \<or>
     key sns = SCSI_SENSE_NOT_READY \<and>
     ascq sns \<in> {SCSI_SENSE_ASCQ_MEDIUM_NOT_PRESENT, SCSI_SENSE_ASCQ_MEDIUM_NOT_PRESENT_TRAY_CLOSED,
       SCSI_SENSE_ASCQ_MEDIUM_NOT_PRESENT_TRAY_OPEN, SCSI_SENSE_ASCQ_SANITIZE_IN_PROGRESS}"

definition iscsi_testunitready_cb ::
  "iscsi_env \<Rightarrow> nat \<Rightarrow> nat \<Rightarrow> cint \<Rightarrow> nat \<Rightarrow> connect_task \<Rightarrow> session \<Rightarrow> connect_result" where
  "iscsi_testunitready_cb env t' w st t ct s =
     (let sns = sense (ctx_tasks (snd s) t)
      in if st \<noteq> 0 \<and> key sns = SCSI_SENSE_UNIT_ATTENTION then
           let ct = ct\<lparr>ct_num_uas := ct_num_uas ct + 1\<rparr>
           in if sint (ct_num_uas ct) > 10 then connect_done env SCSI_STATUS_ERROR ct s
              else send_testunitready env t' w ct s
         else if \<not> ready_enough st sns then connect_done env SCSI_STATUS_ERROR ct s
         else send_inquiry env t' w ct s)"

text \<open>When the portal of a redirection cannot be connected to, \<open>ct\<close> is freed and nobody is told.\<close>

definition iscsi_login_cb ::
  "iscsi_env \<Rightarrow> net_env \<Rightarrow> nat \<Rightarrow> nat \<Rightarrow> cint \<Rightarrow> connect_task \<Rightarrow> session \<Rightarrow> connect_result" where
  "iscsi_login_cb env net t' w st ct = (\<lambda>(old, iscsi).
     let address = lg_target_address (ctx_login iscsi)
     in if st = SCSI_STATUS_REDIRECT \<and> address \<noteq> [] then
          let (_, iscsi) = iscsi_disconnect iscsi;
              (r, s) = iscsi_connect_async env net address (Iscsi_connect_cb ct) (old, iscsi)
          in Some (if r \<noteq> 0 then Connect_over else Connect_waits On_socket ct, s)
        else if st \<noteq> 0 then connect_done env SCSI_STATUS_ERROR ct (old, iscsi)
        else if lg_no_ua_on_reconnect (ctx_login iscsi) \<or> ct_lun ct \<noteq> -1 \<and> old = NULL
        then send_testunitready env t' w ct (old, iscsi)
        else if ct_lun ct \<noteq> -1 then send_inquiry env t' w ct (old, iscsi)
        else connect_done env SCSI_STATUS_GOOD ct (old, iscsi))"

definition iscsi_connect_cb :: "iscsi_env \<Rightarrow> nat \<Rightarrow> cint \<Rightarrow> connect_task \<Rightarrow> session \<Rightarrow> connect_result" where
  "iscsi_connect_cb env w st ct = (\<lambda>(old, iscsi).
     if st \<noteq> 0 then connect_done env SCSI_STATUS_ERROR ct (old, iscsi)
     else do {
       (r, iscsi) \<leftarrow> iscsi_login_async env (Ptr (App_cb w)) iscsi;
       if r \<noteq> 0 then connect_done env SCSI_STATUS_ERROR ct (old, iscsi)
       else Some (Connect_waits On_login ct, old, iscsi)
     })"

section \<open>Servicing the socket\<close>

definition iscsi_tcp_get_fd :: "session \<Rightarrow> int" where
  "iscsi_tcp_get_fd = (\<lambda>(old, iscsi). case old of NULL \<Rightarrow> ctx_fd iscsi | Ptr c \<Rightarrow> ctx_fd c)"

text \<open>\<open>if (iscsi->socket_status_cb)\<close>: it is called once and reset.\<close>

definition socket_status :: "iscsi_env \<Rightarrow> nat \<Rightarrow> cint \<Rightarrow> session \<Rightarrow> connect_result" where
  "socket_status env w st = (\<lambda>(old, iscsi). do {
     (next, old, iscsi) \<leftarrow> (case cn_socket_status_cb (ctx_conn iscsi) of
        NULL \<Rightarrow> Some (Connect_over, old, iscsi)
      | Ptr (App_status_cb cb) \<Rightarrow> Some (Connect_over, old, iscsi\<lparr>ctx_trace := ctx_trace iscsi @ [Callback cb st]\<rparr>)
      | Ptr (Iscsi_connect_cb ct) \<Rightarrow> iscsi_connect_cb env w st ct (old, iscsi)
      | Ptr Cleared_cb \<Rightarrow> None);
     Some (next, old, cn_modify (\<lambda>n. n\<lparr>cn_socket_status_cb := NULL\<rparr>) iscsi)
   })"

definition iscsi_service_reconnect_if_loggedin ::
  "iscsi_env \<Rightarrow> net_env \<Rightarrow> (string \<Rightarrow> bytes ptr) \<Rightarrow> session \<Rightarrow> (int \<times> session) option" where
  "iscsi_service_reconnect_if_loggedin env net ge s = do {
     (r, s) \<leftarrow> (if ctx_is_loggedin (snd s) then iscsi_reconnect env net ge s else Some (-1, s));
     if r = 0 then Some (0, s)
     else if fst s \<noteq> NULL then do {
       s \<leftarrow> (if ctx_pending_reconnect (snd s) then Some s else iscsi_reconnect_cb env SCSI_STATUS_ERROR s);
       Some (0, s)
     }
     else Some (-1, s)
   }"

record revents =
  ev_in :: bool
  ev_out :: bool
  ev_err :: bool
  ev_hup :: bool

text \<open>A failed connection: the one who waits for the socket is told, and it is tried again later.\<close>

definition socket_error ::
  "iscsi_env \<Rightarrow> net_env \<Rightarrow> (string \<Rightarrow> bytes ptr) \<Rightarrow> nat \<Rightarrow> session \<Rightarrow> (int \<times> connect_next \<times> session) option" where
  "socket_error env net ge w s = do {
     (next, s) \<leftarrow> socket_status env w SCSI_STATUS_ERROR s;
     (r, s) \<leftarrow> iscsi_service_reconnect_if_loggedin env net ge s;
     Some (r, next, s)
   }"

text \<open>The reading and the writing: 0, or the connection is lost.\<close>

definition service_io ::
  "iscsi_env \<Rightarrow> net_env \<Rightarrow> (string \<Rightarrow> bytes ptr) \<Rightarrow> revents \<Rightarrow> session \<Rightarrow> (int ptr \<times> session) option" where
  "service_io env net ge ev s = do {
     (r, s) \<leftarrow> (if ev_in ev then on_context (iscsi_read_from_socket env) s else Some (0, s));
     if r \<noteq> 0 then do {
       (r, s) \<leftarrow> iscsi_service_reconnect_if_loggedin env net ge s;
       Some (Ptr r, s)
     }
     else do {
       (r, s) \<leftarrow> (if ev_out ev then on_context (iscsi_write_to_socket env) s else Some (0, s));
       if r \<noteq> 0 then do {
         (r, s) \<leftarrow> iscsi_service_reconnect_if_loggedin env net ge s;
         Some (Ptr r, s)
       }
       else Some (NULL, s)
     }
   }"

text \<open>
  The result says in addition how a full connect goes on that waited for the socket.
\<close>

definition iscsi_tcp_service ::
  "iscsi_env \<Rightarrow> net_env \<Rightarrow> (string \<Rightarrow> bytes ptr) \<Rightarrow> nat \<Rightarrow> revents \<Rightarrow> session \<Rightarrow> (int \<times> connect_next \<times> session) option" where
  "iscsi_tcp_service env net ge w ev s =
     (let (old, iscsi) = s;
          now = env_time env iscsi;
          scan = (\<lambda>s. do { s \<leftarrow> on_both (iscsi_timeout_scan now) s; Some (0, Connect_over, s) })
      in if ctx_fd iscsi < 0 then Some (0, Connect_over, s)
         else if ctx_pending_reconnect iscsi \<and> ctx_next_reconnect iscsi \<le> now then do {
           (r, s) \<leftarrow> iscsi_reconnect env net ge s;
           Some (r, Connect_over, s)
         }
         else if ctx_pending_reconnect iscsi \<and> old \<noteq> NULL then scan s
         else if ev_err ev \<or> ev_hup ev then socket_error env net ge w s
         else if \<not> ctx_is_connected iscsi \<and> ev_out ev then
           if net_so_error net (ctx_fd iscsi) then socket_error env net ge w s
           else do {
             (next, s) \<leftarrow> socket_status env w SCSI_STATUS_GOOD (old, iscsi\<lparr>ctx_is_connected := True\<rparr>);
             Some (0, next, s)
           }
         else do {
           (r, s) \<leftarrow> service_io env net ge ev s;
           case r of
             Ptr r \<Rightarrow> Some (r, Connect_over, s)
           | NULL \<Rightarrow> scan s
         })"

definition iscsi_service where
  "iscsi_service env net ge w ev s = iscsi_tcp_service env net ge w ev s"

end
