(* ===== verification/Reconnect.thy ===== *)
theory Reconnect
  imports Iscsi_Connect Command_Send
begin

text \<open>
  What a reconnect does with the commands that were queued or waited for a reply when the connection
  was lost, and how long it waits between its tries.
\<close>

section \<open>The commands on the outqueue\<close>

text \<open>The task and the callback of each command, in the order of the queue.\<close>

definition queued_commands :: "iscsi_context \<Rightarrow> (nat ptr \<times> nat ptr) list" where
  "queued_commands c = map (\<lambda>i. (pdu_cbdata_task (pdu_at c i), pdu_cbdata_callback (pdu_at c i)))
     (filter (\<lambda>i. is_cmd (pdu_at c i)) (ctx_outqueue c))"

text \<open>A command can be sent: the session is in full feature phase and \<open>k\<close> CmdSNs from \<open>n\<close> on are used up.\<close>

definition ready_for_commands :: "u32 \<Rightarrow> nat \<Rightarrow> iscsi_context \<Rightarrow> bool" where
  "ready_for_commands n k c \<longleftrightarrow> queues_ok c \<and> finite (dom (ctx_pdus c)) \<and>
     ctx_session_type c = ISCSI_SESSION_NORMAL \<and> ctx_is_loggedin c \<and> \<not> ctx_has_old_iscsi c \<and> ctx_target_max_recv_data_segment_length c \<noteq> 0 \<and>
     ctx_cmdsn c = n + of_nat k \<and> (\<forall>i \<in> set (ctx_outqueue c). \<exists>j<k. pdu_cmdsn (pdu_at c i) = n + of_nat j)"

definition task_ok :: "scsi_task \<Rightarrow> bool" where
  "task_ok task \<longleftrightarrow> 0 \<le> sint (cdb_size task) \<and> sint (cdb_size task) \<le> 16 \<and> length (cdb task) = 16"

lemma task_ok_cong: "same_command a b \<Longrightarrow> task_ok a = task_ok b"
  by (simp add: same_command_def task_ok_def)

lemma none_behind:
  assumes "ready_for_commands n k c" "k < 2 ^ 31"
  shows "ahead (ctx_cmdsn c) c = ctx_outqueue c" "behind (ctx_cmdsn c) c = []"
proof -
  have "0 \<le> iscsi_serial32_compare (ctx_cmdsn c) (pdu_cmdsn (pdu_at c i))" if i: "i \<in> set (ctx_outqueue c)" for i
  proof -
    obtain j where j: "j < k" "pdu_cmdsn (pdu_at c i) = n + of_nat j" "ctx_cmdsn c = n + of_nat k"
      using assms(1) i unfolding ready_for_commands_def by blast
    have "iscsi_serial32_compare (ctx_cmdsn c) (pdu_cmdsn (pdu_at c i)) = sgn (int k - int j)"
      unfolding j(2,3) by (rule serial32_compare_window [OF assms(2) less_trans [OF j(1) assms(2)]])
    moreover have "sgn (int k - int j) = 1" using j(1) by (simp add: sgn_if)
    ultimately show ?thesis by simp
  qed
  then show "ahead (ctx_cmdsn c) c = ctx_outqueue c" "behind (ctx_cmdsn c) c = []"
    by (simp_all add: ahead_def behind_def)
qed

lemma ready_pdu_cong:
  assumes "ready_for_commands n k c" "c' = c\<lparr>ctx_tasks := ts, ctx_trace := tr, ctx_pending_reconnect := b\<rparr>"
  shows "ready_for_commands n k c'" "queued_commands c' = queued_commands c" "gapless c' = gapless c"
proof -
  have at: "pdu_at c' = pdu_at c" using assms(2) by (simp add: fun_eq_iff pdu_at_def)
  show "ready_for_commands n k c'" "queued_commands c' = queued_commands c" "gapless c' = gapless c"
    using assms(1) queues_ok_cong [of c' c] at unfolding ready_for_commands_def queued_commands_def gapless_def
    by (simp_all add: assms(2))
qed

lemma resend_command:
  assumes env: "env_ok env" "env_memory env" "\<forall>c. env_service env c = Some c"
    and c: "ready_for_commands n k c" "Suc k < 2 ^ 31" and t: "task_ok (ctx_tasks c t)"
  shows "\<exists>c'. iscsi_scsi_command_async env lun t cb NULL c = Some (0, c') \<and> ready_for_commands n (Suc k) c' \<and>
    queued_commands c' = queued_commands c @ [(Ptr t, cb)] \<and> ctx_trace c' = ctx_trace c \<and>
    (\<forall>x. same_command (ctx_tasks c' x) (ctx_tasks c x)) \<and> (gapless c \<longrightarrow> gapless c')"
proof -
  have r: "queues_ok c" "finite (dom (ctx_pdus c))" "ctx_session_type c = ISCSI_SESSION_NORMAL" "ctx_is_loggedin c"
    "ctx_target_max_recv_data_segment_length c \<noteq> 0" "ctx_cmdsn c = n + of_nat k"
    "\<forall>i \<in> set (ctx_outqueue c). \<exists>j<k. pdu_cmdsn (pdu_at c i) = n + of_nat j"
    using c(1) unfolding ready_for_commands_def by blast+
  note ab = none_behind [OF c(1)]
  obtain c' i p ks where s: "iscsi_scsi_command_async env lun t cb NULL c = Some (0, c')" "command_on_queue t cb c c' i p ks"
    using scsi_command_on_queue [OF env(1,2) r(2,3) _ r(1,5), of t lun cb NULL] r(4) t env(3)
    by (auto simp: not_written_yet_def task_ok_def)
  obtain itt ts m where c': "c' = c\<lparr>ctx_itt := itt, ctx_cmdsn := ctx_cmdsn c + 1, ctx_pdus := m, ctx_tasks := ts,
        ctx_outqueue := ctx_outqueue c @ i # ks\<rparr>" "\<forall>x. same_command (ts x) (ctx_tasks c x)"
    using s(2) ab c(2) unfolding command_on_queue_def Let_def by auto
  have o: "queues_ok c'" "ctx_pdus c i = None" "ctx_pdus c' i = Some p" "is_cmd p"
    "command_members t cb c (ctx_tasks c t) (ctx_itt c) (ctx_cmdsn c) p"
    "\<forall>x \<in> set ks. ctx_pdus c x = None \<and> belongs_to p 0xffffffff (pdu_at c' x)"
    "\<forall>x. x \<notin> set (i # ks) \<longrightarrow> ctx_pdus c' x = ctx_pdus c x"
    using s(2) unfolding command_on_queue_def Let_def by blast+
  have old: "pdu_at c' x = pdu_at c x" if "x \<in> set (ctx_outqueue c)" for x
  proof -
    have "x \<notin> set (i # ks)" using that o(2,6) queues_okD(4) [OF r(1)] by auto
    then show ?thesis using o(7) by (simp add: pdu_at_def)
  qed
  have p: "pdu_at c' i = p" using o(3) by (simp add: pdu_at_def)
  have data: "\<not> is_cmd (pdu_at c' x)" "pdu_cmdsn (pdu_at c' x) = pdu_cmdsn p" if "x \<in> set ks" for x
    using that o(6) by (simp_all add: is_cmd_def belongs_to_def)
  have "dom (ctx_pdus c') \<subseteq> dom (ctx_pdus c) \<union> set (i # ks)"
    using o(7) by (metis Un_iff domIff subsetI)
  then have "finite (dom (ctx_pdus c'))" using r(2) by (simp add: finite_subset)
  moreover have "\<exists>j<Suc k. pdu_cmdsn (pdu_at c' x) = n + of_nat j" if x: "x \<in> set (ctx_outqueue c')" for x
  proof (cases "x \<in> set (ctx_outqueue c)")
    case True
    then show ?thesis using r(7) old by (metis less_Suc_eq)
  next
    case False
    then have "pdu_cmdsn (pdu_at c' x) = pdu_cmdsn p" using x c'(1) data(2) p by auto
    then show ?thesis using o(5) r(6) by (auto simp: command_members_def)
  qed
  ultimately have "ready_for_commands n (Suc k) c'"
    using o(1) r c'(1) c(1) by (simp add: ready_for_commands_def)
  moreover have "queued_commands c' = queued_commands c @ [(Ptr t, cb)]"
    using c'(1) old data(1) p o(4,5) by (simp add: queued_commands_def command_members_def cong: filter_cong map_cong)
  moreover have "gapless c'" if "gapless c"
    using command_on_queue_gapless [OF s(2) r(1) _ that] ab(2) c(2) by simp
  ultimately show ?thesis using s(1) c' by (intro exI [of _ c']) simp
qed

section \<open>One PDU of the old session\<close>

text \<open>A command is sent again; what must not be sent again is cancelled, unless it has no tag.\<close>

definition resends :: "iscsi_pdu \<Rightarrow> bool" where
  "resends p \<longleftrightarrow> pdu_itt p \<noteq> 0xffffffff \<and> pdu_flags p AND ISCSI_PDU_DROP_ON_RECONNECT = 0"

definition drops :: "iscsi_pdu \<Rightarrow> bool" where
  "drops p \<longleftrightarrow> pdu_itt p \<noteq> 0xffffffff \<and> pdu_flags p AND ISCSI_PDU_DROP_ON_RECONNECT \<noteq> 0"

definition cancelled_event :: "iscsi_pdu \<Rightarrow> iscsi_event list" where
  "cancelled_event p =
     (case pdu_callback p of
        Ptr Scsi_response_cb \<Rightarrow>
          (case pdu_cbdata_callback p of NULL \<Rightarrow> [] | Ptr cb \<Rightarrow> [Callback cb SCSI_STATUS_CANCELLED])
      | Ptr (App_cb cb) \<Rightarrow> [Callback cb SCSI_STATUS_CANCELLED]
      | _ \<Rightarrow> [])"

lemma callback_of_old_cancels:
  assumes "pdu_ok p"
  shows "\<exists>ts b. callback_of_old SCSI_STATUS_CANCELLED p c =
      Some (c\<lparr>ctx_tasks := ts, ctx_trace := ctx_trace c @ cancelled_event p, ctx_pending_reconnect := b\<rparr>) \<and>
    (\<forall>x. same_command (ts x) (ctx_tasks c x))"
proof (cases "pdu_callback p = Ptr Scsi_response_cb")
  case True
  then obtain t where t: "pdu_cbdata_task p = Ptr t"
    using assms by (cases "pdu_cbdata_task p") (auto simp: pdu_ok_def)
  show ?thesis
    using True t
    by (intro exI [of _ "(ctx_tasks c)(t := (ctx_tasks c t)\<lparr>status := SCSI_STATUS_CANCELLED\<rparr>)"] exI [of _ "ctx_pending_reconnect c"])
      (simp add: callback_of_old_def iscsi_scsi_response_cb_def known_status_def Let_def task_modify_def cancelled_event_def
        same_command_def split: ptr.split)
next
  case False
  then show ?thesis
    by (intro exI [of _ "ctx_tasks c"] exI [of _ "pdu_callback p = Ptr Reconnect_after_logout_cb \<or> ctx_pending_reconnect c"])
      (auto simp: callback_of_old_def cancelled_event_def split: ptr.split iscsi_command_cb.split)
qed

definition freed :: "nat \<Rightarrow> iscsi_context \<Rightarrow> iscsi_context" where
  "freed i c = c\<lparr>ctx_pdus := (ctx_pdus c)(i := None),
     ctx_outqueue_current := (if ctx_outqueue_current c = Ptr i then NULL else ctx_outqueue_current c)\<rparr>"

lemma free_live: "ctx_pdus c i = Some p \<Longrightarrow> iscsi_tcp_free_pdu i c = Some (freed i c)"
  by (simp add: iscsi_tcp_free_pdu_def freed_def Let_def)

definition key_of :: "iscsi_pdu \<Rightarrow> nat ptr \<times> nat ptr" where
  "key_of p = (pdu_cbdata_task p, pdu_cbdata_callback p)"

definition requeue_ok :: "iscsi_context \<Rightarrow> iscsi_pdu \<Rightarrow> bool" where
  "requeue_ok c p \<longleftrightarrow> pdu_ok p \<and> (resends p \<longrightarrow> (\<exists>t. pdu_cbdata_task p = Ptr t \<and> task_ok (ctx_tasks c t)))"

lemma requeue_ok_cong: "\<forall>x. same_command (ctx_tasks c' x) (ctx_tasks c x) \<Longrightarrow> requeue_ok c' p = requeue_ok c p"
  using task_ok_cong by (auto simp: requeue_ok_def)

lemma requeue_one:
  assumes env: "env_ok env" "env_memory env" "\<forall>c. env_service env c = Some c"
    and p: "ctx_pdus old i = Some p" "requeue_ok c p" and c: "ready_for_commands n k c" "Suc k < 2 ^ 31" "gapless c"
  shows "\<exists>c'. requeue_step env i (old, c) = Some (freed i old, c') \<and>
    ready_for_commands n (if resends p then Suc k else k) c' \<and> gapless c' \<and>
    queued_commands c' = queued_commands c @ (if resends p then [key_of p] else []) \<and>
    ctx_trace c' = ctx_trace c @ (if drops p then cancelled_event p else []) \<and>
    (\<forall>x. same_command (ctx_tasks c' x) (ctx_tasks c x))"
proof -
  consider "pdu_itt p = 0xffffffff" | "drops p" | "resends p" by (auto simp: drops_def resends_def)
  then show ?thesis
  proof cases
    case 1
    then show ?thesis using c free_live [OF p(1)] p(1)
      by (intro exI [of _ c]) (simp add: requeue_step_def resends_def drops_def)
  next
    case 2
    obtain ts b where cb: "callback_of_old SCSI_STATUS_CANCELLED p c =
        Some (c\<lparr>ctx_tasks := ts, ctx_trace := ctx_trace c @ cancelled_event p, ctx_pending_reconnect := b\<rparr>)"
      "\<forall>x. same_command (ts x) (ctx_tasks c x)"
      using callback_of_old_cancels p(2) unfolding requeue_ok_def by blast
    let ?c = "c\<lparr>ctx_tasks := ts, ctx_trace := ctx_trace c @ cancelled_event p, ctx_pending_reconnect := b\<rparr>"
    have "\<not> resends p" using 2 by (simp add: drops_def resends_def)
    then show ?thesis
      using 2 cb c(3) free_live [OF p(1)] p(1) ready_pdu_cong [OF c(1), of ?c]
      by (intro exI [of _ ?c]) (simp add: requeue_step_def drops_def)
  next
    case 3
    then obtain t where t: "pdu_cbdata_task p = Ptr t" "task_ok (ctx_tasks c t)"
      using p(2) by (auto simp: requeue_ok_def)
    define c1 where "c1 = task_modify t (\<lambda>task. task\<lparr>iovector_in := scsi_task_reset_iov (iovector_in task),
      iovector_out := scsi_task_reset_iov (iovector_out task)\<rparr>) c"
    have same: "\<forall>x. same_command (ctx_tasks c1 x) (ctx_tasks c x)" by (simp add: c1_def task_modify_def same_command_def)
    have c1: "ready_for_commands n k c1" "queued_commands c1 = queued_commands c" "gapless c1" "ctx_trace c1 = ctx_trace c"
      using ready_pdu_cong [OF c(1), where c' = c1 and ts = "ctx_tasks c1" and tr = "ctx_trace c" and b = "ctx_pending_reconnect c"] c(3)
      by (simp_all add: c1_def task_modify_def)
    have "task_ok (ctx_tasks c1 t)" using t(2) same task_ok_cong by blast
    then obtain c' where c': "iscsi_scsi_command_async env (pdu_lun p) t (pdu_cbdata_callback p) NULL c1 = Some (0, c')"
      "ready_for_commands n (Suc k) c'" "queued_commands c' = queued_commands c1 @ [(Ptr t, pdu_cbdata_callback p)]"
      "ctx_trace c' = ctx_trace c1" "\<forall>x. same_command (ctx_tasks c' x) (ctx_tasks c1 x)" "gapless c'"
      using resend_command [OF env c1(1) c(2)] c1(3) by blast
    have "\<forall>x. same_command (ctx_tasks c' x) (ctx_tasks c x)" using c'(5) same by (simp add: same_command_def)
    then show ?thesis
      using 3 c' c1(2,4) t(1) free_live [OF p(1)] p(1)
      by (intro exI [of _ c']) (simp add: requeue_step_def resends_def drops_def key_of_def c1_def [symmetric])
  qed
qed

section \<open>All of them\<close>

lemma requeue_all:
  assumes env: "env_ok env" "env_memory env" "\<forall>c. env_service env c = Some c"
    and q: "distinct q" "\<forall>i \<in> set q. ctx_pdus old i = Some (f i) \<and> requeue_ok c (f i)"
    and c: "ready_for_commands n k c" "k + length q < 2 ^ 31" "gapless c"
  shows "\<exists>c'. mfold (requeue_step env) q (old, c) = Some (fold freed q old, c') \<and>
    ready_for_commands n (k + length (filter resends (map f q))) c' \<and> gapless c' \<and>
    queued_commands c' = queued_commands c @ map key_of (filter resends (map f q)) \<and>
    ctx_trace c' = ctx_trace c @ concat (map cancelled_event (filter drops (map f q)))"
  using q c
proof (induction q arbitrary: old c k)
  case Nil
  then show ?case by (intro exI [of _ c]) simp
next
  case (Cons i q)
  let ?k = "if resends (f i) then Suc k else k"
  have i: "ctx_pdus old i = Some (f i)" "requeue_ok c (f i)" "Suc k < 2 ^ 31" using Cons.prems by simp_all
  obtain c1 where c1: "requeue_step env i (old, c) = Some (freed i old, c1)" "ready_for_commands n ?k c1" "gapless c1"
    "queued_commands c1 = queued_commands c @ (if resends (f i) then [key_of (f i)] else [])"
    "ctx_trace c1 = ctx_trace c @ (if drops (f i) then cancelled_event (f i) else [])"
    "\<forall>x. same_command (ctx_tasks c1 x) (ctx_tasks c x)"
    using requeue_one [OF env i(1,2) Cons.prems(3) i(3) Cons.prems(5)] by blast
  have "\<forall>j \<in> set q. ctx_pdus (freed i old) j = Some (f j) \<and> requeue_ok c1 (f j)"
    using Cons.prems(1,2) requeue_ok_cong [OF c1(6)] by (auto simp: freed_def)
  moreover have "?k + length q < 2 ^ 31" using Cons.prems(4) by simp
  ultimately obtain c' where c': "mfold (requeue_step env) q (freed i old, c1) = Some (fold freed q (freed i old), c')"
    "ready_for_commands n (?k + length (filter resends (map f q))) c'" "gapless c'"
    "queued_commands c' = queued_commands c1 @ map key_of (filter resends (map f q))"
    "ctx_trace c' = ctx_trace c1 @ concat (map cancelled_event (filter drops (map f q)))"
    using Cons.IH [of "freed i old" c1 ?k] Cons.prems(1) c1(2,3) by auto
  then show ?case
    using c1(1,4,5) by (intro exI [of _ c']) (cases "resends (f i)"; cases "drops (f i)"; simp)
qed

lemma fold_freed:
  "ctx_outqueue_current (fold freed q old) = Ptr j \<longleftrightarrow> ctx_outqueue_current old = Ptr j \<and> j \<notin> set q"
  "j \<notin> set q \<Longrightarrow> ctx_pdus (fold freed q old) j = ctx_pdus old j"
  by (induction q arbitrary: old) (auto simp: freed_def)

lemma abandon_old_defined:
  assumes "\<forall>i. ctx_outqueue_current old = Ptr i \<longrightarrow> ctx_pdus old i \<noteq> None"
  shows "abandon_old old \<noteq> None"
  using assms by (cases "ctx_outqueue_current old") (auto simp: abandon_old_def iscsi_tcp_free_pdu_def Let_def)

lemma counts_up_nth: "counts_up s xs e \<Longrightarrow> xs = map (\<lambda>j. s + of_nat j) [0..<length xs] \<and> e = s + of_nat (length xs)"
proof (induction xs arbitrary: s)
  case (Cons x xs)
  then have "xs = map (\<lambda>j. s + 1 + of_nat j) [0..<length xs]" "e = s + 1 + of_nat (length xs)" "x = s" by auto
  moreover have "map (\<lambda>j. s + of_nat j) [0..<length (x # xs)] = s # map (\<lambda>j. s + 1 + of_nat j) [0..<length xs]"
    by (simp add: upt_conv_Cons map_Suc_upt [symmetric] comp_def ac_simps del: upt_Suc)
  ultimately show ?case by (metis length_Cons of_nat_Suc add.assoc)
qed simp

lemma gapless_numbers:
  assumes "gapless c" "ready_for_commands n k c" "length (queued_commands c) = k"
  shows "cmd_sns (pdu_at c) (ctx_outqueue c) = map (\<lambda>j. n + of_nat j) [0..<k]"
proof -
  obtain s where s: "counts_up s (cmd_sns (pdu_at c) (ctx_outqueue c)) (ctx_cmdsn c)"
    using assms(1) by (auto simp: gapless_def)
  moreover have l: "length (cmd_sns (pdu_at c) (ctx_outqueue c)) = k"
    using assms(3) by (simp add: cmd_sns_def queued_commands_def)
  moreover have "ctx_cmdsn c = n + of_nat k" using assms(2) by (simp add: ready_for_commands_def)
  ultimately have "s = n" using counts_up_nth [OF s] by simp
  then show ?thesis using counts_up_nth [OF s] l by simp
qed

section \<open>The time to the next try\<close>

lemma sint_of_range: "- (2 ^ 31) \<le> k \<Longrightarrow> k < 2 ^ 31 \<Longrightarrow> sint (of_int k :: cint) = k"
  by (simp add: signed_of_int signed_take_bit_int_eq_self)

lemma sint_Suc: "0 \<le> sint (r :: cint) \<Longrightarrow> sint r < 2 ^ 31 - 1 \<Longrightarrow> sint (r + 1) = sint r + 1"
  using sint_of_range [of "sint r + 1"] by simp

lemma reconnect_backoff_bounds:
  assumes "1 \<le> sint r" "sint r < 2 ^ 31 - 10"
  shows "0 \<le> sint (reconnect_backoff r x m) \<and> sint (reconnect_backoff r x m) \<le> 30 \<and>
    (sint r \<le> 10 \<and> m = -1 \<longrightarrow> sint (reconnect_backoff r x m) = sint r)"
proof -
  define u where "u = uint (x mod 10)"
  have x: "u < 10" "0 \<le> u" by (simp_all add: u_def uint_mod)
  have "sint (r + x mod 10 - 5) = sint r + u - 5" if "10 < sint r"
    using sint_of_range [of "sint r + u - 5"] that assms(2) x by (simp add: u_def)
  then show ?thesis using assms x by (simp add: reconnect_backoff_def Let_def)
qed

lemma redirect_fails:
  assumes "lg_target_address (ctx_login iscsi) \<noteq> []" "iscsi_disconnect iscsi = (x, c)"
    "iscsi_connect_async env net (lg_target_address (ctx_login iscsi)) (Iscsi_connect_cb ct) (old, c) = (-1, old, c)"
  shows "iscsi_login_cb env net t w SCSI_STATUS_REDIRECT ct (old, iscsi) = Some (Connect_over, old, c)"
proof -
  have "(SCSI_STATUS_REDIRECT :: cint) = SCSI_STATUS_REDIRECT \<and> lg_target_address (ctx_login iscsi) \<noteq> []" using assms(1) by blast
  then show ?thesis
    by (simp only: iscsi_login_cb_def split_conv Let_def if_P assms(2,3)) simp
qed

section \<open>Properties\<close>


definition demo_new :: iscsi_context where
  "demo_new = zero_context\<lparr>ctx_session_type := ISCSI_SESSION_NORMAL, ctx_is_loggedin := True, ctx_cmdsn := 5,
     ctx_has_old_iscsi := True, ctx_pending_reconnect := True, ctx_target_max_recv_data_segment_length := 8,
     ctx_tasks := (\<lambda>_. zero_task\<lparr>cdb_size := 6\<rparr>)\<rparr>"

definition demo_net :: net_env where
  "demo_net = \<lparr>net_resolve = \<lambda>_. NULL, net_socket = \<lambda>_. 3, net_dup2 = \<lambda>_ _. True, net_nonblocking = \<lambda>_. True,
     net_connect = \<lambda>_ _. True, net_so_error = \<lambda>_. False\<rparr>"

definition demo_old :: iscsi_context where
  "demo_old = zero_context\<lparr>
     ctx_pdus := [7 \<mapsto> zero_pdu\<lparr>pdu_itt := 1, pdu_outdata := \<lparr>data_bytes = replicate 48 0, data_size = 48\<rparr>,
         pdu_callback := Ptr Scsi_response_cb, pdu_cbdata_task := Ptr 2, pdu_cbdata_callback := Ptr 30\<rparr>,
       8 \<mapsto> zero_pdu\<lparr>pdu_itt := 2, pdu_flags := ISCSI_PDU_DROP_ON_RECONNECT,
         pdu_outdata := \<lparr>data_bytes = replicate 48 0, data_size = 48\<rparr>, pdu_callback := Ptr (App_cb 31)\<rparr>],
     ctx_waitpdu := [7], ctx_outqueue := [8]\<rparr>"


text \<open>
  C28: after a failed try to reconnect nothing of either session changes but the count of the tries and
  the time of the next one, which is at most 30 seconds away: as many seconds as tries have failed up to
  ten, later up to five more or less, and at once when no try is left.
\<close>

theorem iscsi_reconnect_cb_backs_off:
  assumes "st \<noteq> SCSI_STATUS_GOOD" "0 \<le> sint (lg_retry_cnt (ctx_login old))" "sint (lg_retry_cnt (ctx_login old)) < 2 ^ 31 - 20"
  shows "\<exists>k d. iscsi_reconnect_cb env st (Ptr old, iscsi) =
      Some (Ptr (lg_modify (\<lambda>l. l\<lparr>lg_retry_cnt := lg_retry_cnt l + 1\<rparr>) old),
        let c = lg_modify (\<lambda>l. l\<lparr>lg_random := k\<rparr>) iscsi
        in c\<lparr>ctx_next_reconnect := env_time env c + d, ctx_pending_reconnect := True\<rparr>) \<and>
    0 \<le> d \<and> d \<le> 30 \<and>
    (sint (lg_retry_cnt (ctx_login old)) < 10 \<and> lg_reconnect_max_retries (ctx_login iscsi) = -1 \<longrightarrow>
       d = sint (lg_retry_cnt (ctx_login old)) + 1)"
proof -
  let ?r = "lg_retry_cnt (ctx_login old) + 1" and ?n = "lg_random (ctx_login iscsi)"
    and ?m = "lg_reconnect_max_retries (ctx_login iscsi)"
  let ?d = "sint (reconnect_backoff ?r (env_rand env ?n) ?m)"
  have r: "sint ?r = sint (lg_retry_cnt (ctx_login old)) + 1" by (rule sint_Suc) (use assms(2,3) in simp_all)
  have id: "lg_modify (\<lambda>l. l\<lparr>lg_random := ?n\<rparr>) iscsi = iscsi" by (simp add:)
  have "0 \<le> ?d \<and> ?d \<le> 30 \<and> (sint ?r \<le> 10 \<and> ?m = -1 \<longrightarrow> ?d = sint ?r)"
    by (rule reconnect_backoff_bounds) (use r assms(2,3) in simp_all)
  then show ?thesis
    using assms(1) r
    by (intro exI [of _ "if sint ?r > 10 then ?n + 1 else ?n"] exI [of _ ?d])
      (auto simp: iscsi_reconnect_cb_def Let_def id)
qed

theorem iscsi_reconnect_cb_backs_off_witness:
  "\<exists>k d. iscsi_reconnect_cb fresh_env SCSI_STATUS_ERROR (Ptr demo_old, demo_new) =
      Some (Ptr (lg_modify (\<lambda>l. l\<lparr>lg_retry_cnt := lg_retry_cnt l + 1\<rparr>) demo_old),
        let c = lg_modify (\<lambda>l. l\<lparr>lg_random := k\<rparr>) demo_new
        in c\<lparr>ctx_next_reconnect := env_time fresh_env c + d, ctx_pending_reconnect := True\<rparr>) \<and> 0 \<le> d \<and> d \<le> 30"
  using iscsi_reconnect_cb_backs_off [of SCSI_STATUS_ERROR demo_old fresh_env demo_new]
  by (simp add: demo_old_def zero_context_def zero_login_def) blast

text \<open>
  when no try is left, \<open>iscsi_reconnect\<close> gives up with an error and cancels what was queued since, but
  not the commands of the old session, which keep waiting: nobody calls their callbacks.
\<close>

theorem iscsi_reconnect_keeps_old_commands:
  assumes "\<not> lg_reconnect_deferred (ctx_login iscsi)" "\<not> lg_no_auto_reconnect (ctx_login iscsi)"
    and "ctx_pending_reconnect iscsi" "ctx_next_reconnect iscsi \<le> env_time env iscsi"
    and "lg_reconnect_max_retries (ctx_login iscsi) \<noteq> -1"
    and "sint (lg_reconnect_max_retries (ctx_login iscsi)) < sint (lg_retry_cnt (ctx_login old))"
    and "ctx_outqueue iscsi = []" "ctx_waitpdu iscsi = []"
  shows "\<exists>iscsi'. iscsi_reconnect env net ge (Ptr old, iscsi) = Some (-1, Ptr old, iscsi') \<and>
    ctx_trace iscsi' = ctx_trace iscsi \<and> lg_reconnect_deferred (ctx_login iscsi')"
  using assms by (simp add: iscsi_reconnect_def reconnect_def Let_def iscsi_defer_reconnect_def iscsi_cancel_pdus_def)

theorem iscsi_reconnect_keeps_old_commands_witness:
  "\<exists>iscsi'. iscsi_reconnect fresh_env demo_net (\<lambda>_. NULL)
     (Ptr (lg_modify (\<lambda>l. l\<lparr>lg_retry_cnt := 4\<rparr>) demo_old), lg_modify (\<lambda>l. l\<lparr>lg_reconnect_max_retries := 3\<rparr>) demo_new) =
       Some (-1, Ptr (lg_modify (\<lambda>l. l\<lparr>lg_retry_cnt := 4\<rparr>) demo_old), iscsi') \<and> ctx_trace iscsi' = []"
  using iscsi_reconnect_keeps_old_commands [of "lg_modify (\<lambda>l. l\<lparr>lg_reconnect_max_retries := 3\<rparr>) demo_new" fresh_env
      "lg_modify (\<lambda>l. l\<lparr>lg_retry_cnt := 4\<rparr>) demo_old" demo_net "\<lambda>_. NULL"]
  by (simp add: demo_new_def demo_old_def zero_context_def zero_login_def fresh_env_def demo_env_def) blast

text \<open>
  when the login is redirected to a portal that cannot be connected to, the connect is over without
  a callback: the one who asked for it is never told.
\<close>

theorem iscsi_login_cb_redirect_lost:
  assumes "lg_target_address (ctx_login iscsi) \<noteq> []"
    and "\<forall>a p. parse_portal (lg_target_address (ctx_login iscsi)) = Ptr (a, p) \<longrightarrow> net_resolve net a = NULL"
  shows "\<exists>iscsi'. iscsi_login_cb env net t w SCSI_STATUS_REDIRECT ct (old, iscsi) = Some (Connect_over, old, iscsi') \<and>
    ctx_trace iscsi' = ctx_trace iscsi \<and> cn_socket_status_cb (ctx_conn iscsi') = cn_socket_status_cb (ctx_conn iscsi)"
proof -
  let ?c = "snd (iscsi_disconnect iscsi)"
  have c: "ctx_trace ?c = ctx_trace iscsi" "ctx_conn ?c = ctx_conn iscsi"
    by (simp_all add: iscsi_disconnect_def iscsi_tcp_disconnect_def)
  have "iscsi_connect_async env net (lg_target_address (ctx_login iscsi)) cb (old, ?c) = (-1, old, ?c)" for cb
  proof (cases "parse_portal (lg_target_address (ctx_login iscsi))")
    case (Ptr x)
    then obtain a p where "parse_portal (lg_target_address (ctx_login iscsi)) = Ptr (a, p)" by (cases x) simp
    then show ?thesis using assms(2) by (simp add: iscsi_connect_async_def)
  qed (simp add: iscsi_connect_async_def)
  moreover obtain x where "iscsi_disconnect iscsi = (x, ?c)" by (cases "iscsi_disconnect iscsi") simp
  ultimately have "iscsi_login_cb env net t w SCSI_STATUS_REDIRECT ct (old, iscsi) = Some (Connect_over, old, ?c)"
    using redirect_fails [OF assms(1)] by metis
  then show ?thesis by (intro exI [of _ ?c] conjI) (simp_all only: c)
qed

theorem iscsi_login_cb_redirect_lost_witness:
  "\<exists>iscsi'. iscsi_login_cb fresh_env demo_net 5 6 SCSI_STATUS_REDIRECT
     \<lparr>ct_cb = App_connect_cb 9, ct_lun = 1, ct_num_uas = 0\<rparr>
     (NULL, lg_modify (\<lambda>l. l\<lparr>lg_target_address := cstr ''h2:3260''\<rparr>) demo_new) = Some (Connect_over, NULL, iscsi') \<and>
   ctx_trace iscsi' = []"
  using iscsi_login_cb_redirect_lost [of "lg_modify (\<lambda>l. l\<lparr>lg_target_address := cstr ''h2:3260''\<rparr>) demo_new"
      demo_net fresh_env 5 6 "\<lparr>ct_cb = App_connect_cb 9, ct_lun = 1, ct_num_uas = 0\<rparr>" NULL]
  by (simp add: demo_net_def demo_new_def zero_context_def cstr_def) blast

end
