(* ===== verification/Iscsi_Sync.thy ===== *)
theory Iscsi_Sync
  imports Iscsi_Connect Iscsi_Discovery
begin

text \<open>
  The synchronous calls of \<open>lib/sync.c\<close> without the SCSI commands: each starts an operation and runs
  \<open>event_loop\<close> until its callback has been called. \<open>struct iscsi_sync_state\<close> is the number of that
  callback, its call is an event of the trace; the loop is the one place where the library runs by itself,
  so it also hands the results of the connect's own operations to the callbacks of \<open>lib/connect.c\<close>.
  Multithreading is off.
\<close>

section \<open>Servicing a session\<close>

text \<open>
  The surroundings: those of each round of the loop, the result of \<open>poll\<close> (NULL for an error), the
  addresses of new tasks, and the numbers of the callbacks: of the synchronous call and of the connect.
\<close>

record sync_env =
  sy_env :: "nat \<Rightarrow> iscsi_env"
  sy_net :: net_env
  sy_getenv :: "string \<Rightarrow> bytes ptr"
  sy_poll :: "nat \<Rightarrow> session \<Rightarrow> revents ptr"
  sy_task :: "nat \<Rightarrow> nat"
  sy_cb :: nat
  sy_connect :: nat

type_synonym sync_state = "connect_next \<times> session"

fun event_cb :: "iscsi_event \<Rightarrow> nat" where
  "event_cb (Callback cb _) = cb"
| "event_cb (Callback_data cb _ _) = cb"
| "event_cb (Callback_response cb _ _) = cb"
| "event_cb (Callback_targets cb _ _) = cb"

fun event_status :: "iscsi_event \<Rightarrow> cint" where
  "event_status (Callback _ st) = st"
| "event_status (Callback_data _ st _) = st"
| "event_status (Callback_response _ st _) = st"
| "event_status (Callback_targets _ st _) = st"

text \<open>The first call of a callback since the trace had \<open>n\<close> events.\<close>

definition answer :: "nat \<Rightarrow> nat \<Rightarrow> session \<Rightarrow> iscsi_event ptr" where
  "answer cb n s = (case find (\<lambda>e. event_cb e = cb) (drop n (ctx_trace (snd s))) of None \<Rightarrow> NULL | Some e \<Rightarrow> Ptr e)"

text \<open>What the connect waited for has come.\<close>

definition connect_step :: "sync_env \<Rightarrow> nat \<Rightarrow> cint \<Rightarrow> sync_state \<Rightarrow> sync_state option" where
  "connect_step sy k st = (\<lambda>(next, s).
     let env = sy_env sy k; t = sy_task sy k; w = sy_connect sy
     in case next of
          Connect_waits On_login ct \<Rightarrow> iscsi_login_cb env (sy_net sy) t w st ct s
        | Connect_waits (On_ready a) ct \<Rightarrow> iscsi_testunitready_cb env t w st a ct s
        | Connect_waits (On_inquiry a) ct \<Rightarrow> iscsi_inquiry_page_0x0_cb env t w st a ct s
        | Connect_waits (On_serial a) ct \<Rightarrow> iscsi_inquiry_page_0x80_cb env st a ct s
        | _ \<Rightarrow> Some (next, s))"

definition service_round :: "sync_env \<Rightarrow> nat \<Rightarrow> revents \<Rightarrow> sync_state \<Rightarrow> (int \<times> sync_state) option" where
  "service_round sy k ev = (\<lambda>(next, s). do {
     let n = length (ctx_trace (snd s));
     (r, started, s) \<leftarrow> iscsi_service (sy_env sy k) (sy_net sy) (sy_getenv sy) (sy_connect sy) ev s;
     let next = (if started = Connect_over then next else started);
     z \<leftarrow> (case answer (sy_connect sy) n s of
            NULL \<Rightarrow> Some (next, s)
          | Ptr e \<Rightarrow> connect_step sy k (event_status e) (next, s));
     Some (r, z)
   })"

section \<open>The event loops\<close>

definition round_time :: "sync_env \<Rightarrow> nat \<Rightarrow> session \<Rightarrow> int" where
  "round_time sy k s = env_time (sy_env sy k) (snd s)"

text \<open>
  One round: it goes on, or the loop is left with an error (\<open>state->status = -1\<close>). A limit of 0 is none.
\<close>

definition loop_round :: "sync_env \<Rightarrow> int \<Rightarrow> nat \<Rightarrow> sync_state \<Rightarrow> (bool \<times> sync_state) option" where
  "loop_round sy limit k = (\<lambda>(next, s).
     let now = round_time sy k s
     in if limit \<noteq> 0 \<and> limit < now then do {
          s \<leftarrow> on_both (iscsi_timeout_scan now) s;
          Some (False, next, s)
        }
        else case sy_poll sy k s of
          NULL \<Rightarrow> Some (False, next, s)
        | Ptr ev \<Rightarrow> do {
            (r, z) \<leftarrow> service_round sy k ev (next, s);
            Some (0 \<le> r \<and> 0 \<le> ctx_fd (snd (snd z)), z)
          })"

text \<open>
  The result: the status (-1 for an error), the call of the callback if there was one, and the state.
\<close>

partial_function (option) event_rounds ::
  "sync_env \<Rightarrow> int \<Rightarrow> nat \<Rightarrow> nat \<Rightarrow> sync_state \<Rightarrow> ((cint \<times> iscsi_event ptr) \<times> sync_state) option" where
  "event_rounds sy limit n k z =
     (case answer (sy_cb sy) n (snd z) of
        Ptr e \<Rightarrow> Some ((event_status e, Ptr e), z)
      | NULL \<Rightarrow> do {
          (ok, z) \<leftarrow> loop_round sy limit k z;
          if ok then event_rounds sy limit n (k + 1) z
          else Some ((-1, answer (sy_cb sy) n (snd z)), z)
        })"

text \<open>\<open>int scsi_timeout = time(NULL) + iscsi->scsi_timeout\<close>: the sum is cut to 32 bits.\<close>

definition loop_limit :: "sync_env \<Rightarrow> session \<Rightarrow> int" where
  "loop_limit sy s =
     (let timeout = ctx_scsi_timeout (snd s)
      in if timeout \<noteq> 0 then sint (word_of_int (round_time sy 0 s + timeout) :: cint) else 0)"

definition event_loop :: "sync_env \<Rightarrow> nat \<Rightarrow> sync_state \<Rightarrow> ((cint \<times> iscsi_event ptr) \<times> sync_state) option" where
  "event_loop sy n z = event_rounds sy (loop_limit sy (snd z)) n 0 z"

text \<open>Without anything to poll for, \<open>sleep(1)\<close>.\<close>

partial_function (option) reconnect_event_loop :: "sync_env \<Rightarrow> nat \<Rightarrow> sync_state \<Rightarrow> (cint \<times> sync_state) option" where
  "reconnect_event_loop sy k z =
     (if fst (snd z) = NULL then Some (0, z)
      else do {
        (i, out) \<leftarrow> iscsi_tcp_which_events (sy_env sy k) (snd (snd z));
        if \<not> i \<and> \<not> out then reconnect_event_loop sy (k + 1) z
        else case sy_poll sy k (snd z) of
          NULL \<Rightarrow> Some (-1, z)
        | Ptr ev \<Rightarrow> do {
            (r, z) \<leftarrow> service_round sy k ev z;
            if r < 0 then Some (-1, z) else reconnect_event_loop sy (k + 1) z
          }
      })"

section \<open>Connecting, logging in and out\<close>

type_synonym sync_result = "(int \<times> sync_state) option"

definition good :: "cint \<Rightarrow> int" where
  "good st = (if st = SCSI_STATUS_GOOD then 0 else -1)"

text \<open>An operation on the session is started, and its callback is waited for.\<close>

definition sync_call ::
  "sync_env \<Rightarrow> (session \<Rightarrow> (int \<times> session) option) \<Rightarrow> (cint \<times> iscsi_event ptr \<Rightarrow> sync_state \<Rightarrow> sync_result) \<Rightarrow>
   sync_state \<Rightarrow> sync_result" where
  "sync_call sy start end = (\<lambda>(next, s). do {
     let n = length (ctx_trace (snd s));
     (r, s) \<leftarrow> start s;
     if r \<noteq> 0 then Some (-1, next, s)
     else do {
       (res, z) \<leftarrow> event_loop sy n (next, s);
       end res z
     }
   })"

definition on_session :: "(iscsi_context \<Rightarrow> iscsi_context option) \<Rightarrow> sync_state \<Rightarrow> sync_state option" where
  "on_session f = (\<lambda>(next, old, iscsi). do { iscsi \<leftarrow> f iscsi; Some (next, old, iscsi) })"

definition cancel_unless_good :: "cint \<Rightarrow> sync_state \<Rightarrow> sync_result" where
  "cancel_unless_good st z = do {
     z \<leftarrow> (if st \<noteq> SCSI_STATUS_GOOD then on_session iscsi_cancel_pdus z else Some z);
     Some (good st, z)
   }"

definition clear_connect_data :: "iscsi_context \<Rightarrow> iscsi_context" where
  "clear_connect_data = cn_modify (\<lambda>n. n\<lparr>cn_socket_status_cb :=
     (case cn_socket_status_cb n of NULL \<Rightarrow> NULL | Ptr _ \<Rightarrow> Ptr Cleared_cb)\<rparr>)"

definition iscsi_connect_sync :: "sync_env \<Rightarrow> bytes \<Rightarrow> sync_state \<Rightarrow> sync_result" where
  "iscsi_connect_sync sy portal =
     sync_call sy (\<lambda>s. Some (iscsi_connect_async (sy_env sy 0) (sy_net sy) portal (App_status_cb (sy_cb sy)) s))
       (\<lambda>(st, _) z. do {
          z \<leftarrow> on_session (\<lambda>c. Some (clear_connect_data c)) z;
          cancel_unless_good st z
        })"

definition iscsi_full_connect_sync :: "sync_env \<Rightarrow> bytes \<Rightarrow> cint \<Rightarrow> sync_state \<Rightarrow> sync_result" where
  "iscsi_full_connect_sync sy portal lun =
     sync_call sy (\<lambda>s. Some (iscsi_full_connect_async (sy_env sy 0) (sy_net sy) portal lun (App_connect_cb (sy_cb sy)) s))
       (\<lambda>(st, _). cancel_unless_good st)"

definition iscsi_login_sync :: "sync_env \<Rightarrow> sync_state \<Rightarrow> sync_result" where
  "iscsi_login_sync sy =
     sync_call sy (on_context (iscsi_login_async (sy_env sy 0) (Ptr (App_cb (sy_cb sy))))) (\<lambda>(st, _) z. Some (good st, z))"

definition iscsi_logout_sync :: "sync_env \<Rightarrow> sync_state \<Rightarrow> sync_result" where
  "iscsi_logout_sync sy =
     sync_call sy (on_context (iscsi_logout_async (sy_env sy 0) (Ptr (App_cb (sy_cb sy))))) (\<lambda>(st, _) z. Some (good st, z))"

definition reconnect_then_wait ::
  "sync_env \<Rightarrow> (session \<Rightarrow> (int \<times> session) option) \<Rightarrow> sync_state \<Rightarrow> sync_result" where
  "reconnect_then_wait sy start = (\<lambda>(next, s). do {
     (r, s) \<leftarrow> start s;
     if r \<noteq> 0 then Some (-1, next, s)
     else do {
       (st, z) \<leftarrow> reconnect_event_loop sy 0 (next, s);
       Some (good st, z)
     }
   })"

definition iscsi_reconnect_sync :: "sync_env \<Rightarrow> sync_state \<Rightarrow> sync_result" where
  "iscsi_reconnect_sync sy = reconnect_then_wait sy (iscsi_reconnect (sy_env sy 0) (sy_net sy) (sy_getenv sy))"

definition iscsi_force_reconnect_sync :: "sync_env \<Rightarrow> sync_state \<Rightarrow> sync_result" where
  "iscsi_force_reconnect_sync sy = reconnect_then_wait sy (iscsi_force_reconnect (sy_env sy 0) (sy_net sy) (sy_getenv sy))"

section \<open>Task management\<close>

text \<open>A function that the target has answered with a response other than 0 has failed.\<close>

definition iscsi_task_mgmt_sync_cb :: "cint \<Rightarrow> iscsi_event ptr \<Rightarrow> cint" where
  "iscsi_task_mgmt_sync_cb st e =
     (case e of Ptr (Callback_response _ _ r) \<Rightarrow> if st \<noteq> -1 \<and> r \<noteq> 0 then SCSI_STATUS_ERROR else st | _ \<Rightarrow> st)"

definition iscsi_task_mgmt_sync :: "sync_env \<Rightarrow> u32 \<Rightarrow> u8 \<Rightarrow> u32 \<Rightarrow> u32 \<Rightarrow> sync_state \<Rightarrow> sync_result" where
  "iscsi_task_mgmt_sync sy lun function ritt rcmdsn =
     sync_call sy (on_context (iscsi_task_mgmt_async (sy_env sy 0) lun function ritt rcmdsn (Ptr (App_cb (sy_cb sy)))))
       (\<lambda>(st, e) z. Some (good (iscsi_task_mgmt_sync_cb st e), z))"

definition iscsi_task_mgmt_abort_task_sync :: "sync_env \<Rightarrow> nat \<Rightarrow> sync_state \<Rightarrow> sync_result" where
  "iscsi_task_mgmt_abort_task_sync sy t z =
     (let task = ctx_tasks (snd (snd z)) t
      in iscsi_task_mgmt_sync sy (task_lun task) ISCSI_TM_ABORT_TASK (task_itt task) (task_cmdsn task) z)"

definition cancel_all_then :: "(sync_state \<Rightarrow> sync_result) \<Rightarrow> sync_state \<Rightarrow> sync_result" where
  "cancel_all_then f = (\<lambda>(next, old, iscsi). do {
     s \<leftarrow> iscsi_scsi_cancel_all_tasks old iscsi;
     f (next, s)
   })"

definition iscsi_task_mgmt_abort_task_set_sync :: "sync_env \<Rightarrow> u32 \<Rightarrow> sync_state \<Rightarrow> sync_result" where
  "iscsi_task_mgmt_abort_task_set_sync sy lun =
     cancel_all_then (iscsi_task_mgmt_sync sy lun ISCSI_TM_ABORT_TASK_SET 0xffffffff 0)"

definition iscsi_task_mgmt_lun_reset_sync :: "sync_env \<Rightarrow> u32 \<Rightarrow> sync_state \<Rightarrow> sync_result" where
  "iscsi_task_mgmt_lun_reset_sync sy lun =
     cancel_all_then (iscsi_task_mgmt_sync sy lun ISCSI_TM_LUN_RESET 0xffffffff 0)"

definition iscsi_task_mgmt_target_warm_reset_sync :: "sync_env \<Rightarrow> sync_state \<Rightarrow> sync_result" where
  "iscsi_task_mgmt_target_warm_reset_sync sy =
     cancel_all_then (iscsi_task_mgmt_sync sy 0 ISCSI_TM_TARGET_WARM_RESET 0xffffffff 0)"

definition iscsi_task_mgmt_target_cold_reset_sync :: "sync_env \<Rightarrow> sync_state \<Rightarrow> sync_result" where
  "iscsi_task_mgmt_target_cold_reset_sync sy =
     cancel_all_then (iscsi_task_mgmt_sync sy 0 ISCSI_TM_TARGET_COLD_RESET 0xffffffff 0)"

section \<open>Discovery\<close>

text \<open>
  \<open>iscsi_discovery_cb\<close> copies the targets and their portals, each list in reverse order; the allocations
  are not checked. The empty list is NULL.
\<close>

type_synonym targets = "(bytes \<times> bytes list) list"

definition iscsi_discovery_cb :: "bool \<Rightarrow> iscsi_event ptr \<Rightarrow> targets option" where
  "iscsi_discovery_cb m e =
     (case e of
        Ptr (Callback_targets _ _ ts) \<Rightarrow>
          if m \<or> ts = [] then Some (rev (map (\<lambda>(name, portals). (name, rev portals)) ts)) else None
      | _ \<Rightarrow> Some [])"

definition iscsi_discovery_sync :: "sync_env \<Rightarrow> sync_state \<Rightarrow> (targets \<times> sync_state) option" where
  "iscsi_discovery_sync sy = (\<lambda>(next, s). do {
     let n = length (ctx_trace (snd s));
     (r, s) \<leftarrow> on_context (iscsi_discovery_async (sy_env sy 0) (Ptr (App_cb (sy_cb sy)))) s;
     if r \<noteq> 0 then Some ([], next, s)
     else do {
       ((_, e), z) \<leftarrow> event_loop sy n (next, s);
       ts \<leftarrow> iscsi_discovery_cb (env_malloc (sy_env sy 0) (snd (snd z))) e;
       Some (ts, z)
     }
   })"

section \<open>SCSI commands\<close>

type_synonym sync_task = "sync_state \<Rightarrow> (nat ptr \<times> sync_state) option"

text \<open>
  A command is submitted and waited for: the task, or NULL when it was not submitted or not answered.
  \<open>scsi_sync_cb\<close> stores the status in the task a second time.
\<close>

definition scsi_sync :: "sync_env \<Rightarrow> (iscsi_env \<Rightarrow> nat ptr \<Rightarrow> iscsi_context \<Rightarrow> task_result) \<Rightarrow> sync_task" where
  "scsi_sync sy submit = (\<lambda>(next, s). do {
     let n = length (ctx_trace (snd s));
     (t, s) \<leftarrow> on_commands (submit (sy_env sy 0) (Ptr (sy_cb sy))) s;
     case t of
       NULL \<Rightarrow> Some (NULL, next, s)
     | Ptr t \<Rightarrow> do {
         ((_, e), z) \<leftarrow> event_loop sy n (next, s);
         Some (if e = NULL then NULL else Ptr t, z)
       }
   })"

definition iscsi_scsi_command_sync :: "sync_env \<Rightarrow> u32 \<Rightarrow> nat \<Rightarrow> (nat \<times> nat) ptr \<Rightarrow> sync_task" where
  "iscsi_scsi_command_sync sy lun t d =
     scsi_sync sy (\<lambda>env cb iscsi. do {
       (r, iscsi) \<leftarrow> iscsi_scsi_command_async env lun t cb d iscsi;
       Some (if r \<noteq> 0 then NULL else Ptr t, iscsi)
     })"

end
