(* ===== verification/Sync_Commands.thy ===== *)
theory Sync_Commands
  imports Iscsi_Sync
begin

text \<open>
  The synchronous form of the functions for the single SCSI commands, in the order of \<open>lib/sync.c\<close>. \<open>t\<close> is the
  address of the new task, \<open>a\<close> that of the parameter data the library puts together.
\<close>

definition iscsi_reportluns_sync ::
  "sync_env \<Rightarrow> nat \<Rightarrow> cint \<Rightarrow> cint \<Rightarrow> sync_task" where
  "iscsi_reportluns_sync sy t report_type alloc_len =
     scsi_sync sy (\<lambda>env cb. iscsi_reportluns_task env t report_type alloc_len cb)"

definition iscsi_testunitready_sync ::
  "sync_env \<Rightarrow> nat \<Rightarrow> u32 \<Rightarrow> sync_task" where
  "iscsi_testunitready_sync sy t lun =
     scsi_sync sy (\<lambda>env cb. iscsi_testunitready_task env t lun cb)"

definition iscsi_inquiry_sync ::
  "sync_env \<Rightarrow> nat \<Rightarrow> u32 \<Rightarrow> cint \<Rightarrow> cint \<Rightarrow>
  cint \<Rightarrow> sync_task" where
  "iscsi_inquiry_sync sy t lun evpd page_code maxsize =
     scsi_sync sy (\<lambda>env cb. iscsi_inquiry_task env t lun evpd page_code maxsize cb)"

definition iscsi_read6_sync ::
  "sync_env \<Rightarrow> nat \<Rightarrow> u32 \<Rightarrow> u32 \<Rightarrow> u32 \<Rightarrow>
  cint \<Rightarrow> sync_task" where
  "iscsi_read6_sync sy t lun lba datalen blocksize =
     scsi_sync sy (\<lambda>env cb. iscsi_read6_task env t lun lba datalen blocksize cb)"

definition iscsi_read6_iov_sync ::
  "sync_env \<Rightarrow> nat \<Rightarrow> u32 \<Rightarrow> u32 \<Rightarrow> u32 \<Rightarrow>
  cint \<Rightarrow> scsi_iovec list ptr \<Rightarrow> nat \<Rightarrow> sync_task" where
  "iscsi_read6_iov_sync sy t lun lba datalen blocksize v nv =
     scsi_sync sy (\<lambda>env cb. iscsi_read6_iov_task env t lun lba datalen blocksize v nv cb)"

definition iscsi_read10_sync ::
  "sync_env \<Rightarrow> nat \<Rightarrow> u32 \<Rightarrow> u32 \<Rightarrow> u32 \<Rightarrow>
  cint \<Rightarrow> cint \<Rightarrow> cint \<Rightarrow> cint \<Rightarrow> cint \<Rightarrow>
  cint \<Rightarrow> sync_task" where
  "iscsi_read10_sync sy t lun lba datalen blocksize rdprotect dpo fua fua_nv group_number =
     scsi_sync sy (\<lambda>env cb. iscsi_read10_task env t lun lba datalen blocksize rdprotect dpo fua fua_nv group_number cb)"

definition iscsi_read10_iov_sync ::
  "sync_env \<Rightarrow> nat \<Rightarrow> u32 \<Rightarrow> u32 \<Rightarrow> u32 \<Rightarrow>
  cint \<Rightarrow> cint \<Rightarrow> cint \<Rightarrow> cint \<Rightarrow> cint \<Rightarrow>
  cint \<Rightarrow> scsi_iovec list ptr \<Rightarrow> nat \<Rightarrow> sync_task" where
  "iscsi_read10_iov_sync sy t lun lba datalen blocksize rdprotect dpo fua fua_nv group_number v nv =
     scsi_sync sy (\<lambda>env cb. iscsi_read10_iov_task env t lun lba datalen blocksize rdprotect dpo fua fua_nv group_number v nv cb)"

definition iscsi_read12_sync ::
  "sync_env \<Rightarrow> nat \<Rightarrow> u32 \<Rightarrow> u32 \<Rightarrow> u32 \<Rightarrow>
  cint \<Rightarrow> cint \<Rightarrow> cint \<Rightarrow> cint \<Rightarrow> cint \<Rightarrow>
  cint \<Rightarrow> sync_task" where
  "iscsi_read12_sync sy t lun lba datalen blocksize rdprotect dpo fua fua_nv group_number =
     scsi_sync sy (\<lambda>env cb. iscsi_read12_task env t lun lba datalen blocksize rdprotect dpo fua fua_nv group_number cb)"

definition iscsi_read12_iov_sync ::
  "sync_env \<Rightarrow> nat \<Rightarrow> u32 \<Rightarrow> u32 \<Rightarrow> u32 \<Rightarrow>
  cint \<Rightarrow> cint \<Rightarrow> cint \<Rightarrow> cint \<Rightarrow> cint \<Rightarrow>
  cint \<Rightarrow> scsi_iovec list ptr \<Rightarrow> nat \<Rightarrow> sync_task" where
  "iscsi_read12_iov_sync sy t lun lba datalen blocksize rdprotect dpo fua fua_nv group_number v nv =
     scsi_sync sy (\<lambda>env cb. iscsi_read12_iov_task env t lun lba datalen blocksize rdprotect dpo fua fua_nv group_number v nv cb)"

definition iscsi_read16_sync ::
  "sync_env \<Rightarrow> nat \<Rightarrow> u32 \<Rightarrow> u64 \<Rightarrow> u32 \<Rightarrow>
  cint \<Rightarrow> cint \<Rightarrow> cint \<Rightarrow> cint \<Rightarrow> cint \<Rightarrow>
  cint \<Rightarrow> sync_task" where
  "iscsi_read16_sync sy t lun lba datalen blocksize rdprotect dpo fua fua_nv group_number =
     scsi_sync sy (\<lambda>env cb. iscsi_read16_task env t lun lba datalen blocksize rdprotect dpo fua fua_nv group_number cb)"

definition iscsi_read16_iov_sync ::
  "sync_env \<Rightarrow> nat \<Rightarrow> u32 \<Rightarrow> u64 \<Rightarrow> u32 \<Rightarrow>
  cint \<Rightarrow> cint \<Rightarrow> cint \<Rightarrow> cint \<Rightarrow> cint \<Rightarrow>
  cint \<Rightarrow> scsi_iovec list ptr \<Rightarrow> nat \<Rightarrow> sync_task" where
  "iscsi_read16_iov_sync sy t lun lba datalen blocksize rdprotect dpo fua fua_nv group_number v nv =
     scsi_sync sy (\<lambda>env cb. iscsi_read16_iov_task env t lun lba datalen blocksize rdprotect dpo fua fua_nv group_number v nv cb)"

definition iscsi_readcapacity10_sync ::
  "sync_env \<Rightarrow> nat \<Rightarrow> u32 \<Rightarrow> cint \<Rightarrow> cint \<Rightarrow>
  sync_task" where
  "iscsi_readcapacity10_sync sy t lun lba pmi =
     scsi_sync sy (\<lambda>env cb. iscsi_readcapacity10_task env t lun lba pmi cb)"

definition iscsi_readcapacity16_sync ::
  "sync_env \<Rightarrow> nat \<Rightarrow> u32 \<Rightarrow> sync_task" where
  "iscsi_readcapacity16_sync sy t lun =
     scsi_sync sy (\<lambda>env cb. iscsi_readcapacity16_task env t lun cb)"

definition iscsi_readdefectdata10_sync ::
  "sync_env \<Rightarrow> nat \<Rightarrow> u32 \<Rightarrow> cint \<Rightarrow> cint \<Rightarrow>
  cint \<Rightarrow> u16 \<Rightarrow> sync_task" where
  "iscsi_readdefectdata10_sync sy t lun req_plist req_glist defect_list_format alloc_len =
     scsi_sync sy (\<lambda>env cb. iscsi_readdefectdata10_task env t lun req_plist req_glist defect_list_format alloc_len cb)"

definition iscsi_readdefectdata12_sync ::
  "sync_env \<Rightarrow> nat \<Rightarrow> u32 \<Rightarrow> cint \<Rightarrow> cint \<Rightarrow>
  cint \<Rightarrow> u32 \<Rightarrow> u32 \<Rightarrow> sync_task" where
  "iscsi_readdefectdata12_sync sy t lun req_plist req_glist defect_list_format address_descriptor_index alloc_len =
     scsi_sync sy (\<lambda>env cb. iscsi_readdefectdata12_task env t lun req_plist req_glist defect_list_format address_descriptor_index alloc_len
       cb)"

definition iscsi_sanitize_sync ::
  "sync_env \<Rightarrow> nat \<Rightarrow> u32 \<Rightarrow> cint \<Rightarrow> cint \<Rightarrow>
  cint \<Rightarrow> cint \<Rightarrow> (nat \<times> nat) ptr \<Rightarrow> sync_task" where
  "iscsi_sanitize_sync sy t lun immed ause sa param_len data =
     scsi_sync sy (\<lambda>env cb. iscsi_sanitize_task env t lun immed ause sa param_len data cb)"

definition iscsi_sanitize_block_erase_sync ::
  "sync_env \<Rightarrow> nat \<Rightarrow> u32 \<Rightarrow> cint \<Rightarrow> cint \<Rightarrow>
  sync_task" where
  "iscsi_sanitize_block_erase_sync sy t lun immed ause =
     scsi_sync sy (\<lambda>env cb. iscsi_sanitize_block_erase_task env t lun immed ause cb)"

definition iscsi_sanitize_crypto_erase_sync ::
  "sync_env \<Rightarrow> nat \<Rightarrow> u32 \<Rightarrow> cint \<Rightarrow> cint \<Rightarrow>
  sync_task" where
  "iscsi_sanitize_crypto_erase_sync sy t lun immed ause =
     scsi_sync sy (\<lambda>env cb. iscsi_sanitize_crypto_erase_task env t lun immed ause cb)"

definition iscsi_sanitize_exit_failure_mode_sync ::
  "sync_env \<Rightarrow> nat \<Rightarrow> u32 \<Rightarrow> cint \<Rightarrow> cint \<Rightarrow>
  sync_task" where
  "iscsi_sanitize_exit_failure_mode_sync sy t lun immed ause =
     scsi_sync sy (\<lambda>env cb. iscsi_sanitize_exit_failure_mode_task env t lun immed ause cb)"

definition iscsi_get_lba_status_sync ::
  "sync_env \<Rightarrow> nat \<Rightarrow> u32 \<Rightarrow> u64 \<Rightarrow> u32 \<Rightarrow>
  sync_task" where
  "iscsi_get_lba_status_sync sy t lun starting_lba alloc_len =
     scsi_sync sy (\<lambda>env cb. iscsi_get_lba_status_task env t lun starting_lba alloc_len cb)"

definition iscsi_synchronizecache10_sync ::
  "sync_env \<Rightarrow> nat \<Rightarrow> u32 \<Rightarrow> cint \<Rightarrow> cint \<Rightarrow>
  cint \<Rightarrow> cint \<Rightarrow> sync_task" where
  "iscsi_synchronizecache10_sync sy t lun lba num_blocks syncnv immed =
     scsi_sync sy (\<lambda>env cb. iscsi_synchronizecache10_task env t lun lba num_blocks syncnv immed cb)"

definition iscsi_startstopunit_sync ::
  "sync_env \<Rightarrow> nat \<Rightarrow> u32 \<Rightarrow> cint \<Rightarrow> cint \<Rightarrow>
  cint \<Rightarrow> cint \<Rightarrow> cint \<Rightarrow> cint \<Rightarrow> sync_task" where
  "iscsi_startstopunit_sync sy t lun immed pcm pc no_flush loej start =
     scsi_sync sy (\<lambda>env cb. iscsi_startstopunit_task env t lun immed pcm pc no_flush loej start cb)"

definition iscsi_preventallow_sync ::
  "sync_env \<Rightarrow> nat \<Rightarrow> u32 \<Rightarrow> cint \<Rightarrow> sync_task" where
  "iscsi_preventallow_sync sy t lun prevent =
     scsi_sync sy (\<lambda>env cb. iscsi_preventallow_task env t lun prevent cb)"

definition iscsi_synchronizecache16_sync ::
  "sync_env \<Rightarrow> nat \<Rightarrow> u32 \<Rightarrow> u64 \<Rightarrow> u32 \<Rightarrow>
  cint \<Rightarrow> cint \<Rightarrow> sync_task" where
  "iscsi_synchronizecache16_sync sy t lun lba num_blocks syncnv immed =
     scsi_sync sy (\<lambda>env cb. iscsi_synchronizecache16_task env t lun lba num_blocks syncnv immed cb)"

definition iscsi_prefetch10_sync ::
  "sync_env \<Rightarrow> nat \<Rightarrow> u32 \<Rightarrow> u32 \<Rightarrow> cint \<Rightarrow>
  cint \<Rightarrow> cint \<Rightarrow> sync_task" where
  "iscsi_prefetch10_sync sy t lun lba num_blocks immed group_number =
     scsi_sync sy (\<lambda>env cb. iscsi_prefetch10_task env t lun lba num_blocks immed group_number cb)"

definition iscsi_prefetch16_sync ::
  "sync_env \<Rightarrow> nat \<Rightarrow> u32 \<Rightarrow> u64 \<Rightarrow> cint \<Rightarrow>
  cint \<Rightarrow> cint \<Rightarrow> sync_task" where
  "iscsi_prefetch16_sync sy t lun lba num_blocks immed group_number =
     scsi_sync sy (\<lambda>env cb. iscsi_prefetch16_task env t lun lba num_blocks immed group_number cb)"

definition iscsi_write10_sync ::
  "sync_env \<Rightarrow> nat \<Rightarrow> u32 \<Rightarrow> u32 \<Rightarrow> nat ptr \<Rightarrow>
  u32 \<Rightarrow> cint \<Rightarrow> cint \<Rightarrow> cint \<Rightarrow> cint \<Rightarrow>
  cint \<Rightarrow> cint \<Rightarrow> sync_task" where
  "iscsi_write10_sync sy t lun lba data datalen blocksize wrprotect dpo fua fua_nv group_number =
     scsi_sync sy (\<lambda>env cb. iscsi_write10_task env t lun lba datalen blocksize wrprotect dpo fua fua_nv group_number data cb)"

definition iscsi_write10_iov_sync ::
  "sync_env \<Rightarrow> nat \<Rightarrow> u32 \<Rightarrow> u32 \<Rightarrow> nat ptr \<Rightarrow>
  u32 \<Rightarrow> cint \<Rightarrow> cint \<Rightarrow> cint \<Rightarrow> cint \<Rightarrow>
  cint \<Rightarrow> cint \<Rightarrow> scsi_iovec list ptr \<Rightarrow> nat \<Rightarrow>
  sync_task" where
  "iscsi_write10_iov_sync sy t lun lba data datalen blocksize wrprotect dpo fua fua_nv group_number v nv =
     scsi_sync sy (\<lambda>env cb. iscsi_write10_iov_task env t lun lba datalen blocksize wrprotect dpo fua fua_nv group_number data v nv cb)"

definition iscsi_write12_sync ::
  "sync_env \<Rightarrow> nat \<Rightarrow> u32 \<Rightarrow> u32 \<Rightarrow> nat ptr \<Rightarrow>
  u32 \<Rightarrow> cint \<Rightarrow> cint \<Rightarrow> cint \<Rightarrow> cint \<Rightarrow>
  cint \<Rightarrow> cint \<Rightarrow> sync_task" where
  "iscsi_write12_sync sy t lun lba data datalen blocksize wrprotect dpo fua fua_nv group_number =
     scsi_sync sy (\<lambda>env cb. iscsi_write12_task env t lun lba datalen blocksize wrprotect dpo fua fua_nv group_number data cb)"

definition iscsi_write12_iov_sync ::
  "sync_env \<Rightarrow> nat \<Rightarrow> u32 \<Rightarrow> u32 \<Rightarrow> nat ptr \<Rightarrow>
  u32 \<Rightarrow> cint \<Rightarrow> cint \<Rightarrow> cint \<Rightarrow> cint \<Rightarrow>
  cint \<Rightarrow> cint \<Rightarrow> scsi_iovec list ptr \<Rightarrow> nat \<Rightarrow>
  sync_task" where
  "iscsi_write12_iov_sync sy t lun lba data datalen blocksize wrprotect dpo fua fua_nv group_number v nv =
     scsi_sync sy (\<lambda>env cb. iscsi_write12_iov_task env t lun lba datalen blocksize wrprotect dpo fua fua_nv group_number data v nv cb)"

definition iscsi_write16_sync ::
  "sync_env \<Rightarrow> nat \<Rightarrow> u32 \<Rightarrow> u64 \<Rightarrow> nat ptr \<Rightarrow>
  u32 \<Rightarrow> cint \<Rightarrow> cint \<Rightarrow> cint \<Rightarrow> cint \<Rightarrow>
  cint \<Rightarrow> cint \<Rightarrow> sync_task" where
  "iscsi_write16_sync sy t lun lba data datalen blocksize wrprotect dpo fua fua_nv group_number =
     scsi_sync sy (\<lambda>env cb. iscsi_write16_task env t lun lba datalen blocksize wrprotect dpo fua fua_nv group_number data cb)"

definition iscsi_write16_iov_sync ::
  "sync_env \<Rightarrow> nat \<Rightarrow> u32 \<Rightarrow> u64 \<Rightarrow> nat ptr \<Rightarrow>
  u32 \<Rightarrow> cint \<Rightarrow> cint \<Rightarrow> cint \<Rightarrow> cint \<Rightarrow>
  cint \<Rightarrow> cint \<Rightarrow> scsi_iovec list ptr \<Rightarrow> nat \<Rightarrow>
  sync_task" where
  "iscsi_write16_iov_sync sy t lun lba data datalen blocksize wrprotect dpo fua fua_nv group_number v nv =
     scsi_sync sy (\<lambda>env cb. iscsi_write16_iov_task env t lun lba datalen blocksize wrprotect dpo fua fua_nv group_number data v nv cb)"

definition iscsi_writeatomic16_sync ::
  "sync_env \<Rightarrow> nat \<Rightarrow> u32 \<Rightarrow> u64 \<Rightarrow> nat ptr \<Rightarrow>
  u32 \<Rightarrow> cint \<Rightarrow> cint \<Rightarrow> cint \<Rightarrow> cint \<Rightarrow>
  cint \<Rightarrow> sync_task" where
  "iscsi_writeatomic16_sync sy t lun lba data datalen blocksize wrprotect dpo fua group_number =
     scsi_sync sy (\<lambda>env cb. iscsi_writeatomic16_task env t lun lba datalen blocksize wrprotect dpo fua group_number data cb)"

definition iscsi_writeatomic16_iov_sync ::
  "sync_env \<Rightarrow> nat \<Rightarrow> u32 \<Rightarrow> u64 \<Rightarrow> nat ptr \<Rightarrow>
  u32 \<Rightarrow> cint \<Rightarrow> cint \<Rightarrow> cint \<Rightarrow> cint \<Rightarrow>
  cint \<Rightarrow> scsi_iovec list ptr \<Rightarrow> nat \<Rightarrow> sync_task" where
  "iscsi_writeatomic16_iov_sync sy t lun lba data datalen blocksize wrprotect dpo fua group_number v nv =
     scsi_sync sy (\<lambda>env cb. iscsi_writeatomic16_iov_task env t lun lba datalen blocksize wrprotect dpo fua group_number data v nv cb)"

definition iscsi_orwrite_sync ::
  "sync_env \<Rightarrow> nat \<Rightarrow> u32 \<Rightarrow> u64 \<Rightarrow> nat ptr \<Rightarrow>
  u32 \<Rightarrow> cint \<Rightarrow> cint \<Rightarrow> cint \<Rightarrow> cint \<Rightarrow>
  cint \<Rightarrow> cint \<Rightarrow> sync_task" where
  "iscsi_orwrite_sync sy t lun lba data datalen blocksize wrprotect dpo fua fua_nv group_number =
     scsi_sync sy (\<lambda>env cb. iscsi_orwrite_task env t lun lba datalen blocksize wrprotect dpo fua fua_nv group_number data cb)"

definition iscsi_orwrite_iov_sync ::
  "sync_env \<Rightarrow> nat \<Rightarrow> u32 \<Rightarrow> u64 \<Rightarrow> nat ptr \<Rightarrow>
  u32 \<Rightarrow> cint \<Rightarrow> cint \<Rightarrow> cint \<Rightarrow> cint \<Rightarrow>
  cint \<Rightarrow> cint \<Rightarrow> scsi_iovec list ptr \<Rightarrow> nat \<Rightarrow>
  sync_task" where
  "iscsi_orwrite_iov_sync sy t lun lba data datalen blocksize wrprotect dpo fua fua_nv group_number v nv =
     scsi_sync sy (\<lambda>env cb. iscsi_orwrite_iov_task env t lun lba datalen blocksize wrprotect dpo fua fua_nv group_number data v nv cb)"

definition iscsi_compareandwrite_sync ::
  "sync_env \<Rightarrow> nat \<Rightarrow> u32 \<Rightarrow> u64 \<Rightarrow> nat ptr \<Rightarrow>
  u32 \<Rightarrow> cint \<Rightarrow> cint \<Rightarrow> cint \<Rightarrow> cint \<Rightarrow>
  cint \<Rightarrow> cint \<Rightarrow> sync_task" where
  "iscsi_compareandwrite_sync sy t lun lba data datalen blocksize wrprotect dpo fua fua_nv group_number =
     scsi_sync sy (\<lambda>env cb. iscsi_compareandwrite_task env t lun lba datalen blocksize wrprotect dpo fua fua_nv group_number data cb)"

definition iscsi_compareandwrite_iov_sync ::
  "sync_env \<Rightarrow> nat \<Rightarrow> u32 \<Rightarrow> u64 \<Rightarrow> nat ptr \<Rightarrow>
  u32 \<Rightarrow> cint \<Rightarrow> cint \<Rightarrow> cint \<Rightarrow> cint \<Rightarrow>
  cint \<Rightarrow> cint \<Rightarrow> scsi_iovec list ptr \<Rightarrow> nat \<Rightarrow>
  sync_task" where
  "iscsi_compareandwrite_iov_sync sy t lun lba data datalen blocksize wrprotect dpo fua fua_nv group_number v nv =
     scsi_sync sy (\<lambda>env cb. iscsi_compareandwrite_iov_task env t lun lba datalen blocksize wrprotect dpo fua fua_nv group_number data v nv
       cb)"

definition iscsi_writeverify10_sync ::
  "sync_env \<Rightarrow> nat \<Rightarrow> u32 \<Rightarrow> u32 \<Rightarrow> nat ptr \<Rightarrow>
  u32 \<Rightarrow> cint \<Rightarrow> cint \<Rightarrow> cint \<Rightarrow> cint \<Rightarrow>
  cint \<Rightarrow> sync_task" where
  "iscsi_writeverify10_sync sy t lun lba data datalen blocksize wrprotect dpo bytchk group_number =
     scsi_sync sy (\<lambda>env cb. iscsi_writeverify10_task env t lun lba datalen blocksize wrprotect dpo bytchk group_number data cb)"

definition iscsi_writeverify10_iov_sync ::
  "sync_env \<Rightarrow> nat \<Rightarrow> u32 \<Rightarrow> u32 \<Rightarrow> nat ptr \<Rightarrow>
  u32 \<Rightarrow> cint \<Rightarrow> cint \<Rightarrow> cint \<Rightarrow> cint \<Rightarrow>
  cint \<Rightarrow> scsi_iovec list ptr \<Rightarrow> nat \<Rightarrow> sync_task" where
  "iscsi_writeverify10_iov_sync sy t lun lba data datalen blocksize wrprotect dpo bytchk group_number v nv =
     scsi_sync sy (\<lambda>env cb. iscsi_writeverify10_iov_task env t lun lba datalen blocksize wrprotect dpo bytchk group_number data v nv cb)"

definition iscsi_writeverify12_sync ::
  "sync_env \<Rightarrow> nat \<Rightarrow> u32 \<Rightarrow> u32 \<Rightarrow> nat ptr \<Rightarrow>
  u32 \<Rightarrow> cint \<Rightarrow> cint \<Rightarrow> cint \<Rightarrow> cint \<Rightarrow>
  cint \<Rightarrow> sync_task" where
  "iscsi_writeverify12_sync sy t lun lba data datalen blocksize wrprotect dpo bytchk group_number =
     scsi_sync sy (\<lambda>env cb. iscsi_writeverify12_task env t lun lba datalen blocksize wrprotect dpo bytchk group_number data cb)"

definition iscsi_writeverify12_iov_sync ::
  "sync_env \<Rightarrow> nat \<Rightarrow> u32 \<Rightarrow> u32 \<Rightarrow> nat ptr \<Rightarrow>
  u32 \<Rightarrow> cint \<Rightarrow> cint \<Rightarrow> cint \<Rightarrow> cint \<Rightarrow>
  cint \<Rightarrow> scsi_iovec list ptr \<Rightarrow> nat \<Rightarrow> sync_task" where
  "iscsi_writeverify12_iov_sync sy t lun lba data datalen blocksize wrprotect dpo bytchk group_number v nv =
     scsi_sync sy (\<lambda>env cb. iscsi_writeverify12_iov_task env t lun lba datalen blocksize wrprotect dpo bytchk group_number data v nv cb)"

definition iscsi_writeverify16_sync ::
  "sync_env \<Rightarrow> nat \<Rightarrow> u32 \<Rightarrow> u64 \<Rightarrow> nat ptr \<Rightarrow>
  u32 \<Rightarrow> cint \<Rightarrow> cint \<Rightarrow> cint \<Rightarrow> cint \<Rightarrow>
  cint \<Rightarrow> sync_task" where
  "iscsi_writeverify16_sync sy t lun lba data datalen blocksize wrprotect dpo bytchk group_number =
     scsi_sync sy (\<lambda>env cb. iscsi_writeverify16_task env t lun lba datalen blocksize wrprotect dpo bytchk group_number data cb)"

definition iscsi_writeverify16_iov_sync ::
  "sync_env \<Rightarrow> nat \<Rightarrow> u32 \<Rightarrow> u64 \<Rightarrow> nat ptr \<Rightarrow>
  u32 \<Rightarrow> cint \<Rightarrow> cint \<Rightarrow> cint \<Rightarrow> cint \<Rightarrow>
  cint \<Rightarrow> scsi_iovec list ptr \<Rightarrow> nat \<Rightarrow> sync_task" where
  "iscsi_writeverify16_iov_sync sy t lun lba data datalen blocksize wrprotect dpo bytchk group_number v nv =
     scsi_sync sy (\<lambda>env cb. iscsi_writeverify16_iov_task env t lun lba datalen blocksize wrprotect dpo bytchk group_number data v nv cb)"

definition iscsi_verify10_sync ::
  "sync_env \<Rightarrow> nat \<Rightarrow> u32 \<Rightarrow> nat ptr \<Rightarrow> u32 \<Rightarrow>
  u32 \<Rightarrow> cint \<Rightarrow> cint \<Rightarrow> cint \<Rightarrow> cint \<Rightarrow>
  sync_task" where
  "iscsi_verify10_sync sy t lun data datalen lba vprotect dpo bytchk blocksize =
     scsi_sync sy (\<lambda>env cb. iscsi_verify10_task env t lun datalen lba vprotect dpo bytchk blocksize data cb)"

definition iscsi_verify10_iov_sync ::
  "sync_env \<Rightarrow> nat \<Rightarrow> u32 \<Rightarrow> nat ptr \<Rightarrow> u32 \<Rightarrow>
  u32 \<Rightarrow> cint \<Rightarrow> cint \<Rightarrow> cint \<Rightarrow> cint \<Rightarrow>
  scsi_iovec list ptr \<Rightarrow> nat \<Rightarrow> sync_task" where
  "iscsi_verify10_iov_sync sy t lun data datalen lba vprotect dpo bytchk blocksize v nv =
     scsi_sync sy (\<lambda>env cb. iscsi_verify10_iov_task env t lun datalen lba vprotect dpo bytchk blocksize data v nv cb)"

definition iscsi_verify12_sync ::
  "sync_env \<Rightarrow> nat \<Rightarrow> u32 \<Rightarrow> nat ptr \<Rightarrow> u32 \<Rightarrow>
  u32 \<Rightarrow> cint \<Rightarrow> cint \<Rightarrow> cint \<Rightarrow> cint \<Rightarrow>
  sync_task" where
  "iscsi_verify12_sync sy t lun data datalen lba vprotect dpo bytchk blocksize =
     scsi_sync sy (\<lambda>env cb. iscsi_verify12_task env t lun datalen lba vprotect dpo bytchk blocksize data cb)"

definition iscsi_verify12_iov_sync ::
  "sync_env \<Rightarrow> nat \<Rightarrow> u32 \<Rightarrow> nat ptr \<Rightarrow> u32 \<Rightarrow>
  u32 \<Rightarrow> cint \<Rightarrow> cint \<Rightarrow> cint \<Rightarrow> cint \<Rightarrow>
  scsi_iovec list ptr \<Rightarrow> nat \<Rightarrow> sync_task" where
  "iscsi_verify12_iov_sync sy t lun data datalen lba vprotect dpo bytchk blocksize v nv =
     scsi_sync sy (\<lambda>env cb. iscsi_verify12_iov_task env t lun datalen lba vprotect dpo bytchk blocksize data v nv cb)"

definition iscsi_verify16_sync ::
  "sync_env \<Rightarrow> nat \<Rightarrow> u32 \<Rightarrow> nat ptr \<Rightarrow> u32 \<Rightarrow>
  u64 \<Rightarrow> cint \<Rightarrow> cint \<Rightarrow> cint \<Rightarrow> cint \<Rightarrow>
  sync_task" where
  "iscsi_verify16_sync sy t lun data datalen lba vprotect dpo bytchk blocksize =
     scsi_sync sy (\<lambda>env cb. iscsi_verify16_task env t lun datalen lba vprotect dpo bytchk blocksize data cb)"

definition iscsi_verify16_iov_sync ::
  "sync_env \<Rightarrow> nat \<Rightarrow> u32 \<Rightarrow> nat ptr \<Rightarrow> u32 \<Rightarrow>
  u64 \<Rightarrow> cint \<Rightarrow> cint \<Rightarrow> cint \<Rightarrow> cint \<Rightarrow>
  scsi_iovec list ptr \<Rightarrow> nat \<Rightarrow> sync_task" where
  "iscsi_verify16_iov_sync sy t lun data datalen lba vprotect dpo bytchk blocksize v nv =
     scsi_sync sy (\<lambda>env cb. iscsi_verify16_iov_task env t lun datalen lba vprotect dpo bytchk blocksize data v nv cb)"

definition iscsi_writesame10_sync ::
  "sync_env \<Rightarrow> nat \<Rightarrow> u32 \<Rightarrow> u32 \<Rightarrow> nat ptr \<Rightarrow>
  u32 \<Rightarrow> u16 \<Rightarrow> cint \<Rightarrow> cint \<Rightarrow> cint \<Rightarrow>
  cint \<Rightarrow> sync_task" where
  "iscsi_writesame10_sync sy t lun lba data datalen num_blocks anchor unmap wrprotect group_number =
     scsi_sync sy (\<lambda>env cb. iscsi_writesame10_task env t lun lba datalen num_blocks anchor unmap wrprotect group_number data cb)"

definition iscsi_writesame10_iov_sync ::
  "sync_env \<Rightarrow> nat \<Rightarrow> u32 \<Rightarrow> u32 \<Rightarrow> nat ptr \<Rightarrow>
  u32 \<Rightarrow> u16 \<Rightarrow> cint \<Rightarrow> cint \<Rightarrow> cint \<Rightarrow>
  cint \<Rightarrow> scsi_iovec list ptr \<Rightarrow> nat \<Rightarrow> sync_task" where
  "iscsi_writesame10_iov_sync sy t lun lba data datalen num_blocks anchor unmap wrprotect group_number v nv =
     scsi_sync sy (\<lambda>env cb. iscsi_writesame10_iov_task env t lun lba datalen num_blocks anchor unmap wrprotect group_number data v nv cb)"

definition iscsi_writesame16_sync ::
  "sync_env \<Rightarrow> nat \<Rightarrow> u32 \<Rightarrow> u64 \<Rightarrow> nat ptr \<Rightarrow>
  u32 \<Rightarrow> u32 \<Rightarrow> cint \<Rightarrow> cint \<Rightarrow> cint \<Rightarrow>
  cint \<Rightarrow> sync_task" where
  "iscsi_writesame16_sync sy t lun lba data datalen num_blocks anchor unmap wrprotect group_number =
     scsi_sync sy (\<lambda>env cb. iscsi_writesame16_task env t lun lba datalen num_blocks anchor unmap wrprotect group_number data cb)"

definition iscsi_writesame16_iov_sync ::
  "sync_env \<Rightarrow> nat \<Rightarrow> u32 \<Rightarrow> u64 \<Rightarrow> nat ptr \<Rightarrow>
  u32 \<Rightarrow> u32 \<Rightarrow> cint \<Rightarrow> cint \<Rightarrow> cint \<Rightarrow>
  cint \<Rightarrow> scsi_iovec list ptr \<Rightarrow> nat \<Rightarrow> sync_task" where
  "iscsi_writesame16_iov_sync sy t lun lba data datalen num_blocks anchor unmap wrprotect group_number v nv =
     scsi_sync sy (\<lambda>env cb. iscsi_writesame16_iov_task env t lun lba datalen num_blocks anchor unmap wrprotect group_number data v nv cb)"

definition iscsi_persistent_reserve_in_sync ::
  "sync_env \<Rightarrow> nat \<Rightarrow> u32 \<Rightarrow> cint \<Rightarrow> u16 \<Rightarrow>
  sync_task" where
  "iscsi_persistent_reserve_in_sync sy t lun sa xferlen =
     scsi_sync sy (\<lambda>env cb. iscsi_persistent_reserve_in_task env t lun sa xferlen cb)"

definition iscsi_persistent_reserve_out_sync ::
  "sync_env \<Rightarrow> nat \<Rightarrow> nat \<Rightarrow> u32 \<Rightarrow> cint \<Rightarrow>
  cint \<Rightarrow> cint \<Rightarrow> scsi_persistent_reserve_out_basic \<Rightarrow> sync_task" where
  "iscsi_persistent_reserve_out_sync sy t a lun sa scope type_code param =
     scsi_sync sy (\<lambda>env cb. iscsi_persistent_reserve_out_task env t a lun sa scope type_code param cb)"

definition iscsi_unmap_sync ::
  "sync_env \<Rightarrow> nat \<Rightarrow> nat \<Rightarrow> u32 \<Rightarrow> cint \<Rightarrow>
  cint \<Rightarrow> unmap_list list \<Rightarrow> cint \<Rightarrow> sync_task" where
  "iscsi_unmap_sync sy t a lun anchor group_number lst list_len =
     scsi_sync sy (\<lambda>env cb. iscsi_unmap_task env t a lun anchor group_number lst list_len cb)"

definition iscsi_readtoc_sync ::
  "sync_env \<Rightarrow> nat \<Rightarrow> u32 \<Rightarrow> cint \<Rightarrow> cint \<Rightarrow>
  cint \<Rightarrow> cint \<Rightarrow> sync_task" where
  "iscsi_readtoc_sync sy t lun msf format track_session maxsize =
     scsi_sync sy (\<lambda>env cb. iscsi_readtoc_task env t lun msf format track_session maxsize cb)"

definition iscsi_reserve6_sync ::
  "sync_env \<Rightarrow> nat \<Rightarrow> u32 \<Rightarrow> sync_task" where
  "iscsi_reserve6_sync sy t lun =
     scsi_sync sy (\<lambda>env cb. iscsi_reserve6_task env t lun cb)"

definition iscsi_release6_sync ::
  "sync_env \<Rightarrow> nat \<Rightarrow> u32 \<Rightarrow> sync_task" where
  "iscsi_release6_sync sy t lun =
     scsi_sync sy (\<lambda>env cb. iscsi_release6_task env t lun cb)"

definition iscsi_report_supported_opcodes_sync ::
  "sync_env \<Rightarrow> nat \<Rightarrow> u32 \<Rightarrow> cint \<Rightarrow> cint \<Rightarrow>
  cint \<Rightarrow> cint \<Rightarrow> u32 \<Rightarrow> sync_task" where
  "iscsi_report_supported_opcodes_sync sy t lun rctd options opcode sa alloc_len =
     scsi_sync sy (\<lambda>env cb. iscsi_report_supported_opcodes_task env t lun rctd options opcode sa alloc_len cb)"

definition iscsi_receive_copy_results_sync ::
  "sync_env \<Rightarrow> nat \<Rightarrow> u32 \<Rightarrow> cint \<Rightarrow> cint \<Rightarrow>
  cint \<Rightarrow> sync_task" where
  "iscsi_receive_copy_results_sync sy t lun sa list_id alloc_len =
     scsi_sync sy (\<lambda>env cb. iscsi_receive_copy_results_task env t lun sa list_id alloc_len cb)"

definition iscsi_extended_copy_sync ::
  "sync_env \<Rightarrow> nat \<Rightarrow> u32 \<Rightarrow> nat \<times> nat \<Rightarrow>
  sync_task" where
  "iscsi_extended_copy_sync sy t lun param_data =
     scsi_sync sy (\<lambda>env cb. iscsi_extended_copy_task env t lun param_data cb)"

definition iscsi_modeselect6_sync ::
  "sync_env \<Rightarrow> nat \<Rightarrow> nat \<Rightarrow> u32 \<Rightarrow> cint \<Rightarrow>
  cint \<Rightarrow> scsi_mode_page \<Rightarrow> sync_task" where
  "iscsi_modeselect6_sync sy t a lun pf sp mp =
     scsi_sync sy (\<lambda>env cb. iscsi_modeselect6_task env t a lun pf sp mp cb)"

definition iscsi_modeselect10_sync ::
  "sync_env \<Rightarrow> nat \<Rightarrow> nat \<Rightarrow> u32 \<Rightarrow> cint \<Rightarrow>
  cint \<Rightarrow> scsi_mode_page \<Rightarrow> sync_task" where
  "iscsi_modeselect10_sync sy t a lun pf sp mp =
     scsi_sync sy (\<lambda>env cb. iscsi_modeselect10_task env t a lun pf sp mp cb)"

definition iscsi_modesense6_sync ::
  "sync_env \<Rightarrow> nat \<Rightarrow> u32 \<Rightarrow> cint \<Rightarrow> cint \<Rightarrow>
  cint \<Rightarrow> cint \<Rightarrow> u8 \<Rightarrow> sync_task" where
  "iscsi_modesense6_sync sy t lun dbd pc page_code sub_page_code alloc_len =
     scsi_sync sy (\<lambda>env cb. iscsi_modesense6_task env t lun dbd pc page_code sub_page_code alloc_len cb)"

definition iscsi_modesense10_sync ::
  "sync_env \<Rightarrow> nat \<Rightarrow> u32 \<Rightarrow> cint \<Rightarrow> cint \<Rightarrow>
  cint \<Rightarrow> cint \<Rightarrow> cint \<Rightarrow> u8 \<Rightarrow> sync_task" where
  "iscsi_modesense10_sync sy t lun llbaa dbd pc page_code sub_page_code alloc_len =
     scsi_sync sy (\<lambda>env cb. iscsi_modesense10_task env t lun llbaa dbd pc page_code sub_page_code alloc_len cb)"

end
