(* ===== verification/Sync_Loop.thy ===== *)
theory Sync_Loop
  imports Iscsi_Sync Command_Send
begin

text \<open>
  The results about the synchronous calls: when the event loop ends, what a result of a task management
  call means, and what a connect that was given up leaves behind.
\<close>

section \<open>The rounds of the loop\<close>

lemma answered: "answer (sy_cb sy) n (snd z) = Ptr e \<Longrightarrow> event_rounds sy limit n k z = Some ((event_status e, Ptr e), z)"
  by (subst event_rounds.simps) simp

lemma round_left:
  "answer (sy_cb sy) n (snd z) = NULL \<Longrightarrow> loop_round sy limit k z = Some (False, z') \<Longrightarrow>
     event_rounds sy limit n k z = Some ((-1, answer (sy_cb sy) n (snd z')), z')"
  by (subst event_rounds.simps) simp

lemma round_on:
  "answer (sy_cb sy) n (snd z) = NULL \<Longrightarrow> loop_round sy limit k z = Some (True, z') \<Longrightarrow>
     event_rounds sy limit n k z = event_rounds sy limit n (k + 1) z'"
  by (subst event_rounds.simps) simp

lemma round_after_limit:
  assumes "limit \<noteq> 0" "limit < round_time sy k (snd z)" "loop_round sy limit k z = Some (ok, z')"
  shows "\<not> ok"
  using assms by (cases z) (auto simp: loop_round_def Let_def bind_eq_Some_conv)

lemma rounds_end:
  assumes "limit \<noteq> 0" "\<forall>s. limit < round_time sy (k + d) s"
    and step: "\<forall>k z. P z \<longrightarrow> (\<exists>ok z'. loop_round sy limit k z = Some (ok, z') \<and> (ok \<longrightarrow> P z'))" and "P z"
  shows "\<exists>r. event_rounds sy limit n k z = Some r"
  using assms(2,4)
proof (induction d arbitrary: k z)
  case 0
  then obtain ok z' where "loop_round sy limit k z = Some (ok, z')" using step by blast
  moreover from this have "\<not> ok" using round_after_limit assms(1) 0(1) by (metis add_0_right)
  ultimately have "loop_round sy limit k z = Some (False, z')" by simp
  then show ?case using round_left answered by (cases "answer (sy_cb sy) n (snd z)") blast+
next
  case (Suc d)
  then obtain ok z' where r: "loop_round sy limit k z = Some (ok, z')" "ok \<longrightarrow> P z'" using step by blast
  show ?case
  proof (cases "answer (sy_cb sy) n (snd z)")
    case NULL
    then show ?thesis
    proof (cases ok)
      case True
      then have "\<exists>r. event_rounds sy limit n (k + 1) z' = Some r" using Suc.IH [of "k + 1" z'] Suc.prems(1) r(2) by simp
      then show ?thesis using round_on [OF NULL] r(1) True by simp
    next
      case False
      then show ?thesis using round_left [OF NULL] r(1) by (cases z') simp
    qed
  next
    case (Ptr e)
    then show ?thesis using answered by blast
  qed
qed

lemma silent_rounds:
  assumes "\<forall>k. loop_round sy limit k z = Some (True, z)" "answer (sy_cb sy) n (snd z) = NULL"
  shows "event_rounds sy limit n k z = None"
proof -
  have "(\<forall>k. loop_round sy limit k z = Some (True, z)) \<longrightarrow> answer (sy_cb sy) n (snd z) \<noteq> NULL"
    if "event_rounds sy limit n k z = Some r" for r
    using that
  proof (rule event_rounds.raw_induct
      [where P = "\<lambda>sy limit n k z r. (\<forall>k. loop_round sy limit k z = Some (True, z)) \<longrightarrow> answer (sy_cb sy) n (snd z) \<noteq> NULL", rotated])
    fix rounds :: "sync_env \<Rightarrow> int \<Rightarrow> nat \<Rightarrow> nat \<Rightarrow> sync_state \<Rightarrow> ((cint \<times> iscsi_event ptr) \<times> sync_state) option"
    fix sy limit n k z r
    assume IH: "\<And>sy limit n k z r. rounds sy limit n k z = Some r \<Longrightarrow>
        (\<forall>k. loop_round sy limit k z = Some (True, z)) \<longrightarrow> answer (sy_cb sy) n (snd z) \<noteq> NULL"
      and run: "(case answer (sy_cb sy) n (snd z) of
          Ptr e \<Rightarrow> Some ((event_status e, Ptr e), z)
        | NULL \<Rightarrow> do {
            (ok, z) \<leftarrow> loop_round sy limit k z;
            if ok then rounds sy limit n (k + 1) z else Some ((-1, answer (sy_cb sy) n (snd z)), z)
          }) = Some r"
    show "(\<forall>k. loop_round sy limit k z = Some (True, z)) \<longrightarrow> answer (sy_cb sy) n (snd z) \<noteq> NULL"
      using run IH [of sy limit n "k + 1" z r] by auto
  qed
  then show ?thesis using assms by (metis not_None_eq)
qed

section \<open>After the callback data is cleared\<close>

lemma cleared_crashes:
  assumes "cn_socket_status_cb (ctx_conn iscsi) = Ptr Cleared_cb" "0 \<le> ctx_fd iscsi" "\<not> ctx_pending_reconnect iscsi" "ev_err ev"
  shows "iscsi_tcp_service env net ge w ev (old, iscsi) = None"
  using assms by (simp add: iscsi_tcp_service_def socket_error_def socket_status_def)

section \<open>A connect that nobody answers\<close>

definition quiet :: revents where
  "quiet = \<lparr>ev_in = False, ev_out = False, ev_err = False, ev_hup = False\<rparr>"

text \<open>An open socket, nothing queued, no reconnect going on.\<close>

definition connecting :: "status_cb \<Rightarrow> iscsi_context \<Rightarrow> bool" where
  "connecting cb c \<longleftrightarrow> 0 \<le> ctx_fd c \<and> \<not> ctx_pending_reconnect c \<and> ctx_outqueue c = [] \<and> ctx_waitpdu c = [] \<and>
     cn_socket_status_cb (ctx_conn c) = Ptr cb"

lemma connect_started:
  assumes "iscsi_connect_async env net portal cb (NULL, c) = (0, s)" "\<And>fam. -1 \<le> net_socket net fam"
    and "ctx_outqueue c = []" "ctx_waitpdu c = []" "\<not> ctx_pending_reconnect c"
  shows "\<exists>c1. s = (NULL, c1) \<and> connecting cb c1 \<and> ctx_trace c1 = ctx_trace c \<and>
    ctx_scsi_timeout c1 = ctx_scsi_timeout c"
proof -
  have "0 \<le> net_socket net fam" if "net_socket net fam \<noteq> -1" for fam
    using assms(2) [of fam] that by linarith
  then show ?thesis using assms(1,3-5)
    by (auto simp: iscsi_connect_async_def iscsi_tcp_connect_def connecting_def Let_def split: if_splits ptr.splits)
qed

lemma scan_nothing:
  "ctx_outqueue c = [] \<Longrightarrow> ctx_waitpdu c = [] \<Longrightarrow> on_both (iscsi_timeout_scan now) (NULL, c) = Some (NULL, c)"
  by (simp add: on_both_def iscsi_timeout_scan_def complete_first_def)

lemma service_quiet:
  assumes "connecting cb c"
  shows "iscsi_service env net ge w quiet (NULL, c) = Some (0, Connect_over, NULL, c)"
  using assms scan_nothing [of c]
  unfolding iscsi_service_def iscsi_tcp_service_def Let_def split_conv service_io_def
  by (simp add: connecting_def quiet_def)

text \<open>Round \<open>k\<close> ends the loop: \<open>poll\<close> fails or the limit has passed.\<close>

definition gives_up :: "sync_env \<Rightarrow> int \<Rightarrow> nat \<Rightarrow> session \<Rightarrow> bool" where
  "gives_up sy limit k s \<longleftrightarrow> sy_poll sy k s = NULL \<or> limit \<noteq> 0 \<and> limit < round_time sy k s"

lemma quiet_round:
  assumes "connecting cb c" "sy_poll sy k (NULL, c) \<in> {NULL, Ptr quiet}"
  shows "loop_round sy limit k (next, NULL, c) = Some (\<not> gives_up sy limit k (NULL, c), next, NULL, c)"
proof -
  have "answer cb' (length (ctx_trace c)) (NULL, c) = NULL" for cb' by (simp add: answer_def)
  then show ?thesis
    using assms service_quiet [OF assms(1)] scan_nothing [of c]
    by (auto simp: loop_round_def service_round_def gives_up_def connecting_def Let_def)
qed

lemma quiet_rounds:
  assumes "\<And>k. loop_round sy limit k z = Some (\<not> stop k, z)" "answer (sy_cb sy) n (snd z) = NULL" "stop (k + d)"
  shows "event_rounds sy limit n k z = Some ((-1, NULL), z)"
  using assms(3)
proof (induction d arbitrary: k)
  case 0
  then show ?case using round_left [OF assms(2), of limit k z] assms(1) [of k] assms(2) by simp
next
  case (Suc d)
  show ?case
  proof (cases "stop k")
    case True
    then show ?thesis using round_left [OF assms(2), of limit k z] assms(1) [of k] assms(2) by simp
  next
    case False
    then show ?thesis using round_on [OF assms(2), of limit k z] assms(1) [of k] Suc.IH [of "k + 1"] Suc.prems by simp
  qed
qed

section \<open>Properties\<close>

text \<open>
  C27: with a timeout set, a synchronous call returns: once the clock is past the limit (the end of the
  timeout, as the code keeps it in an \<open>int\<close>), and as long as no step is undefined, the event loop ends with the answer or an error, whatever the target does or does not
  send.
\<close>

theorem event_loop_ends:
  assumes "ctx_scsi_timeout (snd (snd z)) \<noteq> 0"
    and "limit = sint (word_of_int (round_time sy 0 (snd z) + ctx_scsi_timeout (snd (snd z))) :: cint)" "limit \<noteq> 0"
    and "\<forall>s. limit < round_time sy k s"
    and "\<forall>k z. P z \<longrightarrow> (\<exists>ok z'. loop_round sy limit k z = Some (ok, z') \<and> (ok \<longrightarrow> P z'))" "P z"
  shows "\<exists>st e z'. event_loop sy n z = Some ((st, e), z')"
  using rounds_end [of limit sy 0 k P z n] assms by (auto simp: event_loop_def loop_limit_def Let_def)

text \<open>An idle connection; round \<open>k\<close> is \<open>k\<close> seconds after the start.\<close>

definition idle_sync :: sync_env where
  "idle_sync = \<lparr>sy_env = \<lambda>k. fresh_env\<lparr>env_time := \<lambda>_. int k\<rparr>,
     sy_net = \<lparr>net_resolve = \<lambda>_. Ptr AF_INET, net_socket = \<lambda>_. 3, net_dup2 = \<lambda>_ _. True, net_nonblocking = \<lambda>_. True,
       net_connect = \<lambda>_ _. True, net_so_error = \<lambda>_. False\<rparr>,
     sy_getenv = \<lambda>_. NULL, sy_poll = \<lambda>_ _. Ptr \<lparr>ev_in = False, ev_out = False, ev_err = False, ev_hup = False\<rparr>,
     sy_task = \<lambda>k. k, sy_cb = 1, sy_connect = 2\<rparr>"

definition idle_state :: "int \<Rightarrow> sync_state" where
  "idle_state t = (Connect_over, NULL, zero_context\<lparr>ctx_fd := 3, ctx_scsi_timeout := t\<rparr>)"

lemma idle_round: "loop_round idle_sync limit k (idle_state t) = Some (\<not> (limit \<noteq> 0 \<and> limit < int k), idle_state t)"
proof -
  let ?c = "zero_context\<lparr>ctx_fd := 3, ctx_scsi_timeout := t\<rparr>"
  have scan: "on_both (iscsi_timeout_scan now) (NULL, ?c) = Some (NULL, ?c)" for now
    by (simp add: on_both_def iscsi_timeout_scan_def complete_first_def zero_context_def)
  have c: "ctx_fd ?c = 3" "\<not> ctx_pending_reconnect ?c" "ctx_trace ?c = []" by (simp_all add: zero_context_def)
  have "iscsi_service (sy_env idle_sync k) (sy_net idle_sync) (sy_getenv idle_sync) (sy_connect idle_sync)
      \<lparr>ev_in = False, ev_out = False, ev_err = False, ev_hup = False\<rparr> (NULL, ?c) = Some (0, Connect_over, NULL, ?c)"
    unfolding iscsi_service_def iscsi_tcp_service_def Let_def split_conv service_io_def by (simp add: c scan)
  moreover have "round_time idle_sync k s = int k" for s by (simp add: round_time_def idle_sync_def)
  moreover have "sy_poll idle_sync k s = Ptr \<lparr>ev_in = False, ev_out = False, ev_err = False, ev_hup = False\<rparr>" for s
    by (simp add: idle_sync_def)
  ultimately show ?thesis
    by (simp add: loop_round_def idle_state_def service_round_def answer_def scan c Let_def)
qed

theorem event_loop_ends_witness: "\<exists>st e z'. event_loop idle_sync 0 (idle_state 5) = Some ((st, e), z')"
proof (rule event_loop_ends [where limit = 5 and k = 6 and P = "\<lambda>z. z = idle_state 5"])
  show "\<forall>k z. z = idle_state 5 \<longrightarrow> (\<exists>ok z'. loop_round idle_sync 5 k z = Some (ok, z') \<and> (ok \<longrightarrow> z' = idle_state 5))"
    by (simp add: idle_round)
qed (simp_all add: idle_state_def idle_sync_def round_time_def)

text \<open>
  Without a timeout, which is how a context is created, a synchronous call does not return when every
  round finds the connection open and nothing to do, as with a target that stays silent.
\<close>

theorem event_loop_waits_forever:
  assumes "ctx_scsi_timeout (snd (snd z)) = 0"
    and "\<forall>k. loop_round sy 0 k z = Some (True, z)" "answer (sy_cb sy) n (snd z) = NULL"
  shows "event_loop sy n z = None"
  using assms by (simp add: event_loop_def loop_limit_def silent_rounds)

theorem event_loop_waits_forever_witness: "event_loop idle_sync 0 (idle_state 0) = None"
  by (rule event_loop_waits_forever) (simp_all add: idle_round, simp_all add: idle_state_def answer_def zero_context_def)

text \<open>
  C40: a synchronous connect that the target does not answer, so that it is given up after the timeout or
  when \<open>poll\<close> fails, returns -1 and leaves the socket's callback installed with its data set to NULL:
  the next failure of the still open connection, when it is serviced, dereferences it.
\<close>

theorem iscsi_connect_sync_leaves_callback:
  assumes "fst (iscsi_connect_async (sy_env sy 0) (sy_net sy) portal (App_status_cb (sy_cb sy)) (NULL, c)) = 0"
    and "\<forall>fam. -1 \<le> net_socket (sy_net sy) fam"
    and "ctx_outqueue c = []" "ctx_waitpdu c = []" "\<not> ctx_pending_reconnect c"
    and "\<forall>k s. sy_poll sy k s \<in> {NULL, Ptr quiet}"
    and "\<forall>s. ctx_scsi_timeout (snd s) = ctx_scsi_timeout c \<longrightarrow> gives_up sy (loop_limit sy s) k s"
  shows "\<exists>c'. iscsi_connect_sync sy portal (next, NULL, c) = Some (-1, next, NULL, c') \<and>
    cn_socket_status_cb (ctx_conn c') = Ptr Cleared_cb \<and>
    (\<forall>env net ge w ev. ev_err ev \<longrightarrow> iscsi_tcp_service env net ge w ev (NULL, c') = None)"
proof -
  obtain c1 where c1: "iscsi_connect_async (sy_env sy 0) (sy_net sy) portal (App_status_cb (sy_cb sy)) (NULL, c) =
      (0, NULL, c1)" "connecting (App_status_cb (sy_cb sy)) c1" "ctx_trace c1 = ctx_trace c"
    "ctx_scsi_timeout c1 = ctx_scsi_timeout c"
    using connect_started [of "sy_env sy 0" "sy_net sy" portal "App_status_cb (sy_cb sy)" c] assms(1-5)
    by (metis prod.collapse)
  let ?z = "(next, NULL, c1)" and ?c = "clear_connect_data c1"
  have n: "answer (sy_cb sy) (length (ctx_trace c)) (snd ?z) = NULL" by (simp add: answer_def c1(3))
  have loop: "event_loop sy (length (ctx_trace c)) ?z = Some ((-1, NULL), ?z)"
    unfolding event_loop_def
    by (rule quiet_rounds [OF quiet_round [OF c1(2)] n, of _ _ k]) (use assms(6,7) c1(4) in simp_all)
  have c: "connecting Cleared_cb ?c"
    using c1(2) by (simp add: connecting_def clear_connect_data_def)
  then have "iscsi_cancel_pdus ?c = Some ?c"
    by (simp add: iscsi_cancel_pdus_def connecting_def)
  with c1(1) loop have "iscsi_connect_sync sy portal (next, NULL, c) = Some (-1, next, NULL, ?c)"
    by (simp add: iscsi_connect_sync_def sync_call_def on_session_def cancel_unless_good_def good_def)
  moreover have "cn_socket_status_cb (ctx_conn ?c) = Ptr Cleared_cb" "0 \<le> ctx_fd ?c" "\<not> ctx_pending_reconnect ?c"
    using c by (simp_all add: connecting_def)
  ultimately show ?thesis using cleared_crashes by blast
qed

theorem iscsi_connect_sync_leaves_callback_witness:
  "\<exists>c'. iscsi_connect_sync idle_sync (cstr ''h'') (Connect_over, NULL, zero_context\<lparr>ctx_fd := -1, ctx_scsi_timeout := 5\<rparr>) =
       Some (-1, Connect_over, NULL, c') \<and>
     iscsi_tcp_service fresh_env (sy_net idle_sync) (\<lambda>_. NULL) 2 (quiet\<lparr>ev_err := True\<rparr>) (NULL, c') = None"
proof -
  let ?c = "zero_context\<lparr>ctx_fd := -1, ctx_scsi_timeout := 5\<rparr>"
  have "gives_up idle_sync (loop_limit idle_sync s) 6 s" if "ctx_scsi_timeout (snd s) = ctx_scsi_timeout ?c" for s
    using that by (simp add: gives_up_def loop_limit_def round_time_def idle_sync_def)
  moreover have "fst (iscsi_connect_async (sy_env idle_sync 0) (sy_net idle_sync) (cstr ''h'')
      (App_status_cb (sy_cb idle_sync)) (NULL, ?c)) = 0"
    by (simp add: iscsi_connect_async_def idle_sync_def parse_portal_def cut_last_def cut_at_def iscsi_tcp_connect_def
        fresh_env_def demo_env_def cstr_def Let_def zero_context_def)
  ultimately show ?thesis
    using iscsi_connect_sync_leaves_callback [of idle_sync "cstr ''h''" ?c 6 Connect_over]
    by (auto simp: idle_sync_def quiet_def zero_context_def)
qed

end
