(* ===== verification/Chap.thy ===== *)
theory Chap
  imports Iscsi_Login
begin

text \<open>
  What the responses of CHAP are: the digests of the standards on identifier, secret and challenge,
  by the contract \<open>message_digest\<close> of the four implementations.
\<close>

section \<open>The response is the digest of identifier, secret and challenge\<close>

lemma compute_chap_r_md5_digest:
  assumes "hex_bytes chap_c = Some cs" "length (ucast chap_i # passwd @ cs) < 2 ^ 32"
  shows "compute_chap_r_md5 True chap_i passwd chap_c digest =
    Some (blit 0 (md5_digest (ucast chap_i # passwd @ cs)) digest)"
  using md5.digest_of_chap [OF assms(2)] assms(1) by (simp add: compute_chap_r_md5_def Let_def)

lemma compute_chap_r_sha1_digest:
  assumes "hex_bytes chap_c = Some cs" "length (ucast chap_i # passwd @ cs) < 2 ^ 61"
  shows "compute_chap_r_sha1 chap_i passwd chap_c digest =
    Some (blit 0 (sha1_digest (ucast chap_i # passwd @ cs)) digest)"
  using sha1.chap_result [OF assms(2), where n = 20 and md = digest] assms(1)
  by (auto simp: compute_chap_r_sha1_def sha1_digest_def SHA1Reset_def SHA1Input_def SHA1Result_def sha1_H0_def
      length_sha1_block Let_def)

lemma compute_chap_r_sha256_digest:
  assumes "hex_bytes chap_c = Some cs" "length (ucast chap_i # passwd @ cs) < 2 ^ 61"
  shows "compute_chap_r_sha256 chap_i passwd chap_c digest =
    Some (blit 0 (sha256_digest (ucast chap_i # passwd @ cs)) digest)"
  using sha256.chap_result [OF assms(2), where n = 32 and md = digest] assms(1)
  by (auto simp: compute_chap_r_sha256_def sha256_digest_def SHA256Reset_def SHA224_256Reset_def SHA256Input_def
      SHA256Result_def SHA224_256ResultN_def SHA256_H0_def length_sha256_block Let_def)

lemma compute_chap_r_sha3_256_digest:
  assumes "hex_bytes chap_c = Some cs" "length (ucast chap_i # passwd @ cs) < 2 ^ 64"
  shows "compute_chap_r_sha3_256 chap_i passwd chap_c digest =
    Some (blit 0 (sha3_digest 32 (ucast chap_i # passwd @ cs)) digest)"
  using sha3_rep_final [OF _ _ sha3_256.rep_of_chap [OF assms(2)], of digest] assms(1)
  by (simp add: compute_chap_r_sha3_256_def Let_def)

text \<open>The algorithm of each value of \<open>chap_auth\<close>.\<close>

definition chap_digest :: "cint \<Rightarrow> bytes \<Rightarrow> bytes" where
  "chap_digest auth =
     (if auth = ISCSI_CHAP_MD5 then md5_digest
      else if auth = ISCSI_CHAP_SHA_1 then sha1_digest
      else if auth = ISCSI_CHAP_SHA_256 then sha256_digest
      else sha3_digest 32)"

text \<open>
  C13: Whatever the way the code hands the bytes to the four implementations, the response of CHAP is
  the digest, by the algorithm that was negotiated, of the identifier, the secret and the challenge:
  RFC 1321's MD5 with its formulas for the steps, the padded blocks of FIPS 180 for SHA-1 and SHA-256,
  the sponge of FIPS 202 for SHA3-256. It is stored at the start of the buffer for the digest.
\<close>

theorem chap_response_digest:
  assumes "auth \<in> {ISCSI_CHAP_MD5, ISCSI_CHAP_SHA_1, ISCSI_CHAP_SHA_256, ISCSI_CHAP_SHA3_256}"
    and "hex_bytes chap_c = Some cs" and "length (ucast chap_i # passwd @ cs) < 2 ^ 32"
    and "auth = ISCSI_CHAP_MD5 \<Longrightarrow> alloc"
  shows "compute_chap_r alloc auth chap_i passwd chap_c digest =
    Some (blit 0 (chap_digest auth (ucast chap_i # passwd @ cs)) digest)"
proof -
  have "length (ucast chap_i # passwd @ cs) < 2 ^ 61" "length (ucast chap_i # passwd @ cs) < 2 ^ 64"
    using assms(3) by simp_all
  then show ?thesis
    using assms compute_chap_r_md5_digest [OF assms(2,3)] compute_chap_r_sha1_digest [OF assms(2)]
      compute_chap_r_sha256_digest [OF assms(2)] compute_chap_r_sha3_256_digest [OF assms(2)]
    by (auto simp: compute_chap_r_def chap_digest_def)
qed

theorem chap_response_digest_witness:
  "compute_chap_r True ISCSI_CHAP_MD5 7 (cstr ''secret'') (cstr ''0A1b'') (replicate 32 0) =
     Some (map of_nat [122, 27, 165, 165, 194, 204, 85, 16, 31, 59, 63, 67, 188, 222, 163, 35] @ replicate 16 0) \<and>
   compute_chap_r False ISCSI_CHAP_SHA3_256 7 (cstr ''secret'') (cstr ''0A1b'') (replicate 32 0) =
     Some (sha3_digest 32 (7 # cstr ''secret'' @ [0x0a, 0x1b]))"
proof -
  have c: "hex_bytes (cstr ''0A1b'') = Some [0x0a, 0x1b]" by code_simp
  have l: "length (ucast (7 :: cint) # cstr ''secret'' @ [0x0a, 0x1b :: u8]) < 2 ^ 32" by (simp add: cstr_def)
  have "compute_chap_r True ISCSI_CHAP_MD5 7 (cstr ''secret'') (cstr ''0A1b'') (replicate 32 0) =
      Some (blit 0 (chap_digest ISCSI_CHAP_MD5 (ucast (7 :: cint) # cstr ''secret'' @ [0x0a, 0x1b])) (replicate 32 0))"
    by (rule chap_response_digest [OF _ c l]) simp_all
  also have "\<dots> = Some (map of_nat [122, 27, 165, 165, 194, 204, 85, 16, 31, 59, 63, 67, 188, 222, 163, 35] @ replicate 16 0)"
    by code_simp
  finally show ?thesis
    using chap_response_digest [of ISCSI_CHAP_SHA3_256, OF _ c l, of False "replicate 32 0"]
    by (simp add: chap_digest_def blit_def length_sha3_digest)
qed

text \<open>
  C14: The permutation of SHA-3, computed in place with tables of offsets, positions and constants, is
  the permutation of FIPS 202: the five steps on lanes, the standard's table of offsets and the round
  constants of its shift register.
\<close>

theorem sha3_keccakf_is_keccak:
  "length st = 25 \<Longrightarrow> sha3_keccakf st = keccak_f st"
  by (rule sha3_keccakf_standard)

theorem sha3_keccakf_is_keccak_witness:
  "sha3_keccakf (map of_nat [0..<25]) = keccak_f (map of_nat [0..<25])"
  by (rule sha3_keccakf_is_keccak) simp

end
