(* ===== verification/Session.thy ===== *)
theory Session
  imports Reception Iscsi_Tasks Iscsi_Init
begin

text \<open>
  The protocol engine as a whole: every operation of a session keeps the queues well formed, so no
  queued PDU is ever a freed one, none is queued twice, and no reply, timeout or cancellation meets a
  PDU it may not use. The locale \<open>service_provider\<close> states what the engine relies on when it calls the
  service function of the transport through \<open>iscsi->drv\<close>; it is interpreted on
  \<open>iscsi_write_to_socket\<close>. The relation \<open>session\<close> holds of the contexts a session goes through.
\<close>

section \<open>Well-formed contexts\<close>

text \<open>
  \<open>well W c\<close>: the queues of \<open>c\<close> are well formed, and the PDUs of \<open>W\<close> wait for their replies. \<open>fresh\<close>: in
  addition the PDU \<open>i\<close> is allocated and on no queue yet. \<open>detached\<close>: the same, but the PDU may be
  unusable, because its data could not be added.
\<close>

definition pdu_typed :: "iscsi_pdu \<Rightarrow> bool" where
  "pdu_typed p \<longleftrightarrow> pdu_ok p \<and>
     (pdu_callback p = Ptr Scsi_response_cb \<longrightarrow> pdu_response_opcode p = ISCSI_PDU_SCSI_RESPONSE)"

definition well_typed :: "iscsi_context \<Rightarrow> bool" where
  "well_typed c \<longleftrightarrow> queues_ok c \<and> (\<forall>i p. ctx_pdus c i = Some p \<longrightarrow> pdu_typed p) \<and>
     (\<forall>i \<in> set (ctx_waitpdu c). \<forall>p. ctx_pdus c i = Some p \<longrightarrow> \<not> sends_once p)"

definition well :: "nat set \<Rightarrow> iscsi_context \<Rightarrow> bool" where
  "well W c \<longleftrightarrow> well_typed c \<and> W \<subseteq> set (ctx_waitpdu c)"

definition pdu_fit :: "iscsi_pdu \<Rightarrow> bool" where
  "pdu_fit p \<longleftrightarrow> pdu_typed p \<and> ISCSI_RAW_HEADER_SIZE \<le> data_size (pdu_outdata p)"

definition detached :: "nat set \<Rightarrow> nat \<Rightarrow> iscsi_context \<Rightarrow> bool" where
  "detached W i c \<longleftrightarrow> ctx_pdus c i \<noteq> None \<and> well W (c\<lparr>ctx_pdus := (ctx_pdus c)(i := None)\<rparr>)"

definition fresh :: "nat set \<Rightarrow> nat \<Rightarrow> iscsi_context \<Rightarrow> bool" where
  "fresh W i c \<longleftrightarrow> detached W i c \<and> pdu_fit (pdu_at c i)"

definition core :: "iscsi_context \<Rightarrow> (nat \<Rightarrow> iscsi_pdu option) \<times> nat list \<times> nat list \<times> nat ptr" where
  "core c = (ctx_pdus c, ctx_outqueue c, ctx_waitpdu c, ctx_outqueue_current c)"

lemma well_core: "core c' = core c \<Longrightarrow> well W c' = well W c"
  by (simp add: core_def well_def well_typed_def queues_ok_def)

lemma well_from: "core c' = core c \<Longrightarrow> well W c \<Longrightarrow> well W c'"
  by (simp add: core_def well_def well_typed_def queues_ok_def)

lemma detached_core: "core c' = core c \<Longrightarrow> detached W i c' = detached W i c"
  by (simp add: core_def detached_def well_def well_typed_def queues_ok_def)

lemma fresh_from: "core c' = core c \<Longrightarrow> fresh W i c \<Longrightarrow> fresh W i c'"
  by (simp add: core_def fresh_def detached_def well_def well_typed_def queues_ok_def pdu_at_def)

lemma fresh_core: "core c' = core c \<Longrightarrow> fresh W i c' = fresh W i c"
  using detached_core [of c' c W i] by (simp add: fresh_def core_def pdu_at_def)

lemma core_updates [simp]:
  "core (c\<lparr>ctx_tasks := ts\<rparr>) = core c" "core (c\<lparr>ctx_trace := tr\<rparr>) = core c"
  "core (c\<lparr>ctx_login := l\<rparr>) = core c" "core (c\<lparr>ctx_cmdsn := n\<rparr>) = core c"
  "core (c\<lparr>ctx_itt := n\<rparr>) = core c" "core (c\<lparr>ctx_expcmdsn := n\<rparr>) = core c"
  "core (c\<lparr>ctx_maxcmdsn := n\<rparr>) = core c" "core (c\<lparr>ctx_min_cmdsn_waiting := n\<rparr>) = core c"
  "core (c\<lparr>ctx_statsn := n\<rparr>) = core c" "core (c\<lparr>ctx_pending_reconnect := b\<rparr>) = core c"
  "core (c\<lparr>ctx_wire := bs\<rparr>) = core c" "core (c\<lparr>ctx_received := bs\<rparr>) = core c"
  "core (c\<lparr>ctx_memory := m\<rparr>) = core c" "core (c\<lparr>ctx_incoming := r\<rparr>) = core c"
  "core (c\<lparr>ctx_is_loggedin := b\<rparr>) = core c" "core (c\<lparr>ctx_is_corked := b\<rparr>) = core c"
  "core (c\<lparr>ctx_header_digest := d\<rparr>) = core c" "core (c\<lparr>ctx_data_digest := d\<rparr>) = core c"
  "core (c\<lparr>ctx_nops_in_flight := n'\<rparr>) = core c" "core (c\<lparr>ctx_next_reconnect := t\<rparr>) = core c"
  "core (c\<lparr>ctx_first_burst_length := n\<rparr>) = core c" "core (c\<lparr>ctx_max_burst_length := n\<rparr>) = core c"
  "core (c\<lparr>ctx_use_initial_r2t := d\<rparr>) = core c" "core (c\<lparr>ctx_use_immediate_data := d\<rparr>) = core c"
  "core (c\<lparr>ctx_target_max_recv_data_segment_length := n\<rparr>) = core c"
  "core (c\<lparr>ctx_initiator_max_recv_data_segment_length := n\<rparr>) = core c"
  "core (task_modify t' f c) = core c" "core (c\<lparr>ctx_conn := n''\<rparr>) = core c"
  "core (c\<lparr>ctx_fd := fd\<rparr>) = core c" "core (c\<lparr>ctx_isid := bs\<rparr>) = core c"
  by (simp_all add: core_def task_modify_def)

lemma core_itt [simp]: "iscsi_itt_post_increment c = (n, c') \<Longrightarrow> core c' = core c"
  by (auto simp: iscsi_itt_post_increment_def Let_def split: if_splits)

lemma wellD:
  assumes "well W c"
  shows "queues_ok c" "i \<in> W \<Longrightarrow> i \<in> set (ctx_waitpdu c)" "ctx_pdus c i = Some p \<Longrightarrow> pdu_typed p"
  using assms by (auto simp: well_def well_typed_def)

lemma well_mono: "well W c \<Longrightarrow> V \<subseteq> W \<Longrightarrow> well V c"
  by (auto simp: well_def)

lemma typed_store:
  assumes "well_typed (c\<lparr>ctx_pdus := (ctx_pdus c)(i := None)\<rparr>)" "ctx_pdus c i = Some p" "pdu_typed p"
  shows "well_typed c"
proof -
  have others: "\<forall>k q. ((ctx_pdus c)(i := None)) k = Some q \<longrightarrow> pdu_ok q \<and> pdu_typed q"
    using assms(1) by (simp add: well_typed_def queues_ok_def)
  have "pdu_ok q \<and> pdu_typed q" if "ctx_pdus c k = Some q" for k q
    using assms(2,3) others [rule_format, of k q] that by (cases "k = i") (simp_all add: pdu_typed_def)
  then show ?thesis using assms(1,2) by (auto simp: well_typed_def queues_ok_def split: if_splits)
qed

lemma fresh_well: "fresh W i c \<Longrightarrow> well W c"
  using typed_store [of c i] by (auto simp: fresh_def detached_def well_def pdu_fit_def pdu_at_def)

lemma fresh_detached: "fresh W i c \<Longrightarrow> detached W i c"
  by (simp add: fresh_def)

lemma detachedD:
  assumes "detached W i c"
  shows "i \<notin> set (ctx_outqueue c)" "i \<notin> set (ctx_waitpdu c)" "ctx_outqueue_current c \<noteq> Ptr i"
    "\<exists>p. ctx_pdus c i = Some p"
  using assms by (auto simp: detached_def well_def well_typed_def queues_ok_def split: if_splits)

section \<open>The operations on PDUs\<close>

lemma post_pair: "post (\<lambda>(r, c'). P r c') m \<Longrightarrow> (\<And>r c'. P r c' \<Longrightarrow> post Q (k r c')) \<Longrightarrow> post Q (m \<bind> (\<lambda>(r, c'). k r c'))"
  by (cases m) auto

lemma post_ptr:
  "(r = NULL \<Longrightarrow> post P m) \<Longrightarrow> (\<And>i. r = Ptr i \<Longrightarrow> post P (k i)) \<Longrightarrow> post P (case r of NULL \<Rightarrow> m | Ptr i \<Rightarrow> k i)"
  by (cases r) auto

lemma post_pdu: "(\<And>p. ctx_pdus c i = Some p \<Longrightarrow> post P (k p)) \<Longrightarrow> post P (ctx_pdus c i \<bind> k)"
  by (rule post_read)

lemma post_itt:
  "(\<And>n c'. core c' = core c \<Longrightarrow> post P (k n c')) \<Longrightarrow> post P (case iscsi_itt_post_increment c of (n, c') \<Rightarrow> k n c')"
  by (auto split: prod.split)

lemma pdu_fit_hdr:
  assumes "\<And>h. length (f h) = length h"
  shows "pdu_fit (hdr_modify f p) = pdu_fit p" "pdu_typed (hdr_modify f p) = pdu_typed p"
  using assms by (simp_all add: pdu_fit_def pdu_ok_def pdu_typed_def hdr_modify_def)

lemma pdu_fit_cmdsn [simp]: "pdu_typed (with_cmdsn n p) = pdu_typed p" "pdu_fit (with_cmdsn n p) = pdu_fit p"
proof -
  have "pdu_response_opcode (with_cmdsn n p) = pdu_response_opcode p"
    "data_size (pdu_outdata (with_cmdsn n p)) = data_size (pdu_outdata p)"
    by (simp_all add: with_cmdsn_def hdr_modify_def)
  then show "pdu_typed (with_cmdsn n p) = pdu_typed p" "pdu_fit (with_cmdsn n p) = pdu_fit p"
    by (simp_all add: pdu_fit_def pdu_typed_def)
qed

lemma pdu_fit_timeout [simp]: "pdu_typed (with_timeout t p) = pdu_typed p"
  by (simp add: with_timeout_def pdu_typed_def pdu_ok_def)

lemma renumbered_typed: "renumbered p p' \<Longrightarrow> pdu_typed p' = pdu_typed p"
  by (auto simp: renumbered_def)

lemma typed_ok: "pdu_typed p \<Longrightarrow> pdu_ok p"
  by (simp add: pdu_typed_def)

lemma store_well:
  assumes "well W c" "ctx_pdus c i = Some q" "pdu_typed p" "pdu_flags p = pdu_flags q"
  shows "well W (pdu_store i p c)"
proof -
  have "sends_once p = sends_once q" using assms(4) by (simp add: sends_once_def)
  then show ?thesis
    using assms(1-3) by (auto simp: well_def well_typed_def pdu_store_def queues_ok_def dest: typed_ok)
qed

lemma store_fresh:
  assumes "fresh W k c" "pdu_typed p" "i = k \<Longrightarrow> pdu_fit p"
    "i \<noteq> k \<Longrightarrow> \<exists>q. ctx_pdus c i = Some q \<and> pdu_flags p = pdu_flags q"
  shows "fresh W k (pdu_store i p c)"
proof (cases "i = k")
  case True
  with assms show ?thesis by (simp add: fresh_def detached_def pdu_store_def pdu_at_def)
next
  case False
  then have "(ctx_pdus c)(i \<mapsto> p, k := None) = (ctx_pdus c)(k := None, i \<mapsto> p)" by (simp add: fun_upd_twist)
  moreover obtain q where "ctx_pdus c i = Some q" "sends_once p = sends_once q"
    using False assms(4) by (auto simp: sends_once_def)
  ultimately show ?thesis using False assms(1,2)
    by (auto simp: fresh_def detached_def pdu_store_def pdu_at_def well_def well_typed_def queues_ok_def dest: typed_ok)
qed

text \<open>A function on PDUs that keeps them usable.\<close>

definition fitting :: "(iscsi_pdu \<Rightarrow> iscsi_pdu) \<Rightarrow> bool" where
  "fitting f \<longleftrightarrow> (\<forall>p. (pdu_typed p \<longrightarrow> pdu_typed (f p)) \<and> (pdu_fit p \<longrightarrow> pdu_fit (f p)) \<and>
     pdu_flags (f p) = pdu_flags p)"

lemma modify_well:
  assumes "well W c" "fitting f"
  shows "post (well W) (pdu_modify i f c)"
  unfolding pdu_modify_def
  by (intro post_read) (use assms(2) wellD(3) [OF assms(1)] store_well [OF assms(1)] in \<open>auto simp: fitting_def\<close>)

lemma modify_fresh:
  assumes "fresh W k c" "fitting f"
  shows "post (fresh W k) (pdu_modify i f c)"
  unfolding pdu_modify_def
proof (intro post_read)
  fix p
  assume p: "ctx_pdus c i = Some p"
  then have "pdu_typed p" using wellD(3) [OF fresh_well [OF assms(1)]] by blast
  moreover have "i = k \<Longrightarrow> pdu_fit p" using assms(1) p by (simp add: fresh_def pdu_at_def)
  ultimately show "post (fresh W k) (Some (pdu_store i (f p) c))"
    using store_fresh [OF assms(1)] assms(2) p by (simp add: fitting_def)
qed

lemma modify_new:
  assumes "fresh W k c" "pdu_fit (f (pdu_at c k))"
  shows "post (fresh W k) (pdu_modify k f c)"
  unfolding pdu_modify_def
  by (intro post_read) (use assms store_fresh [OF assms(1)] in \<open>auto simp: pdu_at_def pdu_fit_def\<close>)

lemma set_cmdsn_fresh:
  assumes "fresh W k c"
  shows "post (fresh W k) (iscsi_pdu_set_cmdsn k n c)"
proof -
  obtain p where p: "ctx_pdus c k = Some p" using detachedD(4) [OF fresh_detached [OF assms]] by blast
  then have fit: "pdu_fit p" using assms by (simp add: fresh_def pdu_at_def)
  obtain ts where "iscsi_pdu_set_cmdsn k n c = Some (c\<lparr>ctx_pdus := (ctx_pdus c)(k \<mapsto> with_cmdsn n p), ctx_tasks := ts\<rparr>)"
    using iscsi_pdu_set_cmdsn_frame [OF p] by blast
  moreover have "fresh W k (pdu_store k (with_cmdsn n p) c)"
    by (rule store_fresh [OF assms]) (use fit in \<open>auto simp: pdu_fit_def [of p]\<close>)
  ultimately show ?thesis
    using fresh_core [of "c\<lparr>ctx_pdus := (ctx_pdus c)(k \<mapsto> with_cmdsn n p), ctx_tasks := ts\<rparr>" "pdu_store k (with_cmdsn n p) c"]
    by (simp add: pdu_store_def)
qed

lemma store_detached: "detached W i c \<Longrightarrow> detached W i (pdu_store i p c)"
  by (simp add: detached_def pdu_store_def)

text \<open>What the operations with a result do, and those that add data to the PDU \<open>i\<close>.\<close>

abbreviation gives :: "nat set \<Rightarrow> (int \<times> iscsi_context) option \<Rightarrow> bool" where
  "gives W m \<equiv> post (\<lambda>(r, c'). well W c') m"

definition added :: "nat set \<Rightarrow> nat \<Rightarrow> int \<Rightarrow> iscsi_context \<Rightarrow> bool" where
  "added W i r c \<longleftrightarrow> (if r = 0 then fresh W i c else detached W i c)"

abbreviation adds :: "nat set \<Rightarrow> nat \<Rightarrow> (int \<times> iscsi_context) option \<Rightarrow> bool" where
  "adds W i m \<equiv> post (\<lambda>(r, c'). added W i r c') m"

lemma add_data_fresh:
  assumes "fresh W i c"
  shows "adds W i (iscsi_pdu_add_data a i d n c)"
proof -
  have d: "detached W i c" using assms by (rule fresh_detached)
  obtain p where p: "ctx_pdus c i = Some p" using detachedD(4) [OF d] by blast
  then have fit: "pdu_fit p" using assms by (simp add: fresh_def pdu_at_def)
  show ?thesis
  proof (cases "iscsi_add_data a (pdu_outdata p) d n True")
    case None
    with p d show ?thesis by (simp add: iscsi_pdu_add_data_def added_def)
  next
    case (Some x)
    obtain r od where x: "x = (r, od)" by force
    show ?thesis
    proof (cases "r = 0 \<and> n \<noteq> 0")
      case True
      then have "ISCSI_RAW_HEADER_SIZE \<le> length (data_bytes od)" "ISCSI_RAW_HEADER_SIZE \<le> data_size od"
        using Some x fit by (auto simp: iscsi_add_data_def pdu_fit_def Let_def split: if_splits)
      then have "pdu_fit (p\<lparr>pdu_outdata := od\<rparr>)" using fit by (simp add: pdu_fit_def pdu_ok_def pdu_typed_def)
      then have "fresh W i (pdu_store i (hdr_modify (scsi_set_uint32 4 sz) (p\<lparr>pdu_outdata := od\<rparr>)) c)" for sz
        by (intro store_fresh [OF assms]) (simp_all add: pdu_fit_hdr, simp_all add: pdu_fit_def)
      with True Some x p show ?thesis by (simp add: iscsi_pdu_add_data_def added_def Let_def)
    next
      case False
      with Some x p d store_detached [OF d] show ?thesis by (auto simp: iscsi_pdu_add_data_def added_def Let_def)
    qed
  qed
qed

lemma free_detached:
  assumes "detached W i c"
  shows "post (well W) (iscsi_tcp_free_pdu i c)"
  using detachedD [OF assms] assms iscsi_tcp_free_pdu_frame [of c i] by (auto simp: detached_def)

lemma free_unqueued:
  assumes "well W c" "i \<notin> set (ctx_outqueue c)" "i \<notin> set (ctx_waitpdu c)"
  shows "post (well W) (iscsi_tcp_free_pdu i c)"
  using free_queues_ok [OF wellD(1) [OF assms(1)] assms(2,3)] assms(1) iscsi_tcp_free_pdu_frame [of c i]
  by (cases "ctx_pdus c i") (auto simp: well_def well_typed_def iscsi_tcp_free_pdu_def)

text \<open>The calls of callbacks do not touch the queues.\<close>

lemma callback_core: "post (\<lambda>c'. core c' = core c) (pdu_callback_call st i c)"
  unfolding pdu_callback_call_def
  by (intro post_read) (auto simp: iscsi_scsi_response_cb_def Let_def split: ptr.split iscsi_command_cb.split)

lemma callback_event_core: "post (\<lambda>c'. core c' = core c) (pdu_callback_event st ev i c)"
  unfolding pdu_callback_event_def
  by (intro post_read) (auto split: ptr.split iscsi_command_cb.split intro: callback_core)

lemma post_core: "post (\<lambda>c'. core c' = core c) m \<Longrightarrow> well W c \<Longrightarrow> post (well W) m"
  by (erule post_mono) (metis well_core)

lemmas callback_well = post_core [OF callback_core] post_core [OF callback_event_core]

text \<open>A new PDU has no callback.\<close>

definition blank :: "nat set \<Rightarrow> u8 \<Rightarrow> nat ptr \<Rightarrow> iscsi_context \<Rightarrow> bool" where
  "blank W rop r c \<longleftrightarrow> (case r of NULL \<Rightarrow> well W c | Ptr i \<Rightarrow> fresh W i c \<and> pdu_callback (pdu_at c i) = NULL \<and> pdu_response_opcode (pdu_at c i) = rop)"

lemma allocate_blank:
  assumes "env_ok env" "well W c"
  shows "post (\<lambda>(r, c'). blank W rop r c') (iscsi_allocate_pdu env op rop itt fl c)"
proof (cases "env_new_pdu env c")
  case NULL
  with assms(2) show ?thesis by (simp add: iscsi_allocate_pdu_def blank_def)
next
  case (Ptr i)
  then have i: "ctx_pdus c i = None" using assms(1) by (simp add: env_ok_def)
  then have "(ctx_pdus c)(i := None) = ctx_pdus c" by auto
  then have d: "detached W i (pdu_store i p c)" for p
    using well_core [of "c\<lparr>ctx_pdus := (ctx_pdus c)(i := None)\<rparr>" c] assms(2)
    by (simp add: detached_def pdu_store_def)
  show ?thesis
  proof (cases "env_malloc env (pdu_store i zero_pdu c)")
    case False
    have "post (\<lambda>(r, c'). blank W rop r c')
        (iscsi_tcp_free_pdu i (pdu_store i zero_pdu c) \<bind> (\<lambda>c. Some (NULL, c)))"
      by (rule post_bind [OF free_detached [OF d]]) (simp_all add: blank_def)
    with False Ptr show ?thesis by (simp add: iscsi_allocate_pdu_def)
  next
    case True
    define h where "h = (let h = (replicate (ISCSI_HEADER_SIZE (ctx_header_digest c)) 0)[0 := op]
      in if op = ISCSI_PDU_LOGIN_REQUEST then blit 8 (take 6 (ctx_isid c)) h else h)"
    define p where "p = (iscsi_pdu_set_itt itt (zero_pdu\<lparr>pdu_outdata := \<lparr>data_bytes = h,
      data_size = ISCSI_HEADER_SIZE (ctx_header_digest c)\<rparr>, pdu_response_opcode := rop\<rparr>))
      \<lparr>pdu_itt := itt, pdu_flags := fl, pdu_calculated_data_digest := crc32c_init\<rparr>"
    have sz: "ISCSI_RAW_HEADER_SIZE \<le> ISCSI_HEADER_SIZE x" for x by (simp add: ISCSI_HEADER_SIZE_def)
    have "length h = ISCSI_HEADER_SIZE (ctx_header_digest c)"
      using sz [of "ctx_header_digest c"] by (simp add: h_def Let_def)
    then have "pdu_fit p"
      using sz [of "ctx_header_digest c"]
      by (simp add: p_def pdu_fit_def pdu_ok_def pdu_typed_def iscsi_pdu_set_itt_def hdr_modify_def zero_pdu_def)
    then have "fresh W i (pdu_store i p (pdu_store i zero_pdu c))"
      using store_detached [OF d] by (simp add: fresh_def pdu_at_def pdu_store_def)
    moreover have "pdu_callback (pdu_at (pdu_store i p (pdu_store i zero_pdu c)) i) = NULL"
      "pdu_response_opcode (pdu_at (pdu_store i p (pdu_store i zero_pdu c)) i) = rop"
      by (simp_all add: pdu_at_def pdu_store_def p_def iscsi_pdu_set_itt_def hdr_modify_def zero_pdu_def)
    moreover have "iscsi_allocate_pdu env op rop itt fl c = Some (Ptr i, pdu_store i p (pdu_store i zero_pdu c))"
      using Ptr True by (simp add: iscsi_allocate_pdu_def p_def h_def Let_def pdu_store_def)
    ultimately show ?thesis by (simp add: blank_def)
  qed
qed

text \<open>A PDU leaves its queue.\<close>

lemma off_outqueue:
  assumes "well W c" "list_remove i (ctx_outqueue c) = Some q"
  shows "well W (c\<lparr>ctx_outqueue := q\<rparr>)" "i \<notin> set q"
proof -
  have q: "q = remove1 i (ctx_outqueue c)" using assms(2) by (simp add: list_remove_def split: if_splits)
  have ok: "queues_ok c" using assms(1) by (rule wellD)
  show "i \<notin> set q" using queues_okD(1) [OF ok] q by simp
  have "set q \<subseteq> set (ctx_outqueue c)" using q by (simp add: set_remove1_subset)
  moreover have "distinct q" using queues_okD(1) [OF ok] q by simp
  ultimately show "well W (c\<lparr>ctx_outqueue := q\<rparr>)"
    using assms(1) unfolding well_def well_typed_def queues_ok_def by auto
qed

lemma off_waitpdu:
  assumes "well W c" "i \<notin> W" "list_remove i (ctx_waitpdu c) = Some q"
  shows "well W (c\<lparr>ctx_waitpdu := q\<rparr>)" "i \<notin> set q"
proof -
  have q: "q = remove1 i (ctx_waitpdu c)" using assms(3) by (simp add: list_remove_def split: if_splits)
  have ok: "queues_ok c" using assms(1) by (rule wellD)
  then have s: "set q = set (ctx_waitpdu c) - {i}" "distinct q" using queues_okD(2) q by simp_all
  then show "i \<notin> set q" by simp
  show "well W (c\<lparr>ctx_waitpdu := q\<rparr>)"
    using assms(1,2) s unfolding well_def well_typed_def queues_ok_def by auto
qed

text \<open>A PDU that is on no queue any more is called back and freed.\<close>

lemma finish_ok:
  assumes "well W c" "i \<notin> set (ctx_outqueue c)" "i \<notin> set (ctx_waitpdu c)"
  shows "post (well W) (pdu_callback_call st i c \<bind> iscsi_tcp_free_pdu i)"
proof (rule post_bind [OF callback_core])
  fix c'
  assume "core c' = core c"
  then show "post (well W) (iscsi_tcp_free_pdu i c')"
    using free_unqueued [OF well_from [OF _ assms(1)], of c' i] assms(2,3) by (simp add: core_def)
qed

section \<open>Replies that only complete a PDU\<close>

lemma task_of: "(\<And>t. pdu_task i c = Some t \<Longrightarrow> post P (k t)) \<Longrightarrow> post P (pdu_task i c \<bind> k)"
  by (rule post_read)

lemma calledD:
  "pdu_callback_call st i c = Some c' \<Longrightarrow> well W c \<Longrightarrow> well W c'"
  "pdu_callback_event st ev i c = Some c' \<Longrightarrow> well W c \<Longrightarrow> well W c'"
  by (rule postD [OF callback_well(1)], assumption+) (rule postD [OF callback_well(2)], assumption+)

lemma give_datain_ok:
  assumes "well W c"
  shows "post (well W) (give_datain i t c)"
  unfolding give_datain_def Let_def
proof (rule post_pdu)
  fix p
  assume "ctx_pdus c i = Some p"
  moreover from this have "pdu_typed (p\<lparr>pdu_indata := zero_data\<rparr>)" using wellD(3) [OF assms] by (auto simp: pdu_typed_def pdu_ok_def)
  ultimately show "post (well W) (Some (pdu_store i (p\<lparr>pdu_indata := zero_data\<rparr>)
      (task_modify t (\<lambda>task. task\<lparr>datain := take (data_size (pdu_indata p)) (data_bytes (pdu_indata p))\<rparr>) c)))"
    using store_well [OF well_from [OF core_updates(27) assms]] by (simp add: task_modify_def)
qed

lemma fail_pdu_ok: "well W c \<Longrightarrow> gives W (fail_pdu i c)"
  unfolding fail_pdu_def by (intro post_bind [OF callback_well(1)]) simp_all

lemma check_condition_ok:
  assumes "well W c"
  shows "gives W (check_condition e i t inp c)"
  unfolding check_condition_def Let_def
  by (intro post_if post_read) (auto dest!: calledD simp: assms well_from [OF core_updates(27)])

lemma reply_by_status_ok:
  assumes "well W c"
  shows "gives W (reply_by_status e i t inp st c)"
  unfolding reply_by_status_def
  by (intro post_if post_bind [OF give_datain_ok [OF assms]] post_bind [OF callback_well(1)] check_condition_ok
      fail_pdu_ok assms) (simp_all add: assms)

lemma scsi_reply_ok:
  assumes "well W c"
  shows "gives W (iscsi_process_scsi_reply e i inp c)"
  unfolding iscsi_process_scsi_reply_def Let_def
  by (intro post_if task_of fail_pdu_ok reply_by_status_ok well_from [OF core_updates(27)] assms)

text \<open>A reply that tells whether it is the last one.\<close>

abbreviation answers :: "nat set \<Rightarrow> (int \<times> bool \<times> iscsi_context) option \<Rightarrow> bool" where
  "answers W m \<equiv> post (\<lambda>(r, fin, c'). well W c') m"

lemma data_in_ok:
  assumes "well W c"
  shows "answers W (iscsi_process_scsi_data_in e i inp c)"
proof -
  have data: "gives W (do {
      p \<leftarrow> ctx_pdus c i;
      (r, d) \<leftarrow> iscsi_add_data a (pdu_indata p) bs n False;
      Some (r, pdu_store i (p\<lparr>pdu_indata := d\<rparr>) c)
    })" for a bs n
  proof (rule post_pdu, rule post_read, clarify)
    fix p r d
    assume "ctx_pdus c i = Some p"
    moreover from this have "pdu_typed (p\<lparr>pdu_indata := d\<rparr>)" using wellD(3) [OF assms] by (auto simp: pdu_typed_def pdu_ok_def)
    ultimately show "gives W (Some (r, pdu_store i (p\<lparr>pdu_indata := d\<rparr>) c))" using store_well [OF assms] by simp
  qed
  then have data: "gives W (if b then do {
      p \<leftarrow> ctx_pdus c i;
      (r, d) \<leftarrow> iscsi_add_data a (pdu_indata p) bs n False;
      Some (r, pdu_store i (p\<lparr>pdu_indata := d\<rparr>) c)
    } else Some (0, c))" for b a bs n
    using assms by simp
  show ?thesis
    unfolding iscsi_process_scsi_data_in_def Let_def
    by (intro post_if task_of post_pair [OF fail_pdu_ok [OF assms]] post_pair [OF data] post_bind [OF give_datain_ok]
        post_bind [OF callback_well(1)] well_from [OF core_updates(27)]) simp_all
qed

lemma logout_reply_ok: "well W c \<Longrightarrow> gives W (iscsi_process_logout_reply i c)"
  unfolding iscsi_process_logout_reply_def
  by (intro post_bind [OF callback_well(1)] well_from [OF core_updates(15)]) simp_all

lemma task_mgmt_reply_ok: "well W c \<Longrightarrow> gives W (iscsi_process_task_mgmt_reply i inp c)"
  unfolding iscsi_process_task_mgmt_reply_def Let_def by (intro post_bind [OF callback_well(2)]) simp_all

lemma nop_reply_ok:
  assumes "well W c"
  shows "gives W (iscsi_process_nop_out_reply e i inp c)"
  unfolding iscsi_process_nop_out_reply_def Let_def
  by (cases "ctx_waitpdu c") (auto intro!: post_read dest!: calledD(2)
      simp: assms well_from [OF core_updates(8)] well_from [OF core_updates(19)])

lemma text_reply_ok:
  assumes "well W c"
  shows "post (\<lambda>(r, live, c'). well W c') (iscsi_process_text_reply a i inp c)"
  unfolding iscsi_process_text_reply_def
  by (intro post_if post_read) (auto intro!: post_read dest!: calledD simp: assms split: sum.split)

text \<open>The keys of a login reply.\<close>

definition going :: "iscsi_context \<Rightarrow> login_progress \<Rightarrow> bool" where
  "going c p \<longleftrightarrow> core (case p of Inl (r, c') \<Rightarrow> c' | Inr (c', st) \<Rightarrow> c') = core c"

lemma login_key_going: "core c' = core c \<Longrightarrow> post (going c) (login_reply_key e i s (c', n, m))"
proof -
  assume c': "core c' = core c"
  have stop: "post (going c) (fail_login r i c' \<bind> (\<lambda>r. Some (Inl r)))" for r
    unfolding fail_login_def bind_assoc
    by (rule post_bind [OF callback_core]) (simp add: going_def c')
  show ?thesis
    unfolding login_reply_key_def Let_def prod.case
    by (intro post_if stop) (simp_all add: going_def c')
qed

lemma login_loop_going: "core (fst st) = core c \<Longrightarrow> post (going c) (login_reply_loop e i bs st)"
proof (induction e i bs st rule: login_reply_loop.induct)
  case (1 e i bs st)
  obtain c' n m where st: "st = (c', n, m)" by (metis prod_cases3)
  have stop: "post (going c) (fail_login (-1) i (fst st) \<bind> (\<lambda>r. Some (Inl r)))"
    unfolding fail_login_def bind_assoc
    by (rule post_bind [OF callback_core]) (simp add: going_def 1(2))
  have inr: "post (going c) (Some (Inr st))" using 1(2) st by (simp add: going_def)
  show ?case
  proof (cases "split_nul bs")
    case None
    with inr stop show ?thesis by (subst login_reply_loop.simps) simp
  next
    case (Some x)
    obtain s rest where x: "x = (s, rest)" by force
    have "post (going c) (login_reply_key e i s st \<bind>
        (\<lambda>p. case p of Inl r \<Rightarrow> Some (Inl r) | Inr st \<Rightarrow> login_reply_loop e i rest st))" if "bs \<noteq> []" "s \<noteq> []"
    proof (rule post_read)
      fix p
      assume p: "login_reply_key e i s st = Some p"
      then have g: "going c p" using login_key_going [of c' c e i s n m] 1(2) st by (simp add: post_def)
      show "post (going c) (case p of Inl r \<Rightarrow> Some (Inl r) | Inr st \<Rightarrow> login_reply_loop e i rest st)"
      proof (cases p)
        case (Inl r)
        with g show ?thesis by simp
      next
        case (Inr st')
        with g have "core (fst st') = core c" by (simp add: going_def case_prod_beta)
        from 1(1) [OF that(1) Some x [symmetric] that(2) p Inr this] Inr show ?thesis by simp
      qed
    qed
    with inr Some x show ?thesis by (subst login_reply_loop.simps) simp
  qed
qed

section \<open>Reading from the socket\<close>

abbreviation same_core :: "iscsi_context \<Rightarrow> (int ptr \<times> iscsi_in_pdu \<times> iscsi_context) option \<Rightarrow> bool" where
  "same_core c m \<equiv> post (\<lambda>(r, inp, c'). core c' = core c) m"

lemma recv_core: "socket_recv e n c = (r, c') \<Longrightarrow> core c' = core c"
  by (auto simp: socket_recv_def split: recv_result.splits)

lemma after_recv_core:
  assumes "core c' = core c" "\<And>bs. same_core c (f bs)"
  shows "same_core c (after_recv r inp c' f)"
  using assms by (auto simp: after_recv_def split: recv_result.split)

lemma read_header_core: "same_core c (read_header e inp c)"
  unfolding read_header_def Let_def
  by (intro post_if) (auto intro!: after_recv_core dest: recv_core split: prod.split)

lemma readv_core: "post (\<lambda>(r, d, c'). core c' = core c) (iscsi_iovector_readv e dd t pos count digest c)"
  unfolding iscsi_iovector_readv_def Let_def
  by (rule post_read) (auto dest!: recv_core split: ptr.split prod.split recv_result.split)

lemma read_data_core: "same_core c (read_data e inp c)"
  unfolding read_data_def Let_def
  by (intro post_if post_read) (auto split: ptr.split bool.split prod.split
      intro!: post_bind [OF readv_core] after_recv_core dest!: recv_core)

lemma read_digest_core: "same_core c (read_digest e inp c)"
  unfolding read_digest_def Let_def
  by (intro post_if) (auto intro!: after_recv_core dest: recv_core split: prod.split)

lemma read_then_core:
  assumes "same_core c m" "\<And>inp c'. core c' = core c \<Longrightarrow> same_core c (f inp c')"
  shows "same_core c (read_then m f)"
  unfolding read_then_def by (rule post_bind [OF assms(1)]) (use assms(2) in \<open>auto split: ptr.split\<close>)

lemma same_core_from: "same_core c m \<Longrightarrow> core c = core c0 \<Longrightarrow> same_core c0 m"
  by simp

lemma read_pdu_core: "same_core c (read_pdu e inp c)"
  unfolding read_pdu_def
  by (intro read_then_core read_header_core same_core_from [OF read_data_core] same_core_from [OF read_digest_core])

lemma incoming_core: "incoming_pdu e c = (r, c') \<Longrightarrow> core c' = core c"
  by (auto simp: incoming_pdu_def Let_def split: ptr.splits if_splits)

section \<open>Writing to the socket\<close>

text \<open>What writing the bytes of a PDU leaves alone.\<close>

definition kind where
  "kind p = (data_bytes (pdu_outdata p), pdu_callback p, pdu_cbdata_task p, pdu_response_opcode p, pdu_flags p)"

definition snapshot where
  "snapshot c = ((\<lambda>k. map_option kind (ctx_pdus c k)), ctx_outqueue c, ctx_waitpdu c, ctx_outqueue_current c)"

lemma kind_typed:
  assumes "kind q = kind p"
  shows "pdu_typed q = pdu_typed p" "sends_once q = sends_once p"
  using assms by (simp_all add: kind_def pdu_typed_def pdu_ok_def sends_once_def)

lemma snapshot_pdu:
  assumes "snapshot c' = snapshot c" "ctx_pdus c' k = Some q"
  shows "\<exists>p. ctx_pdus c k = Some p \<and> kind q = kind p"
proof -
  have "map_option kind (ctx_pdus c k) = map_option kind (ctx_pdus c' k)"
    using assms(1) by (simp add: snapshot_def fun_eq_iff)
  with assms(2) show ?thesis by auto
qed

lemma snapshot_live: "snapshot c' = snapshot c \<Longrightarrow> ctx_pdus c' k = None \<longleftrightarrow> ctx_pdus c k = None"
  by (auto simp: snapshot_def fun_eq_iff) (metis map_option_is_None)+

lemma snapshot_well:
  assumes "snapshot c' = snapshot c" "well W c"
  shows "well W c'"
proof -
  have q: "ctx_outqueue c' = ctx_outqueue c" "ctx_waitpdu c' = ctx_waitpdu c"
    "ctx_outqueue_current c' = ctx_outqueue_current c"
    using assms(1) by (simp_all add: snapshot_def)
  have typed: "pdu_typed p" if "ctx_pdus c' k = Some p" for k p
    using snapshot_pdu [OF assms(1) that] wellD(3) [OF assms(2)] kind_typed(1) by blast
  have "\<not> sends_once p" if "k \<in> set (ctx_waitpdu c)" "ctx_pdus c' k = Some p" for k p
    using snapshot_pdu [OF assms(1) that(2)] that(1) assms(2) kind_typed(2) unfolding well_def well_typed_def by metis
  with q typed show ?thesis
    using assms(2) snapshot_live [OF assms(1)] typed_ok
    unfolding well_def well_typed_def queues_ok_def by (simp only: q) blast
qed

lemma snapshot_core: "core c' = core c \<Longrightarrow> snapshot c' = snapshot c"
  by (simp add: core_def snapshot_def)

lemma snapshot_store: "ctx_pdus c i = Some p \<Longrightarrow> kind q = kind p \<Longrightarrow> snapshot (pdu_store i q c) = snapshot c"
  by (auto simp: snapshot_def pdu_store_def fun_eq_iff)

lemma kind_updates [simp]:
  "kind (p\<lparr>pdu_outdata_written := a\<rparr>) = kind p" "kind (p\<lparr>pdu_payload_written := b\<rparr>) = kind p"
  "kind (p\<lparr>pdu_calculated_data_digest := d\<rparr>) = kind p" "kind (p\<lparr>pdu_outdata_digest_computed := e\<rparr>) = kind p"
  by (simp_all add: kind_def)

abbreviation works :: "iscsi_context \<Rightarrow> step_result \<Rightarrow> bool" where
  "works c m \<equiv> post (\<lambda>(r, c'). snapshot c' = snapshot c) m"

lemma send_core: "socket_send e bs c = (r, c') \<Longrightarrow> core c' = core c"
  by (auto simp: socket_send_def split: send_result.splits)

lemma send_works:
  assumes "ctx_pdus c i = Some p" "socket_send e bs c = (r, c')"
  shows "ctx_pdus c' i = Some p" "snapshot c' = snapshot c"
  using send_core [OF assms(2)] assms(1) by (simp add: core_def) (rule snapshot_core [OF send_core [OF assms(2)]])

lemma post_send:
  assumes "ctx_pdus c i = Some p"
    "\<And>r c'. snapshot c' = snapshot c \<Longrightarrow> ctx_pdus c' i = Some p \<Longrightarrow> post P (k r c')"
  shows "post P (case socket_send e bs c of (r, c') \<Rightarrow> k r c')"
proof -
  obtain r c' where r: "socket_send e bs c = (r, c')" by force
  with assms(2) [of c' r] send_works [OF assms(1) r] show ?thesis by simp
qed

lemma works_Some: "snapshot c' = snapshot c \<Longrightarrow> works c (Some (r, c'))"
  by simp

lemma works_store:
  assumes "snapshot c' = snapshot c" "ctx_pdus c' i = Some p" "kind q = kind p"
  shows "works c (Some (r, pdu_store i q c'))"
  using snapshot_store [OF assms(2,3)] assms(1) by simp

lemma post_store_send:
  assumes "ctx_pdus c i = Some p" "kind q = kind p"
    "\<And>r c'. snapshot c' = snapshot c \<Longrightarrow> ctx_pdus c' i = Some q \<Longrightarrow> post P (k r c')"
  shows "post P (case socket_send e bs (pdu_store i q c) of (r, c') \<Rightarrow> k r c')"
  by (rule post_send [of _ i q]) (use assms snapshot_store [OF assms(1,2)] in \<open>simp_all add: pdu_store_def\<close>)

lemma post_send_result:
  "(\<And>n. post P (f n)) \<Longrightarrow> post P m \<Longrightarrow> post P m' \<Longrightarrow>
     post P (case r of Sent n \<Rightarrow> f n | Send_blocked \<Rightarrow> m | Send_failed \<Rightarrow> m')"
  by (cases r) auto

lemma kind_size [simp]: "kind (p\<lparr>pdu_outdata := \<lparr>data_bytes = data_bytes (pdu_outdata p), data_size = n\<rparr>\<rparr>) = kind p"
  "kind (p\<lparr>pdu_outdata := \<lparr>data_bytes = data_bytes (pdu_outdata p), data_size = n\<rparr>, pdu_outdata_written := m\<rparr>) = kind p"
  by (simp_all add: kind_def)

lemma store_at: "ctx_pdus (pdu_store i p c) i = Some p"
  by (simp add: pdu_store_def)

lemma write_header_works: "works c (write_header e i c)"
  unfolding write_header_def Let_def
  by (intro post_pdu post_if post_store_send post_send_result post_None)
    (assumption | rule works_store kind_size refl | rule works_Some | simp only: kind_updates kind_size)+

lemma write_digest_start_works: "works c (write_digest_start i c)"
  unfolding write_digest_start_def Let_def
  by (intro post_pdu post_if post_None)
    (assumption | rule works_store refl | rule works_Some | simp only: kind_updates)+

lemma write_padding_works: "works c (write_padding e i c)"
  unfolding write_padding_def Let_def
  by (intro post_pdu post_if post_send post_send_result post_None)
    (assumption | rule works_store refl | rule works_Some | simp only: kind_updates)+

lemma write_digest_works: "works c (write_digest e i c)"
  unfolding write_digest_def Let_def
  by (intro post_pdu post_if post_send post_send_result post_None)
    (assumption | rule works_store refl | rule works_Some | simp only: kind_updates)+

lemma write_done_ok:
  assumes "well W c" "ctx_outqueue_current c = Ptr i"
  shows "post (\<lambda>(r, c'). well W c') (write_done i c)"
  unfolding write_done_def Let_def
proof (rule post_pdu)
  fix p
  assume p: "ctx_pdus c i = Some p"
  have fin: "well W (c'\<lparr>ctx_outqueue_current := NULL\<rparr>)" if "well W c'" for c'
    using that by (auto simp: well_def well_typed_def queues_ok_def)
  have "i \<notin> set (ctx_waitpdu c)" if "pdu_flags p AND ISCSI_PDU_DELETE_WHEN_SENT \<noteq> 0"
    using that assms(1) p by (auto simp: well_def well_typed_def sends_once_def)
  moreover have "i \<notin> set (ctx_outqueue c)" using queues_okD(7) [OF wellD(1) [OF assms(1)] assms(2)] .
  ultimately show "post (\<lambda>(r, c'). well W c') (do {
      c \<leftarrow> (if pdu_flags p AND ISCSI_PDU_DELETE_WHEN_SENT \<noteq> 0
        then iscsi_tcp_free_pdu i (if pdu_flags p AND ISCSI_PDU_CORK_WHEN_SENT \<noteq> 0 then c\<lparr>ctx_is_corked := True\<rparr> else c)
        else Some (if pdu_flags p AND ISCSI_PDU_CORK_WHEN_SENT \<noteq> 0 then c\<lparr>ctx_is_corked := True\<rparr> else c));
      Some (NULL, c\<lparr>ctx_outqueue_current := NULL\<rparr>)
    })"
    by (intro post_bind [where P = "well W"])
      (auto simp: assms(1) fin well_from [OF core_updates(16)] intro!: free_unqueued)
qed

lemma writev_core: "post (\<lambda>(r, v, d, c'). core c' = core c) (iscsi_iovector_writev e dd v pos n crc c)"
  unfolding iscsi_iovector_writev_def Let_def
  by (rule post_read) (auto dest!: send_core split: ptr.split prod.split send_result.split)

lemma write_payload_works: "works c (write_payload e i c)"
proof (rule postI)
  fix r
  assume "write_payload e i c = Some r"
  then have "snapshot (snd r) = snapshot c"
  proof (rule write_payload.raw_induct [where P = "\<lambda>e i c r. snapshot (snd r) = snapshot c", rotated])
    fix wr :: "iscsi_env \<Rightarrow> nat \<Rightarrow> iscsi_context \<Rightarrow> step_result" and e i c r
    let ?body = "\<lambda>p t. do {
           (r, v, digest, iscsi) \<leftarrow> iscsi_iovector_writev e (do_data_digest c)
             (iovector_out (ctx_tasks c t)) (unat (pdu_payload_offset p + pdu_payload_written p))
             (unat (pdu_payload_len p - pdu_payload_written p)) (pdu_calculated_data_digest p) c;
           let iscsi = task_modify t (\<lambda>task. task\<lparr>iovector_out := v\<rparr>) iscsi;
           let p = p\<lparr>pdu_calculated_data_digest := digest\<rparr>;
           case r of
             Send_blocked \<Rightarrow> Some (Ptr 0, pdu_store i p iscsi)
           | Send_failed \<Rightarrow> Some (Ptr (-1), pdu_store i p iscsi)
           | Sent n \<Rightarrow> wr e i
               (pdu_store i (p\<lparr>pdu_payload_written := pdu_payload_written p + of_nat n\<rparr>) iscsi)
         }"
    assume IH: "\<And>e i c r. wr e i c = Some r \<Longrightarrow> snapshot (snd r) = snapshot c"
      and run: "(do {
     p \<leftarrow> ctx_pdus c i;
     if pdu_payload_len p \<le> pdu_payload_written p then Some (NULL, c)
     else case pdu_cbdata_task p of
       NULL \<Rightarrow> None
     | Ptr t \<Rightarrow>
         if iov (iovector_out (ctx_tasks c t)) = NULL then Some (Ptr (-1), c) else ?body p t
   }) = Some r"
    have again: "works c (wr e i c)" for c
      by (rule postI) (use IH in \<open>auto simp: case_prod_beta\<close>)
    have body: "works c (?body p t)" if p: "ctx_pdus c i = Some p" for p t
      unfolding Let_def
    proof (rule post_bind [OF writev_core], clarify)
      fix r v digest c'
      assume "core c' = core c"
      then have c': "core (task_modify t (\<lambda>task. task\<lparr>iovector_out := v\<rparr>) c') = core c" (is "core ?c = _") by simp
      have at: "ctx_pdus ?c i = Some p" using p c' by (simp add: core_def)
      have st: "snapshot (pdu_store i q ?c) = snapshot c" if "kind q = kind p" for q
        using snapshot_store [OF at that] snapshot_core [OF c'] by simp
      have wr: "works c (wr e i (pdu_store i q ?c))" if "kind q = kind p" for q
        using again [of "pdu_store i q ?c"] st [OF that] by simp
      show "works c (case r of
             Send_blocked \<Rightarrow> Some (Ptr 0, pdu_store i (p\<lparr>pdu_calculated_data_digest := digest\<rparr>) ?c)
           | Send_failed \<Rightarrow> Some (Ptr (-1), pdu_store i (p\<lparr>pdu_calculated_data_digest := digest\<rparr>) ?c)
           | Sent n \<Rightarrow> wr e i (pdu_store i (p\<lparr>pdu_calculated_data_digest := digest,
               pdu_payload_written := pdu_payload_written (p\<lparr>pdu_calculated_data_digest := digest\<rparr>) + of_nat n\<rparr>) ?c))"
        by (intro post_send_result works_Some st wr) simp_all
    qed
    have "works c (do {
     p \<leftarrow> ctx_pdus c i;
     if pdu_payload_len p \<le> pdu_payload_written p then Some (NULL, c)
     else case pdu_cbdata_task p of
       NULL \<Rightarrow> None
     | Ptr t \<Rightarrow>
         if iov (iovector_out (ctx_tasks c t)) = NULL then Some (Ptr (-1), c) else ?body p t
   })"
      by (intro post_pdu post_if post_ptr body works_Some refl post_None)
    from postD [OF this run] show "snapshot (snd r) = snapshot c" by (simp add: case_prod_beta)
  qed
  then show "case r of (r, c') \<Rightarrow> snapshot c' = snapshot c" by (simp add: case_prod_beta)
qed

lemma and_then_works:
  assumes "works c m" "\<And>c'. snapshot c' = snapshot c \<Longrightarrow> post (\<lambda>(r, c'). well W c') (f c')" "well W c"
  shows "post (\<lambda>(r, c'). well W c') (and_then m f)"
  unfolding and_then_def
  by (rule post_bind [OF assms(1)]) (use assms(2) snapshot_well [OF _ assms(3)] in \<open>auto split: ptr.split\<close>)

lemma write_current_well:
  assumes "well W c" "ctx_outqueue_current c = Ptr i"
  shows "post (\<lambda>(r, c'). well W c') (write_current e i c)"
proof -
  have current: "ctx_outqueue_current c' = Ptr i" if "snapshot c' = snapshot c" for c'
    using that assms(2) by (simp add: snapshot_def)
  show ?thesis
    unfolding write_current_def
    by (rule and_then_works [OF write_header_works _ assms(1)],
        rule and_then_works [OF write_digest_start_works],
        rule and_then_works [OF write_payload_works],
        rule and_then_works [OF write_padding_works],
        rule and_then_works [OF write_digest_works])
      (auto intro!: write_done_ok current intro: snapshot_well [OF _ assms(1)])
qed

text \<open>
  Taking a PDU off the outqueue. The one failure that happens after \<open>outqueue_current\<close> has been set (a header
  too short for the digest) leaves the PDU on the outqueue too; the caller then gives the connection up.
\<close>

lemma taken_well:
  assumes "well W c" "ctx_outqueue c = i # q" "ctx_pdus c i = Some p" "pdu_typed p'" "pdu_flags p' = pdu_flags p"
  shows "well W ((pdu_store i p' (c\<lparr>ctx_outqueue_current := Ptr i\<rparr>))\<lparr>ctx_outqueue := q,
    ctx_waitpdu := (if pdu_flags p AND ISCSI_PDU_DELETE_WHEN_SENT = 0
      then list_add_end i (ctx_waitpdu c) else ctx_waitpdu c)\<rparr>)"
proof -
  have st: "well W (pdu_store i p' c)" by (rule store_well [OF assms(1,3-5)])
  have "i \<notin> set q" "i \<notin> set (ctx_waitpdu c)"
    using queues_okD(1,3) [OF wellD(1) [OF assms(1)]] assms(2) by auto
  moreover have "pdu_flags p AND ISCSI_PDU_DELETE_WHEN_SENT = 0 \<Longrightarrow> \<not> sends_once p'"
    using assms(5) by (simp add: sends_once_def)
  ultimately show ?thesis
    using st assms(2) by (auto simp: well_def well_typed_def queues_ok_def list_add_end_def pdu_store_def split: if_splits)
qed

lemma write_begin_ok:
  assumes "well W c"
  shows "post (\<lambda>(r, c'). r \<noteq> Ptr (-1) \<longrightarrow> well W c') (write_begin c)"
proof (cases "ctx_outqueue c")
  case Nil
  with assms show ?thesis by (simp add: write_begin_def)
next
  case (Cons i q)
  then obtain p where p: "ctx_pdus c i = Some p"
    using queues_okD(4) [OF wellD(1) [OF assms]] by fastforce
  then have typed: "pdu_typed p" using wellD(3) [OF assms] by blast
  define p1 where "p1 = iscsi_pdu_set_expstatsn (if is_data_out p then ctx_statsn c else ctx_statsn c + 1) p"
  define c1 where "c1 = pdu_store i p1 (c\<lparr>ctx_outqueue_current := Ptr i\<rparr>)"
  have p1: "pdu_typed p1" "pdu_flags p1 = pdu_flags p"
    using typed by (simp_all add: p1_def iscsi_pdu_set_expstatsn_def pdu_typed_def pdu_ok_def hdr_modify_def)
  have rest: "post (\<lambda>(r, c'). r \<noteq> Ptr (-1) \<longrightarrow> well W c') (do {
      q \<leftarrow> list_remove i (ctx_outqueue c');
      Some (NULL, c'\<lparr>ctx_outqueue := q,
        ctx_waitpdu := (if pdu_flags p AND ISCSI_PDU_DELETE_WHEN_SENT = 0
                        then list_add_end i (ctx_waitpdu c') else ctx_waitpdu c')\<rparr>) })"
    if "c' = pdu_store i p' (c\<lparr>ctx_outqueue_current := Ptr i\<rparr>)" "pdu_typed p'" "pdu_flags p' = pdu_flags p" for c' p'
    using taken_well [OF assms Cons p that(2,3)] that(1) Cons by (simp add: pdu_store_def split: if_splits)
  have digest: "\<exists>p'. r = 0 \<longrightarrow> c' = pdu_store i p' (c\<lparr>ctx_outqueue_current := Ptr i\<rparr>) \<and> pdu_typed p' \<and> pdu_flags p' = pdu_flags p"
    if "(if b then iscsi_pdu_update_headerdigest i c1 else Some (0, c1)) = Some (r, c')" for b r c'
  proof (cases b)
    case False
    with that p1 show ?thesis by (auto simp: c1_def)
  next
    case True
    let ?p = "hdr_modify (blit 48 (digest_bytes (crc32c (take 48 (data_bytes (pdu_outdata p1)))))) p1"
    have "length (blit 48 (digest_bytes crc) h) = length h" if "52 \<le> length h" for crc h
      using that by (simp add: digest_bytes_def)
    then have "52 \<le> length (data_bytes (pdu_outdata p1)) \<Longrightarrow> pdu_typed ?p \<and> pdu_flags ?p = pdu_flags p"
      using p1 by (simp add: pdu_typed_def pdu_ok_def hdr_modify_def)
    with True that show ?thesis
      by (intro exI [of _ ?p]) (auto simp: iscsi_pdu_update_headerdigest_def c1_def pdu_store_def Let_def split: if_splits)
  qed
  have "post (\<lambda>(r, c'). r \<noteq> Ptr (-1) \<longrightarrow> well W c') (do {
      (r, c') \<leftarrow> (if b then iscsi_pdu_update_headerdigest i c1 else Some (0, c1));
      if r \<noteq> 0 then Some (Ptr (-1), c')
      else do {
        q \<leftarrow> list_remove i (ctx_outqueue c');
        Some (NULL, c'\<lparr>ctx_outqueue := q,
          ctx_waitpdu := (if pdu_flags p AND ISCSI_PDU_DELETE_WHEN_SENT = 0
                          then list_add_end i (ctx_waitpdu c') else ctx_waitpdu c')\<rparr>)
      } })" for b
  proof (rule post_read, clarify)
    fix r c'
    assume "(if b then iscsi_pdu_update_headerdigest i c1 else Some (0, c1)) = Some (r, c')"
    then obtain p' where "r = 0 \<longrightarrow> c' = pdu_store i p' (c\<lparr>ctx_outqueue_current := Ptr i\<rparr>) \<and> pdu_typed p' \<and> pdu_flags p' = pdu_flags p"
      using digest by blast
    then show "post (\<lambda>(r, c'). r \<noteq> Ptr (-1) \<longrightarrow> well W c') (if r \<noteq> 0 then Some (Ptr (-1), c')
      else do {
        q \<leftarrow> list_remove i (ctx_outqueue c');
        Some (NULL, c'\<lparr>ctx_outqueue := q,
          ctx_waitpdu := (if pdu_flags p AND ISCSI_PDU_DELETE_WHEN_SENT = 0
                          then list_add_end i (ctx_waitpdu c') else ctx_waitpdu c')\<rparr>)
      })"
      by (intro post_if, simp, intro rest [of c' p']) simp_all
  qed
  note body = this
  have mod: "pdu_modify i (iscsi_pdu_set_expstatsn (if is_data_out p then ctx_statsn c else ctx_statsn c + 1))
      (c\<lparr>ctx_outqueue_current := Ptr i\<rparr>) = Some c1"
    using p by (simp add: pdu_modify_def c1_def p1_def)
  show ?thesis
    unfolding write_begin_def Cons list.case p bind.bind_lunit mod
    by (intro post_if body) (simp_all add: assms)
qed

lemma write_loop_well:
  assumes "write_loop e c = Some r" "well W c" "fst r \<noteq> -1"
  shows "well W (snd r)"
proof -
  have "well W c \<longrightarrow> fst r \<noteq> -1 \<longrightarrow> well W (snd r)"
    using assms(1)
  proof (rule write_loop.raw_induct [where P = "\<lambda>e c r. well W c \<longrightarrow> fst r \<noteq> -1 \<longrightarrow> well W (snd r)", rotated])
    fix wr e c r
    let ?next = "\<lambda>c1. case ctx_outqueue_current c1 of
            NULL \<Rightarrow> None
          | Ptr i \<Rightarrow> do {
              (r, iscsi) \<leftarrow> write_current e i c1;
              case r of Ptr r \<Rightarrow> Some (r, iscsi) | NULL \<Rightarrow> wr e iscsi
            }"
    assume IH: "\<And>e c r. wr e c = Some r \<Longrightarrow> well W c \<longrightarrow> fst r \<noteq> -1 \<longrightarrow> well W (snd r)"
      and run: "(if ctx_outqueue c = [] \<and> ctx_outqueue_current c = NULL then Some (0, c)
      else do {
        (r, c1) \<leftarrow> (if ctx_outqueue_current c = NULL then write_begin c else Some (NULL, c));
        case r of Ptr r \<Rightarrow> Some (r, c1) | NULL \<Rightarrow> ?next c1
      }) = Some r"
    have again: "post (\<lambda>(r, c'). r \<noteq> -1 \<longrightarrow> well W c') (wr e c)" if "well W c" for c
      by (rule postI) (use IH that in \<open>auto simp: case_prod_beta\<close>)
    have goon: "post (\<lambda>(r, c'). r \<noteq> -1 \<longrightarrow> well W c') (?next c1)" if "well W c1" for c1
      by (intro post_ptr post_None post_pair [OF write_current_well [OF that]] again) simp_all
    show "well W c \<longrightarrow> fst r \<noteq> -1 \<longrightarrow> well W (snd r)"
    proof (intro impI)
      assume w: "well W c" and ok: "fst r \<noteq> -1"
      have start: "post (\<lambda>(r, c'). r \<noteq> Ptr (-1) \<longrightarrow> well W c')
          (if ctx_outqueue_current c = NULL then write_begin c else Some (NULL, c))"
        by (intro post_if write_begin_ok w) (simp add: w)
      have "post (\<lambda>(r, c'). r \<noteq> -1 \<longrightarrow> well W c') (if ctx_outqueue c = [] \<and> ctx_outqueue_current c = NULL then Some (0, c)
      else do {
        (r, c1) \<leftarrow> (if ctx_outqueue_current c = NULL then write_begin c else Some (NULL, c));
        case r of Ptr r \<Rightarrow> Some (r, c1) | NULL \<Rightarrow> ?next c1
      })"
        by (intro post_if post_pair [OF start] post_ptr goon) (auto simp: w)
      from postD [OF this run] ok show "well W (snd r)" by (simp add: case_prod_beta)
    qed
  qed
  with assms(2,3) show ?thesis by simp
qed

lemma write_to_socket_ok:
  assumes "iscsi_write_to_socket e c = Some (r, c')" "well W c" "r \<noteq> -1"
  shows "well W c'"
  using assms write_loop_well [of e c "(r, c')"] by (simp add: iscsi_write_to_socket_def split: if_splits)

section \<open>Timeouts and cancellation\<close>

lemma renumbered_once: "renumbered p p' \<Longrightarrow> sends_once p' = sends_once p"
  by (auto simp: renumbered_def sends_once_def)

lemma kept_well:
  assumes "well W c" "pdus_kept c c'" "queues_ok c'" "ctx_waitpdu c' = ctx_waitpdu c"
  shows "well W c'"
proof -
  have "\<exists>p. ctx_pdus c i = Some p \<and> renumbered p p'" if "ctx_pdus c' i = Some p'" for i p'
    using that pdus_keptD [OF assms(2), of i] by fastforce
  then have "pdu_typed p' \<and> (i \<in> set (ctx_waitpdu c) \<longrightarrow> \<not> sends_once p')" if "ctx_pdus c' i = Some p'" for i p'
    using that assms(1) renumbered_typed renumbered_once unfolding well_def well_typed_def by metis
  then show ?thesis using assms(1,3,4) by (simp add: well_def well_typed_def)
qed

lemma complete_first_ok:
  assumes "well W c" "\<forall>i \<in> set tmp. i \<notin> set (ctx_outqueue c) \<and> i \<notin> set (ctx_waitpdu c)"
  shows "post (well W) (complete_first st tmp c)"
  using assms by (cases tmp) (auto simp: complete_first_def intro!: finish_ok)

context outqueue_walk begin

lemma walk_well:
  assumes "well {} c"
  shows "post (\<lambda>(c', tmp, gap). well {} c' \<and> (\<forall>i \<in> set tmp. i \<notin> set (ctx_outqueue c') \<and> i \<notin> set (ctx_waitpdu c')))
    (mfold (remove_step out) (ctx_outqueue c) (c, [], 0))"
proof -
  note ok = wellD(1) [OF assms]
  obtain gap c' where r: "mfold (remove_step out) (ctx_outqueue c) (c, [], 0) =
      Some (c', filter (lost c) (ctx_outqueue c), gap)"
    "ctx_outqueue c' = filter (\<lambda>i. \<not> lost c i) (ctx_outqueue c)" "ctx_waitpdu c' = ctx_waitpdu c"
    "pdus_kept c c'" "queues_ok c'"
    using walk_result [OF ok] by blast
  then show ?thesis using kept_well [OF assms r(4,5,3)] queues_okD(3) [OF ok] by auto
qed

end

lemma timeout_scan_ok:
  assumes "well {} c"
  shows "post (well {}) (iscsi_timeout_scan t c)"
proof -
  have wait: "post (\<lambda>(c', tmp). well {} c' \<and> (\<forall>i \<in> set tmp. i \<notin> set (ctx_outqueue c') \<and> i \<notin> set (ctx_waitpdu c')))
      (mfold (timeout_waitpdu_step t) (ctx_waitpdu c) (c, []))" if "well {} c" for c
  proof -
    note ok = wellD(1) [OF that]
    have "well {} (c\<lparr>ctx_waitpdu := filter (\<lambda>i. \<not> wait_lost t c i) (ctx_waitpdu c)\<rparr>)"
      using that waitpdu_subset_ok [OF ok] by (auto simp: well_def well_typed_def)
    then show ?thesis using timeout_waitpdu_walk [OF ok, of t] queues_okD(3) [OF ok] by auto
  qed
  show ?thesis
    unfolding iscsi_timeout_scan_def timeout_outqueue_step_eq
    by (intro post_bind [OF timeout_walk.walk_well [OF assms], simplified case_prod_beta] , clarsimp,
        rule post_bind [OF complete_first_ok], assumption, assumption,
        rule post_bind [OF wait], assumption, clarsimp, rule complete_first_ok)
qed

lemma cancel_lun_ok:
  assumes "well {} c"
  shows "post (well {}) (iscsi_cancel_lun_pdus lun c)"
  unfolding iscsi_cancel_lun_pdus_def cancel_lun_step_eq
  by (rule post_bind [OF lun_walk.walk_well [OF assms]], clarsimp, rule complete_first_ok)

lemma cancel_pdus_ok:
  assumes "well {} c"
  shows "post (well {}) (iscsi_cancel_pdus c)"
  using iscsi_cancel_pdus_result [OF wellD(1) [OF assms]] assms by (auto simp: well_def well_typed_def split: if_splits)

lemma find_pdu_in: "find_pdu P q c = Some (Ptr i) \<Longrightarrow> i \<in> set q"
  by (induction q) (auto simp: bind_eq_Some_conv split: if_splits)

lemma cancel_task_ok:
  assumes "well {} c"
  shows "gives {} (iscsi_scsi_cancel_task t c)"
proof -
  note ok = wellD(1) [OF assms]
  define itt where "itt = task_itt (ctx_tasks c t)"
  let ?q = "filter (\<lambda>i. pdu_itt (pdu_at c i) \<noteq> itt) (ctx_outqueue c)"
  have finish: "gives {} (do {
      c \<leftarrow> pdu_callback_call st i c;
      p \<leftarrow> ctx_pdus c i;
      c \<leftarrow> iscsi_tcp_free_pdu i (if b p then c\<lparr>ctx_cmdsn := ctx_cmdsn c - 1\<rparr> else c);
      Some (0, c) })" if "well {} c" "i \<notin> set (ctx_outqueue c)" "i \<notin> set (ctx_waitpdu c)" for st i b c
  proof (rule post_bind [OF callback_core], rule post_pdu)
    fix c' p
    assume "core c' = core c"
    then have "core (if b p then c'\<lparr>ctx_cmdsn := ctx_cmdsn c' - 1\<rparr> else c') = core c" (is "core ?c = _") by simp
    then have "post (well {}) (iscsi_tcp_free_pdu i ?c)"
      using free_unqueued [OF well_from [OF _ that(1)], of ?c i] that(2,3) by (simp add: core_def)
    then show "gives {} (iscsi_tcp_free_pdu i ?c \<bind> (\<lambda>c. Some (0, c)))" by (rule post_bind) simp
  qed
  have waiting: "gives {} (do {
      q \<leftarrow> list_remove i (ctx_waitpdu c);
      c \<leftarrow> pdu_callback_call SCSI_STATUS_CANCELLED i (c\<lparr>ctx_waitpdu := q\<rparr>);
      c \<leftarrow> iscsi_tcp_free_pdu i c;
      Some (0, c) })" if i: "i \<in> set (ctx_waitpdu c)" for i
  proof (rule post_read)
    fix q
    assume q: "list_remove i (ctx_waitpdu c) = Some q"
    note off = off_waitpdu [OF assms _ q, simplified]
    have "i \<notin> set (ctx_outqueue c)" using i queues_okD(3) [OF ok] by blast
    then show "gives {} (do {
      c \<leftarrow> pdu_callback_call SCSI_STATUS_CANCELLED i (c\<lparr>ctx_waitpdu := q\<rparr>);
      c \<leftarrow> iscsi_tcp_free_pdu i c;
      Some (0, c) })"
      using post_bind [OF finish_ok [OF off(1), of i SCSI_STATUS_CANCELLED], of "\<lambda>(r, c'). well {} c'" "\<lambda>c. Some (0, c)"] off(2)
      by simp
  qed
  have queued: "well {} (c\<lparr>ctx_outqueue := ?q\<rparr>)"
    using assms by (auto simp: well_def well_typed_def queues_ok_def)
  have notin: "i \<notin> set ?q \<and> i \<notin> set (ctx_waitpdu c)"
    if "filter (\<lambda>i. pdu_itt (pdu_at c i) = itt) (ctx_outqueue c) = i # is" for i "is"
  proof -
    have "i \<in> set (filter (\<lambda>i. pdu_itt (pdu_at c i) = itt) (ctx_outqueue c))" unfolding that by simp
    then show ?thesis using queues_okD(3) [OF ok] by auto
  qed
  show ?thesis
    unfolding iscsi_scsi_cancel_task_def Let_def itt_def [symmetric]
  proof (rule post_read)
    fix w
    assume w: "find_pdu (\<lambda>p. pdu_itt p = itt) (ctx_waitpdu c) c = Some w"
    show "gives {} (case w of
       Ptr i \<Rightarrow> do {
         q \<leftarrow> list_remove i (ctx_waitpdu c);
         iscsi \<leftarrow> pdu_callback_call SCSI_STATUS_CANCELLED i (c\<lparr>ctx_waitpdu := q\<rparr>);
         iscsi \<leftarrow> iscsi_tcp_free_pdu i iscsi;
         Some (0, iscsi)
       }
     | NULL \<Rightarrow> do {
         (iscsi, tmp) \<leftarrow> mfold (cancel_task_step itt) (ctx_outqueue c) (c, []);
         case tmp of
           [] \<Rightarrow> Some (-1, iscsi)
         | i # _ \<Rightarrow> do {
             iscsi \<leftarrow> pdu_callback_call SCSI_STATUS_CANCELLED i iscsi;
             p \<leftarrow> ctx_pdus iscsi i;
             iscsi \<leftarrow> iscsi_tcp_free_pdu i (if is_cmd p then iscsi\<lparr>ctx_cmdsn := ctx_cmdsn iscsi - 1\<rparr> else iscsi);
             Some (0, iscsi)
           }
       })"
    proof (cases w)
      case (Ptr i)
      with find_pdu_in w waiting show ?thesis by simp
    next
      case NULL
      show ?thesis
      proof (cases "filter (\<lambda>i. pdu_itt (pdu_at c i) = itt) (ctx_outqueue c)")
        case Nil
        with NULL queued show ?thesis unfolding cancel_task_walk [OF ok] by simp
      next
        case (Cons i q)
        with finish [OF queued, of i SCSI_STATUS_CANCELLED is_cmd] notin [OF Cons] NULL show ?thesis
          unfolding cancel_task_walk [OF ok] by simp
      qed
    qed
  qed
qed

section \<open>The functions that fill in a PDU\<close>

lemma fitting_hdr: "(\<And>h. length (g h) = length h) \<Longrightarrow> fitting (hdr_modify g)"
  by (simp add: fitting_def pdu_fit_hdr)

lemma fitting_callback: "cb \<noteq> Ptr Scsi_response_cb \<Longrightarrow> fitting (\<lambda>p. p\<lparr>pdu_callback := cb\<rparr>)"
  by (simp add: fitting_def pdu_fit_def pdu_ok_def pdu_typed_def)

lemma fitting_datasn: "fitting (\<lambda>p. p\<lparr>pdu_datasn := g p\<rparr>)"
  by (simp add: fitting_def pdu_fit_def pdu_ok_def pdu_typed_def)

lemmas setter_defs = iscsi_pdu_set_itt_def iscsi_pdu_set_ritt_def iscsi_pdu_set_pduflags_def iscsi_pdu_set_immediate_def
  iscsi_pdu_set_ttt_def iscsi_pdu_set_rcmdsn_def iscsi_pdu_set_datasn_def iscsi_pdu_set_expstatsn_def
  iscsi_pdu_set_bufferoffset_def iscsi_pdu_set_lun_def

lemma fitting_setters:
  "fitting (iscsi_pdu_set_itt n)" "fitting (iscsi_pdu_set_ritt n)" "fitting (iscsi_pdu_set_pduflags f)"
  "fitting iscsi_pdu_set_immediate" "fitting (iscsi_pdu_set_ttt n)" "fitting (iscsi_pdu_set_rcmdsn n)"
  "fitting (iscsi_pdu_set_datasn n)" "fitting (iscsi_pdu_set_expstatsn n)" "fitting (iscsi_pdu_set_bufferoffset n)"
  "fitting (iscsi_pdu_set_lun n)"
  by (simp_all add: fitting_def pdu_fit_def pdu_ok_def pdu_typed_def setter_defs hdr_modify_def)

lemma fitting_requests:
  "cb \<noteq> Ptr Scsi_response_cb \<Longrightarrow> fitting (nop_out_pdu cb)" "fitting (target_nop_out_pdu ttt lun)"
  "fitting (task_mgmt_pdu lun fn ritt)" "fitting text_request_pdu"
  "cb \<noteq> Ptr Scsi_response_cb \<Longrightarrow> fitting (\<lambda>p. (iscsi_pdu_set_rcmdsn n p)\<lparr>pdu_callback := cb\<rparr>)"
  "fitting (\<lambda>p. iscsi_pdu_set_pduflags fl (iscsi_pdu_set_immediate p))"
  by (simp_all add: fitting_def pdu_fit_def pdu_ok_def pdu_typed_def nop_out_pdu_def target_nop_out_pdu_def task_mgmt_pdu_def
      text_request_pdu_def Let_def setter_defs hdr_modify_def)

lemma fit_setter: "fitting f \<Longrightarrow> pdu_fit p \<Longrightarrow> pdu_fit (f p)"
  by (simp add: fitting_def)

lemma data_out_fit:
  assumes "pdu_fit p" "pdu_callback p = NULL"
  shows "pdu_fit (data_out_pdu cmd ttt offset len final p)"
  unfolding data_out_pdu_def Let_def
  by (intro fit_setter [OF fitting_hdr] fit_setter [OF fitting_setters(5)] fit_setter [OF fitting_setters(3)]
      fit_setter [OF fitting_setters(10)] fit_setter [OF fitting_setters(7)] fit_setter [OF fitting_setters(9)])
    (use assms in \<open>simp_all add: pdu_fit_def pdu_ok_def pdu_typed_def pdu_fit_hdr iscsi_pdu_set_ttt_def iscsi_pdu_set_pduflags_def
      iscsi_pdu_set_lun_def iscsi_pdu_set_datasn_def iscsi_pdu_set_bufferoffset_def hdr_modify_def\<close>)

lemma command_fit:
  assumes "pdu_fit p" "pdu_response_opcode p = ISCSI_PDU_SCSI_RESPONSE"
  shows "pdu_fit (command_pdu c t lun cb p)"
  using assms
  by (simp add: command_pdu_def Let_def pdu_fit_def pdu_ok_def pdu_typed_def iscsi_pdu_set_expxferlen_def iscsi_pdu_set_pduflags_def
      iscsi_pdu_set_lun_def hdr_modify_def)

lemma cdb_fit:
  assumes "pdu_fit p" "iscsi_pdu_set_cdb task p = Some q"
  shows "pdu_fit q"
proof -
  have "0 \<le> sint (cdb_size task)" "sint (cdb_size task) \<le> 16"
    using assms(2) by (simp_all add: iscsi_pdu_set_cdb_def split: if_splits)
  then have "uint (cdb_size task) \<le> 16"
    using uint_lt2p [of "cdb_size task"] by (auto simp: sint_u32_cases split: if_splits)
  then have "unat (cdb_size task) \<le> 16" by (metis nat_numeral nat_mono unat_eq_nat_uint)
  then have "length (take (unat (cdb_size task)) (cdb task)) \<le> 16" by simp
  then show ?thesis
    using assms by (auto simp: iscsi_pdu_set_cdb_def pdu_fit_def pdu_ok_def pdu_typed_def hdr_modify_def split: if_splits)
qed

section \<open>The service function\<close>

locale service_provider =
  fixes env :: iscsi_env
  assumes env: "env_ok env"
    and serves: "well W c \<Longrightarrow> post (well W) (env_service env c)"
begin

lemma queue_ok: "fresh W i c \<Longrightarrow> post (well W) (iscsi_queue_pdu env i c)"
proof -
  assume f: "fresh W i c"
  note d = detachedD [OF fresh_detached [OF f]] and w = fresh_well [OF f]
  from d(4) obtain p where p: "ctx_pdus c i = Some p" by blast
  obtain c' where c': "outqueue_insert env i c = Some c'" "queues_ok c'"
    using outqueue_insert_ok [OF wellD(1) [OF w] p d(1-3)] by blast
  obtain ts p' q t where r: "outqueue_insert env i c =
      Some (c\<lparr>ctx_pdus := (ctx_pdus c)(i \<mapsto> p'), ctx_tasks := ts, ctx_outqueue := q\<rparr>)"
    "renumbered (with_timeout t p) p'"
    using outqueue_insert_result [OF wellD(1) [OF w] p d(1), of env] by blast
  then have c'_pdus: "ctx_pdus c' = (ctx_pdus c)(i \<mapsto> p')" and wait: "ctx_waitpdu c' = ctx_waitpdu c" using c'(1) by auto
  have "\<not> sends_once q" if "k \<in> set (ctx_waitpdu c)" "ctx_pdus c' k = Some q" for k q
    using that d(2) w c'_pdus by (cases "k = i") (auto simp: well_def well_typed_def)
  moreover have "pdu_typed q" if "ctx_pdus c' k = Some q" for k q
    using that wellD(3) [OF w] p c'_pdus r(2) by (auto simp: renumbered_typed split: if_splits)
  ultimately have "well W c'" using w wait c'(2) by (simp add: well_def well_typed_def)
  with c'(1) show ?thesis
    by (simp add: iscsi_queue_pdu_def iscsi_tcp_queue_pdu_def iscsi_add_to_outqueue_def serves)
qed

lemmas allocated = post_pair [OF allocate_blank [OF env]]

text \<open>Each request is allocated, filled in and queued.\<close>

lemma free_ok: "fresh W i c \<Longrightarrow> post (well W) (iscsi_tcp_free_pdu i c)"
  by (rule free_detached [OF fresh_detached])

lemma task_mgmt_ok:
  assumes "well W c" "cb \<noteq> Ptr Scsi_response_cb"
  shows "gives W (iscsi_task_mgmt_async env lun fn ritt rcmdsn cb c)"
  unfolding iscsi_task_mgmt_async_def Let_def
  by (intro post_if post_itt allocated post_ptr post_bind [OF modify_fresh] post_bind [OF set_cmdsn_fresh]
      post_bind [OF queue_ok] fitting_requests assms(2))
    (auto simp: blank_def well_from [OF _ assms(1)] assms(1))

lemma nop_out_ok:
  assumes "well W c" "cb \<noteq> Ptr Scsi_response_cb"
  shows "gives W (iscsi_nop_out_async env cb d len c)"
proof -
  have data: "adds W i (case d of NULL \<Rightarrow> Some (0, c)
      | Ptr bs \<Rightarrow> if 0 < len then iscsi_pdu_add_data a i bs len c else Some (0, c))" if "fresh W i c" for W i c a
    by (intro post_if post_ptr add_data_fresh that) (simp_all add: added_def that)
  show ?thesis
    unfolding iscsi_nop_out_async_def Let_def
    by (intro post_if post_itt allocated post_ptr post_bind [OF modify_fresh] post_bind [OF set_cmdsn_fresh] post_pair [OF data]
        post_bind [OF queue_ok] post_bind [OF free_detached] fitting_requests assms(2))
      (auto simp: blank_def added_def well_from [OF _ assms(1)] assms(1) well_from [OF core_updates(19)]
        intro: fresh_from [OF core_updates(4)])
qed

lemma lun_reset_ok:
  assumes "well {} c" "cb \<noteq> Ptr Scsi_response_cb"
  shows "gives {} (iscsi_task_mgmt_lun_reset_async env lun cb c)"
  unfolding iscsi_task_mgmt_lun_reset_async_def
  by (rule post_bind [OF cancel_lun_ok [OF assms(1)]], rule task_mgmt_ok [OF _ assms(2)])

lemma cancel_all_ok:
  assumes "well {} c" "cb \<noteq> Ptr Scsi_response_cb"
  shows "post (\<lambda>(r, old, c'). well {} c') (cancel_all_and_manage env lun fn cb NULL c)"
proof -
  have manage: "post (\<lambda>(r, old, c'). well {} c') (do {
      (r, c) \<leftarrow> iscsi_task_mgmt_async env lun fn 0xffffffff 0 cb c;
      Some (r, old, c) })" if "well {} c" for c and old :: "iscsi_context ptr"
    by (rule post_pair [OF task_mgmt_ok [OF that assms(2)]]) simp
  show ?thesis
    unfolding cancel_all_and_manage_def iscsi_scsi_cancel_all_tasks_def
    using post_bind [OF cancel_pdus_ok [OF assms(1)] manage] by simp
qed

lemma target_nop_ok:
  assumes "well W c"
  shows "gives W (iscsi_send_target_nop_out env ttt lun c)"
  unfolding iscsi_send_target_nop_out_def
  by (intro allocated post_ptr post_bind [OF modify_fresh] post_bind [OF set_cmdsn_fresh]
      post_bind [OF queue_ok] fitting_requests assms)
    (auto simp: blank_def assms)

lemma logout_ok:
  assumes "well W c" "cb \<noteq> Ptr Scsi_response_cb"
  shows "gives W (iscsi_logout_async env cb c)"
  unfolding iscsi_logout_async_def Let_def
  by (intro post_if post_itt allocated post_ptr post_bind [OF modify_fresh] post_bind [OF set_cmdsn_fresh]
      post_bind [OF queue_ok] fitting_requests fitting_callback assms(2))
    (auto simp: blank_def well_from [OF _ assms(1)])

lemma discovery_ok:
  assumes "well W c" "cb \<noteq> Ptr Scsi_response_cb"
  shows "gives W (iscsi_discovery_async env cb c)"
  unfolding iscsi_discovery_async_def Let_def
  by (intro post_if post_itt allocated post_ptr post_bind [OF modify_fresh] post_bind [OF set_cmdsn_fresh]
      post_pair [OF add_data_fresh] post_bind [OF queue_ok] post_bind [OF free_detached]
      fitting_requests fitting_setters fitting_callback assms(2))
    (auto simp: blank_def added_def well_from [OF _ assms(1)])

text \<open>The steps of a login request add data to the PDU or leave it alone.\<close>

lemma added_bind:
  assumes "adds W i m" "\<And>c'. fresh W i c' \<Longrightarrow> adds W i (k c')"
  shows "adds W i (m \<bind> (\<lambda>(r, c'). if r \<noteq> 0 then Some (-1, c') else k c'))"
  by (rule post_pair [OF assms(1)]) (use assms(2) fresh_detached in \<open>auto simp: added_def split: if_splits\<close>)

lemma added_Some: "fresh W i c \<Longrightarrow> adds W i (Some (n, c))"
  by (simp add: added_def fresh_detached)

lemma add_bytes_fresh: "fresh W i c \<Longrightarrow> adds W i (login_add_bytes env i bs c)"
  unfolding login_add_bytes_def by (rule post_pair [OF add_data_fresh]) (simp_all add: added_def split: if_splits)

lemma add_string_fresh: "fresh W i c \<Longrightarrow> adds W i (login_add_string env i bs c)"
  unfolding login_add_string_def by (rule add_bytes_fresh)

lemma steps_fresh:
  assumes "\<And>f c. f \<in> set fs \<Longrightarrow> fresh W i c \<Longrightarrow> adds W i (f c)" "fresh W i c"
  shows "adds W i (login_steps fs c)"
  using assms
proof (induction fs arbitrary: c)
  case Nil
  then show ?case by (simp add: added_def)
next
  case (Cons f fs)
  show ?case unfolding login_steps.simps
    by (rule added_bind) (use Cons in auto)
qed

lemma add_hex_fresh: "fresh W i c \<Longrightarrow> adds W i (login_add_hex env i bs c)"
  unfolding login_add_hex_def by (rule steps_fresh) (auto intro: add_bytes_fresh)

lemma challenge_fresh:
  assumes "fresh W i c"
  shows "adds W i (challenge_target env i c)"
  unfolding challenge_target_def Let_def random_bytes_def prod.case
  by (intro added_bind add_string_fresh steps_fresh post_read added_Some fresh_from [OF core_updates(3)] assms)
    (auto intro: add_bytes_fresh add_hex_fresh)

lemma chap_response_fresh:
  assumes "fresh W i c"
  shows "adds W i (iscsi_login_add_chap_response env i c)"
  unfolding iscsi_login_add_chap_response_def Let_def
  by (intro post_if added_bind steps_fresh post_read added_Some challenge_fresh assms)
    (auto intro: add_bytes_fresh add_hex_fresh)

lemma username_fresh:
  assumes "fresh W i c"
  shows "adds W i (iscsi_login_add_chap_username env i c)"
  unfolding iscsi_login_add_chap_username_def
  by (intro post_if steps_fresh added_Some assms) (auto intro: add_bytes_fresh add_string_fresh)

lemma opneg_fresh: "fresh W i c \<Longrightarrow> adds W i (add_opneg env i bs c)"
  unfolding add_opneg_def by (intro post_if added_Some add_string_fresh)

lemma keys_fresh:
  assumes "fresh W i c"
  shows "adds W i (iscsi_login_add_initiatorname env i c)" "adds W i (iscsi_login_add_alias env i c)"
    "adds W i (iscsi_login_add_targetname env i c)" "adds W i (iscsi_login_add_sessiontype env i c)"
    "adds W i (iscsi_login_add_headerdigest env i c)" "adds W i (iscsi_login_add_authmethod env i c)"
    "adds W i (iscsi_login_add_authalgorithm env i c)" "adds W i (iscsi_login_add_datadigest env i c)"
    "adds W i (iscsi_login_add_initialr2t env i c)" "adds W i (iscsi_login_add_immediatedata env i c)"
    "adds W i (iscsi_login_add_maxburstlength env i c)" "adds W i (iscsi_login_add_firstburstlength env i c)"
    "adds W i (iscsi_login_add_maxrecvdatasegmentlength env i c)" "adds W i (iscsi_login_add_datapduinorder env i c)"
    "adds W i (iscsi_login_add_defaulttime2wait env i c)" "adds W i (iscsi_login_add_defaulttime2retain env i c)"
    "adds W i (iscsi_login_add_ifmarker env i c)" "adds W i (iscsi_login_add_ofmarker env i c)"
    "adds W i (iscsi_login_add_maxconnections env i c)" "adds W i (iscsi_login_add_maxoutstandingr2t env i c)"
    "adds W i (iscsi_login_add_errorrecoverylevel env i c)" "adds W i (iscsi_login_add_datasequenceinorder env i c)"
    "adds W i (iscsi_login_add_rdma_extensions env i c)" "adds W i (iscsi_login_add_initiatorrecvdatasegmentlength env i c)"
    "adds W i (iscsi_login_add_targetrecvdatasegmentlength env i c)"
  unfolding key_defs Let_def
  by (intro post_if opneg_fresh add_string_fresh added_Some assms)+

lemma login_ok:
  assumes "well W c" "cb \<noteq> Ptr Scsi_response_cb"
  shows "gives W (iscsi_login_async env cb c)"
proof -
  have keys: "adds W i (login_steps (login_keys env i c0) c)" if "fresh W i c" for W i c0 c
    by (rule steps_fresh [OF _ that])
      (auto simp: login_keys_def split: if_splits intro: keys_fresh username_fresh chap_response_fresh)
  have random: "core (randomize_serials env c) = core c" for c by (simp add: randomize_serials_def Let_def)
  show ?thesis
    unfolding iscsi_login_async_def Let_def
    by (intro post_if allocated post_ptr post_bind [OF modify_fresh] post_bind [OF set_cmdsn_fresh]
        post_pair [OF keys] post_bind [OF queue_ok] post_bind [OF free_detached]
        fitting_requests fitting_setters fitting_callback fresh_from [OF core_updates(3)] assms(2))
      (auto simp: blank_def added_def well_from [OF _ assms(1)] random)
qed

text \<open>DATA-OUT PDUs.\<close>

lemma send_data_out_pdu_ok:
  assumes "well W c"
  shows "post (\<lambda>(r, c'). well W c') (send_data_out_pdu env i ttt offset len final c)"
proof -
  have "post (\<lambda>(r, c'). well W c') (case r of NULL \<Rightarrow> Some (False, c)
      | Ptr k \<Rightarrow> do {
          cmd \<leftarrow> ctx_pdus c i;
          c \<leftarrow> pdu_modify k (data_out_pdu cmd ttt offset len final) c;
          c \<leftarrow> pdu_modify i (\<lambda>p. p\<lparr>pdu_datasn := pdu_datasn p + 1\<rparr>) c;
          c \<leftarrow> iscsi_queue_pdu env k c;
          Some (True, c)
        })" if "blank W rop r c" for rop r c
  proof (intro post_ptr post_pdu)
    fix k cmd
    assume r: "r = Ptr k"
    with that have k: "fresh W k c" "pdu_callback (pdu_at c k) = NULL" by (simp_all add: blank_def)
    have "pdu_fit (data_out_pdu cmd ttt offset len final (pdu_at c k))"
      by (rule data_out_fit) (use k in \<open>simp_all add: fresh_def\<close>)
    then show "post (\<lambda>(r, c'). well W c') (do {
          c \<leftarrow> pdu_modify k (data_out_pdu cmd ttt offset len final) c;
          c \<leftarrow> pdu_modify i (\<lambda>p. p\<lparr>pdu_datasn := pdu_datasn p + 1\<rparr>) c;
          c \<leftarrow> iscsi_queue_pdu env k c;
          Some (True, c)
        })"
      by (intro post_bind [OF modify_new [OF k(1)]] post_bind [OF modify_fresh] post_bind [OF queue_ok] fitting_datasn)
        simp_all
  qed (use that in \<open>simp add: blank_def\<close>)
  then show ?thesis
    unfolding send_data_out_pdu_def by (intro post_pdu allocated [OF assms])
qed

lemma send_data_out_error_ok:
  assumes "well W c" "i \<notin> W"
  shows "gives W (send_data_out_error i c)"
proof -
  have fin: "gives W (do { c \<leftarrow> pdu_callback_call st i c; c \<leftarrow> iscsi_tcp_free_pdu i c; Some (-1, c) })"
    if "well W c" "i \<notin> set (ctx_outqueue c)" "i \<notin> set (ctx_waitpdu c)" for st c
    using post_bind [OF finish_ok [OF that, of st], of "\<lambda>(r, c'). well W c'" "\<lambda>c. Some (-1, c)"] by simp
  show ?thesis
    unfolding send_data_out_error_def Let_def
  proof (rule post_read, rule post_read)
    fix q w
    assume q: "list_remove i (ctx_outqueue c) = Some q" and w: "list_remove i (ctx_waitpdu (c\<lparr>ctx_outqueue := q\<rparr>)) = Some w"
    let ?c = "c\<lparr>ctx_outqueue := q\<rparr>\<lparr>ctx_waitpdu := w\<rparr>"
    have "well W ?c" "i \<notin> set w"
      using off_waitpdu [OF off_outqueue(1) [OF assms(1) q] assms(2) w] by simp_all
    moreover have "i \<notin> set q" using off_outqueue(2) [OF assms(1) q] .
    ultimately show "gives W (do { c \<leftarrow> pdu_callback_call SCSI_STATUS_ERROR i ?c; c \<leftarrow> iscsi_tcp_free_pdu i c; Some (-1, c) })"
      using fin by simp
  qed
qed

lemma send_data_out_ok:
  assumes "well W c" "i \<notin> W"
  shows "gives W (iscsi_send_data_out env i ttt offset len c)"
proof (rule postI)
  fix r
  have "e = env \<longrightarrow> i \<notin> W \<longrightarrow> well W c \<longrightarrow> well W (snd r)" if "iscsi_send_data_out e i ttt offset len c = Some r" for e
    using that
  proof (rule iscsi_send_data_out.raw_induct [where P = "\<lambda>e i ttt offset len c r. e = env \<longrightarrow> i \<notin> W \<longrightarrow> well W c \<longrightarrow> well W (snd r)",
        rotated])
    fix send e i ttt offset len c r
    assume IH: "\<And>e i ttt offset len c r. send e i ttt offset len c = Some r \<Longrightarrow>
        e = env \<longrightarrow> i \<notin> W \<longrightarrow> well W c \<longrightarrow> well W (snd r)"
      and run: "(if len = 0 then Some (0, c)
        else let len' = min len (ctx_target_max_recv_data_segment_length c)
          in do {
            (ok, iscsi) \<leftarrow> send_data_out_pdu e i ttt offset len' (len = len') c;
            if ok then send e i ttt (offset + len') (len - len') iscsi else send_data_out_error i iscsi
          }) = Some r"
    show "e = env \<longrightarrow> i \<notin> W \<longrightarrow> well W c \<longrightarrow> well W (snd r)"
    proof (intro impI)
      assume a: "e = env" "i \<notin> W" "well W c"
      have "gives W (send env i ttt offset len c)" if "well W c" for offset len c
      proof (rule postI)
        fix r
        assume "send env i ttt offset len c = Some r"
        from IH [OF this] a(2) that show "case r of (r, c') \<Rightarrow> well W c'" by (simp add: case_prod_beta)
      qed
      then have "gives W (if len = 0 then Some (0, c)
        else let len' = min len (ctx_target_max_recv_data_segment_length c)
          in do {
            (ok, iscsi) \<leftarrow> send_data_out_pdu e i ttt offset len' (len = len') c;
            if ok then send e i ttt (offset + len') (len - len') iscsi else send_data_out_error i iscsi
          })"
        unfolding Let_def a(1)
        by (intro post_if post_pair [OF send_data_out_pdu_ok [OF a(3)]] send_data_out_error_ok a(2)) (use a(3) in simp_all)
      then show "well W (snd r)" unfolding run by (simp add: case_prod_beta)
    qed
  qed
  moreover assume "iscsi_send_data_out env i ttt offset len c = Some r"
  ultimately show "case r of (r, c') \<Rightarrow> well W c'" using assms by (auto simp: case_prod_beta)
qed

lemma unsolicited_ok:
  assumes "well W c" "i \<notin> W"
  shows "gives W (iscsi_send_unsolicited_data_out env i c)"
  unfolding iscsi_send_unsolicited_data_out_def Let_def by (intro post_pdu send_data_out_ok assms)

lemma command_ok:
  assumes "well {} c"
  shows "gives {} (iscsi_scsi_command_async env lun t cb d c)"
proof -
  have data: "core c' = core c" if "attach_data env t d c = Ptr c'" for c'
    using that by (auto simp: attach_data_def split: ptr.splits if_splits)
  have set_cdb: "post P (iscsi_pdu_set_cdb task p \<bind> k)"
    if "\<And>q. iscsi_pdu_set_cdb task p = Some q \<Longrightarrow> post P (k q)" for task p k and P :: "int \<times> iscsi_context \<Rightarrow> bool"
    using that by (rule post_read)
  have cdb: "fresh {} i (pdu_store i q c)" if "fresh {} i c" "ctx_pdus c i = Some p" "iscsi_pdu_set_cdb task p = Some q" for i c p q task
    by (rule store_fresh [OF that(1)]) (use cdb_fit [OF _ that(3)] that(1,2) in \<open>auto simp: fresh_def pdu_at_def pdu_fit_def\<close>)
  have cmd: "post (fresh {} i) (pdu_modify i (command_pdu c0 t lun cb) c)" if "fresh {} i c" "pdu_response_opcode (pdu_at c i) = ISCSI_PDU_SCSI_RESPONSE" for i c0 c
    by (rule modify_new [OF that(1)]) (use that in \<open>simp add: fresh_def command_fit\<close>)
  show ?thesis
    unfolding iscsi_scsi_command_async_def Let_def
    by (intro post_if post_itt allocated post_ptr post_bind [OF cmd] post_bind [OF set_cmdsn_fresh] post_pdu set_cdb
        post_bind [OF queue_ok] post_pair [OF unsolicited_ok] fresh_from [OF core_updates(4)] fresh_from [OF core_updates(27)])
      (auto simp: blank_def assms well_from [OF _ assms] data intro: cdb)
qed

section \<open>Received PDUs\<close>

lemma login_done_ok:
  assumes "well W c" "\<And>p. ctx_pdus c i = Some p \<Longrightarrow> pdu_callback p \<noteq> Ptr Scsi_response_cb"
  shows "gives W (login_reply_done env i hdr (c, n, m))"
proof -
  have fail: "gives W (fail_login r i c')" if "well W c'" for r c'
    unfolding fail_login_def by (intro post_bind [OF callback_well(1) [OF that]]) simp
  show ?thesis
    unfolding login_reply_done_def Let_def prod.case
    by (intro post_pdu post_if post_itt post_bind [OF callback_well(1)] post_pair [OF login_ok] fail assms)
      (auto simp: assms well_from [OF _ assms(1)])
qed

lemma login_reply_ok:
  assumes "well W c" "\<And>p. ctx_pdus c i = Some p \<Longrightarrow> pdu_callback p \<noteq> Ptr Scsi_response_cb"
  shows "gives W (iscsi_process_login_reply env i inp c)"
proof -
  have "gives W (login_reply_loop env i bs (c', b, b') \<bind>
      (\<lambda>p. case p of Inl r \<Rightarrow> Some r | Inr st \<Rightarrow> login_reply_done env i hdr st))" if "core c' = core c" for bs c' b b' hdr
  proof (rule post_bind [OF login_loop_going])
    fix p
    assume g: "going c p"
    show "gives W (case p of Inl r \<Rightarrow> Some r | Inr st \<Rightarrow> login_reply_done env i hdr st)"
    proof (cases p)
      case (Inl r)
      with g show ?thesis by (auto simp: going_def case_prod_beta intro: well_from [OF _ assms(1)])
    next
      case (Inr st)
      obtain c'' n m where st: "st = (c'', n, m)" by (metis prod_cases3)
      with g Inr have "core c'' = core c" by (simp add: going_def)
      then have "well W c''" "ctx_pdus c'' = ctx_pdus c" using well_from [OF _ assms(1)] by (simp_all add: core_def)
      then show ?thesis using Inr st login_done_ok [of W c'' i hdr n m] assms(2) by simp
    qed
  qed (use that in simp)
  then show ?thesis
    unfolding iscsi_process_login_reply_def Let_def by (rule post_read) simp
qed

lemma r2t_ok:
  assumes "well {} c"
  shows "gives {} (iscsi_process_r2t env i inp c)"
  unfolding iscsi_process_r2t_def
  by (intro post_bind [OF modify_well [OF assms]] post_pair [OF send_data_out_ok] fitting_datasn) simp_all

text \<open>A waiting PDU has left the queue when it has been answered for good.\<close>

lemma drop_waiting_ok:
  assumes "well {i} c"
  shows "post (well {}) (drop_waiting i c)"
  unfolding drop_waiting_def
proof (rule post_read)
  fix q
  assume q: "list_remove i (ctx_waitpdu c) = Some q"
  have i: "i \<in> set (ctx_waitpdu c)" using wellD(2) [OF assms] by simp
  then have "i \<notin> set (ctx_outqueue c)" using queues_okD(3) [OF wellD(1) [OF assms]] by blast
  with off_waitpdu [OF well_mono [OF assms] _ q, of "{}"]
  show "post (well {}) (iscsi_tcp_free_pdu i (c\<lparr>ctx_waitpdu := q\<rparr>))"
    by (intro free_unqueued) simp_all
qed

definition responded :: "nat \<Rightarrow> (int \<times> bool \<times> iscsi_context) ptr \<Rightarrow> bool" where
  "responded i r \<longleftrightarrow> (case r of NULL \<Rightarrow> True
     | Ptr (r, fin, c) \<Rightarrow> well (if r = 0 \<and> \<not> fin then {} else {i}) c)"

lemma finished_ok: "gives {i} m \<Longrightarrow> post (responded i) (finished m)"
  unfolding finished_def by (erule post_pair) (simp add: responded_def)

lemma response_ok:
  assumes "well {i} c"
    "\<And>p. op = ISCSI_PDU_LOGIN_RESPONSE \<Longrightarrow> ctx_pdus c i = Some p \<Longrightarrow> pdu_callback p \<noteq> Ptr Scsi_response_cb"
  shows "post (responded i) (process_response env op i inp c)"
proof -
  have textual: "gives {i} (do { (r, _, c) \<leftarrow> iscsi_process_text_reply a i inp c; Some (r, c) })" for a
    by (rule post_bind [OF text_reply_ok [OF assms(1)]]) auto
  have data: "post (responded i) (iscsi_process_scsi_data_in env i inp c \<bind> (\<lambda>r. Some (Ptr r)))"
    by (rule post_bind [OF data_in_ok [OF assms(1)]]) (auto simp: responded_def intro: well_mono)
  have r2t: "post (responded i) (do { (r, c) \<leftarrow> iscsi_process_r2t env i inp c; Some (Ptr (r, False, c)) })"
  proof (rule post_read, clarify)
    fix r c'
    assume r: "iscsi_process_r2t env i inp c = Some (r, c')"
    then have "r = 0" by (auto simp: iscsi_process_r2t_def bind_eq_Some_conv)
    moreover have "well {} c'" using postD [OF r2t_ok [OF well_mono [OF assms(1)]] r] by simp
    ultimately show "post (responded i) (Some (Ptr (r, False, c')))" by (simp add: responded_def)
  qed
  show ?thesis
    unfolding process_response_def
    by (intro post_if finished_ok login_reply_ok textual logout_reply_ok scsi_reply_ok data nop_reply_ok task_mgmt_reply_ok
        r2t assms) (simp_all add: responded_def)
qed

lemma process_reply_ok:
  assumes "well {i} c"
  shows "gives {} (process_reply env op i inp c)"
  unfolding process_reply_def
proof (rule post_pdu)
  fix p
  assume p: "ctx_pdus c i = Some p"
  have "op = ISCSI_PDU_LOGIN_RESPONSE \<Longrightarrow> op = expected_response op p \<Longrightarrow> pdu_callback p \<noteq> Ptr Scsi_response_cb"
    using wellD(3) [OF assms p] by (auto simp: expected_response_def pdu_typed_def split: if_splits)
  then have res: "post (responded i) (process_response env op i inp c)" if "op = expected_response op p"
    using that p by (intro response_ok assms) auto
  have "gives {} (case res of NULL \<Rightarrow> Some (-1, c)
       | Ptr (r, is_finished, iscsi) \<Rightarrow>
           if r \<noteq> 0 then do { iscsi \<leftarrow> drop_waiting i iscsi; Some (-1, iscsi) }
           else if is_finished \<and> ctx_waitpdu iscsi \<noteq> [] then do { iscsi \<leftarrow> drop_waiting i iscsi; Some (0, iscsi) }
           else Some (0, iscsi))" if "responded i res" for res
  proof (intro post_ptr, simp add: well_mono [OF assms], clarify)
    fix r fin c'
    assume "res = Ptr (r, fin, c')"
    with that show "gives {} (if r \<noteq> 0 then do { iscsi \<leftarrow> drop_waiting i c'; Some (-1, iscsi) }
           else if fin \<and> ctx_waitpdu c' \<noteq> [] then do { iscsi \<leftarrow> drop_waiting i c'; Some (0, iscsi) }
           else Some (0, c'))"
      by (intro post_if post_bind [OF drop_waiting_ok]) (auto simp: responded_def intro: well_mono split: if_splits)
  qed
  then show "gives {} (if op \<noteq> expected_response op p then Some (-1, c)
     else do {
       res \<leftarrow> process_response env op i inp c;
       case res of
         NULL \<Rightarrow> Some (-1, c)
       | Ptr (r, is_finished, iscsi) \<Rightarrow>
           if r \<noteq> 0 then do { iscsi \<leftarrow> drop_waiting i iscsi; Some (-1, iscsi) }
           else if is_finished \<and> ctx_waitpdu iscsi \<noteq> [] then do { iscsi \<leftarrow> drop_waiting i iscsi; Some (0, iscsi) }
           else Some (0, iscsi)
     })"
    by (intro post_if post_bind [OF res]) (simp_all add: well_mono [OF assms])
qed

lemma find_waiting:
  assumes "well {} c" "find_pdu P (ctx_waitpdu c) c = Some (Ptr i)"
  shows "well {i} c"
  using find_pdu_in [OF assms(2)] assms(1) by (simp add: well_def)

lemma reject_ok:
  assumes "well {} c"
  shows "gives {} (iscsi_process_reject env inp c)"
proof -
  have "gives {} (case w of NULL \<Rightarrow> Some (-1, c)
        | Ptr i \<Rightarrow> do {
            iscsi \<leftarrow> pdu_callback_call SCSI_STATUS_ERROR i c;
            iscsi \<leftarrow> drop_waiting i iscsi;
            Some (0, iscsi)
          })" if "find_pdu P (ctx_waitpdu c) c = Some w" for P w
    by (intro post_ptr post_bind [OF callback_well(1)] post_bind [OF drop_waiting_ok])
      (use that find_waiting [OF assms] in \<open>simp_all add: assms\<close>)
  then show ?thesis
    unfolding iscsi_process_reject_def
    by (intro post_if post_pair [OF logout_ok] post_read) (simp_all add: assms)
qed

lemma async_ok:
  assumes "well {} c"
  shows "gives {} (iscsi_process_async_msg env inp c)"
  unfolding iscsi_process_async_msg_def Let_def
  by (intro post_if post_pair [OF logout_ok]) (simp_all add: assms well_from [OF core_updates(20)])

lemma target_nop_in_ok:
  assumes "well W c"
  shows "gives W (iscsi_process_target_nop_in env inp c)"
  unfolding iscsi_process_target_nop_in_def Let_def
  by (intro post_if post_pair [OF target_nop_ok]) (simp_all add: assms)

lemma process_pdu_ok:
  assumes "well {} c"
  shows "gives {} (iscsi_process_pdu env inp c)"
proof -
  have s: "core (iscsi_process_pdu_serials inp c) = core c"
    by (simp add: iscsi_process_pdu_serials_def Let_def)
  then have w: "well {} (iscsi_process_pdu_serials inp c)" by (rule well_from) (rule assms)
  have reply: "gives {} (case r of NULL \<Rightarrow> Some (-1, c') | Ptr i \<Rightarrow> process_reply env op i inp c')"
    if "find_pdu P (ctx_waitpdu c') c' = Some r" "well {} c'" for r c' op P
    by (intro post_ptr process_reply_ok) (use that find_waiting in auto)
  show ?thesis
    unfolding iscsi_process_pdu_def Let_def
    by (intro post_if async_ok reject_ok post_pair [OF target_nop_in_ok [OF w]] w)
      (auto simp: assms intro!: post_read reply w)
qed

lemma read_from_socket_ok:
  assumes "well {} c"
  shows "gives {} (iscsi_read_from_socket env c)"
proof (rule postI)
  fix r
  have "e = env \<longrightarrow> well {} c \<longrightarrow> well {} (snd r)" if "iscsi_read_from_socket e c = Some r" for e
    using that
  proof (rule iscsi_read_from_socket.raw_induct [where P = "\<lambda>e c r. e = env \<longrightarrow> well {} c \<longrightarrow> well {} (snd r)", rotated])
    fix rd e c r
    assume IH: "\<And>e c r. rd e c = Some r \<Longrightarrow> e = env \<longrightarrow> well {} c \<longrightarrow> well {} (snd r)"
      and run: "(case incoming_pdu e c of
        (NULL, iscsi) \<Rightarrow> Some (-1, iscsi)
      | (Ptr inp, iscsi) \<Rightarrow> do {
          (r, inp, iscsi) \<leftarrow> read_pdu e inp iscsi;
          case r of
            Ptr r \<Rightarrow> Some (r, iscsi\<lparr>ctx_incoming := Ptr inp\<rparr>)
          | NULL \<Rightarrow> do {
              (r, iscsi) \<leftarrow> iscsi_process_pdu e inp (iscsi\<lparr>ctx_incoming := NULL\<rparr>);
              if r \<noteq> 0 then Some (-1, iscsi)
              else if ctx_tcp_nonblocking iscsi \<and> ctx_waitpdu iscsi \<noteq> [] \<and> ctx_is_loggedin iscsi
              then rd e iscsi
              else Some (0, iscsi)
            }
        }) = Some r"
    show "e = env \<longrightarrow> well {} c \<longrightarrow> well {} (snd r)"
    proof (intro impI)
      assume a: "e = env" "well {} c"
      have again: "gives {} (rd env c)" if "well {} c" for c
      proof (rule postI)
        fix r
        assume "rd env c = Some r"
        from IH [OF this] that show "case r of (r, c') \<Rightarrow> well {} c'" by (simp add: case_prod_beta)
      qed
      obtain x c1 where x: "incoming_pdu env c = (x, c1)" by force
      then have c1: "core c1 = core c" by (rule incoming_core)
      let ?body = "\<lambda>inp. do {
          (r, inp, iscsi) \<leftarrow> read_pdu env inp c1;
          case r of
            Ptr r \<Rightarrow> Some (r, iscsi\<lparr>ctx_incoming := Ptr inp\<rparr>)
          | NULL \<Rightarrow> do {
              (r, iscsi) \<leftarrow> iscsi_process_pdu env inp (iscsi\<lparr>ctx_incoming := NULL\<rparr>);
              if r \<noteq> 0 then Some (-1, iscsi)
              else if ctx_tcp_nonblocking iscsi \<and> ctx_waitpdu iscsi \<noteq> [] \<and> ctx_is_loggedin iscsi
              then rd env iscsi
              else Some (0, iscsi)
            }
        }"
      have body: "gives {} (?body inp)" for inp
      proof (rule post_bind [OF read_pdu_core], clarify)
        fix r inp c2
        assume "core c2 = core c1"
        then have "well {} (c2\<lparr>ctx_incoming := i\<rparr>)" for i
          using well_from [OF _ a(2), of "c2\<lparr>ctx_incoming := i\<rparr>"] c1 by simp
        then show "gives {} (case r of
            Ptr r \<Rightarrow> Some (r, c2\<lparr>ctx_incoming := Ptr inp\<rparr>)
          | NULL \<Rightarrow> do {
              (r, iscsi) \<leftarrow> iscsi_process_pdu env inp (c2\<lparr>ctx_incoming := NULL\<rparr>);
              if r \<noteq> 0 then Some (-1, iscsi)
              else if ctx_tcp_nonblocking iscsi \<and> ctx_waitpdu iscsi \<noteq> [] \<and> ctx_is_loggedin iscsi
              then rd env iscsi
              else Some (0, iscsi)
            })"
          by (intro post_ptr post_pair [OF process_pdu_ok] post_if again) simp_all
      qed
      show "well {} (snd r)"
      proof (cases x)
        case NULL
        then show ?thesis using run a(1) x well_from [OF c1 a(2)] by auto
      next
        case (Ptr inp)
        then have "?body inp = Some r" using run [unfolded a(1)] x by simp
        from postD [OF body this] show ?thesis by (simp add: case_prod_beta)
      qed
    qed
  qed
  moreover assume "iscsi_read_from_socket env c = Some r"
  ultimately show "case r of (r, c') \<Rightarrow> well {} c'" using assms by (auto simp: case_prod_beta)
qed

end

text \<open>
  The transport provides this contract with \<open>iscsi_write_to_socket\<close>: a new PDU at the head of the outqueue is
  written at once. A write that fails gives the connection up, and what follows is a reconnect, on
  another context.
\<close>

definition serve_by_writing :: "iscsi_env \<Rightarrow> iscsi_env" where
  "serve_by_writing e = e\<lparr>env_service := \<lambda>c. do {
     (r, c) \<leftarrow> iscsi_write_to_socket e c;
     if r = -1 then None else Some c
   }\<rparr>"

lemma writing_provides: "env_ok e \<Longrightarrow> service_provider (serve_by_writing e)"
  by unfold_locales
    (auto simp: serve_by_writing_def env_ok_def post_def bind_eq_Some_conv write_to_socket_ok split: if_splits)

definition demo_world :: iscsi_env where
  "demo_world = \<lparr>env_new_pdu = \<lambda>c. if ctx_pdus c 1 = None then Ptr 1 else NULL, env_malloc = \<lambda>_. True,
     env_time = \<lambda>_. 0, env_service = Some, env_send = \<lambda>_ n. Sent n, env_recv = \<lambda>_ _. Recv_blocked,
     env_getenv = \<lambda>_. False, env_rand = \<lambda>_. 0\<rparr>"

lemma demo_world_ok: "env_ok demo_world"
  by (simp add: env_ok_def demo_world_def)

interpretation writes: service_provider "serve_by_writing demo_world"
  by (rule writing_provides) (rule demo_world_ok)

section \<open>Sessions\<close>

text \<open>
  The contexts of a session: a new one, and what the operations of the application and the events of the socket
  make of it, in any order and number. \<open>change\<close> stands for everything that leaves the queues alone: the
  setters, connecting, the results of the socket layer. A callback that the application passes
  is not the library's own \<open>iscsi_scsi_response_cb\<close>. A write that fails ends the session.
\<close>

definition app_callback :: "iscsi_command_cb ptr \<Rightarrow> bool" where
  "app_callback cb \<longleftrightarrow> (case cb of NULL \<Rightarrow> True | Ptr f \<Rightarrow> (case f of App_cb _ \<Rightarrow> True | _ \<Rightarrow> False))"

inductive session :: "iscsi_env \<Rightarrow> iscsi_context \<Rightarrow> bool" for env where
  create: "iscsi_create_context ge m rnd name = Ptr c \<Longrightarrow> session env c"
| change: "session env c \<Longrightarrow> core c' = core c \<Longrightarrow> session env c'"
| command: "session env c \<Longrightarrow> iscsi_scsi_command_async env lun t cb d c = Some (r, c') \<Longrightarrow> session env c'"
| nop: "session env c \<Longrightarrow> app_callback cb \<Longrightarrow> iscsi_nop_out_async env cb bs len c = Some (r, c') \<Longrightarrow> session env c'"
| task_mgmt: "session env c \<Longrightarrow> app_callback cb \<Longrightarrow>
    iscsi_task_mgmt_async env lun fn ritt rcmdsn cb c = Some (r, c') \<Longrightarrow> session env c'"
| lun_reset: "session env c \<Longrightarrow> app_callback cb \<Longrightarrow>
    iscsi_task_mgmt_lun_reset_async env lun cb c = Some (r, c') \<Longrightarrow> session env c'"
| reset: "session env c \<Longrightarrow> app_callback cb \<Longrightarrow>
    cancel_all_and_manage env lun fn cb NULL c = Some (r, old, c') \<Longrightarrow> session env c'"
| login: "session env c \<Longrightarrow> app_callback cb \<Longrightarrow> iscsi_login_async env cb c = Some (r, c') \<Longrightarrow> session env c'"
| logout: "session env c \<Longrightarrow> app_callback cb \<Longrightarrow> iscsi_logout_async env cb c = Some (r, c') \<Longrightarrow> session env c'"
| discovery: "session env c \<Longrightarrow> app_callback cb \<Longrightarrow> iscsi_discovery_async env cb c = Some (r, c') \<Longrightarrow> session env c'"
| timeouts: "session env c \<Longrightarrow> iscsi_timeout_scan now c = Some c' \<Longrightarrow> session env c'"
| cancel_task: "session env c \<Longrightarrow> iscsi_scsi_cancel_task t c = Some (r, c') \<Longrightarrow> session env c'"
| cancel_lun: "session env c \<Longrightarrow> iscsi_cancel_lun_pdus lun c = Some c' \<Longrightarrow> session env c'"
| cancel_all: "session env c \<Longrightarrow> iscsi_cancel_pdus c = Some c' \<Longrightarrow> session env c'"
| readable: "session env c \<Longrightarrow> iscsi_read_from_socket env c = Some (r, c') \<Longrightarrow> session env c'"
| writable: "session env c \<Longrightarrow> iscsi_write_to_socket env c = Some (r, c') \<Longrightarrow> r \<noteq> -1 \<Longrightarrow> session env c'"

lemma app_callbackD: "app_callback cb \<Longrightarrow> cb \<noteq> Ptr Scsi_response_cb"
  by (auto simp: app_callback_def)

lemma from_env_core: "(\<And>v c. core (f v c) = core c) \<Longrightarrow> core (from_env ge s f c) = core c"
  by (simp add: from_env_def split: ptr.split)

lemma created_core:
  assumes "iscsi_create_context ge m rnd name = Ptr c"
  shows "core c = core zero_context"
proof -
  have ptr: "core (case x of NULL \<Rightarrow> c | Ptr v \<Rightarrow> iscsi_set_bind_interfaces v c) = core c" for x c
    by (simp add: iscsi_set_bind_interfaces_def split: ptr.split)
  have cache: "core (if b then cn_modify f c else c) = core c" for b f c by simp
  have setters: "core (iscsi_set_log_level v c) = core c" "core (iscsi_set_tcp_user_timeout v c) = core c"
    "core (iscsi_set_tcp_keepcnt v c) = core c" "core (iscsi_set_tcp_keepintvl v c) = core c"
    "core (iscsi_set_tcp_keepidle v c) = core c" "core (iscsi_set_tcp_syncnt v c) = core c" for v c
    by (simp_all add: iscsi_set_log_level_def iscsi_set_tcp_user_timeout_def iscsi_set_tcp_keepcnt_def
        iscsi_set_tcp_keepintvl_def iscsi_set_tcp_keepidle_def iscsi_set_tcp_syncnt_def)
  show ?thesis
    using assms
    unfolding iscsi_create_context_def Let_def iscsi_init_transport_def iscsi_set_isid_random_def prod.case if_True
    by (simp only: prod.case ptr.inject ptr.distinct simp_thms if_True if_False
        split: if_split_asm) (drule sym, simp only: ptr cache from_env_core setters core_updates)+
qed

lemma created_well: "iscsi_create_context ge m rnd name = Ptr c \<Longrightarrow> well {} c"
  by (rule well_from [OF created_core]) (simp_all add: well_def well_typed_def queues_ok_def zero_context_def)

lemma session_well:
  assumes "service_provider env" "session env c"
  shows "well {} c"
  using assms(2)
proof (induction rule: session.induct)
  case (create ge m rnd name c)
  then show ?case by (rule created_well)
next
  case (change c c')
  then show ?case by (simp add: well_from)
next
  case (command c lun t cb d r c')
  from postD [OF service_provider.command_ok [OF assms(1) command.IH] command.hyps(2)] show ?case by simp
next
  case (nop c cb bs len r c')
  from postD [OF service_provider.nop_out_ok [OF assms(1) nop.IH app_callbackD [OF nop.hyps(2)]] nop.hyps(3)] show ?case by simp
next
  case (task_mgmt c cb lun fn ritt rcmdsn r c')
  from postD [OF service_provider.task_mgmt_ok [OF assms(1) task_mgmt.IH app_callbackD [OF task_mgmt.hyps(2)]] task_mgmt.hyps(3)] show ?case by simp
next
  case (lun_reset c cb lun r c')
  from postD [OF service_provider.lun_reset_ok [OF assms(1) lun_reset.IH app_callbackD [OF lun_reset.hyps(2)]] lun_reset.hyps(3)] show ?case by simp
next
  case (reset c cb lun fn r old c')
  from postD [OF service_provider.cancel_all_ok [OF assms(1) reset.IH app_callbackD [OF reset.hyps(2)]] reset.hyps(3)] show ?case by simp
next
  case (login c cb r c')
  from postD [OF service_provider.login_ok [OF assms(1) login.IH app_callbackD [OF login.hyps(2)]] login.hyps(3)] show ?case by simp
next
  case (logout c cb r c')
  from postD [OF service_provider.logout_ok [OF assms(1) logout.IH app_callbackD [OF logout.hyps(2)]] logout.hyps(3)] show ?case by simp
next
  case (discovery c cb r c')
  from postD [OF service_provider.discovery_ok [OF assms(1) discovery.IH app_callbackD [OF discovery.hyps(2)]] discovery.hyps(3)] show ?case by simp
next
  case (timeouts c now c')
  from postD [OF timeout_scan_ok [OF timeouts.IH] timeouts.hyps(2)] show ?case by simp
next
  case (cancel_task c t r c')
  from postD [OF cancel_task_ok [OF cancel_task.IH] cancel_task.hyps(2)] show ?case by simp
next
  case (cancel_lun c lun c')
  from postD [OF cancel_lun_ok [OF cancel_lun.IH] cancel_lun.hyps(2)] show ?case by simp
next
  case (cancel_all c c')
  from postD [OF cancel_pdus_ok [OF cancel_all.IH] cancel_all.hyps(2)] show ?case by simp
next
  case (readable c r c')
  from postD [OF service_provider.read_from_socket_ok [OF assms(1) readable.IH] readable.hyps(2)] show ?case by simp
next
  case (writable c r c')
  from write_to_socket_ok [OF writable.hyps(2) writable.IH writable.hyps(3)] show ?case .
qed

section \<open>Properties\<close>


definition demo_ready :: iscsi_context where
  "demo_ready = zero_context\<lparr>ctx_is_loggedin := True, ctx_fd := 3, ctx_is_corked := True\<rparr>"

lemma demo_ready_session: "session env demo_ready"
proof -
  have "\<exists>c. iscsi_create_context (\<lambda>_. NULL) True 0 [0x69] = Ptr c"
    by (simp add: iscsi_create_context_def iscsi_init_transport_def iscsi_set_isid_random_def from_env_def Let_def)
  then obtain c where "iscsi_create_context (\<lambda>_. NULL) True 0 [0x69] = Ptr c" by blast
  from session.change [OF session.create [OF this], of demo_ready] created_core [OF this]
  show ?thesis by (simp add: demo_ready_def)
qed

lemma demo_nop: "\<exists>c. iscsi_nop_out_async (serve_by_writing demo_world) NULL NULL 0 demo_ready = Some (0, c) \<and> ctx_outqueue c = [1]"
  by (simp add: iscsi_nop_out_async_def demo_ready_def zero_context_def iscsi_itt_post_increment_def
    iscsi_allocate_pdu_def serve_by_writing_def demo_world_def Let_def pdu_modify_def pdu_store_def nop_out_pdu_def
    iscsi_pdu_set_cmdsn_def iscsi_queue_pdu_def iscsi_tcp_queue_pdu_def iscsi_add_to_outqueue_def outqueue_insert_def
    iscsi_write_to_socket_def write_loop.simps write_begin_def setter_defs hdr_modify_def zero_pdu_def)


end
