(* ===== verification/Spec2Isabelle.thy ===== *)
theory Spec2Isabelle
  imports Crc32c Scsi_Strings Scsi_Cdb Scsi_Cdb_Unmarshall Scsi_Unmarshall Scsi_Modepage
    Slist Iscsi_Context Iscsi_Pdu Pdu_Queues Iscsi_Iovec Iscsi_Outqueue Write_Loop Command_Reply
    Reception Task_Limits Url Reconnect Sync_Commands Sync_Loop
    Chap Session
begin

text \<open>
  A verification library of libiscsi, a client of the iSCSI protocol (SCSI over TCP) in C.

  \<^bold>\<open>The program.\<close> An application creates a \<open>struct iscsi_context\<close>, connects and logs in, and submits SCSI
  tasks. A request becomes a PDU (\<open>struct iscsi_pdu\<close>) that is put on the \<open>outqueue\<close> in the order of
  its CmdSN; \<open>iscsi_write_to_socket\<close> sends it when the command window of the target allows, and if a
  reply is expected it waits on \<open>waitpdu\<close>. \<open>iscsi_read_from_socket\<close> collects PDUs from the socket and
  \<open>iscsi_process_pdu\<close> gives each to the function for its opcode, which finds the waiting PDU by its tag,
  fills in the task and calls the callback. The SCSI layer below builds the CDBs and decodes what the
  target returns.

  \<^bold>\<open>Theories and sources.\<close>

  \<^item> \<open>Iscsi_Prelude\<close>: nullable pointers, C integers, bounds-checked reads of byte buffers, and the lemmas
    on them that the other theories share. \<open>Scsi_Constants\<close>: the constants of the headers. \<open>C_Strings\<close>:
    the functions of the C library on strings. \<open>Outcome\<close>: postconditions of operations that may be
    undefined, and frame rules.
  \<^item> \<open>Crc32c\<close> (\<open>lib/crc32c.c\<close>): the digest by its table, and that it is the CRC of its polynomial.
  \<^item> \<open>Byte_Order\<close>, \<open>Scsi_Task\<close>, \<open>Scsi_Cdb\<close>, \<open>Scsi_Cdb_Unmarshall\<close>, \<open>Scsi_Datain\<close>, \<open>Scsi_Inquiry\<close>,
    \<open>Scsi_Modepage\<close>, \<open>Scsi_Unmarshall\<close>, \<open>Scsi_Strings\<close> (\<open>lib/scsi-lowlevel.c\<close>): tasks and their
    vectors, every builder and decoder of CDBs, every decoder of data, mode pages both ways, names.
    A decoder returns \<open>None\<close> when the code reads or writes outside its buffers.
  \<^item> \<open>Slist\<close> (\<open>include/slist.h\<close>): the macros on a heap of next pointers, and that they are list
    operations; from there on queues are lists of addresses of PDUs.
  \<^item> \<open>Iscsi_Context\<close> (\<open>include/iscsi-private.h\<close>): the context and the PDUs as records, live PDUs in the
    map \<open>ctx_pdus\<close>, tasks by their address in \<open>ctx_tasks\<close>; the calls of callbacks are recorded
    in \<open>ctx_trace\<close>, the bytes on the socket in \<open>ctx_wire\<close> and \<open>ctx_received\<close>. What the code asks of its
    surroundings (memory, the clock, the socket, the service function of the transport, random
    numbers) are the members of \<open>iscsi_env\<close>, a parameter of the operations. An
    operation is \<open>None\<close> when it uses a PDU that is not live or dereferences NULL.
  \<^item> \<open>Iscsi_Pdu\<close>, \<open>Pdu_Queues\<close>, \<open>Iscsi_Process\<close> (\<open>lib/pdu.c\<close>): header accessors, data, allocation;
    timeouts and cancellation; what a received PDU does.
  \<^item> \<open>Iscsi_Outqueue\<close>, \<open>Iscsi_Iovec\<close>, \<open>Iscsi_Write\<close>, \<open>Write_Loop\<close>, \<open>Iscsi_Read\<close>, \<open>Reception\<close>
    (\<open>lib/socket.c\<close>): insertion into the outqueue, the window of a vector for \<open>readv\<close> and \<open>writev\<close>,
    writing and reading PDUs in the pieces the socket takes and gives.
  \<^item> \<open>Iscsi_Command\<close>, \<open>Command_Queue\<close>, \<open>Command_Send\<close>, \<open>Command_Reply\<close>, \<open>Iscsi_Tasks\<close>, \<open>Task_Limits\<close>
    (\<open>lib/iscsi-command.c\<close>): sending commands with immediate and unsolicited data, R2Ts, Data-In,
    responses with sense data, and the functions for the single SCSI commands with the bounds
    on the lists they marshal.
  \<^item> \<open>Iscsi_Nop\<close> (\<open>lib/nop.c\<close>, \<open>lib/task_mgmt.c\<close>), \<open>Iscsi_Login\<close> and \<open>Login_Auth\<close> (\<open>lib/login.c\<close>),
    \<open>Iscsi_Discovery\<close> (\<open>lib/discovery.c\<close>).
  \<^item> \<open>Message_Digest\<close>, \<open>Md5\<close> (\<open>lib/md5.c\<close>), \<open>Sha_Context\<close>, \<open>Sha1\<close>, \<open>Sha256\<close> (\<open>lib/sha1.c\<close>,
    \<open>lib/sha224-256.c\<close>), \<open>Keccak\<close>, \<open>Sha3\<close> (\<open>lib/sha3.c\<close>), \<open>Chap\<close>: the digests of CHAP. The locale
    \<open>message_digest\<close> is the contract the login relies on, that the digest does not depend on the
    pieces a message is handed over in; it is interpreted on MD5 and SHA3-256, and for the SHA family it
    follows from the locale \<open>sha_family\<close>, interpreted on SHA-1 and SHA-256. The references are the
    formulas of the standards.
  \<^item> \<open>Iscsi_Init\<close>, \<open>Url\<close> (\<open>lib/init.c\<close>): creating and destroying contexts, their setters, URLs.
  \<^item> \<open>Iscsi_Connect\<close>, \<open>Reconnect\<close> (\<open>lib/connect.c\<close>, the connecting and serving part of
    \<open>lib/socket.c\<close>): connecting, the steps of a full connect as callbacks, \<open>iscsi_service\<close>, and the
    reconnect with its back-off and the requeueing of the commands of the old context.
  \<^item> \<open>Iscsi_Sync\<close>, \<open>Sync_Commands\<close>, \<open>Sync_Loop\<close> (\<open>lib/sync.c\<close>): the event loop, and every
    synchronous function as the asynchronous one followed by it.
  \<^item> \<open>Session\<close>: no code of its own, but the protocol engine as a whole: the contexts a session can reach
    and what holds of all of them. Its locale \<open>service_provider\<close> is the interface between the engine
    and the transport.

  \<^bold>\<open>How the parts meet.\<close> The SCSI layer (\<open>Scsi_*\<close>) makes and reads tasks and knows nothing of a session. The
  protocol engine (\<open>Iscsi_Pdu\<close>, \<open>Iscsi_Command\<close>, \<open>Iscsi_Nop\<close>, \<open>Iscsi_Login\<close>, \<open>Iscsi_Discovery\<close>) queues
  PDUs with \<open>iscsi_queue_pdu\<close> of the transport (\<open>Iscsi_Outqueue\<close>); the transport gives what it has read to
  \<open>iscsi_process_pdu\<close> (\<open>Iscsi_Process\<close>), which calls the engine again, and a broken connection ends in
  \<open>iscsi_reconnect\<close>. The calls back into the engine that go through a function pointer
  (\<open>iscsi_process_scsi_reply\<close> calling a callback) are events of \<open>ctx_trace\<close>; the callbacks that the
  library itself installs (\<open>iscsi_connect_cb\<close>, \<open>iscsi_login_cb\<close>, \<open>iscsi_testunitready_cb\<close>,
  \<open>iscsi_reconnect_cb\<close>, the callbacks of \<open>lib/sync.c\<close>) are definitions of their own, run on the context
  after the operation that recorded the event.

  \<^bold>\<open>What is shown.\<close> The digests are CRC-32C and detect bursts, in the register and in a received PDU; what is
  built is decoded again (CDBs, mode pages, designators, lengths of the login, target lists, URLs); the
  decoders stay within the received data, with the exceptions stated as theorems of their own; every
  operation of a session keeps the queues well formed, and PDUs are not lost, duplicated or used after
  they were freed, and a callback is called exactly once; the bytes on the wire are the image of the PDU
  however the socket splits them, and reading collects the PDU however they arrive; writes are cut into
  bursts that cover the data exactly once; a login ends only with the proof the target owes, except
  for the flaw stated; a reconnect requeues what the old context still owed, and its back-off is
  bounded; the event loop ends when a timeout is set. The responses of CHAP are the digests of RFC 1321,
  FIPS 180 and FIPS 202 of identifier, secret and challenge.

  \<^bold>\<open>Loops.\<close> The decoders are total, by measures on the data left. The loops over a socket or over lengths that
  the target chooses (\<open>iscsi_send_data_out\<close>, \<open>iscsi_write_to_socket\<close>, \<open>iscsi_read_from_socket\<close>,
  \<open>event_rounds\<close>, \<open>reconnect_event_loop\<close>) are partial functions; that they return is proved where they do,
  and that one does not where it does not. There is no fuel.

  \<^bold>\<open>Parameters.\<close> The members of \<open>iscsi_env\<close> and \<open>net_env\<close> stand for the C library, the kernel and the libraries that
  libiscsi links: \<open>malloc\<close>, \<open>time\<close>, \<open>getaddrinfo\<close>, \<open>socket\<close>, \<open>connect\<close>, \<open>poll\<close>, \<open>readv\<close> and \<open>writev\<close>.
  The build modelled has neither GnuTLS nor libgcrypt, so that MD5 is the one of \<open>lib/md5.c\<close>. Theorems name
  what they need of the parameters as hypotheses, and the witnesses give concrete ones.

  \<^bold>\<open>Not modelled.\<close> \<open>lib/iser.c\<close> (glue to the RDMA library; the build modelled is the one without
  \<open>HAVE_LINUX_ISER\<close>), logging (\<open>lib/logging.c\<close>; messages have no effect on the session, error strings are
  kept where the code returns them), SHA-224 (not compiled: \<open>USE_SHA224\<close> is 0) and threads (\<open>lib/multithreading.c\<close>; the locks are no-ops in the
  build without them), the ports to Windows, PS2, PS3 and Aros, the cache of small allocations and the
  choice of a bound network interface, and the tools, examples and tests, which use the library.
\<close>

end
